(* ===== verification/Prelude.thy ===== *)
theory Prelude
  imports Main "HOL-Library.Multiset" "HOL-Library.Char_ord" "HOL-Library.List_Lexorder" "HOL-Library.Sublist"
begin

text \<open>
  What every component shares: the collections of simplification rules, the fragments of Go's
  standard library the sources call (\<^verbatim>\<open>strings.TrimSpace\<close>, \<^verbatim>\<open>fmt.Sprintf("%d")\<close>,
  \<^verbatim>\<open>sort.Strings\<close> as HOL's stable \<^const>\<open>sort_key\<close> over the byte-wise order of strings), the
  first-occurrence de-duplication loop that several packages repeat, and generic facts about
  lists used as SQL tables (update by predicate, primary keys) and about runs of partial state
  machines.

  Go strings are byte strings and are modelled by HOL's \<^typ>\<open>string\<close>, a list of 8-bit characters;
  comparison is lexicographic on bytes in both.
\<close>

named_theorems table_simps \<open>facts about rows of a table after an update or insert\<close>
named_theorems stage_simps \<open>closed facts about the constants of an enumeration\<close>

section \<open>Results\<close>

text \<open>A Go function that returns \<^verbatim>\<open>(T, error)\<close> returns \<open>Inl\<close> of the error or \<open>Inr\<close> of the value.\<close>

type_synonym ('e, 'a) result = "'e + 'a"

abbreviation is_ok :: "('e, 'a) result \<Rightarrow> bool" where
  "is_ok r \<equiv> \<not> isl r"

section \<open>Strings\<close>

subsection \<open>strings.TrimSpace\<close>

text \<open>
  The UTF-8 encodings of the runes for which \<^verbatim>\<open>unicode.IsSpace\<close> holds: the six ASCII ones, U+0085,
  U+00A0, U+1680, U+2000 to U+200A, U+2028, U+2029, U+202F, U+205F and U+3000.
\<close>

definition space_runes :: "string list" where
  "space_runes =
     [[CHR 0x20], [CHR 0x09], [CHR 0x0A], [CHR 0x0B], [CHR 0x0C], [CHR 0x0D],
      [CHR 0xC2, CHR 0x85], [CHR 0xC2, CHR 0xA0], [CHR 0xE1, CHR 0x9A, CHR 0x80],
      [CHR 0xE2, CHR 0x80, CHR 0x80], [CHR 0xE2, CHR 0x80, CHR 0x81],
      [CHR 0xE2, CHR 0x80, CHR 0x82], [CHR 0xE2, CHR 0x80, CHR 0x83],
      [CHR 0xE2, CHR 0x80, CHR 0x84], [CHR 0xE2, CHR 0x80, CHR 0x85],
      [CHR 0xE2, CHR 0x80, CHR 0x86], [CHR 0xE2, CHR 0x80, CHR 0x87],
      [CHR 0xE2, CHR 0x80, CHR 0x88], [CHR 0xE2, CHR 0x80, CHR 0x89],
      [CHR 0xE2, CHR 0x80, CHR 0x8A], [CHR 0xE2, CHR 0x80, CHR 0xA8],
      [CHR 0xE2, CHR 0x80, CHR 0xA9], [CHR 0xE2, CHR 0x80, CHR 0xAF],
      [CHR 0xE2, CHR 0x81, CHR 0x9F], [CHR 0xE3, CHR 0x80, CHR 0x80]]"

fun rune_width :: "string list \<Rightarrow> string \<Rightarrow> nat" where
  "rune_width [] s = 0"
| "rune_width (r # rs) s = (if r \<noteq> [] \<and> prefix r s then length r else rune_width rs s)"

lemma rune_width_le: "rune_width rs s \<le> length s"
  by (induction rs) (auto dest: prefix_length_le)

function trim_runes :: "string list \<Rightarrow> string \<Rightarrow> string" where
  "trim_runes rs s =
     (if rune_width rs s = 0 then s else trim_runes rs (drop (rune_width rs s) s))"
  by pat_completeness auto
termination
proof (relation "measure (\<lambda>(rs, s). length s)", goal_cases)
  case (2 rs s)
  then show ?case using rune_width_le [of rs s] by auto
qed simp

declare trim_runes.simps [simp del]

definition TrimSpace :: "string \<Rightarrow> string" where
  "TrimSpace s = rev (trim_runes (map rev space_runes) (rev (trim_runes space_runes s)))"

lemma rune_width_prefix_0:
  "rune_width rs s = 0 \<Longrightarrow> prefix t s \<Longrightarrow> rune_width rs t = 0"
proof (induction rs)
  case (Cons r rs)
  then show ?case
    by (auto split: if_splits intro: prefix_order.trans)
qed simp

lemma trim_runes_stop: "rune_width rs (trim_runes rs s) = 0"
proof (induction rs s rule: trim_runes.induct)
  case (1 rs s)
  then show ?case by (cases "rune_width rs s = 0") (simp_all add: trim_runes.simps [of rs s])
qed

lemma trim_runes_fixed: "rune_width rs s = 0 \<Longrightarrow> trim_runes rs s = s"
  by (simp add: trim_runes.simps)

lemma trim_runes_suffix: "suffix (trim_runes rs s) s"
proof (induction rs s rule: trim_runes.induct)
  case (1 rs s)
  show ?case
  proof (cases "rune_width rs s = 0")
    case False
    with "1.IH" have "suffix (trim_runes rs (drop (rune_width rs s) s)) s"
      by (meson suffix_drop suffix_order.trans)
    with False show ?thesis by (simp add: trim_runes.simps [of rs s])
  qed (simp add: trim_runes.simps)
qed

lemma trim_runes_keeps: "c \<notin> set (concat rs) \<Longrightarrow> c \<in> set s \<Longrightarrow> c \<in> set (trim_runes rs s)"
proof (induction rs s rule: trim_runes.induct)
  case (1 rs s)
  show ?case
  proof (cases "rune_width rs s = 0")
    case True
    with 1(3) show ?thesis by (simp add: trim_runes_fixed)
  next
    case False
    have "set (take (rune_width rs s) s) \<subseteq> set (concat rs)"
      by (induction rs) (auto simp: prefix_def)
    with 1(2,3) have "c \<in> set (drop (rune_width rs s) s)"
      by (metis (no_types, lifting) Un_iff append_take_drop_id set_append subsetD)
    with 1(1) [OF False 1(2)] False show ?thesis by (simp add: trim_runes.simps [of rs s])
  qed
qed

lemma TrimSpace_idem [simp]: "TrimSpace (TrimSpace s) = TrimSpace s"
proof -
  let ?l = "trim_runes space_runes s"
  let ?r = "trim_runes (map rev space_runes) (rev ?l)"
  have "prefix (rev ?r) ?l"
    using trim_runes_suffix [of "map rev space_runes" "rev ?l"]
    by (simp add: suffix_to_prefix)
  then have "rune_width space_runes (rev ?r) = 0"
    by (rule rune_width_prefix_0 [OF trim_runes_stop])
  then have "trim_runes space_runes (rev ?r) = rev ?r"
    by (rule trim_runes_fixed)
  moreover have "trim_runes (map rev space_runes) ?r = ?r"
    by (rule trim_runes_fixed [OF trim_runes_stop])
  ultimately show ?thesis by (simp add: TrimSpace_def)
qed

lemma TrimSpace_Nil [simp]: "TrimSpace [] = []"
  by (simp add: TrimSpace_def trim_runes.simps space_runes_def)

subsection \<open>Decimal numerals\<close>

text \<open>\<^verbatim>\<open>%d\<close> of a non-negative integer, and a fixed number of digits as in a time layout.\<close>

definition digit_char :: "nat \<Rightarrow> char" where
  "digit_char d = char_of (48 + d)"

fun show_nat :: "nat \<Rightarrow> string" where
  "show_nat n = (if n < 10 then [digit_char n] else show_nat (n div 10) @ [digit_char (n mod 10)])"

declare show_nat.simps [simp del]

fun fixed_digits :: "nat \<Rightarrow> nat \<Rightarrow> string" where
  "fixed_digits 0 n = []"
| "fixed_digits (Suc k) n = fixed_digits k (n div 10) @ [digit_char (n mod 10)]"

lemma of_char_digit: "d < 10 \<Longrightarrow> of_char (digit_char d) = (48 + d :: nat)"
  by (simp add: digit_char_def)

lemma digit_char_less: "a < 10 \<Longrightarrow> b < 10 \<Longrightarrow> digit_char a < digit_char b \<longleftrightarrow> a < b"
  by (simp add: less_char_def of_char_digit)

lemma digit_char_inject: "a < 10 \<Longrightarrow> b < 10 \<Longrightarrow> digit_char a = digit_char b \<longleftrightarrow> a = b"
  by (metis add_left_cancel of_char_digit)

lemma length_fixed_digits [simp]: "length (fixed_digits k n) = k"
  by (induction k arbitrary: n) auto

lemma less_append_eq_length:
  fixes a a' b b' :: "'a::order list"
  shows "length a = length a' \<Longrightarrow> a @ b < a' @ b' \<longleftrightarrow> a < a' \<or> a = a' \<and> b < b'"
  by (induction a a' rule: list_induct2) auto

lemma div_mod_less: "(m::nat) < n \<Longrightarrow> m div k < n div k \<or> m div k = n div k \<and> m mod k < n mod k"
  by (metis div_le_mono div_mult_mod_eq le_neq_implies_less less_imp_le_nat nat_add_left_cancel_less)

lemma div_mod_10_less:
  "(m div 10 < n div 10 \<or> m div 10 = n div 10 \<and> m mod 10 < n mod 10) \<longleftrightarrow> (m::nat) < n"
proof -
  have "m = 10 * (m div 10) + m mod 10" "n = 10 * (n div 10) + n mod 10"
    "m mod 10 < 10" "n mod 10 < 10" by simp_all
  then show ?thesis by linarith
qed

lemma fixed_digits_less:
  "m < 10 ^ k \<Longrightarrow> n < 10 ^ k \<Longrightarrow> fixed_digits k m < fixed_digits k n \<longleftrightarrow> m < n"
proof (induction k arbitrary: m n)
  case (Suc k)
  have d: "m div 10 < 10 ^ k" "n div 10 < 10 ^ k" using Suc.prems by auto
  have eq: "fixed_digits k (m div 10) = fixed_digits k (n div 10) \<longleftrightarrow> m div 10 = n div 10"
    using Suc.IH [OF d] Suc.IH [OF d(2) d(1)] by (metis less_irrefl linorder_neqE_nat)
  show ?case
    by (simp add: less_append_eq_length Suc.IH [OF d] eq digit_char_less div_mod_10_less)
qed simp

lemma fixed_digits_inject:
  "m < 10 ^ k \<Longrightarrow> n < 10 ^ k \<Longrightarrow> fixed_digits k m = fixed_digits k n \<longleftrightarrow> m = n"
  by (metis fixed_digits_less less_irrefl linorder_neqE_nat)

lemma digit_char_not_dash: "d < 10 \<Longrightarrow> digit_char d \<noteq> CHR ''-''"
proof
  assume "d < 10" "digit_char d = CHR ''-''"
  then have "48 + d = of_char (CHR ''-'' :: char)" by (metis of_char_digit)
  then show False by simp
qed

lemma show_nat_not_dash: "CHR ''-'' \<notin> set (show_nat n)"
proof (induction n rule: show_nat.induct)
  case (1 n)
  then show ?case
    by (subst show_nat.simps) (auto simp: digit_char_not_dash dest: sym)
qed

lemma show_nat_inject: "show_nat m = show_nat n \<longleftrightarrow> m = n"
proof (induction m arbitrary: n rule: show_nat.induct)
  case (1 m)
  have ne: "show_nat k \<noteq> []" for k by (subst show_nat.simps) simp
  show ?case
  proof (cases "m < 10"; cases "n < 10")
    assume "m < 10" "n < 10"
    then show ?thesis by (simp add: show_nat.simps digit_char_inject)
  next
    assume "m < 10" "\<not> n < 10"
    then show ?thesis
      by (auto simp: show_nat.simps [of m] show_nat.simps [of n] ne ne [symmetric])
  next
    assume "\<not> m < 10" "n < 10"
    then show ?thesis by (auto simp: show_nat.simps [of m] show_nat.simps [of n] ne)
  next
    assume *: "\<not> m < 10" "\<not> n < 10"
    have "m = n \<longleftrightarrow> m div 10 = n div 10 \<and> m mod 10 = n mod 10"
      by (metis div_mult_mod_eq)
    with * "1.IH" [OF *(1), of "n div 10"] show ?thesis
      by (simp add: show_nat.simps [of m] show_nat.simps [of n] digit_char_inject)
  qed
qed

text \<open>A separator that does not occur in the last field splits a string in one way.\<close>

lemma split_last_dash:
  assumes "CHR ''-'' \<notin> set x" "CHR ''-'' \<notin> set y"
  shows "p @ ''-'' @ x = q @ ''-'' @ y \<longleftrightarrow> p = q \<and> x = y"
proof
  assume eq: "p @ ''-'' @ x = q @ ''-'' @ y"
  have field: "takeWhile (\<lambda>c. c \<noteq> CHR ''-'') (rev (r @ ''-'' @ z)) = rev z"
    if "CHR ''-'' \<notin> set z" for r z :: string
    using that by (subst rev_append) (auto simp: takeWhile_append)
  have "rev x = rev y"
    by (rule trans [OF field [OF assms(1), of p, unfolded eq, symmetric] field [OF assms(2), of q]])
  with eq show "p = q \<and> x = y" by simp
qed simp

subsection \<open>Quoted strings\<close>

text \<open>\<^verbatim>\<open>strconv.Quote\<close>; the bytes of printable non-ASCII runes stand for themselves.\<close>

definition hex_digit :: "nat \<Rightarrow> char" where
  "hex_digit n = (if n < 10 then char_of (48 + n) else char_of (87 + n))"

definition quote_char :: "char \<Rightarrow> string" where
  "quote_char c =
     (if c = CHR 0x22 then [CHR 0x5C, CHR 0x22]
      else if c = CHR 0x5C then [CHR 0x5C, CHR 0x5C]
      else if c = CHR 0x07 then [CHR 0x5C, CHR ''a'']
      else if c = CHR 0x08 then [CHR 0x5C, CHR ''b'']
      else if c = CHR 0x0C then [CHR 0x5C, CHR ''f'']
      else if c = CHR 0x0A then [CHR 0x5C, CHR ''n'']
      else if c = CHR 0x0D then [CHR 0x5C, CHR ''r'']
      else if c = CHR 0x09 then [CHR 0x5C, CHR ''t'']
      else if c = CHR 0x0B then [CHR 0x5C, CHR ''v'']
      else if (of_char c :: nat) < 32 \<or> c = CHR 0x7F
      then [CHR 0x5C, CHR ''x'', hex_digit (of_char c div 16), hex_digit (of_char c mod 16)]
      else [c])"

definition go_quote :: "string \<Rightarrow> string" where
  "go_quote s = [CHR 0x22] @ concat (map quote_char s) @ [CHR 0x22]"

section \<open>De-duplication that keeps first occurrences\<close>

text \<open>
  The loop \<^verbatim>\<open>for s in in { if seen[s] { continue }; seen[s] = true; out = append(out, s) }\<close>;
  \<open>seen\<close> carries the map as a list.
\<close>

fun dedup_from :: "'a list \<Rightarrow> 'a list \<Rightarrow> 'a list" where
  "dedup_from seen [] = []"
| "dedup_from seen (x # xs) =
     (if x \<in> set seen then dedup_from seen xs else x # dedup_from (x # seen) xs)"

abbreviation dedup :: "'a list \<Rightarrow> 'a list" where
  "dedup \<equiv> dedup_from []"

lemma set_dedup_from: "set (dedup_from seen xs) = set xs - set seen"
  by (induction seen xs rule: dedup_from.induct) auto

lemma distinct_dedup_from [simp]: "distinct (dedup_from seen xs)"
  by (induction seen xs rule: dedup_from.induct) (auto simp: set_dedup_from)

lemma set_dedup [simp]: "set (dedup xs) = set xs"
  by (simp add: set_dedup_from)

lemma dedup_from_distinct:
  "distinct xs \<Longrightarrow> set xs \<inter> set seen = {} \<Longrightarrow> dedup_from seen xs = xs"
  by (induction seen xs rule: dedup_from.induct) auto

lemma dedup_idem [simp]: "dedup (dedup xs) = dedup xs"
  by (rule dedup_from_distinct) auto

section \<open>Tables\<close>

text \<open>
  A SQL table is the list of its rows in insertion order. \<open>UPDATE ... SET f WHERE P\<close> is
  \<open>update_where P f\<close>, whose row count is \<open>count_where P\<close>.
\<close>

definition update_where :: "('r \<Rightarrow> bool) \<Rightarrow> ('r \<Rightarrow> 'r) \<Rightarrow> 'r list \<Rightarrow> 'r list" where
  "update_where P f rows = map (\<lambda>r. if P r then f r else r) rows"

definition count_where :: "('r \<Rightarrow> bool) \<Rightarrow> 'r list \<Rightarrow> nat" where
  "count_where P rows = length (filter P rows)"

lemma update_where_Nil [simp]: "update_where P f [] = []"
  by (simp add: update_where_def)

lemma update_where_Cons [simp]:
  "update_where P f (r # rows) = (if P r then f r else r) # update_where P f rows"
  by (simp add: update_where_def)

lemma length_update_where [simp, table_simps]: "length (update_where P f rows) = length rows"
  by (simp add: update_where_def)

lemma set_update_where [table_simps]:
  "set (update_where P f rows) = (\<lambda>r. if P r then f r else r) ` set rows"
  by (simp add: update_where_def)

lemma map_update_where [table_simps]:
  "(\<And>r. P r \<Longrightarrow> k (f r) = k r) \<Longrightarrow> map k (update_where P f rows) = map k rows"
  by (simp add: update_where_def)

lemma image_update_where [table_simps]:
  assumes "\<And>r. P r \<Longrightarrow> k (f r) = k r"
  shows "k ` set (update_where P f rows) = k ` set rows"
  using map_update_where [of P k f rows] assms by (metis set_map)

lemma count_where_0: "count_where P rows = 0 \<longleftrightarrow> (\<forall>r \<in> set rows. \<not> P r)"
  by (simp add: count_where_def filter_empty_conv)

lemma update_where_none: "\<forall>r \<in> set rows. \<not> P r \<Longrightarrow> update_where P f rows = rows"
  by (induction rows) auto

text \<open>A key is unique among the rows of a table that satisfy \<open>P\<close> (a partial unique index).\<close>

definition unique_where :: "('r \<Rightarrow> bool) \<Rightarrow> ('r \<Rightarrow> 'k) \<Rightarrow> 'r list \<Rightarrow> bool" where
  "unique_where P k rows = distinct (map k (filter P rows))"

lemma unique_where_Nil [simp]: "unique_where P k []"
  by (simp add: unique_where_def)

lemma unique_where_Cons [simp]:
  "unique_where P k (r # rows) \<longleftrightarrow>
     (P r \<longrightarrow> (\<forall>q \<in> set rows. P q \<longrightarrow> k q \<noteq> k r)) \<and> unique_where P k rows"
  by (auto simp: unique_where_def image_iff)

lemma unique_where_append1:
  "unique_where P k (rows @ [r]) \<longleftrightarrow>
     unique_where P k rows \<and> (P r \<longrightarrow> (\<forall>q \<in> set rows. P q \<longrightarrow> k q \<noteq> k r))"
  by (induction rows) auto

lemma unique_whereD:
  "unique_where P k rows \<Longrightarrow> q \<in> set rows \<Longrightarrow> r \<in> set rows \<Longrightarrow> P q \<Longrightarrow> P r \<Longrightarrow>
     k q = k r \<Longrightarrow> q = r"
  by (induction rows) auto

text \<open>An update that only removes rows from \<open>P\<close> and keeps their key keeps uniqueness.\<close>

lemma unique_where_update:
  assumes "unique_where P k rows"
    and "\<And>r. r \<in> set rows \<Longrightarrow> Q r \<Longrightarrow> P (f r) \<Longrightarrow> P r \<and> k (f r) = k r"
  shows "unique_where P k (update_where Q f rows)"
  using assms
proof (induction rows)
  case (Cons r rows)
  have "unique_where P k (update_where Q f rows)"
    using Cons by simp
  moreover have "\<forall>q \<in> set (update_where Q f rows). P q \<longrightarrow> k q \<noteq> k r'"
    if "r' = (if Q r then f r else r)" and "P r'" for r'
  proof
    fix q assume "q \<in> set (update_where Q f rows)"
    then obtain p where p: "p \<in> set rows" "q = (if Q p then f p else p)"
      by (auto simp: set_update_where)
    have "P r \<and> k r' = k r" using that Cons.prems(2) [of r] by (auto split: if_splits)
    moreover have "P q \<Longrightarrow> P p \<and> k q = k p" using p Cons.prems(2) [of p] by (auto split: if_splits)
    ultimately show "P q \<longrightarrow> k q \<noteq> k r'" using Cons.prems(1) p by auto
  qed
  ultimately show ?case by auto
qed simp

lemma find_Some_mem: "find P xs = Some x \<Longrightarrow> x \<in> set xs \<and> P x"
  by (induction xs) (auto split: if_splits)

lemma find_None_all: "find P xs = None \<longleftrightarrow> (\<forall>x \<in> set xs. \<not> P x)"
  by (induction xs) auto

lemma find_unique:
  assumes "x \<in> set xs" "P x" and u: "\<And>y. y \<in> set xs \<Longrightarrow> P y \<Longrightarrow> y = x"
  shows "find P xs = Some x"
proof (cases "find P xs")
  case None
  with assms(1,2) show ?thesis by (simp add: find_None_all)
next
  case (Some y)
  with u [of y] show ?thesis by (simp add: find_Some_mem)
qed

section \<open>Sorting\<close>

text \<open>
  \<^verbatim>\<open>sort.SliceStable\<close> with \<^verbatim>\<open>key(i) < key(j)\<close> is \<^const>\<open>sort_key\<close>, which is stable, and
  \<^verbatim>\<open>sort.Strings\<close> is \<^const>\<open>sort\<close>.
\<close>

lemma sort_key_fixed: "sorted (map k xs) \<Longrightarrow> sort_key k xs = xs"
  by (rule sort_key_id_if_sorted)

lemma map_sort_key: "map k (sort_key k xs) = sort (map k xs)"
  by (rule properties_for_sort [symmetric]) simp_all

lemma distinct_map_sort_key: "distinct (map k (sort_key k xs)) \<longleftrightarrow> distinct (map k xs)"
  by (simp add: map_sort_key)

section \<open>Lifecycle machines\<close>

text \<open>
  Tasks, projects and pipeline runs are partial deterministic machines with absorbing states.
  The contract of the interface: no action is possible in an absorbing state. A rejected action
  leaves the state as it was, which is what the services do with an invalid transition.
\<close>

definition try_step :: "('s \<Rightarrow> 'a \<Rightarrow> 's option) \<Rightarrow> 's \<Rightarrow> 'a \<Rightarrow> 's" where
  "try_step step s a = (case step s a of None \<Rightarrow> s | Some t \<Rightarrow> t)"

fun run_steps :: "('s \<Rightarrow> 'a \<Rightarrow> 's option) \<Rightarrow> 's \<Rightarrow> 'a list \<Rightarrow> 's" where
  "run_steps step s [] = s"
| "run_steps step s (a # as) = run_steps step (try_step step s a) as"

locale machine =
  fixes step :: "'s \<Rightarrow> 'a \<Rightarrow> 's option"
    and known :: "'s \<Rightarrow> bool"
  assumes step_known: "known s \<Longrightarrow> step s a = Some t \<Longrightarrow> known t"
begin

lemma run_known: "known s \<Longrightarrow> known (run_steps step s as)"
  by (induction as arbitrary: s) (auto simp: try_step_def step_known split: option.splits)

end

locale lifecycle = machine +
  fixes final :: "'s \<Rightarrow> bool"
  assumes final_stuck: "final s \<Longrightarrow> step s a = None"
begin

lemma run_final: "final s \<Longrightarrow> run_steps step s as = s"
  by (induction as) (simp_all add: try_step_def final_stuck)

lemma run_append_final:
  "final (run_steps step s as) \<Longrightarrow> run_steps step s (as @ bs) = run_steps step s as"
  by (induction as arbitrary: s) (simp_all add: run_final)

lemma not_final_before:
  "step (run_steps step s as) a = Some t \<Longrightarrow> \<not> final (run_steps step s as)"
  using final_stuck by fastforce

end

end
