(* ===== verification/Go_Time.thy ===== *)
theory Go_Time
  imports Prelude
begin

text \<open>
  The part of Go's \<^verbatim>\<open>time\<close> package that the sources use. A \<^verbatim>\<open>time.Time\<close> in UTC is the number of
  nanoseconds since Go's zero time, 0001-01-01T00:00:00Z, and a \<^verbatim>\<open>time.Duration\<close> a number of
  nanoseconds. \<open>rfc3339nano\<close> is \<^verbatim>\<open>t.UTC().Format(time.RFC3339Nano)\<close>, the layout
  \<^verbatim>\<open>2006-01-02T15:04:05.999999999Z07:00\<close> whose fraction drops trailing zeros: every timestamp column
  of the database holds such a string, and the lease queries compare them as strings
  (\<^verbatim>\<open>src/internal/storage/json.go\<close>, \<^verbatim>\<open>src/internal/storage/checkpoints.go\<close>). The theorems say when that
  comparison agrees with the order of instants: always across different seconds, not within one.
\<close>

type_synonym time = int
type_synonym duration = int

abbreviation (input) zero_time :: time where "zero_time \<equiv> 0"
abbreviation (input) IsZero :: "time \<Rightarrow> bool" where "IsZero t \<equiv> t = 0"

definition Second :: duration where "Second = 1000000000"
definition Minute :: duration where "Minute = 60 * Second"
definition Hour :: duration where "Hour = 60 * Minute"

section \<open>The calendar\<close>

definition leap :: "nat \<Rightarrow> bool" where
  "leap y \<longleftrightarrow> 4 dvd y \<and> (\<not> 100 dvd y \<or> 400 dvd y)"

text \<open>Days from 0001-01-01 to the first day of year \<open>Suc y\<close>.\<close>

definition days_to_year :: "nat \<Rightarrow> nat" where
  "days_to_year y = 365 * y + y div 4 - y div 100 + y div 400"

lemma days_to_year_0 [simp]: "days_to_year 0 = 0"
  by (simp add: days_to_year_def)

lemma div_100_le: "y div 100 \<le> (y::nat) div 4"
  by (simp add: div_le_mono2)

lemma days_to_year_ge: "y \<le> days_to_year y"
proof -
  have "y div 100 \<le> y div 4" by (rule div_100_le)
  then show ?thesis unfolding days_to_year_def by linarith
qed

function year_from :: "nat \<Rightarrow> nat \<Rightarrow> nat" where
  "year_from y d = (if days_to_year (Suc y) \<le> d then year_from (Suc y) d else y)"
  by pat_completeness auto
termination
proof (relation "measure (\<lambda>(y, d). Suc d - y)", goal_cases)
  case (2 y d)
  then show ?case using days_to_year_ge [of "Suc y"] by auto
qed simp

declare year_from.simps [simp del]

text \<open>The search starts from a lower bound of the year, a few steps below it.\<close>

definition year_index :: "nat \<Rightarrow> nat" where
  "year_index d = year_from (d div 366) d"

definition month_lengths :: "bool \<Rightarrow> nat list" where
  "month_lengths l = [31, if l then 29 else 28, 31, 30, 31, 30, 31, 31, 30, 31, 30, 31]"

text \<open>The month and the day within it, both from 0, of a day of the year.\<close>

fun month_day :: "nat list \<Rightarrow> nat \<Rightarrow> nat \<times> nat" where
  "month_day [] d = (0, d)"
| "month_day (n # ns) d =
     (if d < n then (0, d) else (case month_day ns (d - n) of (m, r) \<Rightarrow> (Suc m, r)))"

section \<open>time.RFC3339Nano\<close>

definition date_string :: "nat \<Rightarrow> string" where
  "date_string d =
     (let y = year_index d;
          (m, r) = month_day (month_lengths (leap (Suc y))) (d - days_to_year y)
      in fixed_digits 4 (Suc y) @ ''-'' @ fixed_digits 2 (Suc m) @ ''-'' @ fixed_digits 2 (Suc r))"

definition clock_string :: "nat \<Rightarrow> string" where
  "clock_string s =
     fixed_digits 2 (s div 3600) @ '':'' @ fixed_digits 2 (s div 60 mod 60) @ '':''
     @ fixed_digits 2 (s mod 60)"

definition strip_zeros :: "string \<Rightarrow> string" where
  "strip_zeros s = rev (dropWhile (\<lambda>c. c = CHR ''0'') (rev s))"

definition fraction_string :: "nat \<Rightarrow> string" where
  "fraction_string ns = (if ns = 0 then '''' else ''.'' @ strip_zeros (fixed_digits 9 ns))"

definition second_string :: "nat \<Rightarrow> string" where
  "second_string s = date_string (s div 86400) @ ''T'' @ clock_string (s mod 86400)"

definition sec_of :: "time \<Rightarrow> nat" where
  "sec_of t = nat (t div 1000000000)"

definition nsec_of :: "time \<Rightarrow> nat" where
  "nsec_of t = nat (t mod 1000000000)"

definition rfc3339nano :: "time \<Rightarrow> string" where
  "rfc3339nano t = second_string (sec_of t) @ fraction_string (nsec_of t) @ ''Z''"

text \<open>The instants with a four-digit year: from the zero time to the end of the year 9999.\<close>

definition in_range :: "time \<Rightarrow> bool" where
  "in_range t \<longleftrightarrow> 0 \<le> t \<and> t < 315537897600 * 1000000000"

section \<open>The calendar is monotone\<close>

lemma year_from_bounds:
  "days_to_year y \<le> d \<Longrightarrow>
     days_to_year (year_from y d) \<le> d \<and> d < days_to_year (Suc (year_from y d))"
proof (induction y d rule: year_from.induct)
  case (1 y d)
  then show ?case
    by (cases "days_to_year (Suc y) \<le> d") (simp_all add: year_from.simps [of y d])
qed

lemma days_to_year_div_366: "days_to_year (d div 366) \<le> d"
proof -
  let ?y = "d div 366"
  have "?y div 400 \<le> ?y div 100" by (rule div_le_mono2) simp_all
  moreover have "?y div 4 \<le> ?y" by simp
  moreover have "366 * ?y \<le> d" by simp
  ultimately show ?thesis using div_100_le [of ?y] unfolding days_to_year_def by linarith
qed

lemma year_index_bounds: "days_to_year (year_index d) \<le> d" "d < days_to_year (Suc (year_index d))"
  using year_from_bounds [OF days_to_year_div_366, of d] by (simp_all add: year_index_def)

lemma div_Suc_dvd: "Suc y div k = (if k dvd Suc y then Suc (y div k) else y div k)"
  by (simp add: div_Suc dvd_eq_mod_eq_0)

lemma days_to_year_Suc: "days_to_year (Suc y) = days_to_year y + (if leap (Suc y) then 366 else 365)"
proof -
  have d: "100 dvd Suc y \<Longrightarrow> 4 dvd Suc y" "400 dvd Suc y \<Longrightarrow> 100 dvd Suc y"
    by (erule dvd_trans [rotated], simp)+
  have le: "y div 100 \<le> y div 4" by (rule div_100_le)
  have arith: "365 * Suc y + Suc a - Suc b + Suc c = 365 * y + a - b + c + 366"
    "365 * Suc y + Suc a - Suc b + c = 365 * y + a - b + c + 365"
    "365 * Suc y + Suc a - b + c = 365 * y + a - b + c + 366"
    "365 * Suc y + a - b + c = 365 * y + a - b + c + 365" if "b \<le> a" for a b c :: nat
    using that by simp_all
  consider "400 dvd Suc y" "100 dvd Suc y" "4 dvd Suc y" | "\<not> 400 dvd Suc y" "100 dvd Suc y" "4 dvd Suc y"
    | "\<not> 400 dvd Suc y" "\<not> 100 dvd Suc y" "4 dvd Suc y" | "\<not> 400 dvd Suc y" "\<not> 100 dvd Suc y" "\<not> 4 dvd Suc y"
    using d by blast
  then show ?thesis
    by cases (simp_all only: days_to_year_def leap_def div_Suc_dvd arith [OF le] if_True if_False simp_thms)
qed

lemma days_to_year_mono: "y \<le> z \<Longrightarrow> days_to_year y \<le> days_to_year z"
  by (rule lift_Suc_mono_le [of days_to_year]) (simp_all add: days_to_year_Suc)

lemma year_index_mono: "d \<le> e \<Longrightarrow> year_index d \<le> year_index e"
proof (rule ccontr)
  assume "d \<le> e" "\<not> year_index d \<le> year_index e"
  then have "days_to_year (Suc (year_index e)) \<le> days_to_year (year_index d)"
    by (intro days_to_year_mono) simp
  also have "\<dots> \<le> d" by (rule year_index_bounds)
  also have "\<dots> \<le> e" by fact
  finally show False using year_index_bounds(2) [of e] by simp
qed

lemma year_index_limit: "d < 3652059 \<Longrightarrow> year_index d < 9999"
proof (rule ccontr)
  assume *: "d < 3652059" "\<not> year_index d < 9999"
  then have "days_to_year 9999 \<le> days_to_year (year_index d)" by (intro days_to_year_mono) simp
  also have "\<dots> \<le> d" by (rule year_index_bounds)
  finally show False using * by (simp add: days_to_year_def)
qed

lemma month_day_less:
  "a < b \<Longrightarrow> month_day ns a = (m, r) \<Longrightarrow> month_day ns b = (m', r') \<Longrightarrow>
     m < m' \<or> m = m' \<and> r < r'"
proof (induction ns arbitrary: a b m m')
  case (Cons n ns)
  show ?case
  proof (cases "a < n \<or> b < n")
    case True
    with Cons.prems show ?thesis by (auto split: if_splits prod.splits)
  next
    case False
    with Cons.prems Cons.IH [of "a - n" "b - n"] show ?thesis
      by (fastforce split: prod.splits)
  qed
qed simp

lemma month_day_bound:
  "a < sum_list ns \<Longrightarrow> \<forall>n \<in> set ns. n \<le> k \<Longrightarrow> month_day ns a = (m, r) \<Longrightarrow> m < length ns \<and> r < k"
proof (induction ns arbitrary: a m)
  case (Cons n ns)
  show ?case
  proof (cases "a < n")
    case False
    with Cons.prems obtain m0 where "month_day ns (a - n) = (m0, r)" "m = Suc m0"
      by (auto split: prod.splits)
    with Cons.IH [of "a - n" m0] Cons.prems False show ?thesis by auto
  qed (use Cons.prems in auto)
qed simp

lemma sum_month_lengths: "sum_list (month_lengths l) = (if l then 366 else 365)"
  by (simp add: month_lengths_def)

lemma month_lengths_le: "\<forall>n \<in> set (month_lengths l). n \<le> 31"
  by (simp add: month_lengths_def)

lemma length_month_lengths: "length (month_lengths l) = 12"
  by (simp add: month_lengths_def)

lemma year_day_less:
  "d - days_to_year (year_index d) < sum_list (month_lengths (leap (Suc (year_index d))))"
  using year_index_bounds [of d] by (simp only: days_to_year_Suc sum_month_lengths split: if_splits)

section \<open>String order and time order\<close>

lemma date_string_less:
  assumes "d < e" "e < 3652059"
  shows "date_string d < date_string e"
proof -
  let ?y = year_index and ?yd = "\<lambda>d. d - days_to_year (year_index d)"
  let ?md = "\<lambda>d. month_day (month_lengths (leap (Suc (year_index d)))) (?yd d)"
  obtain m r m' r' where md: "?md d = (m, r)" "?md e = (m', r')" by fastforce
  have y: "?y d \<le> ?y e" "Suc (?y d) < 10 ^ 4" "Suc (?y e) < 10 ^ 4"
    using assms year_index_mono [of d e] year_index_limit [of d] year_index_limit [of e] by simp_all
  have b: "Suc m < 10 ^ 2" "Suc r < 10 ^ 2" "Suc m' < 10 ^ 2" "Suc r' < 10 ^ 2"
    using month_day_bound [OF year_day_less month_lengths_le md(1)]
      month_day_bound [OF year_day_less month_lengths_le md(2)]
    by (simp_all add: length_month_lengths)
  have "?y d < ?y e \<or> ?y d = ?y e \<and> (m < m' \<or> m = m' \<and> r < r')"
  proof (cases "?y d = ?y e")
    case True
    then have "?yd d < ?yd e"
      using assms year_index_bounds(1) [of d] year_index_bounds(1) [of e] by auto
    from month_day_less [OF this] md True show ?thesis by simp
  qed (use y in auto)
  moreover note fixed_digits_less [OF y(2,3)] fixed_digits_inject [OF y(2,3)]
    fixed_digits_less [OF b(1,3)] fixed_digits_inject [OF b(1,3)] fixed_digits_less [OF b(2,4)]
  ultimately show ?thesis
    unfolding date_string_def Let_def md by (auto simp: less_append_eq_length simp del: fixed_digits.simps)
qed

lemma length_date_string [simp]: "length (date_string d) = 10"
  by (simp add: date_string_def Let_def split: prod.splits)

lemma div_60_less:
  fixes s t :: nat
  assumes "s < t"
  shows "s div 3600 < t div 3600 \<or> s div 3600 = t div 3600 \<and>
      (s div 60 mod 60 < t div 60 mod 60 \<or>
       s div 60 mod 60 = t div 60 mod 60 \<and> s mod 60 < t mod 60)"
proof -
  have "x div 3600 = x div 60 div 60" for x :: nat by (simp add: div_mult2_eq [symmetric])
  with div_mod_less [OF assms, of 60] div_mod_less [of "s div 60" "t div 60" 60]
  show ?thesis by auto
qed

lemma clock_string_less:
  assumes "s < t" "t < 86400"
  shows "clock_string s < clock_string t"
proof -
  have "s div 3600 < 10 ^ 2" "t div 3600 < 10 ^ 2" using assms by auto
  moreover have "x mod 60 < 10 ^ 2" for x :: nat
    using mod_less_divisor [of 60 x] by (simp only: power2_eq_square)
  moreover have "s div 3600 < t div 3600 \<or> s div 3600 = t div 3600 \<and>
      (s div 60 mod 60 < t div 60 mod 60 \<or>
       s div 60 mod 60 = t div 60 mod 60 \<and> s mod 60 < t mod 60)"
    by (rule div_60_less [OF assms(1)])
  ultimately show ?thesis
    by (simp add: clock_string_def less_append_eq_length fixed_digits_less fixed_digits_inject)
qed

lemma length_clock_string [simp]: "length (clock_string s) = 8"
  by (simp add: clock_string_def)

lemma second_string_less:
  assumes "s < t" "t < 315537897600"
  shows "second_string s < second_string t"
proof -
  have "t div 86400 < 3652059" using assms by simp
  then show ?thesis
    using div_mod_less [OF assms(1), of 86400] date_string_less [of "s div 86400" "t div 86400"]
      clock_string_less [of "s mod 86400" "t mod 86400"]
    by (auto simp: second_string_def less_append_eq_length le_less)
qed

lemma length_second_string [simp]: "length (second_string s) = 19"
  by (simp add: second_string_def)

lemma in_range_sec: "in_range t \<Longrightarrow> sec_of t < 315537897600"
  by (auto simp: in_range_def sec_of_def)

lemma sec_of_less: "0 \<le> s \<Longrightarrow> s div 1000000000 < t div 1000000000 \<Longrightarrow> sec_of s < sec_of t"
  by (simp add: sec_of_def)

text \<open>
  The comparison of two timestamp columns: by the second first and, within one second, by the
  strings of the fractions.
\<close>

lemma rfc3339nano_less_iff:
  assumes "in_range s" "in_range t"
  shows "rfc3339nano s < rfc3339nano t \<longleftrightarrow>
    sec_of s < sec_of t \<or>
    sec_of s = sec_of t \<and>
      fraction_string (nsec_of s) @ ''Z'' < fraction_string (nsec_of t) @ ''Z''"
proof (cases "sec_of s" "sec_of t" rule: linorder_cases)
  case less
  with second_string_less [OF less in_range_sec [OF assms(2)]] show ?thesis
    by (simp add: rfc3339nano_def less_append_eq_length)
next
  case equal
  then show ?thesis by (simp add: rfc3339nano_def less_append_eq_length)
next
  case greater
  have "second_string (sec_of t) < second_string (sec_of s)"
    by (rule second_string_less [OF greater in_range_sec [OF assms(1)]])
  then have "\<not> second_string (sec_of s) < second_string (sec_of t)"
    "second_string (sec_of s) \<noteq> second_string (sec_of t)" by auto
  with greater show ?thesis
    by (simp add: rfc3339nano_def less_append_eq_length)
qed

lemma rfc3339nano_later_second:
  assumes "in_range s" "in_range t" "s div 1000000000 < t div 1000000000"
  shows "rfc3339nano s < rfc3339nano t"
  using assms sec_of_less [of s t] by (simp add: rfc3339nano_less_iff in_range_def)

text \<open>The text of the zero time, which evaluation reads off instead of computing the calendar.\<close>

lemma rfc3339nano_zero: "rfc3339nano 0 = ''0001-01-01T00:00:00Z''"
proof -
  have four: "(4::nat) = Suc (Suc (Suc (Suc 0)))" by simp
  have n: "fixed_digits 2 k = [digit_char (k div 10 mod 10), digit_char (k mod 10)]"
    "fixed_digits 4 k = [digit_char (k div 10 div 10 div 10 mod 10), digit_char (k div 10 div 10 mod 10),
       digit_char (k div 10 mod 10), digit_char (k mod 10)]" for k
    unfolding four numeral_2_eq_2 fixed_digits.simps by (simp_all only: append.simps)
  have c: "digit_char 0 = CHR ''0''" "digit_char (Suc 0) = CHR ''1''" by code_simp+
  have "date_string 0 = ''0001-01-01''"
    by (simp add: date_string_def year_index_def year_from.simps [of 0 0] days_to_year_def
        month_lengths_def n c Let_def)
  moreover have "clock_string 0 = ''00:00:00''" by (simp add: clock_string_def n c)
  ultimately show ?thesis
    by (simp add: rfc3339nano_def second_string_def sec_of_def nsec_of_def fraction_string_def)
qed

lemma rfc3339nano_code [code]:
  "rfc3339nano t = (if t = 0 then ''0001-01-01T00:00:00Z''
     else second_string (sec_of t) @ fraction_string (nsec_of t) @ ''Z'')"
  by (simp add: rfc3339nano_zero) (simp add: rfc3339nano_def)

end
