(* ===== verification/Storage_Rows.thy ===== *)
theory Storage_Rows
  imports Go_Time
begin

text \<open>
  The tables that the project registry and the task backlog write
  (\<^verbatim>\<open>src/internal/storage/projects.go\<close>, \<^verbatim>\<open>tasks.go\<close>, \<^verbatim>\<open>audit.go\<close> and the schema of \<^verbatim>\<open>migrate.go\<close>), and
  the append path of \<^verbatim>\<open>src/internal/audit/audit.go\<close>. A table is the list of its rows in insertion
  order; a column of type TEXT that holds a timestamp is the RFC3339Nano string the code writes.
  A statement that the schema can reject (primary key, \<^verbatim>\<open>UNIQUE\<close>, foreign key) returns
  \<open>Inl\<close>. The JSON text of an audit payload is represented by the value that is encoded.
\<close>

section \<open>Rows\<close>

record project_row =
  pj_id :: string
  pj_name :: string
  pj_path :: string
  pj_remote :: string
  pj_state :: string
  pj_profile :: string
  pj_created_at :: string
  pj_updated_at :: string

record task_row =
  tk_id :: string
  tk_project_id :: string
  tk_title :: string
  tk_description :: string
  tk_priority :: string
  tk_state :: string
  tk_created_at :: string
  tk_updated_at :: string

record attachment_row =
  at_id :: nat
  at_task_id :: string
  at_hash :: string
  at_filename :: string
  at_mime_type :: string
  at_size :: int
  at_role :: string
  at_created_at :: string

datatype payload = PStr string | PInt int | PBool bool | PList "payload list" | PObj "(string \<times> payload) list"

record audit_event =
  ae_id :: nat
  ae_ts :: string
  ae_scope :: string
  ae_scope_id :: string
  ae_type :: string
  ae_actor :: string
  ae_payload :: payload

text \<open>\<open>db_attachment_seq\<close> is the \<^verbatim>\<open>AUTOINCREMENT\<close> counter of \<^verbatim>\<open>task_attachments\<close>.\<close>

record db =
  db_projects :: "project_row list"
  db_tasks :: "task_row list"
  db_attachments :: "attachment_row list"
  db_attachment_seq :: nat
  db_task_sequences :: "(string \<times> nat) list"
  db_audit :: "audit_event list"

definition empty_db :: db where
  "empty_db = \<lparr>db_projects = [], db_tasks = [], db_attachments = [], db_attachment_seq = 0,
     db_task_sequences = [], db_audit = []\<rparr>"

datatype db_error =
    ConstraintViolation
  | ErrNoRows
  | ErrProjectNotFound
  | ErrTaskNotFound
  | SequenceProjectRequired
  | SequenceCorrupt
  | AuditTypeRequired

section \<open>The projects table\<close>

definition createProject :: "db \<Rightarrow> project_row \<Rightarrow> (db_error, db) result" where
  "createProject d p =
     (if pj_id p \<in> pj_id ` set (db_projects d) \<or> pj_path p \<in> pj_path ` set (db_projects d)
      then Inl ConstraintViolation
      else Inr (d\<lparr>db_projects := db_projects d @ [p]\<rparr>))"

definition GetProject :: "db \<Rightarrow> string \<Rightarrow> project_row option" where
  "GetProject d i = find (\<lambda>p. pj_id p = i) (db_projects d)"

definition GetProjectByPath :: "db \<Rightarrow> string \<Rightarrow> project_row option" where
  "GetProjectByPath d path = find (\<lambda>p. pj_path p = path) (db_projects d)"

definition ListProjects :: "db \<Rightarrow> project_row list" where
  "ListProjects d = sort_key pj_name (db_projects d)"

definition updateProjectState :: "db \<Rightarrow> string \<Rightarrow> string \<Rightarrow> string \<Rightarrow> (db_error, db) result" where
  "updateProjectState d i state updated =
     (if count_where (\<lambda>p. pj_id p = i) (db_projects d) = 0 then Inl ErrProjectNotFound
      else Inr (d\<lparr>db_projects :=
        update_where (\<lambda>p. pj_id p = i)
          (\<lambda>p. p\<lparr>pj_state := state, pj_updated_at := updated\<rparr>) (db_projects d)\<rparr>))"

text \<open>
  \<^verbatim>\<open>DELETE FROM projects\<close> with the \<^verbatim>\<open>ON DELETE CASCADE\<close> of \<^verbatim>\<open>tasks.project_id\<close> and of
  \<^verbatim>\<open>task_attachments.task_id\<close>; \<^verbatim>\<open>task_sequences\<close> has no foreign key and keeps its row.
\<close>

definition deleteProject :: "db \<Rightarrow> string \<Rightarrow> (db_error, db) result" where
  "deleteProject d i =
     (if count_where (\<lambda>p. pj_id p = i) (db_projects d) = 0 then Inl ErrProjectNotFound
      else
        let gone = map tk_id (filter (\<lambda>t. tk_project_id t = i) (db_tasks d))
        in Inr (d\<lparr>db_projects := filter (\<lambda>p. pj_id p \<noteq> i) (db_projects d),
             db_tasks := filter (\<lambda>t. tk_project_id t \<noteq> i) (db_tasks d),
             db_attachments := filter (\<lambda>a. at_task_id a \<notin> set gone) (db_attachments d)\<rparr>))"

section \<open>The tasks table\<close>

definition createTask :: "db \<Rightarrow> task_row \<Rightarrow> (db_error, db) result" where
  "createTask d t =
     (if tk_id t \<in> tk_id ` set (db_tasks d) \<or> tk_project_id t \<notin> pj_id ` set (db_projects d)
      then Inl ConstraintViolation
      else Inr (d\<lparr>db_tasks := db_tasks d @ [t]\<rparr>))"

definition GetTask :: "db \<Rightarrow> string \<Rightarrow> task_row option" where
  "GetTask d i = find (\<lambda>t. tk_id t = i) (db_tasks d)"

definition ListTasksByProject :: "db \<Rightarrow> string \<Rightarrow> task_row list" where
  "ListTasksByProject d p = sort_key tk_created_at (filter (\<lambda>t. tk_project_id t = p) (db_tasks d))"

definition ListAllTasks :: "db \<Rightarrow> task_row list" where
  "ListAllTasks d = sort_key tk_created_at (db_tasks d)"

definition updateTaskState :: "db \<Rightarrow> string \<Rightarrow> string \<Rightarrow> string \<Rightarrow> (db_error, db) result" where
  "updateTaskState d i state updated =
     (if count_where (\<lambda>t. tk_id t = i) (db_tasks d) = 0 then Inl ErrTaskNotFound
      else Inr (d\<lparr>db_tasks :=
        update_where (\<lambda>t. tk_id t = i)
          (\<lambda>t. t\<lparr>tk_state := state, tk_updated_at := updated\<rparr>) (db_tasks d)\<rparr>))"

definition createAttachment :: "db \<Rightarrow> attachment_row \<Rightarrow> (db_error, db) result" where
  "createAttachment d a =
     (if at_task_id a \<notin> tk_id ` set (db_tasks d) then Inl ConstraintViolation
      else Inr (d\<lparr>db_attachments :=
             db_attachments d @ [a\<lparr>at_id := Suc (db_attachment_seq d)\<rparr>],
           db_attachment_seq := Suc (db_attachment_seq d)\<rparr>))"

definition ListAttachments :: "db \<Rightarrow> string \<Rightarrow> attachment_row list" where
  "ListAttachments d i = sort_key at_id (filter (\<lambda>a. at_task_id a = i) (db_attachments d))"

fun upsert_seq :: "string \<Rightarrow> (string \<times> nat) list \<Rightarrow> (string \<times> nat) list" where
  "upsert_seq k [] = [(k, 1)]"
| "upsert_seq k ((j, n) # rows) = (if j = k then (j, n + 1) # rows else (j, n) # upsert_seq k rows)"

definition NextTaskSeq :: "db \<Rightarrow> string \<Rightarrow> (db_error, nat \<times> db) result" where
  "NextTaskSeq d projectID =
     (if projectID = '''' then Inl SequenceProjectRequired
      else
        let rows = upsert_seq projectID (db_task_sequences d)
        in case map_of rows projectID of
             None \<Rightarrow> Inl ErrNoRows
           | Some n \<Rightarrow> if n \<le> 0 then Inl SequenceCorrupt
               else Inr (n, d\<lparr>db_task_sequences := rows\<rparr>))"

section \<open>The audit trail\<close>

text \<open>
  \<^verbatim>\<open>Recorder.recordInto\<close>: defaults for scope, scope id and actor, a timestamp taken from the clock,
  and an append. The trail is append-only: the schema rejects updates and deletes.
\<close>

definition audit_row :: "db \<Rightarrow> time \<Rightarrow> audit_event \<Rightarrow> audit_event" where
  "audit_row d now e =
     e\<lparr>ae_id := Suc (length (db_audit d)),
       ae_ts := rfc3339nano now,
       ae_scope := (if ae_scope e = '''' then ''system'' else ae_scope e),
       ae_scope_id := (if ae_scope_id e = '''' then ''global'' else ae_scope_id e),
       ae_actor := (if ae_actor e = '''' then ''daemon'' else ae_actor e)\<rparr>"

definition recordInto :: "db \<Rightarrow> time \<Rightarrow> audit_event \<Rightarrow> (db_error, db) result" where
  "recordInto d now e =
     (if ae_type e = '''' then Inl AuditTypeRequired
      else Inr (d\<lparr>db_audit := db_audit d @ [audit_row d now e]\<rparr>))"

section \<open>Facts\<close>

lemma map_of_upsert_seq:
  "map_of (upsert_seq k rows) =
     (map_of rows)(k \<mapsto> (case map_of rows k of None \<Rightarrow> 1 | Some n \<Rightarrow> n + 1))"
  by (induction k rows rule: upsert_seq.induct) auto

lemma audit_row_simps [simp]:
  "ae_type (audit_row d now e) = ae_type e" "ae_payload (audit_row d now e) = ae_payload e"
  "ae_scope_id e \<noteq> '''' \<Longrightarrow> ae_scope_id (audit_row d now e) = ae_scope_id e"
  "ae_id (audit_row d now e) = Suc (length (db_audit d))"
  by (simp_all add: audit_row_def)

end
