(* ===== verification/Project_Registry.thy ===== *)
theory Project_Registry
  imports Storage_Rows
begin

text \<open>
  \<^verbatim>\<open>src/internal/project\<close>: the project lifecycle machine (\<^verbatim>\<open>state.go\<close>) and the registry service
  (\<^verbatim>\<open>registry.go\<close>). Go's \<^verbatim>\<open>type State string\<close> and \<^verbatim>\<open>type Action string\<close> stay strings, since the state
  is read back from a TEXT column. The git probe (\<^verbatim>\<open>git.go\<close> runs the git program) and
  \<^verbatim>\<open>filepath.Abs\<close> (it reads the working directory) are arguments of \<open>Registry_Add\<close>.
\<close>

section \<open>The lifecycle machine\<close>

abbreviation ProjectDisabled :: string where "ProjectDisabled \<equiv> ''DISABLED''"
abbreviation ProjectIdle :: string where "ProjectIdle \<equiv> ''IDLE''"
abbreviation ProjectRunning :: string where "ProjectRunning \<equiv> ''RUNNING''"
abbreviation ProjectPaused :: string where "ProjectPaused \<equiv> ''PAUSED''"
abbreviation ProjectDraining :: string where "ProjectDraining \<equiv> ''DRAINING''"
abbreviation ProjectError :: string where "ProjectError \<equiv> ''ERROR''"

definition project_validTransitions :: "(string \<times> (string \<times> string) list) list" where
  "project_validTransitions =
     [(ProjectDisabled, [(''start'', ProjectIdle)]),
      (ProjectIdle, [(''pause'', ProjectPaused), (''drain'', ProjectDraining)]),
      (ProjectRunning, [(''pause'', ProjectPaused), (''drain'', ProjectDraining)]),
      (ProjectPaused, [(''resume'', ProjectIdle)]),
      (ProjectDraining, [(''resume'', ProjectIdle)]),
      (ProjectError, [(''recover'', ProjectIdle)])]"

definition project_CanTransition :: "string \<Rightarrow> string \<Rightarrow> string option" where
  "project_CanTransition from action =
     (if action = ''stop'' \<and> from \<noteq> ProjectDisabled then Some ProjectDisabled
      else case map_of project_validTransitions from of
        None \<Rightarrow> None
      | Some transitions \<Rightarrow> map_of transitions action)"

definition project_IsValidState :: "string \<Rightarrow> bool" where
  "project_IsValidState s \<longleftrightarrow>
     s \<in> set [ProjectDisabled, ProjectIdle, ProjectRunning, ProjectPaused, ProjectDraining, ProjectError]"

section \<open>Identifiers\<close>

text \<open>
  \<^verbatim>\<open>strings.ToLower\<close> followed by the regular expression \<^verbatim>\<open>[^a-z0-9]+\<close>: besides the ASCII capitals two
  runes lower to an ASCII letter, U+0130 to \<^verbatim>\<open>i\<close> and U+212A to \<^verbatim>\<open>k\<close>; the bytes of every other
  non-ASCII rune are left as they are, since each of them becomes part of a run that is replaced.
\<close>

definition ascii_lower :: "char \<Rightarrow> char" where
  "ascii_lower c = (if 65 \<le> (of_char c :: nat) \<and> (of_char c :: nat) \<le> 90
     then char_of ((of_char c :: nat) + 32) else c)"

fun slug_lower :: "string \<Rightarrow> string" where
  "slug_lower [] = []"
| "slug_lower [a] = [ascii_lower a]"
| "slug_lower [a, b] =
     (if a = CHR 0xC4 \<and> b = CHR 0xB0 then ''i'' else [ascii_lower a, ascii_lower b])"
| "slug_lower (a # b # c # s) =
     (if a = CHR 0xC4 \<and> b = CHR 0xB0 then CHR ''i'' # slug_lower (c # s)
      else if a = CHR 0xE2 \<and> b = CHR 0x84 \<and> c = CHR 0xAA then CHR ''k'' # slug_lower s
      else ascii_lower a # slug_lower (b # c # s))"

definition slug_char :: "char \<Rightarrow> bool" where
  "slug_char c \<longleftrightarrow> (let n = (of_char c :: nat) in 97 \<le> n \<and> n \<le> 122 \<or> 48 \<le> n \<and> n \<le> 57)"

text \<open>\<open>dash_runs b s\<close> replaces every run of other bytes by one dash; \<open>b\<close>: inside such a run.\<close>

fun dash_runs :: "bool \<Rightarrow> string \<Rightarrow> string" where
  "dash_runs b [] = []"
| "dash_runs b (c # s) =
     (if slug_char c then c # dash_runs False s
      else if b then dash_runs True s else CHR ''-'' # dash_runs True s)"

definition trim_dashes :: "string \<Rightarrow> string" where
  "trim_dashes s =
     rev (dropWhile (\<lambda>c. c = CHR ''-'') (rev (dropWhile (\<lambda>c. c = CHR ''-'') s)))"

definition slugify :: "string \<Rightarrow> string" where
  "slugify name =
     (let s = trim_dashes (dash_runs False (slug_lower name))
      in if length s > 40 then take 40 s else s)"

text \<open>\<^verbatim>\<open>filepath.Base\<close> on Unix.\<close>

definition filepath_Base :: "string \<Rightarrow> string" where
  "filepath_Base path =
     (if path = '''' then ''.''
      else
        let p = rev (dropWhile (\<lambda>c. c = CHR ''/'') (rev path));
            b = rev (takeWhile (\<lambda>c. c \<noteq> CHR ''/'') (rev p))
        in if b = '''' then ''/'' else b)"

text \<open>
  \<^verbatim>\<open>uniqueID\<close> loops until \<^verbatim>\<open>GetProject\<close> finds no row. The first argument is fuel: the loop ends
  within one round more than there are projects (\<open>uniqueID_fresh\<close>).
\<close>

fun uniqueID_loop :: "nat \<Rightarrow> db \<Rightarrow> string \<Rightarrow> string \<Rightarrow> nat \<Rightarrow> string option" where
  "uniqueID_loop 0 d base i sfx = None"
| "uniqueID_loop (Suc fuel) d base i sfx =
     (case GetProject d i of
        None \<Rightarrow> Some i
      | Some _ \<Rightarrow> uniqueID_loop fuel d base (base @ ''-'' @ show_nat sfx) (sfx + 1))"

definition uniqueID :: "db \<Rightarrow> string \<Rightarrow> string option" where
  "uniqueID d base = uniqueID_loop (Suc (length (db_projects d))) d base base 2"

section \<open>The registry service\<close>

datatype registry_error =
    PathResolve
  | ErrNotAGitRepo
  | ErrAlreadyRegistered string
  | InvalidProfile string
  | IdSearchDiverged
  | Project_InvalidTransition string string
  | Registry_Storage db_error

record project_req =
  rq_path :: string
  rq_name :: string
  rq_profile :: string

definition profile_IsValid :: "string \<Rightarrow> bool" where
  "profile_IsValid p \<longleftrightarrow>
     p \<in> set [''PLAN_ONLY'', ''LOCAL_REVIEW'', ''REMOTE_REVIEW'', ''AUTONOMOUS'', ''CUSTOM'']"

definition auditProjectTx ::
    "bool \<Rightarrow> db \<Rightarrow> time \<Rightarrow> string \<Rightarrow> string \<Rightarrow> payload \<Rightarrow> (registry_error, db) result" where
  "auditProjectTx rec d now i eventType p =
     (if \<not> rec then Inr d
      else case recordInto d now
          \<lparr>ae_id = 0, ae_ts = '''', ae_scope = ''project'', ae_scope_id = i, ae_type = eventType,
           ae_actor = ''user'', ae_payload = p\<rparr> of
        Inl e \<Rightarrow> Inl (Registry_Storage e)
      | Inr d' \<Rightarrow> Inr d')"

text \<open>
  A failure inside the transaction rolls back: the error carries no new database, and the caller
  keeps the old one. \<open>rec\<close> says whether an audit recorder is configured.
\<close>

definition Registry_Add ::
    "bool \<Rightarrow> (string \<Rightarrow> string option) \<Rightarrow> (string \<Rightarrow> string option) \<Rightarrow> db \<Rightarrow> time \<Rightarrow> project_req
       \<Rightarrow> (registry_error, project_row \<times> db) result" where
  "Registry_Add rec Abs ValidateGitRepo d now req =
     (case Abs (rq_path req) of
        None \<Rightarrow> Inl PathResolve
      | Some absp \<Rightarrow>
     (case ValidateGitRepo absp of
        None \<Rightarrow> Inl ErrNotAGitRepo
      | Some remote \<Rightarrow>
     (if (case GetProjectByPath d absp of None \<Rightarrow> False | Some p \<Rightarrow> pj_id p \<noteq> '''')
      then Inl (ErrAlreadyRegistered absp)
      else
        let name = (if rq_name req = '''' then filepath_Base absp else rq_name req);
            profile = (if rq_profile req = '''' then ''LOCAL_REVIEW'' else rq_profile req)
        in if \<not> profile_IsValid profile then Inl (InvalidProfile profile)
        else
          let slug = slugify (filepath_Base absp);
              base = (if slug = '''' then ''project'' else slug)
          in case uniqueID d base of
               None \<Rightarrow> Inl IdSearchDiverged
             | Some i \<Rightarrow>
               let p = \<lparr>pj_id = i, pj_name = name, pj_path = absp, pj_remote = remote,
                     pj_state = ProjectDisabled, pj_profile = profile,
                     pj_created_at = rfc3339nano now, pj_updated_at = rfc3339nano now\<rparr>
               in case createProject d p of
                    Inl e \<Rightarrow> Inl (Registry_Storage e)
                  | Inr d1 \<Rightarrow>
                    (case auditProjectTx rec d1 now i ''project.added''
                        (PObj [(''path'', PStr absp), (''remote'', PStr remote),
                               (''profile'', PStr profile)]) of
                       Inl e \<Rightarrow> Inl e
                     | Inr d2 \<Rightarrow> Inr (p, d2)))))"

definition Registry_Remove :: "bool \<Rightarrow> db \<Rightarrow> time \<Rightarrow> string \<Rightarrow> (registry_error, db) result" where
  "Registry_Remove rec d now i =
     (case GetProject d i of
        None \<Rightarrow> Inl (Registry_Storage ErrNoRows)
      | Some p \<Rightarrow>
     (case deleteProject d i of
        Inl e \<Rightarrow> Inl (Registry_Storage e)
      | Inr d1 \<Rightarrow>
          auditProjectTx rec d1 now i ''project.removed'' (PObj [(''path'', PStr (pj_path p))])))"

text \<open>
  The returned project keeps the row's fields with the new state and a second reading of the
  clock, \<open>now2\<close>.
\<close>

definition Registry_Transition ::
    "bool \<Rightarrow> db \<Rightarrow> time \<Rightarrow> time \<Rightarrow> string \<Rightarrow> string \<Rightarrow> (registry_error, project_row \<times> db) result" where
  "Registry_Transition rec d now now2 i action =
     (case GetProject d i of
        None \<Rightarrow> Inl (Registry_Storage ErrNoRows)
      | Some sp \<Rightarrow>
     (case project_CanTransition (pj_state sp) action of
        None \<Rightarrow> Inl (Project_InvalidTransition (pj_state sp) action)
      | Some newState \<Rightarrow>
     (case updateProjectState d i newState (rfc3339nano now) of
        Inl e \<Rightarrow> Inl (Registry_Storage e)
      | Inr d1 \<Rightarrow>
     (case auditProjectTx rec d1 now i ''project.state_changed''
         (PObj [(''action'', PStr action), (''from'', PStr (pj_state sp)),
                (''to'', PStr newState)]) of
        Inl e \<Rightarrow> Inl e
      | Inr d2 \<Rightarrow> Inr (sp\<lparr>pj_state := newState, pj_updated_at := rfc3339nano now2\<rparr>, d2)))))"

section \<open>Identifiers are fresh\<close>

fun candidate :: "string \<Rightarrow> nat \<Rightarrow> string" where
  "candidate base 0 = base"
| "candidate base (Suc k) = base @ ''-'' @ show_nat (k + 2)"

lemma candidate_inj: "inj (candidate base)"
proof (rule injI)
  fix j k assume "candidate base j = candidate base k"
  then show "j = k" by (cases j; cases k) (auto simp: show_nat_inject)
qed

lemma GetProject_None: "GetProject d i = None \<longleftrightarrow> i \<notin> pj_id ` set (db_projects d)"
  by (auto simp: GetProject_def find_None_all)

lemma GetProject_Some: "GetProject d i = Some p \<Longrightarrow> p \<in> set (db_projects d) \<and> pj_id p = i"
  unfolding GetProject_def by (drule find_Some_mem) simp

lemma uniqueID_loop_None:
  "uniqueID_loop fuel d base (candidate base k) (k + 2) = None \<Longrightarrow>
     \<forall>j < fuel. candidate base (k + j) \<in> pj_id ` set (db_projects d)"
proof (induction fuel arbitrary: k)
  case (Suc fuel)
  then obtain p where p: "GetProject d (candidate base k) = Some p"
    by (cases "GetProject d (candidate base k)") simp_all
  then have "candidate base k \<in> pj_id ` set (db_projects d)"
    by (metis GetProject_Some imageI)
  moreover have "uniqueID_loop fuel d base (candidate base (Suc k)) (Suc k + 2) = None"
    using Suc.prems p by simp
  from Suc.IH [OF this]
  have "\<forall>j < fuel. candidate base (Suc k + j) \<in> pj_id ` set (db_projects d)" .
  ultimately show ?case by (auto simp: less_Suc_eq_0_disj)
qed simp

lemma uniqueID_loop_Some:
  "uniqueID_loop fuel d base (candidate base k) (k + 2) = Some i \<Longrightarrow>
     i \<notin> pj_id ` set (db_projects d) \<and> (\<exists>j. i = candidate base j)"
proof (induction fuel arbitrary: k)
  case (Suc fuel)
  show ?case
  proof (cases "GetProject d (candidate base k)")
    case None
    with Suc.prems show ?thesis using GetProject_None [of d] by auto
  next
    case (Some p)
    with Suc.prems have "uniqueID_loop fuel d base (candidate base (Suc k)) (Suc k + 2) = Some i"
      by simp
    then show ?thesis by (rule Suc.IH)
  qed
qed simp

lemma uniqueID_fresh:
  "\<exists>i j. uniqueID d base = Some i \<and> i \<notin> pj_id ` set (db_projects d) \<and> i = candidate base j"
proof (cases "uniqueID d base")
  case None
  let ?n = "Suc (length (db_projects d))" and ?ids = "pj_id ` set (db_projects d)"
  have "candidate base ` {..<?n} \<subseteq> ?ids"
    using uniqueID_loop_None [of ?n d base 0] None
    by (auto simp: uniqueID_def numeral_2_eq_2 simp del: uniqueID_loop.simps)
  then have "card (candidate base ` {..<?n}) \<le> card ?ids" by (simp add: card_mono)
  also have "\<dots> \<le> length (db_projects d)"
    by (metis card_image_le card_length finite_set order_trans)
  finally show ?thesis by (simp add: card_image inj_on_subset [OF candidate_inj])
next
  case (Some i)
  then show ?thesis
    using uniqueID_loop_Some [of "Suc (length (db_projects d))" d base 0 i]
    by (auto simp: uniqueID_def numeral_2_eq_2 simp del: uniqueID_loop.simps)
qed

lemma set_trim_dashes: "set (trim_dashes s) \<subseteq> set s"
  unfolding trim_dashes_def by (metis dual_order.trans set_dropWhileD set_rev subsetI)

lemma set_dash_runs: "c \<in> set (dash_runs b s) \<Longrightarrow> slug_char c \<or> c = CHR ''-''"
  by (induction b s rule: dash_runs.induct) (auto split: if_splits)

lemma trim_dashes_hd: "trim_dashes s \<noteq> '''' \<Longrightarrow> hd (trim_dashes s) \<noteq> CHR ''-''"
proof -
  let ?P = "\<lambda>c. c = CHR ''-''"
  assume ne: "trim_dashes s \<noteq> ''''"
  obtain u where u: "dropWhile ?P s = trim_dashes s @ u"
    using takeWhile_dropWhile_id [of ?P "rev (dropWhile ?P s)"]
    unfolding trim_dashes_def by (metis rev_append rev_rev_ident)
  with ne have "hd (trim_dashes s) = hd (dropWhile ?P s)" "dropWhile ?P s \<noteq> ''''" by auto
  with hd_dropWhile [of ?P s] show ?thesis by auto
qed

lemma slugify_chars: "c \<in> set (slugify name) \<Longrightarrow> slug_char c \<or> c = CHR ''-''"
  unfolding slugify_def Let_def
  by (auto split: if_splits dest!: in_set_takeD set_trim_dashes [THEN subsetD] set_dash_runs)

lemma slugify_hd: "slugify name \<noteq> '''' \<Longrightarrow> hd (slugify name) \<noteq> CHR ''-''"
  using trim_dashes_hd [of "dash_runs False (slug_lower name)"]
  by (auto simp: slugify_def Let_def split: if_splits)

section \<open>The operations\<close>

definition registry_inv :: "db \<Rightarrow> bool" where
  "registry_inv d \<longleftrightarrow>
     distinct (map pj_id (db_projects d)) \<and> distinct (map pj_path (db_projects d)) \<and>
     (\<forall>p \<in> set (db_projects d). pj_id p \<noteq> '''' \<and> project_IsValidState (pj_state p) \<and>
        profile_IsValid (pj_profile p))"

lemma auditProjectTx_ok:
  "ty \<noteq> '''' \<Longrightarrow> auditProjectTx rec d now i ty p =
     Inr (if rec then d\<lparr>db_audit := db_audit d @ [audit_row d now
        \<lparr>ae_id = 0, ae_ts = '''', ae_scope = ''project'', ae_scope_id = i, ae_type = ty,
         ae_actor = ''user'', ae_payload = p\<rparr>]\<rparr> else d)"
  by (simp add: auditProjectTx_def recordInto_def)

lemma candidate_nonempty: "base \<noteq> '''' \<Longrightarrow> candidate base j \<noteq> ''''"
  by (cases j) auto

lemma GetProjectByPath_None:
  "GetProjectByPath d path = None \<longleftrightarrow> path \<notin> pj_path ` set (db_projects d)"
  by (auto simp: GetProjectByPath_def find_None_all)

lemma profile_IsValid_default: "profile_IsValid ''LOCAL_REVIEW''"
  by (simp add: profile_IsValid_def)

text \<open>
  Registration succeeds whenever the path resolves to a repository that is not registered yet and
  the profile is known: no constraint of the schema is hit, since the identifier is fresh.
\<close>

lemma Registry_Add_ok:
  assumes "Abs (rq_path req) = Some path" "git path = Some remote"
    and "path \<notin> pj_path ` set (db_projects d)"
    and "rq_profile req = '''' \<or> profile_IsValid (rq_profile req)"
  shows "\<exists>p d'. Registry_Add rec Abs git d now req = Inr (p, d') \<and>
     db_projects d' = db_projects d @ [p] \<and> db_tasks d' = db_tasks d \<and>
     db_task_sequences d' = db_task_sequences d \<and> db_attachments d' = db_attachments d \<and>
     db_attachment_seq d' = db_attachment_seq d \<and>
     pj_id p \<notin> pj_id ` set (db_projects d) \<and> pj_id p \<noteq> '''' \<and> pj_path p = path \<and>
     pj_state p = ProjectDisabled \<and> profile_IsValid (pj_profile p)"
proof -
  let ?slug = "slugify (filepath_Base path)"
  let ?base = "if ?slug = '''' then ''project'' else ?slug"
  obtain i j where i: "uniqueID d ?base = Some i" "i \<notin> pj_id ` set (db_projects d)"
      "i = candidate ?base j"
    using uniqueID_fresh by blast
  then have "i \<noteq> ''''" using candidate_nonempty [of ?base j] by auto
  with assms i show ?thesis
    by (auto simp: Registry_Add_def Let_def GetProjectByPath_None [THEN iffD2]
        createProject_def auditProjectTx_ok profile_IsValid_default)
qed

lemma Registry_Add_cases:
  assumes "Registry_Add rec Abs git d now req = Inr (p, d')" "registry_inv d"
  shows "Abs (rq_path req) = Some (pj_path p) \<and> (\<exists>r. git (pj_path p) = Some r) \<and>
     pj_path p \<notin> pj_path ` set (db_projects d) \<and>
     (rq_profile req = '''' \<or> profile_IsValid (rq_profile req))"
proof -
  obtain path remote where g: "Abs (rq_path req) = Some path" "git path = Some remote"
    using assms(1) by (auto simp: Registry_Add_def split: option.splits)
  have n: "GetProjectByPath d path = None"
  proof (rule ccontr)
    assume "GetProjectByPath d path \<noteq> None"
    then obtain q where q: "GetProjectByPath d path = Some q" by blast
    then have "pj_id q \<noteq> ''''"
      using assms(2) find_Some_mem by (fastforce simp: GetProjectByPath_def registry_inv_def)
    with assms(1) g q show False by (simp add: Registry_Add_def)
  qed
  have v: "rq_profile req = '''' \<or> profile_IsValid (rq_profile req)"
    using assms(1) g n by (auto simp: Registry_Add_def Let_def split: if_splits)
  with g n obtain p' d'' where "Registry_Add rec Abs git d now req = Inr (p', d'')" "pj_path p' = path"
    using Registry_Add_ok [of Abs req path git remote d rec now] by (auto simp: GetProjectByPath_None)
  with assms(1) g n v show ?thesis by (auto simp: GetProjectByPath_None)
qed

lemma Registry_Add_inv:
  assumes "registry_inv d" "Registry_Add rec Abs git d now req = Inr (p, d')"
  shows "registry_inv d'"
proof -
  note c = Registry_Add_cases [OF assms(2,1)]
  then obtain r where "git (pj_path p) = Some r" by blast
  with c Registry_Add_ok [of Abs req "pj_path p" git r d rec now] assms show ?thesis
    by (auto simp: registry_inv_def project_IsValidState_def)
qed

lemma Registry_Remove_ok:
  assumes "GetProject d i = Some p"
  shows "\<exists>d'. Registry_Remove rec d now i = Inr d' \<and>
     db_projects d' = filter (\<lambda>p. pj_id p \<noteq> i) (db_projects d) \<and>
     db_tasks d' = filter (\<lambda>t. tk_project_id t \<noteq> i) (db_tasks d) \<and>
     db_attachments d' = filter (\<lambda>a. at_task_id a \<notin>
        tk_id ` {t \<in> set (db_tasks d). tk_project_id t = i}) (db_attachments d) \<and>
     db_attachment_seq d' = db_attachment_seq d \<and>
     db_task_sequences d' = db_task_sequences d"
  using assms GetProject_Some [OF assms]
  by (auto simp: Registry_Remove_def deleteProject_def Let_def auditProjectTx_ok count_where_0)

lemma distinct_map_filterI: "distinct (map f xs) \<Longrightarrow> distinct (map f (filter P xs))"
  by (induction xs) auto

lemma Registry_Remove_inv:
  assumes "registry_inv d" "Registry_Remove rec d now i = Inr d'"
  shows "registry_inv d'"
proof -
  obtain p where "GetProject d i = Some p"
    using assms(2) by (auto simp: Registry_Remove_def split: option.splits)
  from Registry_Remove_ok [OF this, of rec now] assms show ?thesis
    by (auto simp: registry_inv_def distinct_map_filterI)
qed

text \<open>A transition is accepted exactly when the machine allows it, and touches one row.\<close>

lemma Registry_Transition_ok:
  assumes "GetProject d i = Some sp" "project_CanTransition (pj_state sp) action = Some to"
  shows "\<exists>d'. Registry_Transition rec d now now2 i action =
       Inr (sp\<lparr>pj_state := to, pj_updated_at := rfc3339nano now2\<rparr>, d') \<and>
     db_projects d' = update_where (\<lambda>p. pj_id p = i)
       (\<lambda>p. p\<lparr>pj_state := to, pj_updated_at := rfc3339nano now\<rparr>) (db_projects d) \<and>
     db_tasks d' = db_tasks d \<and> db_task_sequences d' = db_task_sequences d \<and>
     db_attachments d' = db_attachments d \<and> db_attachment_seq d' = db_attachment_seq d \<and>
     length (db_audit d') = length (db_audit d) + (if rec then 1 else 0)"
  using assms GetProject_Some [OF assms(1)]
  by (auto simp: Registry_Transition_def updateProjectState_def auditProjectTx_ok count_where_0)

lemma Registry_Transition_error:
  assumes "GetProject d i = Some sp" "project_CanTransition (pj_state sp) action = None"
  shows "Registry_Transition rec d now now2 i action = Inl (Project_InvalidTransition (pj_state sp) action)"
  using assms by (simp add: Registry_Transition_def)

lemma project_CanTransition_valid:
  "project_CanTransition s a = Some t \<Longrightarrow> project_IsValidState t"
  by (auto simp: project_CanTransition_def project_validTransitions_def project_IsValidState_def
      split: if_splits)

lemma Registry_Transition_inv:
  assumes "registry_inv d" "Registry_Transition rec d now now2 i action = Inr (p, d')"
  shows "registry_inv d'"
proof -
  obtain sp to where g: "GetProject d i = Some sp"
      "project_CanTransition (pj_state sp) action = Some to"
    using assms(2) by (auto simp: Registry_Transition_def split: option.splits)
  from Registry_Transition_ok [OF g, of rec now now2] assms(2)
  have "db_projects d' = update_where (\<lambda>p. pj_id p = i)
       (\<lambda>p. p\<lparr>pj_state := to, pj_updated_at := rfc3339nano now\<rparr>) (db_projects d)" by auto
  with assms(1) project_CanTransition_valid [OF g(2)] show ?thesis
    by (auto simp: registry_inv_def table_simps)
qed

section \<open>The machine\<close>

text \<open>The states that the lifecycle commands can reach: \<^verbatim>\<open>RUNNING\<close> and \<^verbatim>\<open>ERROR\<close> are not entered.\<close>

definition project_command_state :: "string \<Rightarrow> bool" where
  "project_command_state s \<longleftrightarrow> s \<in> set [ProjectDisabled, ProjectIdle, ProjectPaused, ProjectDraining]"

interpretation project_machine: machine project_CanTransition project_command_state
  by unfold_locales
    (auto simp: project_CanTransition_def project_validTransitions_def project_command_state_def
      split: if_splits)

lemma project_stop: "s \<noteq> ProjectDisabled \<Longrightarrow> project_CanTransition s ''stop'' = Some ProjectDisabled"
  by (simp add: project_CanTransition_def)

end
