(* ===== verification/Task_Backlog.thy ===== *)
theory Task_Backlog
  imports Project_Registry
begin

text \<open>
  \<^verbatim>\<open>src/internal/task/state.go\<close> and \<^verbatim>\<open>backlog.go\<close>: the task lifecycle machine and the backlog service
  over the tables of \<open>Storage_Rows\<close>. The file system is an argument: \<open>fs_read\<close> gives the hash and the
  size of a readable file, and \<open>fs_mime\<close> the system's table of MIME types
  (\<^verbatim>\<open>mime.TypeByExtension\<close>). The artifact directory is the list of the hashes it holds.
\<close>

section \<open>The lifecycle machine\<close>

abbreviation TaskNew :: string where "TaskNew \<equiv> ''NEW''"
abbreviation TaskIngested :: string where "TaskIngested \<equiv> ''INGESTED''"
abbreviation TaskPaused :: string where "TaskPaused \<equiv> ''PAUSED''"
abbreviation TaskCancelled :: string where "TaskCancelled \<equiv> ''CANCELLED''"
abbreviation TaskRunning :: string where "TaskRunning \<equiv> ''RUNNING''"
abbreviation TaskCompleted :: string where "TaskCompleted \<equiv> ''COMPLETED''"
abbreviation TaskFailed :: string where "TaskFailed \<equiv> ''FAILED''"

definition task_validTransitions :: "(string \<times> (string \<times> string) list) list" where
  "task_validTransitions =
     [(TaskNew, [(''ingest'', TaskIngested), (''pause'', TaskPaused), (''dispatch'', TaskRunning)]),
      (TaskIngested, [(''pause'', TaskPaused), (''dispatch'', TaskRunning)]),
      (TaskPaused, [(''resume'', TaskIngested)]),
      (TaskRunning, [(''complete'', TaskCompleted), (''fail'', TaskFailed)])]"

definition task_IsTerminal :: "string \<Rightarrow> bool" where
  "task_IsTerminal s \<longleftrightarrow> s \<in> set [TaskCancelled, TaskCompleted, TaskFailed]"

definition task_CanTransition :: "string \<Rightarrow> string \<Rightarrow> string option" where
  "task_CanTransition from action =
     (if task_IsTerminal from then None
      else if action = ''cancel'' then Some TaskCancelled
      else case map_of task_validTransitions from of
        None \<Rightarrow> None
      | Some transitions \<Rightarrow> map_of transitions action)"

definition task_IsValidState :: "string \<Rightarrow> bool" where
  "task_IsValidState s \<longleftrightarrow> s \<in> set [TaskNew, TaskIngested, TaskPaused, TaskCancelled,
     TaskRunning, TaskCompleted, TaskFailed]"

definition ActionForOutcome :: "string \<Rightarrow> string" where
  "ActionForOutcome outcome =
     (if outcome = ''completed-with-commit'' \<or> outcome = ''completed-with-uncommitted-changes''
      then ''complete''
      else if outcome = ''cancelled'' then ''cancel''
      else if outcome = ''completed-no-changes'' \<or> outcome = ''failed'' \<or> outcome = ''timed-out''
        \<or> outcome = ''interrupted''
      then ''fail''
      else ''fail'')"

section \<open>Attachments\<close>

record attachment =
  a_hash :: string
  a_filename :: string
  a_mime :: string
  a_size :: int
  a_role :: string

record attachment_input =
  ai_path :: string
  ai_filename :: string
  ai_role :: string

record file_system =
  fs_read :: "string \<Rightarrow> (string \<times> int) option"
  fs_mime :: "string \<Rightarrow> string"

text \<open>\<^verbatim>\<open>filepath.Ext\<close>: from the last dot of the last path element.\<close>

definition filepath_Ext :: "string \<Rightarrow> string" where
  "filepath_Ext path =
     (let e = takeWhile (\<lambda>c. c \<noteq> CHR ''.'' \<and> c \<noteq> CHR ''/'') (rev path)
      in case drop (length e) (rev path) of
           [] \<Rightarrow> ''''
         | c # _ \<Rightarrow> if c = CHR ''.'' then CHR ''.'' # rev e else '''')"

definition mimeTypeFor :: "file_system \<Rightarrow> string \<Rightarrow> string" where
  "mimeTypeFor fs filename =
     (let ext = filepath_Ext filename
      in if ext = '''' then ''application/octet-stream''
         else let mt = fs_mime fs ext
              in if mt = '''' then ''application/octet-stream'' else mt)"

datatype backlog_error =
    ProjectRequired
  | AttachmentPathRequired
  | AttachmentOpen
  | ErrEmptyDescription
  | Task_InvalidTransition string string
  | Backlog_Storage db_error

definition storeAttachment ::
    "file_system \<Rightarrow> bool \<Rightarrow> string list \<Rightarrow> attachment_input
       \<Rightarrow> (backlog_error, attachment \<times> string list) result" where
  "storeAttachment fs has_dir arts input =
     (if ai_path input = '''' then Inl AttachmentPathRequired
      else case fs_read fs (ai_path input) of
        None \<Rightarrow> Inl AttachmentOpen
      | Some (hash, sz) \<Rightarrow>
          let filename = (if ai_filename input = '''' then filepath_Base (ai_path input)
                          else ai_filename input);
              arts' = (if has_dir \<and> hash \<notin> set arts then arts @ [hash] else arts);
              role = (if ai_role input = '''' then ''GENERAL_CONTEXT'' else ai_role input)
          in Inr (\<lparr>a_hash = hash, a_filename = filename, a_mime = mimeTypeFor fs filename,
                a_size = sz, a_role = role\<rparr>, arts'))"

fun storeAttachments ::
    "file_system \<Rightarrow> bool \<Rightarrow> string list \<Rightarrow> attachment_input list
       \<Rightarrow> string list \<times> (backlog_error, attachment list) result" where
  "storeAttachments fs has_dir arts [] = (arts, Inr [])"
| "storeAttachments fs has_dir arts (x # xs) =
     (case storeAttachment fs has_dir arts x of
        Inl e \<Rightarrow> (arts, Inl e)
      | Inr (a, arts') \<Rightarrow>
          (case storeAttachments fs has_dir arts' xs of
             (arts'', Inl e) \<Rightarrow> (arts'', Inl e)
           | (arts'', Inr as) \<Rightarrow> (arts'', Inr (a # as))))"

section \<open>The backlog service\<close>

record task_req =
  tr_project :: string
  tr_description :: string
  tr_title :: string
  tr_priority :: string
  tr_attachments :: "attachment_input list"

definition auditTaskTx ::
    "bool \<Rightarrow> db \<Rightarrow> time \<Rightarrow> string \<Rightarrow> string \<Rightarrow> payload \<Rightarrow> (backlog_error, db) result" where
  "auditTaskTx rec d now i eventType p =
     (if \<not> rec then Inr d
      else case recordInto d now
          \<lparr>ae_id = 0, ae_ts = '''', ae_scope = ''task'', ae_scope_id = i, ae_type = eventType,
           ae_actor = ''user'', ae_payload = p\<rparr> of
        Inl e \<Rightarrow> Inl (Backlog_Storage e)
      | Inr d' \<Rightarrow> Inr d')"

definition task_nextID :: "db \<Rightarrow> string \<Rightarrow> (backlog_error, string \<times> db) result" where
  "task_nextID d projectID =
     (case NextTaskSeq d projectID of
        Inl e \<Rightarrow> Inl (Backlog_Storage e)
      | Inr (seq, d') \<Rightarrow> Inr (projectID @ ''-'' @ show_nat seq, d'))"

fun createAttachments :: "db \<Rightarrow> string \<Rightarrow> string \<Rightarrow> attachment list \<Rightarrow> (backlog_error, db) result" where
  "createAttachments d i ts [] = Inr d"
| "createAttachments d i ts (a # as) =
     (case createAttachment d \<lparr>at_id = 0, at_task_id = i, at_hash = a_hash a,
          at_filename = a_filename a, at_mime_type = a_mime a, at_size = a_size a,
          at_role = a_role a, at_created_at = ts\<rparr> of
        Inl e \<Rightarrow> Inl (Backlog_Storage e)
      | Inr d' \<Rightarrow> createAttachments d' i ts as)"

text \<open>
  The artifact files are written before the transaction, so they stay when it fails: the list
  of artifacts is returned in both cases.
\<close>

definition Backlog_Add ::
    "bool \<Rightarrow> file_system \<Rightarrow> bool \<Rightarrow> string list \<Rightarrow> db \<Rightarrow> time \<Rightarrow> task_req
       \<Rightarrow> string list \<times> (backlog_error, (task_row \<times> attachment list) \<times> db) result" where
  "Backlog_Add rec fs has_dir arts d now req =
     (if tr_project req = '''' then (arts, Inl ProjectRequired)
      else case storeAttachments fs has_dir arts (tr_attachments req) of
        (arts', Inl e) \<Rightarrow> (arts', Inl e)
      | (arts', Inr atts) \<Rightarrow>
          (arts',
           if TrimSpace (tr_description req) = '''' \<and> atts = [] then Inl ErrEmptyDescription
           else
             let priority = (if tr_priority req = '''' then ''NORMAL'' else tr_priority req)
             in case task_nextID d (tr_project req) of
                  Inl e \<Rightarrow> Inl e
                | Inr (i, d1) \<Rightarrow>
                    let t = \<lparr>tk_id = i, tk_project_id = tr_project req, tk_title = tr_title req,
                          tk_description = tr_description req, tk_priority = priority,
                          tk_state = TaskNew, tk_created_at = rfc3339nano now,
                          tk_updated_at = rfc3339nano now\<rparr>
                    in case createTask d1 t of
                         Inl e \<Rightarrow> Inl (Backlog_Storage e)
                       | Inr d2 \<Rightarrow>
                           (case createAttachments d2 i (rfc3339nano now) atts of
                              Inl e \<Rightarrow> Inl e
                            | Inr d3 \<Rightarrow>
                                (case auditTaskTx rec d3 now i ''task.created''
                                    (PObj [(''project'', PStr (tr_project req)),
                                           (''title'', PStr (tr_title req)),
                                           (''priority'', PStr priority),
                                           (''attachments'', PList (map (\<lambda>a.
                                              PObj [(''hash'', PStr (a_hash a)),
                                                    (''filename'', PStr (a_filename a)),
                                                    (''mime'', PStr (a_mime a))]) atts))]) of
                                   Inl e \<Rightarrow> Inl e
                                 | Inr d4 \<Rightarrow> Inr ((t, atts), d4)))))"

definition Backlog_Get :: "db \<Rightarrow> string \<Rightarrow> (backlog_error, task_row \<times> attachment list) result" where
  "Backlog_Get d i =
     (case GetTask d i of
        None \<Rightarrow> Inl (Backlog_Storage ErrTaskNotFound)
      | Some t \<Rightarrow> Inr (t, map (\<lambda>a. \<lparr>a_hash = at_hash a, a_filename = at_filename a,
           a_mime = at_mime_type a, a_size = at_size a, a_role = at_role a\<rparr>) (ListAttachments d i)))"

definition Backlog_Transition ::
    "bool \<Rightarrow> db \<Rightarrow> time \<Rightarrow> string \<Rightarrow> string \<Rightarrow> (backlog_error, task_row \<times> db) result" where
  "Backlog_Transition rec d now i action =
     (case GetTask d i of
        None \<Rightarrow> Inl (Backlog_Storage ErrNoRows)
      | Some st \<Rightarrow>
     (case task_CanTransition (tk_state st) action of
        None \<Rightarrow> Inl (Task_InvalidTransition (tk_state st) action)
      | Some newState \<Rightarrow>
     (case updateTaskState d i newState (rfc3339nano now) of
        Inl e \<Rightarrow> Inl (Backlog_Storage e)
      | Inr d1 \<Rightarrow>
     (case auditTaskTx rec d1 now i ''task.state_changed''
         (PObj [(''action'', PStr action), (''from'', PStr (tk_state st)),
                (''to'', PStr newState)]) of
        Inl e \<Rightarrow> Inl e
      | Inr d2 \<Rightarrow> Inr (st\<lparr>tk_state := newState\<rparr>, d2)))))"

section \<open>The machine\<close>

interpretation task_lifecycle: lifecycle task_CanTransition task_IsValidState task_IsTerminal
  by unfold_locales
    (auto simp: task_CanTransition_def task_validTransitions_def task_IsValidState_def
      split: if_splits)

section \<open>The invariant of the database\<close>

definition task_id :: "string \<Rightarrow> nat \<Rightarrow> string" where
  "task_id p n = p @ ''-'' @ show_nat n"

lemma task_id_inject: "task_id p m = task_id q n \<longleftrightarrow> p = q \<and> m = n"
  using split_last_dash [OF show_nat_not_dash show_nat_not_dash, of p m q n]
  by (simp add: task_id_def show_nat_inject)

definition issued :: "db \<Rightarrow> string \<Rightarrow> nat" where
  "issued d p = (case map_of (db_task_sequences d) p of None \<Rightarrow> 0 | Some n \<Rightarrow> n)"

text \<open>\<open>was_issued d i\<close>: the identifier \<open>i\<close> lies at or below its project's counter.\<close>

definition was_issued :: "db \<Rightarrow> string \<Rightarrow> string \<Rightarrow> bool" where
  "was_issued d p i \<longleftrightarrow> (\<exists>n. 1 \<le> n \<and> n \<le> issued d p \<and> i = task_id p n)"

definition backlog_inv :: "db \<Rightarrow> bool" where
  "backlog_inv d \<longleftrightarrow>
     registry_inv d \<and> distinct (map tk_id (db_tasks d)) \<and>
     (\<forall>t \<in> set (db_tasks d). tk_project_id t \<in> pj_id ` set (db_projects d) \<and>
        task_IsValidState (tk_state t) \<and> was_issued d (tk_project_id t) (tk_id t)) \<and>
     (\<forall>a \<in> set (db_attachments d). at_task_id a \<in> tk_id ` set (db_tasks d) \<and>
        at_id a \<le> db_attachment_seq d) \<and>
     distinct (map at_id (db_attachments d))"

lemma backlog_inv_empty: "backlog_inv empty_db"
  by (simp add: backlog_inv_def registry_inv_def empty_db_def)

lemma NextTaskSeq_ok:
  "p \<noteq> '''' \<Longrightarrow> \<exists>rows. NextTaskSeq d p = Inr (Suc (issued d p), d\<lparr>db_task_sequences := rows\<rparr>) \<and>
     map_of rows = (map_of (db_task_sequences d))(p \<mapsto> Suc (issued d p))"
  by (auto simp: NextTaskSeq_def Let_def map_of_upsert_seq issued_def split: option.splits)

lemma auditTaskTx_ok:
  "ty \<noteq> '''' \<Longrightarrow> auditTaskTx rec d now i ty p =
     Inr (if rec then d\<lparr>db_audit := db_audit d @ [audit_row d now
        \<lparr>ae_id = 0, ae_ts = '''', ae_scope = ''task'', ae_scope_id = i, ae_type = ty,
         ae_actor = ''user'', ae_payload = p\<rparr>]\<rparr> else d)"
  by (simp add: auditTaskTx_def recordInto_def)

lemma createAttachments_ok:
  "i \<in> tk_id ` set (db_tasks d) \<Longrightarrow>
     \<forall>a \<in> set (db_attachments d). at_id a \<le> db_attachment_seq d \<Longrightarrow>
     distinct (map at_id (db_attachments d)) \<Longrightarrow>
     \<exists>d' new. createAttachments d i ts as = Inr d' \<and>
       db_attachments d' = db_attachments d @ new \<and> length new = length as \<and>
       (\<forall>a \<in> set new. at_task_id a = i) \<and>
       db_tasks d' = db_tasks d \<and> db_projects d' = db_projects d \<and>
       db_task_sequences d' = db_task_sequences d \<and> db_audit d' = db_audit d \<and>
       (\<forall>a \<in> set (db_attachments d'). at_id a \<le> db_attachment_seq d') \<and>
       distinct (map at_id (db_attachments d'))"
proof (induction as arbitrary: d)
  case (Cons a as)
  let ?r = "\<lparr>at_id = Suc (db_attachment_seq d), at_task_id = i, at_hash = a_hash a,
      at_filename = a_filename a, at_mime_type = a_mime a, at_size = a_size a, at_role = a_role a,
      at_created_at = ts\<rparr>"
  let ?d = "d\<lparr>db_attachments := db_attachments d @ [?r],
      db_attachment_seq := Suc (db_attachment_seq d)\<rparr>"
  have "distinct (map at_id (db_attachments ?d))" using Cons.prems by force
  moreover have "\<forall>a \<in> set (db_attachments ?d). at_id a \<le> db_attachment_seq ?d"
    using Cons.prems(2) by auto
  ultimately obtain d' new where *: "createAttachments ?d i ts as = Inr d'"
      "db_attachments d' = db_attachments ?d @ new" "length new = length as"
      "\<forall>a \<in> set new. at_task_id a = i" "db_tasks d' = db_tasks ?d" "db_projects d' = db_projects ?d"
      "db_task_sequences d' = db_task_sequences ?d" "db_audit d' = db_audit ?d"
      "\<forall>a \<in> set (db_attachments d'). at_id a \<le> db_attachment_seq d'"
      "distinct (map at_id (db_attachments d'))"
    using Cons.IH [of ?d] Cons.prems(1) by auto
  have "createAttachments d i ts (a # as) = createAttachments ?d i ts as"
    using Cons.prems(1) by (simp add: createAttachment_def)
  with * show ?case by (intro exI [of _ d'] exI [of _ "?r # new"]) auto
qed simp

section \<open>The operations\<close>

lemma backlog_invD:
  assumes "backlog_inv d"
  shows "registry_inv d" "distinct (map tk_id (db_tasks d))"
    "distinct (map at_id (db_attachments d))"
    "\<forall>a \<in> set (db_attachments d). at_id a \<le> db_attachment_seq d"
  using assms by (auto simp: backlog_inv_def)

lemma not_was_issued_Suc: "\<not> was_issued d p (task_id p (Suc (issued d p)))"
  by (auto simp: was_issued_def task_id_inject)

lemma was_issued_project: "was_issued d p (task_id q n) \<Longrightarrow> p = q"
  by (auto simp: was_issued_def task_id_inject)

lemma task_id_fresh:
  assumes "backlog_inv d"
  shows "task_id p (Suc (issued d p)) \<notin> tk_id ` set (db_tasks d)"
proof
  assume "task_id p (Suc (issued d p)) \<in> tk_id ` set (db_tasks d)"
  then obtain t where t: "t \<in> set (db_tasks d)" "tk_id t = task_id p (Suc (issued d p))" by auto
  then have "was_issued d (tk_project_id t) (task_id p (Suc (issued d p)))"
    using assms by (auto simp: backlog_inv_def)
  then show False using was_issued_project not_was_issued_Suc by blast
qed

text \<open>
  A task is added whenever its project is registered, its attachments can be read and it has a
  description or an attachment: the identifier never collides.
\<close>

lemma Backlog_Add_ok:
  assumes inv: "backlog_inv d"
    and p: "tr_project req \<in> pj_id ` set (db_projects d)"
    and st: "storeAttachments fs has_dir arts (tr_attachments req) = (arts', Inr atts)"
    and ne: "TrimSpace (tr_description req) \<noteq> '''' \<or> atts \<noteq> []"
  shows "\<exists>t d' new. Backlog_Add rec fs has_dir arts d now req = (arts', Inr ((t, atts), d')) \<and>
     tk_id t = task_id (tr_project req) (Suc (issued d (tr_project req))) \<and>
     tk_project_id t = tr_project req \<and> tk_state t = TaskNew \<and>
     tk_description t = tr_description req \<and>
     db_tasks d' = db_tasks d @ [t] \<and> db_projects d' = db_projects d \<and>
     map_of (db_task_sequences d') =
       (map_of (db_task_sequences d))(tr_project req \<mapsto> Suc (issued d (tr_project req))) \<and>
     db_attachments d' = db_attachments d @ new \<and> length new = length atts \<and>
     (\<forall>a \<in> set new. at_task_id a = tk_id t) \<and>
     (\<forall>a \<in> set (db_attachments d'). at_id a \<le> db_attachment_seq d') \<and>
     distinct (map at_id (db_attachments d')) \<and>
     length (db_audit d') = length (db_audit d) + (if rec then 1 else 0)"
proof -
  let ?p = "tr_project req" and ?i = "task_id (tr_project req) (Suc (issued d (tr_project req)))"
  have pne: "?p \<noteq> ''''" using p inv by (auto simp: backlog_inv_def registry_inv_def)
  from NextTaskSeq_ok [OF this, of d] obtain rows where
    seq: "NextTaskSeq d ?p = Inr (Suc (issued d ?p), d\<lparr>db_task_sequences := rows\<rparr>)"
      "map_of rows = (map_of (db_task_sequences d))(?p \<mapsto> Suc (issued d ?p))" by blast
  let ?t = "\<lparr>tk_id = ?i, tk_project_id = ?p, tk_title = tr_title req,
      tk_description = tr_description req,
      tk_priority = (if tr_priority req = '''' then ''NORMAL'' else tr_priority req),
      tk_state = TaskNew, tk_created_at = rfc3339nano now, tk_updated_at = rfc3339nano now\<rparr>"
  let ?d1 = "d\<lparr>db_task_sequences := rows\<rparr>"
  let ?d2 = "?d1\<lparr>db_tasks := db_tasks d @ [?t]\<rparr>"
  have ct: "createTask ?d1 ?t = Inr ?d2"
    using task_id_fresh [OF inv, of ?p] p by (simp add: createTask_def)
  obtain d3 new where ca: "createAttachments ?d2 ?i (rfc3339nano now) atts = Inr d3"
      "db_attachments d3 = db_attachments ?d2 @ new" "length new = length atts"
      "\<forall>a \<in> set new. at_task_id a = ?i" "db_tasks d3 = db_tasks ?d2"
      "db_projects d3 = db_projects ?d2" "db_task_sequences d3 = db_task_sequences ?d2"
      "db_audit d3 = db_audit ?d2"
      "\<forall>a \<in> set (db_attachments d3). at_id a \<le> db_attachment_seq d3"
      "distinct (map at_id (db_attachments d3))"
    using createAttachments_ok [of ?i ?d2 "rfc3339nano now" atts] backlog_invD [OF inv] by auto
  have id: "task_nextID d ?p = Inr (?i, ?d1)"
    by (simp add: task_nextID_def seq task_id_def)
  show ?thesis
    using ne ca
    by (auto simp: Backlog_Add_def pne st id Let_def ct auditTaskTx_ok seq(2)
        simp del: createAttachments.simps)
qed

lemma storeAttachments_Nil [simp]: "storeAttachments fs has_dir arts [] = (arts, Inr [])"
  by simp

lemma Backlog_Add_cases:
  assumes "Backlog_Add rec fs has_dir arts d now req = (arts', Inr ((t, atts), d'))" "backlog_inv d"
  shows "tr_project req \<in> pj_id ` set (db_projects d) \<and>
     storeAttachments fs has_dir arts (tr_attachments req) = (arts', Inr atts) \<and>
     (TrimSpace (tr_description req) \<noteq> '''' \<or> atts \<noteq> [])"
proof -
  have p: "tr_project req \<noteq> ''''" using assms(1) by (auto simp: Backlog_Add_def split: if_splits)
  with assms(1) obtain as where st:
      "storeAttachments fs has_dir arts (tr_attachments req) = (arts', Inr as)"
    by (auto simp: Backlog_Add_def split: prod.splits sum.splits)
  with assms(1) p have ne: "\<not> (TrimSpace (tr_description req) = '''' \<and> as = [])"
    by (auto simp: Backlog_Add_def split: if_splits)
  obtain rows where seq: "NextTaskSeq d (tr_project req) =
      Inr (Suc (issued d (tr_project req)), d\<lparr>db_task_sequences := rows\<rparr>)"
    using NextTaskSeq_ok [OF p, of d] by blast
  have "tr_project req \<in> pj_id ` set (db_projects d)"
  proof (rule ccontr)
    assume "tr_project req \<notin> pj_id ` set (db_projects d)"
    with assms(1) p st ne seq show False
      by (auto simp: Backlog_Add_def task_nextID_def createTask_def Let_def split: if_splits)
  qed
  with Backlog_Add_ok [OF assms(2) this st, of rec now] ne st assms(1) show ?thesis by auto
qed

lemma was_issued_mono: "was_issued d p i \<Longrightarrow> issued d p \<le> issued d' p \<Longrightarrow> was_issued d' p i"
  by (auto simp: was_issued_def intro: order_trans)

lemma Backlog_Add_inv:
  assumes "backlog_inv d" "Backlog_Add rec fs has_dir arts d now req = (arts', Inr ((t, atts), d'))"
  shows "backlog_inv d' \<and> (\<forall>p. issued d p \<le> issued d' p)"
proof -
  note c = Backlog_Add_cases [OF assms(2,1)]
  with Backlog_Add_ok [OF assms(1), of req fs has_dir arts arts' atts rec now] assms(2)
  obtain new where e: "tk_id t = task_id (tr_project req) (Suc (issued d (tr_project req)))"
     "tk_project_id t = tr_project req" "tk_state t = TaskNew"
     "db_tasks d' = db_tasks d @ [t]" "db_projects d' = db_projects d"
     "map_of (db_task_sequences d') =
       (map_of (db_task_sequences d))(tr_project req \<mapsto> Suc (issued d (tr_project req)))"
     "db_attachments d' = db_attachments d @ new"
     "\<forall>a \<in> set new. at_task_id a = tk_id t"
     "\<forall>a \<in> set (db_attachments d'). at_id a \<le> db_attachment_seq d'"
     "distinct (map at_id (db_attachments d'))"
    by auto
  have iss: "issued d' p = (if p = tr_project req then Suc (issued d p) else issued d p)" for p
    using e(6) by (simp add: issued_def)
  have mono: "\<forall>p. issued d p \<le> issued d' p" by (simp add: iss)
  have "was_issued d' (tk_project_id t) (tk_id t)" using e(1,2) by (auto simp: was_issued_def iss)
  moreover have "\<forall>s \<in> set (db_tasks d). was_issued d' (tk_project_id s) (tk_id s)"
    using assms(1) mono was_issued_mono by (fastforce simp: backlog_inv_def)
  moreover have "registry_inv d'" using assms(1) e(5) by (simp add: backlog_inv_def registry_inv_def)
  moreover have "distinct (map tk_id (db_tasks d'))"
    using backlog_invD(2) [OF assms(1)] task_id_fresh [OF assms(1), of "tr_project req"] e(1,4)
    by auto
  moreover have "\<forall>a \<in> set (db_attachments d'). at_task_id a \<in> tk_id ` set (db_tasks d')"
    using assms(1) e(4,7,8) by (auto simp: backlog_inv_def)
  ultimately show ?thesis
    using mono c e(2-5,9,10) assms(1) by (auto simp: backlog_inv_def task_IsValidState_def)
qed

lemma GetTask_Some: "GetTask d i = Some t \<Longrightarrow> t \<in> set (db_tasks d) \<and> tk_id t = i"
  unfolding GetTask_def by (drule find_Some_mem) simp

lemma Backlog_Transition_ok:
  assumes "GetTask d i = Some st" "task_CanTransition (tk_state st) action = Some to"
  shows "\<exists>d'. Backlog_Transition rec d now i action = Inr (st\<lparr>tk_state := to\<rparr>, d') \<and>
     db_tasks d' = update_where (\<lambda>t. tk_id t = i)
       (\<lambda>t. t\<lparr>tk_state := to, tk_updated_at := rfc3339nano now\<rparr>) (db_tasks d) \<and>
     db_projects d' = db_projects d \<and> db_task_sequences d' = db_task_sequences d \<and>
     db_attachments d' = db_attachments d \<and> db_attachment_seq d' = db_attachment_seq d \<and>
     length (db_audit d') = length (db_audit d) + (if rec then 1 else 0)"
  using assms GetTask_Some [OF assms(1)]
  by (auto simp: Backlog_Transition_def updateTaskState_def auditTaskTx_ok count_where_0)

lemma Backlog_Transition_inv:
  assumes "backlog_inv d" "Backlog_Transition rec d now i action = Inr (t, d')"
  shows "backlog_inv d' \<and> (\<forall>p. issued d p \<le> issued d' p)"
proof -
  obtain st to where g: "GetTask d i = Some st" "task_CanTransition (tk_state st) action = Some to"
    using assms(2) by (auto simp: Backlog_Transition_def split: option.splits)
  from Backlog_Transition_ok [OF g, of rec now] assms(2)
  have e: "db_tasks d' = update_where (\<lambda>t. tk_id t = i)
       (\<lambda>t. t\<lparr>tk_state := to, tk_updated_at := rfc3339nano now\<rparr>) (db_tasks d)"
     "db_projects d' = db_projects d" "db_task_sequences d' = db_task_sequences d"
     "db_attachments d' = db_attachments d" "db_attachment_seq d' = db_attachment_seq d" by auto
  have "task_IsValidState (tk_state st)"
    using assms(1) GetTask_Some [OF g(1)] by (auto simp: backlog_inv_def)
  then have "task_IsValidState to" using g(2) by (rule task_lifecycle.step_known)
  moreover have "was_issued d' = was_issued d" by (simp add: was_issued_def issued_def e fun_eq_iff)
  moreover have "tk_id ` set (db_tasks d') = tk_id ` set (db_tasks d)"
    unfolding e(1) by (simp add: image_update_where)
  ultimately show ?thesis
    using assms(1)
    by (auto simp: backlog_inv_def registry_inv_def issued_def e table_simps)
qed

section \<open>Histories\<close>

text \<open>One committed operation of either service.\<close>

inductive db_step :: "db \<Rightarrow> db \<Rightarrow> bool" where
  add_project: "Registry_Add rec Abs git d now req = Inr (p, d') \<Longrightarrow> db_step d d'"
| remove_project: "Registry_Remove rec d now i = Inr d' \<Longrightarrow> db_step d d'"
| project_transition: "Registry_Transition rec d now now2 i a = Inr (p, d') \<Longrightarrow> db_step d d'"
| add_task: "Backlog_Add rec fs has_dir arts d now treq = (arts', Inr (ta, d')) \<Longrightarrow> db_step d d'"
| task_transition: "Backlog_Transition rec d now i a = Inr (t, d') \<Longrightarrow> db_step d d'"

lemma same_tasks_inv:
  assumes "backlog_inv d" "registry_inv d'" "db_tasks d' = db_tasks d"
    "pj_id ` set (db_projects d) \<subseteq> pj_id ` set (db_projects d')"
    "db_task_sequences d' = db_task_sequences d" "db_attachments d' = db_attachments d"
    "db_attachment_seq d' = db_attachment_seq d"
  shows "backlog_inv d'"
proof -
  have "was_issued d' = was_issued d" by (simp add: was_issued_def issued_def assms(5) fun_eq_iff)
  with assms show ?thesis by (auto simp: backlog_inv_def)
qed

lemma db_step_inv:
  assumes "db_step d d'" "backlog_inv d"
  shows "backlog_inv d' \<and> (\<forall>p. issued d p \<le> issued d' p)"
  using assms
proof cases
  case (add_project rec Abs git now req p)
  have r: "registry_inv d" using assms(2) by (rule backlog_invD)
  note c = Registry_Add_cases [OF add_project r]
  then obtain m where "git (pj_path p) = Some m" by blast
  with c Registry_Add_ok [of Abs req "pj_path p" git m d rec now] add_project
  have "db_projects d' = db_projects d @ [p]" "db_tasks d' = db_tasks d"
     "db_task_sequences d' = db_task_sequences d" "db_attachments d' = db_attachments d"
     "db_attachment_seq d' = db_attachment_seq d" by auto
  with same_tasks_inv [OF assms(2) Registry_Add_inv [OF r add_project]] show ?thesis
    by (auto simp: issued_def)
next
  case (remove_project rec now i)
  obtain p where "GetProject d i = Some p"
    using remove_project by (auto simp: Registry_Remove_def split: option.splits)
  from Registry_Remove_ok [OF this, of rec now] remove_project
  have e: "db_projects d' = filter (\<lambda>p. pj_id p \<noteq> i) (db_projects d)"
     "db_tasks d' = filter (\<lambda>t. tk_project_id t \<noteq> i) (db_tasks d)"
     "db_attachments d' = filter (\<lambda>a. at_task_id a \<notin>
        tk_id ` {t \<in> set (db_tasks d). tk_project_id t = i}) (db_attachments d)"
     "db_attachment_seq d' = db_attachment_seq d"
     "db_task_sequences d' = db_task_sequences d" by auto
  have "registry_inv d'" by (rule Registry_Remove_inv [OF backlog_invD(1) [OF assms(2)] remove_project])
  moreover have "was_issued d' = was_issued d" by (simp add: was_issued_def issued_def e fun_eq_iff)
  ultimately show ?thesis
    using assms(2) by (auto simp: backlog_inv_def e distinct_map_filterI issued_def image_iff) blast
next
  case (project_transition rec now now2 i a p)
  obtain sp to where g: "GetProject d i = Some sp" "project_CanTransition (pj_state sp) a = Some to"
    using project_transition by (auto simp: Registry_Transition_def split: option.splits)
  from Registry_Transition_ok [OF g, of rec now now2] project_transition
  have e: "db_projects d' = update_where (\<lambda>p. pj_id p = i)
       (\<lambda>p. p\<lparr>pj_state := to, pj_updated_at := rfc3339nano now\<rparr>) (db_projects d)"
     "db_tasks d' = db_tasks d" "db_task_sequences d' = db_task_sequences d"
     "db_attachments d' = db_attachments d" "db_attachment_seq d' = db_attachment_seq d" by auto
  have "pj_id ` set (db_projects d) \<subseteq> pj_id ` set (db_projects d')"
    unfolding e(1) by (simp add: image_update_where)
  with same_tasks_inv [OF assms(2) Registry_Transition_inv [OF backlog_invD(1) [OF assms(2)] project_transition]] e
  show ?thesis by (auto simp: issued_def)
next
  case (add_task rec fs has_dir arts now treq arts' ta)
  then show ?thesis using assms(2) by (cases ta) (auto dest: Backlog_Add_inv)
next
  case (task_transition rec now i a t)
  then show ?thesis using assms(2) by (auto dest: Backlog_Transition_inv)
qed

lemma db_steps_inv:
  "db_step\<^sup>*\<^sup>* d d' \<Longrightarrow> backlog_inv d \<Longrightarrow> backlog_inv d' \<and> (\<forall>p. issued d p \<le> issued d' p)"
proof (induction rule: rtranclp_induct)
  case (step d1 d2)
  then show ?case using db_step_inv [of d1 d2] order_trans by blast
qed simp

definition settled :: "string \<Rightarrow> string \<Rightarrow> string \<Rightarrow> db \<Rightarrow> bool" where
  "settled p i s d \<longleftrightarrow>
     backlog_inv d \<and> was_issued d p i \<and> (\<forall>t \<in> set (db_tasks d). tk_id t = i \<longrightarrow> tk_state t = s)"

text \<open>Every operation but a transition of the task itself leaves the rows of older tasks alone.\<close>

lemma db_step_tasks:
  assumes "db_step d d'" "backlog_inv d" "t' \<in> set (db_tasks d')"
  shows "t' \<in> set (db_tasks d) \<or>
    (\<exists>p. tk_id t' = task_id p (Suc (issued d p))) \<or>
    (\<exists>st a. st \<in> set (db_tasks d) \<and> tk_id st = tk_id t' \<and>
       task_CanTransition (tk_state st) a = Some (tk_state t'))"
  using assms(1)
proof cases
  case (add_project rec Abs git now req p)
  note c = Registry_Add_cases [OF add_project backlog_invD(1) [OF assms(2)]]
  then obtain m where "git (pj_path p) = Some m" by blast
  with c Registry_Add_ok [of Abs req "pj_path p" git m d rec now] add_project assms(3)
  show ?thesis by auto
next
  case (remove_project rec now i)
  obtain p where "GetProject d i = Some p"
    using remove_project by (auto simp: Registry_Remove_def split: option.splits)
  from Registry_Remove_ok [OF this, of rec now] remove_project assms(3) show ?thesis by auto
next
  case (project_transition rec now now2 i a p)
  obtain sp to where "GetProject d i = Some sp" "project_CanTransition (pj_state sp) a = Some to"
    using project_transition by (auto simp: Registry_Transition_def split: option.splits)
  from Registry_Transition_ok [OF this, of rec now now2] project_transition assms(3)
  show ?thesis by auto
next
  case (add_task rec fs has_dir arts now treq arts' ta)
  obtain t atts where "ta = (t, atts)" by fastforce
  with add_task have a: "Backlog_Add rec fs has_dir arts d now treq = (arts', Inr ((t, atts), d'))"
    by simp
  with Backlog_Add_cases [OF a assms(2)]
    Backlog_Add_ok [OF assms(2), of treq fs has_dir arts arts' atts rec now] assms(3)
  show ?thesis by auto
next
  case (task_transition rec now i a t)
  obtain st to where g: "GetTask d i = Some st" "task_CanTransition (tk_state st) a = Some to"
    using task_transition by (auto simp: Backlog_Transition_def split: option.splits)
  from Backlog_Transition_ok [OF g, of rec now] task_transition assms(3) GetTask_Some [OF g(1)] g(2)
  show ?thesis by (auto simp: set_update_where split: if_splits)
qed

lemma settled_step:
  assumes "db_step d d'" "settled p i s d" "task_IsTerminal s"
  shows "settled p i s d'"
proof -
  have inv: "backlog_inv d" using assms(2) by (simp add: settled_def)
  note n = db_step_inv [OF assms(1) inv]
  have "tk_state t' = s" if t': "t' \<in> set (db_tasks d')" "tk_id t' = i" for t'
    using db_step_tasks [OF assms(1) inv t'(1)]
  proof (elim disjE exE conjE)
    fix q assume "tk_id t' = task_id q (Suc (issued d q))"
    then have "was_issued d p (task_id q (Suc (issued d q)))"
      using assms(2) t'(2) by (simp add: settled_def)
    then show ?thesis using was_issued_project not_was_issued_Suc by blast
  next
    fix st a assume "st \<in> set (db_tasks d)" "tk_id st = tk_id t'"
      and c: "task_CanTransition (tk_state st) a = Some (tk_state t')"
    then have "tk_state st = s" using assms(2) t'(2) by (simp add: settled_def)
    with c task_lifecycle.final_stuck [OF assms(3)] show ?thesis by simp
  qed (use assms(2) t'(2) in \<open>auto simp: settled_def\<close>)
  moreover have "was_issued d' p i"
    using n assms(2) was_issued_mono by (auto simp: settled_def)
  ultimately show ?thesis using n by (simp add: settled_def)
qed

lemma settled_steps:
  "db_step\<^sup>*\<^sup>* d d' \<Longrightarrow> settled p i s d \<Longrightarrow> task_IsTerminal s \<Longrightarrow> settled p i s d'"
  by (induction rule: rtranclp_induct) (auto intro: settled_step)

section \<open>An example history\<close>

definition demo_fs :: file_system where
  "demo_fs = \<lparr>fs_read = (\<lambda>p. if p = ''/a.txt'' then Some (''h1'', 3) else None),
     fs_mime = (\<lambda>e. if e = ''.txt'' then ''text/plain'' else '''')\<rparr>"

definition demo_project :: project_req where
  "demo_project = \<lparr>rq_path = ''/r/My App'', rq_name = '''', rq_profile = ''''\<rparr>"

definition demo_task :: task_req where
  "demo_task = \<lparr>tr_project = ''my-app'', tr_description = ''do it'', tr_title = '''',
     tr_priority = '''',
     tr_attachments = [\<lparr>ai_path = ''/a.txt'', ai_filename = '''', ai_role = ''''\<rparr>]\<rparr>"

definition demo_db1 :: db where
  "demo_db1 = snd (projr (Registry_Add True Some (\<lambda>_. Some '''') empty_db 0 demo_project))"

definition demo_db2 :: db where
  "demo_db2 = snd (projr (snd (Backlog_Add True demo_fs True [] demo_db1 0 demo_task)))"

definition demo_db3 :: db where
  "demo_db3 = snd (projr (Backlog_Transition True demo_db2 0 ''my-app-1'' ''cancel''))"

definition demo_db4 :: db where
  "demo_db4 = projr (Registry_Remove True demo_db3 0 ''my-app'')"

definition demo_db5 :: db where
  "demo_db5 = snd (projr (Registry_Add True Some (\<lambda>_. Some '''') demo_db4 0 demo_project))"

lemma demo_strings:
  "slugify ''My App'' = ''my-app''" "filepath_Base ''/r/My App'' = ''My App''"
  "show_nat (Suc 0) = ''1''" "show_nat (Suc (Suc 0)) = ''2''" "TrimSpace ''do it'' = ''do it''"
  "filepath_Base ''/a.txt'' = ''a.txt''" "filepath_Ext ''a.txt'' = ''.txt''"
  by code_simp+

lemmas demo_ops =
  Let_def demo_strings demo_project_def empty_db_def Registry_Add_def GetProjectByPath_def
  uniqueID_def GetProject_def profile_IsValid_def createProject_def auditProjectTx_def
  recordInto_def audit_row_def demo_task_def demo_fs_def Backlog_Add_def storeAttachment_def
  mimeTypeFor_def task_nextID_def NextTaskSeq_def createTask_def createAttachment_def auditTaskTx_def
  Backlog_Transition_def GetTask_def task_CanTransition_def task_IsTerminal_def updateTaskState_def
  count_where_def Registry_Remove_def deleteProject_def

lemma demo_run1:
  "Registry_Add True Some (\<lambda>_. Some '''') empty_db 0 demo_project
     = Inr (hd (db_projects demo_db1), demo_db1)"
  by (simp add: demo_db1_def demo_ops)

lemma demo_run2:
  "\<exists>t as. Backlog_Add True demo_fs True [] demo_db1 0 demo_task = ([''h1''], Inr ((t, as), demo_db2)) \<and>
     db_tasks demo_db2 = [t] \<and> tk_id t = ''my-app-1'' \<and> tk_state t = TaskNew"
  by (simp add: demo_db2_def demo_db1_def demo_ops)

lemma demo_run3:
  "\<exists>t. Backlog_Transition True demo_db2 0 ''my-app-1'' ''cancel'' = Inr (t, demo_db3) \<and>
     map tk_id (db_tasks demo_db3) = [''my-app-1''] \<and> map tk_state (db_tasks demo_db3) = [TaskCancelled]"
  by (simp add: demo_db3_def demo_db2_def demo_db1_def demo_ops)

lemma demo_run4:
  "Registry_Remove True demo_db3 0 ''my-app'' = Inr demo_db4 \<and> db_tasks demo_db4 = []"
  by (simp add: demo_db4_def demo_db3_def demo_db2_def demo_db1_def demo_ops)

lemma demo_run5:
  "\<exists>p. Registry_Add True Some (\<lambda>_. Some '''') demo_db4 0 demo_project = Inr (p, demo_db5)"
  by (simp add: demo_db5_def demo_db4_def demo_db3_def demo_db2_def demo_db1_def demo_ops)

lemma demo_run6:
  "\<exists>t as d. Backlog_Add True demo_fs True [] demo_db5 0 demo_task = ([''h1''], Inr ((t, as), d)) \<and>
     tk_id t = ''my-app-2''"
  by (simp add: demo_db5_def demo_db4_def demo_db3_def demo_db2_def demo_db1_def demo_ops)

definition demo_db6 :: db where
  "demo_db6 = snd (projr (snd (Backlog_Add True demo_fs True [] demo_db3 0 demo_task)))"

lemma demo_run7:
  "\<exists>t as. Backlog_Add True demo_fs True [] demo_db3 0 demo_task = ([''h1''], Inr ((t, as), demo_db6)) \<and>
     db_tasks demo_db6 = db_tasks demo_db3 @ [t]"
  by (simp add: demo_db6_def demo_db3_def demo_db2_def demo_db1_def demo_ops)

lemma demo_steps:
  "db_step\<^sup>*\<^sup>* empty_db demo_db2" "db_step\<^sup>*\<^sup>* demo_db2 demo_db3" "db_step\<^sup>*\<^sup>* demo_db3 demo_db5"
proof -
  have "db_step empty_db demo_db1" using demo_run1 by (rule db_step.add_project)
  moreover have "db_step demo_db1 demo_db2" using demo_run2 by (auto intro: db_step.add_task)
  ultimately show "db_step\<^sup>*\<^sup>* empty_db demo_db2" by (meson converse_rtranclp_into_rtranclp r_into_rtranclp)
  show "db_step\<^sup>*\<^sup>* demo_db2 demo_db3" using demo_run3 by (auto intro: db_step.task_transition)
  have "db_step demo_db3 demo_db4" using demo_run4 by (auto intro: db_step.remove_project)
  moreover have "db_step demo_db4 demo_db5" using demo_run5 by (auto intro: db_step.add_project)
  ultimately show "db_step\<^sup>*\<^sup>* demo_db3 demo_db5" by (meson converse_rtranclp_into_rtranclp r_into_rtranclp)
qed

section \<open>Properties\<close>

text \<open>In every database that the two services can produce, project ids, project paths and task
  ids are unique, every task belongs to a registered project, every attachment to a task, every
  state is a known one, and every task id is its project's id with a sequence number that the
  project's counter has issued.\<close>

theorem backlog_well_formed:
  assumes "db_step\<^sup>*\<^sup>* empty_db d"
  shows "distinct (map pj_id (db_projects d)) \<and> distinct (map pj_path (db_projects d)) \<and>
    distinct (map tk_id (db_tasks d)) \<and>
    (\<forall>t \<in> set (db_tasks d). tk_project_id t \<in> pj_id ` set (db_projects d) \<and>
       task_IsValidState (tk_state t) \<and>
       (\<exists>n m. map_of (db_task_sequences d) (tk_project_id t) = Some m \<and> 1 \<le> n \<and> n \<le> m \<and>
          tk_id t = tk_project_id t @ ''-'' @ show_nat n)) \<and>
    (\<forall>p \<in> set (db_projects d). project_IsValidState (pj_state p)) \<and>
    (\<forall>a \<in> set (db_attachments d). at_task_id a \<in> tk_id ` set (db_tasks d))"
proof -
  have inv: "backlog_inv d" using db_steps_inv [OF assms backlog_inv_empty] by simp
  have "\<exists>n m. map_of (db_task_sequences d) p = Some m \<and> 1 \<le> n \<and> n \<le> m \<and>
          i = p @ ''-'' @ show_nat n" if "was_issued d p i" for p i
    using that by (cases "map_of (db_task_sequences d) p")
      (auto simp: was_issued_def issued_def task_id_def)
  with inv show ?thesis by (simp add: backlog_inv_def registry_inv_def)
qed

theorem backlog_well_formed_witness:
  "distinct (map tk_id (db_tasks demo_db5))"
  using backlog_well_formed [of demo_db5] demo_steps by (meson rtranclp_trans)

text \<open>C23: A task id is never issued twice: in any history of registrations, removals, transitions and
  new tasks, a task added later has another id than one that existed before, even when that one
  was removed with its project in between.\<close>

theorem task_ids_never_reused:
  assumes "db_step\<^sup>*\<^sup>* empty_db d" "t \<in> set (db_tasks d)" "db_step\<^sup>*\<^sup>* d d'"
    and "Backlog_Add rec fs has_dir arts d' now req = (arts', Inr ((t', atts), d''))"
  shows "tk_id t' \<noteq> tk_id t"
proof
  assume eq: "tk_id t' = tk_id t"
  have inv: "backlog_inv d" using db_steps_inv [OF assms(1) backlog_inv_empty] by simp
  note n = db_steps_inv [OF assms(3) inv]
  then have inv': "backlog_inv d'" by simp
  from Backlog_Add_cases [OF assms(4) inv'] Backlog_Add_ok [OF inv', of req fs has_dir arts arts' atts rec now]
    assms(4)
  have "tk_id t' = task_id (tr_project req) (Suc (issued d' (tr_project req)))" by auto
  moreover have "was_issued d' (tk_project_id t) (tk_id t)"
    using inv assms(2) n was_issued_mono by (fastforce simp: backlog_inv_def)
  ultimately show False using eq was_issued_project not_was_issued_Suc by metis
qed

theorem task_ids_never_reused_witness:
  "\<exists>t \<in> set (db_tasks demo_db2). \<exists>t' as d. tk_id t = ''my-app-1'' \<and>
     Backlog_Add True demo_fs True [] demo_db5 0 demo_task = ([''h1''], Inr ((t', as), d)) \<and>
     tk_id t' \<noteq> tk_id t"
proof -
  obtain t where t: "t \<in> set (db_tasks demo_db2)" "tk_id t = ''my-app-1''" using demo_run2 by auto
  obtain t' as d where a: "Backlog_Add True demo_fs True [] demo_db5 0 demo_task = ([''h1''], Inr ((t', as), d))"
    using demo_run6 by blast
  have "db_step\<^sup>*\<^sup>* demo_db2 demo_db5" using demo_steps by (meson rtranclp_trans)
  from task_ids_never_reused [OF demo_steps(1) t(1) this a] t a show ?thesis by blast
qed

text \<open>A terminal task (CANCELLED, COMPLETED, FAILED) keeps its state through every later operation
  of the services, for as long as its row exists.\<close>

theorem terminal_task_absorbing:
  assumes "db_step\<^sup>*\<^sup>* empty_db d" "t \<in> set (db_tasks d)" "task_IsTerminal (tk_state t)"
    and "db_step\<^sup>*\<^sup>* d d'" "t' \<in> set (db_tasks d')" "tk_id t' = tk_id t"
  shows "tk_state t' = tk_state t"
proof -
  have inv: "backlog_inv d" using db_steps_inv [OF assms(1) backlog_inv_empty] by simp
  have "tk_state s = tk_state t" if "s \<in> set (db_tasks d)" "tk_id s = tk_id t" for s
    using that assms(2) backlog_invD(2) [OF inv] by (metis distinct_map inj_onD)
  moreover have "was_issued d (tk_project_id t) (tk_id t)"
    using inv assms(2) by (simp add: backlog_inv_def)
  ultimately have "settled (tk_project_id t) (tk_id t) (tk_state t) d"
    using inv by (simp add: settled_def)
  from settled_steps [OF assms(4) this assms(3)] assms(5,6) show ?thesis by (simp add: settled_def)
qed

theorem terminal_task_absorbing_witness:
  "tk_state (hd (db_tasks demo_db6)) = TaskCancelled"
proof -
  have s: "db_step\<^sup>*\<^sup>* empty_db demo_db3" using demo_steps by (meson rtranclp_trans)
  have d6: "db_step\<^sup>*\<^sup>* demo_db3 demo_db6" "db_tasks demo_db3 \<noteq> []" "db_tasks demo_db6 \<noteq> []"
    "tk_id (hd (db_tasks demo_db6)) = tk_id (hd (db_tasks demo_db3))"
    using demo_run7 demo_run3 by (auto intro: db_step.add_task)
  have t: "tk_state (hd (db_tasks demo_db3)) = TaskCancelled" using demo_run3 by auto
  from terminal_task_absorbing [OF s hd_in_set [OF d6(2)] _ d6(1) hd_in_set [OF d6(3)] d6(4)] t
  show ?thesis by (simp add: task_IsTerminal_def)
qed

text \<open>The lifecycle table: a transition is refused, with the database unchanged, exactly when the
  task is terminal or the table has no entry, and cancel is possible from every other state.\<close>

theorem task_transition_outcome:
  assumes "GetTask d i = Some st"
  shows "(case task_CanTransition (tk_state st) action of
      None \<Rightarrow> Backlog_Transition rec d now i action = Inl (Task_InvalidTransition (tk_state st) action)
    | Some to \<Rightarrow> \<exists>d'. Backlog_Transition rec d now i action = Inr (st\<lparr>tk_state := to\<rparr>, d') \<and>
        db_tasks d' = update_where (\<lambda>t. tk_id t = i)
          (\<lambda>t. t\<lparr>tk_state := to, tk_updated_at := rfc3339nano now\<rparr>) (db_tasks d) \<and>
        length (db_audit d') = length (db_audit d) + (if rec then 1 else 0)) \<and>
    (\<not> task_IsTerminal (tk_state st) \<longrightarrow> task_CanTransition (tk_state st) ''cancel'' = Some TaskCancelled)"
proof (cases "task_CanTransition (tk_state st) action")
  case None
  with assms show ?thesis by (simp add: Backlog_Transition_def task_CanTransition_def)
next
  case (Some to)
  from Backlog_Transition_ok [OF assms Some, of rec now] Some show ?thesis
    by (auto simp: task_CanTransition_def)
qed

theorem task_transition_outcome_witness:
  "\<exists>d'. Backlog_Transition True demo_db2 0 ''my-app-1'' ''cancel''
     = Inr (hd (db_tasks demo_db2)\<lparr>tk_state := TaskCancelled\<rparr>, d')"
proof -
  have g: "GetTask demo_db2 ''my-app-1'' = Some (hd (db_tasks demo_db2))"
    using demo_run2 by (auto simp: GetTask_def)
  have "task_CanTransition (tk_state (hd (db_tasks demo_db2))) ''cancel'' = Some TaskCancelled"
    using demo_run2 by (auto simp: task_CanTransition_def task_IsTerminal_def)
  with task_transition_outcome [OF g, where action = "''cancel''" and rec = True and now = 0] show ?thesis by auto
qed

end
