(* ===== verification/Task_Specification.thy ===== *)
theory Task_Specification
  imports Task_Backlog
begin

text \<open>
  \<^verbatim>\<open>src/internal/task/specification.go\<close> and \<^verbatim>\<open>src/internal/storage/specifications.go\<close>: compiled task
  specifications, their validation, and the versioned store with its lock. The JSON payload
  column is represented by the value that is encoded (strings are taken to be valid UTF-8, so
  that decoding gives it back), and a timestamp column by the instant whose RFC3339Nano string it
  holds, \<open>None\<close> being the empty string.
\<close>

section \<open>Data\<close>

record acceptance_criterion =
  ac_ID :: string
  ac_Statement :: string

record visual_requirements =
  vr_required :: bool
  vr_viewport :: string
  vr_theme :: string
  vr_locale :: string
  vr_density :: string
  vr_references :: "string list"

record spec_payload =
  pl_non_goals :: "string list"
  pl_assumptions :: "string list"
  pl_constraints :: "string list"
  pl_proposed_scope :: "string list"
  pl_visual :: visual_requirements

record task_spec =
  sp_task :: string
  sp_version :: int
  sp_objective :: string
  sp_criteria :: "acceptance_criterion list"
  sp_non_goals :: "string list"
  sp_assumptions :: "string list"
  sp_constraints :: "string list"
  sp_risk :: string
  sp_complexity :: string
  sp_proposed_scope :: "string list"
  sp_visual :: visual_requirements
  sp_locked :: bool
  sp_locked_at :: time
  sp_locked_by :: string
  sp_created_at :: time
  sp_created_by :: string

section \<open>Validation\<close>

definition ascii_space :: "char \<Rightarrow> bool" where
  "ascii_space c \<longleftrightarrow> c = CHR '' '' \<or> c = CHR 0x09 \<or> c = CHR 0x0A \<or> c = CHR 0x0D"

definition trim :: "string \<Rightarrow> string" where
  "trim s = rev (dropWhile ascii_space (rev (dropWhile ascii_space s)))"

definition risk_IsValid :: "string \<Rightarrow> bool" where
  "risk_IsValid r \<longleftrightarrow> r \<in> set ['''', ''R0'', ''R1'', ''R2'', ''R3'', ''R4'']"

definition complexity_IsValid :: "string \<Rightarrow> bool" where
  "complexity_IsValid c \<longleftrightarrow> c \<in> set ['''', ''C0'', ''C1'', ''C2'', ''C3'']"

datatype spec_violation =
    TaskIDRequired
  | ObjectiveRequired
  | CriterionRequired
  | CriterionNoID nat
  | DuplicateCriterionID string
  | CriterionNoStatement string
  | UnknownRisk string
  | UnknownComplexity string

text \<open>The loop over the criteria; \<open>i\<close> is the index and \<open>seen\<close> the set of ids so far.\<close>

fun criteria_errors :: "nat \<Rightarrow> string list \<Rightarrow> acceptance_criterion list \<Rightarrow> spec_violation list" where
  "criteria_errors i seen [] = []"
| "criteria_errors i seen (ac # acs) =
     (if trim (ac_ID ac) = '''' then CriterionNoID (i + 1) # criteria_errors (i + 1) seen acs
      else
        let k = trim (ac_ID ac)
        in (if k \<in> set seen then [DuplicateCriterionID k] else [])
           @ (if trim (ac_Statement ac) = '''' then [CriterionNoStatement k] else [])
           @ criteria_errors (i + 1) (k # seen) acs)"

definition spec_errors :: "task_spec \<Rightarrow> spec_violation list" where
  "spec_errors s =
     (if sp_task s = '''' then [TaskIDRequired] else [])
     @ (if trim (sp_objective s) = '''' then [ObjectiveRequired] else [])
     @ (if sp_criteria s = [] then [CriterionRequired] else [])
     @ criteria_errors 0 [] (sp_criteria s)
     @ (if risk_IsValid (sp_risk s) then [] else [UnknownRisk (sp_risk s)])
     @ (if complexity_IsValid (sp_complexity s) then [] else [UnknownComplexity (sp_complexity s)])"

definition ValidateSpecification ::
    "task_spec \<Rightarrow> (spec_violation list, task_spec) result" where
  "ValidateSpecification s =
     (if spec_errors s \<noteq> [] then Inl (spec_errors s)
      else Inr (s\<lparr>sp_objective := trim (sp_objective s),
        sp_criteria := map (\<lambda>ac. \<lparr>ac_ID = trim (ac_ID ac), ac_Statement = trim (ac_Statement ac)\<rparr>)
          (sp_criteria s)\<rparr>))"

section \<open>Rows\<close>

record spec_row =
  sr_task :: string
  sr_version :: int
  sr_objective :: string
  sr_risk :: string
  sr_complexity :: string
  sr_payload :: spec_payload
  sr_locked :: bool
  sr_locked_at :: "time option"
  sr_locked_by :: string
  sr_created_at :: time
  sr_created_by :: string

record criterion_row =
  cr_task :: string
  cr_version :: int
  cr_id :: string
  cr_statement :: string
  cr_ordinal :: nat

record spec_store =
  ss_db :: db
  ss_specs :: "spec_row list"
  ss_criteria :: "criterion_row list"
  ss_sequences :: "(string \<times> nat) list"

datatype spec_error =
    ErrInvalidSpecification "spec_violation list"
  | ErrSpecificationLocked
  | ErrSpecificationNotFound
  | SpecTaskRequired
  | SpecVersionInvalid
  | SpecVersionCorrupt
  | CriterionIDRequired
  | Spec_Storage db_error

definition spec_key :: "string \<Rightarrow> int \<Rightarrow> spec_row \<Rightarrow> bool" where
  "spec_key t v r \<longleftrightarrow> sr_task r = t \<and> sr_version r = v"

definition task_exists :: "spec_store \<Rightarrow> string \<Rightarrow> bool" where
  "task_exists s t \<longleftrightarrow> t \<in> tk_id ` set (db_tasks (ss_db s))"

definition NextSpecificationVersion :: "spec_store \<Rightarrow> string \<Rightarrow> (spec_error, int \<times> spec_store) result" where
  "NextSpecificationVersion s taskID =
     (if taskID = '''' then Inl SpecTaskRequired
      else if \<not> task_exists s taskID then Inl (Spec_Storage ConstraintViolation)
      else
        let rows = upsert_seq taskID (ss_sequences s)
        in case map_of rows taskID of
             None \<Rightarrow> Inl (Spec_Storage ErrNoRows)
           | Some v \<Rightarrow> if v \<le> 0 then Inl SpecVersionCorrupt
               else Inr (int v, s\<lparr>ss_sequences := rows\<rparr>))"

fun insertCriteria :: "string \<Rightarrow> int \<Rightarrow> criterion_row list \<Rightarrow> criterion_row list
    \<Rightarrow> (spec_error, criterion_row list) result" where
  "insertCriteria t v [] table = Inr table"
| "insertCriteria t v (ac # acs) table =
     (if cr_id ac = '''' then Inl CriterionIDRequired
      else if \<exists>r \<in> set table. cr_task r = t \<and> cr_version r = v \<and> cr_id r = cr_id ac
      then Inl (Spec_Storage ConstraintViolation)
      else insertCriteria t v acs (table @ [ac\<lparr>cr_task := t, cr_version := v\<rparr>]))"

definition SaveSpecification ::
    "spec_store \<Rightarrow> spec_row \<Rightarrow> criterion_row list \<Rightarrow> (spec_error, spec_store) result" where
  "SaveSpecification s row acs =
     (if sr_task row = '''' then Inl SpecTaskRequired
      else if sr_version row < 1 then Inl SpecVersionInvalid
      else
        let key = spec_key (sr_task row) (sr_version row);
            written =
              (case find key (ss_specs s) of
                 Some old \<Rightarrow>
                   if sr_locked old then Inl ErrSpecificationLocked
                   else Inr (update_where key (\<lambda>r. r\<lparr>sr_objective := sr_objective row,
                     sr_risk := sr_risk row, sr_complexity := sr_complexity row,
                     sr_payload := sr_payload row, sr_created_by := sr_created_by row,
                     sr_created_at := sr_created_at row\<rparr>) (ss_specs s))
               | None \<Rightarrow>
                   if \<not> task_exists s (sr_task row) then Inl (Spec_Storage ConstraintViolation)
                   else Inr (ss_specs s @
                     [row\<lparr>sr_locked := False, sr_locked_at := None, sr_locked_by := ''''\<rparr>]))
        in case written of
             Inl e \<Rightarrow> Inl e
           | Inr specs \<Rightarrow>
               (case insertCriteria (sr_task row) (sr_version row) acs
                   (filter (\<lambda>r. \<not> (cr_task r = sr_task row \<and> cr_version r = sr_version row))
                      (ss_criteria s)) of
                  Inl e \<Rightarrow> Inl e
                | Inr criteria \<Rightarrow> Inr (s\<lparr>ss_specs := specs, ss_criteria := criteria\<rparr>)))"

definition listAcceptanceCriteria :: "spec_store \<Rightarrow> string \<Rightarrow> int \<Rightarrow> criterion_row list" where
  "listAcceptanceCriteria s t v =
     sort_key cr_ordinal (sort_key cr_id
       (filter (\<lambda>r. cr_task r = t \<and> cr_version r = v) (ss_criteria s)))"

definition GetSpecification ::
    "spec_store \<Rightarrow> string \<Rightarrow> int \<Rightarrow> (spec_error, spec_row \<times> criterion_row list) result" where
  "GetSpecification s t v =
     (case find (spec_key t v) (ss_specs s) of
        None \<Rightarrow> Inl ErrSpecificationNotFound
      | Some r \<Rightarrow> Inr (r, listAcceptanceCriteria s t v))"

text \<open>\<^verbatim>\<open>COALESCE(MAX(version), 0)\<close> over the versions of a task.\<close>

definition latestVersion :: "spec_store \<Rightarrow> string \<Rightarrow> int" where
  "latestVersion s t =
     (case map sr_version (filter (\<lambda>r. sr_task r = t) (ss_specs s)) of
        [] \<Rightarrow> 0
      | v # vs \<Rightarrow> fold max vs v)"

definition GetLatestSpecification ::
    "spec_store \<Rightarrow> string \<Rightarrow> (spec_error, spec_row \<times> criterion_row list) result" where
  "GetLatestSpecification s t =
     (let v = latestVersion s t
      in if v = 0 then Inl ErrSpecificationNotFound else GetSpecification s t v)"

definition ListSpecificationVersions :: "spec_store \<Rightarrow> string \<Rightarrow> int list" where
  "ListSpecificationVersions s t = sort (map sr_version (filter (\<lambda>r. sr_task r = t) (ss_specs s)))"

definition LockSpecification ::
    "spec_store \<Rightarrow> time \<Rightarrow> string \<Rightarrow> int \<Rightarrow> string \<Rightarrow> (spec_error, spec_store) result" where
  "LockSpecification s now t v lockedBy =
     (if count_where (spec_key t v) (ss_specs s) = 0 then Inl ErrSpecificationNotFound
      else Inr (s\<lparr>ss_specs := update_where (spec_key t v)
        (\<lambda>r. r\<lparr>sr_locked := True,
               sr_locked_at := (if sr_locked_at r = None then Some now else sr_locked_at r),
               sr_locked_by := (if sr_locked_by r = '''' then lockedBy else sr_locked_by r)\<rparr>)
        (ss_specs s)\<rparr>))"

section \<open>The store service\<close>

definition acRows :: "task_spec \<Rightarrow> criterion_row list" where
  "acRows spec =
     map (\<lambda>(i, ac). \<lparr>cr_task = sp_task spec, cr_version = sp_version spec, cr_id = ac_ID ac,
            cr_statement = ac_Statement ac, cr_ordinal = i\<rparr>)
       (enumerate 0 (sort_key ac_ID (sp_criteria spec)))"

definition encodePayload :: "task_spec \<Rightarrow> spec_payload" where
  "encodePayload spec =
     \<lparr>pl_non_goals = sp_non_goals spec, pl_assumptions = sp_assumptions spec,
      pl_constraints = sp_constraints spec, pl_proposed_scope = sp_proposed_scope spec,
      pl_visual = sp_visual spec\<rparr>"

definition rowToSpec :: "spec_row \<Rightarrow> criterion_row list \<Rightarrow> task_spec" where
  "rowToSpec row acs =
     \<lparr>sp_task = sr_task row, sp_version = sr_version row, sp_objective = sr_objective row,
      sp_criteria = map (\<lambda>a. \<lparr>ac_ID = cr_id a, ac_Statement = cr_statement a\<rparr>) acs,
      sp_non_goals = pl_non_goals (sr_payload row), sp_assumptions = pl_assumptions (sr_payload row),
      sp_constraints = pl_constraints (sr_payload row), sp_risk = sr_risk row,
      sp_complexity = sr_complexity row, sp_proposed_scope = pl_proposed_scope (sr_payload row),
      sp_visual = pl_visual (sr_payload row), sp_locked = sr_locked row,
      sp_locked_at = (case sr_locked_at row of None \<Rightarrow> zero_time | Some t \<Rightarrow> t),
      sp_locked_by = sr_locked_by row, sp_created_at = sr_created_at row,
      sp_created_by = sr_created_by row\<rparr>"

definition spec_audit :: "bool \<Rightarrow> spec_store \<Rightarrow> time \<Rightarrow> string \<Rightarrow> string \<Rightarrow> payload
    \<Rightarrow> (spec_error, spec_store) result" where
  "spec_audit rec s now eventType taskID p =
     (if \<not> rec then Inr s
      else case recordInto (ss_db s) now
          \<lparr>ae_id = 0, ae_ts = '''', ae_scope = ''task'', ae_scope_id = taskID, ae_type = eventType,
           ae_actor = ''user'', ae_payload = p\<rparr> of
        Inl e \<Rightarrow> Inl (Spec_Storage e)
      | Inr d \<Rightarrow> Inr (s\<lparr>ss_db := d\<rparr>))"

definition Spec_Save ::
    "bool \<Rightarrow> spec_store \<Rightarrow> time \<Rightarrow> task_spec \<Rightarrow> (spec_error, task_spec \<times> spec_store) result" where
  "Spec_Save rec s now spec0 =
     (case ValidateSpecification spec0 of
        Inl es \<Rightarrow> Inl (ErrInvalidSpecification es)
      | Inr spec1 \<Rightarrow>
     (case (if sp_version spec1 = 0 then NextSpecificationVersion s (sp_task spec1)
            else Inr (sp_version spec1, s)) of
        Inl e \<Rightarrow> Inl e
      | Inr (v, s1) \<Rightarrow>
        let spec = spec1\<lparr>sp_version := v\<rparr>
        in case SaveSpecification s1
             \<lparr>sr_task = sp_task spec, sr_version = v, sr_objective = sp_objective spec,
              sr_risk = sp_risk spec, sr_complexity = sp_complexity spec,
              sr_payload = encodePayload spec, sr_locked = False, sr_locked_at = None,
              sr_locked_by = '''', sr_created_at = now, sr_created_by = sp_created_by spec\<rparr>
             (acRows spec) of
             Inl e \<Rightarrow> Inl e
           | Inr s2 \<Rightarrow>
               (case spec_audit rec s2 now ''task.specification.saved'' (sp_task spec)
                   (PObj [(''version'', PInt v), (''objective'', PStr (sp_objective spec)),
                          (''acceptance_criteria'', PInt (int (length (sp_criteria spec)))),
                          (''risk'', PStr (sp_risk spec)),
                          (''complexity'', PStr (sp_complexity spec))]) of
                  Inl e \<Rightarrow> Inl e
                | Inr s3 \<Rightarrow> Inr (spec\<lparr>sp_created_at := now\<rparr>, s3))))"

definition Spec_Get :: "spec_store \<Rightarrow> string \<Rightarrow> int \<Rightarrow> (spec_error, task_spec) result" where
  "Spec_Get s t v =
     (case GetSpecification s t v of Inl e \<Rightarrow> Inl e | Inr (row, acs) \<Rightarrow> Inr (rowToSpec row acs))"

definition Spec_GetLatest :: "spec_store \<Rightarrow> string \<Rightarrow> (spec_error, task_spec) result" where
  "Spec_GetLatest s t =
     (case GetLatestSpecification s t of Inl e \<Rightarrow> Inl e | Inr (row, acs) \<Rightarrow> Inr (rowToSpec row acs))"

definition visualRequirementsEqual :: "visual_requirements \<Rightarrow> visual_requirements \<Rightarrow> bool" where
  "visualRequirementsEqual a b \<longleftrightarrow>
     vr_required a = vr_required b \<and> vr_viewport a = vr_viewport b \<and> vr_theme a = vr_theme b \<and>
     vr_locale a = vr_locale b \<and> vr_density a = vr_density b \<and> vr_references a = vr_references b"

definition specificationsSemanticallyEqual :: "task_spec \<Rightarrow> task_spec \<Rightarrow> bool" where
  "specificationsSemanticallyEqual a b \<longleftrightarrow>
     sp_objective a = sp_objective b \<and> sp_risk a = sp_risk b \<and> sp_complexity a = sp_complexity b \<and>
     sp_non_goals a = sp_non_goals b \<and> sp_assumptions a = sp_assumptions b \<and>
     sp_constraints a = sp_constraints b \<and> sp_proposed_scope a = sp_proposed_scope b \<and>
     visualRequirementsEqual (sp_visual a) (sp_visual b) \<and> sp_criteria a = sp_criteria b"

text \<open>
  The per-task mutex serialises calls of \<^verbatim>\<open>SaveIfChanged\<close> for one task, so a call is one step on
  the store. The boolean says whether a version was created.
\<close>

definition SaveIfChanged :: "bool \<Rightarrow> spec_store \<Rightarrow> time \<Rightarrow> task_spec
    \<Rightarrow> (spec_error, (task_spec \<times> bool) \<times> spec_store) result" where
  "SaveIfChanged rec s now spec =
     (case Spec_GetLatest s (sp_task spec) of
        Inr latest \<Rightarrow>
          if specificationsSemanticallyEqual spec latest then Inr ((latest, False), s)
          else (case Spec_Save rec s now (spec\<lparr>sp_version := 0\<rparr>) of
             Inl e \<Rightarrow> Inl e
           | Inr (saved, s') \<Rightarrow> Inr ((saved, True), s'))
      | Inl e \<Rightarrow>
          if e \<noteq> ErrSpecificationNotFound then Inl e
          else (case Spec_Save rec s now spec of
             Inl e \<Rightarrow> Inl e
           | Inr (saved, s') \<Rightarrow> Inr ((saved, True), s')))"

definition Spec_Lock :: "bool \<Rightarrow> spec_store \<Rightarrow> time \<Rightarrow> string \<Rightarrow> int \<Rightarrow> string
    \<Rightarrow> (spec_error, task_spec \<times> spec_store) result" where
  "Spec_Lock rec s now t v lockedBy =
     (case LockSpecification s now t v lockedBy of
        Inl e \<Rightarrow> Inl e
      | Inr s1 \<Rightarrow>
     (case spec_audit rec s1 now ''task.specification.locked'' t
         (PObj [(''version'', PInt v), (''by'', PStr lockedBy)]) of
        Inl e \<Rightarrow> Inl e
      | Inr s2 \<Rightarrow>
     (case Spec_Get s2 t v of Inl e \<Rightarrow> Inl e | Inr spec \<Rightarrow> Inr (spec, s2))))"

section \<open>Validation facts\<close>

lemma strip_hd:
  assumes "rev (dropWhile P (rev (dropWhile P s))) \<noteq> []"
  shows "\<not> P (hd (rev (dropWhile P (rev (dropWhile P s)))))"
proof -
  define t where "t = rev (dropWhile P (rev (dropWhile P s)))"
  obtain u where u: "dropWhile P s = t @ u"
    using takeWhile_dropWhile_id [of P "rev (dropWhile P s)"]
    unfolding t_def by (metis rev_append rev_rev_ident)
  have "t \<noteq> []" unfolding t_def by (rule assms)
  then have "hd t = hd (dropWhile P s)" "dropWhile P s \<noteq> []" by (simp_all add: u)
  with hd_dropWhile [of P s] have "\<not> P (hd t)" by simp
  then show ?thesis unfolding t_def .
qed

lemma dropWhile_fixed: "(xs \<noteq> [] \<Longrightarrow> \<not> P (hd xs)) \<Longrightarrow> dropWhile P xs = xs"
  by (cases xs) auto

lemma trim_idem [simp]: "trim (trim s) = trim s"
proof -
  have 1: "dropWhile ascii_space (trim s) = trim s"
    unfolding trim_def by (rule dropWhile_fixed, rule strip_hd)
  have 2: "dropWhile ascii_space (rev (trim s)) = rev (trim s)"
    unfolding trim_def rev_rev_ident by (rule dropWhile_fixed, rule hd_dropWhile)
  show ?thesis by (subst (1) trim_def) (simp add: 1 2)
qed

lemma criteria_errors_Nil:
  "criteria_errors i seen acs = [] \<longleftrightarrow>
     (\<forall>ac \<in> set acs. trim (ac_ID ac) \<noteq> '''' \<and> trim (ac_Statement ac) \<noteq> '''' \<and>
        trim (ac_ID ac) \<notin> set seen) \<and>
     distinct (map (\<lambda>ac. trim (ac_ID ac)) acs)"
  by (induction i seen acs rule: criteria_errors.induct) (auto simp: Let_def image_iff)

definition spec_valid :: "task_spec \<Rightarrow> bool" where
  "spec_valid s \<longleftrightarrow>
     sp_task s \<noteq> '''' \<and> trim (sp_objective s) \<noteq> '''' \<and> sp_criteria s \<noteq> [] \<and>
     (\<forall>ac \<in> set (sp_criteria s). trim (ac_ID ac) \<noteq> '''' \<and> trim (ac_Statement ac) \<noteq> '''') \<and>
     distinct (map (\<lambda>ac. trim (ac_ID ac)) (sp_criteria s)) \<and>
     risk_IsValid (sp_risk s) \<and> complexity_IsValid (sp_complexity s)"

lemma spec_errors_Nil: "spec_errors s = [] \<longleftrightarrow> spec_valid s"
  by (auto simp: spec_errors_def spec_valid_def criteria_errors_Nil)

definition normalise :: "task_spec \<Rightarrow> task_spec" where
  "normalise s = s\<lparr>sp_objective := trim (sp_objective s),
     sp_criteria := map (\<lambda>ac. \<lparr>ac_ID = trim (ac_ID ac), ac_Statement = trim (ac_Statement ac)\<rparr>)
       (sp_criteria s)\<rparr>"

lemma ValidateSpecification_eq:
  "ValidateSpecification s = (if spec_valid s then Inr (normalise s) else Inl (spec_errors s))"
  by (simp add: ValidateSpecification_def spec_errors_Nil normalise_def)

lemma normalise_simps [simp]:
  "sp_task (normalise s) = sp_task s" "sp_version (normalise s) = sp_version s"
  "sp_risk (normalise s) = sp_risk s" "sp_complexity (normalise s) = sp_complexity s"
  "sp_created_by (normalise s) = sp_created_by s"
  by (simp_all add: normalise_def)

lemma normalise_objective: "sp_objective (normalise s) = trim (sp_objective s)"
  by (simp add: normalise_def)

lemma normalise_idem [simp]: "normalise (normalise s) = normalise s"
  by (simp add: normalise_def comp_def)

lemma normalise_valid: "spec_valid s \<Longrightarrow> spec_valid (normalise s)"
  by (auto simp: spec_valid_def normalise_def comp_def)

lemma normalise_ids:
  "spec_valid s \<Longrightarrow> distinct (map ac_ID (sp_criteria (normalise s))) \<and>
     '''' \<notin> set (map ac_ID (sp_criteria (normalise s)))"
  by (auto simp: spec_valid_def normalise_def comp_def)

section \<open>The statements\<close>

lemma insertCriteria_ok:
  assumes "distinct (map cr_id acs)" "'''' \<notin> set (map cr_id acs)"
    and "\<forall>r \<in> set table. cr_task r = t \<and> cr_version r = v \<longrightarrow> cr_id r \<notin> set (map cr_id acs)"
  shows "insertCriteria t v acs table = Inr (table @ map (\<lambda>a. a\<lparr>cr_task := t, cr_version := v\<rparr>) acs)"
  using assms
proof (induction acs arbitrary: table)
  case (Cons a acs)
  let ?t = "table @ [a\<lparr>cr_task := t, cr_version := v\<rparr>]"
  have "insertCriteria t v (a # acs) table = insertCriteria t v acs ?t" using Cons.prems by auto
  moreover have "insertCriteria t v acs ?t
      = Inr (?t @ map (\<lambda>a. a\<lparr>cr_task := t, cr_version := v\<rparr>) acs)"
    by (rule Cons.IH) (use Cons.prems in auto)
  ultimately show ?case by simp
qed simp

lemma map_acRows:
  "map cr_id (acRows spec) = map ac_ID (sort_key ac_ID (sp_criteria spec))"
  "map cr_ordinal (acRows spec) = [0..<length (sp_criteria spec)]"
  "map (\<lambda>a. \<lparr>ac_ID = cr_id a, ac_Statement = cr_statement a\<rparr>) (acRows spec)
     = sort_key ac_ID (sp_criteria spec)"
  by (rule nth_equalityI; simp add: acRows_def nth_enumerate_eq)+

lemma acRows_key: "r \<in> set (acRows spec) \<Longrightarrow> cr_task r = sp_task spec \<and> cr_version r = sp_version spec"
  by (auto simp: acRows_def)

definition criteria_of :: "spec_store \<Rightarrow> string \<Rightarrow> int \<Rightarrow> criterion_row list" where
  "criteria_of s t v = filter (\<lambda>r. cr_task r = t \<and> cr_version r = v) (ss_criteria s)"

lemma acRows_ordered: "sort_key cr_ordinal (sort_key cr_id (acRows spec)) = acRows spec"
  by (simp add: sort_key_fixed map_acRows)

definition next_version :: "spec_store \<Rightarrow> string \<Rightarrow> int" where
  "next_version s t = int (case map_of (ss_sequences s) t of None \<Rightarrow> 1 | Some n \<Rightarrow> Suc n)"

text \<open>Every stored version was allocated by the counter of its task.\<close>

definition allocated :: "spec_store \<Rightarrow> bool" where
  "allocated s \<longleftrightarrow> (\<forall>r \<in> set (ss_specs s). 1 \<le> sr_version r \<and> sr_version r < next_version s (sr_task r))"

definition spec_inv :: "spec_store \<Rightarrow> bool" where
  "spec_inv s \<longleftrightarrow> distinct (map (\<lambda>r. (sr_task r, sr_version r)) (ss_specs s)) \<and>
     (\<forall>r \<in> set (ss_specs s). 1 \<le> sr_version r \<and> (sr_locked r \<longrightarrow> sr_locked_at r \<noteq> None))"

lemma spec_audit_ok:
  "ty \<noteq> '''' \<Longrightarrow> \<exists>d. spec_audit rec s now ty t p = Inr (s\<lparr>ss_db := d\<rparr>) \<and> db_tasks d = db_tasks (ss_db s)"
  by (auto simp: spec_audit_def recordInto_def intro: exI [of _ "ss_db s"])

lemma NextSpecificationVersion_ok:
  "t \<noteq> '''' \<Longrightarrow> task_exists s t \<Longrightarrow>
     \<exists>rows. NextSpecificationVersion s t = Inr (next_version s t, s\<lparr>ss_sequences := rows\<rparr>) \<and>
       map_of rows = (map_of (ss_sequences s))(t \<mapsto> nat (next_version s t))"
  by (auto simp: NextSpecificationVersion_def Let_def map_of_upsert_seq next_version_def
      split: option.splits)

lemma SaveSpecification_criteria:
  assumes "spec_valid spec" "sp_task spec' = sp_task spec" "sp_criteria spec' = sp_criteria (normalise spec)"
    and "t = sp_task spec'" "v = sp_version spec'"
  shows "insertCriteria t v (acRows spec') (filter (\<lambda>r. \<not> (cr_task r = t \<and> cr_version r = v)) table)
     = Inr (filter (\<lambda>r. \<not> (cr_task r = t \<and> cr_version r = v)) table @ acRows spec')"
proof -
  have "map (\<lambda>a. a\<lparr>cr_task := t, cr_version := v\<rparr>) (acRows spec') = acRows spec'"
    by (rule map_idI) (use acRows_key assms(4,5) in auto)
  moreover have "distinct (map cr_id (acRows spec'))" "'''' \<notin> set (map cr_id (acRows spec'))"
    using normalise_ids [OF assms(1)] assms(3) by (simp_all add: map_acRows distinct_map_sort_key)
  moreover have "\<forall>r \<in> set (filter (\<lambda>r. \<not> (cr_task r = t \<and> cr_version r = v)) table).
      cr_task r = t \<and> cr_version r = v \<longrightarrow> cr_id r \<notin> set (map cr_id (acRows spec'))" by auto
  ultimately show ?thesis using insertCriteria_ok [of "acRows spec'" _ t v] by simp
qed

section \<open>Saving\<close>

text \<open>The row that \<^verbatim>\<open>Save\<close> writes.\<close>

definition saved_row :: "task_spec \<Rightarrow> int \<Rightarrow> time \<Rightarrow> spec_row" where
  "saved_row spec v now =
     \<lparr>sr_task = sp_task spec, sr_version = v, sr_objective = sp_objective spec,
      sr_risk = sp_risk spec, sr_complexity = sp_complexity spec, sr_payload = encodePayload spec,
      sr_locked = False, sr_locked_at = None, sr_locked_by = '''', sr_created_at = now,
      sr_created_by = sp_created_by spec\<rparr>"

lemma encodePayload_version [simp]: "encodePayload (spec\<lparr>sp_version := v\<rparr>) = encodePayload spec"
  by (simp add: encodePayload_def)

lemma allocated_fresh: "allocated s \<Longrightarrow> find (spec_key t (next_version s t)) (ss_specs s) = None"
  by (force simp: find_None_all spec_key_def allocated_def)

lemma Spec_Save_new:
  assumes "spec_valid spec" "sp_version spec = 0" "task_exists s (sp_task spec)" "allocated s"
  defines "v \<equiv> next_version s (sp_task spec)"
  shows "\<exists>s' d rows. Spec_Save rec s now spec =
       Inr (normalise spec\<lparr>sp_version := v, sp_created_at := now\<rparr>, s') \<and>
     s' = s\<lparr>ss_sequences := rows,
       ss_specs := ss_specs s @ [saved_row (normalise spec) v now],
       ss_criteria := filter (\<lambda>r. \<not> (cr_task r = sp_task spec \<and> cr_version r = v)) (ss_criteria s)
         @ acRows (normalise spec\<lparr>sp_version := v\<rparr>), ss_db := d\<rparr> \<and>
     map_of rows = (map_of (ss_sequences s))(sp_task spec \<mapsto> nat v) \<and>
     db_tasks d = db_tasks (ss_db s)"
proof -
  have t: "sp_task spec \<noteq> ''''" using assms(1) by (simp add: spec_valid_def)
  have v: "1 \<le> v" by (simp add: v_def next_version_def split: option.splits)
  obtain rows where n: "NextSpecificationVersion s (sp_task spec) = Inr (v, s\<lparr>ss_sequences := rows\<rparr>)"
      "map_of rows = (map_of (ss_sequences s))(sp_task spec \<mapsto> nat v)"
    using NextSpecificationVersion_ok [OF t assms(3)] unfolding v_def by blast
  let ?spec = "normalise spec\<lparr>sp_version := v\<rparr>"
  let ?s1 = "s\<lparr>ss_sequences := rows\<rparr>"
  have c: "insertCriteria (sp_task spec) v (acRows ?spec)
      (filter (\<lambda>r. \<not> (cr_task r = sp_task spec \<and> cr_version r = v)) (ss_criteria s))
      = Inr (filter (\<lambda>r. \<not> (cr_task r = sp_task spec \<and> cr_version r = v)) (ss_criteria s) @ acRows ?spec)"
    by (rule SaveSpecification_criteria [OF assms(1)]) simp_all
  have f: "find (spec_key (sp_task spec) v) (ss_specs s) = None"
    unfolding v_def by (rule allocated_fresh [OF assms(4)])
  let ?s2 = "?s1\<lparr>ss_specs := ss_specs s @ [saved_row (normalise spec) v now],
       ss_criteria := filter (\<lambda>r. \<not> (cr_task r = sp_task spec \<and> cr_version r = v)) (ss_criteria s)
         @ acRows ?spec\<rparr>"
  have "task_exists ?s1 (sp_task spec)" using assms(3) by (simp add: task_exists_def)
  with t v f c have "SaveSpecification ?s1 (saved_row (normalise spec) v now) (acRows ?spec) = Inr ?s2"
    unfolding SaveSpecification_def Let_def by (simp add: saved_row_def del: de_Morgan_conj)
  then have save: "SaveSpecification ?s1
      \<lparr>sr_task = sp_task ?spec, sr_version = v, sr_objective = sp_objective ?spec,
       sr_risk = sp_risk ?spec, sr_complexity = sp_complexity ?spec,
       sr_payload = encodePayload ?spec, sr_locked = False, sr_locked_at = None,
       sr_locked_by = '''', sr_created_at = now, sr_created_by = sp_created_by ?spec\<rparr>
      (acRows ?spec) = Inr ?s2"
    by (simp add: saved_row_def)
  obtain d where "spec_audit rec ?s2 now ''task.specification.saved'' (sp_task ?spec)
                   (PObj [(''version'', PInt v), (''objective'', PStr (sp_objective ?spec)),
                          (''acceptance_criteria'', PInt (int (length (sp_criteria ?spec)))),
                          (''risk'', PStr (sp_risk ?spec)),
                          (''complexity'', PStr (sp_complexity ?spec))]) = Inr (?s2\<lparr>ss_db := d\<rparr>)"
      "db_tasks d = db_tasks (ss_db s)"
    using spec_audit_ok [of "''task.specification.saved''" rec ?s2 now] by auto
  then show ?thesis
    using assms(1,2) n save
    by (auto simp: Spec_Save_def ValidateSpecification_eq Let_def)
qed

lemma find_append_new:
  "find P xs = None \<Longrightarrow> P x \<Longrightarrow> find P (xs @ [x]) = Some x"
  by (induction xs) auto

lemma next_version_pos: "1 \<le> next_version s t"
  by (simp add: next_version_def split: option.splits)

lemma fold_max_le: "fold max vs (v::int) \<le> b \<longleftrightarrow> v \<le> b \<and> (\<forall>x \<in> set vs. x \<le> b)"
  by (induction vs arbitrary: v) auto

lemma latestVersion_max:
  assumes "r \<in> set (ss_specs s)" "sr_task r = t"
    and "\<forall>q \<in> set (ss_specs s). sr_task q = t \<longrightarrow> sr_version q \<le> sr_version r"
  shows "latestVersion s t = sr_version r"
proof -
  let ?vs = "map sr_version (filter (\<lambda>r. sr_task r = t) (ss_specs s))"
  have m: "sr_version r \<in> set ?vs" using assms(1,2) by auto
  then obtain w ws where ws: "?vs = w # ws" by (cases ?vs) auto
  have "x \<le> fold max ws w" if "x \<in> set ?vs" for x
    using that fold_max_le [of ws w "fold max ws w"] ws by auto
  moreover have "fold max ws w \<le> sr_version r"
    using assms(3) ws fold_max_le [of ws w "sr_version r"]
    by (metis (mono_tags, lifting) imageE list.set_intros list.set_map mem_Collect_eq set_filter)
  ultimately show ?thesis using m by (simp add: latestVersion_def ws order_antisym)
qed

text \<open>What a reader gets right after a version was saved: the criteria come back ordered by id.\<close>

lemma Spec_Save_new_latest:
  assumes "spec_valid spec" "sp_version spec = 0" "task_exists s (sp_task spec)" "allocated s"
    and "Spec_Save rec s now spec = Inr (saved, s')"
  shows "Spec_GetLatest s' (sp_task spec) = Inr (saved\<lparr>sp_criteria := sort_key ac_ID (sp_criteria saved),
       sp_locked := False, sp_locked_at := zero_time, sp_locked_by := ''''\<rparr>) \<and>
     Spec_Get s' (sp_task spec) (sp_version saved) = Spec_GetLatest s' (sp_task spec)"
proof -
  let ?t = "sp_task spec" let ?v = "next_version s ?t"
  obtain d rows where e: "saved = normalise spec\<lparr>sp_version := ?v, sp_created_at := now\<rparr>"
     "s' = s\<lparr>ss_sequences := rows,
       ss_specs := ss_specs s @ [saved_row (normalise spec) ?v now],
       ss_criteria := filter (\<lambda>r. \<not> (cr_task r = ?t \<and> cr_version r = ?v)) (ss_criteria s)
         @ acRows (normalise spec\<lparr>sp_version := ?v\<rparr>), ss_db := d\<rparr>"
    using Spec_Save_new [OF assms(1-4), of rec now] assms(5) by auto
  let ?row = "saved_row (normalise spec) ?v now"
  have key: "spec_key ?t ?v ?row" by (simp add: spec_key_def saved_row_def)
  have f: "find (spec_key ?t ?v) (ss_specs s') = Some ?row"
    using find_append_new [OF allocated_fresh [OF assms(4)] key] by (simp add: e(2))
  have l: "latestVersion s' ?t = ?v"
  proof -
    have "sr_version ?row = ?v" "sr_task ?row = ?t" by (simp_all add: saved_row_def)
    moreover have "\<forall>q \<in> set (ss_specs s'). sr_task q = ?t \<longrightarrow> sr_version q \<le> ?v"
      using assms(4) by (auto simp: e(2) allocated_def saved_row_def)
    ultimately show ?thesis using latestVersion_max [of ?row s' ?t] by (simp add: e(2))
  qed
  have c: "filter (\<lambda>r. cr_task r = ?t \<and> cr_version r = ?v) (ss_criteria s')
      = acRows (normalise spec\<lparr>sp_version := ?v\<rparr>)"
    using acRows_key [of _ "normalise spec\<lparr>sp_version := ?v\<rparr>"]
    by (auto simp: e(2) filter_empty_conv intro!: filter_True)
  have "listAcceptanceCriteria s' ?t ?v = acRows (normalise spec\<lparr>sp_version := ?v\<rparr>)"
    unfolding listAcceptanceCriteria_def c by (rule acRows_ordered)
  then have g: "GetSpecification s' ?t ?v = Inr (?row, acRows (normalise spec\<lparr>sp_version := ?v\<rparr>))"
    by (simp add: GetSpecification_def f)
  moreover have "?v \<noteq> 0" using next_version_pos [of s ?t] by simp
  ultimately have "GetLatestSpecification s' ?t = GetSpecification s' ?t ?v"
    by (simp add: GetLatestSpecification_def l Let_def)
  with g show ?thesis
    by (simp add: Spec_GetLatest_def Spec_Get_def e(1) rowToSpec_def map_acRows saved_row_def
        encodePayload_def normalise_def)
qed

lemma Spec_Save_new_allocated:
  assumes "spec_valid spec" "sp_version spec = 0" "task_exists s (sp_task spec)" "allocated s"
    and "Spec_Save rec s now spec = Inr (saved, s')"
  shows "allocated s' \<and> task_exists s' (sp_task spec)"
proof -
  let ?t = "sp_task spec" let ?v = "next_version s ?t"
  obtain d rows where e: "s' = s\<lparr>ss_sequences := rows,
       ss_specs := ss_specs s @ [saved_row (normalise spec) ?v now],
       ss_criteria := filter (\<lambda>r. \<not> (cr_task r = ?t \<and> cr_version r = ?v)) (ss_criteria s)
         @ acRows (normalise spec\<lparr>sp_version := ?v\<rparr>), ss_db := d\<rparr>"
     "map_of rows = (map_of (ss_sequences s))(?t \<mapsto> nat ?v)" "db_tasks d = db_tasks (ss_db s)"
    using Spec_Save_new [OF assms(1-4), of rec now] assms(5) by auto
  have n: "next_version s' q = (if q = ?t then ?v + 1 else next_version s q)" for q
    using next_version_pos [of s ?t] by (simp add: next_version_def e)
  have "ss_specs s' = ss_specs s @ [saved_row (normalise spec) ?v now]" by (simp add: e(1))
  then have "allocated s'"
    using assms(4) next_version_pos [of s ?t] by (auto simp: allocated_def n saved_row_def)
  with assms(3) e show ?thesis by (simp add: task_exists_def)
qed

lemma visualRequirementsEqual_iff [simp]: "visualRequirementsEqual a b \<longleftrightarrow> a = b"
  by (auto simp: visualRequirementsEqual_def intro: visual_requirements.equality)

text \<open>The second of two compiles of one specification: it reuses the stored version exactly when
  the specification is already trimmed and its criteria are ordered by id.\<close>

lemma SaveIfChanged_again:
  assumes "spec_valid spec" "sp_version spec = 0" "task_exists s (sp_task spec)" "allocated s"
    and "SaveIfChanged rec s now spec = Inr ((saved, True), s')"
  shows "\<exists>saved2 s''. SaveIfChanged rec s' now2 spec =
       Inr ((saved2, \<not> (sp_objective spec = trim (sp_objective spec) \<and>
          sp_criteria spec = sort_key ac_ID (sp_criteria (normalise spec)))), s'') \<and>
     (sp_objective spec = trim (sp_objective spec) \<and>
      sp_criteria spec = sort_key ac_ID (sp_criteria (normalise spec)) \<longrightarrow>
        s'' = s' \<and> sp_version saved2 = sp_version saved)"
proof -
  have z: "spec\<lparr>sp_version := 0\<rparr> = spec" using assms(2) by simp
  have save: "Spec_Save rec s now spec = Inr (saved, s')"
    using assms(5) by (auto simp: SaveIfChanged_def z split: sum.splits if_splits)
  let ?L = "saved\<lparr>sp_criteria := sort_key ac_ID (sp_criteria saved),
       sp_locked := False, sp_locked_at := 0, sp_locked_by := ''''\<rparr>"
  have l: "Spec_GetLatest s' (sp_task spec) = Inr ?L"
    using Spec_Save_new_latest [OF assms(1-4) save] by simp
  have sv: "saved = normalise spec\<lparr>sp_version := next_version s (sp_task spec), sp_created_at := now\<rparr>"
    using Spec_Save_new [OF assms(1-4), of rec now] save by auto
  have eq: "specificationsSemanticallyEqual spec ?L \<longleftrightarrow>
      sp_objective spec = trim (sp_objective spec) \<and>
      sp_criteria spec = sort_key ac_ID (sp_criteria (normalise spec))"
    by (simp add: sv specificationsSemanticallyEqual_def normalise_def)
  note a = Spec_Save_new_allocated [OF assms(1-4) save]
  obtain saved3 s3 where "Spec_Save rec s' now2 spec = Inr (saved3, s3)"
    using Spec_Save_new [OF assms(1,2), of s' rec now2] a by auto
  then show ?thesis by (auto simp: SaveIfChanged_def l eq z)
qed

section \<open>Locked versions\<close>

lemma insertCriteria_appends:
  "insertCriteria t v acs table = Inr table' \<Longrightarrow> table' = table @ map (\<lambda>a. a\<lparr>cr_task := t, cr_version := v\<rparr>) acs"
  by (induction t v acs table rule: insertCriteria.induct) (auto split: if_splits)

lemma insertCriteria_other:
  "insertCriteria t v acs table = Inr table' \<Longrightarrow> (t', v') \<noteq> (t, v) \<Longrightarrow>
     filter (\<lambda>r. cr_task r = t' \<and> cr_version r = v') table' =
     filter (\<lambda>r. cr_task r = t' \<and> cr_version r = v') table"
  by (induction t v acs table rule: insertCriteria.induct) (auto split: if_splits)

lemma find_update_where_other:
  "(\<And>r. P (f r) \<longleftrightarrow> P r) \<Longrightarrow> (\<And>r. \<not> (P r \<and> Q r)) \<Longrightarrow> find P (update_where Q f xs) = find P xs"
  by (induction xs) auto

lemma find_append_None: "\<not> P x \<Longrightarrow> find P (xs @ [x]) = find P xs"
  by (induction xs) auto

definition locked_row :: "spec_store \<Rightarrow> string \<Rightarrow> int \<Rightarrow> spec_row \<Rightarrow> bool" where
  "locked_row s t v r \<longleftrightarrow> find (spec_key t v) (ss_specs s) = Some r \<and> sr_locked r"

lemma SaveSpecification_other:
  assumes "SaveSpecification s row acs = Inr s'" "(t, v) \<noteq> (sr_task row, sr_version row)"
  shows "find (spec_key t v) (ss_specs s') = find (spec_key t v) (ss_specs s) \<and> criteria_of s' t v = criteria_of s t v"
proof -
  let ?k = "spec_key (sr_task row) (sr_version row)"
  obtain specs criteria where w: "s' = s\<lparr>ss_specs := specs, ss_criteria := criteria\<rparr>"
      "insertCriteria (sr_task row) (sr_version row) acs
         (filter (\<lambda>r. \<not> (cr_task r = sr_task row \<and> cr_version r = sr_version row)) (ss_criteria s))
         = Inr criteria"
      "(\<exists>f. specs = update_where ?k f (ss_specs s) \<and> (\<forall>r. spec_key t v (f r) = spec_key t v r)) \<or>
       (\<exists>r. specs = ss_specs s @ [r] \<and> \<not> spec_key t v r)"
  proof -
    have key: "spec_key t v (r\<lparr>sr_objective := a, sr_risk := b, sr_complexity := c, sr_payload := d,
        sr_created_by := e, sr_created_at := g\<rparr>) = spec_key t v r" for r a b c d e g
      by (simp add: spec_key_def)
    have row: "\<not> spec_key t v (row\<lparr>sr_locked := False, sr_locked_at := None, sr_locked_by := ''''\<rparr>)"
      using assms(2) by (auto simp: spec_key_def)
    show thesis
      using assms(1) that key row
      by (fastforce simp: SaveSpecification_def Let_def split: if_splits option.splits sum.splits)
  qed
  have "find (spec_key t v) specs = find (spec_key t v) (ss_specs s)"
    using w(3)
  proof (elim disjE exE conjE)
    fix f assume "specs = update_where ?k f (ss_specs s)" "\<forall>r. spec_key t v (f r) = spec_key t v r"
    then show ?thesis
      using assms(2) by (auto intro!: find_update_where_other simp: spec_key_def)
  qed (simp add: find_append_None)
  moreover have "filter (\<lambda>r. cr_task r = t \<and> cr_version r = v) criteria
      = filter (\<lambda>r. cr_task r = t \<and> cr_version r = v) (ss_criteria s)"
    using insertCriteria_other [OF w(2) assms(2)] assms(2) by (auto simp: intro!: filter_cong)
  ultimately show ?thesis by (simp add: criteria_of_def w(1))
qed

lemma SaveSpecification_locked:
  assumes "SaveSpecification s row acs = Inr s'" "locked_row s t v r"
  shows "locked_row s' t v r \<and> criteria_of s' t v = criteria_of s t v"
proof -
  have "(t, v) \<noteq> (sr_task row, sr_version row)"
    using assms by (auto simp: SaveSpecification_def Let_def locked_row_def split: if_splits)
  from SaveSpecification_other [OF assms(1) this] assms(2) show ?thesis by (simp add: locked_row_def)
qed

lemma find_update_where:
  "(\<And>r. P (f r) \<longleftrightarrow> P r) \<Longrightarrow>
     find P (update_where Q f xs) = map_option (\<lambda>r. if Q r then f r else r) (find P xs)"
  by (induction xs) auto

lemma spec_audit_frame:
  "spec_audit rec s now ty t p = Inr s' \<Longrightarrow>
     ss_specs s' = ss_specs s \<and> ss_criteria s' = ss_criteria s \<and> ss_sequences s' = ss_sequences s"
  by (auto simp: spec_audit_def split: if_splits sum.splits)

lemma NextSpecificationVersion_frame:
  "NextSpecificationVersion s t = Inr (v, s') \<Longrightarrow> ss_specs s' = ss_specs s \<and> ss_criteria s' = ss_criteria s"
  by (auto simp: NextSpecificationVersion_def Let_def split: if_splits option.splits)

text \<open>What a lock may still change of a locked row: a time or a locker that is missing is filled in.\<close>

definition relocked :: "spec_row \<Rightarrow> spec_row \<Rightarrow> bool" where
  "relocked r r' \<longleftrightarrow> r' = r\<lparr>sr_locked_at := sr_locked_at r', sr_locked_by := sr_locked_by r'\<rparr> \<and>
     (sr_locked_at r \<noteq> None \<longrightarrow> sr_locked_at r' = sr_locked_at r) \<and> (sr_locked_by r \<noteq> '''' \<longrightarrow> sr_locked_by r' = sr_locked_by r)"

lemma relocked_refl [simp]: "relocked r r"
  by (simp add: relocked_def)

lemma relocked_trans: "relocked r r1 \<Longrightarrow> relocked r1 r2 \<Longrightarrow> relocked r r2"
  by (cases r; cases r1; cases r2) (auto simp: relocked_def)

lemma LockSpecification_locked:
  assumes "LockSpecification s now t' v' lb = Inr s'" "locked_row s t v r"
  shows "\<exists>r'. locked_row s' t v r' \<and> relocked r r' \<and> criteria_of s' t v = criteria_of s t v"
proof -
  let ?f = "\<lambda>r. r\<lparr>sr_locked := True,
      sr_locked_at := (if sr_locked_at r = None then Some now else sr_locked_at r),
      sr_locked_by := (if sr_locked_by r = '''' then lb else sr_locked_by r)\<rparr>"
  let ?r = "if spec_key t' v' r then ?f r else r"
  have s': "s' = s\<lparr>ss_specs := update_where (spec_key t' v') ?f (ss_specs s)\<rparr>"
    using assms(1) by (auto simp: LockSpecification_def split: if_splits)
  have "spec_key t v (?f q) = spec_key t v q" for q by (simp add: spec_key_def)
  then have "find (spec_key t v) (update_where (spec_key t' v') ?f (ss_specs s)) = Some ?r"
    using assms(2) by (subst find_update_where) (auto simp: locked_row_def)
  moreover have "relocked r ?r" using assms(2) by (cases r) (auto simp: relocked_def locked_row_def)
  moreover have "sr_locked ?r" using assms(2) by (simp add: locked_row_def)
  ultimately show ?thesis by (auto simp: s' locked_row_def criteria_of_def)
qed

inductive spec_step :: "spec_store \<Rightarrow> spec_store \<Rightarrow> bool" where
  save: "Spec_Save rec s now spec = Inr (x, s') \<Longrightarrow> spec_step s s'"
| save_if_changed: "SaveIfChanged rec s now spec = Inr (y, s') \<Longrightarrow> spec_step s s'"
| lock: "Spec_Lock rec s now t v lb = Inr (x, s') \<Longrightarrow> spec_step s s'"

lemma Spec_Save_parts:
  assumes "Spec_Save rec s now spec = Inr (saved, s')"
  defines "v \<equiv> if sp_version spec = 0 then next_version s (sp_task spec) else sp_version spec"
  shows "\<exists>s1 s2. spec_valid spec \<and> saved = normalise spec\<lparr>sp_version := v, sp_created_at := now\<rparr> \<and>
     ss_specs s1 = ss_specs s \<and> ss_criteria s1 = ss_criteria s \<and>
     SaveSpecification s1 (saved_row (normalise spec\<lparr>sp_version := v\<rparr>) v now) (acRows (normalise spec\<lparr>sp_version := v\<rparr>)) = Inr s2 \<and>
     ss_specs s' = ss_specs s2 \<and> ss_criteria s' = ss_criteria s2"
proof -
  have nv: "NextSpecificationVersion s (sp_task spec) = Inr (u, s1) \<Longrightarrow> u = next_version s (sp_task spec) \<and> ss_specs s1 = ss_specs s \<and> ss_criteria s1 = ss_criteria s" for u s1
    using NextSpecificationVersion_frame [of s "sp_task spec"]
    by (auto simp: NextSpecificationVersion_def next_version_def Let_def map_of_upsert_seq split: if_splits option.splits)
  show ?thesis
    using assms(1) nv unfolding Spec_Save_def ValidateSpecification_eq
    by (auto simp: Let_def v_def saved_row_def split: if_splits sum.splits dest!: spec_audit_frame) blast+
qed

lemma Spec_Save_locked:
  assumes "Spec_Save rec s now spec = Inr (x, s')" "locked_row s t v r"
  shows "locked_row s' t v r \<and> criteria_of s' t v = criteria_of s t v"
proof -
  obtain s1 s2 row acs where w: "ss_specs s1 = ss_specs s" "ss_criteria s1 = ss_criteria s"
      "SaveSpecification s1 row acs = Inr s2" "ss_specs s' = ss_specs s2" "ss_criteria s' = ss_criteria s2"
    using Spec_Save_parts [OF assms(1)] that by metis
  have "locked_row s1 t v r" using assms(2) by (simp add: locked_row_def w)
  from SaveSpecification_locked [OF w(3) this] w show ?thesis
    by (simp add: locked_row_def criteria_of_def)
qed

lemma spec_step_locked:
  assumes "spec_step s s'" "locked_row s t v r"
  shows "\<exists>r'. locked_row s' t v r' \<and> relocked r r' \<and> criteria_of s' t v = criteria_of s t v"
  using assms(1)
proof cases
  case (save rec now spec x)
  then show ?thesis using Spec_Save_locked assms(2) relocked_refl by blast
next
  case (save_if_changed rec now spec y)
  then have "s' = s \<or> (\<exists>spec' x. Spec_Save rec s now spec' = Inr (x, s'))"
    by (auto simp: SaveIfChanged_def split: sum.splits if_splits prod.splits)
  then show ?thesis using Spec_Save_locked assms(2) relocked_refl by blast
next
  case (lock rec now t' v' lb x)
  then obtain s1 where "LockSpecification s now t' v' lb = Inr s1"
      "ss_specs s' = ss_specs s1" "ss_criteria s' = ss_criteria s1"
    by (auto simp: Spec_Lock_def split: sum.splits dest: spec_audit_frame)
  with LockSpecification_locked [OF _ assms(2)] show ?thesis
    by (simp add: locked_row_def criteria_of_def)
qed

lemma spec_steps_locked:
  assumes "spec_step\<^sup>*\<^sup>* s s'" "locked_row s t v r"
  shows "\<exists>r'. locked_row s' t v r' \<and> relocked r r' \<and> criteria_of s' t v = criteria_of s t v"
  using assms(1)
proof (induction rule: rtranclp_induct)
  case (step s1 s2)
  then show ?case using spec_step_locked relocked_trans by metis
qed (use assms(2) in auto)

lemma Spec_Get_locked:
  "Spec_Get s t v = Inr p \<longleftrightarrow> (\<exists>r. find (spec_key t v) (ss_specs s) = Some r \<and>
     p = rowToSpec r (sort_key cr_ordinal (sort_key cr_id (criteria_of s t v))))"
  by (auto simp: Spec_Get_def GetSpecification_def listAcceptanceCriteria_def criteria_of_def
      split: option.splits)

section \<open>An example store\<close>

definition demo_store :: spec_store where
  "demo_store = \<lparr>ss_db = empty_db\<lparr>db_tasks := [\<lparr>tk_id = ''t-1'', tk_project_id = ''t'', tk_title = '''',
     tk_description = ''d'', tk_priority = ''NORMAL'', tk_state = TaskNew, tk_created_at = '''',
     tk_updated_at = ''''\<rparr>]\<rparr>, ss_specs = [], ss_criteria = [], ss_sequences = []\<rparr>"

definition demo_spec :: "nat \<Rightarrow> task_spec" where
  "demo_spec n = \<lparr>sp_task = ''t-1'', sp_version = 0, sp_objective = ''o'',
     sp_criteria = map (\<lambda>i. \<lparr>ac_ID = ''AC-'' @ show_nat i, ac_Statement = ''s''\<rparr>) [1..<Suc n],
     sp_non_goals = [], sp_assumptions = [], sp_constraints = [], sp_risk = ''R1'',
     sp_complexity = ''C1'', sp_proposed_scope = [''a/b''],
     sp_visual = \<lparr>vr_required = False, vr_viewport = '''', vr_theme = '''', vr_locale = '''',
       vr_density = '''', vr_references = []\<rparr>,
     sp_locked = False, sp_locked_at = 0, sp_locked_by = '''', sp_created_at = 0,
     sp_created_by = ''u''\<rparr>"

lemma demo_spec_task [simp]: "sp_task (demo_spec n) = ''t-1''" "sp_version (demo_spec n) = 0"
  by (simp_all add: demo_spec_def)

lemma demo_store_allocated: "allocated demo_store" "task_exists demo_store ''t-1''"
  by (simp_all add: allocated_def task_exists_def demo_store_def)

lemma demo_spec_valid: "spec_valid (demo_spec 2)" "spec_valid (demo_spec 10)"
  by code_simp+

lemma demo_spec_sorted:
  "sp_objective (demo_spec 2) = trim (sp_objective (demo_spec 2))"
  "sp_criteria (demo_spec 2) = sort_key ac_ID (sp_criteria (normalise (demo_spec 2)))"
  "sp_criteria (demo_spec 10) \<noteq> sort_key ac_ID (sp_criteria (normalise (demo_spec 10)))"
  by code_simp+

lemma demo_store_empty: "Spec_GetLatest demo_store t = Inl ErrSpecificationNotFound"
  by (simp add: Spec_GetLatest_def GetLatestSpecification_def latestVersion_def demo_store_def)

lemma demo_first_compile:
  assumes "spec_valid (demo_spec n)"
  shows "\<exists>saved s'. SaveIfChanged True demo_store 5 (demo_spec n) = Inr ((saved, True), s')"
  using Spec_Save_new [of "demo_spec n" demo_store True 5] assms demo_store_allocated
  by (auto simp: SaveIfChanged_def demo_store_empty)

definition demo_s1 :: spec_store where
  "demo_s1 = snd (projr (Spec_Save False demo_store 5 (demo_spec 2)))"

definition demo_s2 :: spec_store where
  "demo_s2 = snd (projr (Spec_Lock False demo_s1 7 ''t-1'' 1 ''me''))"

definition demo_s3 :: spec_store where
  "demo_s3 = snd (projr (Spec_Save False demo_s2 9 (demo_spec 2)))"

definition demo_locked :: task_spec where
  "demo_locked = projr (Spec_Get demo_s2 ''t-1'' 1)"

lemma demo_lock_run:
  "\<not> isl (Spec_Get demo_s2 ''t-1'' 1)" "sp_locked demo_locked" "sp_locked_at demo_locked = 7"
  "sp_locked_by demo_locked = ''me''" "\<not> isl (Spec_Save False demo_s2 9 (demo_spec 2))"
  by code_simp+

section \<open>Properties\<close>

text \<open>C7: A locked specification version is immutable: whatever is saved, compiled or locked afterwards, reading
  the version returns the same specification, still locked. Of the lock's provenance, a recorded time
  and a recorded locker stay too; only a locker that was left empty, or a time that was never recorded,
  is filled in by a later lock.\<close>

theorem locked_specification_immutable:
  assumes "Spec_Get s t v = Inr p" "sp_locked p" "spec_step\<^sup>*\<^sup>* s s'"
  shows "\<exists>at who. Spec_Get s' t v = Inr (p\<lparr>sp_locked_at := at, sp_locked_by := who\<rparr>) \<and>
    (sp_locked_at p \<noteq> zero_time \<longrightarrow> at = sp_locked_at p) \<and> (sp_locked_by p \<noteq> '''' \<longrightarrow> who = sp_locked_by p)"
proof -
  from assms(1) obtain r where r: "find (spec_key t v) (ss_specs s) = Some r"
      "p = rowToSpec r (sort_key cr_ordinal (sort_key cr_id (criteria_of s t v)))"
    by (auto simp: Spec_Get_locked)
  with assms(2) have "locked_row s t v r" by (simp add: locked_row_def rowToSpec_def)
  from spec_steps_locked [OF assms(3) this] obtain r' where r': "locked_row s' t v r'" "relocked r r'"
    "criteria_of s' t v = criteria_of s t v" by blast
  let ?p = "rowToSpec r' (sort_key cr_ordinal (sort_key cr_id (criteria_of s t v)))"
  have "Spec_Get s' t v = Inr ?p" using r' by (auto simp: Spec_Get_locked locked_row_def)
  moreover have "?p = p\<lparr>sp_locked_at := sp_locked_at ?p, sp_locked_by := sp_locked_by ?p\<rparr>"
    "sp_locked_at p \<noteq> zero_time \<longrightarrow> sp_locked_at ?p = sp_locked_at p" "sp_locked_by p \<noteq> '''' \<longrightarrow> sp_locked_by ?p = sp_locked_by p"
    using r'(2) by (cases r; cases r'; auto simp: r(2) relocked_def rowToSpec_def)+
  ultimately show ?thesis by metis
qed

theorem locked_specification_immutable_witness:
  "Spec_Get demo_s3 ''t-1'' 1 = Inr demo_locked"
proof -
  have g: "Spec_Get demo_s2 ''t-1'' 1 = Inr demo_locked"
    using demo_lock_run(1) by (cases "Spec_Get demo_s2 ''t-1'' 1") (simp_all add: demo_locked_def)
  have "spec_step demo_s2 demo_s3"
    using demo_lock_run(5) unfolding demo_s3_def
    by (cases "Spec_Save False demo_s2 9 (demo_spec 2)") (auto intro: spec_step.save)
  with locked_specification_immutable [OF g] demo_lock_run obtain at who where
    "Spec_Get demo_s3 ''t-1'' 1 = Inr (demo_locked\<lparr>sp_locked_at := at, sp_locked_by := who\<rparr>)" "at = sp_locked_at demo_locked" "who = sp_locked_by demo_locked"
    by auto
  then show ?thesis by simp
qed

text \<open>What a successful save writes.\<close>

lemma SaveSpecification_written:
  assumes "SaveSpecification s row acs = Inr s'" "\<forall>a \<in> set acs. cr_task a = sr_task row \<and> cr_version a = sr_version row"
  shows "\<exists>r. find (spec_key (sr_task row) (sr_version row)) (ss_specs s') = Some r \<and> \<not> sr_locked r \<and>
      r = row\<lparr>sr_locked := False, sr_locked_at := sr_locked_at r, sr_locked_by := sr_locked_by r\<rparr> \<and>
      criteria_of s' (sr_task row) (sr_version row) = acs"
proof -
  let ?t = "sr_task row" and ?v = "sr_version row"
  let ?k = "spec_key ?t ?v"
  have c: "filter (\<lambda>r. cr_task r = ?t \<and> cr_version r = ?v) table' = filter (\<lambda>r. cr_task r = ?t \<and> cr_version r = ?v) table @ acs"
    if "insertCriteria ?t ?v acs table = Inr table'" for table table'
  proof -
    have "\<forall>a \<in> set acs. a\<lparr>cr_task := ?t, cr_version := ?v\<rparr> = a" using assms(2) by auto
    then have "map (\<lambda>a. a\<lparr>cr_task := ?t, cr_version := ?v\<rparr>) acs = acs" by (simp add: map_idI)
    then show ?thesis using insertCriteria_appends [OF that] assms(2) by simp
  qed
  show ?thesis
  proof (cases "find ?k (ss_specs s)")
    case None
    let ?r = "row\<lparr>sr_locked := False, sr_locked_at := None, sr_locked_by := ''''\<rparr>"
    have "find ?k (ss_specs s @ [?r]) = Some ?r" using None by (rule find_append_new) (simp add: spec_key_def)
    then show ?thesis
      using assms(1) c None by (auto simp: SaveSpecification_def Let_def criteria_of_def filter_empty_conv split: if_splits sum.splits)
  next
    case (Some old)
    let ?f = "\<lambda>r. r\<lparr>sr_objective := sr_objective row, sr_risk := sr_risk row, sr_complexity := sr_complexity row,
      sr_payload := sr_payload row, sr_created_by := sr_created_by row, sr_created_at := sr_created_at row\<rparr>"
    have k: "?k old" using Some by (auto simp: find_Some_iff)
    have "find ?k (update_where ?k ?f (ss_specs s)) = Some (?f old)"
      using Some k by (subst find_update_where) (simp_all add: spec_key_def)
    moreover have "?f old = row\<lparr>sr_locked := sr_locked old, sr_locked_at := sr_locked_at old, sr_locked_by := sr_locked_by old\<rparr>"
      using k by (cases old; cases row) (simp add: spec_key_def)
    ultimately show ?thesis
      using assms(1) c Some by (auto simp: SaveSpecification_def Let_def criteria_of_def filter_empty_conv split: if_splits sum.splits)
  qed
qed

text \<open>C39: A save that succeeds writes the validated specification under the version it names or, when it names
  none, under the next number of the task's counter. The version then reads back, unlocked, as what
  was saved, trimmed, with its criteria ordered by id; and no other version of any task changes.\<close>

theorem specification_save_get:
  assumes "Spec_Save rec s now spec = Inr (saved, s')"
  shows "spec_valid spec \<and>
    saved = (normalise spec)\<lparr>sp_version := (if sp_version spec = 0 then next_version s (sp_task spec) else sp_version spec),
      sp_created_at := now\<rparr> \<and>
    (\<exists>at who. Spec_Get s' (sp_task spec) (sp_version saved) = Inr (saved\<lparr>sp_criteria := sort_key ac_ID (sp_criteria saved),
       sp_locked := False, sp_locked_at := at, sp_locked_by := who\<rparr>)) \<and>
    (\<forall>t v. (t, v) \<noteq> (sp_task spec, sp_version saved) \<longrightarrow> Spec_Get s' t v = Spec_Get s t v)"
proof -
  let ?v = "if sp_version spec = 0 then next_version s (sp_task spec) else sp_version spec"
  let ?spec = "normalise spec\<lparr>sp_version := ?v\<rparr>"
  obtain s1 s2 where w: "spec_valid spec" "saved = ?spec\<lparr>sp_created_at := now\<rparr>" "ss_specs s1 = ss_specs s" "ss_criteria s1 = ss_criteria s"
      "SaveSpecification s1 (saved_row ?spec ?v now) (acRows ?spec) = Inr s2" "ss_specs s' = ss_specs s2" "ss_criteria s' = ss_criteria s2"
    using Spec_Save_parts [OF assms] by metis
  have key: "sr_task (saved_row ?spec ?v now) = sp_task spec" "sr_version (saved_row ?spec ?v now) = ?v" by (simp_all add: saved_row_def)
  have "\<forall>a \<in> set (acRows ?spec). cr_task a = sr_task (saved_row ?spec ?v now) \<and> cr_version a = sr_version (saved_row ?spec ?v now)"
    using acRows_key [of _ ?spec] by (simp add: key)
  from SaveSpecification_written [OF w(5) this] obtain r where r: "find (spec_key (sp_task spec) ?v) (ss_specs s') = Some r"
    "r = (saved_row ?spec ?v now)\<lparr>sr_locked := False, sr_locked_at := sr_locked_at r, sr_locked_by := sr_locked_by r\<rparr>"
    "criteria_of s' (sp_task spec) ?v = acRows ?spec"
    by (auto simp: key w(6,7) criteria_of_def)
  have "Spec_Get s' (sp_task spec) ?v = Inr (rowToSpec r (acRows ?spec))"
    using r(1,3) by (simp add: Spec_Get_locked acRows_ordered)
  moreover have "\<exists>at who. rowToSpec r (acRows ?spec) = saved\<lparr>sp_criteria := sort_key ac_ID (sp_criteria saved),
       sp_locked := False, sp_locked_at := at, sp_locked_by := who\<rparr>"
    by (subst r(2), cases spec) (simp add: rowToSpec_def saved_row_def encodePayload_def map_acRows w(2) normalise_def)
  moreover have "Spec_Get s' t v = Spec_Get s t v" if "(t, v) \<noteq> (sp_task spec, ?v)" for t v
  proof -
    have "find (spec_key t v) (ss_specs s') = find (spec_key t v) (ss_specs s)" "criteria_of s' t v = criteria_of s t v"
      using SaveSpecification_other [OF w(5), of t v] that w(3,4,6,7) by (simp_all add: key criteria_of_def)
    then show ?thesis
      by (simp add: Spec_Get_def GetSpecification_def listAcceptanceCriteria_def criteria_of_def split: option.split)
  qed
  ultimately show ?thesis using w(1,2) by simp
qed

theorem specification_save_get_witness:
  "\<exists>saved s'. Spec_Save True demo_store 5 (demo_spec 2) = Inr (saved, s') \<and> sp_version saved = 1 \<and>
     Spec_Get s' ''t-1'' 7 = Spec_Get demo_store ''t-1'' 7"
proof -
  obtain saved s' where sv: "Spec_Save True demo_store 5 (demo_spec 2) = Inr (saved, s')"
    using Spec_Save_new [of "demo_spec 2" demo_store True 5] demo_spec_valid demo_store_allocated by auto
  have "next_version demo_store ''t-1'' = 1" by (simp add: next_version_def demo_store_def)
  with specification_save_get [OF sv] sv show ?thesis by auto
qed

text \<open>A version that was named explicitly does not move the counter: a later save that names none is given the
  same number and overwrites it.\<close>

lemma explicit_version_overwritten:
  "case Spec_Save False demo_store 5 (demo_spec 2\<lparr>sp_version := 1\<rparr>) of Inl _ \<Rightarrow> False
   | Inr (_, s1) \<Rightarrow> (case Spec_Save False s1 6 (demo_spec 2\<lparr>sp_objective := ''x''\<rparr>) of Inl _ \<Rightarrow> False
     | Inr (saved, s2) \<Rightarrow> sp_version saved = 1 \<and> map sr_objective (ss_specs s2) = [''x''])"
  by code_simp

text \<open>The provenance of a lock taken without a name is rewritten by the next one.\<close>

lemma anonymous_lock_rewritten:
  "case Spec_Lock False demo_s1 7 ''t-1'' 1 '''' of Inl _ \<Rightarrow> False
   | Inr (p, s1) \<Rightarrow> sp_locked p \<and> (case Spec_Lock False s1 9 ''t-1'' 1 ''you'' of Inl _ \<Rightarrow> False
     | Inr (p', _) \<Rightarrow> sp_locked_at p' = 7 \<and> sp_locked_by p' = ''you'')"
  by code_simp

text \<open>Compiling and saving is idempotent for a trimmed specification whose criteria are listed in
  the order of their ids: the second call returns the stored version and changes nothing.\<close>

theorem recompile_idempotent:
  assumes "spec_valid spec" "sp_version spec = 0" "task_exists s (sp_task spec)" "allocated s"
    and "SaveIfChanged rec s now spec = Inr ((saved, True), s')"
    and "ValidateSpecification spec = Inr spec" "sorted (map ac_ID (sp_criteria spec))"
  shows "\<exists>latest. SaveIfChanged rec s' now2 spec = Inr ((latest, False), s') \<and>
     sp_version latest = sp_version saved"
proof -
  have "normalise spec = spec" using assms(1,6) by (simp add: ValidateSpecification_eq)
  then have "sp_objective spec = trim (sp_objective spec)"
    "sp_criteria spec = sort_key ac_ID (sp_criteria (normalise spec))"
    using assms(7) arg_cong [of _ _ sp_objective]
    by (simp_all add: sort_key_fixed) (metis normalise_objective)
  with SaveIfChanged_again [OF assms(1-5), of now2] show ?thesis by auto
qed

text \<open>When the criteria are not in the order of their ids, as with the compiler's AC-1 to AC-10,
  every compile of the unchanged specification mints one more version: the stored criteria are
  ordered by id and never compare equal.\<close>

theorem recompile_unordered_mints:
  assumes "spec_valid spec" "sp_version spec = 0" "task_exists s (sp_task spec)" "allocated s"
    and "SaveIfChanged rec s now spec = Inr ((saved, True), s')"
    and "\<not> sorted (map ac_ID (sp_criteria spec))"
  shows "\<exists>saved2 s''. SaveIfChanged rec s' now2 spec = Inr ((saved2, True), s'')"
proof -
  have "sp_criteria spec \<noteq> sort_key ac_ID (sp_criteria (normalise spec))"
    using assms(6) by (metis sorted_sort_key)
  with SaveIfChanged_again [OF assms(1-5), of now2] show ?thesis by auto
qed

theorem recompile_unordered_mints_witness:
  "\<exists>saved s' saved2 s''. SaveIfChanged True demo_store 5 (demo_spec 10) = Inr ((saved, True), s') \<and>
     SaveIfChanged True s' 6 (demo_spec 10) = Inr ((saved2, True), s'')"
proof -
  obtain saved s' where f: "SaveIfChanged True demo_store 5 (demo_spec 10) = Inr ((saved, True), s')"
    using demo_first_compile [OF demo_spec_valid(2)] by blast
  have "\<not> sorted (map ac_ID (sp_criteria (demo_spec 10)))" by code_simp
  from recompile_unordered_mints [OF demo_spec_valid(2) _ _ demo_store_allocated(1) f this] f
    demo_store_allocated(2)
  show ?thesis by fastforce
qed

theorem recompile_idempotent_witness:
  "\<exists>saved s' latest. SaveIfChanged True demo_store 5 (demo_spec 2) = Inr ((saved, True), s') \<and>
     SaveIfChanged True s' 6 (demo_spec 2) = Inr ((latest, False), s')"
proof -
  obtain saved s' where f: "SaveIfChanged True demo_store 5 (demo_spec 2) = Inr ((saved, True), s')"
    using demo_first_compile [OF demo_spec_valid(1)] by blast
  have "sorted (map ac_ID (sp_criteria (demo_spec 2)))" by code_simp
  moreover have "ValidateSpecification (demo_spec 2) = Inr (demo_spec 2)" by code_simp
  ultimately show ?thesis
    using recompile_idempotent [OF demo_spec_valid(1) _ _ demo_store_allocated(1) f, of 6] f
      demo_store_allocated(2)
    by fastforce
qed

text \<open>Validation accepts exactly the specifications with a task, an objective, at least one
  criterion, and criteria whose ids and statements are not blank and whose trimmed ids are
  distinct; what it returns is valid and a fixed point of validation.\<close>

theorem validate_specification_complete:
  "(case ValidateSpecification s of
      Inl es \<Rightarrow> \<not> spec_valid s \<and> es = spec_errors s \<and> es \<noteq> []
    | Inr t \<Rightarrow> spec_valid s \<and> spec_valid t \<and> ValidateSpecification t = Inr t) \<and>
   (spec_valid s \<longleftrightarrow>
     sp_task s \<noteq> '''' \<and> trim (sp_objective s) \<noteq> '''' \<and> sp_criteria s \<noteq> [] \<and>
     '''' \<notin> set (map (trim \<circ> ac_ID) (sp_criteria s)) \<and>
     '''' \<notin> set (map (trim \<circ> ac_Statement) (sp_criteria s)) \<and>
     distinct (map (trim \<circ> ac_ID) (sp_criteria s)) \<and>
     risk_IsValid (sp_risk s) \<and> complexity_IsValid (sp_complexity s))"
proof -
  have "spec_valid s \<longleftrightarrow>
     sp_task s \<noteq> '''' \<and> trim (sp_objective s) \<noteq> '''' \<and> sp_criteria s \<noteq> [] \<and>
     '''' \<notin> set (map (trim \<circ> ac_ID) (sp_criteria s)) \<and>
     '''' \<notin> set (map (trim \<circ> ac_Statement) (sp_criteria s)) \<and>
     distinct (map (trim \<circ> ac_ID) (sp_criteria s)) \<and>
     risk_IsValid (sp_risk s) \<and> complexity_IsValid (sp_complexity s)"
    unfolding spec_valid_def by (auto simp: comp_def image_iff eq_commute [of "[]"])
  then show ?thesis
    by (simp add: ValidateSpecification_eq spec_errors_Nil normalise_valid)
qed

end
