(* ===== verification/Workgraph.thy ===== *)
theory Workgraph
  imports Task_Specification
begin

text \<open>
  \<^verbatim>\<open>src/internal/workgraph/graph.go\<close> and the canonical form of \<^verbatim>\<open>serialize.go\<close>: work packages, the
  validator of the dependency graph with its cycle check (depth-first, three colours), its
  connectivity check (breadth-first) and its topological order (Kahn), and the decomposition of a
  specification into packages. Loops over Go maps, whose order is not fixed, take the order of
  insertion; only the order of error messages depends on it.
\<close>

section \<open>Data\<close>

abbreviation StageImplementation :: string where "StageImplementation \<equiv> ''implementation''"

definition AllStages :: "string list" where
  "AllStages = [''research'', ''contract'', ''implementation'', ''integration'', ''verification'']"

definition stage_IsValid :: "string \<Rightarrow> bool" where
  "stage_IsValid s \<longleftrightarrow> s \<in> set AllStages"

abbreviation PackagePending :: string where "PackagePending \<equiv> ''pending''"
abbreviation PackageReady :: string where "PackageReady \<equiv> ''ready''"
abbreviation PackageRunning :: string where "PackageRunning \<equiv> ''running''"
abbreviation PackageBlocked :: string where "PackageBlocked \<equiv> ''blocked''"
abbreviation PackageSucceeded :: string where "PackageSucceeded \<equiv> ''succeeded''"
abbreviation PackageFailed :: string where "PackageFailed \<equiv> ''failed''"
abbreviation PackageSkipped :: string where "PackageSkipped \<equiv> ''skipped''"

definition AllPackageStates :: "string list" where
  "AllPackageStates = [PackagePending, PackageReady, PackageRunning, PackageBlocked,
     PackageSucceeded, PackageFailed, PackageSkipped]"

definition package_IsValid :: "string \<Rightarrow> bool" where
  "package_IsValid s \<longleftrightarrow> s \<in> set AllPackageStates"

definition package_IsTerminal :: "string \<Rightarrow> bool" where
  "package_IsTerminal s \<longleftrightarrow> s \<in> set [PackageSucceeded, PackageFailed, PackageSkipped]"

record attempt =
  at_index :: int
  at_state :: string
  at_started :: time
  at_finished :: time
  at_failure_reason :: string
  at_exit_code :: int
  at_agent_run :: string

record work_package =
  wp_id :: string
  wp_task :: string
  wp_stage :: string
  wp_title :: string
  wp_objective :: string
  wp_criteria :: "string list"
  wp_scope :: "string list"
  wp_deps :: "string list"
  wp_state :: string
  wp_attempts :: "attempt list"

record work_graph =
  wg_task :: string
  wg_packages :: "work_package list"

datatype graph_violation =
    GraphNoTask
  | GraphNoPackages
  | PackageNoID nat
  | DuplicatePackageID string nat nat
  | PackageNoTask string
  | PackageUnknownStage string string
  | PackageNoTitle string
  | PackageNoObjective string
  | PackageUnknownState string string
  | PackageNoCriterion string
  | DuplicateOwner string string string
  | SelfDependency string
  | MissingDependency string string
  | DependencyCycle "string list"
  | CycleSearchDiverged
  | UnreachablePackages "string list"
  | CriterionNotInSpec string string
  | CriterionUncovered string
  | SpecInvalid "spec_violation list"
  | TopologicalSortFailed
  | TopologicalSortDiverged

section \<open>Normalisation of a package\<close>

definition trimAndDedupStrings :: "string list \<Rightarrow> string list" where
  "trimAndDedupStrings xs = dedup (filter (\<lambda>s. s \<noteq> '''') (map TrimSpace xs))"

definition trim_package :: "work_package \<Rightarrow> work_package" where
  "trim_package p =
     p\<lparr>wp_id := TrimSpace (wp_id p), wp_task := TrimSpace (wp_task p),
       wp_title := TrimSpace (wp_title p), wp_objective := TrimSpace (wp_objective p),
       wp_stage := TrimSpace (wp_stage p)\<rparr>"

definition normalise_package :: "work_package \<Rightarrow> work_package" where
  "normalise_package p =
     (trim_package p)
      \<lparr>wp_state := (if wp_state p = '''' then PackagePending else wp_state p),
       wp_criteria := trimAndDedupStrings (wp_criteria p),
       wp_deps := trimAndDedupStrings (wp_deps p),
       wp_scope := trimAndDedupStrings (wp_scope p)\<rparr>"

section \<open>Structural checks\<close>

text \<open>The checks on one package (\<open>q\<close> is \<open>p\<close> normalised) except those on ids and owners.\<close>

definition package_errors :: "work_package \<Rightarrow> graph_violation list" where
  "package_errors p =
     (let q = normalise_package p in
        (if wp_task q = '''' then [PackageNoTask (wp_id q)] else [])
      @ (if stage_IsValid (wp_stage q) then [] else [PackageUnknownStage (wp_id q) (wp_stage q)])
      @ (if wp_title q = '''' then [PackageNoTitle (wp_id q)] else [])
      @ (if wp_objective q = '''' then [PackageNoObjective (wp_id q)] else [])
      @ (if package_IsValid (wp_state p) then [] else [PackageUnknownState (wp_id q) (wp_state p)])
      @ (if wp_criteria q = [] then [PackageNoCriterion (wp_id q)] else []))"

definition id_errors :: "nat \<Rightarrow> (string \<times> nat) list \<Rightarrow> string \<Rightarrow> graph_violation list" where
  "id_errors i ids k =
     (if k = '''' then [PackageNoID (i + 1)]
      else case map_of ids k of
        Some prev \<Rightarrow> [DuplicatePackageID k (prev + 1) (i + 1)]
      | None \<Rightarrow> [])"

definition add_id :: "nat \<Rightarrow> (string \<times> nat) list \<Rightarrow> string \<Rightarrow> (string \<times> nat) list" where
  "add_id i ids k = (if k = '''' \<or> map_of ids k \<noteq> None then ids else ids @ [(k, i)])"

fun owner_errors :: "string \<Rightarrow> (string \<times> string) list \<Rightarrow> string list
    \<Rightarrow> graph_violation list \<times> (string \<times> string) list" where
  "owner_errors k owners [] = ([], owners)"
| "owner_errors k owners (ac # acs) =
     (case map_of owners ac of
        Some owner \<Rightarrow> (let (es, os) = owner_errors k owners acs in (DuplicateOwner ac owner k # es, os))
      | None \<Rightarrow> owner_errors k (owners @ [(ac, k)]) acs)"

fun check_packages :: "nat \<Rightarrow> (string \<times> nat) list \<Rightarrow> (string \<times> string) list \<Rightarrow> work_package list
    \<Rightarrow> graph_violation list \<times> (string \<times> nat) list \<times> (string \<times> string) list" where
  "check_packages i ids owners [] = ([], ids, owners)"
| "check_packages i ids owners (p # ps) =
     (let q = normalise_package p;
          (oes, owners') = owner_errors (wp_id q) owners (wp_criteria q);
          (es, ids', owners'') = check_packages (i + 1) (add_id i ids (wp_id q)) owners' ps
      in (id_errors i ids (wp_id q) @ package_errors p @ oes @ es, ids', owners''))"

definition dep_errors :: "(string \<times> nat) list \<Rightarrow> work_package list \<Rightarrow> graph_violation list" where
  "dep_errors ids ps =
     concat (map (\<lambda>p. concat (map (\<lambda>d.
       if d = wp_id p then [SelfDependency (wp_id p)]
       else if map_of ids d = None then [MissingDependency (wp_id p) d] else [])
       (wp_deps p))) ps)"

section \<open>Cycle detection\<close>

text \<open>\<open>adj[p.ID] = p.Dependencies\<close>: the last package with an id wins.\<close>

definition adj_of :: "work_package list \<Rightarrow> string \<Rightarrow> string list" where
  "adj_of ps k = (case find (\<lambda>p. wp_id p = k) (rev ps) of None \<Rightarrow> [] | Some p \<Rightarrow> wp_deps p)"

record dfs_state =
  color :: "string \<Rightarrow> nat"
  stack :: "string list"

definition cycle_path :: "string list \<Rightarrow> string \<Rightarrow> string \<Rightarrow> string list" where
  "cycle_path st node d =
     (if d \<in> set st then dropWhile (\<lambda>n. n \<noteq> d) st @ [d] else [d, node, d])"

text \<open>
  The closure \<^verbatim>\<open>dfs\<close> and its loop over the sorted dependencies. The first argument is fuel for the
  depth of the recursion (\<open>None\<close>: used up); the number of nodes is enough. \<open>Inl\<close> is a cycle found.
\<close>

function (sequential) dfs_node :: "nat \<Rightarrow> (string \<Rightarrow> string list) \<Rightarrow> dfs_state \<Rightarrow> string
      \<Rightarrow> (string list + dfs_state) option"
  and dfs_deps :: "nat \<Rightarrow> (string \<Rightarrow> string list) \<Rightarrow> dfs_state \<Rightarrow> string \<Rightarrow> string list
      \<Rightarrow> (string list + dfs_state) option" where
  "dfs_node 0 adj st node = None"
| "dfs_node (Suc n) adj st node =
     dfs_deps n adj (st\<lparr>color := (color st)(node := 1), stack := stack st @ [node]\<rparr>) node
       (sort (adj node))"
| "dfs_deps n adj st node [] =
     Some (Inr (st\<lparr>stack := butlast (stack st), color := (color st)(node := 2)\<rparr>))"
| "dfs_deps n adj st node (d # ds) =
     (if color st d = 1 then Some (Inl (cycle_path (stack st) node d))
      else if color st d = 0 then
        (case dfs_node n adj st d of
           None \<Rightarrow> None
         | Some (Inl cyc) \<Rightarrow> Some (Inl cyc)
         | Some (Inr st') \<Rightarrow> dfs_deps n adj st' node ds)
      else dfs_deps n adj st node ds)"
  by pat_completeness auto
termination
  by (relation "inv_image (less_than <*lex*> less_than)
        (\<lambda>x. case x of Inl (n, _) \<Rightarrow> (n, 0) | Inr (n, _, _, _, ds) \<Rightarrow> (n, Suc (length ds)))") auto

fun dfs_all :: "nat \<Rightarrow> (string \<Rightarrow> string list) \<Rightarrow> dfs_state \<Rightarrow> string list
    \<Rightarrow> (string list + dfs_state) option" where
  "dfs_all n adj st [] = Some (Inr st)"
| "dfs_all n adj st (k # ks) =
     (if color st k = 0 then
        (case dfs_node n adj st k of
           None \<Rightarrow> None
         | Some (Inl cyc) \<Rightarrow> Some (Inl cyc)
         | Some (Inr st') \<Rightarrow> dfs_all n adj st' ks)
      else dfs_all n adj st ks)"

definition graph_nodes :: "work_package list \<Rightarrow> string list" where
  "graph_nodes ps = dedup (map wp_id ps @ concat (map wp_deps ps))"

definition detectCycle :: "work_package list \<Rightarrow> graph_violation list" where
  "detectCycle ps =
     (case dfs_all (length (graph_nodes ps)) (adj_of ps) \<lparr>color = (\<lambda>_. 0), stack = []\<rparr>
         (sort (map wp_id ps)) of
        None \<Rightarrow> [CycleSearchDiverged]
      | Some (Inl cyc) \<Rightarrow> [DependencyCycle cyc]
      | Some (Inr _) \<Rightarrow> [])"

section \<open>Connectivity\<close>

text \<open>The keys of \<open>adj[cur]\<close>: both directions of every dependency between present packages.\<close>

definition neighbours :: "work_package list \<Rightarrow> string \<Rightarrow> string list" where
  "neighbours ps cur =
     dedup (concat (map (\<lambda>p. concat (map (\<lambda>d.
       if d \<in> set (map wp_id ps)
       then (if wp_id p = cur then [d] else []) @ (if d = cur then [wp_id p] else [])
       else []) (wp_deps p))) ps))"

lemma neighbours_subset: "set (neighbours ps cur) \<subseteq> set (map wp_id ps)"
  by (auto simp: neighbours_def split: if_splits)

lemma neighbours_distinct [simp]: "distinct (neighbours ps cur)"
  by (simp add: neighbours_def)

function bfs :: "work_package list \<Rightarrow> string list \<Rightarrow> string list \<Rightarrow> string list" where
  "bfs ps [] visited = visited"
| "bfs ps (cur # queue) visited =
     (let new = filter (\<lambda>n. n \<notin> set visited) (neighbours ps cur)
      in bfs ps (queue @ new) (visited @ new))"
  by pat_completeness auto
termination
proof (relation "measure (\<lambda>(ps, queue, visited). length queue + card (set (map wp_id ps) - set visited))",
    goal_cases)
  case (2 ps cur queue visited new)
  let ?U = "set (map wp_id ps)"
  have sub: "set new \<subseteq> ?U - set visited" using neighbours_subset [of ps cur] 2 by auto
  have "distinct new" using 2 by simp
  then have "card (set new) = length new" by (rule distinct_card)
  moreover have "card (?U - set visited - set new) = card (?U - set visited) - card (set new)"
    using sub by (simp add: card_Diff_subset)
  moreover have "card (set new) \<le> card (?U - set visited)" using sub by (simp add: card_mono)
  moreover have "?U - set (visited @ new) = ?U - set visited - set new" by auto
  ultimately show ?case by simp
qed simp

definition weaklyUnreachable :: "work_package list \<Rightarrow> string list" where
  "weaklyUnreachable ps =
     (case ps of
        [] \<Rightarrow> []
      | p # _ \<Rightarrow>
          let visited = bfs ps [wp_id p] [wp_id p]
          in filter (\<lambda>k. k \<notin> set visited) (map wp_id ps))"

section \<open>Topological order\<close>

text \<open>\<open>adj[d]\<close>: the dependents of \<open>d\<close>, once per dependency entry.\<close>

definition dependents :: "work_package list \<Rightarrow> string \<Rightarrow> string list" where
  "dependents ps d = concat (map (\<lambda>p. concat (map (\<lambda>e. if e = d then [wp_id p] else []) (wp_deps p))) ps)"

definition in_degree :: "work_package list \<Rightarrow> string \<Rightarrow> int" where
  "in_degree ps k = int (length (concat (map (\<lambda>p. if wp_id p = k then wp_deps p else []) ps)))"

definition missing_edges :: "work_package list \<Rightarrow> graph_violation list" where
  "missing_edges ps = concat (map (\<lambda>p. concat (map (\<lambda>d.
     if d \<in> set (map wp_id ps) then [] else [MissingDependency (wp_id p) d]) (wp_deps p))) ps)"

text \<open>The inner loop: decrement, and insert at the position of \<^verbatim>\<open>sort.SearchStrings\<close>.\<close>

definition insert_ready :: "string \<Rightarrow> string list \<Rightarrow> string list" where
  "insert_ready n ready = takeWhile (\<lambda>x. x < n) ready @ [n] @ dropWhile (\<lambda>x. x < n) ready"

fun release :: "string list \<Rightarrow> (string \<Rightarrow> int) \<Rightarrow> string list \<Rightarrow> (string \<Rightarrow> int) \<times> string list" where
  "release [] deg ready = (deg, ready)"
| "release (n # ns) deg ready =
     (let deg' = deg(n := deg n - 1)
      in release ns deg' (if deg' n = 0 then insert_ready n ready else ready))"

text \<open>Fuel bounds the number of iterations; one per package is enough.\<close>

fun kahn :: "nat \<Rightarrow> work_package list \<Rightarrow> (string \<Rightarrow> int) \<Rightarrow> string list \<Rightarrow> string list
    \<Rightarrow> string list option" where
  "kahn fuel ps deg [] out = Some out"
| "kahn 0 ps deg (cur # ready) out = None"
| "kahn (Suc fuel) ps deg (cur # ready) out =
     (case release (sort (dependents ps cur)) deg ready of
        (deg', ready') \<Rightarrow> kahn fuel ps deg' ready' (out @ [cur]))"

definition topologicalOrder :: "work_package list \<Rightarrow> (graph_violation, string list) result" where
  "topologicalOrder ps =
     (case missing_edges ps of
        e # _ \<Rightarrow> Inl e
      | [] \<Rightarrow>
          let ready = sort (filter (\<lambda>k. in_degree ps k = 0) (dedup (map wp_id ps)))
          in (case kahn (length ps) ps (in_degree ps) ready [] of
                None \<Rightarrow> Inl TopologicalSortDiverged
              | Some out \<Rightarrow> if length out \<noteq> length ps then Inl TopologicalSortFailed else Inr out))"

section \<open>The validator\<close>

definition spec_map_errors :: "(string \<times> string) list \<Rightarrow> task_spec \<Rightarrow> graph_violation list" where
  "spec_map_errors owners spec =
     concat (map (\<lambda>(ac, owner).
       if ac \<in> set (map ac_ID (sp_criteria spec)) then [] else [CriterionNotInSpec owner ac]) owners)
     @ concat (map (\<lambda>ac. if map_of owners (ac_ID ac) = None then [CriterionUncovered (ac_ID ac)] else [])
         (sp_criteria spec))"

definition validate :: "work_graph \<Rightarrow> task_spec option \<Rightarrow> (graph_violation list, work_graph) result" where
  "validate g spec =
     (let ps = map normalise_package (wg_packages g);
          (pes, ids, owners) = check_packages 0 [] [] (wg_packages g);
          errs = (if TrimSpace (wg_task g) = '''' then [GraphNoTask] else [])
            @ (if wg_packages g = [] then [GraphNoPackages] else [])
            @ pes
            @ dep_errors ids ps
            @ detectCycle ps
            @ (if ps \<noteq> [] \<and> length ids = length ps \<and> weaklyUnreachable ps \<noteq> []
               then [UnreachablePackages (sort (weaklyUnreachable ps))] else [])
            @ (case spec of None \<Rightarrow> [] | Some sp \<Rightarrow> spec_map_errors owners sp)
      in if errs \<noteq> [] then Inl errs
         else Inr (g\<lparr>wg_packages := sort_key wp_id ps\<rparr>))"

definition ValidateWorkGraph :: "work_graph \<Rightarrow> (graph_violation list, work_graph) result" where
  "ValidateWorkGraph g = validate g None"

definition ValidateAgainstSpec :: "work_graph \<Rightarrow> task_spec \<Rightarrow> (graph_violation list, work_graph) result" where
  "ValidateAgainstSpec g spec0 =
     (case ValidateSpecification spec0 of
        Inl es \<Rightarrow> Inl [SpecInvalid es]
      | Inr spec \<Rightarrow> validate g (Some spec))"

definition PackageForAC :: "work_graph \<Rightarrow> string \<Rightarrow> work_package option" where
  "PackageForAC g ac = find (\<lambda>p. ac \<in> set (wp_criteria p)) (wg_packages g)"

definition TopologicalOrder :: "work_graph \<Rightarrow> (graph_violation, string list) result" where
  "TopologicalOrder g = topologicalOrder (wg_packages g)"

section \<open>Decomposition\<close>

definition packageID :: "string \<Rightarrow> string \<Rightarrow> string" where
  "packageID taskID acID = taskID @ ''-'' @ acID"

definition packageTitle :: "acceptance_criterion \<Rightarrow> string" where
  "packageTitle ac =
     (let stmt = TrimSpace (ac_Statement ac)
      in if stmt = '''' then ''Implement '' @ ac_ID ac
         else ''Implement '' @ ac_ID ac @ '': ''
           @ (if length stmt > 80 then take 77 stmt @ ''...'' else stmt))"

definition decompose_package :: "task_spec \<Rightarrow> nat \<Rightarrow> work_package" where
  "decompose_package spec i =
     (let ac = sp_criteria spec ! i
      in \<lparr>wp_id = packageID (sp_task spec) (ac_ID ac), wp_task = sp_task spec,
          wp_stage = StageImplementation, wp_title = packageTitle ac,
          wp_objective = sp_objective spec, wp_criteria = [ac_ID ac],
          wp_scope = sp_proposed_scope spec,
          wp_deps = (if i > 0 then [packageID (sp_task spec) (ac_ID (sp_criteria spec ! (i - 1)))]
                     else []),
          wp_state = PackagePending, wp_attempts = []\<rparr>)"

definition Decompose :: "task_spec \<Rightarrow> (graph_violation list, work_graph) result" where
  "Decompose spec0 =
     (case ValidateSpecification spec0 of
        Inl es \<Rightarrow> Inl [SpecInvalid es]
      | Inr spec \<Rightarrow>
          ValidateAgainstSpec \<lparr>wg_task = sp_task spec,
            wg_packages = map (decompose_package spec) [0..<length (sp_criteria spec)]\<rparr> spec)"

section \<open>Canonical form\<close>

definition sortedStrings :: "string list \<Rightarrow> string list" where
  "sortedStrings xs = sort (dedup xs)"

definition Canonicalize :: "work_graph \<Rightarrow> work_graph" where
  "Canonicalize g = g\<lparr>wg_packages := sort_key wp_id (map (\<lambda>p.
     p\<lparr>wp_criteria := sortedStrings (wp_criteria p), wp_scope := sortedStrings (wp_scope p),
       wp_deps := sortedStrings (wp_deps p)\<rparr>) (wg_packages g))\<rparr>"

end
