(* ===== verification/Workgraph_Search.thy ===== *)
theory Workgraph_Search
  imports Workgraph
begin

text \<open>
  Correctness of the three graph searches of the work-graph validator: the depth-first search
  reports a cycle exactly when there is one and never runs out of fuel, the breadth-first search
  visits exactly the weakly connected component of the first package, and Kahn's loop ends with
  the least topological order.
\<close>

section \<open>Depth-first search\<close>

definition edges :: "(string \<Rightarrow> string list) \<Rightarrow> (string \<times> string) set" where
  "edges adj = {(x, d). d \<in> set (adj x)}"

definition is_cycle :: "(string \<Rightarrow> string list) \<Rightarrow> string list \<Rightarrow> bool" where
  "is_cycle adj c \<longleftrightarrow> 2 \<le> length c \<and> hd c = last c \<and> successively (\<lambda>x y. y \<in> set (adj x)) c"

definition dfs_inv :: "(string \<Rightarrow> string list) \<Rightarrow> dfs_state \<Rightarrow> bool" where
  "dfs_inv adj st \<longleftrightarrow>
     (\<forall>x. color st x \<le> 2) \<and>
     (\<forall>x. color st x = 1 \<longleftrightarrow> x \<in> set (stack st)) \<and>
     distinct (stack st) \<and>
     successively (\<lambda>x y. y \<in> set (adj x)) (stack st) \<and>
     (\<forall>x. color st x = 2 \<longrightarrow> (\<forall>d \<in> set (adj x). color st d = 2) \<and> (x, x) \<notin> (edges adj)\<^sup>+)"

lemma successively_dropWhile: "successively P xs \<Longrightarrow> successively P (dropWhile Q xs)"
  by (induction xs) (auto simp: successively_Cons)

lemma cycle_path_is_cycle:
  assumes "successively (\<lambda>x y. y \<in> set (adj x)) (stk @ [node])" "d \<in> set (stk @ [node])"
    and "d \<in> set (adj node)"
  shows "is_cycle adj (cycle_path (stk @ [node]) node d)"
proof -
  let ?w = "dropWhile (\<lambda>n. n \<noteq> d) (stk @ [node])"
  have ne: "?w \<noteq> []" using assms(2) by (auto simp: dropWhile_eq_Nil_conv)
  have "hd ?w = d" using hd_dropWhile [of "\<lambda>n. n \<noteq> d" "stk @ [node]"] ne by simp
  moreover have "last ?w = node" using ne
    by (metis (no_types, lifting) last_appendR last_snoc takeWhile_dropWhile_id)
  moreover have "successively (\<lambda>x y. y \<in> set (adj x)) ?w"
    by (rule successively_dropWhile [OF assms(1)])
  moreover have "1 \<le> length ?w" using ne by (cases ?w) auto
  ultimately show ?thesis
    using assms(2,3) ne by (auto simp: is_cycle_def cycle_path_def successively_append_iff)
qed

text \<open>A black set is closed under edges, so a walk from it never leaves it.\<close>

lemma closed_walk:
  assumes "(x, y) \<in> (edges adj)\<^sup>+" "x \<in> B" "\<And>u d. u \<in> B \<Longrightarrow> d \<in> set (adj u) \<Longrightarrow> d \<in> B"
  shows "y \<in> B"
  using assms(1,2) by (induction rule: trancl_induct) (auto simp: edges_def intro: assms(3))

lemma blacken_acyclic:
  assumes "\<forall>d \<in> set (adj node). color st d = 2" "color st node \<noteq> 2"
    and "\<forall>x. color st x = 2 \<longrightarrow> (\<forall>d \<in> set (adj x). color st d = 2)"
  shows "(node, node) \<notin> (edges adj)\<^sup>+"
proof
  assume "(node, node) \<in> (edges adj)\<^sup>+"
  then obtain d where d: "d \<in> set (adj node)" "(d, node) \<in> (edges adj)\<^sup>+ \<or> d = node"
    by (auto simp: edges_def dest: tranclD rtranclD)
  then have "node \<in> {x. color st x = 2}"
  proof (elim disjE)
    assume w: "(d, node) \<in> (edges adj)\<^sup>+"
    show ?thesis by (rule closed_walk [OF w]) (use assms(1,3) d(1) in auto)
  qed (use assms(1) d(1) in auto)
  with assms(2) show False by simp
qed

definition dfs_post :: "(string \<Rightarrow> string list) \<Rightarrow> dfs_state \<Rightarrow> string list \<Rightarrow> string
    \<Rightarrow> (string list + dfs_state) option \<Rightarrow> bool" where
  "dfs_post adj st stk node r \<longleftrightarrow>
     (case r of
        None \<Rightarrow> True
      | Some (Inl c) \<Rightarrow> is_cycle adj c
      | Some (Inr st') \<Rightarrow> dfs_inv adj st' \<and> stack st' = stk \<and> color st' node = 2 \<and>
          (\<forall>x. color st x = 2 \<longrightarrow> color st' x = 2))"

lemma dfs_post_mono:
  "dfs_post adj st' stk node r \<Longrightarrow> \<forall>x. color st x = 2 \<longrightarrow> color st' x = 2 \<Longrightarrow> dfs_post adj st stk node r"
  by (auto simp: dfs_post_def split: option.splits sum.splits)

lemma dfs_correct:
  "dfs_inv adj st \<Longrightarrow> color st node = 0 \<Longrightarrow>
     (stack st \<noteq> [] \<longrightarrow> node \<in> set (adj (last (stack st)))) \<Longrightarrow>
     dfs_post adj st (stack st) node (dfs_node n adj st node)"
  "dfs_inv adj st \<Longrightarrow> stack st = stk @ [node] \<Longrightarrow> set ds \<subseteq> set (adj node) \<Longrightarrow>
     \<forall>d \<in> set (adj node) - set ds. color st d = 2 \<Longrightarrow>
     dfs_post adj st stk node (dfs_deps n adj st node ds)"
proof (induction n adj st node and n adj st node ds arbitrary: and stk rule: dfs_node_dfs_deps.induct)
  case (1 adj st node)
  show ?case by (simp add: dfs_post_def)
next
  case (2 n adj st node)
  let ?st = "st\<lparr>color := (color st)(node := 1), stack := stack st @ [node]\<rparr>"
  have "node \<notin> set (stack st)" using 2(2,3) by (metis dfs_inv_def zero_neq_one)
  then have "dfs_inv adj ?st"
    using 2(2-4) by (auto simp: dfs_inv_def successively_append_iff)
  then have "dfs_post adj ?st (stack st) node (dfs_deps n adj ?st node (sort (adj node)))"
    by (rule 2(1)) auto
  then have "dfs_post adj st (stack st) node (dfs_deps n adj ?st node (sort (adj node)))"
    by (rule dfs_post_mono) (use 2(3) in auto)
  then show ?case by simp
next
  case (3 n adj st node)
  have c: "\<forall>d \<in> set (adj node). color st d = 2" using 3(4) by simp
  have g: "color st node = 1" "node \<notin> set stk" "distinct stk"
    using 3(1,2) by (auto simp: dfs_inv_def)
  have "(node, node) \<notin> (edges adj)\<^sup>+"
    using blacken_acyclic [of adj node st] c g(1) 3(1) by (simp add: dfs_inv_def)
  with 3(1,2) c g show ?case
    by (auto simp: dfs_post_def dfs_inv_def successively_append_iff)
next
  case (4 n adj st node d ds)
  show ?case
  proof (cases "color st d = 1")
    case True
    then have "d \<in> set (stk @ [node])" using 4(4,5) by (simp add: dfs_inv_def)
    then have "is_cycle adj (cycle_path (stk @ [node]) node d)"
      using 4(4-6) by (intro cycle_path_is_cycle) (auto simp: dfs_inv_def)
    with True 4(5) show ?thesis by (simp add: dfs_post_def)
  next
    case gray: False
    show ?thesis
    proof (cases "color st d = 0")
      case True
      have n: "dfs_post adj st (stack st) d (dfs_node n adj st d)"
        by (rule 4(1) [OF gray True 4(4) True]) (use 4(5,6) in simp)
      show ?thesis
      proof (cases "dfs_node n adj st d")
        case None
        with gray True show ?thesis by (simp add: dfs_post_def)
      next
        case (Some r)
        show ?thesis
        proof (cases r)
          case (Inl c)
          with n Some gray True show ?thesis by (simp add: dfs_post_def)
        next
          case (Inr st')
          with n Some have p: "dfs_inv adj st'" "stack st' = stk @ [node]" "color st' d = 2"
              "\<forall>x. color st x = 2 \<longrightarrow> color st' x = 2"
            using 4(5) by (auto simp: dfs_post_def)
          have "dfs_post adj st' stk node (dfs_deps n adj st' node ds)"
            by (rule 4(2) [OF gray True Some Inr p(1,2)]) (use 4(6,7) p(3,4) in auto)
          with p(4) Some Inr gray True show ?thesis by (auto intro: dfs_post_mono)
        qed
      qed
    next
      case False
      then have "color st d = 2" using 4(4) gray by (metis dfs_inv_def le_SucE le_zero_eq numeral_2_eq_2 One_nat_def)
      then have "dfs_post adj st stk node (dfs_deps n adj st node ds)"
        by (intro 4(3) [OF gray False 4(4,5)]) (use 4(6,7) in auto)
      with gray False show ?thesis by simp
    qed
  qed
qed

lemma dfs_all_correct:
  assumes "dfs_inv adj st" "stack st = []"
  shows "case dfs_all n adj st ks of
      None \<Rightarrow> True
    | Some (Inl c) \<Rightarrow> is_cycle adj c
    | Some (Inr st') \<Rightarrow> dfs_inv adj st' \<and> stack st' = [] \<and> (\<forall>k \<in> set ks. color st' k = 2) \<and>
        (\<forall>x. color st x = 2 \<longrightarrow> color st' x = 2)"
  using assms
proof (induction ks arbitrary: st)
  case (Cons k ks)
  show ?case
  proof (cases "color st k = 0")
    case True
    have p: "dfs_post adj st (stack st) k (dfs_node n adj st k)"
      using dfs_correct(1) [OF Cons.prems(1) True] Cons.prems(2) by simp
    show ?thesis
    proof (cases "dfs_node n adj st k")
      case (Some r)
      then show ?thesis
      proof (cases r)
        case (Inr st')
        with p Some Cons.prems have "dfs_inv adj st'" "stack st' = []" "color st' k = 2"
            "\<forall>x. color st x = 2 \<longrightarrow> color st' x = 2" by (auto simp: dfs_post_def)
        with Cons.IH [of st'] Some Inr True show ?thesis
          by (auto split: option.splits sum.splits)
      qed (use p True in \<open>simp add: dfs_post_def\<close>)
    qed (use True in simp)
  next
    case False
    then have "color st k = 2"
      using Cons.prems by (metis dfs_inv_def le_SucE le_zero_eq list.set(1) empty_iff numeral_2_eq_2 One_nat_def)
    with False Cons.IH [OF Cons.prems] show ?thesis
      by (auto split: option.splits sum.splits)
  qed
qed simp

subsection \<open>The fuel is enough\<close>

definition whites :: "string set \<Rightarrow> dfs_state \<Rightarrow> nat" where
  "whites U st = card {x \<in> U. color st x = 0}"

lemma dfs_fuel:
  "finite U \<Longrightarrow> (\<And>x. x \<in> U \<Longrightarrow> set (adj x) \<subseteq> U) \<Longrightarrow> node \<in> U \<Longrightarrow> color st node = 0 \<Longrightarrow>
     whites U st \<le> n \<Longrightarrow>
     \<exists>r. dfs_node n adj st node = Some r \<and> (\<forall>st'. r = Inr st' \<longrightarrow> whites U st' \<le> whites U st)"
  "finite U \<Longrightarrow> (\<And>x. x \<in> U \<Longrightarrow> set (adj x) \<subseteq> U) \<Longrightarrow> set ds \<subseteq> U \<Longrightarrow> node \<in> U \<Longrightarrow>
     whites U st \<le> n \<Longrightarrow>
     \<exists>r. dfs_deps n adj st node ds = Some r \<and> (\<forall>st'. r = Inr st' \<longrightarrow> whites U st' \<le> whites U st)"
proof (induction n adj st node and n adj st node ds rule: dfs_node_dfs_deps.induct)
  case (1 adj st node)
  then have "node \<in> {x \<in> U. color st x = 0}" by simp
  with 1(1,5) show ?case by (auto simp: whites_def card_eq_0_iff)
next
  case (2 n adj st node)
  let ?st = "st\<lparr>color := (color st)(node := 1), stack := stack st @ [node]\<rparr>"
  have "{x \<in> U. color st x = 0} = insert node {x \<in> U. color ?st x = 0}" using 2(4,5) by auto
  then have w: "whites U st = Suc (whites U ?st)" using 2(2) by (simp add: whites_def)
  then have "\<exists>r. dfs_deps n adj ?st node (sort (adj node)) = Some r \<and>
      (\<forall>st'. r = Inr st' \<longrightarrow> whites U st' \<le> whites U ?st)"
    using 2(2-6) by (intro 2(1)) auto
  with w show ?case by auto
next
  case (3 n adj st node)
  have "{x \<in> U. ((color st)(node := 2)) x = 0} \<subseteq> {x \<in> U. color st x = 0}" by auto
  with 3(1) show ?case by (auto simp: whites_def intro: card_mono)
next
  case (4 n adj st node d ds)
  show ?case
  proof (cases "color st d = 0")
    case True
    then have "\<exists>r. dfs_node n adj st d = Some r \<and> (\<forall>st'. r = Inr st' \<longrightarrow> whites U st' \<le> whites U st)"
      using 4(4-8) by (intro 4(1)) auto
    then obtain r where r: "dfs_node n adj st d = Some r"
        "\<forall>st'. r = Inr st' \<longrightarrow> whites U st' \<le> whites U st" by blast
    show ?thesis
    proof (cases r)
      case (Inr st')
      then have "\<exists>r. dfs_deps n adj st' node ds = Some r \<and>
          (\<forall>st''. r = Inr st'' \<longrightarrow> whites U st'' \<le> whites U st')"
        using 4(4-8) True r by (intro 4(2) [of r]) auto
      with r Inr True show ?thesis by fastforce
    qed (use r True in auto)
  next
    case False
    then show ?thesis using 4(3-8) by (cases "color st d = 1") auto
  qed
qed

lemma dfs_all_fuel:
  assumes "finite U" "\<And>x. x \<in> U \<Longrightarrow> set (adj x) \<subseteq> U" "set ks \<subseteq> U" "whites U st \<le> n"
  shows "dfs_all n adj st ks \<noteq> None"
  using assms(3,4)
proof (induction ks arbitrary: st)
  case (Cons k ks)
  show ?case
  proof (cases "color st k = 0")
    case True
    with dfs_fuel(1) [of U adj k st n] assms(1,2) Cons.prems obtain r where
      r: "dfs_node n adj st k = Some r" "\<forall>st'. r = Inr st' \<longrightarrow> whites U st' \<le> whites U st"
      by auto
    then show ?thesis using Cons True by (cases r) auto
  next
    case False
    with Cons show ?thesis by simp
  qed
qed simp

subsection \<open>The cycle check\<close>

definition dep_edges :: "work_package list \<Rightarrow> (string \<times> string) set" where
  "dep_edges ps = edges (adj_of ps)"

lemma adj_of_subset: "set (adj_of ps k) \<subseteq> set (graph_nodes ps)"
proof -
  have "set (wp_deps p) \<subseteq> set (graph_nodes ps)" if "p \<in> set ps" for p
    using that by (auto simp: graph_nodes_def)
  moreover have "find (\<lambda>p. wp_id p = k) (rev ps) = Some p \<Longrightarrow> p \<in> set ps" for p
    using find_Some_mem by fastforce
  ultimately show ?thesis
    by (cases "find (\<lambda>p. wp_id p = k) (rev ps)") (simp_all add: adj_of_def)
qed

lemma adj_of_no_package: "k \<notin> wp_id ` set ps \<Longrightarrow> adj_of ps k = []"
  by (auto simp: adj_of_def split: option.splits dest!: find_Some_mem)

lemma trancl_succ: "(x, y) \<in> (edges adj)\<^sup>+ \<Longrightarrow> adj x \<noteq> []"
  by (auto simp: edges_def dest: tranclD)

lemma walk_trancl:
  "successively (\<lambda>x y. y \<in> set (adj x)) (a # ws) \<Longrightarrow> ws \<noteq> [] \<Longrightarrow> (a, last ws) \<in> (edges adj)\<^sup>+"
proof (induction ws arbitrary: a)
  case (Cons b ws)
  then have ab: "(a, b) \<in> edges adj" by (simp add: edges_def)
  show ?case
  proof (cases "ws = []")
    case False
    with Cons have "(b, last ws) \<in> (edges adj)\<^sup>+" by (simp add: successively_Cons)
    with ab False show ?thesis by simp
  qed (use ab in simp)
qed simp

lemma is_cycle_not_acyclic: "is_cycle adj c \<Longrightarrow> \<not> acyclic (edges adj)"
proof -
  assume c: "is_cycle adj c"
  then obtain a ws where w: "c = a # ws" "ws \<noteq> []"
    by (cases c) (auto simp: is_cycle_def Suc_le_eq)
  with c have "(a, last ws) \<in> (edges adj)\<^sup>+" "a = last ws"
    using walk_trancl [of adj a ws] by (auto simp: is_cycle_def)
  then show ?thesis by (auto simp: acyclic_def)
qed

lemma detectCycle_result:
  "(\<exists>cyc. detectCycle ps = [DependencyCycle cyc] \<and> is_cycle (adj_of ps) cyc) \<or>
   detectCycle ps = [] \<and> acyclic (dep_edges ps)"
proof -
  let ?st = "\<lparr>color = (\<lambda>_. 0), stack = []\<rparr> :: dfs_state" and ?adj = "adj_of ps"
  let ?U = "set (graph_nodes ps)" and ?n = "length (graph_nodes ps)" and ?ks = "sort (map wp_id ps)"
  have "whites ?U ?st \<le> ?n" by (simp add: whites_def card_length)
  moreover have ks: "set ?ks \<subseteq> ?U" by (auto simp: graph_nodes_def)
  ultimately have f: "dfs_all ?n ?adj ?st ?ks \<noteq> None"
    using adj_of_subset by (intro dfs_all_fuel [of ?U]) auto
  have i: "dfs_inv ?adj ?st" by (simp add: dfs_inv_def)
  note c = dfs_all_correct [OF i, where n = ?n and ks = ?ks]
  from f obtain r where r: "dfs_all ?n ?adj ?st ?ks = Some r" by blast
  show ?thesis
  proof (cases r)
    case (Inl cyc)
    with c r show ?thesis by (simp add: detectCycle_def)
  next
    case (Inr st')
    with c r have b: "dfs_inv ?adj st'" "\<forall>k \<in> wp_id ` set ps. color st' k = 2" by auto
    have "(x, x) \<notin> (edges ?adj)\<^sup>+" for x
    proof
      assume x: "(x, x) \<in> (edges ?adj)\<^sup>+"
      then have "x \<in> wp_id ` set ps" using trancl_succ adj_of_no_package by blast
      with b x show False by (auto simp: dfs_inv_def)
    qed
    with r Inr show ?thesis by (simp add: detectCycle_def dep_edges_def acyclic_def)
  qed
qed

lemma detectCycle_acyclic: "detectCycle ps = [] \<longleftrightarrow> acyclic (dep_edges ps)"
  using detectCycle_result [of ps] is_cycle_not_acyclic by (auto simp: dep_edges_def)

section \<open>Breadth-first search\<close>

text \<open>Two packages are linked when one lists the other as a dependency.\<close>

definition linked :: "work_package list \<Rightarrow> (string \<times> string) set" where
  "linked ps = {(a, b). a \<in> wp_id ` set ps \<and> b \<in> wp_id ` set ps \<and>
     (\<exists>p \<in> set ps. wp_id p = a \<and> b \<in> set (wp_deps p) \<or> wp_id p = b \<and> a \<in> set (wp_deps p))}"

lemma mem_neighbours:
  "b \<in> set (neighbours ps cur) \<longleftrightarrow>
     (\<exists>p \<in> set ps. \<exists>d \<in> set (wp_deps p). d \<in> wp_id ` set ps \<and>
        (wp_id p = cur \<and> b = d \<or> d = cur \<and> b = wp_id p))"
  by (auto simp: neighbours_def split: if_splits)

lemma set_neighbours: "set (neighbours ps cur) = {b. (cur, b) \<in> linked ps}"
proof (intro set_eqI iffI)
  fix b assume "b \<in> set (neighbours ps cur)"
  then show "b \<in> {b. (cur, b) \<in> linked ps}"
    unfolding mem_neighbours linked_def by blast
next
  fix b assume "b \<in> {b. (cur, b) \<in> linked ps}"
  then obtain p where p: "p \<in> set ps" "cur \<in> wp_id ` set ps" "b \<in> wp_id ` set ps"
      "wp_id p = cur \<and> b \<in> set (wp_deps p) \<or> wp_id p = b \<and> cur \<in> set (wp_deps p)"
    unfolding linked_def by blast
  then show "b \<in> set (neighbours ps cur)" unfolding mem_neighbours by blast
qed

lemma bfs_sound: "set queue \<subseteq> set visited \<Longrightarrow> set (bfs ps queue visited) \<subseteq> (linked ps)\<^sup>* `` set visited"
proof (induction ps queue visited rule: bfs.induct)
  case (2 ps cur queue visited)
  let ?new = "filter (\<lambda>n. n \<notin> set visited) (neighbours ps cur)"
  have "set (visited @ ?new) \<subseteq> (linked ps)\<^sup>* `` set visited"
    using 2(2) by (auto simp: set_neighbours)
  then have "(linked ps)\<^sup>* `` set (visited @ ?new) \<subseteq> (linked ps)\<^sup>* `` ((linked ps)\<^sup>* `` set visited)"
    by (rule Image_mono [OF subset_refl])
  also have "\<dots> = (linked ps)\<^sup>* `` set visited"
    by (simp flip: relcomp_Image)
  finally have "(linked ps)\<^sup>* `` set (visited @ ?new) \<subseteq> (linked ps)\<^sup>* `` set visited" .
  moreover have "set (bfs ps (queue @ ?new) (visited @ ?new)) \<subseteq> (linked ps)\<^sup>* `` set (visited @ ?new)"
    using 2(2) by (intro 2(1)) auto
  ultimately show ?case by (simp add: Let_def)
qed auto

lemma bfs_closed:
  "set queue \<subseteq> set visited \<Longrightarrow> \<forall>x \<in> set visited - set queue. (linked ps) `` {x} \<subseteq> set visited \<Longrightarrow>
     set visited \<subseteq> set (bfs ps queue visited) \<and>
     (\<forall>x \<in> set (bfs ps queue visited). (linked ps) `` {x} \<subseteq> set (bfs ps queue visited))"
proof (induction ps queue visited rule: bfs.induct)
  case (2 ps cur queue visited)
  let ?new = "filter (\<lambda>n. n \<notin> set visited) (neighbours ps cur)"
  have q: "set (queue @ ?new) \<subseteq> set (visited @ ?new)" using 2(2) by auto
  have "linked ps `` {x} \<subseteq> set (visited @ ?new)"
    if "x \<in> set (visited @ ?new) - set (queue @ ?new)" for x
  proof (cases "x = cur")
    case True
    then show ?thesis by (auto simp: set_neighbours)
  next
    case False
    with that 2(3) show ?thesis by auto
  qed
  with 2(1) [OF refl q] show ?case by (simp add: Let_def)
qed auto

lemma weaklyUnreachable_connected:
  "ps \<noteq> [] \<Longrightarrow> weaklyUnreachable ps = [] \<longleftrightarrow>
     (\<forall>p \<in> set ps. (wp_id (hd ps), wp_id p) \<in> (linked ps)\<^sup>*)"
proof -
  assume "ps \<noteq> []"
  then obtain p0 ps' where ps: "ps = p0 # ps'" by (cases ps) auto
  let ?r = "wp_id p0" let ?B = "set (bfs ps [?r] [?r])"
  have "?B \<subseteq> (linked ps)\<^sup>* `` {?r}" using bfs_sound [of "[?r]" "[?r]" ps] by simp
  moreover have c: "?r \<in> ?B" "\<forall>x \<in> ?B. linked ps `` {x} \<subseteq> ?B"
    using bfs_closed [of "[?r]" "[?r]" ps] by auto
  have "(linked ps)\<^sup>* `` {?r} \<subseteq> ?B"
  proof
    fix y assume "y \<in> (linked ps)\<^sup>* `` {?r}"
    then have "(?r, y) \<in> (linked ps)\<^sup>*" by simp
    then show "y \<in> ?B" by (induction rule: rtrancl_induct) (use c in auto)
  qed
  ultimately have "?B = (linked ps)\<^sup>* `` {?r}" by blast
  then show ?thesis by (auto simp: weaklyUnreachable_def ps Let_def filter_empty_conv simp del: bfs.simps)
qed

section \<open>Kahn's loop\<close>

lemma insert_ready_insort: "insert_ready n xs = insort n xs"
  by (induction xs) (auto simp: insert_ready_def)

lemma release_result:
  "distinct ns \<Longrightarrow> sorted ready \<Longrightarrow> distinct ready \<Longrightarrow> set ns \<inter> set ready = {} \<Longrightarrow>
     release ns deg ready = (deg', ready') \<Longrightarrow>
     deg' = (\<lambda>k. if k \<in> set ns then deg k - 1 else deg k) \<and> sorted ready' \<and> distinct ready' \<and>
     set ready' = set ready \<union> {n \<in> set ns. deg n = 1}"
proof (induction ns arbitrary: deg ready)
  case (Cons n ns)
  let ?r = "if deg n - 1 = 0 then insert_ready n ready else ready"
  let ?d = "deg(n := deg n - 1)"
  have r: "sorted ?r" "distinct ?r" "set ?r = set ready \<union> {m. m = n \<and> deg n = 1}"
    using Cons.prems by (auto simp: insert_ready_insort sorted_insort distinct_insort set_insort_key)
  have rel: "release ns ?d ?r = (deg', ready')" using Cons.prems(5) by (simp add: Let_def)
  have dj: "set ns \<inter> set ?r = {}" unfolding r(3) using Cons.prems(1,4) by auto
  have ns: "distinct ns" using Cons.prems(1) by simp
  have "deg' = (\<lambda>k. if k \<in> set ns then ?d k - 1 else ?d k) \<and>
      sorted ready' \<and> distinct ready' \<and> set ready' = set ?r \<union> {m \<in> set ns. ?d m = 1}"
    by (rule Cons.IH [OF ns r(1,2) dj rel])
  moreover have "{m \<in> set ns. ?d m = 1} = {m \<in> set ns. deg m = 1}" using Cons.prems(1) by auto
  ultimately show ?case using Cons.prems(1) unfolding r(3) by (auto simp: fun_eq_iff)
qed auto

definition dag :: "work_package list \<Rightarrow> bool" where
  "dag ps \<longleftrightarrow> distinct (map wp_id ps) \<and>
     (\<forall>p \<in> set ps. distinct (wp_deps p) \<and> set (wp_deps p) \<subseteq> wp_id ` set ps) \<and>
     acyclic (dep_edges ps)"

lemma adj_of_package:
  assumes "distinct (map wp_id ps)" "p \<in> set ps"
  shows "adj_of ps (wp_id p) = wp_deps p"
proof -
  have "find (\<lambda>q. wp_id q = wp_id p) (rev ps) = Some p"
    by (rule find_unique) (use assms in \<open>auto simp: distinct_map dest: inj_onD\<close>)
  then show ?thesis by (simp add: adj_of_def)
qed

lemma adj_of_ids: "dag ps \<Longrightarrow> set (adj_of ps k) \<subseteq> wp_id ` set ps"
  by (cases "k \<in> wp_id ` set ps") (force simp: dag_def adj_of_package, simp add: adj_of_no_package)

lemma adj_of_distinct: "dag ps \<Longrightarrow> distinct (adj_of ps k)"
  by (cases "k \<in> wp_id ` set ps") (auto simp: dag_def adj_of_package adj_of_no_package)

lemma in_degree_adj: "distinct (map wp_id ps) \<Longrightarrow> in_degree ps k = int (length (adj_of ps k))"
proof (cases "k \<in> wp_id ` set ps")
  case False
  then have "concat (map (\<lambda>p. if wp_id p = k then wp_deps p else []) ps) = []" by auto
  with False show ?thesis by (simp add: in_degree_def adj_of_no_package)
next
  case True
  assume d: "distinct (map wp_id ps)"
  obtain p where p: "p \<in> set ps" "k = wp_id p" using True by auto
  have "concat (map (\<lambda>p. if wp_id p = k then wp_deps p else []) qs) =
      (if p \<in> set qs then wp_deps p else [])" if "distinct (map wp_id qs)" "set qs \<subseteq> set ps" for qs
    using that
  proof (induction qs)
    case (Cons q qs)
    then show ?case
      using d p by (auto simp: distinct_map dest: inj_onD)
  qed simp
  from this [OF d] p d show ?thesis by (simp add: in_degree_def adj_of_package)
qed

lemma set_dependents: "set (dependents ps d) = {wp_id p | p. p \<in> set ps \<and> d \<in> set (wp_deps p)}"
  by (auto simp: dependents_def split: if_splits)

lemma dependents_adj: "dag ps \<Longrightarrow> set (dependents ps d) = {k \<in> wp_id ` set ps. d \<in> set (adj_of ps k)}"
  by (auto simp: set_dependents dag_def adj_of_package)

lemma concat_single: "distinct ds \<Longrightarrow> concat (map (\<lambda>e. if e = d then [x] else []) ds) = (if d \<in> set ds then [x] else [])"
  by (induction ds) auto

lemma distinct_dependents: "dag ps \<Longrightarrow> distinct (dependents ps d)"
proof -
  assume "dag ps"
  then have "distinct (map wp_id ps)" "\<forall>p \<in> set ps. distinct (wp_deps p)" by (auto simp: dag_def)
  moreover have "distinct (map wp_id qs) \<Longrightarrow> \<forall>p \<in> set qs. distinct (wp_deps p) \<Longrightarrow> distinct (dependents qs d)" for qs
  proof (induction qs)
    case (Cons q qs)
    have "dependents (q # qs) d = (if d \<in> set (wp_deps q) then [wp_id q] else []) @ dependents qs d"
      using Cons.prems by (simp add: dependents_def concat_single)
    with Cons show ?case by (auto simp: set_dependents)
  qed (simp add: dependents_def)
  ultimately show ?thesis by blast
qed

definition enabled :: "work_package list \<Rightarrow> string set \<Rightarrow> string \<Rightarrow> bool" where
  "enabled ps done k \<longleftrightarrow> k \<in> wp_id ` set ps \<and> k \<notin> done \<and> set (adj_of ps k) \<subseteq> done"

text \<open>Every element was enabled when it was taken, and the least enabled one.\<close>

definition least_order :: "work_package list \<Rightarrow> string list \<Rightarrow> bool" where
  "least_order ps out \<longleftrightarrow> (\<forall>i < length out. enabled ps (set (take i out)) (out ! i) \<and>
     (\<forall>k. enabled ps (set (take i out)) k \<longrightarrow> out ! i \<le> k))"

lemma least_order_snoc:
  "least_order ps (out @ [x]) \<longleftrightarrow> least_order ps out \<and> enabled ps (set out) x \<and>
     (\<forall>k. enabled ps (set out) k \<longrightarrow> x \<le> k)"
  by (auto simp: least_order_def nth_append less_Suc_eq)

definition kahn_inv :: "work_package list \<Rightarrow> (string \<Rightarrow> int) \<Rightarrow> string list \<Rightarrow> string list \<Rightarrow> bool" where
  "kahn_inv ps deg ready out \<longleftrightarrow>
     distinct out \<and> set out \<subseteq> wp_id ` set ps \<and> least_order ps out \<and>
     (\<forall>k \<in> wp_id ` set ps. deg k = int (card (set (adj_of ps k) - set out))) \<and>
     sorted ready \<and> distinct ready \<and> set ready = Collect (enabled ps (set out))"

lemma kahn_inv_start:
  assumes "dag ps"
  shows "kahn_inv ps (in_degree ps) (sort (filter (\<lambda>k. in_degree ps k = 0) (dedup (map wp_id ps)))) []"
proof -
  have d: "distinct (map wp_id ps)" using assms by (simp add: dag_def)
  have "in_degree ps k = int (card (set (adj_of ps k)))" for k
    using in_degree_adj [OF d] distinct_card [OF adj_of_distinct [OF assms]] by simp
  moreover have "in_degree ps k = 0 \<longleftrightarrow> set (adj_of ps k) \<subseteq> {}" for k
    using in_degree_adj [OF d] by simp
  ultimately show ?thesis
    by (auto simp: kahn_inv_def least_order_def enabled_def)
qed

lemma card_is_1: "x \<in> A \<Longrightarrow> card A = 1 \<longleftrightarrow> A = {x}"
  by (metis One_nat_def card.empty card.insert card_1_singletonE finite.emptyI insert_absorb
      insert_not_empty singletonD)

lemma kahn_inv_step:
  assumes dag: "dag ps" and inv: "kahn_inv ps deg (cur # ready) out"
    and rel: "release (sort (dependents ps cur)) deg ready = (deg', ready')"
  shows "kahn_inv ps deg' ready' (out @ [cur])"
proof -
  note I = inv [unfolded kahn_inv_def]
  have cur: "enabled ps (set out) cur" using I by (metis list.set_intros(1) mem_Collect_eq)
  then have c: "cur \<in> wp_id ` set ps" "cur \<notin> set out" "set (adj_of ps cur) \<subseteq> set out"
    by (auto simp: enabled_def)
  have deps: "set (dependents ps cur) = {k \<in> wp_id ` set ps. cur \<in> set (adj_of ps k)}"
    by (rule dependents_adj [OF dag])
  have "set (dependents ps cur) \<inter> set ready = {}"
  proof -
    have "k \<in> Collect (enabled ps (set out))" if "k \<in> set ready" for k using I that by auto
    then have "set (adj_of ps k) \<subseteq> set out" if "k \<in> set ready" for k
      using that by (auto simp: enabled_def)
    then show ?thesis using c(2) by (auto simp: deps)
  qed
  then have R: "deg' = (\<lambda>k. if k \<in> set (dependents ps cur) then deg k - 1 else deg k)"
      "sorted ready'" "distinct ready'"
      "set ready' = set ready \<union> {n \<in> set (dependents ps cur). deg n = 1}"
    using release_result [OF _ _ _ _ rel] distinct_dependents [OF dag] I by auto
  have deg1: "deg k = 1 \<longleftrightarrow> set (adj_of ps k) - set out = {cur}" if "k \<in> set (dependents ps cur)" for k
  proof -
    have k: "k \<in> wp_id ` set ps" "cur \<in> set (adj_of ps k) - set out" using that c(2) by (auto simp: deps)
    then have "deg k = int (card (set (adj_of ps k) - set out))" using I by blast
    then have "deg k = 1 \<longleftrightarrow> card (set (adj_of ps k) - set out) = 1" by simp
    with card_is_1 [OF k(2)] show ?thesis by simp
  qed
  have "deg' k = int (card (set (adj_of ps k) - set (out @ [cur])))" if k: "k \<in> wp_id ` set ps" for k
  proof (cases "cur \<in> set (adj_of ps k)")
    case True
    have dk: "deg k = int (card (set (adj_of ps k) - set out))" using I k by blast
    have "set (adj_of ps k) - set (out @ [cur]) = (set (adj_of ps k) - set out) - {cur}" by auto
    moreover have m: "cur \<in> set (adj_of ps k) - set out" using True c(2) by simp
    ultimately have "card (set (adj_of ps k) - set (out @ [cur])) = card (set (adj_of ps k) - set out) - 1"
      by simp
    moreover have "0 < card (set (adj_of ps k) - set out)" using m by (auto simp: card_gt_0_iff)
    ultimately show ?thesis using True k dk by (simp add: R(1) deps)
  next
    case False
    have dk: "deg k = int (card (set (adj_of ps k) - set out))" using I k by blast
    from False have "set (adj_of ps k) - set (out @ [cur]) = set (adj_of ps k) - set out" by auto
    with False k dk show ?thesis by (simp add: R(1) deps)
  qed
  moreover have "set ready' = Collect (enabled ps (set (out @ [cur])))"
  proof -
    have ready: "set ready = Collect (enabled ps (set out)) - {cur}"
      using I by (metis Diff_insert_absorb distinct.simps(2) list.simps(15))
    have out: "k \<in> set out \<Longrightarrow> set (adj_of ps k) \<subseteq> set out" for k
      using I by (auto simp: least_order_def enabled_def in_set_conv_nth dest: set_take_subset [THEN subsetD])
    show ?thesis
    proof (intro set_eqI iffI)
      fix k assume "k \<in> set ready'"
      then consider "enabled ps (set out) k" "k \<noteq> cur"
        | "k \<in> wp_id ` set ps" "cur \<in> set (adj_of ps k)" "set (adj_of ps k) - set out = {cur}"
        unfolding R(4) ready using deg1 deps by blast
      then have "enabled ps (set (out @ [cur])) k"
      proof cases
        case 2
        then have "k \<notin> set out" "k \<noteq> cur" using out [of k] c by blast+
        with 2 show ?thesis by (auto simp: enabled_def)
      qed (auto simp: enabled_def)
      then show "k \<in> Collect (enabled ps (set (out @ [cur])))" by simp
    next
      fix k assume "k \<in> Collect (enabled ps (set (out @ [cur])))"
      then have k: "k \<in> wp_id ` set ps" "k \<notin> set out" "k \<noteq> cur"
          "set (adj_of ps k) \<subseteq> insert cur (set out)" by (auto simp: enabled_def)
      show "k \<in> set ready'"
      proof (cases "cur \<in> set (adj_of ps k)")
        case True
        then have "set (adj_of ps k) - set out = {cur}" using k(4) c(2) by blast
        with True k(1) deg1 [of k] show ?thesis unfolding R(4) deps by simp
      next
        case False
        with k have "enabled ps (set out) k" unfolding enabled_def by blast
        with k(3) show ?thesis unfolding R(4) ready by simp
      qed
    qed
  qed
  moreover have "cur \<le> k" if "enabled ps (set out) k" for k
  proof -
    have "k \<in> set (cur # ready)" using that I by auto
    then show ?thesis using I by auto
  qed
  ultimately show ?thesis
    using I R(2,3) c cur by (auto simp: kahn_inv_def least_order_snoc)
qed

lemma kahn_inv_length: "kahn_inv ps deg (cur # ready) out \<Longrightarrow> length out < length ps"
proof -
  assume I: "kahn_inv ps deg (cur # ready) out"
  then have "cur \<in> Collect (enabled ps (set out))" by (auto simp: kahn_inv_def)
  then have d: "distinct (out @ [cur])" "set (out @ [cur]) \<subseteq> wp_id ` set ps"
    using I by (auto simp: kahn_inv_def enabled_def)
  have "length (out @ [cur]) = card (set (out @ [cur]))" using d(1) by (simp only: distinct_card)
  also have "\<dots> \<le> card (wp_id ` set ps)" using d(2) by (intro card_mono) auto
  also have "\<dots> \<le> length ps" by (metis card_image_le card_length finite_set order_trans)
  finally show ?thesis by simp
qed

lemma kahn_result:
  assumes "dag ps"
  shows "kahn_inv ps deg ready out \<Longrightarrow> length ps \<le> fuel + length out \<Longrightarrow>
    \<exists>out' deg'. kahn fuel ps deg ready out = Some out' \<and> kahn_inv ps deg' [] out'"
proof (induction fuel arbitrary: deg ready out)
  case 0
  then show ?case using kahn_inv_length [of ps deg _ _ out] by (cases ready) auto
next
  case (Suc fuel)
  show ?case
  proof (cases ready)
    case Nil
    with Suc.prems show ?thesis by auto
  next
    case (Cons cur rest)
    obtain deg' ready' where rel: "release (sort (dependents ps cur)) deg rest = (deg', ready')"
      by fastforce
    have "kahn_inv ps deg' ready' (out @ [cur])"
      using kahn_inv_step [OF assms _ rel] Suc.prems(1) Cons by blast
    with Suc.IH [of deg' ready' "out @ [cur]"] Suc.prems(2) rel Cons show ?thesis by simp
  qed
qed

lemma finite_dep_edges: "dag ps \<Longrightarrow> finite (dep_edges ps)"
proof -
  assume d: "dag ps"
  have "dep_edges ps \<subseteq> wp_id ` set ps \<times> wp_id ` set ps"
    using adj_of_ids [OF d] adj_of_no_package [of _ ps]
    by (fastforce simp: dep_edges_def edges_def)
  then show ?thesis by (rule finite_subset) simp
qed

text \<open>A finite acyclic graph always has an enabled package while one is left.\<close>

lemma dag_progress:
  assumes "dag ps" "\<not> wp_id ` set ps \<subseteq> done"
  shows "\<exists>k. enabled ps done k"
proof -
  have "wf ((dep_edges ps)\<inverse>)"
    using assms(1) finite_dep_edges by (simp add: dag_def finite_acyclic_wf_converse)
  moreover obtain x where "x \<in> wp_id ` set ps - done" using assms(2) by auto
  ultimately obtain k where k: "k \<in> wp_id ` set ps - done"
      "\<And>y. (y, k) \<in> (dep_edges ps)\<inverse> \<Longrightarrow> y \<notin> wp_id ` set ps - done"
    by (rule wfE_min) blast
  then have "set (adj_of ps k) \<subseteq> done"
    using adj_of_ids [OF assms(1), of k] by (auto simp: dep_edges_def edges_def)
  with k(1) show ?thesis by (auto simp: enabled_def)
qed

lemma topologicalOrder_dag:
  assumes "dag ps"
  shows "\<exists>out. topologicalOrder ps = Inr out \<and> distinct out \<and> set out = wp_id ` set ps \<and> least_order ps out"
proof -
  let ?ready = "sort (filter (\<lambda>k. in_degree ps k = 0) (dedup (map wp_id ps)))"
  obtain out deg where o: "kahn (length ps) ps (in_degree ps) ?ready [] = Some out" "kahn_inv ps deg [] out"
    using kahn_result [OF assms kahn_inv_start [OF assms], of "length ps"] by auto
  have "wp_id ` set ps \<subseteq> set out"
    using dag_progress [OF assms, of "set out"] o(2) by (auto simp: kahn_inv_def)
  with o(2) have s: "set out = wp_id ` set ps" "distinct out" "least_order ps out"
    by (auto simp: kahn_inv_def)
  have "length out = length ps"
    using assms s distinct_card [of out] distinct_card [of "map wp_id ps"] by (simp add: dag_def)
  moreover have "missing_edges ps = []"
    using assms by (fastforce simp: missing_edges_def dag_def)
  ultimately show ?thesis using o(1) s by (simp add: topologicalOrder_def Let_def)
qed

end
