(* ===== verification/Workgraph_Valid.thy ===== *)
theory Workgraph_Valid
  imports Workgraph_Search
begin

text \<open>
  What the work-graph validator accepts and what a validated graph guarantees: the
  characterisation of \<open>validate\<close>, the topological order of validated graphs, and the success of
  \<open>Decompose\<close> on compiled specifications.
\<close>

section \<open>The structural checks\<close>

lemma concat_map_Nil: "concat (map f xs) = [] \<longleftrightarrow> (\<forall>x \<in> set xs. f x = [])"
  by (induction xs) auto

lemma owner_errors_ok:
  "owner_errors k owners acs = ([], owners') \<longleftrightarrow>
     distinct acs \<and> set acs \<inter> fst ` set owners = {} \<and> owners' = owners @ map (\<lambda>ac. (ac, k)) acs"
proof (induction acs arbitrary: owners)
  case (Cons ac acs)
  show ?case
  proof (cases "map_of owners ac")
    case None
    then have "ac \<notin> fst ` set owners" by (simp add: map_of_eq_None_iff)
    with None Cons.IH [of "owners @ [(ac, k)]"] show ?thesis by auto
  next
    case (Some owner)
    then have "ac \<in> fst ` set owners" by (metis domI dom_map_of_conv_image_fst)
    with Some show ?thesis by (auto simp: Let_def split: prod.splits)
  qed
qed auto

definition owner_pairs :: "work_package list \<Rightarrow> (string \<times> string) list" where
  "owner_pairs ps = concat (map (\<lambda>p. map (\<lambda>ac. (ac, wp_id p)) (wp_criteria p)) ps)"

definition packages_ok :: "work_package list \<Rightarrow> bool" where
  "packages_ok ps \<longleftrightarrow> (\<forall>p \<in> set ps. package_errors p = []) \<and>
     '''' \<notin> wp_id ` set (map normalise_package ps) \<and>
     distinct (map wp_id (map normalise_package ps)) \<and>
     distinct (concat (map wp_criteria (map normalise_package ps)))"

lemma packages_ok_Cons:
  "packages_ok (p # ps) \<longleftrightarrow>
     package_errors p = [] \<and> wp_id (normalise_package p) \<noteq> '''' \<and>
     wp_id (normalise_package p) \<notin> wp_id ` set (map normalise_package ps) \<and>
     distinct (wp_criteria (normalise_package p)) \<and>
     set (wp_criteria (normalise_package p)) \<inter> set (concat (map wp_criteria (map normalise_package ps))) = {} \<and>
     packages_ok ps"
  by (auto simp: packages_ok_def)

lemma disjointness_split:
  "k \<noteq> e \<and> k \<notin> I \<and> pe \<and> dc \<and> cs \<inter> Os = {} \<and> ok \<and> A \<inter> insert k I = {} \<and> C \<inter> (Os \<union> cs) = {} \<and> R \<longleftrightarrow>
   (pe \<and> k \<noteq> e \<and> k \<notin> A \<and> dc \<and> cs \<inter> C = {} \<and> ok) \<and> insert k A \<inter> I = {} \<and> (cs \<union> C) \<inter> Os = {} \<and> R"
  by (simp add: Int_Un_distrib Int_Un_distrib2 Int_commute) blast

lemma check_packages_ok:
  "check_packages i ids owners ps = ([], ids', owners') \<longleftrightarrow>
     packages_ok ps \<and>
     wp_id ` set (map normalise_package ps) \<inter> fst ` set ids = {} \<and>
     set (concat (map wp_criteria (map normalise_package ps))) \<inter> fst ` set owners = {} \<and>
     ids' = ids @ zip (map wp_id (map normalise_package ps)) [i..<i + length ps] \<and>
     owners' = owners @ owner_pairs (map normalise_package ps)"
proof (induction ps arbitrary: i ids owners)
  case Nil
  then show ?case by (auto simp: packages_ok_def owner_pairs_def)
next
  case (Cons p ps)
  let ?q = "normalise_package p"
  have id: "id_errors i ids (wp_id ?q) = [] \<longleftrightarrow> wp_id ?q \<noteq> '''' \<and> wp_id ?q \<notin> fst ` set ids"
    using map_of_eq_None_iff [of ids "wp_id ?q"]
    by (cases "map_of ids (wp_id ?q)") (simp_all add: id_errors_def)
  obtain oes os where o: "owner_errors (wp_id ?q) owners (wp_criteria ?q) = (oes, os)" by fastforce
  have add: "wp_id ?q \<noteq> '''' \<Longrightarrow> wp_id ?q \<notin> fst ` set ids \<Longrightarrow> add_id i ids (wp_id ?q) = ids @ [(wp_id ?q, i)]"
    by (simp add: add_id_def map_of_eq_None_iff)
  have upt: "[i..<i + length (p # ps)] = i # [i + 1..<i + 1 + length ps]"
    by (simp add: upt_rec)
  let ?os = "owners @ map (\<lambda>ac. (ac, wp_id ?q)) (wp_criteria ?q)"
  have w: "oes = [] \<Longrightarrow> distinct (wp_criteria ?q) \<and> set (wp_criteria ?q) \<inter> fst ` set owners = {} \<and> os = ?os"
    using owner_errors_ok [of "wp_id ?q" owners "wp_criteria ?q" os] o by simp
  have w': "distinct (wp_criteria ?q) \<Longrightarrow> set (wp_criteria ?q) \<inter> fst ` set owners = {} \<Longrightarrow>
      oes = [] \<and> os = ?os"
    using owner_errors_ok [of "wp_id ?q" owners "wp_criteria ?q" ?os] o by simp
  let ?A = "wp_id ` set (map normalise_package ps)"
  let ?C = "set (concat (map wp_criteria (map normalise_package ps)))"
  have fst1: "fst ` set (ids @ [(wp_id ?q, i)]) = insert (wp_id ?q) (fst ` set ids)" by simp
  have fst2: "fst ` set ?os = fst ` set owners \<union> set (wp_criteria ?q)"
    by (simp add: image_Un image_image)
  have "check_packages i ids owners (p # ps) = ([], ids', owners') \<longleftrightarrow>
      id_errors i ids (wp_id ?q) = [] \<and> package_errors p = [] \<and> oes = [] \<and>
      check_packages (i + 1) (add_id i ids (wp_id ?q)) os ps = ([], ids', owners')"
    by (auto simp: Let_def o split: prod.splits)
  also have "\<dots> \<longleftrightarrow> wp_id ?q \<noteq> '''' \<and> wp_id ?q \<notin> fst ` set ids \<and> package_errors p = [] \<and>
      distinct (wp_criteria ?q) \<and> set (wp_criteria ?q) \<inter> fst ` set owners = {} \<and>
      check_packages (i + 1) (ids @ [(wp_id ?q, i)])
        (owners @ map (\<lambda>ac. (ac, wp_id ?q)) (wp_criteria ?q)) ps = ([], ids', owners')"
  proof (cases "distinct (wp_criteria ?q) \<and> set (wp_criteria ?q) \<inter> fst ` set owners = {}")
    case True
    with w' have "oes = []" "os = ?os" by blast+
    with True id add show ?thesis
      by (cases "wp_id ?q \<noteq> '''' \<and> wp_id ?q \<notin> fst ` set ids") auto
  next
    case False
    with w have "oes \<noteq> []" by blast
    with False show ?thesis by blast
  qed
  also have "\<dots> \<longleftrightarrow> wp_id ?q \<noteq> '''' \<and> wp_id ?q \<notin> fst ` set ids \<and> package_errors p = [] \<and>
      distinct (wp_criteria ?q) \<and> set (wp_criteria ?q) \<inter> fst ` set owners = {} \<and>
      packages_ok ps \<and> ?A \<inter> insert (wp_id ?q) (fst ` set ids) = {} \<and>
      ?C \<inter> (fst ` set owners \<union> set (wp_criteria ?q)) = {} \<and>
      ids' = ids @ (wp_id ?q, i) # zip (map wp_id (map normalise_package ps)) [i + 1..<i + 1 + length ps] \<and>
      owners' = ?os @ owner_pairs (map normalise_package ps)"
    unfolding Cons.IH fst1 fst2 by simp
  also have "\<dots> \<longleftrightarrow> packages_ok (p # ps) \<and> insert (wp_id ?q) ?A \<inter> fst ` set ids = {} \<and>
      (set (wp_criteria ?q) \<union> ?C) \<inter> fst ` set owners = {} \<and>
      ids' = ids @ (wp_id ?q, i) # zip (map wp_id (map normalise_package ps)) [i + 1..<i + 1 + length ps] \<and>
      owners' = ?os @ owner_pairs (map normalise_package ps)"
    unfolding packages_ok_Cons by (rule disjointness_split)
  finally show ?case unfolding upt by (simp add: owner_pairs_def)
qed

lemma dep_errors_ok:
  "dep_errors ids ps = [] \<longleftrightarrow>
     (\<forall>p \<in> set ps. \<forall>d \<in> set (wp_deps p). d \<noteq> wp_id p \<and> d \<in> fst ` set ids)"
  unfolding dep_errors_def concat_map_Nil by (auto simp: map_of_eq_None_iff)

lemma spec_map_errors_ok:
  "spec_map_errors owners spec = [] \<longleftrightarrow> fst ` set owners = ac_ID ` set (sp_criteria spec)"
proof -
  have "spec_map_errors owners spec = [] \<longleftrightarrow>
      fst ` set owners \<subseteq> ac_ID ` set (sp_criteria spec) \<and> ac_ID ` set (sp_criteria spec) \<subseteq> fst ` set owners"
    unfolding spec_map_errors_def append_is_Nil_conv concat_map_Nil
    by (auto simp: map_of_eq_None_iff split: if_splits)
  then show ?thesis by auto
qed

lemma fst_owner_pairs: "map fst (owner_pairs ps) = concat (map wp_criteria ps)"
  by (simp add: owner_pairs_def map_concat comp_def)

definition graph_ok :: "work_graph \<Rightarrow> bool" where
  "graph_ok g \<longleftrightarrow>
     (let ps = map normalise_package (wg_packages g) in
       TrimSpace (wg_task g) \<noteq> '''' \<and> ps \<noteq> [] \<and> packages_ok (wg_packages g) \<and>
       (\<forall>p \<in> set ps. \<forall>d \<in> set (wp_deps p). d \<noteq> wp_id p \<and> d \<in> wp_id ` set ps) \<and>
       acyclic (dep_edges ps) \<and>
       (\<forall>p \<in> set ps. (wp_id (hd ps), wp_id p) \<in> (linked ps)\<^sup>*))"

definition covers :: "work_package list \<Rightarrow> task_spec \<Rightarrow> bool" where
  "covers ps spec \<longleftrightarrow> set (concat (map wp_criteria ps)) = ac_ID ` set (sp_criteria spec)"

lemma validate_iff:
  "validate g spec = Inr h \<longleftrightarrow>
     graph_ok g \<and> (\<forall>sp. spec = Some sp \<longrightarrow> covers (map normalise_package (wg_packages g)) sp) \<and>
     h = g\<lparr>wg_packages := sort_key wp_id (map normalise_package (wg_packages g))\<rparr>"
proof -
  let ?ps = "map normalise_package (wg_packages g)"
  obtain pes ids owners where c: "check_packages 0 [] [] (wg_packages g) = (pes, ids, owners)"
    by (metis surj_pair)
  have ok: "pes = [] \<longleftrightarrow> packages_ok (wg_packages g)"
    using check_packages_ok [of 0 "[]" "[]" "wg_packages g"] c by auto
  show ?thesis
  proof (cases "packages_ok (wg_packages g)")
    case False
    then have "\<not> graph_ok g" by (simp add: graph_ok_def Let_def)
    with False ok c show ?thesis by (auto simp: validate_def Let_def)
  next
    case True
    with ok c check_packages_ok [of 0 "[]" "[]" "wg_packages g" ids owners]
    have ids: "ids = zip (map wp_id ?ps) [0..<length (wg_packages g)]" "owners = owner_pairs ?ps" by auto
    have "map fst ids = map wp_id ?ps" unfolding ids(1) by (rule map_fst_zip) simp
    then have f: "fst ` set ids = wp_id ` set ?ps" "length ids = length ?ps"
      by (metis set_map) (simp add: ids(1))
    have o: "fst ` set owners = set (concat (map wp_criteria ?ps))"
      unfolding ids(2) by (metis fst_owner_pairs set_map)
    from True ok c show ?thesis
      by (cases spec)
        (auto simp: validate_def graph_ok_def Let_def dep_errors_ok f detectCycle_acyclic
          weaklyUnreachable_connected spec_map_errors_ok o covers_def split: if_splits)
  qed
qed

section \<open>What a validated graph guarantees\<close>

lemma adj_of_cong:
  assumes "set qs = set ps" "distinct (map wp_id ps)" "distinct (map wp_id qs)"
  shows "adj_of qs = adj_of ps"
proof
  fix k
  show "adj_of qs k = adj_of ps k"
  proof (cases "k \<in> wp_id ` set ps")
    case True
    then obtain p where "p \<in> set ps" "k = wp_id p" by auto
    with assms show ?thesis by (simp add: adj_of_package)
  next
    case False
    with assms(1) show ?thesis by (simp add: adj_of_no_package)
  qed
qed

lemma linked_cong: "set qs = set ps \<Longrightarrow> linked qs = linked ps"
  by (simp add: linked_def)

lemma trimAndDedup_distinct: "distinct (trimAndDedupStrings xs)"
  by (simp add: trimAndDedupStrings_def)

lemma normalise_package_deps: "distinct (wp_deps (normalise_package p))"
  by (simp add: normalise_package_def trimAndDedup_distinct)

definition package_wf :: "work_package \<Rightarrow> bool" where
  "package_wf p \<longleftrightarrow> wp_id p \<noteq> '''' \<and> wp_task p \<noteq> '''' \<and> stage_IsValid (wp_stage p) \<and> wp_title p \<noteq> '''' \<and>
     wp_objective p \<noteq> '''' \<and> package_IsValid (wp_state p) \<and> wp_criteria p \<noteq> []"

lemma package_errors_wf:
  assumes "package_errors p = []" "wp_id (normalise_package p) \<noteq> ''''"
  shows "package_wf (normalise_package p)"
proof -
  have "package_IsValid (wp_state p)" using assms(1) by (auto simp: package_errors_def Let_def split: if_splits)
  then have "wp_state p \<noteq> ''''" by (auto simp: package_IsValid_def AllPackageStates_def)
  then have "wp_state (normalise_package p) = wp_state p" by (simp add: normalise_package_def)
  with assms show ?thesis
    by (auto simp: package_errors_def Let_def package_wf_def split: if_splits)
qed

definition graph_wf :: "work_package list \<Rightarrow> bool" where
  "graph_wf ps \<longleftrightarrow>
     ps \<noteq> [] \<and> sorted (map wp_id ps) \<and> distinct (map wp_id ps) \<and> (\<forall>p \<in> set ps. package_wf p) \<and>
     (\<forall>p \<in> set ps. distinct (wp_deps p) \<and> set (wp_deps p) \<subseteq> wp_id ` set ps - {wp_id p}) \<and>
     acyclic {(wp_id p, d) | p d. p \<in> set ps \<and> d \<in> set (wp_deps p)} \<and>
     (\<forall>p \<in> set ps. \<forall>q \<in> set ps. (wp_id p, wp_id q) \<in> (linked ps)\<^sup>*) \<and>
     (\<forall>p \<in> set ps. \<forall>q \<in> set ps. set (wp_criteria p) \<inter> set (wp_criteria q) \<noteq> {} \<longrightarrow> p = q)"

lemma dep_edges_alt:
  "distinct (map wp_id ps) \<Longrightarrow> dep_edges ps = {(wp_id p, d) | p d. p \<in> set ps \<and> d \<in> set (wp_deps p)}"
proof -
  assume d: "distinct (map wp_id ps)"
  have "x \<in> wp_id ` set ps" if "(x, y) \<in> dep_edges ps" for x y
    using that adj_of_no_package [of x ps]
    by (cases "x \<in> wp_id ` set ps") (simp_all add: dep_edges_def edges_def)
  with d show ?thesis by (fastforce simp: dep_edges_def edges_def adj_of_package)
qed

lemma distinct_concat_owner:
  "distinct (concat (map f ps)) \<Longrightarrow> p \<in> set ps \<Longrightarrow> q \<in> set ps \<Longrightarrow> set (f p) \<inter> set (f q) \<noteq> {} \<Longrightarrow> p = q"
  by (induction ps) auto

lemma linked_sym: "(a, b) \<in> linked ps \<Longrightarrow> (b, a) \<in> linked ps"
  by (auto simp: linked_def)

lemma linked_rtrancl_sym: "(a, b) \<in> (linked ps)\<^sup>* \<Longrightarrow> (b, a) \<in> (linked ps)\<^sup>*"
  using linked_sym by (metis symI sym_rtrancl symD)

lemma graph_ok_wf:
  assumes "graph_ok g"
  shows "graph_wf (sort_key wp_id (map normalise_package (wg_packages g)))"
proof -
  let ?ps = "map normalise_package (wg_packages g)" let ?qs = "sort_key wp_id ?ps"
  have ok: "packages_ok (wg_packages g)" "?ps \<noteq> []"
      "\<forall>p \<in> set ?ps. \<forall>d \<in> set (wp_deps p). d \<noteq> wp_id p \<and> d \<in> wp_id ` set ?ps"
      "acyclic (dep_edges ?ps)" "\<forall>p \<in> set ?ps. (wp_id (hd ?ps), wp_id p) \<in> (linked ?ps)\<^sup>*"
    using assms unfolding graph_ok_def Let_def by blast+
  have d: "distinct (map wp_id ?ps)" using ok(1) by (simp add: packages_ok_def)
  have dq: "distinct (map wp_id ?qs)" using d by (simp add: distinct_map_sort_key)
  have s: "set ?qs = set ?ps" by simp
  have "package_wf (normalise_package p)" if "p \<in> set (wg_packages g)" for p
    by (rule package_errors_wf) (use ok(1) that in \<open>auto simp: packages_ok_def image_iff\<close>)
  then have "\<forall>p \<in> set ?ps. package_wf p" by auto
  moreover have "acyclic {(wp_id p, d) | p d. p \<in> set ?qs \<and> d \<in> set (wp_deps p)}"
    using ok(4) dep_edges_alt [OF d] by (simp only: s)
  moreover have "(wp_id p, wp_id q) \<in> (linked ?qs)\<^sup>*" if "p \<in> set ?ps" "q \<in> set ?ps" for p q
    using ok(5) that linked_rtrancl_sym [of "wp_id (hd ?ps)" "wp_id p" ?ps]
    by (metis linked_cong rtrancl_trans s)
  moreover have "p = q" if "p \<in> set ?ps" "q \<in> set ?ps" "set (wp_criteria p) \<inter> set (wp_criteria q) \<noteq> {}" for p q
    using distinct_concat_owner [of wp_criteria ?ps p q] ok(1) that by (simp add: packages_ok_def)
  moreover have "\<forall>p \<in> set ?ps. distinct (wp_deps p) \<and> set (wp_deps p) \<subseteq> wp_id ` set ?ps - {wp_id p}"
    using ok(3) normalise_package_deps by fastforce
  moreover have "?qs \<noteq> []" using ok(2) by (metis s set_empty)
  ultimately show ?thesis unfolding graph_wf_def s using dq by auto
qed

lemma graph_wf_dag: "graph_wf ps \<Longrightarrow> dag ps"
  using dep_edges_alt [of ps] by (auto simp: graph_wf_def dag_def)

section \<open>Trimming\<close>

lemma TrimSpace_keeps: "c \<notin> set (concat space_runes) \<Longrightarrow> c \<in> set s \<Longrightarrow> c \<in> set (TrimSpace s)"
  unfolding TrimSpace_def
  using trim_runes_keeps [of c space_runes s]
    trim_runes_keeps [of c "map rev space_runes" "rev (trim_runes space_runes s)"] by simp

lemma letters_not_space: "CHR ''I'' \<notin> set (concat space_runes)" "CHR ''-'' \<notin> set (concat space_runes)"
  by (simp_all add: space_runes_def)

lemma suffix_same_length: "suffix xs ys \<Longrightarrow> length ys \<le> length xs \<Longrightarrow> xs = ys"
  by (auto simp: suffix_def)

lemma TrimSpace_fixedD:
  assumes "TrimSpace s = s"
  shows "rune_width space_runes s = 0" "rune_width (map rev space_runes) (rev s) = 0"
proof -
  let ?l = "trim_runes space_runes s" let ?r = "trim_runes (map rev space_runes) (rev ?l)"
  have "length ?r \<le> length ?l" "length ?l \<le> length s"
    using trim_runes_suffix [of "map rev space_runes" "rev ?l"] trim_runes_suffix [of space_runes s]
    by (auto dest: suffix_length_le)
  moreover have r: "?r = rev s" using assms by (metis TrimSpace_def rev_rev_ident)
  ultimately have "length s \<le> length ?l" by simp
  then have l: "?l = s"
    using suffix_same_length [OF trim_runes_suffix [of space_runes s]] by simp
  with r trim_runes_stop [of space_runes s] trim_runes_stop [of "map rev space_runes" "rev ?l"]
  show "rune_width space_runes s = 0" "rune_width (map rev space_runes) (rev s) = 0" by simp_all
qed

lemma TrimSpace_fixedI:
  "rune_width space_runes s = 0 \<Longrightarrow> rune_width (map rev space_runes) (rev s) = 0 \<Longrightarrow> TrimSpace s = s"
  by (simp add: TrimSpace_def trim_runes_fixed)

lemma rune_width_sep:
  "c \<notin> set (concat rs) \<Longrightarrow> rune_width rs s = 0 \<Longrightarrow> rune_width rs (s @ c # t) = 0"
proof (induction rs)
  case (Cons r rs)
  have "prefix r s" if "prefix r (s @ c # t)" "c \<notin> set r"
    using that by (auto simp: prefix_append prefix_Cons append_eq_Cons_conv)
  with Cons show ?case by (auto split: if_splits)
qed simp

lemma TrimSpace_dash:
  assumes "TrimSpace s = s" "TrimSpace t = t"
  shows "TrimSpace (s @ ''-'' @ t) = s @ ''-'' @ t"
proof (rule TrimSpace_fixedI)
  show "rune_width space_runes (s @ ''-'' @ t) = 0"
    using rune_width_sep [OF letters_not_space(2) TrimSpace_fixedD(1) [OF assms(1)]] by simp
  have "CHR ''-'' \<notin> set (concat (map rev space_runes))" by (simp add: space_runes_def)
  from rune_width_sep [OF this TrimSpace_fixedD(2) [OF assms(2)]]
  show "rune_width (map rev space_runes) (rev (s @ ''-'' @ t)) = 0" by simp
qed

section \<open>Decomposition\<close>

text \<open>
  Specifications whose strings survive \<^verbatim>\<open>strings.TrimSpace\<close>: the validator of specifications trims
  four ASCII characters only, the graph validator every Unicode space.
\<close>

definition spec_clean :: "task_spec \<Rightarrow> bool" where
  "spec_clean spec \<longleftrightarrow> TrimSpace (sp_task spec) = sp_task spec \<and> TrimSpace (trim (sp_objective spec)) \<noteq> '''' \<and>
     (\<forall>ac \<in> set (sp_criteria spec). TrimSpace (trim (ac_ID ac)) = trim (ac_ID ac))"

lemma trimAndDedup_single: "TrimSpace x = x \<Longrightarrow> x \<noteq> '''' \<Longrightarrow> trimAndDedupStrings [x] = [x]"
  by (simp add: trimAndDedupStrings_def)

lemma packageTitle_trim: "TrimSpace (packageTitle ac) \<noteq> ''''"
proof -
  have "CHR ''I'' \<in> set (packageTitle ac)" by (simp add: packageTitle_def Let_def)
  from TrimSpace_keeps [OF letters_not_space(1) this] show ?thesis by auto
qed

definition decomposed :: "task_spec \<Rightarrow> work_package list" where
  "decomposed spec = map (decompose_package (normalise spec)) [0..<length (sp_criteria spec)]"

lemma normalise_nth:
  "i < length (sp_criteria spec) \<Longrightarrow> ac_ID (sp_criteria (normalise spec) ! i) = trim (ac_ID (sp_criteria spec ! i))"
  by (simp add: normalise_def)

lemma pkg_id_trim:
  assumes "spec_valid spec" "spec_clean spec" "i < length (sp_criteria spec)"
  shows "TrimSpace (packageID (sp_task spec) (ac_ID (sp_criteria (normalise spec) ! i)))
      = packageID (sp_task spec) (ac_ID (sp_criteria (normalise spec) ! i))"
proof -
  have "TrimSpace (sp_task spec @ ''-'' @ trim (ac_ID (sp_criteria spec ! i)))
      = sp_task spec @ ''-'' @ trim (ac_ID (sp_criteria spec ! i))"
    by (rule TrimSpace_dash) (use assms in \<open>auto simp: spec_clean_def\<close>)
  with assms(3) show ?thesis by (simp add: packageID_def normalise_nth)
qed

lemma decompose_normal:
  assumes "spec_valid spec" "spec_clean spec" "i < length (sp_criteria spec)"
  defines "q \<equiv> normalise_package (decompose_package (normalise spec) i)"
  shows "wp_id q = packageID (sp_task spec) (trim (ac_ID (sp_criteria spec ! i)))"
    and "wp_criteria q = [trim (ac_ID (sp_criteria spec ! i))]"
    and "wp_deps q = (if i = 0 then [] else [packageID (sp_task spec) (trim (ac_ID (sp_criteria spec ! (i - 1))))])"
    and "package_errors (decompose_package (normalise spec) i) = []"
proof -
  let ?x = "trim (ac_ID (sp_criteria spec ! i))"
  have x: "TrimSpace ?x = ?x" "?x \<noteq> ''''"
    using assms(1-3) by (auto simp: spec_clean_def spec_valid_def)
  have t: "TrimSpace (sp_task spec) = sp_task spec" "sp_task spec \<noteq> ''''"
    using assms(1,2) by (auto simp: spec_clean_def spec_valid_def)
  have o: "TrimSpace (sp_objective (normalise spec)) \<noteq> ''''"
    using assms(2) by (simp add: spec_clean_def normalise_objective)
  show 1: "wp_id q = packageID (sp_task spec) ?x"
    using pkg_id_trim [OF assms(1-3)] assms(3)
    by (simp add: q_def normalise_package_def trim_package_def decompose_package_def Let_def normalise_nth)
  show 2: "wp_criteria q = [?x]"
    using trimAndDedup_single [OF x] assms(3)
    by (simp add: q_def normalise_package_def trim_package_def decompose_package_def Let_def normalise_nth)
  show "wp_deps q = (if i = 0 then [] else [packageID (sp_task spec) (trim (ac_ID (sp_criteria spec ! (i - 1))))])"
  proof (cases "i = 0")
    case True
    then show ?thesis
      by (simp add: q_def normalise_package_def trim_package_def decompose_package_def Let_def trimAndDedupStrings_def)
  next
    case False
    then have i: "i - 1 < length (sp_criteria spec)" using assms(3) by simp
    from trimAndDedup_single [OF pkg_id_trim [OF assms(1,2) i]] False i show ?thesis
      by (simp add: q_def normalise_package_def trim_package_def decompose_package_def Let_def normalise_nth
          packageID_def)
  qed
  have st: "TrimSpace StageImplementation = StageImplementation" by code_simp
  show "package_errors (decompose_package (normalise spec) i) = []"
    using t o 2 packageTitle_trim
    by (simp add: package_errors_def Let_def flip: q_def)
      (simp add: q_def normalise_package_def trim_package_def decompose_package_def Let_def st
        stage_IsValid_def AllStages_def package_IsValid_def AllPackageStates_def)
qed

definition chain_id :: "task_spec \<Rightarrow> nat \<Rightarrow> string" where
  "chain_id spec i = packageID (sp_task spec) (trim (ac_ID (sp_criteria spec ! i)))"

lemma chain_id_inj:
  assumes "spec_valid spec"
  shows "inj_on (chain_id spec) {..<length (sp_criteria spec)}"
proof (rule inj_onI)
  fix i j assume ij: "i \<in> {..<length (sp_criteria spec)}" "j \<in> {..<length (sp_criteria spec)}"
    and "chain_id spec i = chain_id spec j"
  then have "map (\<lambda>ac. trim (ac_ID ac)) (sp_criteria spec) ! i = map (\<lambda>ac. trim (ac_ID ac)) (sp_criteria spec) ! j"
    by (simp add: chain_id_def packageID_def)
  moreover have d: "distinct (map (\<lambda>ac. trim (ac_ID ac)) (sp_criteria spec))"
    using assms by (simp add: spec_valid_def)
  ultimately show "i = j" using ij nth_eq_iff_index_eq [OF d, of i j] by simp
qed

lemma map_chain: "map (\<lambda>i. f (sp_criteria spec ! i)) [0..<length (sp_criteria spec)] = map f (sp_criteria spec)"
  by (rule nth_equalityI) simp_all

lemma decompose_graph_ok:
  assumes "spec_valid spec" "spec_clean spec"
  shows "graph_ok \<lparr>wg_task = sp_task spec, wg_packages = decomposed spec\<rparr>"
    and "covers (map normalise_package (decomposed spec)) (normalise spec)"
proof -
  let ?n = "length (sp_criteria spec)" and ?id = "chain_id spec"
  let ?pk = "\<lambda>i. normalise_package (decompose_package (normalise spec) i)"
  let ?ps = "map normalise_package (decomposed spec)"
  have ps: "?ps = map ?pk [0..<?n]" by (simp add: decomposed_def)
  have pk: "wp_id (?pk i) = ?id i" "wp_criteria (?pk i) = [trim (ac_ID (sp_criteria spec ! i))]"
      "wp_deps (?pk i) = (if i = 0 then [] else [?id (i - 1)])"
      "package_errors (decompose_package (normalise spec) i) = []" if "i < ?n" for i
    using decompose_normal [OF assms that] by (simp_all add: chain_id_def)
  have ids: "map wp_id ?ps = map ?id [0..<?n]" unfolding ps by (simp add: pk(1))
  have cr: "concat (map wp_criteria ?ps) = map (\<lambda>ac. trim (ac_ID ac)) (sp_criteria spec)"
  proof -
    have "map wp_criteria ?ps = map (\<lambda>i. [trim (ac_ID (sp_criteria spec ! i))]) [0..<?n]"
      unfolding ps by (simp add: pk(2))
    then show ?thesis
      by (simp only: concat_map_singleton map_chain [of "\<lambda>ac. trim (ac_ID ac)"])
  qed
  have idset: "wp_id ` set ?ps = ?id ` {..<?n}" using ids by (metis atLeast_upt set_map)
  have dist: "distinct (map wp_id ?ps)"
    unfolding ids using chain_id_inj [OF assms(1)] by (simp add: distinct_map atLeast0LessThan)
  have "'''' \<notin> wp_id ` set ?ps" unfolding idset by (auto simp: chain_id_def packageID_def)
  moreover have "\<forall>p \<in> set (decomposed spec). package_errors p = []"
    using pk(4) by (auto simp: decomposed_def)
  ultimately have pok: "packages_ok (decomposed spec)"
    using dist assms(1) unfolding packages_ok_def cr by (simp add: spec_valid_def)
  have deps: "d \<noteq> wp_id p \<and> d \<in> wp_id ` set ?ps" if p: "p \<in> set ?ps" and d: "d \<in> set (wp_deps p)" for p d
  proof -
    obtain i where i: "i < ?n" "p = ?pk i" using p unfolding ps by auto
    with d have j: "0 < i" "d = ?id (i - 1)" using pk(3) by (auto split: if_splits)
    have "i - 1 < ?n" "i - 1 \<noteq> i" using i(1) j(1) by auto
    then have "?id (i - 1) \<noteq> ?id i"
      using inj_onD [OF chain_id_inj [OF assms(1)], of "i - 1" i] i(1) by blast
    moreover have "?id (i - 1) \<in> ?id ` {..<?n}" using i(1) by auto
    ultimately show ?thesis unfolding idset using i j pk(1) by simp
  qed
  have "acyclic (dep_edges ?ps)"
  proof (rule acyclicI_order [of _ "inv_into {..<?n} ?id"])
    fix a b assume "(a, b) \<in> dep_edges ?ps"
    then obtain p where "p \<in> set ?ps" "a = wp_id p" "b \<in> set (wp_deps p)"
      unfolding dep_edges_alt [OF dist] by auto
    then obtain i where "i < ?n" "a = ?id i" "0 < i" "b = ?id (i - 1)"
      unfolding ps using pk(1,3) by (auto split: if_splits)
    then show "inv_into {..<?n} ?id b < inv_into {..<?n} ?id a"
      using chain_id_inj [OF assms(1)] by (simp add: inv_into_f_f)
  qed
  moreover have "(?id 0, ?id i) \<in> (linked ?ps)\<^sup>*" if "i < ?n" for i
    using that
  proof (induction i)
    case (Suc i)
    have "(?id i, ?id (Suc i)) \<in> linked ?ps"
      unfolding linked_def idset using Suc.prems pk(1,3) [of "Suc i"]
      by (auto simp: ps intro!: bexI [of _ "?pk (Suc i)"])
    with Suc show ?case by (meson Suc_lessD rtrancl.rtrancl_into_rtrancl)
  qed simp
  moreover have n: "0 < ?n" using assms(1) by (auto simp: spec_valid_def)
  moreover have "wp_id (hd ?ps) = ?id 0" unfolding ps using n pk(1) by (simp add: hd_map)
  ultimately show "graph_ok \<lparr>wg_task = sp_task spec, wg_packages = decomposed spec\<rparr>"
    using pok deps assms pk(1) unfolding graph_ok_def Let_def
    by (auto simp: spec_clean_def spec_valid_def decomposed_def)
  show "covers ?ps (normalise spec)"
    unfolding covers_def cr by (simp add: normalise_def image_image)
qed

lemma decompose_accepts:
  assumes "spec_valid spec" "spec_clean spec"
  shows "\<exists>g. Decompose spec = Inr g \<and> graph_wf (wg_packages g) \<and> wg_task g = sp_task spec \<and>
     set (wg_packages g) = set (map normalise_package (decomposed spec))"
proof -
  let ?g = "\<lparr>wg_task = sp_task spec, wg_packages = decomposed spec\<rparr>"
  have "Decompose spec = validate ?g (Some (normalise spec))"
    using assms(1)
    by (simp add: Decompose_def ValidateAgainstSpec_def ValidateSpecification_eq normalise_valid
        decomposed_def) (simp add: normalise_def)
  moreover note v = validate_iff [of ?g "Some (normalise spec)"]
  ultimately show ?thesis
    using decompose_graph_ok [OF assms] graph_ok_wf [OF decompose_graph_ok(1) [OF assms]] by simp
qed

section \<open>Examples\<close>

definition demo_pkg :: "string \<Rightarrow> string \<Rightarrow> string list \<Rightarrow> work_package" where
  "demo_pkg k ac deps = \<lparr>wp_id = k, wp_task = ''t'', wp_stage = StageImplementation, wp_title = ''x'',
     wp_objective = ''o'', wp_criteria = [ac], wp_scope = [], wp_deps = deps,
     wp_state = PackagePending, wp_attempts = []\<rparr>"

text \<open>A diamond, listed out of order.\<close>

definition demo_graph :: work_graph where
  "demo_graph = \<lparr>wg_task = ''t'', wg_packages =
     [demo_pkg ''d'' ''AC-4'' [''b'', ''c''], demo_pkg ''c'' ''AC-3'' [''a''],
      demo_pkg ''b'' ''AC-2'' [''a''], demo_pkg ''a'' ''AC-1'' []]\<rparr>"

definition demo_valid :: work_graph where
  "demo_valid = projr (ValidateWorkGraph demo_graph)"

lemma demo_valid_eq: "validate demo_graph None = Inr demo_valid"
proof -
  have "\<not> isl (ValidateWorkGraph demo_graph)" by code_simp
  then show ?thesis
    by (cases "ValidateWorkGraph demo_graph") (simp_all add: demo_valid_def ValidateWorkGraph_def)
qed

lemma demo_spec_clean: "spec_clean (demo_spec 2)"
  by code_simp

section \<open>Properties\<close>

text \<open>The cycle check is exact and always terminates: it accepts exactly the graphs whose
  dependency relation is acyclic, and what it reports otherwise is a closed walk along
  dependencies.\<close>

theorem cycle_check_exact:
  "detectCycle ps = [] \<and> acyclic {(x, d). d \<in> set (adj_of ps x)} \<or>
   (\<exists>c. detectCycle ps = [DependencyCycle c] \<and> 2 \<le> length c \<and> hd c = last c \<and>
      successively (\<lambda>x d. d \<in> set (adj_of ps x)) c)"
  using detectCycle_result [of ps] by (auto simp: dep_edges_def edges_def is_cycle_def)

text \<open>C2: A validated graph has its packages in the order of their distinct ids; every package is
  complete, depends only on other packages of the graph and owns criteria that no other package
  owns; dependencies form no cycle; and any two packages are connected.\<close>

theorem validated_graph_guarantees:
  assumes "validate g spec = Inr h"
  defines "ps \<equiv> wg_packages h"
  shows "ps \<noteq> [] \<and> sorted (map wp_id ps) \<and> distinct (map wp_id ps) \<and>
     (\<forall>p \<in> set ps. wp_id p \<noteq> '''' \<and> stage_IsValid (wp_stage p) \<and> wp_title p \<noteq> '''' \<and>
        wp_objective p \<noteq> '''' \<and> package_IsValid (wp_state p) \<and> wp_criteria p \<noteq> [] \<and>
        set (wp_deps p) \<subseteq> wp_id ` set ps - {wp_id p}) \<and>
     acyclic {(wp_id p, d) | p d. p \<in> set ps \<and> d \<in> set (wp_deps p)} \<and>
     (\<forall>p \<in> set ps. \<forall>q \<in> set ps. (wp_id p, wp_id q) \<in> (linked ps)\<^sup>*) \<and>
     (\<forall>p \<in> set ps. \<forall>q \<in> set ps. set (wp_criteria p) \<inter> set (wp_criteria q) \<noteq> {} \<longrightarrow> p = q)"
proof -
  have "graph_ok g" "ps = sort_key wp_id (map normalise_package (wg_packages g))"
    using assms by (auto simp: validate_iff)
  then have "graph_wf ps" using graph_ok_wf by simp
  then show ?thesis unfolding graph_wf_def package_wf_def by blast
qed

theorem validated_graph_guarantees_witness:
  "distinct (map wp_id (wg_packages demo_valid)) \<and> sorted (map wp_id (wg_packages demo_valid))"
  using validated_graph_guarantees [OF demo_valid_eq] by blast

text \<open>What makes a graph acceptable, written over the graph as given: the non-blank trimmed entries of a list are its
  words, and one package depends on another when the id of that one is among its words.\<close>

definition words :: "string list \<Rightarrow> string set" where
  "words xs = TrimSpace ` set xs - {''''}"

definition depends :: "work_package list \<Rightarrow> (string \<times> string) set" where
  "depends ps = {(TrimSpace (wp_id p), d) | p d. p \<in> set ps \<and> d \<in> words (wp_deps p)}"

definition acceptable :: "work_graph \<Rightarrow> bool" where
  "acceptable g \<longleftrightarrow>
     (let ps = wg_packages g; ids = map (\<lambda>p. TrimSpace (wp_id p)) ps in
       TrimSpace (wg_task g) \<noteq> '''' \<and> ps \<noteq> [] \<and> distinct ids \<and> '''' \<notin> set ids \<and>
       (\<forall>p \<in> set ps. TrimSpace (wp_task p) \<noteq> '''' \<and> TrimSpace (wp_title p) \<noteq> '''' \<and> TrimSpace (wp_objective p) \<noteq> '''' \<and>
          TrimSpace (wp_stage p) \<in> {''research'', ''contract'', ''implementation'', ''integration'', ''verification''} \<and>
          wp_state p \<in> {''pending'', ''ready'', ''running'', ''blocked'', ''succeeded'', ''failed'', ''skipped''} \<and>
          words (wp_criteria p) \<noteq> {} \<and> words (wp_deps p) \<subseteq> set ids - {TrimSpace (wp_id p)}) \<and>
       sorted_wrt (\<lambda>p q. words (wp_criteria p) \<inter> words (wp_criteria q) = {}) ps \<and>
       acyclic (depends ps) \<and>
       (\<forall>k \<in> set ids. \<forall>l \<in> set ids. (k, l) \<in> (depends ps \<union> (depends ps)\<inverse>)\<^sup>*))"

definition trimmed :: "work_package \<Rightarrow> work_package" where
  "trimmed p =
     p\<lparr>wp_id := TrimSpace (wp_id p), wp_task := TrimSpace (wp_task p), wp_stage := TrimSpace (wp_stage p),
       wp_title := TrimSpace (wp_title p), wp_objective := TrimSpace (wp_objective p),
       wp_criteria := dedup (filter (\<lambda>s. s \<noteq> '''') (map TrimSpace (wp_criteria p))),
       wp_deps := dedup (filter (\<lambda>s. s \<noteq> '''') (map TrimSpace (wp_deps p))),
       wp_scope := dedup (filter (\<lambda>s. s \<noteq> '''') (map TrimSpace (wp_scope p)))\<rparr>"

lemma normalise_fields:
  "wp_id (normalise_package p) = TrimSpace (wp_id p)" "set (wp_deps (normalise_package p)) = words (wp_deps p)"
  "set (wp_criteria (normalise_package p)) = words (wp_criteria p)" "distinct (wp_criteria (normalise_package p))"
  by (auto simp: normalise_package_def trim_package_def trimAndDedupStrings_def words_def set_dedup_from)

lemma package_errors_words:
  "package_errors p = [] \<longleftrightarrow> TrimSpace (wp_task p) \<noteq> '''' \<and> TrimSpace (wp_title p) \<noteq> '''' \<and> TrimSpace (wp_objective p) \<noteq> '''' \<and>
     TrimSpace (wp_stage p) \<in> {''research'', ''contract'', ''implementation'', ''integration'', ''verification''} \<and>
     wp_state p \<in> {''pending'', ''ready'', ''running'', ''blocked'', ''succeeded'', ''failed'', ''skipped''} \<and> words (wp_criteria p) \<noteq> {}"
proof -
  have "wp_criteria (normalise_package p) = [] \<longleftrightarrow> words (wp_criteria p) = {}"
    using normalise_fields(3) [of p] by (metis set_empty)
  moreover have "wp_task (normalise_package p) = TrimSpace (wp_task p)" "wp_title (normalise_package p) = TrimSpace (wp_title p)"
    "wp_objective (normalise_package p) = TrimSpace (wp_objective p)" "wp_stage (normalise_package p) = TrimSpace (wp_stage p)"
    by (simp_all add: normalise_package_def trim_package_def)
  moreover have "stage_IsValid st \<longleftrightarrow> st \<in> {''research'', ''contract'', ''implementation'', ''integration'', ''verification''}" for st
    by (simp add: stage_IsValid_def AllStages_def)
  moreover have "package_IsValid st \<longleftrightarrow> st \<in> {''pending'', ''ready'', ''running'', ''blocked'', ''succeeded'', ''failed'', ''skipped''}" for st
    by (simp add: package_IsValid_def AllPackageStates_def)
  ultimately show ?thesis unfolding package_errors_def Let_def append_is_Nil_conv by (simp only: if_split_eq1 list.distinct simp_thms) blast
qed

lemma distinct_concat_pairs:
  "(\<And>x. x \<in> set xs \<Longrightarrow> distinct (f x)) \<Longrightarrow>
     distinct (concat (map f xs)) \<longleftrightarrow> sorted_wrt (\<lambda>x y. set (f x) \<inter> set (f y) = {}) xs"
  by (induction xs) auto

lemma linked_depends:
  assumes "\<forall>p \<in> set ps. words (wp_deps p) \<subseteq> (\<lambda>p. TrimSpace (wp_id p)) ` set ps"
  shows "linked (map normalise_package ps) = depends ps \<union> (depends ps)\<inverse>"
proof -
  let ?k = "\<lambda>p. TrimSpace (wp_id p)"
  have d: "(a, b) \<in> depends ps \<longleftrightarrow> (\<exists>p \<in> set ps. ?k p = a \<and> b \<in> words (wp_deps p))" for a b
    by (auto simp: depends_def)
  have l: "(a, b) \<in> linked (map normalise_package ps) \<longleftrightarrow> a \<in> ?k ` set ps \<and> b \<in> ?k ` set ps \<and>
      ((\<exists>p \<in> set ps. ?k p = a \<and> b \<in> words (wp_deps p)) \<or> (\<exists>p \<in> set ps. ?k p = b \<and> a \<in> words (wp_deps p)))" for a b
    by (auto simp: linked_def normalise_fields image_image)
  have "(a, b) \<in> linked (map normalise_package ps) \<longleftrightarrow> (a, b) \<in> depends ps \<or> (b, a) \<in> depends ps" for a b
    unfolding l d using assms by blast
  then show ?thesis by auto
qed

lemma graph_ok_acceptable: "graph_ok g \<longleftrightarrow> acceptable g"
proof -
  let ?ps = "wg_packages g" let ?qs = "map normalise_package ?ps" let ?ids = "map (\<lambda>p. TrimSpace (wp_id p)) ?ps"
  let ?deps = "\<forall>p \<in> set ?ps. words (wp_deps p) \<subseteq> set ?ids - {TrimSpace (wp_id p)}"
  have ids: "map wp_id ?qs = ?ids" "wp_id ` set ?qs = set ?ids" by (simp_all add: normalise_fields comp_def image_image)
  let ?crit = "sorted_wrt (\<lambda>p q. words (wp_criteria p) \<inter> words (wp_criteria q) = {}) ?ps"
  have crit: "distinct (concat (map wp_criteria ?qs)) \<longleftrightarrow> ?crit"
    using distinct_concat_pairs [of ?ps "\<lambda>p. wp_criteria (normalise_package p)"] by (simp add: normalise_fields comp_def)
  have deps: "(\<forall>p \<in> set ?qs. \<forall>d \<in> set (wp_deps p). d \<noteq> wp_id p \<and> d \<in> wp_id ` set ?qs) \<longleftrightarrow> ?deps"
    unfolding ids(2) by (auto simp: normalise_fields)
  have edges: "dep_edges ?qs = depends ?ps" if "distinct ?ids"
  proof -
    have "(a, b) \<in> {(wp_id p, d) | p d. p \<in> set ?qs \<and> d \<in> set (wp_deps p)} \<longleftrightarrow> (a, b) \<in> depends ?ps" for a b
      by (auto simp: depends_def normalise_fields) (metis imageI normalise_fields(1,2))
    then show ?thesis using dep_edges_alt [of ?qs] that unfolding ids by auto
  qed
  have conn: "(\<forall>p \<in> set ?qs. (wp_id (hd ?qs), wp_id p) \<in> (linked ?qs)\<^sup>*) \<longleftrightarrow>
      (\<forall>k \<in> set ?ids. \<forall>l \<in> set ?ids. (k, l) \<in> (depends ?ps \<union> (depends ?ps)\<inverse>)\<^sup>*)" if "?deps" "?ps \<noteq> []"
  proof -
    have l: "linked ?qs = depends ?ps \<union> (depends ?ps)\<inverse>" by (rule linked_depends) (use that(1) in auto)
    have h: "wp_id (hd ?qs) \<in> set ?ids" using that(2) by (simp add: hd_map normalise_fields)
    have e: "(\<forall>p \<in> set ?qs. (wp_id (hd ?qs), wp_id p) \<in> R) \<longleftrightarrow> (\<forall>k \<in> set ?ids. (wp_id (hd ?qs), k) \<in> R)" for R
      unfolding ids(2) [symmetric] by auto
    show ?thesis
      unfolding l [symmetric] e
    proof (intro iffI ballI)
      fix k l assume a: "\<forall>k \<in> set ?ids. (wp_id (hd ?qs), k) \<in> (linked ?qs)\<^sup>*" "k \<in> set ?ids" "l \<in> set ?ids"
      then have "(k, wp_id (hd ?qs)) \<in> (linked ?qs)\<^sup>*" by (blast intro: linked_rtrancl_sym)
      with a show "(k, l) \<in> (linked ?qs)\<^sup>*" by (blast intro: rtrancl_trans)
    qed (use h in blast)
  qed
  have ok: "graph_ok g \<longleftrightarrow> TrimSpace (wg_task g) \<noteq> '''' \<and> ?ps \<noteq> [] \<and> (\<forall>p \<in> set ?ps. package_errors p = []) \<and> '''' \<notin> set ?ids \<and>
      distinct ?ids \<and> ?crit \<and> ?deps \<and> acyclic (dep_edges ?qs) \<and> (\<forall>p \<in> set ?qs. (wp_id (hd ?qs), wp_id p) \<in> (linked ?qs)\<^sup>*)"
    unfolding graph_ok_def packages_ok_def Let_def unfolding deps unfolding ids crit by simp
  have acc: "acceptable g \<longleftrightarrow> TrimSpace (wg_task g) \<noteq> '''' \<and> ?ps \<noteq> [] \<and> (\<forall>p \<in> set ?ps. package_errors p = []) \<and> '''' \<notin> set ?ids \<and>
      distinct ?ids \<and> ?crit \<and> ?deps \<and> acyclic (depends ?ps) \<and>
      (\<forall>k \<in> set ?ids. \<forall>l \<in> set ?ids. (k, l) \<in> (depends ?ps \<union> (depends ?ps)\<inverse>)\<^sup>*)"
    unfolding acceptable_def Let_def package_errors_words by blast
  show ?thesis
  proof (cases "distinct ?ids \<and> ?deps \<and> ?ps \<noteq> []")
    case True
    with edges conn show ?thesis unfolding ok acc by simp
  next
    case False
    then show ?thesis unfolding ok acc by blast
  qed
qed

text \<open>C40: The validator is exact. Let no package leave its state empty. A graph is accepted exactly when it names
  a task, has at least one package, and, up to white space around every text: its packages have distinct
  non-empty ids, each names a task, a title, an objective, a known stage, a known state and at least
  one criterion that no other package names, each depends on other packages of the graph only, and the
  dependencies form no cycle and connect any two packages. The result is the graph with its packages trimmed, the
  blank and repeated entries of their lists dropped, in the order of their ids.\<close>

theorem validator_complete:
  assumes "\<forall>p \<in> set (wg_packages g). wp_state p \<noteq> ''''"
  shows "if acceptable g then ValidateWorkGraph g = Inr (g\<lparr>wg_packages := sort_key wp_id (map trimmed (wg_packages g))\<rparr>)
    else isl (ValidateWorkGraph g)"
proof -
  have n: "map normalise_package (wg_packages g) = map trimmed (wg_packages g)"
    using assms by (auto simp: normalise_package_def trim_package_def trimmed_def trimAndDedupStrings_def)
  then have v: "ValidateWorkGraph g = Inr h \<longleftrightarrow> acceptable g \<and> h = g\<lparr>wg_packages := sort_key wp_id (map trimmed (wg_packages g))\<rparr>" for h
    unfolding ValidateWorkGraph_def validate_iff n graph_ok_acceptable by simp
  then show ?thesis by (cases "ValidateWorkGraph g") auto
qed

theorem validator_complete_witness:
  "isl (ValidateWorkGraph \<lparr>wg_task = '' '', wg_packages = [demo_pkg ''a'' ''AC-1'' []]\<rparr>)"
proof -
  let ?g = "\<lparr>wg_task = '' '', wg_packages = [demo_pkg ''a'' ''AC-1'' []]\<rparr>"
  have "TrimSpace '' '' = ''''" by code_simp
  then have "\<not> acceptable ?g" by (simp add: acceptable_def)
  moreover have "wp_state (demo_pkg ''a'' ''AC-1'' []) \<noteq> ''''" by (simp add: demo_pkg_def)
  ultimately show ?thesis using validator_complete [of ?g] by simp
qed
text \<open>C13: A validated graph has a topological order of all its packages: every package comes after
  its dependencies, and each position holds the least id among those that could stand there. The
  defensive error of the Go code is never returned.\<close>

theorem topological_order_of_validated:
  assumes "validate g spec = Inr h"
  shows "\<exists>out. TopologicalOrder h = Inr out \<and> distinct out \<and> set out = wp_id ` set (wg_packages h) \<and>
     (\<forall>i < length out. \<forall>p \<in> set (wg_packages h).
        (wp_id p = out ! i \<longrightarrow> set (wp_deps p) \<subseteq> set (take i out)) \<and>
        (wp_id p \<notin> set (take i out) \<and> set (wp_deps p) \<subseteq> set (take i out) \<longrightarrow> out ! i \<le> wp_id p))"
proof -
  have wf: "graph_wf (wg_packages h)" using assms graph_ok_wf by (auto simp: validate_iff)
  obtain out where o: "topologicalOrder (wg_packages h) = Inr out" "distinct out"
      "set out = wp_id ` set (wg_packages h)" "least_order (wg_packages h) out"
    using topologicalOrder_dag [OF graph_wf_dag [OF wf]] by blast
  have "distinct (map wp_id (wg_packages h))" using wf by (simp add: graph_wf_def)
  then have adj: "adj_of (wg_packages h) (wp_id p) = wp_deps p" if "p \<in> set (wg_packages h)" for p
    using that by (rule adj_of_package)
  have "(wp_id p = out ! i \<longrightarrow> set (wp_deps p) \<subseteq> set (take i out)) \<and>
      (wp_id p \<notin> set (take i out) \<and> set (wp_deps p) \<subseteq> set (take i out) \<longrightarrow> out ! i \<le> wp_id p)"
    if i: "i < length out" and p: "p \<in> set (wg_packages h)" for i p
  proof -
    have e: "enabled (wg_packages h) (set (take i out)) (out ! i)"
        "enabled (wg_packages h) (set (take i out)) (wp_id p) \<Longrightarrow> out ! i \<le> wp_id p"
      using o(4) i by (auto simp: least_order_def)
    have "wp_id p = out ! i \<Longrightarrow> set (wp_deps p) \<subseteq> set (take i out)"
      using e(1) adj [OF p] by (simp add: enabled_def)
    with e(2) adj [OF p] p show ?thesis by (simp add: enabled_def)
  qed
  with o show ?thesis by (auto simp: TopologicalOrder_def)
qed

theorem topological_order_of_validated_witness:
  "\<exists>out. TopologicalOrder demo_valid = Inr out \<and> distinct out"
  using topological_order_of_validated [OF demo_valid_eq] by blast

text \<open>C22: A graph validated against a specification owns exactly the specification's criteria: each
  criterion belongs to exactly one package, the one that \<open>PackageForAC\<close> finds, and no package owns
  anything else.\<close>

theorem validated_against_spec_covers:
  assumes "ValidateAgainstSpec g spec0 = Inr h" "ValidateSpecification spec0 = Inr spec"
  shows "(\<Union>p \<in> set (wg_packages h). set (wp_criteria p)) = ac_ID ` set (sp_criteria spec) \<and>
     (\<forall>ac \<in> set (sp_criteria spec). \<exists>p \<in> set (wg_packages h). PackageForAC h (ac_ID ac) = Some p \<and>
        (\<forall>q \<in> set (wg_packages h). ac_ID ac \<in> set (wp_criteria q) \<longleftrightarrow> q = p))"
proof -
  have v: "validate g (Some spec) = Inr h" using assms by (simp add: ValidateAgainstSpec_def)
  then have wf: "graph_wf (wg_packages h)" using graph_ok_wf by (auto simp: validate_iff)
  have c: "(\<Union>p \<in> set (wg_packages h). set (wp_criteria p)) = ac_ID ` set (sp_criteria spec)"
    using v by (auto simp: validate_iff covers_def)
  have "\<exists>p \<in> set (wg_packages h). PackageForAC h k = Some p \<and>
        (\<forall>q \<in> set (wg_packages h). k \<in> set (wp_criteria q) \<longleftrightarrow> q = p)"
    if k: "k \<in> ac_ID ` set (sp_criteria spec)" for k
  proof -
    obtain p where p: "p \<in> set (wg_packages h)" "k \<in> set (wp_criteria p)" using c k by blast
    have "\<forall>p \<in> set (wg_packages h). \<forall>q \<in> set (wg_packages h).
        set (wp_criteria p) \<inter> set (wp_criteria q) \<noteq> {} \<longrightarrow> p = q"
      using wf by (simp add: graph_wf_def)
    with p have u: "\<And>q. q \<in> set (wg_packages h) \<Longrightarrow> k \<in> set (wp_criteria q) \<Longrightarrow> q = p"
      by (metis IntI empty_iff)
    have "PackageForAC h k = Some p" unfolding PackageForAC_def by (rule find_unique [OF p(1)]) (fact p(2), rule u)
    with p u show ?thesis by blast
  qed
  with c show ?thesis by auto
qed

text \<open>Decomposition succeeds on every valid specification whose ids and objective survive
  \<open>strings.TrimSpace\<close>, with one package per criterion.\<close>

theorem decompose_succeeds:
  assumes "spec_valid spec" "spec_clean spec"
  shows "\<exists>g. Decompose spec = Inr g \<and> wg_task g = sp_task spec \<and>
     wp_id ` set (wg_packages g) = (\<lambda>ac. packageID (sp_task spec) (trim (ac_ID ac))) ` set (sp_criteria spec) \<and>
     length (wg_packages g) = length (sp_criteria spec) \<and>
     (\<exists>out. TopologicalOrder g = Inr out)"
proof -
  obtain g where g: "Decompose spec = Inr g" "graph_wf (wg_packages g)" "wg_task g = sp_task spec"
      "set (wg_packages g) = set (map normalise_package (decomposed spec))"
    using decompose_accepts [OF assms] by blast
  have "wp_id ` set (wg_packages g) = (\<lambda>i. packageID (sp_task spec) (trim (ac_ID (sp_criteria spec ! i)))) ` {..<length (sp_criteria spec)}"
    unfolding g(4) decomposed_def using decompose_normal(1) [OF assms] by (force simp: image_iff)
  also have "\<dots> = (\<lambda>ac. packageID (sp_task spec) (trim (ac_ID ac))) ` set (sp_criteria spec)"
    by (auto simp: set_conv_nth)
  finally have ids: "wp_id ` set (wg_packages g) =
      (\<lambda>ac. packageID (sp_task spec) (trim (ac_ID ac))) ` set (sp_criteria spec)" .
  have "length (wg_packages g) = card (wp_id ` set (wg_packages g))"
    using g(2) distinct_card [of "map wp_id (wg_packages g)"] by (simp add: graph_wf_def)
  also have "\<dots> = card ((\<lambda>ac. packageID (sp_task spec) (trim (ac_ID ac))) ` set (sp_criteria spec))"
    by (simp add: ids)
  also have "\<dots> = length (sp_criteria spec)"
  proof -
    have "distinct (map (\<lambda>ac. packageID (sp_task spec) (trim (ac_ID ac))) (sp_criteria spec))"
      using assms(1) by (auto simp: spec_valid_def distinct_map packageID_def inj_on_def)
    from distinct_card [OF this] show ?thesis by simp
  qed
  finally have "length (wg_packages g) = length (sp_criteria spec)" .
  moreover have "\<exists>out. TopologicalOrder g = Inr out"
    using topologicalOrder_dag [OF graph_wf_dag [OF g(2)]] by (auto simp: TopologicalOrder_def)
  ultimately show ?thesis using g ids by blast
qed

theorem decompose_succeeds_witness: "\<exists>g. Decompose (demo_spec 2) = Inr g \<and> length (wg_packages g) = 2"
proof -
  have "length (sp_criteria (demo_spec 2)) = 2" by code_simp
  then show ?thesis using decompose_succeeds [OF demo_spec_valid(1) demo_spec_clean] by metis
qed

theorem validated_against_spec_covers_witness:
  "\<exists>h p. ValidateAgainstSpec demo_graph (demo_spec 4) = Inr h \<and> PackageForAC h ''AC-3'' = Some p"
proof -
  have v: "\<not> isl (ValidateAgainstSpec demo_graph (demo_spec 4))"
    "ValidateSpecification (demo_spec 4) = Inr (demo_spec 4)"
    "''AC-3'' \<in> ac_ID ` set (sp_criteria (demo_spec 4))"
    by code_simp+
  then obtain h where "ValidateAgainstSpec demo_graph (demo_spec 4) = Inr h"
    by (cases "ValidateAgainstSpec demo_graph (demo_spec 4)") auto
  from validated_against_spec_covers [OF this v(2)] this v(3) show ?thesis by auto
qed

text \<open>A package with an empty state is refused, although the code then assigns it the default
  state PENDING.\<close>

theorem empty_state_refused:
  assumes "p \<in> set (wg_packages g)" "wp_state p = ''''"
  shows "isl (validate g spec)"
proof (cases "validate g spec")
  case (Inr h)
  then have "packages_ok (wg_packages g)" by (simp add: validate_iff graph_ok_def Let_def)
  with assms have "package_errors p = []" by (simp add: packages_ok_def)
  with assms(2) show ?thesis
    by (simp add: package_errors_def Let_def package_IsValid_def AllPackageStates_def split: if_splits)
qed simp

theorem empty_state_refused_witness:
  "isl (validate \<lparr>wg_task = ''t'', wg_packages = [(demo_pkg ''a'' ''AC-1'' [])\<lparr>wp_state := ''''\<rparr>]\<rparr> None)"
  by (rule empty_state_refused [of "(demo_pkg ''a'' ''AC-1'' [])\<lparr>wp_state := ''''\<rparr>"]) (simp_all)

end
