(* ===== verification/Work_Store.thy ===== *)
theory Work_Store
  imports Workgraph_Valid
begin

text \<open>
  The durable work graph: the tables of \<^verbatim>\<open>src/internal/storage/workgraph.go\<close> and the store of
  \<^verbatim>\<open>src/internal/workgraph/store.go\<close> (save with preserved run-time state, load, re-validate, package
  transition, attempt history). A JSON column is the list it encodes. A transaction is a function
  of the database that returns \<open>Inl\<close>, and so leaves the database unchanged, when it rolls back.
\<close>

section \<open>Tables\<close>

record package_row =
  pr_task :: string
  pr_package :: string
  pr_stage :: string
  pr_title :: string
  pr_objective :: string
  pr_criteria :: "string list"
  pr_scope :: "string list"
  pr_deps :: "string list"
  pr_state :: string
  pr_attempts :: "attempt list"
  pr_graph_version :: nat
  pr_created_at :: string
  pr_updated_at :: string

record attempt_row =
  ar_id :: nat
  ar_task :: string
  ar_package :: string
  ar_index :: int
  ar_state :: string
  ar_started_at :: string
  ar_finished_at :: string
  ar_failure_reason :: string
  ar_exit_code :: int
  ar_agent_run :: string

record work_db =
  wd_db :: db
  wd_packages :: "package_row list"
  wd_dependencies :: "(string \<times> string \<times> string) list"
  wd_attempts :: "attempt_row list"
  wd_attempt_seq :: nat

definition empty_work_db :: "db \<Rightarrow> work_db" where
  "empty_work_db d = \<lparr>wd_db = d, wd_packages = [], wd_dependencies = [], wd_attempts = [],
     wd_attempt_seq = 0\<rparr>"

datatype work_error =
    ErrWorkPackageNotFound
  | ErrWorkGraphNotFound
  | NilGraph
  | WorkTaskRequired
  | NoPackageRows
  | PackageIDRequired
  | UpdatedAtRequired string
  | WorkConstraint
  | InvalidPackageState string
  | InvalidWorkGraph "graph_violation list"
  | WorkAudit db_error

definition row_key :: "package_row \<Rightarrow> string \<times> string" where
  "row_key r = (pr_task r, pr_package r)"

subsection \<open>Replacing the graph of a task\<close>

definition max_version :: "work_db \<Rightarrow> string \<Rightarrow> nat" where
  "max_version d taskID =
     foldr max (map pr_graph_version (filter (\<lambda>r. pr_task r = taskID) (wd_packages d))) 0"

text \<open>\<^verbatim>\<open>INSERT ... ON CONFLICT(task_id, package_id) DO UPDATE\<close>; the foreign key on the task is checked.\<close>

definition upsert_package :: "work_db \<Rightarrow> package_row \<Rightarrow> (work_error, work_db) result" where
  "upsert_package d r =
     (if pr_task r \<notin> tk_id ` set (db_tasks (wd_db d)) then Inl WorkConstraint
      else if \<exists>q \<in> set (wd_packages d). row_key q = row_key r
      then Inr (d\<lparr>wd_packages := update_where (\<lambda>q. row_key q = row_key r) (\<lambda>_. r) (wd_packages d)\<rparr>)
      else Inr (d\<lparr>wd_packages := wd_packages d @ [r]\<rparr>))"

definition insert_or_ignore :: "'a list \<Rightarrow> 'a \<Rightarrow> 'a list" where
  "insert_or_ignore xs x = (if x \<in> set xs then xs else xs @ [x])"

definition replace_row :: "string \<Rightarrow> nat \<Rightarrow> package_row \<Rightarrow> work_db \<Rightarrow> (work_error, work_db) result" where
  "replace_row taskID nextVersion r d =
     (if pr_package r = '''' then Inl PackageIDRequired
      else
        let createdAt = (case find (\<lambda>q. row_key q = (taskID, pr_package r)) (wd_packages d) of
              Some q \<Rightarrow> pr_created_at q
            | None \<Rightarrow> pr_created_at r)
        in if pr_updated_at r = '''' then Inl (UpdatedAtRequired (pr_package r))
           else case upsert_package d (r\<lparr>pr_task := taskID, pr_graph_version := nextVersion,
                  pr_created_at := createdAt\<rparr>) of
             Inl e \<Rightarrow> Inl e
           | Inr d' \<Rightarrow> Inr (d'\<lparr>wd_dependencies :=
               foldl insert_or_ignore (wd_dependencies d')
                 (map (\<lambda>dep. (taskID, pr_package r, dep)) (pr_deps r))\<rparr>))"

fun replace_rows :: "string \<Rightarrow> nat \<Rightarrow> package_row list \<Rightarrow> work_db \<Rightarrow> (work_error, work_db) result" where
  "replace_rows taskID v [] d = Inr d"
| "replace_rows taskID v (r # rs) d =
     (case replace_row taskID v r d of
        Inl e \<Rightarrow> Inl e
      | Inr d' \<Rightarrow> replace_rows taskID v rs d')"

definition ReplaceWorkGraph ::
  "work_db \<Rightarrow> string \<Rightarrow> package_row list \<Rightarrow> (work_error, work_db) result" where
  "ReplaceWorkGraph d taskID rows =
     (if taskID = '''' then Inl WorkTaskRequired
      else if rows = [] then Inl NoPackageRows
      else
        let nextVersion = max_version d taskID + 1;
            cleared = d\<lparr>wd_dependencies := filter (\<lambda>(t, _, _). t \<noteq> taskID) (wd_dependencies d)\<rparr>
        in case replace_rows taskID nextVersion rows cleared of
             Inl e \<Rightarrow> Inl e
           | Inr d' \<Rightarrow> Inr (d'\<lparr>wd_packages :=
               filter (\<lambda>q. \<not> (pr_task q = taskID \<and> pr_package q \<notin> set (map pr_package rows)))
                 (wd_packages d')\<rparr>))"

subsection \<open>Reads and single-row updates\<close>

definition ListWorkPackages :: "work_db \<Rightarrow> string \<Rightarrow> (work_error, package_row list) result" where
  "ListWorkPackages d taskID =
     (let out = sort_key pr_package (filter (\<lambda>r. pr_task r = taskID) (wd_packages d))
      in if out = [] then Inl ErrWorkGraphNotFound else Inr out)"

definition GetWorkPackage :: "work_db \<Rightarrow> string \<Rightarrow> string \<Rightarrow> (work_error, package_row) result" where
  "GetWorkPackage d taskID pkgID =
     (case find (\<lambda>r. row_key r = (taskID, pkgID)) (wd_packages d) of
        None \<Rightarrow> Inl ErrWorkPackageNotFound
      | Some r \<Rightarrow> Inr r)"

definition UpdateWorkPackageState ::
  "work_db \<Rightarrow> string \<Rightarrow> string \<Rightarrow> string \<Rightarrow> string \<Rightarrow> (work_error, work_db) result" where
  "UpdateWorkPackageState d taskID pkgID newState updatedAt =
     (if count_where (\<lambda>r. row_key r = (taskID, pkgID)) (wd_packages d) = 0
      then Inl ErrWorkPackageNotFound
      else Inr (d\<lparr>wd_packages := update_where (\<lambda>r. row_key r = (taskID, pkgID))
        (\<lambda>r. r\<lparr>pr_state := newState, pr_updated_at := updatedAt\<rparr>) (wd_packages d)\<rparr>))"

definition SetWorkPackageAttempts ::
  "work_db \<Rightarrow> string \<Rightarrow> string \<Rightarrow> attempt list \<Rightarrow> string \<Rightarrow> (work_error, work_db) result" where
  "SetWorkPackageAttempts d taskID pkgID atts updatedAt =
     (if count_where (\<lambda>r. row_key r = (taskID, pkgID)) (wd_packages d) = 0
      then Inl ErrWorkPackageNotFound
      else Inr (d\<lparr>wd_packages := update_where (\<lambda>r. row_key r = (taskID, pkgID))
        (\<lambda>r. r\<lparr>pr_attempts := atts, pr_updated_at := updatedAt\<rparr>) (wd_packages d)\<rparr>))"

definition db_AppendAttempt :: "work_db \<Rightarrow> attempt_row \<Rightarrow> (work_error, work_db) result" where
  "db_AppendAttempt d r =
     (if \<exists>q \<in> set (wd_attempts d). (ar_task q, ar_package q, ar_index q) = (ar_task r, ar_package r, ar_index r)
      then Inl WorkConstraint
      else Inr (d\<lparr>wd_attempts := wd_attempts d @ [r\<lparr>ar_id := Suc (wd_attempt_seq d)\<rparr>],
        wd_attempt_seq := Suc (wd_attempt_seq d)\<rparr>))"

definition ListAttempts :: "work_db \<Rightarrow> string \<Rightarrow> string \<Rightarrow> attempt_row list" where
  "ListAttempts d taskID pkgID =
     sort_key ar_index (filter (\<lambda>r. ar_task r = taskID \<and> ar_package r = pkgID) (wd_attempts d))"

section \<open>The store\<close>

definition packageToRow :: "string \<Rightarrow> work_package \<Rightarrow> package_row" where
  "packageToRow nowTS p =
     \<lparr>pr_task = wp_task p, pr_package = wp_id p, pr_stage = wp_stage p, pr_title = wp_title p,
      pr_objective = wp_objective p, pr_criteria = wp_criteria p, pr_scope = wp_scope p,
      pr_deps = wp_deps p, pr_state = wp_state p, pr_attempts = wp_attempts p,
      pr_graph_version = 0, pr_created_at = '''', pr_updated_at = nowTS\<rparr>"

definition rowToPackage :: "package_row \<Rightarrow> work_package" where
  "rowToPackage r =
     \<lparr>wp_id = pr_package r, wp_task = pr_task r, wp_stage = pr_stage r, wp_title = pr_title r,
      wp_objective = pr_objective r, wp_criteria = pr_criteria r, wp_scope = pr_scope r,
      wp_deps = pr_deps r, wp_state = pr_state r, wp_attempts = pr_attempts r\<rparr>"

text \<open>The maps that \<^verbatim>\<open>loadRuntimeStateByTask\<close> builds, as the row each key was read from.\<close>

definition loadRuntimeStateByTask :: "work_db \<Rightarrow> string \<Rightarrow> string \<Rightarrow> (string \<times> attempt list) option" where
  "loadRuntimeStateByTask d taskID k =
     (case ListWorkPackages d taskID of
        Inl _ \<Rightarrow> None
      | Inr rows \<Rightarrow> map_of (map (\<lambda>r. (pr_package r, (pr_state r, pr_attempts r))) rows) k)"

definition keep_runtime :: "(string \<Rightarrow> (string \<times> attempt list) option) \<Rightarrow> work_package \<Rightarrow> work_package" where
  "keep_runtime m p =
     (case m (wp_id p) of
        None \<Rightarrow> p
      | Some (st, atts) \<Rightarrow>
          p\<lparr>wp_attempts := (if atts \<noteq> [] \<and> wp_attempts p = [] then atts else wp_attempts p),
            wp_state := (if wp_state p = PackagePending then st else wp_state p)\<rparr>)"

definition LoadOrDie :: "work_db \<Rightarrow> string \<Rightarrow> (work_error, work_graph) result" where
  "LoadOrDie d taskID =
     (case ListWorkPackages d taskID of
        Inl e \<Rightarrow> Inl e
      | Inr rows \<Rightarrow> Inr \<lparr>wg_task = taskID, wg_packages = map rowToPackage rows\<rparr>)"

definition LoadValidated :: "work_db \<Rightarrow> string \<Rightarrow> (work_error, work_graph) result" where
  "LoadValidated d taskID =
     (case LoadOrDie d taskID of
        Inl e \<Rightarrow> Inl e
      | Inr g \<Rightarrow> (case ValidateWorkGraph g of Inl es \<Rightarrow> Inl (InvalidWorkGraph es) | Inr h \<Rightarrow> Inr h))"

definition HasGraph :: "work_db \<Rightarrow> string \<Rightarrow> bool" where
  "HasGraph d taskID = is_ok (ListWorkPackages d taskID)"

definition GetPackage :: "work_db \<Rightarrow> string \<Rightarrow> string \<Rightarrow> (work_error, work_package) result" where
  "GetPackage d taskID pkgID =
     (case GetWorkPackage d taskID pkgID of Inl e \<Rightarrow> Inl e | Inr r \<Rightarrow> Inr (rowToPackage r))"

text \<open>An audit event of the task scope, appended in the same transaction.\<close>

definition work_audit ::
  "time \<Rightarrow> string \<Rightarrow> string \<Rightarrow> payload \<Rightarrow> work_db \<Rightarrow> (work_error, work_db) result" where
  "work_audit now typ taskID pl d =
     (case recordInto (wd_db d) now
        \<lparr>ae_id = 0, ae_ts = '''', ae_scope = ''task'', ae_scope_id = taskID, ae_type = typ,
         ae_actor = ''user'', ae_payload = pl\<rparr> of
        Inl e \<Rightarrow> Inl (WorkAudit e)
      | Inr b \<Rightarrow> Inr (d\<lparr>wd_db := b\<rparr>))"

definition Graph_Save :: "time \<Rightarrow> work_db \<Rightarrow> work_graph option \<Rightarrow> (work_error, work_graph \<times> work_db) result" where
  "Graph_Save now d v =
     (case v of
        None \<Rightarrow> Inl NilGraph
      | Some graph \<Rightarrow>
          if wg_task graph = '''' then Inl WorkTaskRequired
          else
            let taskID = wg_task graph;
                packages = map (keep_runtime (loadRuntimeStateByTask d taskID)) (wg_packages graph);
                rows = map (packageToRow (rfc3339nano now)) packages
            in case ReplaceWorkGraph d taskID rows of
                 Inl e \<Rightarrow> Inl e
               | Inr d1 \<Rightarrow>
                   (case work_audit now ''workgraph.saved'' taskID
                       (PObj [(''packages'', PInt (int (length rows))), (''task_id'', PStr taskID)]) d1 of
                      Inl e \<Rightarrow> Inl e
                    | Inr d2 \<Rightarrow>
                        (case LoadOrDie d2 taskID of
                           Inl e \<Rightarrow> Inl e
                         | Inr g \<Rightarrow> Inr (g, d2))))"

definition TransitionPackage ::
  "time \<Rightarrow> work_db \<Rightarrow> string \<Rightarrow> string \<Rightarrow> string \<Rightarrow> (work_error, work_db) result" where
  "TransitionPackage now d taskID pkgID newState =
     (if \<not> package_IsValid newState then Inl (InvalidPackageState newState)
      else case UpdateWorkPackageState d taskID pkgID newState (rfc3339nano now) of
        Inl e \<Rightarrow> Inl e
      | Inr d1 \<Rightarrow> work_audit now ''workgraph.package.transitioned'' taskID
          (PObj [(''package_id'', PStr pkgID), (''new_state'', PStr newState)]) d1)"

definition AppendAttempt ::
  "time \<Rightarrow> work_db \<Rightarrow> string \<Rightarrow> string \<Rightarrow> attempt \<Rightarrow> (work_error, work_db) result" where
  "AppendAttempt now d taskID pkgID att0 =
     (case GetPackage d taskID pkgID of
        Inl e \<Rightarrow> Inl e
      | Inr pkg \<Rightarrow>
          let att = att0\<lparr>at_started := (if IsZero (at_started att0) then now else at_started att0),
                at_index := int (length (wp_attempts pkg))\<rparr>
          in case SetWorkPackageAttempts d taskID pkgID (wp_attempts pkg @ [att]) (rfc3339nano now) of
               Inl e \<Rightarrow> Inl e
             | Inr d1 \<Rightarrow>
                 (case db_AppendAttempt d1
                     \<lparr>ar_id = 0, ar_task = taskID, ar_package = pkgID, ar_index = at_index att,
                      ar_state = at_state att, ar_started_at = rfc3339nano (at_started att),
                      ar_finished_at = rfc3339nano (at_finished att),
                      ar_failure_reason = at_failure_reason att, ar_exit_code = at_exit_code att,
                      ar_agent_run = at_agent_run att\<rparr> of
                    Inl e \<Rightarrow> Inl e
                  | Inr d2 \<Rightarrow> work_audit now ''workgraph.package.attempt_appended'' taskID
                      (PObj [(''package_id'', PStr pkgID), (''attempt_index'', PInt (at_index att)),
                        (''state'', PStr (at_state att))]) d2))"

end
