(* ===== verification/Work_Store_Valid.thy ===== *)
theory Work_Store_Valid
  imports Work_Store
begin

text \<open>
  The work-graph store keeps its promises: the packages table as a map from (task, package) to
  rows, the effect of a save on that map, the invariant that every stored graph passes the
  validator, preserved by every operation, and the properties of the store.
\<close>

section \<open>Normal packages\<close>

lemma trimAndDedup_idem [simp]: "trimAndDedupStrings (trimAndDedupStrings xs) = trimAndDedupStrings xs"
proof -
  have "map TrimSpace (trimAndDedupStrings xs) = trimAndDedupStrings xs"
    by (rule map_idI) (auto simp: trimAndDedupStrings_def)
  moreover have "filter (\<lambda>s. s \<noteq> '''') (trimAndDedupStrings xs) = trimAndDedupStrings xs"
    by (rule filter_True) (auto simp: trimAndDedupStrings_def)
  ultimately show ?thesis
    by (simp add: trimAndDedupStrings_def [of "trimAndDedupStrings xs"])
      (simp add: trimAndDedupStrings_def)
qed

lemma normalise_package_idem [simp]: "normalise_package (normalise_package p) = normalise_package p"
  by (simp add: normalise_package_def trim_package_def)

text \<open>The part of a package that no operation of the store changes.\<close>

definition static_part :: "work_package \<Rightarrow> work_package" where
  "static_part p = p\<lparr>wp_task := ''t'', wp_state := PackagePending, wp_attempts := []\<rparr>"

lemma TrimSpace_t [simp]: "TrimSpace ''t'' = ''t''"
  by code_simp

lemma normalise_static: "normalise_package (static_part p) = static_part (normalise_package p)"
  by (simp add: normalise_package_def trim_package_def static_part_def)

lemma static_part_simps [simp]:
  "wp_id (static_part p) = wp_id p" "wp_deps (static_part p) = wp_deps p"
  "wp_criteria (static_part p) = wp_criteria p"
  by (simp_all add: static_part_def)

lemma adj_of_map:
  assumes "\<And>p. wp_id (f p) = wp_id p" "\<And>p. wp_deps (f p) = wp_deps p"
  shows "adj_of (map f ps) = adj_of ps"
proof
  fix k
  have "find (\<lambda>p. wp_id p = k) (map f qs) = map_option f (find (\<lambda>p. wp_id p = k) qs)" for qs
    by (induction qs) (auto simp: assms)
  from this [of "rev ps"] show "adj_of (map f ps) k = adj_of ps k"
    by (auto simp: adj_of_def rev_map assms split: option.splits)
qed

lemma linked_map:
  assumes "\<And>p. wp_id (f p) = wp_id p" "\<And>p. wp_deps (f p) = wp_deps p"
  shows "linked (map f ps) = linked ps"
  by (simp add: linked_def assms image_image)

lemma package_errors_static:
  "package_errors p = [] \<longleftrightarrow>
     package_errors (static_part p) = [] \<and> TrimSpace (wp_task p) \<noteq> '''' \<and> package_IsValid (wp_state p)"
  unfolding package_errors_def Let_def normalise_static
  by (auto simp: static_part_def normalise_package_def trim_package_def package_IsValid_def
      AllPackageStates_def split: if_splits)

lemma packages_ok_static:
  "packages_ok ps \<longleftrightarrow> packages_ok (map static_part ps)
     \<and> (\<forall>p \<in> set ps. TrimSpace (wp_task p) \<noteq> '''' \<and> package_IsValid (wp_state p))"
proof -
  have "map wp_id (map normalise_package (map static_part ps)) = map wp_id (map normalise_package ps)"
    "map wp_criteria (map normalise_package (map static_part ps)) = map wp_criteria (map normalise_package ps)"
    by (simp_all add: normalise_static)
  moreover have "(\<forall>p \<in> set ps. package_errors p = []) \<longleftrightarrow>
      (\<forall>p \<in> set (map static_part ps). package_errors p = [])
      \<and> (\<forall>p \<in> set ps. TrimSpace (wp_task p) \<noteq> '''' \<and> package_IsValid (wp_state p))"
    unfolding ball_simps(9) [symmetric] set_map
    by (subst ball_cong [OF refl package_errors_static]) blast
  moreover have "wp_id ` set (map normalise_package (map static_part ps)) = wp_id ` set (map normalise_package ps)"
    by (simp add: image_image normalise_static)
  ultimately show ?thesis unfolding packages_ok_def by metis
qed

lemma graph_ok_static:
  "graph_ok \<lparr>wg_task = t, wg_packages = ps\<rparr> \<longleftrightarrow>
     TrimSpace t \<noteq> '''' \<and> graph_ok \<lparr>wg_task = ''t'', wg_packages = map static_part ps\<rparr>
     \<and> (\<forall>p \<in> set ps. TrimSpace (wp_task p) \<noteq> '''' \<and> package_IsValid (wp_state p))"
proof -
  let ?n = "map normalise_package ps"
  have n: "map normalise_package (map static_part ps) = map static_part ?n"
    by (simp add: normalise_static)
  have "adj_of (map static_part ?n) = adj_of ?n" by (rule adj_of_map) simp_all
  then have e: "dep_edges (map static_part ?n) = dep_edges ?n" by (simp add: dep_edges_def)
  have l: "linked (map static_part ?n) = linked ?n" by (rule linked_map) simp_all
  have h: "?n \<noteq> [] \<Longrightarrow> wp_id (hd (map static_part ?n)) = wp_id (hd ?n)" by (simp add: hd_map)
  have i: "wp_id ` set (map static_part ?n) = wp_id ` set ?n" by (simp add: image_image)
  have d: "(\<forall>p \<in> set (map static_part ?n). \<forall>d \<in> set (wp_deps p). d \<noteq> wp_id p \<and> d \<in> wp_id ` set ?n) \<longleftrightarrow>
      (\<forall>p \<in> set ?n. \<forall>d \<in> set (wp_deps p). d \<noteq> wp_id p \<and> d \<in> wp_id ` set ?n)" by simp
  have c: "(\<forall>p \<in> set (map static_part ?n). (x, wp_id p) \<in> R) \<longleftrightarrow> (\<forall>p \<in> set ?n. (x, wp_id p) \<in> R)" for x R
    by simp
  show ?thesis
    unfolding graph_ok_def Let_def work_graph.select_convs n e l i d c packages_ok_static [of ps]
    using h TrimSpace_t by (cases "?n = []") auto
qed

text \<open>Two lists of packages with the same static parts are accepted alike.\<close>

lemma graph_ok_same_static:
  assumes "graph_ok \<lparr>wg_task = t, wg_packages = ps\<rparr>" "map static_part qs = map static_part ps"
    and "TrimSpace u \<noteq> ''''" "\<forall>q \<in> set qs. TrimSpace (wp_task q) \<noteq> '''' \<and> package_IsValid (wp_state q)"
  shows "graph_ok \<lparr>wg_task = u, wg_packages = qs\<rparr>"
  using assms graph_ok_static by metis

lemma graph_wf_ok:
  assumes wf: "graph_wf qs" and n: "map normalise_package qs = qs" and t: "TrimSpace t \<noteq> ''''"
  shows "graph_ok \<lparr>wg_task = t, wg_packages = qs\<rparr>"
proof -
  have ne: "normalise_package q = q" if "q \<in> set qs" for q
    using n that by (metis in_set_conv_nth nth_map length_map)
  have errs: "package_errors q = []" if "q \<in> set qs" for q
    using wf that ne [OF that] by (auto simp: package_errors_def Let_def graph_wf_def package_wf_def)
  have dc: "distinct (wp_criteria q)" if "q \<in> set qs" for q
  proof -
    have "distinct (wp_criteria (normalise_package q))"
      by (simp add: normalise_package_def trimAndDedup_distinct)
    then show ?thesis by (simp add: ne [OF that])
  qed
  have "distinct qs" using wf by (simp add: graph_wf_def distinct_map)
  have "distinct (concat (map wp_criteria rs))" if "distinct rs" "set rs \<subseteq> set qs" for rs
    using that
  proof (induction rs)
    case (Cons r rs)
    have "set (wp_criteria r) \<inter> set (wp_criteria s) = {}" if "s \<in> set rs" for s
    proof (rule ccontr)
      assume "set (wp_criteria r) \<inter> set (wp_criteria s) \<noteq> {}"
      moreover have "r \<in> set qs" "s \<in> set qs" "r \<noteq> s" using Cons.prems that by auto
      ultimately show False using wf unfolding graph_wf_def by blast
    qed
    with Cons dc [of r] show ?case by auto
  qed simp
  with \<open>distinct qs\<close> have cr: "distinct (concat (map wp_criteria qs))" by simp
  have ids: "'''' \<notin> wp_id ` set qs" "distinct (map wp_id qs)"
    using wf by (auto simp: graph_wf_def package_wf_def)
  have pok: "packages_ok qs" unfolding packages_ok_def n using errs ids cr by simp
  have "acyclic (dep_edges qs)" using wf dep_edges_alt [OF ids(2)] by (simp add: graph_wf_def)
  moreover have "\<forall>p \<in> set qs. (wp_id (hd qs), wp_id p) \<in> (linked qs)\<^sup>*"
    using wf by (auto simp: graph_wf_def)
  moreover have "\<forall>p \<in> set qs. \<forall>d \<in> set (wp_deps p). d \<noteq> wp_id p \<and> d \<in> wp_id ` set qs"
    using wf by (auto simp: graph_wf_def)
  moreover have "qs \<noteq> []" using wf by (simp add: graph_wf_def)
  ultimately show ?thesis using pok t unfolding graph_ok_def Let_def work_graph.select_convs n by simp
qed

text \<open>Validation is idempotent.\<close>

lemma validated_graph_ok:
  assumes "ValidateWorkGraph g = Inr h"
  shows "graph_ok h \<and> wg_task h = wg_task g \<and> sorted (map wp_id (wg_packages h))
    \<and> distinct (map wp_id (wg_packages h)) \<and> '''' \<notin> wp_id ` set (wg_packages h)"
proof -
  let ?qs = "sort_key wp_id (map normalise_package (wg_packages g))"
  have ok: "graph_ok g" and h: "h = g\<lparr>wg_packages := ?qs\<rparr>"
    using assms by (auto simp: ValidateWorkGraph_def validate_iff)
  have wf: "graph_wf ?qs" by (rule graph_ok_wf [OF ok])
  have n: "map normalise_package ?qs = ?qs" by (rule map_idI) auto
  have "graph_ok \<lparr>wg_task = wg_task g, wg_packages = ?qs\<rparr>"
    by (rule graph_wf_ok [OF wf n]) (use ok in \<open>simp add: graph_ok_def Let_def\<close>)
  moreover have "h = \<lparr>wg_task = wg_task g, wg_packages = ?qs\<rparr>" by (simp add: h)
  ultimately show ?thesis using wf by (auto simp: graph_wf_def package_wf_def)
qed

section \<open>The table as a map\<close>

definition pkg_map :: "work_db \<Rightarrow> string \<times> string \<Rightarrow> package_row option" where
  "pkg_map d k = find (\<lambda>r. row_key r = k) (wd_packages d)"

definition keys_ok :: "work_db \<Rightarrow> bool" where
  "keys_ok d \<longleftrightarrow> distinct (map row_key (wd_packages d))"

definition task_rows :: "work_db \<Rightarrow> string \<Rightarrow> package_row list" where
  "task_rows d t = filter (\<lambda>r. pr_task r = t) (wd_packages d)"

lemma pkg_map_Some: "pkg_map d k = Some r \<Longrightarrow> r \<in> set (wd_packages d) \<and> row_key r = k"
  using find_Some_mem [of "\<lambda>r. row_key r = k"] by (simp add: pkg_map_def)

lemma pkg_map_iff:
  assumes "keys_ok d"
  shows "pkg_map d k = Some r \<longleftrightarrow> r \<in> set (wd_packages d) \<and> row_key r = k"
proof
  assume r: "r \<in> set (wd_packages d) \<and> row_key r = k"
  then show "pkg_map d k = Some r" unfolding pkg_map_def
    using assms by (intro find_unique) (auto simp: keys_ok_def distinct_map dest: inj_onD)
qed (rule pkg_map_Some)

lemma pkg_map_None: "pkg_map d k = None \<longleftrightarrow> k \<notin> row_key ` set (wd_packages d)"
  by (auto simp: pkg_map_def find_None_all)

lemma set_task_rows: "keys_ok d \<Longrightarrow> r \<in> set (task_rows d t) \<longleftrightarrow> (\<exists>k. pkg_map d (t, k) = Some r)"
  by (auto simp: task_rows_def pkg_map_iff row_key_def)

lemma distinct_task_rows: "keys_ok d \<Longrightarrow> distinct (map pr_package (task_rows d t))"
proof -
  assume "keys_ok d"
  then have "distinct (map row_key (task_rows d t))"
    by (auto simp: keys_ok_def task_rows_def distinct_map intro: inj_on_subset)
  then show ?thesis by (auto simp: distinct_map task_rows_def row_key_def inj_on_def)
qed

text \<open>A listing is determined by the map.\<close>

lemma list_rows_eq:
  assumes "keys_ok d" "sorted (map pr_package rs)" "distinct (map pr_package rs)"
    and "\<And>r. r \<in> set rs \<longleftrightarrow> (\<exists>k. pkg_map d (t, k) = Some r)"
  shows "sort_key pr_package (task_rows d t) = rs"
proof (rule map_sorted_distinct_set_unique [of pr_package])
  have s: "set (sort_key pr_package (task_rows d t)) = set rs" using assms set_task_rows by auto
  then show "set (sort_key pr_package (task_rows d t)) = set rs" .
  show "inj_on pr_package (set (sort_key pr_package (task_rows d t)) \<union> set rs)"
    unfolding s using assms(3) by (simp add: distinct_map)
  show "distinct (map pr_package (sort_key pr_package (task_rows d t)))"
    using distinct_task_rows [OF assms(1)] by (simp add: distinct_map_sort_key)
qed (use assms in simp_all)

lemma upsert_package_map:
  assumes k: "keys_ok d" and u: "upsert_package d r = Inr d'"
  shows "keys_ok d' \<and> pkg_map d' = (pkg_map d)(row_key r \<mapsto> r) \<and> wd_db d' = wd_db d
    \<and> wd_attempts d' = wd_attempts d"
proof (cases "\<exists>q \<in> set (wd_packages d). row_key q = row_key r")
  case True
  with u have d': "d' = d\<lparr>wd_packages := update_where (\<lambda>q. row_key q = row_key r) (\<lambda>_. r) (wd_packages d)\<rparr>"
    by (auto simp: upsert_package_def split: if_splits)
  have k': "keys_ok d'" using k map_update_where [of "\<lambda>q. row_key q = row_key r" row_key "\<lambda>_. r"]
    by (simp add: keys_ok_def d')
  have "pkg_map d' k = ((pkg_map d)(row_key r \<mapsto> r)) k" for k
  proof (cases "k = row_key r")
    case same: True
    with True have "r \<in> set (wd_packages d')" by (auto simp: d' set_update_where)
    with same show ?thesis using pkg_map_iff [OF k'] by simp
  next
    case False
    have "find (\<lambda>q. row_key q = k) (update_where (\<lambda>q. row_key q = row_key r) (\<lambda>_. r) xs)
        = find (\<lambda>q. row_key q = k) xs" for xs
      using False by (induction xs) auto
    with False show ?thesis by (simp add: pkg_map_def d')
  qed
  with k' show ?thesis by (auto simp: d')
next
  case False
  with u have d': "d' = d\<lparr>wd_packages := wd_packages d @ [r]\<rparr>"
    by (auto simp: upsert_package_def split: if_splits)
  have k': "keys_ok d'" using k False by (auto simp: keys_ok_def d')
  have "find P (xs @ [r]) = (case find P xs of None \<Rightarrow> if P r then Some r else None | Some x \<Rightarrow> Some x)" for P xs
    by (induction xs) auto
  then have "pkg_map d' k = (case pkg_map d k of None \<Rightarrow> if row_key r = k then Some r else None
      | Some x \<Rightarrow> Some x)" for k
    by (simp add: pkg_map_def d')
  moreover have "pkg_map d (row_key r) = None" using False by (auto simp: pkg_map_None image_iff)
  ultimately have "pkg_map d' k = ((pkg_map d)(row_key r \<mapsto> r)) k" for k
    by (auto split: option.splits)
  with k' show ?thesis by (auto simp: d')
qed

definition stored_row :: "string \<Rightarrow> nat \<Rightarrow> work_db \<Rightarrow> package_row \<Rightarrow> package_row" where
  "stored_row t v d r = r\<lparr>pr_task := t, pr_graph_version := v,
     pr_created_at := (case pkg_map d (t, pr_package r) of Some q \<Rightarrow> pr_created_at q
        | None \<Rightarrow> pr_created_at r)\<rparr>"

lemma replace_row_map:
  assumes k: "keys_ok d" and u: "replace_row t v r d = Inr d'"
  shows "keys_ok d' \<and> pkg_map d' = (pkg_map d)((t, pr_package r) \<mapsto> stored_row t v d r)
    \<and> wd_db d' = wd_db d \<and> wd_attempts d' = wd_attempts d"
proof -
  have "(case find (\<lambda>q. row_key q = (t, pr_package r)) (wd_packages d) of
      Some q \<Rightarrow> pr_created_at q | None \<Rightarrow> pr_created_at r)
    = (case pkg_map d (t, pr_package r) of Some q \<Rightarrow> pr_created_at q | None \<Rightarrow> pr_created_at r)"
    by (simp add: pkg_map_def)
  then obtain d1 where d1: "upsert_package d (stored_row t v d r) = Inr d1"
    and d': "wd_packages d' = wd_packages d1" "wd_db d' = wd_db d1" "wd_attempts d' = wd_attempts d1"
    using u by (auto simp: replace_row_def Let_def stored_row_def split: if_splits sum.splits)
  have "keys_ok d' = keys_ok d1" "pkg_map d' = pkg_map d1"
    by (auto simp: keys_ok_def pkg_map_def d')
  with upsert_package_map [OF k d1] d' show ?thesis by (simp add: row_key_def stored_row_def)
qed

lemma replace_rows_map:
  "keys_ok d \<Longrightarrow> distinct (map pr_package rs) \<Longrightarrow> replace_rows t v rs d = Inr d' \<Longrightarrow>
     keys_ok d' \<and> wd_db d' = wd_db d \<and> wd_attempts d' = wd_attempts d
     \<and> pkg_map d' = (\<lambda>k. case find (\<lambda>r. (t, pr_package r) = k) rs of
         Some r \<Rightarrow> Some (stored_row t v d r) | None \<Rightarrow> pkg_map d k)"
proof (induction rs arbitrary: d)
  case (Cons r rs)
  then obtain d1 where d1: "replace_row t v r d = Inr d1" "replace_rows t v rs d1 = Inr d'"
    by (auto split: sum.splits)
  note m1 = replace_row_map [OF Cons.prems(1) d1(1)]
  have IH: "keys_ok d' \<and> wd_db d' = wd_db d1 \<and> wd_attempts d' = wd_attempts d1
     \<and> pkg_map d' = (\<lambda>k. case find (\<lambda>r. (t, pr_package r) = k) rs of
         Some r \<Rightarrow> Some (stored_row t v d1 r) | None \<Rightarrow> pkg_map d1 k)"
    using Cons.IH [of d1] m1 d1(2) Cons.prems(2) by simp
  have same: "stored_row t v d1 q = stored_row t v d q" if "q \<in> set rs" for q
  proof -
    have "pr_package q \<noteq> pr_package r" using that Cons.prems(2) by (force simp: image_iff)
    then have "pkg_map d1 (t, pr_package q) = pkg_map d (t, pr_package q)" using m1 by simp
    then show ?thesis by (simp add: stored_row_def)
  qed
  have "pkg_map d' k = (case find (\<lambda>r. (t, pr_package r) = k) (r # rs) of
         Some r \<Rightarrow> Some (stored_row t v d r) | None \<Rightarrow> pkg_map d k)" for k
  proof (cases "k = (t, pr_package r)")
    case True
    with Cons.prems(2) have "find (\<lambda>r. (t, pr_package r) = k) rs = None"
      by (force simp: find_None_all image_iff)
    with IH m1 True show ?thesis by simp
  next
    case False
    with IH m1 show ?thesis
      by (auto split: option.splits dest!: find_Some_mem simp: same)
  qed
  with IH m1 show ?case by auto
qed simp

lemma option_eqI: "(\<And>x. a = Some x \<longleftrightarrow> b = Some x) \<Longrightarrow> a = b"
  by (cases a; cases b) auto

lemma ReplaceWorkGraph_map:
  assumes k: "keys_ok d" and dist: "distinct (map pr_package rs)" and u: "ReplaceWorkGraph d t rs = Inr d'"
  shows "keys_ok d' \<and> wd_db d' = wd_db d \<and> wd_attempts d' = wd_attempts d \<and> t \<noteq> '''' \<and> rs \<noteq> []
    \<and> pkg_map d' = (\<lambda>k. case find (\<lambda>r. (t, pr_package r) = k) rs of
         Some r \<Rightarrow> Some (stored_row t (max_version d t + 1) d r)
       | None \<Rightarrow> if fst k = t then None else pkg_map d k)"
proof -
  let ?v = "max_version d t + 1"
  let ?c = "d\<lparr>wd_dependencies := filter (\<lambda>(u, _, _). u \<noteq> t) (wd_dependencies d)\<rparr>"
  let ?keep = "\<lambda>q. \<not> (pr_task q = t \<and> pr_package q \<notin> set (map pr_package rs))"
  have c: "keys_ok ?c" "pkg_map ?c = pkg_map d" "stored_row t ?v ?c = stored_row t ?v d"
    using k by (auto simp: keys_ok_def pkg_map_def stored_row_def fun_eq_iff)
  obtain d1 where d1: "replace_rows t ?v rs ?c = Inr d1"
    and d': "d' = d1\<lparr>wd_packages := filter ?keep (wd_packages d1)\<rparr>" and ne: "t \<noteq> ''''" "rs \<noteq> []"
    using u by (auto simp: ReplaceWorkGraph_def Let_def split: if_splits sum.splits)
  note m = replace_rows_map [OF c(1) dist d1, unfolded c]
  have k': "keys_ok d'" using m by (auto simp: keys_ok_def d' distinct_map intro: inj_on_subset)
  have "pkg_map d' k = (case find (\<lambda>r. (t, pr_package r) = k) rs of
         Some r \<Rightarrow> Some (stored_row t ?v d r)
       | None \<Rightarrow> if fst k = t then None else pkg_map d k)" for k
  proof -
    have "x \<in> set (wd_packages d') \<longleftrightarrow> x \<in> set (wd_packages d1) \<and> ?keep x" for x by (auto simp: d')
    then have "pkg_map d' k = Some x \<longleftrightarrow> pkg_map d1 k = Some x \<and> ?keep x" for x
      unfolding pkg_map_iff [OF k'] pkg_map_iff [OF m [THEN conjunct1]] by blast
    moreover have "?keep x \<longleftrightarrow> fst k \<noteq> t \<or> find (\<lambda>r. (t, pr_package r) = k) rs \<noteq> None"
      if "pkg_map d1 k = Some x" for x
    proof -
      have "k = (pr_task x, pr_package x)" using pkg_map_Some [OF that] by (simp add: row_key_def)
      then have "find (\<lambda>r. (t, pr_package r) = k) rs = None \<longleftrightarrow>
          \<not> (pr_task x = t \<and> pr_package x \<in> pr_package ` set rs)"
        unfolding find_None_all by (auto simp: image_iff)
      with \<open>k = _\<close> show ?thesis by auto
    qed
    moreover have "pkg_map d1 k = (case find (\<lambda>r. (t, pr_package r) = k) rs of
         Some r \<Rightarrow> Some (stored_row t ?v d r) | None \<Rightarrow> pkg_map d k)" using m by simp
    ultimately have "pkg_map d' k = Some x \<longleftrightarrow>
        (case find (\<lambda>r. (t, pr_package r) = k) rs of
         Some r \<Rightarrow> Some (stored_row t ?v d r)
       | None \<Rightarrow> if fst k = t then None else pkg_map d k) = Some x" for x
      by (cases "find (\<lambda>r. (t, pr_package r) = k) rs") auto
    then show ?thesis by (rule option_eqI)
  qed
  with k' m ne show ?thesis by (auto simp: d')
qed

section \<open>The store keeps valid graphs\<close>

definition loaded_graph :: "work_db \<Rightarrow> string \<Rightarrow> work_graph" where
  "loaded_graph d t = \<lparr>wg_task = t, wg_packages = map rowToPackage (sort_key pr_package (task_rows d t))\<rparr>"

definition store_inv :: "work_db \<Rightarrow> bool" where
  "store_inv d \<longleftrightarrow> keys_ok d \<and> (\<forall>t. task_rows d t \<noteq> [] \<longrightarrow> graph_ok (loaded_graph d t))"

lemma store_inv_cong: "wd_packages d' = wd_packages d \<Longrightarrow> store_inv d' = store_inv d"
  by (simp add: store_inv_def keys_ok_def task_rows_def loaded_graph_def)

lemma sort_Nil [simp]: "sort_key k xs = [] \<longleftrightarrow> xs = []"
  by (metis length_0_conv length_sort)

lemma ListWorkPackages_eq:
  "ListWorkPackages d t = (if task_rows d t = [] then Inl ErrWorkGraphNotFound
     else Inr (sort_key pr_package (task_rows d t)))"
  by (simp add: ListWorkPackages_def task_rows_def Let_def)

lemma LoadOrDie_eq:
  "LoadOrDie d t = (if task_rows d t = [] then Inl ErrWorkGraphNotFound else Inr (loaded_graph d t))"
  by (simp add: LoadOrDie_def ListWorkPackages_eq loaded_graph_def)

lemma LoadValidated_ok:
  "store_inv d \<Longrightarrow> task_rows d t \<noteq> [] \<Longrightarrow> \<exists>h. LoadValidated d t = Inr h \<and> graph_wf (wg_packages h)
     \<and> wg_packages h = sort_key wp_id (map normalise_package (wg_packages (loaded_graph d t)))"
proof -
  assume inv: "store_inv d" and ne: "task_rows d t \<noteq> []"
  let ?g = "loaded_graph d t"
  let ?h = "?g\<lparr>wg_packages := sort_key wp_id (map normalise_package (wg_packages ?g))\<rparr>"
  have ok: "graph_ok ?g" using inv ne by (simp add: store_inv_def)
  then have "ValidateWorkGraph ?g = Inr ?h" by (simp add: ValidateWorkGraph_def validate_iff)
  then have "LoadValidated d t = Inr ?h" using ne by (simp add: LoadValidated_def LoadOrDie_eq)
  with graph_ok_wf [OF ok] show ?thesis by auto
qed

lemma sort_key_map_same:
  assumes "\<And>x. k (h x) = k x"
  shows "sort_key k (map h xs) = map h (sort_key k xs)"
proof -
  have "insort_key k (h x) (map h ys) = map h (insort_key k x ys)" for x ys
    by (induction ys) (auto simp: assms)
  then show ?thesis by (induction xs) auto
qed

lemma task_rows_update:
  assumes "\<And>r. pr_task (h r) = pr_task r"
  shows "task_rows (d\<lparr>wd_packages := update_where P h (wd_packages d)\<rparr>) t = update_where P h (task_rows d t)"
proof -
  have "filter (\<lambda>r. pr_task r = t) (update_where P h rows) = update_where P h (filter (\<lambda>r. pr_task r = t) rows)"
    for rows by (induction rows) (auto simp: assms)
  then show ?thesis by (simp add: task_rows_def)
qed

lemma graph_ok_states:
  "graph_ok (loaded_graph d t) \<Longrightarrow> r \<in> set (task_rows d t) \<Longrightarrow>
     package_IsValid (pr_state r) \<and> TrimSpace (pr_task r) \<noteq> '''' \<and> TrimSpace t \<noteq> ''''"
  unfolding loaded_graph_def by (drule graph_ok_static [THEN iffD1]) (auto simp: rowToPackage_def)

lemma store_inv_update:
  assumes inv: "store_inv d"
    and h: "\<And>r. row_key (h r) = row_key r"
      "\<And>r. static_part (rowToPackage (h r)) = static_part (rowToPackage r)"
      "\<And>r. package_IsValid (pr_state r) \<Longrightarrow> package_IsValid (pr_state (h r))"
  shows "store_inv (d\<lparr>wd_packages := update_where P h (wd_packages d)\<rparr>)" (is "store_inv ?d")
proof -
  have ht: "pr_task (h r) = pr_task r" "pr_package (h r) = pr_package r" for r
    using h(1) [of r] by (simp_all add: row_key_def)
  have "keys_ok ?d"
    using inv map_update_where [of P row_key h "wd_packages d"] h(1) by (simp add: keys_ok_def store_inv_def)
  moreover have "graph_ok (loaded_graph ?d t)" if "task_rows ?d t \<noteq> []" for t
  proof -
    let ?g = "\<lambda>r. if P r then h r else r"
    have tr: "task_rows ?d t = map ?g (task_rows d t)"
      by (subst task_rows_update) (simp_all add: ht update_where_def)
    with that inv have ok: "graph_ok (loaded_graph d t)" by (simp add: store_inv_def)
    have "sort_key pr_package (task_rows ?d t) = map ?g (sort_key pr_package (task_rows d t))"
      unfolding tr by (rule sort_key_map_same) (simp add: ht)
    then have e: "wg_packages (loaded_graph ?d t) = map (rowToPackage \<circ> ?g) (sort_key pr_package (task_rows d t))"
      by (simp add: loaded_graph_def)
    show ?thesis unfolding loaded_graph_def
    proof (rule graph_ok_same_static [OF ok [unfolded loaded_graph_def]], goal_cases)
      case 1
      then show ?case using e h(2) by (simp add: loaded_graph_def)
    next
      case 2
      from that tr obtain r where "r \<in> set (task_rows d t)" by (cases "task_rows d t") auto
      with graph_ok_states [OF ok] show ?case by blast
    next
      case 3
      then show ?case
        using graph_ok_states [OF ok] h(3) ht by (auto simp: tr rowToPackage_def split: if_splits)
    qed
  qed
  ultimately show ?thesis by (simp add: store_inv_def)
qed

lemma work_audit_Inr: "work_audit now typ t pl d = Inr d' \<Longrightarrow>
    wd_packages d' = wd_packages d \<and> wd_attempts d' = wd_attempts d"
  by (auto simp: work_audit_def split: sum.splits)

lemma store_inv_transition:
  assumes inv: "store_inv d" and "TransitionPackage now d t k st = Inr d'"
  shows "store_inv d'"
proof -
  let ?P = "\<lambda>r. row_key r = (t, k)"
  let ?h = "\<lambda>r. r\<lparr>pr_state := st, pr_updated_at := rfc3339nano now\<rparr>"
  from assms(2) have "package_IsValid st"
    and d': "wd_packages d' = wd_packages (d\<lparr>wd_packages := update_where ?P ?h (wd_packages d)\<rparr>)"
    by (auto simp: TransitionPackage_def UpdateWorkPackageState_def split: if_splits dest!: work_audit_Inr)
  then show ?thesis unfolding store_inv_cong [OF d']
    by (intro store_inv_update [OF inv]) (simp_all add: row_key_def rowToPackage_def static_part_def)
qed

lemma store_inv_append:
  assumes inv: "store_inv d" and "AppendAttempt now d t k att = Inr d'"
  shows "store_inv d'"
proof -
  let ?P = "\<lambda>r. row_key r = (t, k)"
  obtain atts where d': "wd_packages d' = wd_packages (d\<lparr>wd_packages := update_where ?P
      (\<lambda>r. r\<lparr>pr_attempts := atts, pr_updated_at := rfc3339nano now\<rparr>) (wd_packages d)\<rparr>)"
    using assms(2) by (auto simp: AppendAttempt_def SetWorkPackageAttempts_def db_AppendAttempt_def Let_def
        split: if_splits sum.splits dest!: work_audit_Inr)
  show ?thesis unfolding store_inv_cong [OF d']
    by (intro store_inv_update [OF inv]) (simp_all add: row_key_def rowToPackage_def static_part_def)
qed

lemma keep_runtime_simps [simp]:
  "wp_id (keep_runtime m p) = wp_id p" "static_part (keep_runtime m p) = static_part p"
  by (auto simp: keep_runtime_def static_part_def split: option.splits)

lemma rowToPackage_stored:
  "rowToPackage (stored_row t v d (packageToRow ts p)) = p\<lparr>wp_task := t\<rparr>"
  by (simp add: rowToPackage_def stored_row_def packageToRow_def)

text \<open>What a save stores: the packages of the graph with the run-time state kept, and no change to
  other tasks.\<close>

definition saved_packages :: "work_db \<Rightarrow> work_graph \<Rightarrow> work_package list" where
  "saved_packages d h = map (\<lambda>p. (keep_runtime (loadRuntimeStateByTask d (wg_task h)) p)\<lparr>wp_task := wg_task h\<rparr>)
     (wg_packages h)"

lemma find_key: "distinct (map k xs) \<Longrightarrow> x \<in> set xs \<Longrightarrow> find (\<lambda>y. k y = k x) xs = Some x"
  by (rule find_unique) (auto simp: distinct_map dest: inj_onD)

lemma Graph_Save_rows:
  assumes k: "keys_ok d" and h: "sorted (map wp_id (wg_packages h))" "distinct (map wp_id (wg_packages h))"
    and s: "Graph_Save now d (Some h) = Inr (g, d')"
  shows "keys_ok d'" "g = \<lparr>wg_task = wg_task h, wg_packages = saved_packages d h\<rparr>"
    "loaded_graph d' (wg_task h) = g" "wg_packages h \<noteq> []"
    "t \<noteq> wg_task h \<Longrightarrow> sort_key pr_package (task_rows d' t) = sort_key pr_package (task_rows d t)"
    "wd_attempts d' = wd_attempts d"
proof -
  let ?t = "wg_task h"
  let ?ps = "map (keep_runtime (loadRuntimeStateByTask d ?t)) (wg_packages h)"
  let ?rows = "map (packageToRow (rfc3339nano now)) ?ps"
  let ?st = "stored_row ?t (max_version d ?t + 1) d"
  obtain d1 where d1: "ReplaceWorkGraph d ?t ?rows = Inr d1"
    and d': "wd_packages d' = wd_packages d1" "wd_attempts d' = wd_attempts d1"
    and g: "LoadOrDie d' ?t = Inr g"
    using s by (auto simp: Graph_Save_def Let_def split: if_splits sum.splits dest!: work_audit_Inr)
  have "pr_package \<circ> packageToRow (rfc3339nano now) \<circ> keep_runtime (loadRuntimeStateByTask d ?t) = wp_id"
    by (simp add: packageToRow_def fun_eq_iff)
  then have names: "map pr_package ?rows = map wp_id (wg_packages h)" by (simp add: comp_assoc)
  note m = ReplaceWorkGraph_map [OF k h(2) [folded names] d1]
  note pmd = m [THEN conjunct2, THEN conjunct2, THEN conjunct2, THEN conjunct2, THEN conjunct2, THEN fun_cong]
  have pm: "pkg_map d' = pkg_map d1" by (simp add: pkg_map_def d' fun_eq_iff)
  show k': "keys_ok d'" using m by (simp add: keys_ok_def d')
  show "wd_attempts d' = wd_attempts d" using m d' by simp
  show "wg_packages h \<noteq> []" using m by auto
  have "sort_key pr_package (task_rows d' ?t) = map ?st ?rows"
  proof (rule list_rows_eq [OF k'])
    have nm: "map pr_package (map ?st ?rows) = map wp_id (wg_packages h)"
      using names by (simp add: stored_row_def comp_def)
    show "sorted (map pr_package (map ?st ?rows))" "distinct (map pr_package (map ?st ?rows))"
      unfolding nm by (rule h)+
    have f: "find (\<lambda>q. (?t, pr_package q) = (?t, pr_package r)) ?rows = Some r" if "r \<in> set ?rows" for r
      using find_key [OF h(2) [folded names] that] by simp
    show "r \<in> set (map ?st ?rows) \<longleftrightarrow> (\<exists>k. pkg_map d' (?t, k) = Some r)" for r
    proof
      assume "r \<in> set (map ?st ?rows)"
      then obtain q where q: "q \<in> set ?rows" "r = ?st q" unfolding set_map [of ?st] by blast
      have "pkg_map d1 (?t, pr_package q) = Some r"
        unfolding pmd f [OF q(1)] option.case q(2) by (rule refl)
      then show "\<exists>k. pkg_map d' (?t, k) = Some r" unfolding pm by blast
    next
      assume "\<exists>k. pkg_map d' (?t, k) = Some r"
      then obtain k where "pkg_map d1 (?t, k) = Some r" unfolding pm by blast
      then obtain q where q: "find (\<lambda>r. (?t, pr_package r) = (?t, k)) ?rows = Some q" "r = ?st q"
        using m by (cases "find (\<lambda>r. (?t, pr_package r) = (?t, k)) ?rows") simp_all
      then have "q \<in> set ?rows" using find_Some_mem [OF q(1)] by blast
      with q(2) show "r \<in> set (map ?st ?rows)" unfolding set_map [of ?st] by blast
    qed
  qed
  then have lg: "loaded_graph d' ?t = \<lparr>wg_task = ?t, wg_packages = saved_packages d h\<rparr>"
    by (simp add: loaded_graph_def saved_packages_def rowToPackage_stored)
  with g show "g = \<lparr>wg_task = ?t, wg_packages = saved_packages d h\<rparr>" "loaded_graph d' ?t = g"
    by (auto simp: LoadOrDie_eq split: if_splits)
  assume t: "t \<noteq> ?t"
  have none: "find (\<lambda>r. (?t, pr_package r) = (t, k)) ?rows = None" for k
    using t by (auto simp: find_None_all)
  show "sort_key pr_package (task_rows d' t) = sort_key pr_package (task_rows d t)"
  proof (rule list_rows_eq [OF k'])
    show "distinct (map pr_package (sort_key pr_package (task_rows d t)))"
      using distinct_task_rows [OF k] by (simp add: distinct_map_sort_key)
    show "r \<in> set (sort_key pr_package (task_rows d t)) \<longleftrightarrow> (\<exists>k. pkg_map d' (t, k) = Some r)" for r
      using m none t by (simp add: set_task_rows [OF k] pm)
  qed simp
qed

lemma runtime_state_valid:
  assumes inv: "store_inv d" and "loadRuntimeStateByTask d t k = Some (st, atts)"
  shows "package_IsValid st"
proof -
  from assms(2) have ne: "task_rows d t \<noteq> []"
    and m: "map_of (map (\<lambda>r. (pr_package r, (pr_state r, pr_attempts r))) (sort_key pr_package (task_rows d t))) k
      = Some (st, atts)"
    by (auto simp: loadRuntimeStateByTask_def ListWorkPackages_eq split: if_splits)
  from map_of_SomeD [OF m] obtain r where "r \<in> set (task_rows d t)" "st = pr_state r" by auto
  with ne inv graph_ok_states [of d t r] show ?thesis by (simp add: store_inv_def)
qed

lemma store_inv_save:
  assumes inv: "store_inv d" and v: "ValidateWorkGraph g0 = Inr h" and s: "Graph_Save now d (Some h) = Inr (g, d')"
  shows "store_inv d'"
proof -
  note ok = validated_graph_ok [OF v]
  have k: "keys_ok d" using inv by (simp add: store_inv_def)
  note r = Graph_Save_rows [OF k _ _ s]
  have "graph_ok (loaded_graph d' t)" if "task_rows d' t \<noteq> []" for t
  proof (cases "t = wg_task h")
    case True
    have "graph_ok h" using ok by blast
    then have ok': "graph_ok \<lparr>wg_task = wg_task h, wg_packages = wg_packages h\<rparr>" by (cases h) simp
    then have nb: "TrimSpace (wg_task h) \<noteq> ''''" by (simp add: graph_ok_def Let_def)
    have st: "package_IsValid (wp_state p)" if "p \<in> set (wg_packages h)" for p
      using graph_ok_static [THEN iffD1, OF ok'] that by simp
    have "graph_ok \<lparr>wg_task = wg_task h, wg_packages = saved_packages d h\<rparr>"
    proof (rule graph_ok_same_static [OF ok' _ nb])
      show "map static_part (saved_packages d h) = map static_part (wg_packages h)"
        by (simp add: saved_packages_def static_part_def [of "_\<lparr>wp_task := _\<rparr>"])
          (simp add: static_part_def [symmetric])
      show "\<forall>q \<in> set (saved_packages d h). TrimSpace (wp_task q) \<noteq> '''' \<and> package_IsValid (wp_state q)"
        using nb st runtime_state_valid [OF inv]
        by (auto simp: saved_packages_def keep_runtime_def split: option.splits)
    qed
    with r(2,3) ok True show ?thesis by simp
  next
    case False
    with r(5) ok have e: "sort_key pr_package (task_rows d' t) = sort_key pr_package (task_rows d t)" by blast
    with that have "task_rows d t \<noteq> []" by (metis sort_Nil)
    with inv e show ?thesis by (simp add: store_inv_def loaded_graph_def)
  qed
  moreover have "keys_ok d'" using r(1) ok by blast
  ultimately show ?thesis by (simp add: store_inv_def)
qed

text \<open>Histories: the operations of the store in any order. A save takes a graph that the validator
  accepted; an operation that fails leaves the database as it was.\<close>

datatype store_op =
    OpSave time work_graph
  | OpTransition time string string string
  | OpAppend time string string attempt

definition keep_on_error :: "work_db \<Rightarrow> (work_error, work_db) result \<Rightarrow> work_db" where
  "keep_on_error d r = (case r of Inl _ \<Rightarrow> d | Inr d' \<Rightarrow> d')"

fun store_apply :: "work_db \<Rightarrow> store_op \<Rightarrow> work_db" where
  "store_apply d (OpSave now g) =
     (case ValidateWorkGraph g of
        Inl _ \<Rightarrow> d
      | Inr h \<Rightarrow> keep_on_error d (map_sum id snd (Graph_Save now d (Some h))))"
| "store_apply d (OpTransition now t k st) = keep_on_error d (TransitionPackage now d t k st)"
| "store_apply d (OpAppend now t k att) = keep_on_error d (AppendAttempt now d t k att)"

lemma store_inv_apply:
  assumes inv: "store_inv d"
  shows "store_inv (store_apply d op)"
proof (cases op)
  case (OpSave now g)
  show ?thesis
  proof (cases "ValidateWorkGraph g")
    case (Inr h)
    then show ?thesis using inv store_inv_save [OF inv Inr]
      by (cases "Graph_Save now d (Some h)") (auto simp: OpSave keep_on_error_def)
  qed (simp add: OpSave inv)
next
  case (OpTransition now t k st)
  then show ?thesis using inv store_inv_transition [OF inv]
    by (cases "TransitionPackage now d t k st") (simp_all add: keep_on_error_def)
next
  case (OpAppend now t k att)
  then show ?thesis using inv store_inv_append [OF inv]
    by (cases "AppendAttempt now d t k att") (simp_all add: keep_on_error_def)
qed

lemma store_inv_history: "store_inv d \<Longrightarrow> store_inv (foldl store_apply d ops)"
  by (induction ops arbitrary: d) (auto simp: store_inv_apply)

lemma store_inv_empty: "store_inv (empty_work_db b)"
  by (simp add: store_inv_def empty_work_db_def keys_ok_def task_rows_def)

section \<open>Properties\<close>

text \<open>C11: the durable graph is always runnable. After any history of saves of validated graphs,
  package transitions and recorded attempts, the graph of every task that has one loads, passes
  the validator again and is well-formed: sorted, complete, acyclic and connected. The error of a
  stored graph that fails validation is never returned.\<close>

theorem stored_graph_revalidates:
  assumes "HasGraph (foldl store_apply (empty_work_db b) ops) t"
  shows "\<exists>h. LoadValidated (foldl store_apply (empty_work_db b) ops) t = Inr h \<and> graph_wf (wg_packages h)"
  using LoadValidated_ok [OF store_inv_history [OF store_inv_empty], of b ops t] assms
  by (auto simp: HasGraph_def ListWorkPackages_eq split: if_splits)

text \<open>A save is read back. Saving a validated graph returns, and a later load returns, its
  packages in order of their ids, each with the task of the graph and with the run-time state and
  the attempts that the store held for its id when the graph brings none of its own; the graphs of
  other tasks are unchanged.\<close>

theorem graph_save_load:
  assumes "store_inv d" "ValidateWorkGraph g = Inr h" "Graph_Save now d (Some h) = Inr (r, d')"
  shows "r = \<lparr>wg_task = wg_task h, wg_packages = map (\<lambda>p.
      (keep_runtime (loadRuntimeStateByTask d (wg_task h)) p)\<lparr>wp_task := wg_task h\<rparr>) (wg_packages h)\<rparr>
    \<and> LoadOrDie d' (wg_task h) = Inr r
    \<and> (\<forall>t. t \<noteq> wg_task h \<longrightarrow> LoadOrDie d' t = LoadOrDie d t)"
proof -
  have k: "keys_ok d" using assms(1) by (simp add: store_inv_def)
  note v = validated_graph_ok [OF assms(2)]
  note s = Graph_Save_rows [OF k _ _ assms(3)]
  have "LoadOrDie d' t = LoadOrDie d t" if "t \<noteq> wg_task h" for t
  proof -
    have e: "sort_key pr_package (task_rows d' t) = sort_key pr_package (task_rows d t)"
      using s(5) v that by blast
    then have "task_rows d' t = [] \<longleftrightarrow> task_rows d t = []" by (metis sort_Nil)
    with e show ?thesis by (simp add: LoadOrDie_eq loaded_graph_def)
  qed
  moreover have "LoadOrDie d' (wg_task h) = Inr r"
  proof -
    have "wg_packages (loaded_graph d' (wg_task h)) \<noteq> []"
      using s(2,3,4) v by (simp add: saved_packages_def)
    then have "task_rows d' (wg_task h) \<noteq> []" by (auto simp: loaded_graph_def)
    with s(3) v show ?thesis by (simp add: LoadOrDie_eq)
  qed
  ultimately show ?thesis using s(2) v by (simp add: saved_packages_def)
qed

definition demo_db :: db where
  "demo_db = empty_db\<lparr>db_tasks := [\<lparr>tk_id = ''t'', tk_project_id = ''P'', tk_title = ''x'',
     tk_description = '''', tk_priority = '''', tk_state = '''', tk_created_at = '''', tk_updated_at = ''''\<rparr>]\<rparr>"

definition demo_save :: store_op where
  "demo_save = OpSave 0 demo_graph"

definition demo_attempt :: attempt where
  "demo_attempt = \<lparr>at_index = 0, at_state = ''failed'', at_started = 0, at_finished = 0,
     at_failure_reason = '''', at_exit_code = 1, at_agent_run = ''''\<rparr>"

lemma demo_has_graph: "HasGraph (foldl store_apply (empty_work_db demo_db) [demo_save]) ''t''"
  by code_simp

theorem stored_graph_revalidates_witness:
  "\<exists>h. LoadValidated (foldl store_apply (empty_work_db demo_db) [demo_save]) ''t'' = Inr h
     \<and> graph_wf (wg_packages h)"
  by (rule stored_graph_revalidates [OF demo_has_graph])

lemma demo_saved: "\<not> isl (Graph_Save 0 (empty_work_db demo_db) (Some demo_valid))"
  unfolding demo_valid_def by code_simp

theorem graph_save_load_witness:
  "\<exists>r d'. Graph_Save 0 (empty_work_db demo_db) (Some demo_valid) = Inr (r, d')
     \<and> LoadOrDie d' (wg_task demo_valid) = Inr r"
proof -
  from demo_saved obtain r d' where s: "Graph_Save 0 (empty_work_db demo_db) (Some demo_valid) = Inr (r, d')"
    by (cases "Graph_Save 0 (empty_work_db demo_db) (Some demo_valid)") auto
  from graph_save_load [OF store_inv_empty demo_valid_eq [folded ValidateWorkGraph_def] s] s
  show ?thesis by blast
qed

text \<open>A pruned package that comes back cannot record attempts. A graph is saved, an attempt of
  one package is recorded, the graph is saved without that package and then with it again. The
  package row starts over with an empty history while the rows of the attempt table remain, so the
  next attempt gets index 0 again and the unique index rejects it.\<close>

theorem pruned_package_rejects_attempts:
  "let d = foldl store_apply (empty_work_db demo_db)
       [demo_save, OpAppend 0 ''t'' ''d'' demo_attempt,
        OpSave 0 (demo_graph\<lparr>wg_packages := tl (wg_packages demo_graph)\<rparr>), demo_save]
   in is_ok (GetPackage d ''t'' ''d'') \<and> AppendAttempt 0 d ''t'' ''d'' demo_attempt = Inl WorkConstraint"
  by code_simp

definition no_created :: "package_row list \<Rightarrow> bool" where
  "no_created rows \<longleftrightarrow> (\<forall>r \<in> set rows. pr_created_at r = '''')"

lemma no_created_update:
  "no_created rows \<Longrightarrow> (\<And>r. P r \<Longrightarrow> pr_created_at r = '''' \<Longrightarrow> pr_created_at (h r) = '''') \<Longrightarrow>
     no_created (update_where P h rows)"
  by (auto simp: no_created_def set_update_where)

lemma replace_rows_created:
  "replace_rows t v rs d = Inr d' \<Longrightarrow> no_created rs \<Longrightarrow> no_created (wd_packages d) \<Longrightarrow>
     no_created (wd_packages d')"
proof (induction rs arbitrary: d)
  case (Cons r rs)
  obtain d1 where d1: "replace_row t v r d = Inr d1" "replace_rows t v rs d1 = Inr d'"
    using Cons.prems(1) by (auto split: sum.splits)
  let ?c = "case find (\<lambda>q. row_key q = (t, pr_package r)) (wd_packages d) of
      Some q \<Rightarrow> pr_created_at q | None \<Rightarrow> pr_created_at r"
  have "?c = ''''"
    using Cons.prems(2,3) by (auto simp: no_created_def split: option.splits dest!: find_Some_mem)
  with d1(1) Cons.prems(3) have "no_created (wd_packages d1)"
    by (auto simp: replace_row_def upsert_package_def Let_def no_created_def set_update_where
        split: if_splits sum.splits)
  from Cons.IH [OF d1(2) _ this] Cons.prems(2) show ?case by (simp add: no_created_def)
qed simp

lemma ReplaceWorkGraph_created:
  "ReplaceWorkGraph d t rs = Inr d' \<Longrightarrow> no_created rs \<Longrightarrow> no_created (wd_packages d) \<Longrightarrow>
     no_created (wd_packages d')"
  using replace_rows_created
    [of t "max_version d t + 1" rs "d\<lparr>wd_dependencies := filter (\<lambda>(u, _, _). u \<noteq> t) (wd_dependencies d)\<rparr>"]
  by (auto simp: ReplaceWorkGraph_def Let_def no_created_def split: if_splits sum.splits)

lemma save_created:
  assumes "Graph_Save now d v = Inr (g, d')" "no_created (wd_packages d)"
  shows "no_created (wd_packages d')"
proof -
  have c: "no_created (map (packageToRow ts \<circ> f) ps)" for ts f ps
    by (simp add: no_created_def packageToRow_def)
  show ?thesis using assms
    by (auto simp: Graph_Save_def Let_def split: option.splits if_splits sum.splits
        dest!: work_audit_Inr ReplaceWorkGraph_created [OF _ c])
qed

lemma apply_created:
  assumes n: "no_created (wd_packages d)"
  shows "no_created (wd_packages (store_apply d op))"
proof (cases op)
  case (OpSave now g)
  show ?thesis
  proof (cases "ValidateWorkGraph g")
    case (Inr h)
    then show ?thesis using n save_created [of now d "Some h"]
      by (cases "Graph_Save now d (Some h)") (auto simp: OpSave keep_on_error_def)
  qed (simp add: OpSave n)
next
  case (OpTransition now t k st)
  with n show ?thesis
    by (auto simp: keep_on_error_def TransitionPackage_def UpdateWorkPackageState_def
        split: sum.splits if_splits dest!: work_audit_Inr intro!: no_created_update)
next
  case (OpAppend now t k att)
  with n show ?thesis
    by (auto simp: keep_on_error_def AppendAttempt_def SetWorkPackageAttempts_def db_AppendAttempt_def
        Let_def split: sum.splits if_splits dest!: work_audit_Inr intro!: no_created_update)
qed

text \<open>The creation time of a package row is never recorded: after every history of saves,
  transitions and attempts the column of every row is empty.\<close>

theorem created_at_never_recorded:
  "pr_created_at ` set (wd_packages (foldl store_apply (empty_work_db b) ops)) \<subseteq> {''''}"
proof -
  have "no_created (wd_packages (foldl store_apply d ops))" if "no_created (wd_packages d)" for d
    using that by (induction ops arbitrary: d) (simp_all add: apply_created)
  from this [of "empty_work_db b"] show ?thesis by (auto simp: empty_work_db_def no_created_def)
qed

end
