(* ===== verification/Leases.thy ===== *)
theory Leases
  imports Storage_Rows
begin

text \<open>
  Path and semantic leases: the \<^verbatim>\<open>leases\<close> table of \<^verbatim>\<open>src/internal/storage/checkpoints.go\<close> and the
  manager of \<^verbatim>\<open>src/internal/workgraph/leases.go\<close>. A timestamp column is \<open>None\<close> for the empty string
  and \<open>Some t\<close> for the RFC3339Nano text of \<open>t\<close>; where SQL compares two columns as text, the model
  compares the two texts. Every SQL statement is one step; \<open>acquire_step\<close> is the acquisition cut
  at its statements, so that several callers can interleave.
\<close>

section \<open>The table\<close>

record lease_row =
  ls_id :: nat
  ls_scope :: string
  ls_scope_id :: string
  ls_kind :: string
  ls_resource :: string
  ls_workspace_id :: string
  ls_state :: string
  ls_created_at :: "time option"
  ls_released_at :: "time option"
  ls_expires_at :: "time option"

text \<open>\<open>lt_seq\<close> is the \<^verbatim>\<open>AUTOINCREMENT\<close> counter of the table.\<close>

record lease_table =
  lt_rows :: "lease_row list"
  lt_seq :: nat

definition empty_leases :: lease_table where
  "empty_leases = \<lparr>lt_rows = [], lt_seq = 0\<rparr>"

definition lease_active :: "lease_row \<Rightarrow> bool" where
  "lease_active r \<longleftrightarrow> ls_state r = ''active''"

text \<open>The columns of the partial unique index over the active rows.\<close>

definition lease_key :: "lease_row \<Rightarrow> string \<times> string \<times> string \<times> string" where
  "lease_key r = (ls_scope r, ls_scope_id r, ls_kind r, ls_resource r)"

datatype lease_error =
    ErrLeaseAlreadyExists
  | ConflictError string string string "time option"
  | InvalidSemantic string

definition createLease :: "lease_table \<Rightarrow> lease_row \<Rightarrow> (lease_error, nat \<times> lease_table) result" where
  "createLease t l =
     (if lease_active l \<and> (\<exists>r \<in> set (lt_rows t). lease_active r \<and> lease_key r = lease_key l)
      then Inl ErrLeaseAlreadyExists
      else Inr (Suc (lt_seq t),
        t\<lparr>lt_rows := lt_rows t @ [l\<lparr>ls_id := Suc (lt_seq t)\<rparr>], lt_seq := Suc (lt_seq t)\<rparr>))"

definition GetActiveLease ::
  "lease_table \<Rightarrow> string \<Rightarrow> string \<Rightarrow> string \<Rightarrow> string \<Rightarrow> lease_row option" where
  "GetActiveLease t scope scopeID kind resource =
     find (\<lambda>r. ls_scope r = scope \<and> ls_scope_id r = scopeID \<and> ls_kind r = kind
       \<and> ls_resource r = resource \<and> ls_state r = ''active'') (lt_rows t)"

definition HasActiveLease ::
  "lease_table \<Rightarrow> time \<Rightarrow> string \<Rightarrow> string \<Rightarrow> string \<Rightarrow> string \<Rightarrow> string \<Rightarrow> bool" where
  "HasActiveLease t now scope scopeID kind resource excludeWorkspaceID \<longleftrightarrow>
     count_where (\<lambda>r. ls_scope r = scope \<and> ls_scope_id r = scopeID \<and> ls_kind r = kind
       \<and> ls_resource r = resource \<and> ls_state r = ''active''
       \<and> ls_workspace_id r \<noteq> excludeWorkspaceID
       \<and> (case ls_expires_at r of None \<Rightarrow> True
          | Some e \<Rightarrow> rfc3339nano e > rfc3339nano now)) (lt_rows t) > 0"

definition ListActiveLeasesByScope :: "lease_table \<Rightarrow> string \<Rightarrow> string \<Rightarrow> lease_row list" where
  "ListActiveLeasesByScope t scope scopeID =
     sort_key ls_id (filter (\<lambda>r. ls_scope r = scope \<and> ls_scope_id r = scopeID
       \<and> ls_state r = ''active'') (lt_rows t))"

definition ListLeasesByWorkspace :: "lease_table \<Rightarrow> string \<Rightarrow> lease_row list" where
  "ListLeasesByWorkspace t workspaceID =
     sort_key ls_id (filter (\<lambda>r. ls_workspace_id r = workspaceID) (lt_rows t))"

definition releaseLeasesByWorkspace :: "lease_table \<Rightarrow> string \<Rightarrow> time \<Rightarrow> nat \<times> lease_table" where
  "releaseLeasesByWorkspace t workspaceID releasedAt =
     (let P = (\<lambda>r. ls_workspace_id r = workspaceID \<and> ls_state r = ''active'')
      in (count_where P (lt_rows t),
          t\<lparr>lt_rows := update_where P
            (\<lambda>r. r\<lparr>ls_state := ''released'', ls_released_at := Some releasedAt\<rparr>) (lt_rows t)\<rparr>))"

definition RenewWorkspaceLeases :: "lease_table \<Rightarrow> string \<Rightarrow> time \<Rightarrow> nat \<times> lease_table" where
  "RenewWorkspaceLeases t workspaceID newExpiresAt =
     (let P = (\<lambda>r. ls_workspace_id r = workspaceID \<and> ls_state r = ''active''
                 \<and> ls_expires_at r \<noteq> None)
      in (count_where P (lt_rows t),
          t\<lparr>lt_rows := update_where P (\<lambda>r. r\<lparr>ls_expires_at := Some newExpiresAt\<rparr>) (lt_rows t)\<rparr>))"

definition sweepable :: "time \<Rightarrow> lease_row \<Rightarrow> bool" where
  "sweepable now r \<longleftrightarrow> ls_state r = ''active''
     \<and> (case ls_expires_at r of None \<Rightarrow> False | Some e \<Rightarrow> rfc3339nano e \<le> rfc3339nano now)"

definition db_ExpireLeases :: "lease_table \<Rightarrow> time \<Rightarrow> nat \<times> lease_table" where
  "db_ExpireLeases t now =
     (count_where (sweepable now) (lt_rows t),
      t\<lparr>lt_rows := update_where (sweepable now)
        (\<lambda>r. r\<lparr>ls_state := ''expired'', ls_released_at := Some now\<rparr>) (lt_rows t)\<rparr>)"

section \<open>The lease manager\<close>

definition AllSemanticResources :: "string list" where
  "AllSemanticResources = [''database_schema'', ''navigation_graph'', ''subscription_contract'',
     ''design_system'', ''build_configuration'']"

definition IsValidSemantic :: "string \<Rightarrow> bool" where
  "IsValidSemantic r \<longleftrightarrow> (\<exists>x \<in> set AllSemanticResources. x = r)"

record lease =
  le_ID :: nat
  le_Scope :: string
  le_ScopeID :: string
  le_Kind :: string
  le_Resource :: string
  le_WorkspaceID :: string
  le_State :: string
  le_CreatedAt :: time
  le_ReleasedAt :: time
  le_ExpiresAt :: time

definition IsExpired :: "lease \<Rightarrow> time \<Rightarrow> bool" where
  "IsExpired l now = (if IsZero (le_ExpiresAt l) then False else \<not> now < le_ExpiresAt l)"

text \<open>\<^verbatim>\<open>time.Parse\<close> of a column; the empty text does not parse and leaves the zero time.\<close>

definition col_time :: "time option \<Rightarrow> time" where
  "col_time c = (case c of None \<Rightarrow> zero_time | Some t \<Rightarrow> t)"

definition leaseFromStorage :: "lease_row \<Rightarrow> lease" where
  "leaseFromStorage r =
     \<lparr>le_ID = ls_id r, le_Scope = ls_scope r, le_ScopeID = ls_scope_id r, le_Kind = ls_kind r,
      le_Resource = ls_resource r, le_WorkspaceID = ls_workspace_id r, le_State = ls_state r,
      le_CreatedAt = col_time (ls_created_at r), le_ReleasedAt = col_time (ls_released_at r),
      le_ExpiresAt = col_time (ls_expires_at r)\<rparr>"

definition conflictFromRow :: "lease_row \<Rightarrow> lease_error" where
  "conflictFromRow held =
     ConflictError (ls_kind held) (ls_resource held) (ls_workspace_id held) (ls_expires_at held)"

definition expiryFromTTL :: "time \<Rightarrow> duration \<Rightarrow> time" where
  "expiryFromTTL now ttl = (if ttl \<le> 0 then zero_time else now + ttl)"

subsection \<open>Acquisition\<close>

record acq_req =
  rq_scope :: string
  rq_scope_id :: string
  rq_kind :: string
  rq_resource :: string
  rq_workspace_id :: string
  rq_expires_at :: time
  rq_now :: time

text \<open>
  The statements of \<^verbatim>\<open>acquire\<close>: the lookup, the inline sweep of an expired row, the insert and,
  when the insert loses, the second lookup. A caller rests before one of them, or is done.
\<close>

datatype acq_pc =
    AcqLookup
  | AcqSweep
  | AcqInsert
  | AcqReread
  | AcqDone "(lease_error, lease) result"

definition req_row :: "acq_req \<Rightarrow> lease_row" where
  "req_row q =
     \<lparr>ls_id = 0, ls_scope = rq_scope q, ls_scope_id = rq_scope_id q, ls_kind = rq_kind q,
      ls_resource = rq_resource q, ls_workspace_id = rq_workspace_id q, ls_state = ''active'',
      ls_created_at = Some (rq_now q), ls_released_at = None,
      ls_expires_at = (if IsZero (rq_expires_at q) then None else Some (rq_expires_at q))\<rparr>"

definition req_lease :: "acq_req \<Rightarrow> nat \<Rightarrow> lease" where
  "req_lease q i =
     \<lparr>le_ID = i, le_Scope = rq_scope q, le_ScopeID = rq_scope_id q, le_Kind = rq_kind q,
      le_Resource = rq_resource q, le_WorkspaceID = rq_workspace_id q, le_State = ''active'',
      le_CreatedAt = rq_now q, le_ReleasedAt = zero_time, le_ExpiresAt = rq_expires_at q\<rparr>"

definition req_lookup :: "acq_req \<Rightarrow> lease_table \<Rightarrow> lease_row option" where
  "req_lookup q t = GetActiveLease t (rq_scope q) (rq_scope_id q) (rq_kind q) (rq_resource q)"

definition held_result :: "acq_req \<Rightarrow> lease_row \<Rightarrow> (lease_error, lease) result" where
  "held_result q existing =
     (if ls_workspace_id existing = rq_workspace_id q then Inr (leaseFromStorage existing)
      else Inl (conflictFromRow existing))"

definition acquire_lookup :: "acq_req \<Rightarrow> lease_table \<Rightarrow> acq_pc" where
  "acquire_lookup q t =
     (case req_lookup q t of
        None \<Rightarrow> AcqInsert
      | Some existing \<Rightarrow>
          let expires = col_time (ls_expires_at existing)
          in if IsZero expires \<or> rq_now q < expires then AcqDone (held_result q existing)
             else AcqSweep)"

definition acquire_insert :: "acq_req \<Rightarrow> lease_table \<Rightarrow> lease_table \<times> acq_pc" where
  "acquire_insert q t =
     (case createLease t (req_row q) of
        Inl _ \<Rightarrow> (t, AcqReread)
      | Inr (i, t') \<Rightarrow> (t', AcqDone (Inr (req_lease q i))))"

definition acquire_reread :: "acq_req \<Rightarrow> lease_table \<Rightarrow> (lease_error, lease) result" where
  "acquire_reread q t =
     (case req_lookup q t of
        Some existing \<Rightarrow> held_result q existing
      | None \<Rightarrow> Inl (ConflictError (rq_kind q) (rq_resource q) '''' None))"

fun acquire_step :: "acq_req \<Rightarrow> lease_table \<Rightarrow> acq_pc \<Rightarrow> lease_table \<times> acq_pc" where
  "acquire_step q t AcqLookup = (t, acquire_lookup q t)"
| "acquire_step q t AcqSweep = (snd (db_ExpireLeases t (rq_now q)), AcqInsert)"
| "acquire_step q t AcqInsert = acquire_insert q t"
| "acquire_step q t AcqReread = (t, AcqDone (acquire_reread q t))"
| "acquire_step q t (AcqDone r) = (t, AcqDone r)"

text \<open>\<^verbatim>\<open>acquire\<close> when no other caller runs between its statements.\<close>

definition acquire_cold :: "acq_req \<Rightarrow> lease_table \<Rightarrow> (lease_error, lease) result \<times> lease_table" where
  "acquire_cold q t =
     (case createLease t (req_row q) of
        Inl _ \<Rightarrow> (acquire_reread q t, t)
      | Inr (i, t') \<Rightarrow> (Inr (req_lease q i), t'))"

definition acquire :: "acq_req \<Rightarrow> lease_table \<Rightarrow> (lease_error, lease) result \<times> lease_table" where
  "acquire q t =
     (case acquire_lookup q t of
        AcqDone r \<Rightarrow> (r, t)
      | AcqSweep \<Rightarrow> acquire_cold q (snd (db_ExpireLeases t (rq_now q)))
      | _ \<Rightarrow> acquire_cold q t)"

definition project_req ::
  "string \<Rightarrow> string \<Rightarrow> string \<Rightarrow> string \<Rightarrow> time \<Rightarrow> time \<Rightarrow> acq_req" where
  "project_req projectID kind resource workspaceID expires now =
     \<lparr>rq_scope = ''project'', rq_scope_id = projectID, rq_kind = kind, rq_resource = resource,
      rq_workspace_id = workspaceID, rq_expires_at = expires, rq_now = now\<rparr>"

definition AcquirePath ::
  "time \<Rightarrow> lease_table \<Rightarrow> string \<Rightarrow> string \<Rightarrow> string \<Rightarrow> (lease_error, lease) result \<times> lease_table" where
  "AcquirePath now t projectID workspaceID path =
     acquire (project_req projectID ''path'' path workspaceID zero_time now) t"

definition AcquirePathTTL ::
  "time \<Rightarrow> lease_table \<Rightarrow> string \<Rightarrow> string \<Rightarrow> string \<Rightarrow> duration
     \<Rightarrow> (lease_error, lease) result \<times> lease_table" where
  "AcquirePathTTL now t projectID workspaceID path ttl =
     acquire (project_req projectID ''path'' path workspaceID (expiryFromTTL now ttl) now) t"

definition AcquireSemantic ::
  "time \<Rightarrow> lease_table \<Rightarrow> string \<Rightarrow> string \<Rightarrow> string \<Rightarrow> (lease_error, lease) result \<times> lease_table" where
  "AcquireSemantic now t projectID workspaceID res =
     (if \<not> IsValidSemantic res then (Inl (InvalidSemantic res), t)
      else acquire (project_req projectID ''semantic'' res workspaceID zero_time now) t)"

definition AcquireSemanticTTL ::
  "time \<Rightarrow> lease_table \<Rightarrow> string \<Rightarrow> string \<Rightarrow> string \<Rightarrow> duration
     \<Rightarrow> (lease_error, lease) result \<times> lease_table" where
  "AcquireSemanticTTL now t projectID workspaceID res ttl =
     (if \<not> IsValidSemantic res then (Inl (InvalidSemantic res), t)
      else acquire (project_req projectID ''semantic'' res workspaceID (expiryFromTTL now ttl) now) t)"

subsection \<open>Release, renewal, expiry and listing\<close>

definition ReleaseAll :: "time \<Rightarrow> lease_table \<Rightarrow> string \<Rightarrow> nat \<times> lease_table" where
  "ReleaseAll now t workspaceID = releaseLeasesByWorkspace t workspaceID now"

definition RenewAll :: "time \<Rightarrow> lease_table \<Rightarrow> string \<Rightarrow> duration \<Rightarrow> nat \<times> lease_table" where
  "RenewAll now t workspaceID ttl = RenewWorkspaceLeases t workspaceID (now + ttl)"

definition ExpireLeases :: "time \<Rightarrow> lease_table \<Rightarrow> nat \<times> lease_table" where
  "ExpireLeases now t = db_ExpireLeases t now"

definition leasesFromStorage :: "lease_row list \<Rightarrow> lease list" where
  "leasesFromStorage rows = map leaseFromStorage rows"

definition ListActiveByProject :: "time \<Rightarrow> lease_table \<Rightarrow> string \<Rightarrow> lease list" where
  "ListActiveByProject now t projectID =
     filter (\<lambda>l. \<not> IsExpired l now)
       (leasesFromStorage (ListActiveLeasesByScope t ''project'' projectID))"

definition ListByWorkspace :: "lease_table \<Rightarrow> string \<Rightarrow> lease list" where
  "ListByWorkspace t workspaceID = leasesFromStorage (ListLeasesByWorkspace t workspaceID)"

section \<open>The unique index\<close>

definition lease_inv :: "lease_table \<Rightarrow> bool" where
  "lease_inv t \<longleftrightarrow>
     unique_where lease_active lease_key (lt_rows t)
     \<and> distinct (map ls_id (lt_rows t))
     \<and> (\<forall>r \<in> set (lt_rows t). ls_id r \<le> lt_seq t)"

lemma lease_inv_empty [simp]: "lease_inv empty_leases"
  by (simp add: lease_inv_def empty_leases_def)

text \<open>An update that activates no row and keeps keys and ids keeps the invariant.\<close>

lemma lease_inv_update:
  assumes inv: "lease_inv t"
    and f: "\<And>r. lease_key (f r) = lease_key r" "\<And>r. ls_id (f r) = ls_id r"
      "\<And>r. P r \<Longrightarrow> lease_active (f r) \<Longrightarrow> lease_active r"
  shows "lease_inv (t\<lparr>lt_rows := update_where P f (lt_rows t)\<rparr>)"
proof -
  have "unique_where lease_active lease_key (update_where P f (lt_rows t))"
    using inv by (intro unique_where_update) (auto simp: lease_inv_def f)
  moreover have "map ls_id (update_where P f (lt_rows t)) = map ls_id (lt_rows t)"
    by (rule map_update_where) (rule f)
  moreover have "\<forall>r \<in> set (update_where P f (lt_rows t)). ls_id r \<le> lt_seq t"
    using inv by (auto simp: set_update_where lease_inv_def f)
  ultimately show ?thesis using inv by (simp add: lease_inv_def)
qed

lemma lease_inv_release: "lease_inv t \<Longrightarrow> lease_inv (snd (releaseLeasesByWorkspace t w now))"
  unfolding releaseLeasesByWorkspace_def Let_def snd_conv
  by (rule lease_inv_update) (auto simp: lease_key_def lease_active_def)

lemma lease_inv_renew: "lease_inv t \<Longrightarrow> lease_inv (snd (RenewWorkspaceLeases t w now))"
  unfolding RenewWorkspaceLeases_def Let_def snd_conv
  by (rule lease_inv_update) (auto simp: lease_key_def lease_active_def)

lemma lease_inv_expire: "lease_inv t \<Longrightarrow> lease_inv (snd (db_ExpireLeases t now))"
  unfolding db_ExpireLeases_def snd_conv
  by (rule lease_inv_update) (auto simp: lease_key_def lease_active_def)

lemma lease_key_id [simp]: "lease_key (r\<lparr>ls_id := i\<rparr>) = lease_key r"
  "lease_active (r\<lparr>ls_id := i\<rparr>) = lease_active r"
  by (simp_all add: lease_key_def lease_active_def)

lemma createLease_Inr:
  "createLease t l = Inr (i, t') \<Longrightarrow> i = Suc (lt_seq t)
     \<and> t' = t\<lparr>lt_rows := lt_rows t @ [l\<lparr>ls_id := i\<rparr>], lt_seq := i\<rparr>
     \<and> (lease_active l \<longrightarrow> (\<forall>r \<in> set (lt_rows t). lease_active r \<longrightarrow> lease_key r \<noteq> lease_key l))"
  by (auto simp: createLease_def split: if_splits)

lemma lease_inv_create:
  assumes inv: "lease_inv t" and c: "createLease t l = Inr (i, t')"
  shows "lease_inv t'"
proof -
  note t' = createLease_Inr [OF c]
  have "unique_where lease_active lease_key (lt_rows t')"
    using inv t' by (simp add: lease_inv_def unique_where_append1)
  moreover have "\<forall>r \<in> set (lt_rows t). ls_id r \<noteq> i" using inv t' by (auto simp: lease_inv_def)
  then have "distinct (map ls_id (lt_rows t'))" using inv t' by (auto simp: lease_inv_def)
  moreover have "\<forall>r \<in> set (lt_rows t'). ls_id r \<le> lt_seq t'"
    using inv t' by (auto simp: lease_inv_def intro: le_SucI)
  ultimately show ?thesis by (simp add: lease_inv_def)
qed

lemmas lease_inv_ops = lease_inv_release lease_inv_renew lease_inv_expire lease_inv_create


text \<open>What every statement keeps of a row: its id, its resource and its workspace.\<close>

definition row_tag :: "lease_row \<Rightarrow> nat \<times> (string \<times> string \<times> string \<times> string) \<times> string" where
  "row_tag r = (ls_id r, lease_key r, ls_workspace_id r)"

definition lease_tags :: "lease_table \<Rightarrow> (nat \<times> (string \<times> string \<times> string \<times> string) \<times> string) set" where
  "lease_tags t = row_tag ` set (lt_rows t)"

lemma lease_tags_update:
  "(\<And>r. row_tag (f r) = row_tag r) \<Longrightarrow>
     lease_tags (t\<lparr>lt_rows := update_where P f (lt_rows t)\<rparr>) = lease_tags t"
  by (simp add: lease_tags_def image_update_where)

lemma lease_tags_ops [simp]:
  "lease_tags (snd (releaseLeasesByWorkspace t w now)) = lease_tags t"
  "lease_tags (snd (RenewWorkspaceLeases t w now)) = lease_tags t"
  "lease_tags (snd (db_ExpireLeases t now)) = lease_tags t"
  unfolding releaseLeasesByWorkspace_def RenewWorkspaceLeases_def db_ExpireLeases_def Let_def snd_conv
  by (rule lease_tags_update, simp add: row_tag_def lease_key_def)+

lemma lease_tags_create:
  "createLease t l = Inr (i, t') \<Longrightarrow>
     lease_tags t' = insert (i, lease_key l, ls_workspace_id l) (lease_tags t)"
  by (auto simp: lease_tags_def row_tag_def dest!: createLease_Inr)

section \<open>Interleaved callers\<close>

text \<open>
  A world is the table and the callers that are inside \<^verbatim>\<open>acquire\<close> or have returned from it.
  Callers, releases, renewals and sweeps of any workspace interleave at every statement.
\<close>

record lease_world =
  lw_table :: lease_table
  lw_callers :: "(acq_req \<times> acq_pc) list"

definition start_world :: lease_world where
  "start_world = \<lparr>lw_table = empty_leases, lw_callers = []\<rparr>"

inductive lease_step :: "lease_world \<Rightarrow> lease_world \<Rightarrow> bool" where
  call: "lease_step w (w\<lparr>lw_callers := lw_callers w @ [(q, AcqLookup)]\<rparr>)"
| run: "i < length (lw_callers w) \<Longrightarrow> lw_callers w ! i = (q, pc) \<Longrightarrow>
    acquire_step q (lw_table w) pc = (t, pc') \<Longrightarrow>
    lease_step w \<lparr>lw_table = t, lw_callers = (lw_callers w)[i := (q, pc')]\<rparr>"
| release: "lease_step w (w\<lparr>lw_table := snd (ReleaseAll now (lw_table w) ws)\<rparr>)"
| renew: "lease_step w (w\<lparr>lw_table := snd (RenewAll now (lw_table w) ws ttl)\<rparr>)"
| sweep: "lease_step w (w\<lparr>lw_table := snd (ExpireLeases now (lw_table w))\<rparr>)"

inductive_cases lease_stepE: "lease_step w w'"

definition req_key :: "acq_req \<Rightarrow> string \<times> string \<times> string \<times> string" where
  "req_key q = (rq_scope q, rq_scope_id q, rq_kind q, rq_resource q)"

text \<open>A caller that was given a lease: the row with its id has its resource and its workspace.\<close>

definition caller_ok :: "lease_table \<Rightarrow> acq_req \<times> acq_pc \<Rightarrow> bool" where
  "caller_ok t c = (case c of
     (q, AcqDone (Inr l)) \<Rightarrow> (le_ID l, req_key q, rq_workspace_id q) \<in> lease_tags t
   | _ \<Rightarrow> True)"

definition world_ok :: "lease_world \<Rightarrow> bool" where
  "world_ok w \<longleftrightarrow> lease_inv (lw_table w) \<and> (\<forall>c \<in> set (lw_callers w). caller_ok (lw_table w) c)"

lemma caller_ok_mono: "caller_ok t c \<Longrightarrow> lease_tags t \<subseteq> lease_tags t' \<Longrightarrow> caller_ok t' c"
  by (auto simp: caller_ok_def split: prod.splits acq_pc.splits sum.splits)

lemma req_lookup_tag:
  assumes "req_lookup q t = Some r"
  shows "row_tag r \<in> lease_tags t" "lease_key r = req_key q" "lease_active r" "r \<in> set (lt_rows t)"
  using find_Some_mem [OF assms [unfolded req_lookup_def GetActiveLease_def]]
  by (auto simp: lease_tags_def lease_key_def req_key_def lease_active_def)

lemma held_result_ok:
  "req_lookup q t = Some r \<Longrightarrow> caller_ok t (q, AcqDone (held_result q r))"
  using req_lookup_tag [of q t r]
  by (auto simp: caller_ok_def held_result_def row_tag_def leaseFromStorage_def split: sum.splits)

lemma req_row_simps [simp]:
  "lease_key (req_row q) = req_key q" "lease_active (req_row q)"
  "ls_workspace_id (req_row q) = rq_workspace_id q"
  by (simp_all add: req_row_def lease_key_def req_key_def lease_active_def)

lemma acquire_step_ok:
  assumes inv: "lease_inv t" and ok: "caller_ok t (q, pc)" and s: "acquire_step q t pc = (t', pc')"
  shows "lease_inv t' \<and> lease_tags t \<subseteq> lease_tags t' \<and> caller_ok t' (q, pc')"
proof (cases pc)
  case AcqLookup
  with s inv show ?thesis
    by (auto simp: acquire_lookup_def caller_ok_def [where c = "(q, AcqInsert)"]
        caller_ok_def [where c = "(q, AcqSweep)"] held_result_ok Let_def split: option.splits)
next
  case AcqSweep
  with s inv show ?thesis by (auto simp: caller_ok_def lease_inv_expire)
next
  case AcqInsert
  show ?thesis
  proof (cases "createLease t (req_row q)")
    case (Inl e)
    with s AcqInsert inv show ?thesis by (simp add: acquire_insert_def caller_ok_def)
  next
    case (Inr p)
    then obtain i t1 where c: "createLease t (req_row q) = Inr (i, t1)" by (cases p) simp
    with s AcqInsert have "t' = t1" "pc' = AcqDone (Inr (req_lease q i))"
      by (simp_all add: acquire_insert_def)
    with lease_inv_create [OF inv c] lease_tags_create [OF c] show ?thesis
      by (auto simp: caller_ok_def req_lease_def)
  qed
next
  case AcqReread
  with s inv show ?thesis
    by (cases "req_lookup q t") (auto simp: acquire_reread_def held_result_ok, simp add: caller_ok_def)
next
  case (AcqDone r)
  with s inv ok show ?thesis by simp
qed

lemma world_ok_table:
  "world_ok w \<Longrightarrow> lease_inv t \<Longrightarrow> lease_tags (lw_table w) \<subseteq> lease_tags t \<Longrightarrow> world_ok (w\<lparr>lw_table := t\<rparr>)"
  by (auto simp: world_ok_def intro: caller_ok_mono)

lemma world_ok_inv: "world_ok w \<Longrightarrow> lease_inv (lw_table w)"
  by (simp add: world_ok_def)

lemma world_ok_step: "lease_step w w' \<Longrightarrow> world_ok w \<Longrightarrow> world_ok w'"
proof (induction rule: lease_step.induct)
  case (call w q)
  then show ?case by (auto simp: world_ok_def caller_ok_def)
next
  case (run i w q pc t pc')
  have "(q, pc) \<in> set (lw_callers w)" using run.hyps by (metis nth_mem)
  with run have "lease_inv t \<and> lease_tags (lw_table w) \<subseteq> lease_tags t \<and> caller_ok t (q, pc')"
    by (intro acquire_step_ok) (auto simp: world_ok_def)
  with run.prems show ?case
    by (auto simp: world_ok_def dest!: subsetD [OF set_update_subset_insert] intro: caller_ok_mono)
qed (auto intro!: world_ok_table
    simp: ReleaseAll_def RenewAll_def ExpireLeases_def world_ok_inv lease_inv_ops)

lemma world_ok_reachable: "lease_step\<^sup>*\<^sup>* start_world w \<Longrightarrow> world_ok w"
  by (induction rule: rtranclp_induct) (auto simp: world_ok_step, simp add: world_ok_def start_world_def)

lemma tag_row:
  assumes "lease_inv t" "(i, k, ws) \<in> lease_tags t" "r \<in> set (lt_rows t)" "ls_id r = i"
  shows "lease_key r = k \<and> ls_workspace_id r = ws"
proof -
  obtain r' where r': "r' \<in> set (lt_rows t)" "row_tag r' = (i, k, ws)"
    using assms(2) by (auto simp: lease_tags_def)
  with assms have "ls_id r' = ls_id r" by (simp add: row_tag_def)
  moreover have "inj_on ls_id (set (lt_rows t))" using assms(1) by (simp add: lease_inv_def distinct_map)
  ultimately have "r' = r" using r'(1) assms(3) by (auto dest: inj_onD)
  with r'(2) show ?thesis by (simp add: row_tag_def)
qed

section \<open>Expiry\<close>

text \<open>
  The instants that SQL orders correctly against \<open>now\<close>: no expiry, or an expiry with a four-digit
  year in another second than \<open>now\<close>.
\<close>

definition clear_expiry :: "time \<Rightarrow> lease_row \<Rightarrow> bool" where
  "clear_expiry now r = (case ls_expires_at r of None \<Rightarrow> True
     | Some e \<Rightarrow> in_range e \<and> e \<noteq> 0 \<and> e div 1000000000 \<noteq> now div 1000000000)"

lemma rfc3339nano_le_other_second:
  assumes "in_range e" "in_range now" "e div 1000000000 \<noteq> now div 1000000000"
  shows "rfc3339nano e \<le> rfc3339nano now \<longleftrightarrow> e < now"
proof (cases "e div 1000000000 < now div 1000000000")
  case True
  moreover from True have "e < now" by (metis linorder_not_less zdiv_mono1 zero_less_numeral)
  ultimately show ?thesis using rfc3339nano_later_second [OF assms(1,2)] by auto
next
  case False
  with assms(3) have lt: "now div 1000000000 < e div 1000000000" by simp
  then have "now < e" by (metis linorder_not_less zdiv_mono1 zero_less_numeral)
  then show ?thesis using rfc3339nano_later_second [OF assms(2,1) lt] by auto
qed

lemma sweepable_agrees:
  assumes "in_range now" "clear_expiry now r"
  shows "sweepable now r \<longleftrightarrow> lease_active r \<and> IsExpired (leaseFromStorage r) now"
  using assms rfc3339nano_le_other_second [of _ now]
  by (auto simp: clear_expiry_def sweepable_def lease_active_def IsExpired_def leaseFromStorage_def
      col_time_def split: option.splits)

lemma lookup_expired_agrees:
  assumes "in_range now" "clear_expiry now r"
  shows "(let e = col_time (ls_expires_at r) in IsZero e \<or> now < e) \<longleftrightarrow>
    \<not> IsExpired (leaseFromStorage r) now"
  by (auto simp: IsExpired_def leaseFromStorage_def Let_def)

lemma filter_update_gone:
  assumes "\<And>r. r \<in> set rows \<Longrightarrow> P r \<Longrightarrow> \<not> Q r \<and> \<not> Q (f r)"
  shows "filter Q (update_where P f rows) = filter Q rows"
  using assms by (induction rows) auto

text \<open>The listing of a project filters expired rows before or after the sort alike.\<close>

lemma ListActiveByProject_alt:
  "ListActiveByProject now t p = map leaseFromStorage (sort_key ls_id
     (filter (\<lambda>r. ls_scope r = ''project'' \<and> ls_scope_id r = p \<and> lease_active r
        \<and> \<not> IsExpired (leaseFromStorage r) now) (lt_rows t)))"
  by (simp add: ListActiveByProject_def leasesFromStorage_def ListActiveLeasesByScope_def
      lease_active_def filter_map comp_def filter_sort [symmetric] conj_commute conj_left_commute)

section \<open>Acquisition alone\<close>

definition req_clear :: "acq_req \<Rightarrow> lease_table \<Rightarrow> bool" where
  "req_clear q t \<longleftrightarrow> in_range (rq_now q)
     \<and> (\<forall>r \<in> set (lt_rows t). lease_active r \<longrightarrow> lease_key r = req_key q \<longrightarrow> clear_expiry (rq_now q) r)"

lemma req_lookup_eq: "req_lookup q t = find (\<lambda>r. lease_active r \<and> lease_key r = req_key q) (lt_rows t)"
proof -
  have "(\<lambda>r. ls_scope r = rq_scope q \<and> ls_scope_id r = rq_scope_id q \<and> ls_kind r = rq_kind q
      \<and> ls_resource r = rq_resource q \<and> ls_state r = ''active'')
    = (\<lambda>r. lease_active r \<and> lease_key r = req_key q)"
    by (auto simp: lease_active_def lease_key_def req_key_def)
  then show ?thesis by (simp add: req_lookup_def GetActiveLease_def)
qed

lemma req_lookup_Some_iff:
  assumes "lease_inv t"
  shows "req_lookup q t = Some r \<longleftrightarrow> r \<in> set (lt_rows t) \<and> lease_active r \<and> lease_key r = req_key q"
proof
  assume "r \<in> set (lt_rows t) \<and> lease_active r \<and> lease_key r = req_key q"
  moreover from this have "y = r" if "y \<in> set (lt_rows t)" "lease_active y \<and> lease_key y = req_key q" for y
    using that assms unique_whereD [of lease_active lease_key "lt_rows t" y r]
    by (simp add: lease_inv_def)
  ultimately show "req_lookup q t = Some r" unfolding req_lookup_eq by (intro find_unique) auto
qed (use req_lookup_tag in auto)

lemma req_lookup_None_iff:
  "req_lookup q t = None \<longleftrightarrow> (\<forall>r \<in> set (lt_rows t). lease_active r \<longrightarrow> lease_key r \<noteq> req_key q)"
  by (auto simp: req_lookup_eq find_None_all)

lemma acquire_cold_free:
  assumes "req_lookup q t = None"
  shows "acquire_cold q t = (Inr (req_lease q (Suc (lt_seq t))),
    t\<lparr>lt_rows := lt_rows t @ [(req_row q)\<lparr>ls_id := Suc (lt_seq t)\<rparr>], lt_seq := Suc (lt_seq t)\<rparr>)"
  using assms by (auto simp: acquire_cold_def createLease_def req_lookup_None_iff)

lemma lookup_after_sweep:
  assumes inv: "lease_inv t" and cl: "req_clear q t" and r: "req_lookup q t = Some r"
    and e: "IsExpired (leaseFromStorage r) (rq_now q)"
  shows "req_lookup q (snd (db_ExpireLeases t (rq_now q))) = None"
proof -
  have r': "r \<in> set (lt_rows t)" "lease_active r" "lease_key r = req_key q"
    using r by (simp_all add: req_lookup_Some_iff [OF inv])
  have sw: "sweepable (rq_now q) r"
    using cl r' e by (subst sweepable_agrees) (auto simp: req_clear_def)
  show ?thesis unfolding req_lookup_None_iff
  proof (intro ballI impI notI)
    fix s assume s: "s \<in> set (lt_rows (snd (db_ExpireLeases t (rq_now q))))" "lease_active s"
      "lease_key s = req_key q"
    then have "s \<in> set (lt_rows t)" "\<not> sweepable (rq_now q) s"
      by (auto simp: db_ExpireLeases_def set_update_where lease_active_def split: if_splits)
    moreover from this s r' inv have "s = r"
      using unique_whereD [of lease_active lease_key "lt_rows t" s r] by (simp add: lease_inv_def)
    ultimately show False using sw by simp
  qed
qed

text \<open>The four outcomes of an acquisition.\<close>

lemma acquire_cases:
  assumes "lease_inv t" "req_clear q t"
  shows "acquire q t = (case req_lookup q t of
      None \<Rightarrow> acquire_cold q t
    | Some r \<Rightarrow> if IsExpired (leaseFromStorage r) (rq_now q)
        then acquire_cold q (snd (db_ExpireLeases t (rq_now q)))
        else (held_result q r, t))"
proof (cases "req_lookup q t")
  case (Some r)
  then have "r \<in> set (lt_rows t)" "lease_active r" "lease_key r = req_key q"
    using req_lookup_tag by auto
  then have "clear_expiry (rq_now q) r" "in_range (rq_now q)" using assms(2) by (auto simp: req_clear_def)
  note lookup_expired_agrees [OF this(2,1)]
  then show ?thesis using Some by (simp add: acquire_def acquire_lookup_def Let_def)
qed (simp add: acquire_def acquire_lookup_def)

lemma acquire_expired_granted:
  assumes "lease_inv t" "req_clear q t" "req_lookup q t = Some r"
    "IsExpired (leaseFromStorage r) (rq_now q)"
  shows "fst (acquire q t) = Inr (req_lease q (Suc (lt_seq t)))"
  using assms acquire_cold_free [OF lookup_after_sweep [OF assms]]
  by (simp add: acquire_cases db_ExpireLeases_def)

section \<open>Properties\<close>

text \<open>C4: mutual exclusion under every interleaving. Take any number of acquisitions, cut at each
  SQL statement and interleaved with each other and with releases, renewals and sweeps of any
  workspace. If two callers were granted a lease on the same resource of the same scope and both
  rows are still active, then both callers act for the same workspace and hold the same row.\<close>

theorem lease_exclusion:
  assumes "lease_step\<^sup>*\<^sup>* start_world w"
    and "(p, AcqDone (Inr l)) \<in> set (lw_callers w)" "(q, AcqDone (Inr m)) \<in> set (lw_callers w)"
    and "req_key p = req_key q"
    and "r \<in> set (lt_rows (lw_table w))" "ls_id r = le_ID l" "lease_active r"
    and "s \<in> set (lt_rows (lw_table w))" "ls_id s = le_ID m" "lease_active s"
  shows "rq_workspace_id p = rq_workspace_id q \<and> r = s"
proof -
  have ok: "world_ok w" by (rule world_ok_reachable [OF assms(1)])
  then have inv: "lease_inv (lw_table w)" by (rule world_ok_inv)
  have "(le_ID l, req_key p, rq_workspace_id p) \<in> lease_tags (lw_table w)"
    "(le_ID m, req_key q, rq_workspace_id q) \<in> lease_tags (lw_table w)"
    using ok assms(2,3) by (force simp: world_ok_def caller_ok_def)+
  with tag_row [OF inv] assms have "lease_key r = req_key p" "ls_workspace_id r = rq_workspace_id p"
    "lease_key s = req_key q" "ls_workspace_id s = rq_workspace_id q" by blast+
  moreover from this inv assms have "r = s"
    using unique_whereD [of lease_active lease_key "lt_rows (lw_table w)" r s]
    by (simp add: lease_inv_def)
  ultimately show ?thesis by simp
qed

definition demo_req :: "string \<Rightarrow> time \<Rightarrow> time \<Rightarrow> acq_req" where
  "demo_req ws expires now = project_req ''P'' ''path'' ''main.go'' ws expires now"

definition demo_row :: "acq_req \<Rightarrow> lease_row" where
  "demo_row q = (req_row q)\<lparr>ls_id := 1\<rparr>"

definition demo_table :: "acq_req \<Rightarrow> lease_table" where
  "demo_table q = \<lparr>lt_rows = [demo_row q], lt_seq = 1\<rparr>"

text \<open>Two acquisitions of one workspace race: both look up, both insert, the second one loses and
  is given the row of the first.\<close>

definition race_world :: "acq_pc \<Rightarrow> acq_pc \<Rightarrow> lease_table \<Rightarrow> lease_world" where
  "race_world a b t =
     \<lparr>lw_table = t, lw_callers = [(demo_req ''A'' 0 5, a), (demo_req ''A'' 0 6, b)]\<rparr>"

lemma race_run:
  assumes "acquire_step (demo_req ''A'' 0 5) t a = (t', a')"
  shows "lease_step (race_world a b t) (race_world a' b t')"
  using lease_step.run [of 0 "race_world a b t" _ _ t' a'] assms by (simp add: race_world_def)

lemma race_run2:
  assumes "acquire_step (demo_req ''A'' 0 6) t b = (t', b')"
  shows "lease_step (race_world a b t) (race_world a b' t')"
  using lease_step.run [of 1 "race_world a b t" _ _ t' b'] assms by (simp add: race_world_def)

lemma race_start: "lease_step\<^sup>*\<^sup>* start_world (race_world AcqLookup AcqLookup empty_leases)"
proof -
  have "lease_step start_world \<lparr>lw_table = empty_leases, lw_callers = [(demo_req ''A'' 0 5, AcqLookup)]\<rparr>"
    using lease_step.call [of start_world] by (simp add: start_world_def)
  moreover have "lease_step \<lparr>lw_table = empty_leases, lw_callers = [(demo_req ''A'' 0 5, AcqLookup)]\<rparr>
    (race_world AcqLookup AcqLookup empty_leases)"
    using lease_step.call [of "\<lparr>lw_table = empty_leases, lw_callers = [(demo_req ''A'' 0 5, AcqLookup)]\<rparr>"]
    by (simp add: race_world_def)
  ultimately show ?thesis by (meson converse_rtranclp_into_rtranclp r_into_rtranclp)
qed

lemmas demo_defs = demo_req_def demo_row_def demo_table_def project_req_def req_row_def empty_leases_def
  lease_key_def lease_active_def

definition race_result :: "(lease_error, lease) result" where
  "race_result = Inr (leaseFromStorage (demo_row (demo_req ''A'' 0 5)))"

lemma race_end:
  "lease_step\<^sup>*\<^sup>* start_world
     (race_world (AcqDone race_result) (AcqDone race_result) (demo_table (demo_req ''A'' 0 5)))"
proof -
  let ?t = "demo_table (demo_req ''A'' 0 5)"
  note d = demo_defs req_lookup_def GetActiveLease_def
  have "lease_step (race_world AcqLookup AcqLookup empty_leases) (race_world AcqInsert AcqLookup empty_leases)"
    by (rule race_run) (simp add: acquire_lookup_def d)
  moreover have "lease_step (race_world AcqInsert AcqLookup empty_leases) (race_world AcqInsert AcqInsert empty_leases)"
    by (rule race_run2) (simp add: acquire_lookup_def d)
  moreover have "lease_step (race_world AcqInsert AcqInsert empty_leases)
    (race_world (AcqDone race_result) AcqInsert ?t)"
    by (rule race_run) (simp add: acquire_insert_def createLease_def race_result_def req_lease_def
        leaseFromStorage_def col_time_def d)
  moreover have "lease_step (race_world (AcqDone race_result) AcqInsert ?t)
    (race_world (AcqDone race_result) AcqReread ?t)"
    by (rule race_run2) (simp add: acquire_insert_def createLease_def d)
  moreover have "lease_step (race_world (AcqDone race_result) AcqReread ?t)
    (race_world (AcqDone race_result) (AcqDone race_result) ?t)"
    by (rule race_run2) (simp add: acquire_reread_def held_result_def race_result_def d)
  ultimately show ?thesis using race_start by (meson rtranclp.rtrancl_into_rtrancl)
qed

theorem lease_exclusion_witness:
  "rq_workspace_id (demo_req ''A'' 0 5) = rq_workspace_id (demo_req ''A'' 0 6)
     \<and> demo_row (demo_req ''A'' 0 5) = demo_row (demo_req ''A'' 0 5)"
  by (rule lease_exclusion [OF race_end, of _ "leaseFromStorage (demo_row (demo_req ''A'' 0 5))" _
        "leaseFromStorage (demo_row (demo_req ''A'' 0 5))"])
    (simp_all add: race_world_def race_result_def leaseFromStorage_def req_key_def demo_defs)

text \<open>Who is granted a lease. When the expiry of the row in the way is not in the very second
  of the call, an acquisition succeeds exactly when no other workspace holds an unexpired active
  lease on the resource, and after a success the resource has an active row of the caller's
  workspace.\<close>

theorem acquire_granted_iff:
  assumes "lease_inv t" "req_clear q t"
  shows "is_ok (fst (acquire q t)) =
      (\<not> (\<exists>r \<in> set (lt_rows t). lease_active r \<and> lease_key r = req_key q
           \<and> ls_workspace_id r \<noteq> rq_workspace_id q \<and> \<not> IsExpired (leaseFromStorage r) (rq_now q)))
    \<and> (is_ok (fst (acquire q t)) \<longrightarrow>
        (\<exists>r \<in> set (lt_rows (snd (acquire q t))). lease_active r \<and> lease_key r = req_key q
           \<and> ls_workspace_id r = rq_workspace_id q))"
proof (cases "req_lookup q t")
  case None
  then have "acquire q t = acquire_cold q t" by (simp add: acquire_cases [OF assms])
  moreover have "\<forall>r \<in> set (lt_rows t). lease_active r \<longrightarrow> lease_key r \<noteq> req_key q"
    using None by (simp add: req_lookup_None_iff)
  ultimately show ?thesis using acquire_cold_free [OF None] by auto
next
  case (Some r)
  have only: "s = r" if "s \<in> set (lt_rows t)" "lease_active s" "lease_key s = req_key q" for s
    using that Some req_lookup_Some_iff [OF assms(1)] by (metis option.inject)
  have r: "r \<in> set (lt_rows t)" "lease_active r" "lease_key r = req_key q"
    using Some req_lookup_tag by auto
  show ?thesis
  proof (cases "IsExpired (leaseFromStorage r) (rq_now q)")
    case True
    have "\<not> (\<exists>s \<in> set (lt_rows t). lease_active s \<and> lease_key s = req_key q
           \<and> ls_workspace_id s \<noteq> rq_workspace_id q \<and> \<not> IsExpired (leaseFromStorage s) (rq_now q))"
      using only True by blast
    moreover have "acquire q t = acquire_cold q (snd (db_ExpireLeases t (rq_now q)))"
      using True Some by (simp add: acquire_cases [OF assms])
    ultimately show ?thesis
      using acquire_cold_free [OF lookup_after_sweep [OF assms Some True]] by simp
  next
    case False
    then have "acquire q t = (held_result q r, t)" using Some by (simp add: acquire_cases [OF assms])
    moreover have "(\<exists>s \<in> set (lt_rows t). lease_active s \<and> lease_key s = req_key q
        \<and> ls_workspace_id s \<noteq> rq_workspace_id q \<and> \<not> IsExpired (leaseFromStorage s) (rq_now q))
      \<longleftrightarrow> ls_workspace_id r \<noteq> rq_workspace_id q"
      using only r False by blast
    ultimately show ?thesis using r by (simp add: held_result_def) blast
  qed
qed

definition second0 :: time where "second0 = 63000000000 * 1000000000"

lemma demo_inv [simp]: "lease_inv (demo_table q)"
  by (simp add: lease_inv_def demo_table_def demo_row_def)

lemma demo_clear:
  "rq_expires_at p = second0 \<Longrightarrow> in_range (rq_now q) \<Longrightarrow> rq_now q div 1000000000 \<noteq> 63000000000
     \<Longrightarrow> req_clear q (demo_table p)"
  by (simp add: req_clear_def demo_table_def demo_row_def req_row_def clear_expiry_def second0_def
      in_range_def)

theorem acquire_granted_iff_witness:
  "is_ok (fst (acquire (demo_req ''B'' 0 (second0 + 2 * Second)) (demo_table (demo_req ''A'' second0 5))))
   \<and> \<not> is_ok (fst (acquire (demo_req ''B'' 0 (second0 - 2 * Second)) (demo_table (demo_req ''A'' second0 5))))"
proof -
  let ?t = "demo_table (demo_req ''A'' second0 5)"
  let ?q = "\<lambda>s. demo_req ''B'' 0 (second0 + s * Second)"
  have "req_clear (?q 2) ?t" "req_clear (?q (- 2)) ?t"
    by (rule demo_clear; simp add: demo_req_def project_req_def second0_def Second_def in_range_def)+
  from this [THEN acquire_granted_iff [OF demo_inv]] show ?thesis
    by (simp add: demo_defs req_key_def IsExpired_def leaseFromStorage_def col_time_def second0_def
        Second_def)
qed

text \<open>A refusal explains itself. Under the same proviso, an acquisition that fails leaves the
  table as it was and its error is the conflict built from the active, unexpired row of another
  workspace: it names that workspace, the resource and the expiry of the hold.\<close>

theorem acquire_conflict_explained:
  assumes "lease_inv t" "req_clear q t" "acquire q t = (Inl e, t')"
  shows "t' = t \<and> (\<exists>r \<in> set (lt_rows t). lease_active r \<and> lease_key r = req_key q
    \<and> ls_workspace_id r \<noteq> rq_workspace_id q \<and> \<not> IsExpired (leaseFromStorage r) (rq_now q)
    \<and> e = ConflictError (rq_kind q) (rq_resource q) (ls_workspace_id r) (ls_expires_at r))"
proof (cases "req_lookup q t")
  case None
  then have "acquire q t = acquire_cold q t" by (simp add: acquire_cases [OF assms(1,2)])
  then show ?thesis using acquire_cold_free [OF None] assms(3) by simp
next
  case (Some r)
  have "\<not> IsExpired (leaseFromStorage r) (rq_now q)"
    using acquire_expired_granted [OF assms(1,2) Some] assms(3) by auto
  moreover from this have "acquire q t = (held_result q r, t)"
    using Some by (simp add: acquire_cases [OF assms(1,2)])
  ultimately show ?thesis
    using req_lookup_tag [OF Some] assms(3)
    by (auto simp: held_result_def conflictFromRow_def lease_key_def req_key_def split: if_splits)
qed

theorem acquire_conflict_explained_witness:
  "acquire (demo_req ''B'' 0 7) (demo_table (demo_req ''A'' 0 5))
     = (Inl (ConflictError ''path'' ''main.go'' ''A'' None), demo_table (demo_req ''A'' 0 5))"
proof -
  let ?t = "demo_table (demo_req ''A'' 0 5)" and ?q = "demo_req ''B'' 0 7"
  have a: "acquire ?q ?t = (Inl (ConflictError ''path'' ''main.go'' ''A'' None), ?t)"
    by (simp add: acquire_def acquire_lookup_def req_lookup_def GetActiveLease_def demo_defs
        col_time_def held_result_def conflictFromRow_def)
  have "req_clear ?q ?t" by (simp add: req_clear_def demo_defs clear_expiry_def in_range_def)
  from acquire_conflict_explained [OF demo_inv this a] a show ?thesis by simp
qed

text \<open>The sweeper is invisible to readers. When no active row expires in the very second of the
  sweep, marking the expired rows changes neither the leases a project lists as active nor the
  answer of the conflict query, for any project, resource and workspace.\<close>

theorem sweep_invisible:
  assumes "in_range now" "\<forall>r \<in> set (lt_rows t). lease_active r \<longrightarrow> clear_expiry now r"
  shows "ListActiveByProject now (snd (ExpireLeases now t)) p = ListActiveByProject now t p
    \<and> HasActiveLease (snd (ExpireLeases now t)) now scope sid kind res ws
      = HasActiveLease t now scope sid kind res ws"
proof -
  have "sweepable now r \<longleftrightarrow> lease_active r \<and> IsExpired (leaseFromStorage r) now"
    if "r \<in> set (lt_rows t)" for r
  proof (cases "lease_active r")
    case True
    with that assms show ?thesis by (intro sweepable_agrees) auto
  qed (simp add: sweepable_def lease_active_def)
  then have "filter (\<lambda>r. ls_scope r = ''project'' \<and> ls_scope_id r = p \<and> lease_active r
        \<and> \<not> IsExpired (leaseFromStorage r) now) (lt_rows (snd (ExpireLeases now t)))
     = filter (\<lambda>r. ls_scope r = ''project'' \<and> ls_scope_id r = p \<and> lease_active r
        \<and> \<not> IsExpired (leaseFromStorage r) now) (lt_rows t)"
    unfolding ExpireLeases_def db_ExpireLeases_def
    by (simp, intro filter_update_gone) (simp add: lease_active_def)
  moreover have "filter (\<lambda>r. ls_scope r = scope \<and> ls_scope_id r = sid \<and> ls_kind r = kind
       \<and> ls_resource r = res \<and> ls_state r = ''active'' \<and> ls_workspace_id r \<noteq> ws
       \<and> (case ls_expires_at r of None \<Rightarrow> True | Some e \<Rightarrow> rfc3339nano e > rfc3339nano now))
       (lt_rows (snd (ExpireLeases now t)))
     = filter (\<lambda>r. ls_scope r = scope \<and> ls_scope_id r = sid \<and> ls_kind r = kind
       \<and> ls_resource r = res \<and> ls_state r = ''active'' \<and> ls_workspace_id r \<noteq> ws
       \<and> (case ls_expires_at r of None \<Rightarrow> True | Some e \<Rightarrow> rfc3339nano e > rfc3339nano now))
       (lt_rows t)"
    unfolding ExpireLeases_def db_ExpireLeases_def
    by (simp, intro filter_update_gone) (auto simp: sweepable_def split: option.splits)
  ultimately show ?thesis
    by (simp add: ListActiveByProject_alt HasActiveLease_def count_where_def)
qed

theorem sweep_invisible_witness:
  "ListActiveByProject (second0 + 5 * Second)
     (snd (ExpireLeases (second0 + 5 * Second) (demo_table (demo_req ''A'' second0 5)))) ''P'' = []"
proof -
  let ?t = "demo_table (demo_req ''A'' second0 5)" and ?n = "second0 + 5 * Second"
  have "in_range ?n" by (simp add: second0_def Second_def in_range_def)
  moreover have "\<forall>r \<in> set (lt_rows ?t). lease_active r \<longrightarrow> clear_expiry ?n r"
    by (simp add: demo_defs clear_expiry_def second0_def Second_def in_range_def)
  ultimately have "ListActiveByProject ?n (snd (ExpireLeases ?n ?t)) ''P'' = ListActiveByProject ?n ?t ''P''"
    by (rule sweep_invisible [THEN conjunct1])
  then show ?thesis
    by (simp add: ListActiveByProject_alt demo_defs IsExpired_def leaseFromStorage_def col_time_def
        second0_def Second_def)
qed

text \<open>Within a second the texts are not in the order of the instants: \<^verbatim>\<open>...20.5Z\<close> is smaller than
  \<^verbatim>\<open>...20Z\<close>, because the full stop precedes the letter.\<close>

lemma half_second_before: "rfc3339nano (second0 + 500000000) < rfc3339nano second0"
proof -
  have "fraction_string 500000000 @ ''Z'' < fraction_string 0 @ ''Z''"
    by (simp add: fraction_string_def)
  moreover have "sec_of (second0 + 500000000) = sec_of second0"
    "nsec_of (second0 + 500000000) = 500000000" "nsec_of second0 = 0"
    by (simp_all add: sec_of_def nsec_of_def second0_def)
  moreover have "in_range (second0 + 500000000)" "in_range second0"
    by (simp_all add: second0_def in_range_def)
  ultimately show ?thesis by (simp add: rfc3339nano_less_iff)
qed

text \<open>Within one second the sweeper is wrong. A lease that expires half a second after the
  instant of the sweep, and that the manager lists as active at that instant, is marked expired by
  the sweep, and another workspace is then granted the resource while the first lease has not
  reached its deadline.\<close>

theorem sweep_early_in_second:
  "let t = demo_table (demo_req ''A'' (second0 + 500000000) 5);
       t' = snd (ExpireLeases second0 t)
   in ListActiveByProject second0 t ''P'' \<noteq> []
      \<and> ListActiveByProject second0 t' ''P'' = []
      \<and> is_ok (fst (AcquirePath second0 t' ''P'' ''B'' ''main.go''))"
proof -
  have le: "rfc3339nano (second0 + 500000000) \<le> rfc3339nano second0"
    using half_second_before by simp
  have nz: "second0 + 500000000 \<noteq> 0" "second0 < second0 + 500000000" by (simp_all add: second0_def)
  have exp: "snd (ExpireLeases second0 (demo_table (demo_req ''A'' (second0 + 500000000) 5))) =
    (demo_table (demo_req ''A'' (second0 + 500000000) 5))\<lparr>lt_rows :=
       [(demo_row (demo_req ''A'' (second0 + 500000000) 5))\<lparr>ls_state := ''expired'', ls_released_at := Some second0\<rparr>]\<rparr>"
    using le nz by (simp add: ExpireLeases_def db_ExpireLeases_def sweepable_def demo_defs)
  show ?thesis unfolding Let_def exp using nz
    by (simp add: ListActiveByProject_alt demo_defs IsExpired_def leaseFromStorage_def col_time_def
        AcquirePath_def acquire_def acquire_lookup_def req_lookup_def GetActiveLease_def
        acquire_cold_def createLease_def)
qed

text \<open>Within one second an expired lease blocks. At half a second past the deadline the manager
  no longer lists the lease and treats it as expired, but the text comparison of the inline sweep
  does not find it, the insert loses against it and another workspace is refused.\<close>

theorem expired_lease_blocks_in_second:
  "let t = demo_table (demo_req ''A'' second0 5)
   in ListActiveByProject (second0 + 500000000) t ''P'' = []
      \<and> fst (AcquirePath (second0 + 500000000) t ''P'' ''B'' ''main.go'')
        = Inl (ConflictError ''path'' ''main.go'' ''A'' (Some second0))"
proof -
  have le: "\<not> rfc3339nano second0 \<le> rfc3339nano (second0 + 500000000)"
    using half_second_before by simp
  have nz: "second0 \<noteq> 0" by (simp add: second0_def)
  show ?thesis unfolding Let_def using nz le
    by (simp add: ListActiveByProject_alt demo_defs IsExpired_def leaseFromStorage_def col_time_def
        AcquirePath_def acquire_def acquire_lookup_def req_lookup_def GetActiveLease_def
        db_ExpireLeases_def sweepable_def acquire_cold_def createLease_def acquire_reread_def
        held_result_def conflictFromRow_def)
qed

text \<open>Renewal holds a lease. After a renewal to \<open>now + ttl\<close>, a sweep at any instant of a second
  before that deadline leaves every lease active that the workspace held: the swept table has an
  active row with the id, the resource and the workspace of each.\<close>

theorem renewed_survives_sweep:
  assumes "in_range (now + ttl)" "in_range later"
    and "later div 1000000000 < (now + ttl) div 1000000000"
    and "r \<in> set (lt_rows t)" "lease_active r" "ls_workspace_id r = ws"
  shows "\<exists>s \<in> set (lt_rows (snd (ExpireLeases later (snd (RenewAll now t ws ttl))))).
    lease_active s \<and> row_tag s = row_tag r"
proof -
  let ?P = "\<lambda>r. ls_workspace_id r = ws \<and> ls_state r = ''active'' \<and> ls_expires_at r \<noteq> None"
  let ?s = "if ?P r then r\<lparr>ls_expires_at := Some (now + ttl)\<rparr> else r"
  have ren: "?s \<in> set (lt_rows (snd (RenewAll now t ws ttl)))"
    using assms(4) by (auto simp: RenewAll_def RenewWorkspaceLeases_def Let_def set_update_where)
  have "rfc3339nano later < rfc3339nano (now + ttl)"
    by (rule rfc3339nano_later_second [OF assms(2,1,3)])
  then have "\<not> sweepable later ?s"
    using assms(5,6) by (auto simp: sweepable_def lease_active_def split: option.splits)
  with ren have "?s \<in> set (lt_rows (snd (ExpireLeases later (snd (RenewAll now t ws ttl)))))"
    unfolding ExpireLeases_def db_ExpireLeases_def by (force simp: set_update_where)
  moreover have "lease_active ?s" "row_tag ?s = row_tag r"
    using assms(5) by (auto simp: lease_active_def row_tag_def lease_key_def)
  ultimately show ?thesis by blast
qed

theorem renewed_survives_sweep_witness:
  "\<exists>s \<in> set (lt_rows (snd (ExpireLeases (second0 + 5 * Second)
     (snd (RenewAll (second0 - Second) (demo_table (demo_req ''A'' second0 5)) ''A'' (10 * Second)))))).
    lease_active s \<and> row_tag s = row_tag (demo_row (demo_req ''A'' second0 5))"
  by (rule renewed_survives_sweep) (simp_all add: demo_defs second0_def Second_def in_range_def)

text \<open>Release frees. After a workspace releases its leases none of them is active, the rows of
  other workspaces are untouched, and a resource that the workspace held is granted to the next
  caller.\<close>

theorem release_frees:
  assumes "lease_inv t" "r \<in> set (lt_rows t)" "lease_active r" "ls_workspace_id r = ws"
    and "lease_key r = req_key q"
  shows "(\<nexists>s. s \<in> set (lt_rows (snd (ReleaseAll now t ws))) \<and> ls_workspace_id s = ws \<and> lease_active s)
    \<and> filter (\<lambda>s. ls_workspace_id s \<noteq> ws) (lt_rows (snd (ReleaseAll now t ws)))
      = filter (\<lambda>s. ls_workspace_id s \<noteq> ws) (lt_rows t)
    \<and> fst (acquire q (snd (ReleaseAll now t ws))) = Inr (req_lease q (Suc (lt_seq t)))"
proof -
  let ?t = "snd (ReleaseAll now t ws)"
  have rows: "lt_rows ?t = update_where (\<lambda>r. ls_workspace_id r = ws \<and> ls_state r = ''active'')
      (\<lambda>r. r\<lparr>ls_state := ''released'', ls_released_at := Some now\<rparr>) (lt_rows t)"
    and sq: "lt_seq ?t = lt_seq t"
    by (simp_all add: ReleaseAll_def releaseLeasesByWorkspace_def Let_def)
  have act: "s \<in> set (lt_rows t) \<and> ls_workspace_id s \<noteq> ws"
    if "s \<in> set (lt_rows ?t)" "lease_active s" for s
    using that by (auto simp: rows set_update_where lease_active_def split: if_splits)
  have "req_lookup q ?t = None"
    unfolding req_lookup_None_iff
  proof (intro ballI impI notI)
    fix s assume s: "s \<in> set (lt_rows ?t)" "lease_active s" "lease_key s = req_key q"
    with act have "s \<in> set (lt_rows t)" "ls_workspace_id s \<noteq> ws" by auto
    with s assms show False
      using unique_whereD [of lease_active lease_key "lt_rows t" s r] by (auto simp: lease_inv_def)
  qed
  then have "fst (acquire q ?t) = Inr (req_lease q (Suc (lt_seq t)))"
    using acquire_cold_free [of q ?t] by (simp add: acquire_def acquire_lookup_def sq)
  moreover have "filter (\<lambda>s. ls_workspace_id s \<noteq> ws) (lt_rows ?t)
      = filter (\<lambda>s. ls_workspace_id s \<noteq> ws) (lt_rows t)"
    unfolding rows by (rule filter_update_gone) simp
  ultimately show ?thesis using act by blast
qed

theorem release_frees_witness:
  "fst (acquire (demo_req ''B'' 0 9) (snd (ReleaseAll 8 (demo_table (demo_req ''A'' 0 5)) ''A'')))
     = Inr (req_lease (demo_req ''B'' 0 9) 2)"
proof -
  have m: "demo_row (demo_req ''A'' 0 5) \<in> set (lt_rows (demo_table (demo_req ''A'' 0 5)))"
    "lease_active (demo_row (demo_req ''A'' 0 5))"
    "ls_workspace_id (demo_row (demo_req ''A'' 0 5)) = ''A''"
    "lease_key (demo_row (demo_req ''A'' 0 5)) = req_key (demo_req ''B'' 0 9)"
    "Suc (lt_seq (demo_table (demo_req ''A'' 0 5))) = 2"
    by (simp_all add: demo_defs req_key_def)
  show ?thesis using release_frees [OF demo_inv m(1-4), of 8] m(5) by simp
qed

end
