(* ===== verification/Scheduling.thy ===== *)
theory Scheduling
  imports Work_Store_Valid Leases
begin

text \<open>
  \<^verbatim>\<open>src/internal/workgraph/readiness.go\<close> and \<^verbatim>\<open>scheduling.go\<close>: which packages may start, and the claim
  that takes the leases of a package and marks it running. A claim is two steps: the check, which
  only reads, and the commit, which acquires and transitions; nothing makes the two atomic. The
  clock is read once per step.
\<close>

section \<open>Readiness\<close>

record readiness =
  rd_PackageID :: string
  rd_State :: string
  rd_Ready :: bool
  rd_BlockedReasons :: "string list"

definition dep_reasons :: "(string \<Rightarrow> string option) \<Rightarrow> string list \<Rightarrow> string list" where
  "dep_reasons stateByID deps =
     concat (map (\<lambda>dep.
       case stateByID dep of
         None \<Rightarrow> [''dependency '' @ go_quote dep @ '' is not in the graph'']
       | Some depState \<Rightarrow>
           if depState \<noteq> PackageSucceeded
           then [''dependency '' @ go_quote dep @ '' not succeeded (state='' @ depState @ '')'']
           else []) deps)"

definition lease_blocks :: "time \<Rightarrow> string \<Rightarrow> string \<Rightarrow> lease \<Rightarrow> bool" where
  "lease_blocks now requestingWorkspaceID path l \<longleftrightarrow>
     le_Kind l = ''path'' \<and> le_Resource l = path
     \<and> \<not> (requestingWorkspaceID \<noteq> '''' \<and> le_WorkspaceID l = requestingWorkspaceID)
     \<and> \<not> IsExpired l now"

definition lease_reasons :: "time \<Rightarrow> string \<Rightarrow> lease list \<Rightarrow> string list \<Rightarrow> string list" where
  "lease_reasons now requestingWorkspaceID activeLeases scope =
     concat (map (\<lambda>path. map (\<lambda>l. ''path '' @ go_quote path @ '' held by workspace ''
         @ go_quote (le_WorkspaceID l))
       (filter (lease_blocks now requestingWorkspaceID path) activeLeases)) scope)"

definition packageReadiness ::
  "work_package \<Rightarrow> (string \<Rightarrow> string option) \<Rightarrow> lease list \<Rightarrow> time \<Rightarrow> string \<Rightarrow> readiness" where
  "packageReadiness p stateByID activeLeases now requestingWorkspaceID =
     (if package_IsTerminal (wp_state p)
      then \<lparr>rd_PackageID = wp_id p, rd_State = wp_state p, rd_Ready = False,
        rd_BlockedReasons = [''package state '' @ go_quote (wp_state p) @ '' is terminal'']\<rparr>
      else if wp_state p \<noteq> PackagePending
      then \<lparr>rd_PackageID = wp_id p, rd_State = wp_state p, rd_Ready = False,
        rd_BlockedReasons = [''package state '' @ go_quote (wp_state p) @ '' is not pending'']\<rparr>
      else
        let reasons = sort (dep_reasons stateByID (wp_deps p)
              @ lease_reasons now requestingWorkspaceID activeLeases (wp_scope p))
        in \<lparr>rd_PackageID = wp_id p, rd_State = wp_state p, rd_Ready = (reasons = []),
          rd_BlockedReasons = reasons\<rparr>)"

definition state_by_id :: "work_package list \<Rightarrow> string \<Rightarrow> string option" where
  "state_by_id ps k = map_of (rev (map (\<lambda>p. (wp_id p, wp_state p)) ps)) k"

definition ComputeReadiness :: "work_graph option \<Rightarrow> lease list \<Rightarrow> time \<Rightarrow> string \<Rightarrow> readiness list" where
  "ComputeReadiness v activeLeases now requestingWorkspaceID =
     (case v of
        None \<Rightarrow> []
      | Some g \<Rightarrow> sort_key rd_PackageID (map (\<lambda>p.
          packageReadiness p (state_by_id (wg_packages g)) activeLeases now requestingWorkspaceID)
          (wg_packages g)))"

section \<open>Claims\<close>

record claim_request =
  cr_TaskID :: string
  cr_ProjectID :: string
  cr_PackageID :: string
  cr_WorkspaceID :: string
  cr_PathLeases :: "string list option"
  cr_SemanticLeases :: "string list"
  cr_TTL :: duration

record claim_result =
  cl_PackageID :: string
  cl_State :: string
  cl_Leases :: "lease list"

datatype claim_error =
    ClaimFieldRequired string
  | ClaimWork work_error
  | NotReadyError string "string list"
  | ClaimLease lease_error
  | ClaimTransition work_error
  | RenewTTLNotPositive

text \<open>The reads of \<^verbatim>\<open>Claim\<close>: the result is the list of paths to lease.\<close>

definition claim_check ::
  "time \<Rightarrow> work_db \<Rightarrow> lease_table \<Rightarrow> claim_request \<Rightarrow> (claim_error, string list) result" where
  "claim_check now d t req =
     (if cr_TaskID req = '''' \<or> cr_PackageID req = ''''
      then Inl (ClaimFieldRequired ''task_id and package_id'')
      else if cr_ProjectID req = '''' then Inl (ClaimFieldRequired ''project_id'')
      else if cr_WorkspaceID req = '''' then Inl (ClaimFieldRequired ''workspace_id'')
      else case GetPackage d (cr_TaskID req) (cr_PackageID req) of
        Inl e \<Rightarrow> Inl (ClaimWork e)
      | Inr pkg \<Rightarrow>
          (case LoadValidated d (cr_TaskID req) of
             Inl e \<Rightarrow> Inl (ClaimWork e)
           | Inr vg \<Rightarrow>
               (case find (\<lambda>r. rd_PackageID r = cr_PackageID req)
                   (ComputeReadiness (Some vg) (ListActiveByProject now t (cr_ProjectID req)) now
                     (cr_WorkspaceID req)) of
                  None \<Rightarrow> Inl (NotReadyError (cr_PackageID req) [''package not found in readiness''])
                | Some mine \<Rightarrow>
                    if \<not> rd_Ready mine
                    then Inl (NotReadyError (cr_PackageID req) (rd_BlockedReasons mine))
                    else Inr (case cr_PathLeases req of None \<Rightarrow> wp_scope pkg | Some paths \<Rightarrow> paths))))"

definition acquireClaim ::
  "time \<Rightarrow> claim_request \<Rightarrow> string \<times> string \<Rightarrow> lease_table \<Rightarrow> (lease_error, lease) result \<times> lease_table" where
  "acquireClaim now req res t =
     (case res of (kind, resource) \<Rightarrow>
        if kind = ''path''
        then AcquirePathTTL now t (cr_ProjectID req) (cr_WorkspaceID req) resource (cr_TTL req)
        else if \<not> IsValidSemantic resource then (Inl (InvalidSemantic resource), t)
        else AcquireSemanticTTL now t (cr_ProjectID req) (cr_WorkspaceID req) resource (cr_TTL req))"

definition releaseAllAcquired :: "time \<Rightarrow> lease_table \<Rightarrow> string \<Rightarrow> lease list \<Rightarrow> lease_table" where
  "releaseAllAcquired now t workspaceID acquired =
     (if acquired = [] then t else snd (ReleaseAll now t workspaceID))"

text \<open>Both acquisition loops, over the paths and then over the semantic resources.\<close>

fun acquire_all ::
  "time \<Rightarrow> claim_request \<Rightarrow> (string \<times> string) list \<Rightarrow> lease list \<Rightarrow> lease_table
     \<Rightarrow> (claim_error, lease list) result \<times> lease_table" where
  "acquire_all now req [] acquired t = (Inr acquired, t)"
| "acquire_all now req (r # rs) acquired t =
     (case acquireClaim now req r t of
        (Inl e, t') \<Rightarrow> (Inl (ClaimLease e), releaseAllAcquired now t' (cr_WorkspaceID req) acquired)
      | (Inr l, t') \<Rightarrow> acquire_all now req rs (acquired @ [l]) t')"

definition claim_resources :: "claim_request \<Rightarrow> string list \<Rightarrow> (string \<times> string) list" where
  "claim_resources req paths =
     map (\<lambda>p. (''path'', p)) paths @ map (\<lambda>s. (''semantic'', s)) (cr_SemanticLeases req)"

definition claim_commit ::
  "time \<Rightarrow> work_db \<Rightarrow> lease_table \<Rightarrow> claim_request \<Rightarrow> string list
     \<Rightarrow> (claim_error, claim_result) result \<times> work_db \<times> lease_table" where
  "claim_commit now d t req paths =
     (case acquire_all now req (claim_resources req paths) [] t of
        (Inl e, t') \<Rightarrow> (Inl e, d, t')
      | (Inr acquired, t') \<Rightarrow>
          (case TransitionPackage now d (cr_TaskID req) (cr_PackageID req) PackageRunning of
             Inl e \<Rightarrow> (Inl (ClaimTransition e), d, releaseAllAcquired now t' (cr_WorkspaceID req) acquired)
           | Inr d' \<Rightarrow> (Inr \<lparr>cl_PackageID = cr_PackageID req, cl_State = PackageRunning,
               cl_Leases = acquired\<rparr>, d', t')))"

definition Claim ::
  "time \<Rightarrow> work_db \<Rightarrow> lease_table \<Rightarrow> claim_request
     \<Rightarrow> (claim_error, claim_result) result \<times> work_db \<times> lease_table" where
  "Claim now d t req =
     (case claim_check now d t req of
        Inl e \<Rightarrow> (Inl e, d, t)
      | Inr paths \<Rightarrow> claim_commit now d t req paths)"

definition Renew :: "time \<Rightarrow> lease_table \<Rightarrow> string \<Rightarrow> duration \<Rightarrow> (claim_error, nat) result \<times> lease_table" where
  "Renew now t workspaceID ttl =
     (if ttl \<le> 0 then (Inl RenewTTLNotPositive, t)
      else case RenewAll now t workspaceID ttl of (n, t') \<Rightarrow> (Inr n, t'))"

definition Release :: "time \<Rightarrow> lease_table \<Rightarrow> string \<Rightarrow> nat \<times> lease_table" where
  "Release now t workspaceID = ReleaseAll now t workspaceID"

definition Expire :: "time \<Rightarrow> lease_table \<Rightarrow> nat \<times> lease_table" where
  "Expire now t = ExpireLeases now t"

section \<open>Facts on readiness\<close>

lemma dep_reasons_Nil: "dep_reasons m deps = [] \<longleftrightarrow> (\<forall>dep \<in> set deps. m dep = Some PackageSucceeded)"
proof -
  have "(case m dep of None \<Rightarrow> [x] | Some s \<Rightarrow> if s \<noteq> PackageSucceeded then [f s] else []) = [] \<longleftrightarrow>
      m dep = Some PackageSucceeded" for dep and x :: string and f
    by (cases "m dep") auto
  then show ?thesis unfolding dep_reasons_def concat_map_Nil by simp
qed

lemma lease_reasons_Nil:
  "lease_reasons now ws ls scope = [] \<longleftrightarrow> (\<forall>path \<in> set scope. \<forall>l \<in> set ls. \<not> lease_blocks now ws path l)"
  unfolding lease_reasons_def concat_map_Nil by (auto simp: filter_empty_conv)

definition startable :: "work_package \<Rightarrow> work_package list \<Rightarrow> lease list \<Rightarrow> time \<Rightarrow> string \<Rightarrow> bool" where
  "startable p ps ls now ws \<longleftrightarrow>
     wp_state p = PackagePending
     \<and> (\<forall>dep \<in> set (wp_deps p). \<exists>q \<in> set ps. wp_id q = dep \<and> wp_state q = PackageSucceeded)
     \<and> (\<forall>path \<in> set (wp_scope p). \<forall>l \<in> set ls. \<not> lease_blocks now ws path l)"

lemma state_by_id_Some:
  "distinct (map wp_id ps) \<Longrightarrow> state_by_id ps k = Some s \<longleftrightarrow> (\<exists>p \<in> set ps. wp_id p = k \<and> wp_state p = s)"
proof -
  assume "distinct (map wp_id ps)"
  then have "distinct (map fst (rev (map (\<lambda>p. (wp_id p, wp_state p)) ps)))"
    by (simp add: rev_map [symmetric] comp_def)
  then show ?thesis by (auto simp: state_by_id_def map_of_eq_Some_iff)
qed

lemma packageReadiness_ready:
  assumes "distinct (map wp_id ps)"
  shows "rd_Ready (packageReadiness p (state_by_id ps) ls now ws) \<longleftrightarrow> startable p ps ls now ws"
  by (auto simp: packageReadiness_def startable_def Let_def dep_reasons_Nil lease_reasons_Nil
      state_by_id_Some [OF assms] package_IsTerminal_def)

lemma packageReadiness_id [simp]: "rd_PackageID (packageReadiness p m ls now ws) = wp_id p"
  by (simp add: packageReadiness_def Let_def)

lemma readiness_ready_iff: "rd_Ready (packageReadiness p m ls now ws) \<longleftrightarrow>
    rd_BlockedReasons (packageReadiness p m ls now ws) = []"
  by (simp add: packageReadiness_def Let_def)

lemma ComputeReadiness_eq:
  assumes "graph_wf (wg_packages g)"
  shows "ComputeReadiness (Some g) ls now ws
    = map (\<lambda>p. packageReadiness p (state_by_id (wg_packages g)) ls now ws) (wg_packages g)"
  unfolding ComputeReadiness_def option.case
  by (rule sort_key_fixed) (use assms in \<open>simp add: graph_wf_def comp_def\<close>)

section \<open>Facts on acquisition\<close>

definition all_clear :: "time \<Rightarrow> lease_table \<Rightarrow> bool" where
  "all_clear now t \<longleftrightarrow> in_range now \<and> (\<forall>r \<in> set (lt_rows t). lease_active r \<longrightarrow> clear_expiry now r)"

definition holds :: "time \<Rightarrow> lease_table \<Rightarrow> string \<times> string \<times> string \<times> string \<Rightarrow> string \<Rightarrow> bool" where
  "holds now t k ws \<longleftrightarrow> (\<exists>r \<in> set (lt_rows t). lease_active r \<and> lease_key r = k \<and> ls_workspace_id r = ws
     \<and> \<not> IsExpired (leaseFromStorage r) now)"

definition good_expiry :: "time \<Rightarrow> time \<Rightarrow> bool" where
  "good_expiry now e \<longleftrightarrow> e = 0 \<or> in_range e \<and> now < e \<and> e div 1000000000 \<noteq> now div 1000000000"

lemma all_clear_req: "all_clear (rq_now q) t \<Longrightarrow> req_clear q t"
  by (auto simp: all_clear_def req_clear_def)

lemma sweep_keeps:
  assumes "all_clear now t"
  shows "all_clear now (snd (db_ExpireLeases t now)) \<and> (holds now t k ws \<longrightarrow> holds now (snd (db_ExpireLeases t now)) k ws)"
proof -
  have sw: "r \<in> set (lt_rows (snd (db_ExpireLeases t now))) \<longleftrightarrow> r \<in> set (lt_rows t)"
    if "lease_active r" "\<not> sweepable now r" for r
    using that by (force simp: db_ExpireLeases_def set_update_where lease_active_def)
  have "r \<in> set (lt_rows t)" if "r \<in> set (lt_rows (snd (db_ExpireLeases t now)))" "lease_active r" for r
    using that by (auto simp: db_ExpireLeases_def set_update_where lease_active_def split: if_splits)
  moreover have "holds now (snd (db_ExpireLeases t now)) k ws" if "holds now t k ws"
  proof -
    from that obtain r where r: "r \<in> set (lt_rows t)" "lease_active r" "lease_key r = k"
      "ls_workspace_id r = ws" "\<not> IsExpired (leaseFromStorage r) now" by (auto simp: holds_def)
    with assms have "\<not> sweepable now r" by (subst sweepable_agrees) (auto simp: all_clear_def)
    with r sw show ?thesis by (auto simp: holds_def)
  qed
  ultimately show ?thesis using assms by (auto simp: all_clear_def)
qed

lemma cold_keeps:
  assumes inv: "lease_inv t" and cl: "all_clear (rq_now q) t" and e: "good_expiry (rq_now q) (rq_expires_at q)"
    and n: "req_lookup q t = None" and t': "acquire_cold q t = (Inr l, t')"
  shows "lease_inv t' \<and> all_clear (rq_now q) t' \<and> (holds (rq_now q) t k ws \<longrightarrow> holds (rq_now q) t' k ws)
    \<and> holds (rq_now q) t' (req_key q) (rq_workspace_id q)"
proof -
  let ?r = "(req_row q)\<lparr>ls_id := Suc (lt_seq t)\<rparr>"
  have t'': "t' = t\<lparr>lt_rows := lt_rows t @ [?r], lt_seq := Suc (lt_seq t)\<rparr>"
    using acquire_cold_free [OF n] t' by simp
  have "createLease t (req_row q) = Inr (Suc (lt_seq t), t')"
    using n by (auto simp: createLease_def req_lookup_None_iff t'')
  then have "lease_inv t'" by (rule lease_inv_create [OF inv])
  moreover have "clear_expiry (rq_now q) ?r"
    using e by (auto simp: clear_expiry_def req_row_def good_expiry_def)
  then have "all_clear (rq_now q) t'" using cl by (auto simp: all_clear_def t'')
  moreover have "\<not> IsExpired (leaseFromStorage ?r) (rq_now q)"
    using e by (auto simp: IsExpired_def leaseFromStorage_def col_time_def req_row_def good_expiry_def)
  then have "holds (rq_now q) t' (req_key q) (rq_workspace_id q)"
    by (auto simp: holds_def t'' intro!: bexI [of _ ?r])
  moreover have "holds (rq_now q) t k ws \<longrightarrow> holds (rq_now q) t' k ws" by (auto simp: holds_def t'')
  ultimately show ?thesis by blast
qed

lemma acquire_keeps:
  assumes inv: "lease_inv t" and cl: "all_clear (rq_now q) t" and e: "good_expiry (rq_now q) (rq_expires_at q)"
    and a: "acquire q t = (Inr l, t')"
  shows "lease_inv t' \<and> all_clear (rq_now q) t' \<and> (holds (rq_now q) t k ws \<longrightarrow> holds (rq_now q) t' k ws)
    \<and> holds (rq_now q) t' (req_key q) (rq_workspace_id q)"
proof (cases "req_lookup q t")
  case None
  with a have "acquire_cold q t = (Inr l, t')" by (simp add: acquire_cases [OF inv all_clear_req [OF cl]])
  from cold_keeps [OF inv cl e None this] show ?thesis .
next
  case (Some r)
  show ?thesis
  proof (cases "IsExpired (leaseFromStorage r) (rq_now q)")
    case True
    let ?s = "snd (db_ExpireLeases t (rq_now q))"
    have c: "acquire_cold q ?s = (Inr l, t')"
      using a Some True by (simp add: acquire_cases [OF inv all_clear_req [OF cl]])
    have n: "req_lookup q ?s = None"
      by (rule lookup_after_sweep [OF inv all_clear_req [OF cl] Some True])
    have "all_clear (rq_now q) ?s" using sweep_keeps [OF cl] by blast
    from cold_keeps [OF lease_inv_expire [OF inv] this e n c] sweep_keeps [OF cl, of k ws]
    show ?thesis by blast
  next
    case False
    then have h: "held_result q r = Inr l" "t' = t"
      using a Some by (simp_all add: acquire_cases [OF inv all_clear_req [OF cl]])
    then have "holds (rq_now q) t (req_key q) (rq_workspace_id q)"
      using req_lookup_tag [OF Some] False by (auto simp: holds_def held_result_def split: if_splits)
    with h inv cl show ?thesis by simp
  qed
qed

definition claim_key :: "claim_request \<Rightarrow> string \<times> string \<Rightarrow> string \<times> string \<times> string \<times> string" where
  "claim_key req r = (''project'', cr_ProjectID req, fst r, snd r)"

lemma acquireClaim_keeps:
  assumes "lease_inv t" "all_clear now t" "good_expiry now (expiryFromTTL now (cr_TTL req))"
    and "fst r = ''path'' \<or> fst r = ''semantic''" and a: "acquireClaim now req r t = (Inr l, t')"
  shows "lease_inv t' \<and> all_clear now t' \<and> (holds now t k ws \<longrightarrow> holds now t' k ws)
    \<and> holds now t' (claim_key req r) (cr_WorkspaceID req)"
proof -
  let ?q = "project_req (cr_ProjectID req) (fst r) (snd r) (cr_WorkspaceID req) (expiryFromTTL now (cr_TTL req)) now"
  have q: "rq_now ?q = now" "rq_expires_at ?q = expiryFromTTL now (cr_TTL req)"
    "rq_workspace_id ?q = cr_WorkspaceID req" "req_key ?q = claim_key req r"
    by (simp_all add: project_req_def claim_key_def req_key_def)
  have "acquire ?q t = (Inr l, t')"
    using a assms(4) by (cases r) (auto simp: acquireClaim_def AcquirePathTTL_def AcquireSemanticTTL_def split: if_splits)
  from acquire_keeps [OF assms(1) _ _ this, of k ws, unfolded q] assms(2,3) show ?thesis by blast
qed

lemma acquire_all_keeps:
  "lease_inv t \<Longrightarrow> all_clear now t \<Longrightarrow> good_expiry now (expiryFromTTL now (cr_TTL req)) \<Longrightarrow>
   fst ` set rs \<subseteq> {''path'', ''semantic''} \<Longrightarrow> acquire_all now req rs acq t = (Inr ls, t') \<Longrightarrow>
     lease_inv t' \<and> all_clear now t' \<and> (holds now t k ws \<longrightarrow> holds now t' k ws)
     \<and> (\<forall>r \<in> set rs. holds now t' (claim_key req r) (cr_WorkspaceID req))"
proof (induction rs arbitrary: t acq k ws)
  case (Cons r rs)
  obtain l t1 where a: "acquireClaim now req r t = (Inr l, t1)"
    "acquire_all now req rs (acq @ [l]) t1 = (Inr ls, t')"
    using Cons.prems(5) by (auto split: prod.splits sum.splits)
  have f: "fst r = ''path'' \<or> fst r = ''semantic''" using Cons.prems(4) by auto
  have s: "fst ` set rs \<subseteq> {''path'', ''semantic''}" using Cons.prems(4) by auto
  note k1 = acquireClaim_keeps [OF Cons.prems(1-3) f a(1)]
  have i: "lease_inv t1" "all_clear now t1" using k1 by blast+
  note IH = Cons.IH [OF i Cons.prems(3) s a(2)]
  show ?case using k1 IH by auto
qed auto

lemma good_expiry_ttl:
  assumes "ttl \<le> 0 \<or> Second \<le> ttl \<and> in_range (now + ttl)"
  shows "good_expiry now (expiryFromTTL now ttl)"
proof (cases "ttl \<le> 0")
  case False
  with assms have t: "1000000000 \<le> ttl" "in_range (now + ttl)" by (simp_all add: Second_def)
  then have "now div 1000000000 + 1 \<le> (now + ttl) div 1000000000"
    using zdiv_mono1 [of "now + 1000000000" "now + ttl" 1000000000] by simp
  with t False show ?thesis by (simp add: good_expiry_def expiryFromTTL_def)
qed (simp add: good_expiry_def expiryFromTTL_def)

lemma transition_get:
  assumes k: "keys_ok d" and "TransitionPackage now d t i st = Inr d'"
  shows "\<exists>p. GetPackage d t i = Inr p \<and> GetPackage d' t i = Inr (p\<lparr>wp_state := st\<rparr>)"
proof -
  let ?P = "\<lambda>r. row_key r = (t, i)"
  let ?h = "\<lambda>r. r\<lparr>pr_state := st, pr_updated_at := rfc3339nano now\<rparr>"
  from assms(2) have c: "count_where ?P (wd_packages d) \<noteq> 0"
    and d': "wd_packages d' = update_where ?P ?h (wd_packages d)"
    by (auto simp: TransitionPackage_def UpdateWorkPackageState_def split: if_splits dest!: work_audit_Inr)
  from c obtain r where r: "find ?P (wd_packages d) = Some r"
    by (cases "find ?P (wd_packages d)") (auto simp: count_where_0 find_None_all)
  have "find ?P (update_where ?P ?h rows) = map_option ?h (find ?P rows)" for rows
    by (induction rows) (auto simp: row_key_def)
  with r d' show ?thesis by (simp add: GetPackage_def GetWorkPackage_def rowToPackage_def)
qed

lemma claim_check_ready:
  assumes inv: "store_inv d" and c: "claim_check now d t req = Inr paths"
  shows "\<exists>vg p. LoadValidated d (cr_TaskID req) = Inr vg \<and> p \<in> set (wg_packages vg) \<and> wp_id p = cr_PackageID req
    \<and> startable p (wg_packages vg) (ListActiveByProject now t (cr_ProjectID req)) now (cr_WorkspaceID req)
    \<and> (\<exists>pkg. GetPackage d (cr_TaskID req) (cr_PackageID req) = Inr pkg
      \<and> paths = (case cr_PathLeases req of Some ps \<Rightarrow> ps | None \<Rightarrow> wp_scope pkg))"
proof -
  obtain vg mine where vg: "LoadValidated d (cr_TaskID req) = Inr vg"
    and m: "find (\<lambda>r. rd_PackageID r = cr_PackageID req) (ComputeReadiness (Some vg)
      (ListActiveByProject now t (cr_ProjectID req)) now (cr_WorkspaceID req)) = Some mine" "rd_Ready mine"
    and ps: "\<exists>pkg. GetPackage d (cr_TaskID req) (cr_PackageID req) = Inr pkg
      \<and> paths = (case cr_PathLeases req of Some ps \<Rightarrow> ps | None \<Rightarrow> wp_scope pkg)"
    using c by (auto simp: claim_check_def split: if_splits sum.splits option.splits)
  have "task_rows d (cr_TaskID req) \<noteq> []"
    using vg by (auto simp: LoadValidated_def LoadOrDie_eq split: if_splits)
  from LoadValidated_ok [OF inv this] have wf: "graph_wf (wg_packages vg)" using vg by auto
  then have dist: "distinct (map wp_id (wg_packages vg))" by (simp add: graph_wf_def)
  from find_Some_mem [OF m(1)] obtain p where p: "p \<in> set (wg_packages vg)" "wp_id p = cr_PackageID req"
    "mine = packageReadiness p (state_by_id (wg_packages vg)) (ListActiveByProject now t (cr_ProjectID req)) now
      (cr_WorkspaceID req)"
    unfolding ComputeReadiness_eq [OF wf] by auto
  with m(2) packageReadiness_ready [OF dist] vg ps show ?thesis by blast
qed

text \<open>The scope of a startable package is free of the leases of the project's other workspaces.\<close>

lemma startable_free:
  assumes "startable p ps (ListActiveByProject now t k) now ws" "ws \<noteq> ''''" "path \<in> set (wp_scope p)" "other \<noteq> ws"
  shows "\<not> holds now t (''project'', k, ''path'', path) other"
proof
  assume "holds now t (''project'', k, ''path'', path) other"
  then obtain r where r: "r \<in> set (lt_rows t)" "lease_active r" "lease_key r = (''project'', k, ''path'', path)"
    "ls_workspace_id r = other" "\<not> IsExpired (leaseFromStorage r) now"
    by (auto simp: holds_def)
  then have "leaseFromStorage r \<in> set (ListActiveByProject now t k)"
    by (simp add: ListActiveByProject_alt lease_key_def)
  moreover have "lease_blocks now ws path (leaseFromStorage r)"
    using r assms(4) by (simp add: lease_blocks_def lease_key_def leaseFromStorage_def)
  ultimately show False using assms(1,3) by (auto simp: startable_def)
qed

section \<open>Properties\<close>

text \<open>C34: readiness is exact. For a validated graph the verdicts come in the order of the package
  ids, one per package, and a package is ready exactly when it is pending, each of its dependencies
  has succeeded and no path of its scope is under a path lease of another workspace that has no
  expiry or a later one (every workspace is another one for a caller that names none); a
  package that is not ready has at least one reason.\<close>

theorem readiness_exact:
  assumes "graph_wf (wg_packages g)"
  shows "map rd_PackageID (ComputeReadiness (Some g) ls now ws) = map wp_id (wg_packages g)
    \<and> map rd_Ready (ComputeReadiness (Some g) ls now ws) =
      map (\<lambda>p. wp_state p = PackagePending
        \<and> (\<forall>dep \<in> set (wp_deps p). \<exists>q \<in> set (wg_packages g). wp_id q = dep \<and> wp_state q = PackageSucceeded)
        \<and> \<not> (\<exists>path \<in> set (wp_scope p). \<exists>l \<in> set ls. le_Kind l = ''path'' \<and> le_Resource l = path
              \<and> (ws = '''' \<or> le_WorkspaceID l \<noteq> ws)
              \<and> (le_ExpiresAt l = zero_time \<or> now < le_ExpiresAt l))) (wg_packages g)
    \<and> map (\<lambda>r. rd_BlockedReasons r = []) (ComputeReadiness (Some g) ls now ws)
      = map rd_Ready (ComputeReadiness (Some g) ls now ws)"
proof -
  have d: "distinct (map wp_id (wg_packages g))" using assms by (simp add: graph_wf_def)
  have blocks: "lease_blocks now ws path l \<longleftrightarrow> le_Kind l = ''path'' \<and> le_Resource l = path
      \<and> (ws = '''' \<or> le_WorkspaceID l \<noteq> ws) \<and> (le_ExpiresAt l = zero_time \<or> now < le_ExpiresAt l)" for path l
    by (auto simp: lease_blocks_def IsExpired_def)
  have "map rd_Ready (ComputeReadiness (Some g) ls now ws) = map (\<lambda>p. startable p (wg_packages g) ls now ws) (wg_packages g)"
    by (simp add: ComputeReadiness_eq [OF assms] comp_def packageReadiness_ready [OF d])
  moreover have "map (\<lambda>r. rd_BlockedReasons r = []) (ComputeReadiness (Some g) ls now ws)
      = map rd_Ready (ComputeReadiness (Some g) ls now ws)"
    by (simp add: ComputeReadiness_eq [OF assms] comp_def readiness_ready_iff)
  moreover have "map rd_PackageID (ComputeReadiness (Some g) ls now ws) = map wp_id (wg_packages g)"
    by (simp add: ComputeReadiness_eq [OF assms] comp_def)
  ultimately show ?thesis unfolding startable_def blocks by auto
qed
lemma demo_valid_wf: "graph_wf (wg_packages demo_valid)"
proof -
  have ok: "graph_ok demo_graph" and e: "demo_valid =
      demo_graph\<lparr>wg_packages := sort_key wp_id (map normalise_package (wg_packages demo_graph))\<rparr>"
    using demo_valid_eq unfolding validate_iff by blast+
  show ?thesis unfolding e using graph_ok_wf [OF ok] by simp
qed

theorem readiness_exact_witness:
  "map rd_PackageID (ComputeReadiness (Some demo_valid) [] 0 ''A'') = map wp_id (wg_packages demo_valid)"
  using readiness_exact [OF demo_valid_wf] by blast

text \<open>The graph never gets stuck. While every package of a validated graph is pending or
  succeeded, some package is pending, and no path is leased to another workspace, at least one
  package is ready to start.\<close>

theorem some_package_ready:
  assumes "graph_wf (wg_packages g)"
    and "\<forall>p \<in> set (wg_packages g). wp_state p = PackagePending \<or> wp_state p = PackageSucceeded"
    and "\<exists>p \<in> set (wg_packages g). wp_state p = PackagePending"
    and "\<forall>p \<in> set (wg_packages g). \<forall>path \<in> set (wp_scope p). \<forall>l \<in> set ls. \<not> lease_blocks now ws path l"
  shows "\<exists>r \<in> set (ComputeReadiness (Some g) ls now ws). rd_Ready r"
proof -
  let ?ps = "wg_packages g"
  let ?done = "{wp_id p | p. p \<in> set ?ps \<and> wp_state p = PackageSucceeded}"
  have d: "distinct (map wp_id ?ps)" using assms(1) by (simp add: graph_wf_def)
  have same: "p = q" if "p \<in> set ?ps" "q \<in> set ?ps" "wp_id p = wp_id q" for p q
    using d that by (auto simp: distinct_map dest: inj_onD)
  have "\<not> wp_id ` set ?ps \<subseteq> ?done"
  proof
    assume sub: "wp_id ` set ?ps \<subseteq> ?done"
    from assms(3) obtain p where p: "p \<in> set ?ps" "wp_state p = PackagePending" by blast
    from p(1) have "wp_id p \<in> ?done" using sub by blast
    then obtain q where "q \<in> set ?ps" "wp_id q = wp_id p" "wp_state q = PackageSucceeded" by auto
    with same [of q p] p show False by simp
  qed
  from dag_progress [OF graph_wf_dag [OF assms(1)] this] obtain k where k: "enabled ?ps ?done k" by blast
  then obtain p where p: "p \<in> set ?ps" "wp_id p = k" "k \<notin> ?done" by (auto simp: enabled_def)
  then have pend: "wp_state p = PackagePending" using assms(2) by blast
  have dn: "set (wp_deps p) \<subseteq> ?done" using k p(2) adj_of_package [OF d p(1)] by (simp add: enabled_def)
  have "\<exists>q \<in> set ?ps. wp_id q = dep \<and> wp_state q = PackageSucceeded" if "dep \<in> set (wp_deps p)" for dep
    using subsetD [OF dn that] by auto
  then have "startable p ?ps ls now ws" using pend assms(4) p(1) by (simp add: startable_def)
  then have "rd_Ready (packageReadiness p (state_by_id ?ps) ls now ws)"
    by (simp add: packageReadiness_ready [OF d])
  with p(1) show ?thesis unfolding ComputeReadiness_eq [OF assms(1)] by auto
qed

lemma demo_valid_states:
  "list_all (\<lambda>p. wp_state p = PackagePending) (wg_packages demo_valid)" "wg_packages demo_valid \<noteq> []"
  unfolding demo_valid_def by code_simp+

theorem some_package_ready_witness:
  "\<exists>r \<in> set (ComputeReadiness (Some demo_valid) [] 0 ''A''). rd_Ready r"
  by (rule some_package_ready [OF demo_valid_wf])
    (use demo_valid_states in \<open>auto simp: list_all_iff neq_Nil_conv\<close>)

text \<open>C9: what a successful claim means. On a store that holds valid graphs and a lease table whose
  active leases expire in other seconds than the claim, with a time to live that is absent or at
  least one second: the package was pending, all its dependencies had succeeded and no foreign
  lease was on its scope; afterwards the package is running and the workspace holds an active,
  unexpired lease on every path, those the request names or else the whole scope of the stored
  package, and on every semantic resource of the request.\<close>

theorem claim_success:
  assumes "store_inv d" "lease_inv t" "all_clear now t"
    and "cr_TTL req \<le> 0 \<or> Second \<le> cr_TTL req \<and> in_range (now + cr_TTL req)"
    and "Claim now d t req = (Inr res, d', t')"
  shows "(\<exists>vg p. LoadValidated d (cr_TaskID req) = Inr vg \<and> p \<in> set (wg_packages vg) \<and> wp_id p = cr_PackageID req
      \<and> wp_state p = PackagePending
      \<and> (\<forall>dep \<in> set (wp_deps p). \<exists>q \<in> set (wg_packages vg). wp_id q = dep \<and> wp_state q = PackageSucceeded)
      \<and> (\<forall>path \<in> set (wp_scope p). \<forall>other. other \<noteq> cr_WorkspaceID req \<longrightarrow>
           \<not> holds now t (''project'', cr_ProjectID req, ''path'', path) other))
    \<and> (\<exists>pkg. GetPackage d (cr_TaskID req) (cr_PackageID req) = Inr pkg
      \<and> (\<forall>path \<in> set (case cr_PathLeases req of Some ps \<Rightarrow> ps | None \<Rightarrow> wp_scope pkg).
           holds now t' (''project'', cr_ProjectID req, ''path'', path) (cr_WorkspaceID req)))
    \<and> (\<forall>s \<in> set (cr_SemanticLeases req).
        holds now t' (''project'', cr_ProjectID req, ''semantic'', s) (cr_WorkspaceID req))
    \<and> (\<exists>p. GetPackage d' (cr_TaskID req) (cr_PackageID req) = Inr p \<and> wp_state p = PackageRunning)"
proof -
  obtain paths ls where c: "claim_check now d t req = Inr paths"
    and a: "acquire_all now req (claim_resources req paths) [] t = (Inr ls, t')"
    and tr: "TransitionPackage now d (cr_TaskID req) (cr_PackageID req) PackageRunning = Inr d'"
    using assms(5) by (auto simp: Claim_def claim_commit_def split: prod.splits sum.splits)
  have f: "fst ` set (claim_resources req paths) \<subseteq> {''path'', ''semantic''}"
    by (auto simp: claim_resources_def)
  have "\<forall>r \<in> set (claim_resources req paths). holds now t' (claim_key req r) (cr_WorkspaceID req)"
    using acquire_all_keeps [OF assms(2,3) good_expiry_ttl [OF assms(4)] f a] by blast
  then have h: "\<forall>path \<in> set paths. holds now t' (''project'', cr_ProjectID req, ''path'', path) (cr_WorkspaceID req)"
    "\<forall>s \<in> set (cr_SemanticLeases req).
        holds now t' (''project'', cr_ProjectID req, ''semantic'', s) (cr_WorkspaceID req)"
    by (auto simp: claim_resources_def claim_key_def)
  have "keys_ok d" using assms(1) by (simp add: store_inv_def)
  from transition_get [OF this tr] have running:
    "\<exists>p. GetPackage d' (cr_TaskID req) (cr_PackageID req) = Inr p \<and> wp_state p = PackageRunning" by fastforce
  obtain vg p pkg where p: "LoadValidated d (cr_TaskID req) = Inr vg" "p \<in> set (wg_packages vg)" "wp_id p = cr_PackageID req"
    "startable p (wg_packages vg) (ListActiveByProject now t (cr_ProjectID req)) now (cr_WorkspaceID req)"
    "GetPackage d (cr_TaskID req) (cr_PackageID req) = Inr pkg"
    "paths = (case cr_PathLeases req of Some ps \<Rightarrow> ps | None \<Rightarrow> wp_scope pkg)"
    using claim_check_ready [OF assms(1) c] by blast
  have "cr_WorkspaceID req \<noteq> ''''" using c by (auto simp: claim_check_def split: if_splits)
  with startable_free [OF p(4)] p h running show ?thesis unfolding startable_def by blast
qed
definition demo_claim :: "string \<Rightarrow> string list \<Rightarrow> claim_request" where
  "demo_claim ws paths = \<lparr>cr_TaskID = ''t'', cr_ProjectID = ''P'', cr_PackageID = ''a'', cr_WorkspaceID = ws,
     cr_PathLeases = Some paths, cr_SemanticLeases = [''design_system''], cr_TTL = 0\<rparr>"

definition demo_work :: work_db where
  "demo_work = foldl store_apply (empty_work_db demo_db) [demo_save]"

lemma demo_work_inv: "store_inv demo_work"
  unfolding demo_work_def by (rule store_inv_history [OF store_inv_empty])

lemma demo_claim_ok: "\<not> isl (fst (Claim 0 demo_work empty_leases (demo_claim ''A'' [''x''])))"
  by code_simp

theorem claim_success_witness:
  "\<exists>res d' t'. Claim 0 demo_work empty_leases (demo_claim ''A'' [''x'']) = (Inr res, d', t')
     \<and> holds 0 t' (''project'', ''P'', ''path'', ''x'') ''A''"
proof -
  from demo_claim_ok obtain res d' t'
    where c: "Claim 0 demo_work empty_leases (demo_claim ''A'' [''x'']) = (Inr res, d', t')"
    by (cases "Claim 0 demo_work empty_leases (demo_claim ''A'' [''x''])";
        cases "fst (Claim 0 demo_work empty_leases (demo_claim ''A'' [''x'']))") auto
  have "all_clear 0 empty_leases" by (simp add: all_clear_def empty_leases_def in_range_def)
  from claim_success [OF demo_work_inv lease_inv_empty this _ c] c
  show ?thesis by (simp add: demo_claim_def)
qed

text \<open>A claim is not atomic. Two workspaces whose requests need no common resource both pass the
  check on the same pending package; both commits then succeed and both callers are told that the
  package is theirs.\<close>

theorem claim_two_winners:
  "let a = (demo_claim ''A'' [])\<lparr>cr_SemanticLeases := []\<rparr>; b = a\<lparr>cr_WorkspaceID := ''B''\<rparr>;
       (ra, d1, t1) = claim_commit 0 demo_work empty_leases a [];
       (rb, d2, t2) = claim_commit 0 d1 t1 b []
   in claim_check 0 demo_work empty_leases a = Inr [] \<and> claim_check 0 demo_work empty_leases b = Inr []
      \<and> is_ok ra \<and> is_ok rb"
  by code_simp

text \<open>A failed claim releases leases it did not take. Workspace A holds a path from earlier work;
  its next claim acquires one path and is refused another, and the compensation releases every
  lease of the workspace, the earlier one included.\<close>

theorem failed_claim_drops_earlier_lease:
  "let t0 = snd (AcquirePath 0 empty_leases ''P'' ''A'' ''old'');
       t1 = snd (AcquirePath 0 t0 ''P'' ''B'' ''taken'');
       (r, d', t') = Claim 0 demo_work t1 (demo_claim ''A'' [''new'', ''taken''])
   in \<not> is_ok r \<and> holds 0 t1 (''project'', ''P'', ''path'', ''old'') ''A''
      \<and> \<not> holds 0 t' (''project'', ''P'', ''path'', ''old'') ''A''"
  by code_simp

end
