(* ===== verification/Pipeline.thy ===== *)
theory Pipeline
  imports Go_Time
begin

text \<open>
  The durable pipeline state machine: \<^verbatim>\<open>src/internal/pipeline/stage.go\<close>, \<^verbatim>\<open>store.go\<close>,
  \<^verbatim>\<open>store_records.go\<close>, the driver of \<^verbatim>\<open>driver.go\<close>, and the restart recovery of
  \<^verbatim>\<open>src/internal/daemon/pipeline_service.go\<close>. A stage, a run state and a failure category are
  strings in Go; a string that is none of the constants is the last constructor of its type. A
  transaction takes the write lock before it reads, so a transaction is one function of the
  database, which is unchanged when the result is \<open>Inl\<close>. A timestamp column is the instant that its
  text encodes; a nullable column is an option. The stage handlers, which the daemon injects, are
  arguments: they return an outcome and the database they leave.
\<close>

section \<open>Stages and run states\<close>

datatype stage =
    StageCompile | StagePlan | StageReady | StageExecute | StageVerify | StageReview | StageFinalize
  | StageRepair | OtherStage string

datatype run_state =
    RunActive | RunCompleted | RunFailed | RunCancelled | RunRepairExhausted | RunWaitingQuota
  | RunBlocked | OtherRunState string

datatype failure_category =
    FailureCompile | FailureTest | FailureStaticAnalysis | FailureReviewRejection
  | FailureAgentUnavailable | FailureAgentAuthUnavailable | FailureProviderTimeout
  | FailureQuotaExceeded | FailureRateLimited | FailureInvalidAgentOutput | FailureNoCodeChanges
  | FailureWorktree | FailureGit | FailureDatabase | FailureLeaseLost | FailureCancelled
  | FailurePolicyRejection | FailureInvariantViolation | FailureInterrupted | OtherFailure string

fun stageTransitions :: "stage \<Rightarrow> stage list" where
  "stageTransitions StageCompile = [StagePlan]"
| "stageTransitions StagePlan = [StageReady]"
| "stageTransitions StageReady = [StageExecute]"
| "stageTransitions StageExecute = [StageVerify, StageRepair]"
| "stageTransitions StageVerify = [StageReview, StageRepair]"
| "stageTransitions StageReview = [StageFinalize, StageRepair]"
| "stageTransitions StageRepair = [StageVerify, StageExecute]"
| "stageTransitions StageFinalize = []"
| "stageTransitions (OtherStage _) = []"

definition IsValidStage :: "stage \<Rightarrow> bool" where
  "IsValidStage s = (case s of OtherStage _ \<Rightarrow> False | _ \<Rightarrow> True)"

definition IsValidRunState :: "run_state \<Rightarrow> bool" where
  "IsValidRunState s = (case s of OtherRunState _ \<Rightarrow> False | _ \<Rightarrow> True)"

definition IsValidFailureCategory :: "failure_category \<Rightarrow> bool" where
  "IsValidFailureCategory c = (case c of OtherFailure _ \<Rightarrow> False | _ \<Rightarrow> True)"

definition IsTerminalRunState :: "run_state \<Rightarrow> bool" where
  "IsTerminalRunState s \<longleftrightarrow> s \<in> {RunCompleted, RunFailed, RunCancelled, RunRepairExhausted}"

definition IsWaitState :: "run_state \<Rightarrow> bool" where
  "IsWaitState s \<longleftrightarrow> s \<in> {RunWaitingQuota, RunBlocked}"

definition CanTransitionStage :: "run_state \<Rightarrow> stage \<Rightarrow> stage \<Rightarrow> bool" where
  "CanTransitionStage runState from to =
     (if IsTerminalRunState runState then False
      else if IsWaitState runState then to = StageReady
      else to \<in> set (stageTransitions from))"

definition CanTransitionRunState :: "run_state \<Rightarrow> run_state \<Rightarrow> bool" where
  "CanTransitionRunState from to =
     (case from of
        RunActive \<Rightarrow> to \<in> {RunWaitingQuota, RunBlocked, RunFailed, RunCancelled, RunRepairExhausted,
          RunCompleted}
      | RunWaitingQuota \<Rightarrow> to \<in> {RunActive, RunFailed, RunCancelled}
      | RunBlocked \<Rightarrow> to \<in> {RunActive, RunFailed, RunCancelled}
      | _ \<Rightarrow> False)"

section \<open>Tables\<close>

datatype record_status = RecordEntered | RecordCompleted | RecordFailed | RecordSkipped

record run =
  rn_TaskID :: string
  rn_ProjectID :: string
  rn_CurrentStage :: stage
  rn_State :: run_state
  rn_StageAttempt :: int
  rn_RepairAttempt :: int
  rn_MaxRepairAttempts :: int
  rn_FailureCategory :: "failure_category option"
  rn_FailureReason :: "string option"
  rn_ResultRef :: "string option"
  rn_CreatedAt :: time
  rn_UpdatedAt :: time

record stage_record =
  sr_ID :: nat
  sr_TaskID :: string
  sr_Stage :: stage
  sr_Attempt :: int
  sr_Status :: record_status
  sr_FailureCategory :: "failure_category option"
  sr_Reason :: string
  sr_EvidenceRef :: "string option"
  sr_EnteredAt :: time
  sr_FinishedAt :: "time option"

text \<open>\<open>pd_tasks\<close> are the ids that the foreign keys refer to.\<close>

record pipe_db =
  pd_tasks :: "string list"
  pd_runs :: "run list"
  pd_records :: "stage_record list"
  pd_record_seq :: nat
  pd_flags :: "(string \<times> string) list"

datatype pipe_error =
    PipeFieldsRequired
  | PipeConstraint
  | ErrRunNotFound
  | ErrConcurrentModification
  | ErrRunTerminal
  | UnknownStage stage
  | UnknownCategory failure_category
  | UnknownRunState run_state
  | ErrInvalidTransition run_state stage stage
  | ErrInvalidRunStateTransition run_state run_state
  | WaitingQuotaStage stage
  | CompletedStage stage
  | RecordMissing
  | ErrEmergencyStopped string
  | HandlerPanic
  | NoRouting stage
  | DriveTaskRequired

definition nullString :: "string \<Rightarrow> string option" where
  "nullString s = (if s = '''' then None else Some s)"

definition record_key :: "stage_record \<Rightarrow> string \<times> stage \<times> int \<times> record_status" where
  "record_key r = (sr_TaskID r, sr_Stage r, sr_Attempt r, sr_Status r)"

text \<open>\<^verbatim>\<open>INSERT ... ON CONFLICT (task_id, stage, attempt, status) DO NOTHING\<close>.\<close>

definition insert_record :: "stage_record \<Rightarrow> pipe_db \<Rightarrow> (pipe_error, pipe_db) result" where
  "insert_record r d =
     (if record_key r \<in> record_key ` set (pd_records d) then Inr d
      else if sr_TaskID r \<notin> set (pd_tasks d) then Inl PipeConstraint
      else Inr (d\<lparr>pd_records := pd_records d @ [r\<lparr>sr_ID := Suc (pd_record_seq d)\<rparr>],
        pd_record_seq := Suc (pd_record_seq d)\<rparr>))"

definition update_run :: "string \<Rightarrow> (run \<Rightarrow> run) \<Rightarrow> pipe_db \<Rightarrow> pipe_db" where
  "update_run taskID f d = d\<lparr>pd_runs := update_where (\<lambda>r. rn_TaskID r = taskID) f (pd_runs d)\<rparr>"

text \<open>Closes the open \<^verbatim>\<open>entered\<close> record of a stage attempt.\<close>

definition close_entry :: "string \<Rightarrow> stage \<Rightarrow> int \<Rightarrow> time \<Rightarrow> pipe_db \<Rightarrow> pipe_db" where
  "close_entry taskID s attempt now d =
     d\<lparr>pd_records := update_where
       (\<lambda>r. record_key r = (taskID, s, attempt, RecordEntered) \<and> sr_FinishedAt r = None)
       (\<lambda>r. r\<lparr>sr_FinishedAt := Some now\<rparr>) (pd_records d)\<rparr>"

definition getRunTx :: "pipe_db \<Rightarrow> string \<Rightarrow> (pipe_error, run) result" where
  "getRunTx d taskID =
     (case find (\<lambda>r. rn_TaskID r = taskID) (pd_runs d) of None \<Rightarrow> Inl ErrRunNotFound | Some r \<Rightarrow> Inr r)"

definition CurrentRun :: "pipe_db \<Rightarrow> string \<Rightarrow> (pipe_error, run) result" where
  "CurrentRun d taskID = getRunTx d taskID"

definition getRecordTx ::
  "pipe_db \<Rightarrow> string \<Rightarrow> stage \<Rightarrow> int \<Rightarrow> record_status \<Rightarrow> (pipe_error, stage_record) result" where
  "getRecordTx d taskID s attempt status =
     (case find (\<lambda>r. record_key r = (taskID, s, attempt, status)) (pd_records d) of
        None \<Rightarrow> Inl RecordMissing
      | Some r \<Rightarrow> Inr r)"

definition recordExistsTx :: "pipe_db \<Rightarrow> string \<Rightarrow> stage \<Rightarrow> int \<Rightarrow> record_status \<Rightarrow> bool" where
  "recordExistsTx d taskID s attempt status \<longleftrightarrow>
     count_where (\<lambda>r. record_key r = (taskID, s, attempt, status)) (pd_records d) > 0"

definition ensureEnteredTx ::
  "pipe_db \<Rightarrow> string \<Rightarrow> stage \<Rightarrow> int \<Rightarrow> string \<Rightarrow> string \<Rightarrow> time
     \<Rightarrow> (pipe_error, stage_record \<times> pipe_db) result" where
  "ensureEnteredTx d taskID s attempt reason evidenceRef now =
     (case insert_record \<lparr>sr_ID = 0, sr_TaskID = taskID, sr_Stage = s, sr_Attempt = attempt,
         sr_Status = RecordEntered, sr_FailureCategory = None, sr_Reason = reason,
         sr_EvidenceRef = nullString evidenceRef, sr_EnteredAt = now, sr_FinishedAt = None\<rparr> d of
        Inl e \<Rightarrow> Inl e
      | Inr d' \<Rightarrow>
          (case getRecordTx d' taskID s attempt RecordEntered of
             Inl e \<Rightarrow> Inl e
           | Inr r \<Rightarrow> Inr (r, d')))"

definition failed_record ::
  "string \<Rightarrow> stage \<Rightarrow> int \<Rightarrow> failure_category \<Rightarrow> string \<Rightarrow> time \<Rightarrow> stage_record" where
  "failed_record taskID s attempt category reason now =
     \<lparr>sr_ID = 0, sr_TaskID = taskID, sr_Stage = s, sr_Attempt = attempt, sr_Status = RecordFailed,
      sr_FailureCategory = Some category, sr_Reason = reason, sr_EvidenceRef = None,
      sr_EnteredAt = now, sr_FinishedAt = Some now\<rparr>"

section \<open>The store\<close>

definition DefaultMaxRepairAttempts :: int where
  "DefaultMaxRepairAttempts = 3"

definition new_run :: "string \<Rightarrow> string \<Rightarrow> int \<Rightarrow> time \<Rightarrow> run" where
  "new_run taskID projectID maxRepair now =
     \<lparr>rn_TaskID = taskID, rn_ProjectID = projectID, rn_CurrentStage = StageCompile, rn_State = RunActive,
      rn_StageAttempt = 1, rn_RepairAttempt = 0, rn_MaxRepairAttempts = maxRepair,
      rn_FailureCategory = None, rn_FailureReason = None, rn_ResultRef = None, rn_CreatedAt = now,
      rn_UpdatedAt = now\<rparr>"

definition CreateRun ::
  "time \<Rightarrow> pipe_db \<Rightarrow> string \<Rightarrow> string \<Rightarrow> int \<Rightarrow> (pipe_error, run \<times> pipe_db) result" where
  "CreateRun now d taskID projectID maxRepairAttempts =
     (if taskID = '''' \<or> projectID = '''' then Inl PipeFieldsRequired
      else
        let maxRepair = (if maxRepairAttempts \<le> 0 then DefaultMaxRepairAttempts else maxRepairAttempts)
        in if taskID \<notin> rn_TaskID ` set (pd_runs d) \<and> taskID \<notin> set (pd_tasks d) then Inl PipeConstraint
           else
             let d1 = (if taskID \<in> rn_TaskID ` set (pd_runs d) then d
                   else d\<lparr>pd_runs := pd_runs d @ [new_run taskID projectID maxRepair now]\<rparr>)
             in case insert_record \<lparr>sr_ID = 0, sr_TaskID = taskID, sr_Stage = StageCompile,
                    sr_Attempt = 1, sr_Status = RecordEntered, sr_FailureCategory = None,
                    sr_Reason = '''', sr_EvidenceRef = None, sr_EnteredAt = now,
                    sr_FinishedAt = None\<rparr> d1 of
                  Inl e \<Rightarrow> Inl e
                | Inr d2 \<Rightarrow> (case CurrentRun d2 taskID of Inl e \<Rightarrow> Inl e | Inr r \<Rightarrow> Inr (r, d2)))"

text \<open>\<^verbatim>\<open>ORDER BY created_at, task_id\<close>: the creation times compare as texts.\<close>

definition ListActiveRuns :: "pipe_db \<Rightarrow> run list" where
  "ListActiveRuns d = sort_key (\<lambda>r. rfc3339nano (rn_CreatedAt r)) (sort_key rn_TaskID
     (filter (\<lambda>r. rn_State r \<in> {RunActive, RunWaitingQuota, RunBlocked}) (pd_runs d)))"

definition recoverLostRace ::
  "time \<Rightarrow> pipe_db \<Rightarrow> string \<Rightarrow> stage \<Rightarrow> string \<Rightarrow> string \<Rightarrow> (pipe_error, stage_record \<times> pipe_db) result" where
  "recoverLostRace now d taskID toStage reason evidenceRef =
     (case CurrentRun d taskID of
        Inl e \<Rightarrow> Inl e
      | Inr cur \<Rightarrow>
          if rn_CurrentStage cur \<noteq> toStage then Inl ErrConcurrentModification
          else ensureEnteredTx d taskID toStage (rn_StageAttempt cur) reason evidenceRef now)"

definition store_Transition ::
  "time \<Rightarrow> pipe_db \<Rightarrow> string \<Rightarrow> stage \<Rightarrow> string \<Rightarrow> string \<Rightarrow> (pipe_error, stage_record \<times> pipe_db) result" where
  "store_Transition now d taskID toStage reason evidenceRef =
     (if \<not> IsValidStage toStage then Inl (UnknownStage toStage)
      else case getRunTx d taskID of
        Inl e \<Rightarrow> Inl e
      | Inr r \<Rightarrow>
          if rn_CurrentStage r = toStage
          then ensureEnteredTx d taskID toStage (rn_StageAttempt r) reason evidenceRef now
          else if \<not> CanTransitionStage (rn_State r) (rn_CurrentStage r) toStage
          then Inl (ErrInvalidTransition (rn_State r) (rn_CurrentStage r) toStage)
          else
            let newState = (if IsWaitState (rn_State r) then RunActive else rn_State r);
                guard = (\<lambda>q. rn_TaskID q = taskID \<and> rn_CurrentStage q = rn_CurrentStage r
                  \<and> rn_State q = rn_State r)
            in if count_where guard (pd_runs d) = 0
               then recoverLostRace now d taskID toStage reason evidenceRef
               else ensureEnteredTx
                 (d\<lparr>pd_runs := update_where guard (\<lambda>q. q\<lparr>rn_CurrentStage := toStage, rn_State := newState,
                     rn_UpdatedAt := now\<rparr>) (pd_runs d)\<rparr>)
                 taskID toStage (rn_StageAttempt r) reason evidenceRef now)"

definition finishStage ::
  "time \<Rightarrow> pipe_db \<Rightarrow> string \<Rightarrow> stage \<Rightarrow> record_status \<Rightarrow> failure_category option \<Rightarrow> string \<Rightarrow> string
     \<Rightarrow> (pipe_error, pipe_db) result" where
  "finishStage now d taskID s status category reason evidenceRef =
     (if \<not> IsValidStage s then Inl (UnknownStage s)
      else case getRunTx d taskID of
        Inl e \<Rightarrow> Inl e
      | Inr r \<Rightarrow>
          if rn_CurrentStage r \<noteq> s
          then (if recordExistsTx d taskID s (rn_StageAttempt r) status then Inr d
                else Inl (ErrInvalidTransition (rn_State r) (rn_CurrentStage r) s))
          else if recordExistsTx d taskID s (rn_StageAttempt r) status then Inr d
          else if IsTerminalRunState (rn_State r) then Inl ErrRunTerminal
          else case insert_record \<lparr>sr_ID = 0, sr_TaskID = taskID, sr_Stage = s,
                 sr_Attempt = rn_StageAttempt r, sr_Status = status, sr_FailureCategory = category,
                 sr_Reason = reason, sr_EvidenceRef = nullString evidenceRef, sr_EnteredAt = now,
                 sr_FinishedAt = Some now\<rparr> (close_entry taskID s (rn_StageAttempt r) now d) of
            Inl e \<Rightarrow> Inl e
          | Inr d1 \<Rightarrow>
              if status = RecordFailed
              then let guard = (\<lambda>q. rn_TaskID q = taskID \<and> rn_CurrentStage q = s)
                   in if count_where guard (pd_runs d1) = 0 then Inl ErrConcurrentModification
                      else Inr (d1\<lparr>pd_runs := update_where guard (\<lambda>q. q\<lparr>rn_FailureCategory := category,
                        rn_FailureReason := Some reason, rn_UpdatedAt := now\<rparr>) (pd_runs d1)\<rparr>)
              else Inr d1)"

definition CompleteStage :: "time \<Rightarrow> pipe_db \<Rightarrow> string \<Rightarrow> stage \<Rightarrow> string \<Rightarrow> (pipe_error, pipe_db) result" where
  "CompleteStage now d taskID s evidenceRef = finishStage now d taskID s RecordCompleted None '''' evidenceRef"

definition FailStage ::
  "time \<Rightarrow> pipe_db \<Rightarrow> string \<Rightarrow> stage \<Rightarrow> failure_category \<Rightarrow> string \<Rightarrow> string \<Rightarrow> (pipe_error, pipe_db) result" where
  "FailStage now d taskID s category reason evidenceRef =
     (if \<not> IsValidFailureCategory category then Inl (UnknownCategory category)
      else finishStage now d taskID s RecordFailed (Some category) reason evidenceRef)"

definition IncrementStageAttempt :: "time \<Rightarrow> pipe_db \<Rightarrow> string \<Rightarrow> (pipe_error, int \<times> pipe_db) result" where
  "IncrementStageAttempt now d taskID =
     (case getRunTx d taskID of
        Inl e \<Rightarrow> Inl e
      | Inr r \<Rightarrow>
          if IsTerminalRunState (rn_State r) then Inl ErrRunTerminal
          else Inr (rn_StageAttempt r + 1, update_run taskID (\<lambda>q. q\<lparr>rn_StageAttempt := rn_StageAttempt q + 1,
            rn_UpdatedAt := now\<rparr>) d))"

definition IncrementRepairAttempt ::
  "time \<Rightarrow> pipe_db \<Rightarrow> string \<Rightarrow> (pipe_error, bool \<times> int \<times> pipe_db) result" where
  "IncrementRepairAttempt now d taskID =
     (case getRunTx d taskID of
        Inl e \<Rightarrow> Inl e
      | Inr r \<Rightarrow>
          if IsTerminalRunState (rn_State r) then Inl ErrRunTerminal
          else if rn_RepairAttempt r \<ge> rn_MaxRepairAttempts r then Inr (False, rn_RepairAttempt r, d)
          else
            let guard = (\<lambda>q. rn_TaskID q = taskID \<and> rn_RepairAttempt q = rn_RepairAttempt r)
            in if count_where guard (pd_runs d) = 0 then Inl ErrConcurrentModification
               else Inr (True, rn_RepairAttempt r + 1,
                 d\<lparr>pd_runs := update_where guard (\<lambda>q. q\<lparr>rn_RepairAttempt := rn_RepairAttempt q + 1,
                   rn_UpdatedAt := now\<rparr>) (pd_runs d)\<rparr>))"

definition MarkInterrupted :: "time \<Rightarrow> pipe_db \<Rightarrow> string \<Rightarrow> string \<Rightarrow> (pipe_error, pipe_db) result" where
  "MarkInterrupted now d taskID reason0 =
     (let reason = (if reason0 = '''' then ''run interrupted'' else reason0)
      in case getRunTx d taskID of
           Inl e \<Rightarrow> Inl e
         | Inr r \<Rightarrow>
             if IsTerminalRunState (rn_State r) then Inr d
             else insert_record
               (failed_record taskID (rn_CurrentStage r) (rn_StageAttempt r) FailureInterrupted reason now)
               (close_entry taskID (rn_CurrentStage r) (rn_StageAttempt r) now d))"

record run_state_change =
  ch_To :: run_state
  ch_Reason :: string
  ch_ResultRef :: string

definition SetRunState :: "time \<Rightarrow> pipe_db \<Rightarrow> string \<Rightarrow> run_state_change \<Rightarrow> (pipe_error, pipe_db) result" where
  "SetRunState now d taskID change =
     (if \<not> IsValidRunState (ch_To change) then Inl (UnknownRunState (ch_To change))
      else case getRunTx d taskID of
        Inl e \<Rightarrow> Inl e
      | Inr r \<Rightarrow>
          if rn_State r = ch_To change then Inr d
          else if \<not> CanTransitionRunState (rn_State r) (ch_To change)
          then Inl (ErrInvalidRunStateTransition (rn_State r) (ch_To change))
          else if ch_To change = RunWaitingQuota \<and> rn_CurrentStage r \<noteq> StageExecute
            \<and> rn_CurrentStage r \<noteq> StageVerify
          then Inl (WaitingQuotaStage (rn_CurrentStage r))
          else if ch_To change = RunCompleted \<and> rn_CurrentStage r \<noteq> StageFinalize
          then Inl (CompletedStage (rn_CurrentStage r))
          else
            let guard = (\<lambda>q. rn_TaskID q = taskID \<and> rn_State q = rn_State r)
            in if count_where guard (pd_runs d) = 0 then Inl ErrConcurrentModification
               else
                 let d1 = d\<lparr>pd_runs := update_where guard (\<lambda>q. q\<lparr>rn_State := ch_To change,
                       rn_UpdatedAt := now\<rparr>) (pd_runs d)\<rparr>
                 in if ch_To change \<in> {RunFailed, RunCancelled, RunRepairExhausted} \<and> ch_Reason change \<noteq> ''''
                    then Inr (update_run taskID (\<lambda>q. q\<lparr>rn_FailureCategory :=
                        (if ch_To change = RunCancelled then Some FailureCancelled else rn_FailureCategory r),
                      rn_FailureReason := Some (ch_Reason change)\<rparr>) d1)
                    else if ch_To change = RunCompleted \<and> ch_ResultRef change \<noteq> ''''
                    then Inr (update_run taskID (\<lambda>q. q\<lparr>rn_ResultRef := Some (ch_ResultRef change)\<rparr>) d1)
                    else Inr d1)"

definition Cancel :: "time \<Rightarrow> pipe_db \<Rightarrow> string \<Rightarrow> string \<Rightarrow> (pipe_error, pipe_db) result" where
  "Cancel now d taskID reason0 =
     (let reason = (if reason0 = '''' then ''cancelled'' else reason0)
      in case getRunTx d taskID of
           Inl e \<Rightarrow> Inl e
         | Inr r \<Rightarrow>
             if IsTerminalRunState (rn_State r) then Inr d
             else case insert_record
                 (failed_record taskID (rn_CurrentStage r) (rn_StageAttempt r) FailureCancelled reason now)
                 (close_entry taskID (rn_CurrentStage r) (rn_StageAttempt r) now d) of
               Inl e \<Rightarrow> Inl e
             | Inr d1 \<Rightarrow>
                 let guard = (\<lambda>q. rn_TaskID q = taskID \<and> rn_State q = rn_State r)
                 in if count_where guard (pd_runs d1) = 0 then Inl ErrConcurrentModification
                    else Inr (d1\<lparr>pd_runs := update_where guard (\<lambda>q. q\<lparr>rn_State := RunCancelled,
                      rn_FailureCategory := Some FailureCancelled, rn_FailureReason := Some reason,
                      rn_UpdatedAt := now\<rparr>) (pd_runs d1)\<rparr>))"

definition set_flag :: "string \<Rightarrow> string \<Rightarrow> (string \<times> string) list \<Rightarrow> (string \<times> string) list" where
  "set_flag k v flags =
     (if k \<in> fst ` set flags then map (\<lambda>(j, w). if j = k then (j, v) else (j, w)) flags
      else flags @ [(k, v)])"

definition SetEmergencyStop :: "pipe_db \<Rightarrow> bool \<Rightarrow> string \<Rightarrow> pipe_db" where
  "SetEmergencyStop d on reason =
     (let value = (if on then ''on'' else ''off''); reason' = (if on then reason else '''')
      in d\<lparr>pd_flags := set_flag ''emergency_stop_reason'' reason' (set_flag ''emergency_stop'' value (pd_flags d))\<rparr>)"

definition controlFlag :: "pipe_db \<Rightarrow> string \<Rightarrow> string" where
  "controlFlag d key = (case map_of (pd_flags d) key of None \<Rightarrow> '''' | Some v \<Rightarrow> v)"

definition EmergencyStop :: "pipe_db \<Rightarrow> bool \<times> string" where
  "EmergencyStop d =
     (if controlFlag d ''emergency_stop'' \<noteq> ''on'' then (False, '''')
      else (True, controlFlag d ''emergency_stop_reason''))"

definition StageRecords :: "pipe_db \<Rightarrow> string \<Rightarrow> stage_record list" where
  "StageRecords d taskID = sort_key sr_ID (filter (\<lambda>r. sr_TaskID r = taskID) (pd_records d))"

end
