(* ===== verification/Pipeline_Valid.thy ===== *)
theory Pipeline_Valid
  imports Pipeline
begin

text \<open>
  Properties of the pipeline store. The run row of a task is abstracted to a cursor (stage, state, attempt and
  repair counters), a machine that steps under five actions; its interpretation as a lifecycle gives that
  terminal runs are absorbing. Every operation of the store is shown to keep the invariant of the tables
  and to refine the actions it requests, and so does every history of operations.
\<close>

section \<open>The run as an abstract machine\<close>

record cursor =
  cu_stage :: stage
  cu_state :: run_state
  cu_attempt :: int
  cu_repair :: int
  cu_max :: int

datatype cursor_action = Move stage | SetState run_state | BumpAttempt | BumpRepair | CancelRun

fun cursor_step :: "cursor \<Rightarrow> cursor_action \<Rightarrow> cursor option" where
  "cursor_step c (Move s) =
     (if IsValidStage s \<and> s \<noteq> cu_stage c \<and> CanTransitionStage (cu_state c) (cu_stage c) s
      then Some (c\<lparr>cu_stage := s, cu_state := (if IsWaitState (cu_state c) then RunActive else cu_state c)\<rparr>)
      else None)"
| "cursor_step c (SetState x) =
     (if IsValidRunState x \<and> CanTransitionRunState (cu_state c) x
        \<and> (x = RunWaitingQuota \<longrightarrow> cu_stage c = StageExecute \<or> cu_stage c = StageVerify)
        \<and> (x = RunCompleted \<longrightarrow> cu_stage c = StageFinalize)
      then Some (c\<lparr>cu_state := x\<rparr>) else None)"
| "cursor_step c BumpAttempt =
     (if IsTerminalRunState (cu_state c) then None else Some (c\<lparr>cu_attempt := cu_attempt c + 1\<rparr>))"
| "cursor_step c BumpRepair =
     (if IsTerminalRunState (cu_state c) \<or> cu_repair c \<ge> cu_max c then None
      else Some (c\<lparr>cu_repair := cu_repair c + 1\<rparr>))"
| "cursor_step c CancelRun =
     (if IsTerminalRunState (cu_state c) then None else Some (c\<lparr>cu_state := RunCancelled\<rparr>))"

definition cursor_ok :: "cursor \<Rightarrow> bool" where
  "cursor_ok c \<longleftrightarrow> IsValidStage (cu_stage c) \<and> IsValidRunState (cu_state c)
     \<and> 0 \<le> cu_repair c \<and> cu_repair c \<le> cu_max c \<and> 1 \<le> cu_attempt c
     \<and> (cu_state c = RunCompleted \<longrightarrow> cu_stage c = StageFinalize)
     \<and> (cu_state c = RunWaitingQuota \<longrightarrow> cu_stage c = StageExecute \<or> cu_stage c = StageVerify)"

definition cursor_final :: "cursor \<Rightarrow> bool" where
  "cursor_final c \<longleftrightarrow> IsTerminalRunState (cu_state c)"

lemmas run_state_defs = IsTerminalRunState_def IsWaitState_def IsValidRunState_def CanTransitionRunState_def
  CanTransitionStage_def

lemma cursor_step_ok: "cursor_ok c \<Longrightarrow> cursor_step c a = Some c' \<Longrightarrow> cursor_ok c'"
proof (cases a)
  case (Move s)
  assume "cursor_ok c" "cursor_step c a = Some c'"
  moreover from this Move have "\<not> IsTerminalRunState (cu_state c)"
    by (auto simp: CanTransitionStage_def split: if_splits)
  ultimately show ?thesis using Move
    by (cases "IsWaitState (cu_state c)")
      (auto simp: cursor_ok_def IsTerminalRunState_def IsWaitState_def IsValidRunState_def split: if_splits)
qed (auto simp: cursor_ok_def IsTerminalRunState_def IsValidRunState_def split: if_splits)

interpretation run_lifecycle: lifecycle cursor_step cursor_ok cursor_final
proof
  fix s a t assume "cursor_ok s" "cursor_step s a = Some t"
  then show "cursor_ok t" by (rule cursor_step_ok)
next
  fix s a assume "cursor_final s"
  then show "cursor_step s a = None"
    by (cases a) (auto simp: cursor_final_def run_state_defs split: run_state.splits)
qed

section \<open>The tables under the operations\<close>

definition run_of :: "pipe_db \<Rightarrow> string \<Rightarrow> run option" where
  "run_of d t = find (\<lambda>r. rn_TaskID r = t) (pd_runs d)"

definition cursor_of :: "run \<Rightarrow> cursor" where
  "cursor_of r = \<lparr>cu_stage = rn_CurrentStage r, cu_state = rn_State r, cu_attempt = rn_StageAttempt r,
     cu_repair = rn_RepairAttempt r, cu_max = rn_MaxRepairAttempts r\<rparr>"

definition cursor_at :: "pipe_db \<Rightarrow> string \<Rightarrow> cursor option" where
  "cursor_at d t = map_option cursor_of (run_of d t)"

definition pipe_inv :: "pipe_db \<Rightarrow> bool" where
  "pipe_inv d \<longleftrightarrow> distinct (map rn_TaskID (pd_runs d)) \<and> distinct (map record_key (pd_records d))
     \<and> (\<forall>t c. cursor_at d t = Some c \<longrightarrow> cursor_ok c \<and> t \<in> set (pd_tasks d))"

lemma getRunTx_run_of: "getRunTx d t = (case run_of d t of None \<Rightarrow> Inl ErrRunNotFound | Some r \<Rightarrow> Inr r)"
  by (simp add: getRunTx_def run_of_def)

lemma run_of_TaskID: "run_of d t = Some r \<Longrightarrow> rn_TaskID r = t \<and> r \<in> set (pd_runs d)"
  unfolding run_of_def by (drule find_Some_mem) simp

text \<open>An update of the rows of one task, guarded or not, seen through \<open>run_of\<close>.\<close>

lemma find_run_update:
  assumes "\<And>q. rn_TaskID (f q) = rn_TaskID q"
  shows "find (\<lambda>r. rn_TaskID r = u) (update_where G f rows)
    = map_option (\<lambda>r. if G r then f r else r) (find (\<lambda>r. rn_TaskID r = u) rows)"
  using assms by (induction rows) auto

lemma run_of_update:
  assumes f: "\<And>q. rn_TaskID (f q) = rn_TaskID q" and G: "\<And>q. G q \<Longrightarrow> rn_TaskID q = t"
    and r: "run_of d t = Some r" "G r"
  shows "run_of (d\<lparr>pd_runs := update_where G f (pd_runs d)\<rparr>) = (run_of d)(t \<mapsto> f r)"
proof
  fix u
  show "run_of (d\<lparr>pd_runs := update_where G f (pd_runs d)\<rparr>) u = ((run_of d)(t \<mapsto> f r)) u"
  proof (cases "u = t")
    case True
    with r show ?thesis by (simp add: run_of_def find_run_update [OF f])
  next
    case False
    then have "map_option (\<lambda>r. if G r then f r else r) (run_of d u) = run_of d u"
      using G run_of_TaskID [of d u] by (cases "run_of d u") auto
    with False show ?thesis by (simp add: run_of_def find_run_update [OF f])
  qed
qed

text \<open>Databases that differ in stage records (with unique keys) and flags only.\<close>

definition same_runs :: "pipe_db \<Rightarrow> pipe_db \<Rightarrow> bool" where
  "same_runs d d' \<longleftrightarrow> pd_runs d' = pd_runs d \<and> pd_tasks d' = pd_tasks d \<and> pd_flags d' = pd_flags d
     \<and> (distinct (map record_key (pd_records d)) \<longrightarrow> distinct (map record_key (pd_records d')))"

lemma same_runs_refl [simp]: "same_runs d d"
  by (simp add: same_runs_def)

lemma same_runs_trans: "same_runs d d' \<Longrightarrow> same_runs d' d'' \<Longrightarrow> same_runs d d''"
  by (simp add: same_runs_def)

lemma same_runs_view: "same_runs d d' \<Longrightarrow> run_of d' = run_of d \<and> cursor_at d' = cursor_at d"
  by (auto simp: same_runs_def run_of_def cursor_at_def fun_eq_iff)

lemma same_runs_inv: "same_runs d d' \<Longrightarrow> pipe_inv d \<Longrightarrow> pipe_inv d'"
  using same_runs_view [of d d'] by (auto simp: pipe_inv_def same_runs_def)

lemma record_key_id [simp]: "record_key (r\<lparr>sr_ID := i\<rparr>) = record_key r"
  by (simp add: record_key_def)

lemma insert_record_same: "insert_record r d = Inr d' \<Longrightarrow> same_runs d d'"
  by (auto simp: insert_record_def same_runs_def split: if_splits)

lemma insert_record_ok: "sr_TaskID r \<in> set (pd_tasks d) \<Longrightarrow> \<exists>d'. insert_record r d = Inr d'"
  by (simp add: insert_record_def)

lemma insert_record_mem: "insert_record r d = Inr d' \<Longrightarrow> record_key r \<in> record_key ` set (pd_records d')"
  by (auto simp: insert_record_def split: if_splits)

lemma close_entry_same: "same_runs d (close_entry t s a now d)"
proof -
  have "map record_key (pd_records (close_entry t s a now d)) = map record_key (pd_records d)"
    unfolding close_entry_def by (simp, rule map_update_where) (simp add: record_key_def)
  then show ?thesis by (simp add: same_runs_def close_entry_def)
qed

lemma ensureEntered_same: "ensureEnteredTx d t s a reason ev now = Inr (rec, d') \<Longrightarrow> same_runs d d'"
  by (auto simp: ensureEnteredTx_def split: sum.splits dest: insert_record_same)

lemma ensureEntered_ok:
  assumes "t \<in> set (pd_tasks d)"
  shows "\<exists>rec d'. ensureEnteredTx d t s a reason ev now = Inr (rec, d')"
proof -
  let ?r = "\<lparr>sr_ID = 0, sr_TaskID = t, sr_Stage = s, sr_Attempt = a, sr_Status = RecordEntered,
    sr_FailureCategory = None, sr_Reason = reason, sr_EvidenceRef = nullString ev, sr_EnteredAt = now,
    sr_FinishedAt = None\<rparr>"
  obtain d1 where d1: "insert_record ?r d = Inr d1" using insert_record_ok [of ?r d] assms by auto
  have k: "record_key ?r = (t, s, a, RecordEntered)" by (simp add: record_key_def)
  from insert_record_mem [OF d1] obtain q where "q \<in> set (pd_records d1)" "record_key q = (t, s, a, RecordEntered)"
    unfolding k by auto
  then obtain rec where "getRecordTx d1 t s a RecordEntered = Inr rec"
    by (cases "find (\<lambda>r. record_key r = (t, s, a, RecordEntered)) (pd_records d1)")
      (auto simp: getRecordTx_def find_None_all)
  with d1 show ?thesis by (simp add: ensureEnteredTx_def)
qed

lemma inv_task: "pipe_inv d \<Longrightarrow> run_of d t = Some r \<Longrightarrow> t \<in> set (pd_tasks d) \<and> cursor_ok (cursor_of r)"
  by (auto simp: pipe_inv_def cursor_at_def)

lemma pipe_inv_update:
  assumes inv: "pipe_inv d" and r: "run_of d t = Some r" and v: "run_of d' = (run_of d)(t \<mapsto> r')"
    and ok: "cursor_ok (cursor_of r')" and same: "map rn_TaskID (pd_runs d') = map rn_TaskID (pd_runs d)"
    "pd_records d' = pd_records d" "pd_tasks d' = pd_tasks d"
  shows "pipe_inv d'"
proof -
  have "t \<in> set (pd_tasks d)" using inv_task [OF inv r] by blast
  with inv v ok same show ?thesis
    by (auto simp: pipe_inv_def cursor_at_def split: if_splits)
qed

section \<open>Every operation refines the machine\<close>

definition keep :: "pipe_db \<Rightarrow> (pipe_error, pipe_db) result \<Rightarrow> pipe_db" where
  "keep d x = (case x of Inl _ \<Rightarrow> d | Inr d' \<Rightarrow> d')"

definition refines :: "pipe_db \<Rightarrow> string \<Rightarrow> cursor_action list \<Rightarrow> pipe_db \<Rightarrow> bool" where
  "refines d t as d' \<longleftrightarrow> pipe_inv d' \<and> pd_tasks d' = pd_tasks d \<and> pd_flags d' = pd_flags d
     \<and> cursor_at d' = (cursor_at d)(t := map_option (\<lambda>c. run_steps cursor_step c as) (cursor_at d t))"

lemma refines_same: "pipe_inv d \<Longrightarrow> same_runs d d' \<Longrightarrow> refines d t [] d'"
  using same_runs_inv [of d d'] same_runs_view [of d d']
  by (auto simp: refines_def same_runs_def fun_eq_iff option.map_ident)

lemma refines_refl: "pipe_inv d \<Longrightarrow> refines d t [] d"
  by (rule refines_same) simp_all

lemma run_steps_append: "run_steps st c (as @ bs) = run_steps st (run_steps st c as) bs"
  by (induction as arbitrary: c) simp_all

lemma refines_trans: "refines d t as d' \<Longrightarrow> refines d' t bs d'' \<Longrightarrow> refines d t (as @ bs) d''"
  by (auto simp: refines_def fun_eq_iff option.map_comp comp_def run_steps_append)

lemma refines_blocked:
  "pipe_inv d \<Longrightarrow> (\<And>r. run_of d t = Some r \<Longrightarrow> cursor_step (cursor_of r) a = None) \<Longrightarrow> refines d t [a] d"
  by (cases "run_of d t") (auto simp: refines_def cursor_at_def try_step_def fun_eq_iff)

text \<open>A guarded update of the run of \<open>t\<close> that the machine allows.\<close>

lemma refines_update:
  assumes inv: "pipe_inv d" and r: "run_of d t = Some r" and st: "cursor_step (cursor_of r) a = Some (cursor_of (f r))"
    and f: "\<And>q. rn_TaskID (f q) = rn_TaskID q" and G: "\<And>q. G q \<Longrightarrow> rn_TaskID q = t" "G r"
  shows "refines d t [a] (d\<lparr>pd_runs := update_where G f (pd_runs d)\<rparr>)" (is "refines d t [a] ?d")
proof -
  have v: "run_of ?d = (run_of d)(t \<mapsto> f r)" by (rule run_of_update) (use f G r in auto)
  have "cursor_ok (cursor_of (f r))" using inv_task [OF inv r] cursor_step_ok [OF _ st] by blast
  moreover have "map rn_TaskID (pd_runs ?d) = map rn_TaskID (pd_runs d)"
    using map_update_where [of G rn_TaskID f "pd_runs d"] f by simp
  ultimately have "pipe_inv ?d" using v by (intro pipe_inv_update [OF inv r v]) simp_all
  with v r st show ?thesis by (auto simp: refines_def cursor_at_def try_step_def fun_eq_iff)
qed

text \<open>An update of the run of \<open>t\<close> that keeps the cursor.\<close>

lemma refines_update_same:
  assumes inv: "pipe_inv d" and r: "run_of d t = Some r" and st: "cursor_of (f r) = cursor_of r"
    and f: "\<And>q. rn_TaskID (f q) = rn_TaskID q" and G: "\<And>q. G q \<Longrightarrow> rn_TaskID q = t" "G r"
  shows "refines d t [] (d\<lparr>pd_runs := update_where G f (pd_runs d)\<rparr>)" (is "refines d t [] ?d")
proof -
  have v: "run_of ?d = (run_of d)(t \<mapsto> f r)" by (rule run_of_update) (use f G r in auto)
  have "cursor_ok (cursor_of (f r))" using inv_task [OF inv r] st by simp
  moreover have "map rn_TaskID (pd_runs ?d) = map rn_TaskID (pd_runs d)"
    using map_update_where [of G rn_TaskID f "pd_runs d"] f by simp
  ultimately have "pipe_inv ?d" using v by (intro pipe_inv_update [OF inv r v]) simp_all
  with v r st show ?thesis by (auto simp: refines_def cursor_at_def fun_eq_iff)
qed

lemma count_guard: "run_of d t = Some r \<Longrightarrow> G r \<Longrightarrow> count_where G (pd_runs d) \<noteq> 0"
  using run_of_TaskID [of d t r] by (auto simp: count_where_0)

lemma Transition_refines:
  assumes inv: "pipe_inv d"
  shows "refines d t [Move s] (keep d (map_sum id snd (store_Transition now d t s reason ev)))"
proof (cases "run_of d t")
  case None
  then have "\<exists>e. store_Transition now d t s reason ev = Inl e"
    by (simp add: store_Transition_def getRunTx_run_of)
  then show ?thesis using refines_blocked [OF inv, of t "Move s"] None by (auto simp: keep_def)
next
  case (Some r)
  note task = inv_task [OF inv Some, THEN conjunct1]
  let ?G = "\<lambda>q. rn_TaskID q = t \<and> rn_CurrentStage q = rn_CurrentStage r \<and> rn_State q = rn_State r"
  let ?st = "if IsWaitState (rn_State r) then RunActive else rn_State r"
  let ?f = "\<lambda>q. q\<lparr>rn_CurrentStage := s, rn_State := ?st, rn_UpdatedAt := now\<rparr>"
  let ?d = "d\<lparr>pd_runs := update_where ?G ?f (pd_runs d)\<rparr>"
  have G: "?G r" using run_of_TaskID [OF Some] by simp
  consider (bad) "\<not> IsValidStage s" | (same) "IsValidStage s" "rn_CurrentStage r = s"
    | (no) "IsValidStage s" "rn_CurrentStage r \<noteq> s" "\<not> CanTransitionStage (rn_State r) (rn_CurrentStage r) s"
    | (yes) "IsValidStage s" "rn_CurrentStage r \<noteq> s" "CanTransitionStage (rn_State r) (rn_CurrentStage r) s"
    by blast
  then show ?thesis
  proof cases
    case bad
    then show ?thesis using refines_blocked [OF inv, of t "Move s"] Some
      by (simp add: store_Transition_def keep_def)
  next
    case same
    obtain rec d' where e: "ensureEnteredTx d t s (rn_StageAttempt r) reason ev now = Inr (rec, d')"
      using ensureEntered_ok [OF task] by blast
    have "refines d t [] d'" by (rule refines_same [OF inv ensureEntered_same [OF e]])
    moreover have "refines d t [Move s] d"
      using same by (intro refines_blocked [OF inv]) (auto simp: Some cursor_of_def)
    ultimately have "refines d t [Move s] d'" using refines_trans by fastforce
    with e same Some show ?thesis by (simp add: store_Transition_def getRunTx_run_of keep_def)
  next
    case no
    then show ?thesis using refines_blocked [OF inv, of t "Move s"] Some
      by (simp add: store_Transition_def getRunTx_run_of keep_def cursor_of_def)
  next
    case yes
    have step: "refines d t [Move s] ?d"
      by (rule refines_update [OF inv Some]) (use yes G in \<open>auto simp: cursor_of_def\<close>)
    then have inv': "pipe_inv ?d" by (simp add: refines_def)
    obtain rec d' where e: "ensureEnteredTx ?d t s (rn_StageAttempt r) reason ev now = Inr (rec, d')"
      using ensureEntered_ok [of t ?d s "rn_StageAttempt r" reason ev now] task by fastforce
    have "refines ?d t [] d'" by (rule refines_same [OF inv' ensureEntered_same [OF e]])
    with step have "refines d t [Move s] d'" using refines_trans by fastforce
    with e yes Some count_guard [of d t r ?G, OF Some G] show ?thesis
      by (simp add: store_Transition_def getRunTx_run_of keep_def Let_def)
  qed
qed

lemma finishStage_refines:
  assumes inv: "pipe_inv d"
  shows "refines d t [] (keep d (finishStage now d t s status cat reason ev))"
proof (cases "finishStage now d t s status cat reason ev")
  case (Inl e)
  then show ?thesis using refines_refl [OF inv] by (simp add: keep_def)
next
  case (Inr d')
  then obtain r where r: "run_of d t = Some r"
    by (auto simp: finishStage_def getRunTx_run_of split: if_splits option.splits)
  let ?c = "close_entry t s (rn_StageAttempt r) now d"
  let ?G = "\<lambda>q. rn_TaskID q = t \<and> rn_CurrentStage q = s"
  let ?f = "\<lambda>q. q\<lparr>rn_FailureCategory := cat, rn_FailureReason := Some reason, rn_UpdatedAt := now\<rparr>"
  show ?thesis
  proof (cases "d' = d")
    case True
    with Inr refines_refl [OF inv] show ?thesis by (simp add: keep_def)
  next
    case False
    then obtain q d1 where i: "insert_record q ?c = Inr d1" and G: "rn_CurrentStage r = s"
      and d': "d' = d1 \<or> d' = d1\<lparr>pd_runs := update_where ?G ?f (pd_runs d1)\<rparr>"
      using Inr r by (auto simp: finishStage_def getRunTx_run_of Let_def split: if_splits sum.splits)
    have same: "same_runs d d1"
      by (rule same_runs_trans [OF close_entry_same insert_record_same [OF i]])
    then have r1: "run_of d1 t = Some r" using same_runs_view r by simp
    have inv1: "pipe_inv d1" by (rule same_runs_inv [OF same inv])
    have "refines d1 t [] (d1\<lparr>pd_runs := update_where ?G ?f (pd_runs d1)\<rparr>)"
      by (rule refines_update_same [OF inv1 r1]) (use G run_of_TaskID [OF r] in \<open>auto simp: cursor_of_def\<close>)
    with refines_trans [OF refines_same [OF inv same]] refines_same [OF inv same] d'
    show ?thesis unfolding Inr by (auto simp: keep_def)
  qed
qed

lemma Complete_refines:
  "pipe_inv d \<Longrightarrow> refines d t [] (keep d (CompleteStage now d t s ev))"
  by (simp add: CompleteStage_def finishStage_refines)

lemma Fail_refines:
  "pipe_inv d \<Longrightarrow> refines d t [] (keep d (FailStage now d t s cat reason ev))"
  using refines_refl [of d t] by (auto simp: FailStage_def finishStage_refines keep_def [of d "Inl _"])

lemma update_run_alt: "update_run t f d = d\<lparr>pd_runs := update_where (\<lambda>r. rn_TaskID r = t) f (pd_runs d)\<rparr>"
  by (simp add: update_run_def)

lemma BumpAttempt_refines:
  assumes inv: "pipe_inv d"
  shows "refines d t [BumpAttempt] (keep d (map_sum id snd (IncrementStageAttempt now d t)))"
proof (cases "run_of d t")
  case None
  then show ?thesis using refines_blocked [OF inv, of t BumpAttempt]
    by (simp add: IncrementStageAttempt_def getRunTx_run_of keep_def)
next
  case (Some r)
  show ?thesis
  proof (cases "IsTerminalRunState (rn_State r)")
    case True
    with Some refines_blocked [OF inv, of t BumpAttempt] show ?thesis
      by (simp add: IncrementStageAttempt_def getRunTx_run_of keep_def cursor_of_def)
  next
    case False
    have "refines d t [BumpAttempt] (update_run t (\<lambda>q. q\<lparr>rn_StageAttempt := rn_StageAttempt q + 1,
        rn_UpdatedAt := now\<rparr>) d)"
      unfolding update_run_alt
      by (rule refines_update [OF inv Some]) (use False run_of_TaskID [OF Some] in \<open>auto simp: cursor_of_def\<close>)
    with False Some show ?thesis by (simp add: IncrementStageAttempt_def getRunTx_run_of keep_def)
  qed
qed

lemma BumpRepair_refines:
  assumes inv: "pipe_inv d"
  shows "refines d t [BumpRepair] (keep d (map_sum id (snd \<circ> snd) (IncrementRepairAttempt now d t)))"
proof (cases "run_of d t")
  case None
  then show ?thesis using refines_blocked [OF inv, of t BumpRepair]
    by (simp add: IncrementRepairAttempt_def getRunTx_run_of keep_def)
next
  case (Some r)
  let ?G = "\<lambda>q. rn_TaskID q = t \<and> rn_RepairAttempt q = rn_RepairAttempt r"
  let ?f = "\<lambda>q. q\<lparr>rn_RepairAttempt := rn_RepairAttempt q + 1, rn_UpdatedAt := now\<rparr>"
  have G: "?G r" using run_of_TaskID [OF Some] by simp
  show ?thesis
  proof (cases "IsTerminalRunState (rn_State r) \<or> rn_RepairAttempt r \<ge> rn_MaxRepairAttempts r")
    case True
    with Some refines_blocked [OF inv, of t BumpRepair] show ?thesis
      by (auto simp: IncrementRepairAttempt_def getRunTx_run_of keep_def cursor_of_def)
  next
    case False
    have "refines d t [BumpRepair] (d\<lparr>pd_runs := update_where ?G ?f (pd_runs d)\<rparr>)"
      by (rule refines_update [OF inv Some]) (use False G in \<open>auto simp: cursor_of_def\<close>)
    with False Some count_guard [of d t r ?G, OF Some G] show ?thesis
      by (simp add: IncrementRepairAttempt_def getRunTx_run_of keep_def Let_def)
  qed
qed

lemma Interrupt_refines:
  assumes inv: "pipe_inv d"
  shows "refines d t [] (keep d (MarkInterrupted now d t reason))"
proof (cases "MarkInterrupted now d t reason")
  case (Inr d')
  then have "same_runs d d'"
    by (auto simp: MarkInterrupted_def getRunTx_run_of Let_def split: option.splits if_splits
        dest!: insert_record_same intro: same_runs_trans [OF close_entry_same])
  with Inr inv show ?thesis by (simp add: keep_def refines_same)
qed (simp add: keep_def refines_refl [OF inv])

lemma CanTransitionRunState_irrefl: "\<not> CanTransitionRunState x x"
  by (cases x) (simp_all add: CanTransitionRunState_def)

lemma SetRunState_refines:
  assumes inv: "pipe_inv d"
  shows "refines d t [SetState (ch_To ch)] (keep d (SetRunState now d t ch))"
proof (cases "run_of d t")
  case None
  then show ?thesis using refines_blocked [OF inv, of t "SetState (ch_To ch)"]
    by (simp add: SetRunState_def getRunTx_run_of keep_def)
next
  case (Some r)
  let ?G = "\<lambda>q. rn_TaskID q = t \<and> rn_State q = rn_State r"
  let ?f = "\<lambda>q. q\<lparr>rn_State := ch_To ch, rn_UpdatedAt := now\<rparr>"
  let ?d = "d\<lparr>pd_runs := update_where ?G ?f (pd_runs d)\<rparr>"
  have G: "?G r" using run_of_TaskID [OF Some] by simp
  show ?thesis
  proof (cases "cursor_step (cursor_of r) (SetState (ch_To ch))")
    case None
    then have "keep d (SetRunState now d t ch) = d"
      using Some CanTransitionRunState_irrefl
      by (auto simp: SetRunState_def getRunTx_run_of keep_def cursor_of_def split: if_splits)
    with None Some refines_blocked [OF inv, of t "SetState (ch_To ch)"] show ?thesis by simp
  next
    case (Some c)
    note r = \<open>run_of d t = Some r\<close>
    have step: "refines d t [SetState (ch_To ch)] ?d"
      by (rule refines_update [OF inv r]) (use Some G in \<open>auto simp: cursor_of_def split: if_splits\<close>)
    then have inv1: "pipe_inv ?d" by (simp add: refines_def)
    have r1: "run_of ?d t = Some (?f r)"
      using run_of_update [of ?f ?G t d r] r G by simp
    have tail: "refines ?d t [] (update_run t g ?d)"
      if "\<And>q. rn_TaskID (g q) = rn_TaskID q" "\<And>q. cursor_of (g q) = cursor_of q" for g
      unfolding update_run_alt
      by (rule refines_update_same [OF inv1 r1]) (use that run_of_TaskID [OF r] in auto)
    have ne: "rn_State r \<noteq> ch_To ch" "\<not> (ch_To ch = RunCompleted \<and> rn_CurrentStage r \<noteq> StageFinalize)"
      "\<not> (ch_To ch = RunWaitingQuota \<and> rn_CurrentStage r \<noteq> StageExecute \<and> rn_CurrentStage r \<noteq> StageVerify)"
      "IsValidRunState (ch_To ch)" "CanTransitionRunState (rn_State r) (ch_To ch)"
      using Some CanTransitionRunState_irrefl by (auto simp: cursor_of_def split: if_splits)
    let ?A = "ch_To ch \<in> {RunFailed, RunCancelled, RunRepairExhausted} \<and> ch_Reason ch \<noteq> ''''"
    let ?B = "ch_To ch = RunCompleted \<and> ch_ResultRef ch \<noteq> ''''"
    let ?g1 = "\<lambda>q. q\<lparr>rn_FailureCategory := (if ch_To ch = RunCancelled then Some FailureCancelled
        else rn_FailureCategory r), rn_FailureReason := Some (ch_Reason ch)\<rparr>"
    let ?g2 = "\<lambda>q. q\<lparr>rn_ResultRef := Some (ch_ResultRef ch)\<rparr>"
    let ?fin = "if ?A then update_run t ?g1 ?d else if ?B then update_run t ?g2 ?d else ?d"
    have e: "SetRunState now d t ch = Inr ?fin"
      unfolding SetRunState_def getRunTx_run_of r Let_def option.case sum.case
      using ne count_guard [of d t r ?G, OF r G] by (simp only: if_False if_True not_True_eq_False if_distrib [of Inr])
    have "refines ?d t [] (update_run t ?g1 ?d)" by (rule tail) (simp_all add: cursor_of_def)
    moreover have "refines ?d t [] (update_run t ?g2 ?d)" by (rule tail) (simp_all add: cursor_of_def)
    ultimately have "refines ?d t [] ?fin" using refines_refl [OF inv1] by presburger
    from refines_trans [OF step this] show ?thesis unfolding e by (simp only: keep_def sum.case append_Nil2)
  qed
qed

lemma Cancel_refines:
  assumes inv: "pipe_inv d"
  shows "refines d t [CancelRun] (keep d (Cancel now d t reason0))"
proof (cases "run_of d t")
  case None
  then show ?thesis using refines_blocked [OF inv, of t CancelRun]
    by (simp add: Cancel_def getRunTx_run_of keep_def Let_def)
next
  case (Some r)
  show ?thesis
  proof (cases "IsTerminalRunState (rn_State r)")
    case True
    with Some refines_blocked [OF inv, of t CancelRun] show ?thesis
      by (simp add: Cancel_def getRunTx_run_of keep_def cursor_of_def Let_def)
  next
    case False
    let ?reason = "if reason0 = '''' then ''cancelled'' else reason0"
    let ?c = "close_entry t (rn_CurrentStage r) (rn_StageAttempt r) now d"
    let ?rec = "failed_record t (rn_CurrentStage r) (rn_StageAttempt r) FailureCancelled ?reason now"
    let ?G = "\<lambda>q. rn_TaskID q = t \<and> rn_State q = rn_State r"
    let ?f = "\<lambda>q. q\<lparr>rn_State := RunCancelled, rn_FailureCategory := Some FailureCancelled,
        rn_FailureReason := Some ?reason, rn_UpdatedAt := now\<rparr>"
    have "sr_TaskID ?rec \<in> set (pd_tasks ?c)"
      using inv_task [OF inv Some] by (simp add: failed_record_def close_entry_def)
    then obtain d1 where i: "insert_record ?rec ?c = Inr d1" using insert_record_ok by blast
    have same: "same_runs d d1" by (rule same_runs_trans [OF close_entry_same insert_record_same [OF i]])
    have inv1: "pipe_inv d1" and r1: "run_of d1 t = Some r"
      using same_runs_inv [OF same inv] same_runs_view [OF same] Some by simp_all
    have G: "?G r" using run_of_TaskID [OF Some] by simp
    have "refines d1 t [CancelRun] (d1\<lparr>pd_runs := update_where ?G ?f (pd_runs d1)\<rparr>)"
      by (rule refines_update [OF inv1 r1]) (use False G in \<open>auto simp: cursor_of_def\<close>)
    from refines_trans [OF refines_same [OF inv same] this] i False Some count_guard [of d1 t r ?G, OF r1 G]
    show ?thesis by (simp add: Cancel_def getRunTx_run_of keep_def Let_def)
  qed
qed

lemma new_run_TaskID [simp]: "rn_TaskID (new_run t p m now) = t"
  by (simp add: new_run_def)

lemma new_run_ok: "0 < m \<Longrightarrow> cursor_ok (cursor_of (new_run t p m now))"
  by (simp add: cursor_ok_def cursor_of_def new_run_def IsValidStage_def IsValidRunState_def)

lemma CreateRun_keeps:
  assumes inv: "pipe_inv d"
  shows "pipe_inv (keep d (map_sum id snd (CreateRun now d u p m)))
    \<and> (\<forall>t c. cursor_at d t = Some c \<longrightarrow> cursor_at (keep d (map_sum id snd (CreateRun now d u p m))) t = Some c)"
proof (cases "CreateRun now d u p m")
  case (Inl e)
  with inv show ?thesis by (simp add: keep_def)
next
  case (Inr x)
  let ?m = "if m \<le> 0 then DefaultMaxRepairAttempts else m"
  let ?new = "d\<lparr>pd_runs := pd_runs d @ [new_run u p ?m now]\<rparr>"
  let ?d1 = "if u \<in> rn_TaskID ` set (pd_runs d) then d else ?new"
  obtain q where i: "insert_record q ?d1 = Inr (snd x)"
    and t: "u \<in> rn_TaskID ` set (pd_runs d) \<or> u \<in> set (pd_tasks d)"
    using Inr by (auto simp: CreateRun_def Let_def split: if_splits sum.splits)
  have "pipe_inv ?d1 \<and> (\<forall>t c. cursor_at d t = Some c \<longrightarrow> cursor_at ?d1 t = Some c)"
  proof (cases "u \<in> rn_TaskID ` set (pd_runs d)")
    case False
    have app: "find P (xs @ [y]) = (case find P xs of None \<Rightarrow> if P y then Some y else None | Some z \<Rightarrow> Some z)"
      for P and xs :: "run list" and y by (induction xs) auto
    have v: "run_of ?new t = (case run_of d t of None \<Rightarrow> if u = t then Some (new_run u p ?m now) else None | Some z \<Rightarrow> Some z)"
      for t by (simp add: run_of_def app)
    have "0 < ?m" by (simp add: DefaultMaxRepairAttempts_def)
    note ok = new_run_ok [OF this, of u p now]
    have keep: "cursor_at ?new t = Some c" if "cursor_at d t = Some c" for t c
      using that by (auto simp: cursor_at_def v)
    have "cursor_ok c \<and> t \<in> set (pd_tasks d)" if "cursor_at ?new t = Some c" for t c
    proof (cases "run_of d t")
      case None
      with that have "t = u" "c = cursor_of (new_run u p ?m now)" by (auto simp: cursor_at_def v split: if_splits)
      with ok t False show ?thesis by simp
    next
      case (Some z)
      with that inv show ?thesis by (auto simp: cursor_at_def v pipe_inv_def)
    qed
    moreover have "distinct (map rn_TaskID (pd_runs ?new))" using inv False by (simp add: pipe_inv_def)
    ultimately have "pipe_inv ?new" using inv by (simp add: pipe_inv_def)
    with keep False show ?thesis by simp
  qed (use inv in simp)
  moreover have "same_runs ?d1 (snd x)" by (rule insert_record_same [OF i])
  ultimately show ?thesis using Inr same_runs_inv same_runs_view by (auto simp: keep_def)
qed

section \<open>Histories\<close>

datatype pipe_op =
    PCreate time string string int
  | PTransition time string stage string string
  | PComplete time string stage string
  | PFail time string stage failure_category string string
  | PBumpAttempt time string
  | PBumpRepair time string
  | PInterrupt time string string
  | PSetState time string run_state_change
  | PCancel time string string
  | PEstop bool string

fun pipe_apply :: "pipe_db \<Rightarrow> pipe_op \<Rightarrow> pipe_db" where
  "pipe_apply d (PCreate now t p m) = keep d (map_sum id snd (CreateRun now d t p m))"
| "pipe_apply d (PTransition now t s reason ev) =
     keep d (map_sum id snd (store_Transition now d t s reason ev))"
| "pipe_apply d (PComplete now t s ev) = keep d (CompleteStage now d t s ev)"
| "pipe_apply d (PFail now t s cat reason ev) = keep d (FailStage now d t s cat reason ev)"
| "pipe_apply d (PBumpAttempt now t) = keep d (map_sum id snd (IncrementStageAttempt now d t))"
| "pipe_apply d (PBumpRepair now t) = keep d (map_sum id (snd \<circ> snd) (IncrementRepairAttempt now d t))"
| "pipe_apply d (PInterrupt now t reason) = keep d (MarkInterrupted now d t reason)"
| "pipe_apply d (PSetState now t ch) = keep d (SetRunState now d t ch)"
| "pipe_apply d (PCancel now t reason) = keep d (Cancel now d t reason)"
| "pipe_apply d (PEstop on reason) = SetEmergencyStop d on reason"

text \<open>The actions that an operation requests of the machine of task \<open>t\<close>.\<close>

fun actions_on :: "string \<Rightarrow> pipe_op \<Rightarrow> cursor_action list" where
  "actions_on t (PTransition _ u s _ _) = (if u = t then [Move s] else [])"
| "actions_on t (PBumpAttempt _ u) = (if u = t then [BumpAttempt] else [])"
| "actions_on t (PBumpRepair _ u) = (if u = t then [BumpRepair] else [])"
| "actions_on t (PSetState _ u ch) = (if u = t then [SetState (ch_To ch)] else [])"
| "actions_on t (PCancel _ u _) = (if u = t then [CancelRun] else [])"
| "actions_on t _ = []"

lemma refines_apply:
  assumes "refines d u as d'" "cursor_at d t = Some c"
  shows "pipe_inv d' \<and> cursor_at d' t = Some (run_steps cursor_step c (if u = t then as else []))"
  using assms by (auto simp: refines_def)

lemma pipe_apply_refines:
  assumes inv: "pipe_inv d" and c: "cursor_at d t = Some c"
  shows "pipe_inv (pipe_apply d op) \<and>
    cursor_at (pipe_apply d op) t = Some (run_steps cursor_step c (actions_on t op))"
proof (cases op)
  case (PCreate now u p m)
  then show ?thesis using CreateRun_keeps [OF inv, of now u p m] c by simp
next
  case (PTransition now u s reason ev)
  then show ?thesis using refines_apply [OF Transition_refines [OF inv, of u s now reason ev] c] by (auto split: if_splits)
next
  case (PComplete now u s ev)
  then show ?thesis using refines_apply [OF Complete_refines [OF inv, of u now s ev] c] by simp
next
  case (PFail now u s cat reason ev)
  then show ?thesis using refines_apply [OF Fail_refines [OF inv, of u now s cat reason ev] c] by simp
next
  case (PBumpAttempt now u)
  then show ?thesis using refines_apply [OF BumpAttempt_refines [OF inv, of u now] c] by (auto split: if_splits)
next
  case (PBumpRepair now u)
  then show ?thesis using refines_apply [OF BumpRepair_refines [OF inv, of u now] c] by (auto split: if_splits)
next
  case (PInterrupt now u reason)
  then show ?thesis using refines_apply [OF Interrupt_refines [OF inv, of u now reason] c] by simp
next
  case (PSetState now u ch)
  then show ?thesis using refines_apply [OF SetRunState_refines [OF inv, of u ch now] c] by (auto split: if_splits)
next
  case (PCancel now u reason)
  then show ?thesis using refines_apply [OF Cancel_refines [OF inv, of u now reason] c] by (auto split: if_splits)
next
  case (PEstop on reason)
  then show ?thesis using inv c by (simp add: SetEmergencyStop_def Let_def pipe_inv_def cursor_at_def run_of_def)
qed

lemma pipe_apply_inv: "pipe_inv d \<Longrightarrow> pipe_inv (pipe_apply d op)"
proof (cases op)
  case (PCreate now u p m)
  then show "pipe_inv d \<Longrightarrow> pipe_inv (pipe_apply d op)" using CreateRun_keeps by simp
next
  case (PEstop on reason)
  then show "pipe_inv d \<Longrightarrow> pipe_inv (pipe_apply d op)"
    by (simp add: SetEmergencyStop_def Let_def pipe_inv_def cursor_at_def run_of_def)
qed (simp_all, (metis refines_def Transition_refines Complete_refines Fail_refines BumpAttempt_refines
      BumpRepair_refines Interrupt_refines SetRunState_refines Cancel_refines)+)

lemma history_refines:
  "pipe_inv d \<Longrightarrow> cursor_at d t = Some c \<Longrightarrow>
     cursor_at (foldl pipe_apply d ops) t = Some (run_steps cursor_step c (concat (map (actions_on t) ops)))"
proof (induction ops arbitrary: d c)
  case (Cons op ops)
  from pipe_apply_refines [OF Cons.prems, of op] Cons.IH [of "pipe_apply d op"] show ?case
    by (simp add: run_steps_append)
qed simp

lemma history_inv: "pipe_inv d \<Longrightarrow> pipe_inv (foldl pipe_apply d ops)"
  by (induction ops arbitrary: d) (simp_all add: pipe_apply_inv)

definition empty_pipe :: "string list \<Rightarrow> pipe_db" where
  "empty_pipe tasks = \<lparr>pd_tasks = tasks, pd_runs = [], pd_records = [], pd_record_seq = 0, pd_flags = []\<rparr>"

lemma empty_pipe_inv [simp]: "pipe_inv (empty_pipe tasks)"
  by (simp add: pipe_inv_def empty_pipe_def cursor_at_def run_of_def)

section \<open>Properties\<close>

text \<open>C3: The pipeline store refines the abstract run machine. Take any history of store operations (created
  runs, transitions, completed and failed stages, attempt counters, interruptions, state changes,
  cancellations, emergency stops; for any tasks and in any order, failing ones included) that leaves task
  \<open>t\<close> with a run at cursor \<open>c\<close>; after any further history the cursor of \<open>t\<close> is exactly where the machine of
  its own requested actions takes \<open>c\<close>: a refused action changes nothing, and no operation on another task and
  no stage record moves it.
\<close>

theorem pipeline_refines_machine:
  assumes "cursor_at (foldl pipe_apply (empty_pipe tasks) ops1) t = Some c"
  shows "cursor_at (foldl pipe_apply (empty_pipe tasks) (ops1 @ ops2)) t
    = Some (run_steps cursor_step c (concat (map (actions_on t) ops2)))"
  using history_refines [OF history_inv [OF empty_pipe_inv] assms] by simp

theorem pipeline_refines_machine_witness:
  "cursor_at (foldl pipe_apply (empty_pipe [''t'']) ([PCreate 0 ''t'' ''p'' 2]
      @ [PTransition 0 ''t'' StagePlan '''' '''', PTransition 0 ''t'' StageReview '''' '''', PBumpRepair 0 ''t''])) ''t''
    = Some (run_steps cursor_step
        \<lparr>cu_stage = StageCompile, cu_state = RunActive, cu_attempt = 1, cu_repair = 0, cu_max = 2\<rparr>
        (concat (map (actions_on ''t'') [PTransition 0 ''t'' StagePlan '''' '''',
          PTransition 0 ''t'' StageReview '''' '''', PBumpRepair 0 ''t''])))"
  by (rule pipeline_refines_machine) code_simp

text \<open>Terminal runs are absorbing: once the run of a task is completed, failed, cancelled or out of repairs,
  no later operation of any history moves its stage, state or counters, not even creating the run again.
\<close>

theorem terminal_run_absorbing:
  assumes "cursor_at (foldl pipe_apply (empty_pipe tasks) ops1) t = Some c" "IsTerminalRunState (cu_state c)"
  shows "cursor_at (foldl pipe_apply (empty_pipe tasks) (ops1 @ ops2)) t = Some c"
  using history_refines [OF history_inv [OF empty_pipe_inv] assms(1)] run_lifecycle.run_final [of c] assms(2)
  by (simp add: cursor_final_def)

theorem terminal_run_absorbing_witness:
  "cursor_at (foldl pipe_apply (empty_pipe [''t'']) ([PCreate 0 ''t'' ''p'' 2, PCancel 0 ''t'' '''']
      @ [PTransition 0 ''t'' StagePlan '''' '''', PCreate 0 ''t'' ''p'' 5])) ''t''
    = Some \<lparr>cu_stage = StageCompile, cu_state = RunCancelled, cu_attempt = 1, cu_repair = 0, cu_max = 2\<rparr>"
  by (rule terminal_run_absorbing) code_simp+

text \<open>Bounds of a run row after any history on an empty database: the stage and the state are known ones, the
  repair counter never exceeds the budget of the run, the attempt counter starts at one, a completed run
  is at finalize, a run that waits for quota is at execute or verify, the task of the run exists, and the rows
  of both tables have distinct keys.
\<close>

theorem run_bounds:
  assumes "cursor_at (foldl pipe_apply (empty_pipe tasks) ops) t = Some c"
  shows "IsValidStage (cu_stage c) \<and> IsValidRunState (cu_state c) \<and> 0 \<le> cu_repair c \<and> cu_repair c \<le> cu_max c
    \<and> 1 \<le> cu_attempt c \<and> (cu_state c = RunCompleted \<longrightarrow> cu_stage c = StageFinalize)
    \<and> (cu_state c = RunWaitingQuota \<longrightarrow> cu_stage c = StageExecute \<or> cu_stage c = StageVerify)
    \<and> t \<in> set (pd_tasks (foldl pipe_apply (empty_pipe tasks) ops))
    \<and> distinct (map rn_TaskID (pd_runs (foldl pipe_apply (empty_pipe tasks) ops)))
    \<and> distinct (map record_key (pd_records (foldl pipe_apply (empty_pipe tasks) ops)))"
  using history_inv [OF empty_pipe_inv, of tasks ops] assms unfolding pipe_inv_def cursor_ok_def by blast

theorem run_bounds_witness:
  "0 \<le> cu_repair \<lparr>cu_stage = StageCompile, cu_state = RunActive, cu_attempt = 1, cu_repair = 1, cu_max = 1\<rparr>"
proof -
  have "cursor_at (foldl pipe_apply (empty_pipe [''t'']) [PCreate 0 ''t'' ''p'' 1, PBumpRepair 0 ''t'', PBumpRepair 0 ''t'']) ''t''
      = Some \<lparr>cu_stage = StageCompile, cu_state = RunActive, cu_attempt = 1, cu_repair = 1, cu_max = 1\<rparr>"
    by code_simp
  from run_bounds [OF this] show ?thesis by blast
qed

text \<open>A transition of a waiting run to ready resumes it, except when the run waits at ready already: there the
  call reports success with the entered record of the stage and leaves the run waiting.
\<close>

theorem wait_at_ready_not_resumed:
  assumes "cursor_at (foldl pipe_apply (empty_pipe tasks) ops) t = Some c" "IsWaitState (cu_state c)"
  shows "\<exists>rec d'. store_Transition now (foldl pipe_apply (empty_pipe tasks) ops) t StageReady reason ev = Inr (rec, d')
    \<and> cursor_at d' t = Some (if cu_stage c = StageReady then c
        else c\<lparr>cu_stage := StageReady, cu_state := RunActive\<rparr>)"
  (is "\<exists>rec d'. store_Transition now ?d t StageReady reason ev = _ \<and> _")
proof -
  have inv: "pipe_inv ?d" by (rule history_inv [OF empty_pipe_inv])
  from assms(1) obtain r where r: "run_of ?d t = Some r" "c = cursor_of r" by (auto simp: cursor_at_def)
  let ?G = "\<lambda>q. rn_TaskID q = t \<and> rn_CurrentStage q = rn_CurrentStage r \<and> rn_State q = rn_State r"
  have "?G r" using run_of_TaskID [OF r(1)] by simp
  note g = count_guard [of ?d t r ?G, OF r(1) this]
  have "CanTransitionStage (rn_State r) s StageReady" for s
    using assms(2) by (auto simp: r(2) cursor_of_def run_state_defs)
  with g r(1) inv_task [OF inv r(1)] obtain rec d' where
    e: "store_Transition now ?d t StageReady reason ev = Inr (rec, d')"
    using ensureEntered_ok [of t] by (fastforce simp: store_Transition_def getRunTx_run_of IsValidStage_def Let_def)
  from Transition_refines [OF inv, of t StageReady now reason ev] assms e
  have "cursor_at d' t = Some (run_steps cursor_step c [Move StageReady])"
    by (simp add: keep_def refines_def)
  with e assms(2) show ?thesis
    by (auto simp: try_step_def IsValidStage_def run_state_defs)
qed

theorem wait_at_ready_not_resumed_witness:
  "\<exists>rec d'. store_Transition 0 (foldl pipe_apply (empty_pipe [''t'']) [PCreate 0 ''t'' ''p'' 1,
        PTransition 0 ''t'' StagePlan '''' '''', PTransition 0 ''t'' StageReady '''' '''',
        PSetState 0 ''t'' \<lparr>ch_To = RunBlocked, ch_Reason = '''', ch_ResultRef = ''''\<rparr>]) ''t'' StageReady '''' '''' = Inr (rec, d')
    \<and> cursor_at d' ''t''
      = Some \<lparr>cu_stage = StageReady, cu_state = RunBlocked, cu_attempt = 1, cu_repair = 0, cu_max = 1\<rparr>"
proof -
  have "cursor_at (foldl pipe_apply (empty_pipe [''t'']) [PCreate 0 ''t'' ''p'' 1,
        PTransition 0 ''t'' StagePlan '''' '''', PTransition 0 ''t'' StageReady '''' '''',
        PSetState 0 ''t'' \<lparr>ch_To = RunBlocked, ch_Reason = '''', ch_ResultRef = ''''\<rparr>]) ''t''
      = Some \<lparr>cu_stage = StageReady, cu_state = RunBlocked, cu_attempt = 1, cu_repair = 0, cu_max = 1\<rparr>"
    by code_simp
  from wait_at_ready_not_resumed [OF this, of 0 "''''" "''''"] show ?thesis by (simp add: IsWaitState_def)
qed


end
