(* ===== verification/Pipeline_Driver.thy ===== *)
theory Pipeline_Driver
  imports Pipeline
begin

text \<open>
  The driver loop of \<^verbatim>\<open>src/internal/pipeline/driver.go\<close> and the restart recovery of
  \<^verbatim>\<open>src/internal/daemon/pipeline_service.go\<close>. A handler is a function from the run context and the
  database to an outcome and the database it leaves; a panic is an outcome. The loop of \<open>Drive\<close> takes
  fuel, one unit per iteration; the theory of its properties shows how much is enough. The caller's
  context is not cancelled; the per-task mutex is the sequential reading of one \<open>Drive\<close>.
\<close>

section \<open>Handlers\<close>

text \<open>An error is a \<open>StageError\<close> (category, reason, wrapped error) or any other error.\<close>

datatype handler_error =
    StageError failure_category string "string option"
  | PlainError string

datatype 'a handler_out =
    HOk 'a
  | HError handler_error
  | HPanic

record run_context =
  rc_TaskID :: string
  rc_ProjectID :: string
  rc_Stage :: stage
  rc_Attempt :: int
  rc_RepairAttempt :: int

type_synonym 'a handler = "run_context \<Rightarrow> pipe_db \<Rightarrow> 'a handler_out \<times> pipe_db"

record handlers =
  h_Compile :: "string handler"
  h_Plan :: "string handler"
  h_Ready :: "string handler"
  h_Finalize :: "string handler"
  h_Execute :: "(string \<times> int) handler"
  h_Verify :: "(bool \<times> string \<times> failure_category) handler"
  h_Review :: "(bool \<times> string) handler"
  h_Repair :: "string handler"

fun category_string :: "failure_category \<Rightarrow> string" where
  "category_string FailureCompile = ''compile_failure''"
| "category_string FailureTest = ''test_failure''"
| "category_string FailureStaticAnalysis = ''static_analysis_failure''"
| "category_string FailureReviewRejection = ''review_rejection''"
| "category_string FailureAgentUnavailable = ''agent_unavailable''"
| "category_string FailureAgentAuthUnavailable = ''agent_auth_unavailable''"
| "category_string FailureProviderTimeout = ''provider_timeout''"
| "category_string FailureQuotaExceeded = ''quota_exceeded''"
| "category_string FailureRateLimited = ''rate_limited''"
| "category_string FailureInvalidAgentOutput = ''invalid_agent_output''"
| "category_string FailureNoCodeChanges = ''no_code_changes''"
| "category_string FailureWorktree = ''worktree_failure''"
| "category_string FailureGit = ''git_failure''"
| "category_string FailureDatabase = ''database_failure''"
| "category_string FailureLeaseLost = ''lease_lost''"
| "category_string FailureCancelled = ''cancelled''"
| "category_string FailurePolicyRejection = ''policy_rejection''"
| "category_string FailureInvariantViolation = ''invariant_violation''"
| "category_string FailureInterrupted = ''interrupted''"
| "category_string (OtherFailure s) = s"

definition stage_error_string :: "failure_category \<Rightarrow> string \<Rightarrow> string option \<Rightarrow> string" where
  "stage_error_string c reason err =
     (if reason \<noteq> '''' then ''pipeline: stage failed ('' @ category_string c @ ''): '' @ reason
      else case err of
        Some e \<Rightarrow> e
      | None \<Rightarrow> ''pipeline: stage failed ('' @ category_string c @ '')'')"

definition categorizeError :: "handler_error \<Rightarrow> failure_category \<times> string" where
  "categorizeError e =
     (case e of
        StageError c reason err \<Rightarrow>
          let r = (if reason = '''' then stage_error_string c reason err else reason)
          in if IsValidFailureCategory c then (c, r) else (FailureInvariantViolation, r)
      | PlainError s \<Rightarrow> (FailureInvariantViolation, s))"

section \<open>Routing\<close>

text \<open>
  A routing step returns \<open>Inl\<close> of the error with the database left behind, for the mutations
  before a failing one stay committed, or \<open>Inr\<close> of the database.
\<close>

type_synonym routed = "pipe_error option \<times> pipe_db"

definition lift_db :: "pipe_db \<Rightarrow> (pipe_error, pipe_db) result \<Rightarrow> routed" where
  "lift_db d r = (case r of Inl e \<Rightarrow> (Some e, d) | Inr d' \<Rightarrow> (None, d'))"

definition then_db :: "routed \<Rightarrow> (pipe_db \<Rightarrow> routed) \<Rightarrow> routed" where
  "then_db r f = (case r of (Some e, d) \<Rightarrow> (Some e, d) | (None, d) \<Rightarrow> f d)"

definition complete_then ::
  "time \<Rightarrow> run_context \<Rightarrow> string \<Rightarrow> (pipe_db \<Rightarrow> routed) \<Rightarrow> pipe_db \<Rightarrow> routed" where
  "complete_then now rc evidenceRef f d =
     then_db (lift_db d (CompleteStage now d (rc_TaskID rc) (rc_Stage rc) evidenceRef)) f"

definition move_to :: "time \<Rightarrow> run_context \<Rightarrow> stage \<Rightarrow> string \<Rightarrow> pipe_db \<Rightarrow> routed" where
  "move_to now rc s reason d =
     lift_db d (map_sum id snd (store_Transition now d (rc_TaskID rc) s reason ''''))"

definition failStage :: "time \<Rightarrow> run_context \<Rightarrow> handler_error \<Rightarrow> pipe_db \<Rightarrow> routed" where
  "failStage now rc herr d =
     (case categorizeError herr of (category, reason) \<Rightarrow>
        then_db (lift_db d (FailStage now d (rc_TaskID rc) (rc_Stage rc) category reason '''')) (\<lambda>d1.
          if (case CurrentRun d1 (rc_TaskID rc) of Inl _ \<Rightarrow> False | Inr r \<Rightarrow> IsTerminalRunState (rn_State r))
          then (Some ErrRunTerminal, d1)
          else if category = FailureInterrupted then (Some (ErrEmergencyStopped reason), d1)
          else
            let to1 = (if (category = FailureQuotaExceeded \<or> category = FailureRateLimited)
                    \<and> (rc_Stage rc = StageExecute \<or> rc_Stage rc = StageVerify)
                  then RunWaitingQuota else RunFailed);
                to = (if category = FailureLeaseLost \<and> rc_Stage rc = StageReady then RunBlocked else to1)
            in lift_db d1 (SetRunState now d1 (rc_TaskID rc)
                 \<lparr>ch_To = to, ch_Reason = reason, ch_ResultRef = ''''\<rparr>)))"

definition enterRepair :: "time \<Rightarrow> run_context \<Rightarrow> string \<Rightarrow> pipe_db \<Rightarrow> routed" where
  "enterRepair now rc reason d =
     (case IncrementRepairAttempt now d (rc_TaskID rc) of
        Inl e \<Rightarrow> (Some e, d)
      | Inr (ok, attempt, d1) \<Rightarrow>
          if \<not> ok
          then lift_db d1 (SetRunState now d1 (rc_TaskID rc) \<lparr>ch_To = RunRepairExhausted,
            ch_Reason = ''repair budget exhausted after '' @ show_nat (nat attempt) @ '' attempts: '' @ reason,
            ch_ResultRef = ''''\<rparr>)
          else move_to now rc StageRepair reason d1)"

definition fail_then_repair ::
  "time \<Rightarrow> run_context \<Rightarrow> failure_category \<Rightarrow> string \<Rightarrow> string \<Rightarrow> pipe_db \<Rightarrow> routed" where
  "fail_then_repair now rc category reason evidenceRef d =
     then_db (lift_db d (FailStage now d (rc_TaskID rc) (rc_Stage rc) category reason evidenceRef))
       (enterRepair now rc reason)"

definition runSimple :: "time \<Rightarrow> run_context \<Rightarrow> string handler \<Rightarrow> stage \<Rightarrow> pipe_db \<Rightarrow> routed" where
  "runSimple now rc h nxt d =
     (case h rc d of
        (HPanic, d1) \<Rightarrow> (Some HandlerPanic, d1)
      | (HError e, d1) \<Rightarrow> failStage now rc e d1
      | (HOk evidenceRef, d1) \<Rightarrow> complete_then now rc evidenceRef (move_to now rc nxt '''') d1)"

definition runFinalize :: "time \<Rightarrow> run_context \<Rightarrow> handlers \<Rightarrow> pipe_db \<Rightarrow> routed" where
  "runFinalize now rc h d =
     (case h_Finalize h rc d of
        (HPanic, d1) \<Rightarrow> (Some HandlerPanic, d1)
      | (HError e, d1) \<Rightarrow> failStage now rc e d1
      | (HOk evidenceRef, d1) \<Rightarrow> complete_then now rc evidenceRef (\<lambda>d2.
          lift_db d2 (SetRunState now d2 (rc_TaskID rc)
            \<lparr>ch_To = RunCompleted, ch_Reason = '''', ch_ResultRef = evidenceRef\<rparr>)) d1)"

definition runExecute :: "time \<Rightarrow> run_context \<Rightarrow> handlers \<Rightarrow> pipe_db \<Rightarrow> routed" where
  "runExecute now rc h d =
     (case h_Execute h rc d of
        (HPanic, d1) \<Rightarrow> (Some HandlerPanic, d1)
      | (HError e, d1) \<Rightarrow> failStage now rc e d1
      | (HOk (evidenceRef, changedFiles), d1) \<Rightarrow>
          if changedFiles < 0
          then failStage now rc (StageError FailureInvariantViolation
            (''execute handler returned negative changedFiles -'' @ show_nat (nat (- changedFiles))) None) d1
          else if changedFiles = 0
          then fail_then_repair now rc FailureNoCodeChanges ''execute produced no code changes'' evidenceRef d1
          else complete_then now rc evidenceRef (move_to now rc StageVerify '''') d1)"

definition runVerify :: "time \<Rightarrow> run_context \<Rightarrow> handlers \<Rightarrow> pipe_db \<Rightarrow> routed" where
  "runVerify now rc h d =
     (case h_Verify h rc d of
        (HPanic, d1) \<Rightarrow> (Some HandlerPanic, d1)
      | (HError e, d1) \<Rightarrow> failStage now rc e d1
      | (HOk (passed, evidenceRef, category0), d1) \<Rightarrow>
          if passed then complete_then now rc evidenceRef (move_to now rc StageReview '''') d1
          else
            let category = (if IsValidFailureCategory category0 then category0 else FailureInvariantViolation)
            in fail_then_repair now rc category (''verification failed: '' @ category_string category)
                 evidenceRef d1)"

definition runReview :: "time \<Rightarrow> run_context \<Rightarrow> handlers \<Rightarrow> pipe_db \<Rightarrow> routed" where
  "runReview now rc h d =
     (case h_Review h rc d of
        (HPanic, d1) \<Rightarrow> (Some HandlerPanic, d1)
      | (HError e, d1) \<Rightarrow> failStage now rc e d1
      | (HOk (approved, evidenceRef), d1) \<Rightarrow>
          if approved then complete_then now rc evidenceRef (move_to now rc StageFinalize '''') d1
          else fail_then_repair now rc FailureReviewRejection ''review rejected the changes'' evidenceRef d1)"

definition runRepair :: "time \<Rightarrow> run_context \<Rightarrow> handlers \<Rightarrow> pipe_db \<Rightarrow> routed" where
  "runRepair now rc h d =
     (case h_Repair h rc d of
        (HPanic, d1) \<Rightarrow> (Some HandlerPanic, d1)
      | (HError e, d1) \<Rightarrow> failStage now rc e d1
      | (HOk evidenceRef, d1) \<Rightarrow> complete_then now rc evidenceRef (\<lambda>d2.
          then_db (lift_db d2 (map_sum id snd (IncrementStageAttempt now d2 (rc_TaskID rc))))
            (move_to now rc StageVerify ''repair applied; re-verify'')) d1)"

section \<open>The loop\<close>

definition run_ctx :: "run \<Rightarrow> run_context" where
  "run_ctx r = \<lparr>rc_TaskID = rn_TaskID r, rc_ProjectID = rn_ProjectID r, rc_Stage = rn_CurrentStage r,
     rc_Attempt = rn_StageAttempt r, rc_RepairAttempt = rn_RepairAttempt r\<rparr>"

definition dispatch :: "time \<Rightarrow> handlers \<Rightarrow> run \<Rightarrow> pipe_db \<Rightarrow> routed" where
  "dispatch now h r d =
     (let rc = run_ctx r
      in case rn_CurrentStage r of
           StageCompile \<Rightarrow> runSimple now rc (h_Compile h) StagePlan d
         | StagePlan \<Rightarrow> runSimple now rc (h_Plan h) StageReady d
         | StageReady \<Rightarrow> runSimple now rc (h_Ready h) StageExecute d
         | StageExecute \<Rightarrow> runExecute now rc h d
         | StageVerify \<Rightarrow> runVerify now rc h d
         | StageReview \<Rightarrow> runReview now rc h d
         | StageRepair \<Rightarrow> runRepair now rc h d
         | StageFinalize \<Rightarrow> runFinalize now rc h d
         | OtherStage s \<Rightarrow> (Some (NoRouting (OtherStage s)), d))"

definition iterate :: "time \<Rightarrow> handlers \<Rightarrow> string \<Rightarrow> pipe_db \<Rightarrow> bool \<times> routed" where
  "iterate now h taskID d =
     (case CurrentRun d taskID of
        Inl e \<Rightarrow> (True, Some e, d)
      | Inr r \<Rightarrow>
          if IsTerminalRunState (rn_State r) \<or> IsWaitState (rn_State r) then (True, None, d)
          else case EmergencyStop d of
            (True, reason) \<Rightarrow>
              (True, Some (ErrEmergencyStopped (if reason = '''' then ''no reason recorded'' else reason)), d)
          | (False, _) \<Rightarrow> (False, dispatch now h r d))"

text \<open>\<open>None\<close>: the fuel is used up. The clock of iteration \<open>i\<close> is \<open>clock i\<close>.\<close>

fun drive_loop :: "nat \<Rightarrow> (nat \<Rightarrow> time) \<Rightarrow> handlers \<Rightarrow> string \<Rightarrow> bool \<Rightarrow> pipe_db \<Rightarrow> routed option" where
  "drive_loop 0 clock h taskID retried d = None"
| "drive_loop (Suc n) clock h taskID retried d =
     (case iterate (clock n) h taskID d of
        (done, Some e, d1) \<Rightarrow>
          if e = ErrConcurrentModification \<and> \<not> retried then drive_loop n clock h taskID True d1
          else if e = ErrRunTerminal then
            (case CurrentRun d1 taskID of
               Inr r \<Rightarrow> if IsTerminalRunState (rn_State r) then Some (None, d1) else Some (Some e, d1)
             | Inl _ \<Rightarrow> Some (Some e, d1))
          else Some (Some e, d1)
      | (done, None, d1) \<Rightarrow> if done then Some (None, d1) else drive_loop n clock h taskID retried d1)"

definition Drive :: "nat \<Rightarrow> (nat \<Rightarrow> time) \<Rightarrow> handlers \<Rightarrow> string \<Rightarrow> pipe_db \<Rightarrow> routed option" where
  "Drive fuel clock h taskID d =
     (if taskID = '''' then Some (Some DriveTaskRequired, d)
      else drive_loop fuel clock h taskID False d)"

section \<open>Restart recovery\<close>

definition resume_run :: "time \<Rightarrow> run \<Rightarrow> pipe_db \<Rightarrow> pipe_db" where
  "resume_run now r d =
     (let keep = (\<lambda>x. case x of Inl _ \<Rightarrow> d | Inr d' \<Rightarrow> d')
      in if IsWaitState (rn_State r) then
           (if rn_CurrentStage r = StageReady
            then keep (SetRunState now d (rn_TaskID r) \<lparr>ch_To = RunActive, ch_Reason = '''', ch_ResultRef = ''''\<rparr>)
            else keep (map_sum id snd (store_Transition now d (rn_TaskID r) StageReady ''resume after restart'' '''')))
         else
           (case MarkInterrupted now d (rn_TaskID r) ''daemon restarted mid-stage'' of
              Inl _ \<Rightarrow> d
            | Inr d1 \<Rightarrow>
                (case IncrementStageAttempt now d1 (rn_TaskID r) of
                   Inl _ \<Rightarrow> d1
                 | Inr (_, d2) \<Rightarrow>
                     (case store_Transition now d2 (rn_TaskID r) (rn_CurrentStage r) ''re-drive after restart'' '''' of
                        Inl _ \<Rightarrow> d2
                      | Inr (_, d3) \<Rightarrow> d3))))"

definition ResumeActiveRuns :: "time \<Rightarrow> pipe_db \<Rightarrow> pipe_db" where
  "ResumeActiveRuns now d =
     (if fst (EmergencyStop d) then d else fold (resume_run now) (ListActiveRuns d) d)"

end
