(* ===== verification/Driver_Valid.thy ===== *)
theory Driver_Valid
  imports Pipeline_Valid Pipeline_Driver
begin

text \<open>
  Properties of the driver loop and of the restart recovery. Each routing step of the driver performs the
  actions of the cursor machine that its outcome asks for; a measure on cursors that every iteration
  decreases bounds the loop. The recovery of a run takes its cursor one machine step on.
\<close>

section \<open>The driver\<close>

text \<open>No operation loses a race inside its own transaction.\<close>

lemma insert_record_CM: "insert_record r d \<noteq> Inl ErrConcurrentModification"
  by (simp add: insert_record_def)

lemma ensureEntered_CM: "ensureEnteredTx d t s a reason ev now \<noteq> Inl ErrConcurrentModification"
  using insert_record_CM by (auto simp: ensureEnteredTx_def getRecordTx_def split: sum.splits option.splits)

lemma Transition_CM: "store_Transition now d t s reason ev \<noteq> Inl ErrConcurrentModification"
proof (cases "run_of d t")
  case (Some r)
  let ?G = "\<lambda>q. rn_TaskID q = t \<and> rn_CurrentStage q = rn_CurrentStage r \<and> rn_State q = rn_State r"
  have "?G r" using run_of_TaskID [OF Some] by simp
  from count_guard [of d t r ?G, OF Some this] show ?thesis
    by (simp add: store_Transition_def getRunTx_run_of Some Let_def ensureEntered_CM)
qed (simp add: store_Transition_def getRunTx_run_of)

lemma finishStage_CM: "finishStage now d t s status cat reason ev \<noteq> Inl ErrConcurrentModification"
proof (cases "run_of d t")
  case (Some r)
  let ?s = "rn_CurrentStage r"
  let ?c = "close_entry t ?s (rn_StageAttempt r) now d"
  let ?G = "\<lambda>q. rn_TaskID q = t \<and> rn_CurrentStage q = ?s"
  have g: "count_where ?G (pd_runs d1) \<noteq> 0" if "insert_record q ?c = Inr d1" for q d1
  proof -
    have "same_runs d d1" by (rule same_runs_trans [OF close_entry_same insert_record_same [OF that]])
    then have "run_of d1 t = Some r" using same_runs_view Some by simp
    with run_of_TaskID [OF Some] show ?thesis by (intro count_guard [of d1 t r ?G]) auto
  qed
  show ?thesis
    by (auto simp: finishStage_def getRunTx_run_of Some Let_def insert_record_CM split: if_splits sum.splits
        dest!: g)
qed (simp add: finishStage_def getRunTx_run_of)

lemma SetRunState_CM: "SetRunState now d t ch \<noteq> Inl ErrConcurrentModification"
proof (cases "run_of d t")
  case (Some r)
  let ?G = "\<lambda>q. rn_TaskID q = t \<and> rn_State q = rn_State r"
  have "?G r" using run_of_TaskID [OF Some] by simp
  from count_guard [of d t r ?G, OF Some this] show ?thesis
    by (simp add: SetRunState_def getRunTx_run_of Some Let_def)
qed (simp add: SetRunState_def getRunTx_run_of)

lemma BumpRepair_CM: "IncrementRepairAttempt now d t \<noteq> Inl ErrConcurrentModification"
proof (cases "run_of d t")
  case (Some r)
  let ?G = "\<lambda>q. rn_TaskID q = t \<and> rn_RepairAttempt q = rn_RepairAttempt r"
  have "?G r" using run_of_TaskID [OF Some] by simp
  from count_guard [of d t r ?G, OF Some this] show ?thesis
    by (simp add: IncrementRepairAttempt_def getRunTx_run_of Some Let_def)
qed (simp add: IncrementRepairAttempt_def getRunTx_run_of)

lemma map_sum_CM: "map_sum id f x = Inl ErrConcurrentModification \<longleftrightarrow> x = Inl ErrConcurrentModification"
  by (cases x) auto

text \<open>
  The effect of a routing step: exactly the actions \<open>as\<close> when it reports no error, some actions in any
  case, and never the error of a lost race.
\<close>

definition routes :: "pipe_db \<Rightarrow> string \<Rightarrow> cursor_action list \<Rightarrow> routed \<Rightarrow> bool" where
  "routes d t as R \<longleftrightarrow> (fst R = None \<longrightarrow> refines d t as (snd R)) \<and> (\<exists>bs. refines d t bs (snd R))
     \<and> fst R \<noteq> Some ErrConcurrentModification"

lemma routes_lift:
  assumes "pipe_inv d" "refines d t as (keep d x)" "x \<noteq> Inl ErrConcurrentModification"
  shows "routes d t as (lift_db d x)"
  using assms refines_refl [of d t] by (cases x) (auto simp: routes_def lift_db_def keep_def)

lemma routes_then:
  assumes R: "routes d t as R" and f: "\<And>d'. refines d t as d' \<Longrightarrow> routes d' t bs (f d')"
  shows "routes d t (as @ bs) (then_db R f)"
proof (cases "fst R")
  case None
  then have r: "refines d t as (snd R)" "then_db R f = f (snd R)"
    using R by (cases R; simp add: routes_def then_db_def)+
  from f [OF r(1)] r refines_trans [OF r(1)] show ?thesis unfolding routes_def by metis
next
  case (Some e)
  then have "then_db R f = R" by (cases R) (simp add: then_db_def)
  with R Some show ?thesis by (simp add: routes_def)
qed

lemma routes_error:
  "pipe_inv d \<Longrightarrow> e \<noteq> ErrConcurrentModification \<Longrightarrow> routes d t as (Some e, d)"
  using refines_refl [of d t] by (auto simp: routes_def)

lemma refines_inv: "refines d t as d' \<Longrightarrow> pipe_inv d'"
  by (simp add: refines_def)

lemma routes_move: "pipe_inv d \<Longrightarrow> rc_TaskID rc = t \<Longrightarrow> routes d t [Move s] (move_to now rc s reason d)"
  unfolding move_to_def
  by (rule routes_lift) (auto simp: Transition_refines map_sum_CM Transition_CM)

lemma routes_set:
  "pipe_inv d \<Longrightarrow> routes d t [SetState (ch_To ch)] (lift_db d (SetRunState now d t ch))"
  by (rule routes_lift) (auto simp: SetRunState_refines SetRunState_CM)

lemma routes_complete:
  assumes "pipe_inv d" "rc_TaskID rc = t" "\<And>d'. pipe_inv d' \<Longrightarrow> cursor_at d' t = cursor_at d t \<Longrightarrow> routes d' t bs (f d')"
  shows "routes d t bs (complete_then now rc ev f d)"
proof -
  have c: "routes d t [] (lift_db d (CompleteStage now d t (rc_Stage rc) ev))"
    by (rule routes_lift [OF assms(1) Complete_refines [OF assms(1)]])
      (simp add: CompleteStage_def finishStage_CM)
  have "routes d t ([] @ bs) (complete_then now rc ev f d)"
    unfolding complete_then_def assms(2)
    by (rule routes_then [OF c]) (rule assms(3), auto simp: refines_def option.map_ident)
  then show ?thesis by simp
qed

lemma FailStage_CM: "FailStage now d t s cat reason ev \<noteq> Inl ErrConcurrentModification"
  by (simp add: FailStage_def finishStage_CM)

definition fail_target :: "stage \<Rightarrow> failure_category \<Rightarrow> run_state" where
  "fail_target s category =
     (if category = FailureLeaseLost \<and> s = StageReady then RunBlocked
      else if (category = FailureQuotaExceeded \<or> category = FailureRateLimited)
        \<and> (s = StageExecute \<or> s = StageVerify) then RunWaitingQuota else RunFailed)"

lemma routes_fail:
  assumes "pipe_inv d" "rc_TaskID rc = t"
  shows "routes d t [SetState (fail_target (rc_Stage rc) (fst (categorizeError e)))] (failStage now rc e d)"
proof -
  obtain cat reason where c: "categorizeError e = (cat, reason)" by fastforce
  have f: "routes d t [] (lift_db d (FailStage now d t (rc_Stage rc) cat reason ''''))"
    by (rule routes_lift [OF assms(1) Fail_refines [OF assms(1)] FailStage_CM])
  let ?to = "fail_target (rc_Stage rc) cat"
  let ?k = "\<lambda>d1. if (case CurrentRun d1 t of Inl _ \<Rightarrow> False | Inr r \<Rightarrow> IsTerminalRunState (rn_State r))
      then (Some ErrRunTerminal, d1)
      else if cat = FailureInterrupted then (Some (ErrEmergencyStopped reason), d1)
      else lift_db d1 (SetRunState now d1 t \<lparr>ch_To = ?to, ch_Reason = reason, ch_ResultRef = ''''\<rparr>)"
  have k: "routes d1 t [SetState ?to] (?k d1)" if "refines d t [] d1" for d1
  proof -
    note inv1 = refines_inv [OF that]
    have "routes d1 t [SetState ?to] (Some ErrRunTerminal, d1)"
      "routes d1 t [SetState ?to] (Some (ErrEmergencyStopped reason), d1)"
      by (simp_all add: routes_error [OF inv1])
    moreover have "routes d1 t [SetState ?to]
        (lift_db d1 (SetRunState now d1 t \<lparr>ch_To = ?to, ch_Reason = reason, ch_ResultRef = ''''\<rparr>))"
      using routes_set [OF inv1, of t "\<lparr>ch_To = ?to, ch_Reason = reason, ch_ResultRef = ''''\<rparr>" now] by simp
    ultimately show ?thesis unfolding if_split [of "routes d1 t [SetState ?to]"] by blast
  qed
  have "failStage now rc e d = then_db (lift_db d (FailStage now d t (rc_Stage rc) cat reason '''')) ?k"
    unfolding failStage_def c prod.case assms(2) Let_def fail_target_def by (rule refl)
  with routes_then [OF f k] show ?thesis by (simp add: c)
qed

definition repair_actions :: "cursor \<Rightarrow> cursor_action list" where
  "repair_actions c = [BumpRepair, if cu_repair c < cu_max c then Move StageRepair else SetState RunRepairExhausted]"

lemma routes_repair:
  assumes inv: "pipe_inv d" and t: "rc_TaskID rc = t" and c: "cursor_at d t = Some c"
  shows "routes d t (repair_actions c) (enterRepair now rc reason d)"
proof -
  obtain r where r: "run_of d t = Some r" "c = cursor_of r" using c by (auto simp: cursor_at_def)
  have b: "refines d t [BumpRepair] (keep d (map_sum id (snd \<circ> snd) (IncrementRepairAttempt now d t)))"
    by (rule BumpRepair_refines [OF inv])
  show ?thesis
  proof (cases "IncrementRepairAttempt now d t")
    case (Inl e)
    with BumpRepair_CM have "e \<noteq> ErrConcurrentModification" by metis
    with Inl t routes_error [OF inv] show ?thesis by (simp add: enterRepair_def)
  next
    case (Inr x)
    then obtain ok n d1 where x: "IncrementRepairAttempt now d t = Inr (ok, n, d1)" by (cases x) auto
    with b have b1: "refines d t [BumpRepair] d1" by (simp add: keep_def)
    note inv1 = refines_inv [OF b1]
    have ok: "ok \<longleftrightarrow> cu_repair c < cu_max c"
      using x r by (auto simp: IncrementRepairAttempt_def getRunTx_run_of cursor_of_def Let_def split: if_splits)
    have "routes d1 t [if cu_repair c < cu_max c then Move StageRepair else SetState RunRepairExhausted]
        (enterRepair now rc reason d)"
      using x t ok routes_move [OF inv1 t, of StageRepair now reason]
        routes_set [OF inv1, of t "\<lparr>ch_To = RunRepairExhausted, ch_Reason = ''repair budget exhausted after ''
          @ show_nat (nat n) @ '' attempts: '' @ reason, ch_ResultRef = ''''\<rparr>" now]
      by (auto simp: enterRepair_def)
    with refines_trans [OF b1] show ?thesis unfolding routes_def repair_actions_def by fastforce
  qed
qed

lemma routes_fail_repair:
  assumes inv: "pipe_inv d" and t: "rc_TaskID rc = t" and c: "cursor_at d t = Some c"
  shows "routes d t (repair_actions c) (fail_then_repair now rc cat reason ev d)"
proof -
  have f: "routes d t [] (lift_db d (FailStage now d t (rc_Stage rc) cat reason ev))"
    by (rule routes_lift [OF inv Fail_refines [OF inv] FailStage_CM])
  have "routes d' t (repair_actions c) (enterRepair now rc reason d')" if "refines d t [] d'" for d'
    using that c by (intro routes_repair [OF _ t]) (auto simp: refines_def)
  from routes_then [OF f this] t show ?thesis by (simp add: fail_then_repair_def)
qed


subsection \<open>Handlers and the measure of the loop\<close>

text \<open>
  What the driver relies on of a handler: it keeps the invariant of the tables, and it moves the cursor of
  its own run only by ending the run (a cancellation that arrives while it works).
\<close>

definition handler_ok :: "string \<Rightarrow> 'a handler \<Rightarrow> bool" where
  "handler_ok t f \<longleftrightarrow> (\<forall>rc d. rc_TaskID rc = t \<and> pipe_inv d \<longrightarrow>
     pipe_inv (snd (f rc d)) \<and> (cursor_at (snd (f rc d)) t = cursor_at d t
       \<or> (\<exists>c. cursor_at (snd (f rc d)) t = Some c \<and> cursor_final c)))"

definition handlers_ok :: "string \<Rightarrow> handlers \<Rightarrow> bool" where
  "handlers_ok t h \<longleftrightarrow> handler_ok t (h_Compile h) \<and> handler_ok t (h_Plan h) \<and> handler_ok t (h_Ready h)
     \<and> handler_ok t (h_Finalize h) \<and> handler_ok t (h_Execute h) \<and> handler_ok t (h_Verify h)
     \<and> handler_ok t (h_Review h) \<and> handler_ok t (h_Repair h)"

text \<open>A run that the driver leaves alone: terminal or waiting.\<close>

definition settled :: "cursor \<Rightarrow> bool" where
  "settled c \<longleftrightarrow> IsTerminalRunState (cu_state c) \<or> IsWaitState (cu_state c)"

fun stage_rank :: "stage \<Rightarrow> nat" where
  "stage_rank StageCompile = 8"
| "stage_rank StagePlan = 7"
| "stage_rank StageReady = 6"
| "stage_rank StageExecute = 5"
| "stage_rank StageRepair = 4"
| "stage_rank StageVerify = 3"
| "stage_rank StageReview = 2"
| "stage_rank StageFinalize = 1"
| "stage_rank (OtherStage _) = 0"

text \<open>A repair sends the run back by two ranks at most and uses up one of its repair attempts, worth three.\<close>

definition cursor_measure :: "cursor \<Rightarrow> nat" where
  "cursor_measure c = (if settled c then 0 else stage_rank (cu_stage c) + 3 * nat (cu_max c - cu_repair c))"

definition descends :: "cursor \<Rightarrow> cursor \<Rightarrow> bool" where
  "descends c c' \<longleftrightarrow> settled c' \<or> cu_state c' = RunActive \<and> cursor_measure c' < cursor_measure c"

definition routed_ok :: "cursor \<Rightarrow> string \<Rightarrow> routed \<Rightarrow> bool" where
  "routed_ok c t R \<longleftrightarrow> pipe_inv (snd R) \<and> fst R \<noteq> Some ErrConcurrentModification
     \<and> (fst R = None \<longrightarrow> (\<exists>c'. cursor_at (snd R) t = Some c' \<and> descends c c'))"

lemma active_not_settled: "cu_state c = RunActive \<Longrightarrow> \<not> settled c"
  by (simp add: settled_def IsTerminalRunState_def IsWaitState_def)

lemma active_or_settled: "cursor_ok c \<Longrightarrow> cu_state c = RunActive \<or> settled c"
  by (auto simp: cursor_ok_def settled_def IsTerminalRunState_def IsWaitState_def IsValidRunState_def
      split: run_state.splits)

lemma final_settled: "cursor_final c \<Longrightarrow> settled c"
  by (simp add: settled_def cursor_final_def)

lemma routed_okI:
  assumes R: "routes d t as R" and c1: "cursor_at d t = Some c1" "c1 = c \<or> cursor_final c1"
    and step: "c1 = c \<Longrightarrow> descends c (run_steps cursor_step c as)"
  shows "routed_ok c t R"
proof -
  from R obtain bs where "refines d t bs (snd R)" "fst R \<noteq> Some ErrConcurrentModification"
    by (auto simp: routes_def)
  moreover have "\<exists>c'. cursor_at (snd R) t = Some c' \<and> descends c c'" if "fst R = None"
  proof -
    from R that c1(1) have "cursor_at (snd R) t = Some (run_steps cursor_step c1 as)"
      by (simp add: routes_def refines_def)
    with c1(2) step run_lifecycle.run_final [of c1 as] final_settled [of c1] show ?thesis
      by (auto simp: descends_def)
  qed
  ultimately show ?thesis using refines_inv by (auto simp: routed_ok_def)
qed

lemma descends_move:
  assumes "cu_state c = RunActive" "IsValidStage s" "CanTransitionStage RunActive (cu_stage c) s"
    "stage_rank s < stage_rank (cu_stage c)"
  shows "descends c (run_steps cursor_step c [Move s])"
  using assms by (auto simp: try_step_def descends_def cursor_measure_def settled_def IsWaitState_def
      IsTerminalRunState_def)

lemma descends_fail:
  "cu_state c = RunActive \<Longrightarrow> descends c (run_steps cursor_step c [SetState (fail_target (cu_stage c) cat)])"
  by (simp add: try_step_def descends_def settled_def fail_target_def run_state_defs)

lemma descends_finalize:
  "cu_state c = RunActive \<Longrightarrow> cu_stage c = StageFinalize \<Longrightarrow> descends c (run_steps cursor_step c [SetState RunCompleted])"
  by (simp add: try_step_def descends_def settled_def run_state_defs)

lemma descends_repair:
  assumes "cu_state c = RunActive" "cu_stage c = StageExecute \<or> cu_stage c = StageVerify \<or> cu_stage c = StageReview"
  shows "descends c (run_steps cursor_step c (repair_actions c))"
  using assms
  by (auto simp: repair_actions_def try_step_def descends_def settled_def cursor_measure_def run_state_defs
      IsValidStage_def)

lemma descends_reverify:
  assumes "cu_state c = RunActive" "cu_stage c = StageRepair"
  shows "descends c (run_steps cursor_step c [BumpAttempt, Move StageVerify])"
  using assms
  by (auto simp: try_step_def descends_def settled_def cursor_measure_def run_state_defs
      IsValidStage_def)


subsection \<open>One iteration\<close>

text \<open>
  A run context of task \<open>t\<close> at the stage of the cursor \<open>c\<close>, in a database where the run is still at \<open>c\<close>
  or has ended.
\<close>

definition handled :: "string \<Rightarrow> run_context \<Rightarrow> cursor \<Rightarrow> pipe_db \<Rightarrow> bool" where
  "handled t rc c d \<longleftrightarrow> pipe_inv d \<and> rc_TaskID rc = t \<and> cu_state c = RunActive \<and> cu_stage c = rc_Stage rc
     \<and> (\<exists>c1. cursor_at d t = Some c1 \<and> (c1 = c \<or> cursor_final c1))"

lemma handler_cases:
  assumes "handler_ok t f" "handled t rc c d" "cursor_at d t = Some c"
  obtains out d1 where "f rc d = (out, d1)" "handled t rc c d1"
proof -
  obtain out d1 where f: "f rc d = (out, d1)" by fastforce
  from assms(1,2) have "pipe_inv (snd (f rc d))"
    "cursor_at (snd (f rc d)) t = cursor_at d t \<or> (\<exists>c. cursor_at (snd (f rc d)) t = Some c \<and> cursor_final c)"
    unfolding handler_ok_def handled_def by blast+
  with f assms(2,3) that show ?thesis by (auto simp: handled_def)
qed

lemma handled_facts:
  "handled t rc c d \<Longrightarrow> pipe_inv d \<and> rc_TaskID rc = t \<and> cu_state c = RunActive \<and> cu_stage c = rc_Stage rc"
  by (simp add: handled_def)

lemma ok_error: "handled t rc c d \<Longrightarrow> e \<noteq> ErrConcurrentModification \<Longrightarrow> routed_ok c t (Some e, d)"
  by (simp add: routed_ok_def handled_def)

lemma ok_routes:
  assumes "handled t rc c d" "\<And>c1. cursor_at d t = Some c1 \<Longrightarrow> routes d t (as c1) R"
    "descends c (run_steps cursor_step c (as c))"
  shows "routed_ok c t R"
proof -
  from assms(1) obtain c1 where c1: "cursor_at d t = Some c1" "c1 = c \<or> cursor_final c1"
    by (auto simp: handled_def)
  from routed_okI [OF assms(2) [OF c1(1)] c1] assms(3) show ?thesis by blast
qed

lemma ok_fail: "handled t rc c d \<Longrightarrow> routed_ok c t (failStage now rc e d)"
  by (rule ok_routes, assumption, rule routes_fail)
    (use handled_facts descends_fail in \<open>fastforce+\<close>)

lemma ok_complete:
  assumes h: "handled t rc c d" and f: "\<And>d'. pipe_inv d' \<Longrightarrow> routes d' t as (f d')"
    and s: "descends c (run_steps cursor_step c as)"
  shows "routed_ok c t (complete_then now rc ev f d)"
  by (rule ok_routes [OF h routes_complete s]) (use handled_facts [OF h] f in auto)

lemma ok_advance:
  assumes h: "handled t rc c d" and s: "IsValidStage s" "CanTransitionStage RunActive (rc_Stage rc) s"
    "stage_rank s < stage_rank (rc_Stage rc)"
  shows "routed_ok c t (complete_then now rc ev (move_to now rc s reason) d)"
  by (rule ok_complete [OF h routes_move descends_move]) (use s handled_facts [OF h] in auto)

lemma ok_repair:
  assumes h: "handled t rc c d"
    and s: "rc_Stage rc = StageExecute \<or> rc_Stage rc = StageVerify \<or> rc_Stage rc = StageReview"
  shows "routed_ok c t (fail_then_repair now rc cat reason ev d)"
  by (rule ok_routes [OF h, where as = repair_actions, OF routes_fail_repair descends_repair]) (use s handled_facts [OF h] in auto)

lemma ok_finalize:
  assumes h: "handled t rc c d" and s: "rc_Stage rc = StageFinalize"
  shows "routed_ok c t (complete_then now rc ev (\<lambda>d2. lift_db d2 (SetRunState now d2 t
    \<lparr>ch_To = RunCompleted, ch_Reason = '''', ch_ResultRef = ev\<rparr>)) d)"
  by (rule ok_complete [OF h, where as = "[SetState RunCompleted]"])
    (use s handled_facts [OF h] descends_finalize [of c] routes_set [where ch = "\<lparr>ch_To = RunCompleted,
      ch_Reason = '''', ch_ResultRef = ev\<rparr>"] in auto)

lemma routes_reverify:
  assumes inv: "pipe_inv d" and t: "rc_TaskID rc = t"
  shows "routes d t [BumpAttempt, Move StageVerify]
    (then_db (lift_db d (map_sum id snd (IncrementStageAttempt now d t))) (move_to now rc StageVerify reason))"
proof -
  have "IncrementStageAttempt now d t \<noteq> Inl ErrConcurrentModification"
    by (simp add: IncrementStageAttempt_def getRunTx_run_of split: option.splits)
  then have b: "routes d t [BumpAttempt] (lift_db d (map_sum id snd (IncrementStageAttempt now d t)))"
    by (intro routes_lift [OF inv BumpAttempt_refines [OF inv]]) (simp add: map_sum_CM)
  have "routes d t ([BumpAttempt] @ [Move StageVerify])
      (then_db (lift_db d (map_sum id snd (IncrementStageAttempt now d t))) (move_to now rc StageVerify reason))"
    by (rule routes_then [OF b routes_move [OF refines_inv t]])
  then show ?thesis by simp
qed

lemma ok_reverify:
  assumes h: "handled t rc c d" and s: "rc_Stage rc = StageRepair"
  shows "routed_ok c t (complete_then now rc ev (\<lambda>d2.
    then_db (lift_db d2 (map_sum id snd (IncrementStageAttempt now d2 t))) (move_to now rc StageVerify reason)) d)"
  by (rule ok_complete [OF h routes_reverify descends_reverify]) (use s handled_facts [OF h] in auto)

lemma runSimple_ok:
  assumes h: "handler_ok t f" and st: "handled t rc c d" "cursor_at d t = Some c"
    and s: "IsValidStage s" "CanTransitionStage RunActive (rc_Stage rc) s" "stage_rank s < stage_rank (rc_Stage rc)"
  shows "routed_ok c t (runSimple now rc f s d)"
proof -
  obtain out d1 where f: "f rc d = (out, d1)" "handled t rc c d1" by (rule handler_cases [OF h st])
  show ?thesis
    using ok_fail [OF f(2)] ok_advance [OF f(2) s] ok_error [OF f(2)] f(1)
    by (cases out) (simp_all add: runSimple_def)
qed

lemma runExecute_ok:
  assumes h: "handler_ok t (h_Execute h)" and st: "handled t rc c d" "cursor_at d t = Some c"
    and s: "rc_Stage rc = StageExecute"
  shows "routed_ok c t (runExecute now rc h d)"
proof -
  obtain out d1 where f: "h_Execute h rc d = (out, d1)" "handled t rc c d1" by (rule handler_cases [OF h st])
  have "routed_ok c t (complete_then now rc ev (move_to now rc StageVerify '''') d1)" for ev
    by (rule ok_advance [OF f(2)]) (simp_all add: s IsValidStage_def run_state_defs)
  then show ?thesis
    using ok_fail [OF f(2)] ok_repair [OF f(2)] ok_error [OF f(2)] s f(1)
    by (cases out) (auto simp add: runExecute_def)
qed

lemma runVerify_ok:
  assumes h: "handler_ok t (h_Verify h)" and st: "handled t rc c d" "cursor_at d t = Some c"
    and s: "rc_Stage rc = StageVerify"
  shows "routed_ok c t (runVerify now rc h d)"
proof -
  obtain out d1 where f: "h_Verify h rc d = (out, d1)" "handled t rc c d1" by (rule handler_cases [OF h st])
  have "routed_ok c t (complete_then now rc ev (move_to now rc StageReview '''') d1)" for ev
    by (rule ok_advance [OF f(2)]) (simp_all add: s IsValidStage_def run_state_defs)
  then show ?thesis
    using ok_fail [OF f(2)] ok_repair [OF f(2)] ok_error [OF f(2)] s f(1)
    by (cases out) (auto simp add: runVerify_def Let_def)
qed

lemma runReview_ok:
  assumes h: "handler_ok t (h_Review h)" and st: "handled t rc c d" "cursor_at d t = Some c"
    and s: "rc_Stage rc = StageReview"
  shows "routed_ok c t (runReview now rc h d)"
proof -
  obtain out d1 where f: "h_Review h rc d = (out, d1)" "handled t rc c d1" by (rule handler_cases [OF h st])
  have "routed_ok c t (complete_then now rc ev (move_to now rc StageFinalize '''') d1)" for ev
    by (rule ok_advance [OF f(2)]) (simp_all add: s IsValidStage_def run_state_defs)
  then show ?thesis
    using ok_fail [OF f(2)] ok_repair [OF f(2)] ok_error [OF f(2)] s f(1)
    by (cases out) (auto simp add: runReview_def)
qed

lemma runRepair_ok:
  assumes h: "handler_ok t (h_Repair h)" and st: "handled t rc c d" "cursor_at d t = Some c"
    and s: "rc_Stage rc = StageRepair"
  shows "routed_ok c t (runRepair now rc h d)"
proof -
  obtain out d1 where f: "h_Repair h rc d = (out, d1)" "handled t rc c d1" by (rule handler_cases [OF h st])
  show ?thesis
    using ok_fail [OF f(2)] ok_reverify [OF f(2) s] ok_error [OF f(2)] f(1) handled_facts [OF f(2)]
    by (cases out) (auto simp add: runRepair_def)
qed

lemma runFinalize_ok:
  assumes h: "handler_ok t (h_Finalize h)" and st: "handled t rc c d" "cursor_at d t = Some c"
    and s: "rc_Stage rc = StageFinalize"
  shows "routed_ok c t (runFinalize now rc h d)"
proof -
  obtain out d1 where f: "h_Finalize h rc d = (out, d1)" "handled t rc c d1" by (rule handler_cases [OF h st])
  show ?thesis
    using ok_fail [OF f(2)] ok_finalize [OF f(2) s] ok_error [OF f(2)] f(1) handled_facts [OF f(2)]
    by (cases out) (auto simp add: runFinalize_def)
qed

lemmas stage_ok = runSimple_ok runExecute_ok runVerify_ok runReview_ok runRepair_ok runFinalize_ok

lemma dispatch_ok:
  assumes h: "handlers_ok t h" and inv: "pipe_inv d" and r: "run_of d t = Some r" "rn_State r = RunActive"
  shows "routed_ok (cursor_of r) t (dispatch now h r d)"
proof -
  have c: "cursor_at d t = Some (cursor_of r)" using r by (simp add: cursor_at_def)
  with inv r run_of_TaskID [OF r(1)] have st: "handled t (run_ctx r) (cursor_of r) d"
    by (simp add: handled_def run_ctx_def cursor_of_def)
  have s: "rc_Stage (run_ctx r) = rn_CurrentStage r" by (simp add: run_ctx_def)
  note hs = h [unfolded handlers_ok_def]
  show ?thesis
  proof (cases "rn_CurrentStage r")
    case (OtherStage x)
    with inv_task [OF inv r(1)] show ?thesis by (simp add: cursor_ok_def cursor_of_def IsValidStage_def)
  qed (use hs s c st in \<open>auto simp: dispatch_def Let_def IsValidStage_def run_state_defs intro!: stage_ok\<close>)
qed

subsection \<open>The loop ends\<close>

lemma measure_bound: "cursor_ok c \<Longrightarrow> cursor_measure c \<le> 8 + 3 * nat (cu_max c)"
proof -
  assume "cursor_ok c"
  then have "0 \<le> cu_repair c" by (simp add: cursor_ok_def)
  then have "nat (cu_max c - cu_repair c) \<le> nat (cu_max c)" by linarith
  moreover have "stage_rank s \<le> 8" for s by (cases s) simp_all
  ultimately show ?thesis unfolding cursor_measure_def by (smt (verit) add_mono mult_le_mono2 zero_le)
qed

lemma active_measure: "cursor_ok c \<Longrightarrow> \<not> settled c \<Longrightarrow> 0 < cursor_measure c"
  by (cases "cu_stage c") (auto simp: cursor_measure_def cursor_ok_def IsValidStage_def)

lemma descends_measure: "descends c c' \<Longrightarrow> cursor_ok c \<Longrightarrow> \<not> settled c \<Longrightarrow> cursor_measure c' < cursor_measure c"
  using active_measure by (auto simp: descends_def cursor_measure_def)

lemma iterate_ok:
  assumes h: "handlers_ok t h" and inv: "pipe_inv d" and c: "cursor_at d t = Some c" and it: "iterate now h t d = (over, res, d1)"
  shows "pipe_inv d1 \<and> res \<noteq> Some ErrConcurrentModification \<and>
    (res = None \<longrightarrow> (\<exists>c'. cursor_at d1 t = Some c' \<and> (if over then settled c' else cursor_measure c' < cursor_measure c)))"
proof -
  obtain r where r: "run_of d t = Some r" "c = cursor_of r" using c by (auto simp: cursor_at_def)
  have ok: "cursor_ok c" using inv_task [OF inv r(1)] r(2) by simp
  have cur: "CurrentRun d t = Inr r" using r by (simp add: CurrentRun_def getRunTx_run_of)
  obtain on reason where es: "EmergencyStop d = (on, reason)" by fastforce
  consider "settled c" | "\<not> settled c" on | "\<not> settled c" "\<not> on" by blast
  then show ?thesis
  proof cases
    case 1
    then have "iterate now h t d = (True, None, d)" using cur r by (auto simp: iterate_def settled_def cursor_of_def)
    with 1 inv c it show ?thesis by simp
  next
    case 2
    then have "rn_State r = RunActive" using active_or_settled [OF ok] r(2) by (simp add: cursor_of_def)
    with 2 cur es inv it show ?thesis by (auto simp: iterate_def IsTerminalRunState_def IsWaitState_def)
  next
    case 3
    then have a: "rn_State r = RunActive" using active_or_settled [OF ok] r(2) by (simp add: cursor_of_def)
    with 3 cur es it have R: "over = False" "dispatch now h r d = (res, d1)"
      by (auto simp: iterate_def IsTerminalRunState_def IsWaitState_def)
    with dispatch_ok [OF h inv r(1) a, of now] descends_measure [OF _ ok 3(1)] show ?thesis
      by (fastforce simp: routed_ok_def r(2))
  qed
qed

lemma drive_loop_ends:
  assumes h: "handlers_ok t h"
  shows "pipe_inv d \<Longrightarrow> cursor_at d t = Some c \<Longrightarrow> cursor_measure c < n \<Longrightarrow>
    \<exists>res d'. drive_loop n clock h t retried d = Some (res, d') \<and> pipe_inv d'
      \<and> (res = None \<longrightarrow> (\<exists>c'. cursor_at d' t = Some c' \<and> settled c'))"
proof (induction n arbitrary: d c)
  case (Suc n)
  obtain over res d1 where it: "iterate (clock n) h t d = (over, res, d1)" by (metis prod.exhaust)
  note ok = iterate_ok [OF h Suc.prems(1,2) it]
  show ?case
  proof (cases res)
    case (Some e)
    with ok show ?thesis
      by (simp add: it CurrentRun_def getRunTx_run_of cursor_at_def settled_def cursor_of_def split: option.splits)
  next
    case None
    with ok obtain c' where c': "cursor_at d1 t = Some c'" "if over then settled c' else cursor_measure c' < cursor_measure c" by blast
    show ?thesis
    proof (cases over)
      case True
      with None ok c' show ?thesis by (simp add: it)
    next
      case False
      with c' Suc.prems(3) have "cursor_measure c' < n" by simp
      from Suc.IH [OF _ c'(1) this] None False ok show ?thesis by (simp add: it)
    qed
  qed
qed simp


section \<open>Restart recovery\<close>

definition resumed :: "cursor \<Rightarrow> cursor" where
  "resumed c = (if IsWaitState (cu_state c) then c\<lparr>cu_stage := StageReady, cu_state := RunActive\<rparr>
     else c\<lparr>cu_attempt := cu_attempt c + 1\<rparr>)"

definition resume_actions :: "cursor \<Rightarrow> cursor_action list" where
  "resume_actions c = (if IsWaitState (cu_state c)
     then (if cu_stage c = StageReady then [SetState RunActive] else [Move StageReady])
     else [BumpAttempt, Move (cu_stage c)])"

lemma resume_actions_steps:
  assumes "cursor_ok c" "\<not> IsTerminalRunState (cu_state c)"
  shows "run_steps cursor_step c (resume_actions c) = resumed c"
proof -
  consider "cu_state c = RunActive" | "cu_state c = RunWaitingQuota" | "cu_state c = RunBlocked"
    using assms by (auto simp: cursor_ok_def run_state_defs split: run_state.splits)
  then show ?thesis
    by cases (auto simp: resume_actions_def resumed_def try_step_def run_state_defs IsValidStage_def)
qed

lemma resume_redrive_refines:
  assumes inv: "pipe_inv d" and r: "run_of d t = Some q" "\<not> IsTerminalRunState (rn_State q)"
  shows "refines d t [BumpAttempt, Move s]
    (case MarkInterrupted now d t reason of Inl _ \<Rightarrow> d
     | Inr d1 \<Rightarrow> (case IncrementStageAttempt now d1 t of Inl _ \<Rightarrow> d1
        | Inr (_, d2) \<Rightarrow> (case store_Transition now d2 t s reason' ev of Inl _ \<Rightarrow> d2 | Inr (_, d3) \<Rightarrow> d3)))"
proof -
  obtain d1 where d1: "MarkInterrupted now d t reason = Inr d1"
    using inv_task [OF inv r(1)] insert_record_ok r same_runs_view [OF close_entry_same]
    by (fastforce simp: MarkInterrupted_def getRunTx_run_of Let_def failed_record_def close_entry_def)
  have s1: "refines d t [] d1" using Interrupt_refines [OF inv, of t now reason] d1 by (simp add: keep_def)
  then have "cursor_at d1 t = cursor_at d t" "pipe_inv d1" by (auto simp: refines_def option.map_ident)
  then obtain q1 where q1: "run_of d1 t = Some q1" "cursor_of q1 = cursor_of q"
    using r by (auto simp: cursor_at_def)
  then have "\<not> IsTerminalRunState (rn_State q1)" using r by (simp add: cursor_of_def)
  with q1 obtain n d2 where d2: "IncrementStageAttempt now d1 t = Inr (n, d2)"
    by (simp add: IncrementStageAttempt_def getRunTx_run_of)
  have s2: "refines d1 t [BumpAttempt] d2"
    using BumpAttempt_refines [OF \<open>pipe_inv d1\<close>, of t now] d2 by (simp add: keep_def)
  have s3: "refines d2 t [Move s] (keep d2 (map_sum id snd (store_Transition now d2 t s reason' ev)))"
    by (rule Transition_refines [OF refines_inv [OF s2]])
  have "keep d2 (map_sum id snd (store_Transition now d2 t s reason' ev))
      = (case store_Transition now d2 t s reason' ev of Inl _ \<Rightarrow> d2 | Inr (_, d3) \<Rightarrow> d3)"
    by (auto simp: keep_def split: sum.splits)
  with refines_trans [OF refines_trans [OF s1 s2] s3] show ?thesis by (simp add: d1 d2)
qed

lemma resume_run_refines:
  assumes inv: "pipe_inv d" and c: "cursor_at d (rn_TaskID r) = Some (cursor_of r)"
    and nt: "\<not> IsTerminalRunState (rn_State r)"
  shows "refines d (rn_TaskID r) (resume_actions (cursor_of r)) (resume_run now r d)"
proof -
  from c obtain q where q: "run_of d (rn_TaskID r) = Some q" "cursor_of q = cursor_of r"
    by (auto simp: cursor_at_def)
  then have eq: "rn_State q = rn_State r" "rn_CurrentStage q = rn_CurrentStage r" by (simp_all add: cursor_of_def)
  show ?thesis
  proof (cases "IsWaitState (rn_State r)")
    case True
    then show ?thesis
      using Transition_refines [OF inv, of "rn_TaskID r" StageReady now "''resume after restart''" "''''"]
        SetRunState_refines [OF inv, of "rn_TaskID r" "\<lparr>ch_To = RunActive, ch_Reason = '''', ch_ResultRef = ''''\<rparr>" now]
      by (simp add: resume_run_def resume_actions_def cursor_of_def keep_def)
  next
    case False
    then show ?thesis
      using resume_redrive_refines [OF inv q(1), of "rn_CurrentStage r" now] nt eq
      by (simp add: resume_run_def resume_actions_def cursor_of_def)
  qed
qed

lemma resume_fold:
  assumes "pipe_inv d" "distinct (map rn_TaskID rs)"
    "\<And>r. r \<in> set rs \<Longrightarrow> cursor_at d (rn_TaskID r) = Some (cursor_of r) \<and> \<not> IsTerminalRunState (rn_State r)"
  shows "pipe_inv (fold (resume_run now) rs d) \<and> cursor_at (fold (resume_run now) rs d) t =
    (if t \<in> rn_TaskID ` set rs then map_option resumed (cursor_at d t) else cursor_at d t)"
  using assms
proof (induction rs arbitrary: d)
  case (Cons r rs)
  let ?t = "rn_TaskID r" and ?d = "resume_run now r d"
  from Cons.prems(3) [of r] have c: "cursor_at d ?t = Some (cursor_of r)" "\<not> IsTerminalRunState (rn_State r)" by simp_all
  have ref: "refines d ?t (resume_actions (cursor_of r)) ?d" by (rule resume_run_refines [OF Cons.prems(1) c])
  have ok: "cursor_ok (cursor_of r)" using Cons.prems(1) c by (auto simp: pipe_inv_def)
  have "run_steps cursor_step (cursor_of r) (resume_actions (cursor_of r)) = resumed (cursor_of r)"
    by (rule resume_actions_steps [OF ok]) (use c(2) in \<open>simp add: cursor_of_def\<close>)
  with ref c have at: "cursor_at ?d = (cursor_at d)(?t \<mapsto> resumed (cursor_of r))" by (simp add: refines_def)
  have "pipe_inv (fold (resume_run now) rs ?d) \<and> cursor_at (fold (resume_run now) rs ?d) t =
    (if t \<in> rn_TaskID ` set rs then map_option resumed (cursor_at ?d t) else cursor_at ?d t)"
  proof (rule Cons.IH [OF refines_inv [OF ref]])
    show "distinct (map rn_TaskID rs)" using Cons.prems(2) by simp
    fix q assume "q \<in> set rs"
    then have "rn_TaskID q \<noteq> ?t" using Cons.prems(2) image_eqI [of _ rn_TaskID q "set rs"] by force
    with \<open>q \<in> set rs\<close> Cons.prems(3) [of q]
    show "cursor_at ?d (rn_TaskID q) = Some (cursor_of q) \<and> \<not> IsTerminalRunState (rn_State q)"
      by (simp add: at)
  qed
  with c Cons.prems(2) show ?case by (auto simp: at)
qed simp

lemma ListActive_mem: "r \<in> set (ListActiveRuns d) \<longleftrightarrow> r \<in> set (pd_runs d) \<and> rn_State r \<in> {RunActive, RunWaitingQuota, RunBlocked}"
  by (auto simp: ListActiveRuns_def)

lemma ListActive_distinct: "pipe_inv d \<Longrightarrow> distinct (map rn_TaskID (ListActiveRuns d))"
proof -
  assume "pipe_inv d"
  then have "distinct (map rn_TaskID (filter (\<lambda>r. rn_State r \<in> {RunActive, RunWaitingQuota, RunBlocked}) (pd_runs d)))"
    by (auto simp: pipe_inv_def intro: distinct_map_filter)
  moreover have "mset (map rn_TaskID (ListActiveRuns d)) =
      mset (map rn_TaskID (filter (\<lambda>r. rn_State r \<in> {RunActive, RunWaitingQuota, RunBlocked}) (pd_runs d)))"
    by (simp add: ListActiveRuns_def)
  ultimately show ?thesis by (metis mset_eq_imp_distinct_iff)
qed

lemma run_of_mem: "pipe_inv d \<Longrightarrow> r \<in> set (pd_runs d) \<Longrightarrow> run_of d (rn_TaskID r) = Some r"
proof -
  have "distinct (map rn_TaskID rs) \<Longrightarrow> r \<in> set rs \<Longrightarrow> find (\<lambda>q. rn_TaskID q = rn_TaskID r) rs = Some r" for rs
    by (induction rs) force+
  then show "pipe_inv d \<Longrightarrow> r \<in> set (pd_runs d) \<Longrightarrow> ?thesis" by (simp add: pipe_inv_def run_of_def)
qed

lemma ListActive_run_of:
  assumes inv: "pipe_inv d" and r: "run_of d t = Some r"
  shows "t \<in> rn_TaskID ` set (ListActiveRuns d) \<longleftrightarrow> \<not> IsTerminalRunState (rn_State r)"
proof -
  have "IsValidRunState (rn_State r)"
    using inv_task [OF inv r] by (simp add: cursor_ok_def cursor_of_def)
  then have v: "rn_State r \<in> {RunActive, RunWaitingQuota, RunBlocked} \<longleftrightarrow> \<not> IsTerminalRunState (rn_State r)"
    by (cases "rn_State r") (simp_all add: IsTerminalRunState_def IsValidRunState_def)
  show ?thesis
  proof
    assume "t \<in> rn_TaskID ` set (ListActiveRuns d)"
    then obtain q where q: "q \<in> set (ListActiveRuns d)" "rn_TaskID q = t" by blast
    with run_of_mem [OF inv, of q] r have "q = r" by (simp add: ListActive_mem)
    with q v show "\<not> IsTerminalRunState (rn_State r)" by (simp add: ListActive_mem)
  next
    assume "\<not> IsTerminalRunState (rn_State r)"
    with v run_of_TaskID [OF r] have "r \<in> set (ListActiveRuns d)" "t = rn_TaskID r" by (simp_all add: ListActive_mem)
    then show "t \<in> rn_TaskID ` set (ListActiveRuns d)" by simp
  qed
qed

lemma map_of_overwrite:
  "map_of (map (\<lambda>(j, w). if j = k then (j, v) else (j, w)) fs) i
    = (if i = k then map_option (\<lambda>_. v) (map_of fs k) else map_of fs i)"
  by (induction fs) auto

lemma map_of_set_flag: "map_of (set_flag k v fs) j = (if j = k then Some v else map_of fs j)"
proof (cases "k \<in> fst ` set fs")
  case True
  then have "map_of fs k \<noteq> None" by (simp add: map_of_eq_None_iff)
  with True show ?thesis by (auto simp: set_flag_def map_of_overwrite)
next
  case False
  then have "map_of fs k = None" by (simp add: map_of_eq_None_iff)
  with False show ?thesis by (auto simp: set_flag_def map_add_def split: option.splits)
qed

lemma EmergencyStop_on: "EmergencyStop (SetEmergencyStop d True reason) = (True, reason)"
  by (simp add: EmergencyStop_def SetEmergencyStop_def Let_def controlFlag_def map_of_set_flag)

lemma EmergencyStop_off: "EmergencyStop (SetEmergencyStop d False reason) = (False, '''')"
  by (simp add: EmergencyStop_def SetEmergencyStop_def Let_def controlFlag_def map_of_set_flag)


section \<open>Properties\<close>

text \<open>C14: Driving a run ends. With handlers that keep the tables well formed and move the cursor of their own
  run at most by ending it, the loop of \<open>Drive\<close> returns within nine iterations plus three per repair attempt
  that the run may spend, whatever the handlers report; and when it returns no error the run is
  terminal or waiting.
\<close>

theorem drive_terminates:
  assumes "handlers_ok t h" "pipe_inv d" "t \<noteq> ''''" "cursor_at d t = Some c"
    "9 + 3 * nat (cu_max c) \<le> fuel"
  shows "\<exists>res d'. Drive fuel clock h t d = Some (res, d') \<and> pipe_inv d'
    \<and> (res = None \<longrightarrow> (\<exists>c'. cursor_at d' t = Some c' \<and> (IsTerminalRunState (cu_state c') \<or> IsWaitState (cu_state c'))))"
proof -
  have "cursor_ok c" using assms(2,4) by (auto simp: pipe_inv_def)
  with measure_bound [of c] assms(5) have "cursor_measure c < fuel" by linarith
  from drive_loop_ends [OF assms(1,2,4) this, of clock False] assms(3) show ?thesis
    by (simp add: Drive_def settled_def)
qed

definition idle_handlers :: handlers where
  "idle_handlers = \<lparr>h_Compile = \<lambda>rc d. (HOk ''spec'', d), h_Plan = \<lambda>rc d. (HOk ''plan'', d),
     h_Ready = \<lambda>rc d. (HOk '''', d), h_Finalize = \<lambda>rc d. (HOk ''done'', d),
     h_Execute = \<lambda>rc d. (HOk (''diff'', 0), d), h_Verify = \<lambda>rc d. (HOk (True, '''', FailureTest), d),
     h_Review = \<lambda>rc d. (HOk (False, ''no''), d), h_Repair = \<lambda>rc d. (HOk '''', d)\<rparr>"

theorem drive_terminates_witness:
  "\<exists>res d'. Drive 15 (\<lambda>_. 0) idle_handlers ''t'' (pipe_apply (empty_pipe [''t'']) (PCreate 0 ''t'' ''p'' 2)) = Some (res, d')
    \<and> pipe_inv d' \<and> (res = None \<longrightarrow> (\<exists>c'. cursor_at d' ''t'' = Some c'
      \<and> (IsTerminalRunState (cu_state c') \<or> IsWaitState (cu_state c'))))"
proof -
  have h: "handlers_ok ''t'' idle_handlers" by (simp add: handlers_ok_def handler_ok_def idle_handlers_def)
  have c: "cursor_at (pipe_apply (empty_pipe [''t'']) (PCreate 0 ''t'' ''p'' 2)) ''t''
      = Some \<lparr>cu_stage = StageCompile, cu_state = RunActive, cu_attempt = 1, cu_repair = 0, cu_max = 2\<rparr>"
    by code_simp
  show ?thesis by (rule drive_terminates [OF h pipe_apply_inv [OF empty_pipe_inv] _ c]) simp_all
qed

text \<open>The emergency stop holds back everything. What was switched on is read back with its reason; while it
  is on, driving any run changes no table (an active run ends the drive with the emergency-stop error) whatever
  the handlers would do, and a restart resumes nothing.
\<close>

theorem emergency_stop_holds:
  assumes "t \<noteq> ''''" "0 < fuel"
  shows "EmergencyStop (SetEmergencyStop d True reason) = (True, reason)
    \<and> (\<exists>res. Drive fuel clock h t (SetEmergencyStop d True reason) = Some (res, SetEmergencyStop d True reason))
    \<and> ResumeActiveRuns now (SetEmergencyStop d True reason) = SetEmergencyStop d True reason
    \<and> EmergencyStop (SetEmergencyStop d False reason) = (False, '''')"
proof -
  let ?d = "SetEmergencyStop d True reason"
  have on: "EmergencyStop ?d = (True, reason)" by (rule EmergencyStop_on)
  obtain n where n: "fuel = Suc n" using assms(2) by (cases fuel) auto
  have "\<exists>res. drive_loop (Suc n) clock h t False ?d = Some (res, ?d)"
    by (auto simp: iterate_def on CurrentRun_def getRunTx_run_of split: option.splits)
  with on n assms(1) EmergencyStop_off show ?thesis by (simp add: Drive_def ResumeActiveRuns_def)
qed

theorem emergency_stop_holds_witness:
  "EmergencyStop (SetEmergencyStop (empty_pipe [''t'']) True ''fire'') = (True, ''fire'')"
  using emergency_stop_holds [of "''t''" 1 "empty_pipe [''t'']" "''fire''"] by simp

text \<open>C12: Restart recovery. With the emergency stop off, \<open>ResumeActiveRuns\<close> takes every waiting run to active at
  ready, and every active run to its next attempt at the same stage; terminal runs are not touched, and the
  tables stay well formed.
\<close>

theorem restart_recovery:
  assumes "pipe_inv d" "\<not> fst (EmergencyStop d)"
  shows "pipe_inv (ResumeActiveRuns now d) \<and> cursor_at (ResumeActiveRuns now d) t =
    map_option (\<lambda>c. if IsTerminalRunState (cu_state c) then c
      else if IsWaitState (cu_state c) then c\<lparr>cu_stage := StageReady, cu_state := RunActive\<rparr>
      else c\<lparr>cu_attempt := cu_attempt c + 1\<rparr>) (cursor_at d t)"
proof -
  have "cursor_at d (rn_TaskID r) = Some (cursor_of r) \<and> \<not> IsTerminalRunState (rn_State r)"
    if "r \<in> set (ListActiveRuns d)" for r
    using that run_of_mem [OF assms(1), of r] by (auto simp: ListActive_mem cursor_at_def IsTerminalRunState_def)
  from resume_fold [OF assms(1) ListActive_distinct [OF assms(1)] this, of now t]
  have f: "pipe_inv (ResumeActiveRuns now d)" "cursor_at (ResumeActiveRuns now d) t =
      (if t \<in> rn_TaskID ` set (ListActiveRuns d) then map_option resumed (cursor_at d t) else cursor_at d t)"
    using assms(2) by (auto simp: ResumeActiveRuns_def)
  show ?thesis
  proof (cases "run_of d t")
    case None
    then show ?thesis using f by (simp add: cursor_at_def)
  next
    case (Some r)
    note r = run_of_TaskID [OF Some]
    have "t \<in> rn_TaskID ` set (ListActiveRuns d) \<longleftrightarrow> \<not> IsTerminalRunState (rn_State r)"
      using ListActive_run_of [OF assms(1) Some] .
    with f Some show ?thesis by (simp add: cursor_at_def resumed_def cursor_of_def)
  qed
qed

theorem restart_recovery_witness:
  "cursor_at (ResumeActiveRuns 0 (pipe_apply (empty_pipe [''t'']) (PCreate 0 ''t'' ''p'' 2))) ''t''
    = Some \<lparr>cu_stage = StageCompile, cu_state = RunActive, cu_attempt = 2, cu_repair = 0, cu_max = 2\<rparr>"
proof -
  have c: "cursor_at (pipe_apply (empty_pipe [''t'']) (PCreate 0 ''t'' ''p'' 2)) ''t''
      = Some \<lparr>cu_stage = StageCompile, cu_state = RunActive, cu_attempt = 1, cu_repair = 0, cu_max = 2\<rparr>"
    by code_simp
  have "\<not> fst (EmergencyStop (pipe_apply (empty_pipe [''t'']) (PCreate 0 ''t'' ''p'' 2)))" by code_simp
  from restart_recovery [OF pipe_apply_inv [OF empty_pipe_inv] this, of 0 "''t''"] c show ?thesis
    by (simp add: IsTerminalRunState_def IsWaitState_def)
qed


end
