(* ===== verification/Policy.thy ===== *)
theory Policy
  imports Project_Registry
begin

text \<open>
  The policy package: the pipeline toggles (\<^verbatim>\<open>src/internal/policy/toggles.go\<close>), the autonomy profiles
  (\<^verbatim>\<open>profiles.go\<close>), the dependency rules (\<^verbatim>\<open>rules.go\<close>), the resolution of a project policy with a task
  override and the action gate (\<^verbatim>\<open>policy.go\<close>), the test-path scope rule (\<^verbatim>\<open>scope.go\<close>) and the
  stage report (\<^verbatim>\<open>stages.go\<close>). All of it is pure code. A profile is its identifier, a string, as in the
  project row. Texts are the source's byte strings; the paragraph sign is its UTF-8 encoding.
\<close>

section \<open>Toggles\<close>

datatype tri_state = TriAuto | TriOn | TriOff

record design_config =
  dc_Generate :: bool
  dc_HumanSelection :: bool
  dc_VisualVerification :: bool

record tests_config =
  tc_Generate :: bool
  tc_ModifyExisting :: bool
  tc_RunExisting :: bool
  tc_RunGenerated :: bool
  tc_RequiredForCompletion :: bool
  tc_RequireForLocalResult :: bool
  tc_RequireForRemoteMerge :: bool

record review_config =
  vc_AIReview :: bool
  vc_SecurityReview :: tri_state
  vc_ArchitectureReview :: tri_state

record git_config =
  gc_LocalCheckpointCommits :: bool
  gc_FinalLocalCommit :: bool
  gc_Push :: bool

record change_request_config =
  qc_Create :: bool
  qc_UpdateExisting :: bool

record post_merge_config =
  mc_Enabled :: bool
  mc_AutoRevert :: bool

record pipeline =
  pl_Specification :: bool
  pl_Planning :: bool
  pl_Design :: design_config
  pl_Implementation :: bool
  pl_Tests :: tests_config
  pl_Review :: review_config
  pl_Git :: git_config
  pl_ChangeRequest :: change_request_config
  pl_Merge :: bool
  pl_PostMerge :: post_merge_config

definition tri_String :: "tri_state \<Rightarrow> string" where
  "tri_String t = (case t of TriOn \<Rightarrow> ''on'' | TriOff \<Rightarrow> ''off'' | TriAuto \<Rightarrow> ''auto'')"

definition par_sign :: string where
  "par_sign = [CHR 0xC2, CHR 0xA7]"

section \<open>Profiles\<close>

definition IsNetworkLocked :: "string \<Rightarrow> bool" where
  "IsNetworkLocked p \<longleftrightarrow> p = ''PLAN_ONLY'' \<or> p = ''LOCAL_REVIEW''"

definition review_default :: review_config where
  "review_default = \<lparr>vc_AIReview = True, vc_SecurityReview = TriAuto, vc_ArchitectureReview = TriAuto\<rparr>"

definition plan_only_defaults :: pipeline where
  "plan_only_defaults = \<lparr>pl_Specification = True, pl_Planning = True,
     pl_Design = \<lparr>dc_Generate = False, dc_HumanSelection = False, dc_VisualVerification = True\<rparr>,
     pl_Implementation = False,
     pl_Tests = \<lparr>tc_Generate = False, tc_ModifyExisting = False, tc_RunExisting = True,
       tc_RunGenerated = False, tc_RequiredForCompletion = True, tc_RequireForLocalResult = False,
       tc_RequireForRemoteMerge = True\<rparr>,
     pl_Review = review_default,
     pl_Git = \<lparr>gc_LocalCheckpointCommits = False, gc_FinalLocalCommit = False, gc_Push = False\<rparr>,
     pl_ChangeRequest = \<lparr>qc_Create = False, qc_UpdateExisting = False\<rparr>, pl_Merge = False,
     pl_PostMerge = \<lparr>mc_Enabled = False, mc_AutoRevert = False\<rparr>\<rparr>"

definition local_review_defaults :: pipeline where
  "local_review_defaults = \<lparr>pl_Specification = True, pl_Planning = True,
     pl_Design = \<lparr>dc_Generate = False, dc_HumanSelection = False, dc_VisualVerification = True\<rparr>,
     pl_Implementation = True,
     pl_Tests = \<lparr>tc_Generate = True, tc_ModifyExisting = True, tc_RunExisting = True,
       tc_RunGenerated = True, tc_RequiredForCompletion = True, tc_RequireForLocalResult = False,
       tc_RequireForRemoteMerge = True\<rparr>,
     pl_Review = review_default,
     pl_Git = \<lparr>gc_LocalCheckpointCommits = True, gc_FinalLocalCommit = True, gc_Push = False\<rparr>,
     pl_ChangeRequest = \<lparr>qc_Create = False, qc_UpdateExisting = False\<rparr>, pl_Merge = False,
     pl_PostMerge = \<lparr>mc_Enabled = False, mc_AutoRevert = False\<rparr>\<rparr>"

definition remote_review_defaults :: pipeline where
  "remote_review_defaults =
     (let base = local_review_defaults
      in base\<lparr>pl_Git := (pl_Git base)\<lparr>gc_Push := True\<rparr>,
           pl_ChangeRequest := \<lparr>qc_Create = True, qc_UpdateExisting = True\<rparr>\<rparr>)"

definition autonomous_defaults :: pipeline where
  "autonomous_defaults =
     remote_review_defaults\<lparr>pl_Merge := True, pl_PostMerge := \<lparr>mc_Enabled = True, mc_AutoRevert = True\<rparr>\<rparr>"

text \<open>The default branch, \<^verbatim>\<open>CUSTOM\<close>, has the values of \<^verbatim>\<open>LOCAL_REVIEW\<close>.\<close>

definition ProfileDefaults :: "string \<Rightarrow> pipeline" where
  "ProfileDefaults p =
     (if p = ''PLAN_ONLY'' then plan_only_defaults
      else if p = ''LOCAL_REVIEW'' then local_review_defaults
      else if p = ''REMOTE_REVIEW'' then remote_review_defaults
      else if p = ''AUTONOMOUS'' then autonomous_defaults
      else local_review_defaults)"

section \<open>Dependency rules\<close>

record adjustment =
  aj_Field :: string
  aj_From :: string
  aj_To :: string
  aj_Reason :: string

datatype severity = SeverityInfo | SeverityWarn | SeverityBlock

record violation =
  vi_Rule :: string
  vi_Severity :: severity
  vi_Detail :: string

definition IsBlock :: "violation \<Rightarrow> bool" where
  "IsBlock v \<longleftrightarrow> vi_Severity v = SeverityBlock"

definition Blocks :: "violation list \<Rightarrow> bool" where
  "Blocks vs \<longleftrightarrow> (\<exists>v \<in> set vs. IsBlock v)"

definition off :: "string \<Rightarrow> string \<Rightarrow> adjustment" where
  "off field reason = \<lparr>aj_Field = field, aj_From = ''true'', aj_To = ''false'', aj_Reason = reason\<rparr>"

text \<open>R1 to R3 test the toggles of the input, the later rules those of the pipeline so far.\<close>

definition rules_push :: "pipeline \<Rightarrow> pipeline \<times> adjustment list" where
  "rules_push p =
     (if gc_Push (pl_Git p) then (p, [])
      else (p\<lparr>pl_ChangeRequest := (pl_ChangeRequest p)\<lparr>qc_Create := False\<rparr>, pl_Merge := False,
              pl_PostMerge := (pl_PostMerge p)\<lparr>mc_Enabled := False\<rparr>\<rparr>,
        (if qc_Create (pl_ChangeRequest p)
         then [off ''change_request.create'' (''git.push=false ('' @ par_sign @ ''5.1 R1)'')] else [])
        @ (if pl_Merge p then [off ''merge.enabled'' (''git.push=false ('' @ par_sign @ ''5.1 R2)'')] else [])
        @ (if mc_Enabled (pl_PostMerge p)
           then [off ''post_merge.enabled'' (''git.push=false ('' @ par_sign @ ''5.1 R3)'')] else [])))"

definition rule_merge :: "pipeline \<Rightarrow> pipeline \<times> adjustment list" where
  "rule_merge p =
     (if \<not> pl_Merge p \<and> mc_Enabled (pl_PostMerge p)
      then (p\<lparr>pl_PostMerge := (pl_PostMerge p)\<lparr>mc_Enabled := False\<rparr>\<rparr>,
        [off ''post_merge.enabled'' (''merge=false ('' @ par_sign @ ''5.1 R4)'')])
      else (p, []))"

definition rule_local_merge :: "pipeline \<Rightarrow> adjustment list" where
  "rule_local_merge p =
     (if \<not> qc_Create (pl_ChangeRequest p) \<and> pl_Merge p
      then [\<lparr>aj_Field = ''merge.mode'', aj_From = ''remote'', aj_To = ''local-only'',
        aj_Reason = ''change_request.create=false ('' @ par_sign @ ''5.1 R5: local merge mode)''\<rparr>]
      else [])"

definition rules_tests :: "pipeline \<Rightarrow> pipeline \<times> adjustment list" where
  "rules_tests p =
     (if tc_Generate (pl_Tests p) then (p, [])
      else (p\<lparr>pl_Tests := (pl_Tests p)\<lparr>tc_ModifyExisting := False, tc_RunGenerated := False\<rparr>\<rparr>,
        (if tc_ModifyExisting (pl_Tests p)
         then [off ''tests.modify_existing''
           (''tests.generate=false ('' @ par_sign @ ''24.2 R6: test paths forbidden)'')] else [])
        @ (if tc_RunGenerated (pl_Tests p)
           then [off ''tests.run_generated''
             (''tests.generate=false ('' @ par_sign @ ''24.2 R7: no generated tests to run)'')] else [])))"

definition Normalize :: "pipeline \<Rightarrow> pipeline \<times> adjustment list" where
  "Normalize p =
     (let (p1, a1) = rules_push p;
          (p2, a2) = rule_merge p1;
          (p3, a3) = rules_tests p2
      in (p3, a1 @ a2 @ rule_local_merge p2 @ a3))"

section \<open>Resolution\<close>

record mandatory_checks =
  md_AIReview :: bool
  md_SecurityReview :: bool
  md_ArchitectureReview :: bool

record security =
  se_Mandatory :: mandatory_checks
  se_NetworkLocked :: bool
  se_AllowVisualVerificationBypass :: bool

record policy_project =
  pp_Profile :: string
  pp_Pipeline :: pipeline
  pp_Security :: security

record task_context =
  tx_Override :: "pipeline option"
  tx_IsUI :: bool

record resolved =
  rs_Profile :: string
  rs_Pipeline :: pipeline

definition NewProject :: "string \<Rightarrow> policy_project" where
  "NewProject p = \<lparr>pp_Profile = p, pp_Pipeline = ProfileDefaults p,
     pp_Security = \<lparr>se_Mandatory = \<lparr>md_AIReview = False, md_SecurityReview = False,
       md_ArchitectureReview = False\<rparr>, se_NetworkLocked = IsNetworkLocked p,
       se_AllowVisualVerificationBypass = False\<rparr>\<rparr>"

text \<open>The capabilities of the override merge: name, value, and the assignment of the source's \<open>set\<close>.\<close>

definition caps :: "(string \<times> (pipeline \<Rightarrow> bool) \<times> (bool \<Rightarrow> pipeline \<Rightarrow> pipeline)) list" where
  "caps =
     [(''specification.enabled'', pl_Specification, \<lambda>on p. p\<lparr>pl_Specification := on\<rparr>),
      (''planning.enabled'', pl_Planning, \<lambda>on p. p\<lparr>pl_Planning := on\<rparr>),
      (''implementation.enabled'', pl_Implementation, \<lambda>on p. p\<lparr>pl_Implementation := on\<rparr>),
      (''design.generate'', \<lambda>p. dc_Generate (pl_Design p),
        \<lambda>on p. p\<lparr>pl_Design := (pl_Design p)\<lparr>dc_Generate := on\<rparr>\<rparr>),
      (''design.human_selection'', \<lambda>p. dc_HumanSelection (pl_Design p),
        \<lambda>on p. p\<lparr>pl_Design := (pl_Design p)\<lparr>dc_HumanSelection := on\<rparr>\<rparr>),
      (''design.visual_verification'', \<lambda>p. dc_VisualVerification (pl_Design p),
        \<lambda>on p. p\<lparr>pl_Design := (pl_Design p)\<lparr>dc_VisualVerification := on\<rparr>\<rparr>),
      (''tests.generate'', \<lambda>p. tc_Generate (pl_Tests p),
        \<lambda>on p. p\<lparr>pl_Tests := (pl_Tests p)\<lparr>tc_Generate := on\<rparr>\<rparr>),
      (''tests.modify_existing'', \<lambda>p. tc_ModifyExisting (pl_Tests p),
        \<lambda>on p. p\<lparr>pl_Tests := (pl_Tests p)\<lparr>tc_ModifyExisting := on\<rparr>\<rparr>),
      (''tests.run_existing'', \<lambda>p. tc_RunExisting (pl_Tests p),
        \<lambda>on p. p\<lparr>pl_Tests := (pl_Tests p)\<lparr>tc_RunExisting := on\<rparr>\<rparr>),
      (''tests.run_generated'', \<lambda>p. tc_RunGenerated (pl_Tests p),
        \<lambda>on p. p\<lparr>pl_Tests := (pl_Tests p)\<lparr>tc_RunGenerated := on\<rparr>\<rparr>),
      (''tests.required_for_completion'', \<lambda>p. tc_RequiredForCompletion (pl_Tests p),
        \<lambda>on p. p\<lparr>pl_Tests := (pl_Tests p)\<lparr>tc_RequiredForCompletion := on\<rparr>\<rparr>),
      (''tests.require_for_local_result'', \<lambda>p. tc_RequireForLocalResult (pl_Tests p),
        \<lambda>on p. p\<lparr>pl_Tests := (pl_Tests p)\<lparr>tc_RequireForLocalResult := on\<rparr>\<rparr>),
      (''tests.require_for_remote_merge'', \<lambda>p. tc_RequireForRemoteMerge (pl_Tests p),
        \<lambda>on p. p\<lparr>pl_Tests := (pl_Tests p)\<lparr>tc_RequireForRemoteMerge := on\<rparr>\<rparr>),
      (''review.ai_review'', \<lambda>p. vc_AIReview (pl_Review p),
        \<lambda>on p. p\<lparr>pl_Review := (pl_Review p)\<lparr>vc_AIReview := on\<rparr>\<rparr>),
      (''git.local_checkpoint_commits'', \<lambda>p. gc_LocalCheckpointCommits (pl_Git p),
        \<lambda>on p. p\<lparr>pl_Git := (pl_Git p)\<lparr>gc_LocalCheckpointCommits := on\<rparr>\<rparr>),
      (''git.final_local_commit'', \<lambda>p. gc_FinalLocalCommit (pl_Git p),
        \<lambda>on p. p\<lparr>pl_Git := (pl_Git p)\<lparr>gc_FinalLocalCommit := on\<rparr>\<rparr>),
      (''git.push'', \<lambda>p. gc_Push (pl_Git p),
        \<lambda>on p. p\<lparr>pl_Git := (pl_Git p)\<lparr>gc_Push := on\<rparr>\<rparr>),
      (''change_request.create'', \<lambda>p. qc_Create (pl_ChangeRequest p),
        \<lambda>on p. p\<lparr>pl_ChangeRequest := (pl_ChangeRequest p)\<lparr>qc_Create := on\<rparr>\<rparr>),
      (''change_request.update_existing'', \<lambda>p. qc_UpdateExisting (pl_ChangeRequest p),
        \<lambda>on p. p\<lparr>pl_ChangeRequest := (pl_ChangeRequest p)\<lparr>qc_UpdateExisting := on\<rparr>\<rparr>),
      (''merge.enabled'', pl_Merge, \<lambda>on p. p\<lparr>pl_Merge := on\<rparr>),
      (''post_merge.enabled'', \<lambda>p. mc_Enabled (pl_PostMerge p),
        \<lambda>on p. p\<lparr>pl_PostMerge := (pl_PostMerge p)\<lparr>mc_Enabled := on\<rparr>\<rparr>),
      (''post_merge.auto_revert'', \<lambda>p. mc_AutoRevert (pl_PostMerge p),
        \<lambda>on p. p\<lparr>pl_PostMerge := (pl_PostMerge p)\<lparr>mc_AutoRevert := on\<rparr>\<rparr>)]"

definition tri_rank :: "tri_state \<Rightarrow> nat" where
  "tri_rank t = (case t of TriOff \<Rightarrow> 2 | TriAuto \<Rightarrow> 1 | TriOn \<Rightarrow> 0)"

definition moreRestrictive :: "tri_state \<Rightarrow> tri_state \<Rightarrow> bool" where
  "moreRestrictive a b \<longleftrightarrow> tri_rank a > tri_rank b"

definition clamp :: "string \<Rightarrow> violation" where
  "clamp detail = \<lparr>vi_Rule = ''ac29.override-clamp'', vi_Severity = SeverityWarn, vi_Detail = detail\<rparr>"

definition mergeTri :: "tri_state \<Rightarrow> tri_state \<Rightarrow> string \<Rightarrow> tri_state \<times> violation list" where
  "mergeTri base over name =
     (if over = TriAuto \<or> over = base then (base, [])
      else if moreRestrictive over base then (over, [])
      else (base, [clamp (''task override tried to relax '' @ name @ '' ('' @ tri_String base @ '' -> ''
        @ tri_String over @ ''); kept '' @ tri_String base)]))"

definition mergeRestrict :: "pipeline \<Rightarrow> pipeline \<Rightarrow> pipeline \<times> violation list" where
  "mergeRestrict base over =
     (let out = fold (\<lambda>(name, get, set). set (get base \<and> get over)) caps base;
          vs = concat (map (\<lambda>(name, get, set). if get over \<and> \<not> get base
            then [clamp (''task override tried to enable '' @ name
              @ '' which the project disables; kept disabled'')] else []) caps);
          (sec, vs1) = mergeTri (vc_SecurityReview (pl_Review base)) (vc_SecurityReview (pl_Review over))
            ''review.security_review'';
          (arch, vs2) = mergeTri (vc_ArchitectureReview (pl_Review base)) (vc_ArchitectureReview (pl_Review over))
            ''review.architecture_review''
      in (out\<lparr>pl_Review := (pl_Review out)\<lparr>vc_SecurityReview := sec, vc_ArchitectureReview := arch\<rparr>\<rparr>,
          vs @ vs1 @ vs2))"

definition restored :: "string \<Rightarrow> string \<Rightarrow> violation" where
  "restored rule what = \<lparr>vi_Rule = ''ac29.mandatory.'' @ rule, vi_Severity = SeverityWarn,
     vi_Detail = ''task override cannot disable the mandatory '' @ what @ '' review; restored''\<rparr>"

definition enforceMandatory :: "pipeline \<Rightarrow> security \<Rightarrow> pipeline \<times> violation list" where
  "enforceMandatory p sec =
     (let rv = pl_Review p; m = se_Mandatory sec;
          ai = (md_AIReview m \<and> \<not> vc_AIReview rv);
          sr = (md_SecurityReview m \<and> vc_SecurityReview rv = TriOff);
          ar = (md_ArchitectureReview m \<and> vc_ArchitectureReview rv = TriOff)
      in (p\<lparr>pl_Review := rv\<lparr>vc_AIReview := (ai \<or> vc_AIReview rv),
            vc_SecurityReview := (if sr then TriOn else vc_SecurityReview rv),
            vc_ArchitectureReview := (if ar then TriOn else vc_ArchitectureReview rv)\<rparr>\<rparr>,
          (if ai then [restored ''ai_review'' ''AI''] else [])
          @ (if sr then [restored ''security_review'' ''security''] else [])
          @ (if ar then [restored ''architecture_review'' ''architecture''] else [])))"

definition locked_violation :: "string \<Rightarrow> violation" where
  "locked_violation detail = \<lparr>vi_Rule = ''ac7.network-locked'', vi_Severity = SeverityBlock,
     vi_Detail = detail\<rparr>"

definition applyNetworkLock :: "pipeline \<Rightarrow> pipeline \<times> violation list" where
  "applyNetworkLock p =
     (p\<lparr>pl_Git := (pl_Git p)\<lparr>gc_Push := False\<rparr>,
        pl_ChangeRequest := \<lparr>qc_Create = False, qc_UpdateExisting = False\<rparr>, pl_Merge := False,
        pl_PostMerge := (pl_PostMerge p)\<lparr>mc_Enabled := False\<rparr>\<rparr>,
      (if gc_Push (pl_Git p) then [locked_violation
         ''git.push is structurally disabled in a network-locked profile (LOCAL_REVIEW/PLAN_ONLY)''] else [])
      @ (if qc_Create (pl_ChangeRequest p) then [locked_violation
         ''change_request.create is structurally disabled in a network-locked profile''] else [])
      @ (if pl_Merge p then [locked_violation
         ''merge is structurally disabled in a network-locked profile''] else []))"

definition normalize_violation :: "adjustment \<Rightarrow> violation" where
  "normalize_violation a = \<lparr>vi_Rule = par_sign @ ''5.1.normalize'', vi_Severity = SeverityInfo,
     vi_Detail = aj_Field a @ '': '' @ aj_From a @ '' -> '' @ aj_To a @ '' ('' @ aj_Reason a @ '')''\<rparr>"

definition Resolve :: "policy_project \<Rightarrow> task_context \<Rightarrow> resolved \<times> violation list" where
  "Resolve project task =
     (let (p1, v1) = (case tx_Override task of None \<Rightarrow> (pp_Pipeline project, [])
                     | Some over \<Rightarrow> mergeRestrict (pp_Pipeline project) over);
          (p2, v2) = enforceMandatory p1 (pp_Security project);
          (p3, adj) = Normalize p2;
          (p4, v4) = (if se_NetworkLocked (pp_Security project) \<or> IsNetworkLocked (pp_Profile project)
                      then applyNetworkLock p3 else (p3, []));
          v5 = (if tx_IsUI task \<and> pl_Merge p4 \<and> \<not> dc_VisualVerification (pl_Design p4)
                  \<and> \<not> se_AllowVisualVerificationBypass (pp_Security project)
                then [\<lparr>vi_Rule = par_sign @ ''5.1.vv-required-for-ui-merge'', vi_Severity = SeverityBlock,
                  vi_Detail = ''auto-merging a UI task requires visual verification enabled (or an explicit project exemption)''\<rparr>]
                else [])
      in (\<lparr>rs_Profile = pp_Profile project, rs_Pipeline = p4\<rparr>,
          v1 @ v2 @ map normalize_violation adj @ v4 @ v5))"

section \<open>The action gate\<close>

datatype action =
    ActPush | ActCreateChangeRequest | ActUpdateChangeRequest | ActMerge | ActPostMerge
  | ActPostMergeAutoRevert | ActImplement | ActGenerateTests | ActModifyExistingTests
  | ActRunExistingTests | ActRunGeneratedTests | ActGenerateDesign | ActAIReview
  | ActSecurityReview | ActArchReview | ActLocalCheckpoint | OtherAction string

definition triToBool :: "tri_state \<Rightarrow> bool" where
  "triToBool t \<longleftrightarrow> t \<noteq> TriOff"

definition b_str :: "bool \<Rightarrow> string" where
  "b_str v = (if v then ''true'' else ''false'')"

text \<open>The decision is the pair of \<open>Allow\<close> and \<open>Reason\<close>.\<close>

definition Allows :: "resolved \<Rightarrow> action \<Rightarrow> bool \<times> string" where
  "Allows r a =
     (let p = rs_Pipeline r; g = pl_Git p; q = pl_ChangeRequest p; t = pl_Tests p; v = pl_Review p;
          m = pl_PostMerge p
      in case a of
        ActPush \<Rightarrow> (gc_Push g, ''git.push='' @ b_str (gc_Push g))
      | ActCreateChangeRequest \<Rightarrow> (gc_Push g \<and> qc_Create q,
          ''git.push='' @ b_str (gc_Push g) @ '' and change_request.create='' @ b_str (qc_Create q))
      | ActUpdateChangeRequest \<Rightarrow> (gc_Push g \<and> qc_UpdateExisting q,
          ''git.push='' @ b_str (gc_Push g) @ '' and change_request.update_existing='' @ b_str (qc_UpdateExisting q))
      | ActMerge \<Rightarrow> (pl_Merge p, ''merge='' @ b_str (pl_Merge p))
      | ActPostMerge \<Rightarrow> (pl_Merge p \<and> mc_Enabled m,
          ''merge='' @ b_str (pl_Merge p) @ '' and post_merge.enabled='' @ b_str (mc_Enabled m))
      | ActPostMergeAutoRevert \<Rightarrow> (pl_Merge p \<and> mc_Enabled m \<and> mc_AutoRevert m,
          ''post_merge.auto_revert='' @ b_str (mc_AutoRevert m))
      | ActImplement \<Rightarrow> (pl_Implementation p, ''implementation='' @ b_str (pl_Implementation p))
      | ActGenerateTests \<Rightarrow> (tc_Generate t, ''tests.generate='' @ b_str (tc_Generate t))
      | ActModifyExistingTests \<Rightarrow> (tc_Generate t \<and> tc_ModifyExisting t,
          ''tests.generate='' @ b_str (tc_Generate t) @ '' and tests.modify_existing='' @ b_str (tc_ModifyExisting t))
      | ActRunExistingTests \<Rightarrow> (tc_RunExisting t, ''tests.run_existing='' @ b_str (tc_RunExisting t))
      | ActRunGeneratedTests \<Rightarrow> (tc_RunGenerated t \<and> tc_Generate t,
          ''tests.run_generated='' @ b_str (tc_RunGenerated t) @ '' and tests.generate='' @ b_str (tc_Generate t))
      | ActGenerateDesign \<Rightarrow> (dc_Generate (pl_Design p), ''design.generate='' @ b_str (dc_Generate (pl_Design p)))
      | ActAIReview \<Rightarrow> (vc_AIReview v, ''review.ai_review='' @ b_str (vc_AIReview v))
      | ActSecurityReview \<Rightarrow> (triToBool (vc_SecurityReview v),
          ''review.security_review='' @ tri_String (vc_SecurityReview v))
      | ActArchReview \<Rightarrow> (triToBool (vc_ArchitectureReview v),
          ''review.architecture_review='' @ tri_String (vc_ArchitectureReview v))
      | ActLocalCheckpoint \<Rightarrow> (gc_LocalCheckpointCommits g,
          ''git.local_checkpoint_commits='' @ b_str (gc_LocalCheckpointCommits g))
      | OtherAction _ \<Rightarrow> (False, ''unknown action''))"

abbreviation allowed :: "resolved \<Rightarrow> action \<Rightarrow> bool" where
  "allowed r a \<equiv> fst (Allows r a)"

section \<open>Test paths\<close>

record test_path_convention =
  cv_Suffixes :: "string list"
  cv_Substrings :: "string list"

definition DefaultTestConventions :: "test_path_convention list" where
  "DefaultTestConventions =
     [\<lparr>cv_Suffixes = [''_test.go''], cv_Substrings = []\<rparr>,
      \<lparr>cv_Suffixes = [''.test.js'', ''.test.ts'', ''.test.tsx''], cv_Substrings = []\<rparr>,
      \<lparr>cv_Suffixes = [''.spec.js'', ''.spec.ts'', ''.spec.tsx''], cv_Substrings = []\<rparr>,
      \<lparr>cv_Suffixes = [], cv_Substrings = [''/test/'', ''/tests/'', ''/__tests__/'']\<rparr>,
      \<lparr>cv_Suffixes = [], cv_Substrings = [''/src/test/'']\<rparr>,
      \<lparr>cv_Suffixes = [''test.py'', ''_test.py''], cv_Substrings = []\<rparr>,
      \<lparr>cv_Suffixes = [''Test.java'', ''Tests.java'', ''IT.java''], cv_Substrings = []\<rparr>,
      \<lparr>cv_Suffixes = [''_spec.rb''], cv_Substrings = [''/spec/'']\<rparr>]"

text \<open>
  \<^verbatim>\<open>filepath.ToSlash\<close> is the identity where the separator is a slash. \<open>slug_lower\<close> agrees with
  \<^verbatim>\<open>strings.ToLower\<close> on every byte that can match an ASCII pattern; the patterns are ASCII.
\<close>

definition IsTestPath :: "test_path_convention list \<Rightarrow> string \<Rightarrow> bool" where
  "IsTestPath convs0 path =
     (let convs = (if convs0 = [] then DefaultTestConventions else convs0);
          matchPath = (if prefix ''/'' path then path else ''/'' @ path);
          lower = slug_lower matchPath
      in \<exists>c \<in> set convs. (\<exists>sfx \<in> set (cv_Suffixes c). suffix (slug_lower sfx) lower)
           \<or> (\<exists>sub \<in> set (cv_Substrings c). sublist (slug_lower sub) lower))"

record scope_check_result =
  sc_Path :: string
  sc_IsTest :: bool
  sc_Allowed :: bool
  sc_DenialCode :: string
  sc_Reason :: string

definition CheckTestScope ::
  "test_path_convention list \<Rightarrow> pipeline \<Rightarrow> string \<Rightarrow> bool \<Rightarrow> scope_check_result" where
  "CheckTestScope convs p path isNew =
     (if \<not> IsTestPath convs path
      then \<lparr>sc_Path = path, sc_IsTest = False, sc_Allowed = True, sc_DenialCode = '''', sc_Reason = ''''\<rparr>
      else if \<not> tc_Generate (pl_Tests p)
      then \<lparr>sc_Path = path, sc_IsTest = True, sc_Allowed = False, sc_DenialCode = ''test_generation_disabled'',
        sc_Reason = ''tests.generate is disabled: creating or modifying test files is forbidden ('' @ par_sign @ ''24.2)''\<rparr>
      else if \<not> isNew \<and> \<not> tc_ModifyExisting (pl_Tests p)
      then \<lparr>sc_Path = path, sc_IsTest = True, sc_Allowed = False, sc_DenialCode = ''modify_existing_disabled'',
        sc_Reason = ''tests.modify_existing is disabled: modifying existing test files is forbidden''\<rparr>
      else \<lparr>sc_Path = path, sc_IsTest = True, sc_Allowed = True, sc_DenialCode = '''', sc_Reason = ''''\<rparr>)"

record file_change =
  fc_Path :: string
  fc_IsNew :: bool

definition zero_scope_result :: scope_check_result where
  "zero_scope_result = \<lparr>sc_Path = '''', sc_IsTest = False, sc_Allowed = False, sc_DenialCode = '''',
     sc_Reason = ''''\<rparr>"

fun check_changes ::
  "test_path_convention list \<Rightarrow> pipeline \<Rightarrow> file_change list \<Rightarrow> scope_check_result \<times> nat
     \<Rightarrow> scope_check_result \<times> nat" where
  "check_changes convs p [] acc = acc"
| "check_changes convs p (c # cs) (first, denied) =
     (let r = CheckTestScope convs p (fc_Path c) (fc_IsNew c)
      in if sc_IsTest r \<and> \<not> sc_Allowed r
         then check_changes convs p cs (if sc_Path first = '''' then r else first, Suc denied)
         else check_changes convs p cs (first, denied))"

definition CheckFileChanges ::
  "test_path_convention list \<Rightarrow> pipeline \<Rightarrow> file_change list \<Rightarrow> scope_check_result \<times> nat" where
  "CheckFileChanges convs p changes = check_changes convs p changes (zero_scope_result, 0)"

text \<open>\<^verbatim>\<open>src/internal/testengine/scope.go\<close>: the validator over the policy check.\<close>

record scope_violation =
  sv_Path :: string
  sv_Code :: string
  sv_Reason :: string
  sv_Changes :: nat

definition ScopeValidator_Validate ::
  "test_path_convention list \<Rightarrow> pipeline \<Rightarrow> file_change list \<Rightarrow> scope_violation option" where
  "ScopeValidator_Validate convs p changes =
     (case CheckFileChanges convs p changes of
        (r, denied) \<Rightarrow> if denied = 0 then None
          else Some \<lparr>sv_Path = sc_Path r, sv_Code = sc_DenialCode r, sv_Reason = sc_Reason r,
            sv_Changes = denied\<rparr>)"

section \<open>Stage report\<close>

datatype stage_id =
    StageSpecification | StagePlanning | StageDesign | StageImplementation | StageTestGenerate
  | StageRunTests | StageAIReview | StageArchReview | StageSecurityReview | StagePush
  | StageChangeRequest | StageMerge | StagePostMerge

datatype stage_status = StageActive | StageSkipped | StageLocked

record stage_report =
  st_Stage :: stage_id
  st_Status :: stage_status
  st_Reason :: string
  st_Actions :: "action list"

definition stageBool :: "bool \<Rightarrow> stage_status" where
  "stageBool on = (if on then StageActive else StageSkipped)"

definition triLabel :: "tri_state \<Rightarrow> string" where
  "triLabel t = (if t = TriAuto then ''auto'' else '''')"

definition run_tests_report :: "tests_config \<Rightarrow> stage_status \<times> string" where
  "run_tests_report t =
     (if \<not> tc_Generate t then (StageSkipped, ''tests.generate=false: no tests run ('' @ par_sign @ ''24.2)'')
      else if tc_RunExisting t \<and> tc_RunGenerated t then (StageActive, '''')
      else if tc_RunExisting t then (StageActive, ''run_generated disabled; only existing tests run'')
      else if tc_RunGenerated t then (StageActive, ''run_existing disabled; only generated tests run'')
      else (StageSkipped, ''tests.run_existing=false and run_generated=false''))"

definition delivery_report :: "bool \<Rightarrow> bool \<Rightarrow> string \<Rightarrow> string \<Rightarrow> stage_status \<times> string" where
  "delivery_report on networkLocked locked skipped =
     (if on then (StageActive, '''') else if networkLocked then (StageLocked, locked)
      else (StageSkipped, skipped))"

definition report :: "stage_id \<Rightarrow> stage_status \<times> string \<Rightarrow> action list \<Rightarrow> stage_report" where
  "report s x as = \<lparr>st_Stage = s, st_Status = fst x, st_Reason = snd x, st_Actions = as\<rparr>"

definition StageStatus :: "resolved \<Rightarrow> stage_report list" where
  "StageStatus r =
     (let p = rs_Pipeline r; networkLocked = IsNetworkLocked (rs_Profile r); t = pl_Tests p; v = pl_Review p
      in [report StageSpecification (stageBool (pl_Specification p), '''') [],
          report StagePlanning (stageBool (pl_Planning p), '''') [],
          report StageDesign (stageBool (dc_Generate (pl_Design p) \<or> dc_VisualVerification (pl_Design p)), '''')
            [ActGenerateDesign],
          report StageImplementation (stageBool (pl_Implementation p), '''') [ActImplement],
          report StageTestGenerate (if tc_Generate t then (StageActive, '''')
            else (StageSkipped, ''tests.generate=false (test paths forbidden, '' @ par_sign @ ''24.2)''))
            [ActGenerateTests, ActModifyExistingTests],
          report StageRunTests (run_tests_report t) [ActRunExistingTests, ActRunGeneratedTests],
          report StageAIReview (if vc_AIReview v then (StageActive, '''')
            else (StageSkipped, ''review.ai_review=false'')) [ActAIReview],
          report StageArchReview (if triToBool (vc_ArchitectureReview v)
            then (StageActive, triLabel (vc_ArchitectureReview v))
            else (StageSkipped, ''review.architecture_review=off'')) [ActArchReview],
          report StageSecurityReview (if triToBool (vc_SecurityReview v)
            then (StageActive, triLabel (vc_SecurityReview v))
            else (StageSkipped, ''review.security_review=off'')) [ActSecurityReview],
          report StagePush (delivery_report (gc_Push (pl_Git p)) networkLocked
            ''network-locked profile (LOCAL_REVIEW/PLAN_ONLY)'' ''git.push=false'') [ActPush],
          report StageChangeRequest (delivery_report (qc_Create (pl_ChangeRequest p)) networkLocked
            ''network-locked profile'' ''change_request.create=false'')
            [ActCreateChangeRequest, ActUpdateChangeRequest],
          report StageMerge (delivery_report (pl_Merge p) networkLocked
            ''network-locked profile'' ''merge=false'') [ActMerge],
          report StagePostMerge (delivery_report (mc_Enabled (pl_PostMerge p)) networkLocked
            ''network-locked profile'' ''post_merge.enabled=false'') [ActPostMerge, ActPostMergeAutoRevert]])"

definition IsSkipped :: "stage_report list \<Rightarrow> stage_id \<Rightarrow> bool" where
  "IsSkipped stages s =
     (case find (\<lambda>r. st_Stage r = s) stages of None \<Rightarrow> True | Some r \<Rightarrow> st_Status r \<noteq> StageActive)"

definition status_LocalResultLabels :: "stage_report list \<Rightarrow> string list" where
  "status_LocalResultLabels s =
     [''IMPLEMENTED'', if IsSkipped s StageRunTests then ''NOT TESTED'' else ''TESTED'',
      if IsSkipped s StageAIReview \<and> IsSkipped s StageArchReview \<and> IsSkipped s StageSecurityReview
      then ''NOT REVIEWED'' else ''REVIEWED'', ''LOCAL BRANCH ONLY'']"

end
