(* ===== verification/Verification_Engines.thy ===== *)
theory Verification_Engines
  imports Policy
begin

text \<open>
  Acceptance evidence (\<^verbatim>\<open>src/internal/evidence/evidence.go\<close>), the review engine
  (\<^verbatim>\<open>src/internal/review/engine.go\<close>) and the progressive test engine
  (\<^verbatim>\<open>src/internal/testengine/engine.go\<close>). The reviewer and the test runner are the interfaces the engines
  call: arguments of the definitions, functions of the request. Levels are Go integers; durations are left out.
\<close>

section \<open>Evidence\<close>

record evidence =
  ev_CriterionID :: string
  ev_Type :: string
  ev_Reference :: string
  ev_Status :: string
  ev_Confidence :: string
  ev_TestsWereRun :: bool

text \<open>The map by criterion, as the list of its entries; the callers' results do not depend on the order.\<close>

definition byCriterion :: "evidence list \<Rightarrow> (string \<times> evidence list) list" where
  "byCriterion items =
     map (\<lambda>id. (id, filter (\<lambda>e. ev_CriterionID e = id) items)) (remdups (map ev_CriterionID items))"

definition has_passed :: "evidence list \<Rightarrow> bool" where
  "has_passed items \<longleftrightarrow> (\<exists>e \<in> set items. ev_Status e = ''passed'')"

definition evidence_IsComplete :: "evidence list \<Rightarrow> bool" where
  "evidence_IsComplete items \<longleftrightarrow>
     items \<noteq> [] \<and> (\<forall>(id, es) \<in> set (byCriterion items). has_passed es)"

definition MissingCriteria :: "evidence list \<Rightarrow> string list" where
  "MissingCriteria items = sort (map fst (filter (\<lambda>(id, es). \<not> has_passed es) (byCriterion items)))"

definition rankConfidence :: "string \<Rightarrow> nat" where
  "rankConfidence c =
     (if c = ''high'' then 4 else if c = ''medium'' then 3 else if c = ''low'' then 2
      else if c = ''none'' then 1 else 0)"

fun lowest_confidence :: "string \<Rightarrow> evidence list \<Rightarrow> string" where
  "lowest_confidence lowest [] = lowest"
| "lowest_confidence lowest (e # es) =
     lowest_confidence (if rankConfidence (ev_Confidence e) < rankConfidence lowest
       then ev_Confidence e else lowest) es"

definition AggregateConfidence :: "evidence list \<Rightarrow> string" where
  "AggregateConfidence items = (if items = [] then ''none'' else lowest_confidence ''high'' items)"

definition HasTestEvidence :: "evidence list \<Rightarrow> bool" where
  "HasTestEvidence items \<longleftrightarrow> (\<exists>e \<in> set items. ev_Type e = ''test'' \<and> ev_Status e = ''passed'')"

definition LowerForDisabledTests :: "evidence list \<Rightarrow> evidence list" where
  "LowerForDisabledTests items =
     map (\<lambda>e. if \<not> ev_TestsWereRun e \<and> ev_Confidence e = ''high'' then e\<lparr>ev_Confidence := ''low''\<rparr> else e) items"

section \<open>Review\<close>

datatype role = RoleCorrectness | RoleArchitecture | RoleSecurity

datatype review_severity = RevInfo | RevMinor | RevMajor | RevBlocker | OtherSeverity string

record finding =
  fi_Role :: role
  fi_Severity :: review_severity
  fi_Title :: string
  fi_Description :: string
  fi_File :: string
  fi_Line :: int
  fi_Remediation :: string

definition IsBlocker :: "finding \<Rightarrow> bool" where
  "IsBlocker f \<longleftrightarrow> fi_Severity f = RevBlocker"

definition IsMajorOrWorse :: "finding \<Rightarrow> bool" where
  "IsMajorOrWorse f \<longleftrightarrow> fi_Severity f = RevMajor \<or> fi_Severity f = RevBlocker"

record review_request =
  rq_Diff :: string
  rq_ChangedFiles :: "string list"
  rq_Context :: string

type_synonym reviewer = "role \<Rightarrow> review_request \<Rightarrow> (string, finding list) result"

record review_result =
  rr_Findings :: "finding list"
  rr_RolesRun :: "role list"
  rr_RolesSkipped :: "role list"

datatype review_status = ReviewApproved | ReviewChangesRequested | ReviewSkipped

definition review_OverallStatus :: "review_result \<Rightarrow> review_status" where
  "review_OverallStatus r =
     (if rr_RolesRun r = [] then ReviewSkipped
      else if \<exists>f \<in> set (rr_Findings r). IsMajorOrWorse f then ReviewChangesRequested
      else ReviewApproved)"

definition BlockerCount :: "review_result \<Rightarrow> nat" where
  "BlockerCount r = length (filter IsBlocker (rr_Findings r))"

definition MajorCount :: "review_result \<Rightarrow> nat" where
  "MajorCount r = length (filter (\<lambda>f. fi_Severity f = RevMajor) (rr_Findings r))"

definition IsReviewed :: "review_result \<Rightarrow> bool" where
  "IsReviewed r \<longleftrightarrow> rr_RolesRun r \<noteq> []"

definition review_roles :: "pipeline \<Rightarrow> (role \<times> bool) list" where
  "review_roles p =
     [(RoleCorrectness, vc_AIReview (pl_Review p)),
      (RoleArchitecture, triToBool (vc_ArchitectureReview (pl_Review p))),
      (RoleSecurity, triToBool (vc_SecurityReview (pl_Review p)))]"

text \<open>On a reviewer's error the result so far is returned with the role and the error.\<close>

fun run_roles ::
  "reviewer \<Rightarrow> review_request \<Rightarrow> (role \<times> bool) list \<Rightarrow> review_result
     \<Rightarrow> (role \<times> string) option \<times> review_result" where
  "run_roles rv req [] res = (None, res)"
| "run_roles rv req ((role, on) # roles) res =
     (if \<not> on then run_roles rv req roles (res\<lparr>rr_RolesSkipped := rr_RolesSkipped res @ [role]\<rparr>)
      else case rv role req of
        Inl err \<Rightarrow> (Some (role, err), res)
      | Inr findings \<Rightarrow> run_roles rv req roles
          (res\<lparr>rr_RolesRun := rr_RolesRun res @ [role], rr_Findings := rr_Findings res @ findings\<rparr>))"

definition review_Run ::
  "reviewer \<Rightarrow> resolved \<Rightarrow> review_request \<Rightarrow> (role \<times> string) option \<times> review_result" where
  "review_Run rv policy req = run_roles rv req (review_roles (rs_Pipeline policy))
     \<lparr>rr_Findings = [], rr_RolesRun = [], rr_RolesSkipped = []\<rparr>"

section \<open>Progressive tests\<close>

datatype verification_status = VPassed | VFailed | VSkipped | VNotRun | VUnset | OtherVStatus string

record test_failure =
  tf_TestName :: string
  tf_Package :: string
  tf_Message :: string
  tf_File :: string
  tf_Line :: int

record level_result =
  lr_Level :: int
  lr_Status :: verification_status
  lr_Passed :: int
  lr_Failed :: int
  lr_Skipped :: int
  lr_Failures :: "test_failure list"
  lr_SlicedOutput :: string
  lr_LogPath :: string

text \<open>\<open>HighestCompletedLevel\<close> starts at Go's zero value, the syntax level.\<close>

record test_summary =
  ts_Results :: "level_result list"
  ts_HighestCompletedLevel :: int
  ts_TestsWereRun :: bool

definition bare_result :: "int \<Rightarrow> verification_status \<Rightarrow> level_result" where
  "bare_result lvl st = \<lparr>lr_Level = lvl, lr_Status = st, lr_Passed = 0, lr_Failed = 0, lr_Skipped = 0,
     lr_Failures = [], lr_SlicedOutput = '''', lr_LogPath = ''''\<rparr>"

definition test_OverallStatus :: "test_summary \<Rightarrow> verification_status" where
  "test_OverallStatus s =
     (if ts_Results s = [] then VSkipped
      else if \<exists>r \<in> set (ts_Results s). lr_Status r = VFailed then VFailed
      else if \<forall>r \<in> set (ts_Results s). lr_Status r = VSkipped \<or> lr_Status r = VNotRun then VSkipped
      else VPassed)"

definition HasTestFailures :: "test_summary \<Rightarrow> bool" where
  "HasTestFailures s \<longleftrightarrow> (\<exists>r \<in> set (ts_Results s). lr_Failed r > 0)"

text \<open>A runner gets the level and the changed paths (the workspace path hint is always empty).\<close>

type_synonym runner = "int \<Rightarrow> string list \<Rightarrow> (string, level_result) result"

definition tests_enabled :: "pipeline \<Rightarrow> bool" where
  "tests_enabled p \<longleftrightarrow>
     tc_RunExisting (pl_Tests p) \<or> (tc_RunGenerated (pl_Tests p) \<and> tc_Generate (pl_Tests p))"

definition shouldRunLevel :: "int \<Rightarrow> pipeline \<Rightarrow> bool" where
  "shouldRunLevel lvl p \<longleftrightarrow>
     (if lvl = 0 \<or> lvl = 1 then True
      else if lvl = 2 then tests_enabled p
      else if lvl = 3 \<or> lvl = 4 then tests_enabled p
      else False)"

definition stamp :: "int \<Rightarrow> level_result \<Rightarrow> level_result" where
  "stamp lvl res = res\<lparr>lr_Level := lvl, lr_Status := (if lr_Status res = VUnset then VPassed else lr_Status res)\<rparr>"

definition add_result :: "level_result \<Rightarrow> test_summary \<Rightarrow> test_summary" where
  "add_result r s = s\<lparr>ts_Results := ts_Results s @ [r]\<rparr>"

definition not_run_rest :: "int list \<Rightarrow> test_summary \<Rightarrow> test_summary" where
  "not_run_rest ls s = s\<lparr>ts_Results := ts_Results s @ map (\<lambda>l. bare_result l VNotRun) ls\<rparr>"

fun verify_levels ::
  "runner \<Rightarrow> pipeline \<Rightarrow> string list \<Rightarrow> int list \<Rightarrow> test_summary \<Rightarrow> (int \<times> string) option \<times> test_summary" where
  "verify_levels run p files [] s = (None, s)"
| "verify_levels run p files (lvl # ls) s =
     (if \<not> shouldRunLevel lvl p
      then verify_levels run p files ls (add_result (bare_result lvl VSkipped) s)
      else case run lvl files of
        Inl err \<Rightarrow> (Some (lvl, err), s)
      | Inr res0 \<Rightarrow>
          let res = stamp lvl res0; s1 = add_result res s;
              ran = (\<lambda>x. x\<lparr>ts_TestsWereRun := (lvl \<ge> 2 \<or> ts_TestsWereRun x)\<rparr>)
          in if lr_Status res = VPassed
             then verify_levels run p files ls (ran (s1\<lparr>ts_HighestCompletedLevel := lvl\<rparr>))
             else if lr_Status res = VFailed then (None, not_run_rest ls (ran s1))
             else verify_levels run p files ls s1)"

fun no_test_levels :: "runner \<Rightarrow> string list \<Rightarrow> int list \<Rightarrow> test_summary \<Rightarrow> test_summary" where
  "no_test_levels run files [] s = s"
| "no_test_levels run files (lvl # ls) s =
     (if lvl \<ge> 2 then no_test_levels run files ls (add_result (bare_result lvl VSkipped) s)
      else
        let res0 = (case run lvl files of
              Inl err \<Rightarrow> (bare_result lvl VFailed)\<lparr>lr_SlicedOutput := err\<rparr>
            | Inr r \<Rightarrow> r);
            res = stamp lvl res0; s1 = add_result res s
        in if lr_Status res = VPassed
           then no_test_levels run files ls (s1\<lparr>ts_HighestCompletedLevel := lvl\<rparr>)
           else not_run_rest ls s1)"

definition zero_summary :: test_summary where
  "zero_summary = \<lparr>ts_Results = [], ts_HighestCompletedLevel = 0, ts_TestsWereRun = False\<rparr>"

text \<open>A zero \<open>MaxLevel\<close> means the full level.\<close>

definition levels_upto :: "int \<Rightarrow> int list" where
  "levels_upto maxLevel = [0..(if maxLevel = 0 then 4 else maxLevel)]"

definition Verify ::
  "runner \<Rightarrow> resolved \<Rightarrow> file_change list \<Rightarrow> int \<Rightarrow> (int \<times> string) option \<times> test_summary" where
  "Verify run policy changes maxLevel =
     (let p = rs_Pipeline policy; files = map fc_Path changes
      in if \<not> tests_enabled p then (None, no_test_levels run files (levels_upto maxLevel) zero_summary)
         else verify_levels run p files (levels_upto maxLevel) zero_summary)"

end
