(* ===== verification/Engines_Valid.thy ===== *)
theory Engines_Valid
  imports Verification_Engines
begin

text \<open>
  Properties of the engines: what the summary of a verification run says about the levels, which roles a review
  runs, and what complete evidence means.
\<close>

section \<open>Progressive tests\<close>

text \<open>After a failed level nothing runs.\<close>

fun fail_stops :: "level_result list \<Rightarrow> bool" where
  "fail_stops [] = True"
| "fail_stops (r # rs) =
     (if lr_Status r = VFailed then list_all (\<lambda>x. lr_Status x = VNotRun) rs else fail_stops rs)"

definition tested :: "level_result list \<Rightarrow> bool" where
  "tested rs \<longleftrightarrow> list_ex (\<lambda>r. lr_Level r \<ge> 2 \<and> (lr_Status r = VPassed \<or> lr_Status r = VFailed)) rs"

lemma bare_fields [simp]: "lr_Level (bare_result l st) = l" "lr_Status (bare_result l st) = st"
  by (simp_all add: bare_result_def)

lemma stamp_level [simp]: "lr_Level (stamp l r) = l"
  by (simp add: stamp_def)

lemma not_run_facts:
  "map lr_Level (map (\<lambda>l. bare_result l VNotRun) ls) = ls"
  "list_all (\<lambda>x. lr_Status x = VNotRun) (map (\<lambda>l. bare_result l VNotRun) ls)"
  "fail_stops (map (\<lambda>l. bare_result l VNotRun) ls)" "\<not> tested (map (\<lambda>l. bare_result l VNotRun) ls)"
  by (induction ls) (simp_all add: tested_def)

definition extends :: "int list \<Rightarrow> test_summary \<Rightarrow> test_summary \<Rightarrow> bool" where
  "extends ls s s' \<longleftrightarrow> (\<exists>new. ts_Results s' = ts_Results s @ new \<and> map lr_Level new = ls \<and> fail_stops new
     \<and> (ts_TestsWereRun s' \<longleftrightarrow> ts_TestsWereRun s \<or> tested new))"

lemma extends_Nil: "extends [] s s"
  by (simp add: extends_def tested_def)

lemma extends_Cons:
  assumes "extends ls s1 s'" "ts_Results s1 = ts_Results s @ [r]" "lr_Level r = l" "lr_Status r \<noteq> VFailed"
    "ts_TestsWereRun s1 \<longleftrightarrow> ts_TestsWereRun s \<or> tested [r]"
  shows "extends (l # ls) s s'"
proof -
  from assms(1) obtain new where new: "ts_Results s' = ts_Results s1 @ new" "map lr_Level new = ls" "fail_stops new"
    "ts_TestsWereRun s' \<longleftrightarrow> ts_TestsWereRun s1 \<or> tested new" by (auto simp: extends_def)
  show ?thesis unfolding extends_def
    by (rule exI [of _ "r # new"]) (use new assms(2-5) in \<open>auto simp: tested_def\<close>)
qed

lemma extends_failed:
  assumes "lr_Level r = l" "lr_Status r = VFailed \<or> \<not> tested [r]" "ts_Results s1 = ts_Results s @ [r]"
    "ts_TestsWereRun s1 \<longleftrightarrow> ts_TestsWereRun s \<or> tested [r]"
  shows "extends (l # ls) s (not_run_rest ls s1)"
  unfolding extends_def
  by (rule exI [of _ "r # map (\<lambda>l. bare_result l VNotRun) ls"])
    (use assms not_run_facts [of ls] in \<open>auto simp: not_run_rest_def tested_def\<close>)

lemma verify_levels_extends:
  "verify_levels run p files ls s = (None, s') \<Longrightarrow> extends ls s s'"
proof (induction ls arbitrary: s)
  case (Cons l ls)
  show ?case
  proof (cases "shouldRunLevel l p")
    case False
    with Cons.prems have "extends ls (add_result (bare_result l VSkipped) s) s'" by (intro Cons.IH) simp
    then show ?thesis by (rule extends_Cons [where r = "bare_result l VSkipped"]) (simp_all add: add_result_def tested_def)
  next
    case True
    with Cons.prems obtain res0 where r: "run l files = Inr res0" by (cases "run l files") auto
    let ?r = "stamp l res0"
    show ?thesis
    proof (cases "lr_Status ?r = VPassed")
      case pass: True
      with True r Cons.prems have "extends ls ((add_result ?r s)\<lparr>ts_HighestCompletedLevel := l,
          ts_TestsWereRun := (l \<ge> 2 \<or> ts_TestsWereRun s)\<rparr>) s'"
        by (intro Cons.IH) (simp add: Let_def add_result_def)
      then show ?thesis by (rule extends_Cons [where r = ?r]) (use pass in \<open>auto simp: add_result_def tested_def\<close>)
    next
      case nopass: False
      show ?thesis
      proof (cases "lr_Status ?r = VFailed")
        case fail: True
        with True r nopass Cons.prems
        have "s' = not_run_rest ls ((add_result ?r s)\<lparr>ts_TestsWereRun := (l \<ge> 2 \<or> ts_TestsWereRun s)\<rparr>)"
          by (simp add: Let_def add_result_def)
        then show ?thesis using fail by (auto intro!: extends_failed simp: add_result_def tested_def)
      next
        case False
        with True r nopass Cons.prems have "extends ls (add_result ?r s) s'" by (intro Cons.IH) (simp add: Let_def)
        then show ?thesis by (rule extends_Cons [where r = ?r]) (use nopass False in \<open>simp_all add: add_result_def tested_def\<close>)
      qed
    qed
  qed
qed (simp add: extends_Nil)

lemma no_test_levels_extends: "extends ls s (no_test_levels run files ls s)"
proof (induction ls arbitrary: s)
  case (Cons l ls)
  show ?case
  proof (cases "l \<ge> 2")
    case True
    then show ?thesis using extends_Cons [OF Cons.IH [of "add_result (bare_result l VSkipped) s"]]
      by (simp add: add_result_def tested_def)
  next
    case low: False
    let ?r = "stamp l (case run l files of Inl err \<Rightarrow> (bare_result l VFailed)\<lparr>lr_SlicedOutput := err\<rparr> | Inr r \<Rightarrow> r)"
    show ?thesis
    proof (cases "lr_Status ?r = VPassed")
      case True
      with low extends_Cons [OF Cons.IH [of "(add_result ?r s)\<lparr>ts_HighestCompletedLevel := l\<rparr>"], of s ?r l]
      show ?thesis by (simp add: Let_def add_result_def tested_def)
    next
      case False
      with low extends_failed [of ?r l "add_result ?r s" s ls] show ?thesis
        by (simp add: Let_def add_result_def tested_def)
    qed
  qed
qed (simp add: extends_Nil)

lemma Verify_extends:
  assumes "Verify run policy changes maxLevel = (None, s)"
  shows "extends (levels_upto maxLevel) zero_summary s"
proof (cases "tests_enabled (rs_Pipeline policy)")
  case True
  with assms show ?thesis by (intro verify_levels_extends) (simp add: Verify_def Let_def)
next
  case False
  with assms have "s = no_test_levels run (map fc_Path changes) (levels_upto maxLevel) zero_summary"
    by (simp add: Verify_def Let_def)
  then show ?thesis by (simp only: no_test_levels_extends)
qed

text \<open>What a verification run reports. A run without a runner error has one result for each level up to the
  requested one, in order; nothing runs after a failed level; and the summary says that tests were run
  exactly when some test level passed or failed.\<close>

theorem verify_summary:
  assumes "Verify run policy changes maxLevel = (None, s)"
  shows "map lr_Level (ts_Results s) = levels_upto maxLevel \<and> fail_stops (ts_Results s)
    \<and> (ts_TestsWereRun s \<longleftrightarrow> tested (ts_Results s))"
proof -
  from Verify_extends [OF assms] show ?thesis by (auto simp: extends_def zero_summary_def)
qed

theorem verify_summary_witness:
  "map lr_Level (ts_Results (snd (Verify (\<lambda>l _. Inr (bare_result l (if l = 2 then VFailed else VUnset)))
     \<lparr>rs_Profile = ''CUSTOM'', rs_Pipeline = local_review_defaults\<rparr> [] 0))) = [0, 1, 2, 3, 4]"
proof -
  let ?v = "Verify (\<lambda>l _. Inr (bare_result l (if l = 2 then VFailed else VUnset)))
     \<lparr>rs_Profile = ''CUSTOM'', rs_Pipeline = local_review_defaults\<rparr> [] 0"
  have "fst ?v = None" by code_simp
  then have "?v = (None, snd ?v)" by (intro prod_eqI) (simp_all only: fst_conv snd_conv)
  from verify_summary [OF this] have "map lr_Level (ts_Results (snd ?v)) = levels_upto 0" by blast
  moreover have "levels_upto 0 = [0, 1, 2, 3, 4]" by code_simp
  ultimately show ?thesis by simp
qed

lemma passed_run_has_test_level:
  assumes "Verify run policy changes maxLevel = (None, s)" "ts_TestsWereRun s" "test_OverallStatus s = VPassed"
  shows "\<exists>r \<in> set (ts_Results s). lr_Level r \<ge> 2 \<and> lr_Status r = VPassed"
  using Verify_extends [OF assms(1)] assms(2,3)
  by (auto simp: extends_def zero_summary_def tested_def list_ex_iff test_OverallStatus_def split: if_splits)

section \<open>Evidence\<close>

lemma complete_iff_none_missing: "evidence_IsComplete items \<longleftrightarrow> items \<noteq> [] \<and> MissingCriteria items = []"
proof -
  have "MissingCriteria items = [] \<longleftrightarrow> set (MissingCriteria items) = {}" by (simp only: set_empty)
  then show ?thesis by (auto simp: evidence_IsComplete_def MissingCriteria_def)
qed

end
