(* ===== verification/Merge_Governance.thy ===== *)
theory Merge_Governance
  imports Verification_Engines
begin

text \<open>
  The merge governor (\<^verbatim>\<open>src/internal/merge/governor.go\<close>), the delivery authority
  (\<^verbatim>\<open>authority.go\<close>) and the merge queue (\<^verbatim>\<open>queue.go\<close>). A change-request provider is the interface
  \<^verbatim>\<open>src/internal/adapter/vcs/provider.go\<close>: a record of functions that act on an arbitrary outside world
  \<open>'w\<close>. Each method returns its result, an optional error (Go returns both) and the world it leaves.
  The audit trail is the one of the database.
\<close>

section \<open>Governor\<close>

datatype decision =
    DecisionAllowLocalResult | DecisionAllowPush | DecisionAllowChangeRequest | DecisionAllowMerge
  | DecisionRequireRebase | DecisionRequireRepair | DecisionPolicyBlocked | DecisionQuarantine

definition decision_String :: "decision \<Rightarrow> string" where
  "decision_String d = (case d of
      DecisionAllowLocalResult \<Rightarrow> ''ALLOW_LOCAL_RESULT''
    | DecisionAllowPush \<Rightarrow> ''ALLOW_PUSH''
    | DecisionAllowChangeRequest \<Rightarrow> ''ALLOW_CHANGE_REQUEST''
    | DecisionAllowMerge \<Rightarrow> ''ALLOW_MERGE''
    | DecisionRequireRebase \<Rightarrow> ''REQUIRE_REBASE''
    | DecisionRequireRepair \<Rightarrow> ''REQUIRE_REPAIR''
    | DecisionPolicyBlocked \<Rightarrow> ''POLICY_BLOCKED''
    | DecisionQuarantine \<Rightarrow> ''QUARANTINE'')"

definition IsAllow :: "decision \<Rightarrow> bool" where
  "IsAllow d \<longleftrightarrow> d \<in> {DecisionAllowLocalResult, DecisionAllowPush, DecisionAllowChangeRequest,
     DecisionAllowMerge}"

record governor_input =
  gi_Policy :: resolved
  gi_SpecificationLocked :: bool
  gi_ScopeValid :: bool
  gi_RequiredChecksPassed :: bool
  gi_AcceptanceEvidenceComplete :: bool
  gi_BlockerFindings :: int
  gi_MajorFindings :: int
  gi_TargetAllowed :: bool
  gi_BranchCurrent :: bool
  gi_BudgetPolicySatisfied :: bool
  gi_VisualPolicySatisfied :: bool
  gi_Evidence :: "evidence list"
  gi_TestSummary :: test_summary
  gi_ReviewResult :: review_result

record gate =
  ga_Name :: string
  ga_Passed :: bool
  ga_Detail :: string

record governor_result =
  gr_Decision :: decision
  gr_Gates :: "gate list"
  gr_Reason :: string

definition mk_gate :: "string \<Rightarrow> bool \<Rightarrow> string \<Rightarrow> gate" where
  "mk_gate n b d = \<lparr>ga_Name = n, ga_Passed = b, ga_Detail = d\<rparr>"

definition show_int :: "int \<Rightarrow> string" where
  "show_int n = (if n < 0 then ''-'' @ show_nat (nat (- n)) else show_nat (nat n))"

definition base_gates :: "governor_input \<Rightarrow> gate list" where
  "base_gates i =
     [mk_gate ''specification_locked'' (gi_SpecificationLocked i) ''specification must be locked before delivery'',
      mk_gate ''scope_valid'' (gi_ScopeValid i) ''all changes must be within the allowed scope'',
      mk_gate ''required_checks_passed'' (gi_RequiredChecksPassed i) ''required CI/build checks must pass'',
      mk_gate ''acceptance_evidence_complete''
        (gi_AcceptanceEvidenceComplete i \<and> evidence_IsComplete (gi_Evidence i))
        (''every acceptance criterion must have passing evidence ('' @ par_sign @ ''27)''),
      mk_gate ''blocker_findings'' (gi_BlockerFindings i = 0)
        (show_int (gi_BlockerFindings i) @ '' blocker findings (must be 0)''),
      mk_gate ''major_findings'' (gi_MajorFindings i = 0)
        (show_int (gi_MajorFindings i) @ '' major findings (must be 0)''),
      mk_gate ''target_allowed'' (gi_TargetAllowed i) ''the merge target must be an allowed branch'',
      mk_gate ''branch_current'' (gi_BranchCurrent i)
        ''the branch must be current with the target (no rebase needed)'',
      mk_gate ''budget_policy_satisfied'' (gi_BudgetPolicySatisfied i) ''budget policy must be satisfied'',
      mk_gate ''visual_policy_satisfied'' (gi_VisualPolicySatisfied i)
        ''visual verification policy must be satisfied for UI tasks'']"

definition test_gates :: "governor_input \<Rightarrow> gate list" where
  "test_gates i =
     (let p = rs_Pipeline (gi_Policy i); testsRan = ts_TestsWereRun (gi_TestSummary i);
          testsPassed = (testsRan \<and> test_OverallStatus (gi_TestSummary i) = VPassed)
      in if pl_Merge p \<and> tc_RequireForRemoteMerge (pl_Tests p)
         then mk_gate ''tests_required_for_merge'' testsPassed
             (''tests are mandatory for merge ('' @ par_sign @ ''24.5); disabling tests via override does not bypass this'')
           # (if \<not> testsRan then [mk_gate ''tests_disabled_blocked_merge'' False
                (''tests were not run; a task override disabling tests cannot bypass mandatory merge rules (''
                 @ par_sign @ ''24.5/AC-29)'')]
              else if \<not> testsPassed then [mk_gate ''tests_failed_repair'' False
                ''tests ran but failed; repair required before merge'']
              else [])
         else [])"

definition review_gates :: "governor_input \<Rightarrow> gate list" where
  "review_gates i =
     (if pl_Merge (rs_Pipeline (gi_Policy i)) \<and> (\<exists>f \<in> set (rr_Findings (gi_ReviewResult i)). IsBlocker f)
      then [mk_gate ''mandatory_review'' False ''a mandatory review produced a blocker finding (AC-29)'']
      else [])"

definition buildGates :: "governor_input \<Rightarrow> gate list" where
  "buildGates i = base_gates i @ test_gates i @ review_gates i"

text \<open>The reason for the first failed gate of a mandatory check.\<close>

fun mandatory_reason :: "gate list \<Rightarrow> string option" where
  "mandatory_reason [] = None"
| "mandatory_reason (g # gs) =
     (if ga_Name g = ''tests_disabled_blocked_merge''
      then Some (''tests were disabled and are mandatory for merge ('' @ par_sign
        @ ''24.5): task override cannot bypass this'')
      else if ga_Name g = ''tests_required_for_merge''
      then Some (''tests are mandatory for merge ('' @ par_sign @ ''24.5): task override cannot bypass this'')
      else if ga_Name g = ''mandatory_review''
      then Some ''a mandatory project review did not pass (AC-29): task override cannot disable it''
      else mandatory_reason gs)"

fun join_space :: "string list \<Rightarrow> string" where
  "join_space [] = ''''"
| "join_space [x] = x"
| "join_space (x # y # xs) = x @ '' '' @ join_space (y # xs)"

definition has_gate :: "string list \<Rightarrow> gate list \<Rightarrow> bool" where
  "has_gate names gs \<longleftrightarrow> (\<exists>g \<in> set gs. ga_Name g \<in> set names)"

definition delivery_decision :: "pipeline \<Rightarrow> decision \<times> string" where
  "delivery_decision p =
     (if pl_Merge p then (DecisionAllowMerge, ''all gates passed; merge permitted'')
      else if qc_Create (pl_ChangeRequest p) \<and> gc_Push (pl_Git p)
      then (DecisionAllowChangeRequest, ''all gates passed; PR/MR permitted'')
      else if gc_Push (pl_Git p) then (DecisionAllowPush, ''all gates passed; push permitted'')
      else (DecisionAllowLocalResult, ''all gates passed; local result permitted''))"

definition Decide :: "governor_input \<Rightarrow> governor_result" where
  "Decide i =
     (let gates = buildGates i; failed = filter (\<lambda>g. \<not> ga_Passed g) gates;
          res = (\<lambda>d r. \<lparr>gr_Decision = d, gr_Gates = gates, gr_Reason = r\<rparr>)
      in if has_gate [''branch_current''] failed
         then res DecisionRequireRebase ''branch is not current; rebase required''
         else if has_gate [''blocker_findings'', ''major_findings'', ''tests_failed_repair''] failed
         then res DecisionRequireRepair ''findings or test failures require repair before delivery''
         else case mandatory_reason failed of
           Some r \<Rightarrow> res DecisionPolicyBlocked r
         | None \<Rightarrow>
             if failed \<noteq> []
             then res DecisionPolicyBlocked
               (''blocked by gates: ['' @ join_space (map ga_Name failed) @ '']'')
             else let (d, r) = delivery_decision (rs_Pipeline (gi_Policy i)) in res d r)"

definition LocalResultLabels :: "governor_input \<Rightarrow> string list" where
  "LocalResultLabels i =
     [''IMPLEMENTED'',
      if ts_TestsWereRun (gi_TestSummary i) \<and> test_OverallStatus (gi_TestSummary i) = VPassed
      then ''TESTED'' else ''NOT TESTED'',
      if IsReviewed (gi_ReviewResult i) \<and> review_OverallStatus (gi_ReviewResult i) = ReviewApproved
      then ''REVIEWED'' else ''NOT REVIEWED'',
      ''LOCAL BRANCH ONLY'']"

section \<open>Providers\<close>

datatype vcs_error_kind =
    VcsUnsupported | VcsPolicyDenied | VcsBranchNotCurrent | VcsChecksFailed | VcsAuthFailed
  | VcsNetworkLocked | VcsOther

text \<open>The sentinel an error wraps, and its text.\<close>

record vcs_error =
  ve_Kind :: vcs_error_kind
  ve_Text :: string

record capabilities =
  ca_PushBranch :: bool
  ca_CreateChangeRequest :: bool
  ca_UpdateChangeRequest :: bool
  ca_GetChecks :: bool
  ca_EnableAutoMerge :: bool
  ca_Merge :: bool
  ca_Revert :: bool
  ca_IsNetwork :: bool

record push_request =
  pr_TaskID :: string
  pr_LocalBranch :: string
  pr_RemoteBranch :: string
  pr_HeadSHA :: string
  pr_Force :: bool

record push_result =
  po_RemoteBranch :: string
  po_HeadSHA :: string
  po_PushedAt :: string

record create_request =
  cq_TaskID :: string
  cq_Title :: string
  cq_Body :: string
  cq_HeadBranch :: string
  cq_BaseBranch :: string
  cq_Draft :: bool
  cq_ReviewerIDs :: "string list"

record update_request =
  uq_TaskID :: string
  uq_Number :: int
  uq_Title :: string
  uq_Body :: string
  uq_State :: string

record change_request =
  ch_Provider :: string
  ch_Number :: int
  ch_Title :: string
  ch_Body :: string
  ch_HeadBranch :: string
  ch_BaseBranch :: string
  ch_State :: string
  ch_WebURL :: string
  ch_Mergeable :: "bool option"

record checks_request =
  kq_TaskID :: string
  kq_Number :: int
  kq_HeadBranch :: string
  kq_HeadSHA :: string

record check_status =
  ks_AllPassed :: bool
  ks_RequiredPassed :: bool
  ks_Pending :: bool
  ks_Checks :: "(string \<times> string \<times> string \<times> bool) list"

record auto_merge_request =
  aq_TaskID :: string
  aq_Number :: int
  aq_Method :: string

record merge_request =
  mq_TaskID :: string
  mq_Number :: int
  mq_HeadBranch :: string
  mq_BaseBranch :: string
  mq_HeadSHA :: string
  mq_Method :: string
  mq_CommitMessage :: string

record merge_result =
  mr_Merged :: bool
  mr_Method :: string
  mr_CommitSHA :: string
  mr_BaseBranch :: string

record revert_request =
  vq_TaskID :: string
  vq_Number :: int
  vq_CommitSHA :: string
  vq_BaseBranch :: string

record revert_result =
  vr_Reverted :: bool
  vr_RevertSHA :: string

record 'w provider =
  pv_ID :: string
  pv_Capabilities :: capabilities
  pv_PushBranch :: "push_request \<Rightarrow> 'w \<Rightarrow> push_result \<times> vcs_error option \<times> 'w"
  pv_CreateChangeRequest :: "create_request \<Rightarrow> 'w \<Rightarrow> change_request \<times> vcs_error option \<times> 'w"
  pv_UpdateChangeRequest :: "update_request \<Rightarrow> 'w \<Rightarrow> change_request \<times> vcs_error option \<times> 'w"
  pv_GetChecks :: "checks_request \<Rightarrow> 'w \<Rightarrow> check_status \<times> vcs_error option \<times> 'w"
  pv_EnableAutoMerge :: "auto_merge_request \<Rightarrow> 'w \<Rightarrow> unit \<times> vcs_error option \<times> 'w"
  pv_Merge :: "merge_request \<Rightarrow> 'w \<Rightarrow> merge_result \<times> vcs_error option \<times> 'w"
  pv_Revert :: "revert_request \<Rightarrow> 'w \<Rightarrow> revert_result \<times> vcs_error option \<times> 'w"

section \<open>Authority\<close>

text \<open>What a delivery call acts on: the outside world and the database with the audit trail.\<close>

record 'w delivery =
  dl_World :: 'w
  dl_Db :: db

definition decisionRank :: "decision \<Rightarrow> int" where
  "decisionRank d = (case d of DecisionAllowLocalResult \<Rightarrow> 0 | DecisionAllowPush \<Rightarrow> 1
     | DecisionAllowChangeRequest \<Rightarrow> 2 | DecisionAllowMerge \<Rightarrow> 3 | _ \<Rightarrow> -1)"

definition requiresDecision :: "decision \<Rightarrow> decision \<Rightarrow> bool" where
  "requiresDecision mn d \<longleftrightarrow> decisionRank d \<ge> decisionRank mn"

fun join_gates :: "gate list \<Rightarrow> string" where
  "join_gates [] = ''''"
| "join_gates [g] = ga_Name g @ ''='' @ (if ga_Passed g then ''pass'' else ''FAIL'')"
| "join_gates (g # h # gs) =
     ga_Name g @ ''='' @ (if ga_Passed g then ''pass'' else ''FAIL'') @ '','' @ join_gates (h # gs)"

definition gateNames :: "gate list \<Rightarrow> string" where
  "gateNames gates = (if gates = [] then ''none'' else join_gates gates)"

definition action_String :: "action \<Rightarrow> string" where
  "action_String a = (case a of
      ActPush \<Rightarrow> ''git.push'' | ActCreateChangeRequest \<Rightarrow> ''change_request.create''
    | ActUpdateChangeRequest \<Rightarrow> ''change_request.update'' | ActMerge \<Rightarrow> ''merge''
    | ActPostMerge \<Rightarrow> ''post_merge'' | ActPostMergeAutoRevert \<Rightarrow> ''post_merge.auto_revert''
    | ActImplement \<Rightarrow> ''implementation'' | ActGenerateTests \<Rightarrow> ''tests.generate''
    | ActModifyExistingTests \<Rightarrow> ''tests.modify_existing'' | ActRunExistingTests \<Rightarrow> ''tests.run_existing''
    | ActRunGeneratedTests \<Rightarrow> ''tests.run_generated'' | ActGenerateDesign \<Rightarrow> ''design.generate''
    | ActAIReview \<Rightarrow> ''review.ai_review'' | ActSecurityReview \<Rightarrow> ''review.security_review''
    | ActArchReview \<Rightarrow> ''review.architecture_review'' | ActLocalCheckpoint \<Rightarrow> ''git.local_checkpoint''
    | OtherAction s \<Rightarrow> s)"

definition decision_text :: "action \<Rightarrow> bool \<times> string \<Rightarrow> string" where
  "decision_text a d = (if fst d then ''allow '' else ''deny '') @ action_String a @ '': '' @ snd d"

definition denied_text :: string where
  "denied_text = ''vcs: action denied by policy / merge governor''"

definition locked_text :: string where
  "locked_text = ''vcs: network operation attempted in a network-locked profile (AC-7)''"

definition authorise ::
  "governor_result \<Rightarrow> resolved \<Rightarrow> 'w provider \<Rightarrow> action \<Rightarrow> string \<Rightarrow> decision \<Rightarrow> vcs_error option" where
  "authorise dec r p act label mn =
     (if \<not> requiresDecision mn (gr_Decision dec)
      then Some \<lparr>ve_Kind = VcsPolicyDenied, ve_Text = denied_text @ '': governor decision ''
        @ go_quote (decision_String (gr_Decision dec)) @ '' does not permit '' @ label
        @ '' (gates: '' @ gateNames (gr_Gates dec) @ '')''\<rparr>
      else if \<not> fst (Allows r act)
      then Some \<lparr>ve_Kind = VcsPolicyDenied, ve_Text = denied_text @ '': '' @ decision_text act (Allows r act)\<rparr>
      else if ca_IsNetwork (pv_Capabilities p) \<and> IsNetworkLocked (rs_Profile r)
      then Some \<lparr>ve_Kind = VcsNetworkLocked, ve_Text = locked_text @ '': '' @ label @ '' on '' @ pv_ID p
        @ '' (LOCAL_REVIEW/PLAN_ONLY)''\<rparr>
      else None)"

text \<open>An audit event whose append fails is logged only; the append fails on an empty type alone.\<close>

definition append_audit :: "time \<Rightarrow> string \<Rightarrow> string \<Rightarrow> payload \<Rightarrow> 'w delivery \<Rightarrow> 'w delivery" where
  "append_audit now ty taskID pay d =
     (case recordInto (dl_Db d) now \<lparr>ae_id = 0, ae_ts = '''',
         ae_scope = (if taskID = '''' then ''global'' else ''task''), ae_scope_id = taskID,
         ae_type = ty, ae_actor = ''daemon'', ae_payload = pay\<rparr> of
        Inl _ \<Rightarrow> d
      | Inr db' \<Rightarrow> d\<lparr>dl_Db := db'\<rparr>)"

definition authority_record ::
  "time \<Rightarrow> string \<Rightarrow> string \<Rightarrow> vcs_error option \<Rightarrow> (string \<times> payload) list \<Rightarrow> 'w delivery \<Rightarrow> 'w delivery" where
  "authority_record now taskID ty callErr pay d =
     append_audit now ty taskID (PObj (pay
       @ (case callErr of None \<Rightarrow> [(''outcome'', PStr ''ok'')]
          | Some e \<Rightarrow> [(''error'', PStr (ve_Text e)), (''outcome'', PStr ''error'')]))) d"

definition auditDeny :: "time \<Rightarrow> string \<Rightarrow> string \<Rightarrow> vcs_error \<Rightarrow> 'w delivery \<Rightarrow> 'w delivery" where
  "auditDeny now taskID act e d =
     (if ve_Kind e = VcsUnsupported then d
      else append_audit now ''vcs.delivery.denied'' taskID
        (PObj [(''action'', PStr act), (''reason'', PStr (ve_Text e)), (''outcome'', PStr ''denied'')]) d)"

text \<open>
  The shape that the guarded operations share: authorise, audit a refusal, otherwise call the provider
  and audit the result.
\<close>

definition guarded ::
  "time \<Rightarrow> vcs_error option \<Rightarrow> string \<Rightarrow> string \<Rightarrow> string \<Rightarrow> 'r \<Rightarrow> ('w \<Rightarrow> 'r \<times> vcs_error option \<times> 'w)
     \<Rightarrow> ('r \<Rightarrow> (string \<times> payload) list) \<Rightarrow> 'w delivery \<Rightarrow> 'r \<times> vcs_error option \<times> 'w delivery" where
  "guarded now denial taskID act ty zero call pay d =
     (case denial of
        Some e \<Rightarrow> (zero, Some e, auditDeny now taskID act e d)
      | None \<Rightarrow>
          (case call (dl_World d) of
             (res, err, w) \<Rightarrow>
               (res, err, authority_record now taskID ty err (pay res) (d\<lparr>dl_World := w\<rparr>))))"

definition Push ::
  "time \<Rightarrow> governor_result \<Rightarrow> resolved \<Rightarrow> 'w provider \<Rightarrow> push_request \<Rightarrow> 'w delivery
     \<Rightarrow> push_result \<times> vcs_error option \<times> 'w delivery" where
  "Push now dec r p req =
     guarded now (authorise dec r p ActPush ''push'' DecisionAllowPush) (pr_TaskID req) ''push'' ''vcs.push''
       \<lparr>po_RemoteBranch = '''', po_HeadSHA = '''', po_PushedAt = ''''\<rparr> (pv_PushBranch p req)
       (\<lambda>res. [(''provider'', PStr (pv_ID p)), (''remote_branch'', PStr (pr_RemoteBranch req)),
         (''sha'', PStr (pr_HeadSHA req)), (''force'', PBool (pr_Force req))])"

definition zero_change_request :: change_request where
  "zero_change_request = \<lparr>ch_Provider = '''', ch_Number = 0, ch_Title = '''', ch_Body = '''',
     ch_HeadBranch = '''', ch_BaseBranch = '''', ch_State = '''', ch_WebURL = '''', ch_Mergeable = None\<rparr>"

definition CreateChangeRequest ::
  "time \<Rightarrow> governor_result \<Rightarrow> resolved \<Rightarrow> 'w provider \<Rightarrow> create_request \<Rightarrow> 'w delivery
     \<Rightarrow> change_request \<times> vcs_error option \<times> 'w delivery" where
  "CreateChangeRequest now dec r p req =
     guarded now (authorise dec r p ActCreateChangeRequest ''change_request.create'' DecisionAllowChangeRequest)
       (cq_TaskID req) ''change_request.create'' ''vcs.change_request.create'' zero_change_request
       (pv_CreateChangeRequest p req)
       (\<lambda>cr. [(''provider'', PStr (pv_ID p)), (''number'', PInt (ch_Number cr)),
         (''head'', PStr (cq_HeadBranch req)), (''base'', PStr (cq_BaseBranch req)),
         (''url'', PStr (ch_WebURL cr))])"

definition UpdateChangeRequest ::
  "time \<Rightarrow> governor_result \<Rightarrow> resolved \<Rightarrow> 'w provider \<Rightarrow> update_request \<Rightarrow> 'w delivery
     \<Rightarrow> change_request \<times> vcs_error option \<times> 'w delivery" where
  "UpdateChangeRequest now dec r p req =
     guarded now (authorise dec r p ActUpdateChangeRequest ''change_request.update'' DecisionAllowChangeRequest)
       (uq_TaskID req) ''change_request.update'' ''vcs.change_request.update'' zero_change_request
       (pv_UpdateChangeRequest p req)
       (\<lambda>cr. [(''provider'', PStr (pv_ID p)), (''number'', PInt (uq_Number req)),
         (''state'', PStr (uq_State req))])"

definition zero_check_status :: check_status where
  "zero_check_status = \<lparr>ks_AllPassed = False, ks_RequiredPassed = False, ks_Pending = False, ks_Checks = []\<rparr>"

text \<open>The reading of checks takes no governor decision and does not audit a refusal.\<close>

definition GetChecks ::
  "time \<Rightarrow> resolved \<Rightarrow> 'w provider \<Rightarrow> checks_request \<Rightarrow> 'w delivery
     \<Rightarrow> check_status \<times> vcs_error option \<times> 'w delivery" where
  "GetChecks now r p req d =
     (if \<not> ca_GetChecks (pv_Capabilities p)
      then (zero_check_status, Some \<lparr>ve_Kind = VcsUnsupported,
        ve_Text = ''vcs: operation not supported by this provider: '' @ pv_ID p @ '' does not implement GetChecks''\<rparr>, d)
      else if ca_IsNetwork (pv_Capabilities p) \<and> IsNetworkLocked (rs_Profile r)
      then (zero_check_status, Some \<lparr>ve_Kind = VcsNetworkLocked,
        ve_Text = locked_text @ '': GetChecks on '' @ pv_ID p\<rparr>, d)
      else if \<not> fst (Allows r ActPush)
      then (zero_check_status, Some \<lparr>ve_Kind = VcsPolicyDenied,
        ve_Text = denied_text @ '': '' @ decision_text ActPush (Allows r ActPush)\<rparr>, d)
      else guarded now None (kq_TaskID req) '''' ''vcs.checks.read'' zero_check_status (pv_GetChecks p req)
        (\<lambda>cs. [(''provider'', PStr (pv_ID p)), (''number'', PInt (kq_Number req)),
          (''all_passed'', PBool (ks_AllPassed cs))]) d)"

definition EnableAutoMerge ::
  "time \<Rightarrow> governor_result \<Rightarrow> resolved \<Rightarrow> 'w provider \<Rightarrow> auto_merge_request \<Rightarrow> 'w delivery
     \<Rightarrow> unit \<times> vcs_error option \<times> 'w delivery" where
  "EnableAutoMerge now dec r p req =
     guarded now (authorise dec r p ActMerge ''merge'' DecisionAllowMerge) (aq_TaskID req)
       ''enable_auto_merge'' ''vcs.auto_merge.enable'' () (pv_EnableAutoMerge p req)
       (\<lambda>_. [(''provider'', PStr (pv_ID p)), (''number'', PInt (aq_Number req)), (''method'', PStr (aq_Method req))])"

definition zero_merge_result :: merge_result where
  "zero_merge_result = \<lparr>mr_Merged = False, mr_Method = '''', mr_CommitSHA = '''', mr_BaseBranch = ''''\<rparr>"

definition authority_Merge ::
  "time \<Rightarrow> governor_result \<Rightarrow> resolved \<Rightarrow> 'w provider \<Rightarrow> merge_request \<Rightarrow> 'w delivery
     \<Rightarrow> merge_result \<times> vcs_error option \<times> 'w delivery" where
  "authority_Merge now dec r p req =
     guarded now (authorise dec r p ActMerge ''merge'' DecisionAllowMerge) (mq_TaskID req) ''merge'' ''vcs.merge''
       zero_merge_result (pv_Merge p req)
       (\<lambda>res. [(''provider'', PStr (pv_ID p)), (''number'', PInt (mq_Number req)),
         (''method'', PStr (mq_Method req)), (''merged'', PBool (mr_Merged res)),
         (''commit_sha'', PStr (mr_CommitSHA res)), (''base'', PStr (mr_BaseBranch res))])"

definition authority_Revert ::
  "time \<Rightarrow> governor_result \<Rightarrow> resolved \<Rightarrow> 'w provider \<Rightarrow> revert_request \<Rightarrow> 'w delivery
     \<Rightarrow> revert_result \<times> vcs_error option \<times> 'w delivery" where
  "authority_Revert now dec r p req =
     guarded now (authorise dec r p ActMerge ''merge'' DecisionAllowMerge) (vq_TaskID req) ''revert'' ''vcs.revert''
       \<lparr>vr_Reverted = False, vr_RevertSHA = ''''\<rparr> (pv_Revert p req)
       (\<lambda>res. [(''provider'', PStr (pv_ID p)), (''number'', PInt (vq_Number req)),
         (''commit'', PStr (vq_CommitSHA req)), (''reverted'', PBool (vr_Reverted res))])"

section \<open>Merge queue\<close>

record 'w queue_item =
  qi_TaskID :: string
  qi_Decision :: governor_result
  qi_Policy :: resolved
  qi_Provider :: "'w provider"
  qi_Request :: merge_request
  qi_AllowLocalFallback :: bool

record 'w queue_outcome =
  qo_Item :: "'w queue_item"
  qo_Merged :: bool
  qo_Method :: string
  qo_CommitSHA :: string
  qo_FellBack :: bool
  qo_Err :: "vcs_error option"

record 'w queue =
  qu_Local :: "'w provider option"
  qu_Items :: "'w queue_item list"
  qu_Closed :: bool

datatype queue_error = NotQueueable decision | QueueClosed

definition Enqueue :: "'w queue_item \<Rightarrow> 'w queue \<Rightarrow> (queue_error, 'w queue) result" where
  "Enqueue item q =
     (if gr_Decision (qi_Decision item) \<noteq> DecisionAllowMerge
      then Inl (NotQueueable (gr_Decision (qi_Decision item)))
      else if qu_Closed q then Inl QueueClosed
      else Inr (q\<lparr>qu_Items := qu_Items q @ [item]\<rparr>))"

definition CanLocalMergeMode :: "resolved \<Rightarrow> bool" where
  "CanLocalMergeMode r \<longleftrightarrow> pl_Merge (rs_Pipeline r) \<and> \<not> qc_Create (pl_ChangeRequest (rs_Pipeline r))"

definition fresh_outcome :: "'w queue_item \<Rightarrow> 'w queue_outcome" where
  "fresh_outcome item = \<lparr>qo_Item = item, qo_Merged = False, qo_Method = '''', qo_CommitSHA = '''',
     qo_FellBack = False, qo_Err = None\<rparr>"

definition merged_outcome :: "'w queue_item \<Rightarrow> merge_result \<Rightarrow> bool \<Rightarrow> 'w queue_outcome" where
  "merged_outcome item res fell = (fresh_outcome item)\<lparr>qo_Merged := mr_Merged res, qo_Method := mr_Method res,
     qo_CommitSHA := mr_CommitSHA res, qo_FellBack := fell\<rparr>"

definition processOne ::
  "time \<Rightarrow> 'w provider option \<Rightarrow> 'w queue_item \<Rightarrow> 'w delivery \<Rightarrow> 'w queue_outcome \<times> 'w delivery" where
  "processOne now local item d =
     (case authority_Merge now (qi_Decision item) (qi_Policy item) (qi_Provider item) (qi_Request item) d of
        (res, None, d1) \<Rightarrow> (merged_outcome item res False, d1)
      | (res, Some e, d1) \<Rightarrow>
          let failed = (fresh_outcome item)\<lparr>qo_Err := Some e\<rparr>
          in if ve_Kind e = VcsBranchNotCurrent then (failed, d1)
             else case local of
               None \<Rightarrow> (failed, d1)
             | Some lp \<Rightarrow>
                 if qi_AllowLocalFallback item \<and> ca_IsNetwork (pv_Capabilities (qi_Provider item))
                    \<and> CanLocalMergeMode (qi_Policy item)
                 then (case authority_Merge now (qi_Decision item) (qi_Policy item) lp
                         ((qi_Request item)\<lparr>mq_Number := 0\<rparr>) d1 of
                         (lres, None, d2) \<Rightarrow> (merged_outcome item lres True, d2)
                       | (lres, Some le, d2) \<Rightarrow>
                           (failed\<lparr>qo_Err := Some \<lparr>ve_Kind = VcsOther, ve_Text = ''remote merge: '' @ ve_Text e
                              @ ''; local fallback: '' @ ve_Text le\<rparr>\<rparr>, d2))
                 else (failed, d1))"

text \<open>\<open>Process\<close> drains the items that are queued; the caller's context is not cancelled.\<close>

fun process_items ::
  "time \<Rightarrow> 'w provider option \<Rightarrow> 'w queue_item list \<Rightarrow> 'w delivery \<Rightarrow> 'w queue_outcome list \<times> 'w delivery" where
  "process_items now local [] d = ([], d)"
| "process_items now local (item # items) d =
     (case processOne now local item d of
        (oc, d1) \<Rightarrow> (case process_items now local items d1 of (ocs, d2) \<Rightarrow> (oc # ocs, d2)))"

definition Process ::
  "time \<Rightarrow> 'w queue \<Rightarrow> 'w delivery \<Rightarrow> 'w queue_outcome list \<times> 'w queue \<times> 'w delivery" where
  "Process now q d =
     (case process_items now (qu_Local q) (qu_Items q) d of (ocs, d') \<Rightarrow> (ocs, q\<lparr>qu_Items := []\<rparr>, d'))"

definition queue_Close :: "'w queue \<Rightarrow> 'w queue" where
  "queue_Close q = q\<lparr>qu_Closed := True\<rparr>"

end
