(* ===== verification/Policy_Valid.thy ===== *)
theory Policy_Valid
  imports Policy
begin

text \<open>
  Properties of the policy resolution: an override only restricts, mandatory reviews stay on, the
  network lock is total, the resolved toggles respect the dependency rules, the stage report agrees with
  the gate, and the scope validator accepts exactly the permitted test-file changes. The order on pipelines
  that the proofs use says that one allows no more than another.
\<close>

section \<open>The order of permissiveness\<close>

definition pl_le :: "pipeline \<Rightarrow> pipeline \<Rightarrow> bool" where
  "pl_le p q \<longleftrightarrow> (pl_Implementation p \<longrightarrow> pl_Implementation q)
     \<and> (dc_Generate (pl_Design p) \<longrightarrow> dc_Generate (pl_Design q))
     \<and> (tc_Generate (pl_Tests p) \<longrightarrow> tc_Generate (pl_Tests q))
     \<and> (tc_ModifyExisting (pl_Tests p) \<longrightarrow> tc_ModifyExisting (pl_Tests q))
     \<and> (tc_RunExisting (pl_Tests p) \<longrightarrow> tc_RunExisting (pl_Tests q))
     \<and> (tc_RunGenerated (pl_Tests p) \<longrightarrow> tc_RunGenerated (pl_Tests q))
     \<and> (vc_AIReview (pl_Review p) \<longrightarrow> vc_AIReview (pl_Review q))
     \<and> (triToBool (vc_SecurityReview (pl_Review p)) \<longrightarrow> triToBool (vc_SecurityReview (pl_Review q)))
     \<and> (triToBool (vc_ArchitectureReview (pl_Review p)) \<longrightarrow> triToBool (vc_ArchitectureReview (pl_Review q)))
     \<and> (gc_LocalCheckpointCommits (pl_Git p) \<longrightarrow> gc_LocalCheckpointCommits (pl_Git q))
     \<and> (gc_Push (pl_Git p) \<longrightarrow> gc_Push (pl_Git q))
     \<and> (qc_Create (pl_ChangeRequest p) \<longrightarrow> qc_Create (pl_ChangeRequest q))
     \<and> (qc_UpdateExisting (pl_ChangeRequest p) \<longrightarrow> qc_UpdateExisting (pl_ChangeRequest q))
     \<and> (pl_Merge p \<longrightarrow> pl_Merge q)
     \<and> (mc_Enabled (pl_PostMerge p) \<longrightarrow> mc_Enabled (pl_PostMerge q))
     \<and> (mc_AutoRevert (pl_PostMerge p) \<longrightarrow> mc_AutoRevert (pl_PostMerge q))"

lemma pl_leD:
  "pl_le p q \<Longrightarrow> pl_Implementation p \<Longrightarrow> pl_Implementation q"
  "pl_le p q \<Longrightarrow> dc_Generate (pl_Design p) \<Longrightarrow> dc_Generate (pl_Design q)"
  "pl_le p q \<Longrightarrow> tc_Generate (pl_Tests p) \<Longrightarrow> tc_Generate (pl_Tests q)"
  "pl_le p q \<Longrightarrow> tc_ModifyExisting (pl_Tests p) \<Longrightarrow> tc_ModifyExisting (pl_Tests q)"
  "pl_le p q \<Longrightarrow> tc_RunExisting (pl_Tests p) \<Longrightarrow> tc_RunExisting (pl_Tests q)"
  "pl_le p q \<Longrightarrow> tc_RunGenerated (pl_Tests p) \<Longrightarrow> tc_RunGenerated (pl_Tests q)"
  "pl_le p q \<Longrightarrow> vc_AIReview (pl_Review p) \<Longrightarrow> vc_AIReview (pl_Review q)"
  "pl_le p q \<Longrightarrow> triToBool (vc_SecurityReview (pl_Review p)) \<Longrightarrow> triToBool (vc_SecurityReview (pl_Review q))"
  "pl_le p q \<Longrightarrow> triToBool (vc_ArchitectureReview (pl_Review p)) \<Longrightarrow> triToBool (vc_ArchitectureReview (pl_Review q))"
  "pl_le p q \<Longrightarrow> gc_LocalCheckpointCommits (pl_Git p) \<Longrightarrow> gc_LocalCheckpointCommits (pl_Git q)"
  "pl_le p q \<Longrightarrow> gc_Push (pl_Git p) \<Longrightarrow> gc_Push (pl_Git q)"
  "pl_le p q \<Longrightarrow> qc_Create (pl_ChangeRequest p) \<Longrightarrow> qc_Create (pl_ChangeRequest q)"
  "pl_le p q \<Longrightarrow> qc_UpdateExisting (pl_ChangeRequest p) \<Longrightarrow> qc_UpdateExisting (pl_ChangeRequest q)"
  "pl_le p q \<Longrightarrow> pl_Merge p \<Longrightarrow> pl_Merge q"
  "pl_le p q \<Longrightarrow> mc_Enabled (pl_PostMerge p) \<Longrightarrow> mc_Enabled (pl_PostMerge q)"
  "pl_le p q \<Longrightarrow> mc_AutoRevert (pl_PostMerge p) \<Longrightarrow> mc_AutoRevert (pl_PostMerge q)"
  by (simp_all add: pl_le_def)

lemma pl_leI:
  assumes "pl_Implementation p \<Longrightarrow> pl_Implementation q"
    "dc_Generate (pl_Design p) \<Longrightarrow> dc_Generate (pl_Design q)"
    "tc_Generate (pl_Tests p) \<Longrightarrow> tc_Generate (pl_Tests q)"
    "tc_ModifyExisting (pl_Tests p) \<Longrightarrow> tc_ModifyExisting (pl_Tests q)"
    "tc_RunExisting (pl_Tests p) \<Longrightarrow> tc_RunExisting (pl_Tests q)"
    "tc_RunGenerated (pl_Tests p) \<Longrightarrow> tc_RunGenerated (pl_Tests q)"
    "vc_AIReview (pl_Review p) \<Longrightarrow> vc_AIReview (pl_Review q)"
    "triToBool (vc_SecurityReview (pl_Review p)) \<Longrightarrow> triToBool (vc_SecurityReview (pl_Review q))"
    "triToBool (vc_ArchitectureReview (pl_Review p)) \<Longrightarrow> triToBool (vc_ArchitectureReview (pl_Review q))"
    "gc_LocalCheckpointCommits (pl_Git p) \<Longrightarrow> gc_LocalCheckpointCommits (pl_Git q)"
    "gc_Push (pl_Git p) \<Longrightarrow> gc_Push (pl_Git q)"
    "qc_Create (pl_ChangeRequest p) \<Longrightarrow> qc_Create (pl_ChangeRequest q)"
    "qc_UpdateExisting (pl_ChangeRequest p) \<Longrightarrow> qc_UpdateExisting (pl_ChangeRequest q)"
    "pl_Merge p \<Longrightarrow> pl_Merge q"
    "mc_Enabled (pl_PostMerge p) \<Longrightarrow> mc_Enabled (pl_PostMerge q)"
    "mc_AutoRevert (pl_PostMerge p) \<Longrightarrow> mc_AutoRevert (pl_PostMerge q)"
  shows "pl_le p q"
  using assms unfolding pl_le_def by (intro conjI impI)

lemma mergeTri_le: "triToBool (fst (mergeTri b v n)) \<Longrightarrow> triToBool b"
  by (cases b; cases v) (auto simp: mergeTri_def triToBool_def moreRestrictive_def tri_rank_def)

definition merged_caps :: "pipeline \<Rightarrow> pipeline \<Rightarrow> pipeline" where
  "merged_caps b v = fold (\<lambda>(name, get, set). set (get b \<and> get v)) caps b"

lemma fst_mergeRestrict:
  "fst (mergeRestrict b v) = (merged_caps b v)\<lparr>pl_Review := (pl_Review (merged_caps b v))
     \<lparr>vc_SecurityReview := fst (mergeTri (vc_SecurityReview (pl_Review b)) (vc_SecurityReview (pl_Review v))
         ''review.security_review''),
      vc_ArchitectureReview := fst (mergeTri (vc_ArchitectureReview (pl_Review b)) (vc_ArchitectureReview (pl_Review v))
         ''review.architecture_review'')\<rparr>\<rparr>"
  unfolding mergeRestrict_def merged_caps_def Let_def prod.case_eq_if fst_conv ..

lemma merged_caps_le:
  "pl_le ((merged_caps b v)\<lparr>pl_Review := (pl_Review (merged_caps b v))\<lparr>vc_SecurityReview := x, vc_ArchitectureReview := y\<rparr>\<rparr>)
     (b\<lparr>pl_Review := (pl_Review b)\<lparr>vc_SecurityReview := x, vc_ArchitectureReview := y\<rparr>\<rparr>)"
  unfolding merged_caps_def caps_def by (simp add: pl_le_def)

lemma pl_le_trans: "pl_le p q \<Longrightarrow> pl_le q r \<Longrightarrow> pl_le p r"
  by (rule pl_leI) (simp_all add: pl_leD)

lemma merge_le: "pl_le (fst (mergeRestrict b v)) b"
  unfolding fst_mergeRestrict
  by (rule pl_le_trans [OF merged_caps_le]) (simp add: pl_le_def mergeTri_le)

lemma mandatory_mono: "pl_le p q \<Longrightarrow> pl_le (fst (enforceMandatory p s)) (fst (enforceMandatory q s))"
proof (rule pl_leI)
  assume le: "pl_le p q"
  note review = pl_leD(8,9) [OF le, unfolded triToBool_def]
  show "triToBool (vc_SecurityReview (pl_Review (fst (enforceMandatory q s))))"
    if "triToBool (vc_SecurityReview (pl_Review (fst (enforceMandatory p s))))"
    using that review by (auto simp: enforceMandatory_def Let_def triToBool_def split: if_splits)
  show "triToBool (vc_ArchitectureReview (pl_Review (fst (enforceMandatory q s))))"
    if "triToBool (vc_ArchitectureReview (pl_Review (fst (enforceMandatory p s))))"
    using that review by (auto simp: enforceMandatory_def Let_def triToBool_def split: if_splits)
  show "vc_AIReview (pl_Review (fst (enforceMandatory q s)))" if "vc_AIReview (pl_Review (fst (enforceMandatory p s)))"
    using that pl_leD(7) [OF le] by (auto simp: enforceMandatory_def Let_def)
qed (simp_all add: enforceMandatory_def Let_def pl_leD)

lemma rules_push_fst:
  "fst (rules_push p) = p\<lparr>pl_ChangeRequest := (pl_ChangeRequest p)
       \<lparr>qc_Create := (qc_Create (pl_ChangeRequest p) \<and> gc_Push (pl_Git p))\<rparr>,
     pl_Merge := (pl_Merge p \<and> gc_Push (pl_Git p)),
     pl_PostMerge := (pl_PostMerge p)\<lparr>mc_Enabled := (mc_Enabled (pl_PostMerge p) \<and> gc_Push (pl_Git p))\<rparr>\<rparr>"
  by (simp add: rules_push_def)

lemma rule_merge_fst:
  "fst (rule_merge p) = p\<lparr>pl_PostMerge := (pl_PostMerge p)
     \<lparr>mc_Enabled := (mc_Enabled (pl_PostMerge p) \<and> pl_Merge p)\<rparr>\<rparr>"
  by (cases "pl_Merge p"; cases "mc_Enabled (pl_PostMerge p)") (simp_all add: rule_merge_def)

lemma rules_tests_fst:
  "fst (rules_tests p) = p\<lparr>pl_Tests := (pl_Tests p)
     \<lparr>tc_ModifyExisting := (tc_ModifyExisting (pl_Tests p) \<and> tc_Generate (pl_Tests p)),
      tc_RunGenerated := (tc_RunGenerated (pl_Tests p) \<and> tc_Generate (pl_Tests p))\<rparr>\<rparr>"
  by (simp add: rules_tests_def)

lemma Normalize_fst: "fst (Normalize p) = fst (rules_tests (fst (rule_merge (fst (rules_push p)))))"
  by (simp add: Normalize_def prod.case_eq_if Let_def)

lemmas normalize_eqs = Normalize_fst rules_push_fst rule_merge_fst rules_tests_fst

lemma normalize_mono: "pl_le p q \<Longrightarrow> pl_le (fst (Normalize p)) (fst (Normalize q))"
  by (rule pl_leI) (auto simp: normalize_eqs dest: pl_leD)

lemma lock_mono: "pl_le p q \<Longrightarrow> pl_le (fst (applyNetworkLock p)) (fst (applyNetworkLock q))"
  by (rule pl_leI) (auto simp: applyNetworkLock_def dest: pl_leD)

lemma allows_mono:
  assumes "pl_le (rs_Pipeline r) (rs_Pipeline s)" "allowed r a"
  shows "allowed s a"
  using assms(2) by (cases a) (auto simp: Allows_def Let_def dest: pl_leD [OF assms(1)])

section \<open>Resolution in one equation\<close>

definition locked_project :: "policy_project \<Rightarrow> bool" where
  "locked_project pr \<longleftrightarrow> se_NetworkLocked (pp_Security pr) \<or> IsNetworkLocked (pp_Profile pr)"

definition overridden :: "policy_project \<Rightarrow> task_context \<Rightarrow> pipeline" where
  "overridden pr t = (case tx_Override t of None \<Rightarrow> pp_Pipeline pr
     | Some v \<Rightarrow> fst (mergeRestrict (pp_Pipeline pr) v))"

lemma Resolve_eq:
  "fst (Resolve pr t) = \<lparr>rs_Profile = pp_Profile pr, rs_Pipeline =
     (let p = fst (Normalize (fst (enforceMandatory (overridden pr t) (pp_Security pr))))
      in if locked_project pr then fst (applyNetworkLock p) else p)\<rparr>"
  unfolding Resolve_def overridden_def locked_project_def Let_def case_prod_unfold
  by (cases "tx_Override t") simp_all

lemma Resolve_mono:
  assumes "pl_le (overridden pr t) (overridden pr u)"
  shows "pl_le (rs_Pipeline (fst (Resolve pr t))) (rs_Pipeline (fst (Resolve pr u)))"
  using lock_mono [OF normalize_mono [OF mandatory_mono [OF assms]]] normalize_mono [OF mandatory_mono [OF assms]]
  by (simp add: Resolve_eq Let_def)

lemma Resolve_review:
  "pl_Review (rs_Pipeline (fst (Resolve pr t))) = pl_Review (fst (enforceMandatory (overridden pr t) (pp_Security pr)))"
  by (simp add: Resolve_eq Let_def normalize_eqs applyNetworkLock_def)

definition closed :: "pipeline \<Rightarrow> bool" where
  "closed p \<longleftrightarrow> (qc_Create (pl_ChangeRequest p) \<longrightarrow> gc_Push (pl_Git p)) \<and> (pl_Merge p \<longrightarrow> gc_Push (pl_Git p))
     \<and> (mc_Enabled (pl_PostMerge p) \<longrightarrow> pl_Merge p)
     \<and> (tc_ModifyExisting (pl_Tests p) \<or> tc_RunGenerated (pl_Tests p) \<longrightarrow> tc_Generate (pl_Tests p))"

lemma closed_Resolve: "closed (rs_Pipeline (fst (Resolve pr t)))"
  by (auto simp: Resolve_eq closed_def Let_def normalize_eqs applyNetworkLock_def)

lemma closed_fixed: "closed p \<Longrightarrow> fst (Normalize p) = p"
proof -
  assume "closed p"
  then have "(qc_Create (pl_ChangeRequest p) \<and> gc_Push (pl_Git p)) = qc_Create (pl_ChangeRequest p)"
    "(pl_Merge p \<and> gc_Push (pl_Git p)) = pl_Merge p"
    "(mc_Enabled (pl_PostMerge p) \<and> gc_Push (pl_Git p)) = mc_Enabled (pl_PostMerge p)"
    "(mc_Enabled (pl_PostMerge p) \<and> pl_Merge p) = mc_Enabled (pl_PostMerge p)"
    "(tc_ModifyExisting (pl_Tests p) \<and> tc_Generate (pl_Tests p)) = tc_ModifyExisting (pl_Tests p)"
    "(tc_RunGenerated (pl_Tests p) \<and> tc_Generate (pl_Tests p)) = tc_RunGenerated (pl_Tests p)"
    by (auto simp: closed_def)
  then show ?thesis by (simp add: normalize_eqs)
qed

section \<open>Properties\<close>

text \<open>C28: An override only restricts. Whatever a task override asks for, every action the resolved policy allows
  with the override is allowed without it.\<close>

theorem override_only_restricts:
  assumes "allowed (fst (Resolve pr t)) a"
  shows "allowed (fst (Resolve pr (t\<lparr>tx_Override := None\<rparr>))) a"
proof (rule allows_mono [OF Resolve_mono assms])
  show "pl_le (overridden pr t) (overridden pr (t\<lparr>tx_Override := None\<rparr>))"
    by (cases "tx_Override t") (simp_all add: overridden_def merge_le, simp add: pl_le_def)
qed

theorem override_only_restricts_witness:
  "allowed (fst (Resolve (NewProject ''AUTONOMOUS'') \<lparr>tx_Override = None, tx_IsUI = False\<rparr>)) ActPush"
  using override_only_restricts [of "NewProject ''AUTONOMOUS''" "\<lparr>tx_Override = Some remote_review_defaults, tx_IsUI = False\<rparr>"
    ActPush]
  by (simp, code_simp)

text \<open>No override disables a mandatory review: a project that marks the AI, the security or the
  architecture review as mandatory has it allowed under every task override.\<close>

theorem mandatory_reviews_hold:
  "(md_AIReview (se_Mandatory (pp_Security pr)) \<longrightarrow> allowed (fst (Resolve pr t)) ActAIReview)
   \<and> (md_SecurityReview (se_Mandatory (pp_Security pr)) \<longrightarrow> allowed (fst (Resolve pr t)) ActSecurityReview)
   \<and> (md_ArchitectureReview (se_Mandatory (pp_Security pr)) \<longrightarrow> allowed (fst (Resolve pr t)) ActArchReview)"
  by (auto simp: Allows_def Let_def Resolve_review enforceMandatory_def triToBool_def)

theorem mandatory_reviews_hold_witness:
  "allowed (fst (Resolve ((NewProject ''CUSTOM'')\<lparr>pp_Security := \<lparr>se_Mandatory = \<lparr>md_AIReview = True,
       md_SecurityReview = True, md_ArchitectureReview = False\<rparr>, se_NetworkLocked = False,
       se_AllowVisualVerificationBypass = False\<rparr>\<rparr>)
     \<lparr>tx_Override = Some (plan_only_defaults\<lparr>pl_Review := \<lparr>vc_AIReview = False, vc_SecurityReview = TriOff,
       vc_ArchitectureReview = TriOff\<rparr>\<rparr>), tx_IsUI = False\<rparr>)) ActSecurityReview"
  using mandatory_reviews_hold [of "(NewProject ''CUSTOM'')\<lparr>pp_Security := \<lparr>se_Mandatory = \<lparr>md_AIReview = True,
       md_SecurityReview = True, md_ArchitectureReview = False\<rparr>, se_NetworkLocked = False,
       se_AllowVisualVerificationBypass = False\<rparr>\<rparr>"]
  by simp

text \<open>The resolved toggles obey the dependency rules: creating change requests and merging need push,
  post-merge needs merge, changing existing tests and running generated ones need test generation;
  normalising a resolved pipeline again changes nothing.\<close>

theorem resolved_dependencies:
  "(let p = rs_Pipeline (fst (Resolve pr t))
    in (qc_Create (pl_ChangeRequest p) \<longrightarrow> gc_Push (pl_Git p)) \<and> (pl_Merge p \<longrightarrow> gc_Push (pl_Git p))
     \<and> (mc_Enabled (pl_PostMerge p) \<longrightarrow> pl_Merge p)
     \<and> (tc_ModifyExisting (pl_Tests p) \<or> tc_RunGenerated (pl_Tests p) \<longrightarrow> tc_Generate (pl_Tests p))
     \<and> fst (Normalize p) = p)"
  using closed_Resolve [of pr t] closed_fixed [of "rs_Pipeline (fst (Resolve pr t))"]
  unfolding Let_def closed_def by blast

theorem resolved_dependencies_witness:
  "gc_Push (pl_Git (rs_Pipeline (fst (Resolve (NewProject ''AUTONOMOUS'') \<lparr>tx_Override = None, tx_IsUI = True\<rparr>))))"
proof -
  have "pl_Merge (rs_Pipeline (fst (Resolve (NewProject ''AUTONOMOUS'') \<lparr>tx_Override = None, tx_IsUI = True\<rparr>)))"
    by code_simp
  with resolved_dependencies [of "NewProject ''AUTONOMOUS''" "\<lparr>tx_Override = None, tx_IsUI = True\<rparr>"]
  show ?thesis unfolding Let_def by blast
qed

text \<open>The stage report of a resolved policy agrees with the action gate: implementation, test generation, the
  three reviews, push, change request, merge and post-merge are reported active exactly when their action
  is allowed.\<close>

theorem stage_report_agrees:
  "(let r = fst (Resolve pr t); s = StageStatus r
    in IsSkipped s StageImplementation = (\<not> allowed r ActImplement)
     \<and> IsSkipped s StageTestGenerate = (\<not> allowed r ActGenerateTests)
     \<and> IsSkipped s StageAIReview = (\<not> allowed r ActAIReview)
     \<and> IsSkipped s StageArchReview = (\<not> allowed r ActArchReview)
     \<and> IsSkipped s StageSecurityReview = (\<not> allowed r ActSecurityReview)
     \<and> IsSkipped s StagePush = (\<not> allowed r ActPush)
     \<and> IsSkipped s StageChangeRequest = (\<not> allowed r ActCreateChangeRequest)
     \<and> IsSkipped s StageMerge = (\<not> allowed r ActMerge)
     \<and> IsSkipped s StagePostMerge = (\<not> allowed r ActPostMerge))"
  using closed_Resolve [of pr t]
  by (simp add: Let_def IsSkipped_def StageStatus_def report_def stageBool_def delivery_report_def Allows_def
      closed_def)

text \<open>The test stage is the exception: with test generation off the report says that no tests run while the
  gate allows the existing tests, and they do run.\<close>

lemma run_tests_reported_skipped:
  "(let over = local_review_defaults\<lparr>pl_Tests := (pl_Tests local_review_defaults)\<lparr>tc_Generate := False\<rparr>\<rparr>;
        r = fst (Resolve (NewProject ''LOCAL_REVIEW'') \<lparr>tx_Override = Some over, tx_IsUI = False\<rparr>)
    in IsSkipped (StageStatus r) StageRunTests \<and> ''NOT TESTED'' \<in> set (status_LocalResultLabels (StageStatus r))
       \<and> allowed r ActRunExistingTests)"
  by code_simp

definition change_permitted :: "test_path_convention list \<Rightarrow> pipeline \<Rightarrow> file_change \<Rightarrow> bool" where
  "change_permitted convs p c \<longleftrightarrow> \<not> IsTestPath convs (fc_Path c)
     \<or> tc_Generate (pl_Tests p) \<and> (fc_IsNew c \<or> tc_ModifyExisting (pl_Tests p))"

lemma check_refused:
  "sc_IsTest (CheckTestScope convs p (fc_Path c) (fc_IsNew c)) \<and> \<not> sc_Allowed (CheckTestScope convs p (fc_Path c) (fc_IsNew c))
    \<longleftrightarrow> \<not> change_permitted convs p c"
  by (auto simp: CheckTestScope_def change_permitted_def)

lemma check_changes_count:
  "snd (check_changes convs p cs (first, n)) = n + length (filter (\<lambda>c. \<not> change_permitted convs p c) cs)"
proof (induction cs arbitrary: first n)
  case (Cons c cs)
  show ?case unfolding check_changes.simps Let_def check_refused by (simp add: Cons.IH)
qed simp

text \<open>The scope validator accepts a batch of changes exactly when every changed test file may be changed (test
  generation is on, and the file is new or existing tests may be modified), and a violation counts the
  refused changes.\<close>

theorem scope_validator_exact:
  "map_option sv_Changes (ScopeValidator_Validate convs p cs) =
     (if list_all (change_permitted convs p) cs then None
      else Some (length (filter (\<lambda>c. \<not> change_permitted convs p c) cs)))"
  using check_changes_count [of convs p cs zero_scope_result 0]
  by (auto simp: ScopeValidator_Validate_def CheckFileChanges_def list_all_iff filter_empty_conv split: prod.splits)

end
