(* ===== verification/Merge_Valid.thy ===== *)
theory Merge_Valid
  imports Merge_Governance Policy_Valid
begin

text \<open>
  Properties of the engines, the governor, the authority and the queue: the exact decision of the governor,
  what must hold before any provider is called, the order and the fallback of the queue, and what a summary
  of the test engine means.
\<close>

section \<open>Governor\<close>

definition tests_required :: "governor_input \<Rightarrow> bool" where
  "tests_required i \<longleftrightarrow> pl_Merge (rs_Pipeline (gi_Policy i)) \<and> tc_RequireForRemoteMerge (pl_Tests (rs_Pipeline (gi_Policy i)))"

definition tests_good :: "governor_input \<Rightarrow> bool" where
  "tests_good i \<longleftrightarrow> ts_TestsWereRun (gi_TestSummary i) \<and> test_OverallStatus (gi_TestSummary i) = VPassed"

text \<open>All gates pass.\<close>

definition deliverable :: "governor_input \<Rightarrow> bool" where
  "deliverable i \<longleftrightarrow> gi_SpecificationLocked i \<and> gi_ScopeValid i \<and> gi_RequiredChecksPassed i
     \<and> gi_AcceptanceEvidenceComplete i \<and> evidence_IsComplete (gi_Evidence i)
     \<and> gi_BlockerFindings i = 0 \<and> gi_MajorFindings i = 0 \<and> gi_TargetAllowed i \<and> gi_BranchCurrent i
     \<and> gi_BudgetPolicySatisfied i \<and> gi_VisualPolicySatisfied i
     \<and> (tests_required i \<longrightarrow> tests_good i)
     \<and> (pl_Merge (rs_Pipeline (gi_Policy i)) \<longrightarrow> \<not> (\<exists>f \<in> set (rr_Findings (gi_ReviewResult i)). IsBlocker f))"

abbreviation failed_gates :: "governor_input \<Rightarrow> gate list" where
  "failed_gates i \<equiv> filter (\<lambda>g. \<not> ga_Passed g) (buildGates i)"

lemma has_gate_append [simp]: "has_gate ns (xs @ ys) \<longleftrightarrow> has_gate ns xs \<or> has_gate ns ys"
  by (auto simp: has_gate_def)

lemma has_gate_simps [simp]:
  "has_gate ns [] = False" "has_gate ns (g # gs) = (ga_Name g \<in> set ns \<or> has_gate ns gs)"
  by (auto simp: has_gate_def)

lemma gate_fields [simp]: "ga_Name (mk_gate n b x) = n" "ga_Passed (mk_gate n b x) = b"
  by (simp_all add: mk_gate_def)

lemma has_gate_if: "has_gate ns (if b then g # gs else hs) = (if b then ga_Name g \<in> set ns \<or> has_gate ns gs else has_gate ns hs)"
  by simp

lemma test_gates_cases:
  "test_gates i = (if \<not> tests_required i then []
     else if tests_good i then [mk_gate ''tests_required_for_merge'' True (ga_Detail (hd (test_gates i)))]
     else mk_gate ''tests_required_for_merge'' False (ga_Detail (hd (test_gates i))) #
       [mk_gate (if ts_TestsWereRun (gi_TestSummary i) then ''tests_failed_repair'' else ''tests_disabled_blocked_merge'')
         False (ga_Detail (hd (tl (test_gates i))))])"
  by (simp add: test_gates_def tests_required_def tests_good_def Let_def mk_gate_def)

lemma base_gates_ok:
  "filter (\<lambda>g. \<not> ga_Passed g) (base_gates i) = [] \<longleftrightarrow> gi_SpecificationLocked i \<and> gi_ScopeValid i \<and> gi_RequiredChecksPassed i
     \<and> gi_AcceptanceEvidenceComplete i \<and> evidence_IsComplete (gi_Evidence i)
     \<and> gi_BlockerFindings i = 0 \<and> gi_MajorFindings i = 0 \<and> gi_TargetAllowed i \<and> gi_BranchCurrent i
     \<and> gi_BudgetPolicySatisfied i \<and> gi_VisualPolicySatisfied i"
  unfolding filter_empty_conv base_gates_def by simp

lemma test_gates_ok: "filter (\<lambda>g. \<not> ga_Passed g) (test_gates i) = [] \<longleftrightarrow> (tests_required i \<longrightarrow> tests_good i)"
  by (subst test_gates_cases) simp

lemma failed_none: "failed_gates i = [] \<longleftrightarrow> deliverable i"
  unfolding buildGates_def filter_append append_is_Nil_conv base_gates_ok test_gates_ok deliverable_def review_gates_def
  by simp

lemma has_gate_failed:
  "has_gate ns (filter (\<lambda>g. \<not> ga_Passed g) (g # gs)) \<longleftrightarrow>
     \<not> ga_Passed g \<and> ga_Name g \<in> set ns \<or> has_gate ns (filter (\<lambda>g. \<not> ga_Passed g) gs)"
  "has_gate ns (filter (\<lambda>g. \<not> ga_Passed g) []) = False"
  by simp_all

lemma base_gates_branch:
  "has_gate [''branch_current''] (filter (\<lambda>g. \<not> ga_Passed g) (base_gates i)) \<longleftrightarrow> \<not> gi_BranchCurrent i"
  unfolding base_gates_def has_gate_failed gate_fields by simp

lemma base_gates_repair:
  "has_gate [''blocker_findings'', ''major_findings'', ''tests_failed_repair'']
     (filter (\<lambda>g. \<not> ga_Passed g) (base_gates i)) \<longleftrightarrow> gi_BlockerFindings i \<noteq> 0 \<or> gi_MajorFindings i \<noteq> 0"
  unfolding base_gates_def has_gate_failed gate_fields by simp

lemma failed_branch: "has_gate [''branch_current''] (failed_gates i) \<longleftrightarrow> \<not> gi_BranchCurrent i"
  unfolding buildGates_def filter_append has_gate_append base_gates_branch review_gates_def
  by (subst test_gates_cases) simp

lemma failed_repair:
  "has_gate [''blocker_findings'', ''major_findings'', ''tests_failed_repair''] (failed_gates i) \<longleftrightarrow>
     gi_BlockerFindings i \<noteq> 0 \<or> gi_MajorFindings i \<noteq> 0
     \<or> tests_required i \<and> ts_TestsWereRun (gi_TestSummary i) \<and> \<not> tests_good i"
  unfolding buildGates_def filter_append has_gate_append base_gates_repair review_gates_def
  by (subst test_gates_cases) (simp, blast)

text \<open>The decision of the merge governor, exactly: a stale branch asks for a rebase before anything else; findings
  or failed required tests ask for a repair; when every gate passes the decision is the strongest delivery
  the resolved policy permits; everything else is blocked. Quarantine is never decided.\<close>

theorem governor_decision_exact:
  "gr_Decision (Decide i) =
     (if \<not> gi_BranchCurrent i then DecisionRequireRebase
      else if gi_BlockerFindings i \<noteq> 0 \<or> gi_MajorFindings i \<noteq> 0
        \<or> tests_required i \<and> ts_TestsWereRun (gi_TestSummary i) \<and> \<not> tests_good i then DecisionRequireRepair
      else if \<not> deliverable i then DecisionPolicyBlocked
      else if pl_Merge (rs_Pipeline (gi_Policy i)) then DecisionAllowMerge
      else if allowed (gi_Policy i) ActCreateChangeRequest then DecisionAllowChangeRequest
      else if allowed (gi_Policy i) ActPush then DecisionAllowPush
      else DecisionAllowLocalResult)"
proof (cases "mandatory_reason (failed_gates i)")
  case None
  then show ?thesis
    unfolding Decide_def Let_def failed_branch failed_repair failed_none
    by (auto simp: delivery_decision_def Allows_def)
next
  case (Some r)
  then have "failed_gates i \<noteq> []" by auto
  with Some show ?thesis unfolding Decide_def Let_def failed_branch failed_repair failed_none by simp
qed

lemma allow_rank:
  "requiresDecision DecisionAllowPush (gr_Decision (Decide i)) \<or> requiresDecision DecisionAllowChangeRequest (gr_Decision (Decide i))
     \<or> requiresDecision DecisionAllowMerge (gr_Decision (Decide i)) \<Longrightarrow> failed_gates i = []"
proof (rule ccontr)
  assume ne: "failed_gates i \<noteq> []"
  then have "gr_Decision (Decide i) \<in> {DecisionRequireRebase, DecisionRequireRepair, DecisionPolicyBlocked}"
    unfolding Decide_def Let_def by (simp split: option.splits)
  moreover assume "requiresDecision DecisionAllowPush (gr_Decision (Decide i)) \<or> requiresDecision DecisionAllowChangeRequest (gr_Decision (Decide i))
     \<or> requiresDecision DecisionAllowMerge (gr_Decision (Decide i))"
  ultimately show False by (auto simp: requiresDecision_def decisionRank_def)
qed

section \<open>Authority\<close>

lemma append_audit_world [simp]: "dl_World (append_audit now ty t pay d) = dl_World d"
  by (simp add: append_audit_def split: sum.splits)

lemma guarded_denied:
  "denial = Some e \<Longrightarrow> dl_World (snd (snd (guarded now denial t act ty z call pay d))) = dl_World d"
  by (simp add: guarded_def auditDeny_def)

lemma authorise_None:
  "authorise dec r p act label mn = None \<longleftrightarrow>
     requiresDecision mn (gr_Decision dec) \<and> allowed r act \<and> \<not> (ca_IsNetwork (pv_Capabilities p) \<and> IsNetworkLocked (rs_Profile r))"
  by (simp add: authorise_def)

lemma guarded_world:
  assumes "dl_World (snd (snd (guarded now (authorise dec r p act label mn) t a ty z call pay d))) \<noteq> dl_World d"
  shows "requiresDecision mn (gr_Decision dec) \<and> allowed r act \<and> \<not> (ca_IsNetwork (pv_Capabilities p) \<and> IsNetworkLocked (rs_Profile r))"
proof (cases "authorise dec r p act label mn")
  case (Some e)
  with assms guarded_denied show ?thesis by metis
qed (auto simp: authorise_None)

text \<open>The delivery operations of the authority.\<close>

datatype delivery_op =
    DPush push_request | DCreate create_request | DUpdate update_request | DChecks checks_request
  | DAutoMerge auto_merge_request | DMerge merge_request | DRevert revert_request

fun deliver ::
  "time \<Rightarrow> governor_result \<Rightarrow> resolved \<Rightarrow> 'w provider \<Rightarrow> delivery_op \<Rightarrow> 'w delivery \<Rightarrow> 'w delivery" where
  "deliver now dec r p (DPush q) d = snd (snd (Push now dec r p q d))"
| "deliver now dec r p (DCreate q) d = snd (snd (CreateChangeRequest now dec r p q d))"
| "deliver now dec r p (DUpdate q) d = snd (snd (UpdateChangeRequest now dec r p q d))"
| "deliver now dec r p (DChecks q) d = snd (snd (GetChecks now r p q d))"
| "deliver now dec r p (DAutoMerge q) d = snd (snd (EnableAutoMerge now dec r p q d))"
| "deliver now dec r p (DMerge q) d = snd (snd (authority_Merge now dec r p q d))"
| "deliver now dec r p (DRevert q) d = snd (snd (authority_Revert now dec r p q d))"

fun op_action :: "delivery_op \<Rightarrow> action" where
  "op_action (DPush _) = ActPush"
| "op_action (DCreate _) = ActCreateChangeRequest"
| "op_action (DUpdate _) = ActUpdateChangeRequest"
| "op_action (DChecks _) = ActPush"
| "op_action _ = ActMerge"

fun op_level :: "delivery_op \<Rightarrow> decision option" where
  "op_level (DPush _) = Some DecisionAllowPush"
| "op_level (DCreate _) = Some DecisionAllowChangeRequest"
| "op_level (DUpdate _) = Some DecisionAllowChangeRequest"
| "op_level (DChecks _) = None"
| "op_level _ = Some DecisionAllowMerge"

lemma deliver_authorised:
  assumes "dl_World (deliver now dec r p op d) \<noteq> dl_World d"
  shows "(\<forall>l. op_level op = Some l \<longrightarrow> requiresDecision l (gr_Decision dec)) \<and> allowed r (op_action op)
    \<and> \<not> (ca_IsNetwork (pv_Capabilities p) \<and> IsNetworkLocked (rs_Profile r))"
  using assms
  by (cases op) (auto simp: Push_def CreateChangeRequest_def UpdateChangeRequest_def EnableAutoMerge_def
      authority_Merge_def authority_Revert_def GetChecks_def dest!: guarded_world split: if_splits)


text \<open>C19: Nothing is delivered past the governor. Whatever operation of the authority reaches the provider (its world
  changes), the governor's decision for the input is strong enough for it, so all gates passed (reading checks
  needs no decision); the resolved policy allows the action; and the provider does not use the network
  under a network-locked profile.\<close>

theorem delivery_needs_gates:
  assumes "dl_World (deliver now (Decide i) (gi_Policy i) p op d) \<noteq> dl_World d"
  shows "((\<exists>q. op = DChecks q) \<or> deliverable i) \<and> allowed (gi_Policy i) (op_action op)
    \<and> \<not> (ca_IsNetwork (pv_Capabilities p) \<and> IsNetworkLocked (rs_Profile (gi_Policy i)))"
  using deliver_authorised [OF assms] allow_rank [of i] failed_none [of i] by (cases op) auto

text \<open>A provider that counts its calls, and an input with every gate open.\<close>

definition counting_provider :: "bool \<Rightarrow> nat provider" where
  "counting_provider network = \<lparr>pv_ID = ''count'',
     pv_Capabilities = \<lparr>ca_PushBranch = True, ca_CreateChangeRequest = True, ca_UpdateChangeRequest = True,
       ca_GetChecks = True, ca_EnableAutoMerge = True, ca_Merge = True, ca_Revert = True, ca_IsNetwork = network\<rparr>,
     pv_PushBranch = (\<lambda>_ n. (\<lparr>po_RemoteBranch = '''', po_HeadSHA = '''', po_PushedAt = ''''\<rparr>, None, Suc n)),
     pv_CreateChangeRequest = (\<lambda>_ n. (zero_change_request, None, Suc n)),
     pv_UpdateChangeRequest = (\<lambda>_ n. (zero_change_request, None, Suc n)),
     pv_GetChecks = (\<lambda>_ n. (zero_check_status, None, Suc n)),
     pv_EnableAutoMerge = (\<lambda>_ n. ((), None, Suc n)),
     pv_Merge = (\<lambda>_ n. (zero_merge_result\<lparr>mr_Merged := True\<rparr>, None, Suc n)),
     pv_Revert = (\<lambda>_ n. (\<lparr>vr_Reverted = True, vr_RevertSHA = ''''\<rparr>, None, Suc n))\<rparr>"

definition open_input :: "resolved \<Rightarrow> bool \<Rightarrow> governor_input" where
  "open_input r tested = \<lparr>gi_Policy = r, gi_SpecificationLocked = True, gi_ScopeValid = True,
     gi_RequiredChecksPassed = True, gi_AcceptanceEvidenceComplete = True, gi_BlockerFindings = 0,
     gi_MajorFindings = 0, gi_TargetAllowed = True, gi_BranchCurrent = True, gi_BudgetPolicySatisfied = True,
     gi_VisualPolicySatisfied = True,
     gi_Evidence = [\<lparr>ev_CriterionID = ''AC-1'', ev_Type = ''review'', ev_Reference = ''r'', ev_Status = ''passed'',
       ev_Confidence = ''medium'', ev_TestsWereRun = False\<rparr>],
     gi_TestSummary = \<lparr>ts_Results = (if tested then [bare_result 2 VPassed] else []),
       ts_HighestCompletedLevel = 0, ts_TestsWereRun = tested\<rparr>,
     gi_ReviewResult = \<lparr>rr_Findings = [], rr_RolesRun = [], rr_RolesSkipped = []\<rparr>\<rparr>"

definition demo_merge :: merge_request where
  "demo_merge = \<lparr>mq_TaskID = ''T-1'', mq_Number = 1, mq_HeadBranch = ''h'', mq_BaseBranch = ''main'',
     mq_HeadSHA = '''', mq_Method = ''merge'', mq_CommitMessage = ''''\<rparr>"

definition autonomous :: resolved where
  "autonomous = fst (Resolve (NewProject ''AUTONOMOUS'') \<lparr>tx_Override = None, tx_IsUI = False\<rparr>)"

theorem governor_decision_exact_witness:
  "gr_Decision (Decide (open_input autonomous True)) = DecisionAllowMerge"
  unfolding governor_decision_exact by code_simp

theorem delivery_needs_gates_witness:
  "deliverable (open_input autonomous True)"
proof -
  have p: "gi_Policy (open_input autonomous True) = autonomous" by (simp add: open_input_def)
  have "dl_World (deliver 0 (Decide (open_input autonomous True)) autonomous (counting_provider True)
      (DMerge demo_merge) \<lparr>dl_World = 0, dl_Db = empty_db\<rparr>) \<noteq> 0"
    by code_simp
  with delivery_needs_gates [of 0 "open_input autonomous True" "counting_provider True" "DMerge demo_merge"
    "\<lparr>dl_World = 0, dl_Db = empty_db\<rparr>"] p
  show ?thesis by simp
qed

text \<open>C20: A network-locked project never delivers. Whatever the task override, the governor's decision, the
  provider (a local one included) and the operation, the authority refuses it: the provider is not called.\<close>

theorem locked_project_never_delivers:
  assumes "se_NetworkLocked (pp_Security pr) \<or> IsNetworkLocked (pp_Profile pr)"
  shows "dl_World (deliver now dec (fst (Resolve pr t)) p op d) = dl_World d"
proof (rule ccontr)
  assume "dl_World (deliver now dec (fst (Resolve pr t)) p op d) \<noteq> dl_World d"
  then have "allowed (fst (Resolve pr t)) (op_action op)" using deliver_authorised by blast
  with assms show False
    by (cases op) (simp_all add: Resolve_eq locked_project_def Allows_def applyNetworkLock_def Let_def)
qed

theorem locked_project_never_delivers_witness:
  "dl_World (deliver 0 (Decide (open_input autonomous True)) (fst (Resolve (NewProject ''LOCAL_REVIEW'')
     \<lparr>tx_Override = Some autonomous_defaults, tx_IsUI = False\<rparr>)) (counting_provider False) (DMerge demo_merge)
     \<lparr>dl_World = 0, dl_Db = empty_db\<rparr>) = 0"
proof -
  have "se_NetworkLocked (pp_Security (NewProject ''LOCAL_REVIEW''))" by code_simp
  then show ?thesis by (intro trans [OF locked_project_never_delivers]) simp_all
qed

section \<open>Queue\<close>

lemma processOne_item: "qo_Item (fst (processOne now l item d)) = item"
  by (simp add: processOne_def merged_outcome_def fresh_outcome_def Let_def split: prod.splits option.splits)

lemma processOne_fallback:
  assumes "qo_FellBack (fst (processOne now l item d))"
  shows "l \<noteq> None \<and> qi_AllowLocalFallback item \<and> CanLocalMergeMode (qi_Policy item)
    \<and> ca_IsNetwork (pv_Capabilities (qi_Provider item))"
  using assms by (auto simp: processOne_def merged_outcome_def fresh_outcome_def Let_def split: prod.splits option.splits if_splits)

lemma authority_Merge_result:
  "mr_Merged (fst (authority_Merge now dec r p req d)) \<Longrightarrow> requiresDecision DecisionAllowMerge (gr_Decision dec) \<and> allowed r ActMerge"
proof (cases "authorise dec r p ActMerge ''merge'' DecisionAllowMerge")
  case (Some e)
  then show "mr_Merged (fst (authority_Merge now dec r p req d)) \<Longrightarrow> ?thesis"
    by (simp add: authority_Merge_def guarded_def zero_merge_result_def)
qed (simp add: authorise_None)

lemma processOne_merged:
  fixes item :: "'w queue_item"
  assumes "qo_Merged (fst (processOne now l item d))"
  shows "gr_Decision (qi_Decision item) = DecisionAllowMerge \<and> allowed (qi_Policy item) ActMerge"
proof -
  let ?M = "authority_Merge now (qi_Decision item) (qi_Policy item)"
  obtain res err d1 where m: "?M (qi_Provider item) (qi_Request item) d = (res, err, d1)" by (metis prod_cases3)
  have "\<exists>(p :: 'w provider) req d'. mr_Merged (fst (?M p req d'))"
  proof (cases err)
    case None
    with assms m have "mr_Merged (fst (?M (qi_Provider item) (qi_Request item) d))"
      by (simp add: processOne_def merged_outcome_def)
    then show ?thesis by blast
  next
    case (Some e)
    with assms m have "mr_Merged (fst (?M (the l) ((qi_Request item)\<lparr>mq_Number := 0\<rparr>) d1))"
      by (auto simp: processOne_def merged_outcome_def fresh_outcome_def Let_def split: prod.splits option.splits if_splits)
    then show ?thesis by blast
  qed
  then have "requiresDecision DecisionAllowMerge (gr_Decision (qi_Decision item)) \<and> allowed (qi_Policy item) ActMerge"
    using authority_Merge_result by blast
  then show ?thesis
    by (cases "gr_Decision (qi_Decision item)") (auto simp: requiresDecision_def decisionRank_def)
qed

lemma process_items_outcomes:
  "map qo_Item (fst (process_items now l items d)) = items
   \<and> (\<forall>oc \<in> set (fst (process_items now l items d)). \<exists>d'. oc = fst (processOne now l (qo_Item oc) d'))"
proof (induction items arbitrary: d)
  case (Cons item items)
  obtain oc d1 where one: "processOne now l item d = (oc, d1)" by fastforce
  with processOne_item [of now l item d] have item: "qo_Item oc = item" by simp
  obtain ocs d2 where rest: "process_items now l items d1 = (ocs, d2)" by fastforce
  have "\<exists>d'. oc = fst (processOne now l (qo_Item oc) d')" by (rule exI [of _ d]) (simp add: item one)
  with Cons.IH [of d1] item show ?case by (auto simp: one rest)
qed simp

text \<open>The merge queue is first in, first out and complete: processing yields one outcome per queued item in
  queue order and leaves the queue empty; an outcome is merged only for an item whose decision is to allow
  the merge and whose policy allows it, and the local fallback is used only where a local provider exists, the
  item permits it, the policy is in local-merge mode and the failed provider was a network one.\<close>

theorem queue_fifo:
  "(case Process now q d of (ocs, q', d') \<Rightarrow>
     map qo_Item ocs = qu_Items q \<and> qu_Items q' = []
     \<and> list_all (\<lambda>oc. (\<not> qo_Merged oc \<or> gr_Decision (qi_Decision (qo_Item oc)) = DecisionAllowMerge
          \<and> allowed (qi_Policy (qo_Item oc)) ActMerge)
        \<and> (\<not> qo_FellBack oc \<or> qu_Local q \<noteq> None \<and> qi_AllowLocalFallback (qo_Item oc)
          \<and> CanLocalMergeMode (qi_Policy (qo_Item oc))
          \<and> ca_IsNetwork (pv_Capabilities (qi_Provider (qo_Item oc))))) ocs)"
proof -
  obtain ocs d' where P: "process_items now (qu_Local q) (qu_Items q) d = (ocs, d')" by fastforce
  note out = process_items_outcomes [of now "qu_Local q" "qu_Items q" d, unfolded P fst_conv]
  have "(\<not> qo_Merged oc \<or> gr_Decision (qi_Decision (qo_Item oc)) = DecisionAllowMerge
          \<and> allowed (qi_Policy (qo_Item oc)) ActMerge)
        \<and> (\<not> qo_FellBack oc \<or> qu_Local q \<noteq> None \<and> qi_AllowLocalFallback (qo_Item oc)
          \<and> CanLocalMergeMode (qi_Policy (qo_Item oc)) \<and> ca_IsNetwork (pv_Capabilities (qi_Provider (qo_Item oc))))"
    if "oc \<in> set ocs" for oc
  proof -
    from out that obtain e where "oc = fst (processOne now (qu_Local q) (qo_Item oc) e)" by blast
    then show ?thesis
      using processOne_merged [of now "qu_Local q" "qo_Item oc" e] processOne_fallback [of now "qu_Local q" "qo_Item oc" e]
      by metis
  qed
  then show ?thesis using out by (simp add: Process_def P list_all_iff)
qed

definition demo_queue :: "nat queue" where
  "demo_queue = \<lparr>qu_Local = None, qu_Items = [\<lparr>qi_TaskID = ''T-1'',
     qi_Decision = Decide (open_input autonomous True), qi_Policy = autonomous,
     qi_Provider = counting_provider True, qi_Request = demo_merge, qi_AllowLocalFallback = False\<rparr>],
     qu_Closed = False\<rparr>"

theorem queue_fifo_witness:
  "(case Process 0 demo_queue \<lparr>dl_World = 0, dl_Db = empty_db\<rparr> of (ocs, q', d') \<Rightarrow>
     map qo_Item ocs = qu_Items demo_queue \<and> qu_Items q' = []) \<and>
   list_all qo_Merged (fst (Process 0 demo_queue \<lparr>dl_World = 0, dl_Db = empty_db\<rparr>))"
proof
  show "case Process 0 demo_queue \<lparr>dl_World = 0, dl_Db = empty_db\<rparr> of (ocs, q', d') \<Rightarrow>
     map qo_Item ocs = qu_Items demo_queue \<and> qu_Items q' = []"
    using queue_fifo [where now = 0 and q = demo_queue and d = "\<lparr>dl_World = 0, dl_Db = empty_db\<rparr>"]
    by (simp split: prod.splits)
  show "list_all qo_Merged (fst (Process 0 demo_queue \<lparr>dl_World = 0, dl_Db = empty_db\<rparr>))"
    by code_simp
qed

section \<open>A mandatory rule that an override removes\<close>

text \<open>With the defaults of an autonomous project a merge without any tests is blocked. A task override that only
  clears \<^verbatim>\<open>require_for_remote_merge\<close> is resolved without a blocking violation, and the governor then allows
  the merge of the same input.\<close>

lemma override_drops_merge_tests:
  "(let over = autonomous_defaults\<lparr>pl_Tests := (pl_Tests autonomous_defaults)\<lparr>tc_RequireForRemoteMerge := False\<rparr>\<rparr>;
        (r, vs) = Resolve (NewProject ''AUTONOMOUS'') \<lparr>tx_Override = Some over, tx_IsUI = False\<rparr>
    in gr_Decision (Decide (open_input autonomous False)) = DecisionPolicyBlocked
       \<and> \<not> Blocks vs \<and> gr_Decision (Decide (open_input r False)) = DecisionAllowMerge)"
  by code_simp

end
