(* ===== verification/Go_Float.thy ===== *)
theory Go_Float
  imports Go_Time Complex_Main
begin

text \<open>
  Decimal rendering. A Go \<^verbatim>\<open>float64\<close> of the sources (money, quota figures, scores) is modelled by a
  rational number: the sums, products and comparisons are exact, so the model says nothing about the
  rounding of binary arithmetic. \<open>fmt_fixed k\<close> is \<^verbatim>\<open>fmt.Sprintf("%.<k>f")\<close>, which rounds the exact value
  to \<open>k\<close> decimals, ties to even; \<open>fmt_int\<close> is \<^verbatim>\<open>fmt.Sprintf("%d")\<close> of a signed integer.
\<close>

definition fmt_int :: "int \<Rightarrow> string" where
  "fmt_int n = (if n < 0 then ''-'' @ show_nat (nat (- n)) else show_nat (nat n))"

definition round_even :: "rat \<Rightarrow> int" where
  "round_even x =
     (let f = \<lfloor>x\<rfloor>; r = x - of_int f
      in if r < 1 / 2 then f else if 1 / 2 < r then f + 1 else if even f then f else f + 1)"

definition fmt_fixed :: "nat \<Rightarrow> rat \<Rightarrow> string" where
  "fmt_fixed k v =
     (let n = nat (round_even (\<bar>v\<bar> * 10 ^ k))
      in (if v < 0 then ''-'' else '''') @ show_nat (n div 10 ^ k)
         @ (if k = 0 then '''' else ''.'' @ fixed_digits k (n mod 10 ^ k)))"

text \<open>\<^verbatim>\<open>strings.Join\<close>.\<close>

fun strings_Join :: "string list \<Rightarrow> string \<Rightarrow> string" where
  "strings_Join [] sep = []"
| "strings_Join [x] sep = x"
| "strings_Join (x # y # xs) sep = x @ sep @ strings_Join (y # xs) sep"

lemma show_nat_not_Nil [simp]: "show_nat n \<noteq> []"
  by (simp add: show_nat.simps [of n])

lemma hd_show_nat: "\<exists>d < 10. hd (show_nat n) = digit_char d"
proof (induction n rule: show_nat.induct)
  case (1 n)
  then show ?case
    by (cases "n < 10") (auto simp: show_nat.simps [of n])
qed

lemma round_even_close: "\<bar>of_int (round_even x) - x\<bar> \<le> 1 / 2"
proof -
  have "of_int \<lfloor>x\<rfloor> \<le> x" "x < of_int \<lfloor>x\<rfloor> + 1" by (simp_all add: floor_le_iff) linarith
  then show ?thesis unfolding round_even_def Let_def by (auto simp: abs_le_iff)
qed

lemma round_even_of_int [simp]: "round_even (of_int n) = n"
  by (simp add: round_even_def)

lemma round_even_nonneg: "0 \<le> x \<Longrightarrow> 0 \<le> round_even x"
  by (auto simp: round_even_def Let_def)

lemma fmt_fixed_not_Nil [simp]: "fmt_fixed k v \<noteq> []"
  by (simp add: fmt_fixed_def Let_def)

text \<open>A rendered number starts with a digit or a minus sign.\<close>

lemma hd_fmt_fixed: "hd (fmt_fixed k v) = CHR ''-'' \<or> (\<exists>d < 10. hd (fmt_fixed k v) = digit_char d)"
  using hd_show_nat by (auto simp: fmt_fixed_def Let_def)

lemma digit_char_neq: "d < 10 \<Longrightarrow> 57 < (of_char c :: nat) \<Longrightarrow> digit_char d \<noteq> c"
  using of_char_digit [of d] by auto

end
