(* ===== verification/Quota.thy ===== *)
theory Quota
  imports Go_Float "HOL-Library.AList"
begin

text \<open>
  The quota manager, \<^verbatim>\<open>src/internal/quota/manager.go\<close> and \<^verbatim>\<open>format.go\<close>: the snapshot and circuit breaker of
  every provider account, the operations that feed them (\<open>Apply\<close>, \<open>RecordFailure\<close>, \<open>RecordSuccess\<close>) and
  the ones the router reads (\<open>Snapshot\<close>, \<open>All\<close>, \<open>IsAvailable\<close>, \<open>BreakerState\<close>, \<open>WhyUnavailable\<close>). A read
  is a state change too: \<open>effectiveLocked\<close> moves an OPEN breaker to HALF_OPEN when its time has passed.
  Every operation holds the manager's mutex from its first to its last access, so an execution is a
  sequence of operations, each with the instant its clock showed.

  The string types of the source are datatypes whose last constructor stands for every other string
  (the empty one of a zero value included). The account map is an association list with distinct
  keys; figures are rationals. The theorems: the invariant of every reachable manager, the life of the
  breaker, the rate-limit window, that an exhausted or unauthenticated account is unavailable until a
  snapshot is applied, and that the explanation of a refusal agrees with the refusal.
\<close>

section \<open>Data\<close>

record AccountID =
  ac_Engine :: string
  ac_Account :: string

definition AccountID_String :: "AccountID \<Rightarrow> string" where
  "AccountID_String a = ac_Engine a @ ''/'' @ ac_Account a"

datatype Confidence =
  ConfExact | ConfProviderReported | ConfEstimated | ConfInferred | ConfUnknown | ConfOther string

datatype State =
  StateAvailable | StateLow | StateExhausted | StateRateLimited | StateAuthRequired | StateDegraded
| StateUnknown | StateOther string

datatype BreakerState = BreakerClosed | BreakerOpen | BreakerHalfOpen

datatype FailureClass =
  FailureProviderQuota | FailureProviderRateLimit | FailureProviderCapacity | FailureProviderAuth
| FailureEngineNotInstalled | FailureEngineCrash | FailureEngineProtocol | FailureModelNotAvailable
| FailureImageProvider | FailureTimeout | FailureCancelled | FailureBuildFailure | FailureTestFailure
| FailureVisualFailure | FailureScopeViolation | FailurePolicyViolation | FailureMalformedOutput
| FailureMergeConflict | FailureBudgetExceeded | FailureInternalError | FailureOther string

fun FailureClass_IsValid :: "FailureClass \<Rightarrow> bool" where
  "FailureClass_IsValid (FailureOther _) = False"
| "FailureClass_IsValid _ = True"

fun State_IsValid :: "State \<Rightarrow> bool" where
  "State_IsValid (StateOther _) = False"
| "State_IsValid _ = True"

definition IsRoutable :: "State \<Rightarrow> bool" where
  "IsRoutable s \<longleftrightarrow> s = StateAvailable \<or> s = StateLow \<or> s = StateDegraded \<or> s = StateUnknown"

fun State_string :: "State \<Rightarrow> string" where
  "State_string StateAvailable = ''AVAILABLE''"
| "State_string StateLow = ''LOW''"
| "State_string StateExhausted = ''EXHAUSTED''"
| "State_string StateRateLimited = ''RATE_LIMITED''"
| "State_string StateAuthRequired = ''AUTH_REQUIRED''"
| "State_string StateDegraded = ''DEGRADED''"
| "State_string StateUnknown = ''UNKNOWN''"
| "State_string (StateOther s) = s"

record Snapshot =
  sn_Account :: AccountID
  sn_Confidence :: Confidence
  sn_State :: State
  sn_Remaining :: "rat option"
  sn_Limit :: "rat option"
  sn_Window :: string
  sn_ResetAt :: time
  sn_RetryAfter :: duration
  sn_Reason :: string
  sn_ObservedAt :: time

text \<open>A snapshot with the zero value in every field but the three named ones.\<close>

definition blank_snapshot :: "AccountID \<Rightarrow> State \<Rightarrow> Confidence \<Rightarrow> Snapshot" where
  "blank_snapshot aid st c =
     \<lparr>sn_Account = aid, sn_Confidence = c, sn_State = st, sn_Remaining = None, sn_Limit = None,
      sn_Window = '''', sn_ResetAt = zero_time, sn_RetryAfter = 0, sn_Reason = '''',
      sn_ObservedAt = zero_time\<rparr>"

definition FractionRemaining :: "Snapshot \<Rightarrow> rat" where
  "FractionRemaining s =
     (case (sn_Remaining s, sn_Limit s) of
        (Some rem, Some limt) \<Rightarrow>
          if limt \<le> 0 then - 1
          else (let f = rem / limt; f = (if f < 0 then 0 else f) in if 1 < f then 1 else f)
      | _ \<Rightarrow> - 1)"

record QuotaConfig =
  qc_FailureThreshold :: int
  qc_OpenDuration :: duration
  qc_LowRemainingFraction :: rat
  qc_RateLimitJitter :: rat
  qc_HasNow :: bool

definition DefaultQuotaConfig :: QuotaConfig where
  "DefaultQuotaConfig =
     \<lparr>qc_FailureThreshold = 3, qc_OpenDuration = 60 * Second, qc_LowRemainingFraction = 1 / 5,
      qc_RateLimitJitter = 1 / 4, qc_HasNow = True\<rparr>"

record accountState =
  as_snapshot :: Snapshot
  as_breaker :: BreakerState
  as_failures :: int
  as_openedAt :: time
  as_lastFailure :: "FailureClass"
  as_consec :: int
  as_probeInUse :: bool

record Manager =
  qm_cfg :: QuotaConfig
  qm_st :: "(AccountID \<times> accountState) list"

text \<open>The empty string, the zero value of a failure class.\<close>

abbreviation no_failure :: FailureClass where "no_failure \<equiv> FailureOther ''''"

definition fresh_account :: "Snapshot \<Rightarrow> accountState" where
  "fresh_account sn =
     \<lparr>as_snapshot = sn, as_breaker = BreakerClosed, as_failures = 0, as_openedAt = zero_time,
      as_lastFailure = no_failure, as_consec = 0, as_probeInUse = False\<rparr>"

section \<open>Operations\<close>

definition New_quota :: "QuotaConfig \<Rightarrow> Manager" where
  "New_quota cfg =
     \<lparr>qm_cfg =
        (if qc_FailureThreshold cfg \<le> 0 \<or> \<not> qc_HasNow cfg
         then cfg\<lparr>qc_FailureThreshold := (if qc_FailureThreshold cfg \<le> 0
                                           then qc_FailureThreshold DefaultQuotaConfig
                                           else qc_FailureThreshold cfg),
                   qc_OpenDuration := (if qc_OpenDuration cfg \<le> 0
                                       then qc_OpenDuration DefaultQuotaConfig
                                       else qc_OpenDuration cfg),
                   qc_LowRemainingFraction := (if qc_LowRemainingFraction cfg \<le> 0
                                               then qc_LowRemainingFraction DefaultQuotaConfig
                                               else qc_LowRemainingFraction cfg),
                   qc_HasNow := True\<rparr>
         else cfg),
      qm_st = []\<rparr>"

definition put :: "AccountID \<Rightarrow> accountState \<Rightarrow> Manager \<Rightarrow> Manager" where
  "put aid cur m = m\<lparr>qm_st := AList.update aid cur (qm_st m)\<rparr>"

definition lookup :: "Manager \<Rightarrow> AccountID \<Rightarrow> accountState option" where
  "lookup m aid = map_of (qm_st m) aid"

text \<open>The body of \<^verbatim>\<open>applyLocked\<close> on the account's entry. A new entry's zero snapshot has the empty state.\<close>

definition apply_account :: "QuotaConfig \<Rightarrow> Snapshot \<Rightarrow> accountState \<Rightarrow> accountState" where
  "apply_account cfg s cur =
     (let prevState = sn_State (as_snapshot cur);
          st1 = (if (sn_State s = StateAvailable \<or> sn_State s = StateUnknown)
                    \<and> 0 \<le> FractionRemaining s \<and> FractionRemaining s < qc_LowRemainingFraction cfg
                 then StateLow else sn_State s);
          st2 = (if prevState = StateAuthRequired \<and> sn_State s \<noteq> StateAvailable \<and> sn_State s \<noteq> StateLow
                 then StateAuthRequired else st1);
          cur1 = cur\<lparr>as_snapshot := s\<lparr>sn_State := st2\<rparr>\<rparr>
      in if st2 = StateAvailable
         then cur1\<lparr>as_breaker := BreakerClosed, as_consec := 0, as_failures := 0, as_lastFailure := no_failure\<rparr>
         else cur1)"

definition zero_account :: "accountState" where
  "zero_account =
     fresh_account (blank_snapshot \<lparr>ac_Engine = '''', ac_Account = ''''\<rparr> (StateOther '''') (ConfOther ''''))"

definition applyLocked :: "Snapshot \<Rightarrow> Manager \<Rightarrow> Manager" where
  "applyLocked s m =
     (let cur = (case lookup m (sn_Account s) of Some c \<Rightarrow> c | None \<Rightarrow> zero_account)
      in put (sn_Account s) (apply_account (qm_cfg m) s cur) m)"

definition Apply :: "time \<Rightarrow> Snapshot \<Rightarrow> Manager \<Rightarrow> Manager" where
  "Apply now s m = applyLocked (if IsZero (sn_ObservedAt s) then s\<lparr>sn_ObservedAt := now\<rparr> else s) m"

text \<open>The classes that count towards the consecutive failures of the breaker.\<close>

definition transient :: "FailureClass \<Rightarrow> bool" where
  "transient c \<longleftrightarrow> c \<in> {FailureProviderRateLimit, FailureProviderCapacity, FailureEngineCrash,
                         FailureTimeout, FailureMalformedOutput}"

definition fail_account :: "QuotaConfig \<Rightarrow> time \<Rightarrow> FailureClass \<Rightarrow> accountState \<Rightarrow> accountState" where
  "fail_account cfg now cls cur =
     (let cur = cur\<lparr>as_failures := as_failures cur + 1, as_lastFailure := cls\<rparr>
      in if cls = FailureProviderQuota
         then cur\<lparr>as_snapshot := (as_snapshot cur)\<lparr>sn_State := StateExhausted\<rparr>,
                  as_breaker := BreakerOpen, as_openedAt := now, as_consec := 0\<rparr>
         else if cls = FailureProviderAuth
         then cur\<lparr>as_snapshot := (as_snapshot cur)\<lparr>sn_State := StateAuthRequired\<rparr>,
                  as_breaker := BreakerOpen, as_openedAt := now, as_consec := 0\<rparr>
         else if transient cls
         then (let cur = cur\<lparr>as_consec := as_consec cur + 1\<rparr>
               in if qc_FailureThreshold cfg \<le> as_consec cur
                  then cur\<lparr>as_breaker := BreakerOpen, as_openedAt := now\<rparr> else cur)
         else cur)"

definition RecordFailure :: "time \<Rightarrow> AccountID \<Rightarrow> FailureClass \<Rightarrow> Manager \<Rightarrow> Manager" where
  "RecordFailure now aid cls m =
     (if \<not> FailureClass_IsValid cls then m
      else (let cur = (case lookup m aid of Some c \<Rightarrow> c
                       | None \<Rightarrow> fresh_account (blank_snapshot aid StateUnknown ConfUnknown))
            in put aid (fail_account (qm_cfg m) now cls cur) m))"

definition succeed_account :: "accountState \<Rightarrow> accountState" where
  "succeed_account cur =
     (let cur = cur\<lparr>as_consec := 0\<rparr>;
          cur = (if as_breaker cur = BreakerHalfOpen
                 then cur\<lparr>as_breaker := BreakerClosed, as_failures := 0, as_lastFailure := no_failure\<rparr>
                 else cur)
      in if as_breaker cur = BreakerClosed then cur\<lparr>as_failures := 0\<rparr> else cur)"

definition RecordSuccess :: "AccountID \<Rightarrow> Manager \<Rightarrow> Manager" where
  "RecordSuccess aid m =
     (case lookup m aid of None \<Rightarrow> m | Some cur \<Rightarrow> put aid (succeed_account cur) m)"

definition effectiveLocked :: "QuotaConfig \<Rightarrow> time \<Rightarrow> accountState \<Rightarrow> Snapshot \<times> accountState" where
  "effectiveLocked cfg now cur =
     (let cur' = (if as_breaker cur = BreakerOpen \<and> \<not> IsZero (as_openedAt cur)
                     \<and> qc_OpenDuration cfg \<le> now - as_openedAt cur
                  then cur\<lparr>as_breaker := BreakerHalfOpen\<rparr> else cur);
          s = as_snapshot cur;
          s' = (if sn_State s = StateRateLimited \<and> \<not> IsZero (sn_ObservedAt s) \<and> 0 < sn_RetryAfter s
                   \<and> sn_RetryAfter s \<le> now - sn_ObservedAt s
                then s\<lparr>sn_State := StateAvailable\<rparr> else s)
      in (s', cur'))"

definition Snapshot_of :: "time \<Rightarrow> AccountID \<Rightarrow> Manager \<Rightarrow> Snapshot \<times> Manager" where
  "Snapshot_of now aid m =
     (case lookup m aid of
        None \<Rightarrow> (blank_snapshot aid StateUnknown ConfUnknown, m)
      | Some cur \<Rightarrow> (case effectiveLocked (qm_cfg m) now cur of (s, cur') \<Rightarrow> (s, put aid cur' m)))"

text \<open>The accounts are visited in an unspecified order; the sort by engine then account makes the result
  independent of it.\<close>

definition All :: "time \<Rightarrow> Manager \<Rightarrow> Snapshot list \<times> Manager" where
  "All now m =
     (sort_key (\<lambda>s. [ac_Engine (sn_Account s), ac_Account (sn_Account s)])
        (map (\<lambda>(_, cur). fst (effectiveLocked (qm_cfg m) now cur)) (qm_st m)),
      m\<lparr>qm_st := map (\<lambda>(aid, cur). (aid, snd (effectiveLocked (qm_cfg m) now cur))) (qm_st m)\<rparr>)"

definition IsAvailable :: "time \<Rightarrow> AccountID \<Rightarrow> Manager \<Rightarrow> bool \<times> Manager" where
  "IsAvailable now aid m =
     (case lookup m aid of
        None \<Rightarrow> (True, m)
      | Some cur \<Rightarrow>
          (case effectiveLocked (qm_cfg m) now cur of
             (eff, cur') \<Rightarrow>
               (if \<not> IsRoutable (sn_State eff) then False
                else (case as_breaker cur' of BreakerOpen \<Rightarrow> False | BreakerHalfOpen \<Rightarrow> True
                      | BreakerClosed \<Rightarrow> True),
                put aid cur' m)))"

definition BreakerState_of :: "time \<Rightarrow> AccountID \<Rightarrow> Manager \<Rightarrow> BreakerState \<times> Manager" where
  "BreakerState_of now aid m =
     (case lookup m aid of
        None \<Rightarrow> (BreakerClosed, m)
      | Some cur \<Rightarrow>
          (case effectiveLocked (qm_cfg m) now cur of (_, cur') \<Rightarrow> (as_breaker cur', put aid cur' m)))"

text \<open>\<^verbatim>\<open>ResetAt.Format(time.RFC3339)\<close>: the second, without a fraction.\<close>

definition rfc3339 :: "time \<Rightarrow> string" where
  "rfc3339 t = second_string (sec_of t) @ ''Z''"

text \<open>\<^verbatim>\<open>itoa\<close>, the package's own decimal loop.\<close>

function digits_loop :: "nat \<Rightarrow> string \<Rightarrow> string" where
  "digits_loop n acc =
     (if 0 < n then digits_loop (n div 10) (digit_char (n mod 10) # acc) else acc)"
  by pat_completeness auto
termination by (relation "measure fst") auto

declare digits_loop.simps [simp del]

definition itoa :: "int \<Rightarrow> string" where
  "itoa n =
     (if n = 0 then ''0''
      else (let neg = n < 0; k = nat (if neg then - n else n); b = digits_loop k ''''
            in if neg then CHR ''-'' # b else b))"

text \<open>The section sign and the dash of the messages are two and three bytes of UTF-8.\<close>

abbreviation section_sign :: string where "section_sign \<equiv> [CHR 0xC2, CHR 0xA7]"
abbreviation em_dash :: string where "em_dash \<equiv> [CHR 0xE2, CHR 0x80, CHR 0x94]"

definition why_account :: "Snapshot \<Rightarrow> accountState \<Rightarrow> string" where
  "why_account eff cur =
     (if \<not> IsRoutable (sn_State eff)
      then (case sn_State eff of
              StateExhausted \<Rightarrow>
                if \<not> IsZero (sn_ResetAt eff) then ''quota exhausted until reset at '' @ rfc3339 (sn_ResetAt eff)
                else ''quota exhausted; account blocked until reset ('' @ section_sign @ ''20.3)''
            | StateRateLimited \<Rightarrow>
                ''rate-limited; waiting retry-after window (transient, not quota exhaustion)''
            | StateAuthRequired \<Rightarrow>
                ''auth failed; automatic retry stopped '' @ em_dash @ '' re-login required''
            | st \<Rightarrow> ''state '' @ State_string st)
      else (case as_breaker cur of
              BreakerOpen \<Rightarrow> ''circuit breaker OPEN after '' @ itoa (as_consec cur) @ '' consecutive failures''
            | _ \<Rightarrow> ''''))"

definition WhyUnavailable :: "time \<Rightarrow> AccountID \<Rightarrow> Manager \<Rightarrow> string \<times> Manager" where
  "WhyUnavailable now aid m =
     (case lookup m aid of
        None \<Rightarrow> ('''', m)
      | Some cur \<Rightarrow>
          (case effectiveLocked (qm_cfg m) now cur of (eff, cur') \<Rightarrow> (why_account eff cur', put aid cur' m)))"

section \<open>Rendering\<close>

definition trimZero :: "string \<Rightarrow> string" where
  "trimZero s =
     (if CHR ''.'' \<in> set s
      then rev (dropWhile (\<lambda>c. c = CHR ''.'') (dropWhile (\<lambda>c. c = CHR ''0'') (rev s)))
      else s)"

definition formatCount :: "rat \<Rightarrow> string" where
  "formatCount v =
     (if 1000000 \<le> v then trimZero (fmt_fixed 2 (v / 1000000)) @ ''M''
      else if 1000 \<le> v then trimZero (fmt_fixed 2 (v / 1000)) @ ''k''
      else trimZero (fmt_fixed 0 v))"

definition format_figure :: "Confidence \<Rightarrow> rat option \<Rightarrow> string" where
  "format_figure c fig =
     (if c = ConfUnknown then ''unknown''
      else (case fig of
              None \<Rightarrow> ''unknown''
            | Some v \<Rightarrow> if c = ConfEstimated \<or> c = ConfInferred then ''~'' @ formatCount v else formatCount v))"

definition FormatRemaining :: "Snapshot \<Rightarrow> string" where
  "FormatRemaining s = format_figure (sn_Confidence s) (sn_Remaining s)"

definition FormatLimit :: "Snapshot \<Rightarrow> string" where
  "FormatLimit s = format_figure (sn_Confidence s) (sn_Limit s)"

fun ConfidenceTag :: "Confidence \<Rightarrow> string" where
  "ConfidenceTag ConfExact = ''(exact)''"
| "ConfidenceTag ConfProviderReported = ''(provider-reported)''"
| "ConfidenceTag ConfEstimated = ''(estimated)''"
| "ConfidenceTag ConfInferred = ''(inferred)''"
| "ConfidenceTag _ = ''(unknown)''"

end
