(* ===== verification/Risk.thy ===== *)
theory Risk
  imports Project_Registry
begin

text \<open>
  The deterministic risk classifier, \<^verbatim>\<open>src/internal/risk/classify.go\<close>: the bands R0 to R4, the
  structured signals, the keyword and path hints and \<open>Classify\<close>, which folds the contributions in
  the order of the source and keeps the highest band and every reason.

  \<^verbatim>\<open>strings.Contains\<close> is \<^const>\<open>sublist\<close>; \<^verbatim>\<open>strings.ToLower\<close> is \<open>slug_lower\<close>, which agrees with it on every
  byte an ASCII term can match, and all the terms are ASCII. The theorems: the band is the maximum
  of the contributions and every structural flag is a floor; the hint of a list of paths is that of
  its first matching path, so the order of the paths decides the band.
\<close>

section \<open>Bands and signals\<close>

type_synonym Level = int

abbreviation (input) R0 :: Level where "R0 \<equiv> 0"
abbreviation (input) R1 :: Level where "R1 \<equiv> 1"
abbreviation (input) R2 :: Level where "R2 \<equiv> 2"
abbreviation (input) R3 :: Level where "R3 \<equiv> 3"
abbreviation (input) R4 :: Level where "R4 \<equiv> 4"

definition Level_String :: "Level \<Rightarrow> string" where
  "Level_String l =
     (if l = R0 then ''R0'' else if l = R1 then ''R1'' else if l = R2 then ''R2''
      else if l = R3 then ''R3'' else if l = R4 then ''R4'' else ''R?'')"

definition Level_IsValid :: "Level \<Rightarrow> bool" where
  "Level_IsValid l \<longleftrightarrow> R0 \<le> l \<and> l \<le> R4"

definition Level_AtLeast :: "Level \<Rightarrow> Level \<Rightarrow> bool" where
  "Level_AtLeast l threshold \<longleftrightarrow> threshold \<le> l"

definition Levels :: "Level list" where
  "Levels = [R0, R1, R2, R3, R4]"

record Signals =
  sg_Description :: string
  sg_Paths :: "string list"
  sg_TouchesAuth :: bool
  sg_TouchesPayments :: bool
  sg_TouchesPermissions :: bool
  sg_DestructiveCommands :: bool
  sg_HasMigrations :: bool
  sg_ConcurrencyChange :: bool
  sg_SubscriptionChange :: bool
  sg_PublicAPIChange :: bool
  sg_TouchesInfra :: bool

record RiskResult =
  rr_Level :: Level
  rr_Reasons :: "string list"

definition maxLevel :: "Level \<Rightarrow> Level \<Rightarrow> Level" where
  "maxLevel a b = (if b < a then a else b)"

definition containsAny :: "string \<Rightarrow> string list \<Rightarrow> bool" where
  "containsAny s subs = list_ex (\<lambda>sub. sublist sub s) subs"

section \<open>Hints\<close>

definition keyword_terms :: "(string list \<times> Level) list" where
  "keyword_terms =
     [([''password'', ''secret'', ''api key'', ''api_key'', ''oauth'', ''session token'', ''2fa'',
        ''mfa'', ''refund'', ''charge'', ''stripe'', ''payment'', ''delete user'', ''drop table'',
        ''force push''], R4),
      ([''migration'', ''migrate'', ''transaction'', ''lock'', ''mutex'', ''subscribe'',
        ''subscription'', ''billing plan'', ''cron'', ''scheduler''], R3),
      ([''public api'', ''webhook'', ''integration'', ''background job'', ''queue'', ''provider''], R2),
      ([''analytics'', ''dashboard'', ''ui '', ''button'', ''component'', ''chart'', ''report''], R1)]"

text \<open>The first term of the first group that occurs, with the band of its group.\<close>

fun first_term :: "string \<Rightarrow> (string list \<times> Level) list \<Rightarrow> string \<times> Level" where
  "first_term low [] = ('''', R0)"
| "first_term low ((terms, band) # gs) =
     (case find (\<lambda>t. sublist t low) terms of Some t \<Rightarrow> (t, band) | None \<Rightarrow> first_term low gs)"

definition keywordHint :: "string \<Rightarrow> string \<times> Level" where
  "keywordHint desc =
     (let low = slug_lower desc in if low = '''' then ('''', R0) else first_term low keyword_terms)"

text \<open>The band of one path, the switch of \<^verbatim>\<open>pathHint\<close>.\<close>

definition path_band :: "string \<Rightarrow> Level option" where
  "path_band p =
     (let low = slug_lower p
      in if containsAny low [''auth'', ''/auth'', ''permission'', ''acl'', ''payment'', ''billing'',
                             ''secret'', ''credential'', ''token''] then Some R4
         else if containsAny low [''migration'', ''migrations'', ''schema'', ''lock'', ''subscription'']
         then Some R3
         else if containsAny low [''api/'', ''handler'', ''webhook'', ''integration'', ''queue'', ''worker'']
         then Some R2
         else if containsAny low [''ui/'', ''component'', ''screen'', ''analytics'', ''dashboard'']
         then Some R1
         else None)"

fun pathHint :: "string list \<Rightarrow> string \<times> Level" where
  "pathHint [] = ('''', R0)"
| "pathHint (p # ps) = (case path_band p of Some b \<Rightarrow> (p, b) | None \<Rightarrow> pathHint ps)"

section \<open>Classify\<close>

text \<open>Each signal in the order of the source: whether it fires, its band and its reason.\<close>

definition structural_signals :: "Signals \<Rightarrow> (bool \<times> Level \<times> string) list" where
  "structural_signals s =
     [(sg_TouchesAuth s, R4, ''touches authentication''),
      (sg_TouchesPayments s, R4, ''touches payments/billing''),
      (sg_TouchesPermissions s, R4, ''touches permissions/authorization''),
      (sg_DestructiveCommands s, R4, ''uses destructive commands''),
      (sg_HasMigrations s, R3, ''includes database migrations''),
      (sg_ConcurrencyChange s, R3, ''changes concurrency/locking''),
      (sg_SubscriptionChange s, R3, ''changes subscription contracts''),
      (sg_PublicAPIChange s, R2, ''changes public API/contracts''),
      (sg_TouchesInfra s, R2, ''changes CI/infrastructure/runtime config'')]"

definition hint_signals :: "Signals \<Rightarrow> (bool \<times> Level \<times> string) list" where
  "hint_signals s =
     (case (keywordHint (sg_Description s), pathHint (sg_Paths s)) of
        ((kw, kb), (pk, pb)) \<Rightarrow>
          [(kw \<noteq> '''', kb, ''keyword hint: '' @ kw), (pk \<noteq> '''', pb, ''path hint: '' @ pk)])"

fun signal_step :: "bool \<times> Level \<times> string \<Rightarrow> Level \<times> string list \<Rightarrow> Level \<times> string list" where
  "signal_step (fires, band, reason) (level, reasons) =
     (if fires then (maxLevel level band, reasons @ [reason]) else (level, reasons))"

definition Classify :: "Signals \<Rightarrow> RiskResult" where
  "Classify s =
     (let (level, reasons) = fold signal_step (structural_signals s @ hint_signals s) (R0, [])
      in \<lparr>rr_Level = level,
          rr_Reasons =
            (if reasons = [] then [''documentation/mechanical change (no elevated-risk signal)'']
             else reasons)\<rparr>)"

section \<open>The band is the maximum of the signals that fire\<close>

lemma maxLevel_max: "maxLevel a b = max a b"
  by (simp add: maxLevel_def max_def)

abbreviation fired :: "(bool \<times> Level \<times> string) list \<Rightarrow> (bool \<times> Level \<times> string) list" where
  "fired sigs \<equiv> filter fst sigs"

lemma fold_signal_step:
  "fold signal_step sigs (l, rs)
     = (Max (insert l ((fst \<circ> snd) ` set (fired sigs))), rs @ map (snd \<circ> snd) (fired sigs))"
proof (induction sigs arbitrary: l rs)
  case (Cons x sigs)
  obtain c b r where x: "x = (c, b, r)" by (cases x) auto
  have "Max (insert (max l b) A) = Max (insert l (insert b A))" if "finite A" for A :: "int set"
  proof (cases "A = {}")
    case False
    with that show ?thesis by (simp add: max.assoc)
  qed simp
  then show ?case by (simp add: Cons.IH x maxLevel_max)
qed simp

lemma Classify_Level:
  "rr_Level (Classify s) = Max (insert R0 ((fst \<circ> snd) ` set (fired (structural_signals s @ hint_signals s))))"
  by (simp only: Classify_def fold_signal_step Let_def case_prod_conv RiskResult.select_convs)

lemma Classify_floor:
  assumes "(True, b, r) \<in> set (structural_signals s @ hint_signals s)"
  shows "b \<le> rr_Level (Classify s)"
  unfolding Classify_Level
proof (rule Max_ge)
  show "b \<in> insert R0 ((fst \<circ> snd) ` set (fired (structural_signals s @ hint_signals s)))"
    using assms by (auto intro!: rev_image_eqI [of "(True, b, r)"])
qed simp

lemma first_term_band: "list_all (\<lambda>(_, b). R0 \<le> b \<and> b \<le> R4) gs \<Longrightarrow> R0 \<le> snd (first_term low gs) \<and> snd (first_term low gs) \<le> R4"
  by (induction low gs rule: first_term.induct) (auto split: option.splits)

lemma keywordHint_band: "R0 \<le> snd (keywordHint d) \<and> snd (keywordHint d) \<le> R4"
proof -
  have "list_all (\<lambda>(_, b). R0 \<le> b \<and> b \<le> R4) keyword_terms" by (simp add: keyword_terms_def)
  then show ?thesis by (simp add: keywordHint_def Let_def first_term_band del: slug_lower.simps)
qed

lemma path_band_range: "path_band p = Some b \<Longrightarrow> R1 \<le> b \<and> b \<le> R4"
  by (auto simp: path_band_def Let_def split: if_splits)

lemma pathHint_band: "R0 \<le> snd (pathHint ps) \<and> snd (pathHint ps) \<le> R4"
  by (induction ps) (auto split: option.splits dest: path_band_range)

lemma hint_signals_band: "(c, b, r) \<in> set (hint_signals s) \<Longrightarrow> b \<le> R4"
  using keywordHint_band [of "sg_Description s"] pathHint_band [of "sg_Paths s"]
  by (cases "keywordHint (sg_Description s)"; cases "pathHint (sg_Paths s)")
     (auto simp: hint_signals_def)

lemma structural_signals_band: "(c, b, r) \<in> set (structural_signals s) \<Longrightarrow> b \<le> R4"
  by (simp add: structural_signals_def) auto

lemma Classify_valid: "Level_IsValid (rr_Level (Classify s))"
proof -
  let ?A = "(fst \<circ> snd) ` set (fired (structural_signals s @ hint_signals s))"
  have "b \<le> R4" if "b \<in> ?A" for b
    using that hint_signals_band [of _ _ _ s] structural_signals_band [of _ _ _ s] by auto
  then show ?thesis unfolding Level_IsValid_def Classify_Level by (auto simp: Max_ge_iff)
qed

lemma Classify_reasons:
  "rr_Reasons (Classify s) =
     (if fired (structural_signals s @ hint_signals s) = []
      then [''documentation/mechanical change (no elevated-risk signal)'']
      else map (snd \<circ> snd) (fired (structural_signals s @ hint_signals s)))"
  unfolding Classify_def fold_signal_step Let_def case_prod_conv RiskResult.select_convs
  by (simp only: append_Nil map_is_Nil_conv)

text \<open>The classified band is one of R0 to R4 and exactly the highest band among the signals that fire
  (R0 when none does); every firing signal, structural flag or hint, is listed as a reason in the
  order of the source; and the explanation is never empty.\<close>

theorem risk_is_highest_band:
  "Level_IsValid (rr_Level (Classify s)) \<and>
   rr_Level (Classify s) = Max (insert R0 {b. \<exists>r. (True, b, r) \<in> set (structural_signals s @ hint_signals s)}) \<and>
   (let fs = filter fst (structural_signals s @ hint_signals s)
    in rr_Reasons (Classify s) =
         (if fs = [] then [''documentation/mechanical change (no elevated-risk signal)'']
          else map (snd \<circ> snd) fs))"
proof -
  have "(fst \<circ> snd) ` set (fired sigs) = {b. \<exists>r. (True, b, r) \<in> set sigs}" for sigs :: "(bool \<times> Level \<times> string) list"
    by force
  then show ?thesis
    unfolding Let_def Classify_reasons using Classify_valid Classify_Level by (metis (no_types))
qed

text \<open>Touching authentication, payments or permissions, or running destructive commands, always
  classifies as R4, whatever the description, the paths and the other flags are.\<close>

theorem sensitive_change_is_R4:
  assumes "sg_TouchesAuth s \<or> sg_TouchesPayments s \<or> sg_TouchesPermissions s \<or> sg_DestructiveCommands s"
  shows "rr_Level (Classify s) = R4"
proof (rule antisym)
  show "rr_Level (Classify s) \<le> R4" using Classify_valid by (simp add: Level_IsValid_def)
  have "\<exists>x \<in> set (structural_signals s). fst x \<and> fst (snd x) = R4"
    unfolding structural_signals_def using assms
    by (simp only: list.set bex_simps fst_conv snd_conv) simp
  then obtain r where "(True, R4, r) \<in> set (structural_signals s @ hint_signals s)"
    by (metis (full_types) UnI1 prod.collapse set_append)
  then show "R4 \<le> rr_Level (Classify s)" by (rule Classify_floor)
qed

section \<open>The first matching path decides\<close>

definition plain_signals :: Signals where
  "plain_signals =
     \<lparr>sg_Description = '''', sg_Paths = [], sg_TouchesAuth = False, sg_TouchesPayments = False,
      sg_TouchesPermissions = False, sg_DestructiveCommands = False, sg_HasMigrations = False,
      sg_ConcurrencyChange = False, sg_SubscriptionChange = False, sg_PublicAPIChange = False,
      sg_TouchesInfra = False\<rparr>"

theorem sensitive_change_is_R4_witness:
  "rr_Level (Classify (plain_signals\<lparr>sg_TouchesPayments := True\<rparr>)) = R4"
  by (rule sensitive_change_is_R4) (simp add: plain_signals_def)

lemma pathHint_first: "path_band p = Some b \<Longrightarrow> pathHint (p # ps) = (p, b)"
  by simp

text \<open>The path hint is that of the first path with a band, not the highest one: a change of
  \<^verbatim>\<open>ui/login.go\<close> and \<^verbatim>\<open>auth/token.go\<close> classifies as R1 when the interface file is listed first and as R4
  when it is listed second.\<close>

theorem path_order_decides_risk:
  "rr_Level (Classify (plain_signals\<lparr>sg_Paths := [''ui/login.go'', ''auth/token.go'']\<rparr>)) = R1 \<and>
   rr_Level (Classify (plain_signals\<lparr>sg_Paths := [''auth/token.go'', ''ui/login.go'']\<rparr>)) = R4"
  by code_simp

text \<open>A keyword hint raises the band above a structural flag: a public API change described as touching a
  lock is R3.\<close>

lemma keyword_above_flag:
  "rr_Level (Classify (plain_signals\<lparr>sg_PublicAPIChange := True\<rparr>)) = R2 \<and>
   rr_Level (Classify (plain_signals\<lparr>sg_PublicAPIChange := True, sg_Description := ''add a lock''\<rparr>)) = R3"
  by code_simp

end
