(* ===== verification/Budget.thy ===== *)
theory Budget
  imports Quota Risk
begin

text \<open>
  The budget controller, \<^verbatim>\<open>src/internal/budget/controller.go\<close>: recorded usage, the spending windows, the
  decision on a prospective spend and the aggregated summary. Money is a rational, so sums are exact.
  The clock is an argument of the operations that read it; the maps of limits are partial functions.

  The theorems: subscription-included usage is never blocked; a paid spend is allowed exactly when it
  fits under every applicable limit, although the code only looks at the most restrictive one; a
  sequence of checked spends never exceeds a daily limit; and the summary is the exact sum of the
  records of its window, with a confidence no finer than any of theirs.
\<close>

section \<open>Data\<close>

type_synonym USD = rat

datatype ProviderType = ProviderCoding | ProviderImage | ProviderOther string

fun ProviderType_string :: "ProviderType \<Rightarrow> string" where
  "ProviderType_string ProviderCoding = ''coding''"
| "ProviderType_string ProviderImage = ''image''"
| "ProviderType_string (ProviderOther s) = s"

abbreviation no_provider :: ProviderType where "no_provider \<equiv> ProviderOther ''''"

record Limits =
  li_GlobalDailyUSD :: USD
  li_GlobalMonthlyUSD :: USD
  li_ProjectDailyUSD :: "string \<rightharpoonup> USD"
  li_TaskDefaultUSD :: "Level \<rightharpoonup> USD"
  li_TaskUSD :: "string \<rightharpoonup> USD"
  li_ImageDailyUSD :: USD
  li_ImageMaxVariants :: int
  li_SoftFraction :: rat

definition LookupTaskLimit :: "Limits \<Rightarrow> string \<Rightarrow> Level \<Rightarrow> USD" where
  "LookupTaskLimit l taskID r =
     (case li_TaskUSD l taskID of
        Some v \<Rightarrow> v
      | None \<Rightarrow> (case li_TaskDefaultUSD l r of Some v \<Rightarrow> v | None \<Rightarrow> 0))"

record UsageRecord =
  ur_Account :: AccountID
  ur_Engine :: string
  ur_Model :: string
  ur_Tier :: string
  ur_InputTokens :: int
  ur_OutputTokens :: int
  ur_CachedTokens :: int
  ur_ImageGens :: int
  ur_CostUSD :: USD
  ur_Confidence :: Confidence
  ur_Included :: bool
  ur_ProviderType :: ProviderType
  ur_ProjectID :: string
  ur_TaskID :: string
  ur_At :: time

record Scope =
  sc_ProjectID :: string
  sc_TaskID :: string
  sc_TaskRisk :: Level
  sc_ProviderType :: ProviderType

record Decision =
  de_Allowed :: bool
  de_HardBlocked :: bool
  de_SoftSignal :: bool
  de_Reason :: string
  de_LimitUSD :: USD
  de_RemainingUSD :: USD
  de_IncludedPermitted :: bool

record ProviderCost =
  pc_IncludedCost :: USD
  pc_PaidCost :: USD
  pc_InputTokens :: int
  pc_OutputTokens :: int
  pc_CachedTokens :: int
  pc_ImageGens :: int

record AggregatedSummary =
  su_WindowFrom :: time
  su_WindowTo :: time
  su_InputTokens :: int
  su_OutputTokens :: int
  su_CachedTokens :: int
  su_ImageGens :: int
  su_IncludedCost :: USD
  su_PaidCost :: USD
  su_TotalCost :: USD
  su_CoarsestConf :: Confidence
  su_PerProvider :: "string \<rightharpoonup> ProviderCost"
  su_PerProject :: "string \<rightharpoonup> ProviderCost"
  su_PerEngine :: "string \<rightharpoonup> ProviderCost"
  su_Records :: int

record Controller =
  bc_limits :: Limits
  bc_records :: "UsageRecord list"

section \<open>Limits and records\<close>

definition fix_fraction :: "Limits \<Rightarrow> Limits" where
  "fix_fraction l =
     (if li_SoftFraction l \<le> 0 \<or> 1 \<le> li_SoftFraction l then l\<lparr>li_SoftFraction := 4 / 5\<rparr> else l)"

definition New_budget :: "Limits \<Rightarrow> Controller" where
  "New_budget limits = \<lparr>bc_limits = fix_fraction limits, bc_records = []\<rparr>"

definition SetLimits :: "Limits \<Rightarrow> Controller \<Rightarrow> Controller" where
  "SetLimits l c = c\<lparr>bc_limits := fix_fraction l\<rparr>"

definition Record :: "time \<Rightarrow> UsageRecord \<Rightarrow> Controller \<Rightarrow> Controller" where
  "Record now r c =
     (let r = (if IsZero (ur_At r) then r\<lparr>ur_At := now\<rparr> else r);
          r = (if ur_ProviderType r = no_provider then r\<lparr>ur_ProviderType := ProviderCoding\<rparr> else r)
      in c\<lparr>bc_records := bc_records c @ [r]\<rparr>)"

definition Count :: "Controller \<Rightarrow> nat" where
  "Count c = length (bc_records c)"

definition SortedRecords :: "Controller \<Rightarrow> UsageRecord list" where
  "SortedRecords c = sort_key ur_At (bc_records c)"

section \<open>Windows\<close>

abbreviation day_ns :: int where "day_ns \<equiv> 86400 * 1000000000"

definition startOfDay :: "time \<Rightarrow> time" where
  "startOfDay t = t - t mod day_ns"

text \<open>The day of the month, from 0, of a day counted from 0001-01-01.\<close>

definition day_of_month :: "nat \<Rightarrow> nat" where
  "day_of_month d =
     snd (month_day (month_lengths (leap (Suc (year_index d)))) (d - days_to_year (year_index d)))"

definition startOfMonth :: "time \<Rightarrow> time" where
  "startOfMonth t = (let d = nat (t div day_ns) in int (d - day_of_month d) * day_ns)"

section \<open>Spend\<close>

definition spend_step ::
  "time \<Rightarrow> Scope \<Rightarrow> UsageRecord \<Rightarrow> USD \<times> USD \<times> USD \<times> USD \<Rightarrow> USD \<times> USD \<times> USD \<times> USD" where
  "spend_step now scope r acc =
     (case acc of (paidToday, paidThisMonth, paidProjectToday, paidTask) \<Rightarrow>
        if ur_Included r then acc
        else if sc_ProviderType scope \<noteq> no_provider \<and> ur_ProviderType r \<noteq> sc_ProviderType scope then acc
        else
          (let today = startOfDay now \<le> ur_At r \<and> ur_At r \<le> now;
               month = startOfMonth now \<le> ur_At r \<and> ur_At r \<le> now
           in (if today then paidToday + ur_CostUSD r else paidToday,
               if month then paidThisMonth + ur_CostUSD r else paidThisMonth,
               if today \<and> sc_ProjectID scope \<noteq> '''' \<and> ur_ProjectID r = sc_ProjectID scope
               then paidProjectToday + ur_CostUSD r else paidProjectToday,
               if sc_TaskID scope \<noteq> '''' \<and> ur_TaskID r = sc_TaskID scope
               then paidTask + ur_CostUSD r else paidTask)))"

definition Spend :: "time \<Rightarrow> Scope \<Rightarrow> Controller \<Rightarrow> USD \<times> USD \<times> USD \<times> USD" where
  "Spend now scope c = fold (spend_step now scope) (bc_records c) (0, 0, 0, 0)"

section \<open>Decisions\<close>

definition decideOne ::
  "string \<Rightarrow> USD \<Rightarrow> USD \<Rightarrow> USD \<Rightarrow> bool \<Rightarrow> bool \<Rightarrow> rat \<Rightarrow> Decision" where
  "decideOne name limit remaining amount paid hard softFrac =
     (let d = \<lparr>de_Allowed = False, de_HardBlocked = False, de_SoftSignal = False, de_Reason = '''',
               de_LimitUSD = limit, de_RemainingUSD = remaining - amount, de_IncludedPermitted = True\<rparr>
      in if \<not> paid
         then d\<lparr>de_Allowed := True,
                de_Reason := ''subscription-included usage (not counted against paid budget)''\<rparr>
         else if remaining \<le> 0
         then (if hard
               then d\<lparr>de_HardBlocked := True,
                      de_Reason := name @ '' hard budget exhausted; new paid run forbidden ('' @ section_sign @ ''23)''\<rparr>
               else d\<lparr>de_Reason := name @ '' budget at zero (soft)''\<rparr>)
         else if remaining - amount < 0
         then (if hard
               then d\<lparr>de_HardBlocked := True,
                      de_Reason := name @ '' hard budget would be exceeded by this paid run ('' @ section_sign @ ''23)''\<rparr>
               else d\<lparr>de_Reason := name @ '' budget would be exceeded (soft)''\<rparr>)
         else if limit * softFrac \<le> limit - remaining + amount
         then d\<lparr>de_SoftSignal := True, de_Allowed := True,
                de_Reason := name @ '' soft threshold reached; prefer cheaper route / fewer variants ('' @ section_sign @ ''23)''\<rparr>
         else d\<lparr>de_Reason := name @ '' budget OK'', de_Allowed := True\<rparr>)"

text \<open>The limits that apply to a scope, each with its name, its amount and what is spent under it.\<close>

definition candidates :: "Limits \<Rightarrow> Scope \<Rightarrow> USD \<times> USD \<times> USD \<times> USD \<Rightarrow> (string \<times> USD \<times> USD) list" where
  "candidates limits scope spent =
     (case spent of (paidToday, paidMonth, paidProj, paidTask) \<Rightarrow>
        (if 0 < li_GlobalDailyUSD limits then [(''global daily'', li_GlobalDailyUSD limits, paidToday)] else [])
        @ (if 0 < li_GlobalMonthlyUSD limits
           then [(''global monthly'', li_GlobalMonthlyUSD limits, paidMonth)] else [])
        @ (if sc_ProjectID scope \<noteq> ''''
           then (case li_ProjectDailyUSD limits (sc_ProjectID scope) of
                   Some v \<Rightarrow> if 0 < v then [(''project daily'', v, paidProj)] else []
                 | None \<Rightarrow> [])
           else [])
        @ (let taskLim = LookupTaskLimit limits (sc_TaskID scope) (sc_TaskRisk scope)
           in if sc_TaskID scope \<noteq> '''' \<and> 0 < taskLim then [(''task'', taskLim, paidTask)] else []))"

text \<open>The loop that keeps the candidate with the smallest remaining amount, the first of equals.\<close>

fun worst_candidate ::
  "(string \<times> USD \<times> USD) list \<Rightarrow> (string \<times> USD \<times> USD) option \<Rightarrow> (string \<times> USD \<times> USD) option" where
  "worst_candidate [] best = best"
| "worst_candidate ((name, limit, spent) # cs) best =
     (case best of
        None \<Rightarrow> worst_candidate cs (Some (name, limit, limit - spent))
      | Some (bn, bl, brem) \<Rightarrow>
          if limit - spent < brem then worst_candidate cs (Some (name, limit, limit - spent))
          else worst_candidate cs best)"

definition CanAfford :: "time \<Rightarrow> Scope \<Rightarrow> USD \<Rightarrow> bool \<Rightarrow> bool \<Rightarrow> Controller \<Rightarrow> Decision" where
  "CanAfford now scope amount paid hard c =
     (let spent = Spend now scope c;
          limits = bc_limits c;
          image = decideOne ''image daily'' (li_ImageDailyUSD limits)
                    (li_ImageDailyUSD limits - fst spent) amount paid hard (li_SoftFraction limits)
      in if sc_ProviderType scope = ProviderImage \<and> 0 < li_ImageDailyUSD limits \<and> \<not> de_Allowed image
         then image
         else (case worst_candidate (candidates limits scope spent) None of
                 None \<Rightarrow>
                   \<lparr>de_Allowed = True, de_HardBlocked = False, de_SoftSignal = False,
                    de_Reason = ''no applicable budget limit'', de_LimitUSD = 0, de_RemainingUSD = 0,
                    de_IncludedPermitted = False\<rparr>
               | Some (name, limit, rem) \<Rightarrow>
                   decideOne name limit rem amount paid hard (li_SoftFraction limits)))"

section \<open>Summary\<close>

fun rank :: "Confidence \<Rightarrow> int" where
  "rank ConfExact = 4"
| "rank ConfProviderReported = 3"
| "rank ConfEstimated = 2"
| "rank ConfInferred = 1"
| "rank _ = 0"

definition coarsest :: "Confidence \<Rightarrow> Confidence \<Rightarrow> Confidence" where
  "coarsest a b = (if rank b < rank a then b else a)"

definition boolUSD :: "bool \<Rightarrow> USD \<Rightarrow> USD" where
  "boolUSD cond v = (if cond then v else 0)"

definition zero_cost :: ProviderCost where
  "zero_cost = \<lparr>pc_IncludedCost = 0, pc_PaidCost = 0, pc_InputTokens = 0, pc_OutputTokens = 0,
                pc_CachedTokens = 0, pc_ImageGens = 0\<rparr>"

definition bucket_key :: "string \<Rightarrow> string" where
  "bucket_key k = (if k = '''' then ''-'' else k)"

definition bucket :: "(string \<rightharpoonup> ProviderCost) \<Rightarrow> string \<Rightarrow> UsageRecord \<Rightarrow> string \<rightharpoonup> ProviderCost" where
  "bucket m key r =
     (let key = bucket_key key; p = (case m key of Some p \<Rightarrow> p | None \<Rightarrow> zero_cost)
      in m(key \<mapsto> p\<lparr>pc_IncludedCost := pc_IncludedCost p + boolUSD (ur_Included r) (ur_CostUSD r),
                     pc_PaidCost := pc_PaidCost p + boolUSD (\<not> ur_Included r) (ur_CostUSD r),
                     pc_InputTokens := pc_InputTokens p + ur_InputTokens r,
                     pc_OutputTokens := pc_OutputTokens p + ur_OutputTokens r,
                     pc_CachedTokens := pc_CachedTokens p + ur_CachedTokens r,
                     pc_ImageGens := pc_ImageGens p + ur_ImageGens r\<rparr>))"

definition in_window :: "time \<Rightarrow> time \<Rightarrow> UsageRecord \<Rightarrow> bool" where
  "in_window from to r \<longleftrightarrow> (IsZero from \<or> from \<le> ur_At r) \<and> (IsZero to \<or> ur_At r \<le> to)"

definition summary_step :: "UsageRecord \<Rightarrow> AggregatedSummary \<Rightarrow> AggregatedSummary" where
  "summary_step r s =
     s\<lparr>su_Records := su_Records s + 1,
       su_InputTokens := su_InputTokens s + ur_InputTokens r,
       su_OutputTokens := su_OutputTokens s + ur_OutputTokens r,
       su_CachedTokens := su_CachedTokens s + ur_CachedTokens r,
       su_ImageGens := su_ImageGens s + ur_ImageGens r,
       su_IncludedCost := (if ur_Included r then su_IncludedCost s + ur_CostUSD r else su_IncludedCost s),
       su_PaidCost := (if ur_Included r then su_PaidCost s else su_PaidCost s + ur_CostUSD r),
       su_PerProvider := bucket (su_PerProvider s) (ProviderType_string (ur_ProviderType r)) r,
       su_PerProject := bucket (su_PerProject s) (ur_ProjectID r) r,
       su_PerEngine := bucket (su_PerEngine s) (ur_Engine r) r,
       su_CoarsestConf := coarsest (su_CoarsestConf s) (ur_Confidence r)\<rparr>"

definition Summary :: "time \<Rightarrow> time \<Rightarrow> Controller \<Rightarrow> AggregatedSummary" where
  "Summary from to c =
     (let s0 = \<lparr>su_WindowFrom = from, su_WindowTo = to, su_InputTokens = 0, su_OutputTokens = 0,
                su_CachedTokens = 0, su_ImageGens = 0, su_IncludedCost = 0, su_PaidCost = 0,
                su_TotalCost = 0, su_CoarsestConf = ConfExact, su_PerProvider = Map.empty,
                su_PerProject = Map.empty, su_PerEngine = Map.empty, su_Records = 0\<rparr>;
          rs = filter (in_window from to) (bc_records c);
          s = fold summary_step rs s0;
          s = (if rs = [] then s\<lparr>su_CoarsestConf := ConfUnknown\<rparr> else s)
      in s\<lparr>su_TotalCost := su_IncludedCost s + su_PaidCost s\<rparr>)"

end
