(* ===== verification/Router.thy ===== *)
theory Router
  imports Budget
begin

text \<open>
  The model router, \<^verbatim>\<open>src/internal/router\<close>: tiers and complexity bands (\<^verbatim>\<open>tiers.go\<close>), the complexity
  classifier (\<^verbatim>\<open>complexity.go\<close>), the catalog (\<^verbatim>\<open>catalog.go\<close>) and route selection (\<^verbatim>\<open>router.go\<close>). The router
  calls the quota manager and the budget controller. Reading the quota manager changes it (a breaker
  may move to HALF_OPEN), so every definition that reads it returns it; a \<open>None\<close> manager or controller
  is the nil the constructor accepts, and no selected route is \<open>None\<close> where the source leaves a zero
  \<^verbatim>\<open>Route\<close>. One selection reads the clock several times in the source;
  here it is one instant \<open>now\<close>.
\<close>

section \<open>Tiers and complexity\<close>

type_synonym Tier = int
type_synonym Complexity = int

abbreviation (input) TierTiny :: Tier where "TierTiny \<equiv> 0"
abbreviation (input) TierSmall :: Tier where "TierSmall \<equiv> 1"
abbreviation (input) TierStandard :: Tier where "TierStandard \<equiv> 2"
abbreviation (input) TierHeavy :: Tier where "TierHeavy \<equiv> 3"
abbreviation (input) TierFrontier :: Tier where "TierFrontier \<equiv> 4"
abbreviation (input) maxTier :: Tier where "maxTier \<equiv> TierFrontier"

definition Tier_String :: "Tier \<Rightarrow> string" where
  "Tier_String t =
     (if t = TierTiny then ''TINY'' else if t = TierSmall then ''SMALL''
      else if t = TierStandard then ''STANDARD'' else if t = TierHeavy then ''HEAVY''
      else if t = TierFrontier then ''FRONTIER'' else ''?'')"

definition Tier_IsValid :: "Tier \<Rightarrow> bool" where
  "Tier_IsValid t \<longleftrightarrow> TierTiny \<le> t \<and> t \<le> TierFrontier"

definition Tiers :: "Tier list" where
  "Tiers = [TierTiny, TierSmall, TierStandard, TierHeavy, TierFrontier]"

definition Complexity_IsValid :: "Complexity \<Rightarrow> bool" where
  "Complexity_IsValid c \<longleftrightarrow> 0 \<le> c \<and> c \<le> 4"

definition Complexity_String :: "Complexity \<Rightarrow> string" where
  "Complexity_String c =
     (if c = 0 then ''C0'' else if c = 1 then ''C1'' else if c = 2 then ''C2'' else if c = 3 then ''C3''
      else if c = 4 then ''C4'' else ''?'')"

definition BaseTier :: "Complexity \<Rightarrow> bool \<Rightarrow> Tier" where
  "BaseTier c preferStrong =
     (if c = 0 then TierTiny
      else if c = 1 then TierSmall
      else if c = 2 then TierStandard
      else if c = 3 then (if preferStrong then TierHeavy else TierStandard)
      else if c = 4 then (if preferStrong then TierFrontier else TierHeavy)
      else TierStandard)"

record ComplexitySignals =
  cs_Description :: string
  cs_EstimatedFileCount :: int
  cs_EstimatedTurns :: int
  cs_ContextTokens :: int
  cs_Role :: string
  cs_CrossPackageChange :: bool
  cs_ArchitecturalDecision :: bool
  cs_ConflictingCheapResults :: bool

record ComplexityResult =
  cr_Complexity :: Complexity
  cr_Reasons :: "string list"

definition scoreToBand :: "int \<Rightarrow> Complexity" where
  "scoreToBand score =
     (if 8 \<le> score then 4 else if 5 \<le> score then 3 else if 3 \<le> score then 2 else if 1 \<le> score then 1 else 0)"

text \<open>The contributions in the order of the source; the first true branch of each switch contributes.\<close>

definition complexity_signals :: "ComplexitySignals \<Rightarrow> (bool \<times> int \<times> string) list" where
  "complexity_signals s =
     (let low = slug_lower (cs_Description s); files = cs_EstimatedFileCount s;
          turns = cs_EstimatedTurns s; ctx = cs_ContextTokens s
      in [(containsAny low [''typo'', ''rename'', ''docs'', ''changelog'', ''comment'', ''format'', ''lint rule''],
           0, ''mechanical/docs change''),
          (20 \<le> files, 3, ''touches many files (>=20)''),
          (8 \<le> files \<and> files < 20, 2, ''touches several files (>=8)''),
          (3 \<le> files \<and> files < 8, 1, ''touches a few files (>=3)''),
          (28 \<le> turns, 3, ''high turn estimate (>=28)''),
          (16 \<le> turns \<and> turns < 28, 2, ''moderate turn estimate (>=16)''),
          (8 \<le> turns \<and> turns < 16, 1, ''modest turn estimate (>=8)''),
          (200000 \<le> ctx, 2, ''large context (>=200k tokens)''),
          (50000 \<le> ctx \<and> ctx < 200000, 1, ''medium context (>=50k tokens)''),
          (containsAny low [''refactor'', ''feature'', ''implement''], 1, ''role: implementation/refactor''),
          (containsAny low [''migration'', ''migrate'', ''schema''], 2, ''role: migration/schema''),
          (containsAny low [''architect'', ''design system'', ''rewrite''], 2, ''role: architecture''),
          (cs_CrossPackageChange s, 2, ''cross-package change''),
          (cs_ArchitecturalDecision s, 3, ''architectural decision required''),
          (cs_ConflictingCheapResults s, 2, ''cheap agents disagreed'')])"

definition ClassifyComplexity :: "ComplexitySignals \<Rightarrow> ComplexityResult" where
  "ClassifyComplexity s =
     (let fired = filter fst (complexity_signals s);
          score = sum_list (map (\<lambda>(_, p, _). p) fired);
          reasons = map (\<lambda>(_, _, r). r) fired
      in \<lparr>cr_Complexity = scoreToBand score,
          cr_Reasons = (if reasons = [] then [''no complexity signals; default to standard''] else reasons)\<rparr>)"

definition Escalate :: "Complexity \<Rightarrow> Complexity" where
  "Escalate c = (if c < 4 then c + 1 else 4)"

definition Deescalate :: "Complexity \<Rightarrow> Complexity" where
  "Deescalate c = (if 0 < c then c - 1 else 0)"

section \<open>The catalog\<close>

record CatalogEntry =
  ce_Tier :: Tier
  ce_Engine :: string
  ce_Model :: string
  ce_Account :: string
  ce_CostPer1MInputUSD :: rat
  ce_CostPer1MOutputUSD :: rat
  ce_ContextWindow :: int
  ce_MaxOutput :: int
  ce_SupportsImages :: bool
  ce_SubscriptionIncluded :: bool
  ce_Priority :: int
  ce_Disabled :: bool

type_synonym Catalog = "CatalogEntry list"

definition ID :: "CatalogEntry \<Rightarrow> string" where
  "ID e = ce_Engine e @ ''/'' @ ce_Model e @ ''/'' @ ce_Account e"

definition entry_account :: "CatalogEntry \<Rightarrow> AccountID" where
  "entry_account e = \<lparr>ac_Engine = ce_Engine e, ac_Account = ce_Account e\<rparr>"

definition Catalog_Add :: "CatalogEntry \<Rightarrow> Catalog \<Rightarrow> bool \<times> Catalog" where
  "Catalog_Add e c =
     (if list_ex (\<lambda>ex. ce_Tier ex = ce_Tier e \<and> ID ex = ID e) c then (False, c) else (True, c @ [e]))"

definition Catalog_Remove :: "string \<Rightarrow> Catalog \<Rightarrow> nat \<times> Catalog" where
  "Catalog_Remove i c = (length (filter (\<lambda>ex. ID ex = i) c), filter (\<lambda>ex. ID ex \<noteq> i) c)"

text \<open>\<^verbatim>\<open>ByTier\<close>: descending priority, then the identity. The two stable passes of HOL's insertion sort compose
  to the comparison of the source.\<close>

definition ByTier :: "Tier \<Rightarrow> Catalog \<Rightarrow> CatalogEntry list" where
  "ByTier t c =
     sort_key (\<lambda>e. - ce_Priority e) (sort_key ID (filter (\<lambda>e. \<not> ce_Disabled e \<and> ce_Tier e = t) c))"

definition Catalog_Find :: "string \<Rightarrow> string \<Rightarrow> string \<Rightarrow> Catalog \<Rightarrow> CatalogEntry option" where
  "Catalog_Find engine model account c =
     find (\<lambda>e. ce_Engine e = engine \<and> ce_Model e = model \<and> ce_Account e = account) c"

definition Accounts :: "Catalog \<Rightarrow> AccountID list" where
  "Accounts c = sort_key (\<lambda>a. [ac_Engine a, ac_Account a]) (remdups (map entry_account c))"

section \<open>Requests and routes\<close>

record Request =
  rq_Complexity :: Complexity
  rq_Risk :: Level
  rq_Role :: string
  rq_Language :: string
  rq_NeedsImages :: bool
  rq_ContextTokens :: int
  rq_ProjectID :: string
  rq_TaskID :: string
  rq_PreferStrong :: bool
  rq_AllowIncludedOnly :: bool
  rq_DiversityPenalised :: "string \<rightharpoonup> int"

record ScoreFactor =
  sf_Name :: string
  sf_Delta :: rat
  sf_Detail :: string

record Route =
  ro_Entry :: CatalogEntry
  ro_EstimatedCostUSD :: rat
  ro_QuotaConfidence :: Confidence
  ro_Score :: rat
  ro_ScoreBreakdown :: "ScoreFactor list"

record Alternative =
  al_Route :: Route
  al_Reason :: string

record ExcludedRoute =
  ex_Entry :: CatalogEntry
  ex_Reason :: string

record ScoreConfig =
  scf_ExpectedInputTokens :: int
  scf_ExpectedOutputTokens :: int
  scf_CostWeight :: rat
  scf_IncludedBonus :: rat
  scf_TierMatchBonus :: rat
  scf_TierDistancePenalty :: rat
  scf_RiskFloorTier :: Tier
  scf_DiversityPenalty :: rat

record Explanation =
  xp_Selected :: "Route option"
  xp_TargetTier :: Tier
  xp_Complexity :: Complexity
  xp_Risk :: Level
  xp_Alternatives :: "Alternative list"
  xp_Excluded :: "ExcludedRoute list"
  xp_QuotaSummary :: "Snapshot list"
  xp_BudgetDecision :: Decision
  xp_FallbackChain :: "Route list"
  xp_Notes :: "string list"

record RouterT =
  rt_catalog :: Catalog
  rt_budget :: "Controller option"
  rt_cfg :: ScoreConfig

definition DefaultScoreConfig :: ScoreConfig where
  "DefaultScoreConfig =
     \<lparr>scf_ExpectedInputTokens = 20000, scf_ExpectedOutputTokens = 4000, scf_CostWeight = 1,
      scf_IncludedBonus = 1 / 2, scf_TierMatchBonus = 1, scf_TierDistancePenalty = 3 / 5,
      scf_RiskFloorTier = TierStandard, scf_DiversityPenalty = 1 / 4\<rparr>"

definition ZeroScoreConfig :: ScoreConfig where
  "ZeroScoreConfig =
     \<lparr>scf_ExpectedInputTokens = 0, scf_ExpectedOutputTokens = 0, scf_CostWeight = 0,
      scf_IncludedBonus = 0, scf_TierMatchBonus = 0, scf_TierDistancePenalty = 0,
      scf_RiskFloorTier = 0, scf_DiversityPenalty = 0\<rparr>"

definition New_router :: "Catalog option \<Rightarrow> Controller option \<Rightarrow> ScoreConfig \<Rightarrow> RouterT" where
  "New_router catalog bc cfg =
     (let cfg = (if cfg = ZeroScoreConfig then DefaultScoreConfig else cfg);
          cfg = (if scf_ExpectedInputTokens cfg \<le> 0 then cfg\<lparr>scf_ExpectedInputTokens := 20000\<rparr> else cfg);
          cfg = (if scf_ExpectedOutputTokens cfg \<le> 0 then cfg\<lparr>scf_ExpectedOutputTokens := 4000\<rparr> else cfg)
      in \<lparr>rt_catalog = (case catalog of Some c \<Rightarrow> c | None \<Rightarrow> []), rt_budget = bc, rt_cfg = cfg\<rparr>)"

section \<open>Scoring\<close>

definition EstimateCost :: "ScoreConfig \<Rightarrow> CatalogEntry \<Rightarrow> rat" where
  "EstimateCost cfg e =
     (if ce_CostPer1MInputUSD e \<le> 0 \<and> ce_CostPer1MOutputUSD e \<le> 0 then 0
      else of_int (scf_ExpectedInputTokens cfg) / 1000000 * ce_CostPer1MInputUSD e
           + of_int (scf_ExpectedOutputTokens cfg) / 1000000 * ce_CostPer1MOutputUSD e)"

definition estimateForTier :: "RouterT \<Rightarrow> Tier \<Rightarrow> rat" where
  "estimateForTier r t =
     fold (\<lambda>e best. let c = EstimateCost (rt_cfg r) e in if best < c then c else best)
       (ByTier t (rt_catalog r)) 0"

definition orderedFallbackTiers :: "Tier \<Rightarrow> Tier list" where
  "orderedFallbackTiers target = target # [target + 1..maxTier] @ rev [TierTiny..target - 1]"

definition validateRequest :: "Request \<Rightarrow> string option" where
  "validateRequest req =
     (if \<not> Complexity_IsValid (rq_Complexity req)
      then Some (''router: complexity '' @ fmt_int (rq_Complexity req) @ '' is not a valid band'')
      else if \<not> Level_IsValid (rq_Risk req)
      then Some (''router: risk '' @ fmt_int (rq_Risk req) @ '' is not a valid band'')
      else None)"

text \<open>The quota manager's reads through the router's possibly nil pointer.\<close>

definition q_available :: "time \<Rightarrow> AccountID \<Rightarrow> Manager option \<Rightarrow> bool \<times> Manager option" where
  "q_available now a q =
     (case q of None \<Rightarrow> (True, None) | Some m \<Rightarrow> (case IsAvailable now a m of (b, m') \<Rightarrow> (b, Some m')))"

definition q_why :: "time \<Rightarrow> AccountID \<Rightarrow> Manager option \<Rightarrow> string \<times> Manager option" where
  "q_why now a q =
     (case q of None \<Rightarrow> ('''', None) | Some m \<Rightarrow> (case WhyUnavailable now a m of (w, m') \<Rightarrow> (w, Some m')))"

definition q_confidence :: "time \<Rightarrow> AccountID \<Rightarrow> Manager option \<Rightarrow> Confidence \<times> Manager option" where
  "q_confidence now a q =
     (case q of
        None \<Rightarrow> (ConfEstimated, None)
      | Some m \<Rightarrow> (case Snapshot_of now a m of (s, m') \<Rightarrow> (sn_Confidence s, Some m')))"

definition excludeReason ::
  "time \<Rightarrow> CatalogEntry \<Rightarrow> Request \<Rightarrow> bool \<Rightarrow> Manager option \<Rightarrow> string \<times> Manager option" where
  "excludeReason now e req includedOnly q =
     (if ce_Disabled e then (''entry disabled in catalog'', q)
      else if rq_NeedsImages req \<and> \<not> ce_SupportsImages e then (''model lacks image input support'', q)
      else if 0 < rq_ContextTokens req \<and> 0 < ce_ContextWindow e \<and> ce_ContextWindow e < rq_ContextTokens req
      then (''context window '' @ fmt_int (ce_ContextWindow e) @ '' < required '' @ fmt_int (rq_ContextTokens req), q)
      else if includedOnly \<and> \<not> ce_SubscriptionIncluded e
      then (''hard budget block '' @ em_dash @ '' only subscription-included routes permitted ('' @ section_sign @ ''23)'', q)
      else (case q_available now (entry_account e) q of
              (True, q') \<Rightarrow> ('''', q')
            | (False, q') \<Rightarrow>
                (case q_why now (entry_account e) q' of
                   (why, q'') \<Rightarrow> (if why = '''' then ''account unavailable'' else why, q''))))"

definition score_factors :: "ScoreConfig \<Rightarrow> CatalogEntry \<Rightarrow> Tier \<Rightarrow> Tier \<Rightarrow> Request \<Rightarrow> ScoreFactor list" where
  "score_factors cfg e tier target req =
     (let dist = \<bar>tier - target\<bar>; cost = EstimateCost cfg e
      in [\<lparr>sf_Name = ''tier-match'', sf_Delta = scf_TierMatchBonus cfg - of_int dist * scf_TierDistancePenalty cfg,
           sf_Detail = ''tier '' @ Tier_String tier @ '' vs target '' @ Tier_String target
                       @ '' (distance '' @ fmt_int dist @ '')''\<rparr>]
         @ (if 0 < cost
            then [\<lparr>sf_Name = ''cost'',
                   sf_Delta = - scf_CostWeight cfg * (if 1 < cost / 10 then 1 else cost / 10),
                   sf_Detail = ''estimated $'' @ fmt_fixed 4 cost\<rparr>] else [])
         @ (if ce_SubscriptionIncluded e
            then [\<lparr>sf_Name = ''included'', sf_Delta = scf_IncludedBonus cfg,
                   sf_Detail = ''subscription-included route''\<rparr>] else [])
         @ (if ce_Priority e \<noteq> 0
            then [\<lparr>sf_Name = ''priority'', sf_Delta = of_int (ce_Priority e) * (1 / 10),
                   sf_Detail = ''catalog priority '' @ fmt_int (ce_Priority e)\<rparr>] else [])
         @ (case rq_DiversityPenalised req (ce_Engine e) of
              Some pen \<Rightarrow>
                if 0 < pen
                then [\<lparr>sf_Name = ''diversity'', sf_Delta = - scf_DiversityPenalty cfg * of_int pen,
                       sf_Detail = ''engine '' @ ce_Engine e @ '' over-used (penalty '' @ fmt_int pen @ '')''\<rparr>]
                else []
            | None \<Rightarrow> []))"

definition scoreEntry ::
  "ScoreConfig \<Rightarrow> time \<Rightarrow> CatalogEntry \<Rightarrow> Tier \<Rightarrow> Tier \<Rightarrow> Request \<Rightarrow> Manager option \<Rightarrow> Route \<times> Manager option" where
  "scoreEntry cfg now e tier target req q =
     (let (conf, q') = q_confidence now (entry_account e) q; fs = score_factors cfg e tier target req
      in (\<lparr>ro_Entry = e, ro_EstimatedCostUSD = EstimateCost cfg e, ro_QuotaConfidence = conf,
           ro_Score = sum_list (map sf_Delta fs), ro_ScoreBreakdown = fs\<rparr>, q'))"

definition altReason :: "Route \<Rightarrow> Tier \<Rightarrow> Tier \<Rightarrow> Route \<Rightarrow> string" where
  "altReason rt tier target best =
     (let parts =
        (if ro_Score rt < ro_Score best
         then [''lower score '' @ fmt_fixed 2 (ro_Score rt) @ '' < '' @ fmt_fixed 2 (ro_Score best)] else [])
        @ (if tier \<noteq> target
           then (if tier < target
                 then [''tier '' @ Tier_String tier @ '' below target '' @ Tier_String target]
                 else [''tier '' @ Tier_String tier @ '' above target '' @ Tier_String target @ '' (more expensive)''])
           else [])
        @ (if ce_SubscriptionIncluded (ro_Entry rt) then [''subscription-included (no marginal cost)''] else [])
      in if parts = [] then ''not the highest-scoring candidate'' else strings_Join parts ''; '')"

section \<open>Selection\<close>

text \<open>The double loop of \<^verbatim>\<open>rankedAlternatives\<close> over the entries of one tier, then over the tiers: the excluded
  entries and the scored ones with their tiers, in the order of the loop.\<close>

fun scan_entries ::
  "ScoreConfig \<Rightarrow> time \<Rightarrow> Request \<Rightarrow> Tier \<Rightarrow> bool \<Rightarrow> (Tier \<times> CatalogEntry) list \<Rightarrow> Manager option
     \<Rightarrow> ExcludedRoute list \<times> (Route \<times> Tier) list \<times> Manager option" where
  "scan_entries cfg now req target inc [] q = ([], [], q)"
| "scan_entries cfg now req target inc ((t, e) # es) q =
     (case excludeReason now e req inc q of
        (reason, q1) \<Rightarrow>
          if reason \<noteq> ''''
          then (case scan_entries cfg now req target inc es q1 of
                  (exs, all, q2) \<Rightarrow> (\<lparr>ex_Entry = e, ex_Reason = reason\<rparr> # exs, all, q2))
          else (case scoreEntry cfg now e t target req q1 of
                  (rt, q2) \<Rightarrow>
                    (case scan_entries cfg now req target inc es q2 of
                       (exs, all, q3) \<Rightarrow> (exs, (rt, t) # all, q3))))"

definition tier_entries :: "Catalog \<Rightarrow> (Tier \<times> CatalogEntry) list" where
  "tier_entries c = concat (map (\<lambda>t. map (Pair t) (ByTier t c)) Tiers)"

definition rankedAlternatives ::
  "RouterT \<Rightarrow> time \<Rightarrow> Request \<Rightarrow> Tier \<Rightarrow> bool \<Rightarrow> Manager option
     \<Rightarrow> Alternative list \<times> ExcludedRoute list \<times> Manager option" where
  "rankedAlternatives r now req target includedOnly q =
     (case scan_entries (rt_cfg r) now req target includedOnly (tier_entries (rt_catalog r)) q of
        (excluded, all, q') \<Rightarrow>
          (let all = sort_key (\<lambda>(rt, _). - ro_Score rt) all
           in (map (\<lambda>(rt, t).
                 let reason = altReason rt t target (fst (hd all))
                 in \<lparr>al_Route = rt,
                     al_Reason = (if reason = '''' then ''not the highest-scoring candidate'' else reason)\<rparr>) all,
               excluded, q')))"

definition alt_tier :: "Alternative \<Rightarrow> Tier" where
  "alt_tier a = ce_Tier (ro_Entry (al_Route a))"

text \<open>The index of the first alternative of a tier, for the first tier that has one.\<close>

fun index_of :: "('a \<Rightarrow> bool) \<Rightarrow> 'a list \<Rightarrow> nat option" where
  "index_of P [] = None"
| "index_of P (x # xs) = (if P x then Some 0 else map_option Suc (index_of P xs))"

fun select_index :: "Alternative list \<Rightarrow> Tier list \<Rightarrow> nat option" where
  "select_index alts [] = None"
| "select_index alts (t # ts) =
     (case index_of (\<lambda>a. alt_tier a = t) alts of Some i \<Rightarrow> Some i | None \<Rightarrow> select_index alts ts)"

fun fallback_chain :: "Alternative list \<Rightarrow> Tier list \<Rightarrow> Tier list \<Rightarrow> Route list" where
  "fallback_chain alts [] seen = []"
| "fallback_chain alts (t # ts) seen =
     (if t \<in> set seen then fallback_chain alts ts seen
      else (case find (\<lambda>a. alt_tier a = t) alts of
              Some a \<Rightarrow> al_Route a # fallback_chain alts ts (t # seen)
            | None \<Rightarrow> fallback_chain alts ts seen))"

definition zero_decision :: Decision where
  "zero_decision =
     \<lparr>de_Allowed = False, de_HardBlocked = False, de_SoftSignal = False, de_Reason = '''', de_LimitUSD = 0,
      de_RemainingUSD = 0, de_IncludedPermitted = False\<rparr>"

definition target_tier :: "RouterT \<Rightarrow> Request \<Rightarrow> Tier" where
  "target_tier r req =
     (let target = BaseTier (rq_Complexity req) (rq_PreferStrong req)
      in if R3 \<le> rq_Risk req \<and> target < scf_RiskFloorTier (rt_cfg r) then scf_RiskFloorTier (rt_cfg r)
         else target)"

definition budget_check :: "RouterT \<Rightarrow> time \<Rightarrow> Request \<Rightarrow> Decision" where
  "budget_check r now req =
     (case rt_budget r of
        None \<Rightarrow> zero_decision
      | Some bc \<Rightarrow>
          CanAfford now
            \<lparr>sc_ProjectID = rq_ProjectID req, sc_TaskID = rq_TaskID req, sc_TaskRisk = rq_Risk req,
             sc_ProviderType = ProviderCoding\<rparr>
            (estimateForTier r (target_tier r req)) True True bc)"

definition Route_select ::
  "RouterT \<Rightarrow> time \<Rightarrow> Request \<Rightarrow> Manager option \<Rightarrow> (string, Explanation) result \<times> Manager option" where
  "Route_select r now req q =
     (case validateRequest req of
        Some err \<Rightarrow> (Inl err, q)
      | None \<Rightarrow>
          (let target = target_tier r req;
               bdec = budget_check r now req;
               includedOnly = rq_AllowIncludedOnly req \<or> de_HardBlocked bdec;
               notes = (if de_HardBlocked bdec
                        then [''hard budget exhausted '' @ em_dash
                              @ '' restricting to subscription-included routes ('' @ section_sign @ ''23)'']
                        else []);
               tryTiers = orderedFallbackTiers target;
               (alts, excluded, q1) = rankedAlternatives r now req target includedOnly q;
               idx = select_index alts tryTiers;
               chain = fallback_chain alts tryTiers [];
               (summary, q2) = (case q1 of None \<Rightarrow> ([], None)
                                | Some m \<Rightarrow> (case All now m of (s, m') \<Rightarrow> (s, Some m')))
           in (Inr \<lparr>xp_Selected = map_option (\<lambda>i. al_Route (alts ! i)) idx,
                    xp_TargetTier = target, xp_Complexity = rq_Complexity req, xp_Risk = rq_Risk req,
                    xp_Alternatives =
                      (case idx of None \<Rightarrow> alts | Some i \<Rightarrow> alts[i := (alts ! i)\<lparr>al_Reason := ''''\<rparr>]),
                    xp_Excluded = excluded, xp_QuotaSummary = summary, xp_BudgetDecision = bdec,
                    xp_FallbackChain = chain,
                    xp_Notes = notes @ (if idx = None
                                        then [''no eligible route after quota/budget/capability filters'']
                                        else [])\<rparr>,
               q2)))"

end
