(* ===== verification/Quota_Valid.thy ===== *)
theory Quota_Valid
  imports Quota
begin

text \<open>
  The correctness of the quota manager: the invariant of every manager that a sequence of operations
  reaches, the circuit breaker, the rate-limit window, the exclusion of exhausted and unauthenticated
  accounts, the agreement of the decision with its explanation, and the rendering of figures.
\<close>

section \<open>Executions\<close>

text \<open>One call of the manager. The four readers of a single account change the manager in the same way.\<close>

datatype quota_op =
  OpApply Snapshot
| OpFailure AccountID FailureClass
| OpSuccess AccountID
| OpRead AccountID
| OpReadAll

fun quota_exec :: "time \<times> quota_op \<Rightarrow> Manager \<Rightarrow> Manager" where
  "quota_exec (now, OpApply s) m = Apply now s m"
| "quota_exec (now, OpFailure aid c) m = RecordFailure now aid c m"
| "quota_exec (now, OpSuccess aid) m = RecordSuccess aid m"
| "quota_exec (now, OpRead aid) m = snd (IsAvailable now aid m)"
| "quota_exec (now, OpReadAll) m = snd (All now m)"

inductive qm_reachable :: "QuotaConfig \<Rightarrow> Manager \<Rightarrow> bool" for cfg where
  init: "qm_reachable cfg (New_quota cfg)"
| step: "qm_reachable cfg m \<Longrightarrow> qm_reachable cfg (quota_exec op m)"

lemma readers_same_state:
  "snd (Snapshot_of now aid m) = snd (IsAvailable now aid m)"
  "snd (BreakerState_of now aid m) = snd (IsAvailable now aid m)"
  "snd (WhyUnavailable now aid m) = snd (IsAvailable now aid m)"
  by (simp_all add: Snapshot_of_def BreakerState_of_def WhyUnavailable_def IsAvailable_def
      split: option.splits prod.splits)

lemma lookup_put [simp]: "lookup (put k v m) k' = (if k' = k then Some v else lookup m k')"
  by (simp add: lookup_def put_def update_conv')

lemma cfg_put [simp]: "qm_cfg (put k v m) = qm_cfg m"
  by (simp add: put_def)

lemma lookup_All: "lookup (snd (All now m)) aid = map_option (\<lambda>cur. snd (effectiveLocked (qm_cfg m) now cur)) (lookup m aid)"
  by (simp add: lookup_def All_def map_of_map)

lemma cfg_exec [simp]: "qm_cfg (quota_exec op m) = qm_cfg m"
  by (induction op m rule: quota_exec.induct)
     (simp_all add: Apply_def applyLocked_def RecordFailure_def RecordSuccess_def IsAvailable_def
        All_def Let_def split: option.splits prod.splits)

section \<open>The invariant\<close>

definition account_ok :: "QuotaConfig \<Rightarrow> AccountID \<Rightarrow> accountState \<Rightarrow> bool" where
  "account_ok cfg aid cur \<longleftrightarrow>
     sn_Account (as_snapshot cur) = aid \<and> 0 \<le> as_consec cur \<and> as_consec cur \<le> as_failures cur \<and>
     (as_breaker cur = BreakerClosed \<longrightarrow> as_consec cur < qc_FailureThreshold cfg)"

definition qm_ok :: "Manager \<Rightarrow> bool" where
  "qm_ok m \<longleftrightarrow> distinct (map fst (qm_st m)) \<and> 0 < qc_FailureThreshold (qm_cfg m) \<and>
     (\<forall>(aid, cur) \<in> set (qm_st m). account_ok (qm_cfg m) aid cur)"

lemma qm_ok_lookup: "qm_ok m \<Longrightarrow> lookup m aid = Some cur \<Longrightarrow> account_ok (qm_cfg m) aid cur"
  by (auto simp: qm_ok_def lookup_def dest: map_of_SomeD)

lemma qm_ok_threshold: "qm_ok m \<Longrightarrow> 0 < qc_FailureThreshold (qm_cfg m)"
  by (simp add: qm_ok_def)

lemma qm_ok_put:
  assumes "qm_ok m" "account_ok (qm_cfg m) aid cur"
  shows "qm_ok (put aid cur m)"
proof -
  have "account_ok (qm_cfg m) k c" if "(k, c) \<in> set (AList.update aid cur (qm_st m))" for k c
  proof -
    from assms have "distinct (map fst (AList.update aid cur (qm_st m)))"
      by (simp add: qm_ok_def distinct_update)
    with that have "lookup (put aid cur m) k = Some c" by (simp add: lookup_def put_def)
    with assms show ?thesis by (auto split: if_splits intro: qm_ok_lookup)
  qed
  with assms(1) show ?thesis by (auto simp: qm_ok_def put_def distinct_update)
qed

lemma apply_account_ok:
  assumes "0 < qc_FailureThreshold cfg" "0 \<le> as_consec cur" "as_consec cur \<le> as_failures cur"
    and "as_breaker cur = BreakerClosed \<longrightarrow> as_consec cur < qc_FailureThreshold cfg"
  shows "account_ok cfg (sn_Account s) (apply_account cfg s cur)"
  using assms by (simp add: account_ok_def apply_account_def Let_def)

lemma fail_account_ok:
  "0 < qc_FailureThreshold cfg \<Longrightarrow> account_ok cfg aid cur \<Longrightarrow> account_ok cfg aid (fail_account cfg now c cur)"
  by (auto simp: account_ok_def fail_account_def Let_def)

lemma succeed_account_ok:
  "0 < qc_FailureThreshold cfg \<Longrightarrow> account_ok cfg aid cur \<Longrightarrow> account_ok cfg aid (succeed_account cur)"
  by (auto simp: account_ok_def succeed_account_def Let_def)

lemma effective_ok: "account_ok cfg aid cur \<Longrightarrow> account_ok cfg aid (snd (effectiveLocked cfg now cur))"
  by (auto simp: account_ok_def effectiveLocked_def Let_def)

lemma fresh_account_ok:
  "0 < qc_FailureThreshold cfg \<Longrightarrow> account_ok cfg aid (fresh_account (blank_snapshot aid st c))"
  by (simp add: account_ok_def fresh_account_def blank_snapshot_def)

lemma applyLocked_ok: "qm_ok m \<Longrightarrow> qm_ok (applyLocked s m)"
  unfolding applyLocked_def Let_def
proof (rule qm_ok_put)
  assume ok: "qm_ok m"
  show "account_ok (qm_cfg m) (sn_Account s)
          (apply_account (qm_cfg m) s
             (case lookup m (sn_Account s) of None \<Rightarrow> zero_account | Some c \<Rightarrow> c))"
  proof (rule apply_account_ok)
  qed (use ok in \<open>auto simp: zero_account_def fresh_account_def qm_ok_threshold account_ok_def
                    split: option.splits dest: qm_ok_lookup\<close>)
qed

lemma All_ok: "qm_ok m \<Longrightarrow> qm_ok (snd (All now m))"
  by (auto simp: qm_ok_def All_def comp_def case_prod_unfold intro!: effective_ok)

lemma quota_exec_ok: "qm_ok m \<Longrightarrow> qm_ok (quota_exec op m)"
proof (induction op m rule: quota_exec.induct)
  case (1 now s m)
  then show ?case by (simp add: Apply_def applyLocked_ok)
next
  case (2 now aid c m)
  then show ?case
    by (auto simp: RecordFailure_def Let_def qm_ok_threshold fresh_account_ok
        intro!: qm_ok_put fail_account_ok dest: qm_ok_lookup split: option.splits)
next
  case (3 now aid m)
  then show ?case
    by (auto simp: RecordSuccess_def qm_ok_threshold
        intro!: qm_ok_put succeed_account_ok dest: qm_ok_lookup split: option.splits)
next
  case (4 now aid m)
  show ?case
  proof (cases "lookup m aid")
    case (Some cur)
    with 4 have "account_ok (qm_cfg m) aid (snd (effectiveLocked (qm_cfg m) now cur))"
      by (blast intro: effective_ok qm_ok_lookup)
    with 4 Some show ?thesis by (auto simp: IsAvailable_def intro!: qm_ok_put split: prod.splits)
  qed (use 4 in \<open>simp add: IsAvailable_def\<close>)
qed (simp add: All_ok)

lemma New_quota_ok: "qm_ok (New_quota cfg)"
  by (simp add: qm_ok_def New_quota_def DefaultQuotaConfig_def)

lemma reachable_ok: "qm_reachable cfg m \<Longrightarrow> qm_ok m"
  by (induction rule: qm_reachable.induct) (simp_all add: New_quota_ok quota_exec_ok)

text \<open>C35: Every manager reachable from \<open>New\<close> by any sequence of operations, whatever the clock shows: an
  account is listed once and under its own identifier, its consecutive failures never exceed its
  failures, and a CLOSED breaker has fewer consecutive failures than the threshold, which is
  positive.\<close>

theorem quota_invariant:
  assumes "qm_reachable cfg m"
  shows "distinct (map fst (qm_st m)) \<and> 0 < qc_FailureThreshold (qm_cfg m) \<and>
    (\<forall>aid cur. lookup m aid = Some cur \<longrightarrow>
       sn_Account (as_snapshot cur) = aid \<and> 0 \<le> as_consec cur \<and> as_consec cur \<le> as_failures cur \<and>
       (as_breaker cur = BreakerClosed \<longrightarrow> as_consec cur < qc_FailureThreshold (qm_cfg m)))"
  using reachable_ok [OF assms] qm_ok_lookup [OF reachable_ok [OF assms]]
  by (simp add: qm_ok_def account_ok_def)

abbreviation demo_account :: AccountID where
  "demo_account \<equiv> \<lparr>ac_Engine = ''alpha'', ac_Account = ''api''\<rparr>"

definition demo_manager :: Manager where
  "demo_manager = RecordFailure 5 demo_account FailureTimeout (New_quota DefaultQuotaConfig)"

lemma demo_manager_reachable: "qm_reachable DefaultQuotaConfig demo_manager"
  using qm_reachable.step [OF qm_reachable.init, of DefaultQuotaConfig "(5, OpFailure demo_account FailureTimeout)"]
  by (simp add: demo_manager_def)

theorem quota_invariant_witness:
  "distinct (map fst (qm_st demo_manager)) \<and> 0 < qc_FailureThreshold (qm_cfg demo_manager) \<and>
   qm_reachable DefaultQuotaConfig demo_manager"
  using quota_invariant [OF demo_manager_reachable] demo_manager_reachable by blast

section \<open>Exhausted and unauthenticated accounts\<close>

definition blocked_state :: "State \<Rightarrow> bool" where
  "blocked_state st \<longleftrightarrow> st = StateExhausted \<or> st = StateAuthRequired"

definition blocked :: "AccountID \<Rightarrow> Manager \<Rightarrow> bool" where
  "blocked aid m \<longleftrightarrow> (\<exists>cur. lookup m aid = Some cur \<and> blocked_state (sn_State (as_snapshot cur)))"

fun applies_to :: "AccountID \<Rightarrow> quota_op \<Rightarrow> bool" where
  "applies_to aid (OpApply s) = (sn_Account s = aid)"
| "applies_to aid _ = False"

lemma effective_snapshot [simp]: "as_snapshot (snd (effectiveLocked cfg now cur)) = as_snapshot cur"
  by (simp add: effectiveLocked_def Let_def)

lemma blocked_effective:
  "blocked_state (sn_State (as_snapshot cur)) \<Longrightarrow> sn_State (fst (effectiveLocked cfg now cur)) = sn_State (as_snapshot cur)"
  by (auto simp: effectiveLocked_def Let_def blocked_state_def)

lemma blocked_not_routable: "blocked_state st \<Longrightarrow> \<not> IsRoutable st"
  by (auto simp: blocked_state_def IsRoutable_def)

lemma blocked_fail: "blocked_state (sn_State (as_snapshot cur)) \<Longrightarrow> blocked_state (sn_State (as_snapshot (fail_account cfg now c cur)))"
  by (auto simp: fail_account_def Let_def blocked_state_def)

lemma succeed_snapshot [simp]: "as_snapshot (succeed_account cur) = as_snapshot cur"
  by (simp add: succeed_account_def Let_def)

lemma blocked_exec:
  assumes "blocked aid m" "\<not> applies_to aid (snd op)"
  shows "blocked aid (quota_exec op m)"
proof -
  obtain now o' where op: "op = (now, o')" by (cases op)
  obtain cur where cur: "lookup m aid = Some cur" "blocked_state (sn_State (as_snapshot cur))"
    using assms(1) by (auto simp: blocked_def)
  show ?thesis
  proof (cases o')
    case (OpApply s)
    with assms op show ?thesis by (auto simp: blocked_def Apply_def applyLocked_def Let_def)
  next
    case (OpFailure k c)
    with op cur show ?thesis
      by (auto simp: blocked_def RecordFailure_def Let_def blocked_fail)
  next
    case (OpSuccess k)
    with op cur show ?thesis by (auto simp: blocked_def RecordSuccess_def split: option.splits)
  next
    case (OpRead k)
    with op cur show ?thesis
      by (auto simp: blocked_def IsAvailable_def case_prod_unfold split: option.splits)
  next
    case OpReadAll
    with op cur show ?thesis by (auto simp: blocked_def lookup_All)
  qed
qed

lemma blocked_run:
  "blocked aid m \<Longrightarrow> list_all (\<lambda>op. \<not> applies_to aid (snd op)) ops \<Longrightarrow> blocked aid (fold quota_exec ops m)"
  by (induction ops arbitrary: m) (simp_all add: blocked_exec)

lemma blocked_unavailable: "blocked aid m \<Longrightarrow> \<not> fst (IsAvailable now aid m)"
  by (auto simp: blocked_def IsAvailable_def blocked_effective blocked_not_routable split: prod.splits)
     (metis blocked_effective blocked_not_routable fst_conv)

lemma quota_auth_blocks:
  "c = FailureProviderQuota \<or> c = FailureProviderAuth \<Longrightarrow> blocked aid (RecordFailure now aid c m)"
  by (auto simp: blocked_def blocked_state_def RecordFailure_def fail_account_def Let_def)

text \<open>An account that has failed with exhausted quota or failed authentication receives no route until a
  snapshot of that account is applied: no other operation, on this account or another, and no amount
  of time makes it available again. In particular neither the breaker's cool-down nor the reset time
  of its snapshot does, although the comments of the source let an exhausted account return at its reset time.\<close>

lemma blocked_until_applied:
  assumes "c = FailureProviderQuota \<or> c = FailureProviderAuth"
    and "list_all (\<lambda>op. \<not> applies_to aid (snd op)) ops"
  shows "\<not> fst (IsAvailable later aid (fold quota_exec ops (RecordFailure now aid c m)))"
  using assms by (simp add: blocked_unavailable blocked_run quota_auth_blocks)

section \<open>Failed authentication\<close>

text \<open>The operations that may end the stop after a failed authentication: a healthy snapshot of the account, as
  documented, and a quota failure of the account, which overwrites the state.\<close>

fun heals :: "AccountID \<Rightarrow> quota_op \<Rightarrow> bool" where
  "heals aid (OpApply s) = (sn_Account s = aid \<and> (sn_State s = StateAvailable \<or> sn_State s = StateLow))"
| "heals aid _ = False"

definition auth_needed :: "AccountID \<Rightarrow> Manager \<Rightarrow> bool" where
  "auth_needed aid m \<longleftrightarrow> (\<exists>cur. lookup m aid = Some cur \<and> sn_State (as_snapshot cur) = StateAuthRequired)"

lemma auth_needed_exec:
  assumes "auth_needed aid m" "\<not> heals aid (snd op)" "snd op \<noteq> OpFailure aid FailureProviderQuota"
  shows "auth_needed aid (quota_exec op m)"
proof -
  obtain now o' where op: "op = (now, o')" by (cases op)
  obtain cur where cur: "lookup m aid = Some cur" "sn_State (as_snapshot cur) = StateAuthRequired"
    using assms(1) by (auto simp: auth_needed_def)
  show ?thesis
  proof (cases o')
    case (OpApply s)
    with assms(2) op cur show ?thesis
      by (auto simp: auth_needed_def Apply_def applyLocked_def apply_account_def Let_def)
  next
    case (OpFailure k c)
    with assms(3) op cur show ?thesis
      by (auto simp: auth_needed_def RecordFailure_def fail_account_def Let_def)
  next
    case (OpSuccess k)
    with op cur show ?thesis by (auto simp: auth_needed_def RecordSuccess_def split: option.splits)
  next
    case (OpRead k)
    with op cur show ?thesis by (auto simp: auth_needed_def IsAvailable_def case_prod_unfold split: option.splits)
  next
    case OpReadAll
    with op cur show ?thesis by (auto simp: auth_needed_def lookup_All)
  qed
qed

lemma auth_needed_run:
  "auth_needed aid m \<Longrightarrow> list_all (\<lambda>op. \<not> heals aid (snd op) \<and> snd op \<noteq> OpFailure aid FailureProviderQuota) ops \<Longrightarrow>
     auth_needed aid (fold quota_exec ops m)"
  by (induction ops arbitrary: m) (simp_all add: auth_needed_exec)

lemma auth_needed_blocked: "auth_needed aid m \<Longrightarrow> blocked aid m"
  by (auto simp: auth_needed_def blocked_def blocked_state_def)

lemma auth_failure_needs: "auth_needed aid (RecordFailure now aid FailureProviderAuth m)"
  by (simp add: auth_needed_def RecordFailure_def fail_account_def Let_def)

lemma healthy_snapshot_available:
  assumes "sn_State s = StateAvailable" "FractionRemaining s < 0 \<or> qc_LowRemainingFraction (qm_cfg m) \<le> FractionRemaining s"
  shows "fst (IsAvailable later (sn_Account s) (Apply t s m))"
proof -
  have "fst (IsAvailable later (sn_Account s) (applyLocked s' m))"
    if s': "sn_Account s' = sn_Account s" "sn_State s' = sn_State s" "FractionRemaining s' = FractionRemaining s" for s'
  proof -
    let ?cur = "case lookup m (sn_Account s) of None \<Rightarrow> zero_account | Some c \<Rightarrow> c"
    have "sn_State (as_snapshot (apply_account (qm_cfg m) s' ?cur)) = StateAvailable \<and>
        as_breaker (apply_account (qm_cfg m) s' ?cur) = BreakerClosed"
      using assms s' by (simp add: apply_account_def Let_def del: option.case_distrib) (auto simp: not_less)
    then show ?thesis
      by (simp add: IsAvailable_def applyLocked_def Let_def s' effectiveLocked_def IsRoutable_def)
  qed
  from this [of s] this [of "s\<lparr>sn_ObservedAt := t\<rparr>"] show ?thesis
    unfolding Apply_def by (simp add: FractionRemaining_def)
qed

text \<open>C31: A failed authentication stops the routing to an account until it is authenticated again. After the failure,
  whatever happens to this and the other accounts and however much time passes, the account is available to no
  route as long as no healthy snapshot of it, AVAILABLE or LOW, is applied and no quota failure of it is
  recorded; snapshots that report it degraded, rate limited or unknown do not bring it back. A snapshot that
  says AVAILABLE and whose remaining figure is unknown or not low makes it available at once. (A quota failure replaces
  the state, and with it the memory of the failed authentication: \<open>quota_failure_forgets_auth\<close>.)\<close>

theorem auth_stops_routing:
  assumes "list_all (\<lambda>op. \<not> heals aid (snd op) \<and> snd op \<noteq> OpFailure aid FailureProviderQuota) ops"
  shows "let m' = fold quota_exec ops (RecordFailure now aid FailureProviderAuth m)
    in \<not> fst (IsAvailable later aid m') \<and>
       (sn_Account s = aid \<and> sn_State s = StateAvailable \<and>
          (FractionRemaining s < 0 \<or> qc_LowRemainingFraction (qm_cfg m) \<le> FractionRemaining s)
        \<longrightarrow> fst (IsAvailable later aid (Apply t s m')))"
proof -
  let ?m = "fold quota_exec ops (RecordFailure now aid FailureProviderAuth m)"
  have "qm_cfg (fold quota_exec ops m0) = qm_cfg m0" for m0 by (induction ops arbitrary: m0) simp_all
  then have "qm_cfg ?m = qm_cfg m" using cfg_exec [of "(now, OpFailure aid FailureProviderAuth)" m] by simp
  moreover have "\<not> fst (IsAvailable later aid ?m)"
    by (intro blocked_unavailable auth_needed_blocked auth_needed_run auth_failure_needs assms)
  ultimately show ?thesis using healthy_snapshot_available [of s ?m later t] by (auto simp: Let_def)
qed

theorem auth_stops_routing_witness:
  "let degraded = blank_snapshot demo_account StateDegraded ConfExact;
       m = fold quota_exec [(7, OpSuccess demo_account), (8, OpApply degraded), (10 ^ 20, OpRead demo_account)]
         (RecordFailure 5 demo_account FailureProviderAuth demo_manager)
   in \<not> fst (IsAvailable (10 ^ 30) demo_account m) \<and>
      fst (IsAvailable (10 ^ 30) demo_account (Apply 9 (blank_snapshot demo_account StateAvailable ConfExact) m))"
  using auth_stops_routing [of demo_account "[(7, OpSuccess demo_account),
      (8, OpApply (blank_snapshot demo_account StateDegraded ConfExact)), (10 ^ 20, OpRead demo_account)]",
      where later = "10 ^ 30" and now = 5 and m = demo_manager and t = 9 and s = "blank_snapshot demo_account StateAvailable ConfExact"]
  by (simp add: Let_def blank_snapshot_def FractionRemaining_def)

text \<open>A quota failure after the failed authentication overwrites the state; a snapshot that is only degraded then makes the
  account available without a new login.\<close>

lemma quota_failure_forgets_auth:
  "fst (IsAvailable (10 ^ 12) demo_account (fold quota_exec
      [(6, OpFailure demo_account FailureProviderQuota), (7, OpApply (blank_snapshot demo_account StateDegraded ConfExact))]
      (RecordFailure 5 demo_account FailureProviderAuth demo_manager)))"
  by code_simp

section \<open>The circuit breaker\<close>section \<open>The circuit breaker\<close>

definition fail_all :: "AccountID \<Rightarrow> (time \<times> FailureClass) list \<Rightarrow> Manager \<Rightarrow> Manager" where
  "fail_all aid fs m = fold (\<lambda>(t, c). RecordFailure t aid c) fs m"

lemma transient_valid: "transient c \<Longrightarrow> FailureClass_IsValid c"
  by (auto simp: transient_def)

lemma transient_fail:
  "transient c \<Longrightarrow> as_consec (fail_account cfg now c cur) = as_consec cur + 1"
  "transient c \<Longrightarrow> qc_FailureThreshold cfg \<le> as_consec cur + 1 \<Longrightarrow>
     as_breaker (fail_account cfg now c cur) = BreakerOpen \<and> as_openedAt (fail_account cfg now c cur) = now"
  "transient c \<Longrightarrow> as_snapshot (fail_account cfg now c cur) = as_snapshot cur"
  by (auto simp: fail_account_def Let_def transient_def)

lemma RecordFailure_lookup:
  "FailureClass_IsValid c \<Longrightarrow>
     lookup (RecordFailure now aid c m) aid
       = Some (fail_account (qm_cfg m) now c
           (case lookup m aid of Some cur \<Rightarrow> cur | None \<Rightarrow> fresh_account (blank_snapshot aid StateUnknown ConfUnknown)))"
  by (simp add: RecordFailure_def Let_def)

lemma cfg_RecordFailure [simp]: "qm_cfg (RecordFailure now aid c m) = qm_cfg m"
  using cfg_exec [of "(now, OpFailure aid c)" m] by simp

lemma fail_all_consec:
  assumes "qm_ok m" "list_all (transient \<circ> snd) fs" "fs \<noteq> []"
  shows "\<exists>cur. lookup (fail_all aid fs m) aid = Some cur \<and> int (length fs) \<le> as_consec cur \<and>
           qm_cfg (fail_all aid fs m) = qm_cfg m \<and>
           (qc_FailureThreshold (qm_cfg m) \<le> int (length fs) \<longrightarrow>
              as_breaker cur = BreakerOpen \<and> as_openedAt cur = fst (last fs))"
  using assms
proof (induction fs rule: rev_induct)
  case (snoc f fs)
  obtain t c where f: "f = (t, c)" by (cases f)
  let ?m = "fail_all aid fs m"
  let ?prev = "case lookup ?m aid of Some cur \<Rightarrow> cur | None \<Rightarrow> fresh_account (blank_snapshot aid StateUnknown ConfUnknown)"
  have c: "transient c" using snoc.prems f by simp
  have "int (length fs) \<le> as_consec ?prev \<and> qm_cfg ?m = qm_cfg m"
  proof (cases "fs = []")
    case True
    then show ?thesis using qm_ok_lookup [OF snoc.prems(1)]
      by (auto simp: fail_all_def account_ok_def fresh_account_def split: option.splits)
  next
    case False
    with snoc.IH snoc.prems show ?thesis by auto
  qed
  moreover have "lookup (fail_all aid (fs @ [f]) m) aid = Some (fail_account (qm_cfg ?m) t c ?prev)"
    by (simp add: fail_all_def f RecordFailure_lookup transient_valid c)
  moreover have "qm_cfg (fail_all aid (fs @ [f]) m) = qm_cfg ?m" by (simp add: fail_all_def f)
  ultimately show ?case using c by (simp add: f transient_fail)
qed simp

lemma available_iff:
  assumes "lookup m aid = Some cur"
  shows "fst (IsAvailable t aid m) \<longleftrightarrow>
     IsRoutable (sn_State (fst (effectiveLocked (qm_cfg m) t cur))) \<and>
     as_breaker (snd (effectiveLocked (qm_cfg m) t cur)) \<noteq> BreakerOpen"
  using assms by (simp add: IsAvailable_def split: prod.splits BreakerState.splits)

lemma effective_breaker:
  "as_breaker cur = BreakerOpen \<Longrightarrow> as_openedAt cur \<noteq> zero_time \<Longrightarrow>
     as_breaker (snd (effectiveLocked cfg t cur))
       = (if qc_OpenDuration cfg \<le> t - as_openedAt cur then BreakerHalfOpen else BreakerOpen)"
  by (simp add: effectiveLocked_def Let_def)

text \<open>As many transient failures in a row as the threshold open the breaker: until the cool-down has
  elapsed since the last of them the account is unavailable, and from then on the breaker reads
  HALF_OPEN and the account is available again exactly when its quota state is routable.\<close>

theorem breaker_opens_and_recovers:
  assumes "qm_reachable cfg m" "list_all (transient \<circ> snd) fs"
    and "int (length fs) = qc_FailureThreshold (qm_cfg m)" "fst (last fs) \<noteq> zero_time"
  shows "(t - fst (last fs) < qc_OpenDuration (qm_cfg m) \<longrightarrow>
            \<not> fst (IsAvailable t aid (fail_all aid fs m)) \<and>
            fst (BreakerState_of t aid (fail_all aid fs m)) = BreakerOpen) \<and>
         (qc_OpenDuration (qm_cfg m) \<le> t - fst (last fs) \<longrightarrow>
            fst (BreakerState_of t aid (fail_all aid fs m)) = BreakerHalfOpen \<and>
            (fst (IsAvailable t aid (fail_all aid fs m)) \<longleftrightarrow>
               IsRoutable (sn_State (fst (Snapshot_of t aid (fail_all aid fs m))))))"
proof -
  have ok: "qm_ok m" using assms(1) by (rule reachable_ok)
  then have "fs \<noteq> []" using assms(3) qm_ok_threshold by force
  then obtain cur where cur: "lookup (fail_all aid fs m) aid = Some cur"
    "as_breaker cur = BreakerOpen" "as_openedAt cur = fst (last fs)"
    "qm_cfg (fail_all aid fs m) = qm_cfg m"
    using fail_all_consec [OF ok assms(2)] assms(3) by fastforce
  then show ?thesis
    using available_iff [OF cur(1)] effective_breaker [of cur] assms(4)
    by (auto simp: BreakerState_of_def Snapshot_of_def case_prod_unfold)
qed

theorem breaker_opens_and_recovers_witness:
  "let m = New_quota DefaultQuotaConfig; fs = [(5, FailureTimeout), (6, FailureEngineCrash), (7, FailureTimeout)]
   in qm_reachable DefaultQuotaConfig m \<and> int (length fs) = qc_FailureThreshold (qm_cfg m) \<and>
      \<not> fst (IsAvailable 8 demo_account (fail_all demo_account fs m))"
proof -
  have r: "qm_reachable DefaultQuotaConfig (New_quota DefaultQuotaConfig)" by (rule qm_reachable.init)
  show ?thesis
    using breaker_opens_and_recovers [OF r, of "[(5, FailureTimeout), (6, FailureEngineCrash), (7, FailureTimeout)]" 8 demo_account] r
    by (simp add: Let_def New_quota_def DefaultQuotaConfig_def transient_def Second_def)
qed

text \<open>A success that arrives while the breaker is OPEN clears the consecutive failures; a failure of the
  probe in HALF_OPEN then leaves the breaker HALF_OPEN and the account available.\<close>

lemma half_open_failure_not_reopened:
  "let m = fail_all demo_account [(5, FailureTimeout), (6, FailureTimeout), (7, FailureTimeout)] (New_quota DefaultQuotaConfig);
       m = RecordSuccess demo_account m;
       t = 7 + 60 * Second;
       (b, m) = BreakerState_of t demo_account m;
       m' = RecordFailure t demo_account FailureTimeout m
   in b = BreakerHalfOpen \<and> fst (BreakerState_of t demo_account m') = BreakerHalfOpen \<and>
      fst (IsAvailable t demo_account m')"
  by code_simp

text \<open>HALF_OPEN admits any number of routes: reading an account does not use up the probe.\<close>

lemma half_open_unlimited:
  assumes "lookup m aid = Some cur" "as_breaker cur = BreakerHalfOpen" "IsRoutable (sn_State (as_snapshot cur))"
  shows "fst (IsAvailable t aid (fold quota_exec (map (\<lambda>t. (t, OpRead aid)) ts) m))"
  using assms
proof (induction ts arbitrary: m)
  case Nil
  then show ?case
    by (auto simp: available_iff effectiveLocked_def Let_def IsRoutable_def)
next
  case (Cons t ts)
  have "lookup (quota_exec (t, OpRead aid) m) aid = Some cur"
    using Cons.prems by (simp add: IsAvailable_def effectiveLocked_def Let_def)
  with Cons show ?case by simp
qed

section \<open>Rate limits\<close>

text \<open>A rate limit is a window, not an exhaustion. After a rate-limited snapshot of an account that is
  not waiting for re-authentication, the account is unavailable before its retry-after has elapsed
  since the observation; from then on its snapshot reads AVAILABLE with the recorded figures, and
  only an OPEN breaker keeps it from being routed to.\<close>

theorem rate_limit_window:
  assumes "sn_State s = StateRateLimited" "0 < sn_RetryAfter s" "sn_ObservedAt s \<noteq> zero_time"
    and "\<forall>cur. lookup m (sn_Account s) = Some cur \<longrightarrow> sn_State (as_snapshot cur) \<noteq> StateAuthRequired"
  shows "let m' = Apply now s m; aid = sn_Account s
         in (t - sn_ObservedAt s < sn_RetryAfter s \<longrightarrow> \<not> fst (IsAvailable t aid m')) \<and>
            (sn_RetryAfter s \<le> t - sn_ObservedAt s \<longrightarrow>
               fst (Snapshot_of t aid m') = s\<lparr>sn_State := StateAvailable\<rparr> \<and>
               (fst (IsAvailable t aid m') \<longleftrightarrow> fst (BreakerState_of t aid m') \<noteq> BreakerOpen))"
proof -
  obtain cur where cur: "lookup (Apply now s m) (sn_Account s) = Some cur" "as_snapshot cur = s"
    using assms
    by (auto simp: Apply_def applyLocked_def Let_def apply_account_def zero_account_def fresh_account_def
        blank_snapshot_def split: option.splits)
  have "fst (effectiveLocked cfg t cur) = (if sn_RetryAfter s \<le> t - sn_ObservedAt s then s\<lparr>sn_State := StateAvailable\<rparr> else s)" for cfg
    using assms cur by (simp add: effectiveLocked_def Let_def)
  then show ?thesis
    using available_iff [OF cur(1)] cur(1) assms(1)
    by (auto simp: Let_def BreakerState_of_def Snapshot_of_def case_prod_unfold IsRoutable_def)
qed

definition limited_snapshot :: Snapshot where
  "limited_snapshot =
     (blank_snapshot demo_account StateRateLimited ConfExact)\<lparr>sn_Remaining := Some 900, sn_Limit := Some 1000,
        sn_RetryAfter := 30, sn_ObservedAt := 100\<rparr>"

theorem rate_limit_window_witness:
  "sn_RetryAfter limited_snapshot \<le> 140 - sn_ObservedAt limited_snapshot \<and>
   fst (Snapshot_of 140 demo_account (Apply 100 limited_snapshot (New_quota DefaultQuotaConfig)))
     = limited_snapshot\<lparr>sn_State := StateAvailable\<rparr> \<and>
   \<not> fst (IsAvailable 120 demo_account (Apply 100 limited_snapshot (New_quota DefaultQuotaConfig)))"
proof -
  have "lookup (New_quota DefaultQuotaConfig) k = None" for k by (simp add: lookup_def New_quota_def)
  then show ?thesis
    using rate_limit_window [of limited_snapshot "New_quota DefaultQuotaConfig" 100 140]
      rate_limit_window [of limited_snapshot "New_quota DefaultQuotaConfig" 100 120]
    by (simp add: limited_snapshot_def blank_snapshot_def Let_def)
qed

section \<open>Explanations and displays\<close>

text \<open>The explanation agrees with the decision: \<open>WhyUnavailable\<close> is empty exactly for the accounts that
  \<open>IsAvailable\<close> admits at the same instant.\<close>

theorem why_agrees_with_available:
  "fst (WhyUnavailable t aid m) = '''' \<longleftrightarrow> fst (IsAvailable t aid m)"
proof (cases "lookup m aid")
  case (Some cur)
  obtain eff cur' where e: "effectiveLocked (qm_cfg m) t cur = (eff, cur')" by fastforce
  have "why_account eff cur' = '''' \<longleftrightarrow> IsRoutable (sn_State eff) \<and> as_breaker cur' \<noteq> BreakerOpen"
    by (cases "sn_State eff"; cases "as_breaker cur'") (simp_all add: why_account_def IsRoutable_def)
  with Some e show ?thesis by (simp add: WhyUnavailable_def available_iff)
qed (simp add: WhyUnavailable_def IsAvailable_def)

lemma dropWhile_rev_prefix: "prefix (rev (dropWhile P (rev s))) s"
  by (metis suffix_dropWhile suffix_to_prefix rev_rev_ident)

lemma trimZero_prefix: "prefix (trimZero s) s"
  using dropWhile_rev_prefix [of "\<lambda>c. c = CHR ''.''" "rev (dropWhile (\<lambda>c. c = CHR ''0'') (rev s))"]
    dropWhile_rev_prefix [of "\<lambda>c. c = CHR ''0''" s]
  unfolding trimZero_def by (auto intro: prefix_order.trans)

lemma trimZero_hd: "hd (trimZero s @ [c]) = hd s \<or> hd (trimZero s @ [c]) = c"
  using trimZero_prefix [of s] by (cases "trimZero s") (auto simp: prefix_def)

lemma fmt_fixed_tilde: "hd (fmt_fixed k v) \<noteq> CHR ''~''"
  using hd_fmt_fixed [of k v] digit_char_neq [of _ "CHR ''~''"] by auto

lemma fmt_fixed_0_no_dot: "CHR ''.'' \<notin> set (fmt_fixed 0 v)"
proof -
  have "CHR ''.'' \<notin> set (show_nat n)" for n
  proof (induction n rule: show_nat.induct)
    case (1 n)
    have "digit_char d \<noteq> CHR ''.''" if "d < 10" for d using of_char_digit [OF that] by auto
    with 1 show ?case by (auto simp: show_nat.simps [of n] dest: sym)
  qed
  then show ?thesis by (simp add: fmt_fixed_def Let_def)
qed

lemma formatCount_tilde: "hd (formatCount v) \<noteq> CHR ''~''"
proof -
  have "hd (trimZero (fmt_fixed 2 x) @ [c]) \<noteq> CHR ''~''" if "c \<noteq> CHR ''~''" for x c
    using trimZero_hd [of "fmt_fixed 2 x" c] fmt_fixed_tilde [of 2 x] that by metis
  then show ?thesis
    using fmt_fixed_tilde [of 0 v]
    by (simp add: formatCount_def trimZero_def [of "fmt_fixed 0 v"] fmt_fixed_0_no_dot)
qed

text \<open>An estimate is never displayed as an exact figure: the rendering of a snapshot's remaining quota
  starts with a tilde exactly when the figure is present and its confidence is ESTIMATED or
  INFERRED.\<close>

theorem estimates_are_marked:
  "hd (FormatRemaining s) = CHR ''~'' \<longleftrightarrow>
     (\<exists>v. sn_Remaining s = Some v) \<and> (sn_Confidence s = ConfEstimated \<or> sn_Confidence s = ConfInferred)"
  by (cases "sn_Remaining s") (auto simp: FormatRemaining_def format_figure_def formatCount_tilde)

lemma digits_loop_show_nat: "0 < n \<Longrightarrow> digits_loop n acc = show_nat n @ acc"
proof (induction n acc rule: digits_loop.induct)
  case (1 n acc)
  have z: "digits_loop 0 a = a" for a by (simp add: digits_loop.simps)
  show ?case
  proof (cases "n < 10")
    case True
    with 1 show ?thesis by (simp add: digits_loop.simps [of n] show_nat.simps [of n] z)
  next
    case False
    with 1 show ?thesis by (simp add: digits_loop.simps [of n] show_nat.simps [of n])
  qed
qed

text \<open>The package's own integer printer is \<^verbatim>\<open>fmt.Sprintf("%d")\<close>.\<close>

lemma show_nat_0: "show_nat 0 = ''0''"
  by code_simp

lemma itoa_fmt_int: "itoa n = fmt_int n"
  by (simp add: itoa_def fmt_int_def Let_def digits_loop_show_nat show_nat_0)

end
