(* ===== verification/Budget_Valid.thy ===== *)
theory Budget_Valid
  imports Budget
begin

text \<open>
  The correctness of the budget controller: spending windows as sums, the decision against its
  specification, checked sequences of spends, and the summary.
\<close>

section \<open>Spend as a sum\<close>

definition total :: "(UsageRecord \<Rightarrow> bool) \<Rightarrow> UsageRecord list \<Rightarrow> USD" where
  "total P rs = sum_list (map ur_CostUSD (filter P rs))"

definition paid_for :: "Scope \<Rightarrow> UsageRecord \<Rightarrow> bool" where
  "paid_for scope r \<longleftrightarrow> \<not> ur_Included r \<and> (sc_ProviderType scope = no_provider \<or> ur_ProviderType r = sc_ProviderType scope)"

definition today :: "time \<Rightarrow> UsageRecord \<Rightarrow> bool" where
  "today now r \<longleftrightarrow> startOfDay now \<le> ur_At r \<and> ur_At r \<le> now"

definition this_month :: "time \<Rightarrow> UsageRecord \<Rightarrow> bool" where
  "this_month now r \<longleftrightarrow> startOfMonth now \<le> ur_At r \<and> ur_At r \<le> now"

definition for_project :: "Scope \<Rightarrow> UsageRecord \<Rightarrow> bool" where
  "for_project scope r \<longleftrightarrow> sc_ProjectID scope \<noteq> '''' \<and> ur_ProjectID r = sc_ProjectID scope"

definition for_task :: "Scope \<Rightarrow> UsageRecord \<Rightarrow> bool" where
  "for_task scope r \<longleftrightarrow> sc_TaskID scope \<noteq> '''' \<and> ur_TaskID r = sc_TaskID scope"

lemma total_simps [simp]:
  "total P [] = 0"
  "total P (r # rs) = (if P r then ur_CostUSD r else 0) + total P rs"
  "total P (rs @ rs') = total P rs + total P rs'"
  by (simp_all add: total_def)

lemma spend_step_eq:
  "spend_step now scope r (a, b, c, d) =
     (a + (if paid_for scope r \<and> today now r then ur_CostUSD r else 0),
      b + (if paid_for scope r \<and> this_month now r then ur_CostUSD r else 0),
      c + (if paid_for scope r \<and> today now r \<and> for_project scope r then ur_CostUSD r else 0),
      d + (if paid_for scope r \<and> for_task scope r then ur_CostUSD r else 0))"
proof (cases "paid_for scope r")
  case True
  then have "\<not> ur_Included r" "(sc_ProviderType scope \<noteq> no_provider \<and> ur_ProviderType r \<noteq> sc_ProviderType scope) = False"
    by (auto simp: paid_for_def)
  with True show ?thesis
    unfolding spend_step_def today_def this_month_def for_project_def for_task_def Let_def
    by (simp only: prod.case if_False simp_thms prod.inject if_distrib [of "\<lambda>x. _ + x"] add_0_right refl)
next
  case False
  then show ?thesis by (auto simp: spend_step_def paid_for_def)
qed

lemma Spend_fold:
  "fold (spend_step now scope) rs (a, b, c, d) =
     (a + total (\<lambda>r. paid_for scope r \<and> today now r) rs,
      b + total (\<lambda>r. paid_for scope r \<and> this_month now r) rs,
      c + total (\<lambda>r. paid_for scope r \<and> today now r \<and> for_project scope r) rs,
      d + total (\<lambda>r. paid_for scope r \<and> for_task scope r) rs)"
proof (induction rs arbitrary: a b c d)
  case (Cons r rs)
  show ?case unfolding fold_simps comp_apply spend_step_eq Cons.IH by (simp add: add.assoc)
qed simp

lemma Spend_eq:
  "Spend now scope c =
     (total (\<lambda>r. paid_for scope r \<and> today now r) (bc_records c),
      total (\<lambda>r. paid_for scope r \<and> this_month now r) (bc_records c),
      total (\<lambda>r. paid_for scope r \<and> today now r \<and> for_project scope r) (bc_records c),
      total (\<lambda>r. paid_for scope r \<and> for_task scope r) (bc_records c))"
  by (simp add: Spend_def Spend_fold)

section \<open>The decision\<close>

lemma decideOne_allowed:
  "de_Allowed (decideOne name limit rem amount paid hard sf) \<longleftrightarrow> \<not> paid \<or> (0 < rem \<and> amount \<le> rem)"
  by (simp add: decideOne_def Let_def)

lemma decideOne_unpaid:
  "de_Allowed (decideOne name limit rem amount False hard sf) \<and> \<not> de_HardBlocked (decideOne name limit rem amount False hard sf)"
  by (simp add: decideOne_def Let_def)

lemma decideOne_hard:
  "de_HardBlocked (decideOne name limit rem amount paid hard sf)
     \<longleftrightarrow> hard \<and> \<not> de_Allowed (decideOne name limit rem amount paid hard sf)"
  by (simp add: decideOne_def Let_def)

lemma worst_candidate_None: "worst_candidate cs best = None \<longleftrightarrow> cs = [] \<and> best = None"
  by (induction cs best rule: worst_candidate.induct) (auto split: option.splits)

text \<open>The worst candidate has the smallest remaining amount, so what fits under it fits under all.\<close>

lemma worst_candidate_fits:
  assumes "worst_candidate cs best = Some (name, limit, rem)"
  shows "0 < rem \<and> amount \<le> rem \<longleftrightarrow>
     (\<forall>(n, l, s) \<in> set cs. 0 < l - s \<and> amount \<le> l - s) \<and>
     (\<forall>n l r. best = Some (n, l, r) \<longrightarrow> 0 < r \<and> amount \<le> r)"
  using assms
proof (induction cs best rule: worst_candidate.induct)
  case (2 n l s cs best)
  show ?case
  proof (cases best)
    case None
    with 2 show ?thesis by auto
  next
    case (Some b)
    obtain bn bl br where b: "b = (bn, bl, br)" by (cases b)
    show ?thesis
    proof (cases "l - s < br")
      case True
      with 2(2)[OF Some b [symmetric] refl] 2(4) Some b show ?thesis by auto
    next
      case False
      with 2(3)[OF Some b [symmetric] refl] 2(4) Some b show ?thesis by auto
    qed
  qed
qed simp

text \<open>Every limit that applies to a spend, with what counts against it.\<close>

definition applicable :: "time \<Rightarrow> Scope \<Rightarrow> Controller \<Rightarrow> (USD \<times> USD) set" where
  "applicable now scope c =
     {(l, s) |n l s. (n, l, s) \<in> set (candidates (bc_limits c) scope (Spend now scope c))} \<union>
     (if sc_ProviderType scope = ProviderImage \<and> 0 < li_ImageDailyUSD (bc_limits c)
      then {(li_ImageDailyUSD (bc_limits c), fst (Spend now scope c))} else {})"

lemma CanAfford_allowed:
  "de_Allowed (CanAfford now scope amount True hard c) \<longleftrightarrow>
     (\<forall>(l, s) \<in> applicable now scope c. s < l \<and> s + amount \<le> l)"
proof (cases "worst_candidate (candidates (bc_limits c) scope (Spend now scope c)) None")
  case None
  then have "candidates (bc_limits c) scope (Spend now scope c) = []" by (simp add: worst_candidate_None)
  with None show ?thesis
    by (auto simp: CanAfford_def Let_def applicable_def decideOne_allowed algebra_simps)
next
  case (Some w)
  obtain name limit rem where w: "w = (name, limit, rem)" by (cases w)
  have "0 < rem \<and> amount \<le> rem \<longleftrightarrow>
     (\<forall>(n, l, s) \<in> set (candidates (bc_limits c) scope (Spend now scope c)). 0 < l - s \<and> amount \<le> l - s)"
    using worst_candidate_fits [OF Some [unfolded w]] by simp
  with Some w show ?thesis
    by (auto simp: CanAfford_def Let_def applicable_def decideOne_allowed algebra_simps)
qed

text \<open>The limits written out: what is spent so far under a limit, and whether a spend stays within it. A limit that
  is not positive is no limit.\<close>

definition spent :: "Scope \<Rightarrow> (UsageRecord \<Rightarrow> bool) \<Rightarrow> Controller \<Rightarrow> USD" where
  "spent scope P c =
     total (\<lambda>r. \<not> ur_Included r \<and> (sc_ProviderType scope = no_provider \<or> ur_ProviderType r = sc_ProviderType scope) \<and> P r) (bc_records c)"

definition fits :: "USD \<Rightarrow> USD \<Rightarrow> USD \<Rightarrow> bool" where
  "fits amount limit so_far \<longleftrightarrow> limit \<le> 0 \<or> so_far < limit \<and> so_far + amount \<le> limit"

lemma Spend_spent:
  "Spend now scope c =
     (spent scope (today now) c, spent scope (this_month now) c,
      spent scope (\<lambda>r. today now r \<and> for_project scope r) c, spent scope (for_task scope) c)"
  by (simp add: Spend_eq spent_def paid_for_def)

lemma applicable_fits:
  "(\<forall>(l, s) \<in> applicable now scope c. s < l \<and> s + amount \<le> l) \<longleftrightarrow>
     fits amount (li_GlobalDailyUSD (bc_limits c)) (spent scope (today now) c) \<and>
     fits amount (li_GlobalMonthlyUSD (bc_limits c)) (spent scope (this_month now) c) \<and>
     (sc_ProjectID scope = '''' \<or> (case li_ProjectDailyUSD (bc_limits c) (sc_ProjectID scope) of None \<Rightarrow> True
        | Some v \<Rightarrow> fits amount v (spent scope (\<lambda>r. today now r \<and> for_project scope r) c))) \<and>
     (sc_TaskID scope = '''' \<or> fits amount (LookupTaskLimit (bc_limits c) (sc_TaskID scope) (sc_TaskRisk scope)) (spent scope (for_task scope) c)) \<and>
     (sc_ProviderType scope \<noteq> ProviderImage \<or> fits amount (li_ImageDailyUSD (bc_limits c)) (spent scope (today now) c))"
proof -
  have pick: "(\<forall>(l, s) \<in> {(l, s) |n l s. (n, l, s) \<in> S}. Q l s) \<longleftrightarrow> (\<forall>x \<in> S. case x of (n, l, s) \<Rightarrow> Q l s)"
    for S :: "(string \<times> USD \<times> USD) set" and Q by auto
  have one: "(\<forall>x \<in> set (if 0 < l then [(n, l, s)] else []). case x of (n, l, s) \<Rightarrow> s < l \<and> s + amount \<le> l) \<longleftrightarrow> fits amount l s"
    for n :: string and l s :: USD by (auto simp: fits_def)
  have opt: "(\<forall>x \<in> set (if p then (case v of None \<Rightarrow> [] | Some v \<Rightarrow> if 0 < v then [(n, v, s)] else []) else []).
      case x of (n, l, s) \<Rightarrow> s < l \<and> s + amount \<le> l) \<longleftrightarrow> \<not> p \<or> (case v of None \<Rightarrow> True | Some v \<Rightarrow> fits amount v s)"
    for n :: string and v :: "USD option" and s p by (cases p; cases v) (auto simp: fits_def)
  have cond: "(\<forall>x \<in> set (if p \<and> 0 < l then [(n, l, s)] else []). case x of (n, l, s) \<Rightarrow> s < l \<and> s + amount \<le> l) \<longleftrightarrow> \<not> p \<or> fits amount l s"
    for n :: string and l s :: USD and p by (auto simp: fits_def)
  have image: "(\<forall>(l, s) \<in> (if p \<and> 0 < l then {(l, s)} else {}). s < l \<and> s + amount \<le> l) \<longleftrightarrow> \<not> p \<or> fits amount l s" for l s :: USD and p
    by (cases p; cases "0 < l") (simp_all add: fits_def)
  show ?thesis
    unfolding applicable_def Spend_spent ball_Un pick candidates_def prod.case fst_conv Let_def set_append one opt cond image
    by (simp only: not_not conj_assoc)
qed

text \<open>C32: A paid spend passes a hard check exactly when it stays within every budget of its scope, each of
  which counts the paid records of the scope's provider type: the global daily and the global
  monthly limit, the daily limit of the project, the limit of the task (its own or else the one of its risk
  level), and for an image provider the daily image limit. Below each limit that is set something must be left, and the
  spend must not take it above. A hard check that does not pass blocks, and only such a check does.
  So looking only at the most restrictive limit loses nothing.\<close>

theorem allowed_iff_within_every_limit:
  "let L = bc_limits c; p = sc_ProjectID scope; t = sc_TaskID scope in
   (de_Allowed (CanAfford now scope amount True True c) \<longleftrightarrow>
      fits amount (li_GlobalDailyUSD L) (spent scope (\<lambda>r. startOfDay now \<le> ur_At r \<and> ur_At r \<le> now) c) \<and>
      fits amount (li_GlobalMonthlyUSD L) (spent scope (\<lambda>r. startOfMonth now \<le> ur_At r \<and> ur_At r \<le> now) c) \<and>
      (p = '''' \<or> (case li_ProjectDailyUSD L p of None \<Rightarrow> True
         | Some v \<Rightarrow> fits amount v (spent scope (\<lambda>r. startOfDay now \<le> ur_At r \<and> ur_At r \<le> now \<and> ur_ProjectID r = p) c))) \<and>
      (t = '''' \<or> (case li_TaskUSD L t of Some v \<Rightarrow> fits amount v (spent scope (\<lambda>r. ur_TaskID r = t) c)
         | None \<Rightarrow> (case li_TaskDefaultUSD L (sc_TaskRisk scope) of Some v \<Rightarrow> fits amount v (spent scope (\<lambda>r. ur_TaskID r = t) c)
             | None \<Rightarrow> True))) \<and>
      (sc_ProviderType scope = ProviderImage \<longrightarrow>
         fits amount (li_ImageDailyUSD L) (spent scope (\<lambda>r. startOfDay now \<le> ur_At r \<and> ur_At r \<le> now) c))) \<and>
   de_HardBlocked (CanAfford now scope amount True hard c) = (hard \<and> \<not> de_Allowed (CanAfford now scope amount True True c))"
proof -
  have e: "today now = (\<lambda>r. startOfDay now \<le> ur_At r \<and> ur_At r \<le> now)" "this_month now = (\<lambda>r. startOfMonth now \<le> ur_At r \<and> ur_At r \<le> now)"
    by (simp_all add: today_def this_month_def fun_eq_iff)
  let ?L = "bc_limits c" and ?p = "sc_ProjectID scope" and ?t = "sc_TaskID scope"
  have p: "?p = '''' \<or> (case li_ProjectDailyUSD ?L ?p of None \<Rightarrow> True
        | Some v \<Rightarrow> fits amount v (spent scope (\<lambda>r. today now r \<and> for_project scope r) c)) \<longleftrightarrow>
      ?p = '''' \<or> (case li_ProjectDailyUSD ?L ?p of None \<Rightarrow> True
        | Some v \<Rightarrow> fits amount v (spent scope (\<lambda>r. startOfDay now \<le> ur_At r \<and> ur_At r \<le> now \<and> ur_ProjectID r = ?p) c))"
    by (cases "?p = ''''") (simp_all add: today_def for_project_def split: option.split)
  have "fits amount 0 s" for s by (simp add: fits_def)
  then have t: "?t = '''' \<or> fits amount (LookupTaskLimit ?L ?t (sc_TaskRisk scope)) (spent scope (for_task scope) c) \<longleftrightarrow>
      ?t = '''' \<or> (case li_TaskUSD ?L ?t of Some v \<Rightarrow> fits amount v (spent scope (\<lambda>r. ur_TaskID r = ?t) c)
         | None \<Rightarrow> (case li_TaskDefaultUSD ?L (sc_TaskRisk scope) of Some v \<Rightarrow> fits amount v (spent scope (\<lambda>r. ur_TaskID r = ?t) c)
             | None \<Rightarrow> True))"
    by (cases "?t = ''''") (simp_all add: for_task_def [abs_def] LookupTaskLimit_def split: option.split)
  have block: "de_HardBlocked (CanAfford now scope amount True hard c) = (hard \<and> \<not> de_Allowed (CanAfford now scope amount True True c))"
    by (cases hard) (simp_all add: CanAfford_def Let_def decideOne_hard decideOne_allowed split: option.splits prod.splits)
  show ?thesis
    unfolding Let_def block unfolding CanAfford_allowed applicable_fits p t unfolding e by (simp only: imp_conv_disj simp_thms)
qed
text \<open>Usage covered by a subscription is always allowed and never hard-blocked, whatever has been spent
  and however tight the limits are; and recording it changes none of the four spending sums.\<close>

theorem included_never_blocked:
  "de_Allowed (CanAfford now scope amount False hard c) \<and>
   \<not> de_HardBlocked (CanAfford now scope amount False hard c) \<and>
   Spend now scope (Record t (r\<lparr>ur_Included := True\<rparr>) c) = Spend now scope c"
  by (simp add: CanAfford_def Let_def decideOne_unpaid Spend_eq Record_def paid_for_def
      split: option.splits prod.splits)

text \<open>A soft check reports no soft signal: where a hard check blocks, it refuses without either flag.\<close>

lemma soft_check_refuses:
  "\<not> de_Allowed (CanAfford now scope amount True True c) \<Longrightarrow>
     \<not> de_Allowed (CanAfford now scope amount True False c) \<and>
     \<not> de_SoftSignal (CanAfford now scope amount True False c)"
  by (auto simp: CanAfford_def Let_def decideOne_def split: option.splits prod.splits if_splits)

section \<open>Checked sequences of spends\<close>

text \<open>
  A disciplined caller: it records a paid usage only after an allowed check of the same scope and
  amount, and subscription-included usage at any time. The clock never runs backwards.
\<close>

inductive checked_run :: "Limits \<Rightarrow> Controller \<Rightarrow> time \<Rightarrow> bool" for limits where
  start: "checked_run limits (New_budget limits) t"
| tick: "checked_run limits c t \<Longrightarrow> t \<le> t' \<Longrightarrow> checked_run limits c t'"
| paid: "checked_run limits c t \<Longrightarrow> de_Allowed (CanAfford t scope amount True hard c) \<Longrightarrow> 0 \<le> amount \<Longrightarrow>
     sc_ProviderType scope \<noteq> no_provider \<Longrightarrow> ur_CostUSD r = amount \<Longrightarrow> \<not> ur_Included r \<Longrightarrow> ur_At r = t \<Longrightarrow>
     ur_ProviderType r = sc_ProviderType scope \<Longrightarrow> ur_ProjectID r = sc_ProjectID scope \<Longrightarrow>
     ur_TaskID r = sc_TaskID scope \<Longrightarrow> checked_run limits (Record t r c) t"
| included: "checked_run limits c t \<Longrightarrow> ur_Included r \<Longrightarrow> ur_At r \<le> t \<Longrightarrow> checked_run limits (Record t r c) t"

definition paid_day :: "time \<Rightarrow> ProviderType \<Rightarrow> (UsageRecord \<Rightarrow> bool) \<Rightarrow> Controller \<Rightarrow> USD" where
  "paid_day now pt P c =
     total (\<lambda>r. \<not> ur_Included r \<and> ur_ProviderType r = pt \<and> today now r \<and> P r) (bc_records c)"

definition records_past :: "time \<Rightarrow> Controller \<Rightarrow> bool" where
  "records_past t c \<longleftrightarrow> (\<forall>r \<in> set (bc_records c). ur_At r \<le> t \<and> (\<not> ur_Included r \<longrightarrow> 0 \<le> ur_CostUSD r))"

lemma startOfDay_mono: "t \<le> t' \<Longrightarrow> startOfDay t \<le> startOfDay t'"
  by (simp add: startOfDay_def minus_mod_eq_mult_div zdiv_mono1 del: mult_minus_right)

lemma startOfDay_le: "startOfDay t \<le> t"
  by (simp add: startOfDay_def)

lemma total_mono:
  "\<forall>r \<in> set rs. P r \<longrightarrow> Q r \<Longrightarrow> \<forall>r \<in> set rs. Q r \<longrightarrow> 0 \<le> ur_CostUSD r \<Longrightarrow> total P rs \<le> total Q rs"
  by (induction rs) (auto intro: add_mono add_increasing)

lemma total_cong: "(\<And>r. r \<in> set rs \<Longrightarrow> P r = Q r) \<Longrightarrow> total P rs = total Q rs"
  unfolding total_def by (metis filter_cong)

text \<open>When the clock advances, the spend of the day can only shrink.\<close>

lemma paid_day_tick:
  assumes "records_past t c" "t \<le> t'"
  shows "paid_day t' pt P c \<le> paid_day t pt P c"
  unfolding paid_day_def
proof (rule total_mono)
  show "\<forall>r\<in>set (bc_records c). \<not> ur_Included r \<and> ur_ProviderType r = pt \<and> today t' r \<and> P r \<longrightarrow>
          \<not> ur_Included r \<and> ur_ProviderType r = pt \<and> today t r \<and> P r"
    using assms startOfDay_mono [OF assms(2)] by (fastforce simp: today_def records_past_def)
qed (use assms in \<open>auto simp: records_past_def\<close>)

definition recorded :: "time \<Rightarrow> UsageRecord \<Rightarrow> UsageRecord" where
  "recorded now r =
     (let r = (if IsZero (ur_At r) then r\<lparr>ur_At := now\<rparr> else r)
      in if ur_ProviderType r = no_provider then r\<lparr>ur_ProviderType := ProviderCoding\<rparr> else r)"

lemma Record_records [simp]:
  "bc_records (Record now r c) = bc_records c @ [recorded now r]" "bc_limits (Record now r c) = bc_limits c"
  by (simp_all add: Record_def recorded_def Let_def)

lemma recorded_fields [simp]:
  "ur_Included (recorded now r) = ur_Included r" "ur_CostUSD (recorded now r) = ur_CostUSD r"
  "ur_At (recorded now r) = (if IsZero (ur_At r) then now else ur_At r)"
  by (simp_all add: recorded_def Let_def)

lemma recorded_id: "ur_At r = t \<Longrightarrow> ur_ProviderType r \<noteq> no_provider \<Longrightarrow> recorded t r = r"
  by (simp add: recorded_def Let_def)

lemma checked_run_past: "checked_run limits c t \<Longrightarrow> records_past t c \<and> bc_limits c = fix_fraction limits"
proof (induction rule: checked_run.induct)
  case (start t)
  then show ?case by (simp add: records_past_def New_budget_def)
next
  case (tick c t t')
  then show ?case by (auto simp: records_past_def)
qed (auto simp: records_past_def)

lemma limits_fix_fraction [simp]:
  "li_GlobalDailyUSD (fix_fraction l) = li_GlobalDailyUSD l"
  "li_ImageDailyUSD (fix_fraction l) = li_ImageDailyUSD l"
  "li_ProjectDailyUSD (fix_fraction l) = li_ProjectDailyUSD l"
  by (simp_all add: fix_fraction_def)

text \<open>The limits on the day's spend, as the guard of the paid step reads them.\<close>

lemma paid_day_Spend:
  assumes "sc_ProviderType scope \<noteq> no_provider"
  shows "fst (Spend t scope c) = paid_day t (sc_ProviderType scope) (\<lambda>_. True) c"
    and "sc_ProjectID scope \<noteq> '''' \<Longrightarrow>
      fst (snd (snd (Spend t scope c))) = paid_day t (sc_ProviderType scope) (\<lambda>r. ur_ProjectID r = sc_ProjectID scope) c"
  using assms
  by (auto simp: Spend_eq paid_day_def paid_for_def for_project_def intro!: arg_cong [where f = "\<lambda>P. total P _"])

lemma applicable_daily:
  assumes "sc_ProviderType scope = pt" "pt \<noteq> no_provider" "0 < li_GlobalDailyUSD (bc_limits c)"
  shows "(li_GlobalDailyUSD (bc_limits c), paid_day t pt (\<lambda>_. True) c) \<in> applicable t scope c"
proof -
  have "(''global daily'', li_GlobalDailyUSD (bc_limits c), fst (Spend t scope c))
          \<in> set (candidates (bc_limits c) scope (Spend t scope c))"
    unfolding candidates_def case_prod_unfold if_P [OF assms(3)] by (simp only: append_Cons list.set insertI1)
  then have "(li_GlobalDailyUSD (bc_limits c), fst (Spend t scope c)) \<in> applicable t scope c"
    unfolding applicable_def by blast
  with assms(1,2) show ?thesis by (simp add: paid_day_Spend(1))
qed

lemma applicable_image:
  assumes "sc_ProviderType scope = ProviderImage" "0 < li_ImageDailyUSD (bc_limits c)"
  shows "(li_ImageDailyUSD (bc_limits c), paid_day t ProviderImage (\<lambda>_. True) c) \<in> applicable t scope c"
  using assms paid_day_Spend(1) [of scope t c] by (simp add: applicable_def)

lemma applicable_project:
  assumes "sc_ProviderType scope = pt" "pt \<noteq> no_provider" "sc_ProjectID scope = p" "p \<noteq> ''''"
    and "li_ProjectDailyUSD (bc_limits c) p = Some v" "0 < v"
  shows "(v, paid_day t pt (\<lambda>r. ur_ProjectID r = p) c) \<in> applicable t scope c"
proof -
  have "(''project daily'', v, fst (snd (snd (Spend t scope c))))
          \<in> set (candidates (bc_limits c) scope (Spend t scope c))"
    using assms(3-6) by (simp add: candidates_def case_prod_unfold)
  then have "(v, fst (snd (snd (Spend t scope c)))) \<in> applicable t scope c"
    unfolding applicable_def by blast
  with assms(1-4) show ?thesis by (simp add: paid_day_Spend(2))
qed

lemma paid_day_Record:
  assumes "\<not> ur_Included r" "ur_At r = t" "ur_ProviderType r \<noteq> no_provider"
  shows "paid_day t pt P (Record t r c) =
    paid_day t pt P c + (if ur_ProviderType r = pt \<and> P r then ur_CostUSD r else 0)"
  using assms by (simp add: paid_day_def recorded_id today_def startOfDay_le)

lemma paid_day_included: "ur_Included r \<Longrightarrow> paid_day t pt P (Record t r c) = paid_day t pt P c"
  by (simp add: paid_day_def)

text \<open>A limit on the day's spend of a kind of record is kept by every checked run, when every check of such
  a record consults it.\<close>

lemma checked_run_day:
  assumes "checked_run limits c t" and "0 < L"
    and guard: "\<And>c t scope r. bc_limits c = fix_fraction limits \<Longrightarrow> sc_ProviderType scope = pt \<Longrightarrow>
      ur_ProjectID r = sc_ProjectID scope \<Longrightarrow> P r \<Longrightarrow> (L, paid_day t pt P c) \<in> applicable t scope c"
    and pt: "pt \<noteq> no_provider"
  shows "paid_day t pt P c \<le> L"
  using assms(1)
proof (induction rule: checked_run.induct)
  case (start t)
  then show ?case using assms(2) by (simp add: paid_day_def New_budget_def)
next
  case (tick c t t')
  then show ?case using paid_day_tick [of t c t' pt P] checked_run_past [of limits c t] by force
next
  case (paid c t scope amount hard r)
  show ?case
  proof (cases "ur_ProviderType r = pt \<and> P r")
    case True
    then have "(L, paid_day t pt P c) \<in> applicable t scope c"
      using paid checked_run_past by (intro guard [of c scope r]) auto
    with paid have "paid_day t pt P c + amount \<le> L" by (auto simp: CanAfford_allowed)
    with paid True show ?thesis using pt by (simp add: paid_day_Record)
  next
    case False
    with paid show ?thesis by (auto simp: paid_day_Record)
  qed
qed (simp add: paid_day_included)

text \<open>C27: A caller that records paid usage only after an allowed check keeps three daily budgets: at any
  time of any such run, the paid coding spend of the day is within the global daily limit, the paid
  image spend within the image limit and the paid coding spend of a project within
  the project's limit, whenever that limit is set. Each limit bounds one provider type only: coding and image
  spend together may exceed the global limit (\<open>image_spend_invisible\<close>).\<close>

theorem checked_spend_within_daily_limits:
  assumes "checked_run limits c t"
  shows "(0 < li_GlobalDailyUSD limits \<longrightarrow> paid_day t ProviderCoding (\<lambda>_. True) c \<le> li_GlobalDailyUSD limits) \<and>
         (0 < li_ImageDailyUSD limits \<longrightarrow> paid_day t ProviderImage (\<lambda>_. True) c \<le> li_ImageDailyUSD limits) \<and>
         (\<forall>p v. p \<noteq> '''' \<and> li_ProjectDailyUSD limits p = Some v \<and> 0 < v \<longrightarrow>
            paid_day t ProviderCoding (\<lambda>r. ur_ProjectID r = p) c \<le> v)"
proof (intro conjI impI allI)
  assume L: "0 < li_GlobalDailyUSD limits"
  show "paid_day t ProviderCoding (\<lambda>_. True) c \<le> li_GlobalDailyUSD limits"
    by (rule checked_run_day [OF assms L]) (use L applicable_daily [where pt = ProviderCoding] in \<open>metis limits_fix_fraction(1) ProviderType.distinct(3)\<close>, simp)
next
  assume L: "0 < li_ImageDailyUSD limits"
  show "paid_day t ProviderImage (\<lambda>_. True) c \<le> li_ImageDailyUSD limits"
    by (rule checked_run_day [OF assms L]) (use L applicable_image in \<open>metis limits_fix_fraction(2)\<close>, simp)
next
  fix p v
  assume pv: "p \<noteq> '''' \<and> li_ProjectDailyUSD limits p = Some v \<and> 0 < v"
  then have L: "0 < v" by simp
  show "paid_day t ProviderCoding (\<lambda>r. ur_ProjectID r = p) c \<le> v"
    by (rule checked_run_day [OF assms L]) (use pv applicable_project in simp_all)
qed

definition demo_limits :: Limits where
  "demo_limits =
     \<lparr>li_GlobalDailyUSD = 20, li_GlobalMonthlyUSD = 300, li_ProjectDailyUSD = [''work-app'' \<mapsto> 5],
      li_TaskDefaultUSD = Map.empty, li_TaskUSD = Map.empty, li_ImageDailyUSD = 3,
      li_ImageMaxVariants = 4, li_SoftFraction = 4 / 5\<rparr>"

definition demo_scope :: Scope where
  "demo_scope = \<lparr>sc_ProjectID = ''work-app'', sc_TaskID = ''t1'', sc_TaskRisk = 2, sc_ProviderType = ProviderCoding\<rparr>"

definition demo_usage :: UsageRecord where
  "demo_usage =
     \<lparr>ur_Account = \<lparr>ac_Engine = ''alpha'', ac_Account = ''api''\<rparr>, ur_Engine = ''alpha'', ur_Model = ''pro'',
      ur_Tier = ''STANDARD'', ur_InputTokens = 1000, ur_OutputTokens = 200, ur_CachedTokens = 0,
      ur_ImageGens = 0, ur_CostUSD = 3, ur_Confidence = ConfEstimated, ur_Included = False,
      ur_ProviderType = ProviderCoding, ur_ProjectID = ''work-app'', ur_TaskID = ''t1'', ur_At = 50\<rparr>"

lemma demo_checked_run: "checked_run demo_limits (Record 50 demo_usage (New_budget demo_limits)) 50"
proof (rule checked_run.paid [where scope = demo_scope and amount = 3 and hard = True])
  show "checked_run demo_limits (New_budget demo_limits) 50" by (rule checked_run.start)
  show "de_Allowed (CanAfford 50 demo_scope 3 True True (New_budget demo_limits))" by code_simp
qed (simp_all add: demo_scope_def demo_usage_def)

theorem allowed_iff_within_every_limit_witness:
  "let c = Record 50 demo_usage (New_budget demo_limits)
   in de_HardBlocked (CanAfford 50 demo_scope 4 True True c) \<and> \<not> de_HardBlocked (CanAfford 50 demo_scope 4 True False c)"
proof -
  have "\<not> de_Allowed (CanAfford 50 demo_scope 4 True True (Record 50 demo_usage (New_budget demo_limits)))" by code_simp
  then show ?thesis
    using allowed_iff_within_every_limit [of "Record 50 demo_usage (New_budget demo_limits)" demo_scope 50 4 True]
      allowed_iff_within_every_limit [of "Record 50 demo_usage (New_budget demo_limits)" demo_scope 50 4 False]
    by (simp only: Let_def) blast
qed
theorem checked_spend_within_daily_limits_witness:
  "checked_run demo_limits (Record 50 demo_usage (New_budget demo_limits)) 50 \<and>
   paid_day 50 ProviderCoding (\<lambda>_. True) (Record 50 demo_usage (New_budget demo_limits)) \<le> 20 \<and>
   paid_day 50 ProviderCoding (\<lambda>r. ur_ProjectID r = ''work-app'') (Record 50 demo_usage (New_budget demo_limits)) \<le> 5"
  using checked_spend_within_daily_limits [OF demo_checked_run] demo_checked_run
  by (simp add: demo_limits_def)

text \<open>The provider type separates the global limit: a paid image record changes no sum a coding check reads.\<close>

lemma image_spend_invisible:
  assumes "sc_ProviderType scope = ProviderCoding" "ur_ProviderType r = ProviderImage"
  shows "Spend now scope (Record t r c) = Spend now scope c"
  using assms by (simp add: Spend_eq paid_for_def recorded_def Let_def)

section \<open>The summary\<close>

lemma summary_sums:
  "su_PaidCost (fold summary_step rs s) = su_PaidCost s + total (\<lambda>r. \<not> ur_Included r) rs"
  "su_IncludedCost (fold summary_step rs s) = su_IncludedCost s + total ur_Included rs"
  "su_Records (fold summary_step rs s) = su_Records s + int (length rs)"
  by (induction rs arbitrary: s) (simp_all add: summary_step_def)

definition cost_of :: "(string \<rightharpoonup> ProviderCost) \<Rightarrow> string \<Rightarrow> ProviderCost" where
  "cost_of m k = (case m k of Some p \<Rightarrow> p | None \<Rightarrow> zero_cost)"

lemma cost_of_empty: "pc_PaidCost (cost_of Map.empty k) = 0"
  by (simp add: cost_of_def zero_cost_def)

lemma cost_of_bucket:
  "pc_PaidCost (cost_of (bucket m key r) k) =
     pc_PaidCost (cost_of m k) + (if bucket_key key = k then boolUSD (\<not> ur_Included r) (ur_CostUSD r) else 0)"
  by (auto simp: cost_of_def bucket_def Let_def)

lemma summary_project:
  "pc_PaidCost (cost_of (su_PerProject (fold summary_step rs s)) k) =
     pc_PaidCost (cost_of (su_PerProject s) k) + total (\<lambda>r. \<not> ur_Included r \<and> bucket_key (ur_ProjectID r) = k) rs"
  by (induction rs arbitrary: s) (simp_all add: summary_step_def cost_of_bucket boolUSD_def)

lemma summary_engine:
  "pc_PaidCost (cost_of (su_PerEngine (fold summary_step rs s)) k) =
     pc_PaidCost (cost_of (su_PerEngine s) k) + total (\<lambda>r. \<not> ur_Included r \<and> bucket_key (ur_Engine r) = k) rs"
  by (induction rs arbitrary: s) (simp_all add: summary_step_def cost_of_bucket boolUSD_def)

lemma rank_coarsest: "rank (coarsest a b) = min (rank a) (rank b)"
  by (simp add: coarsest_def min_def)

lemma rank_le_4: "rank c \<le> 4"
  by (cases c) simp_all

lemma summary_conf:
  "rank (su_CoarsestConf (fold summary_step rs s)) = Min (insert (rank (su_CoarsestConf s)) (rank ` ur_Confidence ` set rs))"
proof (induction rs arbitrary: s)
  case (Cons r rs)
  have "Min (insert (min a b) A) = Min (insert a (insert b A))" if "finite A" for a b :: int and A
    using that by (cases "A = {}") (simp_all add: min.assoc)
  moreover have "rank (su_CoarsestConf (summary_step r s)) = min (rank (su_CoarsestConf s)) (rank (ur_Confidence r))"
    by (simp add: summary_step_def rank_coarsest)
  ultimately show ?case by (simp only: fold_simps comp_apply Cons.IH list.set image_insert finite_imageI List.finite_set)
qed simp

text \<open>The summary of a window is exact: the paid and the included cost are the sums over the records of
  the window, the total is their sum, the paid cost of a project or an engine is the sum over its
  records (a record with none counts under a dash), and the confidence of a non-empty window is the
  coarsest of its records, so an aggregate never looks more precise than any part of it.\<close>

theorem summary_exact:
  "let rs = filter (in_window from to) (bc_records c); s = Summary from to c
   in su_PaidCost s = total (\<lambda>r. \<not> ur_Included r) rs \<and>
      su_IncludedCost s = total ur_Included rs \<and>
      su_TotalCost s = total (\<lambda>_. True) rs \<and>
      su_Records s = int (length rs) \<and>
      pc_PaidCost (cost_of (su_PerProject s) k) = total (\<lambda>r. \<not> ur_Included r \<and> bucket_key (ur_ProjectID r) = k) rs \<and>
      pc_PaidCost (cost_of (su_PerEngine s) k) = total (\<lambda>r. \<not> ur_Included r \<and> bucket_key (ur_Engine r) = k) rs \<and>
      (if rs = [] then su_CoarsestConf s = ConfUnknown
       else rank (su_CoarsestConf s) = Min (rank ` ur_Confidence ` set rs))"
proof -
  have split: "total (\<lambda>_. True) xs = total ur_Included xs + total (\<lambda>r. \<not> ur_Included r) xs" for xs
    by (induction xs) simp_all
  have four: "Min (insert 4 A) = Min A" if "A \<noteq> {}" "finite A" "\<forall>x \<in> A. x \<le> 4" for A :: "int set"
    using that by (metis Min_in Min_insert min.absorb2)
  let ?rs = "filter (in_window from to) (bc_records c)"
  have "?rs \<noteq> [] \<Longrightarrow> Min (insert 4 (rank ` ur_Confidence ` set ?rs)) = Min (rank ` ur_Confidence ` set ?rs)"
    by (intro four) (auto simp: rank_le_4 filter_empty_conv)
  then show ?thesis
    unfolding Summary_def Let_def
    by (simp add: summary_sums summary_project summary_engine summary_conf split cost_of_empty
        del: set_filter)
qed

end
