(* ===== verification/Router_Valid.thy ===== *)
theory Router_Valid
  imports Router Quota_Valid Budget_Valid
begin

text \<open>
  The correctness of route selection. Reads of the quota manager at one instant do not influence each
  other, so the threaded scan is the filter of the catalog by one eligibility predicate; from this
  follow the soundness and completeness of the selection, its optimality within the preferred tier,
  the shape of the fallback chain and what the budget check guarantees, and does not.
\<close>

section \<open>Reads at one instant\<close>

definition same_at :: "time \<Rightarrow> Manager \<Rightarrow> Manager \<Rightarrow> bool" where
  "same_at t m m' \<longleftrightarrow> qm_cfg m' = qm_cfg m \<and>
     (\<forall>a. map_option (effectiveLocked (qm_cfg m) t) (lookup m' a)
            = map_option (effectiveLocked (qm_cfg m) t) (lookup m a))"

lemma effective_idem: "effectiveLocked cfg t (snd (effectiveLocked cfg t cur)) = effectiveLocked cfg t cur"
  by (simp add: effectiveLocked_def Let_def)

lemma same_at_refl [simp]: "same_at t m m"
  by (simp add: same_at_def)

lemma same_at_trans: "same_at t m m' \<Longrightarrow> same_at t m' m'' \<Longrightarrow> same_at t m m''"
  by (simp add: same_at_def)

lemma same_at_read: "same_at t m (snd (IsAvailable t a m))"
  by (auto simp: same_at_def IsAvailable_def effective_idem case_prod_unfold split: option.splits)

lemma same_at_results:
  assumes "same_at t m m'"
  shows "fst (IsAvailable t a m') = fst (IsAvailable t a m)"
    and "fst (WhyUnavailable t a m') = fst (WhyUnavailable t a m)"
    and "fst (Snapshot_of t a m') = fst (Snapshot_of t a m)"
proof -
  have cfg: "qm_cfg m' = qm_cfg m"
    and l: "map_option (effectiveLocked (qm_cfg m) t) (lookup m' a) = map_option (effectiveLocked (qm_cfg m) t) (lookup m a)"
    using assms by (simp_all add: same_at_def)
  show "fst (IsAvailable t a m') = fst (IsAvailable t a m)"
    "fst (WhyUnavailable t a m') = fst (WhyUnavailable t a m)"
    "fst (Snapshot_of t a m') = fst (Snapshot_of t a m)"
    using l by (cases "lookup m a"; cases "lookup m' a";
        simp add: IsAvailable_def WhyUnavailable_def Snapshot_of_def cfg case_prod_unfold)+
qed

definition q_same :: "time \<Rightarrow> Manager option \<Rightarrow> Manager option \<Rightarrow> bool" where
  "q_same t q q' \<longleftrightarrow> (case (q, q') of (None, None) \<Rightarrow> True | (Some m, Some m') \<Rightarrow> same_at t m m' | _ \<Rightarrow> False)"

lemma q_same_refl [simp]: "q_same t q q"
  by (simp add: q_same_def split: option.splits)

lemma q_same_trans: "q_same t q q' \<Longrightarrow> q_same t q' q'' \<Longrightarrow> q_same t q q''"
  by (auto simp: q_same_def split: option.splits intro: same_at_trans)

lemma q_reads_same:
  "q_same t q (snd (q_available t a q))" "q_same t q (snd (q_why t a q))" "q_same t q (snd (q_confidence t a q))"
  by (auto simp: q_same_def q_available_def q_why_def q_confidence_def case_prod_unfold
      readers_same_state same_at_read split: option.splits)

lemma q_results:
  assumes "q_same t q q'"
  shows "fst (q_available t a q') = fst (q_available t a q)" "fst (q_why t a q') = fst (q_why t a q)"
    "fst (q_confidence t a q') = fst (q_confidence t a q)"
  using assms
  by (auto simp: q_same_def q_available_def q_why_def q_confidence_def case_prod_unfold same_at_results
      split: option.splits)

section \<open>Eligibility\<close>

definition eligible :: "time \<Rightarrow> Request \<Rightarrow> bool \<Rightarrow> Manager option \<Rightarrow> CatalogEntry \<Rightarrow> bool" where
  "eligible now req inc q e \<longleftrightarrow>
     \<not> ce_Disabled e \<and> (rq_NeedsImages req \<longrightarrow> ce_SupportsImages e) \<and>
     (0 < rq_ContextTokens req \<and> 0 < ce_ContextWindow e \<longrightarrow> rq_ContextTokens req \<le> ce_ContextWindow e) \<and>
     (inc \<longrightarrow> ce_SubscriptionIncluded e) \<and>
     (\<forall>m. q = Some m \<longrightarrow> fst (IsAvailable now (entry_account e) m))"

lemma q_available_iff: "fst (q_available now a q) \<longleftrightarrow> (\<forall>m. q = Some m \<longrightarrow> fst (IsAvailable now a m))"
  by (simp add: q_available_def case_prod_unfold split: option.splits)

lemma excludeReason_eligible: "fst (excludeReason now e req inc q) = '''' \<longleftrightarrow> eligible now req inc q e"
proof (cases "fst (q_available now (entry_account e) q)")
  case True
  moreover from True have "(\<forall>m. q = Some m \<longrightarrow> fst (IsAvailable now (entry_account e) m)) = True"
    by (simp add: q_available_iff)
  ultimately show ?thesis
    unfolding eligible_def excludeReason_def by (simp add: case_prod_unfold not_less)
next
  case False
  moreover from False have "(\<forall>m. q = Some m \<longrightarrow> fst (IsAvailable now (entry_account e) m)) = False"
    by (simp add: q_available_iff)
  ultimately show ?thesis
    unfolding eligible_def excludeReason_def by (simp add: case_prod_unfold)
qed

lemma excludeReason_same: "q_same now q (snd (excludeReason now e req inc q))"
  using q_reads_same(1) [of now q "entry_account e"]
    q_same_trans [OF q_reads_same(1) q_reads_same(2), of now q "entry_account e" "entry_account e"]
  by (simp add: excludeReason_def case_prod_unfold split: bool.splits)

lemma excludeReason_cong:
  assumes "q_same now q q'"
  shows "fst (excludeReason now e req inc q') = fst (excludeReason now e req inc q)"
proof -
  have "q_same now q (snd (q_available now a q'))" for a
    by (rule q_same_trans [OF assms q_reads_same(1)])
  then have "fst (q_why now a (snd (q_available now a q'))) = fst (q_why now a q)" for a
    by (rule q_results(2))
  moreover have "fst (q_why now a (snd (q_available now a q))) = fst (q_why now a q)" for a
    by (rule q_results(2) [OF q_reads_same(1)])
  ultimately show ?thesis using q_results(1) [OF assms]
    by (simp add: excludeReason_def case_prod_unfold split: bool.splits)
qed

lemma scoreEntry_same: "q_same now q (snd (scoreEntry cfg now e t target req q))"
  using q_reads_same(3) by (simp add: scoreEntry_def case_prod_unfold Let_def)

lemma scoreEntry_cong:
  "q_same now q q' \<Longrightarrow> fst (scoreEntry cfg now e t target req q') = fst (scoreEntry cfg now e t target req q)"
  using q_results(3) by (simp add: scoreEntry_def case_prod_unfold Let_def)

text \<open>The scan, threaded through the quota manager, is a filter and a map over the entries.\<close>

lemma scan_entries_filter:
  "q_same now q0 q \<Longrightarrow>
     fst (scan_entries cfg now req target inc es q) =
       map (\<lambda>(_, e). \<lparr>ex_Entry = e, ex_Reason = fst (excludeReason now e req inc q0)\<rparr>)
         (filter (\<lambda>(_, e). \<not> eligible now req inc q0 e) es) \<and>
     fst (snd (scan_entries cfg now req target inc es q)) =
       map (\<lambda>(t, e). (fst (scoreEntry cfg now e t target req q0), t))
         (filter (\<lambda>(_, e). eligible now req inc q0 e) es) \<and>
     q_same now q0 (snd (snd (scan_entries cfg now req target inc es q)))"
proof (induction es arbitrary: q)
  case (Cons te es)
  obtain t e where te: "te = (t, e)" by (cases te)
  obtain reason q1 where x: "excludeReason now e req inc q = (reason, q1)" by fastforce
  obtain rt q2 where s: "scoreEntry cfg now e t target req q1 = (rt, q2)" by fastforce
  have q1: "q_same now q0 q1"
    using q_same_trans [OF Cons.prems excludeReason_same] x by (metis snd_conv)
  have q2: "q_same now q0 q2" using q_same_trans [OF q1 scoreEntry_same] s by (metis snd_conv)
  have r: "reason = fst (excludeReason now e req inc q0)"
    using excludeReason_cong [OF Cons.prems] x by (metis fst_conv)
  have rt: "rt = fst (scoreEntry cfg now e t target req q0)" using scoreEntry_cong [OF q1] s by (metis fst_conv)
  have el: "reason = '''' \<longleftrightarrow> eligible now req inc q0 e" using excludeReason_eligible r by simp
  show ?case
  proof (cases "eligible now req inc q0 e")
    case True
    with Cons.IH [OF q2] x s rt el show ?thesis by (simp add: te case_prod_unfold)
  next
    case False
    with Cons.IH [OF q1] x s r el show ?thesis by (simp add: te case_prod_unfold)
  qed
qed simp

lemmas scan_entries_pure = scan_entries_filter [OF q_same_refl]

section \<open>The alternatives\<close>

lemma set_ByTier: "set (ByTier t c) = {e \<in> set c. \<not> ce_Disabled e \<and> ce_Tier e = t}"
  by (auto simp: ByTier_def)

lemma set_tier_entries:
  "set (tier_entries c) = {(ce_Tier e, e) |e. e \<in> set c \<and> \<not> ce_Disabled e \<and> Tier_IsValid (ce_Tier e)}"
proof -
  have "t \<in> set Tiers \<longleftrightarrow> Tier_IsValid t" for t
    by (auto simp: Tiers_def Tier_IsValid_def)
  then show ?thesis by (fastforce simp: tier_entries_def set_ByTier)
qed

definition scored :: "RouterT \<Rightarrow> time \<Rightarrow> Request \<Rightarrow> Tier \<Rightarrow> bool \<Rightarrow> Manager option \<Rightarrow> (Route \<times> Tier) list" where
  "scored r now req target inc q =
     map (\<lambda>(t, e). (fst (scoreEntry (rt_cfg r) now e t target req q), t))
       (filter (\<lambda>(_, e). eligible now req inc q e) (tier_entries (rt_catalog r)))"

lemma ranked_routes:
  "map al_Route (fst (rankedAlternatives r now req target inc q))
     = map fst (sort_key (\<lambda>(rt, _). - ro_Score rt) (scored r now req target inc q))"
  using scan_entries_pure [where now = now and q0 = q and cfg = "rt_cfg r" and req = req and target = target and inc = inc and es = "tier_entries (rt_catalog r)"]
  by (simp add: rankedAlternatives_def case_prod_unfold Let_def comp_def scored_def)

lemma ranked_excluded:
  "fst (snd (rankedAlternatives r now req target inc q)) =
     map (\<lambda>(_, e). \<lparr>ex_Entry = e, ex_Reason = fst (excludeReason now e req inc q)\<rparr>)
       (filter (\<lambda>(_, e). \<not> eligible now req inc q e) (tier_entries (rt_catalog r)))"
  using scan_entries_pure [where now = now and q0 = q and cfg = "rt_cfg r" and req = req and target = target and inc = inc and es = "tier_entries (rt_catalog r)"]
  by (simp add: rankedAlternatives_def case_prod_unfold Let_def)

lemma scoreEntry_fields:
  "ro_Entry (fst (scoreEntry cfg now e t target req q)) = e"
  "ro_EstimatedCostUSD (fst (scoreEntry cfg now e t target req q)) = EstimateCost cfg e"
  by (simp_all add: scoreEntry_def case_prod_unfold Let_def)

text \<open>The entries a selection chooses from.\<close>

definition candidate_entries :: "RouterT \<Rightarrow> time \<Rightarrow> Request \<Rightarrow> bool \<Rightarrow> Manager option \<Rightarrow> CatalogEntry set" where
  "candidate_entries r now req inc q =
     {e \<in> set (rt_catalog r). Tier_IsValid (ce_Tier e) \<and> eligible now req inc q e}"

lemma ranked_entries:
  "(\<lambda>a. ro_Entry (al_Route a)) ` set (fst (rankedAlternatives r now req target inc q))
     = candidate_entries r now req inc q"
proof -
  have "(\<lambda>a. ro_Entry (al_Route a)) ` set (fst (rankedAlternatives r now req target inc q))
      = ro_Entry ` set (map al_Route (fst (rankedAlternatives r now req target inc q)))"
    by (simp add: image_image)
  also have "\<dots> = ro_Entry ` fst ` set (scored r now req target inc q)"
    unfolding ranked_routes by simp
  also have "\<dots> = candidate_entries r now req inc q"
    unfolding scored_def candidate_entries_def set_map set_filter set_tier_entries image_image case_prod_unfold fst_conv scoreEntry_fields
    by (auto simp: image_iff eligible_def)
  finally show ?thesis .
qed

lemma ranked_sorted:
  "i \<le> j \<Longrightarrow> j < length (fst (rankedAlternatives r now req target inc q)) \<Longrightarrow>
     ro_Score (al_Route (fst (rankedAlternatives r now req target inc q) ! j))
       \<le> ro_Score (al_Route (fst (rankedAlternatives r now req target inc q) ! i))"
proof -
  let ?alts = "fst (rankedAlternatives r now req target inc q)"
  have "sorted (map (\<lambda>rt. - ro_Score rt) (map al_Route ?alts))"
    unfolding ranked_routes
    using sorted_sort_key [of "\<lambda>(rt, _). - ro_Score rt" "scored r now req target inc q"]
    by (simp add: comp_def case_prod_unfold)
  moreover assume "i \<le> j" "j < length ?alts"
  ultimately have "- ro_Score (al_Route (?alts ! i)) \<le> - ro_Score (al_Route (?alts ! j))"
    using sorted_nth_mono [of "map (\<lambda>rt. - ro_Score rt) (map al_Route ?alts)" i j] by simp
  then show ?thesis by simp
qed

section \<open>The choice\<close>

lemma index_of_Some:
  "index_of P xs = Some i \<Longrightarrow> i < length xs \<and> P (xs ! i) \<and> (\<forall>j < i. \<not> P (xs ! j))"
proof (induction xs arbitrary: i)
  case (Cons x xs)
  show ?case
  proof (cases "P x")
    case False
    with Cons.prems obtain k where "index_of P xs = Some k" "i = Suc k" by auto
    with Cons.IH False show ?thesis by (auto simp: nth_Cons split: nat.splits)
  qed (use Cons.prems in auto)
qed simp

lemma index_of_None: "index_of P xs = None \<longleftrightarrow> (\<forall>x \<in> set xs. \<not> P x)"
  by (induction xs) auto

lemma select_index_Some:
  "select_index alts ts = Some i \<Longrightarrow>
     i < length alts \<and>
     (\<exists>ts1 ts2. ts = ts1 @ alt_tier (alts ! i) # ts2 \<and> (\<forall>a \<in> set alts. alt_tier a \<notin> set ts1)) \<and>
     (\<forall>j < i. alt_tier (alts ! j) \<noteq> alt_tier (alts ! i))"
proof (induction alts ts rule: select_index.induct)
  case (2 alts t ts)
  show ?case
  proof (cases "index_of (\<lambda>a. alt_tier a = t) alts")
    case None
    with 2 obtain ts1 ts2 where "ts = ts1 @ alt_tier (alts ! i) # ts2"
      "\<forall>a \<in> set alts. alt_tier a \<notin> set ts1" "i < length alts"
      "\<forall>j < i. alt_tier (alts ! j) \<noteq> alt_tier (alts ! i)" by auto
    with None show ?thesis
      by (intro conjI exI [of _ "t # ts1"] exI [of _ ts2]) (auto simp: index_of_None)
  next
    case (Some k)
    with 2(2) have "k = i" by simp
    with index_of_Some [OF Some] show ?thesis
      by (intro conjI exI [of _ "[]"] exI [of _ ts]) auto
  qed
qed simp

lemma select_index_None: "select_index alts ts = None \<longleftrightarrow> (\<forall>a \<in> set alts. alt_tier a \<notin> set ts)"
  by (induction alts ts rule: select_index.induct) (auto simp: index_of_None split: option.splits dest!: index_of_Some dest: nth_mem)

lemma orderedFallbackTiers_all:
  "0 \<le> target \<Longrightarrow> Tier_IsValid t \<Longrightarrow> t \<in> set (orderedFallbackTiers target)"
  by (auto simp: orderedFallbackTiers_def Tier_IsValid_def)

lemma BaseTier_nonneg: "0 \<le> BaseTier c p"
  by (simp add: BaseTier_def)

lemma target_tier_nonneg: "0 \<le> target_tier r req"
  using BaseTier_nonneg [of "rq_Complexity req" "rq_PreferStrong req"]
  by (simp add: target_tier_def Let_def)

text \<open>Whether the selection is restricted to subscription-included routes.\<close>

definition included_only :: "RouterT \<Rightarrow> time \<Rightarrow> Request \<Rightarrow> bool" where
  "included_only r now req \<longleftrightarrow> rq_AllowIncludedOnly req \<or> de_HardBlocked (budget_check r now req)"

definition route_alts :: "RouterT \<Rightarrow> time \<Rightarrow> Request \<Rightarrow> Manager option \<Rightarrow> Alternative list" where
  "route_alts r now req q = fst (rankedAlternatives r now req (target_tier r req) (included_only r now req) q)"

lemma map_route_update: "map al_Route (as[i := (as ! i)\<lparr>al_Reason := why\<rparr>]) = map al_Route as"
  by (cases "i < length as") (simp_all add: map_update list_update_same_conv list_update_beyond)

lemma Route_select_fields:
  assumes "Route_select r now req q = (Inr x, q')"
  shows "validateRequest req = None" "xp_TargetTier x = target_tier r req"
    and "xp_BudgetDecision x = budget_check r now req"
    and "xp_Selected x = map_option (\<lambda>i. al_Route (route_alts r now req q ! i))
           (select_index (route_alts r now req q) (orderedFallbackTiers (target_tier r req)))"
    and "xp_Excluded x = fst (snd (rankedAlternatives r now req (target_tier r req) (included_only r now req) q))"
    and "map al_Route (xp_Alternatives x) = map al_Route (route_alts r now req q)"
    and "xp_FallbackChain x = fallback_chain (route_alts r now req q) (orderedFallbackTiers (target_tier r req)) []"
  using assms
  by (auto simp: Route_select_def Let_def case_prod_unfold route_alts_def included_only_def map_route_update
      split: option.splits)

lemma route_alts_entries:
  "(\<lambda>a. ro_Entry (al_Route a)) ` set (route_alts r now req q) = candidate_entries r now req (included_only r now req) q"
  by (simp add: route_alts_def ranked_entries)

lemma route_alts_tier: "a \<in> set (route_alts r now req q) \<Longrightarrow> Tier_IsValid (alt_tier a)"
  using route_alts_entries [of r now req q] by (fastforce simp: alt_tier_def candidate_entries_def)

lemma selected_index:
  assumes "Route_select r now req q = (Inr x, q')" "xp_Selected x = Some rt"
  obtains i where "select_index (route_alts r now req q) (orderedFallbackTiers (target_tier r req)) = Some i"
    and "i < length (route_alts r now req q)" "rt = al_Route (route_alts r now req q ! i)"
  using assms(2) select_index_Some unfolding Route_select_fields(4) [OF assms(1)] by fastforce

lemma selected_candidate:
  assumes "Route_select r now req q = (Inr x, q')" "xp_Selected x = Some rt"
  shows "ro_Entry rt \<in> candidate_entries r now req (included_only r now req) q"
  using selected_index [OF assms] route_alts_entries [of r now req q] by (metis imageI nth_mem)

text \<open>C21: Soundness of routing: a selected route is an enabled entry of the catalog whose model takes images
  when the request needs them and whose context window, when known, holds the request; its account is
  available in the quota manager at that instant; and when the hard budget is exhausted, or the
  request asks for it, the route is covered by a subscription.\<close>

theorem selected_route_is_eligible:
  assumes "Route_select r now req q = (Inr x, q')" "xp_Selected x = Some rt"
  shows "let e = ro_Entry rt
         in e \<in> set (rt_catalog r) \<and> \<not> ce_Disabled e \<and> (rq_NeedsImages req \<longrightarrow> ce_SupportsImages e) \<and>
            (0 < rq_ContextTokens req \<and> 0 < ce_ContextWindow e \<longrightarrow> rq_ContextTokens req \<le> ce_ContextWindow e) \<and>
            (\<forall>m. q = Some m \<longrightarrow> fst (IsAvailable now (entry_account e) m)) \<and>
            (rq_AllowIncludedOnly req \<or> de_HardBlocked (xp_BudgetDecision x) \<longrightarrow> ce_SubscriptionIncluded e)"
  using selected_candidate [OF assms] Route_select_fields(3) [OF assms(1)]
  unfolding candidate_entries_def eligible_def included_only_def Let_def by simp

text \<open>C33: Completeness of routing: for a valid request a route is selected exactly when some entry of a
  defined tier is eligible; and every enabled entry of a defined tier is accounted for, ranked when it
  is eligible and excluded with a non-empty reason when it is not.\<close>

theorem routing_complete:
  assumes "Route_select r now req q = (Inr x, q')"
  shows "((\<exists>rt. xp_Selected x = Some rt) \<longleftrightarrow>
            (\<exists>e \<in> set (rt_catalog r). Tier_IsValid (ce_Tier e) \<and> eligible now req (included_only r now req) q e)) \<and>
         (\<forall>e \<in> set (rt_catalog r). \<not> ce_Disabled e \<and> Tier_IsValid (ce_Tier e) \<longrightarrow>
            (if eligible now req (included_only r now req) q e
             then e \<in> (\<lambda>a. ro_Entry (al_Route a)) ` set (xp_Alternatives x)
             else \<exists>why. why \<noteq> '''' \<and> \<lparr>ex_Entry = e, ex_Reason = why\<rparr> \<in> set (xp_Excluded x)))"
proof
  let ?alts = "route_alts r now req q" and ?ts = "orderedFallbackTiers (target_tier r req)"
  have "select_index ?alts ?ts = None \<longleftrightarrow> ?alts = []"
    using orderedFallbackTiers_all [OF target_tier_nonneg] route_alts_tier [of _ r now req q]
    by (auto simp: select_index_None neq_Nil_conv)
  moreover have "?alts = [] \<longleftrightarrow> candidate_entries r now req (included_only r now req) q = {}"
    using route_alts_entries [of r now req q] by auto
  ultimately show "(\<exists>rt. xp_Selected x = Some rt) \<longleftrightarrow>
      (\<exists>e \<in> set (rt_catalog r). Tier_IsValid (ce_Tier e) \<and> eligible now req (included_only r now req) q e)"
    unfolding Route_select_fields(4) [OF assms] candidate_entries_def by auto
  have alts: "(\<lambda>a. ro_Entry (al_Route a)) ` set (xp_Alternatives x) = candidate_entries r now req (included_only r now req) q"
    using arg_cong [OF Route_select_fields(6) [OF assms], of "\<lambda>rs. ro_Entry ` set rs"] route_alts_entries [of r now req q]
    by (simp add: image_image)
  show "\<forall>e \<in> set (rt_catalog r). \<not> ce_Disabled e \<and> Tier_IsValid (ce_Tier e) \<longrightarrow>
            (if eligible now req (included_only r now req) q e
             then e \<in> (\<lambda>a. ro_Entry (al_Route a)) ` set (xp_Alternatives x)
             else \<exists>why. why \<noteq> '''' \<and> \<lparr>ex_Entry = e, ex_Reason = why\<rparr> \<in> set (xp_Excluded x))"
    unfolding alts unfolding Route_select_fields(5) [OF assms] ranked_excluded
    using excludeReason_eligible
    by (fastforce simp: candidate_entries_def set_tier_entries)
qed

text \<open>The choice among the eligible routes: the target tier is preferred, then the stronger tiers in
  order, then the cheaper ones, so every ranked alternative of an earlier tier of that order is
  absent; and within its tier the selected route has the highest score.\<close>

theorem selected_route_is_best:
  assumes "Route_select r now req q = (Inr x, q')" "xp_Selected x = Some rt"
  shows "(\<exists>before after. orderedFallbackTiers (xp_TargetTier x) = before @ ce_Tier (ro_Entry rt) # after \<and>
            (\<forall>a \<in> set (xp_Alternatives x). ce_Tier (ro_Entry (al_Route a)) \<notin> set before)) \<and>
         (\<forall>a \<in> set (xp_Alternatives x). ce_Tier (ro_Entry (al_Route a)) = ce_Tier (ro_Entry rt) \<longrightarrow>
            ro_Score (al_Route a) \<le> ro_Score rt)"
proof
  let ?alts = "route_alts r now req q"
  obtain i where i: "select_index ?alts (orderedFallbackTiers (target_tier r req)) = Some i"
    "i < length ?alts" "rt = al_Route (?alts ! i)"
    using selected_index [OF assms] by blast
  have routes: "al_Route ` set (xp_Alternatives x) = al_Route ` set ?alts"
    using Route_select_fields(6) [OF assms(1)] by (metis image_set)
  have all: "(\<forall>a \<in> set (xp_Alternatives x). P (al_Route a)) \<longleftrightarrow> (\<forall>a \<in> set ?alts. P (al_Route a))" for P
    using routes by (metis (no_types, lifting) imageE imageI)
  show "\<exists>before after. orderedFallbackTiers (xp_TargetTier x) = before @ ce_Tier (ro_Entry rt) # after \<and>
            (\<forall>a \<in> set (xp_Alternatives x). ce_Tier (ro_Entry (al_Route a)) \<notin> set before)"
    using select_index_Some [OF i(1)] i(3) Route_select_fields(2) [OF assms(1)]
    unfolding all [of "\<lambda>rt. ce_Tier (ro_Entry rt) \<notin> set _"] alt_tier_def by auto
  have "ro_Score (al_Route a) \<le> ro_Score rt"
    if a: "a \<in> set ?alts" "alt_tier a = alt_tier (?alts ! i)" for a
  proof -
    obtain j where j: "j < length ?alts" "a = ?alts ! j" using a(1) by (metis in_set_conv_nth)
    with a(2) select_index_Some [OF i(1)] have "i \<le> j" by (meson not_less)
    with j show ?thesis using ranked_sorted [of i j] i(3) by (simp add: route_alts_def)
  qed
  then show "\<forall>a \<in> set (xp_Alternatives x). ce_Tier (ro_Entry (al_Route a)) = ce_Tier (ro_Entry rt) \<longrightarrow>
            ro_Score (al_Route a) \<le> ro_Score rt"
    unfolding all [of "\<lambda>s. ce_Tier (ro_Entry s) = ce_Tier (ro_Entry rt) \<longrightarrow> ro_Score s \<le> ro_Score rt"]
    using i(3) by (simp add: alt_tier_def)
qed

section \<open>The fallback chain\<close>

lemma fallback_chain_find:
  "distinct ts \<Longrightarrow> set ts \<inter> set seen = {} \<Longrightarrow>
     fallback_chain alts ts seen = map al_Route (List.map_filter (\<lambda>t. find (\<lambda>a. alt_tier a = t) alts) ts)"
proof (induction alts ts seen rule: fallback_chain.induct)
  case (2 alts t ts seen)
  then show ?case by (auto simp: List.map_filter_simps split: option.splits)
qed (simp add: List.map_filter_simps)

lemma distinct_orderedFallbackTiers: "distinct (orderedFallbackTiers target)"
  by (auto simp: orderedFallbackTiers_def)

lemma index_of_find: "find P xs = map_option (\<lambda>i. xs ! i) (index_of P xs)"
  by (induction xs) (auto simp: option.map_comp comp_def split: option.splits)

lemma chain_head:
  "map_option (\<lambda>i. al_Route (alts ! i)) (select_index alts ts)
     = (case map al_Route (List.map_filter (\<lambda>t. find (\<lambda>a. alt_tier a = t) alts) ts) of
          [] \<Rightarrow> None | rt # _ \<Rightarrow> Some rt)"
  by (induction alts ts rule: select_index.induct)
     (auto simp: List.map_filter_simps index_of_find split: option.splits)

text \<open>The fallback chain holds, in the order the tiers are tried, the best-ranked eligible route of every
  tier that has one; its first element is the selected route, and it is empty exactly when no route
  was selected.\<close>

theorem fallback_chain_spec:
  assumes "Route_select r now req q = (Inr x, q')"
  shows "xp_FallbackChain x =
           map al_Route (List.map_filter (\<lambda>t. find (\<lambda>a. alt_tier a = t) (route_alts r now req q))
             (orderedFallbackTiers (xp_TargetTier x))) \<and>
         xp_Selected x = (case xp_FallbackChain x of [] \<Rightarrow> None | rt # _ \<Rightarrow> Some rt)"
  unfolding Route_select_fields(2,4,7) [OF assms]
  by (simp add: chain_head fallback_chain_find distinct_orderedFallbackTiers)

section \<open>The budget\<close>

lemma fold_max_ge:
  fixes f :: "'a \<Rightarrow> rat"
  shows "b \<le> fold (\<lambda>e best. let c = f e in if best < c then c else best) es b \<and>
         (\<forall>e \<in> set es. f e \<le> fold (\<lambda>e best. let c = f e in if best < c then c else best) es b)"
proof (induction es arbitrary: b)
  case (Cons e es)
  from Cons.IH [of "if b < f e then f e else b"] show ?case by (auto simp: Let_def split: if_splits)
qed simp

lemma estimateForTier_ge: "e \<in> set (ByTier t (rt_catalog r)) \<Longrightarrow> EstimateCost (rt_cfg r) e \<le> estimateForTier r t"
  unfolding estimateForTier_def
  using fold_max_ge [where f = "EstimateCost (rt_cfg r)" and es = "ByTier t (rt_catalog r)" and b = 0] by blast

abbreviation coding_scope :: "Request \<Rightarrow> Scope" where
  "coding_scope req \<equiv>
     \<lparr>sc_ProjectID = rq_ProjectID req, sc_TaskID = rq_TaskID req, sc_TaskRisk = rq_Risk req,
      sc_ProviderType = ProviderCoding\<rparr>"

lemma not_blocked_affordable:
  assumes "rt_budget r = Some bc" "\<not> de_HardBlocked (budget_check r now req)" "(l, s) \<in> applicable now (coding_scope req) bc"
  shows "s + estimateForTier r (target_tier r req) \<le> l"
proof -
  have "de_Allowed (CanAfford now (coding_scope req) (estimateForTier r (target_tier r req)) True True bc)"
    using assms(1,2)
    by (auto simp: budget_check_def CanAfford_def Let_def decideOne_hard split: option.splits prod.splits if_splits)
  with assms(3) show ?thesis by (auto simp: CanAfford_allowed)
qed

lemma selected_cost:
  assumes "Route_select r now req q = (Inr x, q')" "xp_Selected x = Some rt"
  shows "ro_EstimatedCostUSD rt = EstimateCost (rt_cfg r) (ro_Entry rt)"
proof -
  obtain i where i: "i < length (route_alts r now req q)" "rt = al_Route (route_alts r now req q ! i)"
    using selected_index [OF assms] by blast
  then have "rt \<in> set (map al_Route (route_alts r now req q))" by (simp add: image_iff) (metis nth_mem)
  then have "rt \<in> fst ` set (scored r now req (target_tier r req) (included_only r now req) q)"
    unfolding route_alts_def ranked_routes by simp
  then show ?thesis by (auto simp: scored_def scoreEntry_fields)
qed

text \<open>A paid route selected from the target tier fits the budget: under every limit that applies to the
  request, what is already spent plus the estimated cost of the route is within the limit.\<close>

theorem target_tier_route_within_budget:
  assumes "Route_select r now req q = (Inr x, q')" "xp_Selected x = Some rt"
    and "rt_budget r = Some bc" "\<not> ce_SubscriptionIncluded (ro_Entry rt)"
    and "ce_Tier (ro_Entry rt) = xp_TargetTier x" "(l, s) \<in> applicable now (coding_scope req) bc"
  shows "s + ro_EstimatedCostUSD rt \<le> l"
proof -
  have e: "ro_Entry rt \<in> candidate_entries r now req (included_only r now req) q"
    using assms(1,2) by (rule selected_candidate)
  with assms(4) have "\<not> de_HardBlocked (budget_check r now req)"
    by (auto simp: candidate_entries_def eligible_def included_only_def)
  then have "s + estimateForTier r (target_tier r req) \<le> l"
    using assms(3,6) by (intro not_blocked_affordable)
  moreover have "ro_Entry rt \<in> set (ByTier (target_tier r req) (rt_catalog r))"
    using e assms(5) Route_select_fields(2) [OF assms(1)]
    by (simp add: set_ByTier candidate_entries_def eligible_def)
  ultimately show ?thesis
    using estimateForTier_ge selected_cost [OF assms(1,2)] by fastforce
qed

section \<open>Concrete selections\<close>

definition demo_entry :: "Tier \<Rightarrow> rat \<Rightarrow> CatalogEntry" where
  "demo_entry t cost =
     \<lparr>ce_Tier = t, ce_Engine = ''alpha'', ce_Model = ''m'', ce_Account = ''api'', ce_CostPer1MInputUSD = cost,
      ce_CostPer1MOutputUSD = cost, ce_ContextWindow = 128000, ce_MaxOutput = 16000,
      ce_SupportsImages = False, ce_SubscriptionIncluded = False, ce_Priority = 1, ce_Disabled = False\<rparr>"

definition demo_request :: "Complexity \<Rightarrow> Level \<Rightarrow> Request" where
  "demo_request c l =
     \<lparr>rq_Complexity = c, rq_Risk = l, rq_Role = '''', rq_Language = '''', rq_NeedsImages = False,
      rq_ContextTokens = 1000, rq_ProjectID = '''', rq_TaskID = '''', rq_PreferStrong = False,
      rq_AllowIncludedOnly = False, rq_DiversityPenalised = Map.empty\<rparr>"

definition daily_limit :: "USD \<Rightarrow> Limits" where
  "daily_limit v = demo_limits\<lparr>li_GlobalDailyUSD := v, li_GlobalMonthlyUSD := 0\<rparr>"

definition demo_router :: "CatalogEntry list \<Rightarrow> RouterT" where
  "demo_router es = New_router (Some es) (Some (New_budget (daily_limit (1 / 100)))) ZeroScoreConfig"

definition selected_of :: "(string, Explanation) result \<times> Manager option \<Rightarrow> (Tier \<times> rat) option" where
  "selected_of res =
     (case fst res of Inl _ \<Rightarrow> None
      | Inr x \<Rightarrow> map_option (\<lambda>rt. (ce_Tier (ro_Entry rt), ro_EstimatedCostUSD rt)) (xp_Selected x))"

text \<open>The budget check is made for the target tier only. With a daily limit of one cent and nothing
  spent, a trivial request whose tier has no entry is routed to a paid model of the strongest tier
  whose estimated cost is 2.4 cents, and no hard block is reported.\<close>

theorem fallback_escapes_budget:
  "selected_of (Route_select (demo_router [demo_entry TierFrontier 1]) 50 (demo_request 0 0) None)
     = Some (TierFrontier, 3 / 125) \<and>
   \<not> de_HardBlocked (budget_check (demo_router [demo_entry TierFrontier 1]) 50 (demo_request 0 0)) \<and>
   applicable 50 (coding_scope (demo_request 0 0)) (New_budget (daily_limit (1 / 100))) = {(1 / 100, 0)}"
proof (intro conjI)
  show "selected_of (Route_select (demo_router [demo_entry TierFrontier 1]) 50 (demo_request 0 0) None)
     = Some (TierFrontier, 3 / 125)" by code_simp
  show "\<not> de_HardBlocked (budget_check (demo_router [demo_entry TierFrontier 1]) 50 (demo_request 0 0))"
    by code_simp
  show "applicable 50 (coding_scope (demo_request 0 0)) (New_budget (daily_limit (1 / 100))) = {(1 / 100, 0)}"
    by (auto simp: applicable_def candidates_def Spend_def New_budget_def daily_limit_def demo_limits_def
        fix_fraction_def demo_request_def)
qed

definition free_router :: RouterT where
  "free_router = New_router (Some [demo_entry TierTiny 1]) None ZeroScoreConfig"

text \<open>The risk floor is a floor of the target only: a request of the highest risk is routed to the cheapest
  tier, below the floor, when no other entry is eligible.\<close>

lemma risk_floor_not_kept:
  "scf_RiskFloorTier (rt_cfg free_router) = TierStandard \<and>
   target_tier free_router (demo_request 0 R4) = TierStandard \<and>
   selected_of (Route_select free_router 50 (demo_request 0 R4) None) = Some (TierTiny, 3 / 125)"
proof (intro conjI)
  show "scf_RiskFloorTier (rt_cfg free_router) = TierStandard" by code_simp
  show "target_tier free_router (demo_request 0 R4) = TierStandard" by code_simp
  show "selected_of (Route_select free_router 50 (demo_request 0 R4) None) = Some (TierTiny, 3 / 125)"
    by code_simp
qed

lemma selected_of_Some:
  assumes "selected_of (Route_select r now req q) = Some p"
  obtains x q' rt where "Route_select r now req q = (Inr x, q')" "xp_Selected x = Some rt"
    and "p = (ce_Tier (ro_Entry rt), ro_EstimatedCostUSD rt)"
  using assms by (cases "Route_select r now req q") (auto simp: selected_of_def split: sum.splits)

lemma free_selection:
  obtains x q' rt where "Route_select free_router 50 (demo_request 0 0) None = (Inr x, q')"
    and "xp_Selected x = Some rt" "ro_Entry rt = demo_entry TierTiny 1"
proof -
  have "selected_of (Route_select free_router 50 (demo_request 0 0) None) = Some (TierTiny, 3 / 125)" by code_simp
  then obtain x q' rt where x: "Route_select free_router 50 (demo_request 0 0) None = (Inr x, q')" "xp_Selected x = Some rt"
    by (rule selected_of_Some)
  have "ro_Entry rt \<in> set (rt_catalog free_router)"
    using selected_candidate [OF x] by (simp add: candidate_entries_def)
  then have "ro_Entry rt = demo_entry TierTiny 1" by (simp add: free_router_def New_router_def Let_def)
  with x that show thesis by blast
qed

definition paid_router :: RouterT where
  "paid_router = New_router (Some [demo_entry TierTiny 1]) (Some (New_budget (daily_limit 1))) ZeroScoreConfig"

theorem target_tier_route_within_budget_witness:
  "\<exists>x q' rt. Route_select paid_router 50 (demo_request 0 0) None = (Inr x, q') \<and> xp_Selected x = Some rt \<and>
     0 + ro_EstimatedCostUSD rt \<le> 1"
proof -
  have "selected_of (Route_select paid_router 50 (demo_request 0 0) None) = Some (TierTiny, 3 / 125)" by code_simp
  then obtain x q' rt where w: "Route_select paid_router 50 (demo_request 0 0) None = (Inr x, q')" "xp_Selected x = Some rt"
    by (rule selected_of_Some)
  have e: "ro_Entry rt = demo_entry TierTiny 1"
    using selected_candidate [OF w] by (simp add: candidate_entries_def paid_router_def New_router_def Let_def)
  have t: "xp_TargetTier x = TierTiny"
    using Route_select_fields(2) [OF w(1)] by (simp add: target_tier_def BaseTier_def demo_request_def Let_def)
  have a: "(1, 0) \<in> applicable 50 (coding_scope (demo_request 0 0)) (New_budget (daily_limit 1))"
    by (auto simp: applicable_def candidates_def Spend_def New_budget_def daily_limit_def demo_limits_def
        fix_fraction_def demo_request_def)
  have "0 + ro_EstimatedCostUSD rt \<le> 1"
    by (rule target_tier_route_within_budget [OF w _ _ _ a])
       (simp_all add: e t paid_router_def New_router_def Let_def demo_entry_def)
  with w show ?thesis by blast
qed

theorem selected_route_is_eligible_witness:
  "\<exists>x q' rt. Route_select free_router 50 (demo_request 0 0) None = (Inr x, q') \<and> xp_Selected x = Some rt \<and>
     ro_Entry rt \<in> set (rt_catalog free_router) \<and> rq_ContextTokens (demo_request 0 0) \<le> ce_ContextWindow (ro_Entry rt)"
proof -
  obtain x q' rt where w: "Route_select free_router 50 (demo_request 0 0) None = (Inr x, q')"
    "xp_Selected x = Some rt" "ro_Entry rt = demo_entry TierTiny 1"
    by (rule free_selection)
  with selected_route_is_eligible [OF w(1,2)] show ?thesis
    by (auto simp: Let_def demo_entry_def demo_request_def)
qed

theorem routing_complete_witness:
  "\<exists>x q' rt. Route_select free_router 50 (demo_request 0 0) None = (Inr x, q') \<and> xp_Selected x = Some rt \<and>
     (\<exists>e \<in> set (rt_catalog free_router). Tier_IsValid (ce_Tier e))"
proof -
  obtain x q' rt where w: "Route_select free_router 50 (demo_request 0 0) None = (Inr x, q')"
    "xp_Selected x = Some rt"
    by (rule free_selection)
  with routing_complete [OF w(1)] show ?thesis by blast
qed

theorem selected_route_is_best_witness:
  "\<exists>x q' rt. Route_select free_router 50 (demo_request 0 0) None = (Inr x, q') \<and> xp_Selected x = Some rt \<and>
     (\<forall>a \<in> set (xp_Alternatives x). ce_Tier (ro_Entry (al_Route a)) = ce_Tier (ro_Entry rt) \<longrightarrow>
        ro_Score (al_Route a) \<le> ro_Score rt)"
proof -
  obtain x q' rt where w: "Route_select free_router 50 (demo_request 0 0) None = (Inr x, q')"
    "xp_Selected x = Some rt"
    by (rule free_selection)
  with selected_route_is_best [OF w(1,2)] show ?thesis by blast
qed

theorem fallback_chain_spec_witness:
  "\<exists>x q' rt. Route_select free_router 50 (demo_request 0 0) None = (Inr x, q') \<and> xp_Selected x = Some rt \<and>
     hd (xp_FallbackChain x) = rt \<and> xp_FallbackChain x \<noteq> []"
proof -
  obtain x q' rt where w: "Route_select free_router 50 (demo_request 0 0) None = (Inr x, q')"
    "xp_Selected x = Some rt"
    by (rule free_selection)
  with fallback_chain_spec [OF w(1)] have "xp_FallbackChain x \<noteq> [] \<and> hd (xp_FallbackChain x) = rt"
    by (auto split: list.splits)
  with w show ?thesis by blast
qed

section \<open>Complexity\<close>

lemma scoreToBand_mono: "a \<le> b \<Longrightarrow> scoreToBand a \<le> scoreToBand b"
  by (simp add: scoreToBand_def)

definition complexity_score :: "ComplexitySignals \<Rightarrow> int" where
  "complexity_score s = sum_list (map (\<lambda>(c, p, _). if c then p else 0) (complexity_signals s))"

lemma ClassifyComplexity_score: "cr_Complexity (ClassifyComplexity s) = scoreToBand (complexity_score s)"
proof -
  have "sum_list (map (\<lambda>(_, p, _). p) (filter fst xs)) = sum_list (map (\<lambda>(c, p, _). if c then p else 0) xs)"
    for xs :: "(bool \<times> int \<times> string) list"
    by (induction xs) auto
  then show ?thesis by (simp add: ClassifyComplexity_def complexity_score_def Let_def)
qed

text \<open>The complexity classifier is monotone: with the same description, more files, turns or context and
  more structural escalators never yield a cheaper band, and the band is always one of C0 to C4.\<close>

theorem complexity_monotone:
  assumes "cs_Description s = cs_Description s'" "cs_EstimatedFileCount s \<le> cs_EstimatedFileCount s'"
    and "cs_EstimatedTurns s \<le> cs_EstimatedTurns s'" "cs_ContextTokens s \<le> cs_ContextTokens s'"
    and "cs_CrossPackageChange s \<le> cs_CrossPackageChange s'" "cs_ArchitecturalDecision s \<le> cs_ArchitecturalDecision s'"
    and "cs_ConflictingCheapResults s \<le> cs_ConflictingCheapResults s'"
  shows "cr_Complexity (ClassifyComplexity s) \<le> cr_Complexity (ClassifyComplexity s') \<and>
    Complexity_IsValid (cr_Complexity (ClassifyComplexity s'))"
proof
  let ?files = "\<lambda>n::int. (if 20 \<le> n then 3 else 0) + (if 8 \<le> n \<and> n < 20 then 2 else 0) + (if 3 \<le> n \<and> n < 8 then 1 else 0) :: int"
  let ?turns = "\<lambda>n::int. (if 28 \<le> n then 3 else 0) + (if 16 \<le> n \<and> n < 28 then 2 else 0) + (if 8 \<le> n \<and> n < 16 then 1 else 0) :: int"
  let ?ctx = "\<lambda>n::int. (if 200000 \<le> n then 2 else 0) + (if 50000 \<le> n \<and> n < 200000 then 1 else 0) :: int"
  let ?flag = "\<lambda>b p. if b then p else 0 :: int"
  let ?words = "\<lambda>low. ?flag (containsAny low [''refactor'', ''feature'', ''implement'']) 1
      + ?flag (containsAny low [''migration'', ''migrate'', ''schema'']) 2
      + ?flag (containsAny low [''architect'', ''design system'', ''rewrite'']) 2"
  have score: "complexity_score z = ?files (cs_EstimatedFileCount z) + ?turns (cs_EstimatedTurns z)
      + ?ctx (cs_ContextTokens z) + ?words (slug_lower (cs_Description z)) + ?flag (cs_CrossPackageChange z) 2
      + ?flag (cs_ArchitecturalDecision z) 3 + ?flag (cs_ConflictingCheapResults z) 2" for z
    unfolding complexity_score_def complexity_signals_def Let_def list.map sum_list.Cons sum_list.Nil prod.case
    by (simp only: if_cancel add_0_left add_0_right add.assoc)
  have f: "?files a \<le> ?files b" if "a \<le> b" for a b using that by simp
  have t: "?turns a \<le> ?turns b" if "a \<le> b" for a b using that by simp
  have c: "?ctx a \<le> ?ctx b" if "a \<le> b" for a b using that by simp
  have g: "?flag a p \<le> ?flag b p" if "a \<le> b" "0 \<le> p" for a b p using that by auto
  have "complexity_score s \<le> complexity_score s'"
    unfolding score assms(1)
    by (intro add_mono f t c g order_refl assms) simp_all
  then show "cr_Complexity (ClassifyComplexity s) \<le> cr_Complexity (ClassifyComplexity s')"
    unfolding ClassifyComplexity_score by (rule scoreToBand_mono)
  show "Complexity_IsValid (cr_Complexity (ClassifyComplexity s'))"
    by (simp add: ClassifyComplexity_score scoreToBand_def Complexity_IsValid_def)
qed

definition plain_complexity :: ComplexitySignals where
  "plain_complexity =
     \<lparr>cs_Description = '''', cs_EstimatedFileCount = 0, cs_EstimatedTurns = 0, cs_ContextTokens = 0,
      cs_Role = '''', cs_CrossPackageChange = False, cs_ArchitecturalDecision = False,
      cs_ConflictingCheapResults = False\<rparr>"

theorem complexity_monotone_witness:
  "cr_Complexity (ClassifyComplexity plain_complexity)
     \<le> cr_Complexity (ClassifyComplexity (plain_complexity\<lparr>cs_EstimatedFileCount := 9, cs_CrossPackageChange := True\<rparr>))"
  using complexity_monotone [of plain_complexity "plain_complexity\<lparr>cs_EstimatedFileCount := 9, cs_CrossPackageChange := True\<rparr>"]
  by (simp add: plain_complexity_def)

text \<open>With no signal at all the band is C0, the cheapest, although the reason speaks of the standard one.\<close>

lemma default_complexity:
  "ClassifyComplexity plain_complexity
     = \<lparr>cr_Complexity = 0, cr_Reasons = [''no complexity signals; default to standard'']\<rparr>"
  by code_simp

end
