(* ===== verification/Repair_Loop.thy ===== *)
theory Repair_Loop
  imports Verification_Engines Go_Float
begin

text \<open>
  The bounded repair loop, \<^verbatim>\<open>src/internal/repair/loop.go\<close>. The repair and verify callbacks are injected
  in the source; here they are functions on an abstract world \<open>'w\<close>, with an error or a result. The
  theorems: the loop calls the repair callback at most \<open>MaxIterations\<close> times whatever the callbacks
  do, it reports success exactly when the last verification left no actionable finding, its history
  is the sequence of the findings it worked on, and what it returns as remaining is what a caller
  still has to handle.
\<close>

section \<open>Findings\<close>

record repair_finding =
  rf_Source :: string
  rf_Severity :: string
  rf_Title :: string
  rf_Description :: string
  rf_File :: string
  rf_Line :: int

fun severity_string :: "review_severity \<Rightarrow> string" where
  "severity_string RevInfo = ''info''"
| "severity_string RevMinor = ''minor''"
| "severity_string RevMajor = ''major''"
| "severity_string RevBlocker = ''blocker''"
| "severity_string (OtherSeverity s) = s"

definition FromTestFailures :: "level_result list \<Rightarrow> repair_finding list" where
  "FromTestFailures results =
     concat (map (\<lambda>r. map (\<lambda>f. \<lparr>rf_Source = ''test'', rf_Severity = ''fail'', rf_Title = tf_TestName f,
        rf_Description = tf_Message f, rf_File = tf_File f, rf_Line = tf_Line f\<rparr>) (lr_Failures r)) results)"

definition FromReviewFindings :: "finding list \<Rightarrow> repair_finding list" where
  "FromReviewFindings fs =
     map (\<lambda>f. \<lparr>rf_Source = ''review'', rf_Severity = severity_string (fi_Severity f), rf_Title = fi_Title f,
        rf_Description = fi_Description f, rf_File = fi_File f, rf_Line = fi_Line f\<rparr>) fs"

definition IsActionable :: "repair_finding \<Rightarrow> bool" where
  "IsActionable f \<longleftrightarrow>
     (if rf_Source f = ''test'' then True else rf_Severity f = ''major'' \<or> rf_Severity f = ''blocker'')"

definition filterActionable :: "repair_finding list \<Rightarrow> repair_finding list" where
  "filterActionable fs = filter IsActionable fs"

record repair_context =
  rc_Findings :: "repair_finding list"
  rc_Diff :: string
  rc_ChangedFiles :: "string list"
  rc_Iteration :: int

definition newline :: string where "newline = [CHR 0x0A]"

definition prompt_item :: "nat \<Rightarrow> repair_finding \<Rightarrow> string" where
  "prompt_item i f =
     show_nat (i + 1) @ ''. ['' @ rf_Source f @ ''] '' @ rf_Title f @ newline
     @ (if rf_Description f \<noteq> '''' then ''   '' @ rf_Description f @ newline else '''')
     @ (if rf_File f \<noteq> ''''
        then ''   at '' @ (if 0 < rf_Line f then rf_File f @ '':'' @ fmt_int (rf_Line f) else rf_File f) @ newline
        else '''')"

definition Prompt :: "repair_context \<Rightarrow> string" where
  "Prompt c =
     (if rc_Findings c = [] then ''No actionable findings.''
      else ''Repair the following issues (iteration '' @ fmt_int (rc_Iteration c) @ ''):'' @ newline @ newline
           @ concat (map (\<lambda>(i, f). prompt_item i f) (enumerate 0 (rc_Findings c))))"

section \<open>The loop\<close>

type_synonym 'w repair_func = "repair_context \<Rightarrow> 'w \<Rightarrow> string option \<times> 'w"
type_synonym 'w verify_func = "'w \<Rightarrow> (string, repair_finding list) result \<times> 'w"

record repair_outcome =
  oc_Resolved :: bool
  oc_IterationsRun :: int
  oc_RemainingFindings :: "repair_finding list"
  oc_History :: "repair_finding list list"

record 'w repair_loop =
  lp_maxIterations :: int
  lp_repair :: "'w repair_func"
  lp_verify :: "'w verify_func"

text \<open>The constructor panics on a bound that is not positive.\<close>

definition New_loop :: "int \<Rightarrow> 'w repair_func \<Rightarrow> 'w verify_func \<Rightarrow> 'w repair_loop option" where
  "New_loop maxIter rep ver =
     (if maxIter \<le> 0 then None
      else Some \<lparr>lp_maxIterations = maxIter, lp_repair = rep, lp_verify = ver\<rparr>)"

text \<open>The \<^verbatim>\<open>for\<close> loop from iteration \<open>iter\<close>: the error, if any, the outcome and the world.\<close>

function repair_iterate ::
  "'w repair_loop \<Rightarrow> string \<Rightarrow> string list \<Rightarrow> int \<Rightarrow> repair_finding list \<Rightarrow> repair_outcome \<Rightarrow> 'w
     \<Rightarrow> (string option \<times> repair_outcome) \<times> 'w" where
  "repair_iterate l diff files iter current out w =
     (if iter \<le> lp_maxIterations l
      then (case lp_repair l \<lparr>rc_Findings = current, rc_Diff = diff, rc_ChangedFiles = files, rc_Iteration = iter\<rparr> w of
              (Some err, w1) \<Rightarrow>
                ((Some (''repair: iteration '' @ fmt_int iter @ '': '' @ err),
                  out\<lparr>oc_RemainingFindings := current, oc_IterationsRun := iter\<rparr>), w1)
            | (None, w1) \<Rightarrow>
                (let out = out\<lparr>oc_IterationsRun := iter\<rparr>
                 in case lp_verify l w1 of
                      (Inl err, w2) \<Rightarrow>
                        ((Some (''repair: verify iteration '' @ fmt_int iter @ '': '' @ err),
                          out\<lparr>oc_RemainingFindings := current\<rparr>), w2)
                    | (Inr found, w2) \<Rightarrow>
                        (let remaining = filterActionable found;
                             out = out\<lparr>oc_History := oc_History out @ [remaining]\<rparr>
                         in if remaining = [] then ((None, out\<lparr>oc_Resolved := True\<rparr>), w2)
                            else repair_iterate l diff files (iter + 1) remaining out w2)))
      else ((None, out\<lparr>oc_RemainingFindings := current\<rparr>), w))"
  by pat_completeness auto
termination
  by (relation "measure (\<lambda>(l, _, _, iter, _, _, _). nat (lp_maxIterations l + 1 - iter))") auto

declare repair_iterate.simps [simp del]

definition Run_repair ::
  "'w repair_loop \<Rightarrow> repair_finding list \<Rightarrow> string \<Rightarrow> string list \<Rightarrow> 'w \<Rightarrow> (string option \<times> repair_outcome) \<times> 'w" where
  "Run_repair l initial diff files w =
     (let current = filterActionable initial;
          out = \<lparr>oc_Resolved = False, oc_IterationsRun = 0, oc_RemainingFindings = [], oc_History = [current]\<rparr>
      in if current = [] then ((None, out\<lparr>oc_Resolved := True\<rparr>), w)
         else repair_iterate l diff files 1 current out w)"

section \<open>Every call of the repair callback\<close>

text \<open>The contexts of the repair calls of the loop, in order.\<close>

function repair_calls ::
  "'w repair_loop \<Rightarrow> string \<Rightarrow> string list \<Rightarrow> int \<Rightarrow> repair_finding list \<Rightarrow> 'w \<Rightarrow> repair_context list" where
  "repair_calls l diff files iter current w =
     (if iter \<le> lp_maxIterations l
      then (let rc = \<lparr>rc_Findings = current, rc_Diff = diff, rc_ChangedFiles = files, rc_Iteration = iter\<rparr>
            in rc # (case lp_repair l rc w of
                       (Some err, w1) \<Rightarrow> []
                     | (None, w1) \<Rightarrow>
                         (case lp_verify l w1 of
                            (Inl err, w2) \<Rightarrow> []
                          | (Inr found, w2) \<Rightarrow>
                              if filterActionable found = [] then []
                              else repair_calls l diff files (iter + 1) (filterActionable found) w2)))
      else [])"
  by pat_completeness auto
termination
  by (relation "measure (\<lambda>(l, _, _, iter, _, _). nat (lp_maxIterations l + 1 - iter))") auto

declare repair_calls.simps [simp del]

lemma filterActionable_actionable: "f \<in> set (filterActionable fs) \<Longrightarrow> IsActionable f"
  by (simp add: filterActionable_def)

lemma length_repair_calls: "length (repair_calls l diff files iter current w) \<le> nat (lp_maxIterations l + 1 - iter)"
proof (induction l diff files iter current w rule: repair_calls.induct)
  case (1 l diff files iter current w)
  show ?case
  proof (cases "iter \<le> lp_maxIterations l")
    case True
    define rc where "rc = \<lparr>rc_Findings = current, rc_Diff = diff, rc_ChangedFiles = files, rc_Iteration = iter\<rparr>"
    note IH = "1.IH" [OF True rc_def]
    show ?thesis
      using True IH
      by (auto simp: repair_calls.simps [of l diff files iter] rc_def [symmetric] Let_def
          split: prod.splits option.splits sum.splits) force
  qed (simp add: repair_calls.simps)
qed

section \<open>The outcome\<close>

definition worked_on :: "repair_finding list \<Rightarrow> bool" where
  "worked_on fs \<longleftrightarrow> fs \<noteq> [] \<and> (\<forall>f \<in> set fs. IsActionable f)"

text \<open>What one run of the loop guarantees about its outcome: the bound \<open>n\<close> on the iterations, the number \<open>k\<close>
  of repair calls.\<close>

definition outcome_ok :: "int \<Rightarrow> int \<Rightarrow> string option \<Rightarrow> repair_outcome \<Rightarrow> bool" where
  "outcome_ok n k err out \<longleftrightarrow>
     oc_IterationsRun out = k \<and> k \<le> n \<and>
     (if oc_Resolved out then err = None \<and> oc_RemainingFindings out = [] \<and> last (oc_History out) = []
      else worked_on (oc_RemainingFindings out) \<and> oc_RemainingFindings out = last (oc_History out) \<and>
           (err = None \<longrightarrow> k = n))"

lemma worked_on_filter: "filterActionable fs \<noteq> [] \<Longrightarrow> worked_on (filterActionable fs)"
  by (auto simp: worked_on_def dest: filterActionable_actionable)

lemma repair_iterate_ok:
  assumes "worked_on current" "last (oc_History out) = current" "\<not> oc_Resolved out"
    and "oc_RemainingFindings out = []" and "oc_IterationsRun out = iter - 1" "iter - 1 \<le> lp_maxIterations l"
  shows "case repair_iterate l diff files iter current out w of
           ((err, out'), w') \<Rightarrow>
             outcome_ok (lp_maxIterations l) (iter - 1 + int (length (repair_calls l diff files iter current w))) err out'"
  using assms
proof (induction l diff files iter current out w rule: repair_iterate.induct)
  case (1 l diff files iter current out w)
  show ?case
  proof (cases "iter \<le> lp_maxIterations l")
    case False
    with "1.prems" show ?thesis
      by (simp add: repair_iterate.simps [of l diff files iter] repair_calls.simps [of l diff files iter] outcome_ok_def)
  next
    case True
    define rc where "rc = \<lparr>rc_Findings = current, rc_Diff = diff, rc_ChangedFiles = files, rc_Iteration = iter\<rparr>"
    note step = repair_iterate.simps [of l diff files iter current out w] repair_calls.simps [of l diff files iter current w]
    obtain e w1 where r: "lp_repair l rc w = (e, w1)" by fastforce
    obtain v w2 where v: "lp_verify l w1 = (v, w2)" by fastforce
    show ?thesis
    proof (cases e)
      case (Some err)
      with "1.prems" True r show ?thesis by (simp add: step rc_def outcome_ok_def)
    next
      case None
      show ?thesis
      proof (cases v)
        case (Inl err)
        with None "1.prems" True r v show ?thesis by (simp add: step rc_def Let_def outcome_ok_def)
      next
        case (Inr found)
        show ?thesis
        proof (cases "filterActionable found = []")
          case True': True
          with None Inr "1.prems" True r v show ?thesis
            by (simp add: step rc_def Let_def outcome_ok_def)
        next
          case False
          let ?out = "out\<lparr>oc_IterationsRun := iter, oc_History := oc_History out @ [filterActionable found]\<rparr>"
          have IH: "case repair_iterate l diff files (iter + 1) (filterActionable found) ?out w2 of
              ((err, out'), w') \<Rightarrow> outcome_ok (lp_maxIterations l)
                (iter + 1 - 1 + int (length (repair_calls l diff files (iter + 1) (filterActionable found) w2))) err out'"
            using "1.IH" [OF True, of e w1 "out\<lparr>oc_IterationsRun := iter\<rparr>" v w2 found "filterActionable found" ?out]
              r v None Inr "1.prems" True False
            by (simp add: rc_def worked_on_filter)
          with None Inr False True r v show ?thesis
            by (simp add: step rc_def Let_def case_prod_unfold)
        qed
      qed
    qed
  qed
qed

text \<open>The repair loop is bounded and honest. Whatever the repair and verify callbacks do, it calls the
  repair callback at most \<open>MaxIterations\<close> times and reports that number; it reports success without
  an error exactly when the last verification left nothing actionable and then nothing remains; and
  otherwise the remaining findings are non-empty, all actionable and the last ones observed, and a
  run without an error has used its whole budget.\<close>

theorem repair_loop_bounded:
  assumes "New_loop maxIter rep ver = Some l" "Run_repair l initial diff files w = ((err, out), w')"
  shows "oc_IterationsRun out =
           (if filterActionable initial = [] then 0
            else int (length (repair_calls l diff files 1 (filterActionable initial) w))) \<and>
         oc_IterationsRun out \<le> maxIter \<and>
         (oc_Resolved out \<longleftrightarrow> last (oc_History out) = []) \<and>
         (oc_Resolved out \<longrightarrow> err = None \<and> oc_RemainingFindings out = []) \<and>
         (\<not> oc_Resolved out \<longrightarrow>
            oc_RemainingFindings out = last (oc_History out) \<and> oc_RemainingFindings out \<noteq> [] \<and>
            (\<forall>f \<in> set (oc_RemainingFindings out). IsActionable f) \<and>
            (err = None \<longrightarrow> oc_IterationsRun out = maxIter))"
proof (cases "filterActionable initial = []")
  case True
  with assms show ?thesis by (auto simp: Run_repair_def New_loop_def Let_def split: if_splits)
next
  case False
  let ?out = "\<lparr>oc_Resolved = False, oc_IterationsRun = 0, oc_RemainingFindings = [], oc_History = [filterActionable initial]\<rparr>"
  have l: "lp_maxIterations l = maxIter" "0 < maxIter" using assms(1) by (auto simp: New_loop_def split: if_splits)
  have "repair_iterate l diff files 1 (filterActionable initial) ?out w = ((err, out), w')"
    using assms(2) False by (simp add: Run_repair_def Let_def)
  with repair_iterate_ok [of "filterActionable initial" ?out 1 l diff files w] l
  have "outcome_ok maxIter (int (length (repair_calls l diff files 1 (filterActionable initial) w))) err out"
    by (simp add: worked_on_filter False)
  with False show ?thesis by (auto simp: outcome_ok_def worked_on_def split: if_splits)
qed

definition demo_finding :: repair_finding where
  "demo_finding = \<lparr>rf_Source = ''test'', rf_Severity = ''fail'', rf_Title = ''TestX'', rf_Description = '''',
     rf_File = ''x.go'', rf_Line = 3\<rparr>"

text \<open>A repair that needs two attempts: the world counts the repairs.\<close>

definition demo_loop :: "nat repair_loop" where
  "demo_loop = \<lparr>lp_maxIterations = 3, lp_repair = \<lambda>rc n. (None, n + 1),
     lp_verify = \<lambda>n. (Inr (if n < 2 then [demo_finding] else []), n)\<rparr>"

theorem repair_loop_bounded_witness:
  "New_loop 3 (\<lambda>rc n. (None, n + 1)) (\<lambda>n. (Inr (if n < 2 then [demo_finding] else []), n)) = Some demo_loop \<and>
   (case Run_repair demo_loop [demo_finding] '''' [] 0 of
      ((err, out), w') \<Rightarrow> err = None \<and> oc_Resolved out \<and> oc_IterationsRun out \<le> 3 \<and> w' = (2::nat))"
proof -
  have n: "New_loop 3 (\<lambda>rc n. (None, n + 1)) (\<lambda>n. (Inr (if n < 2 then [demo_finding] else []), n)) = Some demo_loop"
    by (simp add: New_loop_def demo_loop_def)
  obtain err out w' where r: "Run_repair demo_loop [demo_finding] '''' [] 0 = ((err, out), w')" by (metis prod.exhaust)
  have "(case Run_repair demo_loop [demo_finding] '''' [] 0 of ((err, out), w') \<Rightarrow> oc_Resolved out \<and> w' = 2)"
    by code_simp
  with repair_loop_bounded [OF n r] n r show ?thesis by simp
qed

text \<open>Only test failures and major or blocking review findings are repaired.\<close>

lemma actionable_sources:
  "\<forall>f \<in> set (FromTestFailures rs). IsActionable f"
  "filterActionable (FromReviewFindings fs) = FromReviewFindings (filter (\<lambda>f. severity_string (fi_Severity f) \<in> {''major'', ''blocker''}) fs)"
  by (auto simp: FromTestFailures_def FromReviewFindings_def IsActionable_def filterActionable_def filter_map comp_def)

end
