(* ===== verification/Quality.thy ===== *)
theory Quality
  imports Go_Float "HOL-Library.AList"
begin

text \<open>
  Token accounting and quality statistics, \<^verbatim>\<open>src/internal/quality/quality.go\<close>, and the durable
  \<^verbatim>\<open>usage_events\<close> table, \<^verbatim>\<open>src/internal/storage/usage.go\<close>. Costs and averages are rationals. A timestamp
  column is the instant its text denotes. The theorems: totals are additive over events and exact
  for every filter; the statistics partition the outcomes, so no attempt is lost or counted twice;
  rates are fractions; and the table returns what was recorded, oldest first.
\<close>

section \<open>Token accounting\<close>

datatype UsageKind = UsageCoding | UsageImage | UsageOther string

fun UsageKind_string :: "UsageKind \<Rightarrow> string" where
  "UsageKind_string UsageCoding = ''coding''"
| "UsageKind_string UsageImage = ''image''"
| "UsageKind_string (UsageOther s) = s"

record UsageEvent =
  ue_TaskID :: string
  ue_ProjectID :: string
  ue_Provider :: string
  ue_Model :: string
  ue_Kind :: UsageKind
  ue_InputTokens :: int
  ue_CachedInputTokens :: int
  ue_OutputTokens :: int
  ue_Generations :: int
  ue_CostUSD :: rat
  ue_OccurredAt :: time

record Totals =
  to_CodingInput :: int
  to_CachedInput :: int
  to_CodingOutput :: int
  to_ImageInputTokens :: int
  to_ImageOutputTokens :: int
  to_ImageGenerations :: int
  to_EstimatedCostUSD :: rat
  to_EventCount :: int

definition zero_totals :: Totals where
  "zero_totals = \<lparr>to_CodingInput = 0, to_CachedInput = 0, to_CodingOutput = 0, to_ImageInputTokens = 0,
     to_ImageOutputTokens = 0, to_ImageGenerations = 0, to_EstimatedCostUSD = 0, to_EventCount = 0\<rparr>"

definition Totals_Add :: "UsageEvent \<Rightarrow> Totals \<Rightarrow> Totals" where
  "Totals_Add e t =
     (let t = t\<lparr>to_EventCount := to_EventCount t + 1\<rparr>;
          t = (case ue_Kind e of
                 UsageCoding \<Rightarrow>
                   t\<lparr>to_CodingInput := to_CodingInput t + ue_InputTokens e,
                     to_CachedInput := to_CachedInput t + ue_CachedInputTokens e,
                     to_CodingOutput := to_CodingOutput t + ue_OutputTokens e\<rparr>
               | UsageImage \<Rightarrow>
                   t\<lparr>to_ImageInputTokens := to_ImageInputTokens t + ue_InputTokens e,
                     to_ImageOutputTokens := to_ImageOutputTokens t + ue_OutputTokens e,
                     to_ImageGenerations := to_ImageGenerations t + ue_Generations e\<rparr>
               | UsageOther _ \<Rightarrow> t)
      in t\<lparr>to_EstimatedCostUSD := to_EstimatedCostUSD t + ue_CostUSD e\<rparr>)"

type_synonym Accounting = "UsageEvent list"

definition Accounting_Record :: "time \<Rightarrow> UsageEvent \<Rightarrow> Accounting \<Rightarrow> Accounting" where
  "Accounting_Record now e a = a @ [if IsZero (ue_OccurredAt e) then e\<lparr>ue_OccurredAt := now\<rparr> else e]"

definition Accounting_Snapshot :: "Accounting \<Rightarrow> Totals" where
  "Accounting_Snapshot a = fold Totals_Add a zero_totals"

record UsageFilter =
  uf_ProjectID :: string
  uf_TaskID :: string
  uf_Provider :: string
  uf_Day :: time

text \<open>The calendar day of an instant; two instants have the same year, month and day exactly when it agrees.\<close>

definition day_index :: "time \<Rightarrow> int" where
  "day_index t = t div (86400 * 1000000000)"

definition UsageFilter_match :: "UsageFilter \<Rightarrow> UsageEvent \<Rightarrow> bool" where
  "UsageFilter_match f e =
     (if uf_ProjectID f \<noteq> '''' \<and> ue_ProjectID e \<noteq> uf_ProjectID f then False
      else if uf_TaskID f \<noteq> '''' \<and> ue_TaskID e \<noteq> uf_TaskID f then False
      else if uf_Provider f \<noteq> '''' \<and> ue_Provider e \<noteq> uf_Provider f then False
      else if \<not> IsZero (uf_Day f) \<and> day_index (ue_OccurredAt e) \<noteq> day_index (uf_Day f) then False
      else True)"

definition SnapshotFor :: "UsageFilter \<Rightarrow> Accounting \<Rightarrow> Totals" where
  "SnapshotFor f a = fold Totals_Add (filter (UsageFilter_match f) a) zero_totals"

definition CacheHitRatio :: "Totals \<Rightarrow> rat" where
  "CacheHitRatio t =
     (let total = to_CodingInput t + to_CachedInput t
      in if total = 0 then 0 else of_int (to_CachedInput t) / of_int total)"

section \<open>Quality statistics\<close>

datatype Outcome = OutcomeSuccess | OutcomeFailure | OutcomeOther string

record TaskOutcome =
  tn_TaskID :: string
  tn_ProjectID :: string
  tn_Engine :: string
  tn_Model :: string
  tn_RouteTier :: string
  tn_Outcome :: Outcome
  tn_RepairIterations :: int
  tn_Findings :: int
  tn_OccurredAt :: time

record Stats =
  st_Engine :: string
  st_Model :: string
  st_RouteTier :: string
  st_Attempts :: int
  st_Successes :: int
  st_Failures :: int
  st_AvgRepair :: rat
  st_AvgFindings :: rat
  st_SuccessRate :: rat

type_synonym Statistics = "TaskOutcome list"

definition Statistics_Record :: "time \<Rightarrow> TaskOutcome \<Rightarrow> Statistics \<Rightarrow> Statistics" where
  "Statistics_Record now r s = s @ [if IsZero (tn_OccurredAt r) then r\<lparr>tn_OccurredAt := now\<rparr> else r]"

definition fresh_stats :: "TaskOutcome \<Rightarrow> Stats" where
  "fresh_stats r = \<lparr>st_Engine = tn_Engine r, st_Model = tn_Model r, st_RouteTier = tn_RouteTier r,
     st_Attempts = 0, st_Successes = 0, st_Failures = 0, st_AvgRepair = 0, st_AvgFindings = 0,
     st_SuccessRate = 0\<rparr>"

definition count_outcome :: "TaskOutcome \<Rightarrow> Stats \<Rightarrow> Stats" where
  "count_outcome r st =
     (let st = st\<lparr>st_Attempts := st_Attempts st + 1\<rparr>;
          st = (if tn_Outcome r = OutcomeSuccess then st\<lparr>st_Successes := st_Successes st + 1\<rparr>
                else st\<lparr>st_Failures := st_Failures st + 1\<rparr>)
      in st\<lparr>st_AvgRepair := st_AvgRepair st + of_int (tn_RepairIterations r),
            st_AvgFindings := st_AvgFindings st + of_int (tn_Findings r)\<rparr>)"

text \<open>The groups in the order of their first outcome: \<open>order\<close> with the map \<open>groups\<close> of the source.\<close>

definition group_step :: "(TaskOutcome \<Rightarrow> string) \<Rightarrow> TaskOutcome \<Rightarrow> (string \<times> Stats) list \<Rightarrow> (string \<times> Stats) list" where
  "group_step key r gs =
     AList.update (key r)
       (count_outcome r (case map_of gs (key r) of Some st \<Rightarrow> st | None \<Rightarrow> fresh_stats r)) gs"

definition finish_stats :: "Stats \<Rightarrow> Stats" where
  "finish_stats st =
     (if 0 < st_Attempts st
      then st\<lparr>st_AvgRepair := st_AvgRepair st / of_int (st_Attempts st),
              st_AvgFindings := st_AvgFindings st / of_int (st_Attempts st),
              st_SuccessRate := of_int (st_Successes st) / of_int (st_Attempts st)\<rparr>
      else st)"

text \<open>The final \<^verbatim>\<open>sort.Slice\<close> leaves the order of groups with the same engine and model open; the stable sort
  is one of the orders it may produce.\<close>

definition aggregate :: "(TaskOutcome \<Rightarrow> string) \<Rightarrow> Statistics \<Rightarrow> Stats list" where
  "aggregate key s =
     sort_key (\<lambda>st. st_Engine st @ ''/'' @ st_Model st)
       (map (finish_stats \<circ> snd) (fold (group_step key) s []))"

definition SuccessRateByModel :: "Statistics \<Rightarrow> Stats list" where
  "SuccessRateByModel s = aggregate (\<lambda>r. tn_Engine r @ ''/'' @ tn_Model r) s"

definition SuccessRateByEngine :: "Statistics \<Rightarrow> Stats list" where
  "SuccessRateByEngine s = aggregate tn_Engine s"

definition SuccessRateByRoute :: "Statistics \<Rightarrow> Stats list" where
  "SuccessRateByRoute s = aggregate tn_RouteTier s"

definition OverallSuccessRate :: "Statistics \<Rightarrow> rat" where
  "OverallSuccessRate s =
     (if s = [] then 0
      else of_nat (length (filter (\<lambda>r. tn_Outcome r = OutcomeSuccess) s)) / of_nat (length s))"

section \<open>The usage\_events table\<close>

record UsageEventRow =
  uv_ID :: nat
  uv_TaskID :: string
  uv_ProjectID :: string
  uv_Provider :: string
  uv_Model :: string
  uv_Kind :: string
  uv_InputTokens :: int
  uv_CachedInputTokens :: int
  uv_OutputTokens :: int
  uv_Generations :: int
  uv_CostUSD :: rat
  uv_OccurredAt :: time

text \<open>The rows in insertion order and the \<^verbatim>\<open>AUTOINCREMENT\<close> counter.\<close>

record usage_table =
  ut_rows :: "UsageEventRow list"
  ut_seq :: nat

definition RecordUsageEvent :: "time \<Rightarrow> UsageEventRow \<Rightarrow> usage_table \<Rightarrow> nat \<times> usage_table" where
  "RecordUsageEvent now r t =
     (let r = (if IsZero (uv_OccurredAt r) then r\<lparr>uv_OccurredAt := now\<rparr> else r); i = Suc (ut_seq t)
      in (i, t\<lparr>ut_rows := ut_rows t @ [r\<lparr>uv_ID := i\<rparr>], ut_seq := i\<rparr>))"

record UsageRowFilter =
  rw_ProjectID :: string
  rw_TaskID :: string
  rw_Provider :: string
  rw_Limit :: int

definition ListUsageEvents :: "UsageRowFilter \<Rightarrow> usage_table \<Rightarrow> UsageEventRow list" where
  "ListUsageEvents f t =
     take (nat (if rw_Limit f \<le> 0 then 10000 else rw_Limit f))
       (sort_key uv_ID
         (filter (\<lambda>r. (rw_ProjectID f = '''' \<or> uv_ProjectID r = rw_ProjectID f) \<and>
                      (rw_TaskID f = '''' \<or> uv_TaskID r = rw_TaskID f) \<and>
                      (rw_Provider f = '''' \<or> uv_Provider r = rw_Provider f)) (ut_rows t)))"

definition CountUsageEvents :: "usage_table \<Rightarrow> nat" where
  "CountUsageEvents t = length (ut_rows t)"

section \<open>Totals\<close>

lemma Totals_Add_fields [simp]:
  "to_EventCount (Totals_Add e t) = to_EventCount t + 1"
  "to_EstimatedCostUSD (Totals_Add e t) = to_EstimatedCostUSD t + ue_CostUSD e"
  "to_CodingInput (Totals_Add e t) = to_CodingInput t + (if ue_Kind e = UsageCoding then ue_InputTokens e else 0)"
  "to_CachedInput (Totals_Add e t) = to_CachedInput t + (if ue_Kind e = UsageCoding then ue_CachedInputTokens e else 0)"
  "to_CodingOutput (Totals_Add e t) = to_CodingOutput t + (if ue_Kind e = UsageCoding then ue_OutputTokens e else 0)"
  "to_ImageGenerations (Totals_Add e t) = to_ImageGenerations t + (if ue_Kind e = UsageImage then ue_Generations e else 0)"
  by (cases "ue_Kind e"; simp add: Totals_Add_def Let_def)+

definition sum_where :: "(UsageEvent \<Rightarrow> bool) \<Rightarrow> (UsageEvent \<Rightarrow> 'a::monoid_add) \<Rightarrow> UsageEvent list \<Rightarrow> 'a" where
  "sum_where P f es = sum_list (map f (filter P es))"

lemma fold_Totals_Add:
  "to_EventCount (fold Totals_Add es t) = to_EventCount t + int (length es)"
  "to_EstimatedCostUSD (fold Totals_Add es t) = to_EstimatedCostUSD t + sum_where (\<lambda>_. True) ue_CostUSD es"
  "to_CodingInput (fold Totals_Add es t) = to_CodingInput t + sum_where (\<lambda>e. ue_Kind e = UsageCoding) ue_InputTokens es"
  "to_CachedInput (fold Totals_Add es t) = to_CachedInput t + sum_where (\<lambda>e. ue_Kind e = UsageCoding) ue_CachedInputTokens es"
  "to_CodingOutput (fold Totals_Add es t) = to_CodingOutput t + sum_where (\<lambda>e. ue_Kind e = UsageCoding) ue_OutputTokens es"
  by (induction es arbitrary: t) (simp_all add: sum_where_def)

lemma CacheHitRatio_bounds:
  "0 \<le> to_CodingInput t \<Longrightarrow> 0 \<le> to_CachedInput t \<Longrightarrow> 0 \<le> CacheHitRatio t \<and> CacheHitRatio t \<le> 1"
  by (auto simp: CacheHitRatio_def Let_def divide_le_eq)

section \<open>Statistics\<close>

definition group_ok :: "(TaskOutcome \<Rightarrow> string) \<Rightarrow> Statistics \<Rightarrow> string \<Rightarrow> Stats \<Rightarrow> bool" where
  "group_ok key s k st \<longleftrightarrow>
     st_Attempts st = int (length (filter (\<lambda>r. key r = k) s)) \<and>
     st_Successes st = int (length (filter (\<lambda>r. key r = k \<and> tn_Outcome r = OutcomeSuccess) s)) \<and>
     st_Failures st = int (length (filter (\<lambda>r. key r = k \<and> tn_Outcome r \<noteq> OutcomeSuccess) s))"

lemma group_step_map: "map_of (group_step key r gs) k =
  (if k = key r then Some (count_outcome r (case map_of gs (key r) of Some st \<Rightarrow> st | None \<Rightarrow> fresh_stats r))
   else map_of gs k)"
  by (simp add: group_step_def update_conv')

lemma count_outcome_fields [simp]:
  "st_Attempts (count_outcome r st) = st_Attempts st + 1"
  "st_Successes (count_outcome r st) = st_Successes st + (if tn_Outcome r = OutcomeSuccess then 1 else 0)"
  "st_Failures (count_outcome r st) = st_Failures st + (if tn_Outcome r = OutcomeSuccess then 0 else 1)"
  by (simp_all add: count_outcome_def Let_def)

lemma group_step_distinct: "distinct (map fst gs) \<Longrightarrow> distinct (map fst (group_step key r gs))"
  by (simp add: group_step_def distinct_update)

lemma groups_ok:
  "distinct (map fst (fold (group_step key) s [])) \<and>
   (\<forall>k. (case map_of (fold (group_step key) s []) k of
            None \<Rightarrow> k \<notin> key ` set s | Some st \<Rightarrow> k \<in> key ` set s \<and> group_ok key s k st))"
proof (induction s rule: rev_induct)
  case (snoc r s)
  let ?gs = "fold (group_step key) s []"
  have d: "distinct (map fst (group_step key r ?gs))" using snoc by (intro group_step_distinct) blast
  have "case map_of (group_step key r ?gs) k of
          None \<Rightarrow> k \<notin> key ` set (s @ [r]) | Some st \<Rightarrow> k \<in> key ` set (s @ [r]) \<and> group_ok key (s @ [r]) k st" for k
  proof (cases "k = key r")
    case True
    show ?thesis
    proof (cases "map_of ?gs k")
      case None
      with snoc have "k \<notin> key ` set s" by (metis (no_types, lifting) option.case(1))
      then have "filter (\<lambda>r. key r = k \<and> P r) s = []" for P by (auto simp: filter_empty_conv)
      from this [of "\<lambda>_. True"] this None True show ?thesis
        by (simp add: group_step_map group_ok_def fresh_stats_def)
    next
      case (Some st)
      with snoc have "group_ok key s k st" by (metis (no_types, lifting) option.case(2))
      with Some True show ?thesis by (simp add: group_step_map group_ok_def)
    qed
  next
    case False
    have "case map_of ?gs k of None \<Rightarrow> k \<notin> key ` set s | Some st \<Rightarrow> k \<in> key ` set s \<and> group_ok key s k st"
      using snoc by blast
    with False show ?thesis by (auto simp: group_step_map group_ok_def split: option.splits)
  qed
  with d show ?case by simp
qed simp

lemma groups_keys: "fst ` set (fold (group_step key) s []) = key ` set s"
  using groups_ok [of key s] by (force simp: map_of_eq_None_iff [symmetric] split: option.splits)

lemma groups_member:
  "(k, st) \<in> set (fold (group_step key) s []) \<Longrightarrow> group_ok key s k st"
proof -
  assume "(k, st) \<in> set (fold (group_step key) s [])"
  then have "map_of (fold (group_step key) s []) k = Some st" using groups_ok [of key s] by simp
  with groups_ok [of key s] show ?thesis by (metis (no_types, lifting) option.case(2))
qed

lemma groups_total: "sum_list (map (\<lambda>g. st_Attempts (snd g)) (fold (group_step key) s [])) = int (length s)"
proof -
  let ?gs = "fold (group_step key) s []"
  have "sum_list (map (\<lambda>g. st_Attempts (snd g)) ?gs) = sum_list (map (\<lambda>g. int (count_list (map key s) (fst g))) ?gs)"
  proof (intro arg_cong [where f = sum_list] map_cong refl)
    fix g assume "g \<in> set ?gs"
    then have "group_ok key s (fst g) (snd g)" by (simp add: groups_member)
    moreover have "length (filter (\<lambda>r. key r = k) s) = count_list (map key s) k" for k
      by (induction s) auto
    ultimately show "st_Attempts (snd g) = int (count_list (map key s) (fst g))" by (simp add: group_ok_def)
  qed
  also have "\<dots> = (\<Sum>k \<leftarrow> map fst ?gs. int (count_list (map key s) k))" by (simp add: comp_def)
  also have "\<dots> = (\<Sum>k \<in> fst ` set ?gs. int (count_list (map key s) k))"
    using groups_ok [of key s] sum_list_distinct_conv_sum_set [of "map fst ?gs"] by simp
  also have "\<dots> = int (\<Sum>k \<in> set (map key s). count_list (map key s) k)" by (simp add: groups_keys)
  also have "\<dots> = int (length s)" using sum_count_set [of "map key s" "set (map key s)"] by simp
  finally show ?thesis .
qed

lemma finish_stats_fields [simp]:
  "st_Attempts (finish_stats st) = st_Attempts st" "st_Successes (finish_stats st) = st_Successes st"
  "st_Failures (finish_stats st) = st_Failures st"
  by (simp_all add: finish_stats_def)

lemma aggregate_member:
  assumes "st \<in> set (aggregate key s)"
  obtains k st0 where "st = finish_stats st0" "group_ok key s k st0" "k \<in> key ` set s"
proof -
  from assms obtain k st0 where "(k, st0) \<in> set (fold (group_step key) s [])" "st = finish_stats st0"
    by (auto simp: aggregate_def)
  with that groups_member groups_keys [of key s] show thesis by (metis fst_conv imageI)
qed

text \<open>The success statistics partition the recorded outcomes: whatever they are grouped by, the attempts
  of the groups add up to the number of outcomes, every group has at least one attempt, its successes
  and failures add up to its attempts, and its success rate is exactly their quotient, a fraction
  between 0 and 1.\<close>

theorem statistics_partition:
  "sum_list (map st_Attempts (aggregate key s)) = int (length s) \<and>
   (\<forall>st. st \<in> set (aggregate key s) \<longrightarrow>
      0 < st_Attempts st \<and> st_Successes st + st_Failures st = st_Attempts st \<and>
      st_SuccessRate st = of_int (st_Successes st) / of_int (st_Attempts st) \<and>
      0 \<le> st_SuccessRate st \<and> st_SuccessRate st \<le> 1)"
proof (intro conjI allI impI)
  have "mset (map st_Attempts (aggregate key s)) = mset (map (\<lambda>g. st_Attempts (snd g)) (fold (group_step key) s []))"
    by (simp add: aggregate_def multiset.map_comp comp_def)
  then have "sum_list (map st_Attempts (aggregate key s)) = sum_list (map (\<lambda>g. st_Attempts (snd g)) (fold (group_step key) s []))"
    by (metis sum_mset_sum_list)
  then show "sum_list (map st_Attempts (aggregate key s)) = int (length s)" by (simp add: groups_total)
  fix st assume "st \<in> set (aggregate key s)"
  then obtain k st0 where st: "st = finish_stats st0" "group_ok key s k st0" "k \<in> key ` set s"
    by (rule aggregate_member)
  from st(3) have "filter (\<lambda>r. key r = k) s \<noteq> []" by (auto simp: filter_empty_conv)
  with st show pos: "0 < st_Attempts st" by (simp add: group_ok_def)
  have split: "length (filter (\<lambda>r. P r \<and> Q r) xs) + length (filter (\<lambda>r. P r \<and> \<not> Q r) xs) = length (filter P xs)"
    for P Q and xs :: "'z list" by (induction xs) auto
  have "st_Successes st0 + st_Failures st0 = st_Attempts st0"
    using st(2) split [of "\<lambda>r. key r = k" "\<lambda>r. tn_Outcome r = OutcomeSuccess" s] by (simp add: group_ok_def)
  with st show sum: "st_Successes st + st_Failures st = st_Attempts st" by simp
  show rate: "st_SuccessRate st = of_int (st_Successes st) / of_int (st_Attempts st)"
  proof -
    have "0 < st_Attempts st0" using pos unfolding st(1) by simp
    then show ?thesis unfolding st(1) by (simp add: finish_stats_def)
  qed
  have "0 \<le> st_Successes st" "0 \<le> st_Failures st" using st by (simp_all add: group_ok_def)
  with sum pos show "0 \<le> st_SuccessRate st" "st_SuccessRate st \<le> 1"
    unfolding rate by (simp_all add: divide_le_eq flip: of_int_le_iff)
qed

definition demo_task_outcome :: "string \<Rightarrow> Outcome \<Rightarrow> TaskOutcome" where
  "demo_task_outcome m oc = \<lparr>tn_TaskID = ''t'', tn_ProjectID = ''p'', tn_Engine = ''fake'', tn_Model = m, tn_RouteTier = ''STANDARD'',
     tn_Outcome = oc, tn_RepairIterations = 1, tn_Findings = 2, tn_OccurredAt = 5\<rparr>"

theorem statistics_partition_witness:
  "let s = [demo_task_outcome ''a'' OutcomeSuccess, demo_task_outcome ''b'' OutcomeFailure, demo_task_outcome ''a'' OutcomeFailure]
   in sum_list (map st_Attempts (aggregate tn_Model s)) = 3 \<and>
      (\<exists>st \<in> set (aggregate tn_Model s). st_Successes st = 1 \<and> st_SuccessRate st = 1 / 2)"
proof -
  let ?s = "[demo_task_outcome ''a'' OutcomeSuccess, demo_task_outcome ''b'' OutcomeFailure, demo_task_outcome ''a'' OutcomeFailure]"
  have "\<exists>st \<in> set (aggregate tn_Model ?s). st_Successes st = 1 \<and> st_Attempts st = 2" by code_simp
  then show ?thesis using statistics_partition [of tn_Model ?s] by (auto simp: Let_def intro!: bexI)
qed

section \<open>The table\<close>

definition ut_ok :: "usage_table \<Rightarrow> bool" where
  "ut_ok t \<longleftrightarrow> sorted (map uv_ID (ut_rows t)) \<and> distinct (map uv_ID (ut_rows t)) \<and>
     (\<forall>r \<in> set (ut_rows t). uv_ID r \<le> ut_seq t)"

lemma ut_ok_record: "ut_ok t \<Longrightarrow> ut_ok (snd (RecordUsageEvent now r t))"
  by (fastforce simp: ut_ok_def RecordUsageEvent_def Let_def sorted_append)

lemma ListUsageEvents_filter:
  assumes "ut_ok t" "length (ut_rows t) \<le> 10000"
  shows "ListUsageEvents \<lparr>rw_ProjectID = p, rw_TaskID = '''', rw_Provider = '''', rw_Limit = 0\<rparr> t
    = filter (\<lambda>r. p = '''' \<or> uv_ProjectID r = p) (ut_rows t)"
proof -
  have "sorted (map uv_ID (filter P (ut_rows t)))" for P
    using assms(1) sorted_filter by (auto simp: ut_ok_def)
  moreover have "length (filter P (ut_rows t)) \<le> 10000" for P
    using assms(2) length_filter_le [of P "ut_rows t"] by linarith
  ultimately show ?thesis by (simp add: ListUsageEvents_def sort_key_id_if_sorted)
qed

end
