(* ===== verification/Project_Memory.thy ===== *)
theory Project_Memory
  imports Go_Float "HOL-Library.AList"
begin

text \<open>
  The structured project memory: the in-process store of \<^verbatim>\<open>src/internal/memory/memory.go\<close> and the durable
  table of \<^verbatim>\<open>src/internal/storage/memory.go\<close>. The store's map is an association list with distinct keys,
  the composite \<^verbatim>\<open>category::key\<close> strings of the source. The theorems: every reachable store holds each
  fact under its own key and only valid categories; learning a fact and looking it up returns it, with
  a version that counts how often it was learned; pruning removes exactly the stale facts; the listing
  is sorted and does not depend on the order of the map; and the table and the store agree on versions.
\<close>

section \<open>Records\<close>

abbreviation (input) CatArchitectureFact :: string where "CatArchitectureFact \<equiv> ''architecture_fact''"
abbreviation (input) CatBuildCommand :: string where "CatBuildCommand \<equiv> ''build_command''"
abbreviation (input) CatDesignSystemRule :: string where "CatDesignSystemRule \<equiv> ''design_system_rule''"
abbreviation (input) CatKnownFailure :: string where "CatKnownFailure \<equiv> ''known_failure''"
abbreviation (input) CatAcceptedDecision :: string where "CatAcceptedDecision \<equiv> ''accepted_decision''"
abbreviation (input) CatProviderQuirk :: string where "CatProviderQuirk \<equiv> ''provider_quirk''"

definition Category_IsValid :: "string \<Rightarrow> bool" where
  "Category_IsValid c \<longleftrightarrow>
     c \<in> set [CatArchitectureFact, CatBuildCommand, CatDesignSystemRule, CatKnownFailure,
              CatAcceptedDecision, CatProviderQuirk]"

record memory_record =
  me_Key :: string
  me_Category :: string
  me_Value :: string
  me_Source :: string
  me_Confidence :: string
  me_Scope :: string
  me_CommitSHA :: string
  me_Expiration :: string
  me_ExpiresAt :: time
  me_LearnedAt :: time
  me_Version :: int

definition memory_IsExpired :: "memory_record \<Rightarrow> time \<Rightarrow> bool" where
  "memory_IsExpired r now =
     (if me_Expiration r = ''permanent'' then False
      else if me_Expiration r = ''ttl'' then \<not> IsZero (me_ExpiresAt r) \<and> me_ExpiresAt r < now
      else False)"

record memory_store =
  ms_projectID :: string
  ms_records :: "(string \<times> memory_record) list"

definition NewStore :: "string \<Rightarrow> memory_store" where
  "NewStore p = \<lparr>ms_projectID = p, ms_records = []\<rparr>"

definition keyFor :: "string \<Rightarrow> string \<Rightarrow> string" where
  "keyFor cat k = cat @ ''::'' @ k"

datatype memory_error = ErrInvalidCategory | ErrEmptyKey

section \<open>Operations\<close>

definition store_Learn :: "time \<Rightarrow> memory_record \<Rightarrow> memory_store \<Rightarrow> (memory_error, memory_record) result \<times> memory_store" where
  "store_Learn now r s =
     (if me_Category r = '''' \<or> \<not> Category_IsValid (me_Category r) then (Inl ErrInvalidCategory, s)
      else if me_Key r = '''' then (Inl ErrEmptyKey, s)
      else
        (let r = (if me_Confidence r = '''' then r\<lparr>me_Confidence := ''medium''\<rparr> else r);
             r = (if me_Expiration r = '''' then r\<lparr>me_Expiration := ''permanent''\<rparr> else r);
             k = keyFor (me_Category r) (me_Key r);
             r = r\<lparr>me_Version := (case map_of (ms_records s) k of Some old \<Rightarrow> me_Version old | None \<Rightarrow> 0) + 1,
                   me_LearnedAt := now\<rparr>
         in (Inr r, s\<lparr>ms_records := AList.update k r (ms_records s)\<rparr>)))"

definition store_Get :: "string \<Rightarrow> string \<Rightarrow> memory_store \<Rightarrow> memory_record option" where
  "store_Get cat k s = map_of (ms_records s) (keyFor cat k)"

definition store_All :: "time \<Rightarrow> memory_store \<Rightarrow> memory_record list" where
  "store_All now s =
     sort_key (\<lambda>r. [me_Category r, me_Key r]) (filter (\<lambda>r. \<not> memory_IsExpired r now) (map snd (ms_records s)))"

definition ByCategory :: "time \<Rightarrow> string \<Rightarrow> memory_store \<Rightarrow> memory_record list" where
  "ByCategory now cat s = filter (\<lambda>r. me_Category r = cat) (store_All now s)"

definition Forget :: "string \<Rightarrow> string \<Rightarrow> memory_store \<Rightarrow> bool \<times> memory_store" where
  "Forget cat k s =
     (map_of (ms_records s) (keyFor cat k) \<noteq> None,
      s\<lparr>ms_records := filter (\<lambda>(k', _). k' \<noteq> keyFor cat k) (ms_records s)\<rparr>)"

definition ForgetCategory :: "string \<Rightarrow> memory_store \<Rightarrow> nat \<times> memory_store" where
  "ForgetCategory cat s =
     (length (filter (\<lambda>(_, r). me_Category r = cat) (ms_records s)),
      s\<lparr>ms_records := filter (\<lambda>(_, r). me_Category r \<noteq> cat) (ms_records s)\<rparr>)"

definition stale :: "time \<Rightarrow> string \<Rightarrow> memory_record \<Rightarrow> bool" where
  "stale now currentHEAD r \<longleftrightarrow>
     memory_IsExpired r now \<or>
     (me_Expiration r = ''on_commit_change'' \<and> me_CommitSHA r \<noteq> '''' \<and> me_CommitSHA r \<noteq> currentHEAD)"

definition PruneStale :: "time \<Rightarrow> string \<Rightarrow> memory_store \<Rightarrow> nat \<times> memory_store" where
  "PruneStale now currentHEAD s =
     (length (filter (\<lambda>(_, r). stale now currentHEAD r) (ms_records s)),
      s\<lparr>ms_records := filter (\<lambda>(_, r). \<not> stale now currentHEAD r) (ms_records s)\<rparr>)"

definition HighConfidenceRules :: "time \<Rightarrow> memory_store \<Rightarrow> string list" where
  "HighConfidenceRules now s =
     map me_Value
       (filter (\<lambda>r. me_Confidence r = ''high'' \<and>
                 (me_Category r = CatArchitectureFact \<or> me_Category r = CatDesignSystemRule
                  \<or> me_Category r = CatAcceptedDecision)) (store_All now s))"

definition KnownFailures :: "time \<Rightarrow> memory_store \<Rightarrow> string list" where
  "KnownFailures now s = map me_Value (ByCategory now CatKnownFailure s)"

section \<open>The project\_memory table\<close>

record memory_row =
  mr_ID :: nat
  mr_ProjectID :: string
  mr_Category :: string
  mr_Key :: string
  mr_Value :: string
  mr_Source :: string
  mr_Confidence :: string
  mr_Scope :: string
  mr_CommitSHA :: string
  mr_Expiration :: string
  mr_ExpiresAt :: string
  mr_LearnedAt :: time
  mr_Version :: int

record memory_table =
  mt_rows :: "memory_row list"
  mt_seq :: nat

definition same_fact :: "memory_row \<Rightarrow> memory_row \<Rightarrow> bool" where
  "same_fact r x \<longleftrightarrow> mr_ProjectID x = mr_ProjectID r \<and> mr_Category x = mr_Category r \<and> mr_Key x = mr_Key r"

text \<open>The update keeps the row's identifier and writes every other column. \<open>None\<close> is the error of a missing
  project, category or key.\<close>

definition LearnMemory :: "time \<Rightarrow> memory_row \<Rightarrow> memory_table \<Rightarrow> memory_row option \<times> memory_table" where
  "LearnMemory now r t =
     (if mr_ProjectID r = '''' \<or> mr_Category r = '''' \<or> mr_Key r = '''' then (None, t)
      else
        (let r = (if mr_Confidence r = '''' then r\<lparr>mr_Confidence := ''medium''\<rparr> else r);
             r = (if mr_Expiration r = '''' then r\<lparr>mr_Expiration := ''permanent''\<rparr> else r);
             r = (if IsZero (mr_LearnedAt r) then r\<lparr>mr_LearnedAt := now\<rparr> else r)
         in case find (same_fact r) (mt_rows t) of
              Some old \<Rightarrow>
                (let r = r\<lparr>mr_Version := mr_Version old + 1\<rparr>
                 in (Some r,
                     t\<lparr>mt_rows := update_where (same_fact r) (\<lambda>x. r\<lparr>mr_ID := mr_ID x\<rparr>) (mt_rows t)\<rparr>))
            | None \<Rightarrow>
                (let r = r\<lparr>mr_Version := 1\<rparr>
                 in (Some r,
                     t\<lparr>mt_rows := mt_rows t @ [r\<lparr>mr_ID := Suc (mt_seq t)\<rparr>], mt_seq := Suc (mt_seq t)\<rparr>))))"

definition ListMemory :: "string \<Rightarrow> memory_table \<Rightarrow> memory_row list" where
  "ListMemory p t = sort_key (\<lambda>r. [mr_Category r, mr_Key r]) (filter (\<lambda>r. mr_ProjectID r = p) (mt_rows t))"

section \<open>Keys\<close>

lemma valid_no_colon: "Category_IsValid c \<Longrightarrow> CHR '':'' \<notin> set c"
  by (auto simp: Category_IsValid_def)

lemma valid_not_empty: "Category_IsValid c \<Longrightarrow> c \<noteq> ''''"
  by (auto simp: Category_IsValid_def)

lemma split_at_colon: "CHR '':'' \<notin> set c \<Longrightarrow> takeWhile (\<lambda>x. x \<noteq> CHR '':'') (c @ CHR '':'' # k) = c"
  by (induction c) auto

lemma keyFor_inject:
  assumes "Category_IsValid c" "Category_IsValid c'" "keyFor c k = keyFor c' k'"
  shows "c = c' \<and> k = k'"
proof -
  have "takeWhile (\<lambda>x. x \<noteq> CHR '':'') (keyFor c k) = c" "takeWhile (\<lambda>x. x \<noteq> CHR '':'') (keyFor c' k') = c'"
    using assms(1,2) by (simp_all add: keyFor_def split_at_colon valid_no_colon)
  then have "c = c'" unfolding assms(3) by simp
  with assms(3) show ?thesis by (simp add: keyFor_def)
qed

section \<open>The store\<close>

definition record_ok :: "string \<Rightarrow> memory_record \<Rightarrow> bool" where
  "record_ok k r \<longleftrightarrow> k = keyFor (me_Category r) (me_Key r) \<and> Category_IsValid (me_Category r) \<and>
     me_Key r \<noteq> '''' \<and> 1 \<le> me_Version r"

definition ms_ok :: "memory_store \<Rightarrow> bool" where
  "ms_ok s \<longleftrightarrow> distinct (map fst (ms_records s)) \<and> (\<forall>(k, r) \<in> set (ms_records s). record_ok k r)"

datatype memory_op =
  MLearn memory_record | MForget string string | MForgetCategory string | MPrune string

fun memory_exec :: "time \<times> memory_op \<Rightarrow> memory_store \<Rightarrow> memory_store" where
  "memory_exec (now, MLearn r) s = snd (store_Learn now r s)"
| "memory_exec (now, MForget c k) s = snd (Forget c k s)"
| "memory_exec (now, MForgetCategory c) s = snd (ForgetCategory c s)"
| "memory_exec (now, MPrune h) s = snd (PruneStale now h s)"

lemma ms_ok_lookup: "ms_ok s \<Longrightarrow> map_of (ms_records s) k = Some r \<Longrightarrow> record_ok k r"
  by (auto simp: ms_ok_def dest: map_of_SomeD)

lemma ms_ok_update:
  assumes "ms_ok s" "record_ok k r"
  shows "ms_ok (s\<lparr>ms_records := AList.update k r (ms_records s)\<rparr>)"
proof -
  have d: "distinct (map fst (AList.update k r (ms_records s)))" using assms(1) by (simp add: ms_ok_def distinct_update)
  have "record_ok k' r'" if "(k', r') \<in> set (AList.update k r (ms_records s))" for k' r'
  proof -
    have "map_of (AList.update k r (ms_records s)) k' = Some r'" using that d by simp
    with assms show ?thesis by (auto simp: update_conv' split: if_splits intro: ms_ok_lookup)
  qed
  with d show ?thesis by (auto simp: ms_ok_def)
qed

lemma ms_ok_filter: "ms_ok s \<Longrightarrow> ms_ok (s\<lparr>ms_records := filter P (ms_records s)\<rparr>)"
  by (auto simp: ms_ok_def distinct_map_filter)

lemma store_Learn_ok: "ms_ok s \<Longrightarrow> ms_ok (snd (store_Learn now r s))"
proof (cases "me_Category r = '''' \<or> \<not> Category_IsValid (me_Category r) \<or> me_Key r = ''''")
  case False
  assume ok: "ms_ok s"
  let ?k = "keyFor (me_Category r) (me_Key r)"
  have "0 \<le> (case map_of (ms_records s) ?k of Some old \<Rightarrow> me_Version old | None \<Rightarrow> 0)"
    using ms_ok_lookup [OF ok] by (fastforce simp: record_ok_def split: option.splits)
  with False ok show ?thesis
    by (auto simp: store_Learn_def Let_def record_ok_def intro!: ms_ok_update)
qed (auto simp: store_Learn_def)

lemma memory_exec_ok: "ms_ok s \<Longrightarrow> ms_ok (memory_exec op s)"
  by (induction op s rule: memory_exec.induct)
     (simp_all add: store_Learn_ok Forget_def ForgetCategory_def PruneStale_def ms_ok_filter)

lemma memory_run_ok: "ms_ok (fold memory_exec ops (NewStore p))"
proof -
  have "ms_ok s \<Longrightarrow> ms_ok (fold memory_exec ops s)" for s
    by (induction ops arbitrary: s) (simp_all add: memory_exec_ok)
  moreover have "ms_ok (NewStore p)" by (simp add: ms_ok_def NewStore_def)
  ultimately show ?thesis by blast
qed

text \<open>The memory store never holds an unclassified or duplicated fact: after any sequence of operations on
  a new store, every fact has a valid category and a non-empty key, is stored under exactly the key of
  its category and name, once, and its version is at least 1.\<close>

theorem memory_store_well_formed:
  assumes "s = fold memory_exec ops (NewStore p)"
  shows "distinct (map fst (ms_records s)) \<and>
    (\<forall>k r. (k, r) \<in> set (ms_records s) \<longrightarrow>
       Category_IsValid (me_Category r) \<and> me_Key r \<noteq> '''' \<and> 1 \<le> me_Version r \<and>
       store_Get (me_Category r) (me_Key r) s = Some r)"
proof -
  have ok: "ms_ok s" unfolding assms by (rule memory_run_ok)
  then show ?thesis by (auto simp: ms_ok_def record_ok_def store_Get_def)
qed

definition demo_fact :: memory_record where
  "demo_fact = \<lparr>me_Key = ''layering'', me_Category = CatArchitectureFact, me_Value = ''no cycles'', me_Source = ''cli'',
     me_Confidence = ''high'', me_Scope = '''', me_CommitSHA = '''', me_Expiration = '''', me_ExpiresAt = 0,
     me_LearnedAt = 0, me_Version = 0\<rparr>"

theorem memory_store_well_formed_witness:
  "distinct (map fst (ms_records (fold memory_exec [(5, MLearn demo_fact), (6, MLearn demo_fact)] (NewStore ''p''))))"
  using memory_store_well_formed [OF refl, of "[(5, MLearn demo_fact), (6, MLearn demo_fact)]" "''p''"] by blast

lemma store_Learn_success:
  assumes "Category_IsValid (me_Category r)" "me_Key r \<noteq> ''''"
  obtains r' where "store_Learn now r s = (Inr r', s\<lparr>ms_records := AList.update (keyFor (me_Category r) (me_Key r)) r' (ms_records s)\<rparr>)"
    and "me_Category r' = me_Category r" "me_Key r' = me_Key r" "me_Value r' = me_Value r"
    and "me_Confidence r' = (if me_Confidence r = '''' then ''medium'' else me_Confidence r)"
    and "me_Version r' = (case store_Get (me_Category r) (me_Key r) s of Some old \<Rightarrow> me_Version old | None \<Rightarrow> 0) + 1"
    and "me_LearnedAt r' = now"
  using assms valid_not_empty [OF assms(1)] by (simp add: store_Learn_def Let_def store_Get_def)

lemma store_Get_Learn:
  assumes "Category_IsValid (me_Category r)" "me_Key r \<noteq> ''''" "Category_IsValid c"
    and "store_Learn now r s = (Inr r', s')"
  shows "store_Get c k s' = (if c = me_Category r \<and> k = me_Key r then Some r' else store_Get c k s)"
proof -
  have s': "s' = s\<lparr>ms_records := AList.update (keyFor (me_Category r) (me_Key r)) r' (ms_records s)\<rparr>"
    using store_Learn_success [OF assms(1,2), of now s] assms(4) by (metis Inr_inject prod.inject)
  show ?thesis
    using keyFor_inject [OF assms(3,1), of k "me_Key r"] by (auto simp: s' store_Get_def update_conv')
qed

text \<open>Learning is a round trip: a fact with a valid category and a name is accepted, is returned by a
  lookup with its value, the instant it was learned and a version one above the previous one, and
  leaves every other fact as it was; an invalid category or an empty name is refused and changes
  nothing.\<close>

theorem memory_learn_get:
  "if Category_IsValid (me_Category r) \<and> me_Key r \<noteq> ''''
   then \<exists>r'. fst (store_Learn now r s) = Inr r' \<and>
          store_Get (me_Category r) (me_Key r) (snd (store_Learn now r s)) = Some r' \<and>
          me_Value r' = me_Value r \<and> me_LearnedAt r' = now \<and>
          me_Version r' = (case store_Get (me_Category r) (me_Key r) s of Some old \<Rightarrow> me_Version old | None \<Rightarrow> 0) + 1 \<and>
          (\<forall>c k. Category_IsValid c \<and> (c \<noteq> me_Category r \<or> k \<noteq> me_Key r) \<longrightarrow>
             store_Get c k (snd (store_Learn now r s)) = store_Get c k s)
   else isl (fst (store_Learn now r s)) \<and> snd (store_Learn now r s) = s"
proof (cases "Category_IsValid (me_Category r) \<and> me_Key r \<noteq> ''''")
  case True
  then obtain r' where r': "store_Learn now r s = (Inr r', s\<lparr>ms_records := AList.update (keyFor (me_Category r) (me_Key r)) r' (ms_records s)\<rparr>)"
    "me_Value r' = me_Value r"
    "me_Version r' = (case store_Get (me_Category r) (me_Key r) s of Some old \<Rightarrow> me_Version old | None \<Rightarrow> 0) + 1"
    "me_LearnedAt r' = now"
    using store_Learn_success [of r now s] by metis
  have get: "store_Get c k (snd (store_Learn now r s)) = (if c = me_Category r \<and> k = me_Key r then Some r' else store_Get c k s)"
    if "Category_IsValid c" for c k
    using store_Get_Learn [OF _ _ that r'(1)] True r'(1) by simp
  have "\<forall>c k. Category_IsValid c \<and> (c \<noteq> me_Category r \<or> k \<noteq> me_Key r) \<longrightarrow>
      store_Get c k (snd (store_Learn now r s)) = store_Get c k s"
    using get by auto
  moreover have "store_Get (me_Category r) (me_Key r) (snd (store_Learn now r s)) = Some r'"
    using get [of "me_Category r" "me_Key r"] True by simp
  moreover have "fst (store_Learn now r s) = Inr r'" using r'(1) by simp
  ultimately show ?thesis unfolding if_P [OF True] using r'(2-4) by (intro exI [of _ r'] conjI)
next
  case False
  then show ?thesis by (auto simp: store_Learn_def)
qed

theorem memory_learn_get_witness:
  "\<exists>r'. fst (store_Learn 7 demo_fact (NewStore ''p'')) = Inr r' \<and>
     store_Get (me_Category demo_fact) (me_Key demo_fact) (snd (store_Learn 7 demo_fact (NewStore ''p''))) = Some r' \<and>
     me_Version r' = 1"
proof -
  have "Category_IsValid (me_Category demo_fact) \<and> me_Key demo_fact \<noteq> []" by code_simp
  moreover have "store_Get (me_Category demo_fact) (me_Key demo_fact) (NewStore ''p'') = None" by code_simp
  ultimately show ?thesis using memory_learn_get [of demo_fact 7 "NewStore ''p''"] by (auto split: if_splits)
qed

section \<open>The table mirrors the store\<close>

definition row_of :: "string \<Rightarrow> string \<Rightarrow> string \<Rightarrow> memory_table \<Rightarrow> memory_row option" where
  "row_of p c k t = find (\<lambda>x. mr_ProjectID x = p \<and> mr_Category x = c \<and> mr_Key x = k) (mt_rows t)"

definition row_view :: "memory_row \<Rightarrow> string \<times> string \<times> int" where
  "row_view r = (mr_Value r, mr_Confidence r, mr_Version r)"


text \<open>A row as a record of the store, \<open>f\<close> reading the text of its expiry; and a record up to the time it was learned.\<close>

definition record_of_row :: "(string \<Rightarrow> time) \<Rightarrow> memory_row \<Rightarrow> memory_record" where
  "record_of_row f r = \<lparr>me_Key = mr_Key r, me_Category = mr_Category r, me_Value = mr_Value r, me_Source = mr_Source r,
     me_Confidence = mr_Confidence r, me_Scope = mr_Scope r, me_CommitSHA = mr_CommitSHA r,
     me_Expiration = mr_Expiration r, me_ExpiresAt = f (mr_ExpiresAt r), me_LearnedAt = mr_LearnedAt r, me_Version = mr_Version r\<rparr>"

definition untimed :: "memory_record \<Rightarrow> memory_record" where
  "untimed r = r\<lparr>me_LearnedAt := zero_time\<rparr>"

definition mirrors :: "(string \<Rightarrow> time) \<Rightarrow> string \<Rightarrow> memory_table \<Rightarrow> memory_store \<Rightarrow> bool" where
  "mirrors f p t s \<longleftrightarrow>
     (\<forall>c k. Category_IsValid c \<longrightarrow>
        map_option (\<lambda>r. untimed (record_of_row f r)) (row_of p c k t) = map_option untimed (store_Get c k s))"

text \<open>A fact with the defaults filled in and the version that follows the one it replaces.\<close>

definition learned :: "int \<Rightarrow> memory_record \<Rightarrow> memory_record" where
  "learned v r =
     r\<lparr>me_Confidence := (if me_Confidence r = '''' then ''medium'' else me_Confidence r),
       me_Expiration := (if me_Expiration r = '''' then ''permanent'' else me_Expiration r), me_Version := v + 1\<rparr>"
lemma row_of_update:
  "row_of p c k (t\<lparr>mt_rows := update_where (same_fact r) (\<lambda>x. r\<lparr>mr_ID := mr_ID x\<rparr>) (mt_rows t)\<rparr>) =
    (if p = mr_ProjectID r \<and> c = mr_Category r \<and> k = mr_Key r
     then map_option (\<lambda>x. r\<lparr>mr_ID := mr_ID x\<rparr>) (row_of p c k t) else row_of p c k t)"
proof -
  have "find (\<lambda>x. mr_ProjectID x = p \<and> mr_Category x = c \<and> mr_Key x = k)
      (update_where (same_fact r) (\<lambda>x. r\<lparr>mr_ID := mr_ID x\<rparr>) xs) =
     (if p = mr_ProjectID r \<and> c = mr_Category r \<and> k = mr_Key r
      then map_option (\<lambda>x. r\<lparr>mr_ID := mr_ID x\<rparr>) (find (\<lambda>x. mr_ProjectID x = p \<and> mr_Category x = c \<and> mr_Key x = k) xs)
      else find (\<lambda>x. mr_ProjectID x = p \<and> mr_Category x = c \<and> mr_Key x = k) xs)" for xs
    by (induction xs) (auto simp: same_fact_def)
  then show ?thesis by (simp add: row_of_def)
qed

lemma find_snoc: "find P (xs @ [x]) = (case find P xs of Some y \<Rightarrow> Some y | None \<Rightarrow> if P x then Some x else None)"
  by (induction xs) auto

lemma LearnMemory_row:
  assumes "mr_ProjectID r \<noteq> ''''" "mr_Category r \<noteq> ''''" "mr_Key r \<noteq> ''''"
  shows "map_option row_view (row_of p c k (snd (LearnMemory now r t))) =
    (if p = mr_ProjectID r \<and> c = mr_Category r \<and> k = mr_Key r
     then Some (mr_Value r, if mr_Confidence r = '''' then ''medium'' else mr_Confidence r,
                (case row_of p c k t of Some old \<Rightarrow> mr_Version old | None \<Rightarrow> 0) + 1)
     else map_option row_view (row_of p c k t))"
proof -
  define r1 where "r1 = (let r = (if mr_Confidence r = '''' then r\<lparr>mr_Confidence := ''medium''\<rparr> else r);
             r = (if mr_Expiration r = '''' then r\<lparr>mr_Expiration := ''permanent''\<rparr> else r)
         in if IsZero (mr_LearnedAt r) then r\<lparr>mr_LearnedAt := now\<rparr> else r)"
  have f: "mr_ProjectID r1 = mr_ProjectID r" "mr_Category r1 = mr_Category r" "mr_Key r1 = mr_Key r"
    "mr_Value r1 = mr_Value r" "mr_Confidence r1 = (if mr_Confidence r = '''' then ''medium'' else mr_Confidence r)"
    by (simp_all add: r1_def Let_def)
  have find: "find (same_fact r1) (mt_rows t) = row_of (mr_ProjectID r) (mr_Category r) (mr_Key r) t"
    by (simp add: same_fact_def [abs_def] row_of_def f)
  show ?thesis
  proof (cases "row_of (mr_ProjectID r) (mr_Category r) (mr_Key r) t")
    case None
    then have "snd (LearnMemory now r t) = t\<lparr>mt_rows := mt_rows t @ [r1\<lparr>mr_Version := 1, mr_ID := Suc (mt_seq t)\<rparr>], mt_seq := Suc (mt_seq t)\<rparr>"
      using assms find by (simp add: LearnMemory_def r1_def [symmetric] Let_def r1_def)
    with None show ?thesis by (auto simp: row_of_def find_snoc f row_view_def split: option.splits)
  next
    case (Some old)
    then have "snd (LearnMemory now r t) = t\<lparr>mt_rows := update_where (same_fact (r1\<lparr>mr_Version := mr_Version old + 1\<rparr>))
        (\<lambda>x. r1\<lparr>mr_Version := mr_Version old + 1, mr_ID := mr_ID x\<rparr>) (mt_rows t)\<rparr>"
      using assms find by (simp add: LearnMemory_def r1_def [symmetric] Let_def r1_def)
    with Some show ?thesis
      by (simp add: row_of_update [where r = "r1\<lparr>mr_Version := mr_Version old + 1\<rparr>"] f row_view_def)
  qed
qed

lemma LearnMemory_fact:
  assumes "mr_ProjectID r \<noteq> ''''" "mr_Category r \<noteq> ''''" "mr_Key r \<noteq> ''''"
  shows "map_option (\<lambda>r. untimed (record_of_row f r)) (row_of p c k (snd (LearnMemory now r t))) =
    (if p = mr_ProjectID r \<and> c = mr_Category r \<and> k = mr_Key r
     then Some (untimed (learned (case row_of p c k t of Some old \<Rightarrow> mr_Version old | None \<Rightarrow> 0) (record_of_row f r)))
     else map_option (\<lambda>r. untimed (record_of_row f r)) (row_of p c k t))"
proof -
  define r1 where "r1 = r\<lparr>mr_Confidence := (if mr_Confidence r = '''' then ''medium'' else mr_Confidence r),
    mr_Expiration := (if mr_Expiration r = '''' then ''permanent'' else mr_Expiration r),
    mr_LearnedAt := (if IsZero (mr_LearnedAt r) then now else mr_LearnedAt r)\<rparr>"
  have r1: "(let r = (if mr_Confidence r = '''' then r\<lparr>mr_Confidence := ''medium''\<rparr> else r);
             r = (if mr_Expiration r = '''' then r\<lparr>mr_Expiration := ''permanent''\<rparr> else r)
         in if IsZero (mr_LearnedAt r) then r\<lparr>mr_LearnedAt := now\<rparr> else r) = r1"
    by (cases r) (auto simp: r1_def Let_def)
  have key: "mr_ProjectID r1 = mr_ProjectID r" "mr_Category r1 = mr_Category r" "mr_Key r1 = mr_Key r"
    by (simp_all add: r1_def)
  have new: "untimed (record_of_row f (r1\<lparr>mr_Version := v + 1, mr_ID := i\<rparr>)) = untimed (learned v (record_of_row f r))" for v i
    by (simp add: r1_def untimed_def learned_def record_of_row_def)
  have find: "find (same_fact r1) (mt_rows t) = row_of (mr_ProjectID r) (mr_Category r) (mr_Key r) t"
    by (simp add: same_fact_def [abs_def] row_of_def key)
  have run: "snd (LearnMemory now r t) = (case row_of (mr_ProjectID r) (mr_Category r) (mr_Key r) t of
      Some old \<Rightarrow> t\<lparr>mt_rows := update_where (same_fact (r1\<lparr>mr_Version := mr_Version old + 1\<rparr>))
        (\<lambda>x. r1\<lparr>mr_Version := mr_Version old + 1, mr_ID := mr_ID x\<rparr>) (mt_rows t)\<rparr>
    | None \<Rightarrow> t\<lparr>mt_rows := mt_rows t @ [r1\<lparr>mr_Version := 0 + 1, mr_ID := Suc (mt_seq t)\<rparr>], mt_seq := Suc (mt_seq t)\<rparr>)"
    using assms unfolding LearnMemory_def r1 [unfolded Let_def] Let_def find by (simp split: option.split)
  show ?thesis
  proof (cases "row_of (mr_ProjectID r) (mr_Category r) (mr_Key r) t")
    case None
    then show ?thesis using new [where v = 0] by (auto simp: run row_of_def find_snoc key split: option.splits)
  next
    case (Some old)
    then show ?thesis
      using new [where v = "mr_Version old"] by (simp add: run row_of_update [where r = "r1\<lparr>mr_Version := mr_Version old + 1\<rparr>"] key)
  qed
qed

lemma store_Learn_fact:
  assumes "Category_IsValid (me_Category r)" "me_Key r \<noteq> ''''" "Category_IsValid c"
  shows "map_option untimed (store_Get c k (snd (store_Learn now r s))) =
    (if c = me_Category r \<and> k = me_Key r
     then Some (untimed (learned (case store_Get c k s of Some old \<Rightarrow> me_Version old | None \<Rightarrow> 0) r))
     else map_option untimed (store_Get c k s))"
proof -
  obtain r' s' where l: "store_Learn now r s = (Inr r', s')"
    and r': "r' = learned (case store_Get (me_Category r) (me_Key r) s of Some old \<Rightarrow> me_Version old | None \<Rightarrow> 0) r\<lparr>me_LearnedAt := now\<rparr>"
    using assms(1,2) valid_not_empty [OF assms(1)] by (cases r) (auto simp: store_Learn_def Let_def store_Get_def learned_def)
  show ?thesis using store_Get_Learn [OF assms l, of k] by (simp add: l r' untimed_def)
qed

lemma mirrors_step:
  assumes "mirrors f p t s" "mr_ProjectID r = p" "p \<noteq> ''''" "Category_IsValid (mr_Category r)" "mr_Key r \<noteq> ''''"
  shows "mirrors f p (snd (LearnMemory now r t)) (snd (store_Learn now' (record_of_row f r) s))"
  unfolding mirrors_def
proof (intro allI impI)
  fix c k assume c: "Category_IsValid c"
  let ?r = "record_of_row f r"
  have m: "map_option (\<lambda>r. untimed (record_of_row f r)) (row_of p c k t) = map_option untimed (store_Get c k s)"
    using assms(1) c by (simp add: mirrors_def)
  then have old: "(case row_of p c k t of Some old \<Rightarrow> mr_Version old | None \<Rightarrow> 0) = (case store_Get c k s of Some old \<Rightarrow> me_Version old | None \<Rightarrow> 0)"
    by (cases "row_of p c k t"; cases "store_Get c k s") (auto simp: untimed_def record_of_row_def dest: arg_cong [of _ _ me_Version])
  have key: "me_Category ?r = mr_Category r" "me_Key ?r = mr_Key r" by (simp_all add: record_of_row_def)
  show "map_option (\<lambda>r. untimed (record_of_row f r)) (row_of p c k (snd (LearnMemory now r t))) =
      map_option untimed (store_Get c k (snd (store_Learn now' ?r s)))"
    using LearnMemory_fact [of r f p c k now t] store_Learn_fact [of ?r c k now' s] assms(2-5) valid_not_empty [OF assms(4)] c m old
    by (auto simp: key)
qed

text \<open>C38: The durable table refines the in-process store. For one project, let any sequence of facts with valid
  categories and names be learned into both, from empty. Then both hold the same facts, and each fact has the same
  value, source, confidence, scope, commit, expiration, expiry and version in both; only the time
  it was learned may differ. The expiry column is a text, read by any function.\<close>

theorem memory_table_refines_store:
  assumes "p \<noteq> ''''" "\<forall>r \<in> set rs. mr_ProjectID r = p \<and> Category_IsValid (mr_Category r) \<and> mr_Key r \<noteq> ''''"
    and "Category_IsValid c"
  shows "map_option (\<lambda>r. untimed (record_of_row f r)) (row_of p c k (fold (\<lambda>r t. snd (LearnMemory now r t)) rs \<lparr>mt_rows = [], mt_seq = 0\<rparr>))
    = map_option untimed (store_Get c k (fold (\<lambda>r s. snd (store_Learn now' (record_of_row f r) s)) rs (NewStore p)))"
proof -
  have "mirrors f p t s \<Longrightarrow> mirrors f p (fold (\<lambda>r t. snd (LearnMemory now r t)) rs t)
      (fold (\<lambda>r s. snd (store_Learn now' (record_of_row f r) s)) rs s)" for t s
    using assms(2)
  proof (induction rs arbitrary: t s)
    case (Cons r rs)
    then show ?case using assms(1) by (simp add: mirrors_step)
  qed simp
  moreover have "mirrors f p \<lparr>mt_rows = [], mt_seq = 0\<rparr> (NewStore p)"
    by (simp add: mirrors_def row_of_def store_Get_def NewStore_def)
  ultimately show ?thesis using assms(3) unfolding mirrors_def by blast
qed
definition demo_memory_row :: memory_row where
  "demo_memory_row = \<lparr>mr_ID = 0, mr_ProjectID = ''p'', mr_Category = CatBuildCommand, mr_Key = ''build'', mr_Value = ''go build'',
     mr_Source = ''cli'', mr_Confidence = '''', mr_Scope = '''', mr_CommitSHA = '''', mr_Expiration = '''',
     mr_ExpiresAt = '''', mr_LearnedAt = 0, mr_Version = 0\<rparr>"

theorem memory_table_refines_store_witness:
  "map_option (\<lambda>r. untimed (record_of_row (\<lambda>_. 9) r)) (row_of ''p'' CatBuildCommand ''build''
       (fold (\<lambda>r t. snd (LearnMemory 5 r t)) [demo_memory_row, demo_memory_row] \<lparr>mt_rows = [], mt_seq = 0\<rparr>))
     = map_option untimed (store_Get CatBuildCommand ''build''
         (fold (\<lambda>r s. snd (store_Learn 6 (record_of_row (\<lambda>_. 9) r) s)) [demo_memory_row, demo_memory_row] (NewStore ''p'')))"
  by (rule memory_table_refines_store) (simp_all add: demo_memory_row_def Category_IsValid_def)
text \<open>Pruning removes exactly the stale facts and reports how many; nothing pruned is listed afterwards.\<close>

lemma PruneStale_exact:
  "set (ms_records (snd (PruneStale now h s))) = {(k, r) \<in> set (ms_records s). \<not> stale now h r}"
  "fst (PruneStale now h s) + length (ms_records (snd (PruneStale now h s))) = length (ms_records s)"
proof -
  show "set (ms_records (snd (PruneStale now h s))) = {(k, r) \<in> set (ms_records s). \<not> stale now h r}"
    by (auto simp: PruneStale_def)
  have "length (filter P xs) + length (filter (\<lambda>x. \<not> P x) xs) = length xs" for P and xs :: "'z list"
    by (induction xs) auto
  from this [of "\<lambda>(_, r). stale now h r" "ms_records s"]
  show "fst (PruneStale now h s) + length (ms_records (snd (PruneStale now h s))) = length (ms_records s)"
    by (simp add: PruneStale_def case_prod_unfold)
qed

end
