(* ===== verification/Post_Merge.thy ===== *)
theory Post_Merge
  imports Policy_Valid Go_Float
begin

text \<open>
  The post-merge sentinel, \<^verbatim>\<open>src/internal/postmerge/sentinel.go\<close>, and the \<^verbatim>\<open>post_merge_checks\<close> table,
  \<^verbatim>\<open>src/internal/storage/postmerge.go\<close>. Smoke checks, the reverter and the task reopener are interfaces
  of the source; here they are functions on an abstract world \<open>'w\<close>, a \<open>None\<close> reverter or reopener being
  the nil the constructor accepts. The error of a reopener is ignored by the source, so it returns the
  world only.

  The theorems: the decision as a function of the policy and the check results, that nothing is
  reverted unless the resolved policy enables it, that a failed check is never silent, and that a
  project whose profile is not autonomous never runs a check.
\<close>

section \<open>Data\<close>

datatype SmokeStatus = SmokePassed | SmokeFailed | SmokeSkipped | SmokeError | SmokeOther string

record CheckResult =
  ck_Name :: string
  ck_Status :: SmokeStatus
  ck_Detail :: string

definition check_Passed :: "CheckResult \<Rightarrow> bool" where
  "check_Passed c \<longleftrightarrow> ck_Status c = SmokePassed"

record MergeOutcome =
  mo_TaskID :: string
  mo_CommitSHA :: string
  mo_BaseBranch :: string
  mo_Number :: int
  mo_MergedAt :: time

datatype SentinelDecision = DecisionUnset | DecisionHealthy | DecisionRevert | DecisionAlertOnly | DecisionSkipped

fun SentinelDecision_string :: "SentinelDecision \<Rightarrow> string" where
  "SentinelDecision_string DecisionUnset = ''''"
| "SentinelDecision_string DecisionHealthy = ''HEALTHY''"
| "SentinelDecision_string DecisionRevert = ''REVERT''"
| "SentinelDecision_string DecisionAlertOnly = ''ALERT_ONLY''"
| "SentinelDecision_string DecisionSkipped = ''SKIPPED''"

record PostMergeCheckResult =
  pm_TaskID :: string
  pm_CommitSHA :: string
  pm_BaseBranch :: string
  pm_Decision :: SentinelDecision
  pm_Checks :: "CheckResult list"
  pm_AllPassed :: bool
  pm_Reverted :: bool
  pm_RevertSHA :: string
  pm_OccurredAt :: time

type_synonym 'w smoke_check = "'w \<Rightarrow> CheckResult \<times> 'w"
type_synonym 'w reverter = "string \<Rightarrow> string \<Rightarrow> string \<Rightarrow> int \<Rightarrow> 'w \<Rightarrow> (string, string) result \<times> 'w"
type_synonym 'w reopener = "string \<Rightarrow> string \<Rightarrow> 'w \<Rightarrow> 'w"

record 'w Sentinel =
  sn_checks :: "'w smoke_check list"
  sn_reverter :: "'w reverter option"
  sn_reopener :: "'w reopener option"

section \<open>The sentinel\<close>

definition sentinel_decide :: "resolved \<Rightarrow> bool \<Rightarrow> SentinelDecision" where
  "sentinel_decide r errored =
     (if errored then DecisionAlertOnly
      else if mc_Enabled (pl_PostMerge (rs_Pipeline r)) \<and> mc_AutoRevert (pl_PostMerge (rs_Pipeline r))
      then DecisionRevert
      else DecisionAlertOnly)"

definition sentinel_reopen :: "'w Sentinel \<Rightarrow> string \<Rightarrow> string \<Rightarrow> 'w \<Rightarrow> 'w" where
  "sentinel_reopen s taskID reason w =
     (case sn_reopener s of
        None \<Rightarrow> w
      | Some f \<Rightarrow> if taskID = '''' then w else f taskID reason w)"

definition finalise ::
  "'w Sentinel \<Rightarrow> PostMergeCheckResult \<Rightarrow> MergeOutcome \<Rightarrow> 'w \<Rightarrow> (PostMergeCheckResult \<times> string option) \<times> 'w" where
  "finalise s res out w =
     (if pm_Decision res = DecisionRevert
      then (case sn_reverter s of
              None \<Rightarrow>
                ((res\<lparr>pm_Decision := DecisionAlertOnly\<rparr>,
                  Some ''postmerge: auto-revert enabled but no reverter wired''),
                 sentinel_reopen s (pm_TaskID res)
                   ''auto-revert requested but no reverter configured; smoke check failed'' w)
            | Some rvt \<Rightarrow>
                (case rvt (mo_TaskID out) (mo_CommitSHA out) (mo_BaseBranch out) (mo_Number out) w of
                   (Inl err, w1) \<Rightarrow>
                     ((res\<lparr>pm_Decision := DecisionAlertOnly\<rparr>,
                       Some (''postmerge: revert of '' @ mo_CommitSHA out @ '' failed: '' @ err)),
                      sentinel_reopen s (pm_TaskID res) (''auto-revert failed: '' @ err) w1)
                 | (Inr sha, w1) \<Rightarrow>
                     ((res\<lparr>pm_Reverted := True, pm_RevertSHA := sha\<rparr>, None),
                      sentinel_reopen s (pm_TaskID res)
                        ''merged change regressed smoke checks; reverted and reopened for repair'' w1)))
      else if pm_Decision res = DecisionAlertOnly
      then ((res, None),
            sentinel_reopen s (pm_TaskID res)
              ''post-merge smoke check failed; task reopened for human review'' w)
      else ((res, None), w))"

text \<open>The loop over the checks: the results so far, whether all passed, whether it stopped at an errored
  check.\<close>

fun run_checks :: "'w smoke_check list \<Rightarrow> 'w \<Rightarrow> (CheckResult list \<times> bool \<times> bool) \<times> 'w" where
  "run_checks [] w = (([], True, False), w)"
| "run_checks (c # cs) w =
     (case c w of
        (r, w1) \<Rightarrow>
          if ck_Status r = SmokeError then (([r], False, True), w1)
          else (case run_checks cs w1 of
                  ((rs, ok, errored), w2) \<Rightarrow> ((r # rs, ok \<and> check_Passed r, errored), w2)))"

definition Sentinel_Run ::
  "'w Sentinel \<Rightarrow> time \<Rightarrow> resolved \<Rightarrow> MergeOutcome \<Rightarrow> 'w \<Rightarrow> (PostMergeCheckResult \<times> string option) \<times> 'w" where
  "Sentinel_Run s now r out w =
     (let res = \<lparr>pm_TaskID = mo_TaskID out, pm_CommitSHA = mo_CommitSHA out, pm_BaseBranch = mo_BaseBranch out,
                 pm_Decision = DecisionUnset, pm_Checks = [], pm_AllPassed = False, pm_Reverted = False,
                 pm_RevertSHA = '''', pm_OccurredAt = now\<rparr>
      in if \<not> mc_Enabled (pl_PostMerge (rs_Pipeline r))
         then ((res\<lparr>pm_Decision := DecisionSkipped, pm_AllPassed := True\<rparr>, None), w)
         else (case run_checks (sn_checks s) w of
                 ((rs, ok, errored), w1) \<Rightarrow>
                   (let res = res\<lparr>pm_Checks := rs, pm_AllPassed := ok\<rparr>
                    in if ok then ((res\<lparr>pm_Decision := DecisionHealthy\<rparr>, None), w1)
                       else finalise s (res\<lparr>pm_Decision := sentinel_decide r errored\<rparr>) out w1)))"

datatype TaskReopenState = TaskReopenReopened | TaskReopenKeepClosed

definition ReopenState :: "PostMergeCheckResult \<Rightarrow> TaskReopenState" where
  "ReopenState r =
     (if pm_Decision r = DecisionHealthy \<or> pm_Decision r = DecisionSkipped then TaskReopenKeepClosed
      else TaskReopenReopened)"

section \<open>The post\_merge\_checks table\<close>

record PostMergeCheckRow =
  pr_ID :: nat
  pr_TaskID :: string
  pr_CommitSHA :: string
  pr_BaseBranch :: string
  pr_Decision :: string
  pr_AllPassed :: bool
  pr_Reverted :: bool
  pr_RevertSHA :: string
  pr_OccurredAt :: time

record postmerge_table =
  pt_rows :: "PostMergeCheckRow list"
  pt_seq :: nat

definition RecordPostMergeCheck :: "time \<Rightarrow> PostMergeCheckRow \<Rightarrow> postmerge_table \<Rightarrow> nat \<times> postmerge_table" where
  "RecordPostMergeCheck now r t =
     (let r = (if IsZero (pr_OccurredAt r) then r\<lparr>pr_OccurredAt := now\<rparr> else r); i = Suc (pt_seq t)
      in (i, t\<lparr>pt_rows := pt_rows t @ [r\<lparr>pr_ID := i\<rparr>], pt_seq := i\<rparr>))"

definition ListPostMergeChecks :: "string \<Rightarrow> postmerge_table \<Rightarrow> PostMergeCheckRow list" where
  "ListPostMergeChecks taskID t = sort_key pr_ID (filter (\<lambda>r. pr_TaskID r = taskID) (pt_rows t))"

section \<open>The decision\<close>

lemma run_checks_result:
  "case run_checks cs w of
     ((rs, ok, errored), w') \<Rightarrow>
       (ok \<longleftrightarrow> (\<forall>r \<in> set rs. check_Passed r)) \<and> (errored \<longleftrightarrow> (\<exists>r \<in> set rs. ck_Status r = SmokeError)) \<and>
       length rs \<le> length cs \<and> (\<not> errored \<longrightarrow> length rs = length cs)"
proof (induction cs arbitrary: w)
  case (Cons c cs)
  obtain r w1 where c: "c w = (r, w1)" by fastforce
  show ?case
  proof (cases "ck_Status r = SmokeError")
    case True
    with c show ?thesis by (simp add: check_Passed_def)
  next
    case False
    obtain rs ok errored w2 where "run_checks cs w1 = ((rs, ok, errored), w2)" by (metis prod.exhaust)
    with Cons.IH [of w1] False c show ?thesis by auto
  qed
qed simp

definition auto_revert :: "resolved \<Rightarrow> bool" where
  "auto_revert r \<longleftrightarrow> mc_Enabled (pl_PostMerge (rs_Pipeline r)) \<and> mc_AutoRevert (pl_PostMerge (rs_Pipeline r))"

lemma finalise_fields:
  assumes "finalise s res out w = ((res', err), w')"
  shows "pm_Checks res' = pm_Checks res" "pm_AllPassed res' = pm_AllPassed res" "pm_TaskID res' = pm_TaskID res"
  using assms by (auto simp: finalise_def split: if_splits option.splits sum.splits prod.splits)

text \<open>The sentinel's verdict is a function of the policy and the checks. When post-merge checks are
  disabled nothing runs and the verdict is SKIPPED; otherwise it is HEALTHY exactly when every check
  that ran passed; a check that errored never leads to a revert; and the merge is reported as
  reverted only when the policy enables auto-revert, some check did not pass, none errored, and the
  reverter returned the commit that is recorded.\<close>

theorem sentinel_verdict:
  assumes "Sentinel_Run s now r out w = ((res, err), w')"
  shows "(if \<not> mc_Enabled (pl_PostMerge (rs_Pipeline r))
          then pm_Decision res = DecisionSkipped \<and> pm_Checks res = [] \<and> w' = w \<and> err = None
          else (pm_Decision res = DecisionHealthy \<longleftrightarrow> (\<forall>c \<in> set (pm_Checks res). check_Passed c)) \<and>
               pm_Decision res \<in> {DecisionHealthy, DecisionRevert, DecisionAlertOnly}) \<and>
         (pm_Reverted res \<longleftrightarrow> pm_Decision res = DecisionRevert) \<and>
         (pm_Reverted res \<longrightarrow>
            auto_revert r \<and> \<not> (\<forall>c \<in> set (pm_Checks res). check_Passed c) \<and>
            \<not> (\<exists>c \<in> set (pm_Checks res). ck_Status c = SmokeError) \<and>
            (\<exists>rvt w1 w2. sn_reverter s = Some rvt \<and>
               rvt (mo_TaskID out) (mo_CommitSHA out) (mo_BaseBranch out) (mo_Number out) w1 = (Inr (pm_RevertSHA res), w2)))"
proof (cases "mc_Enabled (pl_PostMerge (rs_Pipeline r))")
  case False
  with assms show ?thesis by (auto simp: Sentinel_Run_def Let_def)
next
  case True
  obtain rs ok errored w1 where c: "run_checks (sn_checks s) w = ((rs, ok, errored), w1)" by (metis prod.exhaust)
  have k: "ok \<longleftrightarrow> (\<forall>r \<in> set rs. check_Passed r)" "errored \<longleftrightarrow> (\<exists>r \<in> set rs. ck_Status r = SmokeError)"
    using run_checks_result [of "sn_checks s" w] by (simp_all add: c)
  show ?thesis
  proof (cases ok)
    case ok: True
    with assms True c k show ?thesis by (auto simp: Sentinel_Run_def Let_def)
  next
    case False
    let ?res = "\<lparr>pm_TaskID = mo_TaskID out, pm_CommitSHA = mo_CommitSHA out, pm_BaseBranch = mo_BaseBranch out,
                 pm_Decision = sentinel_decide r errored, pm_Checks = rs, pm_AllPassed = False, pm_Reverted = False,
                 pm_RevertSHA = '''', pm_OccurredAt = now\<rparr>"
    have f: "finalise s ?res out w1 = ((res, err), w')"
      using assms True c False by (simp add: Sentinel_Run_def Let_def)
    have checks: "pm_Checks res = rs" using finalise_fields(1) [OF f] by simp
    have "pm_Decision res \<in> {DecisionRevert, DecisionAlertOnly} \<and> (pm_Reverted res \<longleftrightarrow> pm_Decision res = DecisionRevert) \<and>
       (pm_Reverted res \<longrightarrow> sentinel_decide r errored = DecisionRevert \<and>
         (\<exists>rvt w1 w2. sn_reverter s = Some rvt \<and>
               rvt (mo_TaskID out) (mo_CommitSHA out) (mo_BaseBranch out) (mo_Number out) w1 = (Inr (pm_RevertSHA res), w2)))"
      using f by (auto simp: finalise_def sentinel_decide_def split: if_splits option.splits sum.splits prod.splits) blast
    moreover have "sentinel_decide r errored = DecisionRevert \<Longrightarrow> auto_revert r \<and> \<not> errored"
      by (auto simp: sentinel_decide_def auto_revert_def split: if_splits)
    ultimately show ?thesis using True False checks k by auto
  qed
qed

definition smoke :: "SmokeStatus \<Rightarrow> 'w smoke_check" where
  "smoke st = (\<lambda>w. (\<lparr>ck_Name = ''build'', ck_Status = st, ck_Detail = ''''\<rparr>, w))"

definition autonomous_policy :: resolved where
  "autonomous_policy = fst (Resolve (NewProject ''AUTONOMOUS'') \<lparr>tx_Override = None, tx_IsUI = False\<rparr>)"

definition demo_outcome :: MergeOutcome where
  "demo_outcome = \<lparr>mo_TaskID = ''t1'', mo_CommitSHA = ''abc'', mo_BaseBranch = ''main'', mo_Number = 0, mo_MergedAt = 5\<rparr>"

text \<open>The world counts reverts and records the reopened tasks.\<close>

definition demo_sentinel :: "SmokeStatus list \<Rightarrow> (nat \<times> string list) Sentinel" where
  "demo_sentinel sts =
     \<lparr>sn_checks = map smoke sts,
      sn_reverter = Some (\<lambda>_ _ _ _ (n, ts). (Inr ''def'', (n + 1, ts))),
      sn_reopener = Some (\<lambda>t _ (n, ts). (n, t # ts))\<rparr>"

theorem sentinel_verdict_witness:
  "\<exists>res err w'. Sentinel_Run (demo_sentinel [SmokePassed, SmokeFailed]) 7 autonomous_policy demo_outcome (0, []) = ((res, err), w') \<and>
     pm_Reverted res \<and> auto_revert autonomous_policy \<and> w' = (1, [''t1''])"
proof -
  obtain res err w' where r: "Sentinel_Run (demo_sentinel [SmokePassed, SmokeFailed]) 7 autonomous_policy demo_outcome (0, []) = ((res, err), w')"
    by (metis prod.exhaust)
  have "(case Sentinel_Run (demo_sentinel [SmokePassed, SmokeFailed]) 7 autonomous_policy demo_outcome (0, []) of
      ((res, err), w') \<Rightarrow> pm_Reverted res \<and> w' = (1, [''t1'']))" by code_simp
  with r sentinel_verdict [OF r] show ?thesis by auto
qed

text \<open>Without auto-revert the reverter is never called: the run is the same with any reverter or none.\<close>

lemma reverter_irrelevant:
  assumes "\<not> auto_revert r"
  shows "Sentinel_Run (s\<lparr>sn_reverter := rvt\<rparr>) now r out w = Sentinel_Run s now r out w"
proof -
  have "sentinel_decide r e \<noteq> DecisionRevert" for e
    using assms by (auto simp: sentinel_decide_def auto_revert_def)
  moreover have "pm_Decision res \<noteq> DecisionRevert \<Longrightarrow> finalise (s\<lparr>sn_reverter := rvt\<rparr>) res out w1 = finalise s res out w1" for res w1
    by (simp add: finalise_def sentinel_reopen_def)
  ultimately show ?thesis by (simp add: Sentinel_Run_def Let_def case_prod_unfold)
qed

text \<open>A regression is never silent: whenever the checks ran and one did not pass, the last thing that
  happens is that the task is reopened, whether the merge was reverted, the revert failed, no reverter
  was configured or the policy only alerts; and the verdict keeps the task open.\<close>

theorem regression_reopens_task:
  assumes "Sentinel_Run s now r out w = ((res, err), w')" "mc_Enabled (pl_PostMerge (rs_Pipeline r))"
    and "\<not> pm_AllPassed res" "sn_reopener s = Some reopen" "mo_TaskID out \<noteq> ''''"
  shows "(\<exists>reason w1. w' = reopen (mo_TaskID out) reason w1) \<and> ReopenState res = TaskReopenReopened"
proof -
  obtain rs ok errored w1 where c: "run_checks (sn_checks s) w = ((rs, ok, errored), w1)" by (metis prod.exhaust)
  have "\<not> ok" using assms(1,2,3) c by (auto simp: Sentinel_Run_def Let_def)
  then have "finalise s \<lparr>pm_TaskID = mo_TaskID out, pm_CommitSHA = mo_CommitSHA out, pm_BaseBranch = mo_BaseBranch out,
                 pm_Decision = sentinel_decide r errored, pm_Checks = rs, pm_AllPassed = False, pm_Reverted = False,
                 pm_RevertSHA = [], pm_OccurredAt = now\<rparr> out w1 = ((res, err), w')"
    using assms(1,2) c by (simp add: Sentinel_Run_def Let_def)
  then show ?thesis
    using assms(4,5)
    by (auto simp: finalise_def sentinel_decide_def sentinel_reopen_def ReopenState_def
        split: if_splits option.splits sum.splits prod.splits)
qed

theorem regression_reopens_task_witness:
  "\<exists>res err w'. Sentinel_Run (demo_sentinel [SmokeError]) 7 autonomous_policy demo_outcome (0, []) = ((res, err), w') \<and>
     ReopenState res = TaskReopenReopened"
proof -
  obtain res err w' where r: "Sentinel_Run (demo_sentinel [SmokeError]) 7 autonomous_policy demo_outcome (0, []) = ((res, err), w')"
    by (metis prod.exhaust)
  have e: "mc_Enabled (pl_PostMerge (rs_Pipeline autonomous_policy))" by code_simp
  have "(case Sentinel_Run (demo_sentinel [SmokeError]) 7 autonomous_policy demo_outcome (0, []) of
      ((res, err), w') \<Rightarrow> \<not> pm_AllPassed res)" by code_simp
  with r have "\<not> pm_AllPassed res" by simp
  with regression_reopens_task [OF r e] r show ?thesis by (simp add: demo_sentinel_def demo_outcome_def)
qed

text \<open>A check that was skipped counts as a regression: it reverts the merge.\<close>

lemma skipped_check_reverts:
  "case Sentinel_Run (demo_sentinel [SmokeSkipped]) 7 autonomous_policy demo_outcome (0, []) of
     ((res, err), w') \<Rightarrow> pm_Reverted res \<and> w' = (1, [''t1''])"
  by code_simp

text \<open>With no checks configured nothing is verified and the verdict is HEALTHY.\<close>

lemma no_checks_healthy:
  "case Sentinel_Run (demo_sentinel []) 7 autonomous_policy demo_outcome (0, []) of
     ((res, err), w') \<Rightarrow> pm_Decision res = DecisionHealthy \<and> pm_Checks res = []"
  by code_simp

text \<open>Only the autonomous profile runs post-merge checks, whatever a task overrides.\<close>

lemma post_merge_le_defaults:
  "mc_Enabled (pl_PostMerge (rs_Pipeline (fst (Resolve pr t)))) \<Longrightarrow> mc_Enabled (pl_PostMerge (pp_Pipeline pr))"
proof -
  assume "mc_Enabled (pl_PostMerge (rs_Pipeline (fst (Resolve pr t))))"
  then have "mc_Enabled (pl_PostMerge (overridden pr t))"
    by (auto simp: Resolve_eq Let_def normalize_eqs applyNetworkLock_def enforceMandatory_def split: if_splits)
  then show ?thesis
    by (auto simp: overridden_def split: option.splits dest: pl_leD [OF merge_le])
qed

lemma post_merge_only_autonomous:
  "mc_Enabled (pl_PostMerge (rs_Pipeline (fst (Resolve (NewProject p) t)))) \<Longrightarrow> p = ''AUTONOMOUS''"
  by (drule post_merge_le_defaults)
     (auto simp: NewProject_def ProfileDefaults_def plan_only_defaults_def local_review_defaults_def
        remote_review_defaults_def split: if_splits)

end
