(* ===== verification/Dispatch.thy ===== *)
theory Dispatch
  imports Task_Backlog Quality Project_Memory Post_Merge
begin

text \<open>
  The task execution path: the scheduler of \<^verbatim>\<open>src/internal/scheduler\<close> composed, as the daemon composes it
  (\<^verbatim>\<open>src/internal/daemon/scheduler_service.go\<close>), with the task backlog, the policy, the usage, memory and
  post-merge tables, the in-process accounting and statistics, and the post-merge sentinel. The
  workspace manager, the supervisor and the context-pack builder are the parameters of a \<open>runtime\<close>;
  they act on an abstract world \<open>'w\<close>, the state of workspaces and agent processes. One operation reads
  the clock once. The log lines of the source are not modelled.

  The theorems: what a dispatch records, in which of the tables and how often; that a dispatch that
  cannot be resolved or given a workspace records nothing; that the tasks themselves are never
  changed, not even by a reopen; and that outside the autonomous profile a post-merge run only
  records its SKIPPED verdict.
\<close>

section \<open>Runtime and state\<close>

record agent_event =
  ag_Type :: string
  ag_InputTokens :: int
  ag_OutputTokens :: int
  ag_CacheRead :: int
  ag_CostUSD :: rat

text \<open>The normalized event of an adapter, with its usage payload when it has one.\<close>

record normalized_event =
  ne_Type :: string
  ne_Usage :: "(int \<times> int \<times> int \<times> rat) option"

record supervisor_result =
  sr_Failed :: bool
  sr_Cancelled :: bool
  sr_Events :: "normalized_event list"

record created_workspace =
  cw_ID :: string
  cw_Path :: string
  cw_HeadSHA :: string

record 'w runtime =
  rn_resolvePath :: "string \<Rightarrow> (string, string) result"
  rn_create :: "string \<Rightarrow> string \<Rightarrow> string \<Rightarrow> string \<Rightarrow> string \<Rightarrow> 'w \<Rightarrow> (string, created_workspace) result \<times> 'w"
  rn_run :: "string \<Rightarrow> string \<Rightarrow> string \<Rightarrow> string \<Rightarrow> string \<Rightarrow> duration \<Rightarrow> 'w \<Rightarrow> (string, supervisor_result) result \<times> 'w"
  rn_pack :: "string \<Rightarrow> string \<Rightarrow> string list \<Rightarrow> (string, string) result"
  rn_checkpoint :: "string \<Rightarrow> string \<Rightarrow> 'w \<Rightarrow> (string, unit) result \<times> 'w"
  rn_head :: "string \<Rightarrow> 'w \<Rightarrow> string"
  rn_delete :: "string \<Rightarrow> 'w \<Rightarrow> 'w"

record 'w sched =
  sd_db :: db
  sd_usage :: usage_table
  sd_memory :: memory_table
  sd_postmerge :: postmerge_table
  sd_accounting :: Accounting
  sd_statistics :: Statistics
  sd_world :: 'w

datatype service_error =
  TaskLookup backlog_error | ProjectLookup | PathLookup string | WorkspaceCreate string | ReopenAudit db_error

datatype sched_error =
  ResolveTask service_error | CreateAttemptFailed service_error | SentinelFailed string

definition sched_audit :: "time \<Rightarrow> string \<Rightarrow> string \<Rightarrow> payload \<Rightarrow> 'w sched \<Rightarrow> 'w sched" where
  "sched_audit now ty taskID pay s =
     (case recordInto (sd_db s) now \<lparr>ae_id = 0, ae_ts = '''', ae_scope = ''task'', ae_scope_id = taskID,
         ae_type = ty, ae_actor = ''daemon'', ae_payload = pay\<rparr> of
        Inl _ \<Rightarrow> s
      | Inr d \<Rightarrow> s\<lparr>sd_db := d\<rparr>)"

section \<open>The daemon service\<close>

definition svc_CreateAttempt ::
  "'w runtime \<Rightarrow> string \<Rightarrow> string \<Rightarrow> string \<Rightarrow> 'w sched \<Rightarrow> (service_error, string \<times> string) result \<times> 'w sched" where
  "svc_CreateAttempt rt taskID wpID baseBranch s =
     (case Backlog_Get (sd_db s) taskID of
        Inl e \<Rightarrow> (Inl (TaskLookup e), s)
      | Inr (t, _) \<Rightarrow>
          (case rn_resolvePath rt (tk_project_id t) of
             Inl e \<Rightarrow> (Inl (PathLookup e), s)
           | Inr path \<Rightarrow>
               (case rn_create rt (tk_project_id t) path (tk_id t) wpID baseBranch (sd_world s) of
                  (Inl e, w) \<Rightarrow> (Inl (WorkspaceCreate e), s\<lparr>sd_world := w\<rparr>)
                | (Inr ws, w) \<Rightarrow> (Inr (cw_ID ws, cw_Path ws), s\<lparr>sd_world := w\<rparr>))))"

definition toAgentEvents :: "normalized_event list \<Rightarrow> agent_event list" where
  "toAgentEvents evs =
     map (\<lambda>ev. case ne_Usage ev of
            None \<Rightarrow> \<lparr>ag_Type = ne_Type ev, ag_InputTokens = 0, ag_OutputTokens = 0, ag_CacheRead = 0, ag_CostUSD = 0\<rparr>
          | Some (i, out, c, cost) \<Rightarrow>
              \<lparr>ag_Type = ne_Type ev, ag_InputTokens = i, ag_OutputTokens = out, ag_CacheRead = c, ag_CostUSD = cost\<rparr>) evs"

definition svc_RunAgent ::
  "'w runtime \<Rightarrow> string \<Rightarrow> string \<Rightarrow> string \<Rightarrow> string \<Rightarrow> string \<Rightarrow> duration \<Rightarrow> 'w sched
     \<Rightarrow> (string \<times> agent_event list) \<times> 'w sched" where
  "svc_RunAgent rt wsID wsPath engine model prompt timeout s =
     (case rn_run rt wsID wsPath engine model prompt timeout (sd_world s) of
        (Inl _, w) \<Rightarrow> ((''failed'', []), s\<lparr>sd_world := w\<rparr>)
      | (Inr res, w) \<Rightarrow>
          (((if sr_Failed res then ''failed'' else if sr_Cancelled res then ''cancelled'' else ''completed''),
            toAgentEvents (sr_Events res)), s\<lparr>sd_world := w\<rparr>))"

record project_context =
  px_ProjectID :: string
  px_ProjectPath :: string
  px_TaskID :: string
  px_TaskDesc :: string
  px_Profile :: string
  px_Resolved :: resolved

definition svc_Resolve :: "string \<Rightarrow> 'w sched \<Rightarrow> (service_error, project_context) result" where
  "svc_Resolve taskID s =
     (case Backlog_Get (sd_db s) taskID of
        Inl e \<Rightarrow> Inl (TaskLookup e)
      | Inr (t, _) \<Rightarrow>
          (case GetProject (sd_db s) (tk_project_id t) of
             None \<Rightarrow> Inl ProjectLookup
           | Some p \<Rightarrow>
               Inr \<lparr>px_ProjectID = pj_id p, px_ProjectPath = pj_path p, px_TaskID = tk_id t,
                    px_TaskDesc = (if tk_title t \<noteq> '''' then tk_title t @ '': '' @ tk_description t
                                   else tk_description t),
                    px_Profile = pj_profile p,
                    px_Resolved = fst (Resolve (NewProject (pj_profile p)) \<lparr>tx_Override = None, tx_IsUI = False\<rparr>)\<rparr>))"

definition svc_RecordUsage :: "time \<Rightarrow> UsageEvent \<Rightarrow> 'w sched \<Rightarrow> 'w sched" where
  "svc_RecordUsage now e s =
     s\<lparr>sd_accounting := Accounting_Record now e (sd_accounting s),
       sd_usage := snd (RecordUsageEvent now
         \<lparr>uv_ID = 0, uv_TaskID = ue_TaskID e, uv_ProjectID = ue_ProjectID e, uv_Provider = ue_Provider e,
          uv_Model = ue_Model e, uv_Kind = UsageKind_string (ue_Kind e), uv_InputTokens = ue_InputTokens e,
          uv_CachedInputTokens = ue_CachedInputTokens e, uv_OutputTokens = ue_OutputTokens e,
          uv_Generations = ue_Generations e, uv_CostUSD = ue_CostUSD e, uv_OccurredAt = ue_OccurredAt e\<rparr> (sd_usage s))\<rparr>"

text \<open>\<open>Learn\<close> also rebuilds an in-process store and drops it, which has no effect.\<close>

definition svc_Learn :: "time \<Rightarrow> string \<Rightarrow> string \<Rightarrow> string \<Rightarrow> string \<Rightarrow> string \<Rightarrow> 'w sched \<Rightarrow> bool \<times> 'w sched" where
  "svc_Learn now projectID category key value confidence s =
     (case LearnMemory now \<lparr>mr_ID = 0, mr_ProjectID = projectID, mr_Category = category, mr_Key = key,
         mr_Value = value, mr_Source = ''scheduler'', mr_Confidence = confidence, mr_Scope = '''',
         mr_CommitSHA = '''', mr_Expiration = '''', mr_ExpiresAt = '''', mr_LearnedAt = zero_time,
         mr_Version = 0\<rparr> (sd_memory s) of
        (None, _) \<Rightarrow> (False, s)
      | (Some _, t) \<Rightarrow> (True, s\<lparr>sd_memory := t\<rparr>))"

definition svc_Rules :: "time \<Rightarrow> string \<Rightarrow> 'w sched \<Rightarrow> string list" where
  "svc_Rules now projectID s =
     HighConfidenceRules now
       (fold (\<lambda>r st. snd (store_Learn now
          \<lparr>me_Key = mr_Key r, me_Category = mr_Category r, me_Value = mr_Value r, me_Source = '''',
           me_Confidence = mr_Confidence r, me_Scope = '''', me_CommitSHA = '''', me_Expiration = '''',
           me_ExpiresAt = zero_time, me_LearnedAt = zero_time, me_Version = 0\<rparr> st))
          (ListMemory projectID (sd_memory s)) (NewStore projectID))"

definition svc_Reopen :: "time \<Rightarrow> string \<Rightarrow> string \<Rightarrow> 'w sched \<Rightarrow> service_error option \<times> 'w sched" where
  "svc_Reopen now taskID reason s =
     (case Backlog_Get (sd_db s) taskID of
        Inl e \<Rightarrow> (Some (TaskLookup e), s)
      | Inr (t, _) \<Rightarrow>
          if tk_state t = ''NEW'' \<or> tk_state t = ''INGESTED'' \<or> tk_state t = ''PAUSED'' then (None, s)
          else (case recordInto (sd_db s) now
                  \<lparr>ae_id = 0, ae_ts = '''', ae_scope = ''task'', ae_scope_id = taskID, ae_type = ''task.reopen'',
                   ae_actor = ''daemon'',
                   ae_payload = PObj [(''reason'', PStr reason), (''from_state'', PStr (tk_state t))]\<rparr> of
                  Inl e \<Rightarrow> (Some (ReopenAudit e), s)
                | Inr d \<Rightarrow> (None, s\<lparr>sd_db := d\<rparr>)))"

definition svc_RecordPostMerge :: "time \<Rightarrow> PostMergeCheckResult \<Rightarrow> 'w sched \<Rightarrow> 'w sched" where
  "svc_RecordPostMerge now r s =
     s\<lparr>sd_postmerge := snd (RecordPostMergeCheck now
        \<lparr>pr_ID = 0, pr_TaskID = pm_TaskID r, pr_CommitSHA = pm_CommitSHA r, pr_BaseBranch = pm_BaseBranch r,
         pr_Decision = SentinelDecision_string (pm_Decision r), pr_AllPassed = pm_AllPassed r,
         pr_Reverted = pm_Reverted r, pr_RevertSHA = pm_RevertSHA r, pr_OccurredAt = pm_OccurredAt r\<rparr>
        (sd_postmerge s))\<rparr>"

text \<open>The reverter: a workspace, a checkpoint in it, its head, and the workspace is deleted.\<close>

definition svc_Revert :: "'w runtime \<Rightarrow> string \<Rightarrow> string \<Rightarrow> string \<Rightarrow> int \<Rightarrow> 'w sched \<Rightarrow> (string, string) result \<times> 'w sched" where
  "svc_Revert rt taskID commitSHA baseBranch number s =
     (case Backlog_Get (sd_db s) taskID of
        Inl e \<Rightarrow> (Inl ''task not found'', s)
      | Inr (t, _) \<Rightarrow>
          (case rn_resolvePath rt (tk_project_id t) of
             Inl e \<Rightarrow> (Inl e, s)
           | Inr path \<Rightarrow>
               (case rn_create rt (tk_project_id t) path (tk_id t) ''revert'' baseBranch (sd_world s) of
                  (Inl e, w) \<Rightarrow> (Inl (''revert: create workspace: '' @ e), s\<lparr>sd_world := w\<rparr>)
                | (Inr ws, w) \<Rightarrow>
                    (case rn_checkpoint rt (cw_ID ws) (''revert of '' @ commitSHA) w of
                       (Inl _, w1) \<Rightarrow> (Inr (cw_HeadSHA ws), s\<lparr>sd_world := rn_delete rt (cw_ID ws) w1\<rparr>)
                     | (Inr _, w1) \<Rightarrow> (Inr (rn_head rt (cw_ID ws) w1), s\<lparr>sd_world := rn_delete rt (cw_ID ws) w1\<rparr>)))))"

section \<open>Dispatch\<close>

record DispatchOptions =
  do_Engine :: string
  do_Model :: string
  do_WorkPackageID :: string
  do_BaseBranch :: string
  do_Timeout :: duration
  do_BuildContextPack :: bool

record DispatchResult =
  dr_TaskID :: string
  dr_ProjectID :: string
  dr_WorkspaceID :: string
  dr_Outcome :: string
  dr_UsageEvents :: int
  dr_EstimatedTokens :: int
  dr_ContextPackBuilt :: bool
  dr_MemoryLearned :: bool

definition buildPack :: "'w runtime \<Rightarrow> time \<Rightarrow> project_context \<Rightarrow> 'w sched \<Rightarrow> string" where
  "buildPack rt now px s =
     (case rn_pack rt (px_ProjectPath px) (px_TaskDesc px) (svc_Rules now (px_ProjectID px) s) of
        Inl _ \<Rightarrow> '''' | Inr pack \<Rightarrow> pack)"

definition usage_of :: "time \<Rightarrow> string \<Rightarrow> string \<Rightarrow> string \<Rightarrow> string \<Rightarrow> agent_event \<Rightarrow> UsageEvent" where
  "usage_of now taskID projectID engine model ev =
     \<lparr>ue_TaskID = taskID, ue_ProjectID = projectID, ue_Provider = engine, ue_Model = model, ue_Kind = UsageCoding,
      ue_InputTokens = ag_InputTokens ev, ue_CachedInputTokens = ag_CacheRead ev, ue_OutputTokens = ag_OutputTokens ev,
      ue_Generations = 0, ue_CostUSD = ag_CostUSD ev, ue_OccurredAt = now\<rparr>"

text \<open>The loop over the events: the sink, then the scheduler's own accounting, then the counters.\<close>

definition record_event ::
  "time \<Rightarrow> string \<Rightarrow> string \<Rightarrow> string \<Rightarrow> string \<Rightarrow> agent_event \<Rightarrow> DispatchResult \<times> 'w sched \<Rightarrow> DispatchResult \<times> 'w sched" where
  "record_event now taskID projectID engine model ev acc =
     (case acc of (res, s) \<Rightarrow>
        if ag_Type ev \<noteq> ''usage.updated'' then (res, s)
        else
          (let ue = usage_of now taskID projectID engine model ev;
               s = svc_RecordUsage now ue s;
               s = s\<lparr>sd_accounting := Accounting_Record now ue (sd_accounting s)\<rparr>
           in (res\<lparr>dr_UsageEvents := dr_UsageEvents res + 1,
                   dr_EstimatedTokens := dr_EstimatedTokens res
                     + (ag_InputTokens ev + ag_OutputTokens ev + ag_CacheRead ev)\<rparr>, s)))"

definition default_options :: "DispatchOptions \<Rightarrow> DispatchOptions" where
  "default_options opts =
     opts\<lparr>do_Engine := (if do_Engine opts = '''' then ''fake'' else do_Engine opts),
          do_WorkPackageID := (if do_WorkPackageID opts = '''' then ''main'' else do_WorkPackageID opts),
          do_Timeout := (if do_Timeout opts \<le> 0 then 5 * Minute else do_Timeout opts)\<rparr>"

text \<open>Steps 2 and 3: the prompt, with the context pack when one is built, and the agent run.\<close>

definition run_attempt ::
  "'w runtime \<Rightarrow> time \<Rightarrow> project_context \<Rightarrow> DispatchOptions \<Rightarrow> string \<Rightarrow> string \<Rightarrow> 'w sched
     \<Rightarrow> (bool \<times> string \<times> agent_event list) \<times> 'w sched" where
  "run_attempt rt now px opts wsID wsPath s =
     (let pack = (if do_BuildContextPack opts then buildPack rt now px s else '''');
          sep = [CHR 0x0A, CHR 0x0A] @ ''---'' @ [CHR 0x0A, CHR 0x0A];
          prompt = (if pack \<noteq> '''' then pack @ sep @ ''Task: '' @ px_TaskDesc px else px_TaskDesc px)
      in case svc_RunAgent rt wsID wsPath (do_Engine opts) (do_Model opts) prompt (do_Timeout opts) s of
           ((outcome, events), s1) \<Rightarrow> ((pack \<noteq> '''', outcome, events), s1))"

text \<open>Step 5: the outcome for the quality statistics.\<close>

definition task_outcome :: "string \<Rightarrow> project_context \<Rightarrow> DispatchOptions \<Rightarrow> string \<Rightarrow> TaskOutcome" where
  "task_outcome taskID px opts outcome =
     \<lparr>tn_TaskID = taskID, tn_ProjectID = px_ProjectID px, tn_Engine = do_Engine opts, tn_Model = do_Model opts,
      tn_RouteTier = ''STANDARD'',
      tn_Outcome = (if outcome = ''failed'' \<or> outcome = ''cancelled'' then OutcomeFailure else OutcomeSuccess),
      tn_RepairIterations = 0, tn_Findings = 0, tn_OccurredAt = zero_time\<rparr>"

text \<open>Step 6: the remembered fact. The dash of the message is its three UTF-8 bytes.\<close>

definition dispatch_fact :: "string \<Rightarrow> DispatchOptions \<Rightarrow> string \<Rightarrow> string" where
  "dispatch_fact taskID opts outcome =
     ''Task '' @ taskID @ '' dispatched via '' @ do_Engine opts @ ''/'' @ do_Model opts
       @ '' '' @ [CHR 0xE2, CHR 0x80, CHR 0x94] @ '' outcome '' @ outcome @ ''.''"

definition Dispatch ::
  "'w runtime \<Rightarrow> time \<Rightarrow> string \<Rightarrow> DispatchOptions \<Rightarrow> 'w sched \<Rightarrow> (DispatchResult \<times> sched_error option) \<times> 'w sched" where
  "Dispatch rt now taskID opts s =
     (let res = \<lparr>dr_TaskID = taskID, dr_ProjectID = '''', dr_WorkspaceID = '''', dr_Outcome = '''',
                 dr_UsageEvents = 0, dr_EstimatedTokens = 0, dr_ContextPackBuilt = False, dr_MemoryLearned = False\<rparr>
      in case svc_Resolve taskID s of
           Inl e \<Rightarrow> ((res, Some (ResolveTask e)), s)
         | Inr px \<Rightarrow>
             (let res = res\<lparr>dr_ProjectID := px_ProjectID px\<rparr>;
                  opts = default_options opts
              in case svc_CreateAttempt rt taskID (do_WorkPackageID opts) (do_BaseBranch opts) s of
                   (Inl e, s1) \<Rightarrow> ((res, Some (CreateAttemptFailed e)), s1)
                 | (Inr (wsID, wsPath), s1) \<Rightarrow>
                     (let s2 = sched_audit now ''scheduler.attempt_created'' taskID
                                 (PObj [(''workspace'', PStr wsID), (''engine'', PStr (do_Engine opts)), (''model'', PStr (do_Model opts))]) s1;
                          ((built, outcome, events), s3) = run_attempt rt now px opts wsID wsPath s2;
                          res = res\<lparr>dr_WorkspaceID := wsID, dr_ContextPackBuilt := built, dr_Outcome := outcome\<rparr>;
                          (res, s4) = fold (record_event now taskID (px_ProjectID px) (do_Engine opts) (do_Model opts))
                                        events (res, s3);
                          s5 = s4\<lparr>sd_statistics := Statistics_Record now (task_outcome taskID px opts outcome) (sd_statistics s4)\<rparr>;
                          (learned, s6) = svc_Learn now (px_ProjectID px) ''accepted_decision'' (''dispatch-'' @ taskID)
                                            (dispatch_fact taskID opts outcome) ''medium'' s5;
                          res = res\<lparr>dr_MemoryLearned := learned\<rparr>;
                          s7 = sched_audit now ''scheduler.dispatch_completed'' taskID
                                 (PObj [(''outcome'', PStr outcome), (''usage_events'', PInt (dr_UsageEvents res)),
                                        (''est_tokens'', PInt (dr_EstimatedTokens res)),
                                        (''memory_learned'', PBool learned)]) s6
                      in ((res, None), s7))))"

section \<open>Post-merge\<close>

record smoke_spec =
  sp_Name :: string
  sp_WantStatus :: string
  sp_Detail :: string

definition SmokeStatus_of :: "string \<Rightarrow> SmokeStatus" where
  "SmokeStatus_of st =
     (if st = ''passed'' then SmokePassed else if st = ''failed'' then SmokeFailed
      else if st = ''skipped'' then SmokeSkipped else if st = ''error'' then SmokeError else SmokeOther st)"

definition toSchedulerChecks :: "smoke_spec list \<Rightarrow> 'w smoke_check list" where
  "toSchedulerChecks specs =
     (if specs = []
      then [\<lambda>w. (\<lparr>ck_Name = ''merge-present'', ck_Status = SmokePassed, ck_Detail = ''merge landed''\<rparr>, w)]
      else map (\<lambda>sc w. (\<lparr>ck_Name = sp_Name sc,
                  ck_Status = SmokeStatus_of (if sp_WantStatus sc = '''' then ''passed'' else sp_WantStatus sc),
                  ck_Detail = sp_Detail sc\<rparr>, w)) specs)"

definition Scheduler_Reopen :: "time \<Rightarrow> string \<Rightarrow> string \<Rightarrow> 'w sched \<Rightarrow> service_error option \<times> 'w sched" where
  "Scheduler_Reopen now taskID reason s =
     (case svc_Reopen now taskID reason s of
        (Some e, s1) \<Rightarrow> (Some e, s1)
      | (None, s1) \<Rightarrow> (None, sched_audit now ''scheduler.task_reopened'' taskID (PObj [(''reason'', PStr reason)]) s1))"

text \<open>The sentinel of a post-merge run, with the scheduler as reverter and reopener.\<close>

definition daemon_sentinel :: "'w runtime \<Rightarrow> time \<Rightarrow> smoke_spec list \<Rightarrow> 'w sched Sentinel" where
  "daemon_sentinel rt now specs =
     \<lparr>sn_checks = toSchedulerChecks specs, sn_reverter = Some (svc_Revert rt),
      sn_reopener = Some (\<lambda>t reason s. snd (Scheduler_Reopen now t reason s))\<rparr>"

definition RunPostMerge ::
  "'w runtime \<Rightarrow> time \<Rightarrow> MergeOutcome \<Rightarrow> smoke_spec list \<Rightarrow> 'w sched
     \<Rightarrow> (PostMergeCheckResult option \<times> sched_error option) \<times> 'w sched" where
  "RunPostMerge rt now out specs s =
     (case svc_Resolve (mo_TaskID out) s of
        Inl e \<Rightarrow> ((None, Some (ResolveTask e)), s)
      | Inr px \<Rightarrow>
          (let out = (if IsZero (mo_MergedAt out) then out\<lparr>mo_MergedAt := now\<rparr> else out);
               ((res, err), s1) = Sentinel_Run (daemon_sentinel rt now specs) now (px_Resolved px) out s;
               s2 = svc_RecordPostMerge now res s1;
               s3 = sched_audit now ''scheduler.postmerge'' (mo_TaskID out)
                      (PObj [(''decision'', PStr (SentinelDecision_string (pm_Decision res))),
                             (''reverted'', PBool (pm_Reverted res)), (''revert_sha'', PStr (pm_RevertSHA res)),
                             (''all_passed'', PBool (pm_AllPassed res))]) s2
           in ((Some res, map_option SentinelFailed err), s3)))"

section \<open>Reports\<close>

record usage_totals =
  ug_ProjectID :: string
  ug_CodingInput :: int
  ug_CachedInput :: int
  ug_CodingOutput :: int
  ug_ImageGenerations :: int
  ug_EstimatedCostUSD :: rat
  ug_EventCount :: int

definition ListUsage :: "string \<Rightarrow> 'w sched \<Rightarrow> usage_totals" where
  "ListUsage projectID s =
     (let rows = ListUsageEvents \<lparr>rw_ProjectID = projectID, rw_TaskID = '''', rw_Provider = '''', rw_Limit = 0\<rparr> (sd_usage s)
      in \<lparr>ug_ProjectID = projectID, ug_CodingInput = sum_list (map uv_InputTokens rows),
          ug_CachedInput = sum_list (map uv_CachedInputTokens rows),
          ug_CodingOutput = sum_list (map uv_OutputTokens rows),
          ug_ImageGenerations = sum_list (map uv_Generations (filter (\<lambda>r. uv_Kind r = ''image'') rows)),
          ug_EstimatedCostUSD = sum_list (map uv_CostUSD rows), ug_EventCount = int (length rows)\<rparr>)"

definition QualityStats_totals :: "'w sched \<Rightarrow> usage_totals" where
  "QualityStats_totals s =
     (let snap = Accounting_Snapshot (sd_accounting s)
      in \<lparr>ug_ProjectID = '''', ug_CodingInput = to_CodingInput snap, ug_CachedInput = to_CachedInput snap,
          ug_CodingOutput = to_CodingOutput snap, ug_ImageGenerations = to_ImageGenerations snap,
          ug_EstimatedCostUSD = to_EstimatedCostUSD snap, ug_EventCount = to_EventCount snap\<rparr>)"

end
