(* ===== verification/Dispatch_Valid.thy ===== *)
theory Dispatch_Valid
  imports Dispatch
begin

text \<open>
  Theorems on the task execution path of \<^verbatim>\<open>src/internal/scheduler\<close> as the daemon composes it. What each
  step may change of the state is collected in \<open>sched_frame\<close> and discharged step by step; the
  properties of \<open>Dispatch\<close> and \<open>RunPostMerge\<close> follow by composition.
\<close>

section \<open>What the steps leave alone\<close>

text \<open>Two databases with the same tables, the second with a longer audit log.\<close>

definition audit_grows :: "db \<Rightarrow> db \<Rightarrow> bool" where
  "audit_grows d d' \<longleftrightarrow> (\<exists>evs. d' = d\<lparr>db_audit := db_audit d @ evs\<rparr>)"

lemma audit_grows_refl [simp]: "audit_grows d d"
  unfolding audit_grows_def by (rule exI [of _ "[]"]) simp

lemma audit_grows_trans: "audit_grows a b \<Longrightarrow> audit_grows b c \<Longrightarrow> audit_grows a c"
proof -
  assume "audit_grows a b" "audit_grows b c"
  then obtain e1 e2 where "b = a\<lparr>db_audit := db_audit a @ e1\<rparr>" "c = b\<lparr>db_audit := db_audit b @ e2\<rparr>"
    by (auto simp: audit_grows_def)
  then have "c = a\<lparr>db_audit := db_audit a @ (e1 @ e2)\<rparr>" by simp
  then show "audit_grows a c" unfolding audit_grows_def by (rule exI)
qed

lemma audit_grows_record: "recordInto d now e = Inr d' \<Longrightarrow> audit_grows d d'"
  by (auto simp: recordInto_def audit_grows_def split: if_splits)

lemma audit_grows_tables:
  "audit_grows d d' \<Longrightarrow> db_tasks d' = db_tasks d \<and> db_projects d' = db_projects d \<and>
     db_attachments d' = db_attachments d \<and> db_task_sequences d' = db_task_sequences d"
  by (auto simp: audit_grows_def)

named_theorems sched_fields

lemma sched_audit_fields [sched_fields]:
  "sd_usage (sched_audit now ty t p s) = sd_usage s"
  "sd_memory (sched_audit now ty t p s) = sd_memory s"
  "sd_postmerge (sched_audit now ty t p s) = sd_postmerge s"
  "sd_accounting (sched_audit now ty t p s) = sd_accounting s"
  "sd_statistics (sched_audit now ty t p s) = sd_statistics s"
  "sd_world (sched_audit now ty t p s) = sd_world s"
  by (simp_all add: sched_audit_def split: sum.split)

lemma sched_audit_grows: "audit_grows (sd_db s) (sd_db (sched_audit now ty t p s))"
  by (auto simp: sched_audit_def split: sum.split dest: audit_grows_record)

lemma svc_CreateAttempt_fields [sched_fields]:
  "sd_usage (snd (svc_CreateAttempt rt t w b s)) = sd_usage s"
  "sd_memory (snd (svc_CreateAttempt rt t w b s)) = sd_memory s"
  "sd_postmerge (snd (svc_CreateAttempt rt t w b s)) = sd_postmerge s"
  "sd_accounting (snd (svc_CreateAttempt rt t w b s)) = sd_accounting s"
  "sd_statistics (snd (svc_CreateAttempt rt t w b s)) = sd_statistics s"
  "sd_db (snd (svc_CreateAttempt rt t w b s)) = sd_db s"
  by (simp_all add: svc_CreateAttempt_def split: sum.split prod.split)

lemma svc_RunAgent_fields [sched_fields]:
  "sd_usage (snd (svc_RunAgent rt i p e m q d s)) = sd_usage s"
  "sd_memory (snd (svc_RunAgent rt i p e m q d s)) = sd_memory s"
  "sd_postmerge (snd (svc_RunAgent rt i p e m q d s)) = sd_postmerge s"
  "sd_accounting (snd (svc_RunAgent rt i p e m q d s)) = sd_accounting s"
  "sd_statistics (snd (svc_RunAgent rt i p e m q d s)) = sd_statistics s"
  "sd_db (snd (svc_RunAgent rt i p e m q d s)) = sd_db s"
  by (simp_all add: svc_RunAgent_def split: sum.split prod.split)

lemma svc_Learn_fields [sched_fields]:
  "sd_usage (snd (svc_Learn now p c k v f s)) = sd_usage s"
  "sd_postmerge (snd (svc_Learn now p c k v f s)) = sd_postmerge s"
  "sd_accounting (snd (svc_Learn now p c k v f s)) = sd_accounting s"
  "sd_statistics (snd (svc_Learn now p c k v f s)) = sd_statistics s"
  "sd_world (snd (svc_Learn now p c k v f s)) = sd_world s"
  "sd_db (snd (svc_Learn now p c k v f s)) = sd_db s"
  by (simp_all add: svc_Learn_def split: option.split prod.split)

section \<open>The usage loop\<close>

definition usage_events :: "agent_event list \<Rightarrow> agent_event list" where
  "usage_events evs = filter (\<lambda>ev. ag_Type ev = ''usage.updated'') evs"

definition stamped :: "time \<Rightarrow> UsageEvent \<Rightarrow> UsageEvent" where
  "stamped now e = (if IsZero (ue_OccurredAt e) then e\<lparr>ue_OccurredAt := now\<rparr> else e)"

lemma svc_RecordUsage_fields [sched_fields]:
  "sd_memory (svc_RecordUsage now e s) = sd_memory s"
  "sd_postmerge (svc_RecordUsage now e s) = sd_postmerge s"
  "sd_statistics (svc_RecordUsage now e s) = sd_statistics s"
  "sd_world (svc_RecordUsage now e s) = sd_world s"
  "sd_db (svc_RecordUsage now e s) = sd_db s"
  "sd_accounting (svc_RecordUsage now e s) = sd_accounting s @ [stamped now e]"
  "length (ut_rows (sd_usage (svc_RecordUsage now e s))) = Suc (length (ut_rows (sd_usage s)))"
  "map uv_CostUSD (ut_rows (sd_usage (svc_RecordUsage now e s))) = map uv_CostUSD (ut_rows (sd_usage s)) @ [ue_CostUSD e]"
  by (simp_all add: svc_RecordUsage_def Accounting_Record_def stamped_def RecordUsageEvent_def Let_def)

lemma record_event_other [simp]:
  "ag_Type ev \<noteq> ''usage.updated'' \<Longrightarrow> record_event now t p e m ev (res, s) = (res, s)"
  by (simp add: record_event_def)

lemma record_event_usage:
  "ag_Type ev = ''usage.updated'' \<Longrightarrow> record_event now t p e m ev (res, s) =
    (res\<lparr>dr_UsageEvents := dr_UsageEvents res + 1,
         dr_EstimatedTokens := dr_EstimatedTokens res + (ag_InputTokens ev + ag_OutputTokens ev + ag_CacheRead ev)\<rparr>,
     (svc_RecordUsage now (usage_of now t p e m ev) s)\<lparr>sd_accounting := sd_accounting s @
        [stamped now (usage_of now t p e m ev), stamped now (usage_of now t p e m ev)]\<rparr>)"
  by (simp add: record_event_def Let_def sched_fields Accounting_Record_def stamped_def)

lemma stamped_cost [simp]: "ue_CostUSD (stamped now (usage_of now t p e m ev)) = ag_CostUSD ev"
  by (simp add: stamped_def usage_of_def)

lemma usage_of_cost [simp]: "ue_CostUSD (usage_of now t p e m ev) = ag_CostUSD ev"
  by (simp add: usage_of_def)

text \<open>What the loop over the events of a run leaves in the state.\<close>

lemma usage_loop:
  assumes "fold (record_event now t p e m) evs (res, s) = (res', s')"
  shows "sd_db s' = sd_db s \<and> sd_memory s' = sd_memory s \<and> sd_postmerge s' = sd_postmerge s \<and>
    sd_statistics s' = sd_statistics s \<and>
    dr_UsageEvents res' = dr_UsageEvents res + int (length (usage_events evs)) \<and>
    length (ut_rows (sd_usage s')) = length (ut_rows (sd_usage s)) + length (usage_events evs) \<and>
    map uv_CostUSD (ut_rows (sd_usage s')) = map uv_CostUSD (ut_rows (sd_usage s)) @ map ag_CostUSD (usage_events evs) \<and>
    sd_accounting s' = sd_accounting s @
      concat (map (\<lambda>ev. let ue = stamped now (usage_of now t p e m ev) in [ue, ue]) (usage_events evs)) \<and>
    dr_TaskID res' = dr_TaskID res \<and> dr_ProjectID res' = dr_ProjectID res \<and> dr_WorkspaceID res' = dr_WorkspaceID res \<and>
    dr_Outcome res' = dr_Outcome res"
  using assms
proof (induction evs arbitrary: res s)
  case (Cons ev evs)
  show ?case
  proof (cases "ag_Type ev = ''usage.updated''")
    case False
    with Cons show ?thesis by (simp add: usage_events_def)
  next
    case True
    show ?thesis
      using Cons.IH [OF Cons.prems [simplified fold.simps comp_apply record_event_usage [OF True]]] True
      by (simp add: usage_events_def sched_fields Let_def)
  qed
qed (simp add: usage_events_def)

lemma doubled_sum:
  "sum_where (\<lambda>_. True) ue_CostUSD
     (concat (map (\<lambda>ev. let ue = stamped now (usage_of now t p e m ev) in [ue, ue]) evs)) = 2 * sum_list (map ag_CostUSD evs)"
  "length (concat (map (\<lambda>ev. let ue = stamped now (usage_of now t p e m ev) in [ue, ue]) evs)) = 2 * length evs"
  by (induction evs) (simp_all add: sum_where_def Let_def)

lemma totals_append:
  "ug_EventCount (QualityStats_totals s) = int (length (sd_accounting s))"
  "ug_EstimatedCostUSD (QualityStats_totals s) = sum_where (\<lambda>_. True) ue_CostUSD (sd_accounting s)"
  by (simp_all add: QualityStats_totals_def Accounting_Snapshot_def fold_Totals_Add zero_totals_def Let_def)

section \<open>Dispatch\<close>

lemma run_attempt_fields [sched_fields]:
  "sd_usage (snd (run_attempt rt now px o1 i p s)) = sd_usage s"
  "sd_memory (snd (run_attempt rt now px o1 i p s)) = sd_memory s"
  "sd_postmerge (snd (run_attempt rt now px o1 i p s)) = sd_postmerge s"
  "sd_accounting (snd (run_attempt rt now px o1 i p s)) = sd_accounting s"
  "sd_statistics (snd (run_attempt rt now px o1 i p s)) = sd_statistics s"
  "sd_db (snd (run_attempt rt now px o1 i p s)) = sd_db s"
  by (simp_all add: run_attempt_def Let_def case_prod_unfold sched_fields)

text \<open>The inversion of a successful dispatch: the intermediate states, each with what its step did.\<close>

lemma Dispatch_success:
  assumes "Dispatch rt now taskID opts s = ((res, None), s')"
  obtains px wsID wsPath s1 s2 built outcome evs s3 res3 res4 s4 learned s6 pay1 pay2 where
    "svc_Resolve taskID s = Inr px"
    "svc_CreateAttempt rt taskID (do_WorkPackageID (default_options opts)) (do_BaseBranch (default_options opts)) s
       = (Inr (wsID, wsPath), s1)"
    "s2 = sched_audit now ''scheduler.attempt_created'' taskID pay1 s1"
    "run_attempt rt now px (default_options opts) wsID wsPath s2 = ((built, outcome, evs), s3)"
    "res3 = \<lparr>dr_TaskID = taskID, dr_ProjectID = px_ProjectID px, dr_WorkspaceID = wsID, dr_Outcome = outcome,
       dr_UsageEvents = 0, dr_EstimatedTokens = 0, dr_ContextPackBuilt = built, dr_MemoryLearned = False\<rparr>"
    "fold (record_event now taskID (px_ProjectID px) (do_Engine (default_options opts)) (do_Model (default_options opts)))
       evs (res3, s3) = (res4, s4)"
    "svc_Learn now (px_ProjectID px) ''accepted_decision'' (''dispatch-'' @ taskID)
       (dispatch_fact taskID (default_options opts) outcome) ''medium''
       (s4\<lparr>sd_statistics := Statistics_Record now (task_outcome taskID px (default_options opts) outcome) (sd_statistics s4)\<rparr>)
       = (learned, s6)"
    "res = res4\<lparr>dr_MemoryLearned := learned\<rparr>"
    "s' = sched_audit now ''scheduler.dispatch_completed'' taskID pay2 s6"
proof -
  let ?o = "default_options opts"
  obtain px where px: "svc_Resolve taskID s = Inr px"
    using assms by (auto simp: Dispatch_def Let_def split: sum.splits)
  obtain c s1 where c: "svc_CreateAttempt rt taskID (do_WorkPackageID ?o) (do_BaseBranch ?o) s = (c, s1)" by fastforce
  have "\<exists>x. c = Inr x" using assms px c by (cases c) (simp_all add: Dispatch_def Let_def)
  then obtain wsID wsPath where ws: "c = Inr (wsID, wsPath)" by auto
  define s2 where "s2 = sched_audit now ''scheduler.attempt_created'' taskID
    (PObj [(''workspace'', PStr wsID), (''engine'', PStr (do_Engine ?o)), (''model'', PStr (do_Model ?o))]) s1"
  obtain built outcome evs s3 where r: "run_attempt rt now px ?o wsID wsPath s2 = ((built, outcome, evs), s3)"
    by (metis prod.exhaust)
  define res3 where "res3 = \<lparr>dr_TaskID = taskID, dr_ProjectID = px_ProjectID px, dr_WorkspaceID = wsID, dr_Outcome = outcome,
       dr_UsageEvents = 0, dr_EstimatedTokens = 0, dr_ContextPackBuilt = built, dr_MemoryLearned = False\<rparr>"
  obtain res4 s4 where f: "fold (record_event now taskID (px_ProjectID px) (do_Engine ?o) (do_Model ?o)) evs (res3, s3) = (res4, s4)"
    by fastforce
  obtain learned s6 where l: "svc_Learn now (px_ProjectID px) ''accepted_decision'' (''dispatch-'' @ taskID)
       (dispatch_fact taskID ?o outcome) ''medium''
       (s4\<lparr>sd_statistics := Statistics_Record now (task_outcome taskID px ?o outcome) (sd_statistics s4)\<rparr>) = (learned, s6)"
    by fastforce
  have "res = res4\<lparr>dr_MemoryLearned := learned\<rparr> \<and> s' = sched_audit now ''scheduler.dispatch_completed'' taskID
       (PObj [(''outcome'', PStr outcome), (''usage_events'', PInt (dr_UsageEvents res)),
              (''est_tokens'', PInt (dr_EstimatedTokens res)), (''memory_learned'', PBool learned)]) s6"
    using assms px c ws r f l by (auto simp: Dispatch_def Let_def res3_def simp flip: s2_def)
  with px c ws r f l show thesis by (intro that [OF px _ s2_def r res3_def f l]) simp_all
qed

text \<open>The fact a dispatch learns, as a row of the memory table.\<close>

definition dispatch_row :: "string \<Rightarrow> string \<Rightarrow> string \<Rightarrow> memory_row" where
  "dispatch_row projectID taskID value =
     \<lparr>mr_ID = 0, mr_ProjectID = projectID, mr_Category = ''accepted_decision'', mr_Key = ''dispatch-'' @ taskID,
      mr_Value = value, mr_Source = ''scheduler'', mr_Confidence = ''medium'', mr_Scope = [],
      mr_CommitSHA = [], mr_Expiration = [], mr_ExpiresAt = [], mr_LearnedAt = zero_time, mr_Version = 0\<rparr>"

lemma LearnMemory_fails: "fst (LearnMemory now (dispatch_row p t v) m) = None \<longleftrightarrow> p = []"
  by (simp add: dispatch_row_def LearnMemory_def Let_def split: option.splits)

lemma svc_Learn_dispatch:
  "svc_Learn now p ''accepted_decision'' (''dispatch-'' @ t) v ''medium'' s =
     (if p = [] then (False, s) else (True, s\<lparr>sd_memory := snd (LearnMemory now (dispatch_row p t v) (sd_memory s))\<rparr>))"
  using LearnMemory_fails [of now p t v "sd_memory s"] unfolding svc_Learn_def dispatch_row_def [symmetric]
  by (cases "LearnMemory now (dispatch_row p t v) (sd_memory s)") (auto split: option.splits)

text \<open>The state after a successful dispatch, table by table.\<close>

lemma Dispatch_effects:
  assumes "Dispatch rt now taskID opts s = ((res, None), s')"
  obtains px evs where
    "svc_Resolve taskID s = Inr px" "dr_ProjectID res = px_ProjectID px"
    "audit_grows (sd_db s) (sd_db s')" "sd_postmerge s' = sd_postmerge s"
    "dr_UsageEvents res = int (length evs)"
    "length (ut_rows (sd_usage s')) = length (ut_rows (sd_usage s)) + length evs"
    "map uv_CostUSD (ut_rows (sd_usage s')) = map uv_CostUSD (ut_rows (sd_usage s)) @ map ag_CostUSD evs"
    "sd_accounting s' = sd_accounting s @
      concat (map (\<lambda>ev. let ue = stamped now (usage_of now taskID (px_ProjectID px) (do_Engine (default_options opts))
         (do_Model (default_options opts)) ev) in [ue, ue]) evs)"
    "sd_statistics s' = Statistics_Record now (task_outcome taskID px (default_options opts) (dr_Outcome res)) (sd_statistics s)"
    "dr_MemoryLearned res = (px_ProjectID px \<noteq> [])"
    "sd_memory s' = (if px_ProjectID px = [] then sd_memory s
       else snd (LearnMemory now (dispatch_row (px_ProjectID px) taskID (dispatch_fact taskID (default_options opts) (dr_Outcome res))) (sd_memory s)))"
proof -
  from assms obtain px wsID wsPath s1 s2 built outcome evs s3 res3 res4 s4 learned s6 pay1 pay2 where d:
    "svc_Resolve taskID s = Inr px"
    "svc_CreateAttempt rt taskID (do_WorkPackageID (default_options opts)) (do_BaseBranch (default_options opts)) s
       = (Inr (wsID, wsPath), s1)"
    "s2 = sched_audit now ''scheduler.attempt_created'' taskID pay1 s1"
    "run_attempt rt now px (default_options opts) wsID wsPath s2 = ((built, outcome, evs), s3)"
    "res3 = \<lparr>dr_TaskID = taskID, dr_ProjectID = px_ProjectID px, dr_WorkspaceID = wsID, dr_Outcome = outcome,
       dr_UsageEvents = 0, dr_EstimatedTokens = 0, dr_ContextPackBuilt = built, dr_MemoryLearned = False\<rparr>"
    "fold (record_event now taskID (px_ProjectID px) (do_Engine (default_options opts)) (do_Model (default_options opts)))
       evs (res3, s3) = (res4, s4)"
    "svc_Learn now (px_ProjectID px) ''accepted_decision'' (''dispatch-'' @ taskID)
       (dispatch_fact taskID (default_options opts) outcome) ''medium''
       (s4\<lparr>sd_statistics := Statistics_Record now (task_outcome taskID px (default_options opts) outcome) (sd_statistics s4)\<rparr>)
       = (learned, s6)"
    "res = res4\<lparr>dr_MemoryLearned := learned\<rparr>"
    "s' = sched_audit now ''scheduler.dispatch_completed'' taskID pay2 s6"
    by (rule Dispatch_success)
  have l: "snd (svc_Learn now (px_ProjectID px) ''accepted_decision'' (''dispatch-'' @ taskID)
       (dispatch_fact taskID (default_options opts) outcome) ''medium''
       (s4\<lparr>sd_statistics := Statistics_Record now (task_outcome taskID px (default_options opts) outcome) (sd_statistics s4)\<rparr>)) = s6"
    using d(7) by simp
  note f1 = svc_CreateAttempt_fields [of rt taskID "do_WorkPackageID (default_options opts)" "do_BaseBranch (default_options opts)" s, unfolded d(2) snd_conv]
    and f2 = sched_audit_fields [of now "''scheduler.attempt_created''" taskID pay1 s1, folded d(3)]
    and f3 = run_attempt_fields [of rt now px "default_options opts" wsID wsPath s2, unfolded d(4) snd_conv]
    and f4 = usage_loop [OF d(6)]
    and f5 = svc_Learn_fields [of now "px_ProjectID px" "''accepted_decision''" "''dispatch-'' @ taskID" _ "''medium''"
      "s4\<lparr>sd_statistics := Statistics_Record now (task_outcome taskID px (default_options opts) outcome) (sd_statistics s4)\<rparr>", of
      "dispatch_fact taskID (default_options opts) outcome", unfolded l]
    and f6 = sched_audit_fields [of now "''scheduler.dispatch_completed''" taskID pay2 s6, folded d(9)]
  have "audit_grows (sd_db s) (sd_db s2)" "audit_grows (sd_db s6) (sd_db s')"
    using sched_audit_grows [of s1 now "''scheduler.attempt_created''" taskID pay1] f1
      sched_audit_grows [of s6 now "''scheduler.dispatch_completed''" taskID pay2] by (simp_all add: d(3,9))
  moreover have "sd_db s6 = sd_db s2" using f3 f4 f5 by simp
  ultimately have db: "audit_grows (sd_db s) (sd_db s')" using audit_grows_trans by simp
  have res: "dr_ProjectID res = px_ProjectID px" "dr_Outcome res = outcome" "dr_UsageEvents res = int (length (usage_events evs))"
    "dr_MemoryLearned res = learned"
    using f4 by (simp_all add: d(5,8))
  have mem: "learned = (px_ProjectID px \<noteq> [])" "sd_memory s' = (if px_ProjectID px = [] then sd_memory s
       else snd (LearnMemory now (dispatch_row (px_ProjectID px) taskID (dispatch_fact taskID (default_options opts) outcome)) (sd_memory s)))"
    using d(7) f1 f2 f3 f4 f6 unfolding svc_Learn_dispatch by (auto split: if_splits)
  show thesis
    by (rule that [OF d(1) res(1) db _ res(3) _ _ _ _ _ mem(2) [folded res(2)]]) (use f1 f2 f3 f4 f5 f6 res mem(1) in simp_all)
qed

lemma Dispatch_failure:
  assumes "Dispatch rt now taskID opts s = ((res, Some e), s')"
  shows "sd_usage s' = sd_usage s \<and> sd_memory s' = sd_memory s \<and> sd_postmerge s' = sd_postmerge s \<and>
    sd_accounting s' = sd_accounting s \<and> sd_statistics s' = sd_statistics s \<and> sd_db s' = sd_db s"
proof (cases "svc_Resolve taskID s")
  case (Inl e)
  with assms show ?thesis by (simp add: Dispatch_def Let_def)
next
  case (Inr px)
  obtain c s1 where c: "svc_CreateAttempt rt taskID (do_WorkPackageID (default_options opts)) (do_BaseBranch (default_options opts)) s = (c, s1)"
    by fastforce
  have "s' = s1"
    using assms Inr c by (cases c) (simp_all add: Dispatch_def Let_def split: prod.splits)
  then show ?thesis
    using svc_CreateAttempt_fields [of rt taskID "do_WorkPackageID (default_options opts)" "do_BaseBranch (default_options opts)" s, unfolded c snd_conv]
    by simp
qed

text \<open>A dispatch never changes a task, a project, an attachment or a post-merge record; it only appends to
  the audit log. When the task cannot be resolved or its workspace cannot be created nothing at all
  is recorded: no usage, no memory, no outcome. Otherwise exactly one outcome is recorded for the
  task, a failure exactly when the run failed or was cancelled, and one usage row per usage event of
  the run.\<close>

theorem dispatch_effects:
  assumes "Dispatch rt now taskID opts s = ((res, err), s')"
  shows "db_tasks (sd_db s') = db_tasks (sd_db s) \<and> db_projects (sd_db s') = db_projects (sd_db s) \<and>
    db_attachments (sd_db s') = db_attachments (sd_db s) \<and> sd_postmerge s' = sd_postmerge s \<and>
    prefix (db_audit (sd_db s)) (db_audit (sd_db s')) \<and>
    (case err of
       Some _ \<Rightarrow> sd_usage s' = sd_usage s \<and> sd_memory s' = sd_memory s \<and> sd_accounting s' = sd_accounting s \<and>
                 sd_statistics s' = sd_statistics s \<and> sd_db s' = sd_db s
     | None \<Rightarrow>
         (\<exists>r. sd_statistics s' = sd_statistics s @ [r] \<and> tn_TaskID r = taskID \<and> tn_ProjectID r = dr_ProjectID res \<and>
              (tn_Outcome r = OutcomeFailure \<longleftrightarrow> dr_Outcome res = ''failed'' \<or> dr_Outcome res = ''cancelled'')) \<and>
         int (CountUsageEvents (sd_usage s')) = int (CountUsageEvents (sd_usage s)) + dr_UsageEvents res)"
proof (cases err)
  case (Some e)
  with Dispatch_failure [of rt now taskID opts s res e s'] assms show ?thesis by simp
next
  case None
  with assms have "Dispatch rt now taskID opts s = ((res, None), s')" by simp
  then obtain px and evs :: "agent_event list" where d: "dr_ProjectID res = px_ProjectID px" "audit_grows (sd_db s) (sd_db s')" "sd_postmerge s' = sd_postmerge s"
    "dr_UsageEvents res = int (length evs)"
    "length (ut_rows (sd_usage s')) = length (ut_rows (sd_usage s)) + length evs"
    "sd_statistics s' = Statistics_Record now (task_outcome taskID px (default_options opts) (dr_Outcome res)) (sd_statistics s)"
    by (rule Dispatch_effects) (rule that)
  have "\<exists>r. sd_statistics s' = sd_statistics s @ [r] \<and> tn_TaskID r = taskID \<and> tn_ProjectID r = dr_ProjectID res \<and>
              (tn_Outcome r = OutcomeFailure \<longleftrightarrow> dr_Outcome res = ''failed'' \<or> dr_Outcome res = ''cancelled'')"
    unfolding d(1,6) Statistics_Record_def by (rule exI, rule conjI, rule refl) (simp add: task_outcome_def)
  moreover have "prefix (db_audit (sd_db s)) (db_audit (sd_db s'))" using d(2) by (auto simp: audit_grows_def)
  ultimately show ?thesis using audit_grows_tables [OF d(2)] None d by (simp add: CountUsageEvents_def)
qed

text \<open>The in-process token accounting of the daemon counts every usage event of a dispatch twice: the
  usage table gains one row per event, but the event count of the quality report grows by twice that
  number and its estimated cost by twice the cost of the new rows.\<close>

theorem dispatch_accounting_doubled:
  assumes "Dispatch rt now taskID opts s = ((res, None), s')"
  defines "new \<equiv> drop (CountUsageEvents (sd_usage s)) (ut_rows (sd_usage s'))"
  shows "dr_UsageEvents res = int (length new) \<and>
    ug_EventCount (QualityStats_totals s') = ug_EventCount (QualityStats_totals s) + 2 * int (length new) \<and>
    ug_EstimatedCostUSD (QualityStats_totals s') =
      ug_EstimatedCostUSD (QualityStats_totals s) + 2 * sum_list (map uv_CostUSD new)"
proof -
  from assms(1) obtain px :: project_context and evs where d: "dr_UsageEvents res = int (length evs)"
    "length (ut_rows (sd_usage s')) = length (ut_rows (sd_usage s)) + length evs"
    "map uv_CostUSD (ut_rows (sd_usage s')) = map uv_CostUSD (ut_rows (sd_usage s)) @ map ag_CostUSD evs"
    "sd_accounting s' = sd_accounting s @
      concat (map (\<lambda>ev. let ue = stamped now (usage_of now taskID (px_ProjectID px) (do_Engine (default_options opts))
         (do_Model (default_options opts)) ev) in [ue, ue]) evs)"
    by (rule Dispatch_effects) (rule that)
  have cost: "map uv_CostUSD new = map ag_CostUSD evs"
    unfolding new_def CountUsageEvents_def drop_map [symmetric] d(3) by simp
  have len: "length new = length evs" using d(2) by (simp add: new_def CountUsageEvents_def)
  have split: "sum_where (\<lambda>_. True) ue_CostUSD (xs @ ys) = sum_where (\<lambda>_. True) ue_CostUSD xs + sum_where (\<lambda>_. True) ue_CostUSD ys"
    for xs ys by (simp add: sum_where_def)
  show ?thesis
    unfolding totals_append d(4) split length_append doubled_sum cost len by (simp add: d(1))
qed

text \<open>The fact a dispatch remembers is stored under the task's key with medium confidence and the next
  version number, whatever was remembered there before; it is stored exactly when the project has an
  identifier, and every other fact is left as it was.\<close>

theorem dispatch_remembers:
  assumes "Dispatch rt now taskID opts s = ((res, None), s')"
  shows "dr_MemoryLearned res = (dr_ProjectID res \<noteq> '''') \<and>
    map_option row_view (row_of p c k (sd_memory s')) =
      (if dr_MemoryLearned res \<and> p = dr_ProjectID res \<and> c = ''accepted_decision'' \<and> k = ''dispatch-'' @ taskID
       then Some (dispatch_fact taskID (default_options opts) (dr_Outcome res), ''medium'',
                  (case row_of p c k (sd_memory s) of Some old \<Rightarrow> mr_Version old | None \<Rightarrow> 0) + 1)
       else map_option row_view (row_of p c k (sd_memory s)))"
proof -
  from assms obtain px :: project_context where px: "dr_ProjectID res = px_ProjectID px"
    "dr_MemoryLearned res = (px_ProjectID px \<noteq> [])"
    "sd_memory s' = (if px_ProjectID px = [] then sd_memory s
       else snd (LearnMemory now (dispatch_row (px_ProjectID px) taskID (dispatch_fact taskID (default_options opts) (dr_Outcome res))) (sd_memory s)))"
    by (rule Dispatch_effects) (rule that)
  show ?thesis
  proof (cases "px_ProjectID px = []")
    case False
    have "mr_ProjectID (dispatch_row (px_ProjectID px) taskID v) = px_ProjectID px \<and>
      mr_Category (dispatch_row (px_ProjectID px) taskID v) = ''accepted_decision'' \<and>
      mr_Key (dispatch_row (px_ProjectID px) taskID v) = ''dispatch-'' @ taskID \<and>
      mr_Value (dispatch_row (px_ProjectID px) taskID v) = v \<and>
      mr_Confidence (dispatch_row (px_ProjectID px) taskID v) = ''medium''" for v
      by (simp add: dispatch_row_def)
    with False px LearnMemory_row [of "dispatch_row (px_ProjectID px) taskID (dispatch_fact taskID (default_options opts) (dr_Outcome res))"
        p c k now "sd_memory s"] show ?thesis by simp
  qed (use px in simp)
qed

section \<open>A concrete runtime\<close>

text \<open>One project with one task, and a runtime whose agent reports two usage events; the world counts
  workspaces.\<close>

definition demo_dispatch_db :: "string \<Rightarrow> db" where
  "demo_dispatch_db profile =
     empty_db\<lparr>db_projects := [\<lparr>pj_id = ''p1'', pj_name = ''demo'', pj_path = ''/repo'', pj_remote = '''', pj_state = ''ACTIVE'',
                pj_profile = profile, pj_created_at = '''', pj_updated_at = ''''\<rparr>],
              db_tasks := [\<lparr>tk_id = ''t1'', tk_project_id = ''p1'', tk_title = ''Fix'', tk_description = ''it'', tk_priority = ''normal'',
                tk_state = ''DONE'', tk_created_at = '''', tk_updated_at = ''''\<rparr>]\<rparr>"

definition demo_sched :: "string \<Rightarrow> nat sched" where
  "demo_sched profile =
     \<lparr>sd_db = demo_dispatch_db profile, sd_usage = \<lparr>ut_rows = [], ut_seq = 0\<rparr>, sd_memory = \<lparr>mt_rows = [], mt_seq = 0\<rparr>,
      sd_postmerge = \<lparr>pt_rows = [], pt_seq = 0\<rparr>, sd_accounting = [], sd_statistics = [], sd_world = 0\<rparr>"

definition demo_usage_event :: normalized_event where
  "demo_usage_event = \<lparr>ne_Type = ''usage.updated'', ne_Usage = Some (3, 2, 1, 1 / 2)\<rparr>"

definition demo_runtime :: "nat runtime" where
  "demo_runtime =
     \<lparr>rn_resolvePath = (\<lambda>_. Inr ''/repo''),
      rn_create = (\<lambda>_ _ _ _ _ w. (Inr \<lparr>cw_ID = ''ws'', cw_Path = ''/ws'', cw_HeadSHA = ''h0''\<rparr>, w + 1)),
      rn_run = (\<lambda>_ _ _ _ _ _ w. (Inr \<lparr>sr_Failed = False, sr_Cancelled = False,
         sr_Events = [demo_usage_event, \<lparr>ne_Type = ''message'', ne_Usage = None\<rparr>, demo_usage_event]\<rparr>, w)),
      rn_pack = (\<lambda>_ _ _. Inr ''''), rn_checkpoint = (\<lambda>_ _ w. (Inr (), w)), rn_head = (\<lambda>_ _. ''h1''),
      rn_delete = (\<lambda>_ w. w)\<rparr>"

definition demo_options :: DispatchOptions where
  "demo_options = \<lparr>do_Engine = '''', do_Model = '''', do_WorkPackageID = '''', do_BaseBranch = '''', do_Timeout = 0,
     do_BuildContextPack = False\<rparr>"

lemma demo_resolve:
  "svc_Resolve ''t1'' (demo_sched p) =
     Inr \<lparr>px_ProjectID = ''p1'', px_ProjectPath = ''/repo'', px_TaskID = ''t1'', px_TaskDesc = ''Fix: it'', px_Profile = p,
          px_Resolved = fst (Resolve (NewProject p) \<lparr>tx_Override = None, tx_IsUI = False\<rparr>)\<rparr>"
  by (simp add: svc_Resolve_def demo_sched_def demo_dispatch_db_def Backlog_Get_def GetTask_def GetProject_def)

lemma demo_created:
  "svc_CreateAttempt demo_runtime ''t1'' w b (demo_sched p) = (Inr (''ws'', ''/ws''), (demo_sched p)\<lparr>sd_world := 1\<rparr>)"
  by (simp add: svc_CreateAttempt_def demo_sched_def demo_dispatch_db_def Backlog_Get_def GetTask_def demo_runtime_def)

lemma demo_run:
  "run_attempt demo_runtime now px (default_options demo_options) ws d s =
     ((False, ''completed'', toAgentEvents [demo_usage_event, \<lparr>ne_Type = ''message'', ne_Usage = None\<rparr>, demo_usage_event]), s)"
  by (simp add: run_attempt_def demo_runtime_def demo_options_def default_options_def svc_RunAgent_def Let_def)

lemma demo_dispatch_runs:
  "\<exists>res s'. Dispatch demo_runtime 7 ''t1'' demo_options (demo_sched p) = ((res, None), s') \<and> dr_UsageEvents res = 2 \<and>
     dr_ProjectID res = ''p1'' \<and> dr_Outcome res = ''completed''"
  by (simp add: Dispatch_def Let_def demo_resolve demo_created demo_run case_prod_unfold toAgentEvents_def
      demo_usage_event_def record_event_usage)

theorem dispatch_effects_witness:
  "\<exists>res s'. Dispatch demo_runtime 7 ''t1'' demo_options (demo_sched ''LOCAL'') = ((res, None), s') \<and>
     int (CountUsageEvents (sd_usage s')) = 2 \<and> length (sd_statistics s') = 1"
proof -
  obtain res s' where d: "Dispatch demo_runtime 7 ''t1'' demo_options (demo_sched ''LOCAL'') = ((res, None), s')" "dr_UsageEvents res = 2"
    using demo_dispatch_runs by blast
  from dispatch_effects [OF d(1)] d show ?thesis by (auto simp: demo_sched_def CountUsageEvents_def)
qed

theorem dispatch_accounting_doubled_witness:
  "\<exists>res s'. Dispatch demo_runtime 7 ''t1'' demo_options (demo_sched ''LOCAL'') = ((res, None), s') \<and>
     dr_UsageEvents res = 2 \<and> ug_EventCount (QualityStats_totals s') = 4"
proof -
  obtain res s' where d: "Dispatch demo_runtime 7 ''t1'' demo_options (demo_sched ''LOCAL'') = ((res, None), s')" "dr_UsageEvents res = 2"
    using demo_dispatch_runs by blast
  from dispatch_accounting_doubled [OF d(1)] d show ?thesis by (auto simp: demo_sched_def totals_append)
qed

theorem dispatch_remembers_witness:
  "\<exists>res s'. Dispatch demo_runtime 7 ''t1'' demo_options (demo_sched ''LOCAL'') = ((res, None), s') \<and> dr_MemoryLearned res \<and>
     map_option row_view (row_of ''p1'' ''accepted_decision'' ''dispatch-t1'' (sd_memory s')) =
       Some (dispatch_fact ''t1'' (default_options demo_options) ''completed'', ''medium'', 1)"
proof -
  obtain res s' where d: "Dispatch demo_runtime 7 ''t1'' demo_options (demo_sched ''LOCAL'') = ((res, None), s')"
    "dr_ProjectID res = ''p1''" "dr_Outcome res = ''completed''"
    using demo_dispatch_runs by blast
  from dispatch_remembers [OF d(1), of "''p1''" "''accepted_decision''" "''dispatch-t1''"] d(2,3)
  show ?thesis using d(1) by (auto simp: demo_sched_def row_of_def)
qed

section \<open>Post-merge\<close>

text \<open>The collaborators of a sentinel keep an invariant of the world; then so does the run.\<close>

locale sentinel_collaborators =
  fixes sn :: "'w Sentinel" and Inv :: "'w \<Rightarrow> bool"
  assumes checks_keep: "c \<in> set (sn_checks sn) \<Longrightarrow> Inv w \<Longrightarrow> Inv (snd (c w))"
    and reverter_keeps: "sn_reverter sn = Some rvt \<Longrightarrow> Inv w \<Longrightarrow> Inv (snd (rvt t sha b n w))"
    and reopener_keeps: "sn_reopener sn = Some rop \<Longrightarrow> Inv w \<Longrightarrow> Inv (rop t reason w)"
begin

lemma reopen_keeps: "Inv w \<Longrightarrow> Inv (sentinel_reopen sn t reason w)"
  by (auto simp: sentinel_reopen_def reopener_keeps split: option.split)

lemma run_checks_keep: "set cs \<subseteq> set (sn_checks sn) \<Longrightarrow> Inv w \<Longrightarrow> Inv (snd (run_checks cs w))"
proof (induction cs arbitrary: w)
  case (Cons c cs)
  have "Inv (snd (c w))" using Cons.prems by (intro checks_keep) auto
  with Cons show ?case by (simp add: case_prod_unfold)
qed simp

lemma finalise_keeps: "Inv w \<Longrightarrow> Inv (snd (finalise sn res out w))"
  using reverter_keeps [of _ w "mo_TaskID out" "mo_CommitSHA out" "mo_BaseBranch out" "mo_Number out"]
  by (auto simp: finalise_def intro!: reopen_keeps split: option.splits sum.splits prod.splits)

lemma run_keeps: "Inv w \<Longrightarrow> Inv (snd (Sentinel_Run sn now r out w))"
  using run_checks_keep [of "sn_checks sn" w]
  by (auto simp: Sentinel_Run_def Let_def case_prod_unfold intro: finalise_keeps)

end

text \<open>Everything but the audit log and the world is as in the state \<open>s0\<close>.\<close>

definition tables_kept :: "'w sched \<Rightarrow> 'w sched \<Rightarrow> bool" where
  "tables_kept s0 s \<longleftrightarrow> audit_grows (sd_db s0) (sd_db s) \<and> sd_usage s = sd_usage s0 \<and> sd_memory s = sd_memory s0 \<and>
     sd_postmerge s = sd_postmerge s0 \<and> sd_accounting s = sd_accounting s0 \<and> sd_statistics s = sd_statistics s0"

lemma tables_kept_audit: "tables_kept s0 s \<Longrightarrow> tables_kept s0 (sched_audit now ty t p s)"
  using sched_audit_grows [of s now ty t p] by (auto simp: tables_kept_def sched_fields intro: audit_grows_trans)

lemma tables_kept_world: "tables_kept s0 s \<Longrightarrow> tables_kept s0 (s\<lparr>sd_world := w\<rparr>)"
  by (simp add: tables_kept_def)

lemma tables_kept_Reopen: "tables_kept s0 s \<Longrightarrow> tables_kept s0 (snd (svc_Reopen now t reason s))"
  by (auto simp: svc_Reopen_def tables_kept_def split: sum.split intro: audit_grows_trans dest: audit_grows_record)

lemma tables_kept_Revert: "tables_kept s0 s \<Longrightarrow> tables_kept s0 (snd (svc_Revert rt t c b n s))"
  by (auto simp: svc_Revert_def intro: tables_kept_world split: sum.split prod.split)

lemma tables_kept_Scheduler_Reopen: "tables_kept s0 s \<Longrightarrow> tables_kept s0 (snd (Scheduler_Reopen now t reason s))"
  using tables_kept_Reopen [of s0 s now t reason]
  by (auto simp: Scheduler_Reopen_def intro: tables_kept_audit split: prod.splits option.splits)

interpretation daemon: sentinel_collaborators "daemon_sentinel rt now specs" "tables_kept s0" for rt now specs s0
proof
  fix c w assume "c \<in> set (sn_checks (daemon_sentinel rt now specs))" "tables_kept s0 w"
  then show "tables_kept s0 (snd (c w))" by (auto simp: daemon_sentinel_def toSchedulerChecks_def split: if_splits)
next
  fix rvt w t c b n assume "sn_reverter (daemon_sentinel rt now specs) = Some rvt" "tables_kept s0 w"
  then show "tables_kept s0 (snd (rvt t c b n w))" by (auto simp: daemon_sentinel_def tables_kept_Revert)
next
  fix rop w t reason assume "sn_reopener (daemon_sentinel rt now specs) = Some rop" "tables_kept s0 w"
  then show "tables_kept s0 (rop t reason w)"
    by (auto simp: daemon_sentinel_def tables_kept_Scheduler_Reopen)
qed

text \<open>Every post-merge run of a task that resolves appends exactly one row to the post-merge table, with
  the verdict that is returned, and changes no other table but the audit log: the task keeps its
  state, even when the run reports a regression and reopens the task.\<close>

theorem post_merge_effects:
  assumes "RunPostMerge rt now out specs s = ((Some res, err), s')"
  shows "(\<exists>row. pt_rows (sd_postmerge s') = pt_rows (sd_postmerge s) @ [row] \<and> pr_TaskID row = mo_TaskID out \<and>
            pr_Decision row = SentinelDecision_string (pm_Decision res) \<and> pr_Reverted row = pm_Reverted res \<and>
            pr_RevertSHA row = pm_RevertSHA res) \<and>
    db_tasks (sd_db s') = db_tasks (sd_db s) \<and> db_projects (sd_db s') = db_projects (sd_db s) \<and>
    prefix (db_audit (sd_db s)) (db_audit (sd_db s')) \<and>
    sd_usage s' = sd_usage s \<and> sd_memory s' = sd_memory s \<and> sd_statistics s' = sd_statistics s"
proof -
  obtain px where px: "svc_Resolve (mo_TaskID out) s = Inr px"
    using assms by (auto simp: RunPostMerge_def split: sum.splits)
  define out' where "out' = (if IsZero (mo_MergedAt out) then out\<lparr>mo_MergedAt := now\<rparr> else out)"
  obtain res1 err1 s1 where r: "Sentinel_Run (daemon_sentinel rt now specs) now (px_Resolved px) out' s = ((res1, err1), s1)"
    by (metis prod.exhaust)
  have "res1 = res" and "\<exists>pay. s' = sched_audit now ''scheduler.postmerge'' (mo_TaskID out') pay (svc_RecordPostMerge now res s1)"
    using assms px r by (auto simp: RunPostMerge_def Let_def simp flip: out'_def)
  then obtain pay where s': "s' = sched_audit now ''scheduler.postmerge'' (mo_TaskID out') pay (svc_RecordPostMerge now res s1)"
    by blast
  have task: "pm_TaskID res = mo_TaskID out"
    using r \<open>res1 = res\<close>
    by (auto simp: Sentinel_Run_def Let_def out'_def split: if_splits prod.splits dest!: finalise_fields(3))
  have "tables_kept s s1" using daemon.run_keeps [of s s rt now specs now "px_Resolved px" out'] r by (simp add: tables_kept_def)
  moreover have "audit_grows (sd_db s1) (sd_db s')"
    using sched_audit_grows [of "svc_RecordPostMerge now res s1"] by (simp add: s' svc_RecordPostMerge_def)
  ultimately have g: "audit_grows (sd_db s) (sd_db s')" and k: "tables_kept s s1"
    by (auto simp: tables_kept_def intro: audit_grows_trans)
  have "prefix (db_audit (sd_db s)) (db_audit (sd_db s'))" using g by (auto simp: audit_grows_def)
  moreover have "\<exists>row. pt_rows (sd_postmerge s') = pt_rows (sd_postmerge s) @ [row] \<and> pr_TaskID row = mo_TaskID out \<and>
            pr_Decision row = SentinelDecision_string (pm_Decision res) \<and> pr_Reverted row = pm_Reverted res \<and>
            pr_RevertSHA row = pm_RevertSHA res"
    using k task by (simp add: s' sched_fields svc_RecordPostMerge_def RecordPostMergeCheck_def Let_def tables_kept_def)
  ultimately show ?thesis
    using audit_grows_tables [OF g] k by (simp add: s' sched_fields svc_RecordPostMerge_def tables_kept_def)
qed

definition failing_spec :: smoke_spec where
  "failing_spec = \<lparr>sp_Name = ''unit'', sp_WantStatus = ''failed'', sp_Detail = ''''\<rparr>"

text \<open>A failed smoke check of an autonomous project: the merge is reported as reverted and the task as
  reopened, and the task is still \<^verbatim>\<open>DONE\<close>.\<close>

theorem post_merge_effects_witness:
  "\<exists>res err s'. RunPostMerge demo_runtime 7 demo_outcome [failing_spec] (demo_sched ''AUTONOMOUS'') = ((Some res, err), s') \<and>
     pm_Reverted res \<and> map tk_state (db_tasks (sd_db s')) = [''DONE'']"
proof -
  have p: "mc_Enabled (pl_PostMerge (rs_Pipeline (fst (Resolve (NewProject ''AUTONOMOUS'') \<lparr>tx_Override = None, tx_IsUI = False\<rparr>))))"
    "mc_AutoRevert (pl_PostMerge (rs_Pipeline (fst (Resolve (NewProject ''AUTONOMOUS'') \<lparr>tx_Override = None, tx_IsUI = False\<rparr>))))"
    by code_simp+
  have "\<exists>sha s1. svc_Revert demo_runtime ''t1'' ''abc'' ''main'' 0 (demo_sched ''AUTONOMOUS'') = (Inr sha, s1)"
    by (simp add: svc_Revert_def demo_sched_def demo_dispatch_db_def Backlog_Get_def GetTask_def demo_runtime_def)
  then have "case RunPostMerge demo_runtime 7 demo_outcome [failing_spec] (demo_sched ''AUTONOMOUS'') of
      ((res, err), s') \<Rightarrow> (case res of Some r \<Rightarrow> pm_Reverted r | None \<Rightarrow> False)"
    by (auto simp: RunPostMerge_def Let_def demo_resolve demo_outcome_def Sentinel_Run_def p daemon_sentinel_def toSchedulerChecks_def
        failing_spec_def SmokeStatus_of_def check_Passed_def finalise_def sentinel_decide_def case_prod_unfold)
  then obtain res err s' where r: "RunPostMerge demo_runtime 7 demo_outcome [failing_spec] (demo_sched ''AUTONOMOUS'') = ((Some res, err), s')"
    "pm_Reverted res" by (auto split: prod.splits option.splits)
  from post_merge_effects [OF r(1)] r show ?thesis by (auto simp: demo_sched_def demo_dispatch_db_def)
qed

text \<open>Outside the autonomous profile a post-merge run does nothing but record that it was skipped: no
  check, no workspace, no revert, no reopening.\<close>

theorem post_merge_skipped:
  assumes "svc_Resolve (mo_TaskID out) s = Inr px" "px_Profile px \<noteq> ''AUTONOMOUS''"
  shows "\<exists>res s'. RunPostMerge rt now out specs s = ((Some res, None), s') \<and> pm_Decision res = DecisionSkipped \<and>
    pm_Checks res = [] \<and> \<not> pm_Reverted res \<and> sd_world s' = sd_world s"
proof -
  have "px_Resolved px = fst (Resolve (NewProject (px_Profile px)) \<lparr>tx_Override = None, tx_IsUI = False\<rparr>)"
    using assms(1) by (auto simp: svc_Resolve_def split: sum.splits option.splits)
  with assms(2) have "\<not> mc_Enabled (pl_PostMerge (rs_Pipeline (px_Resolved px)))"
    using post_merge_only_autonomous by metis
  then show ?thesis
    using assms(1) by (simp add: RunPostMerge_def Let_def Sentinel_Run_def sched_fields svc_RecordPostMerge_def)
qed

theorem post_merge_skipped_witness:
  "\<exists>px res s'. svc_Resolve (mo_TaskID demo_outcome) (demo_sched ''LOCAL'') = Inr px \<and>
     RunPostMerge demo_runtime 7 demo_outcome [failing_spec] (demo_sched ''LOCAL'') = ((Some res, None), s') \<and>
     pm_Decision res = DecisionSkipped \<and> sd_world s' = 0"
proof -
  have "case svc_Resolve (mo_TaskID demo_outcome) (demo_sched ''LOCAL'') of Inr px \<Rightarrow> px_Profile px = ''LOCAL'' | Inl _ \<Rightarrow> False"
    by code_simp
  then obtain px where px: "svc_Resolve (mo_TaskID demo_outcome) (demo_sched ''LOCAL'') = Inr px" "px_Profile px = ''LOCAL''"
    by (auto split: sum.splits)
  with post_merge_skipped [OF px(1), of demo_runtime 7 "[failing_spec]"] show ?thesis by (auto simp: demo_sched_def)
qed

end
