(* ===== verification/Task_Compiler.thy ===== *)
theory Task_Compiler
  imports Task_Specification Risk Go_Float
begin

text \<open>
  The deterministic task compiler, \<^verbatim>\<open>src/internal/task/compiler.go\<close>: the line and section parser, the
  list items, the objective, the acceptance criteria, the risk and complexity cascade, and the
  confidence with its clarifications. Strings are byte strings, taken to be valid UTF-8, so that the
  white space of \<open>squeezeWhitespace\<close>, all ASCII, can be handled byte by byte. \<open>slug_lower\<close> is
  \<^verbatim>\<open>strings.ToLower\<close> as far as a comparison with ASCII text can see it.

  The theorems: what is compiled validates exactly when it has a task and an objective that is not
  blank; a printed specification is compiled back; the confidence is exactly what the sources of
  the objective and the criteria allow; nothing of risk R4 is ever compiled silently.
\<close>

section \<open>Go strings\<close>

definition TrimLeft :: "string \<Rightarrow> string \<Rightarrow> string" where
  "TrimLeft s cutset = dropWhile (\<lambda>c. c \<in> set cutset) s"

definition TrimRight :: "string \<Rightarrow> string \<Rightarrow> string" where
  "TrimRight s cutset = rev (dropWhile (\<lambda>c. c \<in> set cutset) (rev s))"

abbreviation (input) blanks :: string where "blanks \<equiv> [CHR '' '', CHR 0x09]"

text \<open>\<^verbatim>\<open>strings.Split(s, "\n")\<close>, which returns at least one line.\<close>

fun split_lines :: "string \<Rightarrow> string list" where
  "split_lines [] = [[]]"
| "split_lines (c # s) =
     (if c = CHR 0x0A then [] # split_lines s
      else (case split_lines s of [] \<Rightarrow> [[c]] | l # ls \<Rightarrow> (c # l) # ls))"

text \<open>The two replacements of the line endings, \<^verbatim>\<open>"\r\n"\<close> first.\<close>

fun crlf_to_lf :: "string \<Rightarrow> string" where
  "crlf_to_lf (a # b # s) =
     (if a = CHR 0x0D \<and> b = CHR 0x0A then CHR 0x0A # crlf_to_lf s else a # crlf_to_lf (b # s))"
| "crlf_to_lf s = s"

definition replace_char :: "char \<Rightarrow> char \<Rightarrow> string \<Rightarrow> string" where
  "replace_char old new s = map (\<lambda>c. if c = old then new else c) s"

section \<open>Sections\<close>

definition normaliseLines :: "string \<Rightarrow> string list" where
  "normaliseLines s = (if s = '''' then [] else split_lines (replace_char (CHR 0x0D) (CHR 0x0A) (crlf_to_lf s)))"

definition squeeze_space :: "char \<Rightarrow> bool" where
  "squeeze_space c \<longleftrightarrow> c \<in> set [CHR '' '', CHR 0x09, CHR 0x0A, CHR 0x0D, CHR 0x0B, CHR 0x0C]"

fun squeeze_runs :: "bool \<Rightarrow> string \<Rightarrow> string" where
  "squeeze_runs inSpace [] = []"
| "squeeze_runs inSpace (c # s) =
     (if squeeze_space c then (if inSpace then squeeze_runs True s else CHR '' '' # squeeze_runs True s)
      else c # squeeze_runs False s)"

definition squeezeWhitespace :: "string \<Rightarrow> string" where
  "squeezeWhitespace s = TrimRight (TrimLeft (squeeze_runs False s) '' '') '' ''"

definition knownSectionHeaders :: "(string \<times> string) list" where
  "knownSectionHeaders =
     [(''objective'', ''objective''), (''goal'', ''objective''),
      (''acceptance criteria'', ''acceptance-criteria''), (''acceptance criterion'', ''acceptance-criteria''),
      (''acceptances'', ''acceptance-criteria''),
      (''non-goals'', ''non-goals''), (''non goals'', ''non-goals''), (''nongoals'', ''non-goals''),
      (''out of scope'', ''non-goals''),
      (''assumptions'', ''assumptions''), (''assumption'', ''assumptions''),
      (''constraints'', ''constraints''), (''constraint'', ''constraints''),
      (''scope'', ''scope''), (''proposed scope'', ''scope''),
      (''risk'', ''risk''), (''complexity'', ''complexity'')]"

definition matchHeader :: "string \<Rightarrow> (string \<times> string) option" where
  "matchHeader line =
     (let trimmed = TrimLeft line blanks
      in if trimmed = '''' then None
         else
           (let trimmed = TrimLeft (TrimLeft trimmed ''#'') blanks;
                before = takeWhile (\<lambda>c. c \<noteq> CHR '':'') trimmed
            in if CHR '':'' \<notin> set trimmed \<or> before = '''' then None
               else
                 (let label = slug_lower (TrimSpace before)
                  in if label = '''' \<or> 64 < length label then None
                     else if CHR ''.'' \<in> set label then None
                     else (case map_of knownSectionHeaders label of
                             None \<Rightarrow> None
                           | Some key \<Rightarrow> Some (key, TrimSpace (drop (length before + 1) trimmed))))))"

definition stripListMarker :: "string \<Rightarrow> string option" where
  "stripListMarker line =
     (let trimmed = TrimLeft line blanks
      in if trimmed = '''' then None
         else if prefix [CHR 0xE2, CHR 0x80, CHR 0xA2] trimmed then Some (TrimLeft (drop 3 trimmed) blanks)
         else if hd trimmed = CHR ''-'' \<or> hd trimmed = CHR ''*''
         then (if 1 < length trimmed \<and> (trimmed ! 1 = CHR '' '' \<or> trimmed ! 1 = CHR 0x09)
               then Some (TrimSpace (drop 2 trimmed)) else None)
         else
           (let digits = takeWhile (\<lambda>c. c \<noteq> CHR ''.'') trimmed; dot = length digits
            in if CHR ''.'' \<in> set trimmed \<and> 0 < dot \<and> dot \<le> 3
                  \<and> list_all (\<lambda>c. CHR ''0'' \<le> c \<and> c \<le> CHR ''9'') digits
                  \<and> dot + 1 < length trimmed \<and> (trimmed ! (dot + 1) = CHR '' '' \<or> trimmed ! (dot + 1) = CHR 0x09)
               then Some (TrimSpace (drop (dot + 2) trimmed)) else None))"

text \<open>The loop of \<open>splitListItems\<close>: the items so far and the text of the current one.\<close>

definition flush_item :: "string list \<Rightarrow> string \<Rightarrow> string list" where
  "flush_item items current = (let s = squeezeWhitespace current in if s \<noteq> '''' then items @ [s] else items)"

definition item_step :: "string \<Rightarrow> string list \<times> string \<Rightarrow> string list \<times> string" where
  "item_step txt st =
     (case st of (items, current) \<Rightarrow>
        let txt = TrimRight txt blanks
        in if txt = '''' then (flush_item items current, '''')
           else (case stripListMarker txt of
                   Some item \<Rightarrow>
                     (let items = flush_item items current
                      in (if item \<noteq> '''' then items @ [squeezeWhitespace item] else items, ''''))
                 | None \<Rightarrow>
                     if current \<noteq> '''' then (items, current @ '' '' @ TrimSpace txt)
                     else (items, TrimSpace txt)))"

definition splitListItems :: "string list \<Rightarrow> string list" where
  "splitListItems body = (case fold item_step body ([], '''') of (items, current) \<Rightarrow> flush_item items current)"

record parsedSections =
  ps_headers :: "string list"
  ps_items :: "string \<rightharpoonup> string list"
  ps_preamble :: "string list"

definition section_list :: "parsedSections \<Rightarrow> string \<Rightarrow> string list" where
  "section_list s key = (case ps_items s key of None \<Rightarrow> [] | Some xs \<Rightarrow> xs)"

definition section_get :: "parsedSections \<Rightarrow> string \<Rightarrow> string" where
  "section_get s key = (case section_list s key of [] \<Rightarrow> '''' | x # _ \<Rightarrow> x)"

definition section_has :: "parsedSections \<Rightarrow> string \<Rightarrow> bool" where
  "section_has s key \<longleftrightarrow> key \<in> set (ps_headers s)"

text \<open>The state of the loop over the lines: the sections so far, the current key and the current body.\<close>

record section_state =
  st_secs :: parsedSections
  st_current :: string
  st_body :: "string list"

definition flush_section :: "section_state \<Rightarrow> section_state" where
  "flush_section st =
     (let secs = st_secs st; current = st_current st; body = st_body st
      in st\<lparr>st_body := [],
            st_secs :=
              (if current = '''' then secs\<lparr>ps_preamble := ps_preamble secs @ body\<rparr>
               else if current = ''objective''
               then (let joined = squeezeWhitespace (strings_Join body '' '')
                     in if joined \<noteq> ''''
                        then secs\<lparr>ps_items := (ps_items secs)(current \<mapsto> section_list secs current @ [joined])\<rparr>
                        else secs)
               else secs\<lparr>ps_items := (ps_items secs)(current \<mapsto> section_list secs current @ splitListItems body)\<rparr>)\<rparr>)"

definition line_step :: "string \<Rightarrow> section_state \<Rightarrow> section_state" where
  "line_step txt st =
     (case matchHeader txt of
        Some (key, inline) \<Rightarrow>
          (let st = flush_section st
           in st\<lparr>st_current := key,
                 st_secs := (st_secs st)\<lparr>ps_headers := List.insert key (ps_headers (st_secs st))\<rparr>,
                 st_body := (if inline \<noteq> '''' then st_body st @ [inline] else st_body st)\<rparr>)
      | None \<Rightarrow> st\<lparr>st_body := st_body st @ [txt]\<rparr>)"

definition no_sections :: parsedSections where
  "no_sections = \<lparr>ps_headers = [], ps_items = Map.empty, ps_preamble = []\<rparr>"

definition start_state :: section_state where
  "start_state = \<lparr>st_secs = no_sections, st_current = '''', st_body = []\<rparr>"

definition parseSections :: "string \<Rightarrow> parsedSections" where
  "parseSections description =
     (if description = '''' then no_sections
      else st_secs (flush_section (fold line_step (normaliseLines description) start_state)))"

section \<open>Objective and criteria\<close>

record CompileInput =
  ci_TaskID :: string
  ci_Title :: string
  ci_Description :: string
  ci_Priority :: string
  ci_Attachments :: "attachment list"

datatype objectiveSource =
  objectiveAbsent | objectiveFromAttachment | objectiveFromDescription | objectiveFromTitle | objectiveFromSection

text \<open>The paragraph: blank lines are skipped, then lines are collected up to the next blank one.\<close>

definition first_paragraph :: "string list \<Rightarrow> string list" where
  "first_paragraph lines =
     map TrimSpace (takeWhile (\<lambda>txt. TrimSpace txt \<noteq> '''') (dropWhile (\<lambda>txt. TrimSpace txt = '''') lines))"

definition firstNonEmptyParagraph :: "string list \<Rightarrow> string" where
  "firstNonEmptyParagraph preamble =
     (let collected = first_paragraph preamble
      in if collected = [] then '''' else squeezeWhitespace (strings_Join collected '' ''))"

abbreviation (input) RoleDesignReference :: string where "RoleDesignReference \<equiv> ''DESIGN_REFERENCE''"
abbreviation (input) RoleBugScreenshot :: string where "RoleBugScreenshot \<equiv> ''BUG_SCREENSHOT''"

definition role_priority :: "string \<Rightarrow> nat" where
  "role_priority r =
     (if r = ''REQUIREMENTS'' then 5 else if r = ''API_SPECIFICATION'' then 4 else if r = RoleDesignReference then 3
      else if r = ''EXAMPLE'' then 2 else if r = RoleBugScreenshot then 1 else 0)"

definition synthesiseObjectiveFromAttachments :: "CompileInput \<Rightarrow> string option" where
  "synthesiseObjectiveFromAttachments inp =
     (case ci_Attachments inp of
        [] \<Rightarrow> None
      | a0 # as \<Rightarrow>
          (let a = fold (\<lambda>x best. if role_priority (a_role best) < role_priority (a_role x) then x else best) as a0;
               roleLabel = slug_lower (replace_char (CHR ''_'') (CHR '' '') (a_role a));
               fileClause = (if a_filename a \<noteq> '''' then '' ('' @ a_filename a @ '')'' else '''')
           in Some (''Implement changes based on the attached '' @ roleLabel @ fileClause @ ''.'')))"

definition deriveObjective :: "CompileInput \<Rightarrow> parsedSections \<Rightarrow> string \<times> objectiveSource" where
  "deriveObjective inp secs =
     (if section_has secs ''objective'' \<and> section_get secs ''objective'' \<noteq> ''''
      then (section_get secs ''objective'', objectiveFromSection)
      else if ci_Title inp \<noteq> '''' then (ci_Title inp, objectiveFromTitle)
      else if firstNonEmptyParagraph (ps_preamble secs) \<noteq> ''''
      then (firstNonEmptyParagraph (ps_preamble secs), objectiveFromDescription)
      else (case synthesiseObjectiveFromAttachments inp of
              Some obj \<Rightarrow> (obj, objectiveFromAttachment)
            | None \<Rightarrow> ('''', objectiveAbsent)))"

definition explicit_criteria :: "string list \<Rightarrow> acceptance_criterion list" where
  "explicit_criteria items =
     map (\<lambda>(i, stmt). \<lparr>ac_ID = ''AC-'' @ show_nat (i + 1), ac_Statement = stmt\<rparr>)
       (filter (\<lambda>(i, stmt). TrimSpace stmt \<noteq> '''') (enumerate 0 items))"

definition deriveAcceptanceCriteria :: "parsedSections \<Rightarrow> string \<Rightarrow> acceptance_criterion list \<times> bool" where
  "deriveAcceptanceCriteria secs objective =
     (let acs = explicit_criteria (section_list secs ''acceptance-criteria'')
      in if section_has secs ''acceptance-criteria'' \<and> acs \<noteq> [] then (acs, False)
         else if objective = '''' then ([], True)
         else ([\<lparr>ac_ID = ''AC-1'', ac_Statement = ''The change satisfies its objective: '' @ objective\<rparr>], True))"

section \<open>Classification\<close>

definition containsAnyFold :: "string \<Rightarrow> string list \<Rightarrow> bool" where
  "containsAnyFold s subs = (s \<noteq> '''' \<and> containsAny (slug_lower s) subs)"

definition joinForClassifier :: "CompileInput \<Rightarrow> string" where
  "joinForClassifier inp =
     strings_Join ((if ci_Title inp \<noteq> '''' then [ci_Title inp] else [])
       @ (if ci_Description inp \<noteq> '''' then [ci_Description inp] else [])) [CHR 0x0A]"

definition compile_signals :: "CompileInput \<Rightarrow> Signals" where
  "compile_signals inp =
     \<lparr>sg_Description = joinForClassifier inp, sg_Paths = map a_filename (ci_Attachments inp),
      sg_TouchesAuth = containsAnyFold (ci_Description inp) [''auth'', ''oauth'', ''sso'', ''2fa'', ''mfa'', ''session token''],
      sg_TouchesPayments = containsAnyFold (ci_Description inp) [''payment'', ''billing'', ''charge'', ''refund'', ''stripe''],
      sg_TouchesPermissions = containsAnyFold (ci_Description inp) [''permission'', ''acl'', ''authorization'', ''rbac''],
      sg_DestructiveCommands = containsAnyFold (ci_Description inp) [''drop table'', ''rm -rf'', ''force push'', ''delete user''],
      sg_HasMigrations = containsAnyFold (ci_Description inp) [''migration'', ''migrate'', ''schema change'', ''alter table''],
      sg_ConcurrencyChange = containsAnyFold (ci_Description inp) [''race'', ''deadlock'', ''mutex'', ''lock'', ''transaction''],
      sg_SubscriptionChange = containsAnyFold (ci_Description inp) [''subscription'', ''subscribe'', ''billing plan''],
      sg_PublicAPIChange = containsAnyFold (ci_Description inp) [''public api'', ''api endpoint'', ''webhook'', ''openapi''],
      sg_TouchesInfra = containsAnyFold (ci_Description inp) [''ci/'', ''infrastructure'', ''terraform'', ''deployment'']\<rparr>"

definition classifyRisk :: "CompileInput \<Rightarrow> RiskResult" where
  "classifyRisk inp = Classify (compile_signals inp)"

definition toTaskRisk :: "Level \<Rightarrow> string" where
  "toTaskRisk l =
     (if l = R0 then ''R0'' else if l = R1 then ''R1'' else if l = R2 then ''R2'' else if l = R3 then ''R3''
      else if l = R4 then ''R4'' else '''')"

text \<open>Each test of the score in order.\<close>

definition complexity_base :: "CompileInput \<Rightarrow> parsedSections \<Rightarrow> int \<times> string list" where
  "complexity_base inp secs =
     (let low = slug_lower (joinForClassifier inp);
          (score, reasons) =
            (if containsAny low [''typo'', ''rename'', ''docs'', ''changelog'', ''comment'', ''format'', ''lint'']
             then (0, [''mechanical/docs change'']) else (1, []));
          (score, reasons) =
            (if containsAny low [''refactor'', ''feature'', ''implement'', ''build'']
             then (score + 1, reasons @ [''implementation/refactor role'']) else (score, reasons));
          (score, reasons) =
            (if containsAny low [''migration'', ''migrate'', ''schema'']
             then (score + 1, reasons @ [''migration/schema role'']) else (score, reasons));
          (score, reasons) =
            (if containsAny low [''architect'', ''design system'', ''rewrite'', ''overhaul'']
             then (score + 2, reasons @ [''architectural role'']) else (score, reasons));
          (score, reasons) =
            (if 5 \<le> length (section_list secs ''scope'')
             then (score + 1, reasons @ [''large proposed scope (>=5 items)'']) else (score, reasons))
      in if 3 \<le> length (ci_Attachments inp)
         then (score + 1, reasons @ [''multiple attachments (cross-cutting context)'']) else (score, reasons))"

text \<open>A risky topic raises a low score to 2.\<close>

definition risky_topic :: "CompileInput \<Rightarrow> bool" where
  "risky_topic inp =
     containsAny (slug_lower (joinForClassifier inp))
       [''migration'', ''concurrency'', ''auth'', ''payment'', ''permission'', ''subscription'']"

definition complexity_score :: "CompileInput \<Rightarrow> parsedSections \<Rightarrow> int \<times> string list" where
  "complexity_score inp secs =
     (case complexity_base inp secs of (score, reasons) \<Rightarrow>
        if risky_topic inp \<and> score < 2
        then (2, reasons @ [''elevated-risk topic floors complexity at C2'']) else (score, reasons))"

definition complexity_band :: "int \<Rightarrow> string" where
  "complexity_band score =
     (if 4 \<le> score then ''C3'' else if 3 \<le> score then ''C2'' else if 1 \<le> score then ''C1'' else ''C0'')"

definition classifyComplexity :: "CompileInput \<Rightarrow> parsedSections \<Rightarrow> string \<times> string list" where
  "classifyComplexity inp secs = (case complexity_score inp secs of (score, reasons) \<Rightarrow> (complexity_band score, reasons))"

definition deriveVisualRequirements :: "attachment list \<Rightarrow> visual_requirements" where
  "deriveVisualRequirements as =
     (let refs = filter (\<lambda>a. a_role a = RoleDesignReference \<or> a_role a = RoleBugScreenshot) as
      in \<lparr>vr_required = (refs \<noteq> []), vr_viewport = '''', vr_theme = '''', vr_locale = '''', vr_density = '''',
          vr_references = map a_hash refs\<rparr>)"

section \<open>Confidence\<close>

datatype CompileConfidence = ConfidenceHigh | ConfidenceMedium | ConfidenceLow

record Clarification =
  cl_Question :: string
  cl_Reason :: string
  cl_Options :: "string list"

definition AskObjective :: Clarification where
  "AskObjective = \<lparr>cl_Question = ''What is the objective of this task?'',
     cl_Reason = ''The input had no description and no attachment; the compiler cannot formulate an actionable objective.'',
     cl_Options = []\<rparr>"

definition ConfirmAttachment :: Clarification where
  "ConfirmAttachment = \<lparr>cl_Question = ''Confirm the objective derived from the attachment.'',
     cl_Reason = ''The compiler does not read attachment content; the placeholder objective is advisory.'',
     cl_Options = [''Confirm the placeholder'', ''Provide an explicit objective'']\<rparr>"

definition ConfirmSecurity :: Clarification where
  "ConfirmSecurity = \<lparr>cl_Question = ''Confirm the security/money impact and review posture.'',
     cl_Reason = ''R4 changes (auth/payments/permissions/destructive) carry an elevated review requirement; a safe assumption is not possible.'',
     cl_Options = [''LOCAL_REVIEW with explicit approval'', ''REMOTE_REVIEW'', ''AUTONOMOUS with revert enabled'']\<rparr>"

definition AskDetail :: Clarification where
  "AskDetail = \<lparr>cl_Question = ''Provide more detail about the expected change.'',
     cl_Reason = ''The free-form input (title + description) is shorter than 16 characters; the compiler cannot infer acceptance criteria or scope.'',
     cl_Options = []\<rparr>"

definition deriveConfidenceAndClarifications ::
  "CompileInput \<Rightarrow> objectiveSource \<Rightarrow> bool \<Rightarrow> RiskResult \<Rightarrow> CompileConfidence \<times> Clarification list" where
  "deriveConfidenceAndClarifications inp objSource acsSynthesised riskRes =
     (if objSource = objectiveAbsent then (ConfidenceLow, [AskObjective])
      else if objSource = objectiveFromAttachment then (ConfidenceLow, [ConfirmAttachment])
      else
        (let clarifications = (if rr_Level riskRes = R4 then [ConfirmSecurity] else [])
         in if (objSource = objectiveFromDescription \<or> objSource = objectiveFromTitle)
               \<and> length (squeezeWhitespace (ci_Title inp @ '' '' @ ci_Description inp)) < 16
            then (ConfidenceLow, clarifications @ [AskDetail])
            else if objSource = objectiveFromSection \<and> \<not> acsSynthesised \<and> clarifications = []
            then (ConfidenceHigh, [])
            else (ConfidenceMedium, clarifications)))"

section \<open>Compile\<close>

record CompileResult =
  cx_Specification :: task_spec
  cx_Confidence :: CompileConfidence
  cx_UncertaintyReasons :: "string list"
  cx_Clarifications :: "Clarification list"
  cx_RiskReasons :: "string list"
  cx_ComplexityReasons :: "string list"
  cx_AttachmentRoles :: "string \<rightharpoonup> string"

definition collectAttachmentRoles :: "attachment list \<Rightarrow> string \<rightharpoonup> string" where
  "collectAttachmentRoles as = fold (\<lambda>a m. m(a_hash a \<mapsto> a_role a)) as Map.empty"

definition Compile :: "CompileInput \<Rightarrow> CompileResult \<times> spec_error option" where
  "Compile inp =
     (let sections = parseSections (ci_Description inp);
          (objective, objSource) = deriveObjective inp sections;
          (acs, acsSynthesised) = deriveAcceptanceCriteria sections objective;
          riskRes = classifyRisk inp;
          (cx, cxReasons) = classifyComplexity inp sections;
          (confidence, clarifications) = deriveConfidenceAndClarifications inp objSource acsSynthesised riskRes
      in (\<lparr>cx_Specification =
             \<lparr>sp_task = ci_TaskID inp, sp_version = 0, sp_objective = objective, sp_criteria = acs,
              sp_non_goals = section_list sections ''non-goals'', sp_assumptions = section_list sections ''assumptions'',
              sp_constraints = section_list sections ''constraints'', sp_risk = toTaskRisk (rr_Level riskRes),
              sp_complexity = cx, sp_proposed_scope = section_list sections ''scope'',
              sp_visual = deriveVisualRequirements (ci_Attachments inp), sp_locked = False, sp_locked_at = zero_time,
              sp_locked_by = '''', sp_created_at = zero_time, sp_created_by = ''''\<rparr>,
           cx_Confidence = confidence,
           cx_UncertaintyReasons =
             (if acsSynthesised
              then [''acceptance criteria not stated explicitly; synthesised default AC from objective''] else []),
           cx_Clarifications = clarifications, cx_RiskReasons = rr_Reasons riskRes, cx_ComplexityReasons = cxReasons,
           cx_AttachmentRoles = collectAttachmentRoles (ci_Attachments inp)\<rparr>,
          if ci_TaskID inp = '''' then Some (ErrInvalidSpecification [TaskIDRequired]) else None))"

end
