(* ===== verification/Task_Compiler_Valid.thy ===== *)
theory Task_Compiler_Valid
  imports Task_Compiler
begin

text \<open>
  Theorems on the task compiler: validity of what is compiled, the round trip of a printed
  specification, the exact meaning of the confidence, and the treatment of risk and complexity.
\<close>

section \<open>Blank text\<close>

lemma TrimSpace_blank:
  assumes "list_all ascii_space s"
  shows "TrimSpace s = []"
proof -
  have nil: "trim_runes rs [] = []" for rs
    using rune_width_le [of rs "[]"] by (simp add: trim_runes.simps [of rs "[]"])
  have "trim_runes space_runes s = []"
    using assms
  proof (induction s)
    case (Cons c s)
    have "rune_width space_runes (c # s) = 1"
      using Cons.prems unfolding list.pred_inject ascii_space_def by (elim conjE disjE) (simp_all add: space_runes_def)
    with Cons show ?case by (simp add: trim_runes.simps [of _ "c # s"])
  qed (simp add: nil)
  then show ?thesis by (simp add: TrimSpace_def nil)
qed

lemma trim_Nil_iff: "trim s = [] \<longleftrightarrow> list_all ascii_space s"
proof -
  have "dropWhile P (rev (dropWhile P s)) = [] \<longleftrightarrow> list_all P s" for P :: "char \<Rightarrow> bool"
    by (auto simp: list_all_iff dropWhile_eq_Nil_conv dest: set_dropWhileD)
      (metis set_takeWhileD takeWhile_dropWhile_id Un_iff set_append)
  then show ?thesis by (simp add: trim_def)
qed

lemma not_blank: "TrimSpace s \<noteq> [] \<Longrightarrow> trim s \<noteq> []"
  using TrimSpace_blank trim_Nil_iff by blast

lemma trim_head: "\<not> ascii_space c \<Longrightarrow> trim (c # s) \<noteq> []"
  by (simp add: trim_Nil_iff)

lemma trim_ends:
  assumes "s \<noteq> []" "\<not> ascii_space (hd s)" "\<not> ascii_space (last s)"
  shows "trim s = s"
proof -
  have "dropWhile ascii_space s = s" using assms(1,2) by (cases s) auto
  moreover have "dropWhile ascii_space (rev s) = rev s"
  proof -
    obtain t l where "s = t @ [l]" using assms(1) by (metis rev_exhaust)
    with assms(3) show ?thesis by simp
  qed
  ultimately show ?thesis by (simp add: trim_def)
qed

section \<open>Criteria\<close>

definition ac_id :: "nat \<Rightarrow> string" where
  "ac_id i = ''AC-'' @ show_nat (i + 1)"

lemma ac_id_trim: "trim (ac_id i) = ac_id i"
proof (rule trim_ends)
  have "last (show_nat n) \<in> {digit_char d |d. d < 10}" for n
  proof (induction n rule: show_nat.induct)
    case (1 n)
    then show ?case by (cases "n < 10") (auto simp: show_nat.simps [of n] intro: exI [of _ "n mod 10"])
  qed
  then have "last (ac_id i) \<in> {digit_char d |d. d < 10}" by (simp add: ac_id_def)
  moreover have "\<not> ascii_space (digit_char d)" if "d < 10" for d
  proof
    assume "ascii_space (digit_char d)"
    then have "of_char (digit_char d) \<in> {32, 9, 10, 13 :: nat}" by (auto simp: ascii_space_def)
    moreover have "of_char (digit_char d) = 48 + d" using that by (simp add: digit_char_def)
    ultimately show False by auto
  qed
  ultimately show "\<not> ascii_space (last (ac_id i))" by auto
qed (simp_all add: ac_id_def ascii_space_def)

lemma ac_id_inject [simp]: "ac_id i = ac_id j \<longleftrightarrow> i = j"
  using show_nat_inject [of "i + 1" "j + 1"] by (simp add: ac_id_def)

lemma explicit_criteria_eq:
  "explicit_criteria items = map (\<lambda>x. \<lparr>ac_ID = ac_id (fst x), ac_Statement = snd x\<rparr>)
     (filter (\<lambda>x. TrimSpace (snd x) \<noteq> []) (enumerate 0 items))"
  by (simp add: explicit_criteria_def case_prod_unfold ac_id_def)

lemma explicit_criteria_valid:
  "distinct (map (\<lambda>ac. trim (ac_ID ac)) (explicit_criteria items))"
  "ac \<in> set (explicit_criteria items) \<Longrightarrow> trim (ac_ID ac) \<noteq> [] \<and> trim (ac_Statement ac) \<noteq> []"
proof -
  have "map (\<lambda>ac. trim (ac_ID ac)) (explicit_criteria items) = map ac_id (map fst (filter (\<lambda>x. TrimSpace (snd x) \<noteq> []) (enumerate 0 items)))"
    by (simp add: explicit_criteria_eq comp_def ac_id_trim)
  moreover have "distinct (map fst (filter P (enumerate 0 items)))" for P
    by (rule distinct_map_filter) (simp add: distinct_upt)
  ultimately show "distinct (map (\<lambda>ac. trim (ac_ID ac)) (explicit_criteria items))"
    by (simp add: distinct_map [of ac_id] inj_on_def del: map_map)
  assume "ac \<in> set (explicit_criteria items)"
  then obtain i where "ac_ID ac = ac_id i" "TrimSpace (ac_Statement ac) \<noteq> []"
    by (auto simp: explicit_criteria_eq)
  then show "trim (ac_ID ac) \<noteq> [] \<and> trim (ac_Statement ac) \<noteq> []"
    by (simp add: ac_id_trim not_blank) (simp add: ac_id_def)
qed

lemma derived_criteria_valid:
  fixes secs objective
  assumes "objective \<noteq> []"
  defines "acs \<equiv> fst (deriveAcceptanceCriteria secs objective)"
  shows "acs \<noteq> []" "distinct (map (\<lambda>ac. trim (ac_ID ac)) acs)"
    "\<forall>ac \<in> set acs. trim (ac_ID ac) \<noteq> [] \<and> trim (ac_Statement ac) \<noteq> []"
  using assms(1) explicit_criteria_valid [where items = "section_list secs ''acceptance-criteria''"]
  unfolding acs_def by (auto simp: deriveAcceptanceCriteria_def Let_def trim_head ascii_space_def)

section \<open>Validity\<close>

lemma toTaskRisk_valid: "Level_IsValid l \<Longrightarrow> risk_IsValid (toTaskRisk l)"
  by (auto simp: Level_IsValid_def toTaskRisk_def risk_IsValid_def)

lemma complexity_band_valid: "complexity_IsValid (complexity_band n)"
  by (simp add: complexity_band_def complexity_IsValid_def)

lemma Compile_fields:
  fixes inp
  defines "secs \<equiv> parseSections (ci_Description inp)"
  shows "sp_task (cx_Specification (fst (Compile inp))) = ci_TaskID inp"
    "sp_objective (cx_Specification (fst (Compile inp))) = fst (deriveObjective inp secs)"
    "sp_criteria (cx_Specification (fst (Compile inp))) = fst (deriveAcceptanceCriteria secs (fst (deriveObjective inp secs)))"
    "sp_risk (cx_Specification (fst (Compile inp))) = toTaskRisk (rr_Level (classifyRisk inp))"
    "sp_complexity (cx_Specification (fst (Compile inp))) = complexity_band (fst (complexity_score inp secs))"
    "(cx_Confidence (fst (Compile inp)), cx_Clarifications (fst (Compile inp))) =
       deriveConfidenceAndClarifications inp (snd (deriveObjective inp secs))
         (snd (deriveAcceptanceCriteria secs (fst (deriveObjective inp secs)))) (classifyRisk inp)"
    "snd (Compile inp) = None \<longleftrightarrow> ci_TaskID inp \<noteq> []"
  by (simp_all add: Compile_def Let_def case_prod_unfold secs_def classifyComplexity_def)

text \<open>C29: What is compiled is a valid specification exactly when the input names a task and the objective
  that was found is not blank; the compiler itself fails exactly when the task is missing. In
  particular the criteria, numbered by the compiler, are always well formed, and the risk and the
  complexity are always known bands.\<close>

theorem compiled_specification_valid:
  "let spec = cx_Specification (fst (Compile inp))
   in (is_ok (ValidateSpecification spec) \<longleftrightarrow> ci_TaskID inp \<noteq> '''' \<and> trim (sp_objective spec) \<noteq> '''') \<and>
      (snd (Compile inp) = None \<longleftrightarrow> ci_TaskID inp \<noteq> '''')"
proof -
  let ?spec = "cx_Specification (fst (Compile inp))"
  have "risk_IsValid (sp_risk ?spec)" "complexity_IsValid (sp_complexity ?spec)"
    unfolding Compile_fields classifyRisk_def by (simp_all add: toTaskRisk_valid complexity_band_valid Classify_valid)
  moreover have "trim (sp_objective ?spec) \<noteq> [] \<Longrightarrow> sp_criteria ?spec \<noteq> [] \<and> distinct (map (\<lambda>ac. trim (ac_ID ac)) (sp_criteria ?spec)) \<and>
      (\<forall>ac \<in> set (sp_criteria ?spec). trim (ac_ID ac) \<noteq> [] \<and> trim (ac_Statement ac) \<noteq> [])"
    unfolding Compile_fields
    by (intro conjI derived_criteria_valid) (auto simp: trim_def)
  ultimately have "spec_valid ?spec \<longleftrightarrow> ci_TaskID inp \<noteq> [] \<and> trim (sp_objective ?spec) \<noteq> []"
    unfolding spec_valid_def Compile_fields(1) by blast
  then show ?thesis unfolding Let_def ValidateSpecification_eq Compile_fields(7) by simp
qed

section \<open>Confidence\<close>

text \<open>The confidence is HIGH exactly when the objective and the criteria were both stated in sections and
  the risk is below R4; it is LOW only together with a clarification; and a specification of risk R4
  is never compiled silently: it is never HIGH and always carries a clarification.\<close>

theorem compile_confidence_exact:
  "let r = fst (Compile inp); secs = parseSections (ci_Description inp)
   in (cx_Confidence r = ConfidenceHigh \<longleftrightarrow>
         snd (deriveObjective inp secs) = objectiveFromSection \<and> cx_UncertaintyReasons r = [] \<and>
         sp_risk (cx_Specification r) \<noteq> ''R4'') \<and>
      (if cx_Confidence r = ConfidenceHigh then cx_Clarifications r = []
       else if cx_Confidence r = ConfidenceLow then cx_Clarifications r \<noteq> []
       else True) \<and>
      (if sp_risk (cx_Specification r) = ''R4'' then cx_Confidence r \<noteq> ConfidenceHigh \<and> cx_Clarifications r \<noteq> [] else True)"
proof -
  let ?secs = "parseSections (ci_Description inp)"
  have r4: "sp_risk (cx_Specification (fst (Compile inp))) = ''R4'' \<longleftrightarrow> rr_Level (classifyRisk inp) = R4"
    unfolding Compile_fields by (auto simp: toTaskRisk_def)
  have u: "cx_UncertaintyReasons (fst (Compile inp)) = [] \<longleftrightarrow>
      \<not> snd (deriveAcceptanceCriteria ?secs (fst (deriveObjective inp ?secs)))"
    by (simp add: Compile_def Let_def case_prod_unfold)
  have c: "cx_Confidence (fst (Compile inp)) = fst (deriveConfidenceAndClarifications inp (snd (deriveObjective inp ?secs))
         (snd (deriveAcceptanceCriteria ?secs (fst (deriveObjective inp ?secs)))) (classifyRisk inp))"
    "cx_Clarifications (fst (Compile inp)) = snd (deriveConfidenceAndClarifications inp (snd (deriveObjective inp ?secs))
         (snd (deriveAcceptanceCriteria ?secs (fst (deriveObjective inp ?secs)))) (classifyRisk inp))"
    using Compile_fields(6) [of inp] by (metis fst_conv, metis snd_conv)
  show ?thesis
    unfolding Let_def r4 u c deriveConfidenceAndClarifications_def
    by (cases "snd (deriveObjective inp ?secs)") auto
qed

section \<open>A printed specification is compiled back\<close>

text \<open>Text that survives normalisation: not empty, single spaces only, nothing to trim.\<close>

definition clean :: "string \<Rightarrow> bool" where
  "clean t \<longleftrightarrow> t \<noteq> '''' \<and> squeezeWhitespace t = t \<and> TrimSpace t = t"

definition print_specification :: "string \<Rightarrow> string list \<Rightarrow> string" where
  "print_specification objective acs =
     ''Objective: '' @ objective @ [CHR 0x0A] @ ''Acceptance criteria:'' @ [CHR 0x0A]
       @ concat (map (\<lambda>a. ''- '' @ a @ [CHR 0x0A]) acs)"

lemma squeeze_runs_chars: "c \<in> set (squeeze_runs b s) \<Longrightarrow> \<not> squeeze_space c \<or> c = CHR '' ''"
  by (induction b s rule: squeeze_runs.induct) (auto split: if_splits)

lemma trim_sets: "set (TrimLeft s cs) \<subseteq> set s" "set (TrimRight s cs) \<subseteq> set s"
  by (auto simp: TrimLeft_def TrimRight_def dest: set_dropWhileD)

lemma TrimRight_last: "TrimRight s cs \<noteq> [] \<Longrightarrow> last (TrimRight s cs) \<notin> set cs"
  using hd_dropWhile [of "\<lambda>c. c \<in> set cs" "rev s"] by (simp add: TrimRight_def last_rev)

lemma clean_chars:
  assumes "clean t" "c \<in> set t"
  shows "c \<noteq> CHR 0x0A" "c \<noteq> CHR 0x0D" "c \<noteq> CHR 0x09"
proof -
  have "c \<in> set (squeeze_runs False t)"
    using assms trim_sets unfolding clean_def squeezeWhitespace_def by (metis subsetD)
  then show "c \<noteq> CHR 0x0A" "c \<noteq> CHR 0x0D" "c \<noteq> CHR 0x09"
    by (auto dest!: squeeze_runs_chars simp: squeeze_space_def)
qed

lemma clean_last: "clean t \<Longrightarrow> last t \<noteq> CHR '' ''"
  using TrimRight_last [of "TrimLeft (squeeze_runs False t) '' ''" "'' ''"]
  by (auto simp: clean_def squeezeWhitespace_def)

lemma crlf_to_lf_id: "CHR 0x0D \<notin> set s \<Longrightarrow> crlf_to_lf s = s"
  by (induction s rule: crlf_to_lf.induct) auto

lemma split_lines_line: "CHR 0x0A \<notin> set l \<Longrightarrow> split_lines (l @ CHR 0x0A # s) = l # split_lines s"
  by (induction l) auto

lemma split_lines_items:
  "\<forall>a \<in> set acs. CHR 0x0A \<notin> set a \<Longrightarrow>
     split_lines (concat (map (\<lambda>a. ''- '' @ a @ [CHR 0x0A]) acs)) = map (\<lambda>a. ''- '' @ a) acs @ [[]]"
proof (induction acs)
  case (Cons a acs)
  then show ?case using split_lines_line [of "''- '' @ a"] by simp
qed simp

lemma normaliseLines_plain: "s \<noteq> [] \<Longrightarrow> CHR 0x0D \<notin> set s \<Longrightarrow> normaliseLines s = split_lines s"
proof -
  assume "s \<noteq> []" "CHR 0x0D \<notin> set s"
  moreover from this have "replace_char (CHR 0x0D) (CHR 0x0A) s = s" unfolding replace_char_def by (intro map_idI) auto
  ultimately show ?thesis by (simp add: normaliseLines_def crlf_to_lf_id)
qed

lemma printed_lines:
  assumes "clean objective" "\<forall>a \<in> set acs. clean a"
  shows "normaliseLines (print_specification objective acs) =
    (''Objective: '' @ objective) # ''Acceptance criteria:'' # map (\<lambda>a. ''- '' @ a) acs @ [[]]"
proof -
  have "CHR 0x0D \<notin> set (print_specification objective acs)"
    using assms clean_chars(2) [of _ "CHR 0x0D"] by (auto simp: print_specification_def)
  moreover have nl: "CHR 0x0A \<notin> set (''Objective: '' @ objective)" using clean_chars(1) [OF assms(1)] by auto
  ultimately have "normaliseLines (print_specification objective acs) = split_lines (print_specification objective acs)"
    by (intro normaliseLines_plain) (simp_all add: print_specification_def)
  also have "\<dots> = (''Objective: '' @ objective) # split_lines (''Acceptance criteria:'' @ CHR 0x0A #
      concat (map (\<lambda>a. ''- '' @ a @ [CHR 0x0A]) acs))"
    unfolding print_specification_def append_assoc append_Cons append_Nil
    using split_lines_line [OF nl] by (simp only: append_assoc append_Cons append_Nil)
  also have "split_lines (''Acceptance criteria:'' @ CHR 0x0A # concat (map (\<lambda>a. ''- '' @ a @ [CHR 0x0A]) acs))
      = ''Acceptance criteria:'' # map (\<lambda>a. ''- '' @ a) acs @ [[]]"
  proof -
    have "\<forall>a \<in> set acs. CHR 0x0A \<notin> set a" using assms(2) clean_chars(1) [of _ "CHR 0x0A"] by blast
    then show ?thesis using split_lines_items by (subst split_lines_line) simp_all
  qed
  finally show ?thesis .
qed

lemma dash_no_space: "rune_width space_runes (CHR ''-'' # s) = 0" "CHR ''-'' \<notin> set (concat (map rev space_runes))"
  by (simp_all add: space_runes_def)

lemma TrimSpace_bullet: "\<exists>r'. TrimSpace (CHR ''-'' # r) = CHR ''-'' # r'"
proof -
  let ?s = "CHR ''-'' # r"
  have l: "trim_runes space_runes ?s = ?s" by (rule trim_runes_fixed [OF dash_no_space(1)])
  let ?t = "trim_runes (map rev space_runes) (rev ?s)"
  have "CHR ''-'' \<in> set ?t" by (rule trim_runes_keeps [OF dash_no_space(2)]) simp
  moreover have "prefix (rev ?t) ?s"
    using trim_runes_suffix [of "map rev space_runes" "rev ?s"] by (simp add: suffix_to_prefix)
  ultimately show ?thesis unfolding TrimSpace_def l by (cases "rev ?t") auto
qed

lemma slug_lower_dash: "\<exists>r'. slug_lower (CHR ''-'' # r) = CHR ''-'' # r'"
  by (cases r rule: list.exhaust; cases "tl r") (auto simp: ascii_lower_def)

lemma bullet_no_header: "matchHeader (''- '' @ a) = None"
proof -
  let ?b = "takeWhile (\<lambda>c. c \<noteq> CHR '':'') (''- '' @ a)"
  obtain r1 where "?b = CHR ''-'' # r1" by simp
  then obtain r3 where "slug_lower (TrimSpace ?b) = CHR ''-'' # r3"
    using TrimSpace_bullet slug_lower_dash by metis
  then have "map_of knownSectionHeaders (slug_lower (TrimSpace ?b)) = None"
    by (simp add: knownSectionHeaders_def)
  then show ?thesis by (simp add: matchHeader_def Let_def TrimLeft_def)
qed

lemma TrimSpace_blank_Cons: "TrimSpace (CHR '' '' # t) = TrimSpace t"
proof -
  have "rune_width space_runes (CHR '' '' # t) = 1" by (simp add: space_runes_def)
  then have "trim_runes space_runes (CHR '' '' # t) = trim_runes space_runes t"
    by (simp add: trim_runes.simps [of space_runes "CHR '' '' # t"])
  then show ?thesis by (simp add: TrimSpace_def)
qed

lemma objective_header: "TrimSpace t = t \<Longrightarrow> matchHeader (''Objective: '' @ t) = Some (''objective'', t)"
proof -
  assume t: "TrimSpace t = t"
  have "slug_lower (TrimSpace ''Objective'') = ''objective''" by code_simp
  with t show ?thesis
    by (simp add: matchHeader_def Let_def TrimLeft_def knownSectionHeaders_def TrimSpace_blank_Cons)
qed

lemma criteria_header: "matchHeader ''Acceptance criteria:'' = Some (''acceptance-criteria'', [])"
  by code_simp

lemma bullet_item:
  assumes "clean a"
  shows "item_step (''- '' @ a) (items, []) = (items @ [a], [])"
proof -
  have "TrimRight (''- '' @ a) blanks = ''- '' @ a"
  proof -
    obtain t l where a: "a = t @ [l]" using assms by (metis clean_def rev_exhaust)
    have "l \<noteq> CHR '' ''" "l \<noteq> CHR 0x09" using clean_last [OF assms] clean_chars(3) [OF assms] by (auto simp: a)
    then show ?thesis by (simp add: TrimRight_def a)
  qed
  moreover have "stripListMarker (''- '' @ a) = Some a"
    using assms by (simp add: stripListMarker_def TrimLeft_def clean_def)
  moreover have "flush_item items [] = items" by (simp add: flush_item_def squeezeWhitespace_def TrimLeft_def TrimRight_def)
  ultimately show ?thesis using assms by (simp add: item_step_def clean_def Let_def)
qed

lemma printed_items: "\<forall>a \<in> set acs. clean a \<Longrightarrow> fold item_step (map (\<lambda>a. ''- '' @ a) acs) (items, []) = (items @ acs, [])"
  by (induction acs arbitrary: items) (simp_all add: bullet_item del: append.simps)

lemma splitListItems_printed:
  assumes "\<forall>a \<in> set acs. clean a"
  shows "splitListItems (map (\<lambda>a. ''- '' @ a) acs @ [[]]) = acs"
proof -
  have "flush_item acs [] = acs" by (simp add: flush_item_def squeezeWhitespace_def TrimLeft_def TrimRight_def)
  moreover have "item_step [] (acs, []) = (flush_item acs [], [])" by (simp add: item_step_def TrimRight_def)
  ultimately show ?thesis using printed_items [OF assms, of "[]"] by (simp add: splitListItems_def)
qed

lemma body_lines: "\<forall>l \<in> set ls. matchHeader l = None \<Longrightarrow> fold line_step ls st = st\<lparr>st_body := st_body st @ ls\<rparr>"
  by (induction ls arbitrary: st) (simp_all add: line_step_def)

lemma parse_printed:
  assumes "clean objective" "\<forall>a \<in> set acs. clean a"
  shows "parseSections (print_specification objective acs) =
    \<lparr>ps_headers = [''acceptance-criteria'', ''objective''],
     ps_items = [''objective'' \<mapsto> [objective], ''acceptance-criteria'' \<mapsto> acs], ps_preamble = []\<rparr>"
proof -
  let ?body = "map (\<lambda>a. ''- '' @ a) acs @ [[]]"
  let ?st1 = "\<lparr>st_secs = no_sections\<lparr>ps_headers := [''objective'']\<rparr>, st_current = ''objective'', st_body = [objective]\<rparr>"
  let ?st2 = "\<lparr>st_secs = \<lparr>ps_headers = [''acceptance-criteria'', ''objective''], ps_items = [''objective'' \<mapsto> [objective]], ps_preamble = []\<rparr>,
      st_current = ''acceptance-criteria'', st_body = []\<rparr>"
  have o: "squeezeWhitespace objective = objective" "objective \<noteq> []" "TrimSpace objective = objective"
    using assms(1) by (simp_all add: clean_def)
  have s1: "line_step (''Objective: '' @ objective) start_state = ?st1"
    using o unfolding line_step_def objective_header [OF o(3)] by (simp add: start_state_def flush_section_def Let_def no_sections_def)
  have s2: "line_step ''Acceptance criteria:'' ?st1 = ?st2"
    using o unfolding line_step_def criteria_header by (simp add: flush_section_def Let_def no_sections_def section_list_def)
  have "matchHeader [] = None" by (simp add: matchHeader_def TrimLeft_def)
  then have s3: "fold line_step ?body ?st2 = ?st2\<lparr>st_body := ?body\<rparr>"
    by (subst body_lines) (auto simp: bullet_no_header simp del: append.simps)
  have f: "fold line_step ((''Objective: '' @ objective) # ''Acceptance criteria:'' # ?body) start_state = ?st2\<lparr>st_body := ?body\<rparr>"
    unfolding fold_simps(2) s1 s2 s3 ..
  have "print_specification objective acs \<noteq> []" by (simp add: print_specification_def)
  then show ?thesis
    unfolding parseSections_def if_not_P [OF \<open>print_specification objective acs \<noteq> []\<close>] printed_lines [OF assms] f
    by (simp add: flush_section_def Let_def section_list_def splitListItems_printed [OF assms(2)] del: append_Cons)
qed

lemma map_enumerate_ids: "map (\<lambda>x. f (fst x)) (enumerate n xs) = map f [n..<n + length xs]" "map snd (enumerate n xs) = xs"
  by (induction xs arbitrary: n) (simp_all add: upt_rec)

text \<open>C30: Round trip: a specification that is printed as an objective line and a bulleted list of acceptance
  criteria is compiled back to that objective and exactly those criteria, in order and numbered from
  AC-1, with nothing synthesised.\<close>

theorem compile_printed:
  assumes "clean objective" "acs \<noteq> []" "\<forall>a \<in> set acs. clean a"
    and "ci_Description inp = print_specification objective acs"
  shows "let r = fst (Compile inp)
    in sp_objective (cx_Specification r) = objective \<and>
       map ac_Statement (sp_criteria (cx_Specification r)) = acs \<and>
       map ac_ID (sp_criteria (cx_Specification r)) = map ac_id [0..<length acs] \<and>
       cx_UncertaintyReasons r = []"
proof -
  let ?secs = "parseSections (ci_Description inp)"
  have secs: "section_has ?secs ''objective''" "section_get ?secs ''objective'' = objective"
    "section_has ?secs ''acceptance-criteria''" "section_list ?secs ''acceptance-criteria'' = acs"
    unfolding assms(4) parse_printed [OF assms(1,3)] by (simp_all add: section_has_def section_get_def section_list_def)
  have "objective \<noteq> []" using assms(1) by (simp add: clean_def)
  then have obj: "deriveObjective inp ?secs = (objective, objectiveFromSection)" by (simp add: deriveObjective_def secs)
  have "TrimSpace a \<noteq> []" if "a \<in> set acs" for a using assms(3) that by (simp add: clean_def)
  then have all: "filter (\<lambda>x. TrimSpace (snd x) \<noteq> []) (enumerate 0 acs) = enumerate 0 acs"
    by (auto simp: filter_id_conv in_set_enumerate_eq)
  have crit: "deriveAcceptanceCriteria ?secs objective = (map (\<lambda>x. \<lparr>ac_ID = ac_id (fst x), ac_Statement = snd x\<rparr>) (enumerate 0 acs), False)"
  proof -
    have "enumerate 0 acs \<noteq> []" using assms(2) by (cases acs) simp_all
    then show ?thesis by (simp add: deriveAcceptanceCriteria_def secs explicit_criteria_eq all)
  qed
  have "cx_UncertaintyReasons (fst (Compile inp)) = []"
    by (simp add: Compile_def Let_def case_prod_unfold obj crit)
  then show ?thesis unfolding Let_def Compile_fields obj fst_conv crit
    by (simp add: comp_def map_enumerate_ids)
qed

definition demo_input :: CompileInput where
  "demo_input = \<lparr>ci_TaskID = ''t1'', ci_Title = '''',
     ci_Description = print_specification ''Build X'' [''it runs'', ''docs: updated''], ci_Priority = '''', ci_Attachments = []\<rparr>"

theorem compile_printed_witness:
  "map ac_Statement (sp_criteria (cx_Specification (fst (Compile demo_input)))) = [''it runs'', ''docs: updated'']"
proof -
  have "clean ''Build X''" "clean ''it runs''" "clean ''docs: updated''" by code_simp+
  then show ?thesis
    using compile_printed [of "''Build X''" "[''it runs'', ''docs: updated'']" demo_input]
    by (simp add: demo_input_def Let_def)
qed

section \<open>Complexity\<close>

text \<open>The documented floor for risky topics is C2, but the score it sets is in the band C1.\<close>

lemma risky_topic_is_C1:
  "let inp = \<lparr>ci_TaskID = ''t1'', ci_Title = ''Fix auth'', ci_Description = '''', ci_Priority = '''', ci_Attachments = []\<rparr>
   in classifyComplexity inp (parseSections '''') = (''C1'', [''elevated-risk topic floors complexity at C2''])"
  by code_simp

text \<open>A title of blanks hides a usable description: the compiled specification does not validate.\<close>

lemma blank_title_hides_description:
  "let inp = \<lparr>ci_TaskID = ''t1'', ci_Title = '' '', ci_Description = ''Add a button to the page'', ci_Priority = '''', ci_Attachments = []\<rparr>
   in sp_objective (cx_Specification (fst (Compile inp))) = '' '' \<and>
      \<not> is_ok (ValidateSpecification (cx_Specification (fst (Compile inp))))"
  by code_simp

text \<open>A risky topic never has complexity C0.\<close>

lemma risky_topic_not_C0: "risky_topic inp \<Longrightarrow> fst (classifyComplexity inp secs) \<noteq> ''C0''"
  by (simp add: classifyComplexity_def complexity_score_def complexity_band_def case_prod_unfold)

end
