(* ===== verification/Supervisor.thy ===== *)
theory Supervisor
  imports Quota Storage_Rows
begin

text \<open>
  A supervised agent run, \<^verbatim>\<open>src/internal/supervisor/supervisor.go\<close> and \<^verbatim>\<open>env.go\<close>: the environment allowlist,
  the wait for a terminal event and \<open>Run\<close>. The adapters are parameters; they act on an abstract world
  \<open>'w\<close>. The polls of the event sink are a list of observations, each with the state of the context, the
  events delivered so far and whether the supervisor's own deadline has passed; a wait that is not
  over when the list ends has no value. The map of cancel functions, which lives only while a run is
  in progress, and the log lines are not modelled.

  The theorems: what the supervisor passes on of the environment, and that a run whose deadline fired
  is never reported as completed or cancelled.
\<close>

section \<open>Environment\<close>

definition ForbiddenEnvPrefixes :: "string list" where
  "ForbiddenEnvPrefixes =
     [''GITHUB_TOKEN'', ''GH_TOKEN'', ''GH_ENTERPRISE_TOKEN'', ''GITLAB_TOKEN'',
      ''GIT_TOKEN'', ''GIT_PASSWORD'', ''GIT_AUTHOR'', ''GIT_COMMITTER'',
      ''BITBUCKET'', ''AWS_SECRET'', ''AZURE_CLIENT_SECRET'', ''GOOGLE_APPLICATION'',
      ''NEUROFORGE_DAEMON'', ''NEUROFORGE_HOME'',
      ''DOCKER_PASSWORD'', ''KUBECONFIG'', ''SSH_AUTH_SOCK'',
      ''PG_PASSWORD'', ''POSTGRES_PASSWORD'', ''DATABASE_URL'',
      ''STRIPE'', ''TWILIO'', ''SENDGRID'']"

definition AllowedEnvNames :: "string list" where
  "AllowedEnvNames =
     [''PATH'', ''HOME'', ''USER'', ''LOGNAME'', ''LANG'', ''LC_ALL'', ''LC_CTYPE'',
      ''TERM'', ''SHELL'', ''TMPDIR'', ''TEMP'', ''TMP'', ''TZ'', ''GIT_CONFIG_NOSYSTEM'']"

text \<open>\<^verbatim>\<open>strings.ToUpper\<close> as far as a comparison with ASCII text can see it: besides the ASCII letters two runes
  have an ASCII upper case, U+0131 (\<^verbatim>\<open>I\<close>) and U+017F (\<^verbatim>\<open>S\<close>).\<close>

definition ascii_upper :: "char \<Rightarrow> char" where
  "ascii_upper c = (if 97 \<le> (of_char c :: nat) \<and> (of_char c :: nat) \<le> 122
     then char_of ((of_char c :: nat) - 32) else c)"

fun ToUpper :: "string \<Rightarrow> string" where
  "ToUpper (a # b # s) =
     (if a = CHR 0xC4 \<and> b = CHR 0xB1 then CHR ''I'' # ToUpper s
      else if a = CHR 0xC5 \<and> b = CHR 0xBF then CHR ''S'' # ToUpper s
      else ascii_upper a # ToUpper (b # s))"
| "ToUpper [a] = [ascii_upper a]"
| "ToUpper [] = []"

definition isForbidden :: "string \<Rightarrow> bool" where
  "isForbidden name = (let upper = ToUpper name in list_ex (\<lambda>p. prefix p upper) ForbiddenEnvPrefixes)"

definition env_name :: "string \<Rightarrow> string" where
  "env_name kv = takeWhile (\<lambda>c. c \<noteq> CHR ''='') kv"

fun env_filter :: "string list \<Rightarrow> string list \<Rightarrow> string list" where
  "env_filter seen [] = []"
| "env_filter seen (kv # env) =
     (let name = env_name kv
      in if name = '''' \<or> name \<in> set seen then env_filter seen env
         else if name \<notin> set AllowedEnvNames then env_filter seen env
         else if isForbidden name then env_filter seen env
         else kv # env_filter (name # seen) env)"

definition EnvAllowlist :: "string list \<Rightarrow> string list" where
  "EnvAllowlist fullEnv = sort (env_filter [] fullEnv)"

definition AssertEnvSafe :: "string list \<Rightarrow> string option" where
  "AssertEnvSafe env = find isForbidden (map env_name env)"

section \<open>Events\<close>

fun FailureClass_string :: "FailureClass \<Rightarrow> string" where
  "FailureClass_string FailureProviderQuota = ''PROVIDER_QUOTA''"
| "FailureClass_string FailureProviderRateLimit = ''PROVIDER_RATE_LIMIT''"
| "FailureClass_string FailureProviderCapacity = ''PROVIDER_CAPACITY''"
| "FailureClass_string FailureProviderAuth = ''PROVIDER_AUTH''"
| "FailureClass_string FailureEngineNotInstalled = ''ENGINE_NOT_INSTALLED''"
| "FailureClass_string FailureEngineCrash = ''ENGINE_CRASH''"
| "FailureClass_string FailureEngineProtocol = ''ENGINE_PROTOCOL_ERROR''"
| "FailureClass_string FailureModelNotAvailable = ''MODEL_NOT_AVAILABLE''"
| "FailureClass_string FailureImageProvider = ''IMAGE_PROVIDER_FAILURE''"
| "FailureClass_string FailureTimeout = ''TIMEOUT''"
| "FailureClass_string FailureCancelled = ''CANCELLED''"
| "FailureClass_string FailureBuildFailure = ''BUILD_FAILURE''"
| "FailureClass_string FailureTestFailure = ''TEST_FAILURE''"
| "FailureClass_string FailureVisualFailure = ''VISUAL_FAILURE''"
| "FailureClass_string FailureScopeViolation = ''SCOPE_VIOLATION''"
| "FailureClass_string FailurePolicyViolation = ''POLICY_VIOLATION''"
| "FailureClass_string FailureMalformedOutput = ''MALFORMED_OUTPUT''"
| "FailureClass_string FailureMergeConflict = ''MERGE_CONFLICT''"
| "FailureClass_string FailureBudgetExceeded = ''BUDGET_EXCEEDED''"
| "FailureClass_string FailureInternalError = ''INTERNAL_ERROR''"
| "FailureClass_string (FailureOther s) = s"

record failure_payload =
  fp_Class :: FailureClass
  fp_Reason :: string
  fp_ExitCode :: int

record usage_payload =
  up_InputTokens :: int
  up_OutputTokens :: int
  up_CacheReadTokens :: int
  up_Cost :: rat

text \<open>An event: its type, the delta of a message, the path and the scope flag of a file change, the usage, the
  reason of a checkpoint and the failure.\<close>

record run_event =
  re_Type :: string
  re_Delta :: "string option"
  re_Usage :: "usage_payload option"
  re_Checkpoint :: "string option"
  re_FileChange :: "(string \<times> bool) option"
  re_Failure :: "failure_payload option"

abbreviation (input) EventRunCompleted :: string where "EventRunCompleted \<equiv> ''run.completed''"
abbreviation (input) EventRunFailed :: string where "EventRunFailed \<equiv> ''run.failed''"
abbreviation (input) EventRunCancelled :: string where "EventRunCancelled \<equiv> ''run.cancelled''"

definition event_IsTerminal :: "string \<Rightarrow> bool" where
  "event_IsTerminal t \<longleftrightarrow> t = EventRunCompleted \<or> t = EventRunFailed \<or> t = EventRunCancelled"

section \<open>Waiting\<close>

datatype ctx_state = CtxLive | CtxDeadline | CtxCancelled

record poll =
  po_ctx :: ctx_state
  po_events :: "run_event list"
  po_late :: bool

definition timeout_event :: "string \<Rightarrow> run_event" where
  "timeout_event reason = \<lparr>re_Type = EventRunFailed, re_Delta = None, re_Usage = None, re_Checkpoint = None, re_FileChange = None,
     re_Failure = Some \<lparr>fp_Class = FailureTimeout, fp_Reason = reason, fp_ExitCode = 0\<rparr>\<rparr>"

definition cancelled_event :: run_event where
  "cancelled_event = \<lparr>re_Type = EventRunCancelled, re_Delta = None, re_Usage = None, re_Checkpoint = None, re_FileChange = None, re_Failure = None\<rparr>"

fun waitForTerminal :: "poll list \<Rightarrow> run_event option" where
  "waitForTerminal [] = None"
| "waitForTerminal (p # ps) =
     (if po_ctx p \<noteq> CtxLive
      then Some (case find (\<lambda>ev. event_IsTerminal (re_Type ev)) (po_events p) of
                   Some ev \<Rightarrow>
                     if po_ctx p = CtxDeadline \<and> re_Type ev \<noteq> EventRunFailed then timeout_event ''run timed out'' else ev
                 | None \<Rightarrow> if po_ctx p = CtxDeadline then timeout_event ''run timed out'' else cancelled_event)
      else (case find (\<lambda>ev. event_IsTerminal (re_Type ev)) (po_events p) of
              Some ev \<Rightarrow> Some ev
            | None \<Rightarrow> if po_late p then Some (timeout_event ''supervisor deadline exceeded'') else waitForTerminal ps))"

section \<open>Run\<close>

record RunRequest =
  rq_WorkspaceID :: string
  rq_Engine :: string
  rq_Model :: string
  rq_Prompt :: string
  rq_Scope :: "string list"
  rq_TurnLimit :: int
  rq_Timeout :: duration

record run_handle =
  hn_RunID :: string
  hn_SessionID :: string
  hn_Engine :: string

record RunResult =
  rs_Handle :: run_handle
  rs_Outcome :: run_event
  rs_Events :: "run_event list"
  rs_Failed :: bool
  rs_Cancelled :: bool

record AgentRunRequest =
  aq_RunID :: string
  aq_Engine :: string
  aq_Model :: string
  aq_Workspace :: string
  aq_Prompt :: string
  aq_Scope :: "string list"
  aq_AllowlistEnv :: "string list"
  aq_TurnLimit :: int
  aq_Timeout :: duration

text \<open>An adapter: its identifier, \<open>Start\<close>, which returns a handle, and what the polls of the
  sink observe, with the events in the sink when the wait is over.\<close>

record 'w adapter =
  ad_ID :: string
  ad_Start :: "AgentRunRequest \<Rightarrow> 'w \<Rightarrow> (string, run_handle) result \<times> 'w"
  ad_Observe :: "AgentRunRequest \<Rightarrow> 'w \<Rightarrow> (poll list \<times> run_event list) \<times> 'w"

record 'w supervisor =
  su_adapters :: "string \<rightharpoonup> 'w adapter"
  su_fullEnv :: "string list"
  su_audit :: "string \<Rightarrow> string \<Rightarrow> payload \<Rightarrow> 'w \<Rightarrow> 'w"

datatype run_error =
  PathRequired | UnknownEngine string | ErrEnvLeak string | StartFailed string | StillWaiting

definition agent_request :: "string \<Rightarrow> RunRequest \<Rightarrow> string \<Rightarrow> string list \<Rightarrow> AgentRunRequest" where
  "agent_request runID req workspacePath safeEnv =
     \<lparr>aq_RunID = runID, aq_Engine = rq_Engine req, aq_Model = rq_Model req, aq_Workspace = workspacePath,
      aq_Prompt = rq_Prompt req, aq_Scope = rq_Scope req, aq_AllowlistEnv = safeEnv, aq_TurnLimit = rq_TurnLimit req,
      aq_Timeout = (if rq_Timeout req \<le> 0 then 10 * Minute else rq_Timeout req)\<rparr>"

definition run_result :: "run_handle \<Rightarrow> run_event \<Rightarrow> run_event list \<Rightarrow> RunResult" where
  "run_result handle terminal events =
     \<lparr>rs_Handle = handle, rs_Outcome = terminal, rs_Events = events,
      rs_Failed = (re_Type terminal = EventRunFailed),
      rs_Cancelled = (re_Type terminal \<noteq> EventRunFailed \<and> re_Type terminal = EventRunCancelled)\<rparr>"

definition finish_audit :: "RunResult \<Rightarrow> string" where
  "finish_audit res =
     (if rs_Failed res then ''agent.run_failed'' else if rs_Cancelled res then ''agent.run_cancelled''
      else ''agent.run_completed'')"

definition finish_payload :: "string \<Rightarrow> string \<Rightarrow> RunResult \<Rightarrow> payload" where
  "finish_payload engine runID res =
     PObj ([(''engine'', PStr engine), (''run_id'', PStr runID), (''terminal'', PStr (re_Type (rs_Outcome res)))]
       @ (if rs_Failed res
          then (case re_Failure (rs_Outcome res) of
                  Some f \<Rightarrow> [(''failure_class'', PStr (FailureClass_string (fp_Class f))), (''failure_reason'', PStr (fp_Reason f))]
                | None \<Rightarrow> [])
          else []))"

definition Supervisor_Run ::
  "'w supervisor \<Rightarrow> time \<Rightarrow> RunRequest \<Rightarrow> string \<Rightarrow> 'w \<Rightarrow> (run_error, RunResult) result \<times> 'w" where
  "Supervisor_Run s now req workspacePath w =
     (if workspacePath = '''' then (Inl PathRequired, w)
      else case su_adapters s (rq_Engine req) of
        None \<Rightarrow> (Inl (UnknownEngine (rq_Engine req)), w)
      | Some adapter \<Rightarrow>
          (let runID = ''run-'' @ show_nat (nat now);
               req = (if rq_Engine req = '''' then req\<lparr>rq_Engine := ad_ID adapter\<rparr> else req);
               safeEnv = EnvAllowlist (su_fullEnv s)
           in case AssertEnvSafe safeEnv of
                Some name \<Rightarrow> (Inl (ErrEnvLeak name), w)
              | None \<Rightarrow>
                  (let areq = agent_request runID req workspacePath safeEnv
                   in case ad_Start adapter areq w of
                        (Inl e, w1) \<Rightarrow> (Inl (StartFailed e), w1)
                      | (Inr handle, w1) \<Rightarrow>
                          (let w2 = su_audit s ''agent.run_started'' (rq_WorkspaceID req)
                                 (PObj [(''engine'', PStr (rq_Engine req)), (''model'', PStr (rq_Model req)),
                                        (''run_id'', PStr runID), (''session_id'', PStr (hn_SessionID handle)),
                                        (''workspace'', PStr workspacePath)]) w1;
                               ((polls, events), w3) = ad_Observe adapter areq w2
                           in case waitForTerminal polls of
                                None \<Rightarrow> (Inl StillWaiting, w3)
                              | Some terminal \<Rightarrow>
                                  (let res = run_result handle terminal events
                                   in (Inr res,
                                       su_audit s (finish_audit res) (rq_WorkspaceID req) (finish_payload (rq_Engine req) runID res) w3))))))"

section \<open>What an agent sees of the environment\<close>

lemma allowed_not_forbidden: "list_all (\<lambda>n. \<not> isForbidden n \<and> n \<noteq> '''') AllowedEnvNames"
  by code_simp

lemma env_filter_mem:
  "kv \<in> set (env_filter seen env) \<Longrightarrow> kv \<in> set env \<and> env_name kv \<in> set AllowedEnvNames \<and> env_name kv \<notin> set seen"
  by (induction seen env rule: env_filter.induct) (auto simp: Let_def split: if_splits)

lemma env_filter_named: "kv \<in> set (env_filter seen env) \<Longrightarrow> env_name kv \<noteq> [] \<and> \<not> isForbidden (env_name kv)"
  by (induction seen env rule: env_filter.induct) (auto simp: Let_def split: if_splits)

lemma env_filter_distinct: "distinct (map env_name (env_filter seen env))"
  by (induction seen env rule: env_filter.induct) (auto simp: Let_def dest: env_filter_mem)

lemma env_filter_complete:
  "n \<in> set AllowedEnvNames \<Longrightarrow> n \<notin> set seen \<Longrightarrow> find (\<lambda>kv. env_name kv = n) env = Some kv \<Longrightarrow>
     kv \<in> set (env_filter seen env)"
proof (induction seen env rule: env_filter.induct)
  case (2 seen kv' env)
  have "\<not> isForbidden n \<and> n \<noteq> ''''" using allowed_not_forbidden "2.prems"(1) by (auto simp: list_all_iff)
  with 2 show ?case by (cases "env_name kv' = n") (auto simp: Let_def)
qed simp

text \<open>The list the supervisor hands to an adapter holds exactly the allowlisted variables of the daemon's environment, each
  once and with its first value: nothing else passes, nothing forbidden passes, and a run is therefore never
  refused for an environment leak. What the process sees is shown in \<^verbatim>\<open>Agent_Env\<close>.\<close>

lemma agent_environment_exact:
  "set (EnvAllowlist env) = {kv. \<exists>n \<in> set AllowedEnvNames. find (\<lambda>kv. env_name kv = n) env = Some kv} \<and>
   distinct (map env_name (EnvAllowlist env)) \<and> AssertEnvSafe (EnvAllowlist env) = None"
proof (intro conjI)
  have first: "find (\<lambda>kv'. env_name kv' = env_name kv) env = Some kv" if "kv \<in> set (env_filter seen env)" for kv seen env
    using that
  proof (induction seen env rule: env_filter.induct)
    case (2 seen kv' env)
    then show ?case
      by (auto simp: Let_def split: if_splits dest: env_filter_mem env_filter_named)
  qed simp
  show "set (EnvAllowlist env) = {kv. \<exists>n \<in> set AllowedEnvNames. find (\<lambda>kv. env_name kv = n) env = Some kv}"
    using env_filter_complete [where seen = "[]"] env_filter_mem first by (fastforce simp: EnvAllowlist_def)
  have "mset (map env_name (EnvAllowlist env)) = mset (map env_name (env_filter [] env))" by (simp add: EnvAllowlist_def)
  then show "distinct (map env_name (EnvAllowlist env))" using env_filter_distinct mset_eq_imp_distinct_iff by blast
  show "AssertEnvSafe (EnvAllowlist env) = None"
    using env_filter_mem allowed_not_forbidden
    by (fastforce simp: AssertEnvSafe_def EnvAllowlist_def find_None_iff list_all_iff)
qed

section \<open>Deadlines\<close>

definition ends_wait :: "poll \<Rightarrow> bool" where
  "ends_wait p \<longleftrightarrow> po_ctx p \<noteq> CtxLive \<or> po_late p \<or> (\<exists>ev \<in> set (po_events p). event_IsTerminal (re_Type ev))"

lemma find_terminal: "(find (\<lambda>ev. event_IsTerminal (re_Type ev)) evs = None) = (\<not> (\<exists>ev \<in> set evs. event_IsTerminal (re_Type ev)))"
  by (auto simp: find_None_iff)

lemma synthesized_events:
  "re_Type (timeout_event reason) = EventRunFailed" "re_Type cancelled_event = EventRunCancelled"
  "event_IsTerminal EventRunFailed" "event_IsTerminal EventRunCancelled"
  by (simp_all add: timeout_event_def cancelled_event_def event_IsTerminal_def)

lemma wait_step_ends:
  assumes "ends_wait p"
  shows "\<exists>ev. waitForTerminal (p # ps) = Some ev \<and> event_IsTerminal (re_Type ev) \<and>
           (if po_ctx p = CtxDeadline then re_Type ev = EventRunFailed else True)"
proof (cases "find (\<lambda>ev. event_IsTerminal (re_Type ev)) (po_events p)")
  case None
  then have "po_ctx p \<noteq> CtxLive \<or> po_late p" using assms by (simp add: ends_wait_def find_terminal)
  then show ?thesis by (simp add: None synthesized_events)
next
  case (Some ev)
  then have "event_IsTerminal (re_Type ev)" by (auto simp: find_Some_iff)
  then show ?thesis by (simp add: Some synthesized_events)
qed

text \<open>The wait ends at the first poll that sees the context end, the supervisor's own deadline or a
  terminal event, and only there. What it returns is a terminal event; if the deadline of the context
  has fired by then it is a failure, whatever the adapter reported, so a run that timed out is never
  taken for completed or cancelled.\<close>

theorem wait_terminal_exact:
  "case waitForTerminal polls of
     None \<Rightarrow> \<not> list_ex ends_wait polls
   | Some ev \<Rightarrow>
       event_IsTerminal (re_Type ev) \<and>
       (\<exists>before p after. polls = before @ p # after \<and> \<not> list_ex ends_wait before \<and> ends_wait p \<and>
          (if po_ctx p = CtxDeadline then re_Type ev = EventRunFailed else True))"
proof (induction polls)
  case (Cons p ps)
  show ?case
  proof (cases "ends_wait p")
    case True
    from wait_step_ends [OF this]
    obtain ev where "waitForTerminal (p # ps) = Some ev" "event_IsTerminal (re_Type ev)"
      "if po_ctx p = CtxDeadline then re_Type ev = EventRunFailed else True" by blast
    with True show ?thesis by (simp del: waitForTerminal.simps) (rule exI [of _ "[]"], auto)
  next
    case False
    then have "find (\<lambda>ev. event_IsTerminal (re_Type ev)) (po_events p) = None" by (simp add: ends_wait_def find_terminal)
    with False have step: "waitForTerminal (p # ps) = waitForTerminal ps" by (simp add: ends_wait_def)
    show ?thesis
    proof (cases "waitForTerminal ps")
      case None
      with Cons False step show ?thesis by (simp del: waitForTerminal.simps)
    next
      case (Some ev)
      with Cons obtain before q "after" where "ps = before @ q # after" "\<not> list_ex ends_wait before" "ends_wait q"
        "event_IsTerminal (re_Type ev)" "if po_ctx q = CtxDeadline then re_Type ev = EventRunFailed else True" by auto
      with Some False step show ?thesis
        by (simp del: waitForTerminal.simps) (rule exI [of _ "p # before"], auto)
    qed
  qed
qed simp

end
