(* ===== verification/Failover.thy ===== *)
theory Failover
  imports Supervisor Go_Float
begin

text \<open>
  Recovery from failed runs: the default policy of each failure class
  (\<^verbatim>\<open>src/internal/adapter/codingagent/protocol/failure.go\<close>), the recovery classifier and the resume policy
  (\<^verbatim>\<open>src/internal/supervisor/recovery.go\<close>, \<^verbatim>\<open>resume.go\<close>), continuation packs (\<^verbatim>\<open>pack.go\<close>) and the failover
  controller (\<^verbatim>\<open>failover.go\<close>). The hooks of the controller and the supervisor it runs are functions on
  an abstract world \<open>'w\<close>; the random number of a jittered cooldown is read from the world. The nil
  dereference of the source, a continuation pack that was never built, is an error value. Writing a
  pack to disk is a parameter; the log lines are not modelled.
\<close>

section \<open>Failure policies\<close>

datatype FailurePolicy =
  PolicyRetry | PolicyCooldown | PolicyFailover | PolicyEscalation | PolicyPause | PolicyQuarantine
| PolicyTerminal | PolicyOther string

record FailureClassification =
  fl_Class :: FailureClass
  fl_Policy :: FailurePolicy
  fl_Retryable :: bool
  fl_Failover :: bool
  fl_MaxRetries :: int
  fl_CooldownSeconds :: int
  fl_Reason :: string
  fl_ExitCode :: int

definition fail_with :: "FailureClass \<Rightarrow> FailurePolicy \<Rightarrow> bool \<Rightarrow> bool \<Rightarrow> int \<Rightarrow> int \<Rightarrow> string \<Rightarrow> FailureClassification" where
  "fail_with c p retryable failover maxRetries cooldown reason =
     \<lparr>fl_Class = c, fl_Policy = p, fl_Retryable = retryable, fl_Failover = failover, fl_MaxRetries = maxRetries,
      fl_CooldownSeconds = cooldown, fl_Reason = reason, fl_ExitCode = 0\<rparr>"

fun DefaultPolicy :: "FailureClass \<Rightarrow> FailureClassification" where
  "DefaultPolicy FailureProviderQuota =
     fail_with FailureProviderQuota PolicyFailover False True 3 0 ''provider quota exhausted; failover to another route''"
| "DefaultPolicy FailureProviderRateLimit =
     fail_with FailureProviderRateLimit PolicyCooldown True False 5 30 ''provider rate limited; cooldown then retry''"
| "DefaultPolicy FailureProviderCapacity =
     fail_with FailureProviderCapacity PolicyCooldown True True 3 15 ''provider capacity; retry or failover''"
| "DefaultPolicy FailureProviderAuth =
     fail_with FailureProviderAuth PolicyFailover False True 1 0 ''auth failed; stop auto-retry, failover possible''"
| "DefaultPolicy FailureEngineNotInstalled =
     fail_with FailureEngineNotInstalled PolicyPause False False 0 0 ''engine not installed; pause for onboarding''"
| "DefaultPolicy FailureEngineCrash =
     fail_with FailureEngineCrash PolicyRetry True False 2 0 ''engine process crashed; bounded retry''"
| "DefaultPolicy FailureEngineProtocol =
     fail_with FailureEngineProtocol PolicyQuarantine False False 1 0 ''protocol error; quarantine adapter''"
| "DefaultPolicy FailureModelNotAvailable =
     fail_with FailureModelNotAvailable PolicyFailover False True 2 0 ''model unavailable; failover route''"
| "DefaultPolicy FailureImageProvider =
     fail_with FailureImageProvider PolicyCooldown True False 3 20 ''image provider failure; cooldown''"
| "DefaultPolicy FailureTimeout =
     fail_with FailureTimeout PolicyRetry True False 2 0 ''timeout; bounded retry''"
| "DefaultPolicy FailureCancelled =
     fail_with FailureCancelled PolicyTerminal False False 0 0 ''run cancelled by caller''"
| "DefaultPolicy FailureBuildFailure =
     fail_with FailureBuildFailure PolicyTerminal False False 0 0 ''verification failure; surface for repair loop''"
| "DefaultPolicy FailureTestFailure =
     fail_with FailureTestFailure PolicyTerminal False False 0 0 ''verification failure; surface for repair loop''"
| "DefaultPolicy FailureVisualFailure =
     fail_with FailureVisualFailure PolicyTerminal False False 0 0 ''verification failure; surface for repair loop''"
| "DefaultPolicy FailureScopeViolation =
     fail_with FailureScopeViolation PolicyTerminal False False 0 0 ''agent modified files outside its allowed scope''"
| "DefaultPolicy FailurePolicyViolation =
     fail_with FailurePolicyViolation PolicyTerminal False False 0 0 ''run violated project security policy''"
| "DefaultPolicy FailureMalformedOutput =
     fail_with FailureMalformedOutput PolicyRetry True False 2 0 ''malformed agent output; bounded retry''"
| "DefaultPolicy FailureMergeConflict =
     fail_with FailureMergeConflict PolicyTerminal False False 0 0 ''merge conflict; surface for resolution''"
| "DefaultPolicy FailureBudgetExceeded =
     fail_with FailureBudgetExceeded PolicyPause False False 0 0 ''budget exhausted; pause spending''"
| "DefaultPolicy FailureInternalError =
     fail_with FailureInternalError PolicyRetry True False 1 0 ''internal error; bounded retry''"
| "DefaultPolicy (FailureOther s) =
     fail_with FailureInternalError PolicyTerminal False False 0 0 ''unclassified failure; treated as terminal for safety''"

section \<open>The recovery classifier\<close>

datatype RecoveryAction =
  ActionRetry | ActionFailover | ActionWaitQuota | ActionQuarantine | ActionTerminal | ActionPause | ActionNone

fun RecoveryAction_string :: "RecoveryAction \<Rightarrow> string" where
  "RecoveryAction_string ActionRetry = ''retry''"
| "RecoveryAction_string ActionFailover = ''failover''"
| "RecoveryAction_string ActionWaitQuota = ''wait_quota''"
| "RecoveryAction_string ActionQuarantine = ''quarantine''"
| "RecoveryAction_string ActionTerminal = ''terminal''"
| "RecoveryAction_string ActionPause = ''pause''"
| "RecoveryAction_string ActionNone = ''''"

record RecoveryDecision =
  rd_Action :: RecoveryAction
  rd_Cooldown :: duration
  rd_AttemptsUsed :: int
  rd_AttemptsMax :: int
  rd_FailureClass :: FailureClass
  rd_Reason :: string

record RecoveryInput =
  ri_Failure :: FailureClassification
  ri_AttemptsUsed :: int
  ri_FallbacksAvailable :: bool
  ri_AnyRouteAvailable :: bool

definition isQuotaWaitable :: "FailureClass \<Rightarrow> bool" where
  "isQuotaWaitable c \<longleftrightarrow> c = FailureProviderQuota \<or> c = FailureProviderRateLimit \<or> c = FailureProviderCapacity"

text \<open>\<open>jitter\<close> is the fraction of the classifier and \<open>u\<close> the number its random source returns.\<close>

definition cooldown :: "rat \<Rightarrow> rat \<Rightarrow> FailureClassification \<Rightarrow> duration" where
  "cooldown jitter u pol =
     (let base = fl_CooldownSeconds pol * Second;
          base = (if base \<le> 0 then Second else base)
      in if jitter \<le> 0 then base else base + \<lfloor>of_int base * jitter * u\<rfloor>)"

definition decide_action :: "RecoveryAction \<Rightarrow> FailureClass \<Rightarrow> string \<Rightarrow> RecoveryDecision" where
  "decide_action a c reason = \<lparr>rd_Action = a, rd_Cooldown = 0, rd_AttemptsUsed = 0, rd_AttemptsMax = 0, rd_FailureClass = c,
     rd_Reason = reason\<rparr>"

definition retry_action :: "rat \<Rightarrow> rat \<Rightarrow> RecoveryInput \<Rightarrow> int \<Rightarrow> string \<Rightarrow> RecoveryDecision" where
  "retry_action jitter u i maxAttempts reason =
     \<lparr>rd_Action = ActionRetry, rd_Cooldown = cooldown jitter u (ri_Failure i), rd_AttemptsUsed = ri_AttemptsUsed i + 1,
      rd_AttemptsMax = maxAttempts, rd_FailureClass = fl_Class (ri_Failure i), rd_Reason = reason\<rparr>"

definition RecoveryClassifier_Classify :: "rat \<Rightarrow> rat \<Rightarrow> RecoveryInput \<Rightarrow> RecoveryDecision" where
  "RecoveryClassifier_Classify jitter u i =
     (let pol = ri_Failure i; c = fl_Class pol
      in if \<not> FailureClass_IsValid c
         then decide_action ActionTerminal FailureInternalError ''unclassified failure; treated as terminal for safety''
         else
           (let maxAttempts = (if fl_MaxRetries pol < 0 then 0 else fl_MaxRetries pol)
            in case fl_Policy pol of
                 PolicyFailover \<Rightarrow>
                   if ri_FallbacksAvailable i then decide_action ActionFailover c (fl_Reason pol)
                   else if isQuotaWaitable c \<and> \<not> ri_AnyRouteAvailable i
                   then decide_action ActionWaitQuota c ''all routes quota-exhausted; parked in WAITING_QUOTA until reset''
                   else decide_action ActionQuarantine c ''no fallback route available and failure is not quota-waitable; quarantined''
               | PolicyQuarantine \<Rightarrow>
                   if ri_AttemptsUsed i < maxAttempts
                   then retry_action jitter u i maxAttempts ''protocol error; one bounded retry then quarantine''
                   else decide_action ActionQuarantine c ''protocol error persists; adapter quarantined''
               | PolicyTerminal \<Rightarrow> decide_action ActionTerminal c (fl_Reason pol)
               | PolicyPause \<Rightarrow> decide_action ActionPause c (fl_Reason pol)
               | PolicyEscalation \<Rightarrow>
                   if ri_FallbacksAvailable i
                   then decide_action ActionFailover c ''escalation: failover to a stronger fallback route''
                   else decide_action ActionQuarantine c ''escalation requested but no stronger route available; quarantined''
               | PolicyOther _ \<Rightarrow> decide_action ActionTerminal c ''unmapped failure policy; treated as terminal for safety''
               | _ \<Rightarrow>
                   if ri_AttemptsUsed i < maxAttempts
                   then retry_action jitter u i maxAttempts ''transient failure; bounded retry on same route after cooldown''
                   else if ri_FallbacksAvailable i
                   then decide_action ActionFailover c ''same-route retry budget exhausted; failover to fallback route''
                   else if isQuotaWaitable c \<and> \<not> ri_AnyRouteAvailable i
                   then decide_action ActionWaitQuota c ''retries exhausted and all routes quota-exhausted; WAITING_QUOTA''
                   else decide_action ActionQuarantine c ''retries exhausted with no fallback; quarantined for human review''))"

section \<open>The resume policy\<close>

record route =
  ru_Engine :: string
  ru_Model :: string
  ru_Account :: string

datatype ResumeChoice = ResumeSession | CleanRestart

definition resume_Decide :: "RecoveryAction \<Rightarrow> bool \<Rightarrow> route \<Rightarrow> route \<Rightarrow> ResumeChoice \<times> string \<times> route" where
  "resume_Decide action canResume fallback currentRoute =
     (if action = ActionFailover
      then (if ru_Engine fallback = ''''
            then (CleanRestart, ''failover requested but no fallback route; will re-enter selection'', currentRoute)
            else (CleanRestart, ''provider-side failure; clean restart on fallback route with continuation pack'', fallback))
      else if action = ActionRetry
      then (if canResume
            then (ResumeSession, ''transient failure; resuming provider session after cooldown'', currentRoute)
            else (CleanRestart, ''transient failure but engine cannot resume; clean restart from checkpoint on same route'', currentRoute))
      else (CleanRestart, ''no retry/failover; decision is terminal or requires human action'', currentRoute))"

definition CanResume :: "bool \<Rightarrow> string \<Rightarrow> string \<Rightarrow> bool" where
  "CanResume sessionResume sessionID checkpointPath \<longleftrightarrow> sessionResume \<and> sessionID \<noteq> '''' \<and> checkpointPath \<noteq> ''''"

section \<open>Continuation packs\<close>

record ContinuationPack =
  cp_WorkPackageID :: string
  cp_SpecificationHash :: string
  cp_BaseSHA :: string
  cp_CurrentSHA :: string
  cp_Completed :: "string list"
  cp_Remaining :: "string list"
  cp_ChangesPatch :: string
  cp_Failures :: "string list"
  cp_NextObjective :: string
  cp_Verification :: "(string \<times> string) list option"
  cp_OriginEngine :: string

definition dedupeSorted :: "string list \<Rightarrow> string list" where
  "dedupeSorted xs = sort (dedup (filter (\<lambda>s. s \<noteq> '''') xs))"

definition pack_completed :: "run_event \<Rightarrow> string list" where
  "pack_completed ev =
     (if re_Type ev = ''checkpoint.created''
      then (case re_Checkpoint ev of Some reason \<Rightarrow> [''checkpoint:'' @ reason] | None \<Rightarrow> [])
      else if re_Type ev = ''file.changed''
      then (case re_FileChange ev of Some (path, inScope) \<Rightarrow> if inScope then [''edit:'' @ path] else [] | None \<Rightarrow> [])
      else [])"

definition failed_class :: "run_event list \<Rightarrow> string" where
  "failed_class evs =
     fold (\<lambda>ev acc. if re_Type ev = EventRunFailed
                    then (case re_Failure ev of Some f \<Rightarrow> FailureClass_string (fp_Class f) | None \<Rightarrow> acc) else acc) evs ''''"

definition BuildPackFromRun :: "string \<Rightarrow> string \<Rightarrow> string \<Rightarrow> string \<Rightarrow> RunResult \<Rightarrow> ContinuationPack" where
  "BuildPackFromRun workPackageID baseSHA headSHA specHash result =
     \<lparr>cp_WorkPackageID = workPackageID, cp_SpecificationHash = specHash, cp_BaseSHA = baseSHA, cp_CurrentSHA = headSHA,
      cp_Completed = dedupeSorted (concat (map pack_completed (rs_Events result))),
      cp_Remaining = (if rs_Failed result then [''complete-the-objective''] else []),
      cp_ChangesPatch = '''',
      cp_Failures = dedupeSorted (if failed_class (rs_Events result) \<noteq> '''' then [failed_class (rs_Events result)] else []),
      cp_NextObjective = ''Continue from the current checkpoint; do not redo completed steps.'',
      cp_Verification = None, cp_OriginEngine = hn_Engine (rs_Handle result)\<rparr>"

definition MergePacks :: "ContinuationPack \<Rightarrow> ContinuationPack \<Rightarrow> ContinuationPack" where
  "MergePacks prior latest =
     latest\<lparr>cp_SpecificationHash := (if cp_SpecificationHash prior \<noteq> '''' \<and> cp_SpecificationHash latest = ''''
                                     then cp_SpecificationHash prior else cp_SpecificationHash latest),
       cp_BaseSHA := (if cp_BaseSHA prior \<noteq> '''' \<and> cp_BaseSHA latest = '''' then cp_BaseSHA prior else cp_BaseSHA latest),
       cp_Completed := dedupeSorted (cp_Completed prior @ cp_Completed latest),
       cp_Failures := dedupeSorted (cp_Failures prior @ cp_Failures latest),
       cp_Remaining := dedupeSorted (cp_Remaining latest),
       cp_NextObjective := (if cp_NextObjective latest = '''' then cp_NextObjective prior else cp_NextObjective latest),
       cp_OriginEngine := (if cp_OriginEngine latest = '''' then cp_OriginEngine prior else cp_OriginEngine latest),
       cp_Verification := (case cp_Verification latest of None \<Rightarrow> cp_Verification prior | v \<Rightarrow> v)\<rparr>"

definition nl :: string where "nl = [CHR 0x0A]"

definition bullet_list :: "string \<Rightarrow> string list \<Rightarrow> string" where
  "bullet_list heading xs =
     (if xs = [] then '''' else nl @ heading @ nl @ concat (map (\<lambda>x. ''  - '' @ x @ nl) xs))"

definition RenderFallbackPrompt :: "ContinuationPack \<Rightarrow> string" where
  "RenderFallbackPrompt pack =
     ''You are continuing a task that was interrupted on a different coding engine.'' @ nl
     @ ''Do NOT redo work that is already marked completed. Pick up from the current state.'' @ nl @ nl
     @ (if cp_NextObjective pack \<noteq> '''' then ''Objective:'' @ nl @ cp_NextObjective pack @ nl @ nl else '''')
     @ ''Work package: '' @ cp_WorkPackageID pack @ nl
     @ (if cp_BaseSHA pack \<noteq> '''' \<or> cp_CurrentSHA pack \<noteq> ''''
        then ''Base SHA: '' @ cp_BaseSHA pack @ nl @ ''Current SHA: '' @ cp_CurrentSHA pack @ nl else '''')
     @ (if cp_OriginEngine pack \<noteq> ''''
        then ''Prior engine: '' @ cp_OriginEngine pack @ '' (failed; do not rely on its transcript)'' @ nl else '''')
     @ bullet_list ''Already completed (do not repeat):'' (cp_Completed pack)
     @ bullet_list ''Remaining:'' (cp_Remaining pack)
     @ bullet_list ''Failures that triggered the switch:'' (cp_Failures pack)
     @ bullet_list ''Verification so far:''
         (map (\<lambda>(k, v). k @ '': '' @ v) (sort_key fst (case cp_Verification pack of None \<Rightarrow> [] | Some m \<Rightarrow> m)))
     @ (if cp_ChangesPatch pack \<noteq> ''''
        then nl @ ''Current changes are captured in the workspace checkpoint; review the diff there.'' @ nl else '''')"

definition firstLine :: "string \<Rightarrow> string" where
  "firstLine s = takeWhile (\<lambda>c. c \<noteq> CHR 0x0A) s"

definition remainingObjective :: "string \<Rightarrow> ContinuationPack option \<Rightarrow> string list" where
  "remainingObjective originalPrompt prior =
     dedupeSorted ([''complete-the-objective'']
       @ (case prior of Some p \<Rightarrow> cp_Remaining p | None \<Rightarrow> [])
       @ (if originalPrompt \<noteq> '''' then [''objective: '' @ firstLine originalPrompt] else []))"

section \<open>The failover controller\<close>

record FailoverPlan =
  pn_WorkspaceID :: string
  pn_WorkspacePath :: string
  pn_Primary :: route
  pn_Fallbacks :: "route list"
  pn_Prompt :: string
  pn_Scope :: "string list"
  pn_TurnLimit :: int
  pn_Timeout :: duration
  pn_SpecHash :: string
  pn_BaseSHA :: string
  pn_ArtifactsDir :: string
  pn_MaxFailoverHops :: int

record AttemptRecord =
  ar_Route :: route
  ar_Outcome :: string
  ar_Failure :: "FailureClassification option"
  ar_Action :: RecoveryAction
  ar_Cooldown :: duration
  ar_Resumed :: bool
  ar_PromptUsed :: string

record FailoverOutcome =
  fo_Success :: bool
  fo_FinalResult :: "RunResult option"
  fo_Attempts :: "AttemptRecord list"
  fo_ParkedWaitingQuota :: bool
  fo_Quarantined :: bool
  fo_TerminalFailure :: "FailureClassification option"
  fo_PacksWritten :: int

record 'w workspace_hook =
  wh_Checkpoint :: "string \<Rightarrow> string \<Rightarrow> string \<Rightarrow> 'w \<Rightarrow> (string, string) result \<times> 'w"
  wh_SetState :: "string \<Rightarrow> string \<Rightarrow> 'w \<Rightarrow> 'w"
  wh_HeadSHA :: "string \<Rightarrow> 'w \<Rightarrow> string"

record 'w quota_hook =
  qh_IsAvailable :: "string \<Rightarrow> string \<Rightarrow> 'w \<Rightarrow> bool"
  qh_RecordFailure :: "string \<Rightarrow> string \<Rightarrow> FailureClass \<Rightarrow> 'w \<Rightarrow> 'w"
  qh_RecordSuccess :: "string \<Rightarrow> string \<Rightarrow> 'w \<Rightarrow> 'w"

record 'w controller =
  fc_run :: "RunRequest \<Rightarrow> string \<Rightarrow> 'w \<Rightarrow> (string, RunResult) result \<times> 'w"
  fc_jitter :: rat
  fc_rand :: "'w \<Rightarrow> rat \<times> 'w"
  fc_quota :: "'w quota_hook option"
  fc_hook :: "'w workspace_hook option"
  fc_writePack :: "(string \<Rightarrow> string \<Rightarrow> ContinuationPack \<Rightarrow> 'w \<Rightarrow> (string, string) result \<times> 'w) option"
  fc_audit :: "string \<Rightarrow> string \<Rightarrow> payload \<Rightarrow> 'w \<Rightarrow> 'w"
  fc_sleep :: "duration \<Rightarrow> 'w \<Rightarrow> 'w"
  fc_ctxErr :: "'w \<Rightarrow> string option"

text \<open>The context ended, with the outcome collected so far, or the source panics.\<close>

datatype failover_error = CtxErr string FailoverOutcome | NilPackDereference

definition truncPrompt :: "string \<Rightarrow> string" where
  "truncPrompt p = (if length p \<le> 160 then p else take 160 p @ [CHR 0xE2, CHR 0x80, CHR 0xA6])"

definition failOutcome :: "RunResult \<Rightarrow> string" where
  "failOutcome r = (if rs_Failed r then ''failed'' else if rs_Cancelled r then ''cancelled'' else ''completed'')"

definition classify_run :: "RunResult \<Rightarrow> FailureClassification" where
  "classify_run result =
     (case re_Failure (rs_Outcome result) of
        Some f \<Rightarrow> (DefaultPolicy (fp_Class f))\<lparr>fl_Reason := fp_Reason f, fl_ExitCode := fp_ExitCode f\<rparr>
      | None \<Rightarrow> if rs_Cancelled result then DefaultPolicy FailureCancelled else DefaultPolicy FailureInternalError)"

definition anyRouteAvailable :: "'w controller \<Rightarrow> route list \<Rightarrow> 'w \<Rightarrow> bool" where
  "anyRouteAvailable f chain w =
     (case fc_quota f of None \<Rightarrow> True | Some q \<Rightarrow> list_ex (\<lambda>r. qh_IsAvailable q (ru_Engine r) (ru_Account r) w) chain)"

definition hook_SetState :: "'w controller \<Rightarrow> string \<Rightarrow> string \<Rightarrow> 'w \<Rightarrow> 'w" where
  "hook_SetState f workspaceID st w = (case fc_hook f of None \<Rightarrow> w | Some h \<Rightarrow> wh_SetState h workspaceID st w)"

definition auditFailoverDecision :: "'w controller \<Rightarrow> string \<Rightarrow> string \<Rightarrow> RecoveryDecision \<Rightarrow> 'w \<Rightarrow> 'w" where
  "auditFailoverDecision f workspaceID ev d w =
     fc_audit f ev workspaceID
       (PObj [(''action'', PStr (RecoveryAction_string (rd_Action d))),
              (''failure_class'', PStr (FailureClass_string (rd_FailureClass d))), (''reason'', PStr (rd_Reason d)),
              (''attempts_used'', PInt (rd_AttemptsUsed d)), (''attempts_max'', PInt (rd_AttemptsMax d))]) w"

definition stop :: "'w controller \<Rightarrow> FailoverPlan \<Rightarrow> RecoveryDecision \<Rightarrow> FailoverOutcome \<Rightarrow> 'w \<Rightarrow> FailoverOutcome \<times> 'w" where
  "stop f plan d out w =
     (let ws = pn_WorkspaceID plan
      in case rd_Action d of
           ActionWaitQuota \<Rightarrow>
             (out\<lparr>fo_ParkedWaitingQuota := True\<rparr>,
              auditFailoverDecision f ws ''failover.waiting_quota'' d (hook_SetState f ws ''waiting_quota'' w))
         | ActionQuarantine \<Rightarrow>
             (out\<lparr>fo_Quarantined := True\<rparr>,
              auditFailoverDecision f ws ''failover.quarantined'' d (hook_SetState f ws ''quarantined'' w))
         | ActionTerminal \<Rightarrow> (out, auditFailoverDecision f ws ''failover.terminal'' d (hook_SetState f ws ''failed'' w))
         | ActionPause \<Rightarrow> (out, auditFailoverDecision f ws ''failover.paused'' d (hook_SetState f ws ''failed'' w))
         | _ \<Rightarrow> (out, auditFailoverDecision f ws ''failover.exhausted'' d w))"

text \<open>The state of the loop.\<close>

record loop_state =
  lo_routeIdx :: nat
  lo_attempts :: nat
  lo_last :: FailureClass
  lo_pack :: "ContinuationPack option"
  lo_out :: FailoverOutcome

datatype step_result = Continue loop_state | Done FailoverOutcome | Abort failover_error

definition route_chain :: "FailoverPlan \<Rightarrow> route list" where
  "route_chain plan = pn_Primary plan # pn_Fallbacks plan"

definition max_hops :: "FailoverPlan \<Rightarrow> int" where
  "max_hops plan = (if pn_MaxFailoverHops plan = 0 then int (length (pn_Fallbacks plan)) else pn_MaxFailoverHops plan)"

definition add_attempt :: "AttemptRecord \<Rightarrow> FailoverOutcome \<Rightarrow> FailoverOutcome" where
  "add_attempt r out = out\<lparr>fo_Attempts := fo_Attempts out @ [r]\<rparr>"

definition draw :: "'w controller \<Rightarrow> RecoveryInput \<Rightarrow> 'w \<Rightarrow> RecoveryDecision \<times> 'w" where
  "draw f i w =
     (case fc_rand f w of
        (u, w1) \<Rightarrow>
          (let d = RecoveryClassifier_Classify (fc_jitter f) u i
           in (d, if rd_Action d = ActionRetry \<and> 0 < fc_jitter f then w1 else w)))"

text \<open>The run could not start.\<close>

definition start_failure :: "string \<Rightarrow> FailureClassification" where
  "start_failure e = fail_with FailureInternalError PolicyRetry False False 0 0 (''run failed to start: '' @ e)"

definition advanceOrStop ::
  "'w controller \<Rightarrow> FailoverPlan \<Rightarrow> FailureClassification \<Rightarrow> loop_state \<Rightarrow> 'w \<Rightarrow> step_result \<times> 'w" where
  "advanceOrStop f plan fc st w =
     (case draw f \<lparr>ri_Failure = fc, ri_AttemptsUsed = int (lo_attempts st),
             ri_FallbacksAvailable = (lo_routeIdx st < length (route_chain plan) - 1),
             ri_AnyRouteAvailable = anyRouteAvailable f (route_chain plan) w\<rparr> w of
        (d, w1) \<Rightarrow>
          if rd_Action d = ActionFailover
          then (Continue (st\<lparr>lo_attempts := 0, lo_routeIdx := lo_routeIdx st + 1\<rparr>), w1)
          else (case stop f plan d (lo_out st) w1 of (out, w2) \<Rightarrow> (Done out, w2)))"

text \<open>The checkpoint and the pack before a provider switch.\<close>

definition accumulate :: "FailoverPlan \<Rightarrow> RunResult \<Rightarrow> string \<Rightarrow> ContinuationPack option \<Rightarrow> ContinuationPack" where
  "accumulate plan result headSHA prior =
     (let pack = (BuildPackFromRun (pn_WorkspaceID plan) (pn_BaseSHA plan) headSHA (pn_SpecHash plan) result)
                   \<lparr>cp_Remaining := remainingObjective (pn_Prompt plan) prior\<rparr>
      in case prior of Some p \<Rightarrow> MergePacks p pack | None \<Rightarrow> pack)"

definition checkpoint_pack ::
  "'w controller \<Rightarrow> FailoverPlan \<Rightarrow> RunResult \<Rightarrow> ContinuationPack option \<Rightarrow> 'w \<Rightarrow> ContinuationPack option \<times> 'w" where
  "checkpoint_pack f plan result prior w =
     (case fc_hook f of
        None \<Rightarrow> (prior, w)
      | Some h \<Rightarrow>
          (let w1 = snd (wh_Checkpoint h (pn_WorkspaceID plan) ''pre-quota-switch''
                           (''checkpoint before provider failover ('' @ [CHR 0xC2, CHR 0xA7] @ ''21.3)'') w);
               pack = accumulate plan result (wh_HeadSHA h (pn_WorkspaceID plan) w1) prior
           in (Some pack, wh_SetState h (pn_WorkspaceID plan) ''active'' w1)))"

definition persist_pack ::
  "'w controller \<Rightarrow> FailoverPlan \<Rightarrow> ContinuationPack option \<Rightarrow> FailoverOutcome \<Rightarrow> 'w
     \<Rightarrow> (failover_error, FailoverOutcome) result \<times> 'w" where
  "persist_pack f plan pack out w =
     (case fc_writePack f of
        None \<Rightarrow> (Inr out, w)
      | Some wr \<Rightarrow>
          (case pack of
             None \<Rightarrow> (Inl NilPackDereference, w)
           | Some p \<Rightarrow>
               (case wr (pn_WorkspaceID plan) (pn_ArtifactsDir plan) p w of
                  (Inr _, w1) \<Rightarrow> (Inr (out\<lparr>fo_PacksWritten := fo_PacksWritten out + 1\<rparr>), w1)
                | (Inl _, w1) \<Rightarrow> (Inr out, w1))))"

text \<open>The bounded recovery of a run that failed: classify, record the attempt, act.\<close>

definition recover ::
  "'w controller \<Rightarrow> FailoverPlan \<Rightarrow> RunResult \<Rightarrow> string \<Rightarrow> FailureClassification \<Rightarrow> loop_state \<Rightarrow> 'w \<Rightarrow> step_result \<times> 'w" where
  "recover f plan result prompt cls st w =
     (let chain = route_chain plan
      in case draw f \<lparr>ri_Failure = cls, ri_AttemptsUsed = int (lo_attempts st),
             ri_FallbacksAvailable = (lo_routeIdx st < length chain - 1 \<and> int (lo_routeIdx st) < max_hops plan + 1),
             ri_AnyRouteAvailable = anyRouteAvailable f chain w\<rparr> w of
           (d, w1) \<Rightarrow>
             (let out = add_attempt \<lparr>ar_Route = chain ! lo_routeIdx st, ar_Outcome = failOutcome result, ar_Failure = Some cls,
                          ar_Action = rd_Action d, ar_Cooldown = rd_Cooldown d, ar_Resumed = False,
                          ar_PromptUsed = truncPrompt prompt\<rparr> (lo_out st);
                  st = st\<lparr>lo_out := out\<rparr>
              in case rd_Action d of
                   ActionRetry \<Rightarrow>
                     (Continue (st\<lparr>lo_attempts := lo_attempts st + 1\<rparr>),
                      if 0 < rd_Cooldown d then fc_sleep f (rd_Cooldown d) w1 else w1)
                 | ActionFailover \<Rightarrow>
                     (let i = lo_routeIdx st + 1
                      in if length chain \<le> i \<or> max_hops plan < int i
                         then (case stop f plan d out w1 of (out, w2) \<Rightarrow> (Done out, w2))
                         else (Continue (st\<lparr>lo_attempts := 0, lo_routeIdx := i\<rparr>), w1))
                 | ActionTerminal \<Rightarrow>
                     (case stop f plan d (out\<lparr>fo_TerminalFailure := Some cls\<rparr>) w1 of (out, w2) \<Rightarrow> (Done out, w2))
                 | _ \<Rightarrow> (case stop f plan d out w1 of (out, w2) \<Rightarrow> (Done out, w2))))"

definition failover_step :: "'w controller \<Rightarrow> FailoverPlan \<Rightarrow> loop_state \<Rightarrow> 'w \<Rightarrow> step_result \<times> 'w" where
  "failover_step f plan st w =
     (case fc_ctxErr f w of
        Some e \<Rightarrow> (Abort (CtxErr e (lo_out st)), w)
      | None \<Rightarrow>
          (let route = route_chain plan ! lo_routeIdx st;
               prompt = (case lo_pack st of None \<Rightarrow> pn_Prompt plan | Some p \<Rightarrow> RenderFallbackPrompt p);
               req = \<lparr>rq_WorkspaceID = pn_WorkspaceID plan, rq_Engine = ru_Engine route, rq_Model = ru_Model route,
                      rq_Prompt = prompt, rq_Scope = pn_Scope plan, rq_TurnLimit = pn_TurnLimit plan,
                      rq_Timeout = pn_Timeout plan\<rparr>
           in case fc_run f req (pn_WorkspacePath plan) w of
                (Inl e, w1) \<Rightarrow>
                  (let fc = start_failure e;
                       out = add_attempt \<lparr>ar_Route = route, ar_Outcome = ''failed'', ar_Failure = Some fc,
                               ar_Action = ActionFailover, ar_Cooldown = 0, ar_Resumed = False,
                               ar_PromptUsed = truncPrompt prompt\<rparr> (lo_out st)
                   in advanceOrStop f plan fc (st\<lparr>lo_last := fl_Class fc, lo_out := out\<rparr>) w1)
              | (Inr result, w1) \<Rightarrow>
                  if \<not> rs_Failed result \<and> \<not> rs_Cancelled result
                  then
                    (let w2 = (case fc_quota f of None \<Rightarrow> w1
                               | Some q \<Rightarrow> qh_RecordSuccess q (ru_Engine route) (ru_Account route) w1);
                         out = add_attempt \<lparr>ar_Route = route, ar_Outcome = ''completed'', ar_Failure = None,
                                 ar_Action = ActionNone, ar_Cooldown = 0, ar_Resumed = False,
                                 ar_PromptUsed = truncPrompt prompt\<rparr>
                                 ((lo_out st)\<lparr>fo_Success := True, fo_FinalResult := Some result\<rparr>)
                     in (Done out,
                         fc_audit f ''failover.completed'' (pn_WorkspaceID plan)
                           (PObj [(''engine'', PStr (ru_Engine route)), (''model'', PStr (ru_Model route)),
                                  (''attempts'', PInt (int (length (fo_Attempts out))))]) w2))
                  else
                    (let cls = classify_run result;
                         w2 = (case fc_quota f of
                                 Some q \<Rightarrow> if FailureClass_IsValid (fl_Class cls)
                                           then qh_RecordFailure q (ru_Engine route) (ru_Account route) (fl_Class cls) w1 else w1
                               | None \<Rightarrow> w1);
                         st = st\<lparr>lo_last := fl_Class cls\<rparr>
                     in if fl_Failover cls \<or> fl_Policy cls = PolicyFailover
                        then (case checkpoint_pack f plan result (lo_pack st) w2 of
                                (pack, w3) \<Rightarrow>
                                  (case persist_pack f plan pack (lo_out st) w3 of
                                     (Inl e, w4) \<Rightarrow> (Abort e, w4)
                                   | (Inr out, w4) \<Rightarrow> recover f plan result prompt cls (st\<lparr>lo_pack := pack, lo_out := out\<rparr>) w4))
                        else recover f plan result prompt cls st w2)))"

end
