(* ===== verification/Failover_Valid.thy ===== *)
theory Failover_Valid
  imports Failover
begin

text \<open>
  The failover loop, \<open>FailoverController.Run\<close> of \<^verbatim>\<open>src/internal/supervisor/failover.go\<close>, and what it
  guarantees: it ends on every plan, whatever the engines do, after trying the routes in their order
  and each of them at most six times; the outcome says how it ended; a continuation pack keeps all the
  progress of the runs before it. The lemmas at the end are the corner cases: the hop limit, the missing
  workspace hook.
\<close>

section \<open>Recovery decisions\<close>

lemma DefaultPolicy_retries: "0 \<le> fl_MaxRetries (DefaultPolicy c)" "fl_MaxRetries (DefaultPolicy c) \<le> 5"
  by (cases c; simp add: fail_with_def)+

lemma classify_run_retries: "fl_MaxRetries (classify_run r) \<le> 5"
  by (simp add: classify_run_def DefaultPolicy_retries fail_with_def split: option.split)

lemma Classify_retry:
  "rd_Action (RecoveryClassifier_Classify jitter u i) = ActionRetry \<longleftrightarrow>
     FailureClass_IsValid (fl_Class (ri_Failure i)) \<and>
     fl_Policy (ri_Failure i) \<in> {PolicyRetry, PolicyCooldown, PolicyQuarantine} \<and>
     ri_AttemptsUsed i < max 0 (fl_MaxRetries (ri_Failure i))"
  unfolding RecoveryClassifier_Classify_def Let_def if_distrib [of rd_Action] FailurePolicy.case_distrib [of rd_Action]
    decide_action_def retry_action_def RecoveryDecision.select_convs
  by (cases "fl_Policy (ri_Failure i)") (simp_all add: max_def)

lemma Classify_failover:
  "rd_Action (RecoveryClassifier_Classify jitter u i) = ActionFailover \<Longrightarrow> ri_FallbacksAvailable i"
  by (auto simp: RecoveryClassifier_Classify_def Let_def decide_action_def retry_action_def
      split: FailurePolicy.splits if_splits)

lemma draw_retry:
  "draw f i w = (d, w1) \<Longrightarrow> rd_Action d = ActionRetry \<Longrightarrow> ri_AttemptsUsed i < max 0 (fl_MaxRetries (ri_Failure i))"
  by (auto simp: draw_def Let_def Classify_retry split: prod.splits)

lemma draw_failover: "draw f i w = (d, w1) \<Longrightarrow> rd_Action d = ActionFailover \<Longrightarrow> ri_FallbacksAvailable i"
  by (auto simp: draw_def Let_def dest: Classify_failover split: prod.splits)

section \<open>One step of the loop\<close>

text \<open>An outcome that does not say yet how the run ended, and an outcome that says what its last attempt \<open>a\<close>
  says: it succeeded, it was parked, it was quarantined, it failed for good, or none of these.\<close>

definition undecided :: "FailoverOutcome \<Rightarrow> bool" where
  "undecided out \<longleftrightarrow> \<not> fo_Success out \<and> fo_FinalResult out = None \<and> \<not> fo_ParkedWaitingQuota out \<and> \<not> fo_Quarantined out \<and>
     fo_TerminalFailure out = None"

definition not_started :: "AttemptRecord \<Rightarrow> bool" where
  "not_started a \<longleftrightarrow> (\<exists>e. ar_Failure a = Some (start_failure e))"

definition told_by :: "AttemptRecord \<Rightarrow> FailoverOutcome \<Rightarrow> bool" where
  "told_by a out \<longleftrightarrow>
     fo_Success out = (ar_Outcome a = ''completed'') \<and> fo_Success out = (fo_FinalResult out \<noteq> None) \<and>
     fo_ParkedWaitingQuota out = (ar_Action a = ActionWaitQuota) \<and>
     fo_Quarantined out = (ar_Action a = ActionQuarantine \<or> not_started a) \<and>
     fo_TerminalFailure out = (if ar_Action a = ActionTerminal then ar_Failure a else None)"

text \<open>The attempts that end a run: one that completed, one whose recovery waits, quarantines, fails or pauses, one
  that could not be started, and a failover at the hop limit before the chain is used up.\<close>

definition ends_run :: "FailoverPlan \<Rightarrow> nat \<Rightarrow> AttemptRecord \<Rightarrow> bool" where
  "ends_run plan i a \<longleftrightarrow>
     (if ar_Outcome a = ''completed'' then ar_Action a = ActionNone \<and> ar_Failure a = None
      else ar_Failure a \<noteq> None \<and>
        (ar_Action a \<in> {ActionWaitQuota, ActionQuarantine, ActionTerminal, ActionPause} \<and> \<not> not_started a \<or>
         ar_Action a = ActionFailover \<and>
           (not_started a \<or> max_hops plan < int (Suc i) \<and> Suc i < length (route_chain plan))))"

text \<open>What a step may do to the loop: stay on the route with one more retry, of at most five, or go to the
  next route of the chain, and always with one attempt more on the record.\<close>

definition step_ok :: "FailoverPlan \<Rightarrow> loop_state \<Rightarrow> step_result \<Rightarrow> bool" where
  "step_ok plan st r =
     (case r of
        Continue st' \<Rightarrow>
          (\<exists>a. fo_Attempts (lo_out st') = fo_Attempts (lo_out st) @ [a] \<and> ar_Route a = route_chain plan ! lo_routeIdx st \<and>
               ar_Outcome a \<noteq> ''completed'' \<and> ar_Action a \<in> {ActionRetry, ActionFailover}) \<and>
          (undecided (lo_out st) \<longrightarrow> undecided (lo_out st')) \<and>
          ((lo_routeIdx st' = lo_routeIdx st \<and> lo_attempts st' = Suc (lo_attempts st) \<and> lo_attempts st < 5) \<or>
           (lo_routeIdx st' = Suc (lo_routeIdx st) \<and> lo_attempts st' = 0 \<and> Suc (lo_routeIdx st) < length (route_chain plan)))
      | Done out \<Rightarrow>
          \<exists>a. fo_Attempts out = fo_Attempts (lo_out st) @ [a] \<and> ar_Route a = route_chain plan ! lo_routeIdx st \<and>
              ends_run plan (lo_routeIdx st) a \<and> (undecided (lo_out st) \<longrightarrow> told_by a out)
      | Abort _ \<Rightarrow> True)"

lemma step_ok_Abort [simp]: "step_ok plan st (Abort e)"
  by (simp add: step_ok_def)

text \<open>\<open>stop\<close> keeps the record and writes the disposition its decision names.\<close>

lemma stop_fields:
  assumes "stop f plan d out w = (out', w')"
  shows "fo_Attempts out' = fo_Attempts out" "fo_Success out' = fo_Success out" "fo_FinalResult out' = fo_FinalResult out"
    "fo_TerminalFailure out' = fo_TerminalFailure out"
    "fo_ParkedWaitingQuota out' = (fo_ParkedWaitingQuota out \<or> rd_Action d = ActionWaitQuota)"
    "fo_Quarantined out' = (fo_Quarantined out \<or> rd_Action d = ActionQuarantine)"
  using assms by (auto simp: stop_def Let_def split: RecoveryAction.splits)

lemma persist_pack_fields:
  assumes "persist_pack f plan pack out w = (Inr out', w')"
  shows "fo_Attempts out' = fo_Attempts out \<and> undecided out' = undecided out"
  using assms by (auto simp: persist_pack_def undecided_def split: option.splits sum.splits prod.splits)

lemma DefaultPolicy_retry: "fl_Policy (DefaultPolicy c) = PolicyRetry \<Longrightarrow> fl_MaxRetries (DefaultPolicy c) \<noteq> 0"
  by (cases c) (simp_all add: fail_with_def)

lemma classify_run_retry: "fl_Policy (classify_run r) = PolicyRetry \<Longrightarrow> fl_MaxRetries (classify_run r) \<noteq> 0"
  by (auto simp: classify_run_def DefaultPolicy_retry fail_with_def split: option.splits if_splits)

lemma draw_acts: "draw f i w = (d, w1) \<Longrightarrow> rd_Action d \<noteq> ActionNone"
  by (auto simp: draw_def Let_def RecoveryClassifier_Classify_def decide_action_def retry_action_def
      split: FailurePolicy.splits if_splits prod.splits)

lemma start_failure_fields [simp]:
  "fl_Class (start_failure e) = FailureInternalError" "fl_Policy (start_failure e) = PolicyRetry" "fl_MaxRetries (start_failure e) = 0"
  by (simp_all add: start_failure_def fail_with_def)

lemma classify_run_started: "classify_run r \<noteq> start_failure e"
  using classify_run_retry [of r] by (metis start_failure_fields(2,3))

lemma undecided_attempts [simp]: "undecided (out\<lparr>fo_Attempts := as\<rparr>) = undecided out"
  by (simp add: undecided_def)

lemma failOutcome_failed: "rs_Failed r \<or> rs_Cancelled r \<Longrightarrow> failOutcome r \<noteq> ''completed''"
  by (auto simp: failOutcome_def)

lemma step_ok_stop:
  assumes "stop f plan d out w = (out', w')" "fo_Attempts out = fo_Attempts (lo_out st) @ [a]"
    "ar_Route a = route_chain plan ! lo_routeIdx st" "ar_Outcome a \<noteq> ''completed''" "ends_run plan (lo_routeIdx st) a"
    "undecided (lo_out st) \<Longrightarrow> undecided (out\<lparr>fo_TerminalFailure := None\<rparr>) \<and>
       fo_TerminalFailure out = (if ar_Action a = ActionTerminal then ar_Failure a else None)"
    "rd_Action d = ActionWaitQuota \<longleftrightarrow> ar_Action a = ActionWaitQuota"
    "rd_Action d = ActionQuarantine \<longleftrightarrow> ar_Action a = ActionQuarantine \<or> not_started a"
  shows "step_ok plan st (Done out')"
  using stop_fields [OF assms(1)] assms(2-) by (auto simp: step_ok_def told_by_def undecided_def)

lemma recover_ok:
  assumes run: "recover f plan result prompt (classify_run result) st w = (r, w')" and failed: "rs_Failed result \<or> rs_Cancelled result"
    and same: "fo_Attempts (lo_out st) = fo_Attempts (lo_out st0) \<and> undecided (lo_out st) = undecided (lo_out st0)"
      "lo_routeIdx st = lo_routeIdx st0" "lo_attempts st = lo_attempts st0"
  shows "step_ok plan st0 r"
proof -
  obtain d w1 where d: "draw f \<lparr>ri_Failure = classify_run result, ri_AttemptsUsed = int (lo_attempts st),
      ri_FallbacksAvailable = (lo_routeIdx st < length (route_chain plan) - 1 \<and> int (lo_routeIdx st) < max_hops plan + 1),
      ri_AnyRouteAvailable = anyRouteAvailable f (route_chain plan) w\<rparr> w = (d, w1)"
    by (metis surj_pair)
  define a where "a = \<lparr>ar_Route = route_chain plan ! lo_routeIdx st, ar_Outcome = failOutcome result,
    ar_Failure = Some (classify_run result), ar_Action = rd_Action d, ar_Cooldown = rd_Cooldown d, ar_Resumed = False,
    ar_PromptUsed = truncPrompt prompt\<rparr>"
  have a: "ar_Route a = route_chain plan ! lo_routeIdx st" "ar_Outcome a \<noteq> ''completed''" "ar_Action a = rd_Action d"
    "ar_Failure a = Some (classify_run result)" "\<not> not_started a"
    using failOutcome_failed [OF failed] classify_run_started by (auto simp: a_def not_started_def)
  have final: "step_ok plan st0 (Done out')"
    if "stop f plan d (add_attempt a (lo_out st)\<lparr>fo_TerminalFailure := Some (classify_run result)\<rparr>) w1 = (out', w2)"
      "rd_Action d = ActionTerminal" for out' w2
    using that(1) by (rule step_ok_stop) (use a same that(2) in \<open>auto simp: add_attempt_def undecided_def ends_run_def\<close>)
  have other: "step_ok plan st0 (Done out')"
    if "stop f plan d (add_attempt a (lo_out st)) w1 = (out', w2)" "rd_Action d \<noteq> ActionTerminal" "ends_run plan (lo_routeIdx st) a"
    for out' w2
    using that(1) by (rule step_ok_stop) (use a same that(2,3) in \<open>auto simp: add_attempt_def undecided_def\<close>)
  have ends: "rd_Action d \<in> {ActionWaitQuota, ActionQuarantine, ActionTerminal, ActionPause} \<Longrightarrow> ends_run plan (lo_routeIdx st) a"
    "rd_Action d = ActionFailover \<Longrightarrow> max_hops plan < int (Suc (lo_routeIdx st)) \<Longrightarrow> Suc (lo_routeIdx st) < length (route_chain plan)
      \<Longrightarrow> ends_run plan (lo_routeIdx st) a"
    using a by (auto simp: ends_run_def)
  note unfolded = run [unfolded recover_def Let_def d prod.case, folded a_def]
  show ?thesis
  proof (cases "rd_Action d")
    case ActionRetry
    then show ?thesis
      using unfolded draw_retry [OF d ActionRetry] classify_run_retries [of result] a same
      by (auto simp: step_ok_def add_attempt_def)
  next
    case ActionFailover
    then show ?thesis
      using unfolded draw_failover [OF d ActionFailover] a same other ends(2)
      by (auto simp: step_ok_def add_attempt_def split: if_splits prod.splits)
  qed (use unfolded final other ends(1) draw_acts [OF d] in \<open>auto split: prod.splits\<close>)
qed

lemma start_failure_action:
  assumes "draw f \<lparr>ri_Failure = start_failure e, ri_AttemptsUsed = int n, ri_FallbacksAvailable = b, ri_AnyRouteAvailable = c\<rparr> w = (d, w1)"
  shows "rd_Action d = (if b then ActionFailover else ActionQuarantine)"
  using assms
  by (auto simp: draw_def Let_def RecoveryClassifier_Classify_def decide_action_def isQuotaWaitable_def split: prod.splits)

lemma advanceOrStop_ok:
  assumes run: "advanceOrStop f plan (start_failure e) st w = (r, w')"
    and a: "fo_Attempts (lo_out st) = fo_Attempts (lo_out st0) @ [a]"
    "ar_Outcome a \<noteq> ''completed''" "ar_Route a = route_chain plan ! lo_routeIdx st" "ar_Action a = ActionFailover"
     "ar_Failure a = Some (start_failure e)"
    and same: "undecided (lo_out st) = undecided (lo_out st0)" "lo_routeIdx st0 = lo_routeIdx st"
  shows "step_ok plan st0 r"
proof -
  obtain d w1 where d: "draw f \<lparr>ri_Failure = start_failure e, ri_AttemptsUsed = int (lo_attempts st),
      ri_FallbacksAvailable = (lo_routeIdx st < length (route_chain plan) - 1),
      ri_AnyRouteAvailable = anyRouteAvailable f (route_chain plan) w\<rparr> w = (d, w1)"
    by (metis surj_pair)
  note act = start_failure_action [OF d]
  note unfolded = run [unfolded advanceOrStop_def d prod.case]
  show ?thesis
  proof (cases "rd_Action d = ActionFailover")
    case True
    with unfolded act a same show ?thesis by (auto simp: step_ok_def split: if_splits)
  next
    case False
    then have "not_started a" "rd_Action d = ActionQuarantine" "ends_run plan (lo_routeIdx st0) a"
      using a act by (auto simp: not_started_def ends_run_def split: if_splits)
    moreover from unfolded False obtain out' where "r = Done out'" "stop f plan d (lo_out st) w1 = (out', w')"
      by (auto split: prod.splits)
    ultimately show ?thesis
      using a same by (auto intro!: step_ok_stop [of f plan d "lo_out st" w1 out' w'] simp: undecided_def)
  qed
qed

lemma failover_step_ok: "failover_step f plan st w = (r, w') \<Longrightarrow> step_ok plan st r"
proof (cases "fc_ctxErr f w")
  case None
  let ?route = "route_chain plan ! lo_routeIdx st"
  let ?prompt = "case lo_pack st of None \<Rightarrow> pn_Prompt plan | Some p \<Rightarrow> RenderFallbackPrompt p"
  let ?req = "\<lparr>rq_WorkspaceID = pn_WorkspaceID plan, rq_Engine = ru_Engine ?route, rq_Model = ru_Model ?route,
    rq_Prompt = ?prompt, rq_Scope = pn_Scope plan, rq_TurnLimit = pn_TurnLimit plan, rq_Timeout = pn_Timeout plan\<rparr>"
  assume step: "failover_step f plan st w = (r, w')"
  obtain res w1 where run: "fc_run f ?req (pn_WorkspacePath plan) w = (res, w1)" by (metis surj_pair)
  show ?thesis
  proof (cases res)
    case (Inl e)
    show ?thesis
      using step
      by (simp add: failover_step_def None run Inl Let_def add_attempt_def) (erule advanceOrStop_ok, auto)
  next
    case (Inr result)
    show ?thesis
    proof (cases "\<not> rs_Failed result \<and> \<not> rs_Cancelled result")
      case True
      then show ?thesis
        using step
        by (auto simp: failover_step_def None run Inr Let_def add_attempt_def step_ok_def told_by_def undecided_def not_started_def ends_run_def)
    next
      case False
      then have "rs_Failed result \<or> rs_Cancelled result" by blast
      with False step show ?thesis
        by (auto simp: failover_step_def None run Inr Let_def dest!: persist_pack_fields elim!: recover_ok split: if_splits prod.splits sum.splits)
    qed
  qed
qed (auto simp: failover_step_def)

section \<open>The loop\<close>

function failover_loop ::
  "'w controller \<Rightarrow> FailoverPlan \<Rightarrow> loop_state \<Rightarrow> 'w \<Rightarrow> (failover_error, FailoverOutcome) result \<times> 'w" where
  "failover_loop f plan st w =
     (if lo_routeIdx st < length (route_chain plan)
      then (case failover_step f plan st w of
              (Continue st', w') \<Rightarrow> failover_loop f plan st' w'
            | (Done out, w') \<Rightarrow> (Inr out, w')
            | (Abort e, w') \<Rightarrow> (Inl e, w'))
      else (case stop f plan (decide_action ActionQuarantine (lo_last st) ''route chain exhausted without success'') (lo_out st) w of
              (out, w') \<Rightarrow> (Inr out, w')))"
  by pat_completeness auto
termination
  by (relation "measure (\<lambda>(f, plan, st, w). (length (route_chain plan) - lo_routeIdx st) * 7 + (6 - lo_attempts st))")
    (auto dest!: failover_step_ok [OF sym] simp: step_ok_def)

declare failover_loop.simps [simp del]

definition FailoverController_Run :: "'w controller \<Rightarrow> FailoverPlan \<Rightarrow> 'w \<Rightarrow> (failover_error, FailoverOutcome) result \<times> 'w" where
  "FailoverController_Run f plan w =
     failover_loop f plan
       \<lparr>lo_routeIdx = 0, lo_attempts = 0, lo_last = FailureOther '''', lo_pack = None,
        lo_out = \<lparr>fo_Success = False, fo_FinalResult = None, fo_Attempts = [], fo_ParkedWaitingQuota = False,
                  fo_Quarantined = False, fo_TerminalFailure = None, fo_PacksWritten = 0\<rparr>\<rparr> w"

text \<open>The invariant of the loop: the routes before the current one were tried between one and six times each,
  in their order, and no attempt so far ended the run.\<close>

definition tried :: "FailoverPlan \<Rightarrow> AttemptRecord list \<Rightarrow> nat list \<Rightarrow> bool" where
  "tried plan as ks \<longleftrightarrow> length ks \<le> length (route_chain plan) \<and> list_all (\<lambda>k. k \<le> 6) ks \<and>
     map ar_Route as = concat (map2 replicate ks (route_chain plan))"

definition goes_on :: "AttemptRecord \<Rightarrow> bool" where
  "goes_on a \<longleftrightarrow> ar_Outcome a \<noteq> ''completed'' \<and> ar_Action a \<in> {ActionRetry, ActionFailover}"

definition loop_inv :: "FailoverPlan \<Rightarrow> loop_state \<Rightarrow> bool" where
  "loop_inv plan st \<longleftrightarrow>
     lo_routeIdx st < length (route_chain plan) \<and> lo_attempts st \<le> 5 \<and> undecided (lo_out st) \<and>
     list_all goes_on (fo_Attempts (lo_out st)) \<and>
     (\<exists>ks. length ks = lo_routeIdx st \<and> list_all (\<lambda>k. 1 \<le> k) ks \<and> tried plan (fo_Attempts (lo_out st)) (ks @ [lo_attempts st]))"

lemma tried_again:
  assumes "tried plan as (ks @ [k])" "ar_Route a = route_chain plan ! length ks" "k \<le> 5"
  shows "tried plan (as @ [a]) (ks @ [Suc k])"
proof -
  have "length ks < length (route_chain plan)" using assms(1) by (simp add: tried_def)
  then obtain xs r ys where c: "route_chain plan = xs @ r # ys" "length xs = length ks"
    by (metis id_take_nth_drop length_take min.absorb4)
  with assms show ?thesis by (auto simp: tried_def replicate_append_same [symmetric] nth_append zip_append2)
qed

lemma tried_next:
  "tried plan as ks \<Longrightarrow> length ks < length (route_chain plan) \<Longrightarrow> tried plan as (ks @ [0])"
proof -
  assume "tried plan as ks" "length ks < length (route_chain plan)"
  moreover from this(2) obtain xs r ys where "route_chain plan = xs @ r # ys" "length xs = length ks"
    by (metis id_take_nth_drop length_take min.absorb4)
  ultimately show ?thesis by (auto simp: tried_def zip_append2)
qed

lemma loop_inv_step:
  assumes inv: "loop_inv plan st" and ok: "step_ok plan st (Continue st')"
  shows "loop_inv plan st'"
proof -
  obtain ks where ks: "length ks = lo_routeIdx st" "list_all (\<lambda>k. 1 \<le> k) ks"
    "tried plan (fo_Attempts (lo_out st)) (ks @ [lo_attempts st])" using inv by (auto simp: loop_inv_def)
  obtain a where a: "fo_Attempts (lo_out st') = fo_Attempts (lo_out st) @ [a]" "ar_Route a = route_chain plan ! lo_routeIdx st"
    "goes_on a" using ok by (auto simp: step_ok_def goes_on_def)
  have again: "tried plan (fo_Attempts (lo_out st')) (ks @ [Suc (lo_attempts st)])"
    using tried_again ks a inv by (simp add: loop_inv_def)
  have common: "undecided (lo_out st')" "list_all goes_on (fo_Attempts (lo_out st'))"
    using inv ok a by (auto simp: loop_inv_def step_ok_def)
  consider "lo_routeIdx st' = lo_routeIdx st" "lo_attempts st' = Suc (lo_attempts st)" "lo_attempts st < 5"
    | "lo_routeIdx st' = Suc (lo_routeIdx st)" "lo_attempts st' = 0" "Suc (lo_routeIdx st) < length (route_chain plan)"
    using ok by (auto simp: step_ok_def)
  then show ?thesis
  proof cases
    case 1
    then show ?thesis using inv again ks common by (auto simp: loop_inv_def)
  next
    case 2
    have "tried plan (fo_Attempts (lo_out st')) ((ks @ [Suc (lo_attempts st)]) @ [0])"
      by (rule tried_next [OF again]) (use 2 ks in simp)
    then show ?thesis
      unfolding loop_inv_def using 2 ks common by (auto intro!: exI [of _ "ks @ [Suc (lo_attempts st)]"])
  qed
qed

lemma failover_loop_ok:
  "loop_inv plan st \<Longrightarrow> fst (failover_loop f plan st w) = Inr out \<Longrightarrow>
     \<exists>ks as a i. fo_Attempts out = as @ [a] \<and> tried plan (as @ [a]) ks \<and> list_all (\<lambda>k. 1 \<le> k) ks \<and> list_all goes_on as \<and>
       told_by a out \<and> ends_run plan i a"
proof (induction f plan st w rule: failover_loop.induct)
  case (1 f plan st w)
  have idx: "lo_routeIdx st < length (route_chain plan)" using "1.prems"(1) by (simp add: loop_inv_def)
  obtain r w' where step: "failover_step f plan st w = (r, w')" by (metis surj_pair)
  note ok = failover_step_ok [OF step]
  show ?case
  proof (cases r)
    case (Continue st')
    show ?thesis
    proof (rule "1.IH" [OF idx step [symmetric] Continue])
      show "loop_inv plan st'" using loop_inv_step "1.prems"(1) ok Continue by simp
      show "fst (failover_loop f plan st' w') = Inr out" using "1.prems"(2) idx step Continue by (simp add: failover_loop.simps)
    qed
  next
    case (Done out')
    then have out: "out' = out" using "1.prems"(2) idx step by (simp add: failover_loop.simps)
    obtain ks where ks: "length ks = lo_routeIdx st" "list_all (\<lambda>k. 1 \<le> k) ks"
      "tried plan (fo_Attempts (lo_out st)) (ks @ [lo_attempts st])" using "1.prems"(1) by (auto simp: loop_inv_def)
    obtain a where a: "fo_Attempts out = fo_Attempts (lo_out st) @ [a]" "ar_Route a = route_chain plan ! lo_routeIdx st" "told_by a out"
      "ends_run plan (lo_routeIdx st) a"
      using ok Done out "1.prems"(1) by (auto simp: step_ok_def loop_inv_def)
    have "tried plan (fo_Attempts (lo_out st) @ [a]) (ks @ [Suc (lo_attempts st)])"
      using tried_again ks a "1.prems"(1) by (simp add: loop_inv_def)
    moreover have "list_all (\<lambda>k. 1 \<le> k) (ks @ [Suc (lo_attempts st)])" using ks by simp
    moreover have "list_all goes_on (fo_Attempts (lo_out st))" using "1.prems"(1) by (simp add: loop_inv_def)
    ultimately show ?thesis using a by blast
  next
    case (Abort e)
    then show ?thesis using "1.prems"(2) idx step by (simp add: failover_loop.simps)
  qed
qed

section \<open>The loop is bounded\<close>

lemma loop_inv_start:
  "loop_inv plan \<lparr>lo_routeIdx = 0, lo_attempts = 0, lo_last = c, lo_pack = None,
     lo_out = \<lparr>fo_Success = False, fo_FinalResult = None, fo_Attempts = [], fo_ParkedWaitingQuota = False,
               fo_Quarantined = False, fo_TerminalFailure = None, fo_PacksWritten = 0\<rparr>\<rparr>"
  by (simp add: loop_inv_def undecided_def tried_def route_chain_def)

lemma FailoverController_Run_ok:
  assumes "fst (FailoverController_Run f plan w) = Inr out"
  obtains ks as a i where "fo_Attempts out = as @ [a]" "tried plan (as @ [a]) ks" "list_all (\<lambda>k. 1 \<le> k) ks" "list_all goes_on as"
    "told_by a out" "ends_run plan i a"
  using failover_loop_ok [OF loop_inv_start assms [unfolded FailoverController_Run_def]] by blast

lemma tried_length: "tried plan as ks \<Longrightarrow> length as \<le> 6 * length (route_chain plan)"
proof -
  assume t: "tried plan as ks"
  have "length (concat (map2 replicate ks rs)) \<le> 6 * length rs" if "list_all (\<lambda>k. k \<le> 6) ks" for rs :: "route list"
    using that by (induction ks rs rule: list_induct2') auto
  with t show ?thesis unfolding tried_def by (metis length_map)
qed

lemma checkpoint_pack_hook: "checkpoint_pack f plan r p w = (None, w') \<Longrightarrow> fc_hook f = None"
  by (auto simp: checkpoint_pack_def Let_def split: option.splits)

lemma persist_pack_panics: "persist_pack f plan pack out w = (Inl e, w') \<Longrightarrow> fc_writePack f \<noteq> None \<and> pack = None"
  by (auto simp: persist_pack_def split: option.splits sum.splits prod.splits)

lemma advance_no_abort: "fst (advanceOrStop f plan fc st w) \<noteq> Abort e"
  by (simp add: advanceOrStop_def split: prod.split)

lemma recover_no_abort: "fst (recover f plan result prompt cls st w) \<noteq> Abort e"
  by (simp add: recover_def Let_def split: prod.split RecoveryAction.split)

lemma failover_step_panics:
  assumes "failover_step f plan st w = (Abort NilPackDereference, w')"
  shows "fc_hook f = None \<and> fc_writePack f \<noteq> None"
proof (rule ccontr)
  assume n: "\<not> (fc_hook f = None \<and> fc_writePack f \<noteq> None)"
  have p: "fst (case checkpoint_pack f plan result prior w2 of (pack, w3) \<Rightarrow>
      (case persist_pack f plan pack out w3 of
         (Inl e, w4) \<Rightarrow> (Abort e, w4) | (Inr out, w4) \<Rightarrow> recover f plan result prompt cls (g pack out) w4)) \<noteq> Abort NilPackDereference"
    for result prior w2 out prompt cls g
    using n recover_no_abort [of f plan result prompt cls]
    by (auto split: prod.split sum.split dest!: persist_pack_panics checkpoint_pack_hook)
  have "fst (failover_step f plan st w) \<noteq> Abort NilPackDereference"
    unfolding failover_step_def Let_def
    by (simp add: advance_no_abort recover_no_abort p del: split_paired_All split: option.split prod.split sum.split)
  with assms show False by simp
qed

lemma failover_loop_panics:
  "fst (failover_loop f plan st w) = Inl NilPackDereference \<Longrightarrow> fc_hook f = None \<and> fc_writePack f \<noteq> None"
proof (induction f plan st w rule: failover_loop.induct)
  case (1 f plan st w)
  show ?case
  proof (cases "lo_routeIdx st < length (route_chain plan)")
    case True
    then show ?thesis
      using "1.prems" "1.IH" [OF True] failover_step_panics [of f plan st w]
      by (auto simp: failover_loop.simps [of f plan st w] split: prod.splits step_result.splits)
  next
    case False
    then show ?thesis using "1.prems" by (auto simp: failover_loop.simps split: prod.splits)
  qed
qed

text \<open>C25: A failover run ends whatever the engines, the quota and the workspace do: it tries the routes of the
  plan in their order, none left out before the last one it reaches, each of them at least once and
  at most six times, so at most six times the number of routes in all. It ends without an outcome
  only when its context ends or, for a controller that has a database but no workspace hook, in a nil
  dereference.\<close>

theorem failover_bounded:
  "case fst (FailoverController_Run f plan w) of
     Inr out \<Rightarrow>
       (\<exists>ks. ks \<noteq> [] \<and> length ks \<le> length (route_chain plan) \<and> list_all (\<lambda>k. 1 \<le> k \<and> k \<le> 6) ks \<and>
             map ar_Route (fo_Attempts out) = concat (map2 replicate ks (route_chain plan))) \<and>
       length (fo_Attempts out) \<le> 6 * (1 + length (pn_Fallbacks plan))
   | Inl (CtxErr _ _) \<Rightarrow> True
   | Inl NilPackDereference \<Rightarrow> fc_hook f = None \<and> fc_writePack f \<noteq> None"
proof (cases "fst (FailoverController_Run f plan w)")
  case (Inl e)
  then show ?thesis
    using failover_loop_panics [of f plan _ w] by (cases e) (simp_all add: FailoverController_Run_def)
next
  case (Inr out)
  then obtain ks as a where ks: "fo_Attempts out = as @ [a]" "tried plan (as @ [a]) ks" "list_all (\<lambda>k. 1 \<le> k) ks"
    by (rule FailoverController_Run_ok)
  then have "ks \<noteq> []" by (auto simp: tried_def)
  then show ?thesis
    using Inr ks tried_length [OF ks(2)] by (auto simp: tried_def list_all_iff route_chain_def intro!: exI [of _ ks])
qed

text \<open>C24: The outcome of a failover run says what its last attempt says. Let the hop limit of the plan leave the
  whole chain open (zero, the default, or at least the number of fallbacks). The run is a success exactly if the
  last attempt completed; it is parked exactly if the recovery of that attempt waits for quota, and failed for good
  exactly if the recovery is terminal. It is quarantined exactly if the recovery quarantines or the attempt could not
  be started: the record of a run that could not start always says failover, but it is the last one only when no
  route was left. Every attempt before the last was retried or failed over, and unless the last recovery paused
  the run it has exactly one of the four dispositions. What a pause and a lower hop limit leave is
  shown at the end of this theory: \<open>pause_without_disposition\<close>, \<open>hop_limit_without_disposition\<close>.\<close>

theorem failover_outcome_told:
  assumes "pn_MaxFailoverHops plan = 0 \<or> int (length (pn_Fallbacks plan)) \<le> pn_MaxFailoverHops plan"
    and "fst (FailoverController_Run f plan w) = Inr out"
  shows "fo_Attempts out \<noteq> [] \<and> list_all goes_on (butlast (fo_Attempts out)) \<and>
    (let a = last (fo_Attempts out)
     in fo_Success out = (ar_Outcome a = ''completed'') \<and> fo_Success out = (fo_FinalResult out \<noteq> None) \<and>
        fo_ParkedWaitingQuota out = (ar_Action a = ActionWaitQuota) \<and>
        fo_Quarantined out = (ar_Action a = ActionQuarantine \<or> (\<exists>e. ar_Failure a = Some (start_failure e))) \<and>
        fo_TerminalFailure out = (if ar_Action a = ActionTerminal then ar_Failure a else None) \<and>
        (ar_Action a = ActionPause \<or>
         length (filter id [fo_Success out, fo_ParkedWaitingQuota out, fo_Quarantined out, fo_TerminalFailure out \<noteq> None]) = 1))"
proof -
  obtain as a i where a: "fo_Attempts out = as @ [a]" "list_all goes_on as" "told_by a out" "ends_run plan i a"
    by (rule FailoverController_Run_ok [OF assms(2)])
  have "\<not> (max_hops plan < int (Suc i) \<and> Suc i < length (route_chain plan))"
    using assms(1) by (auto simp: max_hops_def route_chain_def)
  then have one: "ar_Action a = ActionPause \<or>
      length (filter id [fo_Success out, fo_ParkedWaitingQuota out, fo_Quarantined out, fo_TerminalFailure out \<noteq> None]) = 1"
    using a(3,4) unfolding told_by_def ends_run_def by (auto simp: not_started_def split: if_splits)
  have l: "last (fo_Attempts out) = a" "butlast (fo_Attempts out) = as" "fo_Attempts out \<noteq> []" using a(1) by simp_all
  show ?thesis
    unfolding Let_def l(1,2) using one l(3) a(2) a(3) [unfolded told_by_def not_started_def] by blast
qed

section \<open>Progress\<close>section \<open>Progress\<close>

lemma dedupeSorted_set: "set (dedupeSorted xs) = set xs - {[]}"
  by (auto simp: dedupeSorted_def)

lemma pack_completed_cases:
  obtains (checkpoint) reason where "re_Type ev = ''checkpoint.created''" "re_Checkpoint ev = Some reason"
      "pack_completed ev = [''checkpoint:'' @ reason]"
  | (edit) path where "re_Type ev = ''file.changed''" "re_FileChange ev = Some (path, True)" "pack_completed ev = [''edit:'' @ path]"
  | (other) "\<nexists>reason. re_Type ev = ''checkpoint.created'' \<and> re_Checkpoint ev = Some reason"
      "\<nexists>path. re_Type ev = ''file.changed'' \<and> re_FileChange ev = Some (path, True)" "pack_completed ev = []"
proof -
  consider reason where "re_Type ev = ''checkpoint.created''" "re_Checkpoint ev = Some reason"
    | path where "re_Type ev = ''file.changed''" "re_FileChange ev = Some (path, True)"
    | "\<nexists>reason. re_Type ev = ''checkpoint.created'' \<and> re_Checkpoint ev = Some reason"
      "\<nexists>path. re_Type ev = ''file.changed'' \<and> re_FileChange ev = Some (path, True)" by blast
  then show thesis
  proof cases
    case 3
    then have "pack_completed ev = []" by (auto simp: pack_completed_def split: option.split)
    with 3 show ?thesis by (rule other)
  qed (auto simp: pack_completed_def intro: checkpoint edit)
qed

lemma pack_completed_set:
  "set (concat (map pack_completed evs)) =
     {''checkpoint:'' @ reason | reason. \<exists>ev \<in> set evs. re_Type ev = ''checkpoint.created'' \<and> re_Checkpoint ev = Some reason} \<union>
     {''edit:'' @ path | path. \<exists>ev \<in> set evs. re_Type ev = ''file.changed'' \<and> re_FileChange ev = Some (path, True)}"
  (is "_ = ?A evs \<union> ?B evs")
proof (induction evs)
  case (Cons ev evs)
  have "set (pack_completed ev) = ?A [ev] \<union> ?B [ev]"
    by (cases ev rule: pack_completed_cases) simp_all
  moreover have "?A (ev # evs) \<union> ?B (ev # evs) = (?A [ev] \<union> ?B [ev]) \<union> (?A evs \<union> ?B evs)" by auto
  ultimately show ?case using Cons by simp
qed simp

text \<open>C26: No progress is lost on the way to another engine: the completed steps of a continuation pack are
  those of the pack before it together with the checkpoints and the edits within scope of the run
  that failed, and nothing else; the steps that remain are kept and always include the objective.\<close>

theorem failover_keeps_progress:
  "set (cp_Completed (accumulate plan result headSHA prior)) =
     (case prior of Some p \<Rightarrow> set (cp_Completed p) - {[]} | None \<Rightarrow> {}) \<union>
     {''checkpoint:'' @ reason | reason. \<exists>ev \<in> set (rs_Events result). re_Type ev = ''checkpoint.created'' \<and> re_Checkpoint ev = Some reason} \<union>
     {''edit:'' @ path | path. \<exists>ev \<in> set (rs_Events result). re_Type ev = ''file.changed'' \<and> re_FileChange ev = Some (path, True)} \<and>
   ''complete-the-objective'' \<in> set (cp_Remaining (accumulate plan result headSHA prior)) \<and>
   cp_CurrentSHA (accumulate plan result headSHA prior) = headSHA"
  unfolding pack_completed_set [symmetric] Un_assoc
proof (intro conjI)
  have nonempty: "[] \<notin> set (concat (map pack_completed (rs_Events result)))" unfolding pack_completed_set by auto
  show "set (cp_Completed (accumulate plan result headSHA prior)) =
      (case prior of Some p \<Rightarrow> set (cp_Completed p) - {[]} | None \<Rightarrow> {}) \<union> set (concat (map pack_completed (rs_Events result)))"
    using nonempty
    by (auto simp: accumulate_def Let_def MergePacks_def BuildPackFromRun_def dedupeSorted_set split: option.split)
qed (simp_all add: accumulate_def Let_def MergePacks_def BuildPackFromRun_def remainingObjective_def dedupeSorted_set
    split: option.split)

section \<open>Corner cases\<close>

text \<open>A controller with a workspace hook and a database whose world is the log of the states its workspace
  was put in; every run on an engine gives the result \<open>run\<close> names for it.\<close>

definition logging_controller :: "(string \<Rightarrow> (string, RunResult) result) \<Rightarrow> string list controller" where
  "logging_controller run =
     \<lparr>fc_run = (\<lambda>req _ w. (run (rq_Engine req), w)), fc_jitter = 0, fc_rand = (\<lambda>w. (0, w)), fc_quota = None,
      fc_hook = Some \<lparr>wh_Checkpoint = (\<lambda>_ _ _ w. (Inr ''c1'', w)), wh_SetState = (\<lambda>_ s w. w @ [s]), wh_HeadSHA = (\<lambda>_ _. ''c1'')\<rparr>,
      fc_writePack = Some (\<lambda>_ _ _ w. (Inr ''pack'', w)), fc_audit = (\<lambda>_ _ _ w. w), fc_sleep = (\<lambda>_ w. w),
      fc_ctxErr = (\<lambda>_. None)\<rparr>"

definition quota_exhausted :: RunResult where
  "quota_exhausted = run_result \<lparr>hn_RunID = ''r'', hn_SessionID = ''s'', hn_Engine = ''e''\<rparr> (timeout_event '''' \<lparr>re_Failure := Some \<lparr>fp_Class = FailureProviderQuota, fp_Reason = '''', fp_ExitCode = 1\<rparr>\<rparr>) []"

definition three_routes :: "int \<Rightarrow> FailoverPlan" where
  "three_routes hops =
     \<lparr>pn_WorkspaceID = ''ws'', pn_WorkspacePath = ''/ws'', pn_Primary = \<lparr>ru_Engine = ''a'', ru_Model = ''m'', ru_Account = ''x''\<rparr>,
      pn_Fallbacks = [\<lparr>ru_Engine = ''b'', ru_Model = ''m'', ru_Account = ''x''\<rparr>, \<lparr>ru_Engine = ''c'', ru_Model = ''m'', ru_Account = ''x''\<rparr>],
      pn_Prompt = ''do it'', pn_Scope = [], pn_TurnLimit = 0, pn_Timeout = 0, pn_SpecHash = '''', pn_BaseSHA = '''',
      pn_ArtifactsDir = '''', pn_MaxFailoverHops = hops\<rparr>"

definition disposition :: "(failover_error, FailoverOutcome) result \<times> 'w \<Rightarrow> (string list \<times> bool list) option \<times> 'w" where
  "disposition r =
     (case r of
        (Inr out, w) \<Rightarrow> (Some (map (\<lambda>a. ru_Engine (ar_Route a)) (fo_Attempts out),
            [fo_Success out, fo_ParkedWaitingQuota out, fo_Quarantined out, fo_TerminalFailure out \<noteq> None]), w)
      | (Inl _, w) \<Rightarrow> (None, w))"

text \<open>With every route out of quota the last one quarantines the work. Under a hop limit of one the run stops
  after the second route with no disposition at all, and leaves the workspace active.\<close>

lemma hop_limit_without_disposition:
  "disposition (FailoverController_Run (logging_controller (\<lambda>_. Inr quota_exhausted)) (three_routes 0) []) =
     (Some ([''a'', ''b'', ''c''], [False, False, True, False]), [''active'', ''active'', ''active'', ''quarantined''])"
  "disposition (FailoverController_Run (logging_controller (\<lambda>_. Inr quota_exhausted)) (three_routes 1) []) =
     (Some ([''a'', ''b''], [False, False, False, False]), [''active'', ''active''])"
  by code_simp+

theorem failover_outcome_told_witness:
  "\<exists>out. fst (FailoverController_Run (logging_controller (\<lambda>_. Inr quota_exhausted)) (three_routes 0) []) = Inr out \<and>
     fo_Quarantined out \<and> \<not> fo_Success out \<and> length (fo_Attempts out) = 3"
proof -
  let ?r = "fst (FailoverController_Run (logging_controller (\<lambda>_. Inr quota_exhausted)) (three_routes 0) [])"
  have "case ?r of Inl _ \<Rightarrow> False | Inr out \<Rightarrow>
      fo_Quarantined out \<and> length (fo_Attempts out) = 3 \<and> ar_Outcome (last (fo_Attempts out)) = ''failed''"
    by code_simp
  then obtain out where out: "?r = Inr out" "fo_Quarantined out" "length (fo_Attempts out) = 3"
      "ar_Outcome (last (fo_Attempts out)) = ''failed''" by (auto split: sum.splits)
  have "pn_MaxFailoverHops (three_routes 0) = 0" by (simp add: three_routes_def)
  with failover_outcome_told [OF disjI1 out(1)] out show ?thesis by (simp add: Let_def)
qed

text \<open>A run that the recovery pauses, because its engine is not installed, ends without a disposition too: it has no
  terminal failure, though its workspace is put in the state \<^verbatim>\<open>failed\<close>.\<close>

lemma pause_without_disposition:
  "disposition (FailoverController_Run (logging_controller (\<lambda>_. Inr (run_result \<lparr>hn_RunID = ''r'', hn_SessionID = ''s'', hn_Engine = ''e''\<rparr>
       (timeout_event '''' \<lparr>re_Failure := Some \<lparr>fp_Class = FailureEngineNotInstalled, fp_Reason = '''', fp_ExitCode = 1\<rparr>\<rparr>) [])))
     (three_routes 0) []) =
     (Some ([''a''], [False, False, False, False]), [''failed''])"
  by code_simp

text \<open>A run that cannot start goes on to the next route whatever the hop limit is.\<close>

lemma start_failures_ignore_hop_limit:
  "disposition (FailoverController_Run (logging_controller (\<lambda>_. Inl ''no engine'')) (three_routes 1) []) =
     (Some ([''a'', ''b'', ''c''], [False, False, True, False]), [''quarantined''])"
  by code_simp

text \<open>Without a workspace hook the first provider failure panics.\<close>

lemma no_hook_panics:
  "fst (FailoverController_Run ((logging_controller (\<lambda>_. Inr quota_exhausted))\<lparr>fc_hook := None\<rparr>) (three_routes 0) []) =
     Inl NilPackDereference"
  by code_simp

text \<open>The retries of a route are counted over all failure classes: after two timeouts a crash is not
  retried, although its own budget is untouched.\<close>

lemma retry_budget_shared:
  "rd_Action (RecoveryClassifier_Classify 0 0 \<lparr>ri_Failure = DefaultPolicy FailureEngineCrash, ri_AttemptsUsed = 2,
     ri_FallbacksAvailable = False, ri_AnyRouteAvailable = True\<rparr>) = ActionQuarantine"
  by code_simp

end
