(* ===== verification/Workspaces.thy ===== *)
theory Workspaces
  imports Task_Compiler
begin

text \<open>
  The workspace manager, \<^verbatim>\<open>src/internal/workspace/\<close>, over the tables of \<^verbatim>\<open>src/internal/storage/workspaces.go\<close>
  and \<^verbatim>\<open>checkpoints.go\<close>. The git binary and the file system are parameters that act on an abstract
  repository \<open>'g\<close>; every call of git goes through the allowlist of \<open>gitRunner.run\<close>, as in the source. A
  workspace is its row: the timestamps stay the text that is stored. An operation reads the clock once.
  The audit recorder is configured; the log lines are not modelled.
\<close>

section \<open>Operations that may fail\<close>

text \<open>An operation on a state \<open>'s\<close> and its sequential composition: an error ends it, and what was done before
  stays done.\<close>

type_synonym ('s, 'e, 'a) op = "'s \<Rightarrow> ('e, 'a) result \<times> 's"

definition ok_op :: "'a \<Rightarrow> ('s, 'e, 'a) op" where
  "ok_op x s = (Inr x, s)"

definition fail_op :: "'e \<Rightarrow> ('s, 'e, 'a) op" where
  "fail_op e s = (Inl e, s)"

definition andthen :: "('s, 'e, 'a) op \<Rightarrow> ('a \<Rightarrow> ('s, 'e, 'b) op) \<Rightarrow> ('s, 'e, 'b) op" where
  "andthen m k s = (case m s of (Inl e, s1) \<Rightarrow> (Inl e, s1) | (Inr x, s1) \<Rightarrow> k x s1)"

text \<open>A call whose error is inspected, and a call whose error is dropped.\<close>

definition attempt_op :: "('s, 'e, 'a) op \<Rightarrow> (('e, 'a) result \<Rightarrow> ('s, 'e, 'b) op) \<Rightarrow> ('s, 'e, 'b) op" where
  "attempt_op m k s = (case m s of (r, s1) \<Rightarrow> k r s1)"

definition ignore_op :: "('s, 'e, 'a) op \<Rightarrow> ('s, 'e, unit) op" where
  "ignore_op m s = (Inr (), snd (m s))"

section \<open>Git\<close>

definition forbiddenGitSubcommands :: "(string \<times> string) list" where
  "forbiddenGitSubcommands =
     [(''push'', ''git push is forbidden in LOCAL_REVIEW (AC-7, '' @ [CHR 0xC2, CHR 0xA7] @ ''36.13)''),
      (''fetch'', ''git fetch is a network operation forbidden in LOCAL_REVIEW (AC-7)''),
      (''pull'', ''git pull is a network operation forbidden in LOCAL_REVIEW (AC-7)''),
      (''clone'', ''git clone is a network operation forbidden in LOCAL_REVIEW (AC-7)''),
      (''ls-remote'', ''git ls-remote is a network operation forbidden in LOCAL_REVIEW (AC-7)''),
      (''send-pack'', ''git send-pack is a network operation forbidden in LOCAL_REVIEW (AC-7)''),
      (''fetch-pack'', ''git fetch-pack is a network operation forbidden in LOCAL_REVIEW (AC-7)''),
      (''archive'', ''git archive over a remote is forbidden (AC-7)'')]"

definition allowedGitSubcommands :: "string list" where
  "allowedGitSubcommands =
     [''worktree'', ''rev-parse'', ''rev-list'', ''add'', ''commit'', ''branch'', ''diff'', ''log'', ''status'', ''show'',
      ''format-patch'', ''checkout'', ''symbolic-ref'', ''config'', ''check-ref-format'', ''stash'', ''merge-tree'',
      ''cat-file'', ''update-ref'', ''for-each-ref'', ''-C'']"

datatype ws_error =
    WsInvalid string
  | WsNotFound
  | WsDb db_error
  | GitNoArguments
  | GitNetworkForbidden string
  | GitNotAllowed string
  | GitFailed string
  | IllegalRecovery string string
  | WsResultRefConflict string string string
  | WorktreeMissing string

text \<open>The environment: the git binary, with the directory and the arguments, whose failure carries the text of
  the error; the test for a worktree; the creation of a directory; the root of the workspaces.\<close>

record 'g git_env =
  ge_git :: "string \<Rightarrow> string list \<Rightarrow> ('g, string, string) op"
  ge_isWorktree :: "string \<Rightarrow> 'g \<Rightarrow> bool"
  ge_mkdir :: "string \<Rightarrow> ('g, string, unit) op"
  ge_root :: string

definition gitRunner_run :: "'g git_env \<Rightarrow> string \<Rightarrow> string list \<Rightarrow> ('g, ws_error, string) op" where
  "gitRunner_run env dir args g =
     (case args of
        [] \<Rightarrow> (Inl GitNoArguments, g)
      | sub # _ \<Rightarrow>
          (case map_of forbiddenGitSubcommands sub of
             Some reason \<Rightarrow> (Inl (GitNetworkForbidden reason), g)
           | None \<Rightarrow>
               if sub \<notin> set allowedGitSubcommands then (Inl (GitNotAllowed sub), g)
               else (case ge_git env dir args g of
                       (Inl e, g1) \<Rightarrow> (Inl (GitFailed e), g1)
                     | (Inr out, g1) \<Rightarrow> (Inr out, g1))))"

section \<open>Names\<close>

definition invalid_branch_char :: "char \<Rightarrow> bool" where
  "invalid_branch_char c \<longleftrightarrow>
     c \<in> {CHR 0x09, CHR 0x0A, CHR 0x0C, CHR 0x0D, CHR '' '', CHR ''~'', CHR ''^'', CHR '':'', CHR ''?'', CHR ''*'', CHR ''['', CHR 0x5C}"

definition strings_Trim :: "string \<Rightarrow> string \<Rightarrow> string" where
  "strings_Trim cs s = rev (dropWhile (\<lambda>c. c \<in> set cs) (rev (dropWhile (\<lambda>c. c \<in> set cs) s)))"

definition sanitizeBranchSegment :: "string \<Rightarrow> string" where
  "sanitizeBranchSegment s =
     (let s1 = strings_Trim ''/.-'' (map (\<lambda>c. if invalid_branch_char c then CHR ''-'' else c) s)
      in if s1 = '''' then ''x'' else s1)"

definition AttemptBranch :: "string \<Rightarrow> string \<Rightarrow> nat \<Rightarrow> string" where
  "AttemptBranch taskID workPackageID n =
     ''forge/'' @ sanitizeBranchSegment taskID @ ''/'' @ sanitizeBranchSegment workPackageID @ ''/attempt-'' @ show_nat n"

definition ResultBranch :: "string \<Rightarrow> string" where
  "ResultBranch taskID = ''forge/result/'' @ sanitizeBranchSegment taskID"

definition FullyQualifiedResultBranch :: "string \<Rightarrow> string" where
  "FullyQualifiedResultBranch taskID = ''refs/heads/forge/result/'' @ sanitizeBranchSegment taskID"

definition WorkspaceID :: "string \<Rightarrow> string \<Rightarrow> nat \<Rightarrow> string" where
  "WorkspaceID taskID workPackageID n =
     ''ws-'' @ sanitizeBranchSegment taskID @ ''-'' @ sanitizeBranchSegment workPackageID @ ''-'' @ show_nat n"

definition WorktreePath :: "string \<Rightarrow> string \<Rightarrow> string \<Rightarrow> string \<Rightarrow> nat \<Rightarrow> string" where
  "WorktreePath base projectID taskID workPackageID n =
     base @ ''/workspaces/'' @ sanitizeBranchSegment projectID @ ''/'' @ sanitizeBranchSegment taskID @ ''/''
     @ sanitizeBranchSegment workPackageID @ ''/attempt-'' @ show_nat n"

section \<open>Tables\<close>

abbreviation (input) WsPending :: string where "WsPending \<equiv> ''pending''"
abbreviation (input) WsActive :: string where "WsActive \<equiv> ''active''"
abbreviation (input) WsCompleted :: string where "WsCompleted \<equiv> ''completed''"
abbreviation (input) WsKept :: string where "WsKept \<equiv> ''kept''"
abbreviation (input) WsRejected :: string where "WsRejected \<equiv> ''rejected''"
abbreviation (input) WsFailed :: string where "WsFailed \<equiv> ''failed''"
abbreviation (input) WsCancelled :: string where "WsCancelled \<equiv> ''cancelled''"
abbreviation (input) WsTimedOut :: string where "WsTimedOut \<equiv> ''timed_out''"
abbreviation (input) WsWaitingQuota :: string where "WsWaitingQuota \<equiv> ''waiting_quota''"
abbreviation (input) WsQuarantined :: string where "WsQuarantined \<equiv> ''quarantined''"
abbreviation (input) WsDeleted :: string where "WsDeleted \<equiv> ''deleted''"

record workspace =
  ws_ID :: string
  ws_ProjectID :: string
  ws_TaskID :: string
  ws_WorkPackageID :: string
  ws_Attempt :: nat
  ws_Kind :: string
  ws_Path :: string
  ws_Branch :: string
  ws_ResultBranch :: string
  ws_BaseSHA :: string
  ws_HeadSHA :: string
  ws_ResultSHA :: string
  ws_State :: string
  ws_Engine :: string
  ws_Model :: string
  ws_RunID :: string
  ws_SessionID :: string
  ws_CreatedAt :: string
  ws_UpdatedAt :: string

record checkpoint_row =
  ck_ID :: nat
  ck_WorkspaceID :: string
  ck_CommitSHA :: string
  ck_Moment :: string
  ck_Message :: string
  ck_CreatedAt :: string

text \<open>The finalize intents, \<^verbatim>\<open>src/internal/storage/finalize_intent.go\<close>; the JSON text of the changed files is the
  list that is encoded.\<close>

abbreviation (input) PhasePending :: string where "PhasePending \<equiv> ''pending''"
abbreviation (input) PhaseRefReady :: string where "PhaseRefReady \<equiv> ''ref_ready''"

record FinalizeIntent =
  it_WorkspaceID :: string
  it_TaskID :: string
  it_Outcome :: string
  it_RunTerminal :: string
  it_RunID :: string
  it_Engine :: string
  it_Model :: string
  it_BaseSHA :: string
  it_ActualHeadSHA :: string
  it_ExpectedRefSHA :: string
  it_ResultBranch :: string
  it_CommitSHA :: string
  it_GitStatusEmpty :: bool
  it_ChangedFiles :: "string list"
  it_TargetWSState :: string
  it_TargetTaskState :: string
  it_Phase :: string
  it_CreatedAt :: string
  it_UpdatedAt :: string

text \<open>The state: the database, the three tables with the \<^verbatim>\<open>AUTOINCREMENT\<close> counter of the checkpoints, and the
  repository.\<close>

record 'g wsys =
  wy_db :: db
  wy_rows :: "workspace list"
  wy_checkpoints :: "checkpoint_row list"
  wy_ck_seq :: nat
  wy_intents :: "FinalizeIntent list"
  wy_git :: 'g

type_synonym ('g, 'a) wop = "('g wsys, ws_error, 'a) op"

definition createWorkspace :: "workspace \<Rightarrow> ('g, unit) wop" where
  "createWorkspace r s =
     (if ws_ID r \<in> ws_ID ` set (wy_rows s) \<or> ws_ProjectID r \<notin> pj_id ` set (db_projects (wy_db s))
         \<or> ws_TaskID r \<notin> tk_id ` set (db_tasks (wy_db s))
      then (Inl (WsDb ConstraintViolation), s)
      else (Inr (), s\<lparr>wy_rows := wy_rows s @ [r]\<rparr>))"

definition Manager_Get :: "string \<Rightarrow> ('g, workspace) wop" where
  "Manager_Get i s = (case find (\<lambda>r. ws_ID r = i) (wy_rows s) of None \<Rightarrow> (Inl WsNotFound, s) | Some r \<Rightarrow> (Inr r, s))"

definition ListWorkspacesByTask :: "'g wsys \<Rightarrow> string \<Rightarrow> workspace list" where
  "ListWorkspacesByTask s taskID = sort_key ws_CreatedAt (filter (\<lambda>r. ws_TaskID r = taskID) (wy_rows s))"

definition ListWorkspacesByProject :: "'g wsys \<Rightarrow> string \<Rightarrow> workspace list" where
  "ListWorkspacesByProject s projectID = sort_key ws_CreatedAt (filter (\<lambda>r. ws_ProjectID r = projectID) (wy_rows s))"

definition ListAllWorkspaces :: "'g wsys \<Rightarrow> workspace list" where
  "ListAllWorkspaces s = sort_key ws_CreatedAt (wy_rows s)"

definition update_row :: "string \<Rightarrow> (workspace \<Rightarrow> workspace) \<Rightarrow> ('g, unit) wop" where
  "update_row i f s =
     (if count_where (\<lambda>r. ws_ID r = i) (wy_rows s) = 0 then (Inl WsNotFound, s)
      else (Inr (), s\<lparr>wy_rows := update_where (\<lambda>r. ws_ID r = i) f (wy_rows s)\<rparr>))"

definition UpdateWorkspaceState :: "string \<Rightarrow> string \<Rightarrow> string \<Rightarrow> string \<Rightarrow> string \<Rightarrow> string \<Rightarrow> ('g, unit) wop" where
  "UpdateWorkspaceState i state headSHA runID sessionID updatedAt =
     update_row i (\<lambda>r. r\<lparr>ws_State := state, ws_HeadSHA := headSHA, ws_RunID := runID, ws_SessionID := sessionID,
       ws_UpdatedAt := updatedAt\<rparr>)"

definition SetWorkspaceResult :: "string \<Rightarrow> string \<Rightarrow> string \<Rightarrow> string \<Rightarrow> ('g, unit) wop" where
  "SetWorkspaceResult i resultBranch resultSHA updatedAt =
     update_row i (\<lambda>r. r\<lparr>ws_ResultBranch := resultBranch, ws_ResultSHA := resultSHA, ws_UpdatedAt := updatedAt\<rparr>)"

definition DeleteWorkspace :: "string \<Rightarrow> ('g, unit) wop" where
  "DeleteWorkspace i s =
     (if count_where (\<lambda>r. ws_ID r = i) (wy_rows s) = 0 then (Inl WsNotFound, s)
      else (Inr (), s\<lparr>wy_rows := filter (\<lambda>r. ws_ID r \<noteq> i) (wy_rows s),
             wy_checkpoints := filter (\<lambda>c. ck_WorkspaceID c \<noteq> i) (wy_checkpoints s),
             wy_intents := filter (\<lambda>it. it_WorkspaceID it \<noteq> i) (wy_intents s)\<rparr>))"

definition createCheckpoint :: "string \<Rightarrow> string \<Rightarrow> string \<Rightarrow> string \<Rightarrow> string \<Rightarrow> ('g, unit) wop" where
  "createCheckpoint i sha moment message ts s =
     (if i \<notin> ws_ID ` set (wy_rows s) then (Inl (WsDb ConstraintViolation), s)
      else (Inr (), s\<lparr>wy_checkpoints := wy_checkpoints s @ [\<lparr>ck_ID = Suc (wy_ck_seq s), ck_WorkspaceID = i, ck_CommitSHA = sha,
             ck_Moment = moment, ck_Message = message, ck_CreatedAt = ts\<rparr>], wy_ck_seq := Suc (wy_ck_seq s)\<rparr>))"

definition Manager_ListCheckpoints :: "'g wsys \<Rightarrow> string \<Rightarrow> checkpoint_row list" where
  "Manager_ListCheckpoints s i = sort_key ck_ID (filter (\<lambda>c. ck_WorkspaceID c = i) (wy_checkpoints s))"

definition upsertFinalizeIntent :: "FinalizeIntent \<Rightarrow> ('g, unit) wop" where
  "upsertFinalizeIntent it s =
     (if it_WorkspaceID it \<notin> ws_ID ` set (wy_rows s) then (Inl (WsDb ConstraintViolation), s)
      else if it_WorkspaceID it \<in> it_WorkspaceID ` set (wy_intents s)
      then (Inr (), s\<lparr>wy_intents := update_where (\<lambda>r. it_WorkspaceID r = it_WorkspaceID it)
             (\<lambda>r. it\<lparr>it_CreatedAt := it_CreatedAt r\<rparr>) (wy_intents s)\<rparr>)
      else (Inr (), s\<lparr>wy_intents := wy_intents s @ [it]\<rparr>))"

definition GetFinalizeIntent :: "'g wsys \<Rightarrow> string \<Rightarrow> FinalizeIntent option" where
  "GetFinalizeIntent s i = find (\<lambda>r. it_WorkspaceID r = i) (wy_intents s)"

definition ListFinalizeIntents :: "'g wsys \<Rightarrow> FinalizeIntent list" where
  "ListFinalizeIntents s = sort_key it_CreatedAt (wy_intents s)"

definition DeleteFinalizeIntent :: "string \<Rightarrow> 'g wsys \<Rightarrow> 'g wsys" where
  "DeleteFinalizeIntent i s = s\<lparr>wy_intents := filter (\<lambda>r. it_WorkspaceID r \<noteq> i) (wy_intents s)\<rparr>"

section \<open>Helpers of the manager\<close>

definition git :: "'g git_env \<Rightarrow> string \<Rightarrow> string list \<Rightarrow> ('g, string) wop" where
  "git env dir args s = (case gitRunner_run env dir args (wy_git s) of (r, g) \<Rightarrow> (r, s\<lparr>wy_git := g\<rparr>))"

definition git_trim :: "'g git_env \<Rightarrow> string \<Rightarrow> string list \<Rightarrow> ('g, string) wop" where
  "git_trim env dir args = andthen (git env dir args) (\<lambda>out. ok_op (TrimSpace out))"

definition ws_audit :: "time \<Rightarrow> string \<Rightarrow> string \<Rightarrow> payload \<Rightarrow> ('g, unit) wop" where
  "ws_audit now i typ p s =
     (case recordInto (wy_db s) now \<lparr>ae_id = 0, ae_ts = '''', ae_scope = ''task'', ae_scope_id = i, ae_type = typ,
         ae_actor = ''daemon'', ae_payload = p\<rparr> of
        Inl e \<Rightarrow> (Inl (WsDb e), s)
      | Inr d \<Rightarrow> (Inr (), s\<lparr>wy_db := d\<rparr>))"

text \<open>A transaction: an error takes back what it did to the tables.\<close>

definition in_tx :: "('g, 'a) wop \<Rightarrow> ('g, 'a) wop" where
  "in_tx m s = (case m s of (Inl e, s1) \<Rightarrow> (Inl e, s\<lparr>wy_git := wy_git s1\<rparr>) | (Inr x, s1) \<Rightarrow> (Inr x, s1))"

definition nextAttempt :: "'g wsys \<Rightarrow> string \<Rightarrow> string \<Rightarrow> nat" where
  "nextAttempt s taskID wpID =
     foldr max (map ws_Attempt (filter (\<lambda>r. ws_WorkPackageID r = wpID) (ListWorkspacesByTask s taskID))) 0 + 1"

definition validateBaseRef :: "'g git_env \<Rightarrow> string \<Rightarrow> string \<Rightarrow> ('g, unit) wop" where
  "validateBaseRef env dir ref =
     (if prefix ''-'' ref then fail_op (WsInvalid ''base branch must not begin with a dash'')
      else attempt_op (git env dir [''check-ref-format'', ''--branch'', ref]) (\<lambda>r.
        if is_ok r then ok_op ()
        else attempt_op (git env dir [''rev-parse'', ''--verify'', ''--quiet'', ref @ ''^{commit}'']) (\<lambda>r2.
          if is_ok r2 then ok_op () else fail_op (WsInvalid ''not a valid branch name or commit''))))"

definition updateState :: "time \<Rightarrow> string \<Rightarrow> string \<Rightarrow> string \<Rightarrow> string \<Rightarrow> string \<Rightarrow> ('g, unit) wop" where
  "updateState now i state headSHA runID sessionID = UpdateWorkspaceState i state headSHA runID sessionID (rfc3339nano now)"

definition resolveCommonDir :: "'g git_env \<Rightarrow> string \<Rightarrow> ('g, string) wop" where
  "resolveCommonDir env dir =
     attempt_op (git env dir [''rev-parse'', ''--git-common-dir'']) (\<lambda>r.
       case r of
         Inl _ \<Rightarrow> ok_op dir
       | Inr out \<Rightarrow> ok_op (if TrimSpace out = '''' then dir else TrimSpace out))"

section \<open>Creation and run information\<close>

record CreateRequest =
  cq_ProjectID :: string
  cq_ProjectPath :: string
  cq_TaskID :: string
  cq_WorkPackageID :: string
  cq_BaseBranch :: string

definition resolve_base :: "'g git_env \<Rightarrow> CreateRequest \<Rightarrow> ('g, string) wop" where
  "resolve_base env req =
     (if cq_BaseBranch req = '''' then git_trim env (cq_ProjectPath req) [''rev-parse'', ''HEAD'']
      else andthen (validateBaseRef env (cq_ProjectPath req) (cq_BaseBranch req)) (\<lambda>_. ok_op (cq_BaseBranch req)))"

definition new_workspace :: "'g git_env \<Rightarrow> time \<Rightarrow> CreateRequest \<Rightarrow> string \<Rightarrow> nat \<Rightarrow> string \<Rightarrow> workspace" where
  "new_workspace env now req wpID n baseSHA =
     \<lparr>ws_ID = WorkspaceID (cq_TaskID req) wpID n, ws_ProjectID = cq_ProjectID req, ws_TaskID = cq_TaskID req,
      ws_WorkPackageID = wpID, ws_Attempt = n, ws_Kind = ''attempt'',
      ws_Path = WorktreePath (ge_root env) (cq_ProjectID req) (cq_TaskID req) wpID n,
      ws_Branch = AttemptBranch (cq_TaskID req) wpID n, ws_ResultBranch = '''', ws_BaseSHA = baseSHA, ws_HeadSHA = '''',
      ws_ResultSHA = '''', ws_State = WsPending, ws_Engine = '''', ws_Model = '''', ws_RunID = '''', ws_SessionID = '''',
      ws_CreatedAt = rfc3339nano now, ws_UpdatedAt = rfc3339nano now\<rparr>"

definition mkdir_op :: "'g git_env \<Rightarrow> string \<Rightarrow> ('g, unit) wop" where
  "mkdir_op env path s =
     (case ge_mkdir env path (wy_git s) of
        (Inl e, g) \<Rightarrow> (Inl (WsInvalid e), s\<lparr>wy_git := g\<rparr>)
      | (Inr _, g) \<Rightarrow> (Inr (), s\<lparr>wy_git := g\<rparr>))"

definition Manager_Create :: "'g git_env \<Rightarrow> time \<Rightarrow> CreateRequest \<Rightarrow> ('g, workspace) wop" where
  "Manager_Create env now req s =
     (if cq_ProjectPath req = '''' then fail_op (WsInvalid ''project path is required'') s
      else if cq_TaskID req = '''' then fail_op (WsInvalid ''task id is required'') s
      else
        (let wpID = (if cq_WorkPackageID req = '''' then ''main'' else cq_WorkPackageID req);
             n = nextAttempt s (cq_TaskID req) wpID
         in andthen (resolve_base env req) (\<lambda>baseRef.
            andthen (git_trim env (cq_ProjectPath req) [''rev-parse'', baseRef]) (\<lambda>baseSHA.
            (let ws = new_workspace env now req wpID n baseSHA
             in andthen (in_tx (andthen (createWorkspace ws) (\<lambda>_.
                  ws_audit now (ws_ID ws) ''workspace.create_started''
                    (PObj [(''task'', PStr (ws_TaskID ws)), (''branch'', PStr (ws_Branch ws)), (''base_sha'', PStr baseSHA)])))) (\<lambda>_.
                andthen (mkdir_op env (ws_Path ws)) (\<lambda>_.
                attempt_op (git env (cq_ProjectPath req) [''worktree'', ''add'', ''-b'', ws_Branch ws, ws_Path ws, baseRef]) (\<lambda>r.
                  case r of
                    Inl e \<Rightarrow> andthen (ignore_op (updateState now (ws_ID ws) WsFailed '''' '''' '''')) (\<lambda>_. fail_op e)
                  | Inr _ \<Rightarrow>
                      andthen (git_trim env (ws_Path ws) [''rev-parse'', ''HEAD'']) (\<lambda>headSHA.
                      andthen (updateState now (ws_ID ws) WsActive headSHA '''' '''') (\<lambda>_.
                      andthen (ignore_op (ws_audit now (ws_ID ws) ''workspace.created''
                        (PObj [(''path'', PStr (ws_Path ws)), (''branch'', PStr (ws_Branch ws)), (''head_sha'', PStr headSHA)]))) (\<lambda>_.
                      ok_op (ws\<lparr>ws_HeadSHA := headSHA, ws_State := WsActive\<rparr>))))))))))
            s))"

definition SetRunInfo :: "time \<Rightarrow> string \<Rightarrow> string \<Rightarrow> string \<Rightarrow> string \<Rightarrow> string \<Rightarrow> ('g, unit) wop" where
  "SetRunInfo now i engine model runID sessionID =
     andthen (Manager_Get i) (\<lambda>ws.
     in_tx (andthen (UpdateWorkspaceState i (ws_State ws) (ws_HeadSHA ws) runID sessionID (rfc3339nano now)) (\<lambda>_.
       andthen (update_row i (\<lambda>r. r\<lparr>ws_Engine := engine, ws_Model := model\<rparr>)) (\<lambda>_.
       ws_audit now i ''workspace.run_started''
         (PObj [(''engine'', PStr engine), (''model'', PStr model), (''run_id'', PStr runID), (''session_id'', PStr sessionID)])))))"

definition WorktreeFingerprint :: "'g git_env \<Rightarrow> string \<Rightarrow> ('g, string) wop" where
  "WorktreeFingerprint env path =
     andthen (git env path [''rev-parse'', ''HEAD'']) (\<lambda>head.
     andthen (git env path [''status'', ''--porcelain'']) (\<lambda>status.
     ok_op (TrimSpace head @ [CHR 0x0A] @ status)))"

section \<open>Inspection\<close>

record Inspection =
  in_ActualHEAD :: string
  in_StatusPorcelain :: string
  in_DiffStat :: string
  in_WorkingDiffStat :: string
  in_ChangedFiles :: "string list"

definition no_inspection :: Inspection where
  "no_inspection = \<lparr>in_ActualHEAD = '''', in_StatusPorcelain = '''', in_DiffStat = '''', in_WorkingDiffStat = '''', in_ChangedFiles = []\<rparr>"

definition unquoteGitPath :: "string \<Rightarrow> string" where
  "unquoteGitPath p =
     (if 2 \<le> length p \<and> hd p = CHR 0x22 \<and> last p = CHR 0x22 then butlast (tl p) else p)"

text \<open>\<^verbatim>\<open>strings.Cut(s, " -> ")\<close>.\<close>

fun cut_arrow :: "string \<Rightarrow> (string \<times> string) option" where
  "cut_arrow [] = None"
| "cut_arrow (c # s) =
     (if prefix '' -> '' (c # s) then Some ([], drop 4 (c # s))
      else map_option (\<lambda>(before, rest). (c # before, rest)) (cut_arrow s))"

definition status_paths :: "string \<Rightarrow> string list" where
  "status_paths line =
     (if length line < 4 then []
      else
        (let path = unquoteGitPath (TrimSpace (drop 3 line))
         in if path = '''' then []
            else case cut_arrow path of Some (before, rest) \<Rightarrow> [before, rest] | None \<Rightarrow> [path]))"

definition nonblank_lines :: "string \<Rightarrow> string list" where
  "nonblank_lines out = filter (\<lambda>l. l \<noteq> '''') (map TrimSpace (split_lines out))"

definition computeChangedFiles :: "'g git_env \<Rightarrow> string \<Rightarrow> string \<Rightarrow> string \<Rightarrow> ('g, string list) wop" where
  "computeChangedFiles env dir baseSHA statusPorcelain =
     (let dirty = concat (map status_paths (split_lines statusPorcelain))
      in if baseSHA = '''' then ok_op (sort (remdups dirty))
         else attempt_op (git env dir [''diff'', ''--name-only'', baseSHA @ ''...HEAD'']) (\<lambda>r.
           ok_op (sort (remdups ((case r of Inl _ \<Rightarrow> [] | Inr out \<Rightarrow> nonblank_lines out) @ dirty)))))"

definition output_or_empty :: "('e, string) result \<Rightarrow> string" where
  "output_or_empty r = (case r of Inl _ \<Rightarrow> '''' | Inr out \<Rightarrow> out)"

definition InspectWorktree :: "'g git_env \<Rightarrow> workspace \<Rightarrow> ('g, Inspection) wop" where
  "InspectWorktree env ws s =
     (let path = ws_Path ws
      in if path = '''' then fail_op (WsInvalid ''cannot inspect worktree with empty path'') s
         else if \<not> ge_isWorktree env path (wy_git s) then fail_op (WorktreeMissing path) s
         else
           andthen (git_trim env path [''rev-parse'', ''HEAD'']) (\<lambda>actualHEAD.
           andthen (git env path [''status'', ''--porcelain'']) (\<lambda>status.
           attempt_op (if ws_BaseSHA ws = '''' then ok_op '''' else git env path [''diff'', ''--stat'', ws_BaseSHA ws @ ''...HEAD'']) (\<lambda>stat.
           attempt_op (git env path [''diff'', ''--stat'']) (\<lambda>working.
           andthen (computeChangedFiles env path (ws_BaseSHA ws) status) (\<lambda>changed.
           ok_op \<lparr>in_ActualHEAD = actualHEAD, in_StatusPorcelain = status, in_DiffStat = output_or_empty stat,
                  in_WorkingDiffStat = output_or_empty working, in_ChangedFiles = changed\<rparr>))))) s)"

section \<open>The result reference\<close>

text \<open>An error of git other than a process exit is returned; the text of a failed command is searched for
  \<^verbatim>\<open>exit\<close>.\<close>

definition ResolveResultRef :: "'g git_env \<Rightarrow> string \<Rightarrow> string \<Rightarrow> ('g, string) wop" where
  "ResolveResultRef env taskID dir =
     attempt_op (git env dir [''for-each-ref'', ''--format=%(objectname)'', FullyQualifiedResultBranch taskID]) (\<lambda>r.
       case r of
         Inr out \<Rightarrow> ok_op (TrimSpace out)
       | Inl (GitFailed e) \<Rightarrow> if sublist ''exit'' e then ok_op '''' else fail_op (GitFailed e)
       | Inl e \<Rightarrow> fail_op e)"

definition EnsureResultRef :: "'g git_env \<Rightarrow> workspace \<Rightarrow> string \<Rightarrow> ('g, string) wop" where
  "EnsureResultRef env ws headSHA =
     (let ref = FullyQualifiedResultBranch (ws_TaskID ws)
      in if ws_Path ws = '''' then fail_op (WsInvalid ''no worktree path for result ref'')
         else if headSHA = '''' then fail_op (WsInvalid ''headSHA is required for result ref'')
         else andthen (ResolveResultRef env (ws_TaskID ws) (ws_Path ws)) (\<lambda>existing.
           if existing \<noteq> '''' \<and> existing \<noteq> headSHA then fail_op (WsResultRefConflict ref existing headSHA)
           else if existing = headSHA then ok_op ref
           else andthen (resolveCommonDir env (ws_Path ws)) (\<lambda>commonDir.
                andthen (git env commonDir [''update-ref'', ref, headSHA]) (\<lambda>_. ok_op ref))))"

definition DeleteResultRef :: "'g git_env \<Rightarrow> workspace \<Rightarrow> ('g, unit) wop" where
  "DeleteResultRef env ws =
     (if ws_Path ws = '''' then fail_op (WsInvalid ''no worktree path for result ref delete'')
      else andthen (resolveCommonDir env (ws_Path ws)) (\<lambda>commonDir.
           andthen (git env commonDir [''update-ref'', ''-d'', FullyQualifiedResultBranch (ws_TaskID ws)]) (\<lambda>_. ok_op ())))"

section \<open>Checkpoints and commits\<close>

text \<open>Stage everything and tell whether there is something to commit.\<close>

definition stage_all :: "'g git_env \<Rightarrow> string \<Rightarrow> ('g, bool) wop" where
  "stage_all env path =
     andthen (git env path [''add'', ''-A'']) (\<lambda>_.
     attempt_op (git env path [''diff'', ''--cached'', ''--quiet'']) (\<lambda>r.
       if \<not> is_ok r then ok_op True
       else attempt_op (git env path [''status'', ''--porcelain'']) (\<lambda>st.
         ok_op (case st of Inr out \<Rightarrow> TrimSpace out \<noteq> '''' | Inl _ \<Rightarrow> False))))"

definition commit_all :: "'g git_env \<Rightarrow> string \<Rightarrow> string \<Rightarrow> ('g, string) wop" where
  "commit_all env path msg =
     andthen (git env path [''commit'', ''-m'', msg, ''--author=NeuroForge <neuroforge@local>'']) (\<lambda>_.
     git_trim env path [''rev-parse'', ''HEAD''])"

definition Manager_Checkpoint :: "'g git_env \<Rightarrow> time \<Rightarrow> string \<Rightarrow> string \<Rightarrow> string \<Rightarrow> ('g, string) wop" where
  "Manager_Checkpoint env now i moment message =
     andthen (Manager_Get i) (\<lambda>ws.
       if ws_State ws = WsDeleted \<or> ws_State ws = WsRejected then fail_op (WsInvalid ''cannot checkpoint'')
       else if ws_Path ws = '''' then fail_op (WsInvalid ''no worktree path'')
       else
         andthen (stage_all env (ws_Path ws)) (\<lambda>hasChanges.
         andthen (if hasChanges
                  then commit_all env (ws_Path ws) (''[neuroforge checkpoint] '' @ moment @ '': '' @ message)
                  else ok_op (ws_HeadSHA ws)) (\<lambda>commitSHA.
         andthen (in_tx (andthen (createCheckpoint i commitSHA moment message (rfc3339nano now)) (\<lambda>_.
           andthen (ignore_op (update_row i (\<lambda>r. r\<lparr>ws_HeadSHA := commitSHA, ws_UpdatedAt := rfc3339nano now\<rparr>))) (\<lambda>_.
           ws_audit now i ''workspace.checkpoint''
             (PObj [(''moment'', PStr moment), (''commit_sha'', PStr commitSHA), (''message'', PStr message),
                    (''had_changes'', PBool hasChanges)]))))) (\<lambda>_.
         ok_op commitSHA))))"

definition CommitWorktreeChanges :: "'g git_env \<Rightarrow> string \<Rightarrow> string \<Rightarrow> ('g, string \<times> bool) wop" where
  "CommitWorktreeChanges env i message =
     andthen (Manager_Get i) (\<lambda>ws s.
       (if ws_State ws = WsDeleted \<or> ws_State ws = WsRejected then fail_op (WsInvalid ''cannot commit'') s
        else if ws_Path ws = '''' then fail_op (WsInvalid ''no worktree path'') s
        else if \<not> ge_isWorktree env (ws_Path ws) (wy_git s) then fail_op (WsInvalid ''not a managed worktree; refusing to commit'') s
        else andthen (stage_all env (ws_Path ws)) (\<lambda>hasChanges.
          if hasChanges then andthen (commit_all env (ws_Path ws) message) (\<lambda>sha. ok_op (sha, True))
          else andthen (git_trim env (ws_Path ws) [''rev-parse'', ''HEAD'']) (\<lambda>sha. ok_op (sha, False))) s))"

section \<open>Recovery states\<close>

definition isAbsorbingTerminal :: "string \<Rightarrow> bool" where
  "isAbsorbingTerminal st \<longleftrightarrow> st \<in> set [WsCompleted, WsCancelled, WsTimedOut, WsKept, WsRejected, WsDeleted]"

definition allowedRecoveryTransition :: "string \<Rightarrow> string \<Rightarrow> bool" where
  "allowedRecoveryTransition from to =
     (if isAbsorbingTerminal from then False
      else if from = WsFailed then to = WsFailed
      else to \<in> set [WsWaitingQuota, WsQuarantined, WsActive, WsFailed])"

definition state_event :: "string \<Rightarrow> string \<Rightarrow> string \<times> payload" where
  "state_event from to =
     (if to = WsWaitingQuota
      then (''workspace.waiting_quota'', PObj [(''from'', PStr from), (''reason'', PStr ''all routes quota-exhausted'')])
      else if to = WsQuarantined
      then (''workspace.quarantined'', PObj [(''from'', PStr from), (''reason'', PStr ''unrecoverable failure; human review required'')])
      else if to = WsActive
      then (''workspace.resumed'', PObj [(''from'', PStr from), (''reason'', PStr ''route became available again'')])
      else (''workspace.state_changed'', PObj [(''from'', PStr from), (''to'', PStr to)]))"

definition Manager_SetState :: "time \<Rightarrow> string \<Rightarrow> string \<Rightarrow> ('g, workspace) wop" where
  "Manager_SetState now i target =
     andthen (Manager_Get i) (\<lambda>ws.
       if \<not> allowedRecoveryTransition (ws_State ws) target then fail_op (IllegalRecovery (ws_State ws) target)
       else
         andthen (updateState now i target (ws_HeadSHA ws) (ws_RunID ws) (ws_SessionID ws)) (\<lambda>_.
         (let (ev, p) = state_event (ws_State ws) target
          in andthen (ignore_op (ws_audit now i ev p)) (\<lambda>_. ok_op (ws\<lparr>ws_State := target\<rparr>)))))"

definition RetainCheckpoints :: "time \<Rightarrow> string \<Rightarrow> int \<Rightarrow> ('g, nat) wop" where
  "RetainCheckpoints now i keepMostRecent s =
     (if keepMostRecent \<le> 0 then (Inr 0, s)
      else
        (let cps = Manager_ListCheckpoints s i
         in if int (length cps) \<le> keepMostRecent then (Inr 0, s)
            else
              (let n = length cps - nat keepMostRecent;
                   gone = map ck_ID (take n cps);
                   s1 = s\<lparr>wy_checkpoints := filter (\<lambda>c. ck_ID c \<notin> set gone) (wy_checkpoints s)\<rparr>
               in andthen (ignore_op (ws_audit now i ''workspace.checkpoints_pruned''
                    (PObj [(''pruned'', PInt (int n)), (''kept'', PInt keepMostRecent), (''at'', PStr (rfc3339nano now))]))) (\<lambda>_. ok_op n) s1)))"

section \<open>Results and review\<close>

definition CreateResult :: "'g git_env \<Rightarrow> time \<Rightarrow> string \<Rightarrow> ('g, workspace) wop" where
  "CreateResult env now i =
     andthen (Manager_Get i) (\<lambda>ws.
       if ws_State ws = WsDeleted \<or> ws_State ws = WsRejected then fail_op (WsInvalid ''cannot create result'')
       else if ws_Path ws = '''' then fail_op (WsInvalid ''no worktree path'')
       else
         (let branch = ResultBranch (ws_TaskID ws)
          in andthen (git_trim env (ws_Path ws) [''rev-parse'', ''HEAD'']) (\<lambda>headSHA.
             andthen (resolveCommonDir env (ws_Path ws)) (\<lambda>commonDir.
             andthen (git env commonDir [''update-ref'', branch, headSHA]) (\<lambda>_.
             andthen (SetWorkspaceResult i branch headSHA (rfc3339nano now)) (\<lambda>_.
             andthen (updateState now i WsCompleted headSHA (ws_RunID ws) (ws_SessionID ws)) (\<lambda>_.
             andthen (ignore_op (ws_audit now i ''workspace.result_created''
               (PObj [(''result_branch'', PStr branch), (''result_sha'', PStr headSHA), (''base_sha'', PStr (ws_BaseSHA ws))]))) (\<lambda>_.
             ok_op (ws\<lparr>ws_ResultBranch := branch, ws_ResultSHA := headSHA, ws_State := WsCompleted, ws_HeadSHA := headSHA\<rparr>)))))))))"

definition Manager_Diff :: "'g git_env \<Rightarrow> string \<Rightarrow> ('g, string) wop" where
  "Manager_Diff env i =
     andthen (Manager_Get i) (\<lambda>ws.
       if ws_Path ws = '''' then fail_op (WsInvalid ''no worktree path'')
       else git env (ws_Path ws) [''diff'', ws_BaseSHA ws, ''HEAD''])"

definition ExportPatch :: "'g git_env \<Rightarrow> string \<Rightarrow> ('g, string) wop" where
  "ExportPatch env i =
     andthen (Manager_Get i) (\<lambda>ws.
       if ws_Path ws = '''' then fail_op (WsInvalid ''no worktree path'')
       else git env (ws_Path ws) [''format-patch'', ''--stdout'', ws_BaseSHA ws @ ''..HEAD''])"

definition deleteWorktree :: "'g git_env \<Rightarrow> workspace \<Rightarrow> ('g, unit) wop" where
  "deleteWorktree env ws =
     (if ws_Path ws = '''' then ok_op ()
      else
        andthen (resolveCommonDir env (ws_Path ws)) (\<lambda>dir.
        attempt_op (git env dir [''worktree'', ''remove'', ''--force'', ws_Path ws]) (\<lambda>r.
        andthen (if is_ok r then ok_op () else ignore_op (git env dir [''worktree'', ''prune''])) (\<lambda>_.
        andthen (if ws_Branch ws \<noteq> '''' then ignore_op (git env dir [''branch'', ''-D'', ws_Branch ws]) else ok_op ()) (\<lambda>_.
          if ws_ResultBranch ws \<noteq> '''' \<and> ws_ResultSHA ws \<noteq> ''''
          then attempt_op (git env dir [''rev-parse'', ws_ResultBranch ws]) (\<lambda>cur.
            if is_ok cur \<and> TrimSpace (output_or_empty cur) = ws_ResultSHA ws
            then ignore_op (git env dir [''branch'', ''-D'', ws_ResultBranch ws])
            else ok_op ())
          else ok_op ())))))"

definition Manager_Review :: "'g git_env \<Rightarrow> time \<Rightarrow> string \<Rightarrow> string \<Rightarrow> ('g, workspace) wop" where
  "Manager_Review env now i action =
     andthen (Manager_Get i) (\<lambda>ws.
       if action = ''keep''
       then
         andthen (updateState now i WsKept (ws_HeadSHA ws) (ws_RunID ws) (ws_SessionID ws)) (\<lambda>_.
         andthen (ignore_op (ws_audit now i ''workspace.result_kept''
           (PObj [(''result_branch'', PStr (ws_ResultBranch ws)), (''result_sha'', PStr (ws_ResultSHA ws))]))) (\<lambda>_.
         ok_op (ws\<lparr>ws_State := WsKept\<rparr>)))
       else if action = ''ask''
       then
         andthen (ignore_op (ws_audit now i ''workspace.changes_requested''
           (PObj [(''result_branch'', PStr (ws_ResultBranch ws))]))) (\<lambda>_. ok_op ws)
       else if action = ''reject''
       then
         andthen (ignore_op (deleteWorktree env ws)) (\<lambda>_.
         andthen (updateState now i WsRejected (ws_HeadSHA ws) (ws_RunID ws) (ws_SessionID ws)) (\<lambda>_.
         andthen (ignore_op (ws_audit now i ''workspace.result_rejected''
           (PObj [(''path'', PStr (ws_Path ws)), (''branch'', PStr (ws_Branch ws)), (''result_branch'', PStr (ws_ResultBranch ws))]))) (\<lambda>_.
         ok_op (ws\<lparr>ws_State := WsRejected\<rparr>))))
       else fail_op (WsInvalid ''unknown review action''))"

definition Manager_Delete :: "'g git_env \<Rightarrow> time \<Rightarrow> string \<Rightarrow> ('g, unit) wop" where
  "Manager_Delete env now i =
     andthen (Manager_Get i) (\<lambda>ws.
     andthen (ignore_op (deleteWorktree env ws)) (\<lambda>_.
     andthen (updateState now i WsDeleted (ws_HeadSHA ws) (ws_RunID ws) (ws_SessionID ws)) (\<lambda>_.
     andthen (ignore_op (ws_audit now i ''workspace.deleted'' (PObj [(''path'', PStr (ws_Path ws)), (''branch'', PStr (ws_Branch ws))]))) (\<lambda>_.
     ok_op ()))))"

end
