(* ===== verification/Workspaces_Valid.thy ===== *)
theory Workspaces_Valid
  imports Workspaces
begin

text \<open>
  Properties of the workspace manager: no operation depends on what git would do with a network command;
  the creation of a workspace adds one row under a fresh identifier and touches no other; and what the
  allowlist and the review of a result let through.
\<close>

section \<open>No network\<close>

text \<open>Two environments that differ at most in what git does with a command that is not on the allowlist, or
  that starts with the option \<^verbatim>\<open>-C\<close>, which is on it.\<close>

definition same_locally :: "'g git_env \<Rightarrow> 'g git_env \<Rightarrow> bool" where
  "same_locally e e' \<longleftrightarrow>
     (\<forall>dir sub args. sub \<in> set allowedGitSubcommands - {''-C''} \<longrightarrow> ge_git e dir (sub # args) = ge_git e' dir (sub # args)) \<and>
     ge_isWorktree e = ge_isWorktree e' \<and> ge_mkdir e = ge_mkdir e' \<and> ge_root e = ge_root e'"

definition local_command :: "string \<Rightarrow> bool" where
  "local_command sub \<longleftrightarrow> sub \<in> set allowedGitSubcommands - {''-C''}"

lemma local_commands:
  "local_command ''worktree''" "local_command ''rev-parse''" "local_command ''add''" "local_command ''commit''"
  "local_command ''branch''" "local_command ''diff''" "local_command ''status''" "local_command ''format-patch''"
  "local_command ''check-ref-format''" "local_command ''update-ref''" "local_command ''for-each-ref''"
  by (simp_all add: local_command_def allowedGitSubcommands_def)

lemma git_same:
  "same_locally e e' \<Longrightarrow> local_command sub \<Longrightarrow> git e dir (sub # args) = git e' dir (sub # args)"
  by (rule ext) (auto simp: git_def gitRunner_run_def same_locally_def local_command_def split: option.split)

lemma git_trim_same:
  "same_locally e e' \<Longrightarrow> local_command sub \<Longrightarrow> git_trim e dir (sub # args) = git_trim e' dir (sub # args)"
  by (simp add: git_trim_def git_same)

lemmas same_git = git_same [OF _ local_commands(1)] git_same [OF _ local_commands(2)] git_same [OF _ local_commands(3)]
  git_same [OF _ local_commands(4)] git_same [OF _ local_commands(5)] git_same [OF _ local_commands(6)] git_same [OF _ local_commands(7)]
  git_same [OF _ local_commands(8)] git_same [OF _ local_commands(9)] git_same [OF _ local_commands(10)] git_same [OF _ local_commands(11)]
  git_trim_same [OF _ local_commands(2)]

lemma same_world:
  assumes "same_locally e e'"
  shows "ge_isWorktree e = ge_isWorktree e'" "mkdir_op e path = mkdir_op e' path" "new_workspace e now req w n b = new_workspace e' now req w n b"
  using assms by (auto simp: same_locally_def mkdir_op_def new_workspace_def)

lemma same_helpers:
  assumes "same_locally e e'"
  shows "resolveCommonDir e dir = resolveCommonDir e' dir" "validateBaseRef e dir ref = validateBaseRef e' dir ref"
    "stage_all e dir = stage_all e' dir" "commit_all e dir msg = commit_all e' dir msg"
    "computeChangedFiles e dir base st = computeChangedFiles e' dir base st" "ResolveResultRef e t dir = ResolveResultRef e' t dir"
  by (simp_all add: resolveCommonDir_def validateBaseRef_def stage_all_def commit_all_def computeChangedFiles_def
      ResolveResultRef_def same_git [OF assms] cong: if_cong)

lemma same_steps:
  assumes "same_locally e e'"
  shows "resolve_base e req = resolve_base e' req" "deleteWorktree e ws = deleteWorktree e' ws"
  by (simp_all add: resolve_base_def deleteWorktree_def same_git [OF assms] same_helpers [OF assms] cong: if_cong)

lemmas same_rules = same_git same_world same_helpers same_steps

text \<open>C15: No operation of the workspace manager reaches the network through git. Its operations behave the same
  in any two environments that differ only in what git does with commands off the allowlist, such as
  \<^verbatim>\<open>push\<close> or \<^verbatim>\<open>fetch\<close>, or with a command that starts with the option \<^verbatim>\<open>-C\<close>: neither their results nor the tables
  nor the repository can tell the two apart.\<close>

theorem workspaces_stay_local:
  assumes "same_locally e e'"
  shows "Manager_Create e now req = Manager_Create e' now req \<and>
    InspectWorktree e ws = InspectWorktree e' ws \<and>
    EnsureResultRef e ws sha = EnsureResultRef e' ws sha \<and>
    DeleteResultRef e ws = DeleteResultRef e' ws \<and>
    Manager_Checkpoint e now i m msg = Manager_Checkpoint e' now i m msg \<and>
    CommitWorktreeChanges e i msg = CommitWorktreeChanges e' i msg \<and>
    CreateResult e now i = CreateResult e' now i \<and>
    Manager_Diff e i = Manager_Diff e' i \<and>
    ExportPatch e i = ExportPatch e' i \<and>
    WorktreeFingerprint e dir = WorktreeFingerprint e' dir \<and>
    Manager_Review e now i a = Manager_Review e' now i a \<and>
    Manager_Delete e now i = Manager_Delete e' now i"
  by (intro conjI) (simp_all add: Manager_Create_def InspectWorktree_def EnsureResultRef_def DeleteResultRef_def Manager_Checkpoint_def
      CommitWorktreeChanges_def CreateResult_def Manager_Diff_def ExportPatch_def WorktreeFingerprint_def Manager_Review_def
      Manager_Delete_def fun_eq_iff Let_def same_rules [OF assms] cong: if_cong sum.case_cong)

text \<open>Two repositories that are counters: the second counts the commands that are off the allowlist.\<close>

definition quiet_env :: "nat git_env" where
  "quiet_env = \<lparr>ge_git = (\<lambda>_ _ g. (Inr ''c0'', g)), ge_isWorktree = (\<lambda>_ _. True), ge_mkdir = (\<lambda>_ g. (Inr (), g)), ge_root = ''/h''\<rparr>"

definition counting_env :: "nat git_env" where
  "counting_env = quiet_env\<lparr>ge_git := (\<lambda>_ args g. (Inr ''c0'', if hd args \<in> set allowedGitSubcommands - {''-C''} then g else Suc g))\<rparr>"

theorem workspaces_stay_local_witness:
  "same_locally quiet_env counting_env \<and> ge_git counting_env ''/w'' [''push''] 0 = (Inr ''c0'', 1) \<and>
   CreateResult quiet_env 0 ''ws'' = CreateResult counting_env 0 ''ws''"
proof -
  have s: "same_locally quiet_env counting_env" by (auto simp: same_locally_def counting_env_def quiet_env_def fun_eq_iff)
  have "''push'' \<notin> set allowedGitSubcommands" by (simp add: allowedGitSubcommands_def)
  with s workspaces_stay_local [OF s] show ?thesis by (simp add: counting_env_def)
qed

text \<open>The runner itself does not keep that promise: with the option \<^verbatim>\<open>-C\<close> in front, every subcommand reaches git.\<close>

lemma dash_C_reaches_git:
  "gitRunner_run env dir (''-C'' # path # sub # args) g =
     (case ge_git env dir (''-C'' # path # sub # args) g of (Inl e, g1) \<Rightarrow> (Inl (GitFailed e), g1) | (Inr out, g1) \<Rightarrow> (Inr out, g1))"
proof -
  have "map_of forbiddenGitSubcommands ''-C'' = None" by (simp add: forbiddenGitSubcommands_def)
  then show ?thesis by (simp add: gitRunner_run_def allowedGitSubcommands_def)
qed

section \<open>Frames\<close>

text \<open>A relation between states that every operation of a composition keeps is kept by the composition.\<close>

locale frame =
  fixes R :: "'s \<Rightarrow> 's \<Rightarrow> bool"
  assumes R_refl: "R s s"
    and R_trans: "R a b \<Longrightarrow> R b c \<Longrightarrow> R a c"
begin

lemma ok_kept: "R s (snd (ok_op x s))"
  by (simp add: R_refl ok_op_def)

lemma fail_kept: "R s (snd (fail_op e s))"
  by (simp add: R_refl fail_op_def)

lemma andthen_kept:
  assumes "\<And>s. R s (snd (m s))" "\<And>x s. R s (snd (k x s))"
  shows "R s (snd (andthen m k s))"
proof (cases "m s")
  case (Pair r s1)
  with assms(1) [of s] assms(2) [of s1] R_trans show ?thesis by (cases r) (fastforce simp: andthen_def)+
qed

lemma attempt_kept:
  assumes "\<And>s. R s (snd (m s))" "\<And>x s. R s (snd (k x s))"
  shows "R s (snd (attempt_op m k s))"
proof (cases "m s")
  case (Pair r s1)
  with assms(1) [of s] assms(2) [of s1 r] R_trans show ?thesis by (auto simp: attempt_op_def)
qed

lemma ignore_kept: "(\<And>s. R s (snd (m s))) \<Longrightarrow> R s (snd (ignore_op m s))"
  by (simp add: ignore_op_def)

end

section \<open>Creation\<close>

text \<open>The tables a workspace operation leaves alone.\<close>

definition same_tables :: "'g wsys \<Rightarrow> 'g wsys \<Rightarrow> bool" where
  "same_tables s s' \<longleftrightarrow> wy_rows s' = wy_rows s \<and> wy_checkpoints s' = wy_checkpoints s \<and> wy_intents s' = wy_intents s \<and>
     db_tasks (wy_db s') = db_tasks (wy_db s) \<and> db_projects (wy_db s') = db_projects (wy_db s)"

definition rows_extended :: "'g wsys \<Rightarrow> workspace \<Rightarrow> 'g wsys \<Rightarrow> bool" where
  "rows_extended s r s' \<longleftrightarrow> wy_rows s' = wy_rows s @ [r] \<and> wy_checkpoints s' = wy_checkpoints s \<and> wy_intents s' = wy_intents s \<and>
     db_tasks (wy_db s') = db_tasks (wy_db s) \<and> db_projects (wy_db s') = db_projects (wy_db s)"

lemma same_tables_refl [simp]: "same_tables s s"
  by (simp add: same_tables_def)

lemma same_tables_trans: "same_tables s s1 \<Longrightarrow> same_tables s1 s2 \<Longrightarrow> same_tables s s2"
  by (simp add: same_tables_def)

lemma git_tables: "git env dir args s = (r, s') \<Longrightarrow> same_tables s s'"
  by (auto simp: git_def same_tables_def split: prod.splits)

lemma git_trim_tables: "git_trim env dir args s = (r, s') \<Longrightarrow> same_tables s s'"
  by (auto simp: git_trim_def andthen_def ok_op_def split: prod.splits sum.splits dest: git_tables)

lemma validate_tables: "validateBaseRef env dir ref s = (r, s') \<Longrightarrow> same_tables s s'"
  by (auto simp: validateBaseRef_def fail_op_def ok_op_def attempt_op_def split: prod.splits if_splits dest!: git_tables intro: same_tables_trans)

lemma resolve_base_tables: "resolve_base env req s = (r, s') \<Longrightarrow> same_tables s s'"
  by (auto simp: resolve_base_def andthen_def ok_op_def split: if_splits prod.splits sum.splits dest: git_trim_tables validate_tables)

lemma mkdir_tables: "mkdir_op env p s = (r, s') \<Longrightarrow> same_tables s s'"
  by (auto simp: mkdir_op_def same_tables_def split: prod.splits sum.splits)

lemma ws_audit_done: "typ \<noteq> [] \<Longrightarrow> \<exists>s'. ws_audit now i typ p s = (Inr (), s') \<and> same_tables s s'"
  by (simp add: ws_audit_def recordInto_def same_tables_def)

interpretation table_frame: frame same_tables
  by unfold_locales (auto intro: same_tables_trans)

lemma git_tables_kept: "same_tables s (snd (git env dir args s))" "same_tables s (snd (git_trim env dir args s))"
  using git_tables [of env dir args s] git_trim_tables [of env dir args s] by (metis prod.collapse)+

lemma changed_tables_kept: "same_tables s (snd (computeChangedFiles env dir base st s))"
  unfolding computeChangedFiles_def Let_def
  by (auto intro: table_frame.ok_kept table_frame.attempt_kept git_tables_kept)

lemma inspect_tables: "same_tables s (snd (InspectWorktree env ws s))"
proof -
  have "same_tables s (snd ((if P then ok_op '''' else git env dir args) s))" for P dir args and s :: "'a wsys"
    using table_frame.ok_kept git_tables_kept by auto
  then show ?thesis
    unfolding InspectWorktree_def Let_def
    by (auto simp: fail_op_def intro!: table_frame.andthen_kept table_frame.attempt_kept git_tables_kept changed_tables_kept table_frame.ok_kept)
qed

text \<open>The first transaction: the row and the event are written together.\<close>

lemma create_row_cases:
  assumes "in_tx (andthen (createWorkspace ws) (\<lambda>_. ws_audit now i typ p)) s = (r, s')" "typ \<noteq> []"
  obtains e where "r = Inl e" "same_tables s s'" | "r = Inr ()" "ws_ID ws \<notin> ws_ID ` set (wy_rows s)" "rows_extended s ws s'"
proof (cases "ws_ID ws \<in> ws_ID ` set (wy_rows s) \<or> ws_ProjectID ws \<notin> pj_id ` set (db_projects (wy_db s)) \<or> ws_TaskID ws \<notin> tk_id ` set (db_tasks (wy_db s))")
  case True
  then show ?thesis using assms that(1) by (auto simp: in_tx_def andthen_def createWorkspace_def same_tables_def)
next
  case False
  obtain s2 where s2: "ws_audit now i typ p (s\<lparr>wy_rows := wy_rows s @ [ws]\<rparr>) = (Inr (), s2)" "same_tables (s\<lparr>wy_rows := wy_rows s @ [ws]\<rparr>) s2"
    using ws_audit_done [OF assms(2)] by blast
  with False assms have "r = Inr ()" "s' = s2" by (auto simp: in_tx_def andthen_def createWorkspace_def)
  with False s2(2) show ?thesis by (intro that(2)) (auto simp: same_tables_def rows_extended_def)
qed

lemma update_fresh:
  assumes "rows_extended s0 r s" "ws_ID r \<notin> ws_ID ` set (wy_rows s0)"
  shows "\<exists>s'. update_row (ws_ID r) f s = (Inr (), s') \<and> rows_extended s0 (f r) s'"
proof -
  have "map (\<lambda>x. if ws_ID x = ws_ID r then f x else x) (wy_rows s0) = wy_rows s0"
    using assms(2) by (intro map_idI) (metis image_eqI)
  then show ?thesis
    using assms by (simp add: update_row_def rows_extended_def update_where_def count_where_def)
qed

lemma extended_same: "rows_extended s0 r s \<Longrightarrow> same_tables s s' \<Longrightarrow> rows_extended s0 r s'"
  by (simp add: rows_extended_def same_tables_def)

lemma same_extended: "same_tables s s1 \<Longrightarrow> rows_extended s1 r s' \<Longrightarrow> rows_extended s r s'"
  by (simp add: rows_extended_def same_tables_def)

text \<open>After the row was written, the worktree is added and the row becomes active, or it stays behind.\<close>

definition created :: "'g wsys \<Rightarrow> workspace \<Rightarrow> ('e, workspace) result \<times> 'g wsys \<Rightarrow> bool" where
  "created s ws rs =
     (case rs of
        (Inr w, s') \<Rightarrow> \<exists>h. w = ws\<lparr>ws_HeadSHA := h, ws_State := WsActive\<rparr> \<and> rows_extended s w s'
      | (Inl _, s') \<Rightarrow> \<exists>r. ws_ID r = ws_ID ws \<and> ws_State r \<in> {WsPending, WsFailed} \<and> rows_extended s r s')"

lemma activate_created:
  assumes ext: "rows_extended s ws s1" and fresh: "ws_ID ws \<notin> ws_ID ` set (wy_rows s)"
    and init: "ws_State ws = WsPending" "ws_RunID ws = ''''" "ws_SessionID ws = ''''" "ws_UpdatedAt ws = rfc3339nano now"
  shows "created s ws
    (andthen (git_trim env dir args) (\<lambda>headSHA.
     andthen (updateState now (ws_ID ws) WsActive headSHA '''' '''') (\<lambda>_.
     andthen (ignore_op (ws_audit now (ws_ID ws) ''workspace.created'' (p headSHA))) (\<lambda>_.
     ok_op (ws\<lparr>ws_HeadSHA := headSHA, ws_State := WsActive\<rparr>)))) s1)"
proof (cases "git_trim env dir args s1")
  case (Pair r s2)
  then have ext2: "rows_extended s ws s2" using ext git_trim_tables extended_same by metis
  show ?thesis
  proof (cases r)
    case (Inl e)
    with Pair ext2 init show ?thesis by (auto simp: created_def andthen_def)
  next
    case (Inr h)
    have same: "ws\<lparr>ws_State := WsActive, ws_HeadSHA := h, ws_RunID := [], ws_SessionID := [], ws_UpdatedAt := rfc3339nano now\<rparr> =
        ws\<lparr>ws_HeadSHA := h, ws_State := WsActive\<rparr>" using init by (cases ws) simp
    obtain s3 where s3: "updateState now (ws_ID ws) WsActive h '''' '''' s2 = (Inr (), s3)" "rows_extended s (ws\<lparr>ws_HeadSHA := h, ws_State := WsActive\<rparr>) s3"
      using update_fresh [OF ext2 fresh, of "\<lambda>r. r\<lparr>ws_State := WsActive, ws_HeadSHA := h, ws_RunID := '''', ws_SessionID := '''', ws_UpdatedAt := rfc3339nano now\<rparr>"]
      by (auto simp: same updateState_def UpdateWorkspaceState_def)
    obtain s4 where "ws_audit now (ws_ID ws) ''workspace.created'' (p h) s3 = (Inr (), s4)" "same_tables s3 s4"
      using ws_audit_done by blast
    with s3 extended_same show ?thesis by (fastforce simp: created_def andthen_def Pair Inr ignore_op_def ok_op_def)
  qed
qed

lemma add_worktree_created:
  assumes ext: "rows_extended s ws s1" and fresh: "ws_ID ws \<notin> ws_ID ` set (wy_rows s)"
    and init: "ws_State ws = WsPending" "ws_RunID ws = ''''" "ws_SessionID ws = ''''" "ws_UpdatedAt ws = rfc3339nano now"
  shows "created s ws
    (andthen (mkdir_op env path) (\<lambda>_.
     attempt_op (git env dir args) (\<lambda>r.
       case r of
         Inl e \<Rightarrow> andthen (ignore_op (updateState now (ws_ID ws) WsFailed '''' '''' '''')) (\<lambda>_. fail_op e)
       | Inr _ \<Rightarrow>
           andthen (git_trim env dir' args') (\<lambda>headSHA.
           andthen (updateState now (ws_ID ws) WsActive headSHA '''' '''') (\<lambda>_.
           andthen (ignore_op (ws_audit now (ws_ID ws) ''workspace.created'' (p headSHA))) (\<lambda>_.
           ok_op (ws\<lparr>ws_HeadSHA := headSHA, ws_State := WsActive\<rparr>)))))) s1)"
proof (cases "mkdir_op env path s1")
  case (Pair r s2)
  then have ext2: "rows_extended s ws s2" using ext mkdir_tables extended_same by metis
  obtain r3 s3 where g: "git env dir args s2 = (r3, s3)" by fastforce
  then have ext3: "rows_extended s ws s3" using ext2 git_tables extended_same by metis
  obtain s4 where s4: "updateState now (ws_ID ws) WsFailed '''' '''' '''' s3 = (Inr (), s4)"
    "rows_extended s (ws\<lparr>ws_State := WsFailed, ws_HeadSHA := '''', ws_RunID := '''', ws_SessionID := '''', ws_UpdatedAt := rfc3339nano now\<rparr>) s4"
    using update_fresh [OF ext3 fresh] by (auto simp: updateState_def UpdateWorkspaceState_def)
  show ?thesis
  proof (cases r)
    case (Inl e)
    with Pair ext2 init show ?thesis by (auto simp: created_def andthen_def)
  next
    case (Inr u)
    show ?thesis
    proof (cases r3)
      case (Inl e)
      with s4 show ?thesis
        by (simp add: andthen_def Pair Inr attempt_op_def g ignore_op_def fail_op_def created_def) (rule exI, rule conjI, rule_tac [2] conjI, rule_tac [3] s4(2), simp_all)
    next
      case (Inr out)
      then show ?thesis
        using activate_created [OF ext3 fresh init, of env dir' args' p] \<open>r = Inr u\<close>
        by (simp add: andthen_def [of "mkdir_op env path"] Pair attempt_op_def g)
    qed
  qed
qed

lemma nextAttempt_Max:
  "nextAttempt s taskID wpID =
     Suc (Max (insert 0 (ws_Attempt ` {r \<in> set (wy_rows s). ws_TaskID r = taskID \<and> ws_WorkPackageID r = wpID})))"
proof -
  have step: "Max (insert 0 (insert n (set ns))) = max n (Max (insert 0 (set ns)))" for n :: nat and ns
    unfolding insert_commute [of 0 n] by (rule Max_insert) simp_all
  have "foldr max ns (0::nat) = Max (insert 0 (set ns))" for ns by (induction ns) (simp_all only: foldr.simps comp_def list.set step, simp)
  moreover have "set (map ws_Attempt (filter (\<lambda>r. ws_WorkPackageID r = wpID) (ListWorkspacesByTask s taskID))) =
      ws_Attempt ` {r \<in> set (wy_rows s). ws_TaskID r = taskID \<and> ws_WorkPackageID r = wpID}"
    by (auto simp: ListWorkspacesByTask_def)
  ultimately show ?thesis by (simp add: nextAttempt_def)
qed

text \<open>What a creation may leave behind, and the creation from the commit of the base on.\<close>

definition creation_effect :: "CreateRequest \<Rightarrow> 'g wsys \<Rightarrow> ('e, workspace) result \<times> 'g wsys \<Rightarrow> bool" where
  "creation_effect req s rs =
     (case rs of
        (Inr w, s') \<Rightarrow> rows_extended s w s' \<and> ws_ID w \<notin> ws_ID ` set (wy_rows s) \<and> ws_State w = WsActive \<and>
          ws_ProjectID w = cq_ProjectID req \<and> ws_TaskID w = cq_TaskID req \<and>
          ws_WorkPackageID w = (if cq_WorkPackageID req = '''' then ''main'' else cq_WorkPackageID req) \<and>
          ws_Attempt w = Suc (Max (insert 0 (ws_Attempt `
            {r \<in> set (wy_rows s). ws_TaskID r = ws_TaskID w \<and> ws_WorkPackageID r = ws_WorkPackageID w})))
      | (Inl e, s') \<Rightarrow> same_tables s s' \<or>
          (\<exists>r. rows_extended s r s' \<and> ws_ID r \<notin> ws_ID ` set (wy_rows s) \<and> ws_State r \<in> {WsPending, WsFailed}))"

lemma create_from_base:
  assumes ne: "cq_ProjectPath req \<noteq> ''''" "cq_TaskID req \<noteq> ''''" and base: "resolve_base env req s = (Inr baseRef, s1)"
    and sha: "git_trim env (cq_ProjectPath req) [''rev-parse'', baseRef] s1 = (Inr baseSHA, s2)" and t2: "same_tables s s2"
  shows "creation_effect req s (Manager_Create env now req s)"
proof -
  define wpID where "wpID = (if cq_WorkPackageID req = '''' then ''main'' else cq_WorkPackageID req)"
  define n where "n = nextAttempt s (cq_TaskID req) wpID"
  define ws where "ws = new_workspace env now req wpID n baseSHA"
  obtain r3 s3 where c: "in_tx (andthen (createWorkspace ws) (\<lambda>_. ws_audit now (ws_ID ws) ''workspace.create_started''
      (PObj [(''task'', PStr (ws_TaskID ws)), (''branch'', PStr (ws_Branch ws)), (''base_sha'', PStr baseSHA)]))) s2 = (r3, s3)" by fastforce
  have run: "Manager_Create env now req s =
      (case (r3, s3) of (Inl e, s4) \<Rightarrow> (Inl e, s4) | (Inr _, s4) \<Rightarrow>
        andthen (mkdir_op env (ws_Path ws)) (\<lambda>_.
        attempt_op (git env (cq_ProjectPath req) [''worktree'', ''add'', ''-b'', ws_Branch ws, ws_Path ws, baseRef]) (\<lambda>r.
          case r of
            Inl e \<Rightarrow> andthen (ignore_op (updateState now (ws_ID ws) WsFailed '''' '''' '''')) (\<lambda>_. fail_op e)
          | Inr _ \<Rightarrow>
              andthen (git_trim env (ws_Path ws) [''rev-parse'', ''HEAD'']) (\<lambda>headSHA.
              andthen (updateState now (ws_ID ws) WsActive headSHA '''' '''') (\<lambda>_.
              andthen (ignore_op (ws_audit now (ws_ID ws) ''workspace.created''
                (PObj [(''path'', PStr (ws_Path ws)), (''branch'', PStr (ws_Branch ws)), (''head_sha'', PStr headSHA)]))) (\<lambda>_.
              ok_op (ws\<lparr>ws_HeadSHA := headSHA, ws_State := WsActive\<rparr>)))))) s4)"
    using ne base sha c
    by (simp add: Manager_Create_def andthen_def [of "resolve_base env req"] andthen_def [of "git_trim env (cq_ProjectPath req) [''rev-parse'', baseRef]"]
        andthen_def [of "in_tx _"] Let_def flip: wpID_def n_def ws_def cong: sum.case_cong)
  have ws: "ws_State ws = WsPending" "ws_RunID ws = ''''" "ws_SessionID ws = ''''" "ws_UpdatedAt ws = rfc3339nano now"
    "ws_ProjectID ws = cq_ProjectID req" "ws_TaskID ws = cq_TaskID req" "ws_WorkPackageID ws = wpID" "ws_Attempt ws = n"
    by (simp_all add: ws_def new_workspace_def)
  show ?thesis
  proof (rule create_row_cases [OF c])
    fix e assume "r3 = Inl e" "same_tables s2 s3"
    with same_tables_trans [OF t2] show ?thesis by (simp add: run creation_effect_def)
  next
    assume r: "r3 = Inr ()" "ws_ID ws \<notin> ws_ID ` set (wy_rows s2)" "rows_extended s2 ws s3"
    have fresh: "ws_ID ws \<notin> ws_ID ` set (wy_rows s)" using r(2) t2 by (simp add: same_tables_def)
    have "created s ws (Manager_Create env now req s)"
      unfolding run r(1) prod.case sum.case by (rule add_worktree_created [OF same_extended [OF t2 r(3)] fresh ws(1-4)])
    then show ?thesis
      using fresh nextAttempt_Max [of s "cq_TaskID req" wpID]
      by (cases "Manager_Create env now req s") (auto simp: created_def creation_effect_def ws n_def wpID_def split: sum.splits, metis+)
  qed simp
qed

text \<open>C18: A workspace is created by adding one row and touching nothing else. A creation that succeeds returns the
  row it added: active, for the project, the task and the work package of the request (\<^verbatim>\<open>main\<close> when it
  names none), under an identifier no other row has and with the attempt that follows the highest one of
  that task and work package. A creation that
  fails leaves the tables as they were or, once the row was written, adds one row that is pending or
  failed. No task, project, checkpoint or intent changes.\<close>

theorem create_workspace_exact:
  "case Manager_Create env now req s of
     (Inr w, s') \<Rightarrow> rows_extended s w s' \<and> ws_ID w \<notin> ws_ID ` set (wy_rows s) \<and> ws_State w = WsActive \<and>
       ws_ProjectID w = cq_ProjectID req \<and> ws_TaskID w = cq_TaskID req \<and>
       ws_WorkPackageID w = (if cq_WorkPackageID req = '''' then ''main'' else cq_WorkPackageID req) \<and>
       ws_Attempt w = Suc (Max (insert 0 (ws_Attempt `
         {r \<in> set (wy_rows s). ws_TaskID r = ws_TaskID w \<and> ws_WorkPackageID r = ws_WorkPackageID w})))
   | (Inl e, s') \<Rightarrow> same_tables s s' \<or>
       (\<exists>r. rows_extended s r s' \<and> ws_ID r \<notin> ws_ID ` set (wy_rows s) \<and> ws_State r \<in> {WsPending, WsFailed})"
proof (fold creation_effect_def, cases "cq_ProjectPath req = '''' \<or> cq_TaskID req = ''''")
  case True
  then show "creation_effect req s (Manager_Create env now req s)" by (auto simp: Manager_Create_def fail_op_def creation_effect_def)
next
  case False
  obtain r1 s1 where b: "resolve_base env req s = (r1, s1)" by fastforce
  note t1 = resolve_base_tables [OF b]
  show "creation_effect req s (Manager_Create env now req s)"
  proof (cases r1)
    case (Inl e)
    with False b t1 show ?thesis by (simp add: Manager_Create_def andthen_def Let_def creation_effect_def)
  next
    case (Inr baseRef)
    obtain r2 s2 where g: "git_trim env (cq_ProjectPath req) [''rev-parse'', baseRef] s1 = (r2, s2)" by fastforce
    have t2: "same_tables s s2" using t1 git_trim_tables [OF g] same_tables_trans by blast
    show ?thesis
    proof (cases r2)
      case (Inl e)
      with False b t2 Inr g show ?thesis by (simp add: Manager_Create_def andthen_def Let_def creation_effect_def)
    next
      case (Inr baseSHA)
      with False b \<open>r1 = Inr baseRef\<close> g t2 show ?thesis by (intro create_from_base) simp_all
    qed
  qed
qed

section \<open>Names and states that are let through\<close>

text \<open>The identifier joins its parts with the character that the parts may contain: two packages of two tasks
  share an identifier, and the second workspace is refused by the primary key, at every attempt.\<close>

lemma workspace_id_collision: "WorkspaceID ''p-1'' ''2-a'' 1 = WorkspaceID ''p-1-2'' ''a'' 1"
  by code_simp

text \<open>A review keeps a workspace in any state, a cancelled or rejected one as well.\<close>

lemma review_ignores_state:
  assumes "wy_rows s = [ws]"
  shows "\<exists>s'. Manager_Review env now (ws_ID ws) ''keep'' s = (Inr (ws\<lparr>ws_State := WsKept\<rparr>), s')"
  using assms
  by (simp add: Manager_Review_def andthen_def Manager_Get_def updateState_def UpdateWorkspaceState_def update_row_def count_where_def
      ignore_op_def ok_op_def)

end
