(* ===== verification/Finalize.thy ===== *)
theory Finalize
  imports Workspaces Supervisor
begin

text \<open>
  The finalization of a run, \<^verbatim>\<open>src/internal/runapp/classify.go\<close> and \<^verbatim>\<open>finalize.go\<close>: the classifier, the durable
  intent, the result reference, the terminal transaction and the recovery after a restart. Git and
  the database share no transaction; a crash is the state after one of the durable steps, so \<open>Finalize\<close>
  is composed of the steps the source takes, in their order. The commit reads the clock on its own.
  The hooks for fault injection and the calls on an absent database are not modelled.
\<close>

section \<open>Outcomes\<close>

abbreviation (input) OutcomeCompletedWithCommit :: string where "OutcomeCompletedWithCommit \<equiv> ''completed-with-commit''"
abbreviation (input) OutcomeCompletedWithUncommittedChanges :: string where
  "OutcomeCompletedWithUncommittedChanges \<equiv> ''completed-with-uncommitted-changes''"
abbreviation (input) OutcomeCompletedNoChanges :: string where "OutcomeCompletedNoChanges \<equiv> ''completed-no-changes''"
abbreviation (input) OutcomeFailed :: string where "OutcomeFailed \<equiv> ''failed''"
abbreviation (input) OutcomeCancelled :: string where "OutcomeCancelled \<equiv> ''cancelled''"
abbreviation (input) OutcomeTimedOut :: string where "OutcomeTimedOut \<equiv> ''timed-out''"
abbreviation (input) OutcomeInterrupted :: string where "OutcomeInterrupted \<equiv> ''interrupted''"

record ClassifyInput =
  ci_Terminal :: string
  ci_TimeoutClass :: bool
  ci_BaseSHA :: string
  ci_ActualHEAD :: string
  ci_StatusPorcelain :: string

definition run_Classify :: "ClassifyInput \<Rightarrow> string" where
  "run_Classify i =
     (if ci_Terminal i = ''CANCELLED'' then OutcomeCancelled
      else if ci_Terminal i = ''FAILED'' then (if ci_TimeoutClass i then OutcomeTimedOut else OutcomeFailed)
      else if ci_ActualHEAD i \<noteq> ci_BaseSHA i then OutcomeCompletedWithCommit
      else if TrimSpace (ci_StatusPorcelain i) \<noteq> '''' then OutcomeCompletedWithUncommittedChanges
      else OutcomeCompletedNoChanges)"

definition ClassifyFromEvent :: "run_event \<Rightarrow> Inspection \<Rightarrow> string \<Rightarrow> ClassifyInput" where
  "ClassifyFromEvent term ins baseSHA =
     \<lparr>ci_Terminal =
        (if re_Type term = EventRunCompleted then ''COMPLETED''
         else if re_Type term = EventRunCancelled then ''CANCELLED''
         else if re_Type term = EventRunFailed then ''FAILED'' else ''''),
      ci_TimeoutClass =
        (re_Type term = EventRunFailed \<and> (case re_Failure term of Some f \<Rightarrow> fp_Class f = FailureTimeout | None \<Rightarrow> False)),
      ci_BaseSHA = baseSHA, ci_ActualHEAD = in_ActualHEAD ins, ci_StatusPorcelain = in_StatusPorcelain ins\<rparr>"

definition outcome_WorkspaceState :: "string \<Rightarrow> string" where
  "outcome_WorkspaceState oc =
     (if oc = OutcomeCompletedWithCommit \<or> oc = OutcomeCompletedWithUncommittedChanges then WsCompleted
      else if oc = OutcomeCompletedNoChanges \<or> oc = OutcomeFailed \<or> oc = OutcomeInterrupted then WsFailed
      else if oc = OutcomeCancelled then WsCancelled
      else if oc = OutcomeTimedOut then WsTimedOut
      else WsFailed)"

definition CreatesResultRef :: "string \<Rightarrow> bool" where
  "CreatesResultRef oc \<longleftrightarrow> oc = OutcomeCompletedWithCommit \<or> oc = OutcomeCompletedWithUncommittedChanges"

definition outcome_IsTerminal :: "string \<Rightarrow> bool" where
  "outcome_IsTerminal oc \<longleftrightarrow>
     oc \<in> set [OutcomeCompletedWithCommit, OutcomeCompletedWithUncommittedChanges, OutcomeCompletedNoChanges, OutcomeFailed,
       OutcomeCancelled, OutcomeTimedOut, OutcomeInterrupted]"

section \<open>State machine of a workspace on the run path\<close>

definition isWorkspaceTerminal :: "string \<Rightarrow> bool" where
  "isWorkspaceTerminal st \<longleftrightarrow>
     st \<in> set [WsCompleted, WsFailed, WsCancelled, WsTimedOut, WsKept, WsRejected, WsDeleted, WsQuarantined]"

definition run_allowedTransition :: "string \<Rightarrow> string \<Rightarrow> bool" where
  "run_allowedTransition from to =
     (if from \<in> set [WsCompleted, WsCancelled, WsTimedOut, WsKept, WsRejected, WsDeleted, WsQuarantined] then False
      else if from = WsPending then to \<in> set [WsActive, WsFailed]
      else if from = WsActive
      then to \<in> set [WsCompleted, WsFailed, WsCancelled, WsTimedOut, WsWaitingQuota, WsQuarantined]
      else if from = WsWaitingQuota \<or> from = WsFailed then to \<in> set [WsFailed, WsWaitingQuota, WsQuarantined]
      else False)"

definition outcomeForTerminalState :: "string \<Rightarrow> string \<Rightarrow> string" where
  "outcomeForTerminalState st fallback =
     (if st = WsCompleted
      then (if fallback = OutcomeCompletedWithCommit \<or> fallback = OutcomeCompletedWithUncommittedChanges then fallback
            else OutcomeCompletedWithCommit)
      else if st = WsCancelled then OutcomeCancelled
      else if st = WsTimedOut then OutcomeTimedOut
      else if st = WsFailed
      then (if fallback = OutcomeFailed \<or> fallback = OutcomeCompletedNoChanges \<or> fallback = OutcomeInterrupted then fallback
            else OutcomeFailed)
      else fallback)"

section \<open>The protocol\<close>

record FinalizeRequest =
  fq_WorkspaceID :: string
  fq_TerminalEvent :: run_event
  fq_Inspection :: Inspection
  fq_TaskID :: string
  fq_Engine :: string
  fq_Model :: string
  fq_RunID :: string

record FinalizeResult =
  fr_Outcome :: string
  fr_WorkspaceID :: string
  fr_TaskID :: string
  fr_WorkspacePath :: string
  fr_BaseSHA :: string
  fr_ActualHEAD :: string
  fr_CommitSHA :: string
  fr_ResultBranch :: string
  fr_ChangedFiles :: "string list"
  fr_Engine :: string
  fr_Model :: string
  fr_RunID :: string
  fr_Idempotent :: bool

datatype fin_error =
    FinWorkspace ws_error
  | FinIllegalTransition string string
  | FinTask backlog_error
  | FinTaskTransition string string
  | FinRefConflict string string string

type_synonym ('g, 'a) fop = "('g wsys, fin_error, 'a) op"

definition from_ws :: "('g, 'a) wop \<Rightarrow> ('g, 'a) fop" where
  "from_ws m s =
     (case m s of
        (Inr x, s1) \<Rightarrow> (Inr x, s1)
      | (Inl (WsResultRefConflict ref ex want), s1) \<Rightarrow> (Inl (FinRefConflict ref ex want), s1)
      | (Inl e, s1) \<Rightarrow> (Inl (FinWorkspace e), s1))"

definition idempotentResult :: "time \<Rightarrow> workspace \<Rightarrow> FinalizeRequest \<Rightarrow> string \<Rightarrow> ('g, FinalizeResult) fop" where
  "idempotentResult now ws req outcome =
     (let oc = outcomeForTerminalState (ws_State ws) outcome;
          rec = \<lparr>fr_Outcome = oc, fr_WorkspaceID = ws_ID ws, fr_TaskID = ws_TaskID ws, fr_WorkspacePath = ws_Path ws,
            fr_BaseSHA = ws_BaseSHA ws,
            fr_ActualHEAD = (if in_ActualHEAD (fq_Inspection req) = '''' then ws_HeadSHA ws else in_ActualHEAD (fq_Inspection req)),
            fr_CommitSHA = ws_ResultSHA ws, fr_ResultBranch = ws_ResultBranch ws, fr_ChangedFiles = in_ChangedFiles (fq_Inspection req),
            fr_Engine = fq_Engine req, fr_Model = fq_Model req, fr_RunID = fq_RunID req, fr_Idempotent = True\<rparr>
      in andthen (ignore_op (from_ws (ws_audit now (ws_ID ws) ''run.finalize_idempotent''
           (PObj [(''workspace'', PStr (ws_ID ws)), (''state'', PStr (ws_State ws)), (''outcome'', PStr oc), (''run_id'', PStr (fq_RunID req)),
                  (''late_event'', PStr (re_Type (fq_TerminalEvent req)))])))) (\<lambda>_. ok_op rec))"

definition make_intent :: "time \<Rightarrow> FinalizeRequest \<Rightarrow> workspace \<Rightarrow> string \<Rightarrow> FinalizeIntent" where
  "make_intent now req ws taskTo =
     (let ins = fq_Inspection req;
          ci = ClassifyFromEvent (fq_TerminalEvent req) ins (ws_BaseSHA ws);
          oc = run_Classify ci
      in \<lparr>it_WorkspaceID = ws_ID ws, it_TaskID = fq_TaskID req, it_Outcome = oc, it_RunTerminal = ci_Terminal ci,
          it_RunID = fq_RunID req, it_Engine = fq_Engine req, it_Model = fq_Model req, it_BaseSHA = ws_BaseSHA ws,
          it_ActualHeadSHA = in_ActualHEAD ins,
          it_ExpectedRefSHA = (if CreatesResultRef oc then in_ActualHEAD ins else ''''),
          it_ResultBranch = (if CreatesResultRef oc then FullyQualifiedResultBranch (ws_TaskID ws) else ''''),
          it_CommitSHA = (if oc = OutcomeCompletedWithCommit then in_ActualHEAD ins else ''''),
          it_GitStatusEmpty = (in_StatusPorcelain ins = ''''), it_ChangedFiles = in_ChangedFiles ins,
          it_TargetWSState = outcome_WorkspaceState oc, it_TargetTaskState = taskTo, it_Phase = PhasePending,
          it_CreatedAt = rfc3339nano now, it_UpdatedAt = rfc3339nano now\<rparr>)"

text \<open>The two durable halves of \<open>ensureRefForIntent\<close>.\<close>

definition ensure_ref :: "'g git_env \<Rightarrow> workspace \<Rightarrow> FinalizeIntent \<Rightarrow> ('g, FinalizeIntent) fop" where
  "ensure_ref env ws it =
     (if it_ExpectedRefSHA it = '''' then ok_op it
      else andthen (from_ws (EnsureResultRef env ws (it_ExpectedRefSHA it))) (\<lambda>ref. ok_op (it\<lparr>it_ResultBranch := ref\<rparr>)))"

definition advance_phase :: "time \<Rightarrow> FinalizeIntent \<Rightarrow> ('g, FinalizeIntent) fop" where
  "advance_phase now it =
     (let it1 = it\<lparr>it_Phase := PhaseRefReady, it_UpdatedAt := rfc3339nano now\<rparr>
      in andthen (from_ws (upsertFinalizeIntent it1)) (\<lambda>_. ok_op it1))"

definition ensureRefForIntent :: "'g git_env \<Rightarrow> time \<Rightarrow> workspace \<Rightarrow> FinalizeIntent \<Rightarrow> ('g, FinalizeIntent) fop" where
  "ensureRefForIntent env now ws it = andthen (ensure_ref env ws it) (advance_phase now)"

definition claim_terminal :: "time \<Rightarrow> string \<Rightarrow> FinalizeIntent \<Rightarrow> workspace \<Rightarrow> workspace" where
  "claim_terminal now i it r =
     r\<lparr>ws_State := it_TargetWSState it, ws_HeadSHA := it_ActualHeadSHA it,
       ws_ResultBranch := (if it_ResultBranch it \<noteq> '''' then it_ResultBranch it else ws_ResultBranch r),
       ws_ResultSHA := (if it_ExpectedRefSHA it \<noteq> '''' then it_ExpectedRefSHA it else ws_ResultSHA r),
       ws_Engine := (if it_Engine it \<noteq> '''' then it_Engine it else ws_Engine r),
       ws_Model := (if it_Model it \<noteq> '''' then it_Model it else ws_Model r),
       ws_RunID := (if it_RunID it \<noteq> '''' then it_RunID it else ws_RunID r),
       ws_UpdatedAt := rfc3339nano now\<rparr>"

definition settle_task :: "time \<Rightarrow> FinalizeIntent \<Rightarrow> task_row \<Rightarrow> task_row" where
  "settle_task now it t =
     (if tk_id t = it_TaskID it \<and> tk_state t \<notin> set [''COMPLETED'', ''FAILED'', ''CANCELLED'', ''REJECTED'']
      then t\<lparr>tk_state := it_TargetTaskState it, tk_updated_at := rfc3339nano now\<rparr> else t)"

definition decided_payload :: "workspace \<Rightarrow> FinalizeIntent \<Rightarrow> payload" where
  "decided_payload ws it =
     PObj [(''outcome'', PStr (it_Outcome it)), (''run_terminal'', PStr (it_RunTerminal it)), (''base_sha'', PStr (it_BaseSHA it)),
       (''actual_head_sha'', PStr (it_ActualHeadSHA it)), (''git_status_empty'', PBool (it_GitStatusEmpty it)),
       (''commit_sha'', PStr (it_CommitSHA it)), (''result_branch'', PStr (it_ResultBranch it)), (''engine'', PStr (it_Engine it)),
       (''model'', PStr (it_Model it)), (''run_id'', PStr (it_RunID it)), (''workspace_id'', PStr (ws_ID ws)),
       (''task_id'', PStr (it_TaskID it))]"

definition decided_result :: "workspace \<Rightarrow> FinalizeIntent \<Rightarrow> string list \<Rightarrow> FinalizeResult" where
  "decided_result ws it changed =
     \<lparr>fr_Outcome = it_Outcome it, fr_WorkspaceID = ws_ID ws, fr_TaskID = it_TaskID it, fr_WorkspacePath = ws_Path ws,
      fr_BaseSHA = it_BaseSHA it, fr_ActualHEAD = it_ActualHeadSHA it, fr_CommitSHA = it_CommitSHA it,
      fr_ResultBranch = it_ResultBranch it, fr_ChangedFiles = changed, fr_Engine = it_Engine it, fr_Model = it_Model it,
      fr_RunID = it_RunID it, fr_Idempotent = False\<rparr>"

text \<open>The request that \<open>commitTerminal\<close> and the recovery hand to \<open>idempotentResult\<close>.\<close>

definition intent_request :: "string \<Rightarrow> run_event \<Rightarrow> FinalizeIntent \<Rightarrow> FinalizeRequest" where
  "intent_request i ev it =
     \<lparr>fq_WorkspaceID = i, fq_TerminalEvent = ev,
      fq_Inspection = no_inspection\<lparr>in_ActualHEAD := it_ActualHeadSHA it, in_ChangedFiles := it_ChangedFiles it\<rparr>,
      fq_TaskID = it_TaskID it, fq_Engine = it_Engine it, fq_Model = it_Model it, fq_RunID = it_RunID it\<rparr>"

definition no_event :: run_event where
  "no_event = \<lparr>re_Type = '''', re_Delta = None, re_Usage = None, re_Checkpoint = None, re_FileChange = None, re_Failure = None\<rparr>"

text \<open>The transaction of the winning finalizer.\<close>

definition terminal_tx :: "time \<Rightarrow> workspace \<Rightarrow> FinalizeIntent \<Rightarrow> 'g wsys \<Rightarrow> 'g wsys" where
  "terminal_tx now ws it s =
     (let s1 = s\<lparr>wy_rows := update_where (\<lambda>r. ws_ID r = ws_ID ws \<and> ws_State r = WsActive) (claim_terminal now (ws_ID ws) it) (wy_rows s)\<rparr>;
          s2 = s1\<lparr>wy_db := (wy_db s1)\<lparr>db_tasks := map (settle_task now it) (db_tasks (wy_db s1))\<rparr>\<rparr>;
          s3 = snd (ws_audit now (ws_ID ws) ''run.outcome_decided'' (decided_payload ws it) s2)
      in DeleteFinalizeIntent (ws_ID ws) s3)"

definition commitTerminal :: "time \<Rightarrow> workspace \<Rightarrow> FinalizeIntent \<Rightarrow> ('g, FinalizeResult) fop" where
  "commitTerminal now ws it =
     andthen (from_ws (Manager_Get (ws_ID ws))) (\<lambda>fresh s.
       (let req = intent_request (ws_ID ws) no_event it
        in if isWorkspaceTerminal (ws_State fresh)
           then idempotentResult now fresh req (it_Outcome it) (DeleteFinalizeIntent (ws_ID ws) s)
           else if count_where (\<lambda>r. ws_ID r = ws_ID ws \<and> ws_State r = WsActive) (wy_rows s) = 0
           then andthen (from_ws (Manager_Get (ws_ID ws))) (\<lambda>fresh2 s1.
                  idempotentResult now fresh2 req (it_Outcome it) (DeleteFinalizeIntent (ws_ID ws) s1)) s
           else (Inr (decided_result ws it (it_ChangedFiles it)), terminal_tx now ws it s)))"

definition resumeFromIntent :: "'g git_env \<Rightarrow> time \<Rightarrow> time \<Rightarrow> workspace \<Rightarrow> FinalizeIntent \<Rightarrow> FinalizeRequest \<Rightarrow> ('g, FinalizeResult) fop" where
  "resumeFromIntent env now nowc ws it req s =
     (if isWorkspaceTerminal (ws_State ws)
      then idempotentResult now ws req (it_Outcome it) (DeleteFinalizeIntent (ws_ID ws) s)
      else
        andthen (if it_ExpectedRefSHA it = '''' then ok_op ()
                 else andthen (from_ws (ResolveResultRef env (ws_TaskID ws) (ws_Path ws))) (\<lambda>existing.
                   if existing \<noteq> '''' \<and> existing \<noteq> it_ExpectedRefSHA it
                   then fail_op (FinRefConflict (it_ResultBranch it) existing (it_ExpectedRefSHA it)) else ok_op ())) (\<lambda>_.
        andthen (if it_Phase it = PhasePending then ensureRefForIntent env now ws it else ok_op it) (\<lambda>it1.
        commitTerminal nowc ws it1)) s)"

text \<open>Step 3: everything up to the durable intent.\<close>

definition record_intent :: "time \<Rightarrow> FinalizeRequest \<Rightarrow> workspace \<Rightarrow> string \<Rightarrow> ('g, FinalizeIntent) fop" where
  "record_intent now req ws taskTo =
     (let it = make_intent now req ws taskTo in andthen (from_ws (upsertFinalizeIntent it)) (\<lambda>_. ok_op it))"

definition fresh_finalize :: "'g git_env \<Rightarrow> time \<Rightarrow> time \<Rightarrow> FinalizeRequest \<Rightarrow> workspace \<Rightarrow> ('g, FinalizeResult) fop" where
  "fresh_finalize env now nowc req ws s =
     (let outcome = run_Classify (ClassifyFromEvent (fq_TerminalEvent req) (fq_Inspection req) (ws_BaseSHA ws));
          target = outcome_WorkspaceState outcome
      in if \<not> run_allowedTransition (ws_State ws) target then (Inl (FinIllegalTransition (ws_State ws) target), s)
         else case Backlog_Get (wy_db s) (fq_TaskID req) of
           Inl e \<Rightarrow> (Inl (FinTask e), s)
         | Inr (t, _) \<Rightarrow>
             (case task_CanTransition (tk_state t) (ActionForOutcome outcome) of
                None \<Rightarrow>
                  andthen (if task_IsTerminal (tk_state t) then from_ws (Manager_Get (ws_ID ws)) else ok_op ws) (\<lambda>fresh s1.
                    if task_IsTerminal (tk_state t) \<and> isWorkspaceTerminal (ws_State fresh)
                    then idempotentResult now fresh req outcome (DeleteFinalizeIntent (ws_ID ws) s1)
                    else (Inl (FinTaskTransition (tk_state t) (ActionForOutcome outcome)), s1)) s
              | Some taskTo \<Rightarrow>
                  andthen (record_intent now req ws taskTo) (\<lambda>it.
                  andthen (ensureRefForIntent env now ws it) (\<lambda>it1.
                  commitTerminal nowc ws it1)) s))"

definition Finalize :: "'g git_env \<Rightarrow> time \<Rightarrow> time \<Rightarrow> FinalizeRequest \<Rightarrow> ('g, FinalizeResult) fop" where
  "Finalize env now nowc req =
     andthen (from_ws (Manager_Get (fq_WorkspaceID req))) (\<lambda>ws s.
       (let outcome = run_Classify (ClassifyFromEvent (fq_TerminalEvent req) (fq_Inspection req) (ws_BaseSHA ws))
        in if isWorkspaceTerminal (ws_State ws) then idempotentResult now ws req outcome s
           else case GetFinalizeIntent s (ws_ID ws) of
             Some it \<Rightarrow> resumeFromIntent env now nowc ws it req s
           | None \<Rightarrow> fresh_finalize env now nowc req ws s))"

section \<open>Recovery after a restart\<close>

fun recover_intents ::
  "'g git_env \<Rightarrow> time \<Rightarrow> time \<Rightarrow> FinalizeIntent list \<Rightarrow> FinalizeResult list \<times> fin_error list \<Rightarrow> 'g wsys
     \<Rightarrow> (FinalizeResult list \<times> fin_error list) \<times> 'g wsys" where
  "recover_intents env now nowc [] acc s = (acc, s)"
| "recover_intents env now nowc (it # its) (results, errs) s =
     (case from_ws (Manager_Get (it_WorkspaceID it)) s of
        (Inl e, s1) \<Rightarrow> recover_intents env now nowc its (results, errs @ [e]) s1
      | (Inr ws, s1) \<Rightarrow>
          if isWorkspaceTerminal (ws_State ws)
          then recover_intents env now nowc its (results, errs) (DeleteFinalizeIntent (ws_ID ws) s1)
          else (case resumeFromIntent env now nowc ws it
                    (intent_request (ws_ID ws) (no_event\<lparr>re_Type := EventRunCompleted\<rparr>) it) s1 of
                  (Inl e, s2) \<Rightarrow> recover_intents env now nowc its (results, errs @ [e]) s2
                | (Inr res, s2) \<Rightarrow> recover_intents env now nowc its (results @ [res], errs) s2))"

definition RecoverPendingFinalizations ::
  "'g git_env \<Rightarrow> time \<Rightarrow> time \<Rightarrow> 'g wsys \<Rightarrow> (FinalizeResult list \<times> fin_error list) \<times> 'g wsys" where
  "RecoverPendingFinalizations env now nowc s = recover_intents env now nowc (ListFinalizeIntents s) ([], []) s"

end
