(* ===== verification/Finalize_Valid.thy ===== *)
theory Finalize_Valid
  imports Finalize
begin

text \<open>
  Properties of the finalization: the classification is total and agrees with the state machines of the
  workspace and the task; a finalization that is interrupted after any durable step is completed by the
  recovery to the very state an uninterrupted one reaches; a decision is taken once. The laws of git
  they rest on are \<open>ref_lawful\<close>. At the end the cases in which a run is finalized that should not be,
  or is not although the result says so.
\<close>

section \<open>Operations\<close>

lemma andthen_ok: "andthen m k s = (Inr y, s') \<longleftrightarrow> (\<exists>x s1. m s = (Inr x, s1) \<and> k x s1 = (Inr y, s'))"
  by (auto simp: andthen_def split: prod.split sum.split)

lemma from_ws_ok: "from_ws m s = (Inr x, s') \<longleftrightarrow> m s = (Inr x, s')"
  by (auto simp: from_ws_def split: prod.split sum.split ws_error.split)

lemma andthen_step: "m s = (Inr x, s1) \<Longrightarrow> andthen m k s = k x s1"
  by (simp add: andthen_def)

lemma from_ws_step: "m s = (Inr x, s1) \<Longrightarrow> from_ws m s = (Inr x, s1)"
  by (simp add: from_ws_def)

lemma ok_op_eq [simp]: "ok_op x s = (Inr x, s)"
  by (simp add: ok_op_def)

lemma fail_op_eq [simp]: "fail_op e s = (Inl e, s)"
  by (simp add: fail_op_def)

section \<open>The laws of git\<close>

text \<open>\<open>refs g r\<close> is the commit the reference \<open>r\<close> of the repository \<open>g\<close> points at, empty when there is none.
  \<^verbatim>\<open>git for-each-ref\<close> prints it and \<^verbatim>\<open>git rev-parse --git-common-dir\<close> changes nothing; \<^verbatim>\<open>git update-ref\<close> sets it
  and no other, or fails and changes nothing.\<close>

definition ref_lawful :: "'g git_env \<Rightarrow> ('g \<Rightarrow> string \<Rightarrow> string) \<Rightarrow> bool" where
  "ref_lawful env refs \<longleftrightarrow>
     (\<forall>g dir r. \<exists>out. ge_git env dir [''for-each-ref'', ''--format=%(objectname)'', r] g = (Inr out, g) \<and> TrimSpace out = refs g r) \<and>
     (\<forall>g dir. snd (ge_git env dir [''rev-parse'', ''--git-common-dir''] g) = g) \<and>
     (\<forall>g dir r sha. case ge_git env dir [''update-ref'', r, sha] g of
        (Inr _, g1) \<Rightarrow> (\<forall>q. refs g1 q = (if q = r then sha else refs g q))
      | (Inl _, g1) \<Rightarrow> g1 = g)"

lemma not_forbidden:
  "map_of forbiddenGitSubcommands ''for-each-ref'' = None" "map_of forbiddenGitSubcommands ''rev-parse'' = None"
  "map_of forbiddenGitSubcommands ''update-ref'' = None"
  by (simp_all add: forbiddenGitSubcommands_def)

lemma allowed_git: "''for-each-ref'' \<in> set allowedGitSubcommands" "''rev-parse'' \<in> set allowedGitSubcommands"
  "''update-ref'' \<in> set allowedGitSubcommands"
  by (simp_all add: allowedGitSubcommands_def)

lemma gitRunner_allowed:
  assumes "map_of forbiddenGitSubcommands sub = None" "sub \<in> set allowedGitSubcommands"
  shows "gitRunner_run env dir (sub # args) g =
    (case ge_git env dir (sub # args) g of (Inl e, g1) \<Rightarrow> (Inl (GitFailed e), g1) | (Inr out, g1) \<Rightarrow> (Inr out, g1))"
  using assms by (simp add: gitRunner_run_def)

lemma Resolve_lawful:
  assumes "ref_lawful env refs"
  shows "ResolveResultRef env t dir s = (Inr (refs (wy_git s) (FullyQualifiedResultBranch t)), s)"
proof -
  obtain out where "ge_git env dir [''for-each-ref'', ''--format=%(objectname)'', FullyQualifiedResultBranch t] (wy_git s) = (Inr out, wy_git s)"
    "TrimSpace out = refs (wy_git s) (FullyQualifiedResultBranch t)"
    using assms unfolding ref_lawful_def by blast
  then show ?thesis
    by (simp add: ResolveResultRef_def attempt_op_def git_def gitRunner_allowed [OF not_forbidden(1) allowed_git(1)])
qed

lemma common_dir_lawful:
  assumes "ref_lawful env refs"
  obtains d where "resolveCommonDir env dir s = (Inr d, s)"
proof -
  have "snd (ge_git env dir [''rev-parse'', ''--git-common-dir''] (wy_git s)) = wy_git s"
    using assms unfolding ref_lawful_def by blast
  then have "\<exists>d. resolveCommonDir env dir s = (Inr d, s)"
    by (auto simp: resolveCommonDir_def attempt_op_def git_def gitRunner_allowed [OF not_forbidden(2) allowed_git(2)]
        split: prod.split sum.split)
  then show ?thesis using that by blast
qed

lemma Ensure_done:
  assumes "ref_lawful env refs" "EnsureResultRef env ws sha s = (Inr ref, s')"
  obtains g where "s' = s\<lparr>wy_git := g\<rparr>" "refs g (FullyQualifiedResultBranch (ws_TaskID ws)) = sha"
    "ref = FullyQualifiedResultBranch (ws_TaskID ws)" "ws_Path ws \<noteq> ''''" "sha \<noteq> ''''"
    "refs (wy_git s) (FullyQualifiedResultBranch (ws_TaskID ws)) \<in> {'''', sha}"
proof -
  let ?ref = "FullyQualifiedResultBranch (ws_TaskID ws)"
  have ne: "ws_Path ws \<noteq> ''''" "sha \<noteq> ''''" using assms(2) by (auto simp: EnsureResultRef_def Let_def split: if_splits)
  obtain d where d: "resolveCommonDir env (ws_Path ws) s = (Inr d, s)" by (rule common_dir_lawful [OF assms(1)])
  have upd: "case ge_git env d [''update-ref'', ?ref, sha] (wy_git s) of
      (Inr _, g1) \<Rightarrow> (\<forall>q. refs g1 q = (if q = ?ref then sha else refs (wy_git s) q)) | (Inl _, g1) \<Rightarrow> g1 = wy_git s"
    using assms(1) by (simp add: ref_lawful_def)
  have "\<exists>g. s' = s\<lparr>wy_git := g\<rparr> \<and> refs g ?ref = sha \<and> ref = ?ref \<and> refs (wy_git s) ?ref \<in> {'''', sha}"
  proof (cases "refs (wy_git s) ?ref = sha")
    case True
    then show ?thesis
      using assms(2) ne by (auto simp: EnsureResultRef_def Let_def andthen_def Resolve_lawful [OF assms(1)] intro!: exI [of _ "wy_git s"])
  next
    case False
    then show ?thesis
      using assms(2) ne upd
      by (auto simp: EnsureResultRef_def Let_def andthen_def Resolve_lawful [OF assms(1)] d git_def
          gitRunner_allowed [OF not_forbidden(3) allowed_git(3)] split: if_splits prod.splits sum.splits)
  qed
  with ne that show ?thesis by blast
qed

lemma Ensure_again:
  assumes "ref_lawful env refs" "refs (wy_git s) (FullyQualifiedResultBranch (ws_TaskID ws)) = sha" "ws_Path ws \<noteq> ''''" "sha \<noteq> ''''"
  shows "EnsureResultRef env ws sha s = (Inr (FullyQualifiedResultBranch (ws_TaskID ws)), s)"
  using assms by (simp add: EnsureResultRef_def Let_def andthen_def Resolve_lawful)

section \<open>The commit\<close>

definition row_of :: "'g wsys \<Rightarrow> string \<Rightarrow> workspace option" where
  "row_of s i = find (\<lambda>r. ws_ID r = i) (wy_rows s)"

lemma row_of_ID: "row_of s i = Some ws \<Longrightarrow> ws_ID ws = i \<and> ws \<in> set (wy_rows s)"
  by (auto simp: row_of_def find_Some_iff)

lemma Get_row: "row_of s i = Some ws \<Longrightarrow> Manager_Get i s = (Inr ws, s)"
  by (simp add: row_of_def Manager_Get_def)

lemma from_ws_Get: "row_of s i = Some ws \<Longrightarrow> from_ws (Manager_Get i) s = (Inr ws, s)"
  by (simp add: from_ws_def Get_row)

lemma row_of_upd [simp]: "row_of (s\<lparr>wy_git := g\<rparr>) i = row_of s i" "row_of (s\<lparr>wy_intents := x\<rparr>) i = row_of s i"
  by (simp_all add: row_of_def)

lemma active_not_terminal: "\<not> isWorkspaceTerminal WsActive"
  by (simp add: isWorkspaceTerminal_def)

lemma commit_active:
  assumes "row_of s (ws_ID ws) = Some ws" "ws_State ws = WsActive"
  shows "commitTerminal now ws it s = (Inr (decided_result ws it (it_ChangedFiles it)), terminal_tx now ws it s)"
proof -
  have "count_where (\<lambda>r. ws_ID r = ws_ID ws \<and> ws_State r = WsActive) (wy_rows s) \<noteq> 0"
    using row_of_ID [OF assms(1)] assms(2) by (auto simp: count_where_def filter_empty_conv)
  then show ?thesis
    using assms active_not_terminal
    by (simp add: commitTerminal_def andthen_def from_ws_Get [OF assms(1)] Let_def)
qed


lemma decided_result_same:
  "decided_result ws (it\<lparr>it_Phase := p, it_UpdatedAt := u\<rparr>) cs = decided_result ws it cs"
  by (simp add: decided_result_def)

section \<open>Crashes\<close>

text \<open>The states in which a crash can leave a fresh finalization of the workspace \<open>ws\<close>: after the intent was
  recorded, after the reference was set, and after the phase was advanced.\<close>

definition task_target :: "FinalizeRequest \<Rightarrow> workspace \<Rightarrow> 'g wsys \<Rightarrow> string option" where
  "task_target req ws s =
     (case Backlog_Get (wy_db s) (fq_TaskID req) of
        Inl _ \<Rightarrow> None
      | Inr (t, _) \<Rightarrow> task_CanTransition (tk_state t)
          (ActionForOutcome (run_Classify (ClassifyFromEvent (fq_TerminalEvent req) (fq_Inspection req) (ws_BaseSHA ws)))))"


text \<open>The intents of other workspaces stand beside the one of the finalized workspace and are left alone.\<close>

definition of_others :: "workspace \<Rightarrow> FinalizeIntent list \<Rightarrow> bool" where
  "of_others ws its \<longleftrightarrow> list_all (\<lambda>r. it_WorkspaceID r \<noteq> ws_ID ws) its"

lemma of_others_Nil [simp]: "of_others ws []"
  by (simp add: of_others_def)

lemma no_intent_iff: "GetFinalizeIntent s (ws_ID ws) = None \<longleftrightarrow> of_others ws (wy_intents s)"
  by (auto simp: GetFinalizeIntent_def of_others_def find_None_iff list_all_iff)

lemma filter_of_others: "of_others ws its \<Longrightarrow> filter (\<lambda>r. it_WorkspaceID r \<noteq> ws_ID ws) its = its"
  by (simp add: of_others_def list_all_iff)

lemma update_of_others: "of_others ws its \<Longrightarrow> update_where (\<lambda>r. it_WorkspaceID r = ws_ID ws) f its = its"
  by (induction its) (auto simp: update_where_def of_others_def)

lemma record_intent_eq:
  assumes "row_of s (ws_ID ws) = Some ws" "of_others ws (wy_intents s)"
  shows "record_intent now req ws taskTo s =
    (Inr (make_intent now req ws taskTo), s\<lparr>wy_intents := wy_intents s @ [make_intent now req ws taskTo]\<rparr>)"
proof -
  have i: "it_WorkspaceID (make_intent now req ws taskTo) = ws_ID ws" by (simp add: make_intent_def Let_def)
  have "ws_ID ws \<in> ws_ID ` set (wy_rows s)" "ws_ID ws \<notin> it_WorkspaceID ` set (wy_intents s)"
    using row_of_ID [OF assms(1)] assms(2) by (force, auto simp: of_others_def list_all_iff)
  then show ?thesis by (simp add: record_intent_def Let_def andthen_def from_ws_def upsertFinalizeIntent_def i)
qed

lemma advance_eq:
  assumes "row_of s (ws_ID ws) = Some ws" "wy_intents s = its @ [it0]" "of_others ws its"
    "it_WorkspaceID it0 = ws_ID ws" "it_WorkspaceID it = ws_ID ws" "it_CreatedAt it0 = it_CreatedAt it"
  shows "advance_phase now it s =
    (Inr (it\<lparr>it_Phase := PhaseRefReady, it_UpdatedAt := rfc3339nano now\<rparr>),
     s\<lparr>wy_intents := its @ [it\<lparr>it_Phase := PhaseRefReady, it_UpdatedAt := rfc3339nano now\<rparr>]\<rparr>)"
proof -
  have "ws_ID ws \<in> ws_ID ` set (wy_rows s)" using row_of_ID [OF assms(1)] by force
  moreover have "update_where (\<lambda>r. it_WorkspaceID r = ws_ID ws) f (its @ [it0]) = its @ [f it0]" for f
    using update_of_others [OF assms(3)] assms(4) by (simp add: update_where_def)
  ultimately show ?thesis
    using assms(2-6) by (simp add: advance_phase_def Let_def andthen_def from_ws_def upsertFinalizeIntent_def)
qed

text \<open>Setting the reference of an intent: it changes the repository only, keeps the intent, and leaves the
  reference where a second call finds it.\<close>

lemma ensure_ref_done:
  assumes lawful: "ref_lawful env refs" and br: "it_ExpectedRefSHA it \<noteq> '''' \<Longrightarrow> it_ResultBranch it = FullyQualifiedResultBranch (ws_TaskID ws)"
    and run: "ensure_ref env ws it s = (Inr it', s')"
  obtains g where "it' = it" "s' = s\<lparr>wy_git := g\<rparr>"
    "\<And>s1. wy_git s1 = g \<Longrightarrow> ensure_ref env ws it s1 = (Inr it, s1)"
    "it_ExpectedRefSHA it \<noteq> '''' \<Longrightarrow> refs g (FullyQualifiedResultBranch (ws_TaskID ws)) = it_ExpectedRefSHA it"
    "it_ExpectedRefSHA it \<noteq> '''' \<Longrightarrow> refs (wy_git s) (FullyQualifiedResultBranch (ws_TaskID ws)) \<in> {'''', it_ExpectedRefSHA it}"
proof (cases "it_ExpectedRefSHA it = ''''")
  case True
  with run have "it' = it" "s' = s\<lparr>wy_git := wy_git s\<rparr>" by (simp_all add: ensure_ref_def)
  with True show ?thesis by (intro that [of "wy_git s"]) (simp_all add: ensure_ref_def)
next
  case False
  with run obtain ref where e: "EnsureResultRef env ws (it_ExpectedRefSHA it) s = (Inr ref, s')" "it' = it\<lparr>it_ResultBranch := ref\<rparr>"
    by (auto simp: ensure_ref_def andthen_ok from_ws_ok)
  obtain g where g: "s' = s\<lparr>wy_git := g\<rparr>" "refs g (FullyQualifiedResultBranch (ws_TaskID ws)) = it_ExpectedRefSHA it"
    "ref = FullyQualifiedResultBranch (ws_TaskID ws)" "ws_Path ws \<noteq> ''''" "it_ExpectedRefSHA it \<noteq> ''''"
    "refs (wy_git s) (FullyQualifiedResultBranch (ws_TaskID ws)) \<in> {'''', it_ExpectedRefSHA it}"
    by (rule Ensure_done [OF lawful e(1)])
  have same: "it\<lparr>it_ResultBranch := FullyQualifiedResultBranch (ws_TaskID ws)\<rparr> = it" using br [OF False] by simp
  have again: "ensure_ref env ws it s1 = (Inr it, s1)" if "wy_git s1 = g" for s1
    using Ensure_again [OF lawful, of s1 ws "it_ExpectedRefSHA it"] that g False same
    by (simp add: ensure_ref_def andthen_def from_ws_def)
  have "it' = it" using e(2) same g(3) by simp
  then show ?thesis by (rule that [OF _ g(1) again g(2,6)])
qed


lemma make_intent_fields:
  "it_WorkspaceID (make_intent now req ws t) = ws_ID ws" "it_Phase (make_intent now req ws t) = PhasePending"
  "it_ExpectedRefSHA (make_intent now req ws t) \<noteq> '''' \<Longrightarrow>
     it_ResultBranch (make_intent now req ws t) = FullyQualifiedResultBranch (ws_TaskID ws)"
  by (simp_all add: make_intent_def Let_def split: if_splits)

text \<open>An active workspace without an intent is finalized through all the steps, or not at all.\<close>

lemma Finalize_fresh:
  assumes row: "row_of s (fq_WorkspaceID req) = Some ws" "ws_State ws = WsActive" "of_others ws (wy_intents s)"
    and fin: "Finalize env now nowc req s = (Inr res, s')"
  obtains taskTo where "task_target req ws s = Some taskTo"
    "andthen (record_intent now req ws taskTo) (\<lambda>it. andthen (ensureRefForIntent env now ws it) (commitTerminal nowc ws)) s = (Inr res, s')"
proof -
  have "fresh_finalize env now nowc req ws s = (Inr res, s')"
    using fin row active_not_terminal
    by (simp add: Finalize_def andthen_def from_ws_Get [OF row(1)] Let_def flip: no_intent_iff)
  then have "\<exists>taskTo. task_target req ws s = Some taskTo \<and>
      andthen (record_intent now req ws taskTo) (\<lambda>it. andthen (ensureRefForIntent env now ws it) (commitTerminal nowc ws)) s = (Inr res, s')"
    using row active_not_terminal row_of_ID [OF row(1)]
    by (auto simp: fresh_finalize_def task_target_def Let_def andthen_ok from_ws_Get split: if_splits sum.splits option.splits prod.splits)
  then show ?thesis using that by blast
qed

lemma Finalize_steps:
  assumes lawful: "ref_lawful env refs"
    and row: "row_of s (fq_WorkspaceID req) = Some ws" "ws_State ws = WsActive" "of_others ws (wy_intents s)"
    and fin: "Finalize env now nowc req s = (Inr res, s')"
  obtains taskTo it g where "task_target req ws s = Some taskTo" "it = make_intent now req ws taskTo"
    "ensure_ref env ws it (s\<lparr>wy_intents := wy_intents s @ [it]\<rparr>) = (Inr it, s\<lparr>wy_intents := wy_intents s @ [it], wy_git := g\<rparr>)"
    "\<And>s1. wy_git s1 = g \<Longrightarrow> ensure_ref env ws it s1 = (Inr it, s1)"
    "it_ExpectedRefSHA it \<noteq> '''' \<Longrightarrow> refs g (FullyQualifiedResultBranch (ws_TaskID ws)) = it_ExpectedRefSHA it"
    "it_ExpectedRefSHA it \<noteq> '''' \<Longrightarrow> refs (wy_git s) (FullyQualifiedResultBranch (ws_TaskID ws)) \<in> {'''', it_ExpectedRefSHA it}"
    "res = decided_result ws it (it_ChangedFiles it)"
    "s' = terminal_tx nowc ws (it\<lparr>it_Phase := PhaseRefReady, it_UpdatedAt := rfc3339nano now\<rparr>)
       (s\<lparr>wy_git := g, wy_intents := wy_intents s @ [it\<lparr>it_Phase := PhaseRefReady, it_UpdatedAt := rfc3339nano now\<rparr>]\<rparr>)"
proof -
  have id: "ws_ID ws = fq_WorkspaceID req" using row_of_ID [OF row(1)] by simp
  have row': "row_of s (ws_ID ws) = Some ws" using row id by simp
  obtain taskTo where t: "task_target req ws s = Some taskTo"
    and run: "andthen (record_intent now req ws taskTo) (\<lambda>it. andthen (ensureRefForIntent env now ws it) (commitTerminal nowc ws)) s = (Inr res, s')"
    by (rule Finalize_fresh [OF row fin])
  define it where "it = make_intent now req ws taskTo"
  have "andthen (ensureRefForIntent env now ws it) (commitTerminal nowc ws) (s\<lparr>wy_intents := wy_intents s @ [it]\<rparr>) = (Inr res, s')"
    using run unfolding andthen_def [of "record_intent now req ws taskTo"] record_intent_eq [OF row' row(3)] it_def by simp
  then obtain it1 s3 where e: "ensureRefForIntent env now ws it (s\<lparr>wy_intents := wy_intents s @ [it]\<rparr>) = (Inr it1, s3)" "commitTerminal nowc ws it1 s3 = (Inr res, s')"
    by (auto simp: andthen_ok)
  obtain it2 s2 where r: "ensure_ref env ws it (s\<lparr>wy_intents := wy_intents s @ [it]\<rparr>) = (Inr it2, s2)" "advance_phase now it2 s2 = (Inr it1, s3)"
    using e(1) by (auto simp: ensureRefForIntent_def andthen_ok)
  obtain g where g: "it2 = it" "s2 = s\<lparr>wy_intents := wy_intents s @ [it], wy_git := g\<rparr>" "\<And>s1. wy_git s1 = g \<Longrightarrow> ensure_ref env ws it s1 = (Inr it, s1)"
    "it_ExpectedRefSHA it \<noteq> '''' \<Longrightarrow> refs g (FullyQualifiedResultBranch (ws_TaskID ws)) = it_ExpectedRefSHA it"
    "it_ExpectedRefSHA it \<noteq> '''' \<Longrightarrow> refs (wy_git s) (FullyQualifiedResultBranch (ws_TaskID ws)) \<in> {'''', it_ExpectedRefSHA it}"
    by (rule ensure_ref_done [OF lawful _ r(1)]) (simp_all add: it_def make_intent_fields)
  have a: "it1 = it\<lparr>it_Phase := PhaseRefReady, it_UpdatedAt := rfc3339nano now\<rparr>"
    "s3 = s\<lparr>wy_git := g, wy_intents := wy_intents s @ [it\<lparr>it_Phase := PhaseRefReady, it_UpdatedAt := rfc3339nano now\<rparr>]\<rparr>"
    using r(2) advance_eq [of s2 ws "wy_intents s" it it now] row' row(3) by (simp_all add: g it_def make_intent_fields)
  have "row_of s3 (ws_ID ws) = Some ws" using row' by (simp add: a(2))
  from commit_active [OF this row(2)] e(2) have "res = decided_result ws it1 (it_ChangedFiles it1)" "s' = terminal_tx nowc ws it1 s3"
    by simp_all
  then show ?thesis
    using t it_def r(1) g a by (intro that [of taskTo it g]) (simp_all add: decided_result_same)
qed




section \<open>One decision\<close>

lemma find_update_row:
  assumes "\<And>r. ws_ID (f r) = ws_ID r"
  shows "find (\<lambda>r. ws_ID r = i) (update_where (\<lambda>r. ws_ID r = i \<and> P r) f rows) =
         map_option (\<lambda>r. if P r then f r else r) (find (\<lambda>r. ws_ID r = i) rows)"
  using assms by (induction rows) (auto simp: update_where_def)

lemma find_settled:
  "find (\<lambda>t. tk_id t = i) (map (settle_task now it) ts) = map_option (settle_task now it) (find (\<lambda>t. tk_id t = i) ts)"
  by (induction ts) (auto simp: settle_task_def)

definition decisions :: "'g wsys \<Rightarrow> nat" where
  "decisions s = length (filter (\<lambda>e. ae_type e = ''run.outcome_decided'') (db_audit (wy_db s)))"

lemma terminal_tx_fields:
  "wy_rows (terminal_tx now ws it s) = update_where (\<lambda>r. ws_ID r = ws_ID ws \<and> ws_State r = WsActive) (claim_terminal now (ws_ID ws) it) (wy_rows s)"
  "wy_intents (terminal_tx now ws it s) = filter (\<lambda>r. it_WorkspaceID r \<noteq> ws_ID ws) (wy_intents s)"
  "db_tasks (wy_db (terminal_tx now ws it s)) = map (settle_task now it) (db_tasks (wy_db s))"
  "decisions (terminal_tx now ws it s) = Suc (decisions s)"
  by (simp_all add: terminal_tx_def Let_def ws_audit_def recordInto_def DeleteFinalizeIntent_def decisions_def)

lemma idempotentResult_eq:
  "\<exists>rec e. idempotentResult now ws req oc s = (Inr rec, s\<lparr>wy_db := (wy_db s)\<lparr>db_audit := db_audit (wy_db s) @ [e]\<rparr>\<rparr>) \<and>
     ae_type e = ''run.finalize_idempotent'' \<and> fr_Idempotent rec \<and> fr_Outcome rec = outcomeForTerminalState (ws_State ws) oc"
  by (simp add: idempotentResult_def Let_def andthen_def ignore_op_def from_ws_def ws_audit_def recordInto_def)
    (rule exI, rule conjI, rule refl, simp)

lemma outcome_state_terminal: "isWorkspaceTerminal (outcome_WorkspaceState oc)"
  by (simp add: outcome_WorkspaceState_def isWorkspaceTerminal_def)

lemma recorded_outcome:
  "outcome_WorkspaceState (outcomeForTerminalState (outcome_WorkspaceState oc) oc') = outcome_WorkspaceState oc"
proof -
  consider "outcome_WorkspaceState oc = WsCompleted" | "outcome_WorkspaceState oc = WsFailed"
    | "outcome_WorkspaceState oc = WsCancelled" | "outcome_WorkspaceState oc = WsTimedOut"
    unfolding outcome_WorkspaceState_def by argo
  then show ?thesis
    by cases (simp_all add: outcomeForTerminalState_def, simp_all add: outcome_WorkspaceState_def)
qed

text \<open>C10: A finalization decides once. Let a workspace be active with no intent of an earlier finalization pending,
  and let a finalization of it succeed. It takes the workspace to the terminal state that belongs to the
  outcome and the task to the state the transition for that outcome names (a task that is REJECTED stays as it
  is), records one decision in the audit trail and leaves the table of intents as it found it. Every
  later finalization of that workspace, whatever event and inspection it brings, returns the recorded
  kind of outcome and does one thing only: it appends one \<^verbatim>\<open>run.finalize_idempotent\<close> event to the audit trail.\<close>

theorem finalize_decides_once:
  assumes "ref_lawful env refs" "row_of s (fq_WorkspaceID req) = Some ws" "ws_State ws = WsActive"
    and "GetFinalizeIntent s (fq_WorkspaceID req) = None" "Finalize env now nowc req s = (Inr res, s')"
  shows "(\<exists>r t t'. row_of s' (fq_WorkspaceID req) = Some r \<and> ws_State r = outcome_WorkspaceState (fr_Outcome res) \<and>
            isWorkspaceTerminal (ws_State r) \<and> GetTask (wy_db s) (fq_TaskID req) = Some t \<and> GetTask (wy_db s') (fq_TaskID req) = Some t' \<and>
            (if tk_state t = ''REJECTED'' then t' = t
             else task_CanTransition (tk_state t) (ActionForOutcome (fr_Outcome res)) = Some (tk_state t'))) \<and>
         wy_intents s' = wy_intents s \<and> decisions s' = Suc (decisions s) \<and>
         (\<forall>req' n n'. fq_WorkspaceID req' = fq_WorkspaceID req \<longrightarrow>
            (\<exists>res' e. Finalize env n n' req' s' = (Inr res', s'\<lparr>wy_db := (wy_db s')\<lparr>db_audit := db_audit (wy_db s') @ [e]\<rparr>\<rparr>) \<and>
               ae_type e = ''run.finalize_idempotent'' \<and> fr_Idempotent res' \<and>
               outcome_WorkspaceState (fr_Outcome res') = outcome_WorkspaceState (fr_Outcome res)))"
proof -
  let ?oc = "run_Classify (ClassifyFromEvent (fq_TerminalEvent req) (fq_Inspection req) (ws_BaseSHA ws))"
  have id: "ws_ID ws = fq_WorkspaceID req" using row_of_ID [OF assms(2)] by simp
  have others: "of_others ws (wy_intents s)" using assms(4) by (simp add: id flip: no_intent_iff)
  obtain taskTo it g where f: "task_target req ws s = Some taskTo" "it = make_intent now req ws taskTo"
    "res = decided_result ws it (it_ChangedFiles it)"
    "s' = terminal_tx nowc ws (it\<lparr>it_Phase := PhaseRefReady, it_UpdatedAt := rfc3339nano now\<rparr>)
       (s\<lparr>wy_git := g, wy_intents := wy_intents s @ [it\<lparr>it_Phase := PhaseRefReady, it_UpdatedAt := rfc3339nano now\<rparr>]\<rparr>)"
    using Finalize_steps [OF assms(1-3) others assms(5)] by metis
  have oc: "it_Outcome it = ?oc" "it_TargetWSState it = outcome_WorkspaceState ?oc" "it_TargetTaskState it = taskTo" "it_TaskID it = fq_TaskID req"
    "it_WorkspaceID it = ws_ID ws" by (simp_all add: f(2) make_intent_def Let_def)
  have res: "fr_Outcome res = ?oc" by (simp add: f(3) decided_result_def oc)
  obtain t where t: "GetTask (wy_db s) (fq_TaskID req) = Some t"
    and can: "task_CanTransition (tk_state t) (ActionForOutcome ?oc) = Some taskTo"
    using f(1) by (auto simp: task_target_def Backlog_Get_def split: option.splits)
  then have open_task: "tk_state t \<notin> set [''COMPLETED'', ''FAILED'', ''CANCELLED'']"
    by (auto simp: task_CanTransition_def task_IsTerminal_def)
  have row: "row_of s' (fq_WorkspaceID req) = Some (claim_terminal nowc (ws_ID ws) (it\<lparr>it_Phase := PhaseRefReady, it_UpdatedAt := rfc3339nano now\<rparr>) ws)"
    using assms(2,3) unfolding row_of_def f(4) terminal_tx_fields id
    by (subst find_update_row) (simp_all add: claim_terminal_def)
  have state: "ws_State (claim_terminal nowc (ws_ID ws) (it\<lparr>it_Phase := PhaseRefReady, it_UpdatedAt := rfc3339nano now\<rparr>) ws) = outcome_WorkspaceState ?oc"
    by (simp add: claim_terminal_def oc)
  have tid: "tk_id t = fq_TaskID req" using t by (auto simp: GetTask_def find_Some_iff)
  have task: "GetTask (wy_db s') (fq_TaskID req) =
      Some (if tk_state t = ''REJECTED'' then t else t\<lparr>tk_state := taskTo, tk_updated_at := rfc3339nano nowc\<rparr>)"
    using t open_task tid unfolding GetTask_def f(4) terminal_tx_fields
    by (simp add: find_settled settle_task_def oc)
  have gone: "wy_intents s' = wy_intents s" "decisions s' = Suc (decisions s)"
    unfolding f(4) terminal_tx_fields by (simp_all add: oc decisions_def filter_of_others [OF others])
  have again: "\<exists>res' e. Finalize env n n' req' s' = (Inr res', s'\<lparr>wy_db := (wy_db s')\<lparr>db_audit := db_audit (wy_db s') @ [e]\<rparr>\<rparr>) \<and>
      ae_type e = ''run.finalize_idempotent'' \<and> fr_Idempotent res' \<and>
      outcome_WorkspaceState (fr_Outcome res') = outcome_WorkspaceState ?oc" if "fq_WorkspaceID req' = fq_WorkspaceID req" for req' n n'
  proof -
    let ?r = "claim_terminal nowc (ws_ID ws) (it\<lparr>it_Phase := PhaseRefReady, it_UpdatedAt := rfc3339nano now\<rparr>) ws"
    let ?oc' = "run_Classify (ClassifyFromEvent (fq_TerminalEvent req') (fq_Inspection req') (ws_BaseSHA ?r))"
    have "Finalize env n n' req' s' = idempotentResult n ?r req' ?oc' s'"
      using row that outcome_state_terminal [of ?oc]
      by (simp add: Finalize_def andthen_def from_ws_Get Let_def state)
    then show ?thesis using idempotentResult_eq [of n ?r req' ?oc' s'] recorded_outcome by (fastforce simp: state)
  qed
  show ?thesis
    unfolding res using gone again row state t task can by (intro conjI allI impI exI [of _ t]) (auto simp: outcome_state_terminal)
qed

section \<open>A repository and a run\<close>

text \<open>A repository that is the list of its references; the other commands print nothing and change nothing.\<close>

definition ref_lookup :: "(string \<times> string) list \<Rightarrow> string \<Rightarrow> string" where
  "ref_lookup g r = (case map_of g r of None \<Rightarrow> '''' | Some sha \<Rightarrow> TrimSpace sha)"

definition ref_git :: "string \<Rightarrow> string list \<Rightarrow> ((string \<times> string) list, string, string) op" where
  "ref_git dir args g =
     (case args of
        [cmd, a, b] \<Rightarrow>
          if cmd = ''for-each-ref'' then (Inr (case map_of g b of None \<Rightarrow> '''' | Some sha \<Rightarrow> sha), g)
          else if cmd = ''update-ref''
          then (if TrimSpace b = b then (Inr '''', (a, b) # g) else (Inl ''not a valid object'', g))
          else (Inr '''', g)
      | _ \<Rightarrow> (Inr '''', g))"

definition ref_env :: "(string \<times> string) list git_env" where
  "ref_env = \<lparr>ge_git = ref_git, ge_isWorktree = (\<lambda>_ _. True), ge_mkdir = (\<lambda>_ g. (Inr (), g)), ge_root = ''/h''\<rparr>"

lemma ref_env_lawful: "ref_lawful ref_env ref_lookup"
proof -
  have "TrimSpace '''' = ''''" by code_simp
  then show ?thesis by (auto simp: ref_lawful_def ref_env_def ref_git_def ref_lookup_def split: option.split)
qed

definition demo_workspace :: "string \<Rightarrow> workspace" where
  "demo_workspace st =
     \<lparr>ws_ID = ''ws'', ws_ProjectID = ''p'', ws_TaskID = ''p-1'', ws_WorkPackageID = ''main'', ws_Attempt = 1, ws_Kind = ''attempt'',
      ws_Path = ''/w'', ws_Branch = ''b'', ws_ResultBranch = '''', ws_BaseSHA = ''b0'', ws_HeadSHA = ''b0'', ws_ResultSHA = '''',
      ws_State = st, ws_Engine = '''', ws_Model = '''', ws_RunID = '''', ws_SessionID = '''', ws_CreatedAt = '''', ws_UpdatedAt = ''''\<rparr>"

definition demo_wsys :: "string \<Rightarrow> (string \<times> string) list wsys" where
  "demo_wsys st =
     \<lparr>wy_db = empty_db\<lparr>db_tasks := [\<lparr>tk_id = ''p-1'', tk_project_id = ''p'', tk_title = '''', tk_description = '''', tk_priority = '''',
        tk_state = TaskRunning, tk_created_at = '''', tk_updated_at = ''''\<rparr>]\<rparr>,
      wy_rows = [demo_workspace st], wy_checkpoints = [], wy_ck_seq = 0, wy_intents = [], wy_git = []\<rparr>"

definition demo_finalize :: "run_event \<Rightarrow> Inspection \<Rightarrow> FinalizeRequest" where
  "demo_finalize ev ins =
     \<lparr>fq_WorkspaceID = ''ws'', fq_TerminalEvent = ev, fq_Inspection = ins, fq_TaskID = ''p-1'', fq_Engine = ''e'', fq_Model = ''m'', fq_RunID = ''r''\<rparr>"

abbreviation (input) demo_request :: FinalizeRequest where
  "demo_request \<equiv> demo_finalize (no_event\<lparr>re_Type := EventRunCompleted\<rparr>) (no_inspection\<lparr>in_ActualHEAD := ''c1'', in_ChangedFiles := [''x.go'']\<rparr>)"

lemmas demo_finalize_simps = demo_finalize_def demo_wsys_def demo_workspace_def no_event_def no_inspection_def

lemma demo_row: "row_of (demo_wsys st) (fq_WorkspaceID (demo_finalize ev ins)) = Some (demo_workspace st)"
  by (simp add: demo_finalize_simps row_of_def)

lemma demo_running: "GetTask (wy_db (demo_wsys st)) (fq_TaskID (demo_finalize ev ins)) =
    Some \<lparr>tk_id = ''p-1'', tk_project_id = ''p'', tk_title = '''', tk_description = '''', tk_priority = '''',
      tk_state = TaskRunning, tk_created_at = '''', tk_updated_at = ''''\<rparr>"
  by (simp add: demo_finalize_simps GetTask_def empty_db_def)

lemma demo_target: "task_target demo_request (demo_workspace WsActive) (demo_wsys WsActive) = Some TaskCompleted"
  by (simp add: task_target_def Backlog_Get_def demo_running, simp add: demo_finalize_simps ClassifyFromEvent_def run_Classify_def
      ActionForOutcome_def task_CanTransition_def task_IsTerminal_def task_validTransitions_def)

lemma demo_trims: "TrimSpace '''' = ''''" "TrimSpace ''c1'' = ''c1''" "FullyQualifiedResultBranch ''p-1'' = ''refs/heads/forge/result/p-1''"
  by code_simp+

lemma demo_ensure:
  "wy_git s = [] \<Longrightarrow> EnsureResultRef ref_env (demo_workspace WsActive) ''c1'' s =
     (Inr ''refs/heads/forge/result/p-1'', s\<lparr>wy_git := [(''refs/heads/forge/result/p-1'', ''c1'')]\<rparr>)"
proof -
  assume g: "wy_git s = []"
  have r: "ResolveResultRef ref_env ''p-1'' ''/w'' s = (Inr '''', s)"
    using Resolve_lawful [OF ref_env_lawful, of "''p-1''" "''/w''" s] g by (simp add: ref_lookup_def)
  obtain d where d: "resolveCommonDir ref_env ''/w'' s = (Inr d, s)" by (rule common_dir_lawful [OF ref_env_lawful])
  have u: "git ref_env d [''update-ref'', ''refs/heads/forge/result/p-1'', ''c1''] s =
      (Inr '''', s\<lparr>wy_git := [(''refs/heads/forge/result/p-1'', ''c1'')]\<rparr>)"
    unfolding git_def gitRunner_allowed [OF not_forbidden(3) allowed_git(3)]
    by (simp add: g ref_env_def ref_git_def demo_trims)
  show ?thesis
    by (simp add: EnsureResultRef_def Let_def andthen_def demo_workspace_def demo_trims r d u)
qed

lemma demo_finalizes: "\<exists>res s'. Finalize ref_env 0 0 demo_request (demo_wsys WsActive) = (Inr res, s')"
proof -
  let ?s = "demo_wsys WsActive" and ?w = "demo_workspace WsActive"
  let ?it = "make_intent 0 demo_request ?w TaskCompleted"
  let ?it1 = "?it\<lparr>it_ResultBranch := ''refs/heads/forge/result/p-1''\<rparr>"
  let ?s1 = "?s\<lparr>wy_intents := [?it], wy_git := [(''refs/heads/forge/result/p-1'', ''c1'')]\<rparr>"
  let ?it2 = "?it1\<lparr>it_Phase := PhaseRefReady, it_UpdatedAt := rfc3339nano 0\<rparr>"
  have w: "ws_ID ?w = fq_WorkspaceID demo_request" "ws_State ?w = WsActive" by (simp_all add: demo_finalize_simps)
  have row: "row_of ?s (ws_ID ?w) = Some ?w" unfolding w by (rule demo_row)
  have none: "wy_intents ?s = []" "GetFinalizeIntent ?s i = None" "wy_git ?s = []" for i by (simp_all add: demo_wsys_def GetFinalizeIntent_def)
  have it: "it_ExpectedRefSHA ?it = ''c1''" "it_WorkspaceID ?it = ws_ID ?w"
    by (simp_all add: make_intent_def Let_def demo_finalize_simps ClassifyFromEvent_def run_Classify_def CreatesResultRef_def)
  have ens: "ensure_ref ref_env ?w ?it (?s\<lparr>wy_intents := [?it]\<rparr>) = (Inr ?it1, ?s1)"
    by (simp add: ensure_ref_def andthen_def from_ws_def it demo_ensure none(3))
  have adv: "advance_phase 0 ?it1 ?s1 = (Inr ?it2, ?s1\<lparr>wy_intents := [?it2]\<rparr>)"
    using advance_eq [of ?s1 ?w "[]" ?it ?it1 0] by (simp add: row it)
  have com: "\<exists>res s'. commitTerminal 0 ?w ?it2 (?s1\<lparr>wy_intents := [?it2]\<rparr>) = (Inr res, s')"
    by (subst commit_active) (simp_all add: row w(2))
  have can: "run_allowedTransition WsActive (outcome_WorkspaceState (run_Classify
      (ClassifyFromEvent (fq_TerminalEvent demo_request) (fq_Inspection demo_request) (ws_BaseSHA ?w))))"
    by (simp add: demo_finalize_simps ClassifyFromEvent_def run_Classify_def outcome_WorkspaceState_def run_allowedTransition_def)
  have tgt: "task_CanTransition TaskRunning (ActionForOutcome (run_Classify
      (ClassifyFromEvent (fq_TerminalEvent demo_request) (fq_Inspection demo_request) (ws_BaseSHA ?w)))) = Some TaskCompleted"
    using demo_target by (simp add: task_target_def Backlog_Get_def demo_running)
  have "Finalize ref_env 0 0 demo_request ?s = fresh_finalize ref_env 0 0 demo_request ?w ?s"
    by (simp add: Finalize_def andthen_def from_ws_Get [OF demo_row] w(2) none active_not_terminal)
  also have "\<dots> = commitTerminal 0 ?w ?it2 (?s1\<lparr>wy_intents := [?it2]\<rparr>)"
    using can tgt adv ens
    by (simp add: fresh_finalize_def Let_def w(2) Backlog_Get_def demo_running andthen_def record_intent_eq [OF row] none(1) ensureRefForIntent_def)
  finally show ?thesis using com by simp
qed


theorem finalize_decides_once_witness:
  "\<exists>res s'. Finalize ref_env 0 0 demo_request (demo_wsys WsActive) = (Inr res, s') \<and> wy_intents s' = [] \<and> decisions s' = 1"
proof -
  obtain res s' where f: "Finalize ref_env 0 0 demo_request (demo_wsys WsActive) = (Inr res, s')" using demo_finalizes by blast
  have d: "decisions (demo_wsys WsActive) = 0" "ws_State (demo_workspace WsActive) = WsActive" "wy_intents (demo_wsys WsActive) = []"
    by (simp_all add: decisions_def demo_wsys_def empty_db_def demo_workspace_def)
  show ?thesis using f finalize_decides_once [OF ref_env_lawful demo_row d(2) _ f] by (simp add: d GetFinalizeIntent_def)
qed

section \<open>Outcomes that do not match the run\<close>

text \<open>When the worktree cannot be inspected, the run is finalized with an empty inspection as the failure it is
  meant to be; but the empty head differs from every base, so a completed run is classified as one with
  a commit: the workspace and the task are to be completed, without a result reference.\<close>

lemma inspect_failure_completes_task:
  assumes "re_Type (fq_TerminalEvent req) = EventRunCompleted" "fq_Inspection req = no_inspection" "ws_BaseSHA ws \<noteq> ''''"
  shows "it_Outcome (make_intent now req ws t) = OutcomeCompletedWithCommit \<and> it_TargetWSState (make_intent now req ws t) = WsCompleted \<and>
    ActionForOutcome (it_Outcome (make_intent now req ws t)) = ''complete'' \<and> it_ExpectedRefSHA (make_intent now req ws t) = ''''"
  using assms
  by (simp add: make_intent_def Let_def ClassifyFromEvent_def run_Classify_def no_inspection_def outcome_WorkspaceState_def
      ActionForOutcome_def CreatesResultRef_def)

text \<open>A workspace that waits for quota or is still pending may be moved to failed; but the commit claims active
  workspaces only. The finalization then answers with the outcome and a nil error while the workspace and the
  task keep their states, and it removes the intent.\<close>

lemma lost_claim_reports_outcome:
  assumes "wy_rows s = [ws]" "ws_State ws = WsWaitingQuota \<or> ws_State ws = WsPending" "it_Outcome it = OutcomeFailed"
  shows "run_allowedTransition (ws_State ws) (outcome_WorkspaceState (it_Outcome it)) \<and>
    (\<exists>res s'. commitTerminal now ws it s = (Inr res, s') \<and> fr_Outcome res = OutcomeFailed \<and> wy_rows s' = [ws] \<and>
       db_tasks (wy_db s') = db_tasks (wy_db s) \<and> wy_intents s' = filter (\<lambda>r. it_WorkspaceID r \<noteq> ws_ID ws) (wy_intents s))"
proof -
  have row: "row_of s (ws_ID ws) = Some ws" by (simp add: row_of_def assms(1))
  have n: "\<not> isWorkspaceTerminal (ws_State ws)" "ws_State ws \<noteq> WsActive" using assms(2) by (auto simp: isWorkspaceTerminal_def)
  have k: "outcomeForTerminalState (ws_State ws) OutcomeFailed = OutcomeFailed" using assms(2) by (auto simp: outcomeForTerminalState_def)
  let ?req = "intent_request (ws_ID ws) no_event it"
  have "commitTerminal now ws it s = idempotentResult now ws ?req OutcomeFailed (DeleteFinalizeIntent (ws_ID ws) s)"
    using n by (simp add: commitTerminal_def andthen_def from_ws_Get [OF row] Let_def count_where_def assms(1,3))
  moreover have "run_allowedTransition (ws_State ws) (outcome_WorkspaceState (it_Outcome it))"
    using assms(2,3) by (auto simp: run_allowedTransition_def outcome_WorkspaceState_def)
  ultimately show ?thesis
    using idempotentResult_eq [of now ws ?req OutcomeFailed "DeleteFinalizeIntent (ws_ID ws) s"] assms(1) k
    by (auto simp: DeleteFinalizeIntent_def)
qed

end
