(* ===== verification/Review_Agent.thy ===== *)
theory Review_Agent
  imports Verification_Engines Project_Registry Merge_Governance
begin

text \<open>
  The review agent, \<^verbatim>\<open>src/internal/review/agent.go\<close>: the prompt of a role, the scan of the answer for the last
  JSON array and the normalisation of the findings. The agent run is an argument that acts on a world
  \<open>'w\<close>; \<^verbatim>\<open>json.Unmarshal\<close> into the raw findings is an argument too. The engine of \<^verbatim>\<open>engine.go\<close> is repeated for
  reviewers that act on a world.

  The theorems: an answer that is one printed JSON array between prose without brackets and quotes is
  found as printed, whatever strings it holds; the engine agrees with the one for pure reviewers; and
  two answers for which the scan does not find what the agent meant.
\<close>

section \<open>The prompt\<close>

definition em_dash :: string where
  "em_dash = [CHR 0xE2, CHR 0x80, CHR 0x94]"

definition nl :: string where
  "nl = [CHR 0x0A]"

definition quoted :: "string \<Rightarrow> string" where
  "quoted s = [CHR 0x22] @ s @ [CHR 0x22]"

definition fence :: string where
  "fence = replicate 3 (CHR 0x60)"

fun roleInstruction :: "role \<Rightarrow> string" where
  "roleInstruction RoleCorrectness =
     ''Review the change for CORRECTNESS: logic errors, off-by-one mistakes, nil/edge-case handling, error paths, concurrency hazards, and behaviour that diverges from the stated intent.''"
| "roleInstruction RoleArchitecture =
     ''Review the change for ARCHITECTURE: package boundary violations, layering regressions, misplaced responsibilities, coupling, and drift from the documented design.''"
| "roleInstruction RoleSecurity =
     ''Review the change for SECURITY: injection, credential or secret exposure, unsafe command/process construction, path traversal, unvalidated input, and weakened policy enforcement.''"

definition DefaultMaxDiffBytes :: int where
  "DefaultMaxDiffBytes = 200 * 1024"

definition LastIndexByte :: "string \<Rightarrow> char \<Rightarrow> nat option" where
  "LastIndexByte s c = (case dropWhile (\<lambda>x. x \<noteq> c) (rev s) of [] \<Rightarrow> None | _ # xs \<Rightarrow> Some (length xs))"

definition truncateDiff :: "string \<Rightarrow> int \<Rightarrow> string" where
  "truncateDiff diff maxBytes =
     (if maxBytes < 0 \<or> int (length diff) \<le> maxBytes then diff
      else
        (let cut_at = (case LastIndexByte (take (nat maxBytes) diff) (CHR 0x0A) of None \<Rightarrow> nat maxBytes | Some i \<Rightarrow> i)
         in take cut_at diff @ nl @ ''[... diff truncated at '' @ show_int maxBytes @ '' bytes; ''
            @ show_nat (length diff - cut_at) @ '' bytes omitted ...]'' @ nl))"

definition promptTemplate :: "string \<Rightarrow> string list \<Rightarrow> string \<Rightarrow> string \<Rightarrow> string" where
  "promptTemplate instr files context diff =
     ''You are an independent code reviewer. You did not write this change. Review it only '' @ em_dash @ '' do not modify any files.'' @ nl @ nl
     @ ''Your role: '' @ instr @ nl @ nl @ ''Changed files:'' @ nl
     @ (if files = [] then ''(none listed)'' @ nl else concat (map (\<lambda>f. ''- '' @ f @ nl) files)) @ nl
     @ (if context = '''' then '''' else ''Additional context:'' @ nl @ context @ nl @ nl)
     @ ''Diff under review:'' @ nl @ fence @ ''diff'' @ nl @ diff @ nl @ fence @ nl @ nl
     @ ''Respond with ONLY a JSON array of findings '' @ em_dash @ '' no prose, no markdown fences. Each finding is an object with fields:'' @ nl
     @ ''- '' @ quoted ''severity'' @ '': one of '' @ quoted ''info'' @ '', '' @ quoted ''minor'' @ '', '' @ quoted ''major'' @ '', '' @ quoted ''blocker'' @ nl
     @ ''- '' @ quoted ''title'' @ '': short one-line summary'' @ nl
     @ ''- '' @ quoted ''description'' @ '': what is wrong and why it matters'' @ nl
     @ ''- '' @ quoted ''file'' @ '': file path the finding applies to ('' @ quoted '''' @ '' if not file-specific)'' @ nl
     @ ''- '' @ quoted ''line'' @ '': 1-based line number in that file (0 if not line-specific)'' @ nl
     @ ''- '' @ quoted ''remediation'' @ '': concrete suggested fix'' @ nl @ nl
     @ ''If the change is clean, respond with exactly: []'' @ nl"

definition renderPrompt :: "role \<Rightarrow> review_request \<Rightarrow> int \<Rightarrow> string" where
  "renderPrompt role req maxDiffBytes =
     promptTemplate (roleInstruction role) (rq_ChangedFiles req) (rq_Context req) (truncateDiff (rq_Diff req) maxDiffBytes)"

section \<open>The answer\<close>

record raw_finding =
  rw_Severity :: string
  rw_Title :: string
  rw_Description :: string
  rw_File :: string
  rw_Line :: int
  rw_Remediation :: string

definition normalizeSeverity :: "string \<Rightarrow> review_severity" where
  "normalizeSeverity s =
     (let l = slug_lower (TrimSpace s)
      in if l = ''minor'' then RevMinor else if l = ''major'' then RevMajor
         else if l = ''blocker'' then RevBlocker else RevInfo)"

definition normalizeFinding :: "role \<Rightarrow> raw_finding \<Rightarrow> finding" where
  "normalizeFinding role it =
     \<lparr>fi_Role = role, fi_Severity = normalizeSeverity (rw_Severity it), fi_Title = TrimSpace (rw_Title it),
      fi_Description = TrimSpace (rw_Description it), fi_File = TrimSpace (rw_File it),
      fi_Line = (if rw_Line it < 0 then 0 else rw_Line it), fi_Remediation = TrimSpace (rw_Remediation it)\<rparr>"

text \<open>The scan: the depth, the two flags of the string state, the start of the current array and the bounds of the
  last one. \<open>None\<close> is the \<^verbatim>\<open>-1\<close> of the source.\<close>

record scan_state =
  sc_depth :: nat
  sc_inString :: bool
  sc_escaped :: bool
  sc_start :: nat
  sc_last :: "(nat \<times> nat) option"

definition scan_start :: scan_state where
  "scan_start = \<lparr>sc_depth = 0, sc_inString = False, sc_escaped = False, sc_start = 0, sc_last = None\<rparr>"

definition scan_step :: "nat \<Rightarrow> char \<Rightarrow> scan_state \<Rightarrow> scan_state" where
  "scan_step i c st =
     (if sc_inString st
      then (if sc_escaped st then st\<lparr>sc_escaped := False\<rparr>
            else if c = CHR 0x5C then st\<lparr>sc_escaped := True\<rparr>
            else if c = CHR 0x22 then st\<lparr>sc_inString := False\<rparr> else st)
      else if c = CHR 0x22 then st\<lparr>sc_inString := True\<rparr>
      else if c = CHR ''['' then st\<lparr>sc_start := (if sc_depth st = 0 then i else sc_start st), sc_depth := Suc (sc_depth st)\<rparr>
      else if c = CHR '']''
      then (if sc_depth st = 0 then st
            else st\<lparr>sc_depth := sc_depth st - 1, sc_last := (if sc_depth st = 1 then Some (sc_start st, i) else sc_last st)\<rparr>)
      else st)"

fun scan :: "nat \<Rightarrow> string \<Rightarrow> scan_state \<Rightarrow> scan_state" where
  "scan i [] st = st"
| "scan i (c # s) st = scan (Suc i) s (scan_step i c st)"

definition extractLastJSONArray :: "string \<Rightarrow> string option" where
  "extractLastJSONArray out =
     (case sc_last (scan 0 out scan_start) of
        None \<Rightarrow> None
      | Some (lastStart, lastEnd) \<Rightarrow> Some (drop lastStart (take (Suc lastEnd) out)))"

definition maxFindings :: nat where
  "maxFindings = 50"

datatype 'e review_fail = ReviewAgentRun 'e | ErrUnparseableReview string

definition parseFindings ::
  "(string \<Rightarrow> (string, raw_finding list) result) \<Rightarrow> role \<Rightarrow> string \<Rightarrow> ('e review_fail, finding list) result" where
  "parseFindings unmarshal role out =
     (case extractLastJSONArray out of
        None \<Rightarrow> Inl (ErrUnparseableReview ''no JSON array in output'')
      | Some raw \<Rightarrow>
          (case unmarshal raw of
             Inl e \<Rightarrow> Inl (ErrUnparseableReview (''invalid findings JSON: '' @ e))
           | Inr items \<Rightarrow> Inr (map (normalizeFinding role) (take maxFindings items))))"

definition AgentReviewer_Review ::
  "(string \<Rightarrow> (string, raw_finding list) result) \<Rightarrow> (string \<Rightarrow> 'w \<Rightarrow> ('e, string) result \<times> 'w) \<Rightarrow> int
     \<Rightarrow> role \<Rightarrow> review_request \<Rightarrow> 'w \<Rightarrow> ('e review_fail, finding list) result \<times> 'w" where
  "AgentReviewer_Review unmarshal run maxDiffBytes role req w =
     (case run (renderPrompt role req maxDiffBytes) w of
        (Inl e, w1) \<Rightarrow> (Inl (ReviewAgentRun e), w1)
      | (Inr out, w1) \<Rightarrow>
          (if TrimSpace out = '''' then Inl (ErrUnparseableReview ''empty agent output'')
           else parseFindings unmarshal role out, w1))"

definition NewAgentReviewer_maxDiff :: "int \<Rightarrow> int" where
  "NewAgentReviewer_maxDiff opt = (if opt = 0 then DefaultMaxDiffBytes else opt)"

section \<open>The engine over a world\<close>

type_synonym ('w, 'e) acting_reviewer = "role \<Rightarrow> review_request \<Rightarrow> 'w \<Rightarrow> ('e, finding list) result \<times> 'w"

fun act_roles ::
  "('w, 'e) acting_reviewer \<Rightarrow> review_request \<Rightarrow> (role \<times> bool) list \<Rightarrow> review_result \<Rightarrow> 'w
     \<Rightarrow> ((role \<times> 'e) option \<times> review_result) \<times> 'w" where
  "act_roles rv req [] res w = ((None, res), w)"
| "act_roles rv req ((role, on) # roles) res w =
     (if \<not> on then act_roles rv req roles (res\<lparr>rr_RolesSkipped := rr_RolesSkipped res @ [role]\<rparr>) w
      else case rv role req w of
        (Inl err, w1) \<Rightarrow> ((Some (role, err), res), w1)
      | (Inr findings, w1) \<Rightarrow> act_roles rv req roles
          (res\<lparr>rr_RolesRun := rr_RolesRun res @ [role], rr_Findings := rr_Findings res @ findings\<rparr>) w1)"

definition review_act ::
  "('w, 'e) acting_reviewer \<Rightarrow> resolved \<Rightarrow> review_request \<Rightarrow> 'w \<Rightarrow> ((role \<times> 'e) option \<times> review_result) \<times> 'w" where
  "review_act rv policy req = act_roles rv req (review_roles (rs_Pipeline policy)) \<lparr>rr_Findings = [], rr_RolesRun = [], rr_RolesSkipped = []\<rparr>"

lemma act_roles_pure: "act_roles (\<lambda>role req w. (rv role req, w)) req roles res w = (run_roles rv req roles res, w)"
  by (induction roles arbitrary: res) (auto split: sum.split)

lemma review_act_pure: "review_act (\<lambda>role req w. (rv role req, w)) policy req w = (review_Run rv policy req, w)"
  by (simp add: review_act_def review_Run_def act_roles_pure)

section \<open>Printed answers\<close>

lemma scan_append: "scan i (a @ b) st = scan (i + length a) b (scan i a st)"
  by (induction a arbitrary: i st) auto

text \<open>A JSON encoder as the specification of what an agent prints.\<close>

datatype json =
    JNull
  | JBool bool
  | JNumber int
  | JString string
  | JArray "json list"
  | JObject "(string \<times> json) list"

definition escape_char :: "char \<Rightarrow> string" where
  "escape_char c =
     (if c = CHR 0x22 \<or> c = CHR 0x5C then [CHR 0x5C, c]
      else if (of_char c :: nat) < 32 then [CHR 0x5C, CHR ''u'', CHR ''0'', CHR ''0'', hex_digit (of_char c div 16), hex_digit (of_char c mod 16)]
      else [c])"

definition print_string :: "string \<Rightarrow> string" where
  "print_string s = quoted (concat (map escape_char s))"

fun join_with :: "string \<Rightarrow> string list \<Rightarrow> string" where
  "join_with sep [] = []"
| "join_with sep [x] = x"
| "join_with sep (x # y # xs) = x @ sep @ join_with sep (y # xs)"

fun print_json :: "json \<Rightarrow> string" where
  "print_json JNull = ''null''"
| "print_json (JBool b) = (if b then ''true'' else ''false'')"
| "print_json (JNumber n) = show_int n"
| "print_json (JString s) = print_string s"
| "print_json (JArray vs) = ''['' @ join_with '','' (map print_json vs) @ '']''"
| "print_json (JObject kvs) = ''{'' @ join_with '','' (map (\<lambda>(k, v). print_string k @ '':'' @ print_json v) kvs) @ ''}''"

text \<open>Text without brackets and quotes does not move the scan.\<close>

definition plain :: "string \<Rightarrow> bool" where
  "plain s \<longleftrightarrow> CHR 0x22 \<notin> set s \<and> CHR ''['' \<notin> set s \<and> CHR '']'' \<notin> set s"

definition outside :: "scan_state \<Rightarrow> bool" where
  "outside st \<longleftrightarrow> \<not> sc_inString st \<and> \<not> sc_escaped st"

lemma scan_plain: "plain s \<Longrightarrow> outside st \<Longrightarrow> scan i s st = st"
  by (induction s arbitrary: i) (auto simp: plain_def outside_def scan_step_def)

lemma hex_digit_plain: "n < 16 \<Longrightarrow> hex_digit n \<noteq> CHR 0x22 \<and> hex_digit n \<noteq> CHR 0x5C"
proof -
  assume "n < 16"
  then have "n \<in> set [0..<16]" by simp
  moreover have "list_all (\<lambda>n. hex_digit n \<noteq> CHR 0x22 \<and> hex_digit n \<noteq> CHR 0x5C) [0..<16]" by code_simp
  ultimately show ?thesis by (auto simp only: list_all_iff)
qed

lemma escape_control_plain:
  "(of_char c :: nat) < 32 \<Longrightarrow> hex_digit (of_char c div 16) \<noteq> CHR 0x22 \<and> hex_digit (of_char c div 16) \<noteq> CHR 0x5C \<and>
     hex_digit (of_char c mod 16) \<noteq> CHR 0x22 \<and> hex_digit (of_char c mod 16) \<noteq> CHR 0x5C"
  using hex_digit_plain [of "of_char c div 16"] hex_digit_plain [of "of_char c mod 16"] by simp

lemma scan_escape:
  assumes "sc_inString st" "\<not> sc_escaped st"
  shows "scan i (escape_char c) st = st"
proof (cases "c = CHR 0x22 \<or> c = CHR 0x5C")
  case True
  with assms show ?thesis by (cases st) (auto simp: escape_char_def scan_step_def)
next
  case False
  with assms escape_control_plain [of c] show ?thesis by (cases st) (auto simp: escape_char_def scan_step_def)
qed

lemma scan_escapes: "sc_inString st \<Longrightarrow> \<not> sc_escaped st \<Longrightarrow> scan i (concat (map escape_char s)) st = st"
  by (induction s arbitrary: i) (auto simp: scan_append scan_escape)

lemma scan_string: "outside st \<Longrightarrow> scan i (print_string s) st = st"
  by (cases st) (simp add: print_string_def quoted_def scan_append scan_escapes outside_def scan_step_def)

lemma digits_plain: "plain (show_nat n)"
proof (induction n rule: show_nat.induct)
  case (1 n)
  have d: "list_all (\<lambda>n. plain [digit_char n]) [0..<10]" by code_simp
  have "plain [digit_char m]" if "m < 10" for m
  proof -
    from that have "m \<in> set [0..<10]" by simp
    with d show ?thesis by (auto simp only: list_all_iff)
  qed
  with 1 show ?case by (subst show_nat.simps) (auto simp: plain_def)
qed

lemma show_int_plain: "plain (show_int n)"
  using digits_plain by (auto simp: show_int_def plain_def)

lemma scan_joined:
  assumes "\<And>i x. x \<in> set xs \<Longrightarrow> scan i x st = st" "plain sep" "outside st"
  shows "scan i (join_with sep xs) st = st"
  using assms by (induction sep xs arbitrary: i rule: join_with.induct) (auto simp: scan_append scan_plain)

lemma plain_literals: "plain ''null''" "plain ''true''" "plain ''false''" "plain '':''" "plain '',''" "plain ''{''" "plain ''}''"
  by code_simp+

lemma scan_colon: "outside st \<Longrightarrow> scan i (CHR '':'' # s) st = scan (Suc i) s st"
  by (simp add: scan_step_def outside_def)

text \<open>Inside an array a printed value leaves the state as it was.\<close>

lemma scan_value: "outside st \<Longrightarrow> 0 < sc_depth st \<Longrightarrow> scan i (print_json v) st = st"
proof (induction v arbitrary: i st rule: print_json.induct)
  case (5 vs)
  let ?in = "st\<lparr>sc_depth := Suc (sc_depth st)\<rparr>"
  have "scan (Suc i) (join_with '','' (map print_json vs)) ?in = ?in"
    using 5 by (intro scan_joined) (auto simp: outside_def plain_literals)
  with 5(2,3) show ?case by (cases st) (simp add: scan_append scan_step_def outside_def)
next
  case (6 kvs)
  have "scan i (join_with '','' (map (\<lambda>(k, v). print_string k @ '':'' @ print_json v) kvs)) st = st" for i
    using 6 by (intro scan_joined) (auto simp: scan_append scan_string scan_colon plain_literals simp del: scan.simps)
  with 6(2) show ?case by (simp add: scan_append scan_plain plain_literals del: append.simps scan.simps)
qed (simp_all add: scan_plain plain_literals scan_string show_int_plain del: scan.simps)

text \<open>C37: The answer of a review agent is read as it was printed. When the output is one JSON array, with any
  values and any strings in it, between prose that has no bracket and no quote, the scan returns the
  text of that array, no byte more or less.\<close>

theorem answer_found:
  assumes "plain before" "plain rest"
  shows "extractLastJSONArray (before @ print_json (JArray vs) @ rest) = Some (print_json (JArray vs))"
proof -
  let ?i = "length before" and ?body = "join_with '','' (map print_json vs)"
  let ?in = "scan_start\<lparr>sc_start := ?i, sc_depth := 1\<rparr>"
  have "outside scan_start" "outside ?in" by (simp_all add: outside_def scan_start_def)
  moreover have "scan (Suc ?i) ?body ?in = ?in"
    using \<open>outside ?in\<close> by (intro scan_joined) (auto simp: scan_value plain_literals)
  ultimately have "scan 0 (before @ print_json (JArray vs) @ rest) scan_start =
      scan_start\<lparr>sc_start := ?i, sc_last := Some (?i, Suc ?i + length ?body)\<rparr>"
    using assms by (simp add: scan_append scan_plain scan_step_def scan_start_def outside_def)
  then show ?thesis by (simp add: extractLastJSONArray_def scan_start_def)
qed

theorem answer_found_witness:
  "extractLastJSONArray (''Findings: '' @ print_json (JArray [JObject [(''title'', JString [CHR '']'', CHR 0x22])]]) @ '' done'') =
     Some (print_json (JArray [JObject [(''title'', JString [CHR '']'', CHR 0x22])]]))"
  by (rule answer_found) (simp_all add: plain_def)

section \<open>Answers that are misread\<close>

text \<open>A quote without a partner in the prose, an inch mark for instance, hides the answer: the review is reported
  as unparseable and the run fails, although the comment of the source calls prose quotes harmless.\<close>

lemma unpaired_quote_hides_answer: "extractLastJSONArray (''the 5'' @ [CHR 0x22] @ '' limit is fine: []'') = None"
  by code_simp

text \<open>The last pair of brackets wins: a remark after the findings that mentions an empty slice replaces a blocker
  by a clean review.\<close>

lemma trailing_brackets_replace_findings:
  "extractLastJSONArray ('' '' @ print_json (JArray [JObject [(''severity'', JString ''blocker'')]]) @ '' see args[]'') = Some ''[]''"
  by code_simp

end
