(* ===== verification/Pipeline_Handlers.thy ===== *)
theory Pipeline_Handlers
  imports Finalize Pipeline_Driver Scheduling Repair_Loop Review_Agent Quality
begin

text \<open>
  The stage handlers of the daemon, \<^verbatim>\<open>src/internal/daemon/pipeline_handlers.go\<close>, and the helpers of
  \<^verbatim>\<open>pipeline_service.go\<close> they use. They compose the task compiler, the work graph and its scheduler, the
  workspace manager, the supervisor, the test runner, the review engine and the finalization over one
  state. The agents, the test runner, the artifact store, the injected reviewer and git are the parameters of
  \<open>deps\<close>; they see and change the repository world \<open>'g\<close> only. The text of an error value is the parameter
  \<open>dp_text\<close>. The cancel functions a handler registers act through what the polls of an agent observe.
\<close>

section \<open>State and dependencies\<close>

record pipelineParams =
  pa_ProjectID :: string
  pa_ProjectPath :: string
  pa_Description :: string
  pa_Engine :: string
  pa_Model :: string
  pa_BaseBranch :: string
  pa_TimeoutNanos :: duration

record finalizeRecord =
  fz_Outcome :: string
  fz_WorkspaceID :: string
  fz_CommitSHA :: string
  fz_ResultBranch :: string
  fz_ChangedFiles :: "string list"

text \<open>The one database is \<open>wy_db\<close> of the workspace tables; the stores of the specifications and of the work graph
  are run on it.\<close>

record 'g service_state =
  sv_pipe :: pipe_db
  sv_ws :: "'g wsys"
  sv_specs :: spec_store
  sv_work :: work_db
  sv_leases :: lease_table
  sv_params :: "(string \<times> pipelineParams) list"
  sv_finalized :: "(string \<times> finalizeRecord) list"
  sv_lastFin :: "(string \<times> FinalizeResult) list"
  sv_driving :: "string list"
  sv_accounting :: Accounting
  sv_usage :: usage_table

abbreviation sv_db :: "'g service_state \<Rightarrow> db" where
  "sv_db w \<equiv> wy_db (sv_ws w)"

record flakeRetryEvidence =
  fl_Packages :: "string list"
  fl_OriginalFailures :: "string list"
  fl_Passed :: bool

datatype evidence_payload =
    VerifyEvidence "level_result list" "flakeRetryEvidence option"
  | ReviewEvidence string "role list" "role list" "finding list"

datatype runner_error = RunnerCancelled | RunnerFailed string

text \<open>The outcome of the test runner and whether the caller's context is cancelled when it returns.\<close>

record runner_out =
  ro_Result :: "(runner_error, level_result) result"
  ro_Cancelled :: bool

datatype service_err =
    SeBacklog backlog_error
  | SeSpec spec_error
  | SeGraph "graph_violation list"
  | SeWork work_error
  | SeClaim claim_error
  | SeWs ws_error
  | SeFin fin_error
  | SeRun run_error
  | SePipe pipe_error
  | SeProjectNotFound
  | SeParams string

record 'g deps =
  dp_git :: "'g git_env"
  dp_adapters :: "string \<rightharpoonup> 'g adapter"
  dp_env :: "string list"
  dp_runner :: "int \<Rightarrow> string \<Rightarrow> string list \<Rightarrow> string list \<Rightarrow> 'g \<Rightarrow> runner_out \<times> 'g"
  dp_reviewer :: "reviewer option"
  dp_unmarshal :: "string \<Rightarrow> (string, raw_finding list) result"
  dp_artifacts :: "evidence_payload \<Rightarrow> 'g \<Rightarrow> string option \<times> 'g"
  dp_fs :: file_system
  dp_writable :: "string \<Rightarrow> bool"
  dp_text :: "service_err \<Rightarrow> string"

type_synonym ('g, 'a) hop = "('g service_state, handler_error, 'a) op"

text \<open>The operations of the components on the state, and the category an error of theirs gets.\<close>

definition stage_error :: "failure_category \<Rightarrow> string \<Rightarrow> ('g, 'a) hop" where
  "stage_error category reason = fail_op (StageError category reason None)"

definition on_ws :: "failure_category \<Rightarrow> (ws_error \<Rightarrow> string) \<Rightarrow> ('g, 'a) wop \<Rightarrow> ('g, 'a) hop" where
  "on_ws category text m w =
     (case m (sv_ws w) of
        (Inl e, s1) \<Rightarrow> (Inl (StageError category (text e) None), w\<lparr>sv_ws := s1\<rparr>)
      | (Inr x, s1) \<Rightarrow> (Inr x, w\<lparr>sv_ws := s1\<rparr>))"

definition try_ws :: "('g, 'a) wop \<Rightarrow> ('g, (ws_error, 'a) result) hop" where
  "try_ws m w = (case m (sv_ws w) of (r, s1) \<Rightarrow> (Inr r, w\<lparr>sv_ws := s1\<rparr>))"

definition sv_git :: "('g \<Rightarrow> 'a \<times> 'g) \<Rightarrow> ('g, 'a) hop" where
  "sv_git f w = (case f (wy_git (sv_ws w)) of (x, g) \<Rightarrow> (Inr x, w\<lparr>sv_ws := (sv_ws w)\<lparr>wy_git := g\<rparr>\<rparr>))"

definition read_state :: "('g service_state \<Rightarrow> 'a) \<Rightarrow> ('g, 'a) hop" where
  "read_state f w = (Inr (f w), w)"

section \<open>Shared helpers\<close>

definition service_audit :: "time \<Rightarrow> string \<Rightarrow> string \<Rightarrow> payload \<Rightarrow> ('g, unit) hop" where
  "service_audit now typ taskID p w = (Inr (), w\<lparr>sv_ws := snd (ws_audit now taskID typ p (sv_ws w))\<rparr>)"

fun stage_string :: "stage \<Rightarrow> string" where
  "stage_string StageCompile = ''compile''"
| "stage_string StagePlan = ''plan''"
| "stage_string StageReady = ''ready''"
| "stage_string StageExecute = ''execute''"
| "stage_string StageVerify = ''verify''"
| "stage_string StageReview = ''review''"
| "stage_string StageFinalize = ''finalize''"
| "stage_string StageRepair = ''repair''"
| "stage_string (OtherStage s) = s"

definition auditStage :: "time \<Rightarrow> run_context \<Rightarrow> string \<Rightarrow> string \<Rightarrow> string \<Rightarrow> ('g, unit) hop" where
  "auditStage now rc status evidence category =
     service_audit now ''pipeline.stage'' (rc_TaskID rc)
       (PObj ([(''stage'', PStr (stage_string (rc_Stage rc))), (''attempt'', PInt (rc_Attempt rc)), (''status'', PStr status)]
         @ (if evidence \<noteq> '''' then [(''evidence_ref'', PStr evidence)] else [])
         @ (if category \<noteq> '''' then [(''failure_category'', PStr category)] else [])))"

definition evidenceJSON :: "'g deps \<Rightarrow> string \<Rightarrow> evidence_payload \<Rightarrow> ('g, string) hop" where
  "evidenceJSON dp kind payload =
     andthen (sv_git (dp_artifacts dp payload)) (\<lambda>r.
       ok_op (case r of Some hash \<Rightarrow> ''artifact:'' @ hash | None \<Rightarrow> kind @ '':unpersisted''))"

definition loadParams :: "'g deps \<Rightarrow> string \<Rightarrow> ('g, pipelineParams) hop" where
  "loadParams dp taskID w =
     (case map_of (sv_params w) taskID of
        None \<Rightarrow> stage_error FailureInvariantViolation (dp_text dp (SeParams taskID)) w
      | Some p \<Rightarrow> (Inr p, w))"

definition workspaceForTask :: "string \<Rightarrow> 'g service_state \<Rightarrow> workspace option" where
  "workspaceForTask taskID w =
     (case ListWorkspacesByTask (sv_ws w) taskID of [] \<Rightarrow> None | wss \<Rightarrow> Some (last wss))"

definition runTarget :: "'g deps \<Rightarrow> run_context \<Rightarrow> ('g, pipelineParams \<times> workspace) hop" where
  "runTarget dp rc =
     andthen (loadParams dp (rc_TaskID rc)) (\<lambda>params.
     andthen (read_state (workspaceForTask (rc_TaskID rc))) (\<lambda>ws.
       case ws of
         None \<Rightarrow> stage_error FailureWorktree ''no workspace for task (ready stage did not run)''
       | Some x \<Rightarrow> ok_op (params, x)))"

text \<open>The decision between the emergency stop and a cancelled run. A failed cancellation is only logged.\<close>

definition interruptedOrCancelledError :: "time \<Rightarrow> string \<Rightarrow> string \<Rightarrow> ('g, 'a) hop" where
  "interruptedOrCancelledError now taskID reason w =
     (case EmergencyStop (sv_pipe w) of
        (True, estopReason) \<Rightarrow>
          stage_error FailureInterrupted (if estopReason = '''' then ''emergency stop engaged'' else estopReason) w
      | (False, _) \<Rightarrow>
          (Inl (PlainError ''pipeline: run cancelled''),
           case Cancel now (sv_pipe w) taskID reason of Inl _ \<Rightarrow> w | Inr d \<Rightarrow> w\<lparr>sv_pipe := d\<rparr>))"

definition categoryForFailureClass :: "failure_payload option \<Rightarrow> failure_category" where
  "categoryForFailureClass f =
     (case f of
        None \<Rightarrow> FailureAgentUnavailable
      | Some p \<Rightarrow>
          (case fp_Class p of
             FailureProviderAuth \<Rightarrow> FailureAgentAuthUnavailable
           | FailureProviderQuota \<Rightarrow> FailureQuotaExceeded
           | FailureBudgetExceeded \<Rightarrow> FailureQuotaExceeded
           | FailureProviderRateLimit \<Rightarrow> FailureRateLimited
           | FailureProviderCapacity \<Rightarrow> FailureRateLimited
           | FailureTimeout \<Rightarrow> FailureProviderTimeout
           | FailureMalformedOutput \<Rightarrow> FailureInvalidAgentOutput
           | FailureScopeViolation \<Rightarrow> FailurePolicyRejection
           | FailurePolicyViolation \<Rightarrow> FailurePolicyRejection
           | _ \<Rightarrow> FailureAgentUnavailable))"

definition agentOutcomeError :: "time \<Rightarrow> string \<Rightarrow> RunResult \<Rightarrow> ('g, unit) hop" where
  "agentOutcomeError now taskID res =
     (if rs_Cancelled res then interruptedOrCancelledError now taskID ''cancelled''
      else if rs_Failed res
      then stage_error (categoryForFailureClass (re_Failure (rs_Outcome res)))
        (case re_Failure (rs_Outcome res) of
           Some f \<Rightarrow> if fp_Reason f \<noteq> '''' then fp_Reason f else ''agent run failed''
         | None \<Rightarrow> ''agent run failed'')
      else ok_op ())"

section \<open>Agent runs\<close>

text \<open>An adapter in the state of the workspace tables: it acts on the repository world only. The audit events of
  the supervisor go to the database.\<close>

definition lift_adapter :: "'g adapter \<Rightarrow> 'g wsys adapter" where
  "lift_adapter a =
     \<lparr>ad_ID = ad_ID a,
      ad_Start = (\<lambda>req s. case ad_Start a req (wy_git s) of (r, g) \<Rightarrow> (r, s\<lparr>wy_git := g\<rparr>)),
      ad_Observe = (\<lambda>req s. case ad_Observe a req (wy_git s) of (r, g) \<Rightarrow> (r, s\<lparr>wy_git := g\<rparr>))\<rparr>"

definition service_supervisor :: "'g deps \<Rightarrow> time \<Rightarrow> 'g wsys supervisor" where
  "service_supervisor dp now =
     \<lparr>su_adapters = (\<lambda>e. map_option lift_adapter (dp_adapters dp e)), su_fullEnv = dp_env dp,
      su_audit = (\<lambda>typ i p s. snd (ws_audit now i typ p s))\<rparr>"

definition usage_event :: "time \<Rightarrow> string \<Rightarrow> pipelineParams \<Rightarrow> usage_payload \<Rightarrow> UsageEvent" where
  "usage_event now taskID params u =
     \<lparr>ue_TaskID = taskID, ue_ProjectID = pa_ProjectID params, ue_Provider = pa_Engine params, ue_Model = pa_Model params,
      ue_Kind = UsageCoding, ue_InputTokens = up_InputTokens u, ue_CachedInputTokens = up_CacheReadTokens u,
      ue_OutputTokens = up_OutputTokens u, ue_Generations = 0, ue_CostUSD = up_Cost u, ue_OccurredAt = now\<rparr>"

text \<open>\<^verbatim>\<open>usageSinkAdapter.RecordUsage\<close> of \<^verbatim>\<open>runapp_service.go\<close>: the accounting and the table of the usage events.\<close>

definition sink_RecordUsage :: "time \<Rightarrow> UsageEvent \<Rightarrow> 'g service_state \<Rightarrow> 'g service_state" where
  "sink_RecordUsage now e0 w =
     (let projectID = (if ue_ProjectID e0 = '''' \<and> ue_TaskID e0 \<noteq> ''''
             then (case Backlog_Get (sv_db w) (ue_TaskID e0) of Inr (t, _) \<Rightarrow> tk_project_id t | Inl _ \<Rightarrow> '''')
             else ue_ProjectID e0);
          e = e0\<lparr>ue_ProjectID := projectID\<rparr>
      in w\<lparr>sv_accounting := Accounting_Record now e (sv_accounting w),
           sv_usage := snd (RecordUsageEvent now
             \<lparr>uv_ID = 0, uv_TaskID = ue_TaskID e, uv_ProjectID = ue_ProjectID e, uv_Provider = ue_Provider e,
              uv_Model = ue_Model e, uv_Kind = UsageKind_string (ue_Kind e), uv_InputTokens = ue_InputTokens e,
              uv_CachedInputTokens = ue_CachedInputTokens e, uv_OutputTokens = ue_OutputTokens e,
              uv_Generations = ue_Generations e, uv_CostUSD = ue_CostUSD e, uv_OccurredAt = ue_OccurredAt e\<rparr> (sv_usage w))\<rparr>)"

definition recordUsage :: "time \<Rightarrow> string \<Rightarrow> pipelineParams \<Rightarrow> run_event list \<Rightarrow> ('g, unit) hop" where
  "recordUsage now taskID params events w =
     (Inr (), fold (\<lambda>ev. case re_Usage ev of
        Some u \<Rightarrow> if re_Type ev = ''usage.updated'' then sink_RecordUsage now (usage_event now taskID params u) else id
      | None \<Rightarrow> id) events w)"

definition runAgent :: "'g deps \<Rightarrow> time \<Rightarrow> string \<Rightarrow> workspace \<Rightarrow> pipelineParams \<Rightarrow> string \<Rightarrow> ('g, RunResult) hop" where
  "runAgent dp now taskID ws params prompt w =
     (case Supervisor_Run (service_supervisor dp now) now
          \<lparr>rq_WorkspaceID = ws_ID ws, rq_Engine = pa_Engine params, rq_Model = pa_Model params, rq_Prompt = prompt,
           rq_Scope = [], rq_TurnLimit = 0, rq_Timeout = pa_TimeoutNanos params\<rparr> (ws_Path ws) (sv_ws w) of
        (Inl e, s1) \<Rightarrow> stage_error FailureAgentUnavailable (dp_text dp (SeRun e)) (w\<lparr>sv_ws := s1\<rparr>)
      | (Inr res, s1) \<Rightarrow> andthen (recordUsage now taskID params (rs_Events res)) (\<lambda>_. ok_op res) (w\<lparr>sv_ws := s1\<rparr>))"

definition runAgentText :: "'g deps \<Rightarrow> time \<Rightarrow> string \<Rightarrow> workspace \<Rightarrow> pipelineParams \<Rightarrow> string \<Rightarrow> ('g, string) hop" where
  "runAgentText dp now taskID ws params prompt =
     andthen (runAgent dp now taskID ws params prompt) (\<lambda>res.
     andthen (agentOutcomeError now taskID res) (\<lambda>_.
     ok_op (concat (map (\<lambda>ev. case re_Delta ev of Some d \<Rightarrow> if re_Type ev = ''message.delta'' then d else '''' | None \<Rightarrow> '''')
       (rs_Events res)))))"

section \<open>Compile, plan and ready\<close>

definition handleCompile :: "'g deps \<Rightarrow> time \<Rightarrow> run_context \<Rightarrow> ('g, string) hop" where
  "handleCompile dp now rc w =
     (case Backlog_Get (sv_db w) (rc_TaskID rc) of
        Inl e \<Rightarrow> stage_error FailureCompile (''load task: '' @ dp_text dp (SeBacklog e)) w
      | Inr (t, atts) \<Rightarrow>
          (case Compile \<lparr>ci_TaskID = tk_id t, ci_Title = tk_title t, ci_Description = tk_description t,
               ci_Priority = tk_priority t, ci_Attachments = atts\<rparr> of
             (_, Some e) \<Rightarrow> stage_error FailureCompile (dp_text dp (SeSpec e)) w
           | (res, None) \<Rightarrow>
               (case SaveIfChanged True ((sv_specs w)\<lparr>ss_db := sv_db w\<rparr>) now ((cx_Specification res)\<lparr>sp_created_by := ''pipeline''\<rparr>) of
                  Inl e \<Rightarrow>
                    stage_error (if e = ErrSpecificationLocked then FailurePolicyRejection else FailureCompile)
                      (dp_text dp (SeSpec e)) w
                | Inr ((saved, _), specs) \<Rightarrow>
                    (let evidence = ''spec:v'' @ show_int (sp_version saved)
                     in andthen (auditStage now rc ''completed'' evidence '''') (\<lambda>_. ok_op evidence)
                          (w\<lparr>sv_specs := specs, sv_ws := (sv_ws w)\<lparr>wy_db := ss_db specs\<rparr>\<rparr>)))))"

definition handlePlan :: "'g deps \<Rightarrow> time \<Rightarrow> run_context \<Rightarrow> ('g, string) hop" where
  "handlePlan dp now rc w =
     (case Spec_GetLatest (sv_specs w) (rc_TaskID rc) of
        Inl e \<Rightarrow> stage_error FailureInvariantViolation (''load compiled spec: '' @ dp_text dp (SeSpec e)) w
      | Inr spec \<Rightarrow>
          (case Decompose spec of
             Inl es \<Rightarrow> stage_error FailureInvariantViolation (''decompose spec: '' @ dp_text dp (SeGraph es)) w
           | Inr vg \<Rightarrow>
               (case Graph_Save now ((sv_work w)\<lparr>wd_db := sv_db w\<rparr>) (Some vg) of
                  Inl e \<Rightarrow> stage_error FailureDatabase (dp_text dp (SeWork e)) w
                | Inr (g, work) \<Rightarrow>
                    (let evidence = ''workgraph:'' @ wg_task g @ '':packages='' @ show_nat (length (wg_packages g))
                     in andthen (auditStage now rc ''completed'' evidence '''') (\<lambda>_. ok_op evidence)
                          (w\<lparr>sv_work := work, sv_ws := (sv_ws w)\<lparr>wy_db := wd_db work\<rparr>\<rparr>)))))"

definition pipelineLeaseTTL :: duration where
  "pipelineLeaseTTL = 4 * 60 * Minute"

definition hasLeaseConflictReason :: "string list \<Rightarrow> bool" where
  "hasLeaseConflictReason reasons \<longleftrightarrow> list_ex (sublist ''held by workspace'') reasons"

definition claim_package :: "time \<Rightarrow> run_context \<Rightarrow> workspace \<Rightarrow> string \<Rightarrow> 'g service_state \<Rightarrow> (claim_error, claim_result) result \<times> 'g service_state" where
  "claim_package now rc ws pkgID w =
     (case Claim now ((sv_work w)\<lparr>wd_db := sv_db w\<rparr>) (sv_leases w)
          \<lparr>cr_TaskID = rc_TaskID rc, cr_ProjectID = rc_ProjectID rc, cr_PackageID = pkgID, cr_WorkspaceID = ws_ID ws,
           cr_PathLeases = None, cr_SemanticLeases = [], cr_TTL = pipelineLeaseTTL\<rparr> of
        (r, work, leases) \<Rightarrow> (r, w\<lparr>sv_work := work, sv_leases := leases, sv_ws := (sv_ws w)\<lparr>wy_db := wd_db work\<rparr>\<rparr>))"

fun claim_packages :: "'g deps \<Rightarrow> time \<Rightarrow> run_context \<Rightarrow> workspace \<Rightarrow> work_package list \<Rightarrow> nat \<Rightarrow> ('g, nat) hop" where
  "claim_packages dp now rc ws [] claimed w = (Inr claimed, w)"
| "claim_packages dp now rc ws (pkg # pkgs) claimed w =
     (if wp_state pkg \<noteq> PackagePending then claim_packages dp now rc ws pkgs claimed w
      else case claim_package now rc ws (wp_id pkg) w of
        (Inr _, w1) \<Rightarrow> claim_packages dp now rc ws pkgs (Suc claimed) w1
      | (Inl (ClaimLease (ConflictError k r h t)), w1) \<Rightarrow>
          stage_error FailureLeaseLost (''package '' @ wp_id pkg @ '' blocked by conflicting lease: ''
            @ dp_text dp (SeClaim (ClaimLease (ConflictError k r h t)))) w1
      | (Inl (NotReadyError p reasons), w1) \<Rightarrow>
          if hasLeaseConflictReason reasons
          then stage_error FailureLeaseLost (''package '' @ wp_id pkg @ '' blocked by conflicting lease: '' @ join_with ''; '' reasons) w1
          else (Inr claimed, w1)
      | (Inl e, w1) \<Rightarrow> stage_error FailureDatabase (dp_text dp (SeClaim e)) w1)"

definition ready_workspace :: "'g deps \<Rightarrow> time \<Rightarrow> run_context \<Rightarrow> pipelineParams \<Rightarrow> ('g, workspace) hop" where
  "ready_workspace dp now rc params =
     andthen (read_state (workspaceForTask (rc_TaskID rc))) (\<lambda>ws.
       case ws of
         Some x \<Rightarrow> ok_op x
       | None \<Rightarrow> on_ws FailureWorktree (\<lambda>e. dp_text dp (SeWs e)) (Manager_Create (dp_git dp) now
           \<lparr>cq_ProjectID = rc_ProjectID rc, cq_ProjectPath = pa_ProjectPath params, cq_TaskID = rc_TaskID rc,
            cq_WorkPackageID = '''', cq_BaseBranch = pa_BaseBranch params\<rparr>))"

definition handleReady :: "'g deps \<Rightarrow> time \<Rightarrow> run_context \<Rightarrow> ('g, string) hop" where
  "handleReady dp now rc =
     andthen (loadParams dp (rc_TaskID rc)) (\<lambda>params.
     andthen (ready_workspace dp now rc params) (\<lambda>ws w.
       (case LoadValidated (sv_work w) (rc_TaskID rc) of
          Inl e \<Rightarrow> stage_error FailureInvariantViolation (''load work graph: '' @ dp_text dp (SeWork e)) w
        | Inr vg \<Rightarrow>
            andthen (claim_packages dp now rc ws (wg_packages vg) 0) (\<lambda>claimed.
              let evidence = ''workspace:'' @ ws_ID ws @ '';claimed:'' @ show_nat claimed
              in andthen (auditStage now rc ''completed'' evidence '''') (\<lambda>_. ok_op evidence)) w)))"

section \<open>Execute\<close>

definition buildExecutePrompt :: "string \<Rightarrow> pipelineParams \<Rightarrow> 'g service_state \<Rightarrow> string" where
  "buildExecutePrompt taskID params w =
     pa_Description params
     @ (case Spec_GetLatest (sv_specs w) taskID of
          Inl _ \<Rightarrow> ''''
        | Inr spec \<Rightarrow>
            if sp_objective spec = '''' then ''''
            else nl @ nl @ ''Objective: '' @ sp_objective spec
              @ (if sp_criteria spec = [] then ''''
                 else nl @ nl @ ''Acceptance criteria:'' @ concat (map (\<lambda>ac. nl @ ''- '' @ ac_Statement ac) (sp_criteria spec))))
     @ nl @ nl @ ''Work only inside this workspace. Do not touch any other checkout.''"

definition set_run_info :: "time \<Rightarrow> workspace \<Rightarrow> pipelineParams \<Rightarrow> RunResult \<Rightarrow> ('g, unit) hop" where
  "set_run_info now ws params res =
     andthen (try_ws (SetRunInfo now (ws_ID ws) (pa_Engine params) (pa_Model params) (hn_RunID (rs_Handle res))
       (hn_SessionID (rs_Handle res)))) (\<lambda>_. ok_op ())"

definition inspect :: "'g deps \<Rightarrow> workspace \<Rightarrow> ('g, Inspection) hop" where
  "inspect dp ws = on_ws FailureWorktree (\<lambda>e. dp_text dp (SeWs e)) (InspectWorktree (dp_git dp) ws)"

definition handleExecute :: "'g deps \<Rightarrow> time \<Rightarrow> run_context \<Rightarrow> ('g, string \<times> int) hop" where
  "handleExecute dp now rc =
     andthen (runTarget dp rc) (\<lambda>(params, ws).
     andthen (read_state (buildExecutePrompt (rc_TaskID rc) params)) (\<lambda>prompt.
     andthen (runAgent dp now (rc_TaskID rc) ws params prompt) (\<lambda>res.
     andthen (agentOutcomeError now (rc_TaskID rc) res) (\<lambda>_.
     andthen (inspect dp ws) (\<lambda>insp.
     andthen (set_run_info now ws params res) (\<lambda>_.
       let evidence = ''workspace:'' @ ws_ID ws @ '';run:'' @ hn_RunID (rs_Handle res) @ '';changed:'' @ show_nat (length (in_ChangedFiles insp))
       in andthen (auditStage now rc ''completed'' evidence '''') (\<lambda>_.
          ok_op (evidence, int (length (in_ChangedFiles insp))))))))))"

section \<open>Verify\<close>

text \<open>The levels are those of the test engine: syntax, compile, targeted and module.\<close>

definition verifyLevels :: "int list" where
  "verifyLevels = [0, 1, 2, 3]"

record verifyOutcome =
  vo_results :: "level_result list"
  vo_passed :: bool
  vo_category :: failure_category
  vo_retry :: "flakeRetryEvidence option"

definition no_outcome :: verifyOutcome where
  "no_outcome = \<lparr>vo_results = [], vo_passed = False, vo_category = OtherFailure '''', vo_retry = None\<rparr>"

definition flakeRetryPackages :: "level_result \<Rightarrow> string list" where
  "flakeRetryPackages res =
     (if list_ex (\<lambda>f. tf_Package f = '''' \<or> tf_Package f = ''go vet'') (lr_Failures res) then []
      else sort (remdups (map tf_Package (lr_Failures res))))"

definition failureMessages :: "test_failure list \<Rightarrow> string list" where
  "failureMessages fs =
     map (\<lambda>f. let msg = (if tf_Message f = '''' then tf_TestName f else tf_Message f)
              in if tf_Package f \<noteq> '''' then tf_Package f @ '': '' @ msg else msg) fs"

definition categoryForLevel :: "int \<Rightarrow> level_result \<Rightarrow> failure_category" where
  "categoryForLevel lvl res =
     (if lvl = 0 then FailureStaticAnalysis
      else if lvl = 1 then FailureCompile
      else if lvl = 2 then FailureTest
      else if lvl = 3 \<or> lvl = 4
      then (if list_ex (\<lambda>f. tf_Package f = ''go vet'') (lr_Failures res) then FailureStaticAnalysis else FailureTest)
      else FailureInvariantViolation)"

text \<open>One call of the runner: its error, a cancelled context, or the result with its level.\<close>

definition run_level :: "'g deps \<Rightarrow> time \<Rightarrow> string \<Rightarrow> int \<Rightarrow> string \<Rightarrow> string \<Rightarrow> string list \<Rightarrow> string list \<Rightarrow> ('g, level_result) hop" where
  "run_level dp now taskID lvl what path changed retry =
     andthen (sv_git (dp_runner dp lvl path changed retry)) (\<lambda>out.
       case ro_Result out of
         Inl RunnerCancelled \<Rightarrow> interruptedOrCancelledError now taskID ''verification cancelled''
       | Inl (RunnerFailed e) \<Rightarrow> stage_error FailureInvariantViolation (''verification level '' @ what @ '': '' @ e)
       | Inr res \<Rightarrow>
           if ro_Cancelled out then interruptedOrCancelledError now taskID ''verification cancelled''
           else ok_op (res\<lparr>lr_Level := lvl\<rparr>))"

definition flakeRetry :: "'g deps \<Rightarrow> time \<Rightarrow> string \<Rightarrow> workspace \<Rightarrow> level_result \<Rightarrow> verifyOutcome \<Rightarrow> ('g, verifyOutcome) hop" where
  "flakeRetry dp now taskID ws moduleRes out =
     (let pkgs = flakeRetryPackages moduleRes
      in andthen (run_level dp now taskID 3 ''module (package retry)'' (ws_Path ws) [] pkgs) (\<lambda>retryRes.
           let passed = (lr_Status retryRes = VPassed);
               out1 = out\<lparr>vo_results := vo_results out @ [retryRes],
                 vo_retry := Some \<lparr>fl_Packages = pkgs, fl_OriginalFailures = failureMessages (lr_Failures moduleRes), fl_Passed = passed\<rparr>\<rparr>
           in ok_op (if passed then out1\<lparr>vo_passed := True\<rparr> else out1\<lparr>vo_category := categoryForLevel 3 moduleRes\<rparr>)))"

fun level_name :: "int \<Rightarrow> string" where
  "level_name lvl =
     (if lvl = 0 then ''syntax'' else if lvl = 1 then ''compile'' else if lvl = 2 then ''targeted'' else if lvl = 3 then ''module''
      else if lvl = 4 then ''full'' else ''unknown'')"

fun verify_cascade :: "'g deps \<Rightarrow> time \<Rightarrow> string \<Rightarrow> workspace \<Rightarrow> string list \<Rightarrow> int list \<Rightarrow> verifyOutcome \<Rightarrow> ('g, verifyOutcome) hop" where
  "verify_cascade dp now taskID ws changed [] out = ok_op (out\<lparr>vo_passed := True\<rparr>)"
| "verify_cascade dp now taskID ws changed (lvl # lvls) out =
     andthen (run_level dp now taskID lvl (level_name lvl) (ws_Path ws) changed []) (\<lambda>res.
       let out1 = out\<lparr>vo_results := vo_results out @ [res]\<rparr>
       in if lr_Status res = VFailed
          then (if lvl = 3 \<and> flakeRetryPackages res \<noteq> [] then flakeRetry dp now taskID ws res out1
                else ok_op (out1\<lparr>vo_category := categoryForLevel lvl res\<rparr>))
          else verify_cascade dp now taskID ws changed lvls out1)"

definition verifyWorktree :: "'g deps \<Rightarrow> time \<Rightarrow> string \<Rightarrow> workspace \<Rightarrow> ('g, verifyOutcome) hop" where
  "verifyWorktree dp now taskID ws =
     andthen (inspect dp ws) (\<lambda>insp. verify_cascade dp now taskID ws (in_ChangedFiles insp) verifyLevels no_outcome)"

definition handleVerify :: "'g deps \<Rightarrow> time \<Rightarrow> run_context \<Rightarrow> ('g, bool \<times> string \<times> failure_category) hop" where
  "handleVerify dp now rc =
     andthen (runTarget dp rc) (\<lambda>(params, ws).
     andthen (verifyWorktree dp now (rc_TaskID rc) ws) (\<lambda>out.
     andthen (evidenceJSON dp ''verify'' (VerifyEvidence (vo_results out) (vo_retry out))) (\<lambda>evidence.
     andthen (auditStage now rc (if vo_passed out then ''completed'' else ''failed'') evidence (category_string (vo_category out))) (\<lambda>_.
     ok_op (vo_passed out, evidence, vo_category out)))))"

section \<open>Review\<close>

fun role_string :: "role \<Rightarrow> string" where
  "role_string RoleCorrectness = ''correctness''"
| "role_string RoleArchitecture = ''architecture''"
| "role_string RoleSecurity = ''security''"

text \<open>The error of a role: of the injected reviewer, or of the review agent. A stage error of the agent run is found
  inside the wrapping error; an answer that cannot be parsed gets a category of its own.\<close>

datatype role_error = InjectedError string | AgentError "handler_error review_fail"

fun review_error :: "role \<times> role_error \<Rightarrow> handler_error" where
  "review_error (r, InjectedError e) = PlainError (''review: role '' @ role_string r @ '': '' @ e)"
| "review_error (r, AgentError (ErrUnparseableReview m)) =
     StageError FailureInvalidAgentOutput (''review: role '' @ role_string r @ '': review: unparseable agent output: '' @ m) None"
| "review_error (r, AgentError (ReviewAgentRun (StageError c reason err))) = StageError c reason err"
| "review_error (r, AgentError (ReviewAgentRun (PlainError e))) =
     PlainError (''review: role '' @ role_string r @ '': review: agent run: '' @ e)"

definition service_reviewer ::
  "'g deps \<Rightarrow> time \<Rightarrow> string \<Rightarrow> workspace \<Rightarrow> pipelineParams \<Rightarrow> ('g service_state, role_error) acting_reviewer" where
  "service_reviewer dp now taskID ws params =
     (case dp_reviewer dp of
        Some rv \<Rightarrow> (\<lambda>role req w. (map_sum InjectedError id (rv role req), w))
      | None \<Rightarrow> (\<lambda>role req w.
          case AgentReviewer_Review (dp_unmarshal dp) (runAgentText dp now taskID ws params) (NewAgentReviewer_maxDiff 0) role req w of
            (r, w1) \<Rightarrow> (map_sum AgentError id r, w1)))"

definition resolvedPolicy :: "'g deps \<Rightarrow> string \<Rightarrow> ('g, resolved) hop" where
  "resolvedPolicy dp projectID w =
     (case GetProject (sv_db w) projectID of
        None \<Rightarrow> stage_error FailurePolicyRejection (dp_text dp SeProjectNotFound) w
      | Some p \<Rightarrow> (Inr (fst (Resolve (NewProject (pj_profile p)) \<lparr>tx_Override = None, tx_IsUI = False\<rparr>)), w))"

definition reviewWorktree :: "'g deps \<Rightarrow> time \<Rightarrow> run_context \<Rightarrow> pipelineParams \<Rightarrow> workspace \<Rightarrow> ('g, review_result) hop" where
  "reviewWorktree dp now rc params ws =
     andthen (inspect dp ws) (\<lambda>insp.
     andthen (on_ws FailureGit (\<lambda>e. dp_text dp (SeWs e)) (Manager_Diff (dp_git dp) (ws_ID ws))) (\<lambda>diff.
     andthen (resolvedPolicy dp (rc_ProjectID rc)) (\<lambda>policy w.
       case review_act (service_reviewer dp now (rc_TaskID rc) ws params) policy
           \<lparr>rq_Diff = diff, rq_ChangedFiles = in_ChangedFiles insp, rq_Context = pa_Description params\<rparr> w of
         ((Some e, _), w1) \<Rightarrow> (Inl (review_error e), w1)
       | ((None, res), w1) \<Rightarrow> (Inr res, w1))))"

definition review_Label :: "review_result \<Rightarrow> string" where
  "review_Label r = (if IsReviewed r then ''REVIEWED'' else ''NOT AI-REVIEWED'')"

definition fingerprint :: "'g deps \<Rightarrow> workspace \<Rightarrow> ('g, string) hop" where
  "fingerprint dp ws = on_ws FailureWorktree (\<lambda>e. dp_text dp (SeWs e)) (WorktreeFingerprint (dp_git dp) (ws_Path ws))"

definition plain_as_unavailable :: "('g, 'a) hop \<Rightarrow> ('g, 'a) hop" where
  "plain_as_unavailable m w =
     (case m w of
        (Inl (PlainError e), w1) \<Rightarrow> (Inl (StageError FailureAgentUnavailable e None), w1)
      | (r, w1) \<Rightarrow> (r, w1))"

definition handleReview :: "'g deps \<Rightarrow> time \<Rightarrow> run_context \<Rightarrow> ('g, bool \<times> string) hop" where
  "handleReview dp now rc =
     andthen (runTarget dp rc) (\<lambda>(params, ws).
     andthen (fingerprint dp ws) (\<lambda>before.
     andthen (plain_as_unavailable (reviewWorktree dp now rc params ws)) (\<lambda>res.
     andthen (fingerprint dp ws) (\<lambda>after.
       if after \<noteq> before then stage_error FailurePolicyRejection ''reviewer modified the worktree''
       else
         andthen (evidenceJSON dp ''review'' (ReviewEvidence (review_Label res) (rr_RolesRun res) (rr_RolesSkipped res) (rr_Findings res))) (\<lambda>evidence.
           let approved = (review_OverallStatus res = ReviewApproved \<or> review_OverallStatus res = ReviewSkipped)
           in andthen (auditStage now rc (if approved then ''completed'' else ''failed'') evidence (category_string FailureReviewRejection)) (\<lambda>_.
              ok_op (approved, evidence)))))))"

section \<open>Repair\<close>

definition read_run :: "'g deps \<Rightarrow> string \<Rightarrow> ('g, run) hop" where
  "read_run dp taskID w =
     (case CurrentRun (sv_pipe w) taskID of
        Inl e \<Rightarrow> stage_error FailureDatabase (dp_text dp (SePipe e)) w
      | Inr r \<Rightarrow> (Inr r, w))"

text \<open>The findings: of a second review, whose errors count as no findings, or of a second verification.\<close>

definition repair_findings :: "'g deps \<Rightarrow> time \<Rightarrow> run_context \<Rightarrow> run \<Rightarrow> pipelineParams \<Rightarrow> workspace \<Rightarrow> ('g, repair_finding list) hop" where
  "repair_findings dp now rc run params ws =
     (if rn_FailureCategory run = Some FailureReviewRejection
      then attempt_op (reviewWorktree dp now rc params ws) (\<lambda>r.
        ok_op (case r of Inr res \<Rightarrow> FromReviewFindings (rr_Findings res) | Inl _ \<Rightarrow> []))
      else andthen (verifyWorktree dp now (rc_TaskID rc) ws) (\<lambda>out. ok_op (FromTestFailures (vo_results out))))"

definition buildRepairPrompt :: "'g deps \<Rightarrow> time \<Rightarrow> run_context \<Rightarrow> run \<Rightarrow> pipelineParams \<Rightarrow> workspace \<Rightarrow> ('g, string) hop" where
  "buildRepairPrompt dp now rc run params ws =
     (if rn_FailureCategory run = Some FailureNoCodeChanges
      then ok_op (''Your previous attempt produced no repository changes. Implement the task now and write the required files:''
        @ nl @ nl @ pa_Description params)
      else
        andthen (inspect dp ws) (\<lambda>insp.
        andthen (repair_findings dp now rc run params ws) (\<lambda>findings.
          if findings = []
          then ok_op (''The previous attempt did not converge. Re-read the task and finish it so verification and review pass:''
            @ nl @ nl @ pa_Description params)
          else
            andthen (try_ws (Manager_Diff (dp_git dp) (ws_ID ws))) (\<lambda>diff.
            ok_op (Prompt \<lparr>rc_Findings = findings, rc_Diff = output_or_empty diff, rc_ChangedFiles = in_ChangedFiles insp,
              rc_Iteration = rc_RepairAttempt rc\<rparr>)))))"

definition handleRepair :: "'g deps \<Rightarrow> time \<Rightarrow> run_context \<Rightarrow> ('g, string) hop" where
  "handleRepair dp now rc =
     andthen (runTarget dp rc) (\<lambda>(params, ws).
     andthen (read_run dp (rc_TaskID rc)) (\<lambda>run.
     andthen (buildRepairPrompt dp now rc run params ws) (\<lambda>prompt.
     andthen (runAgent dp now (rc_TaskID rc) ws params prompt) (\<lambda>res.
     andthen (agentOutcomeError now (rc_TaskID rc) res) (\<lambda>_.
     andthen (set_run_info now ws params res) (\<lambda>_.
       let evidence = ''workspace:'' @ ws_ID ws @ '';run:'' @ hn_RunID (rs_Handle res) @ '';repair:'' @ show_int (rc_RepairAttempt rc)
       in andthen (auditStage now rc ''completed'' evidence '''') (\<lambda>_. ok_op evidence)))))))"

section \<open>Finalize\<close>

text \<open>The commit of what the agent left uncommitted, and the inspection of the new head.\<close>

definition autocommit :: "'g deps \<Rightarrow> time \<Rightarrow> run_context \<Rightarrow> workspace \<Rightarrow> Inspection \<Rightarrow> ('g, Inspection) hop" where
  "autocommit dp now rc ws insp =
     (if TrimSpace (in_StatusPorcelain insp) = '''' then ok_op insp
      else
        andthen (on_ws FailureGit (\<lambda>e. ''result commit: '' @ dp_text dp (SeWs e)) (CommitWorktreeChanges (dp_git dp) (ws_ID ws)
          (''forge: result for task '' @ rc_TaskID rc @ nl @ nl @ ''stage: '' @ stage_string (rc_Stage rc) @ '', attempt: '' @ show_int (rc_Attempt rc)))) (\<lambda>(sha, made).
          if \<not> made then ok_op insp
          else
            andthen (service_audit now ''pipeline.finalize_autocommit'' (rc_TaskID rc)
              (PObj [(''workspace'', PStr (ws_ID ws)), (''commit_sha'', PStr sha), (''stage'', PStr (stage_string (rc_Stage rc))),
                     (''attempt'', PInt (rc_Attempt rc))])) (\<lambda>_.
            inspect dp ws)))"

definition run_finalize :: "'g deps \<Rightarrow> time \<Rightarrow> FinalizeRequest \<Rightarrow> ('g, (fin_error, FinalizeResult) result) hop" where
  "run_finalize dp now req w = (case Finalize (dp_git dp) now now req (sv_ws w) of (r, s1) \<Rightarrow> (Inr r, w\<lparr>sv_ws := s1\<rparr>))"

definition saveFinalizeRecord :: "'g deps \<Rightarrow> string \<Rightarrow> FinalizeResult \<Rightarrow> 'g service_state \<Rightarrow> 'g service_state" where
  "saveFinalizeRecord dp taskID fin w =
     (if dp_writable dp (taskID @ ''.finalize.json'')
      then w\<lparr>sv_finalized := AList.update taskID \<lparr>fz_Outcome = fr_Outcome fin, fz_WorkspaceID = fr_WorkspaceID fin,
        fz_CommitSHA = fr_CommitSHA fin, fz_ResultBranch = fr_ResultBranch fin, fz_ChangedFiles = fr_ChangedFiles fin\<rparr> (sv_finalized w)\<rparr>
      else w)"

definition remember_result :: "'g deps \<Rightarrow> string \<Rightarrow> FinalizeResult \<Rightarrow> ('g, unit) hop" where
  "remember_result dp taskID fin w =
     (Inr (), saveFinalizeRecord dp taskID fin (w\<lparr>sv_lastFin := AList.update taskID fin (sv_lastFin w)\<rparr>))"

definition handleFinalize :: "'g deps \<Rightarrow> time \<Rightarrow> run_context \<Rightarrow> ('g, string) hop" where
  "handleFinalize dp now rc =
     andthen (runTarget dp rc) (\<lambda>(params, ws).
     andthen (inspect dp ws) (\<lambda>insp0.
     andthen (autocommit dp now rc ws insp0) (\<lambda>insp.
     andthen (run_finalize dp now \<lparr>fq_WorkspaceID = ws_ID ws, fq_TerminalEvent = no_event\<lparr>re_Type := EventRunCompleted\<rparr>,
       fq_Inspection = insp, fq_TaskID = rc_TaskID rc, fq_Engine = pa_Engine params, fq_Model = pa_Model params,
       fq_RunID = ws_RunID ws\<rparr>) (\<lambda>r.
       case r of
         Inl e \<Rightarrow> stage_error FailureGit (dp_text dp (SeFin e))
       | Inr fin \<Rightarrow>
           (let ref = (if fr_ResultBranch fin = '''' then fr_Outcome fin else fr_ResultBranch fin)
            in andthen (remember_result dp (rc_TaskID rc) fin) (\<lambda>_.
               andthen (auditStage now rc ''completed'' ref '''') (\<lambda>_.
               andthen (service_audit now ''pipeline.run_finished'' (rc_TaskID rc)
                 (PObj [(''outcome'', PStr (fr_Outcome fin)), (''result_branch'', PStr (fr_ResultBranch fin)),
                        (''commit_sha'', PStr (fr_CommitSHA fin))])) (\<lambda>_. ok_op ref))))))))"

end
