(* ===== verification/Pipeline_Service.thy ===== *)
theory Pipeline_Service
  imports Pipeline_Handlers
begin

text \<open>
  The pipeline service of the daemon, \<^verbatim>\<open>src/internal/daemon/pipeline_service.go\<close>: the drive of a run with the
  concrete handlers, the settlement of a run that ended, and the operations of the pipeline interface.
  The driver is the one of \<open>Pipeline_Driver\<close>: in each iteration its handlers are the service's handlers
  in the state of that iteration, and the state that the handler leaves is carried over. An operation
  reads the clock once; the iterations of a drive read it on their own. The contexts, the goroutines and
  the registry of cancel functions are not modelled: an interruption is what a poll or a runner reports.
\<close>

section \<open>The drive\<close>

definition as_handler :: "(run_context \<Rightarrow> ('g, 'a) hop) \<Rightarrow> 'g service_state \<Rightarrow> 'a handler" where
  "as_handler h w rc d =
     (case h rc (w\<lparr>sv_pipe := d\<rparr>) of
        (Inl e, w1) \<Rightarrow> (HError e, sv_pipe w1)
      | (Inr x, w1) \<Rightarrow> (HOk x, sv_pipe w1))"

definition service_handlers :: "'g deps \<Rightarrow> time \<Rightarrow> 'g service_state \<Rightarrow> handlers" where
  "service_handlers dp now w =
     \<lparr>h_Compile = as_handler (handleCompile dp now) w, h_Plan = as_handler (handlePlan dp now) w,
      h_Ready = as_handler (handleReady dp now) w, h_Finalize = as_handler (handleFinalize dp now) w,
      h_Execute = as_handler (handleExecute dp now) w, h_Verify = as_handler (handleVerify dp now) w,
      h_Review = as_handler (handleReview dp now) w, h_Repair = as_handler (handleRepair dp now) w\<rparr>"

text \<open>The state after the handler of the stage the run is in.\<close>

definition stage_effect :: "'g deps \<Rightarrow> time \<Rightarrow> run \<Rightarrow> 'g service_state \<Rightarrow> 'g service_state" where
  "stage_effect dp now r w =
     (let rc = run_ctx r
      in case rn_CurrentStage r of
           StageCompile \<Rightarrow> snd (handleCompile dp now rc w)
         | StagePlan \<Rightarrow> snd (handlePlan dp now rc w)
         | StageReady \<Rightarrow> snd (handleReady dp now rc w)
         | StageExecute \<Rightarrow> snd (handleExecute dp now rc w)
         | StageVerify \<Rightarrow> snd (handleVerify dp now rc w)
         | StageReview \<Rightarrow> snd (handleReview dp now rc w)
         | StageRepair \<Rightarrow> snd (handleRepair dp now rc w)
         | StageFinalize \<Rightarrow> snd (handleFinalize dp now rc w)
         | OtherStage s \<Rightarrow> w)"

definition service_iterate :: "'g deps \<Rightarrow> time \<Rightarrow> string \<Rightarrow> 'g service_state \<Rightarrow> bool \<times> pipe_error option \<times> 'g service_state" where
  "service_iterate dp now taskID w =
     (case iterate now (service_handlers dp now w) taskID (sv_pipe w) of
        (done, err, d) \<Rightarrow>
          (done, err,
           (if done then w
            else case CurrentRun (sv_pipe w) taskID of Inl _ \<Rightarrow> w | Inr r \<Rightarrow> stage_effect dp now r w)\<lparr>sv_pipe := d\<rparr>))"

fun service_loop ::
  "nat \<Rightarrow> (nat \<Rightarrow> time) \<Rightarrow> 'g deps \<Rightarrow> string \<Rightarrow> bool \<Rightarrow> 'g service_state \<Rightarrow> (pipe_error option \<times> 'g service_state) option" where
  "service_loop 0 clock dp taskID retried w = None"
| "service_loop (Suc n) clock dp taskID retried w =
     (case service_iterate dp (clock n) taskID w of
        (done, Some e, w1) \<Rightarrow>
          if e = ErrConcurrentModification \<and> \<not> retried then service_loop n clock dp taskID True w1
          else if e = ErrRunTerminal then
            (case CurrentRun (sv_pipe w1) taskID of
               Inr r \<Rightarrow> if IsTerminalRunState (rn_State r) then Some (None, w1) else Some (Some e, w1)
             | Inl _ \<Rightarrow> Some (Some e, w1))
          else Some (Some e, w1)
      | (done, None, w1) \<Rightarrow> if done then Some (None, w1) else service_loop n clock dp taskID retried w1)"

definition service_drive :: "nat \<Rightarrow> (nat \<Rightarrow> time) \<Rightarrow> 'g deps \<Rightarrow> string \<Rightarrow> 'g service_state \<Rightarrow> (pipe_error option \<times> 'g service_state) option" where
  "service_drive fuel clock dp taskID w =
     (if taskID = '''' then Some (Some DriveTaskRequired, w) else service_loop fuel clock dp taskID False w)"

section \<open>Settlement\<close>

definition isWorkspaceTerminalState :: "string \<Rightarrow> bool" where
  "isWorkspaceTerminalState st \<longleftrightarrow>
     st \<in> set [WsCompleted, WsFailed, WsCancelled, WsTimedOut, WsKept, WsRejected, WsDeleted, WsQuarantined]"

definition releaseRunLeases :: "time \<Rightarrow> string \<Rightarrow> 'g service_state \<Rightarrow> 'g service_state" where
  "releaseRunLeases now taskID w =
     (case workspaceForTask taskID w of
        None \<Rightarrow> w
      | Some ws \<Rightarrow> w\<lparr>sv_leases := snd (ReleaseAll now (sv_leases w) (ws_ID ws))\<rparr>)"

definition settle_without_workspace :: "time \<Rightarrow> string \<Rightarrow> run \<Rightarrow> 'g service_state \<Rightarrow> 'g service_state" where
  "settle_without_workspace now taskID run w =
     (case Backlog_Get (sv_db w) taskID of
        Inl _ \<Rightarrow> w
      | Inr (t, _) \<Rightarrow>
          if task_IsTerminal (tk_state t) then w
          else (case Backlog_Transition True (sv_db w) now taskID (if rn_State run = RunCancelled then ''cancel'' else ''fail'') of
                  Inl _ \<Rightarrow> w
                | Inr (_, d) \<Rightarrow> w\<lparr>sv_ws := (sv_ws w)\<lparr>wy_db := d\<rparr>\<rparr>))"

definition settle_event :: "run \<Rightarrow> run_event" where
  "settle_event run =
     (if rn_State run = RunCancelled then no_event\<lparr>re_Type := EventRunCancelled\<rparr>
      else no_event\<lparr>re_Type := EventRunFailed,
        re_Failure := (if rn_FailureCategory run = Some FailureProviderTimeout
          then Some \<lparr>fp_Class = FailureTimeout, fp_Reason = (case rn_FailureReason run of Some r \<Rightarrow> r | None \<Rightarrow> ''''), fp_ExitCode = 0\<rparr> else None)\<rparr>)"

definition settle_request :: "'g deps \<Rightarrow> string \<Rightarrow> run \<Rightarrow> workspace \<Rightarrow> Inspection \<Rightarrow> 'g service_state \<Rightarrow> FinalizeRequest" where
  "settle_request dp taskID run ws insp w =
     (let params = map_of (sv_params w) taskID
      in \<lparr>fq_WorkspaceID = ws_ID ws, fq_TerminalEvent = settle_event run, fq_Inspection = insp, fq_TaskID = taskID,
          fq_Engine = (case params of Some p \<Rightarrow> pa_Engine p | None \<Rightarrow> ''''),
          fq_Model = (case params of Some p \<Rightarrow> pa_Model p | None \<Rightarrow> ''''), fq_RunID = ws_RunID ws\<rparr>)"

definition settle_workspace :: "'g deps \<Rightarrow> time \<Rightarrow> string \<Rightarrow> run \<Rightarrow> workspace \<Rightarrow> 'g service_state \<Rightarrow> 'g service_state" where
  "settle_workspace dp now taskID run ws w =
     (case InspectWorktree (dp_git dp) ws (sv_ws w) of
        (r, s1) \<Rightarrow>
          (let insp = (case r of Inr x \<Rightarrow> x | Inl _ \<Rightarrow> no_inspection)
           in w\<lparr>sv_ws := snd (Finalize (dp_git dp) now now (settle_request dp taskID run ws insp w) s1)\<rparr>))"

definition settleRun :: "'g deps \<Rightarrow> time \<Rightarrow> string \<Rightarrow> run \<Rightarrow> 'g service_state \<Rightarrow> 'g service_state" where
  "settleRun dp now taskID run w0 =
     (if \<not> IsTerminalRunState (rn_State run) then w0
      else
        (let w = releaseRunLeases now taskID w0
         in case workspaceForTask taskID w of
              None \<Rightarrow> settle_without_workspace now taskID run w
            | Some ws \<Rightarrow> if isWorkspaceTerminalState (ws_State ws) then w else settle_workspace dp now taskID run ws w))"

definition settle_current :: "'g deps \<Rightarrow> time \<Rightarrow> string \<Rightarrow> 'g service_state \<Rightarrow> 'g service_state" where
  "settle_current dp now taskID w =
     (case CurrentRun (sv_pipe w) taskID of Inl _ \<Rightarrow> w | Inr run \<Rightarrow> settleRun dp now taskID run w)"

definition driveAndSettle :: "nat \<Rightarrow> (nat \<Rightarrow> time) \<Rightarrow> 'g deps \<Rightarrow> time \<Rightarrow> string \<Rightarrow> 'g service_state \<Rightarrow> 'g service_state option" where
  "driveAndSettle fuel clock dp now taskID w =
     (if taskID \<in> set (sv_driving w) then Some w
      else
        map_option (\<lambda>(_, w1). (settle_current dp now taskID w1)\<lparr>sv_driving := sv_driving w\<rparr>)
          (service_drive fuel clock dp taskID (w\<lparr>sv_driving := taskID # sv_driving w\<rparr>)))"

section \<open>The answer to a caller\<close>

fun run_state_string :: "run_state \<Rightarrow> string" where
  "run_state_string RunActive = ''active''"
| "run_state_string RunCompleted = ''completed''"
| "run_state_string RunFailed = ''failed''"
| "run_state_string RunCancelled = ''cancelled''"
| "run_state_string RunRepairExhausted = ''repair_exhausted''"
| "run_state_string RunWaitingQuota = ''waiting_quota''"
| "run_state_string RunBlocked = ''blocked''"
| "run_state_string (OtherRunState s) = s"

fun status_string :: "record_status \<Rightarrow> string" where
  "status_string RecordEntered = ''entered''"
| "status_string RecordCompleted = ''completed''"
| "status_string RecordFailed = ''failed''"
| "status_string RecordSkipped = ''skipped''"

record PipelineStageRecordDTO =
  so_Stage :: string
  so_Attempt :: int
  so_Status :: string
  so_FailureCategory :: string
  so_Reason :: string
  so_EvidenceRef :: string

record PipelineRunResultDTO =
  ro_Outcome :: string
  ro_TaskID :: string
  ro_WorkspaceID :: string
  ro_RunID :: string
  ro_WorkspacePath :: string
  ro_BaseSHA :: string
  ro_ActualHeadSHA :: string
  ro_Engine :: string
  ro_Model :: string
  ro_ChangedFiles :: "string list"
  ro_CommitSHA :: string
  ro_ResultBranch :: string
  ro_NextAction :: string
  ro_Error :: string
  ro_ErrorClass :: string
  ro_RunState :: string
  ro_CurrentStage :: string
  ro_FailureCategory :: string
  ro_FailureReason :: string
  ro_ResultRef :: string
  ro_StageRecords :: "PipelineStageRecordDTO list"

definition empty_dto :: PipelineRunResultDTO where
  "empty_dto =
     \<lparr>ro_Outcome = '''', ro_TaskID = '''', ro_WorkspaceID = '''', ro_RunID = '''', ro_WorkspacePath = '''', ro_BaseSHA = '''',
      ro_ActualHeadSHA = '''', ro_Engine = '''', ro_Model = '''', ro_ChangedFiles = [], ro_CommitSHA = '''', ro_ResultBranch = '''',
      ro_NextAction = '''', ro_Error = '''', ro_ErrorClass = '''', ro_RunState = '''', ro_CurrentStage = '''', ro_FailureCategory = '''',
      ro_FailureReason = '''', ro_ResultRef = '''', ro_StageRecords = []\<rparr>"

definition errorClassForCategory :: "failure_category \<Rightarrow> string" where
  "errorClassForCategory c =
     (case c of
        FailureQuotaExceeded \<Rightarrow> ''PROVIDER_QUOTA''
      | FailureRateLimited \<Rightarrow> ''PROVIDER_RATE_LIMIT''
      | FailureAgentAuthUnavailable \<Rightarrow> ''PROVIDER_AUTH''
      | FailureProviderTimeout \<Rightarrow> ''TIMEOUT''
      | failure_category.FailureCancelled \<Rightarrow> ''CANCELLED''
      | FailureInterrupted \<Rightarrow> ''INTERRUPTED''
      | FailureAgentUnavailable \<Rightarrow> ''AGENT_UNAVAILABLE''
      | FailureInvalidAgentOutput \<Rightarrow> ''INVALID_AGENT_OUTPUT''
      | FailurePolicyRejection \<Rightarrow> ''POLICY_REJECTION''
      | _ \<Rightarrow> ''INTERNAL_ERROR'')"

definition opt_string :: "string option \<Rightarrow> string" where
  "opt_string s = (case s of None \<Rightarrow> '''' | Some x \<Rightarrow> x)"

definition category_of :: "failure_category option \<Rightarrow> failure_category" where
  "category_of c = (case c of None \<Rightarrow> OtherFailure '''' | Some x \<Rightarrow> x)"

definition stage_record_dto :: "stage_record \<Rightarrow> PipelineStageRecordDTO" where
  "stage_record_dto r =
     \<lparr>so_Stage = stage_string (sr_Stage r), so_Attempt = sr_Attempt r, so_Status = status_string (sr_Status r),
      so_FailureCategory = category_string (category_of (sr_FailureCategory r)), so_Reason = sr_Reason r,
      so_EvidenceRef = opt_string (sr_EvidenceRef r)\<rparr>"

text \<open>The finalize outcome: from the memory of the process, else from the file.\<close>

definition finalize_record :: "string \<Rightarrow> 'g service_state \<Rightarrow> finalizeRecord option" where
  "finalize_record taskID w =
     (case map_of (sv_lastFin w) taskID of
        Some fin \<Rightarrow> Some \<lparr>fz_Outcome = fr_Outcome fin, fz_WorkspaceID = fr_WorkspaceID fin, fz_CommitSHA = fr_CommitSHA fin,
          fz_ResultBranch = fr_ResultBranch fin, fz_ChangedFiles = fr_ChangedFiles fin\<rparr>
      | None \<Rightarrow> map_of (sv_finalized w) taskID)"

definition run_part :: "run \<Rightarrow> stage_record list \<Rightarrow> PipelineRunResultDTO" where
  "run_part r records =
     empty_dto\<lparr>ro_TaskID := rn_TaskID r, ro_RunState := run_state_string (rn_State r), ro_CurrentStage := stage_string (rn_CurrentStage r),
       ro_FailureCategory := category_string (category_of (rn_FailureCategory r)), ro_FailureReason := opt_string (rn_FailureReason r),
       ro_ResultRef := opt_string (rn_ResultRef r), ro_StageRecords := map stage_record_dto records\<rparr>"

definition workspace_part :: "workspace option \<Rightarrow> PipelineRunResultDTO \<Rightarrow> PipelineRunResultDTO" where
  "workspace_part w dto =
     (case w of
        None \<Rightarrow> dto
      | Some ws \<Rightarrow>
          dto\<lparr>ro_WorkspaceID := ws_ID ws, ro_WorkspacePath := ws_Path ws, ro_BaseSHA := ws_BaseSHA ws, ro_ActualHeadSHA := ws_HeadSHA ws,
            ro_RunID := ws_RunID ws, ro_Engine := (if ro_Engine dto = '''' then ws_Engine ws else ro_Engine dto),
            ro_Model := (if ro_Model dto = '''' then ws_Model ws else ro_Model dto), ro_ResultBranch := ws_ResultBranch ws\<rparr>)"

definition finalize_part :: "finalizeRecord option \<Rightarrow> PipelineRunResultDTO \<Rightarrow> PipelineRunResultDTO" where
  "finalize_part f dto =
     (case f of
        None \<Rightarrow> dto
      | Some fin \<Rightarrow>
          dto\<lparr>ro_WorkspaceID := (if fz_WorkspaceID fin \<noteq> '''' then fz_WorkspaceID fin else ro_WorkspaceID dto),
            ro_CommitSHA := fz_CommitSHA fin,
            ro_ResultBranch := (if fz_ResultBranch fin \<noteq> '''' then fz_ResultBranch fin else ro_ResultBranch dto),
            ro_ChangedFiles := (if fz_ChangedFiles fin \<noteq> [] then fz_ChangedFiles fin else ro_ChangedFiles dto)\<rparr>)"

definition outcome_part :: "run \<Rightarrow> finalizeRecord option \<Rightarrow> PipelineRunResultDTO \<Rightarrow> PipelineRunResultDTO" where
  "outcome_part r f dto =
     (let reason = opt_string (rn_FailureReason r); category = category_of (rn_FailureCategory r)
      in case rn_State r of
           RunCompleted \<Rightarrow> dto\<lparr>ro_Outcome := (case f of Some fin \<Rightarrow> if fz_Outcome fin \<noteq> '''' then fz_Outcome fin else ''completed-with-commit''
             | None \<Rightarrow> ''completed-with-commit'')\<rparr>
         | RunCancelled \<Rightarrow> dto\<lparr>ro_Outcome := ''cancelled'', ro_ErrorClass := ''CANCELLED'', ro_Error := (if ro_Error dto = '''' then reason else ro_Error dto)\<rparr>
         | RunFailed \<Rightarrow> dto\<lparr>ro_Error := reason, ro_ErrorClass := errorClassForCategory category,
             ro_Outcome := (if rn_FailureCategory r = Some FailureProviderTimeout then ''timed-out'' else ''failed'')\<rparr>
         | RunRepairExhausted \<Rightarrow> dto\<lparr>ro_Error := reason, ro_ErrorClass := errorClassForCategory category,
             ro_Outcome := (if rn_FailureCategory r = Some FailureProviderTimeout then ''timed-out'' else ''failed'')\<rparr>
         | RunWaitingQuota \<Rightarrow> dto\<lparr>ro_Outcome := ''failed'', ro_Error := reason, ro_ErrorClass := errorClassForCategory category,
             ro_NextAction := ''quota exhausted; the run resumes on the next daemon start after quota reset''\<rparr>
         | RunBlocked \<Rightarrow> dto\<lparr>ro_Error := reason, ro_ErrorClass := ''BLOCKED_LEASE'',
             ro_NextAction := ''a conflicting lease blocks the run; it resumes on the next daemon start after the lease is released or expires''\<rparr>
         | _ \<Rightarrow> dto\<lparr>ro_Outcome := ''''\<rparr>)"

definition buildDTO :: "string \<Rightarrow> 'g service_state \<Rightarrow> (pipe_error, PipelineRunResultDTO) result" where
  "buildDTO taskID w =
     (case CurrentRun (sv_pipe w) taskID of
        Inl e \<Rightarrow> Inl e
      | Inr r \<Rightarrow>
          (let params = map_of (sv_params w) taskID;
               dto = (run_part r (StageRecords (sv_pipe w) taskID))\<lparr>ro_Engine := (case params of Some p \<Rightarrow> pa_Engine p | None \<Rightarrow> ''''),
                 ro_Model := (case params of Some p \<Rightarrow> pa_Model p | None \<Rightarrow> '''')\<rparr>;
               f = finalize_record taskID w
           in Inr (outcome_part r f (finalize_part f (workspace_part (workspaceForTask taskID w) dto)))))"

section \<open>Operations of the interface\<close>

record PipelineRunRequest =
  pr_ProjectID :: string
  pr_Description :: string
  pr_Engine :: string
  pr_Model :: string
  pr_BaseBranch :: string
  pr_TimeoutSeconds :: int
  pr_MaxRepairAttempts :: int

datatype pipeline_api_error =
    PaProjectRequired | PaTaskRequired | PaProject | PaUnknownEngine string | PaTask backlog_error | PaParams | PaRun pipe_error
  | PaAlreadyDriving

text \<open>The seconds of a request in nanoseconds, as a 64-bit integer.\<close>

definition to_int64 :: "int \<Rightarrow> int" where
  "to_int64 n = (n + 2 ^ 63) mod 2 ^ 64 - 2 ^ 63"

definition error_dto :: "string \<Rightarrow> string \<Rightarrow> string \<Rightarrow> string \<Rightarrow> PipelineRunResultDTO" where
  "error_dto engine model err cls = empty_dto\<lparr>ro_Engine := engine, ro_Model := model, ro_Error := err, ro_ErrorClass := cls\<rparr>"

text \<open>The error of the drive in the answer.\<close>

definition drive_part :: "'g deps \<Rightarrow> pipe_error option \<Rightarrow> PipelineRunResultDTO \<Rightarrow> PipelineRunResultDTO" where
  "drive_part dp err dto =
     (case err of
        Some (ErrEmergencyStopped reason) \<Rightarrow>
          dto\<lparr>ro_Error := dp_text dp (SePipe (ErrEmergencyStopped reason)), ro_ErrorClass := ''EMERGENCY_STOP'',
            ro_NextAction := ''run parked by emergency stop; clear it with `forge estop off` (the run resumes on the next daemon start)''\<rparr>
      | Some e \<Rightarrow>
          if ro_Error dto = '''' \<and> ro_RunState dto \<notin> run_state_string ` {RunCompleted, RunFailed, RunCancelled, RunRepairExhausted}
          then dto\<lparr>ro_Error := dp_text dp (SePipe e),
            ro_ErrorClass := (if ro_ErrorClass dto = '''' then ''INTERNAL_ERROR'' else ro_ErrorClass dto),
            ro_Outcome := (if ro_Outcome dto = '''' then ''failed'' else ro_Outcome dto)\<rparr>
          else dto
      | None \<Rightarrow> dto)"

text \<open>From the new task on: the parameters, the run, the dispatch of the task and the event. The task rows are the
  rows the foreign keys of the runs refer to.\<close>

definition start_run ::
  "'g deps \<Rightarrow> time \<Rightarrow> PipelineRunRequest \<Rightarrow> project_row \<Rightarrow> string \<Rightarrow> string \<Rightarrow> 'g service_state \<Rightarrow> (pipeline_api_error, unit) result \<times> 'g service_state" where
  "start_run dp now req p engine taskID w0 =
     (let params = \<lparr>pa_ProjectID = pj_id p, pa_ProjectPath = pj_path p, pa_Description = pr_Description req, pa_Engine = engine,
            pa_Model = pr_Model req, pa_BaseBranch = pr_BaseBranch req, pa_TimeoutNanos = to_int64 (pr_TimeoutSeconds req * Second)\<rparr>
      in if \<not> dp_writable dp (taskID @ ''.json'') then (Inl PaParams, w0)
         else
           (let w = w0\<lparr>sv_params := AList.update taskID params (sv_params w0),
                  sv_pipe := (sv_pipe w0)\<lparr>pd_tasks := map tk_id (db_tasks (sv_db w0))\<rparr>\<rparr>
            in case CreateRun now (sv_pipe w) taskID (pj_id p) (pr_MaxRepairAttempts req) of
                 Inl e \<Rightarrow> (Inl (PaRun e), w)
               | Inr (_, d) \<Rightarrow>
                   (let w1 = w\<lparr>sv_pipe := d\<rparr>;
                        w2 = (case Backlog_Transition True (sv_db w1) now taskID ''dispatch'' of
                          Inl _ \<Rightarrow> w1 | Inr (_, db1) \<Rightarrow> w1\<lparr>sv_ws := (sv_ws w1)\<lparr>wy_db := db1\<rparr>\<rparr>)
                    in (Inr (), snd (service_audit now ''pipeline.run_started'' taskID
                          (PObj [(''project'', PStr (pj_id p)), (''engine'', PStr engine), (''model'', PStr (pr_Model req))]) w2)))))"

definition drive_started ::
  "nat \<Rightarrow> (nat \<Rightarrow> time) \<Rightarrow> 'g deps \<Rightarrow> time \<Rightarrow> string \<Rightarrow> 'g service_state
     \<Rightarrow> ((pipeline_api_error, PipelineRunResultDTO) result \<times> 'g service_state) option" where
  "drive_started fuel clock dp now taskID w =
     (if taskID \<in> set (sv_driving w) then Some (Inl PaAlreadyDriving, w)
      else
        (case service_drive fuel clock dp taskID (w\<lparr>sv_driving := taskID # sv_driving w\<rparr>) of
           None \<Rightarrow> None
         | Some (err, w1) \<Rightarrow>
             (let w2 = settle_current dp now taskID (w1\<lparr>sv_driving := sv_driving w\<rparr>)
              in Some (case buildDTO taskID w2 of Inl e \<Rightarrow> Inl (PaRun e) | Inr dto \<Rightarrow> Inr (drive_part dp err dto), w2))))"

definition RunPipeline ::
  "nat \<Rightarrow> (nat \<Rightarrow> time) \<Rightarrow> 'g deps \<Rightarrow> time \<Rightarrow> PipelineRunRequest \<Rightarrow> 'g service_state
     \<Rightarrow> ((pipeline_api_error, PipelineRunResultDTO) result \<times> 'g service_state) option" where
  "RunPipeline fuel clock dp now req w =
     (if pr_ProjectID req = '''' then Some (Inl PaProjectRequired, w)
      else if pr_Description req = ''''
      then Some (Inr (error_dto (pr_Engine req) (pr_Model req) ''description is required'' ''EMPTY_PROMPT''), w)
      else case GetProject (sv_db w) (pr_ProjectID req) of
        None \<Rightarrow> Some (Inl PaProject, w)
      | Some p \<Rightarrow>
          (let engine = (if pr_Engine req = '''' then ''opencode'' else pr_Engine req)
           in if dp_adapters dp engine = None then Some (Inl (PaUnknownEngine engine), w)
              else case snd (Backlog_Add True (dp_fs dp) False [] (sv_db w) now
                  \<lparr>tr_project = pj_id p, tr_description = pr_Description req, tr_title = '''', tr_priority = '''', tr_attachments = []\<rparr>) of
                Inl e \<Rightarrow> Some (Inl (PaTask e), w)
              | Inr ((t, _), db1) \<Rightarrow>
                  (case start_run dp now req p engine (tk_id t) (w\<lparr>sv_ws := (sv_ws w)\<lparr>wy_db := db1\<rparr>\<rparr>) of
                     (Inl e, w1) \<Rightarrow> Some (Inl e, w1)
                   | (Inr _, w1) \<Rightarrow> drive_started fuel clock dp now (tk_id t) w1)))"

definition PipelineStatus :: "string \<Rightarrow> 'g service_state \<Rightarrow> (pipeline_api_error, PipelineRunResultDTO) result" where
  "PipelineStatus taskID w = (if taskID = '''' then Inl PaTaskRequired else map_sum PaRun id (buildDTO taskID w))"

definition CancelPipeline :: "'g deps \<Rightarrow> time \<Rightarrow> string \<Rightarrow> 'g service_state \<Rightarrow> (pipeline_api_error, PipelineRunResultDTO) result \<times> 'g service_state" where
  "CancelPipeline dp now taskID w =
     (if taskID = '''' then (Inl PaTaskRequired, w)
      else case Cancel now (sv_pipe w) taskID ''cancelled via API'' of
        Inl e \<Rightarrow> (Inl (PaRun e), w)
      | Inr d \<Rightarrow>
          (let w1 = snd (service_audit now ''pipeline.run_cancelled'' taskID (PObj []) (w\<lparr>sv_pipe := d\<rparr>));
               w2 = settle_current dp now taskID w1
           in (map_sum PaRun id (buildDTO taskID w2), w2)))"

definition service_SetEmergencyStop :: "time \<Rightarrow> bool \<Rightarrow> string \<Rightarrow> 'g service_state \<Rightarrow> 'g service_state" where
  "service_SetEmergencyStop now on reason w =
     snd (service_audit now ''pipeline.estop'' '''' (PObj [(''on'', PBool on), (''reason'', PStr reason)])
       (w\<lparr>sv_pipe := SetEmergencyStop (sv_pipe w) on reason\<rparr>))"

end
