(* ===== verification/Service_Valid.thy ===== *)
theory Service_Valid
  imports Pipeline_Service Driver_Valid Finalize_Valid Workspaces_Valid
begin

text \<open>
  Properties of the pipeline service. The handlers keep what the driver relies on, so a drive with the
  concrete handlers ends; the verification cascade returns exactly the verdict of its levels; the failure of
  an agent decides where the run goes; a run that ended is settled; and a run whose workspace could not be
  created leaves its task as it was.
\<close>

section \<open>The handlers and their run\<close>

text \<open>The run of a task as the driver sees it: untouched, or ended.\<close>

definition run_kept :: "string \<Rightarrow> 'g service_state \<Rightarrow> 'g service_state \<Rightarrow> bool" where
  "run_kept t w w' \<longleftrightarrow>
     (pipe_inv (sv_pipe w) \<longrightarrow> pipe_inv (sv_pipe w') \<and>
        (cursor_at (sv_pipe w') t = cursor_at (sv_pipe w) t \<or> (\<exists>c. cursor_at (sv_pipe w') t = Some c \<and> cursor_final c)))"

interpretation run_frame: frame "run_kept t" for t
  by unfold_locales (auto simp: run_kept_def)

lemma kept_same: "sv_pipe w' = sv_pipe w \<Longrightarrow> run_kept t w w'"
  by (simp add: run_kept_def)

lemma cancel_kept:
  assumes "Cancel now (sv_pipe w) t reason = Inr d"
  shows "run_kept t w (w\<lparr>sv_pipe := d\<rparr>)"
proof -
  have "pipe_inv d \<and> (cursor_at d t = cursor_at (sv_pipe w) t \<or> (\<exists>c. cursor_at d t = Some c \<and> cursor_final c))"
    if inv: "pipe_inv (sv_pipe w)"
    using Cancel_refines [OF inv, of t now reason] assms
    by (cases "cursor_at (sv_pipe w) t")
      (auto simp: refines_def keep_def try_step_def cursor_final_def IsTerminalRunState_def split: if_splits)
  then show ?thesis by (simp add: run_kept_def)
qed

lemma kept_refl [simp]: "run_kept t w w"
  by (simp add: run_kept_def)

lemma interrupted_kept: "run_kept t w (snd (interruptedOrCancelledError now t reason w))"
  by (auto simp: interruptedOrCancelledError_def stage_error_def fail_op_def split: prod.split bool.split sum.split
      intro: cancel_kept)

lemma stage_error_kept: "run_kept t w (snd (stage_error c reason w))"
  by (simp add: stage_error_def run_frame.fail_kept)

lemma same_ops:
  "sv_pipe (snd (on_ws c text m w)) = sv_pipe w" "sv_pipe (snd (try_ws m' w)) = sv_pipe w" "sv_pipe (snd (sv_git f w)) = sv_pipe w"
  "snd (read_state g w) = w" "sv_pipe (snd (service_audit now typ i p w)) = sv_pipe w"
  "sv_pipe (snd (recordUsage now i params events w)) = sv_pipe w"
proof -
  have "sv_pipe (fold (\<lambda>ev. case re_Usage ev of
        Some u \<Rightarrow> if re_Type ev = ''usage.updated'' then sink_RecordUsage now (usage_event now i params u) else id
      | None \<Rightarrow> id) events w) = sv_pipe w"
    by (induction events arbitrary: w) (auto simp: sink_RecordUsage_def Let_def split: option.split)
  then show "sv_pipe (snd (recordUsage now i params events w)) = sv_pipe w" by (simp add: recordUsage_def)
qed (simp_all add: on_ws_def try_ws_def sv_git_def read_state_def service_audit_def split: prod.split sum.split)

lemma kept_if: "run_kept t w (snd (a w)) \<Longrightarrow> run_kept t w (snd (b w)) \<Longrightarrow> run_kept t w (snd ((if P then a else b) w))"
  by simp

lemmas kept_rules = kept_if run_frame.ok_kept run_frame.andthen_kept run_frame.attempt_kept stage_error_kept interrupted_kept kept_same [OF same_ops(1)]
  kept_same [OF same_ops(2)] kept_same [OF same_ops(3)] kept_same [OF same_ops(5)] kept_same [OF same_ops(6)]

lemma params_kept: "run_kept t w (snd (loadParams dp i w))"
  by (simp add: loadParams_def stage_error_kept split: option.split)

lemma target_kept: "run_kept t w (snd (runTarget dp rc w))"
  unfolding runTarget_def
  by (intro kept_rules params_kept) (simp_all add: same_ops stage_error_kept run_frame.ok_kept split: option.split)

lemma outcome_kept: "run_kept t w (snd (agentOutcomeError now t res w))"
  by (simp add: agentOutcomeError_def interrupted_kept stage_error_kept run_frame.ok_kept)

lemma usage_kept: "run_kept t w (snd (andthen (recordUsage now i params events) (\<lambda>_. ok_op res) w))"
  by (intro kept_rules)

lemma kept_upd_ws: "run_kept t (w\<lparr>sv_ws := s1\<rparr>) w' \<Longrightarrow> run_kept t w w'"
  by (simp add: run_kept_def)

lemma agent_kept: "run_kept t w (snd (runAgent dp now i ws params prompt w))"
  by (auto simp: runAgent_def split: prod.split sum.split intro!: kept_upd_ws [OF stage_error_kept] kept_upd_ws [OF usage_kept])

lemma agent_text_kept: "run_kept t w (snd (runAgentText dp now t ws params prompt w))"
  unfolding runAgentText_def by (intro kept_rules agent_kept outcome_kept)

lemma reviewer_kept: "run_kept t w (snd (service_reviewer dp now t ws params role req w))"
proof -
  have "run_kept t w (snd (AgentReviewer_Review u (runAgentText dp now t ws params) n role req w))" for u n
    using agent_text_kept [of t w dp now ws params "renderPrompt role req n"]
    by (auto simp: AgentReviewer_Review_def split: prod.split sum.split)
  then show ?thesis
    by (auto simp: service_reviewer_def split: option.split prod.split) (metis snd_conv)
qed

lemma act_roles_kept:
  assumes "\<And>role w. run_kept t w (snd (rv role req w))"
  shows "run_kept t w (snd (act_roles rv req roles res w))"
proof (induction roles arbitrary: res w)
  case (Cons x roles)
  obtain role on where x: "x = (role, on)" by fastforce
  obtain r w1 where r: "rv role req w = (r, w1)" by fastforce
  then have "run_kept t w w1" using assms [of w role] by simp
  with Cons show ?case by (cases r) (auto simp: x r intro: run_frame.R_trans)
qed simp

lemma inspect_kept: "run_kept t w (snd (inspect dp ws w))"
  unfolding inspect_def by (rule kept_rules)

lemma policy_kept: "run_kept t w (snd (resolvedPolicy dp p w))"
  by (simp add: resolvedPolicy_def stage_error_kept split: option.split)

lemma act_kept:
  "run_kept t w (snd (case review_act (service_reviewer dp now t ws params) policy req w of
      ((Some e, _), w1) \<Rightarrow> (Inl (review_error e), w1) | ((None, res), w1) \<Rightarrow> (Inr res, w1)))"
proof -
  have "run_kept t w (snd (review_act (service_reviewer dp now t ws params) policy req w))"
    unfolding review_act_def by (rule act_roles_kept) (rule reviewer_kept)
  then show ?thesis by (auto split: prod.split option.split)
qed

lemma review_kept: "rc_TaskID rc = t \<Longrightarrow> run_kept t w (snd (reviewWorktree dp now rc params ws w))"
  unfolding reviewWorktree_def by (intro kept_rules inspect_kept policy_kept) (simp only: act_kept)

lemma level_kept: "run_kept t w (snd (run_level dp now t lvl what path changed retry w))"
  unfolding run_level_def
  by (rule kept_rules, rule kept_rules)
    (simp add: interrupted_kept stage_error_kept run_frame.ok_kept split: sum.split runner_error.split)

lemma flake_kept: "run_kept t w (snd (flakeRetry dp now t ws res out w))"
  unfolding flakeRetry_def Let_def by (intro kept_rules level_kept)

lemma cascade_kept: "run_kept t w (snd (verify_cascade dp now t ws changed lvls out w))"
proof (induction lvls arbitrary: out w)
  case (Cons lvl lvls)
  then show ?case
    unfolding verify_cascade.simps Let_def
    by (intro kept_rules level_kept) (simp add: flake_kept run_frame.ok_kept)
qed (simp add: run_frame.ok_kept)

lemma verify_kept: "run_kept t w (snd (verifyWorktree dp now t ws w))"
  unfolding verifyWorktree_def by (intro kept_rules inspect_kept cascade_kept)

lemma evidence_kept: "run_kept t w (snd (evidenceJSON dp kind payload w))"
  unfolding evidenceJSON_def by (intro kept_rules)

lemma stage_audit_kept: "run_kept t w (snd (auditStage now rc status ev cat w))"
  unfolding auditStage_def by (rule kept_rules)

lemmas helper_kept = target_kept outcome_kept agent_kept review_kept verify_kept evidence_kept stage_audit_kept inspect_kept
  params_kept policy_kept

lemma kept_upd: "sv_pipe w1 = sv_pipe w \<Longrightarrow> run_kept t w1 w' \<Longrightarrow> run_kept t w w'"
  by (simp add: run_kept_def)

lemma audited_kept: "run_kept t w (snd (andthen (auditStage now rc st ev cat) (\<lambda>_. ok_op x) w))"
  by (intro kept_rules stage_audit_kept)

lemma compile_kept: "run_kept t w (snd (handleCompile dp now rc w))"
  by (auto simp: handleCompile_def Let_def stage_error_kept split: sum.split prod.split option.split intro!: kept_upd [OF _ audited_kept])

lemma plan_kept: "run_kept t w (snd (handlePlan dp now rc w))"
  by (auto simp: handlePlan_def Let_def stage_error_kept split: sum.split prod.split intro!: kept_upd [OF _ audited_kept])

lemma claim_same: "claim_package now rc ws p w = (r, w1) \<Longrightarrow> sv_pipe w1 = sv_pipe w"
  by (auto simp: claim_package_def split: prod.splits)

lemma claims_kept: "run_kept t w (snd (claim_packages dp now rc ws pkgs n w))"
proof (induction pkgs arbitrary: n w)
  case (Cons pkg pkgs)
  show ?case
  proof (cases "wp_state pkg = PackagePending")
    case True
    obtain r w1 where c: "claim_package now rc ws (wp_id pkg) w = (r, w1)" by fastforce
    have "run_kept t w1 (snd (claim_packages dp now rc ws (pkg # pkgs) n w)) \<or> run_kept t w (snd (claim_packages dp now rc ws (pkg # pkgs) n w))"
      using Cons True c
      by (auto simp: stage_error_kept split: sum.split claim_error.split lease_error.split)
    then show ?thesis using kept_upd [OF claim_same [OF c]] by blast
  qed (simp add: Cons)
qed simp

lemma ready_workspace_kept: "run_kept t w (snd (ready_workspace dp now rc params w))"
  unfolding ready_workspace_def
  by (intro kept_rules) (simp_all add: same_ops kept_same run_frame.ok_kept split: option.split)

lemma ready_kept: "run_kept t w (snd (handleReady dp now rc w))"
proof -
  have "run_kept t w (snd (andthen (claim_packages dp now rc ws pkgs 0) (\<lambda>claimed.
      let evidence = ''workspace:'' @ ws_ID ws @ '';claimed:'' @ show_nat claimed
      in andthen (auditStage now rc ''completed'' evidence '''') (\<lambda>_. ok_op evidence)) w))" for ws pkgs w
    unfolding Let_def by (intro kept_rules claims_kept stage_audit_kept)
  then have "run_kept t w (snd (case LoadValidated (sv_work w) i of
      Inl e \<Rightarrow> stage_error FailureInvariantViolation (''load work graph: '' @ dp_text dp (SeWork e)) w
    | Inr vg \<Rightarrow> andthen (claim_packages dp now rc ws (wg_packages vg) 0) (\<lambda>claimed.
        let evidence = ''workspace:'' @ ws_ID ws @ '';claimed:'' @ show_nat claimed
        in andthen (auditStage now rc ''completed'' evidence '''') (\<lambda>_. ok_op evidence)) w))" for ws i w
    by (simp add: stage_error_kept split: sum.split)
  then show ?thesis unfolding handleReady_def by (intro kept_rules params_kept ready_workspace_kept)
qed

lemma run_info_kept: "run_kept t w (snd (set_run_info now ws params res w))"
  unfolding set_run_info_def by (intro kept_rules)

lemma execute_kept: "rc_TaskID rc = t \<Longrightarrow> run_kept t w (snd (handleExecute dp now rc w))"
  unfolding handleExecute_def Let_def case_prod_beta
  by (intro kept_rules helper_kept run_info_kept) (simp_all add: same_ops outcome_kept)

lemma handle_verify_kept: "rc_TaskID rc = t \<Longrightarrow> run_kept t w (snd (handleVerify dp now rc w))"
  unfolding handleVerify_def case_prod_beta by (intro kept_rules helper_kept) (simp_all add: verify_kept)

lemma fingerprint_kept: "run_kept t w (snd (fingerprint dp ws w))"
  unfolding fingerprint_def by (rule kept_rules)

lemma plain_kept: "run_kept t w (snd (m w)) \<Longrightarrow> run_kept t w (snd (plain_as_unavailable m w))"
  by (auto simp: plain_as_unavailable_def split: prod.split sum.split handler_error.split)

lemma handle_review_kept: "rc_TaskID rc = t \<Longrightarrow> run_kept t w (snd (handleReview dp now rc w))"
  unfolding handleReview_def Let_def case_prod_beta
  by (intro kept_rules helper_kept fingerprint_kept plain_kept) simp_all

lemma read_run_kept: "run_kept t w (snd (read_run dp i w))"
  by (simp add: read_run_def stage_error_kept split: sum.split)

lemma findings_kept: "rc_TaskID rc = t \<Longrightarrow> run_kept t w (snd (repair_findings dp now rc run params ws w))"
  unfolding repair_findings_def by (intro kept_rules helper_kept) (simp_all add: verify_kept)

lemma prompt_kept: "rc_TaskID rc = t \<Longrightarrow> run_kept t w (snd (buildRepairPrompt dp now rc run params ws w))"
  unfolding buildRepairPrompt_def by (intro kept_rules helper_kept findings_kept) simp

lemma repair_kept: "rc_TaskID rc = t \<Longrightarrow> run_kept t w (snd (handleRepair dp now rc w))"
  unfolding handleRepair_def Let_def case_prod_beta
  by (intro kept_rules helper_kept read_run_kept prompt_kept run_info_kept) (simp_all add: outcome_kept)

lemma autocommit_kept: "run_kept t w (snd (autocommit dp now rc ws insp w))"
  by (simp add: autocommit_def run_frame.ok_kept, intro conjI impI kept_rules)
    (auto simp: run_frame.ok_kept split: prod.split intro!: kept_rules inspect_kept)

lemma finalize_kept: "run_kept t w (snd (handleFinalize dp now rc w))"
proof -
  have f: "run_kept t w (snd (run_finalize dp now req w))" "run_kept t w (snd (remember_result dp i fin w))" for req i fin w
    by (auto simp: run_finalize_def remember_result_def saveFinalizeRecord_def split: prod.split intro!: kept_same)
  show ?thesis
    unfolding handleFinalize_def Let_def case_prod_beta
    by (intro kept_rules helper_kept autocommit_kept f)
      (auto split: sum.split intro!: kept_rules helper_kept f)
qed

section \<open>The drive ends\<close>

lemma as_handler_ok:
  assumes "\<And>rc w. rc_TaskID rc = t \<Longrightarrow> run_kept t w (snd (h rc w))"
  shows "handler_ok t (as_handler h w)"
proof -
  have "sv_pipe (snd (h rc (w\<lparr>sv_pipe := d\<rparr>))) = snd (as_handler h w rc d)" for rc d
    by (simp add: as_handler_def split: prod.split sum.split)
  moreover have "run_kept t (w\<lparr>sv_pipe := d\<rparr>) (snd (h rc (w\<lparr>sv_pipe := d\<rparr>)))" if "rc_TaskID rc = t" for rc d
    using assms that .
  ultimately show ?thesis by (simp add: handler_ok_def run_kept_def)
qed

lemma service_handlers_ok: "handlers_ok t (service_handlers dp now w)"
  by (simp add: handlers_ok_def service_handlers_def as_handler_ok compile_kept plan_kept ready_kept finalize_kept execute_kept
      handle_verify_kept handle_review_kept repair_kept)

lemma service_iterate_pipe:
  "service_iterate dp now t w = (over, res, w') \<Longrightarrow> iterate now (service_handlers dp now w) t (sv_pipe w) = (over, res, sv_pipe w')"
  by (auto simp: service_iterate_def split: prod.splits)

lemma service_loop_ends:
  "pipe_inv (sv_pipe w) \<Longrightarrow> cursor_at (sv_pipe w) t = Some c \<Longrightarrow> cursor_measure c < n \<Longrightarrow>
    \<exists>res w'. service_loop n clock dp t retried w = Some (res, w') \<and> pipe_inv (sv_pipe w')
      \<and> (res = None \<longrightarrow> (\<exists>c'. cursor_at (sv_pipe w') t = Some c' \<and> Driver_Valid.settled c'))"
proof (induction n arbitrary: w c)
  case (Suc n)
  obtain over res w1 where it: "service_iterate dp (clock n) t w = (over, res, w1)" by (metis prod.exhaust)
  note ok = iterate_ok [OF service_handlers_ok Suc.prems(1,2) service_iterate_pipe [OF it]]
  show ?case
  proof (cases res)
    case (Some e)
    with ok show ?thesis
      by (simp add: it CurrentRun_def getRunTx_run_of cursor_at_def Driver_Valid.settled_def cursor_of_def split: option.splits)
  next
    case None
    with ok obtain c' where c': "cursor_at (sv_pipe w1) t = Some c'" "if over then Driver_Valid.settled c' else cursor_measure c' < cursor_measure c"
      by blast
    show ?thesis
    proof (cases over)
      case True
      with None ok c' show ?thesis by (simp add: it)
    next
      case False
      with c' Suc.prems(3) have "cursor_measure c' < n" by simp
      from Suc.IH [OF _ c'(1) this] None False ok show ?thesis by (simp add: it)
    qed
  qed
qed simp

text \<open>C5: A pipeline run always comes to rest. Whatever the agents, the test runner, the reviewer and git answer,
  a drive of an existing run with the concrete stage handlers returns after at most nine iterations and
  three more for each repair attempt it may make; it keeps the tables of the pipeline consistent, and
  when it reports no error the run is terminal or waits for quota or a lease.\<close>

theorem service_drive_ends:
  assumes "pipe_inv (sv_pipe w)" "cursor_at (sv_pipe w) t = Some c" "t \<noteq> ''''" "9 + 3 * nat (cu_max c) \<le> fuel"
  shows "\<exists>res w'. service_drive fuel clock dp t w = Some (res, w') \<and> pipe_inv (sv_pipe w') \<and>
    (res = None \<longrightarrow> (\<exists>c'. cursor_at (sv_pipe w') t = Some c' \<and> (IsTerminalRunState (cu_state c') \<or> IsWaitState (cu_state c'))))"
proof -
  have "cursor_ok c" using assms(1,2) by (auto simp: pipe_inv_def)
  with measure_bound [of c] assms(4) have "cursor_measure c < fuel" by linarith
  from service_loop_ends [OF assms(1,2) this, of clock dp False] assms(3) show ?thesis
    by (simp add: service_drive_def Driver_Valid.settled_def)
qed

text \<open>A service with nothing in it but a new run: no params were saved, the task does not exist.\<close>

definition demo_deps :: "(string \<times> string) list deps" where
  "demo_deps =
     \<lparr>dp_git = ref_env, dp_adapters = Map.empty, dp_env = [],
      dp_runner = (\<lambda>_ _ _ _ g. (\<lparr>ro_Result = Inl RunnerCancelled, ro_Cancelled = True\<rparr>, g)), dp_reviewer = None,
      dp_unmarshal = (\<lambda>_. Inr []), dp_artifacts = (\<lambda>_ g. (None, g)),
      dp_fs = \<lparr>fs_read = (\<lambda>_. None), fs_mime = (\<lambda>_. '''')\<rparr>, dp_writable = (\<lambda>_. True), dp_text = (\<lambda>_. ''error'')\<rparr>"

definition demo_service :: "(string \<times> string) list service_state" where
  "demo_service =
     \<lparr>sv_pipe = pipe_apply (empty_pipe [''p-1'']) (PCreate 0 ''p-1'' ''p'' 2), sv_ws = demo_wsys WsActive,
      sv_specs = \<lparr>ss_db = empty_db, ss_specs = [], ss_criteria = [], ss_sequences = []\<rparr>, sv_work = empty_work_db empty_db,
      sv_leases = empty_leases, sv_params = [], sv_finalized = [], sv_lastFin = [], sv_driving = [], sv_accounting = [],
      sv_usage = \<lparr>ut_rows = [], ut_seq = 0\<rparr>\<rparr>"

theorem service_drive_ends_witness:
  "\<exists>res w'. service_drive 15 (\<lambda>_. 0) demo_deps ''p-1'' demo_service = Some (res, w') \<and> pipe_inv (sv_pipe w') \<and>
    (res = None \<longrightarrow> (\<exists>c'. cursor_at (sv_pipe w') ''p-1'' = Some c' \<and> (IsTerminalRunState (cu_state c') \<or> IsWaitState (cu_state c'))))"
proof -
  have p: "sv_pipe demo_service = pipe_apply (empty_pipe [''p-1'']) (PCreate 0 ''p-1'' ''p'' 2)" by (simp add: demo_service_def)
  have c: "cursor_at (sv_pipe demo_service) ''p-1'' = Some \<lparr>cu_stage = StageCompile, cu_state = RunActive, cu_attempt = 1, cu_repair = 0, cu_max = 2\<rparr>"
    unfolding p by code_simp
  have inv: "pipe_inv (sv_pipe demo_service)" unfolding p by (rule pipe_apply_inv [OF empty_pipe_inv])
  show ?thesis by (rule service_drive_ends [OF inv c]) simp_all
qed

section \<open>The verdict of the verification\<close>












section \<open>Where the failure of an agent leads\<close>

text \<open>The failure classes that are a matter of quota or of rate.\<close>

definition quota_like :: "FailureClass \<Rightarrow> bool" where
  "quota_like fc \<longleftrightarrow> fc \<in> {FailureProviderQuota, FailureBudgetExceeded, FailureProviderRateLimit, FailureProviderCapacity}"

lemma category_quota_like:
  "categoryForFailureClass f = FailureQuotaExceeded \<or> categoryForFailureClass f = FailureRateLimited \<longleftrightarrow>
     (case f of None \<Rightarrow> False | Some p \<Rightarrow> quota_like (fp_Class p))"
  by (auto simp: categoryForFailureClass_def quota_like_def split: option.split FailureClass.split)

lemma category_valid: "IsValidFailureCategory (categoryForFailureClass f) \<and> categoryForFailureClass f \<noteq> FailureLeaseLost"
  by (auto simp: categoryForFailureClass_def IsValidFailureCategory_def split: option.split FailureClass.split)

text \<open>C17: The failure of an agent decides where its run goes. When the agent of an active run fails in the execute
  stage, the driver records the failure and, if it reports no error, the run waits for quota exactly
  when the failure class is a quota, budget, rate or capacity class, and has failed for every other
  class and for a failure without a class; the stage and the counters of the run stay as they are.\<close>

theorem agent_failure_routing:
  assumes "pipe_inv (sv_pipe w)" "cursor_at (sv_pipe w) (rc_TaskID rc) = Some c" "cu_state c = RunActive" "cu_stage c = StageExecute" "rc_Stage rc = StageExecute"
    "rs_Failed res" "\<not> rs_Cancelled res" "agentOutcomeError now (rc_TaskID rc) res w = (Inl e, w')" "failStage now rc e (sv_pipe w') = (None, d)"
  shows "cursor_at d (rc_TaskID rc) = Some (c\<lparr>cu_state :=
    (case re_Failure (rs_Outcome res) of None \<Rightarrow> RunFailed | Some p \<Rightarrow> if quota_like (fp_Class p) then RunWaitingQuota else RunFailed)\<rparr>)"
proof -
  let ?f = "re_Failure (rs_Outcome res)"
  obtain reason where e: "e = StageError (categoryForFailureClass ?f) reason None" and w: "w' = w"
    using assms(6-8) by (auto simp: agentOutcomeError_def stage_error_def fail_op_def)
  have cat: "fst (categorizeError e) = categoryForFailureClass ?f" using category_valid [of ?f] by (simp add: e categorizeError_def Let_def)
  have to: "fail_target StageExecute (categoryForFailureClass ?f) =
      (case ?f of None \<Rightarrow> RunFailed | Some p \<Rightarrow> if quota_like (fp_Class p) then RunWaitingQuota else RunFailed)"
    using category_quota_like [of ?f] by (auto simp: fail_target_def split: option.splits)
  have "refines (sv_pipe w) (rc_TaskID rc) [SetState (fail_target StageExecute (categoryForFailureClass ?f))] d"
    using routes_fail [OF assms(1) refl, of rc e now] assms(5,9) by (simp add: routes_def w cat)
  then show ?thesis
    using assms(2-4) unfolding to
    by (auto simp: refines_def try_step_def run_state_defs split: option.splits if_splits)
qed

text \<open>A run in the execute stage whose agent ran out of quota.\<close>

definition demo_executing :: pipe_db where
  "demo_executing = foldl pipe_apply (empty_pipe [''p-1'']) [PCreate 0 ''p-1'' ''p'' 2, PTransition 0 ''p-1'' StagePlan '''' '''',
     PTransition 0 ''p-1'' StageReady '''' '''', PTransition 0 ''p-1'' StageExecute '''' '''']"

definition demo_cursor :: cursor where
  "demo_cursor = \<lparr>cu_stage = StageExecute, cu_state = RunActive, cu_attempt = 1, cu_repair = 0, cu_max = 2\<rparr>"

definition demo_context :: run_context where
  "demo_context = \<lparr>rc_TaskID = ''p-1'', rc_ProjectID = ''p'', rc_Stage = StageExecute, rc_Attempt = 1, rc_RepairAttempt = 0\<rparr>"

definition demo_failed :: "FailureClass \<Rightarrow> RunResult" where
  "demo_failed fc =
     \<lparr>rs_Handle = \<lparr>hn_RunID = ''r'', hn_SessionID = '''', hn_Engine = ''e''\<rparr>,
      rs_Outcome = no_event\<lparr>re_Type := EventRunFailed, re_Failure := Some \<lparr>fp_Class = fc, fp_Reason = ''limit'', fp_ExitCode = 1\<rparr>\<rparr>,
      rs_Events = [], rs_Failed = True, rs_Cancelled = False\<rparr>"

theorem agent_failure_routing_witness:
  "\<exists>d. cursor_at d ''p-1'' = Some (demo_cursor\<lparr>cu_state := RunWaitingQuota\<rparr>)"
proof -
  let ?w = "demo_service\<lparr>sv_pipe := demo_executing\<rparr>"
  have inv: "pipe_inv (sv_pipe ?w)" by (simp add: demo_executing_def history_inv del: foldl_Cons)
  have c: "cursor_at (sv_pipe ?w) (rc_TaskID demo_context) = Some demo_cursor" unfolding select_convs by code_simp
  have e: "agentOutcomeError 0 (rc_TaskID demo_context) (demo_failed FailureProviderQuota) ?w =
      (Inl (StageError FailureQuotaExceeded ''limit'' None), ?w)"
    by (simp add: agentOutcomeError_def demo_failed_def no_event_def stage_error_def fail_op_def categoryForFailureClass_def)
  have "fst (failStage 0 demo_context (StageError FailureQuotaExceeded ''limit'' None) (sv_pipe ?w)) = None"
    unfolding select_convs by code_simp
  then obtain d where d: "failStage 0 demo_context (StageError FailureQuotaExceeded ''limit'' None) (sv_pipe ?w) = (None, d)"
    by (metis prod.collapse)
  have "cursor_at d (rc_TaskID demo_context) = Some (demo_cursor\<lparr>cu_state := RunWaitingQuota\<rparr>)"
    using agent_failure_routing [OF inv c _ _ _ _ _ e d]
    by (simp add: demo_cursor_def demo_context_def demo_failed_def no_event_def quota_like_def)
  then show ?thesis by (auto simp: demo_context_def)
qed

section \<open>Settlement\<close>

definition settle_outcome :: "run \<Rightarrow> string" where
  "settle_outcome run =
     (if rn_State run = RunCancelled then OutcomeCancelled
      else if rn_FailureCategory run = Some FailureProviderTimeout then OutcomeTimedOut else OutcomeFailed)"

lemma settle_classified: "run_Classify (ClassifyFromEvent (settle_event run) insp base) = settle_outcome run"
  by (simp add: settle_event_def no_event_def ClassifyFromEvent_def run_Classify_def settle_outcome_def)

lemma settle_no_ref: "\<not> CreatesResultRef (settle_outcome run)" "run_allowedTransition WsActive (outcome_WorkspaceState (settle_outcome run))"
  by (simp_all add: settle_outcome_def CreatesResultRef_def outcome_WorkspaceState_def run_allowedTransition_def)

text \<open>A failed or cancelled run of an active workspace needs no reference, so its finalization goes through
  whatever git does.\<close>

lemma settle_finalizes:
  assumes row: "row_of s (ws_ID ws) = Some ws" "ws_State ws = WsActive" "of_others ws (wy_intents s)"
    and req: "fq_WorkspaceID req = ws_ID ws" "fq_TerminalEvent req = settle_event run"
    and task: "GetTask (wy_db s) (fq_TaskID req) = Some t" "task_CanTransition (tk_state t) (ActionForOutcome (settle_outcome run)) = Some taskTo"
  obtains it where "it_Outcome it = settle_outcome run" "it_TargetWSState it = outcome_WorkspaceState (settle_outcome run)"
    "it_TargetTaskState it = taskTo" "it_TaskID it = fq_TaskID req" "it_WorkspaceID it = ws_ID ws"
    "Finalize env now nowc req s =
       (Inr (decided_result ws it (it_ChangedFiles it)), terminal_tx nowc ws it (s\<lparr>wy_intents := wy_intents s @ [it]\<rparr>))"
proof -
  let ?it = "make_intent now req ws taskTo"
  let ?it1 = "?it\<lparr>it_Phase := PhaseRefReady, it_UpdatedAt := rfc3339nano now\<rparr>"
  have oc: "run_Classify (ClassifyFromEvent (fq_TerminalEvent req) (fq_Inspection req) (ws_BaseSHA ws)) = settle_outcome run"
    by (simp add: req settle_classified)
  have it: "it_Outcome ?it = settle_outcome run" "it_TargetWSState ?it = outcome_WorkspaceState (settle_outcome run)"
    "it_TargetTaskState ?it = taskTo" "it_TaskID ?it = fq_TaskID req" "it_WorkspaceID ?it = ws_ID ws" "it_ExpectedRefSHA ?it = ''''"
    using oc settle_no_ref(1) by (simp_all add: make_intent_def Let_def)
  let ?its = "wy_intents s"
  have adv: "advance_phase now ?it (s\<lparr>wy_intents := ?its @ [?it]\<rparr>) = (Inr ?it1, s\<lparr>wy_intents := ?its @ [?it1]\<rparr>)"
    by (subst advance_eq [of _ ws ?its ?it]) (simp_all add: row it)
  have com: "commitTerminal nowc ws ?it1 (s\<lparr>wy_intents := ?its @ [?it1]\<rparr>) =
      (Inr (decided_result ws ?it1 (it_ChangedFiles ?it1)), terminal_tx nowc ws ?it1 (s\<lparr>wy_intents := ?its @ [?it1]\<rparr>))"
    by (rule commit_active) (simp_all add: row)
  have none: "GetFinalizeIntent s (ws_ID ws) = None" using row(3) by (simp add: no_intent_iff)
  have "Finalize env now nowc req s = fresh_finalize env now nowc req ws s"
    by (simp add: Finalize_def req(1) andthen_def from_ws_Get [OF row(1)] row(2) active_not_terminal none)
  also have "\<dots> = commitTerminal nowc ws ?it1 (s\<lparr>wy_intents := ?its @ [?it1]\<rparr>)"
    using settle_no_ref(2) [of run] task adv
    by (simp add: fresh_finalize_def Let_def oc row(2) Backlog_Get_def andthen_def record_intent_eq [OF row(1,3)] ensureRefForIntent_def ensure_ref_def it)
  finally show ?thesis using com it by (intro that [of ?it1]) simp_all
qed

lemma find_distinct: "distinct (map f xs) \<Longrightarrow> x \<in> set xs \<Longrightarrow> find (\<lambda>y. f y = f x) xs = Some x"
  by (induction xs) force+

lemma workspaceForTask_row:
  assumes "workspaceForTask t w = Some ws" "distinct (map ws_ID (wy_rows (sv_ws w)))"
  shows "row_of (sv_ws w) (ws_ID ws) = Some ws"
proof -
  have "ws \<in> set (ListWorkspacesByTask (sv_ws w) t)"
    using assms(1) by (auto simp: workspaceForTask_def split: list.splits intro: last_in_set)
  then have "ws \<in> set (wy_rows (sv_ws w))" by (simp add: ListWorkspacesByTask_def)
  then show ?thesis using assms(2) by (simp add: row_of_def find_distinct)
qed

lemma released_none: "list_all (\<lambda>r. ls_workspace_id r \<noteq> i \<or> \<not> lease_active r) (lt_rows (snd (ReleaseAll now t i)))"
  by (simp add: ReleaseAll_def releaseLeasesByWorkspace_def Let_def update_where_def list.pred_map) (simp add: list_all_iff lease_active_def)

text \<open>C6: A run that ended is settled. Let a run be in a terminal state while its latest workspace is still active,
  its task may still end and no intent of an earlier finalization of that workspace is pending. The settlement
  takes the workspace to
  cancelled, timed out or failed, by the state and the failure category of the run, takes the task to
  the state that belongs to that outcome (a REJECTED task stays rejected), releases every lease of the workspace
  and leaves the table of intents as it was, whatever git answers. Workspace ids are the primary key of their
  table. With an intent left behind by a finalization that failed, the settlement resumes that one instead:
  \<open>leftover_intent_settles\<close> below.\<close>

theorem settled_run:
  assumes run: "IsTerminalRunState (rn_State run)" "workspaceForTask t w = Some ws" "ws_State ws = WsActive"
    and keys: "distinct (map ws_ID (wy_rows (sv_ws w)))" "GetFinalizeIntent (sv_ws w) (ws_ID ws) = None"
    and task: "GetTask (sv_db w) t = Some tk" "task_CanTransition (tk_state tk) (ActionForOutcome (settle_outcome run)) = Some taskTo"
  shows "let w' = settleRun dp now t run w in
    (\<exists>r. row_of (sv_ws w') (ws_ID ws) = Some r \<and> ws_State r = outcome_WorkspaceState (settle_outcome run)) \<and>
    (\<exists>tk'. GetTask (sv_db w') t = Some tk' \<and> tk_state tk' = (if tk_state tk = ''REJECTED'' then ''REJECTED'' else taskTo)) \<and>
    list_all (\<lambda>r. ls_workspace_id r \<noteq> ws_ID ws \<or> \<not> lease_active r) (lt_rows (sv_leases w')) \<and>
    wy_intents (sv_ws w') = wy_intents (sv_ws w)"
proof -
  let ?w = "releaseRunLeases now t w"
  have rel: "?w = w\<lparr>sv_leases := snd (ReleaseAll now (sv_leases w) (ws_ID ws))\<rparr>" by (simp add: releaseRunLeases_def run(2))
  then have same: "workspaceForTask t ?w = Some ws" "sv_ws ?w = sv_ws w" using run(2) by (simp_all add: workspaceForTask_def)
  obtain r s1 where ins: "InspectWorktree (dp_git dp) ws (sv_ws w) = (r, s1)" by fastforce
  then have s1: "same_tables (sv_ws w) s1" using inspect_tables [of "sv_ws w" "dp_git dp" ws] by simp
  let ?req = "settle_request dp t run ws (case r of Inr x \<Rightarrow> x | Inl _ \<Rightarrow> no_inspection) ?w"
  have row: "row_of s1 (ws_ID ws) = Some ws" "of_others ws (wy_intents s1)" "wy_intents s1 = wy_intents (sv_ws w)"
    using workspaceForTask_row [OF run(2) keys(1)] keys(2) s1 by (simp_all add: row_of_def same_tables_def no_intent_iff)
  let ?s2 = "\<lambda>it. s1\<lparr>wy_intents := wy_intents s1 @ [it]\<rparr>"
  have req: "fq_WorkspaceID ?req = ws_ID ws" "fq_TerminalEvent ?req = settle_event run" "fq_TaskID ?req = t"
    by (simp_all add: settle_request_def Let_def)
  have tk: "GetTask (wy_db s1) (fq_TaskID ?req) = Some tk" using task(1) s1 by (simp add: req(3) GetTask_def same_tables_def)
  obtain it where it: "it_TargetWSState it = outcome_WorkspaceState (settle_outcome run)" "it_TargetTaskState it = taskTo" "it_TaskID it = t"
    and fin: "Finalize (dp_git dp) now now ?req s1 =
      (Inr (decided_result ws it (it_ChangedFiles it)), terminal_tx now ws it (?s2 it))"
    and wid: "it_WorkspaceID it = ws_ID ws"
    by (rule settle_finalizes [where env = "dp_git dp" and now = now and nowc = now, OF row(1) run(3) row(2) req(1,2) tk task(2)]) (metis req(3))
  have eq: "settleRun dp now t run w = ?w\<lparr>sv_ws := terminal_tx now ws it (?s2 it)\<rparr>"
    using run(1,3) by (simp add: settleRun_def Let_def same isWorkspaceTerminalState_def settle_workspace_def ins fin)
  have "row_of (terminal_tx now ws it (?s2 it)) (ws_ID ws) = Some (claim_terminal now (ws_ID ws) it ws)"
    using row(1) run(3) unfolding row_of_def terminal_tx_fields by (subst find_update_row) (simp_all add: claim_terminal_def)
  moreover have "tk_id tk = t \<and> tk_state tk \<notin> set [''COMPLETED'', ''FAILED'', ''CANCELLED'']"
    using task by (auto simp: GetTask_def find_Some_iff task_CanTransition_def task_IsTerminal_def)
  then have "GetTask (wy_db (terminal_tx now ws it (?s2 it))) t =
      Some (if tk_state tk = ''REJECTED'' then tk else tk\<lparr>tk_state := taskTo, tk_updated_at := rfc3339nano now\<rparr>)"
    using tk unfolding GetTask_def terminal_tx_fields by (simp add: find_settled settle_task_def it req(3))
  ultimately show ?thesis
    unfolding eq Let_def using released_none [of "ws_ID ws" now "sv_leases w"]
    by (simp add: rel it claim_terminal_def terminal_tx_fields wid filter_of_others [OF row(2)] flip: row(3))
qed

text \<open>A run that failed in its execute stage, settled over the demonstration workspace.\<close>

definition demo_run :: run where
  "demo_run =
     \<lparr>rn_TaskID = ''p-1'', rn_ProjectID = ''p'', rn_CurrentStage = StageExecute, rn_State = RunFailed, rn_StageAttempt = 1,
      rn_RepairAttempt = 0, rn_MaxRepairAttempts = 2, rn_FailureCategory = Some FailureProviderTimeout, rn_FailureReason = None,
      rn_ResultRef = None, rn_CreatedAt = 0, rn_UpdatedAt = 0\<rparr>"

theorem settled_run_witness:
  "let w' = settleRun demo_deps 0 ''p-1'' demo_run demo_service in
    (\<exists>r. row_of (sv_ws w') ''ws'' = Some r \<and> ws_State r = WsTimedOut) \<and>
    (\<exists>tk'. GetTask (sv_db w') ''p-1'' = Some tk' \<and> tk_state tk' = ''FAILED'') \<and>
    filter (\<lambda>r. ls_workspace_id r = ''ws'' \<and> lease_active r) (lt_rows (sv_leases w')) = [] \<and> wy_intents (sv_ws w') = []"
proof -
  have o: "settle_outcome demo_run = OutcomeTimedOut" by (simp add: settle_outcome_def demo_run_def)
  have ws: "workspaceForTask ''p-1'' demo_service = Some (demo_workspace WsActive)"
    by (simp add: workspaceForTask_def ListWorkspacesByTask_def demo_service_def demo_wsys_def demo_workspace_def)
  have tk: "GetTask (sv_db demo_service) ''p-1'' =
      Some \<lparr>tk_id = ''p-1'', tk_project_id = ''p'', tk_title = '''', tk_description = '''', tk_priority = '''',
        tk_state = TaskRunning, tk_created_at = '''', tk_updated_at = ''''\<rparr>"
    by (simp add: demo_service_def demo_wsys_def GetTask_def empty_db_def)
  have run: "IsTerminalRunState (rn_State demo_run)" by (simp add: demo_run_def IsTerminalRunState_def)
  have fields: "ws_ID (demo_workspace WsActive) = ''ws''" "ws_State (demo_workspace WsActive) = WsActive"
      "distinct (map ws_ID (wy_rows (sv_ws demo_service)))" "GetFinalizeIntent (sv_ws demo_service) (ws_ID (demo_workspace WsActive)) = None"
      "wy_intents (sv_ws demo_service) = []"
    by (simp_all add: demo_service_def demo_wsys_def demo_workspace_def GetFinalizeIntent_def)
  have ends: "task_CanTransition TaskRunning (ActionForOutcome (settle_outcome demo_run)) = Some ''FAILED''"
      "outcome_WorkspaceState (settle_outcome demo_run) = WsTimedOut"
    by (simp_all add: o ActionForOutcome_def task_CanTransition_def task_IsTerminal_def task_validTransitions_def outcome_WorkspaceState_def)
  show ?thesis
    using settled_run [OF run ws fields(2-4) tk, where dp = demo_deps and now = 0] unfolding fields(1) Let_def
    by (simp add: ends fields(5) list_all_iff filter_empty_conv)
qed

text \<open>A finalization that could not set its result reference leaves its intent behind. When the run then fails and is
  settled, the finalization resumes that intent: it decides what the earlier one meant to decide, for an
  intent of a completed run that the workspace and the task are completed, though the run failed.\<close>

interpretation row_frame: frame "\<lambda>s s' :: 'g wsys. wy_rows s' = wy_rows s"
  by unfold_locales simp_all

lemma same_tables_rows: "(\<And>s. same_tables s (snd (m s))) \<Longrightarrow> wy_rows (snd (from_ws m s)) = wy_rows s"
  by (auto simp: from_ws_def same_tables_def split: prod.splits sum.splits ws_error.splits) (metis snd_conv)+

lemma resolve_ref_tables: "same_tables s (snd (ResolveResultRef env t dir s))"
  unfolding ResolveResultRef_def
  by (intro table_frame.attempt_kept git_tables_kept) (auto simp: ok_op_def fail_op_def split: sum.splits ws_error.splits)

lemma common_dir_tables: "same_tables s (snd (resolveCommonDir env dir s))"
  unfolding resolveCommonDir_def
  by (intro table_frame.attempt_kept git_tables_kept) (auto simp: ok_op_def split: sum.splits)

lemma ensure_tables: "same_tables s (snd (EnsureResultRef env ws sha s))"
  unfolding EnsureResultRef_def Let_def
  by (auto intro!: table_frame.andthen_kept resolve_ref_tables common_dir_tables git_tables_kept table_frame.ok_kept table_frame.fail_kept)

lemma ensure_intent_rows: "wy_rows (snd (ensureRefForIntent env now ws it s)) = wy_rows s"
proof -
  have "wy_rows (snd (ensure_ref env ws it s)) = wy_rows s" for s
    unfolding ensure_ref_def
    by (auto intro!: row_frame.andthen_kept same_tables_rows ensure_tables simp: ok_op_def)
  moreover have "wy_rows (snd (advance_phase now it s)) = wy_rows s" for it s
    by (simp add: advance_phase_def Let_def andthen_def from_ws_def upsertFinalizeIntent_def)
  ultimately show ?thesis unfolding ensureRefForIntent_def by (intro row_frame.andthen_kept)
qed

lemma ensure_intent_target:
  "ensureRefForIntent env now ws it s = (Inr it1, s') \<Longrightarrow> it_TargetWSState it1 = it_TargetWSState it \<and> it_Outcome it1 = it_Outcome it"
  by (auto simp: ensureRefForIntent_def ensure_ref_def advance_phase_def Let_def andthen_ok split: if_splits)

lemma resume_decides_intent:
  assumes row: "row_of s (ws_ID ws) = Some ws" "ws_State ws = WsActive"
  shows "case resumeFromIntent env now nowc ws it req s of
     (Inl e, s') \<Rightarrow> row_of s' (ws_ID ws) = Some ws
   | (Inr res, s') \<Rightarrow> fr_Outcome res = it_Outcome it \<and> (\<exists>r. row_of s' (ws_ID ws) = Some r \<and> ws_State r = it_TargetWSState it)"
proof -
  let ?check = "if it_ExpectedRefSHA it = '''' then ok_op ()
    else andthen (from_ws (ResolveResultRef env (ws_TaskID ws) (ws_Path ws))) (\<lambda>existing.
      if existing \<noteq> '''' \<and> existing \<noteq> it_ExpectedRefSHA it
      then fail_op (FinRefConflict (it_ResultBranch it) existing (it_ExpectedRefSHA it)) else ok_op ())"
  let ?ensure = "if it_Phase it = PhasePending then ensureRefForIntent env now ws it else ok_op it"
  obtain r1 s1 where c: "?check s = (r1, s1)" by fastforce
  obtain r2 s2 where e: "?ensure s1 = (r2, s2)" by fastforce
  have "wy_rows (snd (?check s)) = wy_rows s"
    by (auto intro!: row_frame.andthen_kept same_tables_rows resolve_ref_tables simp: ok_op_def fail_op_def)
  moreover have "wy_rows (snd (?ensure s1)) = wy_rows s1" using ensure_intent_rows by (auto simp: ok_op_def)
  ultimately have rows: "row_of s1 (ws_ID ws) = Some ws" "row_of s2 (ws_ID ws) = Some ws"
    using row(1) unfolding c e by (simp_all add: row_of_def)
  have resume: "resumeFromIntent env now nowc ws it req s = andthen ?check (\<lambda>_. andthen ?ensure (commitTerminal nowc ws)) s"
    unfolding resumeFromIntent_def row(2) by (simp add: active_not_terminal)
  show ?thesis
  proof (cases "\<exists>x it1. r1 = Inr x \<and> r2 = Inr it1")
    case True
    then obtain x it1 where r: "r1 = Inr x" "r2 = Inr it1" by blast
    have same: "it_TargetWSState it1 = it_TargetWSState it \<and> it_Outcome it1 = it_Outcome it"
      using e r(2) ensure_intent_target [of env now ws it s1 it1 s2] by (simp add: ok_op_def split: if_splits)
    have "row_of (terminal_tx nowc ws it1 s2) (ws_ID ws) = Some (claim_terminal nowc (ws_ID ws) it1 ws)"
      using rows(2) row(2) unfolding row_of_def terminal_tx_fields by (subst find_update_row) (simp_all add: claim_terminal_def)
    then show ?thesis
      unfolding resume andthen_def c e r prod.case sum.case commit_active [OF rows(2) row(2)]
      by (simp add: decided_result_def claim_terminal_def same)
  next
    case False
    then show ?thesis
      unfolding resume andthen_def c e using rows by (cases r1; cases r2) (auto simp: e)
  qed
qed

lemma leftover_intent_settles:
  assumes run: "IsTerminalRunState (rn_State run)" "workspaceForTask t w = Some ws" "ws_State ws = WsActive"
    and keys: "distinct (map ws_ID (wy_rows (sv_ws w)))" "GetFinalizeIntent (sv_ws w) (ws_ID ws) = Some it"
  shows "\<exists>r. row_of (sv_ws (settleRun dp now t run w)) (ws_ID ws) = Some r \<and> ws_State r \<in> {WsActive, it_TargetWSState it}"
proof -
  let ?w = "releaseRunLeases now t w"
  have rel: "?w = w\<lparr>sv_leases := snd (ReleaseAll now (sv_leases w) (ws_ID ws))\<rparr>" by (simp add: releaseRunLeases_def run(2))
  then have same: "workspaceForTask t ?w = Some ws" "sv_ws ?w = sv_ws w" using run(2) by (simp_all add: workspaceForTask_def)
  obtain r s1 where ins: "InspectWorktree (dp_git dp) ws (sv_ws w) = (r, s1)" by fastforce
  then have s1: "same_tables (sv_ws w) s1" using inspect_tables [of "sv_ws w" "dp_git dp" ws] by simp
  let ?req = "settle_request dp t run ws (case r of Inr x \<Rightarrow> x | Inl _ \<Rightarrow> no_inspection) ?w"
  have row: "row_of s1 (ws_ID ws) = Some ws" "GetFinalizeIntent s1 (ws_ID ws) = Some it"
    using workspaceForTask_row [OF run(2) keys(1)] keys(2) s1 by (simp_all add: row_of_def same_tables_def GetFinalizeIntent_def)
  have id: "fq_WorkspaceID ?req = ws_ID ws" by (simp add: settle_request_def Let_def)
  have "Finalize (dp_git dp) now now ?req s1 = resumeFromIntent (dp_git dp) now now ws it ?req s1"
    by (simp add: Finalize_def id andthen_def from_ws_Get [OF row(1)] run(3) active_not_terminal row(2))
  then have "sv_ws (settleRun dp now t run w) = snd (resumeFromIntent (dp_git dp) now now ws it ?req s1)"
    using run(1,3) by (simp add: settleRun_def Let_def same isWorkspaceTerminalState_def settle_workspace_def ins)
  then show ?thesis
    using resume_decides_intent [OF row(1) run(3), where env = "dp_git dp" and now = now and nowc = now and it = it and req = ?req] run(3)
    by (auto split: prod.splits sum.splits)
qed
text \<open>A run whose workspace could not be created is not settled: the row of a failed creation is terminal, so the
  settlement leaves the task of the run where it was, RUNNING after a ready stage that started it.\<close>

lemma failed_creation_strands_task:
  assumes "workspaceForTask t w = Some ws" "ws_State ws = WsFailed"
  shows "sv_db (settleRun dp now t run w) = sv_db w"
  using assms by (simp add: settleRun_def releaseRunLeases_def isWorkspaceTerminalState_def Let_def workspaceForTask_def)

end
