(* ===== verification/Agent_Env.thy ===== *)
theory Agent_Env
  imports Supervisor Project_Registry
begin

text \<open>
  The environment of an agent process: the builders of the coding-agent adapters,
  \<^verbatim>\<open>src/internal/adapter/codingagent/{kimi/env.go, gemini/env.go, grok/env.go, codex/env.go, claude/command.go,
  opencode/command.go, declarative/adapter.go}\<close>, with the options \<^verbatim>\<open>builtin/builtin.go\<close> constructs them with.
  Each takes the list the supervisor filtered (\<open>EnvAllowlist\<close>) and reads the environment of the
  daemon, the list \<open>host\<close>. Keys outside ASCII compare case-sensitively (\<open>ToUpper\<close>); the declarative adapter
  visits its fixed keys in an unspecified order, here the order of its literal. The isolated home of the kimi
  adapter is a path \<open>homeDir\<close> the file system gave. A plugin gets the supervisor's list over its protocol.

  The theorem: what the process of any of these engines can see of the daemon's environment.
\<close>

section \<open>The environment of the daemon\<close>






section \<open>The adapters\<close>



























section \<open>What an agent process sees\<close>











































end
