(* ===== verification/Spec2Isabelle.thy ===== *)
theory Spec2Isabelle
  imports Workgraph_Valid Work_Store_Valid Scheduling Driver_Valid Engines_Valid Merge_Valid Router_Valid Repair_Loop Dispatch_Valid Task_Compiler_Valid Failover_Valid Workspaces_Valid Finalize_Valid Service_Valid Agent_Env
begin

text \<open>
  NeuroForge is an autonomous software factory: a daemon takes the tasks of registered projects through a
  pipeline (compile, plan, ready, execute, verify, review, repair, finalize), lets coding agents work on
  packages of a work graph under leases, and delivers the result through a governed merge path. This
  library models the decision logic of \<^verbatim>\<open>src/internal\<close> with its SQLite tables as explicit state, and
  proves what makes each part correct.

  \<^bold>\<open>Parts, theories and sources.\<close> Every theory opens with what it holds; in the order of the imports:

  \<^item> \<^verbatim>\<open>Prelude\<close>: fragments of Go's standard library (trimming, numerals, quoting), tables as lists of rows,
    and the two locales of state machines, \<open>machine\<close> and \<open>lifecycle\<close>, whose lemmas carry the invariant and
    absorption proofs of every lifecycle below. \<^verbatim>\<open>Go_Time\<close>: instants and the RFC3339Nano texts that SQL
    compares, with the theorem of when the texts compare like the instants.
  \<^item> \<^verbatim>\<open>Storage_Rows\<close> (\<^verbatim>\<open>storage/projects.go\<close>, \<^verbatim>\<open>tasks.go\<close>, \<^verbatim>\<open>audit.go\<close>, \<^verbatim>\<open>audit/audit.go\<close>),
    \<^verbatim>\<open>Project_Registry\<close> (\<^verbatim>\<open>project\<close>), \<^verbatim>\<open>Task_Backlog\<close> (\<^verbatim>\<open>task/state.go\<close>, \<^verbatim>\<open>backlog.go\<close>): registration, task
    intake, lifecycles. Every database the services produce is well formed, task ids are never issued
    twice, terminal tasks stay terminal.
  \<^item> \<^verbatim>\<open>Task_Specification\<close> (\<^verbatim>\<open>task/specification.go\<close>, \<^verbatim>\<open>storage/specifications.go\<close>): validation, versions,
    locking, compile-and-save. A locked version never changes, what is saved is read back, recompiling an
    unchanged ordered specification creates no version.
  \<^item> \<^verbatim>\<open>Workgraph\<close>, \<^verbatim>\<open>Workgraph_Search\<close>, \<^verbatim>\<open>Workgraph_Valid\<close> (\<^verbatim>\<open>workgraph/graph.go\<close>, \<^verbatim>\<open>serialize.go\<close>): the
    validator with its three-colour cycle search and reachability search, Kahn's order, decomposition. The
    searches are exact, the order is the least topological one, the validator accepts exactly the
    well-formed graphs. Fuel: the cycle search and the order take the number of nodes as fuel, which is proved enough.
  \<^item> \<^verbatim>\<open>Leases\<close> (\<^verbatim>\<open>workgraph/leases.go\<close>, \<^verbatim>\<open>storage/checkpoints.go\<close>): the lease table and its manager, with
    acquisitions as sequences of separately committed steps under arbitrary interleaving.
  \<^item> \<^verbatim>\<open>Work_Store\<close>, \<^verbatim>\<open>Work_Store_Valid\<close> (\<^verbatim>\<open>workgraph/store.go\<close>, \<^verbatim>\<open>storage/workgraph.go\<close>): the stored graph; every
    history of saves, transitions and attempts leaves a graph that validates again. \<^verbatim>\<open>Scheduling\<close>
    (\<^verbatim>\<open>workgraph/readiness.go\<close>, \<^verbatim>\<open>scheduling.go\<close>): readiness verdicts and claims over the graph and the leases.
  \<^item> \<^verbatim>\<open>Pipeline\<close>, \<^verbatim>\<open>Pipeline_Valid\<close> (\<^verbatim>\<open>pipeline/stage.go\<close>, \<^verbatim>\<open>store.go\<close>, \<^verbatim>\<open>store_records.go\<close>): the durable run and its
    stage records; every history of operations refines an abstract cursor machine. \<^verbatim>\<open>Pipeline_Driver\<close>,
    \<^verbatim>\<open>Driver_Valid\<close> (\<^verbatim>\<open>pipeline/driver.go\<close> and the recovery of \<^verbatim>\<open>daemon/pipeline_service.go\<close>): the loop that
    drives a run. Fuel: one unit per iteration; nine units plus three per repair attempt are proved enough.
  \<^item> \<^verbatim>\<open>Policy\<close>, \<^verbatim>\<open>Policy_Valid\<close> (\<^verbatim>\<open>policy\<close>): toggles, profiles, resolution of overrides, the action gate, test-path
    scope, stage report. \<^verbatim>\<open>Verification_Engines\<close>, \<^verbatim>\<open>Engines_Valid\<close> (\<^verbatim>\<open>evidence\<close>, \<^verbatim>\<open>review/engine.go\<close>,
    \<^verbatim>\<open>testengine/engine.go\<close>). \<^verbatim>\<open>Merge_Governance\<close>, \<^verbatim>\<open>Merge_Valid\<close> (\<^verbatim>\<open>merge\<close>, \<^verbatim>\<open>adapter/vcs/provider.go\<close>): the
    governor's decision, the authority that alone calls providers, the merge queue.
  \<^item> \<^verbatim>\<open>Go_Float\<close>, \<^verbatim>\<open>Risk\<close> (\<^verbatim>\<open>risk/classify.go\<close>), \<^verbatim>\<open>Quota\<close>, \<^verbatim>\<open>Quota_Valid\<close> (\<^verbatim>\<open>quota\<close>), \<^verbatim>\<open>Budget\<close>, \<^verbatim>\<open>Budget_Valid\<close>
    (\<^verbatim>\<open>budget/controller.go\<close>), \<^verbatim>\<open>Router\<close>, \<^verbatim>\<open>Router_Valid\<close> (\<^verbatim>\<open>router\<close>): the classifier and the choice of a route under
    quota and budget. An account whose authentication failed gets no route until a healthy snapshot, a checked
    spend stays within the limits of its provider type, a route is found exactly when one is eligible.
  \<^item> \<^verbatim>\<open>Repair_Loop\<close> (\<^verbatim>\<open>repair/loop.go\<close>), \<^verbatim>\<open>Quality\<close> (\<^verbatim>\<open>quality\<close>, \<^verbatim>\<open>storage/usage.go\<close>), \<^verbatim>\<open>Project_Memory\<close> (\<^verbatim>\<open>memory\<close>,
    \<^verbatim>\<open>storage/memory.go\<close>), \<^verbatim>\<open>Post_Merge\<close> (\<^verbatim>\<open>postmerge/sentinel.go\<close>), \<^verbatim>\<open>Dispatch\<close>, \<^verbatim>\<open>Dispatch_Valid\<close> (\<^verbatim>\<open>scheduler\<close>,
    \<^verbatim>\<open>daemon/scheduler_service.go\<close>): the path of one task outside the pipeline, with its records. The repair
    loop ends by its iterations; the memory table refines the in-process store.
  \<^item> \<^verbatim>\<open>Task_Compiler\<close>, \<^verbatim>\<open>Task_Compiler_Valid\<close> (\<^verbatim>\<open>task/compiler.go\<close>): text to specification, with the exact
    condition of a valid result and the round trip of a printed specification.
  \<^item> \<^verbatim>\<open>Supervisor\<close> (\<^verbatim>\<open>supervisor/supervisor.go\<close>, \<^verbatim>\<open>env.go\<close>), \<^verbatim>\<open>Agent_Env\<close> (\<^verbatim>\<open>env.go\<close> and \<^verbatim>\<open>command.go\<close> of the adapters under
    \<^verbatim>\<open>adapter/codingagent\<close>), \<^verbatim>\<open>Failover\<close>, \<^verbatim>\<open>Failover_Valid\<close>
    (\<^verbatim>\<open>supervisor/failover.go\<close>, \<^verbatim>\<open>recovery.go\<close>, \<^verbatim>\<open>resume.go\<close>, \<^verbatim>\<open>pack.go\<close>): one agent run, the environment of its process, and
    the chain of routes, a loop that is proved to end by the routes left and the retries left on the current one.
  \<^item> \<^verbatim>\<open>Workspaces\<close>, \<^verbatim>\<open>Workspaces_Valid\<close> (\<^verbatim>\<open>workspace\<close>, \<^verbatim>\<open>storage/workspaces.go\<close>, \<^verbatim>\<open>finalize_intent.go\<close>): worktrees,
    checkpoints, result references and reviews, as operations on the tables and on a repository world that
    only the argument \<open>git_env\<close> touches. No operation depends on what git does with a command off the allowlist.
    \<^verbatim>\<open>Finalize\<close>, \<^verbatim>\<open>Finalize_Valid\<close> (\<^verbatim>\<open>runapp/classify.go\<close>, \<^verbatim>\<open>finalize.go\<close>): the crash-safe protocol of intent, reference
    and terminal transaction. The states a crash can leave are listed by \<open>crash_states\<close>; from each the recovery
    reaches the state of the run that did not crash.
  \<^item> \<^verbatim>\<open>Review_Agent\<close> (\<^verbatim>\<open>review/agent.go\<close>): the prompt, and the scan of the answer against a JSON printer.
    \<^verbatim>\<open>Pipeline_Handlers\<close> (\<^verbatim>\<open>daemon/pipeline_handlers.go\<close>), \<^verbatim>\<open>Pipeline_Service\<close> (\<^verbatim>\<open>pipeline_service.go\<close>), \<^verbatim>\<open>Service_Valid\<close>:
    the concrete handlers over the state of all the components above, the drive with them, and the
    settlement. The frame lemmas of the locale \<open>frame\<close>, interpreted for the run and for the tables, show what a
    handler leaves alone; from them a drive ends within the bound of \<^verbatim>\<open>Driver_Valid\<close>.
  This theory holds the properties that span components.

  \<^bold>\<open>Conventions.\<close> A struct is a record, an enumeration of strings a datatype with a constructor for other
  strings where the code can meet them, an error return the \<open>Inl\<close> of a result. Strings are byte strings and,
  where text is split into words, valid UTF-8. A transaction that fails leaves the tables of the caller
  unchanged. An operation reads its clock once; the iterations of a drive read it separately. Amounts and
  scores that are \<^verbatim>\<open>float64\<close> in the code are rationals; random jitter comes from the world. Columns that
  hold JSON are the values they encode. Code that the modelled code calls through an interface (git, agent
  adapters, test runner, reviewer, artifact store, change-request providers, the file system,
  \<^verbatim>\<open>json.Unmarshal\<close> of an agent's findings) is an argument of the definitions, a function on an abstract world
  where it has effects; the texts of wrapped errors are an argument too. Where a property relies on such an
  argument, the assumption is a named predicate (\<open>handlers_ok\<close>, \<open>ref_lawful\<close>, \<open>same_locally\<close>).

  \<^bold>\<open>Not modelled.\<close> Failures of SQLite itself, logging, goroutines and mutexes (an operation under a mutex is
  one step; operations that commit in several transactions are several steps where a property depends on it),
  the text of JSON. A cancelled context is what a poll of an agent or the test runner reports, and the
  registry of cancel functions that causes it is left out. The command line, the terminal interface, the
  transport between client and daemon, the process side of the daemon, the agent, image and VCS adapters (but for
  the environments the agent adapters build), the installer, the repository index and visual verification are input and output around this core; the
  synchronous run of \<^verbatim>\<open>runapp/run.go\<close> composes modelled operations and is left out.
\<close>

section \<open>Properties that span components\<close>




end
